(* ===== verification/Kit_Prelude.thy ===== *)
theory Kit_Prelude
  imports Main "HOL-Library.Word" "HOL-Library.List_Lexorder" "HOL-Library.Char_ord"
begin

text \<open>
  Shared vocabulary of the KITPro verification library: the error values and results of
  the Go code, SQL tables as lists of rows with the three statements the code issues
  against them, the keyed-table interface through which proofs read a table as a partial
  map, and the string operations of Go's \<open>strings\<close> and \<open>fmt\<close> packages.
  Strings are byte strings, as in Go.
\<close>

named_theorems fence_simps \<open>facts about fencing tokens and leases\<close>
named_theorems tbl_simps \<open>lookups after table updates\<close>

section \<open>Errors and results\<close>

text \<open>
  An error of the source is one of the sentinel values it tests for, a violated
  database constraint, a failure reported by the surrounding infrastructure (database
  driver, container runtime, network) or a message built by \<open>errors.New\<close> and
  \<open>fmt.Errorf\<close>. Formatted operands of a message are left out.
\<close>

datatype go_error =
    ErrNoRows
  | ErrNullScan
  | ErrConstraint
  | ErrInfrastructure string
  | Errorf string

type_synonym 'a result = "go_error + 'a"

definition is_ok :: "'e + 'a \<Rightarrow> bool" where
  "is_ok r = (case r of Inl _ \<Rightarrow> False | Inr _ \<Rightarrow> True)"

lemma is_ok_simps [simp]: "is_ok (Inr x)" "\<not> is_ok (Inl e)"
  by (simp_all add: is_ok_def)

lemma is_ok_iff: "is_ok r \<longleftrightarrow> (\<exists>x. r = Inr x)"
  by (cases r) simp_all

text \<open>\<open>x, err := m; if err != nil \<open>return err\<close>; k x\<close>\<close>

definition bind_result :: "'e + 'a \<Rightarrow> ('a \<Rightarrow> 'e + 'b) \<Rightarrow> 'e + 'b" where
  "bind_result m k = (case m of Inl e \<Rightarrow> Inl e | Inr x \<Rightarrow> k x)"

lemma bind_result_simps [simp]:
  "bind_result (Inl e) k = Inl e"
  "bind_result (Inr x) k = k x"
  by (simp_all add: bind_result_def)

lemma bind_result_Inr_iff:
  "bind_result m k = Inr y \<longleftrightarrow> (\<exists>x. m = Inr x \<and> k x = Inr y)"
  by (cases m) simp_all

text \<open>\<open>if bad \<open>return err\<close>; k\<close>\<close>

definition require :: "bool \<Rightarrow> 'e \<Rightarrow> 'e + 'a \<Rightarrow> 'e + 'a" where
  "require ok e k = (if ok then k else Inl e)"

lemma require_simps [simp]:
  "require True e k = k"
  "require False e k = Inl e"
  by (simp_all add: require_def)

lemma require_Inr_iff: "require ok e k = Inr y \<longleftrightarrow> ok \<and> k = Inr y"
  by (simp add: require_def)

lemmas result_iffs = bind_result_Inr_iff require_Inr_iff

text \<open>A loop that threads a state and returns at the first error.\<close>

fun fold_result :: "('a \<Rightarrow> 's \<Rightarrow> 's result) \<Rightarrow> 'a list \<Rightarrow> 's \<Rightarrow> 's result" where
  "fold_result f [] s = Inr s"
| "fold_result f (x # xs) s = bind_result (f x s) (fold_result f xs)"

text \<open>
  A loop over items that rejects an item whose keys were seen before. The flag given to
  \<open>chk\<close> says that one of the item's keys is in the map of seen keys.
\<close>

fun each_unique :: "('a \<Rightarrow> 'k list) \<Rightarrow> ('a \<Rightarrow> bool \<Rightarrow> unit result) \<Rightarrow> 'a list \<Rightarrow> 'k list \<Rightarrow> unit result" where
  "each_unique keys chk [] seen = Inr ()"
| "each_unique keys chk (x # xs) seen =
     bind_result (chk x (list_ex (\<lambda>k. k \<in> set seen) (keys x))) (\<lambda>_. each_unique keys chk xs (keys x @ seen))"

lemma each_unique_ok_iff:
  assumes "\<And>x u. keys x \<noteq> [] \<Longrightarrow> chk x True \<noteq> Inr u" and "\<And>x. distinct (keys x)"
  shows "each_unique keys chk xs seen = Inr () \<longleftrightarrow>
    (\<forall>x \<in> set xs. chk x False = Inr ()) \<and> distinct (concat (map keys xs)) \<and> set (concat (map keys xs)) \<inter> set seen = {}"
proof (induction xs arbitrary: seen)
  case (Cons x xs)
  show ?case
  proof (cases "list_ex (\<lambda>k. k \<in> set seen) (keys x)")
    case True
    then have "keys x \<noteq> []" by (auto simp: list_ex_iff)
    with True assms(1) [of x] show ?thesis by (auto simp: bind_result_Inr_iff list_ex_iff)
  next
    case False
    then have "set (keys x) \<inter> set seen = {}" by (auto simp: list_ex_iff)
    with False assms(2) [of x] show ?thesis by (auto simp: bind_result_Inr_iff Cons.IH)
  qed
qed simp

text \<open>A loop that checks every item.\<close>

fun each :: "('a \<Rightarrow> unit result) \<Rightarrow> 'a list \<Rightarrow> unit result" where
  "each chk [] = Inr ()"
| "each chk (x # xs) = bind_result (chk x) (\<lambda>_. each chk xs)"

lemma each_ok_iff: "each chk xs = Inr () \<longleftrightarrow> (\<forall>x \<in> set xs. chk x = Inr ())"
  by (induction xs) (auto simp: bind_result_Inr_iff)

text \<open>\<open>fmt.Errorf("\<dots>: %w", err)\<close>\<close>

definition error_text :: "go_error \<Rightarrow> string" where
  "error_text e = (case e of ErrNoRows \<Rightarrow> ''sql: no rows in result set'' | ErrNullScan \<Rightarrow> ''sql: Scan error''
     | ErrConstraint \<Rightarrow> ''constraint failed'' | ErrInfrastructure s \<Rightarrow> s | Errorf s \<Rightarrow> s)"

definition wrapf :: "string \<Rightarrow> 'a result \<Rightarrow> 'a result" where
  "wrapf what r = (case r of Inl e \<Rightarrow> Inl (Errorf (what @ '': '' @ error_text e)) | Inr x \<Rightarrow> Inr x)"

lemma wrapf_Inr_iff [simp]: "wrapf c r = Inr x \<longleftrightarrow> r = Inr x"
  by (cases r) (simp_all add: wrapf_def)

section \<open>SQL tables\<close>

text \<open>
  A table is the list of its rows in insertion order. \<open>sql_update P f\<close> is
  \<open>UPDATE \<dots> SET f WHERE P\<close>, \<open>sql_count P\<close> the number of rows a statement with that
  condition affects, \<open>sql_row P\<close> a \<open>QueryRow\<close> whose scan fails with
  \<open>sql.ErrNoRows\<close> when no row matches.
\<close>

definition sql_update :: "('r \<Rightarrow> bool) \<Rightarrow> ('r \<Rightarrow> 'r) \<Rightarrow> 'r list \<Rightarrow> 'r list" where
  "sql_update P f t = map (\<lambda>r. if P r then f r else r) t"

definition sql_count :: "('r \<Rightarrow> bool) \<Rightarrow> 'r list \<Rightarrow> nat" where
  "sql_count P t = length (filter P t)"

definition sql_row :: "('r \<Rightarrow> bool) \<Rightarrow> 'r list \<Rightarrow> 'r result" where
  "sql_row P t = (case find P t of None \<Rightarrow> Inl ErrNoRows | Some r \<Rightarrow> Inr r)"

lemma length_sql_update [simp]: "length (sql_update P f t) = length t"
  by (simp add: sql_update_def)

lemma set_sql_update: "set (sql_update P f t) = (\<lambda>r. if P r then f r else r) ` set t"
  by (simp add: sql_update_def)

lemma sql_update_cong_keys:
  assumes "\<And>r. P r \<Longrightarrow> k (f r) = k r"
  shows "map k (sql_update P f t) = map k t"
  using assms by (simp add: sql_update_def)

lemma sql_row_Inr_iff: "sql_row P t = Inr r \<longleftrightarrow> find P t = Some r"
  by (simp add: sql_row_def split: option.splits)

lemma sql_row_cases:
  "sql_row P t = (case find P t of None \<Rightarrow> Inl ErrNoRows | Some r \<Rightarrow> Inr r)"
  by (simp add: sql_row_def)

lemma sql_count_0_iff: "sql_count P t = 0 \<longleftrightarrow> (\<forall>r \<in> set t. \<not> P r)"
  by (auto simp: sql_count_def filter_empty_conv)

lemma find_map_key:
  assumes "\<And>r. p (g r) = p r"
  shows "find p (map g t) = map_option g (find p t)"
  by (induction t) (auto simp: assms)

lemma find_append: "find P (xs @ ys) = (case find P xs of None \<Rightarrow> find P ys | Some x \<Rightarrow> Some x)"
  by (induction xs) auto

lemma find_SomeD: "find P xs = Some x \<Longrightarrow> x \<in> set xs \<and> P x"
  by (induction xs) (auto split: if_splits)

lemma find_None_all: "find P xs = None \<longleftrightarrow> (\<forall>x \<in> set xs. \<not> P x)"
  by (auto simp: find_None_iff)

subsection \<open>Tables with a primary key\<close>

text \<open>
  The interface proofs use: a table is read through \<open>get k\<close>, the row with primary key
  \<open>k\<close>. Updates that leave the key alone and inserts of a fresh key act on \<open>get\<close>
  as on a partial map; \<open>wf\<close> is the primary-key constraint.
\<close>

definition tbl_get :: "('r \<Rightarrow> 'k) \<Rightarrow> 'k \<Rightarrow> 'r list \<Rightarrow> 'r option" where
  "tbl_get key k t = find (\<lambda>r. key r = k) t"

definition tbl_wf :: "('r \<Rightarrow> 'k) \<Rightarrow> 'r list \<Rightarrow> bool" where
  "tbl_wf key t = distinct (map key t)"

text \<open>\<open>INSERT\<close>: refused when the primary key is taken.\<close>

definition sql_insert :: "('r \<Rightarrow> 'k) \<Rightarrow> 'r \<Rightarrow> 'r list \<Rightarrow> 'r list result" where
  "sql_insert key r t = (if \<exists>x \<in> set t. key x = key r then Inl ErrConstraint else Inr (t @ [r]))"

text \<open>\<open>INSERT OR IGNORE\<close>: a taken primary key skips the row.\<close>

definition sql_insert_ignore :: "('r \<Rightarrow> 'k) \<Rightarrow> 'r \<Rightarrow> 'r list \<Rightarrow> 'r list" where
  "sql_insert_ignore key r t = (if \<exists>x \<in> set t. key x = key r then t else t @ [r])"

lemma sql_row_key: "sql_row (\<lambda>r. key r = k) t = (case tbl_get key k t of None \<Rightarrow> Inl ErrNoRows | Some r \<Rightarrow> Inr r)"
  by (simp add: sql_row_def tbl_get_def)

lemma tbl_get_key: "tbl_get key k t = Some r \<Longrightarrow> key r = k"
  by (auto simp: tbl_get_def dest: find_SomeD)

lemma tbl_get_mem: "tbl_get key k t = Some r \<Longrightarrow> r \<in> set t"
  by (auto simp: tbl_get_def dest: find_SomeD)

lemma tbl_get_None_iff: "tbl_get key k t = None \<longleftrightarrow> (\<forall>r \<in> set t. key r \<noteq> k)"
  by (simp add: tbl_get_def find_None_all)

lemma tbl_get_of_mem:
  assumes "tbl_wf key t" and "r \<in> set t"
  shows "tbl_get key (key r) t = Some r"
  using assms
proof (induction t)
  case Nil
  then show ?case by simp
next
  case (Cons a t)
  show ?case
  proof (cases "r = a")
    case True
    then show ?thesis by (simp add: tbl_get_def)
  next
    case False
    with Cons.prems have "r \<in> set t" and "key a \<noteq> key r"
      by (auto simp: tbl_wf_def)
    with Cons show ?thesis by (simp add: tbl_get_def tbl_wf_def)
  qed
qed

lemma tbl_get_update:
  assumes "\<And>r. P r \<Longrightarrow> key (f r) = key r"
  shows "tbl_get key k (sql_update P f t) = map_option (\<lambda>r. if P r then f r else r) (tbl_get key k t)"
  unfolding tbl_get_def sql_update_def by (rule find_map_key) (simp add: assms)

lemma tbl_get_append [tbl_simps]:
  "tbl_get key k (t @ [r]) =
     (case tbl_get key k t of None \<Rightarrow> if key r = k then Some r else None | Some x \<Rightarrow> Some x)"
  by (simp add: tbl_get_def find_append cong: option.case_cong)

lemma tbl_wf_update:
  assumes "\<And>r. P r \<Longrightarrow> key (f r) = key r"
  shows "tbl_wf key (sql_update P f t) = tbl_wf key t"
proof -
  have "map key (sql_update P f t) = map key t"
    by (rule sql_update_cong_keys) (rule assms)
  then show ?thesis by (simp add: tbl_wf_def)
qed

lemma tbl_wf_append: "tbl_wf key (t @ [r]) \<longleftrightarrow> tbl_wf key t \<and> tbl_get key (key r) t = None"
  by (simp add: tbl_wf_def tbl_get_None_iff image_iff) metis

lemma sql_insert_Inr_iff:
  "sql_insert key r t = Inr t' \<longleftrightarrow> tbl_get key (key r) t = None \<and> t' = t @ [r]"
  by (auto simp: sql_insert_def tbl_get_None_iff)

lemma sql_count_key:
  assumes "tbl_wf key t"
  shows "sql_count (\<lambda>r. key r = k \<and> Q r) t =
    (case tbl_get key k t of None \<Rightarrow> 0 | Some r \<Rightarrow> if Q r then 1 else 0)"
  using assms
proof (induction t)
  case Nil
  then show ?case by (simp add: sql_count_def tbl_get_def)
next
  case (Cons a t)
  then have IH: "sql_count (\<lambda>r. key r = k \<and> Q r) t =
      (case tbl_get key k t of None \<Rightarrow> 0 | Some r \<Rightarrow> if Q r then 1 else 0)"
    by (simp add: tbl_wf_def)
  show ?case
  proof (cases "key a = k")
    case True
    with Cons.prems have "tbl_get key k t = None"
      by (simp add: tbl_wf_def tbl_get_None_iff image_iff) metis
    with True IH show ?thesis by (simp add: sql_count_def tbl_get_def)
  next
    case False
    with IH show ?thesis by (simp add: sql_count_def tbl_get_def)
  qed
qed

text \<open>An update whose condition fixes the primary key touches that row only.\<close>

lemma tbl_get_update_at [tbl_simps]:
  assumes "\<And>x. key (f x) = key x"
  shows "tbl_get key i (sql_update (\<lambda>x. key x = k \<and> Q x) f t) =
    (if i = k then map_option (\<lambda>x. if Q x then f x else x) (tbl_get key k t) else tbl_get key i t)"
proof -
  have "tbl_get key i (sql_update (\<lambda>x. key x = k \<and> Q x) f t) =
      map_option (\<lambda>x. if key x = k \<and> Q x then f x else x) (tbl_get key i t)"
    by (rule tbl_get_update) (simp add: assms)
  also have "\<dots> = (if i = k then map_option (\<lambda>x. if Q x then f x else x) (tbl_get key k t) else tbl_get key i t)"
    by (cases "tbl_get key i t") (auto dest: tbl_get_key)
  finally show ?thesis .
qed

lemma tbl_get_update_key [tbl_simps]:
  assumes "\<And>x. key (f x) = key x"
  shows "tbl_get key i (sql_update (\<lambda>x. key x = k) f t) =
    (if i = k then map_option f (tbl_get key k t) else tbl_get key i t)"
  using tbl_get_update_at [of key f i k "\<lambda>_. True" t] assms by simp

lemma tbl_wf_update_total [simp]:
  assumes "\<And>x. key (f x) = key x"
  shows "tbl_wf key (sql_update P f t) = tbl_wf key t"
  by (rule tbl_wf_update) (rule assms)

lemma sql_count_key_only:
  assumes "tbl_wf key t"
  shows "sql_count (\<lambda>r. key r = k) t = (case tbl_get key k t of None \<Rightarrow> 0 | Some r \<Rightarrow> 1)"
  using sql_count_key [OF assms, of k "\<lambda>_. True"] by simp

lemma sql_row_key_and:
  assumes "tbl_wf key t"
  shows "sql_row (\<lambda>r. key r = k \<and> Q r) t =
    (case tbl_get key k t of None \<Rightarrow> Inl ErrNoRows | Some r \<Rightarrow> if Q r then Inr r else Inl ErrNoRows)"
  using assms
proof (induction t)
  case Nil
  then show ?case by (simp add: sql_row_def tbl_get_def)
next
  case (Cons a t)
  then have IH: "sql_row (\<lambda>r. key r = k \<and> Q r) t =
      (case tbl_get key k t of None \<Rightarrow> Inl ErrNoRows | Some r \<Rightarrow> if Q r then Inr r else Inl ErrNoRows)"
    by (simp add: tbl_wf_def)
  show ?case
  proof (cases "key a = k")
    case True
    with Cons.prems have "tbl_get key k t = None"
      by (simp add: tbl_wf_def tbl_get_None_iff image_iff) metis
    with True IH show ?thesis by (simp add: sql_row_def tbl_get_def split: option.splits)
  next
    case False
    with IH show ?thesis by (simp add: sql_row_def tbl_get_def)
  qed
qed

end
