(* ===== verification/Go_Text.thy ===== *)
theory Go_Text
  imports Kit_Prelude
begin

text \<open>
  The operations of Go's \<open>strings\<close>, \<open>fmt\<close>, \<open>unicode\<close> and \<open>utf8\<close> packages the
  program uses, on byte strings. A \<open>regexp\<close> of the source is written as a predicate on
  the characters it admits and the lengths it allows.
\<close>

section \<open>Prefixes, containment, splitting\<close>

definition has_prefix :: "string \<Rightarrow> string \<Rightarrow> bool" where
  "has_prefix p s = (take (length p) s = p)"

fun str_contains :: "string \<Rightarrow> string \<Rightarrow> bool" where
  "str_contains sub [] = (sub = [])"
| "str_contains sub (c # cs) = (has_prefix sub (c # cs) \<or> str_contains sub cs)"

definition contains_any :: "string \<Rightarrow> string \<Rightarrow> bool" where
  "contains_any s chars = list_ex (\<lambda>c. c \<in> set chars) s"

definition trim_prefix :: "string \<Rightarrow> string \<Rightarrow> string" where
  "trim_prefix p s = (if has_prefix p s then drop (length p) s else s)"

fun split_on :: "char \<Rightarrow> string \<Rightarrow> string list" where
  "split_on d [] = [[]]"
| "split_on d (c # cs) =
     (if c = d then [] # split_on d cs
      else (case split_on d cs of [] \<Rightarrow> [[c]] | w # ws \<Rightarrow> (c # w) # ws))"

lemma has_prefix_append [simp]: "has_prefix p (p @ s)"
  by (simp add: has_prefix_def)

lemma has_prefix_iff: "has_prefix p s \<longleftrightarrow> (\<exists>t. s = p @ t)"
  unfolding has_prefix_def by (metis append_eq_conv_conj)

lemma split_on_not_Nil [simp]: "split_on d s \<noteq> []"
  by (induction s) (auto split: list.splits)

lemma contains_any_iff: "contains_any s chars \<longleftrightarrow> set s \<inter> set chars \<noteq> {}"
  by (auto simp: contains_any_def list_ex_iff)

lemma str_contains_iff: "str_contains sub s \<longleftrightarrow> (\<exists>u v. s = u @ sub @ v)"
proof (induction s)
  case Nil
  then show ?case by auto
next
  case (Cons c cs)
  show ?case
  proof
    assume "str_contains sub (c # cs)"
    then show "\<exists>u v. c # cs = u @ sub @ v"
    proof (cases "has_prefix sub (c # cs)")
      case True
      then show ?thesis unfolding has_prefix_iff by (metis append_Nil)
    next
      case False
      with \<open>str_contains sub (c # cs)\<close> Cons.IH obtain u v where "cs = u @ sub @ v"
        by auto
      then have "c # cs = (c # u) @ sub @ v" by simp
      then show ?thesis by blast
    qed
  next
    assume "\<exists>u v. c # cs = u @ sub @ v"
    then obtain u v where uv: "c # cs = u @ sub @ v" by blast
    show "str_contains sub (c # cs)"
    proof (cases u)
      case Nil
      with uv have "has_prefix sub (c # cs)" unfolding has_prefix_iff by auto
      then show ?thesis by simp
    next
      case (Cons a u')
      with uv Cons.IH show ?thesis by auto
    qed
  qed
qed

section \<open>Character classes\<close>

definition is_lower :: "char \<Rightarrow> bool" where
  "is_lower c = (CHR ''a'' \<le> c \<and> c \<le> CHR ''z'')"

definition is_upper :: "char \<Rightarrow> bool" where
  "is_upper c = (CHR ''A'' \<le> c \<and> c \<le> CHR ''Z'')"

definition is_digit :: "char \<Rightarrow> bool" where
  "is_digit c = (CHR ''0'' \<le> c \<and> c \<le> CHR ''9'')"

definition is_hex_lower :: "char \<Rightarrow> bool" where
  "is_hex_lower c = (is_digit c \<or> (CHR ''a'' \<le> c \<and> c \<le> CHR ''f''))"

text \<open>
  \<open>^[first][rest]{lo,hi}$\<close>. Go's \<open>$\<close> without the \<open>m\<close> flag matches only at the end
  of the text.
\<close>

definition match_head_tail ::
  "(char \<Rightarrow> bool) \<Rightarrow> (char \<Rightarrow> bool) \<Rightarrow> nat \<Rightarrow> nat \<Rightarrow> string \<Rightarrow> bool" where
  "match_head_tail hp tp lo hi s =
     (case s of [] \<Rightarrow> False
      | c # cs \<Rightarrow> hp c \<and> list_all tp cs \<and> lo \<le> length cs \<and> length cs \<le> hi)"

definition match_prefix_rep :: "string \<Rightarrow> (char \<Rightarrow> bool) \<Rightarrow> nat \<Rightarrow> string \<Rightarrow> bool" where
  "match_prefix_rep p cp n s =
     (has_prefix p s \<and> length s = length p + n \<and> list_all cp (drop (length p) s))"

section \<open>Decimal numbers\<close>

fun nat_digits :: "nat \<Rightarrow> string" where
  "nat_digits n = (if n < 10 then [char_of (48 + n)]
     else nat_digits (n div 10) @ [char_of (48 + n mod 10)])"

declare nat_digits.simps [simp del]

text \<open>\<open>fmt.Sprint\<close> and \<open>strconv.Itoa\<close> of an \<open>int\<close>.\<close>

definition itoa :: "int \<Rightarrow> string" where
  "itoa i = (if i < 0 then CHR ''-'' # nat_digits (nat (- i)) else nat_digits (nat i))"

fun digits_value :: "nat \<Rightarrow> string \<Rightarrow> nat" where
  "digits_value acc [] = acc"
| "digits_value acc (c # cs) = digits_value (10 * acc + (of_char c - 48)) cs"

lemma digits_value_snoc: "digits_value a (s @ [c]) = 10 * digits_value a s + (of_char c - 48)"
  by (induction s arbitrary: a) simp_all

lemma of_char_digit: "n < 10 \<Longrightarrow> of_char (char_of (48 + n :: nat)) = 48 + n"
  by (simp add: of_char_of)

lemma digits_value_nat_digits: "digits_value 0 (nat_digits n) = n"
proof (induction n rule: nat_digits.induct)
  case (1 n)
  show ?case
  proof (cases "n < 10")
    case True
    then show ?thesis by (simp add: nat_digits.simps [of n] of_char_of)
  next
    case False
    with 1 have "digits_value 0 (nat_digits (n div 10)) = n div 10" by simp
    with False show ?thesis
      by (simp add: nat_digits.simps [of n] digits_value_snoc of_char_of)
  qed
qed

lemma nat_digits_inject: "nat_digits m = nat_digits n \<longleftrightarrow> m = n"
  using digits_value_nat_digits by metis

lemma nat_digits_hd: "\<exists>c cs. nat_digits n = c # cs \<and> c \<noteq> CHR ''-''"
proof (induction n rule: nat_digits.induct)
  case (1 n)
  have "char_of (48 + n) \<noteq> CHR ''-''" if "n < 10"
  proof
    assume "char_of (48 + n) = CHR ''-''"
    then have "of_char (char_of (48 + n) :: char) = (of_char CHR ''-'' :: nat)" by simp
    with that show False by (simp add: of_char_of)
  qed
  with 1 show ?case
    by (cases "n < 10") (auto simp: nat_digits.simps [of n])
qed

lemma itoa_inject: "itoa i = itoa j \<longleftrightarrow> i = j"
proof
  assume eq: "itoa i = itoa j"
  have pos: "nat i = nat j" if "0 \<le> i" "0 \<le> j"
    using eq that by (simp add: itoa_def nat_digits_inject)
  have neg: "nat (- i) = nat (- j)" if "i < 0" "j < 0"
    using eq that by (simp add: itoa_def nat_digits_inject)
  have "(i < 0) = (j < 0)"
    using eq nat_digits_hd [of "nat i"] nat_digits_hd [of "nat j"]
    by (auto simp: itoa_def split: if_splits)
  with pos neg show "i = j" by (cases "i < 0") auto
qed simp

section \<open>UTF-8\<close>

text \<open>
  \<open>utf8_runes\<close> splits a byte string the way Go's \<open>range\<close> loop does: each rune with
  the bytes that encode it; a byte that starts no valid encoding is the replacement rune
  \<open>U+FFFD\<close> with that single byte.
\<close>

definition rune_error :: nat where
  "rune_error = 65533"

definition byte_in :: "nat \<Rightarrow> nat \<Rightarrow> char \<Rightarrow> bool" where
  "byte_in lo hi c = (lo \<le> of_char c \<and> of_char c \<le> hi)"

definition decode_rune :: "string \<Rightarrow> nat \<times> nat" where
  "decode_rune s = (case s of
      [] \<Rightarrow> (rune_error, 1)
    | a # r1 \<Rightarrow>
      if byte_in 0 127 a then (of_char a, 1)
      else (case r1 of [] \<Rightarrow> (rune_error, 1)
       | b # r2 \<Rightarrow>
         if byte_in 194 223 a \<and> byte_in 128 191 b
         then ((of_char a - 192) * 64 + (of_char b - 128), 2)
         else (case r2 of [] \<Rightarrow> (rune_error, 1)
          | c # r3 \<Rightarrow>
            if byte_in 224 239 a \<and> byte_in (if byte_in 224 224 a then 160 else 128)
                 (if byte_in 237 237 a then 159 else 191) b \<and> byte_in 128 191 c
            then ((of_char a - 224) * 4096 + (of_char b - 128) * 64 + (of_char c - 128), 3)
            else (case r3 of [] \<Rightarrow> (rune_error, 1)
             | d # _ \<Rightarrow>
               if byte_in 240 244 a \<and> byte_in (if byte_in 240 240 a then 144 else 128)
                    (if byte_in 244 244 a then 143 else 191) b \<and> byte_in 128 191 c \<and> byte_in 128 191 d
               then ((of_char a - 240) * 262144 + (of_char b - 128) * 4096
                     + (of_char c - 128) * 64 + (of_char d - 128), 4)
               else (rune_error, 1)))))"

lemma decode_rune_width: "1 \<le> snd (decode_rune s)"
  by (simp add: decode_rune_def split: list.split)

function utf8_runes :: "string \<Rightarrow> (nat \<times> string) list" where
  "utf8_runes [] = []"
| "utf8_runes (c # cs) =
     (let (r, w) = decode_rune (c # cs)
      in (r, take w (c # cs)) # utf8_runes (drop w (c # cs)))"
  by pat_completeness auto
termination
proof (relation "measure length")
  fix c :: char and cs x r w
  assume "x = decode_rune (c # cs)" and "(r, w) = x"
  then have "1 \<le> w" using decode_rune_width [of "c # cs"] by (metis snd_conv)
  then show "(drop w (c # cs), c # cs) \<in> measure length" by simp
qed simp

definition replacement_bytes :: string where
  "replacement_bytes = [char_of (239::nat), char_of (191::nat), char_of (189::nat)]"

text \<open>\<open>unicode.IsControl\<close> and \<open>unicode.IsSpace\<close>.\<close>

definition is_control :: "nat \<Rightarrow> bool" where
  "is_control r = (r < 32 \<or> (127 \<le> r \<and> r < 160))"

definition is_space :: "nat \<Rightarrow> bool" where
  "is_space r = (r \<in> set [9, 10, 11, 12, 13, 32, 133, 160, 5760, 8232, 8233, 8239, 8287, 12288]
     \<or> (8192 \<le> r \<and> r \<le> 8202))"

definition trim_runes :: "(nat \<times> string) list \<Rightarrow> (nat \<times> string) list" where
  "trim_runes rs = rev (dropWhile (is_space \<circ> fst) (rev (dropWhile (is_space \<circ> fst) rs)))"

definition trim_space :: "string \<Rightarrow> string" where
  "trim_space s = concat (map snd (trim_runes (utf8_runes s)))"

lemma trim_runes_set: "set (trim_runes rs) \<subseteq> set rs"
  unfolding trim_runes_def
  by (metis set_dropWhileD set_rev subsetI)

lemma utf8_runes_concat: "concat (map snd (utf8_runes s)) = s"
proof (induction s rule: utf8_runes.induct)
  case (2 c cs)
  obtain r w where "decode_rune (c # cs) = (r, w)" by fastforce
  with 2 show ?case by (simp del: take_Cons' drop_Cons')
qed simp

lemma utf8_runes_nonempty: "rc \<in> set (utf8_runes s) \<Longrightarrow> snd rc \<noteq> []"
proof (induction s rule: utf8_runes.induct)
  case (2 c cs)
  obtain r w where d: "decode_rune (c # cs) = (r, w)" by fastforce
  then have "1 \<le> w" using decode_rune_width [of "c # cs"] by simp
  then have ne: "take w (c # cs) \<noteq> []" by simp
  have "utf8_runes (c # cs) = (r, take w (c # cs)) # utf8_runes (drop w (c # cs))"
    using d by (simp del: take_Cons' drop_Cons')
  with 2(2) consider "rc = (r, take w (c # cs))" | "rc \<in> set (utf8_runes (drop w (c # cs)))"
    by (auto simp del: utf8_runes.simps take_Cons' drop_Cons')
  then show ?case
  proof cases
    case 1
    with ne show ?thesis by simp
  next
    case 2
    with "2.IH" d show ?thesis by metis
  qed
qed simp

text \<open>A string of visible ASCII bytes has nothing to trim.\<close>

definition visible_ascii :: "char \<Rightarrow> bool" where
  "visible_ascii c = (CHR ''!'' \<le> c \<and> c \<le> CHR ''~'')"

lemma utf8_runes_visible:
  "list_all visible_ascii s \<Longrightarrow> utf8_runes s = map (\<lambda>c. (of_char c, [c])) s"
proof (induction s)
  case (Cons c s)
  then have "decode_rune (c # s) = (of_char c, 1)"
    by (simp add: decode_rune_def byte_in_def visible_ascii_def less_eq_char_def)
  with Cons show ?case by simp
qed simp

lemma trim_space_visible:
  assumes "list_all visible_ascii s"
  shows "trim_space s = s"
proof -
  have ns: "\<not> is_space (of_char c)" if "c \<in> set s" for c
    using assms that by (auto simp: list_all_iff visible_ascii_def less_eq_char_def is_space_def)
  let ?rs = "map (\<lambda>c. (of_char c :: nat, [c])) s"
  have "dropWhile (is_space \<circ> fst) ?rs = ?rs" "dropWhile (is_space \<circ> fst) (rev ?rs) = rev ?rs"
    using ns by (auto simp: dropWhile_eq_self_iff hd_map hd_rev last_map)
  then have "trim_runes ?rs = ?rs" by (simp add: trim_runes_def)
  then show ?thesis using utf8_runes_concat [of s] by (simp add: trim_space_def utf8_runes_visible [OF assms])
qed

end
