(* ===== verification/Go_Codec.thy ===== *)
theory Go_Codec
  imports Go_Text
begin

unbundle bit_operations_syntax

text \<open>
  \<open>encoding/json\<close> (the encoder, with its default HTML escaping), \<open>crypto/sha256\<close> and
  \<open>encoding/hex\<close> as the program uses them.
\<close>

section \<open>JSON encoding\<close>

datatype json =
    JNull
  | JBool bool
  | JInt int
  | JStr string
  | JArr "json list"
  | JObj "(string \<times> json) list"

definition hex_digit :: "nat \<Rightarrow> char" where
  "hex_digit n = (if n < 10 then char_of (48 + n) else char_of (87 + n))"

definition esc_char :: "char \<Rightarrow> string" where
  "esc_char c = [CHR 0x5C, c]"

definition esc_u :: "nat \<Rightarrow> string" where
  "esc_u n = [CHR 0x5C, CHR ''u'', hex_digit (n div 4096 mod 16), hex_digit (n div 256 mod 16),
     hex_digit (n div 16 mod 16), hex_digit (n mod 16)]"

definition json_escape_rune :: "nat \<times> string \<Rightarrow> string" where
  "json_escape_rune rc = (case rc of (r, chunk) \<Rightarrow>
     if r = rune_error \<and> length chunk = 1 then esc_u rune_error
     else if r = 34 \<or> r = 92 then esc_char (char_of r)
     else if r = 8 then esc_char CHR ''b''
     else if r = 12 then esc_char CHR ''f''
     else if r = 10 then esc_char CHR ''n''
     else if r = 13 then esc_char CHR ''r''
     else if r = 9 then esc_char CHR ''t''
     else if r < 32 \<or> r = 60 \<or> r = 62 \<or> r = 38 \<or> r = 8232 \<or> r = 8233 then esc_u r
     else chunk)"

definition json_string :: "string \<Rightarrow> string" where
  "json_string s = CHR 0x22 # concat (map json_escape_rune (utf8_runes s)) @ [CHR 0x22]"

fun join_with :: "string \<Rightarrow> string list \<Rightarrow> string" where
  "join_with d [] = []"
| "join_with d [x] = x"
| "join_with d (x # xs) = x @ d @ join_with d xs"

fun json_encode :: "json \<Rightarrow> string" where
  "json_encode JNull = ''null''"
| "json_encode (JBool b) = (if b then ''true'' else ''false'')"
| "json_encode (JInt i) = itoa i"
| "json_encode (JStr s) = json_string s"
| "json_encode (JArr vs) = ''['' @ join_with '','' (map json_encode vs) @ '']''"
| "json_encode (JObj fs) =
     CHR 0x7B # join_with '','' (map (\<lambda>(k, v). json_string k @ '':'' @ json_encode v) fs) @ [CHR 0x7D]"

text \<open>An upper bound on the length of an encoding, to check size limits without encoding.\<close>

fun json_bound :: "json \<Rightarrow> nat" where
  "json_bound JNull = 4"
| "json_bound (JBool b) = 5"
| "json_bound (JInt i) = length (itoa i)"
| "json_bound (JStr s) = 6 * length s + 2"
| "json_bound (JArr vs) = 2 + sum_list (map (\<lambda>v. json_bound v + 1) vs)"
| "json_bound (JObj fs) = 2 + sum_list (map (\<lambda>(k, v). 6 * length k + 4 + json_bound v) fs)"

lemma json_string_length: "length (json_string s) \<le> 6 * length s + 2"
proof -
  have "length (concat (map json_escape_rune rs)) \<le> 6 * length (concat (map snd rs))"
    if "\<And>rc. rc \<in> set rs \<Longrightarrow> snd rc \<noteq> []" for rs
    using that
  proof (induction rs)
    case (Cons rc rs)
    obtain r chunk where rc: "rc = (r, chunk)" by fastforce
    with Cons.prems have "1 \<le> length chunk" by (cases chunk) force+
    then have "length (json_escape_rune rc) \<le> 6 * length chunk"
      by (simp add: rc json_escape_rune_def esc_char_def esc_u_def)
    with Cons rc show ?case by fastforce
  qed simp
  from this [of "utf8_runes s"] utf8_runes_nonempty show ?thesis
    by (simp add: json_string_def utf8_runes_concat)
qed

lemma join_with_length: "length (join_with [d] xs) \<le> sum_list (map (\<lambda>x. length x + 1) xs)"
  by (induction "[d]" xs rule: join_with.induct) simp_all

lemma json_encode_length: "length (json_encode v) \<le> json_bound v"
proof (induction v rule: json_encode.induct)
  case (4 s)
  show ?case using json_string_length by simp
next
  case (5 vs)
  have "length (join_with '','' (map json_encode vs)) \<le> sum_list (map (\<lambda>v. length (json_encode v) + 1) vs)"
    using join_with_length [of "CHR '',''" "map json_encode vs"] by (simp add: comp_def)
  also have "\<dots> \<le> sum_list (map (\<lambda>v. json_bound v + 1) vs)"
    using 5 by (intro sum_list_mono) simp
  finally show ?case by simp
next
  case (6 fs)
  let ?f = "\<lambda>(k, v). json_string k @ '':'' @ json_encode v"
  have "length (join_with '','' (map ?f fs)) \<le> sum_list (map (\<lambda>kv. length (?f kv) + 1) fs)"
    using join_with_length [of "CHR '',''" "map ?f fs"] by (simp add: comp_def)
  also have "\<dots> \<le> sum_list (map (\<lambda>(k, v). 6 * length k + 4 + json_bound v) fs)"
  proof (rule sum_list_mono)
    fix kv assume kv: "kv \<in> set fs"
    obtain k v where kv': "kv = (k, v)" by fastforce
    have "length (json_encode v) \<le> json_bound v" using 6 [OF kv kv' [symmetric]] .
    with json_string_length [of k]
    show "length (?f kv) + 1 \<le> (case kv of (k, v) \<Rightarrow> 6 * length k + 4 + json_bound v)" by (simp add: kv')
  qed
  finally show ?case by simp
qed simp_all

text \<open>
  Struct fields: \<open>field\<close> is written always, the \<open>omit\<close> variants are Go's
  \<open>omitempty\<close>, under which a zero value and an empty or nil slice leave no field.
\<close>

definition omit_str :: "string \<Rightarrow> string \<Rightarrow> (string \<times> json) list" where
  "omit_str k s = (if s = [] then [] else [(k, JStr s)])"

definition omit_int :: "string \<Rightarrow> int \<Rightarrow> (string \<times> json) list" where
  "omit_int k i = (if i = 0 then [] else [(k, JInt i)])"

definition omit_bool :: "string \<Rightarrow> bool \<Rightarrow> (string \<times> json) list" where
  "omit_bool k b = (if b then [(k, JBool True)] else [])"

definition omit_list :: "string \<Rightarrow> ('a \<Rightarrow> json) \<Rightarrow> 'a list \<Rightarrow> (string \<times> json) list" where
  "omit_list k f xs = (if xs = [] then [] else [(k, JArr (map f xs))])"

definition omit_ptr :: "string \<Rightarrow> ('a \<Rightarrow> json) \<Rightarrow> 'a option \<Rightarrow> (string \<times> json) list" where
  "omit_ptr k f p = (case p of None \<Rightarrow> [] | Some x \<Rightarrow> [(k, f x)])"

section \<open>SHA-256 and hexadecimal\<close>

text \<open>
  The constants are the first 32 bits of the fractional parts of the cube and square roots
  of the first primes. \<open>iroot k n\<close> is the integer \<open>k\<close>-th root of a number below
  \<open>2 ^ (40 * k)\<close>, found bit by bit.
\<close>

definition iroot :: "nat \<Rightarrow> nat \<Rightarrow> nat" where
  "iroot k n = fold (\<lambda>b r. if (r + 2 ^ b) ^ k \<le> n then r + 2 ^ b else r) (rev [0..<40]) 0"

definition root_fraction :: "nat \<Rightarrow> nat \<Rightarrow> 32 word" where
  "root_fraction k p = of_nat (iroot k (p * 2 ^ (32 * k)))"

definition first_primes :: "nat \<Rightarrow> nat list" where
  "first_primes n = take n (filter (\<lambda>p. \<forall>d \<in> set [2..<p]. p mod d \<noteq> 0) [2..<312])"

definition sha256_K :: "32 word list" where
  "sha256_K = map (root_fraction 3) (first_primes 64)"

definition sha256_init :: "32 word list" where
  "sha256_init = map (root_fraction 2) (first_primes 8)"

definition be_bytes :: "nat \<Rightarrow> nat \<Rightarrow> nat list" where
  "be_bytes k n = map (\<lambda>i. n div 256 ^ i mod 256) (rev [0..<k])"

definition sha256_pad :: "nat list \<Rightarrow> nat list" where
  "sha256_pad m = m @ 128 # replicate ((119 - length m mod 64) mod 64) 0 @ be_bytes 8 (8 * length m)"

fun be_words :: "nat list \<Rightarrow> 32 word list" where
  "be_words (a # b # c # d # r) = of_nat (a * 16777216 + b * 65536 + c * 256 + d) # be_words r"
| "be_words _ = []"

text \<open>The message schedule, most recent word first.\<close>

fun sha256_extend :: "nat \<Rightarrow> 32 word list \<Rightarrow> 32 word list" where
  "sha256_extend 0 w = w"
| "sha256_extend (Suc n) w =
     (let x = w ! 14; y = w ! 1;
          s0 = word_rotr 7 x XOR word_rotr 18 x XOR drop_bit 3 x;
          s1 = word_rotr 17 y XOR word_rotr 19 y XOR drop_bit 10 y
      in sha256_extend n ((w ! 15 + s0 + w ! 6 + s1) # w))"

fun sha256_round :: "32 word \<times> 32 word \<Rightarrow> 32 word list \<Rightarrow> 32 word list" where
  "sha256_round (k, w) [a, b, c, d, e, f, g, h] =
     (let t1 = h + (word_rotr 6 e XOR word_rotr 11 e XOR word_rotr 25 e)
               + ((e AND f) XOR (NOT e AND g)) + k + w;
          t2 = (word_rotr 2 a XOR word_rotr 13 a XOR word_rotr 22 a)
               + ((a AND b) XOR (a AND c) XOR (b AND c))
      in [t1 + t2, a, b, c, d + t1, e, f, g])"
| "sha256_round _ hs = hs"

definition sha256_block :: "32 word list \<Rightarrow> 32 word list \<Rightarrow> 32 word list" where
  "sha256_block ws hs =
     map2 (+) hs (fold sha256_round (zip sha256_K (rev (sha256_extend 48 (rev ws)))) hs)"

function sha256_blocks :: "32 word list \<Rightarrow> 32 word list \<Rightarrow> 32 word list" where
  "sha256_blocks ws hs =
     (if length ws < 16 then hs else sha256_blocks (drop 16 ws) (sha256_block (take 16 ws) hs))"
  by pat_completeness auto
termination
  by (relation "measure (\<lambda>(ws, hs). length ws)") auto

declare sha256_blocks.simps [simp del]

definition sha256_sum :: "string \<Rightarrow> nat list" where
  "sha256_sum s = concat (map (\<lambda>w. be_bytes 4 (unat w))
     (sha256_blocks (be_words (sha256_pad (map of_char s))) sha256_init))"

definition hex_encode :: "nat list \<Rightarrow> string" where
  "hex_encode bs = concat (map (\<lambda>b. [hex_digit (b div 16), hex_digit (b mod 16)]) bs)"

definition sha256_hex :: "string \<Rightarrow> string" where
  "sha256_hex s = hex_encode (sha256_sum s)"

text \<open>A digest has 64 hexadecimal digits.\<close>

lemma sha256_round_length: "length hs = 8 \<Longrightarrow> length (sha256_round kw hs) = 8"
  by (cases "(kw, hs)" rule: sha256_round.cases) (auto simp: Let_def)

lemma sha256_blocks_length: "length hs = 8 \<Longrightarrow> length (sha256_blocks ws hs) = 8"
proof (induction ws hs rule: sha256_blocks.induct)
  case (1 ws hs)
  have "length (fold sha256_round xs hs) = 8" if "length hs = 8" for xs hs
    using that by (induction xs arbitrary: hs) (auto simp: sha256_round_length)
  with 1 show ?case by (subst sha256_blocks.simps) (auto simp: sha256_block_def)
qed

lemma sha256_init_length: "length sha256_init = 8"
proof -
  have "[2..<312] = [2..<20] @ [20..<312::nat]" using upt_add_eq_append [of 2 20 292] by simp
  moreover have "filter (\<lambda>p. \<forall>d \<in> set [2..<p]. p mod d \<noteq> 0) [2..<20] = [2, 3, 5, 7, 11, 13, 17, 19 :: nat]" by code_simp
  ultimately have "first_primes 8 = [2, 3, 5, 7, 11, 13, 17, 19]" by (simp only: first_primes_def filter_append) simp
  then show ?thesis by (simp add: sha256_init_def)
qed

lemma sha256_hex_length: "length (sha256_hex s) = 64"
proof -
  have four: "sum_list (map (\<lambda>w. length (be_bytes 4 (unat w))) ws) = 4 * length ws" for ws :: "32 word list"
    by (induction ws) (simp_all add: be_bytes_def)
  have two: "sum_list (map (\<lambda>b. length [hex_digit (b div 16), hex_digit (b mod 16)]) bs) = 2 * length bs" for bs :: "nat list"
    by (induction bs) simp_all
  have "length (sha256_sum s) = 32"
    using sha256_blocks_length [OF sha256_init_length] by (simp add: sha256_sum_def length_concat comp_def four)
  then show ?thesis by (simp add: sha256_hex_def hex_encode_def length_concat comp_def two [simplified])
qed

end
