(* ===== verification/Helper_Db.thy ===== *)
theory Helper_Db
  imports Go_Codec
begin

text \<open>
  The helper database (\<^verbatim>\<open>internal/state/state.go\<close>, schema version 18): the tables the
  operation coordinator and the generation store share. A table is a list of rows; columns
  whose \<open>CHECK\<close> constraint lists their values are datatypes, nullable columns are
  options, integers are unbounded (tokens, generations and ordinals stay far below the
  64-bit bound of an SQLite integer). The request column holds the canonical JSON text; the
  other JSON columns (operation results, component dependencies, event facts) are kept decoded,
  an empty result column being \<open>None\<close>.
\<close>

datatype op_state =
    StateAccepted | StateExecuting | StateReconciling | StateSucceeded
  | StateFailed | StateActionRequired | StateCancelled | StateSuperseded

datatype outcome_confidence =
    not_dispatched | confirmed_absent | confirmed_applied | unknown_outcome | mixed_outcome

datatype recovery_disposition =
    rd_completed | retry_after_validation | reconcile_first | administrator_action | retry_forbidden

datatype lease_state = Held | RecoveryRequired | Released

record op_row =
  o_operation_id :: string
  o_request_hash :: string
  o_request_json :: string
  o_protocol_version :: int
  o_operation_revision :: int
  o_operation_kind :: string
  o_installation_id :: string
  o_caller_uid :: "32 word"
  o_state :: op_state
  o_current_phase :: string
  o_outcome_confidence :: outcome_confidence
  o_recovery_disposition :: recovery_disposition
  o_expected_generation :: "int option"
  o_fencing_token :: "int option"
  o_accepted_at :: string
  o_started_at :: "string option"
  o_updated_at :: string
  o_completed_at :: "string option"
  o_result_json :: "json option"
  o_error_code :: string
  o_error_detail :: string

record lease_row =
  l_installation_id :: string
  l_operation_id :: string
  l_fencing_token :: int
  l_state :: lease_state
  l_acquired_at :: string
  l_updated_at :: string
  l_recovery_required :: bool

record event_row =
  v_operation_id :: string
  v_installation_id :: string
  v_fencing_token :: "int option"
  v_event_kind :: string
  v_phase :: string
  v_facts :: "(string \<times> string) list"
  v_created_at :: string

datatype gen_status =
    GVerificationRequired | GPrepared | GCandidate | GActive | GRetained
  | GFailed | GCleanupPending | GRemoved

datatype cleanup_state = CNotRequired | CClean | CPending

datatype comp_state = CsUnknown | CsCreated | CsStopped | CsRunning | CsMissing | CsFailed | CsRemoved

record gen_row =
  g_installation_id :: string
  g_runtime_generation :: int
  g_creating_operation_id :: string
  g_application_id :: string
  g_release_id :: string
  g_status :: gen_status
  g_network_name :: string
  g_observed_network_id :: string
  g_plan_hash :: string
  g_topology_hash :: string
  g_data_path :: string
  g_exposure_mode :: string
  g_service_id :: string
  g_host_address :: string
  g_host_port :: int
  g_container_port :: int
  g_service_protocol :: string
  g_created_at :: string
  g_verified_at :: "string option"
  g_committed_at :: "string option"
  g_retired_at :: "string option"
  g_cleanup_state :: cleanup_state

record comp_row =
  c_installation_id :: string
  c_runtime_generation :: int
  c_component_id :: string
  c_container_name :: string
  c_observed_container_id :: string
  c_image_digest :: string
  c_observed_image_id :: string
  c_configuration_hash :: string
  c_state :: comp_state
  c_dependencies :: "string list"
  c_start_ordinal :: int
  c_created_at :: string
  c_started_at :: "string option"
  c_verified_at :: "string option"

record binding_row =
  b_installation_id :: string
  b_runtime_generation :: int
  b_service_id :: string
  b_transport :: string
  b_container_port :: int
  b_mode :: string
  b_host_address :: string
  b_host_port :: int

record step_row =
  s_operation_id :: string
  s_installation_id :: string
  s_runtime_generation :: int
  s_component_id :: string
  s_action :: string
  s_attempt :: int
  s_expected_runtime_id :: string
  s_observed_runtime_id :: string
  s_intent_at :: string
  s_dispatched_at :: "string option"
  s_verified_at :: "string option"
  s_outcome_confidence :: outcome_confidence
  s_error_detail :: string

record ownership_row =
  w_instance_id :: string
  w_container_id :: string
  w_container_name :: string
  w_network_name :: string
  w_image_digest :: string
  w_data_path :: string
  w_created_at :: string
  w_runtime_generation :: int
  w_application_id :: string
  w_release_id :: string
  w_exposure_mode :: string
  w_service_id :: string
  w_host_address :: string
  w_host_port :: int
  w_container_port :: int
  w_service_protocol :: string

text \<open>
  What a reconciliation found out about a component, and its last result for an installation.
  A JSON column holds the document it encodes.
\<close>

record ComponentFinding =
  cf_ComponentID :: string
  cf_Generation :: int
  cf_Role :: string
  cf_ExpectedRuntime :: string
  cf_ObservedRuntime :: string
  cf_ExpectedRuntimeID :: string
  cf_ObservedRuntimeID :: string
  cf_MismatchCodes :: "string list"

record recon_row =
  n_instance_id :: string
  n_classification :: string
  n_observed_at :: string
  n_summary :: string
  n_checked_generation :: int
  n_runtime_state :: string
  n_runtime_identity :: string
  n_mismatch_codes :: "string list"
  n_recommended_action :: string
  n_originating_operation_id :: string
  n_evidence :: "ComponentFinding list"

record helper_db =
  operations :: "op_row list"
  leases :: "lease_row list"
  events :: "event_row list"
  generations :: "gen_row list"
  components :: "comp_row list"
  bindings :: "binding_row list"
  steps :: "step_row list"
  ownership :: "ownership_row list"
  reconciliation :: "recon_row list"

definition empty_db :: helper_db where
  "empty_db = \<lparr>operations = [], leases = [], events = [], generations = [], components = [],
     bindings = [], steps = [], ownership = [], reconciliation = []\<rparr>"

section \<open>Rows by primary key\<close>

definition gen_key :: "gen_row \<Rightarrow> string \<times> int" where
  "gen_key g = (g_installation_id g, g_runtime_generation g)"

definition comp_key :: "comp_row \<Rightarrow> string \<times> int \<times> string" where
  "comp_key c = (c_installation_id c, c_runtime_generation c, c_component_id c)"

definition binding_key :: "binding_row \<Rightarrow> string \<times> int \<times> string" where
  "binding_key b = (b_installation_id b, b_runtime_generation b, b_service_id b)"

definition step_key :: "step_row \<Rightarrow> string \<times> int \<times> string \<times> string \<times> int" where
  "step_key s = (s_operation_id s, s_runtime_generation s, s_component_id s, s_action s, s_attempt s)"

abbreviation op_get :: "helper_db \<Rightarrow> string \<Rightarrow> op_row option" where
  "op_get db k \<equiv> tbl_get o_operation_id k (operations db)"

abbreviation lease_get :: "helper_db \<Rightarrow> string \<Rightarrow> lease_row option" where
  "lease_get db k \<equiv> tbl_get l_installation_id k (leases db)"

abbreviation gen_get :: "helper_db \<Rightarrow> string \<times> int \<Rightarrow> gen_row option" where
  "gen_get db k \<equiv> tbl_get gen_key k (generations db)"

abbreviation comp_get :: "helper_db \<Rightarrow> string \<times> int \<times> string \<Rightarrow> comp_row option" where
  "comp_get db k \<equiv> tbl_get comp_key k (components db)"

text \<open>\<open>appendEvent\<close>, \<open>INSERT INTO helper_operation_events\<close>: the key is generated.\<close>

definition append_event :: "event_row \<Rightarrow> helper_db \<Rightarrow> helper_db" where
  "append_event v db = db\<lparr>events := events db @ [v]\<rparr>"

lemma append_event_simps [simp]:
  "operations (append_event v db) = operations db"
  "leases (append_event v db) = leases db"
  "generations (append_event v db) = generations db"
  "components (append_event v db) = components db"
  "bindings (append_event v db) = bindings db"
  "steps (append_event v db) = steps db"
  "ownership (append_event v db) = ownership db"
  "reconciliation (append_event v db) = reconciliation db"
  "events (append_event v db) = events db @ [v]"
  by (simp_all add: append_event_def)

end
