(* ===== verification/Protocol.thy ===== *)
theory Protocol
  imports Go_Codec
begin

text \<open>
  \<^verbatim>\<open>internal/protocol/protocol.go\<close>: the request and response messages between the API and
  the privileged helper, the canonical request representation and its hash (the idempotency
  key of a mutation), the length-prefixed frames, and the duplicate-key check on decoded
  JSON. Decoding JSON text into tokens is the work of Go's \<open>encoding/json\<close>; the check is
  modelled on the token stream its decoder yields.
\<close>

section \<open>Messages\<close>

record EnvVar =
  ev_Name :: string
  ev_Value :: string
  ev_Secret :: bool
  ev_Generate :: string

record StorageMount =
  sm_ID :: string
  sm_ContainerPath :: string
  sm_HostPath :: string
  sm_ReadOnly :: bool
  sm_OwnerUID :: int
  sm_OwnerGID :: int

record RuntimeIdentity =
  ri_UID :: int
  ri_GID :: int

record ConfigurationPolicy =
  cp_Type :: string
  cp_StorageID :: string

record ExternalStorageBinding =
  xb_SlotID :: string
  xb_RootID :: string

record Service =
  sv_ID :: string
  sv_Protocol :: string
  sv_ContainerPort :: int

record ServiceBinding =
  sb_ServiceID :: string
  sb_Transport :: string
  sb_ContainerPort :: int
  sb_Mode :: string
  sb_HostAddress :: string
  sb_HostPort :: int

record HardwareRequirement =
  hr_Class :: string
  hr_Optional :: bool
  hr_CPUFallback :: bool

record Component =
  cm_ID :: string
  cm_Image :: string
  cm_Command :: "string list"
  cm_Environment :: "EnvVar list"
  cm_Storage :: "StorageMount list"
  cm_Services :: "Service list"
  cm_DependsOn :: "string list"
  cm_Restart :: string
  cm_Hardware :: "HardwareRequirement list"
  cm_ExternalStorage :: "ExternalStorageBinding list"
  cm_RunAs :: "RuntimeIdentity option"

record IngressRoute =
  ir_RouteID :: string
  ir_InstallationID :: string
  ir_ServiceID :: string
  ir_Hostname :: string
  ir_ExposureMode :: string
  ir_UpstreamProtocol :: string
  ir_TLSPolicy :: string
  ir_CertificateID :: string
  ir_ProviderID :: string

text \<open>
  The request, its fields in the order of the Go struct. Those after
  \<open>rq_Configuration\<close> (ingress, certificates, ACME and provider operations) are grouped
  in an extension record, which keeps the declared field order.
\<close>

record RequestBase =
  rq_Version :: int
  rq_ID :: string
  rq_OperationID :: string
  rq_Operation :: string
  rq_OperationRevision :: int
  rq_Deadline :: string
  rq_InstanceID :: string
  rq_RuntimeGeneration :: int
  rq_Image :: string
  rq_ApplicationID :: string
  rq_ReleaseID :: string
  rq_NetworkName :: string
  rq_DataPath :: string
  rq_RestartPolicy :: string
  rq_Command :: "string list"
  rq_Environment :: "EnvVar list"
  rq_Storage :: "StorageMount list"
  rq_Bindings :: "ServiceBinding list"
  rq_ExposureMode :: string
  rq_HostAddress :: string
  rq_HostPort :: int
  rq_ServiceID :: string
  rq_ContainerPort :: int
  rq_ServiceProtocol :: string
  rq_Services :: "Service list"
  rq_Components :: "Component list"
  rq_Hardware :: "HardwareRequirement list"
  rq_ExternalStorage :: "ExternalStorageBinding list"
  rq_RootID :: string
  rq_RootName :: string
  rq_RootPath :: string
  rq_RootMode :: string
  rq_RunAs :: "RuntimeIdentity option"
  rq_BackupID :: string
  rq_RepairAction :: string
  rq_CredentialID :: string
  rq_Configuration :: "ConfigurationPolicy option"

record Request = RequestBase +
  rq_IngressRoutes :: "IngressRoute list"
  rq_CertificateID :: string
  rq_Hostname :: string
  rq_CertificatePEM :: string
  rq_PrivateKeyPEM :: string
  rq_ACMEEmail :: string
  rq_ACMEDirectory :: string
  rq_AcceptACMETerms :: bool
  rq_ProviderID :: string
  rq_ProviderToken :: string
  rq_ProviderAccount :: string
  rq_ProviderZone :: string
  rq_ProviderTunnel :: string
  rq_ConfirmRemote :: bool

text \<open>
  A response carries its result as a JSON value.
\<close>

record Response =
  rs_OK :: bool
  rs_RequestID :: string
  rs_OperationID :: string
  rs_State :: string
  rs_Phase :: string
  rs_ActiveOperationID :: string
  rs_Result :: "json option"
  rs_ErrorCode :: string
  rs_Error :: string
  rs_Retryable :: bool

definition empty_Response :: Response where
  "empty_Response = \<lparr>rs_OK = False, rs_RequestID = [], rs_OperationID = [], rs_State = [],
     rs_Phase = [], rs_ActiveOperationID = [], rs_Result = None, rs_ErrorCode = [],
     rs_Error = [], rs_Retryable = False\<rparr>"

definition SemanticOperationID :: "Request \<Rightarrow> string" where
  "SemanticOperationID r = (if rq_OperationID r \<noteq> [] then rq_OperationID r else rq_ID r)"


section \<open>JSON form of the messages\<close>

definition json_of_EnvVar :: "EnvVar \<Rightarrow> json" where
  "json_of_EnvVar e = JObj ([(''name'', JStr (ev_Name e))] @ omit_str ''value'' (ev_Value e)
     @ omit_bool ''secret'' (ev_Secret e) @ omit_str ''generate'' (ev_Generate e))"

definition json_of_StorageMount :: "StorageMount \<Rightarrow> json" where
  "json_of_StorageMount m = JObj ([(''id'', JStr (sm_ID m)),
       (''container_path'', JStr (sm_ContainerPath m)), (''host_path'', JStr (sm_HostPath m))]
     @ omit_bool ''read_only'' (sm_ReadOnly m) @ omit_int ''owner_uid'' (sm_OwnerUID m)
     @ omit_int ''owner_gid'' (sm_OwnerGID m))"

definition json_of_RuntimeIdentity :: "RuntimeIdentity \<Rightarrow> json" where
  "json_of_RuntimeIdentity i = JObj [(''uid'', JInt (ri_UID i)), (''gid'', JInt (ri_GID i))]"

definition json_of_ConfigurationPolicy :: "ConfigurationPolicy \<Rightarrow> json" where
  "json_of_ConfigurationPolicy p =
     JObj [(''type'', JStr (cp_Type p)), (''storage_id'', JStr (cp_StorageID p))]"

definition json_of_ExternalStorageBinding :: "ExternalStorageBinding \<Rightarrow> json" where
  "json_of_ExternalStorageBinding b =
     JObj [(''slot_id'', JStr (xb_SlotID b)), (''root_id'', JStr (xb_RootID b))]"

definition json_of_Service :: "Service \<Rightarrow> json" where
  "json_of_Service v = JObj [(''id'', JStr (sv_ID v)), (''protocol'', JStr (sv_Protocol v)),
     (''container_port'', JInt (sv_ContainerPort v))]"

definition json_of_ServiceBinding :: "ServiceBinding \<Rightarrow> json" where
  "json_of_ServiceBinding b = JObj ([(''service_id'', JStr (sb_ServiceID b)),
       (''transport'', JStr (sb_Transport b)), (''container_port'', JInt (sb_ContainerPort b)),
       (''mode'', JStr (sb_Mode b))]
     @ omit_str ''host_address'' (sb_HostAddress b) @ omit_int ''host_port'' (sb_HostPort b))"

definition json_of_HardwareRequirement :: "HardwareRequirement \<Rightarrow> json" where
  "json_of_HardwareRequirement h = JObj ([(''class'', JStr (hr_Class h))]
     @ omit_bool ''optional'' (hr_Optional h) @ omit_bool ''cpu_fallback'' (hr_CPUFallback h))"

definition json_of_Component :: "Component \<Rightarrow> json" where
  "json_of_Component c = JObj ([(''id'', JStr (cm_ID c)), (''image'', JStr (cm_Image c))]
     @ omit_list ''command'' JStr (cm_Command c)
     @ omit_list ''environment'' json_of_EnvVar (cm_Environment c)
     @ omit_list ''storage'' json_of_StorageMount (cm_Storage c)
     @ omit_list ''services'' json_of_Service (cm_Services c)
     @ omit_list ''depends_on'' JStr (cm_DependsOn c)
     @ omit_str ''restart'' (cm_Restart c)
     @ omit_list ''hardware'' json_of_HardwareRequirement (cm_Hardware c)
     @ omit_list ''external_storage'' json_of_ExternalStorageBinding (cm_ExternalStorage c)
     @ omit_ptr ''run_as'' json_of_RuntimeIdentity (cm_RunAs c))"

definition json_of_IngressRoute :: "IngressRoute \<Rightarrow> json" where
  "json_of_IngressRoute r = JObj ([(''route_id'', JStr (ir_RouteID r)),
       (''installation_id'', JStr (ir_InstallationID r)), (''service_id'', JStr (ir_ServiceID r)),
       (''hostname'', JStr (ir_Hostname r)), (''exposure_mode'', JStr (ir_ExposureMode r)),
       (''upstream_protocol'', JStr (ir_UpstreamProtocol r)), (''tls_policy'', JStr (ir_TLSPolicy r))]
     @ omit_str ''certificate_id'' (ir_CertificateID r) @ omit_str ''provider_id'' (ir_ProviderID r))"

definition json_of_Request :: "Request \<Rightarrow> json" where
  "json_of_Request r = JObj (
     [(''version'', JInt (rq_Version r)), (''request_id'', JStr (rq_ID r))]
     @ omit_str ''operation_id'' (rq_OperationID r)
     @ [(''operation'', JStr (rq_Operation r))]
     @ omit_int ''operation_revision'' (rq_OperationRevision r)
     @ omit_str ''deadline'' (rq_Deadline r)
     @ [(''instance_id'', JStr (rq_InstanceID r))]
     @ omit_int ''runtime_generation'' (rq_RuntimeGeneration r)
     @ omit_str ''image'' (rq_Image r)
     @ omit_str ''application_id'' (rq_ApplicationID r)
     @ omit_str ''release_id'' (rq_ReleaseID r)
     @ omit_str ''network_name'' (rq_NetworkName r)
     @ omit_str ''data_path'' (rq_DataPath r)
     @ omit_str ''restart_policy'' (rq_RestartPolicy r)
     @ omit_list ''command'' JStr (rq_Command r)
     @ omit_list ''environment'' json_of_EnvVar (rq_Environment r)
     @ omit_list ''storage'' json_of_StorageMount (rq_Storage r)
     @ omit_list ''bindings'' json_of_ServiceBinding (rq_Bindings r)
     @ omit_str ''exposure_mode'' (rq_ExposureMode r)
     @ omit_str ''host_address'' (rq_HostAddress r)
     @ omit_int ''host_port'' (rq_HostPort r)
     @ omit_str ''service_id'' (rq_ServiceID r)
     @ omit_int ''container_port'' (rq_ContainerPort r)
     @ omit_str ''service_protocol'' (rq_ServiceProtocol r)
     @ omit_list ''services'' json_of_Service (rq_Services r)
     @ omit_list ''components'' json_of_Component (rq_Components r)
     @ omit_list ''hardware'' json_of_HardwareRequirement (rq_Hardware r)
     @ omit_list ''external_storage'' json_of_ExternalStorageBinding (rq_ExternalStorage r)
     @ omit_str ''root_id'' (rq_RootID r)
     @ omit_str ''root_name'' (rq_RootName r)
     @ omit_str ''root_path'' (rq_RootPath r)
     @ omit_str ''root_mode'' (rq_RootMode r)
     @ omit_ptr ''run_as'' json_of_RuntimeIdentity (rq_RunAs r)
     @ omit_str ''backup_id'' (rq_BackupID r)
     @ omit_str ''repair_action'' (rq_RepairAction r)
     @ omit_str ''credential_id'' (rq_CredentialID r)
     @ omit_ptr ''configuration'' json_of_ConfigurationPolicy (rq_Configuration r)
     @ omit_list ''ingress_routes'' json_of_IngressRoute (rq_IngressRoutes r)
     @ omit_str ''certificate_id'' (rq_CertificateID r)
     @ omit_str ''hostname'' (rq_Hostname r)
     @ omit_str ''certificate_pem'' (rq_CertificatePEM r)
     @ omit_str ''private_key_pem'' (rq_PrivateKeyPEM r)
     @ omit_str ''acme_email'' (rq_ACMEEmail r)
     @ omit_str ''acme_directory'' (rq_ACMEDirectory r)
     @ omit_bool ''accept_acme_terms'' (rq_AcceptACMETerms r)
     @ omit_str ''provider_id'' (rq_ProviderID r)
     @ omit_str ''provider_token'' (rq_ProviderToken r)
     @ omit_str ''provider_account'' (rq_ProviderAccount r)
     @ omit_str ''provider_zone'' (rq_ProviderZone r)
     @ omit_str ''provider_tunnel'' (rq_ProviderTunnel r)
     @ omit_bool ''confirm_remote'' (rq_ConfirmRemote r))"

section \<open>Canonical requests\<close>

definition MaxFrame :: nat where
  "MaxFrame = 64 * 1024"

definition blank_secret :: "EnvVar \<Rightarrow> EnvVar" where
  "blank_secret e = (if ev_Secret e then e\<lparr>ev_Value := []\<rparr> else e)"

definition blank_component :: "Component \<Rightarrow> Component" where
  "blank_component c = c\<lparr>cm_Environment := map blank_secret (cm_Environment c)\<rparr>"

text \<open>
  The two loops of \<open>Canonical\<close> write through the request's slices. The struct is
  passed by value but its slices are shared with the caller, so the caller's request is left
  with its secret values blanked: \<open>caller_view\<close> is what the caller holds afterwards.
\<close>

definition blank_secrets :: "Request \<Rightarrow> Request" where
  "blank_secrets r = r\<lparr>rq_Environment := map blank_secret (rq_Environment r),
     rq_Components := map blank_component (rq_Components r)\<rparr>"

definition caller_view :: "Request \<Rightarrow> Request" where
  "caller_view r = blank_secrets r"

definition canonical_request :: "Request \<Rightarrow> Request" where
  "canonical_request r = blank_secrets (r\<lparr>rq_ID := [], rq_OperationID := [], rq_Deadline := [],
     rq_CertificatePEM := [], rq_PrivateKeyPEM := [], rq_ProviderToken := []\<rparr>)"

definition Canonical :: "Request \<Rightarrow> string result" where
  "Canonical r =
     (let b = json_encode (json_of_Request (canonical_request r))
      in if MaxFrame < length b then Inl (Errorf ''canonical request too large'') else Inr b)"

definition Hash :: "Request \<Rightarrow> string result" where
  "Hash r = bind_result (Canonical r) (\<lambda>b. Inr (sha256_hex b))"

section \<open>Frames\<close>

text \<open>
  A reader is the byte string still to be read. \<open>Write\<close> emits a big-endian 32-bit length
  and the payload; \<open>read_frame\<close> is the part of \<open>Read\<close> and \<open>ReadResponse\<close> that takes
  a frame off the wire. A short read is an infrastructure error.
\<close>

definition put_uint32 :: "nat \<Rightarrow> string" where
  "put_uint32 n = map char_of (be_bytes 4 (n mod 2 ^ 32))"

definition get_uint32 :: "string \<Rightarrow> nat" where
  "get_uint32 h = fold (\<lambda>c acc. acc * 256 + of_char c) h 0"

definition write_frame :: "string \<Rightarrow> string result" where
  "write_frame b = (if MaxFrame < length b then Inl (Errorf ''response too large'')
     else Inr (put_uint32 (length b) @ b))"

definition read_frame :: "string \<Rightarrow> (string \<times> string) result" where
  "read_frame w =
     (if length w < 4 then Inl (ErrInfrastructure ''unexpected EOF'')
      else let n = get_uint32 (take 4 w); rest = drop 4 w in
        if n = 0 \<or> MaxFrame < n then Inl (Errorf ''invalid frame length'')
        else if length rest < n then Inl (ErrInfrastructure ''unexpected EOF'')
        else Inr (take n rest, drop n rest))"

section \<open>Duplicate keys\<close>

text \<open>
  The tokens of a JSON decoder: delimiters, strings, and every other scalar. \<open>More\<close>
  reports whether the next token is a value or key rather than a closing delimiter.
\<close>

datatype token = TObjOpen | TObjClose | TArrOpen | TArrClose | TStr string | TScalar

definition more :: "token list \<Rightarrow> bool" where
  "more ts = (case ts of [] \<Rightarrow> False | t # _ \<Rightarrow> t \<noteq> TObjClose \<and> t \<noteq> TArrClose)"

text \<open>
  \<open>readUniqueValue\<close> with its two inner loops. The fuel is a bound on the number of calls;
  \<open>readUniqueValue_tokens\<close> (theory \<open>Protocol_Spec\<close>) shows that the number of tokens is enough on every
  token stream of a JSON value.
\<close>

fun readUniqueValue :: "nat \<Rightarrow> token list \<Rightarrow> token list result"
  and readObject :: "nat \<Rightarrow> string list \<Rightarrow> token list \<Rightarrow> token list result"
  and readArray :: "nat \<Rightarrow> token list \<Rightarrow> token list result" where
  "readUniqueValue 0 ts = Inl (ErrInfrastructure ''out of fuel'')"
| "readUniqueValue (Suc n) ts = (case ts of
      [] \<Rightarrow> Inl (ErrInfrastructure ''unexpected EOF'')
    | TStr _ # r \<Rightarrow> Inr r
    | TScalar # r \<Rightarrow> Inr r
    | TObjOpen # r \<Rightarrow> readObject n [] r
    | TArrOpen # r \<Rightarrow> readArray n r
    | _ # r \<Rightarrow> Inl (Errorf ''unexpected JSON delimiter''))"
| "readObject 0 seen ts = Inl (ErrInfrastructure ''out of fuel'')"
| "readObject (Suc n) seen ts =
     (if more ts then
        (case ts of
           TStr k # r \<Rightarrow>
             if k \<in> set seen then Inl (Errorf ''duplicate JSON key'')
             else bind_result (readUniqueValue n r) (readObject n (k # seen))
         | _ \<Rightarrow> Inl (Errorf ''object key is not a string''))
      else (case ts of TObjClose # r \<Rightarrow> Inr r | _ \<Rightarrow> Inl (Errorf ''invalid object termination'')))"
| "readArray 0 ts = Inl (ErrInfrastructure ''out of fuel'')"
| "readArray (Suc n) ts =
     (if more ts then bind_result (readUniqueValue n ts) (readArray n)
      else (case ts of TArrClose # r \<Rightarrow> Inr r | _ \<Rightarrow> Inl (Errorf ''invalid array termination'')))"

definition rejectDuplicateKeys :: "token list \<Rightarrow> unit result" where
  "rejectDuplicateKeys ts =
     bind_result (readUniqueValue (Suc (length ts)) ts)
       (\<lambda>r. if r = [] then Inr () else Inl (Errorf ''trailing JSON token''))"

end
