(* ===== verification/Coordinator.thy ===== *)
theory Coordinator
  imports Helper_Db Protocol
begin

text \<open>
  \<^verbatim>\<open>internal/helperops/coordinator.go\<close>: durable acceptance of privileged operations, replay,
  per-installation leases with fencing tokens, and recovery after a restart. Every method that
  runs in a transaction is a function from the database to a result and the database it
  commits; an error rolls back, so the database is the old one. \<open>now\<close> is the time stamp
  the method takes when it starts.
\<close>

definition maxResultBytes :: nat where
  "maxResultBytes = 32 * 1024"

definition maxErrorBytes :: nat where
  "maxErrorBytes = 512"

definition operationIDPattern :: "string \<Rightarrow> bool" where
  "operationIDPattern s = match_prefix_rep ''op-'' is_hex_lower 32 s"

fun op_state_text :: "op_state \<Rightarrow> string" where
  "op_state_text StateAccepted = ''accepted''"
| "op_state_text StateExecuting = ''executing''"
| "op_state_text StateReconciling = ''reconciling''"
| "op_state_text StateSucceeded = ''succeeded''"
| "op_state_text StateFailed = ''failed''"
| "op_state_text StateActionRequired = ''action_required''"
| "op_state_text StateCancelled = ''cancelled''"
| "op_state_text StateSuperseded = ''superseded''"

record Decision =
  d_Execute :: bool
  d_FencingToken :: int
  d_Response :: Response

definition respond :: "Response \<Rightarrow> Decision" where
  "respond r = \<lparr>d_Execute = False, d_FencingToken = 0, d_Response = r\<rparr>"

text \<open>
  What \<open>Begin\<close> returns: an error, the \<open>ConflictError\<close> that comes with a response, or a
  decision.
\<close>

datatype begin_outcome =
    BeginError go_error
  | BeginConflict Decision string
  | BeginDecision Decision

section \<open>Helpers\<close>

definition sanitize :: "string \<Rightarrow> string" where
  "sanitize v = take maxErrorBytes (concat (map (\<lambda>(r, chunk).
      if is_control r \<and> r \<noteq> 9 then []
      else if r = rune_error \<and> length chunk = 1 then replacement_bytes
      else chunk) (utf8_runes (trim_space v))))"

definition expectedGeneration :: "Request \<Rightarrow> int option" where
  "expectedGeneration r =
     (let value = (if rq_Operation r \<in> set [''InstallApplication'', ''ConfigureServiceExposure'', ''UpdateApplication'']
                   then rq_RuntimeGeneration r - 1 else rq_RuntimeGeneration r)
      in if value < 0 then None else Some value)"

definition responseFor :: "op_row \<Rightarrow> string \<Rightarrow> Response" where
  "responseFor rec requestID = \<lparr>
     rs_OK = (o_state rec \<in> set [StateSucceeded, StateAccepted, StateExecuting, StateReconciling]),
     rs_RequestID = requestID,
     rs_OperationID = o_operation_id rec,
     rs_State = op_state_text (o_state rec),
     rs_Phase = o_current_phase rec,
     rs_ActiveOperationID = [],
     rs_Result = (case o_result_json rec of Some JNull \<Rightarrow> None | r \<Rightarrow> r),
     rs_ErrorCode = o_error_code rec,
     rs_Error = o_error_detail rec,
     rs_Retryable = (o_recovery_disposition rec = retry_after_validation)\<rparr>"

definition appendEvent ::
  "string \<Rightarrow> string \<Rightarrow> int option \<Rightarrow> string \<Rightarrow> string \<Rightarrow> (string \<times> string) list \<Rightarrow> string \<Rightarrow> helper_db \<Rightarrow> helper_db" where
  "appendEvent operationID scope token kind phase facts now db =
     append_event \<lparr>v_operation_id = operationID, v_installation_id = scope, v_fencing_token = token,
       v_event_kind = kind, v_phase = phase, v_facts = facts, v_created_at = now\<rparr> db"

lemma appendEvent_simps [simp]:
  "operations (appendEvent a b c d e f g db) = operations db"
  "leases (appendEvent a b c d e f g db) = leases db"
  "generations (appendEvent a b c d e f g db) = generations db"
  "components (appendEvent a b c d e f g db) = components db"
  "bindings (appendEvent a b c d e f g db) = bindings db"
  "steps (appendEvent a b c d e f g db) = steps db"
  "ownership (appendEvent a b c d e f g db) = ownership db"
  by (simp_all add: appendEvent_def)

definition op_row_of :: "string \<Rightarrow> helper_db \<Rightarrow> op_row result" where
  "op_row_of operationID db = sql_row (\<lambda>o'. o_operation_id o' = operationID) (operations db)"

text \<open>\<open>QueryRow(\<dots>).Scan(&token)\<close> into an \<open>int64\<close> refuses \<open>NULL\<close>.\<close>

definition scan_token :: "op_row \<Rightarrow> int result" where
  "scan_token o' = (case o_fencing_token o' of None \<Rightarrow> Inl ErrNullScan | Some t \<Rightarrow> Inr t)"

definition verifyFence :: "string \<Rightarrow> int \<Rightarrow> helper_db \<Rightarrow> unit result" where
  "verifyFence operationID token db =
     bind_result (op_row_of operationID db) (\<lambda>o'.
     bind_result (scan_token o') (\<lambda>operationToken.
     bind_result (sql_row (\<lambda>l. l_installation_id l = o_installation_id o') (leases db)) (\<lambda>l.
     if l_operation_id l \<noteq> operationID \<or> operationToken \<noteq> token \<or> l_fencing_token l \<noteq> token \<or> l_state l \<noteq> Held
     then Inl (Errorf ''stale operation fencing token'') else Inr ())))"

definition update_ops :: "(op_row \<Rightarrow> bool) \<Rightarrow> (op_row \<Rightarrow> op_row) \<Rightarrow> helper_db \<Rightarrow> helper_db" where
  "update_ops P f db = db\<lparr>operations := sql_update P f (operations db)\<rparr>"

definition update_leases :: "(lease_row \<Rightarrow> bool) \<Rightarrow> (lease_row \<Rightarrow> lease_row) \<Rightarrow> helper_db \<Rightarrow> helper_db" where
  "update_leases P f db = db\<lparr>leases := sql_update P f (leases db)\<rparr>"

lemma update_ops_simps [simp]:
  "operations (update_ops P f db) = sql_update P f (operations db)"
  "leases (update_ops P f db) = leases db"
  "events (update_ops P f db) = events db"
  "generations (update_ops P f db) = generations db"
  "components (update_ops P f db) = components db"
  "bindings (update_ops P f db) = bindings db"
  "steps (update_ops P f db) = steps db"
  "ownership (update_ops P f db) = ownership db"
  by (simp_all add: update_ops_def)

lemma update_leases_simps [simp]:
  "operations (update_leases P f db) = operations db"
  "leases (update_leases P f db) = sql_update P f (leases db)"
  "events (update_leases P f db) = events db"
  "generations (update_leases P f db) = generations db"
  "components (update_leases P f db) = components db"
  "bindings (update_leases P f db) = bindings db"
  "steps (update_leases P f db) = steps db"
  "ownership (update_leases P f db) = ownership db"
  by (simp_all add: update_leases_def)

section \<open>Begin\<close>

definition replay :: "op_row \<Rightarrow> string \<Rightarrow> Request \<Rightarrow> begin_outcome" where
  "replay existing hash request =
     (if o_request_hash existing \<noteq> hash
      then BeginDecision (respond (empty_Response\<lparr>rs_RequestID := rq_ID request,
             rs_OperationID := rq_OperationID request, rs_State := op_state_text (o_state existing),
             rs_ErrorCode := ''OperationConflict'',
             rs_Error := ''operation ID was already used for different semantic contents''\<rparr>))
      else BeginDecision (respond (responseFor existing (rq_ID request))))"

definition new_operation :: "string \<Rightarrow> Request \<Rightarrow> 32 word \<Rightarrow> string \<Rightarrow> string \<Rightarrow> string \<Rightarrow> op_row" where
  "new_operation now request callerUID scope hash canonical = \<lparr>
     o_operation_id = rq_OperationID request,
     o_request_hash = hash,
     o_request_json = canonical,
     o_protocol_version = rq_Version request,
     o_operation_revision = rq_OperationRevision request,
     o_operation_kind = rq_Operation request,
     o_installation_id = scope,
     o_caller_uid = callerUID,
     o_state = StateAccepted,
     o_current_phase = ''accepted'',
     o_outcome_confidence = not_dispatched,
     o_recovery_disposition = reconcile_first,
     o_expected_generation = expectedGeneration request,
     o_fencing_token = None,
     o_accepted_at = now,
     o_started_at = None,
     o_updated_at = now,
     o_completed_at = None,
     o_result_json = None,
     o_error_code = [],
     o_error_detail = []\<rparr>"

definition is_repair_request :: "Request \<Rightarrow> bool" where
  "is_repair_request r = (rq_Operation r = ''RepairInstallation''
     \<or> (rq_Operation r = ''InstallApplication'' \<and> rq_RepairAction r = ''recreate_generation''))"

text \<open>The \<open>switch\<close> on the installation's lease row.\<close>

datatype acquisition =
    AcquireError go_error
  | AcquireConflict string
  | Acquired int helper_db

definition take_over ::
  "string \<Rightarrow> Request \<Rightarrow> string \<Rightarrow> string \<Rightarrow> int \<Rightarrow> helper_db \<Rightarrow> acquisition" where
  "take_over now request scope activeID token db =
     (case op_row_of activeID db of
        Inl e \<Rightarrow> AcquireError e
      | Inr prior \<Rightarrow>
        if o_state prior \<noteq> StateActionRequired
        then AcquireError (Errorf ''recovery lease holder is not repairable'')
        else let token' = token + 1;
          db1 = update_ops (\<lambda>o'. o_operation_id o' = activeID \<and> o_state o' = StateActionRequired)
            (\<lambda>o'. o'\<lparr>o_state := StateSuperseded, o_current_phase := ''superseded_by_repair'',
               o_recovery_disposition := rd_completed, o_updated_at := now, o_completed_at := Some now\<rparr>) db;
          db2 = appendEvent activeID scope (Some token') ''operation_superseded_by_repair''
            ''superseded_by_repair'' [(''repair_operation_id'', rq_OperationID request)] now db1;
          db3 = update_leases (\<lambda>l. l_installation_id l = scope \<and> l_operation_id l = activeID \<and> l_state l = RecoveryRequired)
            (\<lambda>l. l\<lparr>l_operation_id := rq_OperationID request, l_fencing_token := token', l_state := Held,
               l_acquired_at := now, l_updated_at := now, l_recovery_required := False\<rparr>) db2
        in Acquired token' db3)"

definition acquire_lease :: "string \<Rightarrow> Request \<Rightarrow> string \<Rightarrow> helper_db \<Rightarrow> acquisition" where
  "acquire_lease now request scope db =
     (case sql_row (\<lambda>l. l_installation_id l = scope) (leases db) of
        Inl _ \<Rightarrow> Acquired 1 (db\<lparr>leases := leases db @ [\<lparr>l_installation_id = scope,
            l_operation_id = rq_OperationID request, l_fencing_token = 1, l_state = Held,
            l_acquired_at = now, l_updated_at = now, l_recovery_required = False\<rparr>]\<rparr>)
      | Inr lease \<Rightarrow>
        let activeID = l_operation_id lease; token = l_fencing_token lease in
        if l_state lease = Released then
          Acquired (token + 1) (update_leases
            (\<lambda>l. l_installation_id l = scope \<and> l_fencing_token l = token \<and> l_state l = Released)
            (\<lambda>l. l\<lparr>l_operation_id := rq_OperationID request, l_fencing_token := token + 1,
               l_state := Held, l_acquired_at := now, l_updated_at := now, l_recovery_required := False\<rparr>) db)
        else if is_repair_request request \<and> l_state lease = RecoveryRequired then
          take_over now request scope activeID token db
        else if activeID = rq_OperationID request then Acquired token db
        else AcquireConflict activeID)"

definition refuse_conflict :: "string \<Rightarrow> Request \<Rightarrow> string \<Rightarrow> string \<Rightarrow> helper_db \<Rightarrow> helper_db" where
  "refuse_conflict now request scope activeID db =
     appendEvent (rq_OperationID request) scope None ''operation_conflict'' ''lease_conflict''
       [(''active_operation_id'', activeID)] now
       (update_ops (\<lambda>o'. o_operation_id o' = rq_OperationID request)
         (\<lambda>o'. o'\<lparr>o_state := StateFailed, o_current_phase := ''lease_conflict'',
            o_outcome_confidence := not_dispatched, o_recovery_disposition := retry_after_validation,
            o_updated_at := now, o_completed_at := Some now, o_error_code := ''OperationConflict'',
            o_error_detail := sanitize (''installation already has active operation '' @ activeID)\<rparr>) db)"

definition conflict_response :: "Request \<Rightarrow> string \<Rightarrow> Response" where
  "conflict_response request activeID = empty_Response\<lparr>rs_RequestID := rq_ID request,
     rs_OperationID := rq_OperationID request, rs_State := op_state_text StateFailed,
     rs_Phase := ''lease_conflict'', rs_ActiveOperationID := activeID,
     rs_ErrorCode := ''OperationConflict'',
     rs_Error := ''installation already has an active privileged operation''\<rparr>"

definition begin_commit :: "string \<Rightarrow> Request \<Rightarrow> string \<Rightarrow> int \<Rightarrow> helper_db \<Rightarrow> helper_db" where
  "begin_commit now request scope token db =
     appendEvent (rq_OperationID request) scope (Some token) ''operation_accepted'' ''accepted'' [] now
       (update_ops (\<lambda>o'. o_operation_id o' = rq_OperationID request)
         (\<lambda>o'. o'\<lparr>o_fencing_token := Some token, o_updated_at := now\<rparr>) db)"

text \<open>The part of \<open>Begin\<close> from the \<open>INSERT\<close> of the operation on.\<close>

definition begin_fresh ::
  "string \<Rightarrow> Request \<Rightarrow> 32 word \<Rightarrow> string \<Rightarrow> string \<Rightarrow> string \<Rightarrow> helper_db \<Rightarrow> begin_outcome \<times> helper_db" where
  "begin_fresh now request callerUID scope hash canonical db =
     (let db1 = db\<lparr>operations := operations db
            @ [new_operation now request callerUID scope hash canonical]\<rparr> in
      (case acquire_lease now request scope db1 of
         AcquireError e \<Rightarrow> (BeginError e, db)
       | AcquireConflict activeID \<Rightarrow>
           (BeginConflict (respond (conflict_response request activeID)) activeID,
            refuse_conflict now request scope activeID db1)
       | Acquired token db2 \<Rightarrow>
           if sql_count (\<lambda>o'. o_operation_id o' = rq_OperationID request) (operations db2) \<noteq> 1
           then (BeginError (Errorf ''operation lease acquisition lost''), db)
           else (BeginDecision \<lparr>d_Execute = True, d_FencingToken = token, d_Response = empty_Response\<rparr>,
             begin_commit now request scope token db2)))"

definition Begin ::
  "string \<Rightarrow> Request \<Rightarrow> 32 word \<Rightarrow> string \<Rightarrow> helper_db \<Rightarrow> begin_outcome \<times> helper_db" where
  "Begin now request callerUID scope db =
     (if rq_Version request \<noteq> 2 \<or> rq_OperationRevision request \<noteq> 1 then
        (BeginError (Errorf ''durable mutations require protocol version 2 operation revision 1''), db)
      else if \<not> operationIDPattern (rq_OperationID request) then
        (BeginError (Errorf ''invalid operation ID''), db)
      else if scope = [] \<or> 128 < length scope then
        (BeginError (Errorf ''invalid operation scope''), db)
      else case Canonical request of Inl e \<Rightarrow> (BeginError e, db) | Inr canonical \<Rightarrow>
        (case Hash request of Inl e \<Rightarrow> (BeginError e, db) | Inr hash \<Rightarrow>
          (case op_row_of (rq_OperationID request) db of
             Inr existing \<Rightarrow> (replay existing hash request, db)
           | Inl _ \<Rightarrow> begin_fresh now request callerUID scope hash canonical db)))"

section \<open>Execution and completion\<close>

definition AuthorizeMutation :: "string \<Rightarrow> string \<Rightarrow> int \<Rightarrow> helper_db \<Rightarrow> helper_db result" where
  "AuthorizeMutation now operationID token db =
     bind_result (verifyFence operationID token db) (\<lambda>_.
     let P = (\<lambda>o'. o_operation_id o' = operationID \<and> o_fencing_token o' = Some token \<and> o_state o' = StateAccepted);
         db1 = update_ops P (\<lambda>o'. o'\<lparr>o_state := StateExecuting, o_current_phase := ''mutation_authorized'',
           o_outcome_confidence := unknown_outcome, o_recovery_disposition := reconcile_first,
           o_started_at := (case o_started_at o' of None \<Rightarrow> Some now | Some t \<Rightarrow> Some t),
           o_updated_at := now\<rparr>) db
     in if sql_count P (operations db) \<noteq> 1 then Inl (Errorf ''operation is not eligible for execution'')
     else bind_result (op_row_of operationID db1) (\<lambda>o'.
       Inr (appendEvent operationID (o_installation_id o') (Some token) ''mutation_authorized''
         ''mutation_authorized'' [] now db1)))"

definition RecordPhase ::
  "string \<Rightarrow> string \<Rightarrow> int \<Rightarrow> string \<Rightarrow> string \<Rightarrow> (string \<times> string) list \<Rightarrow> helper_db \<Rightarrow> helper_db result" where
  "RecordPhase now operationID token phase outcome facts db =
     bind_result (verifyFence operationID token db) (\<lambda>_.
     let P = (\<lambda>o'. o_operation_id o' = operationID \<and> o_fencing_token o' = Some token \<and> o_state o' = StateExecuting);
         db1 = update_ops P (\<lambda>o'. o'\<lparr>o_current_phase := phase, o_updated_at := now\<rparr>) db
     in if sql_count P (operations db) \<noteq> 1 then Inl (Errorf ''stale executor cannot record lifecycle phase'')
     else bind_result (op_row_of operationID db1) (\<lambda>o'.
       Inr (appendEvent operationID (o_installation_id o') (Some token) (''lifecycle_phase_'' @ outcome)
         phase facts now db1)))"

text \<open>\<open>json.Marshal\<close> of the result and its size check.\<close>

definition encode_result :: "json option \<Rightarrow> string \<Rightarrow> json option result" where
  "encode_result r message = (case r of None \<Rightarrow> Inr None
     | Some v \<Rightarrow> if maxResultBytes < length (json_encode v) then Inl (Errorf message) else Inr (Some v))"

definition get_response :: "string \<Rightarrow> string \<Rightarrow> helper_db \<Rightarrow> Response result" where
  "get_response operationID requestID db =
     bind_result (op_row_of operationID db) (\<lambda>rec. Inr (responseFor rec requestID))"

text \<open>The branch of \<open>Complete\<close> for an outcome that needs reconciliation.\<close>

definition require_reconciliation ::
  "string \<Rightarrow> string \<Rightarrow> int \<Rightarrow> string \<Rightarrow> helper_db \<Rightarrow> helper_db result" where
  "require_reconciliation now operationID token detail db =
     (let newToken = token + 1;
          P = (\<lambda>o'. o_operation_id o' = operationID \<and> o_fencing_token o' = Some token \<and> o_state o' = StateExecuting);
          db1 = update_ops P (\<lambda>o'. o'\<lparr>o_state := StateActionRequired,
            o_current_phase := ''runtime_reconciliation_required'', o_outcome_confidence := unknown_outcome,
            o_recovery_disposition := administrator_action, o_fencing_token := Some newToken,
            o_updated_at := now, o_completed_at := Some now, o_error_code := ''RecoveryRequired'',
            o_error_detail := detail\<rparr>) db
      in if sql_count P (operations db) \<noteq> 1 then Inl (Errorf ''stale executor cannot require reconciliation'')
      else bind_result (op_row_of operationID db1) (\<lambda>o'.
        let scope = o_installation_id o';
            db2 = update_leases (\<lambda>l. l_installation_id l = scope \<and> l_operation_id l = operationID
                    \<and> l_fencing_token l = token \<and> l_state l = Held)
              (\<lambda>l. l\<lparr>l_fencing_token := newToken, l_state := RecoveryRequired, l_updated_at := now,
                 l_recovery_required := True\<rparr>) db1
        in Inr (appendEvent operationID scope (Some newToken) ''runtime_reconciliation_required''
             ''runtime_reconciliation_required'' [] now db2)))"

text \<open>The branch that commits the result and releases the lease.\<close>

definition commit_completion ::
  "string \<Rightarrow> string \<Rightarrow> int \<Rightarrow> op_state \<Rightarrow> outcome_confidence \<Rightarrow> recovery_disposition \<Rightarrow> json option \<Rightarrow>
   string \<Rightarrow> string \<Rightarrow> helper_db \<Rightarrow> helper_db result" where
  "commit_completion now operationID token state outcome recovery resultJSON errorCode detail db =
     (let P = (\<lambda>o'. o_operation_id o' = operationID \<and> o_fencing_token o' = Some token \<and> o_state o' = StateExecuting);
          db1 = update_ops P (\<lambda>o'. o'\<lparr>o_state := state, o_current_phase := ''completed'',
            o_outcome_confidence := outcome, o_recovery_disposition := recovery, o_updated_at := now,
            o_completed_at := Some now, o_result_json := resultJSON, o_error_code := errorCode,
            o_error_detail := detail\<rparr>) db
      in if sql_count P (operations db) \<noteq> 1 then Inl (Errorf ''stale executor cannot commit operation result'')
      else bind_result (op_row_of operationID db1) (\<lambda>o'.
        let scope = o_installation_id o';
            db2 = appendEvent operationID scope (Some token) (''operation_'' @ op_state_text state) ''completed'' [] now db1;
            L = (\<lambda>l. l_installation_id l = scope \<and> l_operation_id l = operationID
                    \<and> l_fencing_token l = token \<and> l_state l = Held)
        in if sql_count L (leases db2) \<noteq> 1 then Inl (Errorf ''stale executor cannot release operation lease'')
        else Inr (update_leases L (\<lambda>l. l\<lparr>l_state := Released, l_updated_at := now,
               l_recovery_required := False\<rparr>) db2)))"

definition Complete ::
  "string \<Rightarrow> string \<Rightarrow> int \<Rightarrow> Response \<Rightarrow> helper_db \<Rightarrow> Response result \<times> helper_db" where
  "Complete now operationID token response db =
     (case encode_result (rs_Result response) ''operation result too large'' of
        Inl e \<Rightarrow> (Inl e, db)
      | Inr resultJSON \<Rightarrow>
        let (state, outcome, recovery) =
              (if rs_OK response then (StateSucceeded, confirmed_applied, rd_completed)
               else (StateFailed, mixed_outcome, retry_after_validation));
            errorCode = (if rs_OK response then []
               else if rs_ErrorCode response = [] then ''ExecutionFailed'' else rs_ErrorCode response);
            detail = (if rs_OK response then [] else sanitize (rs_Error response));
            attempt = bind_result (verifyFence operationID token db) (\<lambda>_.
              if rs_ErrorCode response = ''RecoveryRequired''
              then require_reconciliation now operationID token detail db
              else commit_completion now operationID token state outcome recovery resultJSON errorCode detail db)
        in (case attempt of Inl e \<Rightarrow> (Inl e, db)
            | Inr db' \<Rightarrow> (get_response operationID (rs_RequestID response) db', db')))"

text \<open>The transaction of \<open>CompleteRecovery\<close>.\<close>

definition commit_recovery ::
  "string \<Rightarrow> string \<Rightarrow> int \<Rightarrow> op_state \<Rightarrow> outcome_confidence \<Rightarrow> json option \<Rightarrow> string \<Rightarrow> string \<Rightarrow>
   helper_db \<Rightarrow> helper_db result" where
  "commit_recovery now operationID token state outcome resultJSON errorCode detail db =
     (let P = (\<lambda>o'. o_operation_id o' = operationID \<and> o_fencing_token o' = Some token \<and> o_state o' = StateActionRequired)
      in bind_result (sql_row P (operations db)) (\<lambda>o'.
        let installation = o_installation_id o';
            db1 = update_ops P (\<lambda>o'. o'\<lparr>o_state := state, o_current_phase := ''recovery_completed'',
              o_outcome_confidence := outcome, o_recovery_disposition := rd_completed, o_updated_at := now,
              o_completed_at := Some now, o_result_json := resultJSON, o_error_code := errorCode,
              o_error_detail := detail\<rparr>) db;
            L = (\<lambda>l. l_installation_id l = installation \<and> l_operation_id l = operationID
              \<and> l_fencing_token l = token \<and> l_state l = RecoveryRequired);
            db2 = update_leases L (\<lambda>l. l\<lparr>l_state := Released, l_updated_at := now,
              l_recovery_required := False\<rparr>) db1
        in if sql_count P (operations db) \<noteq> 1
           then Inl (Errorf ''stale recovery executor cannot commit operation result'')
           else if sql_count L (leases db1) \<noteq> 1
           then Inl (Errorf ''stale recovery executor cannot release operation lease'')
           else Inr (appendEvent operationID installation (Some token)
             (''operation_'' @ op_state_text state) ''recovery_completed'' [] now db2)))"

definition CompleteRecovery ::
  "string \<Rightarrow> string \<Rightarrow> int \<Rightarrow> Response \<Rightarrow> helper_db \<Rightarrow> Response result \<times> helper_db" where
  "CompleteRecovery now operationID token response db =
     (case encode_result (rs_Result response) ''recovery result is invalid'' of
        Inl e \<Rightarrow> (Inl e, db)
      | Inr resultJSON \<Rightarrow>
        let (state, outcome) =
              (if rs_OK response then (StateSucceeded, confirmed_applied) else (StateFailed, confirmed_absent));
            errorCode = (if rs_OK response then []
               else if rs_ErrorCode response = [] then ''RecoveryRolledBack'' else rs_ErrorCode response);
            detail = (if rs_OK response then [] else sanitize (rs_Error response))
        in (case commit_recovery now operationID token state outcome resultJSON errorCode detail db of
              Inl e \<Rightarrow> (Inl e, db)
            | Inr db' \<Rightarrow> (get_response operationID (rs_RequestID response) db', db')))"

section \<open>Restart recovery\<close>

definition is_interrupted :: "op_state \<Rightarrow> bool" where
  "is_interrupted s = (s \<in> set [StateAccepted, StateExecuting, StateReconciling])"

definition markReconciling :: "string \<Rightarrow> string \<Rightarrow> helper_db \<Rightarrow> helper_db result" where
  "markReconciling now operationID db =
     bind_result (op_row_of operationID db) (\<lambda>o'.
     bind_result (scan_token o') (\<lambda>t.
     let scope = o_installation_id o'; token = t + 1;
         db1 = update_ops (\<lambda>o'. o_operation_id o' = operationID)
           (\<lambda>o'. o'\<lparr>o_state := StateReconciling, o_current_phase := ''restart_observation'',
              o_outcome_confidence := unknown_outcome, o_recovery_disposition := reconcile_first,
              o_fencing_token := Some token, o_updated_at := now\<rparr>) db;
         db2 = update_leases (\<lambda>l. l_installation_id l = scope \<and> l_operation_id l = operationID)
           (\<lambda>l. l\<lparr>l_fencing_token := token, l_state := RecoveryRequired, l_updated_at := now,
              l_recovery_required := True\<rparr>) db1
     in Inr (appendEvent operationID scope (Some token) ''restart_reconciliation_started''
          ''restart_observation'' [] now db2)))"

definition recoverOne :: "string \<Rightarrow> string \<Rightarrow> op_state \<Rightarrow> helper_db \<Rightarrow> helper_db result" where
  "recoverOne now operationID priorState db =
     bind_result (op_row_of operationID db) (\<lambda>o'.
     let scope = o_installation_id o' in
     bind_result (sql_row (\<lambda>l. l_installation_id l = scope \<and> l_operation_id l = operationID) (leases db)) (\<lambda>lease.
     let token = l_fencing_token lease;
         L = (\<lambda>l. l_installation_id l = scope \<and> l_operation_id l = operationID) in
     if priorState = StateAccepted then
       Inr (appendEvent operationID scope (Some token) ''restart_classified_no_mutation'' ''restart_before_mutation'' [] now
         (update_leases L (\<lambda>l. l\<lparr>l_state := Released, l_updated_at := now, l_recovery_required := False\<rparr>)
         (update_ops (\<lambda>o'. o_operation_id o' = operationID)
           (\<lambda>o'. o'\<lparr>o_state := StateFailed, o_current_phase := ''restart_before_mutation'',
              o_outcome_confidence := confirmed_absent, o_recovery_disposition := retry_after_validation,
              o_updated_at := now, o_completed_at := Some now, o_error_code := ''HelperRestarted'',
              o_error_detail := ''helper restarted before mutation intent was recorded''\<rparr>) db)))
     else
       Inr (appendEvent operationID scope (Some token) ''restart_requires_administrator'' ''interrupted_legacy_mutation'' [] now
         (update_leases L (\<lambda>l. l\<lparr>l_state := RecoveryRequired, l_updated_at := now, l_recovery_required := True\<rparr>)
         (update_ops (\<lambda>o'. o_operation_id o' = operationID)
           (\<lambda>o'. o'\<lparr>o_state := StateActionRequired, o_current_phase := ''interrupted_legacy_mutation'',
              o_outcome_confidence := unknown_outcome, o_recovery_disposition := administrator_action,
              o_updated_at := now, o_completed_at := Some now, o_error_code := ''RecoveryRequired'',
              o_error_detail := ''helper restarted after mutation intent; inspect the installation before releasing the recovery lock''\<rparr>) db)))))"

text \<open>
  \<open>RecoverInterrupted\<close> reads the interrupted operations ordered by acceptance time and
  recovers them one after the other, each in two transactions. An error stops the loop and
  keeps what was committed.
\<close>

fun recover_items :: "string \<Rightarrow> (string \<times> op_state) list \<Rightarrow> helper_db \<Rightarrow> unit result \<times> helper_db" where
  "recover_items now [] db = (Inr (), db)"
| "recover_items now ((operationID, prior) # items) db =
     (case markReconciling now operationID db of Inl e \<Rightarrow> (Inl e, db) | Inr db1 \<Rightarrow>
       (case recoverOne now operationID prior db1 of Inl e \<Rightarrow> (Inl e, db1) | Inr db2 \<Rightarrow> recover_items now items db2))"

definition interrupted_items :: "helper_db \<Rightarrow> (string \<times> op_state) list" where
  "interrupted_items db = map (\<lambda>o'. (o_operation_id o', o_state o'))
     (sort_key o_accepted_at (filter (\<lambda>o'. is_interrupted (o_state o')) (operations db)))"

definition RecoverInterrupted :: "string \<Rightarrow> helper_db \<Rightarrow> nat result \<times> helper_db" where
  "RecoverInterrupted now db =
     (case recover_items now (interrupted_items db) db of
        (Inl e, db') \<Rightarrow> (Inl e, db')
      | (Inr _, db') \<Rightarrow> (Inr (length (interrupted_items db)), db'))"

definition ResolveActionRequired :: "string \<Rightarrow> string \<Rightarrow> helper_db \<Rightarrow> helper_db result" where
  "ResolveActionRequired now operationID db =
     bind_result (sql_row (\<lambda>o'. o_operation_id o' = operationID \<and> o_state o' = StateActionRequired) (operations db)) (\<lambda>o'.
     let scope = o_installation_id o' in
     bind_result (sql_row (\<lambda>l. l_installation_id l = scope \<and> l_operation_id l = operationID
                           \<and> l_state l = RecoveryRequired) (leases db)) (\<lambda>lease.
     let token = l_fencing_token lease in
     Inr (appendEvent operationID scope (Some token) ''administrator_released_recovery_lock'' ''administrator_resolved'' [] now
       (update_leases (\<lambda>l. l_installation_id l = scope \<and> l_operation_id l = operationID \<and> l_fencing_token l = token)
         (\<lambda>l. l\<lparr>l_state := Released, l_updated_at := now, l_recovery_required := False\<rparr>)
       (update_ops (\<lambda>o'. o_operation_id o' = operationID)
         (\<lambda>o'. o'\<lparr>o_state := StateFailed, o_current_phase := ''administrator_resolved'',
            o_recovery_disposition := rd_completed, o_updated_at := now, o_completed_at := Some now,
            o_error_code := ''AdministratorResolved'',
            o_error_detail := ''administrator inspected the interrupted operation and released its recovery lock''\<rparr>) db)))))"

end
