(* ===== verification/Gen_Fence.thy ===== *)
theory Gen_Fence
  imports Coordinator
begin

text \<open>
  The fences of the generation store (\<^verbatim>\<open>internal/lifecycle/store.go\<close> and
  \<^verbatim>\<open>multi_store.go\<close>) and the statements by which its recovery transactions settle an
  operation and its lease.
\<close>

text \<open>
  \<open>SELECT l.\<dots>, o.fencing_token FROM installation_leases l JOIN helper_operations o ON
  o.operation_id = l.operation_id WHERE l.installation_id = ?\<close>
\<close>

definition verifyGenerationFence :: "string \<Rightarrow> string \<Rightarrow> int \<Rightarrow> helper_db \<Rightarrow> unit result" where
  "verifyGenerationFence installation operation token db =
     bind_result (sql_row (\<lambda>l. l_installation_id l = installation) (leases db)) (\<lambda>l.
     bind_result (op_row_of (l_operation_id l) db) (\<lambda>o'.
     bind_result (scan_token o') (\<lambda>operationToken.
     if l_operation_id l \<noteq> operation \<or> l_state l \<noteq> Held \<or> l_fencing_token l \<noteq> token \<or> operationToken \<noteq> token
     then Inl (Errorf ''stale fencing token cannot commit generation'') else Inr ())))"

text \<open>
  The fence of \<open>RecoverForward\<close>: the operation waits for recovery and its installation's
  lease is quarantined under it with the same token, which is returned.
\<close>

definition recovery_fence :: "string \<Rightarrow> string \<Rightarrow> helper_db \<Rightarrow> int result" where
  "recovery_fence message operation db =
     bind_result (op_row_of operation db) (\<lambda>o'.
     bind_result (sql_row (\<lambda>l. l_installation_id l = o_installation_id o') (leases db)) (\<lambda>l.
     bind_result (scan_token o') (\<lambda>operationToken.
     if o_state o' \<noteq> StateActionRequired \<or> l_state l \<noteq> RecoveryRequired \<or> l_operation_id l \<noteq> operation
        \<or> operationToken \<noteq> l_fencing_token l
     then Inl (Errorf message) else Inr operationToken)))"

text \<open>The fence of \<open>FinalizeCommittedRecovery\<close>, one joined query with all conditions.\<close>

definition committed_fence :: "string \<Rightarrow> helper_db \<Rightarrow> int result" where
  "committed_fence operation db =
     (case op_row_of operation db of Inl e \<Rightarrow> Inl e
      | Inr o' \<Rightarrow>
        (case sql_row (\<lambda>l. l_installation_id l = o_installation_id o' \<and> l_operation_id l = operation
             \<and> o_fencing_token o' = Some (l_fencing_token l) \<and> l_state l = RecoveryRequired) (leases db) of
           Inl e \<Rightarrow> Inl e
         | Inr l \<Rightarrow> if o_state o' = StateActionRequired then scan_token o' else Inl ErrNoRows))"

text \<open>
  The two closing \<open>UPDATE\<close> statements: the operation succeeded with a result, the lease is
  released. \<open>only\<close> says that the statements repeat the token and state conditions.
\<close>

definition settle_recovered ::
  "bool \<Rightarrow> string \<Rightarrow> string \<Rightarrow> json \<Rightarrow> string \<Rightarrow> string \<Rightarrow> int \<Rightarrow> helper_db \<Rightarrow> helper_db" where
  "settle_recovered only now phase res installation operation token db =
     update_leases (\<lambda>l. l_installation_id l = installation \<and> l_operation_id l = operation
         \<and> l_fencing_token l = token \<and> (only \<longrightarrow> l_state l = RecoveryRequired))
       (\<lambda>l. l\<lparr>l_state := Released, l_recovery_required := False, l_updated_at := now\<rparr>)
     (update_ops (\<lambda>o'. o_operation_id o' = operation \<and> o_state o' = StateActionRequired
         \<and> (only \<longrightarrow> o_fencing_token o' = Some token))
       (\<lambda>o'. o'\<lparr>o_state := StateSucceeded, o_current_phase := phase, o_outcome_confidence := confirmed_applied,
          o_recovery_disposition := rd_completed, o_result_json := Some res, o_error_code := [],
          o_error_detail := [], o_updated_at := now, o_completed_at := Some now\<rparr>) db)"

end
