(* ===== verification/Go_Net.thy ===== *)
theory Go_Net
  imports Go_Codec
begin

text \<open>
  The parts of Go's \<open>net\<close> package the program uses: \<open>ParseIP\<close>, the predicates on
  addresses and their textual form. An address is its list of bytes; \<open>ParseIP\<close> returns
  the 16-byte form, in which an IPv4 address has the prefix \<open>::ffff\<close>.
\<close>

section \<open>Parsing\<close>

definition is_hex :: "char \<Rightarrow> bool" where
  "is_hex c = (is_hex_lower c \<or> (CHR ''A'' \<le> c \<and> c \<le> CHR ''F''))"

definition hex_val :: "char \<Rightarrow> nat" where
  "hex_val c = (if is_digit c then of_char c - 48
     else if is_lower c then of_char c - 87 else of_char c - 55)"

definition hex_number :: "string \<Rightarrow> nat" where
  "hex_number s = fold (\<lambda>c acc. acc * 16 + hex_val c) s 0"

text \<open>A field of a dotted address: digits, no superfluous leading zero, at most 255.\<close>

definition parse_octet :: "string \<Rightarrow> nat option" where
  "parse_octet f = (if f = [] \<or> \<not> list_all is_digit f \<or> (1 < length f \<and> hd f = CHR ''0'')
     \<or> 255 < digits_value 0 f then None else Some (digits_value 0 f))"

fun parse_octets :: "string list \<Rightarrow> nat list option" where
  "parse_octets [] = Some []"
| "parse_octets (f # fs) = (case parse_octet f of None \<Rightarrow> None
     | Some v \<Rightarrow> map_option ((#) v) (parse_octets fs))"

definition parse_ipv4 :: "string \<Rightarrow> nat list option" where
  "parse_ipv4 s = (let fs = split_on (CHR ''.'') s in if length fs = 4 then parse_octets fs else None)"

text \<open>
  The loop of the IPv6 parser: the bytes read so far, the position of the ellipsis and the
  text left.
\<close>

function v6_loop :: "nat list \<Rightarrow> nat option \<Rightarrow> string \<Rightarrow> (nat list \<times> nat option \<times> string) option" where
  "v6_loop ip ell s =
     (if 16 \<le> length ip then Some (ip, ell, s)
      else let g = takeWhile is_hex s; rest = dropWhile is_hex s; v = hex_number g;
             ip' = ip @ [v div 256, v mod 256] in
        if g = [] \<or> 4 < length g then None
        else case rest of
            [] \<Rightarrow> Some (ip', ell, [])
          | c # s1 \<Rightarrow>
            if c = CHR ''.'' then
              (if (ell = None \<and> length ip \<noteq> 12) \<or> 16 < length ip + 4 then None
               else map_option (\<lambda>b. (ip @ b, ell, [])) (parse_ipv4 s))
            else if c \<noteq> CHR '':'' \<or> s1 = [] then None
            else if hd s1 = CHR '':'' then
              (if ell \<noteq> None then None
               else if tl s1 = [] then Some (ip', Some (length ip'), [])
               else v6_loop ip' (Some (length ip')) (tl s1))
            else v6_loop ip' ell s1)"
  by pat_completeness auto
termination
proof (relation "measure (\<lambda>(_, _, s). length s)")
  fix ip :: "nat list" and ell :: "nat option" and s g rest v ip' c s1
  assume "rest = dropWhile is_hex s" "rest = c # s1"
  then have "length (c # s1) \<le> length s" by (metis length_dropWhile_le)
  then show "((ip', ell, s1), ip, ell, s) \<in> measure (\<lambda>(_, _, s). length s)"
    and "((ip', Some (length ip'), tl s1), ip, ell, s) \<in> measure (\<lambda>(_, _, s). length s)"
    by auto
qed simp

declare v6_loop.simps [simp del]

definition parse_ipv6 :: "string \<Rightarrow> nat list option" where
  "parse_ipv6 s =
     (let lead = has_prefix ''::'' s; s' = (if lead then drop 2 s else s) in
      if lead \<and> s' = [] then Some (replicate 16 0)
      else case v6_loop [] (if lead then Some 0 else None) s' of
          None \<Rightarrow> None
        | Some (ip, ell, rest) \<Rightarrow>
          if rest \<noteq> [] then None
          else if length ip < 16 then
            (case ell of None \<Rightarrow> None
             | Some e \<Rightarrow> Some (take e ip @ replicate (16 - length ip) 0 @ drop e ip))
          else if ell \<noteq> None then None else Some ip)"

definition v4_mapped :: "nat list" where
  "v4_mapped = replicate 10 0 @ [255, 255]"

text \<open>An address with a zone is not an IP address for \<open>ParseIP\<close>.\<close>

definition ParseIP :: "string \<Rightarrow> nat list option" where
  "ParseIP s =
     (case find (\<lambda>c. c \<in> {CHR ''.'', CHR '':'', CHR ''%''}) s of
        Some CHR ''.'' \<Rightarrow> map_option ((@) v4_mapped) (parse_ipv4 s)
      | Some CHR '':'' \<Rightarrow> if CHR ''%'' \<in> set s then None else parse_ipv6 s
      | _ \<Rightarrow> None)"

lemma ParseIP_cases:
  assumes "ParseIP s = Some ip"
  obtains (v4) b where "parse_ipv4 s = Some b" "ip = v4_mapped @ b" | (v6) "parse_ipv6 s = Some ip"
proof -
  let ?f = "find (\<lambda>c. c \<in> {CHR ''.'', CHR '':'', CHR ''%''}) s"
  consider "?f = None" | "?f = Some CHR ''.''" | "?f = Some CHR '':''" | "?f = Some CHR ''%''"
    by (cases ?f) (auto dest: find_SomeD)
  then show ?thesis
    using assms that by cases (auto simp: ParseIP_def split: if_splits)
qed

section \<open>Predicates\<close>

definition To4 :: "nat list \<Rightarrow> nat list option" where
  "To4 ip = (if length ip = 4 then Some ip
     else if length ip = 16 \<and> take 12 ip = v4_mapped then Some (drop 12 ip) else None)"

definition IsUnspecified :: "nat list \<Rightarrow> bool" where
  "IsUnspecified ip = (To4 ip = Some [0, 0, 0, 0] \<or> ip = replicate 16 0)"

definition IsLoopback :: "nat list \<Rightarrow> bool" where
  "IsLoopback ip = (case To4 ip of Some b \<Rightarrow> b ! 0 = 127 | None \<Rightarrow> ip = replicate 15 0 @ [1])"

definition IsMulticast :: "nat list \<Rightarrow> bool" where
  "IsMulticast ip = (case To4 ip of Some b \<Rightarrow> b ! 0 div 16 = 14 | None \<Rightarrow> length ip = 16 \<and> ip ! 0 = 255)"

definition IsLinkLocalUnicast :: "nat list \<Rightarrow> bool" where
  "IsLinkLocalUnicast ip = (case To4 ip of Some b \<Rightarrow> b ! 0 = 169 \<and> b ! 1 = 254
     | None \<Rightarrow> length ip = 16 \<and> ip ! 0 = 254 \<and> ip ! 1 div 64 = 2)"

definition ip_equal :: "nat list \<Rightarrow> nat list \<Rightarrow> bool" where
  "ip_equal a b = (a = b \<or> (case (To4 a, To4 b) of (Some x, Some y) \<Rightarrow> x = y | _ \<Rightarrow> False))"

section \<open>Text\<close>

definition ipv4_string :: "nat list \<Rightarrow> string" where
  "ipv4_string bs = join_with ''.'' (map nat_digits bs)"

fun hex_group :: "nat \<Rightarrow> string" where
  "hex_group n = (if n < 16 then [hex_digit n] else hex_group (n div 16) @ [hex_digit (n mod 16)])"

declare hex_group.simps [simp del]

definition groups16 :: "nat list \<Rightarrow> nat list" where
  "groups16 ip = map (\<lambda>i. ip ! (2 * i) * 256 + ip ! (2 * i + 1)) [0..<8]"

text \<open>The first longest run of at least two zero groups, as start and end.\<close>

definition zero_run :: "nat list \<Rightarrow> nat \<times> nat" where
  "zero_run gs = fold (\<lambda>i (zs, ze).
     let l = length (takeWhile (\<lambda>g. g = 0) (drop i gs))
     in if 2 \<le> l \<and> ze - zs < l then (i, i + l) else (zs, ze)) [0..<8] (255, 255)"

definition ipv6_string :: "nat list \<Rightarrow> string" where
  "ipv6_string ip =
     (let gs = groups16 ip; (zs, ze) = zero_run gs; text = (\<lambda>xs. join_with '':'' (map hex_group xs)) in
      if zs = 255 then text gs else text (take zs gs) @ ''::'' @ text (drop ze gs))"

definition ip_string :: "nat list \<Rightarrow> string" where
  "ip_string ip = (case To4 ip of Some b \<Rightarrow> ipv4_string b | None \<Rightarrow> ipv6_string ip)"

end
