(* ===== verification/Exposure.thy ===== *)
theory Exposure
  imports Go_Net
begin

text \<open>
  \<^verbatim>\<open>internal/exposure\<close>: service bindings, their validation, host port allocation, conflict
  detection, comparison with the bindings a container runtime reports, and the table of
  exposure assignments.
\<close>

section \<open>Bindings\<close>

text \<open>\<open>Mode\<close> and \<open>Transport\<close> are string types in the source.\<close>

definition Internal :: string where "Internal = ''internal''"
definition Loopback :: string where "Loopback = ''loopback''"
definition LAN :: string where "LAN = ''lan''"
definition TCP :: string where "TCP = ''tcp''"
definition UDP :: string where "UDP = ''udp''"

definition FirstPort :: int where "FirstPort = 20000"
definition LastPort :: int where "LastPort = 29999"
definition MaxBindings :: nat where "MaxBindings = 8"

record Assignment =
  as_Mode :: string
  as_Address :: string
  as_Port :: int

record Binding =
  eb_ServiceID :: string
  eb_Transport :: string
  eb_ContainerPort :: int
  eb_Mode :: string
  eb_HostAddress :: string
  eb_HostPort :: int

text \<open>
  \<open>sort.Slice\<close> orders by service ID; bindings with the same ID may come out in any
  order, here in the order they had.
\<close>

definition Normalize :: "Binding list \<Rightarrow> Binding list" where
  "Normalize bs = sort_key eb_ServiceID bs"

definition validateAddress :: "string \<Rightarrow> string \<Rightarrow> int \<Rightarrow> string \<Rightarrow> unit result" where
  "validateAddress mode address port configuredLAN =
     (if mode = Internal then
        (if address \<noteq> [] then Inl (Errorf ''internal exposure cannot bind a host'') else Inr ())
      else if mode = Loopback then
        (case ParseIP address of
           None \<Rightarrow> Inl (Errorf ''loopback address required'')
         | Some ip \<Rightarrow> if \<not> IsLoopback ip \<or> port = 0 then Inl (Errorf ''loopback address required'') else Inr ())
      else if mode = LAN then
        (case ParseIP address of
           None \<Rightarrow> Inl (Errorf ''LAN address is not the configured host address'')
         | Some ip \<Rightarrow>
           if IsLoopback ip \<or> IsUnspecified ip \<or> IsMulticast ip \<or> IsLinkLocalUnicast ip
              \<or> address \<noteq> configuredLAN \<or> port = 0
           then Inl (Errorf ''LAN address is not the configured host address'') else Inr ())
      else Inl (Errorf ''unsupported exposure mode''))"

definition ValidateBinding :: "Binding \<Rightarrow> string \<Rightarrow> int \<Rightarrow> unit result" where
  "ValidateBinding b configuredLAN fixedHostPort =
     (if eb_ServiceID b = [] \<or> eb_ContainerPort b < 1 \<or> 65535 < eb_ContainerPort b
         \<or> (eb_Transport b \<noteq> TCP \<and> eb_Transport b \<noteq> UDP)
      then Inl (Errorf ''invalid service binding'')
      else if fixedHostPort \<noteq> 0 \<and> (fixedHostPort < 1 \<or> 65535 < fixedHostPort \<or> eb_HostPort b \<noteq> fixedHostPort)
      then Inl (Errorf ''host port does not match trusted fixed-port policy'')
      else if fixedHostPort = 0 \<and> eb_HostPort b \<noteq> 0 \<and> (eb_HostPort b < FirstPort \<or> LastPort < eb_HostPort b)
      then Inl (Errorf ''host port outside approved range'')
      else validateAddress (eb_Mode b) (eb_HostAddress b) (eb_HostPort b) configuredLAN)"

definition Validate :: "Assignment \<Rightarrow> string \<Rightarrow> unit result" where
  "Validate a configuredLAN =
     (if as_Mode a = Internal then
        (if as_Address a \<noteq> [] \<or> (as_Port a \<noteq> 0 \<and> (as_Port a < FirstPort \<or> LastPort < as_Port a))
         then Inl (Errorf ''internal exposure cannot bind a host'') else Inr ())
      else if as_Mode a = Loopback then
        (case ParseIP (as_Address a) of
           None \<Rightarrow> Inl (Errorf ''loopback address required'')
         | Some ip \<Rightarrow> if \<not> IsLoopback ip then Inl (Errorf ''loopback address required'')
            else if as_Port a < FirstPort \<or> LastPort < as_Port a then Inl (Errorf ''host port outside approved range'')
            else Inr ())
      else if as_Mode a = LAN then
        (case ParseIP (as_Address a) of
           None \<Rightarrow> Inl (Errorf ''LAN address is not the configured host address'')
         | Some ip \<Rightarrow>
           if IsLoopback ip \<or> IsUnspecified ip \<or> IsMulticast ip \<or> IsLinkLocalUnicast ip
              \<or> as_Address a \<noteq> configuredLAN
           then Inl (Errorf ''LAN address is not the configured host address'')
           else if as_Port a < FirstPort \<or> LastPort < as_Port a then Inl (Errorf ''host port outside approved range'')
           else Inr ())
      else Inl (Errorf ''unsupported exposure mode''))"

definition ContainerProtocol :: "string \<Rightarrow> string result" where
  "ContainerProtocol protocol =
     (if protocol \<in> set [''http'', ''https'', ''tcp''] then Inr ''tcp''
      else if protocol = ''udp'' then Inr ''udp''
      else Inl (Errorf ''unsupported service protocol''))"

definition TransportFor :: "string \<Rightarrow> string result" where
  "TransportFor protocol = ContainerProtocol protocol"

section \<open>Conflicts\<close>

definition addressesOverlap :: "string \<Rightarrow> string \<Rightarrow> bool" where
  "addressesOverlap a b =
     (case (ParseIP a, ParseIP b) of
        (Some aIP, Some bIP) \<Rightarrow>
          if (To4 aIP = None) \<noteq> (To4 bIP = None) then False
          else IsUnspecified aIP \<or> IsUnspecified bIP \<or> ip_equal aIP bIP
      | _ \<Rightarrow> a = b)"

definition BindingsConflict :: "Binding \<Rightarrow> Binding \<Rightarrow> bool" where
  "BindingsConflict a b =
     (if eb_Transport a \<noteq> eb_Transport b \<or> eb_HostPort a = 0 \<or> eb_HostPort a \<noteq> eb_HostPort b
         \<or> eb_Mode a = Internal \<or> eb_Mode b = Internal
      then False else addressesOverlap (eb_HostAddress a) (eb_HostAddress b))"

text \<open>The outer loop visits binding \<open>i\<close> with the bindings before it.\<close>

fun conflicts_loop :: "Binding list \<Rightarrow> Binding list \<Rightarrow> unit result" where
  "conflicts_loop before [] = Inr ()"
| "conflicts_loop before (b # bs) =
     (if eb_Mode b = Internal then conflicts_loop (before @ [b]) bs
      else if list_ex (BindingsConflict b) before then Inl (Errorf ''binding conflict'')
      else conflicts_loop (before @ [b]) bs)"

definition ValidateConflicts :: "Binding list \<Rightarrow> unit result" where
  "ValidateConflicts bs = conflicts_loop [] bs"

section \<open>Observed bindings\<close>

text \<open>
  A decoded \<open>map[string]any\<close> is an association list with distinct keys. \<open>match_items\<close> is
  the inner loop with its \<open>matched\<close> flags; the first unmatched expected binding with the
  item's address and port is used up.
\<close>

type_synonym observed = "(string \<times> json) list"

definition port_key :: "int \<Rightarrow> string \<Rightarrow> string" where
  "port_key port transport = itoa port @ ''/'' @ transport"

definition wanted_keys :: "Binding list \<Rightarrow> string list" where
  "wanted_keys expected = remdups (map (\<lambda>b. port_key (eb_ContainerPort b) (eb_Transport b))
     (filter (\<lambda>b. eb_Mode b \<noteq> Internal) expected))"

definition wanted_items :: "Binding list \<Rightarrow> string \<Rightarrow> Binding list" where
  "wanted_items expected key = filter (\<lambda>b. eb_Mode b \<noteq> Internal
     \<and> port_key (eb_ContainerPort b) (eb_Transport b) = key) expected"

definition item_socket :: "json \<Rightarrow> (string \<times> string) option" where
  "item_socket item = (case item of
     JObj fs \<Rightarrow> if length fs \<noteq> 2 then None
       else (case (map_of fs ''HostIp'', map_of fs ''HostPort'') of
               (Some (JStr ip), Some (JStr port)) \<Rightarrow> Some (ip, port) | _ \<Rightarrow> None)
   | _ \<Rightarrow> None)"

fun take_first :: "('a \<Rightarrow> bool) \<Rightarrow> bool list \<Rightarrow> 'a list \<Rightarrow> bool list option" where
  "take_first P (m # ms) (x # xs) =
     (if \<not> m \<and> P x then Some (True # ms) else map_option ((#) m) (take_first P ms xs))"
| "take_first P _ _ = None"

fun match_items :: "Binding list \<Rightarrow> bool list \<Rightarrow> json list \<Rightarrow> bool" where
  "match_items expected matched [] = True"
| "match_items expected matched (item # items) =
     (case item_socket item of None \<Rightarrow> False
      | Some (ip, port) \<Rightarrow>
        (case take_first (\<lambda>b. ip = eb_HostAddress b \<and> port = itoa (eb_HostPort b)) matched expected of
           None \<Rightarrow> False
         | Some matched' \<Rightarrow> match_items expected matched' items))"

definition ObservedBindingsExactSet :: "Binding list \<Rightarrow> observed \<Rightarrow> bool" where
  "ObservedBindingsExactSet expected obs =
     (length (wanted_keys expected) = length obs \<and>
      list_all (\<lambda>key. case map_of obs key of
          Some (JArr items) \<Rightarrow>
            length items = length (wanted_items expected key)
            \<and> match_items (wanted_items expected key) (replicate (length (wanted_items expected key)) False) items
        | _ \<Rightarrow> False) (wanted_keys expected))"

definition ObservedBindingsExact :: "Assignment \<Rightarrow> int \<Rightarrow> string \<Rightarrow> observed \<Rightarrow> bool" where
  "ObservedBindingsExact a containerPort protocol bindings =
     (if as_Mode a = Internal then bindings = []
      else if \<not> is_ok (Validate a (as_Address a)) \<or> containerPort < 1 \<or> 65535 < containerPort then False
      else (case ContainerProtocol protocol of Inl _ \<Rightarrow> False
        | Inr runtimeProtocol \<Rightarrow>
          length bindings = 1 \<and>
          (case map_of bindings (port_key containerPort runtimeProtocol) of
             Some (JArr [item]) \<Rightarrow> item_socket item = Some (as_Address a, itoa (as_Port a))
           | _ \<Rightarrow> False)))"

section \<open>Port allocation\<close>

definition port_range :: "int list" where
  "port_range = [FirstPort..LastPort]"

definition Allocate :: "(int \<Rightarrow> bool) \<Rightarrow> int result" where
  "Allocate used = (case find (\<lambda>p. \<not> used p) port_range of
     Some p \<Rightarrow> Inr p | None \<Rightarrow> Inl (Errorf ''exposure port range exhausted''))"

text \<open>\<open>bindable transport address port\<close>: the kernel lets a socket bind there now.\<close>

definition AllocateAvailableTransport ::
  "(string \<Rightarrow> string \<Rightarrow> int \<Rightarrow> bool) \<Rightarrow> (int \<Rightarrow> bool) \<Rightarrow> string \<Rightarrow> string \<Rightarrow> int result" where
  "AllocateAvailableTransport bindable used address transport =
     (case find (\<lambda>p. \<not> used p \<and> bindable (if transport = UDP then UDP else TCP) address p) port_range of
        Some p \<Rightarrow> Inr p | None \<Rightarrow> Inl (Errorf ''no available exposure port''))"

section \<open>Kernel socket tables\<close>

text \<open>\<open>strings.Fields\<close>.\<close>

fun fields_runes :: "string \<Rightarrow> (nat \<times> string) list \<Rightarrow> string list" where
  "fields_runes w [] = (if w = [] then [] else [w])"
| "fields_runes w ((r, chunk) # rs) =
     (if is_space r then (if w = [] then fields_runes [] rs else w # fields_runes [] rs)
      else fields_runes (w @ chunk) rs)"

definition Fields :: "string \<Rightarrow> string list" where
  "Fields s = fields_runes [] (utf8_runes s)"

text \<open>\<open>strconv.ParseUint(s, 16, bits)\<close>.\<close>

definition ParseUint16 :: "nat \<Rightarrow> string \<Rightarrow> nat result" where
  "ParseUint16 bits s =
     (if s = [] \<or> \<not> list_all is_hex s then Inl (Errorf ''invalid syntax'')
      else if 2 ^ bits \<le> hex_number s then Inl (Errorf ''value out of range'') else Inr (hex_number s))"

fun map_result :: "('a \<Rightarrow> 'b result) \<Rightarrow> 'a list \<Rightarrow> 'b list result" where
  "map_result f [] = Inr []"
| "map_result f (x # xs) = bind_result (f x) (\<lambda>y. bind_result (map_result f xs) (\<lambda>ys. Inr (y # ys)))"

text \<open>Byte \<open>i\<close> of each 4-byte word comes from the pair of digits \<open>3 - i\<close> of that word.\<close>

definition proc_pairs :: "string \<Rightarrow> nat \<Rightarrow> string list" where
  "proc_pairs raw n = concat (map (\<lambda>word. map (\<lambda>i. take 2 (drop ((word * 4 + 3 - i) * 2) raw)) [0..<4]) [0..<n div 4])"

definition decodeProcAddress :: "string \<Rightarrow> bool \<Rightarrow> string result" where
  "decodeProcAddress raw ipv6 =
     (let want = (if ipv6 then 32 else 8) in
      if length raw \<noteq> want then Inl (Errorf ''invalid proc address'')
      else bind_result (map_result (ParseUint16 8) (proc_pairs raw (want div 2))) (\<lambda>bs. Inr (ip_string bs)))"

definition listener :: "string \<Rightarrow> string \<Rightarrow> nat \<Rightarrow> Binding" where
  "listener transport address port = \<lparr>eb_ServiceID = [], eb_Transport = transport, eb_ContainerPort = 0,
     eb_Mode = LAN, eb_HostAddress = address, eb_HostPort = int port\<rparr>"

text \<open>One line of a socket table: skipped, an error, or a listener.\<close>

definition proc_line :: "string \<Rightarrow> bool \<Rightarrow> string \<Rightarrow> Binding option result" where
  "proc_line transport ipv6 line =
     (let fs = Fields line in
      if length fs < 4 then Inr None
      else if transport = TCP \<and> fs ! 3 \<noteq> ''0A'' then Inr None
      else let parts = split_on (CHR '':'') (fs ! 1) in
        if length parts \<noteq> 2 then Inr None
        else bind_result (ParseUint16 16 (parts ! 1)) (\<lambda>port.
             bind_result (decodeProcAddress (parts ! 0) ipv6) (\<lambda>address.
             Inr (Some (listener transport address port)))))"

text \<open>\<open>bufio.Scanner\<close>: lines without their terminator; a line of 64 KiB or more is an error.\<close>

definition scan_lines :: "string \<Rightarrow> string list" where
  "scan_lines s = (let ls = split_on (CHR 0x0A) s in if last ls = [] then butlast ls else ls)"

definition drop_cr :: "string \<Rightarrow> string" where
  "drop_cr l = (if l \<noteq> [] \<and> last l = CHR 0x0D then butlast l else l)"

fun proc_lines :: "string \<Rightarrow> bool \<Rightarrow> string list \<Rightarrow> Binding list result" where
  "proc_lines transport ipv6 [] = Inr []"
| "proc_lines transport ipv6 (l # ls) =
     (if 65536 \<le> length l then Inl (Errorf ''bufio.Scanner: token too long'')
      else bind_result (proc_line transport ipv6 (drop_cr l)) (\<lambda>b.
           bind_result (proc_lines transport ipv6 ls) (\<lambda>bs.
           Inr ((case b of None \<Rightarrow> bs | Some x \<Rightarrow> x # bs)))))"

definition parseProcNet :: "string \<Rightarrow> string \<Rightarrow> bool \<Rightarrow> Binding list result" where
  "parseProcNet r transport ipv6 =
     (case scan_lines r of [] \<Rightarrow> Inr []
      | header # ls \<Rightarrow> if 65536 \<le> length header then Inl (Errorf ''bufio.Scanner: token too long'')
          else proc_lines transport ipv6 ls)"

text \<open>\<open>HostListeners\<close>; the argument gives each file's contents or the error of reading it.\<close>

definition HostListeners :: "(string \<Rightarrow> string result) \<Rightarrow> Binding list result" where
  "HostListeners read = bind_result (map_result (\<lambda>(path, transport, ipv6).
       bind_result (read path) (\<lambda>text. parseProcNet text transport ipv6))
     [(''/proc/net/tcp'', TCP, False), (''/proc/net/tcp6'', TCP, True),
      (''/proc/net/udp'', UDP, False), (''/proc/net/udp6'', UDP, True)]) (\<lambda>bss. Inr (concat bss))"

definition VerifyLocalAddress :: "(string \<Rightarrow> bool) \<Rightarrow> string \<Rightarrow> unit result" where
  "VerifyLocalAddress bindable address =
     (case ParseIP address of None \<Rightarrow> Inl (Errorf ''invalid LAN bind address'')
      | Some ip \<Rightarrow>
        if IsLoopback ip \<or> IsUnspecified ip \<or> IsMulticast ip \<or> IsLinkLocalUnicast ip
        then Inl (Errorf ''invalid LAN bind address'')
        else if bindable address then Inr () else Inl (Errorf ''LAN bind address is not assigned''))"

section \<open>The exposure table\<close>

record exposure_row =
  x_installation_id :: string
  x_service_id :: string
  x_transport :: string
  x_mode :: string
  x_host_address :: string
  x_host_port :: int
  x_created_at :: string
  x_updated_at :: string

definition exposure_key :: "exposure_row \<Rightarrow> string \<times> string" where
  "exposure_key r = (x_installation_id r, x_service_id r)"

text \<open>The column checks and the partial unique index on published sockets.\<close>

definition exposure_check :: "exposure_row \<Rightarrow> bool" where
  "exposure_check r = (x_transport r \<in> set [TCP, UDP] \<and> x_mode r \<in> set [Internal, Loopback, LAN]
     \<and> 0 \<le> x_host_port r \<and> x_host_port r \<le> 65535)"

definition same_socket :: "exposure_row \<Rightarrow> exposure_row \<Rightarrow> bool" where
  "same_socket a b = (x_mode a \<noteq> Internal \<and> x_mode b \<noteq> Internal \<and> x_host_address a = x_host_address b
     \<and> x_host_port a = x_host_port b \<and> x_transport a = x_transport b)"

definition identityPattern :: "string \<Rightarrow> bool" where
  "identityPattern s = match_head_tail is_lower (\<lambda>c. is_lower c \<or> is_digit c \<or> c = CHR ''-'') 1 63 s"

definition get_exposure :: "string \<Rightarrow> string \<Rightarrow> exposure_row list \<Rightarrow> exposure_row result" where
  "get_exposure installationID serviceID t =
     sql_row (\<lambda>r. exposure_key r = (installationID, serviceID)) t"

definition list_exposure :: "string \<Rightarrow> exposure_row list \<Rightarrow> exposure_row list" where
  "list_exposure installationID t = sort_key x_service_id (filter (\<lambda>r. x_installation_id r = installationID) t)"

definition exposure_upsert :: "exposure_row \<Rightarrow> exposure_row list \<Rightarrow> exposure_row list result" where
  "exposure_upsert r t =
     (if \<not> exposure_check r \<or> (\<exists>o' \<in> set t. exposure_key o' \<noteq> exposure_key r \<and> same_socket o' r)
      then Inl ErrConstraint
      else if \<exists>o' \<in> set t. exposure_key o' = exposure_key r
      then Inr (sql_update (\<lambda>o'. exposure_key o' = exposure_key r)
        (\<lambda>o'. o'\<lparr>x_transport := x_transport r, x_mode := x_mode r, x_host_address := x_host_address r,
           x_host_port := x_host_port r, x_updated_at := x_updated_at r\<rparr>) t)
      else Inr (t @ [r]))"

definition UpsertBinding ::
  "string \<Rightarrow> string \<Rightarrow> Binding \<Rightarrow> string \<Rightarrow> int \<Rightarrow> exposure_row list \<Rightarrow> exposure_row result \<times> exposure_row list" where
  "UpsertBinding now installationID binding configuredLAN fixedHostPort t =
     (let serviceID = eb_ServiceID binding in
      if \<not> identityPattern installationID \<or> \<not> identityPattern serviceID
      then (Inl (Errorf ''invalid exposure identity''), t)
      else let b = (if eb_ContainerPort binding = 0 then binding\<lparr>eb_ContainerPort := 1\<rparr> else binding) in
        (case ValidateBinding b configuredLAN fixedHostPort of Inl e \<Rightarrow> (Inl e, t)
         | Inr _ \<Rightarrow>
           (case exposure_upsert \<lparr>x_installation_id = installationID, x_service_id = serviceID,
               x_transport = eb_Transport b, x_mode = eb_Mode b, x_host_address = eb_HostAddress b,
               x_host_port = eb_HostPort b, x_created_at = now, x_updated_at = now\<rparr> t of
              Inl e \<Rightarrow> (Inl e, t)
            | Inr t' \<Rightarrow> (get_exposure installationID serviceID t', t'))))"

definition Upsert ::
  "string \<Rightarrow> string \<Rightarrow> string \<Rightarrow> Assignment \<Rightarrow> string \<Rightarrow> exposure_row list \<Rightarrow> exposure_row result \<times> exposure_row list" where
  "Upsert now installationID serviceID a configuredLAN t =
     UpsertBinding now installationID \<lparr>eb_ServiceID = serviceID, eb_Transport = TCP, eb_ContainerPort = 0,
       eb_Mode = as_Mode a, eb_HostAddress = as_Address a, eb_HostPort = as_Port a\<rparr> configuredLAN 0 t"

end
