(* ===== verification/Containers.thy ===== *)
theory Containers
  imports Go_Codec
begin

text \<open>
  \<^verbatim>\<open>internal/containers/runtime.go\<close>: what the helper asks of a container runtime and what it
  observes of it. A Go map is an association list with distinct keys. An empty list stands for
  the nil slice or map; the only place where the source tells an empty slice from a nil one
  is the JSON text under a configuration hash.
\<close>

section \<open>Data\<close>

text \<open>\<open>RuntimeState\<close> is a string type.\<close>

definition RuntimeUnknown :: string where "RuntimeUnknown = ''unknown''"
definition RuntimeMissing :: string where "RuntimeMissing = ''missing''"
definition RuntimeStopped :: string where "RuntimeStopped = ''stopped''"
definition RuntimeRunning :: string where "RuntimeRunning = ''running''"
definition RuntimeRestarting :: string where "RuntimeRestarting = ''restarting''"
definition RuntimePaused :: string where "RuntimePaused = ''paused''"

lemma runtime_states_distinct [simp]:
  "RuntimeStopped \<noteq> RuntimeRunning" "RuntimeRunning \<noteq> RuntimeStopped"
  "RuntimeMissing \<noteq> RuntimeRunning" "RuntimeRunning \<noteq> RuntimeMissing"
  "RuntimeMissing \<noteq> RuntimeStopped" "RuntimeStopped \<noteq> RuntimeMissing"
  by (simp_all add: RuntimeStopped_def RuntimeRunning_def RuntimeMissing_def)

type_synonym 'v go_map = "(string \<times> 'v) list"

definition lookup_str :: "string go_map \<Rightarrow> string \<Rightarrow> string" where
  "lookup_str m k = (case map_of m k of None \<Rightarrow> [] | Some v \<Rightarrow> v)"

record ImageObservation =
  im_Exists :: bool
  im_ID :: string
  im_RepoDigests :: "string list"
  im_ConfiguredUser :: string
  im_ConfiguredVolumes :: "string list"

record NetworkObservation =
  nw_Exists :: bool
  nw_ID :: string
  nw_Name :: string
  nw_Labels :: "string go_map"

record MountObservation =
  mo_Source :: string
  mo_Destination :: string
  mo_ReadOnly :: bool

record NetworkAttachment =
  na_NetworkID :: string
  na_Aliases :: "string list"

record PortBinding =
  pb_HostIP :: string
  pb_HostPort :: string

record StorageMountPlan =
  st_ContainerPath :: string
  st_HostPath :: string
  st_ReadOnly :: bool

record DeviceMapping =
  dm_PathOnHost :: string
  dm_PathInContainer :: string
  dm_CgroupPermissions :: string

record DeviceRequest =
  dr_Driver :: string
  dr_Count :: int
  dr_Capabilities :: "string list list"

record ContainerObservation =
  co_Exists :: bool
  co_ID :: string
  co_Name :: string
  co_ImageID :: string
  co_ImageReference :: string
  co_State :: string
  co_Health :: string
  co_Labels :: "string go_map"
  co_User :: string
  co_Command :: "string list"
  co_Environment :: "string list"
  co_RestartPolicy :: string
  co_Mounts :: "MountObservation list"
  co_Networks :: "NetworkAttachment go_map"
  co_NetworkMode :: string
  co_PortBindings :: "PortBinding list go_map"
  co_Devices :: "DeviceMapping list"
  co_DeviceRequests :: "DeviceRequest list"

record ContainerPlan =
  ct_Image :: string
  ct_Name :: string
  ct_Network :: string
  ct_User :: string
  ct_ImageDefaultUser :: string
  ct_ImageDefaultVolumes :: "string list"
  ct_Labels :: "string go_map"
  ct_Command :: "string list"
  ct_Environment :: "string list"
  ct_DataPath :: string
  ct_ReadOnly :: bool
  ct_Storage :: "StorageMountPlan list"
  ct_PortBindings :: "PortBinding list go_map"
  ct_RestartPolicy :: string
  ct_NetworkAliases :: "string list"
  ct_Dependencies :: "string list"
  ct_Devices :: "DeviceMapping list"
  ct_DeviceRequests :: "DeviceRequest list"

section \<open>The lifecycle runtime\<close>

text \<open>
  \<open>LifecycleRuntime\<close>. A call acts on a world \<open>'w\<close> that holds the runtime; a context's
  deadline and cancellation are part of the world. A failed call may still have acted.
\<close>

record 'w LifecycleRuntime =
  PullImage :: "string \<Rightarrow> 'w \<Rightarrow> unit result \<times> 'w"
  ObserveImage :: "string \<Rightarrow> 'w \<Rightarrow> ImageObservation result \<times> 'w"
  CreateLifecycleNetwork :: "string \<Rightarrow> string go_map \<Rightarrow> 'w \<Rightarrow> NetworkObservation result \<times> 'w"
  ObserveNetwork :: "string \<Rightarrow> 'w \<Rightarrow> NetworkObservation result \<times> 'w"
  CreateLifecycleContainer :: "ContainerPlan \<Rightarrow> 'w \<Rightarrow> string result \<times> 'w"
  ObserveContainer :: "string \<Rightarrow> 'w \<Rightarrow> ContainerObservation result \<times> 'w"
  StartContainer :: "string \<Rightarrow> 'w \<Rightarrow> unit result \<times> 'w"
  StopContainer :: "string \<Rightarrow> 'w \<Rightarrow> unit result \<times> 'w"
  RemoveContainer :: "string \<Rightarrow> 'w \<Rightarrow> unit result \<times> 'w"
  RemoveLifecycleNetwork :: "string \<Rightarrow> 'w \<Rightarrow> unit result \<times> 'w"
  WaitContainer :: "string \<Rightarrow> string \<Rightarrow> 'w \<Rightarrow> ContainerObservation result \<times> 'w"

end
