(* ===== verification/Observation.thy ===== *)
theory Observation
  imports Containers
begin

text \<open>
  The comparison functions of \<^verbatim>\<open>internal/lifecycle/runner.go\<close>: what makes an observed
  container the one a plan describes, and the configuration hash that stands for a verified
  observation.
\<close>

section \<open>JSON forms\<close>

text \<open>A nil slice or map is \<open>null\<close>; map keys are written in order.\<close>

definition json_list :: "('a \<Rightarrow> json) \<Rightarrow> 'a list \<Rightarrow> json" where
  "json_list f xs = (if xs = [] then JNull else JArr (map f xs))"

definition json_map :: "('a \<Rightarrow> json) \<Rightarrow> 'a go_map \<Rightarrow> json" where
  "json_map f m = (if m = [] then JNull else JObj (map (\<lambda>(k, v). (k, f v)) (sort_key fst m)))"

definition json_of_Mount :: "MountObservation \<Rightarrow> json" where
  "json_of_Mount x = JObj [(''Source'', JStr (mo_Source x)), (''Destination'', JStr (mo_Destination x)),
     (''ReadOnly'', JBool (mo_ReadOnly x))]"

definition json_of_PortBinding :: "PortBinding \<Rightarrow> json" where
  "json_of_PortBinding p = JObj [(''HostIp'', JStr (pb_HostIP p)), (''HostPort'', JStr (pb_HostPort p))]"

definition json_of_DeviceMapping :: "DeviceMapping \<Rightarrow> json" where
  "json_of_DeviceMapping d = JObj [(''PathOnHost'', JStr (dm_PathOnHost d)),
     (''PathInContainer'', JStr (dm_PathInContainer d)), (''CgroupPermissions'', JStr (dm_CgroupPermissions d))]"

definition json_of_DeviceRequest :: "DeviceRequest \<Rightarrow> json" where
  "json_of_DeviceRequest d = JObj [(''Driver'', JStr (dr_Driver d)), (''Count'', JInt (dr_Count d)),
     (''Capabilities'', json_list (json_list JStr) (dr_Capabilities d))]"

definition equalJSON :: "json \<Rightarrow> json \<Rightarrow> bool" where
  "equalJSON a b = (json_encode a = json_encode b)"

section \<open>Normal forms\<close>

definition normalizeRestart :: "string \<Rightarrow> string" where
  "normalizeRestart v = (if v = [] then ''no'' else v)"

definition normalizePortBindings :: "PortBinding list go_map \<Rightarrow> json" where
  "normalizePortBindings m = (if m = [] then JObj [] else json_map (json_list json_of_PortBinding) m)"

definition normalizeDevices :: "DeviceMapping list \<Rightarrow> json" where
  "normalizeDevices ds = JArr (map json_of_DeviceMapping ds)"

definition normalizeDeviceRequests :: "DeviceRequest list \<Rightarrow> json" where
  "normalizeDeviceRequests ds = JArr (map json_of_DeviceRequest ds)"

definition sortedStrings :: "string list \<Rightarrow> string list" where
  "sortedStrings xs = sort xs"

definition containsStrings :: "string list \<Rightarrow> string list \<Rightarrow> bool" where
  "containsStrings present required = list_all (\<lambda>v. v \<in> set present) required"

definition networkNames :: "NetworkAttachment go_map \<Rightarrow> string list" where
  "networkNames m = sort (map fst m)"

definition normalizeMounts :: "MountObservation list \<Rightarrow> MountObservation list" where
  "normalizeMounts ms = sort_key mo_Destination ms"

definition normalizeExpectedMounts :: "ContainerPlan \<Rightarrow> MountObservation list" where
  "normalizeExpectedMounts plan =
     (let storage = (if ct_Storage plan = [] \<and> ct_DataPath plan \<noteq> []
            then [\<lparr>st_ContainerPath = ''/data'', st_HostPath = ct_DataPath plan, st_ReadOnly = ct_ReadOnly plan\<rparr>]
            else ct_Storage plan)
      in normalizeMounts (map (\<lambda>m. \<lparr>mo_Source = st_HostPath m, mo_Destination = st_ContainerPath m,
            mo_ReadOnly = st_ReadOnly m\<rparr>) storage))"

text \<open>
  \<open>mountsMatch\<close> with its map \<open>byDestination\<close>: it is filled from the observed mounts, then
  each expected mount is looked up and deleted.
\<close>

fun by_destination :: "MountObservation list \<Rightarrow> MountObservation go_map \<Rightarrow> MountObservation go_map option" where
  "by_destination [] m = Some m"
| "by_destination (x # xs) m = (if map_of m (mo_Destination x) \<noteq> None then None
     else by_destination xs ((mo_Destination x, x) # m))"

fun match_expected :: "MountObservation list \<Rightarrow> MountObservation go_map \<Rightarrow> MountObservation go_map option" where
  "match_expected [] m = Some m"
| "match_expected (x # xs) m = (if map_of m (mo_Destination x) \<noteq> Some x then None
     else match_expected xs (filter (\<lambda>(d, _). d \<noteq> mo_Destination x) m))"

definition mountsMatch :: "ContainerPlan \<Rightarrow> MountObservation list \<Rightarrow> bool" where
  "mountsMatch plan observed =
     (case by_destination (normalizeMounts observed) [] of None \<Rightarrow> False
      | Some m \<Rightarrow> (case match_expected (normalizeExpectedMounts plan) m of None \<Rightarrow> False
        | Some rest \<Rightarrow> list_all (\<lambda>(d, _). d \<in> set (ct_ImageDefaultVolumes plan)) rest))"

definition runtimeUserMatches :: "ContainerPlan \<Rightarrow> string \<Rightarrow> bool" where
  "runtimeUserMatches plan observed =
     (observed = (if ct_User plan = [] then ct_ImageDefaultUser plan else ct_User plan))"

definition canonicalDigestReference :: "string \<Rightarrow> string" where
  "canonicalDigestReference ref =
     trim_prefix ''library/'' (trim_prefix ''index.docker.io/'' (trim_prefix ''docker.io/'' ref))"

definition imageContainsDigest :: "ImageObservation \<Rightarrow> string \<Rightarrow> bool" where
  "imageContainsDigest observed ref =
     (im_Exists observed \<and> list_ex (\<lambda>d. canonicalDigestReference d = canonicalDigestReference ref)
        (im_RepoDigests observed))"

section \<open>The configuration hash\<close>

definition json_of_observation :: "ContainerObservation \<Rightarrow> json" where
  "json_of_observation o' = JObj [(''Image'', JStr (co_ImageReference o')), (''User'', JStr (co_User o')),
     (''Restart'', JStr (normalizeRestart (co_RestartPolicy o'))),
     (''Command'', json_list JStr (co_Command o')),
     (''Environment'', json_list JStr (sortedStrings (co_Environment o'))),
     (''Labels'', json_map JStr (co_Labels o')),
     (''Mounts'', json_list json_of_Mount (normalizeMounts (co_Mounts o'))),
     (''Networks'', JArr (map JStr (networkNames (co_Networks o')))),
     (''NetworkMode'', JStr (co_NetworkMode o')),
     (''Ports'', json_map (json_list json_of_PortBinding) (co_PortBindings o')),
     (''Devices'', json_list json_of_DeviceMapping (co_Devices o')),
     (''Requests'', json_list json_of_DeviceRequest (co_DeviceRequests o'))]"

definition observationHash :: "ContainerObservation \<Rightarrow> string" where
  "observationHash o' = sha256_hex (json_encode (json_of_observation o'))"

definition detachedStoppedConfigurationMatches ::
  "ContainerObservation \<Rightarrow> string \<Rightarrow> string \<Rightarrow> string \<Rightarrow> bool" where
  "detachedStoppedConfigurationMatches observed expectedHash networkName networkID =
     (if expectedHash = [] \<or> \<not> co_Exists observed \<or> co_State observed \<noteq> RuntimeStopped
         \<or> co_NetworkMode observed \<noteq> networkName \<or> co_Networks observed \<noteq> [] \<or> networkName = [] \<or> networkID = []
      then False
      else observationHash (observed\<lparr>co_Networks := [(networkName, \<lparr>na_NetworkID = networkID, na_Aliases = []\<rparr>)]\<rparr>)
             = expectedHash)"

definition configuration_matches :: "ContainerPlan \<Rightarrow> ContainerObservation \<Rightarrow> bool" where
  "configuration_matches plan observed =
     (runtimeUserMatches plan (co_User observed)
      \<and> normalizeRestart (co_RestartPolicy observed) = normalizeRestart (ct_RestartPolicy plan)
      \<and> (ct_Command plan \<noteq> [] \<longrightarrow> equalJSON (json_list JStr (co_Command observed)) (json_list JStr (ct_Command plan)))
      \<and> containsStrings (co_Environment observed) (ct_Environment plan))"

definition resources_match :: "ContainerPlan \<Rightarrow> ContainerObservation \<Rightarrow> bool" where
  "resources_match plan observed =
     (mountsMatch plan (co_Mounts observed)
      \<and> equalJSON (normalizePortBindings (co_PortBindings observed)) (normalizePortBindings (ct_PortBindings plan))
      \<and> equalJSON (normalizeDevices (co_Devices observed)) (normalizeDevices (ct_Devices plan))
      \<and> equalJSON (normalizeDeviceRequests (co_DeviceRequests observed)) (normalizeDeviceRequests (ct_DeviceRequests plan)))"

definition VerifyMigratedConfiguration :: "ContainerPlan \<Rightarrow> ContainerObservation \<Rightarrow> unit result" where
  "VerifyMigratedConfiguration plan observed =
     (if \<not> configuration_matches plan observed \<or> co_NetworkMode observed \<noteq> ct_Network plan
         \<or> \<not> equalJSON (json_map JStr (co_Labels observed)) (json_map JStr (ct_Labels plan))
      then Inl (Errorf ''migrated runtime configuration mismatch'')
      else if \<not> resources_match plan observed
      then Inl (Errorf ''migrated runtime mounts, ports, or devices mismatch'')
      else Inr ())"

section \<open>What \<open>mountsMatch\<close> decides\<close>

lemma by_destination_spec:
  "by_destination xs m =
     (if distinct (map mo_Destination xs) \<and> set (map mo_Destination xs) \<inter> dom (map_of m) = {}
      then Some (rev (map (\<lambda>x. (mo_Destination x, x)) xs) @ m) else None)"
proof (induction xs arbitrary: m)
  case (Cons x xs)
  have eq: "set (map mo_Destination xs) \<inter> dom (map_of ((mo_Destination x, x) # m)) = {} \<longleftrightarrow>
      mo_Destination x \<notin> mo_Destination ` set xs \<and> set (map mo_Destination xs) \<inter> dom (map_of m) = {}"
    by auto
  show ?case unfolding by_destination.simps Cons.IH eq by (auto simp: domIff)
qed simp

lemma match_expected_spec:
  assumes "distinct (map fst m)"
  shows "match_expected xs m =
    (if distinct (map mo_Destination xs) \<and> (\<forall>x \<in> set xs. (mo_Destination x, x) \<in> set m)
     then Some (filter (\<lambda>(d, _). d \<notin> mo_Destination ` set xs) m) else None)"
  using assms
proof (induction xs arbitrary: m)
  case Nil
  then show ?case by (simp add: case_prod_unfold)
next
  case (Cons x xs)
  let ?m = "filter (\<lambda>(d, _). d \<noteq> mo_Destination x) m"
  have d: "distinct (map fst ?m)" using Cons.prems by (simp add: distinct_map_filter)
  have f: "filter (\<lambda>(d, _). d \<notin> mo_Destination ` set xs) ?m = filter (\<lambda>(d, _). d \<notin> mo_Destination ` set (x # xs)) m"
    by (auto intro: filter_cong)
  have mem: "map_of m (mo_Destination x) = Some x \<longleftrightarrow> (mo_Destination x, x) \<in> set m"
    using Cons.prems by simp
  show ?case
  proof (cases "(mo_Destination x, x) \<in> set m")
    case True
    have "(distinct (map mo_Destination xs) \<and> (\<forall>y \<in> set xs. (mo_Destination y, y) \<in> set ?m)) \<longleftrightarrow>
        (distinct (map mo_Destination (x # xs)) \<and> (\<forall>y \<in> set (x # xs). (mo_Destination y, y) \<in> set m))"
      using True by (auto simp: image_iff)
    with Cons.IH [OF d] True mem f show ?thesis by simp
  next
    case False
    with mem show ?thesis by simp
  qed
qed

lemma tagged_image: "(d, y) \<in> (\<lambda>x. (f x, x)) ` S \<longleftrightarrow> y \<in> S \<and> d = f y"
  by auto

lemma mountsMatch_iff:
  "mountsMatch plan observed \<longleftrightarrow> distinct (map mo_Destination observed)
     \<and> distinct (map mo_Destination (normalizeExpectedMounts plan))
     \<and> set (normalizeExpectedMounts plan) \<subseteq> set observed
     \<and> (\<forall>x \<in> set observed. mo_Destination x \<in> mo_Destination ` set (normalizeExpectedMounts plan)
          \<or> mo_Destination x \<in> set (ct_ImageDefaultVolumes plan))"
proof (cases "distinct (map mo_Destination observed)")
  case True
  let ?m = "rev (map (\<lambda>x. (mo_Destination x, x)) (normalizeMounts observed))"
  have nd: "distinct (map mo_Destination (normalizeMounts observed))"
    using True by (simp add: normalizeMounts_def distinct_map)
  then have "by_destination (normalizeMounts observed) [] = Some ?m" by (simp add: by_destination_spec)
  moreover have "distinct (map fst ?m)" using nd by (simp add: rev_map comp_def distinct_rev flip: rev_map)
  ultimately show ?thesis
    using True match_expected_spec [of ?m "normalizeExpectedMounts plan"]
    by (auto simp: mountsMatch_def list_all_iff normalizeMounts_def tagged_image)
next
  case False
  then have "\<not> distinct (map mo_Destination (normalizeMounts observed))"
    by (simp add: normalizeMounts_def distinct_map)
  with False show ?thesis by (simp add: mountsMatch_def by_destination_spec)
qed

end
