(* ===== verification/Gen_Store.thy ===== *)
theory Gen_Store
  imports Gen_Fence Exposure Observation
begin

text \<open>
  \<^verbatim>\<open>internal/lifecycle/store.go\<close>: the durable record of runtime generations of applications
  with one component. Every method is one transaction (an error leaves the database as it
  was) except \<open>MarkRemoved\<close>, which is two statements.
\<close>

section \<open>Data\<close>

record Plan =
  pl_OperationID :: string
  pl_InstallationID :: string
  pl_ApplicationID :: string
  pl_ReleaseID :: string
  pl_Generation :: int
  pl_ExpectedGeneration :: int
  pl_FencingToken :: int
  pl_Image :: string
  pl_NetworkName :: string
  pl_ContainerName :: string
  pl_PlanHash :: string
  pl_DataPath :: string
  pl_Bindings :: "Binding list"
  pl_Container :: ContainerPlan
  pl_RollbackSafe :: bool
  pl_AllowMissingActive :: bool

record LComponent =
  lc_ID :: string
  lc_ContainerName :: string
  lc_ContainerID :: string
  lc_Image :: string
  lc_ImageID :: string
  lc_ConfigurationHash :: string
  lc_State :: comp_state
  lc_DependsOn :: "string list"
  lc_StartOrdinal :: int

text \<open>The status of the zero \<open>Generation\<close> is the empty string, here \<open>None\<close>.\<close>

record Generation =
  ge_InstallationID :: string
  ge_CreatingOperationID :: string
  ge_ApplicationID :: string
  ge_ReleaseID :: string
  ge_Generation :: int
  ge_Status :: "gen_status option"
  ge_NetworkName :: string
  ge_NetworkID :: string
  ge_PlanHash :: string
  ge_DataPath :: string
  ge_Bindings :: "Binding list"
  ge_CleanupState :: cleanup_state
  ge_Component :: LComponent

record Result =
  re_Generation :: int
  re_ReleaseID :: string
  re_RuntimeState :: string
  re_ContainerName :: string
  re_ContainerID :: string
  re_NetworkName :: string
  re_Bindings :: "Binding list"
  re_CleanupDeferred :: bool
  re_Components :: "string go_map"

definition json_of_Binding :: "Binding \<Rightarrow> json" where
  "json_of_Binding b = JObj ([(''service_id'', JStr (eb_ServiceID b)), (''transport'', JStr (eb_Transport b)),
       (''container_port'', JInt (eb_ContainerPort b)), (''mode'', JStr (eb_Mode b))]
     @ omit_str ''host_address'' (eb_HostAddress b) @ omit_int ''host_port'' (eb_HostPort b))"

definition json_of_Result :: "Result \<Rightarrow> json" where
  "json_of_Result r = JObj ([(''runtime_generation'', JInt (re_Generation r)), (''release_id'', JStr (re_ReleaseID r)),
       (''runtime_state'', JStr (re_RuntimeState r)), (''container'', JStr (re_ContainerName r)),
       (''container_id'', JStr (re_ContainerID r)), (''network'', JStr (re_NetworkName r))]
     @ omit_list ''bindings'' json_of_Binding (re_Bindings r)
     @ omit_bool ''cleanup_deferred'' (re_CleanupDeferred r)
     @ (if re_Components r = [] then [] else [(''components'', json_map JStr (re_Components r))]))"

section \<open>Statements on the generation tables\<close>

text \<open>The unique index \<open>runtime_generations_one_active\<close>.\<close>

definition one_active :: "gen_row list \<Rightarrow> bool" where
  "one_active gs = distinct (map g_installation_id (filter (\<lambda>g. g_status g = GActive) gs))"

text \<open>An update that makes no row active cannot violate it; \<open>activate\<close> is one that does.\<close>

definition set_gens :: "(gen_row \<Rightarrow> bool) \<Rightarrow> (gen_row \<Rightarrow> gen_row) \<Rightarrow> helper_db \<Rightarrow> helper_db" where
  "set_gens P f db = db\<lparr>generations := sql_update P f (generations db)\<rparr>"

definition activate :: "(gen_row \<Rightarrow> bool) \<Rightarrow> (gen_row \<Rightarrow> gen_row) \<Rightarrow> helper_db \<Rightarrow> helper_db result" where
  "activate P f db = (let gs = sql_update P f (generations db) in
     if one_active gs then Inr (db\<lparr>generations := gs\<rparr>) else Inl ErrConstraint)"

definition set_comps :: "(comp_row \<Rightarrow> bool) \<Rightarrow> (comp_row \<Rightarrow> comp_row) \<Rightarrow> helper_db \<Rightarrow> helper_db" where
  "set_comps P f db = db\<lparr>components := sql_update P f (components db)\<rparr>"

definition in_gen :: "string \<Rightarrow> int \<Rightarrow> gen_row \<Rightarrow> bool" where
  "in_gen i n g = (g_installation_id g = i \<and> g_runtime_generation g = n)"

definition in_comp :: "string \<Rightarrow> int \<Rightarrow> comp_row \<Rightarrow> bool" where
  "in_comp i n c = (c_installation_id c = i \<and> c_runtime_generation c = n)"

text \<open>Inserts with their primary keys, unique indexes, checks and foreign keys.\<close>

definition insert_gen :: "gen_row \<Rightarrow> helper_db \<Rightarrow> helper_db result" where
  "insert_gen g db = bind_result (sql_insert gen_key g (generations db)) (\<lambda>gs.
     if one_active gs then Inr (db\<lparr>generations := gs\<rparr>) else Inl ErrConstraint)"

definition ordinal_free :: "comp_row \<Rightarrow> comp_row list \<Rightarrow> bool" where
  "ordinal_free c cs = (\<forall>x \<in> set cs. \<not> (in_comp (c_installation_id c) (c_runtime_generation c) x
     \<and> c_start_ordinal x = c_start_ordinal c))"

definition gen_exists :: "string \<Rightarrow> int \<Rightarrow> helper_db \<Rightarrow> bool" where
  "gen_exists i n db = (\<exists>g \<in> set (generations db). in_gen i n g)"

definition insert_comp :: "comp_row \<Rightarrow> helper_db \<Rightarrow> helper_db result" where
  "insert_comp c db = bind_result (sql_insert comp_key c (components db)) (\<lambda>cs.
     if ordinal_free c (components db) \<and> gen_exists (c_installation_id c) (c_runtime_generation c) db
     then Inr (db\<lparr>components := cs\<rparr>) else Inl ErrConstraint)"

definition binding_check :: "binding_row \<Rightarrow> bool" where
  "binding_check b = (b_transport b \<in> set [TCP, UDP] \<and> 1 \<le> b_container_port b \<and> b_container_port b \<le> 65535
     \<and> b_mode b \<in> set [Internal, Loopback, LAN] \<and> 0 \<le> b_host_port b \<and> b_host_port b \<le> 65535)"

definition insert_binding :: "binding_row \<Rightarrow> helper_db \<Rightarrow> helper_db result" where
  "insert_binding b db = bind_result (sql_insert binding_key b (bindings db)) (\<lambda>bs.
     if binding_check b \<and> gen_exists (b_installation_id b) (b_runtime_generation b) db
     then Inr (db\<lparr>bindings := bs\<rparr>) else Inl ErrConstraint)"

fun insert_bindings :: "string \<Rightarrow> int \<Rightarrow> Binding list \<Rightarrow> helper_db \<Rightarrow> helper_db result" where
  "insert_bindings i n [] db = Inr db"
| "insert_bindings i n (b # bs) db =
     bind_result (insert_binding \<lparr>b_installation_id = i, b_runtime_generation = n, b_service_id = eb_ServiceID b,
       b_transport = eb_Transport b, b_container_port = eb_ContainerPort b, b_mode = eb_Mode b,
       b_host_address = eb_HostAddress b, b_host_port = eb_HostPort b\<rparr> db) (insert_bindings i n bs)"

definition replaceBindings :: "string \<Rightarrow> int \<Rightarrow> Binding list \<Rightarrow> helper_db \<Rightarrow> helper_db result" where
  "replaceBindings i n bs db =
     (if MaxBindings < length bs then Inl (Errorf ''too many service bindings'')
      else insert_bindings i n (Normalize bs)
        (db\<lparr>bindings := filter (\<lambda>b. \<not> (b_installation_id b = i \<and> b_runtime_generation b = n)) (bindings db)\<rparr>))"

definition loadBindings :: "string \<Rightarrow> int \<Rightarrow> helper_db \<Rightarrow> Binding list" where
  "loadBindings i n db = map (\<lambda>b. \<lparr>eb_ServiceID = b_service_id b, eb_Transport = b_transport b,
       eb_ContainerPort = b_container_port b, eb_Mode = b_mode b, eb_HostAddress = b_host_address b,
       eb_HostPort = b_host_port b\<rparr>)
     (sort_key b_service_id (filter (\<lambda>b. b_installation_id b = i \<and> b_runtime_generation b = n) (bindings db)))"

section \<open>Queries\<close>

text \<open>
  \<open>generationSelect\<close> joins a generation with its components, one row each; rows that an
  \<open>ORDER BY\<close> does not separate come in table order.
\<close>

definition generationSelect :: "helper_db \<Rightarrow> (gen_row \<times> comp_row) list" where
  "generationSelect db = concat (map (\<lambda>g. map (Pair g)
     (filter (in_comp (g_installation_id g) (g_runtime_generation g)) (components db))) (generations db))"

definition scanGeneration :: "gen_row \<times> comp_row \<Rightarrow> Generation" where
  "scanGeneration gc = (case gc of (g, c) \<Rightarrow> \<lparr>ge_InstallationID = g_installation_id g,
     ge_CreatingOperationID = g_creating_operation_id g, ge_ApplicationID = g_application_id g,
     ge_ReleaseID = g_release_id g, ge_Generation = g_runtime_generation g, ge_Status = Some (g_status g),
     ge_NetworkName = g_network_name g, ge_NetworkID = g_observed_network_id g, ge_PlanHash = g_plan_hash g,
     ge_DataPath = g_data_path g, ge_Bindings = [], ge_CleanupState = g_cleanup_state g,
     ge_Component = \<lparr>lc_ID = c_component_id c, lc_ContainerName = c_container_name c,
       lc_ContainerID = c_observed_container_id c, lc_Image = c_image_digest c, lc_ImageID = c_observed_image_id c,
       lc_ConfigurationHash = c_configuration_hash c, lc_State = c_state c, lc_DependsOn = [], lc_StartOrdinal = 0\<rparr>\<rparr>)"

definition load_row :: "helper_db \<Rightarrow> gen_row \<times> comp_row \<Rightarrow> Generation" where
  "load_row db gc = (let g = scanGeneration gc in g\<lparr>ge_Bindings := loadBindings (ge_InstallationID g) (ge_Generation g) db\<rparr>)"

definition first_row :: "'a list \<Rightarrow> 'a result" where
  "first_row rows = (case rows of [] \<Rightarrow> Inl ErrNoRows | r # _ \<Rightarrow> Inr r)"

definition status_rank :: "gen_status \<Rightarrow> int" where
  "status_rank s = (if s = GActive then 0 else if s = GVerificationRequired then 1 else 2)"

definition Current :: "string \<Rightarrow> helper_db \<Rightarrow> Generation result" where
  "Current installation db =
     bind_result (first_row (sort_key (\<lambda>(g, c). status_rank (g_status g))
       (sort_key (\<lambda>(g, c). - g_runtime_generation g)
         (filter (\<lambda>(g, c). g_installation_id g = installation
             \<and> g_status g \<in> set [GActive, GVerificationRequired, GRemoved]) (generationSelect db)))))
     (\<lambda>gc. Inr (load_row db gc))"

definition ByOperation :: "string \<Rightarrow> helper_db \<Rightarrow> Generation result" where
  "ByOperation operationID db =
     bind_result (first_row (sort_key (\<lambda>(g, c). - g_runtime_generation g)
       (filter (\<lambda>(g, c). g_creating_operation_id g = operationID) (generationSelect db))))
     (\<lambda>gc. Inr (load_row db gc))"

definition OlderRetained :: "string \<Rightarrow> int \<Rightarrow> helper_db \<Rightarrow> Generation list" where
  "OlderRetained installation keep db =
     map (load_row db) (sort_key (\<lambda>(g, c). g_runtime_generation g)
       (filter (\<lambda>(g, c). g_installation_id g = installation
           \<and> (g_status g \<in> set [GRetained, GCleanupPending] \<or> (g_status g = GFailed \<and> g_cleanup_state g = CPending))
           \<and> g_runtime_generation g \<noteq> keep) (generationSelect db)))"

section \<open>Migration of legacy installations\<close>

definition legacy_gen :: "gen_status \<Rightarrow> cleanup_state \<Rightarrow> ownership_row \<Rightarrow> gen_row" where
  "legacy_gen status cleanup w = \<lparr>g_installation_id = w_instance_id w, g_runtime_generation = w_runtime_generation w,
     g_creating_operation_id = ''legacy-migration'', g_application_id = w_application_id w,
     g_release_id = w_release_id w, g_status = status, g_network_name = w_network_name w,
     g_observed_network_id = [], g_plan_hash = [], g_topology_hash = [], g_data_path = w_data_path w,
     g_exposure_mode = w_exposure_mode w, g_service_id = w_service_id w, g_host_address = w_host_address w,
     g_host_port = w_host_port w, g_container_port = w_container_port w, g_service_protocol = w_service_protocol w,
     g_created_at = w_created_at w, g_verified_at = None, g_committed_at = None, g_retired_at = None,
     g_cleanup_state = cleanup\<rparr>"

definition legacy_comp :: "comp_state \<Rightarrow> ownership_row \<Rightarrow> comp_row" where
  "legacy_comp state w = \<lparr>c_installation_id = w_instance_id w, c_runtime_generation = w_runtime_generation w,
     c_component_id = ''app'', c_container_name = w_container_name w, c_observed_container_id = w_container_id w,
     c_image_digest = w_image_digest w, c_observed_image_id = [], c_configuration_hash = [], c_state = state,
     c_dependencies = [], c_start_ordinal = 0, c_created_at = w_created_at w, c_started_at = None, c_verified_at = None\<rparr>"

definition legacy_binding :: "ownership_row \<Rightarrow> binding_row" where
  "legacy_binding w = \<lparr>b_installation_id = w_instance_id w, b_runtime_generation = w_runtime_generation w,
     b_service_id = w_service_id w, b_transport = (if w_service_protocol w = ''udp'' then UDP else TCP),
     b_container_port = w_container_port w, b_mode = w_exposure_mode w, b_host_address = w_host_address w,
     b_host_port = w_host_port w\<rparr>"

text \<open>
  \<open>INSERT OR IGNORE\<close> skips a row that violates a key, an index or a check; a violated
  foreign key is an error.
\<close>

definition ignore_gen :: "gen_row \<Rightarrow> helper_db \<Rightarrow> helper_db" where
  "ignore_gen g db = (case insert_gen g db of Inr db' \<Rightarrow> db' | Inl _ \<Rightarrow> db)"

definition ignore_comp :: "comp_row \<Rightarrow> helper_db \<Rightarrow> helper_db result" where
  "ignore_comp c db =
     (if (\<exists>x \<in> set (components db). comp_key x = comp_key c) \<or> \<not> ordinal_free c (components db) then Inr db
      else if gen_exists (c_installation_id c) (c_runtime_generation c) db
      then Inr (db\<lparr>components := components db @ [c]\<rparr>) else Inl ErrConstraint)"

definition ignore_binding :: "binding_row \<Rightarrow> helper_db \<Rightarrow> helper_db result" where
  "ignore_binding b db =
     (if (\<exists>x \<in> set (bindings db). binding_key x = binding_key b) \<or> \<not> binding_check b then Inr db
      else if gen_exists (b_installation_id b) (b_runtime_generation b) db
      then Inr (db\<lparr>bindings := bindings db @ [b]\<rparr>) else Inl ErrConstraint)"

definition BackfillInstallation :: "string \<Rightarrow> helper_db \<Rightarrow> helper_db result" where
  "BackfillInstallation installation db =
     (let own = (\<lambda>P. filter (\<lambda>w. w_instance_id w = installation \<and> P w) (ownership db));
          running = own (\<lambda>w. 0 < w_runtime_generation w \<and> w_container_id w \<noteq> []);
          gone = own (\<lambda>w. 0 < w_runtime_generation w \<and> w_container_id w = []);
          served = own (\<lambda>w. w_service_id w \<noteq> [] \<and> 1 \<le> w_container_port w \<and> w_container_port w \<le> 65535);
          db1 = fold (ignore_gen \<circ> legacy_gen GVerificationRequired CNotRequired) running db in
      bind_result (fold_result (ignore_comp \<circ> legacy_comp CsUnknown) running db1) (\<lambda>db2.
      let db3 = fold (ignore_gen \<circ> legacy_gen GRemoved CClean) gone db2 in
      bind_result (fold_result (ignore_comp \<circ> legacy_comp CsRemoved) gone db3) (\<lambda>db4.
      fold_result (ignore_binding \<circ> legacy_binding) served db4)))"

definition RecordMigratedConfiguration :: "string \<Rightarrow> int \<Rightarrow> string \<Rightarrow> helper_db \<Rightarrow> helper_db result" where
  "RecordMigratedConfiguration installation generation configurationHash db =
     (let P = (\<lambda>c. in_comp installation generation c \<and> c_component_id c = ''app'' \<and> c_configuration_hash c = []
           \<and> (\<exists>g \<in> set (generations db). in_gen installation generation g
                \<and> g_status g = GVerificationRequired \<and> g_topology_hash g = [])) in
      if configurationHash = [] then Inl (Errorf ''migrated configuration hash is required'')
      else if sql_count P (components db) \<noteq> 1 then Inl (Errorf ''migrated configuration expectation is not recordable'')
      else Inr (set_comps P (\<lambda>c. c\<lparr>c_configuration_hash := configurationHash\<rparr>) db))"

definition PromoteMigratedState ::
  "string \<Rightarrow> Generation \<Rightarrow> string \<Rightarrow> string \<Rightarrow> string \<Rightarrow> comp_state \<Rightarrow> string \<Rightarrow> int \<Rightarrow> helper_db \<Rightarrow> helper_db result" where
  "PromoteMigratedState now g networkID imageID configurationHash runtimeState operationID token db =
     bind_result (if operationID \<noteq> [] then verifyGenerationFence (ge_InstallationID g) operationID token db else Inr ()) (\<lambda>_.
     let P = (\<lambda>r. in_gen (ge_InstallationID g) (ge_Generation g) r \<and> g_status r = GVerificationRequired) in
     bind_result (activate P (\<lambda>r. r\<lparr>g_status := GActive, g_observed_network_id := networkID,
        g_verified_at := Some now, g_committed_at := Some now, g_cleanup_state := CClean\<rparr>) db) (\<lambda>db1.
     if sql_count P (generations db) \<noteq> 1 then Inl (Errorf ''migrated generation is not promotable'')
     else Inr (set_comps (\<lambda>c. in_comp (ge_InstallationID g) (ge_Generation g) c \<and> c_component_id c = ''app'')
       (\<lambda>c. c\<lparr>c_observed_image_id := imageID, c_configuration_hash := configurationHash, c_state := runtimeState,
          c_verified_at := Some now\<rparr>) db1)))"

definition PromoteMigrated :: "string \<Rightarrow> Generation \<Rightarrow> string \<Rightarrow> string \<Rightarrow> string \<Rightarrow> helper_db \<Rightarrow> helper_db result" where
  "PromoteMigrated now g networkID imageID configurationHash db =
     PromoteMigratedState now g networkID imageID configurationHash CsRunning [] 0 db"

section \<open>The life of a generation\<close>

definition MarkActiveRemoved :: "string \<Rightarrow> int \<Rightarrow> string \<Rightarrow> int \<Rightarrow> helper_db \<Rightarrow> helper_db result" where
  "MarkActiveRemoved installation generation operationID token db =
     bind_result (verifyGenerationFence installation operationID token db) (\<lambda>_.
     let P = (\<lambda>r. in_gen installation generation r \<and> g_status r = GActive) in
     if sql_count P (generations db) \<noteq> 1 then Inl (Errorf ''active runtime removal transition lost'')
     else Inr (set_comps (in_comp installation generation) (\<lambda>c. c\<lparr>c_state := CsRemoved\<rparr>)
       (set_gens P (\<lambda>r. r\<lparr>g_status := GRemoved, g_cleanup_state := CClean\<rparr>) db)))"

definition prepared_gen ::
  "string \<Rightarrow> string \<Rightarrow> string \<Rightarrow> string \<Rightarrow> string \<Rightarrow> string \<Rightarrow> string \<Rightarrow> string \<Rightarrow> string \<Rightarrow> int \<Rightarrow> gen_row" where
  "prepared_gen now operationID applicationID releaseID networkName planHash topologyHash dataPath installation generation = \<lparr>
     g_installation_id = installation, g_runtime_generation = generation, g_creating_operation_id = operationID,
     g_application_id = applicationID, g_release_id = releaseID, g_status = GPrepared, g_network_name = networkName,
     g_observed_network_id = [], g_plan_hash = planHash, g_topology_hash = topologyHash, g_data_path = dataPath,
     g_exposure_mode = ''internal'', g_service_id = [], g_host_address = [], g_host_port = 0, g_container_port = 0,
     g_service_protocol = [], g_created_at = now, g_verified_at = None, g_committed_at = None, g_retired_at = None,
     g_cleanup_state = CNotRequired\<rparr>"

definition prepared_comp :: "string \<Rightarrow> string \<Rightarrow> int \<Rightarrow> string \<Rightarrow> string \<Rightarrow> string \<Rightarrow> string list \<Rightarrow> int \<Rightarrow> comp_row" where
  "prepared_comp now installation generation componentID containerName digest deps ordinal = \<lparr>
     c_installation_id = installation, c_runtime_generation = generation, c_component_id = componentID,
     c_container_name = containerName, c_observed_container_id = [], c_image_digest = digest,
     c_observed_image_id = [], c_configuration_hash = [], c_state = CsUnknown, c_dependencies = deps,
     c_start_ordinal = ordinal, c_created_at = now, c_started_at = None, c_verified_at = None\<rparr>"

text \<open>A clean failed or removed generation may be reused; its row is reset to a prepared one.\<close>

definition reusable :: "string \<Rightarrow> int \<Rightarrow> gen_row \<Rightarrow> bool" where
  "reusable i n r = (in_gen i n r \<and> g_status r \<in> set [GFailed, GRemoved] \<and> g_cleanup_state r = CClean)"

definition Prepare :: "string \<Rightarrow> Plan \<Rightarrow> helper_db \<Rightarrow> helper_db result" where
  "Prepare now plan db =
     (let i = pl_InstallationID plan; n = pl_Generation plan;
          row = prepared_gen now (pl_OperationID plan) (pl_ApplicationID plan) (pl_ReleaseID plan)
            (pl_NetworkName plan) (pl_PlanHash plan) [] (pl_DataPath plan) i n;
          comp = prepared_comp now i n ''app'' (pl_ContainerName plan) (pl_Image plan) [] 0 in
      bind_result
        (case sql_row (in_gen i n) (generations db) of
           Inr existing \<Rightarrow>
             if (g_status existing \<noteq> GFailed \<and> g_status existing \<noteq> GRemoved) \<or> g_cleanup_state existing \<noteq> CClean
             then Inl (Errorf ''target generation already has unresolved lifecycle evidence'')
             else bind_result (sql_row (in_comp i n) (components db)) (\<lambda>c.
               if c_component_id c \<noteq> ''app'' then Inl (Errorf ''clean target generation topology cannot be safely reused'')
               else if sql_count (reusable i n) (generations db) \<noteq> 1 then Inl (Errorf ''clean target generation reuse lost'')
               else let C = (\<lambda>c. in_comp i n c \<and> c_component_id c = ''app'') in
                 if \<exists>x \<in> set (components db). in_comp i n x \<and> \<not> C x \<and> c_start_ordinal x = 0 then Inl ErrConstraint
                 else if sql_count C (components db) \<noteq> 1 then Inl (Errorf ''removed target generation component reuse lost'')
                 else Inr (set_comps C (\<lambda>_. comp) (set_gens (reusable i n) (\<lambda>_. row) db)))
         | Inl _ \<Rightarrow> bind_result (insert_gen row db) (insert_comp comp))
        (replaceBindings i n (pl_Bindings plan)))"

definition RecordNetwork :: "Plan \<Rightarrow> string \<Rightarrow> helper_db \<Rightarrow> helper_db result" where
  "RecordNetwork plan networkID db =
     (let P = (\<lambda>r. in_gen (pl_InstallationID plan) (pl_Generation plan) r
           \<and> g_creating_operation_id r = pl_OperationID plan \<and> g_status r = GPrepared) in
      if sql_count P (generations db) \<noteq> 1 then Inl (Errorf ''candidate network transition lost'')
      else Inr (set_gens P (\<lambda>r. r\<lparr>g_status := GCandidate, g_observed_network_id := networkID\<rparr>) db))"

definition is_candidate :: "string \<Rightarrow> int \<Rightarrow> string \<Rightarrow> gen_row \<Rightarrow> bool" where
  "is_candidate i n operationID r = (in_gen i n r \<and> g_creating_operation_id r = operationID \<and> g_status r = GCandidate)"

definition RecordContainer ::
  "string \<Rightarrow> Plan \<Rightarrow> string \<Rightarrow> string \<Rightarrow> string \<Rightarrow> comp_state \<Rightarrow> helper_db \<Rightarrow> helper_db result" where
  "RecordContainer now plan containerID imageID configHash state db =
     (let i = pl_InstallationID plan; n = pl_Generation plan in
      bind_result (verifyGenerationFence i (pl_OperationID plan) (pl_FencingToken plan) db) (\<lambda>_.
      let P = (\<lambda>c. in_comp i n c \<and> c_component_id c = ''app''
            \<and> (\<exists>r \<in> set (generations db). is_candidate i n (pl_OperationID plan) r)) in
      if sql_count P (components db) \<noteq> 1 then Inl (Errorf ''candidate container transition lost'')
      else Inr (set_comps P (\<lambda>c. c\<lparr>c_observed_container_id := containerID, c_observed_image_id := imageID,
        c_configuration_hash := configHash, c_state := state, c_created_at := now,
        c_verified_at := (if state = CsStopped then Some now else c_verified_at c)\<rparr>) db)))"

definition coalesce :: "'a option \<Rightarrow> 'a \<Rightarrow> 'a option" where
  "coalesce x y = (case x of None \<Rightarrow> Some y | Some _ \<Rightarrow> x)"

definition RecordState :: "string \<Rightarrow> Plan \<Rightarrow> comp_state \<Rightarrow> bool \<Rightarrow> helper_db \<Rightarrow> helper_db result" where
  "RecordState now plan state verified db =
     (let P = (\<lambda>c. in_comp (pl_InstallationID plan) (pl_Generation plan) c \<and> c_component_id c = ''app'') in
      if sql_count P (components db) \<noteq> 1 then Inl (Errorf ''candidate state transition lost'')
      else Inr (set_comps P (\<lambda>c. c\<lparr>c_state := state,
        c_started_at := (if state = CsRunning then coalesce (c_started_at c) now else c_started_at c),
        c_verified_at := (if verified then Some now else c_verified_at c)\<rparr>) db))"

section \<open>Commit\<close>

text \<open>
  The generation a commit replaces: the active one, or the newest removed one, or zero.
\<close>

definition active_row :: "string \<Rightarrow> helper_db \<Rightarrow> gen_row option" where
  "active_row i db = find (\<lambda>r. g_installation_id r = i \<and> g_status r = GActive) (generations db)"

definition max_removed :: "string \<Rightarrow> helper_db \<Rightarrow> int" where
  "max_removed i db = (let ns = map g_runtime_generation
       (filter (\<lambda>r. g_installation_id r = i \<and> g_status r = GRemoved) (generations db))
     in if ns = [] then 0 else foldr max (tl ns) (hd ns))"

definition current_generation :: "string \<Rightarrow> helper_db \<Rightarrow> bool \<times> int" where
  "current_generation i db = (case active_row i db of Some r \<Rightarrow> (True, g_runtime_generation r)
     | None \<Rightarrow> (False, max_removed i db))"

text \<open>
  The statements that switch generations: retire the active one, demote older retained ones,
  activate the candidate.
\<close>

definition retire :: "string \<Rightarrow> bool \<Rightarrow> string \<Rightarrow> int \<Rightarrow> helper_db \<Rightarrow> helper_db" where
  "retire now missing i n db = set_gens (\<lambda>r. in_gen i n r \<and> g_status r = GActive)
     (\<lambda>r. r\<lparr>g_status := (if missing then GCleanupPending else GRetained), g_retired_at := Some now,
        g_cleanup_state := (if missing then CPending else CNotRequired)\<rparr>) db"

definition demote_older :: "string \<Rightarrow> int \<Rightarrow> helper_db \<Rightarrow> helper_db" where
  "demote_older i keep db = set_gens (\<lambda>r. g_installation_id r = i \<and> g_status r = GRetained \<and> g_runtime_generation r \<noteq> keep)
     (\<lambda>r. r\<lparr>g_status := GCleanupPending, g_cleanup_state := CPending\<rparr>) db"

definition switch_generation ::
  "string \<Rightarrow> (gen_row \<Rightarrow> string option) \<Rightarrow> bool \<Rightarrow> bool \<Rightarrow> string \<Rightarrow> int \<Rightarrow> int \<Rightarrow> string \<Rightarrow> helper_db \<Rightarrow> helper_db result" where
  "switch_generation now verified currentActive missing i expected n operationID db =
     (if currentActive \<and> sql_count (\<lambda>r. in_gen i expected r \<and> g_status r = GActive) (generations db) \<noteq> 1
      then Inl (Errorf ''active generation retirement lost'')
      else let db1 = (if currentActive then retire now missing i expected db else db);
               db2 = demote_older i expected db1 in
        bind_result (activate (is_candidate i n operationID)
            (\<lambda>r. r\<lparr>g_status := GActive, g_verified_at := verified r, g_committed_at := Some now, g_cleanup_state := CClean\<rparr>) db2)
          (\<lambda>db3. if sql_count (is_candidate i n operationID) (generations db2) \<noteq> 1
             then Inl (Errorf ''candidate generation activation lost'') else Inr db3))"

definition Commit :: "string \<Rightarrow> Plan \<Rightarrow> helper_db \<Rightarrow> helper_db result" where
  "Commit now plan db =
     (let i = pl_InstallationID plan; n = pl_Generation plan in
      bind_result (verifyGenerationFence i (pl_OperationID plan) (pl_FencingToken plan) db) (\<lambda>_.
      case current_generation i db of (currentActive, current) \<Rightarrow>
      if current \<noteq> pl_ExpectedGeneration plan then Inl (Errorf ''active generation changed'')
      else bind_result (sql_row (\<lambda>r. in_gen i n r \<and> g_creating_operation_id r = pl_OperationID plan) (generations db)) (\<lambda>g.
      bind_result (sql_row (\<lambda>c. in_comp i n c \<and> c_component_id c = ''app'') (components db)) (\<lambda>c.
      if g_status g \<noteq> GCandidate \<or> c_state c \<noteq> CsRunning \<or> c_configuration_hash c = []
      then Inl (Errorf ''candidate generation has not been verified'')
      else bind_result (switch_generation now (\<lambda>r. coalesce (g_verified_at r) now) currentActive
          (pl_AllowMissingActive plan) i (pl_ExpectedGeneration plan) n (pl_OperationID plan) db) (\<lambda>db'.
        Inr (appendEvent (pl_OperationID plan) i (Some (pl_FencingToken plan)) ''generation_committed'' ''generation_commit''
          [(''active_generation'', itoa n), (''previous_generation'', itoa (pl_ExpectedGeneration plan))] now db'))))))"

definition MarkFailed :: "Plan \<Rightarrow> cleanup_state \<Rightarrow> helper_db \<Rightarrow> helper_db result" where
  "MarkFailed plan cleanupState db =
     (let P = (\<lambda>r. in_gen (pl_InstallationID plan) (pl_Generation plan) r
           \<and> g_creating_operation_id r = pl_OperationID plan \<and> g_status r \<in> set [GPrepared, GCandidate]) in
      if sql_count P (generations db) \<noteq> 1 then Inl (Errorf ''candidate failure transition lost'')
      else Inr (set_gens P (\<lambda>r. r\<lparr>g_status := GFailed, g_cleanup_state := cleanupState\<rparr>) db))"

definition MarkRemoved :: "Generation \<Rightarrow> helper_db \<Rightarrow> helper_db" where
  "MarkRemoved g db =
     set_comps (in_comp (ge_InstallationID g) (ge_Generation g)) (\<lambda>c. c\<lparr>c_state := CsRemoved\<rparr>)
       (set_gens (\<lambda>r. in_gen (ge_InstallationID g) (ge_Generation g) r
            \<and> g_status r \<in> set [GRetained, GCleanupPending, GFailed])
          (\<lambda>r. r\<lparr>g_status := GRemoved, g_cleanup_state := CClean\<rparr>) db)"

definition MarkCleanupPending :: "Generation \<Rightarrow> helper_db \<Rightarrow> helper_db" where
  "MarkCleanupPending g db = set_gens (\<lambda>r. in_gen (ge_InstallationID g) (ge_Generation g) r \<and> g_status r = GRetained)
     (\<lambda>r. r\<lparr>g_status := GCleanupPending, g_cleanup_state := CPending\<rparr>) db"

section \<open>Recovery\<close>

text \<open>
  The part common to the two forward recoveries: the generation before the candidate is
  retired when it is active, or must have been removed; older ones are demoted.
\<close>

definition recover_baseline :: "string \<Rightarrow> string \<Rightarrow> int \<Rightarrow> helper_db \<Rightarrow> helper_db result" where
  "recover_baseline now i expected db =
     bind_result
       (if expected \<le> 0 then Inr db
        else (case active_row i db of
            None \<Rightarrow> (case sql_row (\<lambda>r. in_gen i expected r \<and> g_status r = GRemoved) (generations db) of
                Inl _ \<Rightarrow> Inl (Errorf ''recovery baseline generation changed'') | Inr _ \<Rightarrow> Inr db)
          | Some r \<Rightarrow> if g_runtime_generation r \<noteq> expected then Inl (Errorf ''active generation changed during recovery'')
              else Inr (retire now False i expected db)))
     (\<lambda>db1. Inr (demote_older i expected db1))"

definition activate_recovered :: "string \<Rightarrow> string \<Rightarrow> int \<Rightarrow> helper_db \<Rightarrow> helper_db result" where
  "activate_recovered now i n db = activate (\<lambda>r. in_gen i n r \<and> g_status r = GCandidate)
     (\<lambda>r. r\<lparr>g_status := GActive, g_committed_at := Some now, g_cleanup_state := CClean\<rparr>) db"

definition RecoverForward :: "string \<Rightarrow> Generation \<Rightarrow> Result \<Rightarrow> helper_db \<Rightarrow> helper_db result" where
  "RecoverForward now candidate result db =
     (let i = ge_InstallationID candidate; n = ge_Generation candidate; k = ge_CreatingOperationID candidate in
      bind_result (recovery_fence ''generation recovery fence is not valid'' k db) (\<lambda>token.
      bind_result (sql_row (\<lambda>r. in_gen i n r \<and> g_creating_operation_id r = k) (generations db)) (\<lambda>g.
      bind_result (sql_row (\<lambda>c. in_comp i n c \<and> c_component_id c = ''app'') (components db)) (\<lambda>c.
      if g_status g \<noteq> GCandidate \<or> c_state c \<noteq> CsRunning \<or> c_configuration_hash c = []
      then Inl (Errorf ''candidate is not eligible for forward recovery'')
      else bind_result (recover_baseline now i (n - 1) db) (\<lambda>db1.
      bind_result (activate_recovered now i n db1) (\<lambda>db2.
      Inr (appendEvent k i (Some token) ''generation_recovered'' ''recovered_generation_commit''
        [(''active_generation'', itoa n)] now
        (settle_recovered True now ''recovered_generation_commit'' (json_of_Result result) i k token db2))))))))"

definition FinalizeCommittedRecovery :: "string \<Rightarrow> Generation \<Rightarrow> Result \<Rightarrow> helper_db \<Rightarrow> helper_db result" where
  "FinalizeCommittedRecovery now g result db =
     bind_result (committed_fence (ge_CreatingOperationID g) db) (\<lambda>token.
     Inr (settle_recovered False now ''recovered_post_commit'' (json_of_Result result) (ge_InstallationID g)
       (ge_CreatingOperationID g) token db))"

end
