(* ===== verification/Gen_Multi_Store.thy ===== *)
theory Gen_Multi_Store
  imports Gen_Store
begin

text \<open>
  \<^verbatim>\<open>internal/lifecycle/multi_store.go\<close>: the durable record of generations with several
  components, and the evidence of the mutations dispatched to each component.
\<close>

section \<open>Data\<close>

record MultiComponentPlan =
  mc_ID :: string
  mc_Image :: string
  mc_ContainerName :: string
  mc_DependsOn :: "string list"
  mc_StartOrdinal :: int
  mc_Container :: ContainerPlan

record MultiPlan =
  mp_OperationID :: string
  mp_InstallationID :: string
  mp_ApplicationID :: string
  mp_ReleaseID :: string
  mp_Generation :: int
  mp_ExpectedGeneration :: int
  mp_FencingToken :: int
  mp_NetworkName :: string
  mp_PlanHash :: string
  mp_TopologyHash :: string
  mp_DataPath :: string
  mp_Bindings :: "Binding list"
  mp_Components :: "MultiComponentPlan list"
  mp_RollbackSafe :: bool
  mp_AllowMissingActive :: bool

record MultiGeneration =
  mg_InstallationID :: string
  mg_CreatingOperationID :: string
  mg_ApplicationID :: string
  mg_ReleaseID :: string
  mg_Generation :: int
  mg_Status :: gen_status
  mg_NetworkName :: string
  mg_NetworkID :: string
  mg_PlanHash :: string
  mg_TopologyHash :: string
  mg_DataPath :: string
  mg_Bindings :: "Binding list"
  mg_CleanupState :: cleanup_state
  mg_Components :: "LComponent list"

section \<open>Preparation\<close>

text \<open>
  Moving the ordinals out of the way uses the fact that the ordinals of a generation are
  below 100. An \<open>UPDATE\<close> of one component's ordinal can clash with another component.
\<close>

definition shift_ordinals :: "string \<Rightarrow> int \<Rightarrow> helper_db \<Rightarrow> helper_db" where
  "shift_ordinals i n db = set_comps (in_comp i n) (\<lambda>c. c\<lparr>c_start_ordinal := c_start_ordinal c + 100\<rparr>) db"

definition reuse_component :: "string \<Rightarrow> string \<Rightarrow> int \<Rightarrow> MultiComponentPlan \<Rightarrow> int \<Rightarrow> helper_db \<Rightarrow> helper_db result" where
  "reuse_component now i n c ordinal db =
     (let P = (\<lambda>r. in_comp i n r \<and> c_component_id r = mc_ID c) in
      if \<exists>x \<in> set (components db). in_comp i n x \<and> \<not> P x \<and> c_start_ordinal x = ordinal \<and> sql_count P (components db) \<noteq> 0
      then Inl ErrConstraint
      else if sql_count P (components db) \<noteq> 1 then Inl (Errorf ''failed target generation component topology changed'')
      else Inr (set_comps P (\<lambda>_. prepared_comp now i n (mc_ID c) (mc_ContainerName c) (mc_Image c) (mc_DependsOn c) ordinal) db))"

fun prepare_components ::
  "string \<Rightarrow> string \<Rightarrow> int \<Rightarrow> bool \<Rightarrow> int \<Rightarrow> MultiComponentPlan list \<Rightarrow> helper_db \<Rightarrow> helper_db result" where
  "prepare_components now i n reusing ordinal [] db = Inr db"
| "prepare_components now i n reusing ordinal (c # cs) db =
     (if mc_StartOrdinal c \<noteq> ordinal then Inl (Errorf ''component plan is not in normalized dependency order'')
      else bind_result
        (if reusing then reuse_component now i n c ordinal db
         else insert_comp (prepared_comp now i n (mc_ID c) (mc_ContainerName c) (mc_Image c) (mc_DependsOn c) ordinal) db)
        (prepare_components now i n reusing (ordinal + 1) cs))"

definition PrepareMulti :: "string \<Rightarrow> MultiPlan \<Rightarrow> helper_db \<Rightarrow> helper_db result" where
  "PrepareMulti now plan db =
     (let i = mp_InstallationID plan; n = mp_Generation plan;
          row = prepared_gen now (mp_OperationID plan) (mp_ApplicationID plan) (mp_ReleaseID plan)
            (mp_NetworkName plan) (mp_PlanHash plan) (mp_TopologyHash plan) (mp_DataPath plan) i n in
      if length (mp_Components plan) < 2 then Inl (Errorf ''multi-component plan requires at least two components'')
      else bind_result
        (case sql_row (in_gen i n) (generations db) of
           Inr existing \<Rightarrow>
             if (g_status existing \<noteq> GFailed \<and> g_status existing \<noteq> GRemoved) \<or> g_cleanup_state existing \<noteq> CClean
             then Inl (Errorf ''target generation already has unresolved lifecycle evidence'')
             else if sql_count (in_comp i n) (components db) \<noteq> length (mp_Components plan)
             then Inl (Errorf ''failed target generation topology cannot be safely reused'')
             else if sql_count (reusable i n) (generations db) \<noteq> 1 then Inl (Errorf ''clean target generation reuse lost'')
             else Inr (True, set_gens (reusable i n) (\<lambda>_. row) (shift_ordinals i n db))
         | Inl _ \<Rightarrow> bind_result (insert_gen row db) (\<lambda>db1. Inr (False, db1)))
        (\<lambda>(reusing, db1). bind_result (prepare_components now i n reusing 0 (mp_Components plan) db1)
           (replaceBindings i n (mp_Bindings plan))))"

section \<open>Migration\<close>

fun legacy_components :: "string \<Rightarrow> string \<Rightarrow> int \<Rightarrow> LComponent list \<Rightarrow> helper_db \<Rightarrow> helper_db result" where
  "legacy_components now i n [] db = Inr db"
| "legacy_components now i n (c # cs) db =
     bind_result (insert_comp ((prepared_comp now i n (lc_ID c) (lc_ContainerName c) (lc_Image c) (lc_DependsOn c)
         (lc_StartOrdinal c))\<lparr>c_observed_container_id := lc_ContainerID c\<rparr>) db)
       (legacy_components now i n cs)"

definition BackfillLegacyMulti :: "string \<Rightarrow> MultiGeneration \<Rightarrow> helper_db \<Rightarrow> helper_db result" where
  "BackfillLegacyMulti now g db =
     (let i = mg_InstallationID g; n = mg_Generation g in
      if length (mg_Components g) < 2 \<or> mg_TopologyHash g = [] then Inl (Errorf ''legacy multi-component topology is incomplete'')
      else if sql_count (\<lambda>r. g_installation_id r = i) (generations db) \<noteq> 0 then Inr db
      else bind_result (insert_gen ((prepared_gen now ''legacy-multi-migration'' (mg_ApplicationID g) (mg_ReleaseID g)
            (mg_NetworkName g) (mg_PlanHash g) (mg_TopologyHash g) (mg_DataPath g) i n)\<lparr>g_status := GVerificationRequired\<rparr>) db) (\<lambda>db1.
      bind_result (legacy_components now i n (mg_Components g) db1) (replaceBindings i n (mg_Bindings g))))"

fun promote_components ::
  "string \<Rightarrow> string \<Rightarrow> int \<Rightarrow> ContainerObservation go_map \<Rightarrow> comp_state \<Rightarrow> LComponent list \<Rightarrow> helper_db \<Rightarrow> helper_db result" where
  "promote_components now i n observations state [] db = Inr db"
| "promote_components now i n observations state (c # cs) db =
     (case map_of observations (lc_ID c) of
        None \<Rightarrow> Inl (Errorf ''migrated component observation is incomplete'')
      | Some observed \<Rightarrow>
        let P = (\<lambda>r. in_comp i n r \<and> c_component_id r = lc_ID c \<and> c_observed_container_id r = lc_ContainerID c) in
        if sql_count P (components db) \<noteq> 1 then Inl (Errorf ''migrated component promotion lost'')
        else promote_components now i n observations state cs
          (set_comps P (\<lambda>r. r\<lparr>c_observed_image_id := co_ImageID observed, c_configuration_hash := observationHash observed,
             c_state := state, c_verified_at := Some now\<rparr>) db))"

definition PromoteMigratedMulti ::
  "string \<Rightarrow> MultiGeneration \<Rightarrow> string \<Rightarrow> ContainerObservation go_map \<Rightarrow> comp_state \<Rightarrow> string \<Rightarrow> int \<Rightarrow> helper_db \<Rightarrow> helper_db result" where
  "PromoteMigratedMulti now g networkID observations runtimeState operationID fencingToken db =
     (let i = mg_InstallationID g; n = mg_Generation g;
          P = (\<lambda>r. in_gen i n r \<and> g_status r = GVerificationRequired) in
      if runtimeState \<noteq> CsRunning \<and> runtimeState \<noteq> CsStopped then Inl (Errorf ''migrated generation state is not promotable'')
      else bind_result (verifyGenerationFence i operationID fencingToken db) (\<lambda>_.
      bind_result (activate P (\<lambda>r. r\<lparr>g_status := GActive, g_observed_network_id := networkID,
        g_verified_at := Some now, g_committed_at := Some now, g_cleanup_state := CClean\<rparr>) db) (\<lambda>db1.
      if sql_count P (generations db) \<noteq> 1 then Inl (Errorf ''migrated multi-component generation is not promotable'')
      else promote_components now i n observations runtimeState (mg_Components g) db1)))"

section \<open>Recording\<close>

definition RecordMultiNetwork :: "MultiPlan \<Rightarrow> string \<Rightarrow> helper_db \<Rightarrow> helper_db result" where
  "RecordMultiNetwork plan networkID db =
     (let P = (\<lambda>r. in_gen (mp_InstallationID plan) (mp_Generation plan) r
           \<and> g_creating_operation_id r = mp_OperationID plan \<and> g_status r = GPrepared) in
      if sql_count P (generations db) \<noteq> 1 then Inl (Errorf ''candidate network transition lost'')
      else Inr (set_gens P (\<lambda>r. r\<lparr>g_status := GCandidate, g_observed_network_id := networkID\<rparr>) db))"

definition RecordMultiContainer ::
  "string \<Rightarrow> MultiPlan \<Rightarrow> string \<Rightarrow> string \<Rightarrow> string \<Rightarrow> string \<Rightarrow> comp_state \<Rightarrow> bool \<Rightarrow> helper_db \<Rightarrow> helper_db result" where
  "RecordMultiContainer now plan componentID containerID imageID configHash state verified db =
     (let i = mp_InstallationID plan; n = mp_Generation plan;
          keep = (\<lambda>new old. if new \<noteq> [] then new else old) in
      bind_result (verifyGenerationFence i (mp_OperationID plan) (mp_FencingToken plan) db) (\<lambda>_.
      let P = (\<lambda>c. in_comp i n c \<and> c_component_id c = componentID) in
      if sql_count P (components db) \<noteq> 1 then Inl (Errorf ''component state transition lost'')
      else Inr (set_comps P (\<lambda>c. c\<lparr>c_observed_container_id := keep containerID (c_observed_container_id c),
        c_observed_image_id := keep imageID (c_observed_image_id c),
        c_configuration_hash := keep configHash (c_configuration_hash c), c_state := state,
        c_started_at := (if state = CsRunning then coalesce (c_started_at c) now else c_started_at c),
        c_verified_at := (if verified then Some now else c_verified_at c)\<rparr>) db)))"

section \<open>Queries\<close>

definition LoadMultiGeneration :: "string \<Rightarrow> int \<Rightarrow> helper_db \<Rightarrow> MultiGeneration result" where
  "LoadMultiGeneration i n db =
     bind_result (sql_row (in_gen i n) (generations db)) (\<lambda>g.
     Inr \<lparr>mg_InstallationID = g_installation_id g, mg_CreatingOperationID = g_creating_operation_id g,
       mg_ApplicationID = g_application_id g, mg_ReleaseID = g_release_id g, mg_Generation = g_runtime_generation g,
       mg_Status = g_status g, mg_NetworkName = g_network_name g, mg_NetworkID = g_observed_network_id g,
       mg_PlanHash = g_plan_hash g, mg_TopologyHash = g_topology_hash g, mg_DataPath = g_data_path g,
       mg_Bindings = loadBindings i n db, mg_CleanupState = g_cleanup_state g,
       mg_Components = map (\<lambda>c. \<lparr>lc_ID = c_component_id c, lc_ContainerName = c_container_name c,
           lc_ContainerID = c_observed_container_id c, lc_Image = c_image_digest c, lc_ImageID = c_observed_image_id c,
           lc_ConfigurationHash = c_configuration_hash c, lc_State = c_state c, lc_DependsOn = c_dependencies c,
           lc_StartOrdinal = c_start_ordinal c\<rparr>)
         (sort_key c_start_ordinal (sort_key c_component_id (filter (in_comp i n) (components db))))\<rparr>)"

definition MultiCurrent :: "string \<Rightarrow> helper_db \<Rightarrow> MultiGeneration result" where
  "MultiCurrent installation db =
     bind_result (first_row (sort_key (\<lambda>g. status_rank (g_status g)) (sort_key (\<lambda>g. - g_runtime_generation g)
       (filter (\<lambda>g. g_installation_id g = installation
           \<and> g_status g \<in> set [GActive, GVerificationRequired, GRemoved]) (generations db)))))
     (\<lambda>g. LoadMultiGeneration installation (g_runtime_generation g) db)"

definition MultiByOperation :: "string \<Rightarrow> helper_db \<Rightarrow> MultiGeneration result" where
  "MultiByOperation operationID db =
     bind_result (first_row (sort_key (\<lambda>g. - g_runtime_generation g)
       (filter (\<lambda>g. g_creating_operation_id g = operationID) (generations db))))
     (\<lambda>g. LoadMultiGeneration (g_installation_id g) (g_runtime_generation g) db)"

definition MultiOlderRetained :: "string \<Rightarrow> int \<Rightarrow> helper_db \<Rightarrow> MultiGeneration list result" where
  "MultiOlderRetained installation keep db =
     map_result (\<lambda>g. LoadMultiGeneration installation (g_runtime_generation g) db)
       (sort_key g_runtime_generation (filter (\<lambda>g. g_installation_id g = installation
           \<and> (g_status g \<in> set [GRetained, GCleanupPending] \<or> (g_status g = GFailed \<and> g_cleanup_state g = CPending))
           \<and> g_runtime_generation g \<noteq> keep) (generations db)))"

definition sortedComponentsReverse :: "LComponent list \<Rightarrow> LComponent list" where
  "sortedComponentsReverse cs = sort_key (\<lambda>c. - lc_StartOrdinal c) cs"

section \<open>Evidence of component mutations\<close>

definition BeginComponentStep ::
  "string \<Rightarrow> MultiPlan \<Rightarrow> string \<Rightarrow> string \<Rightarrow> string \<Rightarrow> int \<Rightarrow> helper_db \<Rightarrow> helper_db result" where
  "BeginComponentStep now plan componentID action expectedID attempt db =
     bind_result (verifyGenerationFence (mp_InstallationID plan) (mp_OperationID plan) (mp_FencingToken plan) db) (\<lambda>_.
     bind_result (sql_insert step_key \<lparr>s_operation_id = mp_OperationID plan, s_installation_id = mp_InstallationID plan,
       s_runtime_generation = mp_Generation plan, s_component_id = componentID, s_action = action, s_attempt = attempt,
       s_expected_runtime_id = expectedID, s_observed_runtime_id = [], s_intent_at = now, s_dispatched_at = None,
       s_verified_at = None, s_outcome_confidence = not_dispatched, s_error_detail = []\<rparr> (steps db)) (\<lambda>ss.
     if (\<exists>o' \<in> set (operations db). o_operation_id o' = mp_OperationID plan)
        \<and> (\<exists>c \<in> set (components db). in_comp (mp_InstallationID plan) (mp_Generation plan) c \<and> c_component_id c = componentID)
     then Inr (db\<lparr>steps := ss\<rparr>) else Inl ErrConstraint))"

definition step_at :: "MultiPlan \<Rightarrow> string \<Rightarrow> string \<Rightarrow> int \<Rightarrow> step_row \<Rightarrow> bool" where
  "step_at plan componentID action attempt s = (s_operation_id s = mp_OperationID plan
     \<and> s_runtime_generation s = mp_Generation plan \<and> s_component_id s = componentID
     \<and> s_action s = action \<and> s_attempt s = attempt)"

definition DispatchComponentStep ::
  "string \<Rightarrow> MultiPlan \<Rightarrow> string \<Rightarrow> string \<Rightarrow> int \<Rightarrow> helper_db \<Rightarrow> helper_db result" where
  "DispatchComponentStep now plan componentID action attempt db =
     bind_result (verifyGenerationFence (mp_InstallationID plan) (mp_OperationID plan) (mp_FencingToken plan) db) (\<lambda>_.
     let P = (\<lambda>s. step_at plan componentID action attempt s \<and> s_dispatched_at s = None) in
     if sql_count P (steps db) \<noteq> 1 then Inl (Errorf ''component mutation dispatch evidence lost'')
     else Inr (db\<lparr>steps := sql_update P (\<lambda>s. s\<lparr>s_dispatched_at := Some now, s_outcome_confidence := unknown_outcome\<rparr>) (steps db)\<rparr>))"

definition FinishComponentStep ::
  "string \<Rightarrow> MultiPlan \<Rightarrow> string \<Rightarrow> string \<Rightarrow> int \<Rightarrow> string \<Rightarrow> outcome_confidence \<Rightarrow> string \<Rightarrow> helper_db \<Rightarrow> helper_db result" where
  "FinishComponentStep now plan componentID action attempt observedID confidence detail db =
     bind_result (verifyGenerationFence (mp_InstallationID plan) (mp_OperationID plan) (mp_FencingToken plan) db) (\<lambda>_.
     let P = step_at plan componentID action attempt in
     if confidence = mixed_outcome \<and> sql_count P (steps db) \<noteq> 0 then Inl ErrConstraint
     else if sql_count P (steps db) \<noteq> 1 then Inl (Errorf ''component mutation result evidence lost'')
     else Inr (db\<lparr>steps := sql_update P (\<lambda>s. s\<lparr>s_observed_runtime_id := observedID, s_verified_at := Some now,
       s_outcome_confidence := confidence, s_error_detail := detail\<rparr>) (steps db)\<rparr>))"

definition ComponentSteps :: "string \<Rightarrow> helper_db \<Rightarrow> step_row list" where
  "ComponentSteps operationID db =
     sort_key s_runtime_generation (sort_key s_component_id (sort_key s_action (sort_key s_attempt
       (filter (\<lambda>s. s_operation_id s = operationID) (steps db)))))"

section \<open>Commit and recovery\<close>

definition component_verified :: "comp_row \<Rightarrow> bool" where
  "component_verified c = (c_state c = CsRunning \<and> c_configuration_hash c \<noteq> [] \<and> c_verified_at c \<noteq> None)"

text \<open>\<open>SELECT COUNT(*), SUM(\<dots>)\<close>: the sum over no rows is \<open>NULL\<close>, which does not scan.\<close>

definition verified_counts :: "string \<Rightarrow> int \<Rightarrow> helper_db \<Rightarrow> (nat \<times> nat) result" where
  "verified_counts i n db = (let total = sql_count (in_comp i n) (components db) in
     if total = 0 then Inl ErrNullScan
     else Inr (total, sql_count (\<lambda>c. in_comp i n c \<and> component_verified c) (components db)))"

definition CommitMulti :: "string \<Rightarrow> MultiPlan \<Rightarrow> helper_db \<Rightarrow> helper_db result" where
  "CommitMulti now plan db =
     (let i = mp_InstallationID plan; n = mp_Generation plan in
      bind_result (verifyGenerationFence i (mp_OperationID plan) (mp_FencingToken plan) db) (\<lambda>_.
      case current_generation i db of (currentActive, current) \<Rightarrow>
      if current \<noteq> mp_ExpectedGeneration plan then Inl (Errorf ''active generation changed'')
      else bind_result (sql_row (\<lambda>r. in_gen i n r \<and> g_creating_operation_id r = mp_OperationID plan) (generations db)) (\<lambda>g.
      if g_status g \<noteq> GCandidate \<or> g_topology_hash g \<noteq> mp_TopologyHash plan
      then Inl (Errorf ''candidate application topology is not committable'')
      else bind_result (verified_counts i n db) (\<lambda>(total, verified).
      if total \<noteq> length (mp_Components plan) \<or> verified \<noteq> total
      then Inl (Errorf ''not every required candidate component is verified'')
      else bind_result (switch_generation now (\<lambda>_. Some now) currentActive
          (mp_AllowMissingActive plan) i (mp_ExpectedGeneration plan) n (mp_OperationID plan) db) (\<lambda>db'.
        Inr (appendEvent (mp_OperationID plan) i (Some (mp_FencingToken plan)) ''generation_committed'' ''generation_commit''
          [(''active_generation'', itoa n), (''component_count'', itoa (int total)),
           (''previous_generation'', itoa (mp_ExpectedGeneration plan))] now db'))))))"

definition RecoverForwardMulti :: "string \<Rightarrow> MultiGeneration \<Rightarrow> Result \<Rightarrow> helper_db \<Rightarrow> helper_db result" where
  "RecoverForwardMulti now candidate result db =
     (let i = mg_InstallationID candidate; n = mg_Generation candidate; k = mg_CreatingOperationID candidate in
      bind_result (recovery_fence ''multi-component recovery fence is not valid'' k db) (\<lambda>token.
      bind_result (verified_counts i n db) (\<lambda>(total, verified).
      if total \<noteq> length (mg_Components candidate) \<or> verified \<noteq> total \<or> total < 2 \<or> mg_TopologyHash candidate = []
      then Inl (Errorf ''multi-component candidate is not eligible for forward recovery'')
      else bind_result (recover_baseline now i (n - 1) db) (\<lambda>db1.
      bind_result (activate_recovered now i n db1) (\<lambda>db2.
      if sql_count (\<lambda>r. in_gen i n r \<and> g_status r = GCandidate) (generations db1) \<noteq> 1
      then Inl (Errorf ''recovery activation lost'')
      else Inr (settle_recovered True now ''recovered_multi_generation_commit'' (json_of_Result result) i k token db2))))))"

fun reverify_components :: "string \<Rightarrow> string \<Rightarrow> int \<Rightarrow> LComponent list \<Rightarrow> helper_db \<Rightarrow> helper_db result" where
  "reverify_components now i n [] db = Inr db"
| "reverify_components now i n (c # cs) db =
     (if lc_ContainerID c = [] \<or> lc_ConfigurationHash c = [] then Inl (Errorf ''candidate recovery evidence is incomplete'')
      else let P = (\<lambda>r. in_comp i n r \<and> c_component_id r = lc_ID c \<and> c_observed_container_id r = lc_ContainerID c
             \<and> c_configuration_hash r = lc_ConfigurationHash c) in
        if sql_count P (components db) \<noteq> 1 then Inl (Errorf ''candidate recovery verification lost'')
        else reverify_components now i n cs (set_comps P (\<lambda>r. r\<lparr>c_state := CsRunning, c_verified_at := Some now\<rparr>) db))"

definition RecordRecoveredMultiVerification :: "string \<Rightarrow> MultiGeneration \<Rightarrow> helper_db \<Rightarrow> helper_db result" where
  "RecordRecoveredMultiVerification now candidate db =
     (let i = mg_InstallationID candidate; n = mg_Generation candidate in
      bind_result (sql_row (\<lambda>r. in_gen i n r \<and> g_creating_operation_id r = mg_CreatingOperationID candidate) (generations db)) (\<lambda>g.
      if g_status g \<noteq> GCandidate then Inl (Errorf ''only a candidate generation can record recovered verification'')
      else reverify_components now i n (mg_Components candidate) db))"

definition MarkMultiFailed :: "MultiPlan \<Rightarrow> cleanup_state \<Rightarrow> helper_db \<Rightarrow> helper_db result" where
  "MarkMultiFailed plan cleanupState db =
     (let P = (\<lambda>r. in_gen (mp_InstallationID plan) (mp_Generation plan) r
           \<and> g_creating_operation_id r = mp_OperationID plan \<and> g_status r \<in> set [GPrepared, GCandidate]) in
      if sql_count P (generations db) \<noteq> 1 then Inl (Errorf ''multi candidate failure transition lost'')
      else Inr (set_gens P (\<lambda>r. r\<lparr>g_status := GFailed, g_cleanup_state := cleanupState\<rparr>) db))"

section \<open>Reconciliation and repair\<close>

text \<open>The transactions of \<^verbatim>\<open>reconciliation.go\<close> and \<^verbatim>\<open>repair.go\<close> that retire a generation which does not serve.\<close>

definition MarkReconciledAbsent :: "MultiGeneration \<Rightarrow> helper_db \<Rightarrow> helper_db result" where
  "MarkReconciledAbsent g db =
     (let P = (\<lambda>r. in_gen (mg_InstallationID g) (mg_Generation g) r \<and> g_status r \<in> set [GCleanupPending, GFailed]) in
      if sql_count P (generations db) = 0 then Inr db
      else Inr (set_comps (in_comp (mg_InstallationID g) (mg_Generation g)) (\<lambda>c. c\<lparr>c_state := CsRemoved\<rparr>)
        (set_gens P (\<lambda>r. r\<lparr>g_status := GRemoved, g_cleanup_state := CClean\<rparr>) db)))"

definition MarkRetainedCleanupPending :: "MultiGeneration \<Rightarrow> string \<Rightarrow> int \<Rightarrow> helper_db \<Rightarrow> helper_db result" where
  "MarkRetainedCleanupPending g operationID token db =
     bind_result (verifyGenerationFence (mg_InstallationID g) operationID token db) (\<lambda>_.
     let P = (\<lambda>r. in_gen (mg_InstallationID g) (mg_Generation g) r \<and> g_status r = GRetained) in
     if sql_count P (generations db) \<noteq> 1 then Inl (Errorf ''retained cleanup transition lost'')
     else Inr (set_gens P (\<lambda>r. r\<lparr>g_status := GCleanupPending, g_cleanup_state := CPending\<rparr>) db))"

definition MarkNonActiveRemoved :: "MultiGeneration \<Rightarrow> string \<Rightarrow> int \<Rightarrow> helper_db \<Rightarrow> helper_db result" where
  "MarkNonActiveRemoved g operationID token db =
     bind_result (verifyGenerationFence (mg_InstallationID g) operationID token db) (\<lambda>_.
     let P = (\<lambda>r. in_gen (mg_InstallationID g) (mg_Generation g) r
           \<and> g_status r \<in> set [GRetained, GCleanupPending, GFailed, GCandidate, GPrepared]) in
     if sql_count P (generations db) \<noteq> 1 then Inl (Errorf ''non-active generation cleanup transition lost'')
     else Inr (set_comps (in_comp (mg_InstallationID g) (mg_Generation g)) (\<lambda>c. c\<lparr>c_state := CsRemoved\<rparr>)
       (set_gens P (\<lambda>r. r\<lparr>g_status := GRemoved, g_cleanup_state := CClean\<rparr>) db)))"

end
