(* ===== verification/Coordinator_Inv.thy ===== *)
theory Coordinator_Inv
  imports Gen_Fence
begin

text \<open>
  Correctness of the operation coordinator: the invariant that ties live operations to
  leases, its preservation by every transaction, mutual exclusion per installation, and the
  monotonicity of fencing tokens.
\<close>

section \<open>The invariant\<close>

definition live :: "op_state \<Rightarrow> bool" where
  "live s = (s \<in> {StateAccepted, StateExecuting, StateReconciling, StateActionRequired})"

definition lease_matches :: "op_row \<Rightarrow> lease_row \<Rightarrow> bool" where
  "lease_matches x l = (l_operation_id l = o_operation_id x \<and> l_installation_id l = o_installation_id x
     \<and> o_fencing_token x = Some (l_fencing_token l)
     \<and> (case o_state x of StateAccepted \<Rightarrow> l_state l = Held | StateExecuting \<Rightarrow> l_state l = Held
        | StateReconciling \<Rightarrow> l_state l = RecoveryRequired
        | StateActionRequired \<Rightarrow> l_state l = RecoveryRequired | _ \<Rightarrow> False))"

definition coord_inv :: "helper_db \<Rightarrow> bool" where
  "coord_inv db \<longleftrightarrow> tbl_wf o_operation_id (operations db) \<and> tbl_wf l_installation_id (leases db)
     \<and> (\<forall>k x. op_get db k = Some x \<and> live (o_state x) \<longrightarrow>
           (\<exists>l. lease_get db (o_installation_id x) = Some l \<and> lease_matches x l))
     \<and> (\<forall>i l. lease_get db i = Some l \<longrightarrow>
           (\<exists>x. op_get db (l_operation_id l) = Some x \<and> o_installation_id x = i
              \<and> (l_state l \<noteq> Released \<longrightarrow> lease_matches x l)))"

lemma coord_inv_wf: "coord_inv db \<Longrightarrow> tbl_wf o_operation_id (operations db)"
    "coord_inv db \<Longrightarrow> tbl_wf l_installation_id (leases db)"
  by (simp_all add: coord_inv_def)

lemma coord_inv_liveD:
  assumes "coord_inv db" and "op_get db k = Some x" and "live (o_state x)"
  obtains l where "lease_get db (o_installation_id x) = Some l" and "lease_matches x l"
  using assms unfolding coord_inv_def by blast

lemma coord_inv_leaseD:
  assumes "coord_inv db" and "lease_get db i = Some l"
  obtains x where "op_get db (l_operation_id l) = Some x" and "o_installation_id x = i"
    and "l_state l \<noteq> Released \<Longrightarrow> lease_matches x l"
  using assms unfolding coord_inv_def by blast

lemma lease_matches_live: "lease_matches x l \<Longrightarrow> live (o_state x) \<and> l_state l \<noteq> Released"
  by (auto simp: lease_matches_def live_def split: op_state.splits)

lemma live_iff: "live s \<longleftrightarrow> s \<noteq> StateSucceeded \<and> s \<noteq> StateFailed \<and> s \<noteq> StateCancelled \<and> s \<noteq> StateSuperseded"
  by (cases s) (auto simp: live_def)

text \<open>At most one live operation per installation.\<close>

lemma coord_inv_exclusive:
  assumes inv: "coord_inv db"
    and a: "op_get db k = Some x" "live (o_state x)"
    and b: "op_get db k' = Some y" "live (o_state y)"
    and same: "o_installation_id x = o_installation_id y"
  shows "k = k'"
proof -
  obtain l where l: "lease_get db (o_installation_id x) = Some l" "lease_matches x l"
    using inv a by (rule coord_inv_liveD)
  obtain l' where l': "lease_get db (o_installation_id y) = Some l'" "lease_matches y l'"
    using inv b by (rule coord_inv_liveD)
  from l l' same have "o_operation_id x = o_operation_id y" by (simp add: lease_matches_def)
  with a(1) b(1) show ?thesis by (auto dest!: tbl_get_key)
qed

text \<open>
  The one preservation argument every transaction uses: it writes one operation \<open>k\<close> and
  one lease \<open>i\<close> that fit together, other operations stay or become non-live ones of the
  same installation, and no other operation of that installation is left live.
\<close>

lemma coord_inv_change:
  assumes inv: "coord_inv db"
    and wf: "tbl_wf o_operation_id (operations db')" "tbl_wf l_installation_id (leases db')"
    and op': "op_get db' k = Some x'" and x': "o_installation_id x' = i"
    and others: "\<And>j. j \<noteq> k \<Longrightarrow> op_get db' j = op_get db j
        \<or> (\<exists>y y'. op_get db j = Some y \<and> op_get db' j = Some y'
             \<and> o_installation_id y = i \<and> o_installation_id y' = i \<and> \<not> live (o_state y'))"
    and lease': "\<And>j. lease_get db' j = (if j = i then Some l' else lease_get db j)"
    and l': "l_operation_id l' = k"
    and fit: "live (o_state x') \<or> l_state l' \<noteq> Released \<Longrightarrow> lease_matches x' l'"
    and alone: "\<And>j y. j \<noteq> k \<Longrightarrow> op_get db' j = Some y \<Longrightarrow> o_installation_id y = i \<Longrightarrow> \<not> live (o_state y)"
    and old: "op_get db k = None \<or> (\<exists>x. op_get db k = Some x \<and> o_installation_id x = i)"
  shows "coord_inv db'"
proof -
  have live_case: "\<exists>l. lease_get db' (o_installation_id y) = Some l \<and> lease_matches y l"
    if y: "op_get db' j = Some y" "live (o_state y)" for j y
  proof (cases "j = k")
    case True
    with y op' x' fit lease' show ?thesis by auto
  next
    case False
    with y alone have ni: "o_installation_id y \<noteq> i" by blast
    with False y others [of j] have "op_get db j = Some y" by auto
    with inv y(2) obtain l where "lease_get db (o_installation_id y) = Some l" "lease_matches y l"
      by (blast elim: coord_inv_liveD)
    with ni lease' show ?thesis by auto
  qed
  have lease_case: "\<exists>y. op_get db' (l_operation_id l) = Some y \<and> o_installation_id y = j
      \<and> (l_state l \<noteq> Released \<longrightarrow> lease_matches y l)"
    if l: "lease_get db' j = Some l" for j l
  proof (cases "j = i")
    case True
    with l lease' l' op' x' fit show ?thesis by auto
  next
    case False
    with l lease' have "lease_get db j = Some l" by auto
    with inv obtain y where y: "op_get db (l_operation_id l) = Some y" "o_installation_id y = j"
        "l_state l \<noteq> Released \<Longrightarrow> lease_matches y l"
      by (blast elim: coord_inv_leaseD)
    with old False have "l_operation_id l \<noteq> k" by auto
    with y False others [of "l_operation_id l"] show ?thesis by auto
  qed
  show ?thesis
    unfolding coord_inv_def using wf live_case lease_case by blast
qed

section \<open>The fence\<close>

definition fenced :: "helper_db \<Rightarrow> string \<Rightarrow> int \<Rightarrow> op_row \<Rightarrow> lease_row \<Rightarrow> bool" where
  "fenced db k t x l \<longleftrightarrow> op_get db k = Some x \<and> o_fencing_token x = Some t
     \<and> lease_get db (o_installation_id x) = Some l
     \<and> l_operation_id l = k \<and> l_fencing_token l = t \<and> l_state l = Held"

lemma verifyFence_iff: "verifyFence k t db = Inr () \<longleftrightarrow> (\<exists>x l. fenced db k t x l)"
  by (auto simp: verifyFence_def op_row_of_def scan_token_def sql_row_key fenced_def
      split: option.splits if_splits)

lemma verifyFence_cases:
  obtains e where "verifyFence k t db = Inl e"
  | x l where "verifyFence k t db = Inr ()" and "fenced db k t x l"
  using verifyFence_iff [of k t db] by (cases "verifyFence k t db") auto

lemma fenced_live:
  assumes "coord_inv db" and "fenced db k t x l"
  shows "lease_matches x l" and "o_state x = StateAccepted \<or> o_state x = StateExecuting"
proof -
  from assms(2) have l: "lease_get db (o_installation_id x) = Some l" "l_state l = Held"
    and x: "op_get db k = Some x" "l_operation_id l = k"
    by (auto simp: fenced_def)
  from assms(1) l(1) obtain y where "op_get db (l_operation_id l) = Some y"
      and "l_state l \<noteq> Released \<Longrightarrow> lease_matches y l"
    by (blast elim: coord_inv_leaseD)
  with x l show m: "lease_matches x l" by simp
  with l show "o_state x = StateAccepted \<or> o_state x = StateExecuting"
    by (auto simp: lease_matches_def split: op_state.splits)
qed

lemma fenced_alone:
  assumes "coord_inv db" and "fenced db k t x l"
    and "j \<noteq> k" and "op_get db j = Some y" and "o_installation_id y = o_installation_id x"
  shows "\<not> live (o_state y)"
proof
  assume "live (o_state y)"
  moreover from assms(2) have "op_get db k = Some x" by (simp add: fenced_def)
  moreover from fenced_live [OF assms(1,2)] have "live (o_state x)" by (auto simp: live_def)
  ultimately have "j = k"
    using assms(1,4,5) by (metis coord_inv_exclusive)
  with assms(3) show False by simp
qed

section \<open>The effect of a transaction\<close>

text \<open>
  \<open>changes db db' k x x' l l'\<close>: the transaction rewrote operation \<open>k\<close> from \<open>x\<close> to
  \<open>x'\<close> and the lease it holds from \<open>l\<close> to \<open>l'\<close>, appended only events about that
  operation, and touched nothing else.
\<close>

definition changes ::
  "helper_db \<Rightarrow> helper_db \<Rightarrow> string \<Rightarrow> op_row \<Rightarrow> op_row \<Rightarrow> lease_row \<Rightarrow> lease_row \<Rightarrow> bool" where
  "changes db db' k x x' l l' \<longleftrightarrow>
     op_get db k = Some x \<and> lease_get db (o_installation_id x) = Some l \<and> l_operation_id l = k
     \<and> (\<forall>j. op_get db' j = (if j = k then Some x' else op_get db j))
     \<and> (\<forall>j. lease_get db' j = (if j = o_installation_id x then Some l' else lease_get db j))
     \<and> tbl_wf o_operation_id (operations db') \<and> tbl_wf l_installation_id (leases db')
     \<and> o_installation_id x' = o_installation_id x \<and> l_operation_id l' = k
     \<and> (\<exists>vs. events db' = events db @ vs \<and> (\<forall>v \<in> set vs. v_operation_id v = k \<and> v_installation_id v = o_installation_id x))
     \<and> generations db' = generations db \<and> components db' = components db
     \<and> bindings db' = bindings db \<and> steps db' = steps db \<and> ownership db' = ownership db"

lemma changes_inv:
  assumes inv: "coord_inv db" and ch: "changes db db' k x x' l l'"
    and lm: "lease_matches x l"
    and fit: "live (o_state x') \<or> l_state l' \<noteq> Released \<Longrightarrow> lease_matches x' l'"
  shows "coord_inv db'"
proof (rule coord_inv_change [OF inv, where k = k and x' = x' and i = "o_installation_id x" and l' = l'])
  show "\<not> live (o_state y)"
    if j: "j \<noteq> k" "op_get db' j = Some y" "o_installation_id y = o_installation_id x" for j y
  proof
    assume "live (o_state y)"
    moreover from ch j have "op_get db j = Some y" "op_get db k = Some x" by (auto simp: changes_def)
    moreover from lm have "live (o_state x)" by (simp add: lease_matches_live)
    ultimately have "j = k" using inv j(3) by (metis coord_inv_exclusive)
    with j(1) show False by simp
  qed
qed (use ch fit in \<open>auto simp: changes_def\<close>)

lemma changesI:
  assumes inv: "coord_inv db"
    and x: "op_get db k = Some x" and l: "lease_get db (o_installation_id x) = Some l" "l_operation_id l = k"
    and ops: "operations db' = sql_update (\<lambda>y. o_operation_id y = k \<and> Q y) g (operations db)"
    and q: "Q x" and g: "\<And>y. o_operation_id (g y) = o_operation_id y" "\<And>y. o_installation_id (g y) = o_installation_id y"
    and ls: "leases db' = sql_update (\<lambda>y. l_installation_id y = o_installation_id x \<and> R y) h (leases db)"
    and r: "R l" and h: "\<And>y. l_installation_id (h y) = l_installation_id y" "\<And>y. l_operation_id (h y) = l_operation_id y"
    and ev: "\<exists>vs. events db' = events db @ vs \<and> (\<forall>v \<in> set vs. v_operation_id v = k \<and> v_installation_id v = o_installation_id x)"
    and rest: "generations db' = generations db" "components db' = components db"
      "bindings db' = bindings db" "steps db' = steps db" "ownership db' = ownership db"
  shows "changes db db' k x (g x) l (h l)"
  using x l coord_inv_wf [OF inv] q r ev rest
  by (simp add: changes_def ops ls tbl_get_update_at g h)

text \<open>
  The moves of an operation together with its lease, one per kind of transaction.
\<close>

inductive row_move :: "op_row \<Rightarrow> lease_row \<Rightarrow> op_row \<Rightarrow> lease_row \<Rightarrow> bool" where
  authorize: "\<lbrakk>o_state x = StateAccepted; o_state x' = StateExecuting; o_fencing_token x' = o_fencing_token x;
     l_fencing_token l' = l_fencing_token l; l_state l' = l_state l\<rbrakk> \<Longrightarrow> row_move x l x' l'"
| phase: "\<lbrakk>o_state x = StateExecuting; o_state x' = StateExecuting; o_fencing_token x' = o_fencing_token x;
     l_fencing_token l' = l_fencing_token l; l_state l' = l_state l\<rbrakk> \<Longrightarrow> row_move x l x' l'"
| release: "\<lbrakk>is_interrupted (o_state x) \<or> o_state x = StateActionRequired;
     o_state x' = StateSucceeded \<or> o_state x' = StateFailed; o_fencing_token x' = o_fencing_token x;
     l_fencing_token l' = l_fencing_token l; l_state l' = Released\<rbrakk> \<Longrightarrow> row_move x l x' l'"
| quarantine: "\<lbrakk>is_interrupted (o_state x); o_state x' = StateReconciling \<or> o_state x' = StateActionRequired;
     o_fencing_token x' = Some (l_fencing_token l + 1);
     l_fencing_token l' = l_fencing_token l + 1; l_state l' = RecoveryRequired\<rbrakk> \<Longrightarrow> row_move x l x' l'"
| escalate: "\<lbrakk>o_state x = StateReconciling; o_state x' = StateActionRequired; o_fencing_token x' = o_fencing_token x;
     l_fencing_token l' = l_fencing_token l; l_state l' = RecoveryRequired\<rbrakk> \<Longrightarrow> row_move x l x' l'"

inductive_cases row_moveE: "row_move x l x' l'"

text \<open>The part of an operation row that is fixed when the operation is recorded.\<close>

definition op_ident :: "op_row \<Rightarrow> string \<times> string \<times> string \<times> string \<times> string \<times> 32 word" where
  "op_ident x = (o_operation_id x, o_installation_id x, o_request_hash x, o_request_json x, o_operation_kind x, o_caller_uid x)"

definition tx_effect :: "helper_db \<Rightarrow> helper_db \<Rightarrow> string \<Rightarrow> bool" where
  "tx_effect db db' k \<longleftrightarrow> (\<exists>x x' l l'. changes db db' k x x' l l' \<and> lease_matches x l
     \<and> op_ident x' = op_ident x \<and> l_installation_id l' = l_installation_id l \<and> row_move x l x' l')"

lemma row_move_fit:
  assumes "lease_matches x l" and "row_move x l x' l'"
    and "o_operation_id x' = o_operation_id x" "o_installation_id x' = o_installation_id x"
    and "l_operation_id l' = l_operation_id l" "l_installation_id l' = l_installation_id l"
    and "live (o_state x') \<or> l_state l' \<noteq> Released"
  shows "lease_matches x' l'"
  using assms(2,1,3-7) by (cases rule: row_move.cases) (auto simp: lease_matches_def live_def)

lemma tx_effect_inv:
  assumes inv: "coord_inv db" and eff: "tx_effect db db' k"
  shows "coord_inv db'"
proof -
  from eff obtain x x' l l' where ch: "changes db db' k x x' l l'" and m: "lease_matches x l"
      and keys: "op_ident x' = op_ident x" "l_installation_id l' = l_installation_id l"
      and mv: "row_move x l x' l'"
    unfolding tx_effect_def by blast
  from ch keys have "o_installation_id x' = o_installation_id x" "l_operation_id l' = l_operation_id l"
      "o_operation_id x' = o_operation_id x"
    by (simp_all add: changes_def op_ident_def)
  with changes_inv [OF inv ch m] row_move_fit [OF m mv] keys show ?thesis by blast
qed

text \<open>Every transaction on an existing operation has such an effect.\<close>

lemma tx_effectI:
  assumes inv: "coord_inv db" and x: "op_get db k = Some x" and m: "lease_matches x l"
    and l: "lease_get db (o_installation_id x) = Some l"
    and upd: "operations db' = sql_update (\<lambda>y. o_operation_id y = k \<and> Q y) g (operations db)"
      "leases db' = sql_update (\<lambda>y. l_installation_id y = o_installation_id x \<and> R y) h (leases db)"
    and sel: "Q x" "R l" and mv: "row_move x l (g x) (h l)"
    and ev: "\<exists>vs. events db' = events db @ vs \<and> (\<forall>v \<in> set vs. v_operation_id v = k \<and> v_installation_id v = o_installation_id x)"
    and rest: "generations db' = generations db" "components db' = components db"
      "bindings db' = bindings db" "steps db' = steps db" "ownership db' = ownership db"
    and ident: "\<And>y. op_ident (g y) = op_ident y"
    and h: "\<And>y. l_installation_id (h y) = l_installation_id y" "\<And>y. l_operation_id (h y) = l_operation_id y"
  shows "tx_effect db db' k"
proof -
  from ident have g: "o_operation_id (g y) = o_operation_id y" "o_installation_id (g y) = o_installation_id y" for y
    by (simp_all add: op_ident_def)
  from m x have "l_operation_id l = k" by (auto simp: lease_matches_def dest: tbl_get_key)
  with changesI [OF inv x l _ upd(1) sel(1) g upd(2) sel(2) h ev rest] m ident h(1) mv
  show ?thesis unfolding tx_effect_def by blast
qed

lemma events_appendEvent: "events (appendEvent a b c d e f g db) = events db @
    [\<lparr>v_operation_id = a, v_installation_id = b, v_fencing_token = c,
       v_event_kind = d, v_phase = e, v_facts = f, v_created_at = g\<rparr>]"
  by (simp add: appendEvent_def)

lemma sql_update_self: "sql_update P (\<lambda>x. x) t = t" by (simp add: sql_update_def)

lemma fencedD:
  assumes "coord_inv db" and "fenced db k t x l"
  shows "op_get db k = Some x" "lease_matches x l" "lease_get db (o_installation_id x) = Some l"
    "o_fencing_token x = Some t" "l_fencing_token l = t" "l_operation_id l = k" "l_state l = Held" "verifyFence k t db = Inr ()"
  using assms fenced_live(1) [OF assms] verifyFence_iff [of k t db] by (auto simp: fenced_def)


lemmas tx_run = sql_count_key Let_def op_row_of_def sql_row_key tbl_get_update_at tbl_get_update_key

lemmas tx_effect_op = tx_effectI [where R = "\<lambda>_. True" and h = "\<lambda>y. y", unfolded sql_update_self]

lemma AuthorizeMutation_effect:
  assumes inv: "coord_inv db" and run: "AuthorizeMutation now k t db = Inr db'"
  shows "tx_effect db db' k"
proof -
  from run obtain x l where "fenced db k t x l"
    by (cases rule: verifyFence_cases [of k t db]) (auto simp: AuthorizeMutation_def)
  note f = fencedD [OF inv this] coord_inv_wf [OF inv]
  with run have st: "o_state x = StateAccepted"
    by (simp add: AuthorizeMutation_def tx_run split: if_splits)
  show ?thesis using run
    by (simp add: AuthorizeMutation_def tx_run f st)
      (erule subst, rule tx_effect_op [OF inv f(1-3)], simp, simp, simp_all add: f st events_appendEvent row_move.simps op_ident_def)
qed

lemma RecordPhase_effect:
  assumes inv: "coord_inv db" and run: "RecordPhase now k t phase outcome facts db = Inr db'"
  shows "tx_effect db db' k"
proof -
  from run obtain x l where "fenced db k t x l"
    by (cases rule: verifyFence_cases [of k t db]) (auto simp: RecordPhase_def)
  note f = fencedD [OF inv this] coord_inv_wf [OF inv]
  with run have st: "o_state x = StateExecuting"
    by (simp add: RecordPhase_def tx_run split: if_splits)
  show ?thesis using run
    by (simp add: RecordPhase_def tx_run f st)
      (erule subst, rule tx_effect_op [OF inv f(1-3)], simp, simp, simp_all add: f st events_appendEvent row_move.simps op_ident_def)
qed

lemma require_reconciliation_effect:
  assumes inv: "coord_inv db" and fx: "fenced db k t x l"
    and run: "require_reconciliation now k t detail db = Inr db'"
  shows "tx_effect db db' k"
proof -
  note f = fencedD [OF inv fx] coord_inv_wf [OF inv]
  with run have st: "o_state x = StateExecuting"
    by (simp add: require_reconciliation_def tx_run split: if_splits)
  show ?thesis using run
    by (simp add: require_reconciliation_def tx_run f st)
      (erule subst, rule tx_effectI [OF inv f(1-3)], simp, simp, simp_all add: f st events_appendEvent row_move.simps op_ident_def is_interrupted_def)
qed

lemma commit_completion_effect:
  assumes inv: "coord_inv db" and fx: "fenced db k t x l" and fin: "state = StateSucceeded \<or> state = StateFailed"
    and run: "commit_completion now k t state outcome recovery resultJSON errorCode detail db = Inr db'"
  shows "tx_effect db db' k"
proof -
  note f = fencedD [OF inv fx] coord_inv_wf [OF inv]
  have st: "o_state x = StateExecuting"
    by (rule ccontr) (use run f in \<open>simp add: commit_completion_def tx_run\<close>)
  show ?thesis using run
    apply (simp add: commit_completion_def tx_run f st)
    apply (erule subst, rule tx_effectI [OF inv f(1-3)], simp, simp)
    apply (simp_all add: f st events_appendEvent op_ident_def)
    apply (use fin f st in \<open>simp add: row_move.simps op_ident_def is_interrupted_def\<close>)
    done
qed

lemma Complete_effect:
  assumes inv: "coord_inv db" and run: "Complete now k t response db = (r, db')"
  shows "db' = db \<or> tx_effect db db' k"
proof (cases rule: verifyFence_cases [of k t db])
  case (1 e)
  with run show ?thesis by (auto simp: Complete_def Let_def split: sum.splits)
next
  case (2 x l)
  with run inv show ?thesis
    by (auto simp: Complete_def Let_def dest: require_reconciliation_effect commit_completion_effect split: sum.splits if_splits)
qed

lemma coord_inv_liveD':
  assumes inv: "coord_inv db" and x: "op_get db k = Some x" and st: "live (o_state x)"
  obtains l where "op_get db k = Some x" "lease_matches x l" "lease_get db (o_installation_id x) = Some l"
    and "l_operation_id l = k" "l_installation_id l = o_installation_id x" "o_fencing_token x = Some (l_fencing_token l)"
    and "l_state l = (if o_state x = StateAccepted \<or> o_state x = StateExecuting then Held else RecoveryRequired)"
proof -
  from inv x st obtain l where l: "lease_get db (o_installation_id x) = Some l" "lease_matches x l"
    by (rule coord_inv_liveD)
  have "l_state l = (if o_state x = StateAccepted \<or> o_state x = StateExecuting then Held else RecoveryRequired)"
    using l(2) st by (cases "o_state x") (simp_all add: lease_matches_def live_def)
  moreover from l(2) x have "l_operation_id l = k" by (auto simp: lease_matches_def dest: tbl_get_key)
  ultimately show ?thesis using that [OF x l(2,1)] l(2) by (simp add: lease_matches_def)
qed

lemma commit_recovery_effect:
  assumes inv: "coord_inv db" and fin: "state = StateSucceeded \<or> state = StateFailed"
    and run: "commit_recovery now k t state outcome resultJSON errorCode detail db = Inr db'"
  shows "tx_effect db db' k"
proof -
  note wf = coord_inv_wf [OF inv]
  obtain x where x: "op_get db k = Some x" "o_fencing_token x = Some t" "o_state x = StateActionRequired"
  proof (cases "op_get db k")
    case None
    with run wf show ?thesis by (simp add: commit_recovery_def Let_def sql_row_key_and)
  next
    case (Some x)
    moreover have "o_fencing_token x = Some t \<and> o_state x = StateActionRequired"
      by (rule ccontr) (use run wf Some in \<open>auto simp: commit_recovery_def Let_def sql_row_key_and\<close>)
    ultimately show ?thesis using that by blast
  qed
  have "live (o_state x)" using x by (simp add: live_def)
  with inv x(1) obtain l where l: "op_get db k = Some x" "lease_matches x l" "lease_get db (o_installation_id x) = Some l"
      "l_operation_id l = k" "o_fencing_token x = Some (l_fencing_token l)"
      "l_state l = (if o_state x = StateAccepted \<or> o_state x = StateExecuting then Held else RecoveryRequired)"
    by (rule coord_inv_liveD')
  note f = l wf x(2,3)
  show ?thesis using run
    apply (simp add: commit_recovery_def tx_run sql_row_key_and f split: if_splits)
    apply (erule subst, rule tx_effectI [OF inv f(1-3)], simp, simp)
    using f apply (simp_all add: events_appendEvent op_ident_def)
    apply (use fin f in \<open>simp add: row_move.simps op_ident_def is_interrupted_def\<close>)
    done
qed

lemma CompleteRecovery_effect:
  assumes inv: "coord_inv db" and run: "CompleteRecovery now k t response db = (r, db')"
  shows "db' = db \<or> tx_effect db db' k"
  using run inv
  by (auto simp: CompleteRecovery_def Let_def dest: commit_recovery_effect split: sum.splits if_splits)

lemma markReconciling_effect:
  assumes inv: "coord_inv db" and x: "op_get db k = Some x" and st: "is_interrupted (o_state x)"
    and run: "markReconciling now k db = Inr db'"
  shows "tx_effect db db' k"
proof -
  note wf = coord_inv_wf [OF inv]
  have "live (o_state x)" using st by (auto simp: live_def is_interrupted_def)
  with inv x(1) obtain l where l: "op_get db k = Some x" "lease_matches x l" "lease_get db (o_installation_id x) = Some l"
      "l_operation_id l = k" "o_fencing_token x = Some (l_fencing_token l)"
    by (rule coord_inv_liveD')
  note f = l wf st
  show ?thesis using run
    apply (simp add: markReconciling_def tx_run scan_token_def f)
    apply (erule subst, rule tx_effectI [OF inv f(1-3), where Q = "\<lambda>_. True"], simp, simp)
    using f apply (simp_all add: events_appendEvent row_move.simps op_ident_def)
    done
qed

lemma recoverOne_effect:
  assumes inv: "coord_inv db" and x: "op_get db k = Some x" and st: "o_state x = StateReconciling"
    and run: "recoverOne now k prior db = Inr db'"
  shows "tx_effect db db' k"
proof -
  note wf = coord_inv_wf [OF inv]
  have "live (o_state x)" using st by (auto simp: live_def is_interrupted_def)
  with inv x(1) obtain l where l: "op_get db k = Some x" "lease_matches x l" "lease_get db (o_installation_id x) = Some l"
      "l_operation_id l = k" "o_fencing_token x = Some (l_fencing_token l)"
    by (rule coord_inv_liveD')
  note f = l wf st
  show ?thesis using run
    apply (simp add: recoverOne_def tx_run sql_row_key_and f split: if_splits)
    apply (erule subst, rule tx_effectI [OF inv f(1-3), where Q = "\<lambda>_. True"], simp, simp)
    using f apply (simp_all add: events_appendEvent row_move.simps op_ident_def is_interrupted_def)
    apply (erule subst, rule tx_effectI [OF inv f(1-3), where Q = "\<lambda>_. True"], simp, simp)
    using f apply (simp_all add: events_appendEvent row_move.simps op_ident_def is_interrupted_def)
    done
qed

lemma ResolveActionRequired_effect:
  assumes inv: "coord_inv db" and run: "ResolveActionRequired now k db = Inr db'"
  shows "tx_effect db db' k"
proof -
  note wf = coord_inv_wf [OF inv]
  obtain x where x: "op_get db k = Some x" "o_state x = StateActionRequired"
    using run wf by (auto simp: ResolveActionRequired_def Let_def sql_row_key_and bind_result_def split: option.splits if_splits)
  have "live (o_state x)" using x by (simp add: live_def)
  with inv x(1) obtain l where l: "op_get db k = Some x" "lease_matches x l" "lease_get db (o_installation_id x) = Some l"
      "l_operation_id l = k" "o_fencing_token x = Some (l_fencing_token l)"
      "l_state l = (if o_state x = StateAccepted \<or> o_state x = StateExecuting then Held else RecoveryRequired)"
    by (rule coord_inv_liveD')
  note f = l wf x(2)
  show ?thesis using run
    apply (simp add: ResolveActionRequired_def tx_run sql_row_key_and f)
    apply (erule subst, rule tx_effectI [OF inv f(1-3), where Q = "\<lambda>_. True"], simp, simp)
    using f apply (simp_all add: events_appendEvent row_move.simps op_ident_def is_interrupted_def)
    done
qed
lemma tx_effect_event:
  assumes "tx_effect db db1 k" and "op_get db k = Some x" and "i = o_installation_id x"
  shows "tx_effect db (appendEvent k i t kind phase facts now db1) k"
proof -
  have "changes db (appendEvent k i t kind phase facts now db1) k y y' l l'" if ch: "changes db db1 k y y' l l'" for y y' l l'
  proof -
    from ch assms(2,3) have "o_installation_id y = i" by (simp add: changes_def)
    with ch show ?thesis by (auto simp: changes_def events_appendEvent)
  qed
  with assms(1) show ?thesis unfolding tx_effect_def by blast
qed

lemma settle_recovered_effect:
  assumes inv: "coord_inv db" and x: "op_get db k = Some x" and st: "o_state x = StateActionRequired"
    and tok: "o_fencing_token x = Some t" and i: "i = o_installation_id x"
  shows "tx_effect db (settle_recovered only now phase res i k t db) k"
proof -
  have "live (o_state x)" using st by (simp add: live_def)
  with inv x(1) obtain l where l: "op_get db k = Some x" "lease_matches x l" "lease_get db (o_installation_id x) = Some l"
      "l_operation_id l = k" "o_fencing_token x = Some (l_fencing_token l)"
      "l_state l = (if o_state x = StateAccepted \<or> o_state x = StateExecuting then Held else RecoveryRequired)"
    by (rule coord_inv_liveD')
  note f = l coord_inv_wf [OF inv] st tok
  show ?thesis unfolding settle_recovered_def i
    by (rule tx_effectI [OF inv f(1-3)], simp, simp)
      (use f in \<open>simp_all add: row_move.simps op_ident_def is_interrupted_def\<close>)
qed

section \<open>Acceptance\<close>

text \<open>What every coordinator transaction keeps: the event log only grows, the generation tables stay.\<close>

definition tx_frame :: "helper_db \<Rightarrow> helper_db \<Rightarrow> bool" where
  "tx_frame db db' \<longleftrightarrow> (\<exists>vs. events db' = events db @ vs) \<and> generations db' = generations db
     \<and> components db' = components db \<and> bindings db' = bindings db \<and> steps db' = steps db
     \<and> ownership db' = ownership db"

text \<open>
  \<open>acquires db db' k i t\<close>: a fresh operation \<open>k\<close> was accepted with token \<open>t\<close> and
  took the lease of installation \<open>i\<close>, which was absent, released, or quarantined under an
  operation that the repair supersedes.
\<close>

definition acquires :: "helper_db \<Rightarrow> helper_db \<Rightarrow> string \<Rightarrow> string \<Rightarrow> int \<Rightarrow> bool" where
  "acquires db db' k i t \<longleftrightarrow> op_get db k = None \<and> tx_frame db db'
     \<and> tbl_wf o_operation_id (operations db') \<and> tbl_wf l_installation_id (leases db')
     \<and> (\<exists>x' l'. op_get db' k = Some x' \<and> o_state x' = StateAccepted \<and> o_installation_id x' = i
          \<and> lease_get db' i = Some l' \<and> lease_matches x' l' \<and> l_fencing_token l' = t)
     \<and> (\<forall>j. j \<noteq> i \<longrightarrow> lease_get db' j = lease_get db j)
     \<and> (case lease_get db i of None \<Rightarrow> t = 1 \<and> (\<forall>j. j \<noteq> k \<longrightarrow> op_get db' j = op_get db j)
        | Some l \<Rightarrow> t = l_fencing_token l + 1 \<and>
            (l_state l = Released \<and> (\<forall>j. j \<noteq> k \<longrightarrow> op_get db' j = op_get db j)
             \<or> l_state l = RecoveryRequired \<and> (\<exists>y y'. op_get db (l_operation_id l) = Some y \<and> o_state y = StateActionRequired
                 \<and> op_get db' (l_operation_id l) = Some y' \<and> o_state y' = StateSuperseded
                 \<and> o_installation_id y' = i \<and> op_ident y' = op_ident y
                 \<and> (\<forall>j. j \<noteq> k \<and> j \<noteq> l_operation_id l \<longrightarrow> op_get db' j = op_get db j))))"

text \<open>\<open>refuses db db' k i\<close>: a fresh operation was recorded as failed and nothing else changed.\<close>

definition refuses :: "helper_db \<Rightarrow> helper_db \<Rightarrow> string \<Rightarrow> string \<Rightarrow> bool" where
  "refuses db db' k i \<longleftrightarrow> op_get db k = None \<and> tx_frame db db' \<and> tbl_wf o_operation_id (operations db')
     \<and> (\<exists>x'. op_get db' k = Some x' \<and> o_state x' = StateFailed \<and> o_installation_id x' = i)
     \<and> (\<forall>j. j \<noteq> k \<longrightarrow> op_get db' j = op_get db j) \<and> leases db' = leases db"

lemma op_get_insert:
  assumes "op_get db k = None" and "o_operation_id n = k"
  shows "tbl_get o_operation_id j (operations db @ [n]) = (if j = k then Some n else op_get db j)"
  using assms by (auto simp: tbl_get_append split: option.splits)

lemma new_operation_simps [simp]:
  "o_operation_id (new_operation now r uid scope h c) = rq_OperationID r"
  "o_installation_id (new_operation now r uid scope h c) = scope"
  "o_state (new_operation now r uid scope h c) = StateAccepted"
  by (simp_all add: new_operation_def)

lemma acquire_lease_acquires:
  assumes inv: "coord_inv db" and fresh: "op_get db (rq_OperationID r) = None"
    and n: "o_operation_id n = rq_OperationID r" "o_installation_id n = i" "o_state n = StateAccepted"
    and run: "acquire_lease now r i (db\<lparr>operations := operations db @ [n]\<rparr>) = Acquired t db2"
  shows "acquires db (begin_commit now r i t db2) (rq_OperationID r) i t"
proof -
  note wf = coord_inv_wf [OF inv]
  note unfold = acquire_lease_def sql_row_key acquires_def begin_commit_def op_get_insert Let_def tbl_wf_append
    tbl_get_append tbl_get_update_key tbl_get_update_at lease_matches_def tx_frame_def events_appendEvent op_ident_def
  show ?thesis
proof (cases "lease_get db i")
  case None
  with run fresh n wf show ?thesis
    by (auto simp: unfold split: option.splits)
next
  case (Some l)
  from inv Some obtain y where y: "op_get db (l_operation_id l) = Some y" "o_installation_id y = i"
      "l_state l \<noteq> Released \<Longrightarrow> lease_matches y l"
    by (blast elim: coord_inv_leaseD)
  from y fresh have ne: "l_operation_id l \<noteq> rq_OperationID r" by auto
  have li: "l_installation_id l = i" using Some by (rule tbl_get_key)
  show ?thesis
  proof (cases "l_state l = Released")
    case True
    with run Some fresh n li wf show ?thesis
      by (auto simp: unfold split: option.splits)
  next
    case False
    with run Some ne have rr: "l_state l = RecoveryRequired" "is_repair_request r"
      by (auto simp: acquire_lease_def sql_row_key Let_def split: if_splits)
    have ya: "o_state y = StateActionRequired"
      by (rule ccontr) (use run Some rr y ne fresh n in \<open>simp add: acquire_lease_def take_over_def sql_row_key Let_def op_row_of_def op_get_insert\<close>)
    from run Some rr y ya ne fresh n li wf show ?thesis
      by (auto simp: unfold take_over_def op_row_of_def split: option.splits)
  qed
qed
qed

lemma Begin_cases:
  assumes inv: "coord_inv db" and run: "Begin now r uid i db = (out, db')"
  obtains (kept) "db' = db" "\<And>d. out = BeginDecision d \<Longrightarrow> \<not> d_Execute d"
  | (refused) d a where "out = BeginConflict d a" "\<not> d_Execute d" "refuses db db' (rq_OperationID r) i"
  | (accepted) t where "out = BeginDecision \<lparr>d_Execute = True, d_FencingToken = t, d_Response = empty_Response\<rparr>"
      "acquires db db' (rq_OperationID r) i t"
proof (cases "op_get db (rq_OperationID r)")
  case (Some x)
  with run have "db' = db" "\<And>d. out = BeginDecision d \<Longrightarrow> \<not> d_Execute d"
    by (auto simp: Begin_def op_row_of_def sql_row_key replay_def respond_def split: if_splits sum.splits)
  then show ?thesis by (rule kept)
next
  case None
  show ?thesis
  proof (cases "\<exists>h c. begin_fresh now r uid i h c db = (out, db')")
    case True
    then obtain h c where main: "begin_fresh now r uid i h c db = (out, db')" by blast
    show ?thesis
    proof (cases "acquire_lease now r i (db\<lparr>operations := operations db @ [new_operation now r uid i h c]\<rparr>)")
      case (AcquireError e)
      with main show ?thesis by (intro kept) (auto simp: begin_fresh_def)
    next
      case (AcquireConflict a)
      with main None coord_inv_wf [OF inv] show ?thesis
        by (intro refused) (auto simp: begin_fresh_def respond_def refuses_def refuse_conflict_def tx_frame_def
            events_appendEvent op_get_insert tbl_get_update_key tbl_wf_append)
    next
      case (Acquired t db2)
      with main acquire_lease_acquires [OF inv None, of "new_operation now r uid i h c" i now t db2] show ?thesis
        by (auto simp: begin_fresh_def Let_def split: if_splits intro: kept accepted)
    qed
  next
    case False
    with run None show ?thesis
      by (intro kept) (auto simp: Begin_def op_row_of_def sql_row_key split: if_splits sum.splits)
  qed
qed

lemma refuses_inv:
  assumes inv: "coord_inv db" and ref: "refuses db db' k i"
  shows "coord_inv db'"
proof -
  from ref obtain x' where x': "op_get db' k = Some x'" "o_state x' = StateFailed"
      and rest: "\<And>j. j \<noteq> k \<Longrightarrow> op_get db' j = op_get db j" "leases db' = leases db" "op_get db k = None"
      and wf: "tbl_wf o_operation_id (operations db')"
    by (auto simp: refuses_def)
  have "\<exists>l. lease_get db' (o_installation_id x) = Some l \<and> lease_matches x l"
    if "op_get db' j = Some x" "live (o_state x)" for j x
    using that x' rest inv by (cases "j = k") (auto simp: live_def elim: coord_inv_liveD)
  moreover have "\<exists>x. op_get db' (l_operation_id l) = Some x \<and> o_installation_id x = j
      \<and> (l_state l \<noteq> Released \<longrightarrow> lease_matches x l)" if l: "lease_get db' j = Some l" for j l
  proof -
    from l rest inv obtain x where x: "op_get db (l_operation_id l) = Some x" "o_installation_id x = j"
        "l_state l \<noteq> Released \<Longrightarrow> lease_matches x l"
      by (metis coord_inv_leaseD)
    with rest have "op_get db' (l_operation_id l) = Some x" by (cases "l_operation_id l = k") auto
    with x show ?thesis by blast
  qed
  ultimately show ?thesis unfolding coord_inv_def using wf rest(2) coord_inv_wf(2) [OF inv] by (metis (lifting))
qed

lemma acquires_superseded:
  assumes inv: "coord_inv db" and acq: "acquires db db' k i t" and j: "j \<noteq> k"
  shows "op_get db' j = op_get db j
        \<or> (\<exists>y y'. op_get db j = Some y \<and> op_get db' j = Some y' \<and> op_ident y' = op_ident y
             \<and> o_installation_id y = i \<and> o_state y = StateActionRequired \<and> o_state y' = StateSuperseded)"
proof (cases "lease_get db i")
  case None
  with acq j show ?thesis by (simp add: acquires_def)
next
  case (Some l)
  with inv obtain y where "op_get db (l_operation_id l) = Some y" "o_installation_id y = i"
    by (blast elim: coord_inv_leaseD)
  with Some acq j show ?thesis
    by (cases "j = l_operation_id l") (auto simp: acquires_def)
qed

lemma acquires_others:
  assumes inv: "coord_inv db" and acq: "acquires db db' k i t" and j: "j \<noteq> k"
  shows "op_get db' j = op_get db j
        \<or> (\<exists>y y'. op_get db j = Some y \<and> op_get db' j = Some y'
             \<and> o_installation_id y = i \<and> o_installation_id y' = i \<and> \<not> live (o_state y'))"
  using acquires_superseded [OF assms] by (auto simp: op_ident_def live_def)

lemma acquires_alone:
  assumes inv: "coord_inv db" and acq: "acquires db db' k i t" and j: "j \<noteq> k"
    and y: "op_get db' j = Some y" "o_installation_id y = i"
  shows "\<not> live (o_state y)"
proof
  assume lv: "live (o_state y)"
  with acquires_others [OF inv acq j] y have old: "op_get db j = Some y" by auto
  with inv lv obtain l where l: "lease_get db i = Some l" "lease_matches y l"
    using y(2) by (blast elim: coord_inv_liveD)
  then have "l_state l \<noteq> Released" by (simp add: lease_matches_live)
  with l acq have "op_get db' (l_operation_id l) \<noteq> Some y"
    using lv by (auto simp: acquires_def live_def)
  moreover from l old have "l_operation_id l = j" by (auto simp: lease_matches_def dest: tbl_get_key)
  ultimately show False using y(1) by simp
qed

lemma acquires_inv:
  assumes inv: "coord_inv db" and acq: "acquires db db' k i t"
  shows "coord_inv db'"
proof -
  from acq obtain x' l' where x': "op_get db' k = Some x'" "o_installation_id x' = i"
      and l': "lease_get db' i = Some l'" "lease_matches x' l'" and new: "op_get db k = None"
      and wf: "tbl_wf o_operation_id (operations db')" "tbl_wf l_installation_id (leases db')"
      and rest: "\<And>j. j \<noteq> i \<Longrightarrow> lease_get db' j = lease_get db j"
    unfolding acquires_def by blast
  then have "l_operation_id l' = k" by (auto simp: lease_matches_def dest: tbl_get_key)
  with l' new rest show ?thesis
    by (intro coord_inv_change [OF inv wf x' acquires_others [OF inv acq] _ _ _ acquires_alone [OF inv acq]]) simp_all
qed
end
