(* ===== verification/Coordinator_Lock.thy ===== *)
theory Coordinator_Lock
  imports Coordinator_Inv
begin

text \<open>
  The operation coordinator as a step relation over committed transactions, and its
  abstract specification: each installation carries a lock that is free, held by one
  operation under a fencing token, or quarantined under one operation until recovery. Every
  transaction either leaves an installation's lock alone or performs one abstract lock step
  on it.
\<close>

section \<open>Steps of the coordinator\<close>

text \<open>
  One committed transaction. A crash of the helper is the absence of further steps;
  recovery after the restart is \<open>mark\<close> and \<open>recover\<close>, each its own transaction, so a
  crash between the two is a reachable state. \<open>settle\<close> is the part of the generation
  store's recovery transactions that writes the coordinator's tables; \<open>environment\<close> covers
  its other transactions, which leave operations and leases alone and at most append events.
\<close>

inductive coord_step :: "helper_db \<Rightarrow> helper_db \<Rightarrow> bool" where
  accept: "Begin now r uid i db = (out, db') \<Longrightarrow> coord_step db db'"
| authorize: "AuthorizeMutation now k t db = Inr db' \<Longrightarrow> coord_step db db'"
| record_phase: "RecordPhase now k t phase outcome facts db = Inr db' \<Longrightarrow> coord_step db db'"
| complete: "Complete now k t response db = (res, db') \<Longrightarrow> coord_step db db'"
| complete_recovery: "CompleteRecovery now k t response db = (res, db') \<Longrightarrow> coord_step db db'"
| mark: "\<lbrakk>op_get db k = Some x; is_interrupted (o_state x); markReconciling now k db = Inr db'\<rbrakk> \<Longrightarrow> coord_step db db'"
| recover: "\<lbrakk>op_get db k = Some x; o_state x = StateReconciling; recoverOne now k prior db = Inr db'\<rbrakk> \<Longrightarrow> coord_step db db'"
| resolve: "ResolveActionRequired now k db = Inr db' \<Longrightarrow> coord_step db db'"
| settle: "\<lbrakk>op_get db k = Some x; o_state x = StateActionRequired; o_fencing_token x = Some t; i = o_installation_id x;
     db1 = settle_recovered only now phase res i k t db;
     db' = db1 \<or> db' = appendEvent k i (Some t) kind phase facts now db1\<rbrakk> \<Longrightarrow> coord_step db db'"
| environment: "\<lbrakk>operations db' = operations db; leases db' = leases db; events db' = events db @ vs\<rbrakk> \<Longrightarrow> coord_step db db'"

inductive_cases coord_stepE: "coord_step db db'"

definition coord_reach :: "helper_db \<Rightarrow> bool" where
  "coord_reach db = coord_step\<^sup>*\<^sup>* empty_db db"

text \<open>The five shapes of a step.\<close>

lemma coord_step_cases:
  assumes inv: "coord_inv db" and st: "coord_step db db'"
  obtains (same) vs where "operations db' = operations db" "leases db' = leases db" "events db' = events db @ vs"
  | (tx) k where "tx_effect db db' k"
  | (refused) k i where "refuses db db' k i"
  | (acquired) k i t where "acquires db db' k i t"
  using st
proof (cases rule: coord_step.cases)
  case (accept now r uid i out)
  from inv accept show ?thesis
  proof (cases rule: Begin_cases)
    case kept
    then show ?thesis using same [of "[]"] by simp
  qed (erule refused, erule acquired)
next
  case (complete now k t response res)
  with inv show ?thesis using Complete_effect same [of "[]"] tx by (metis append_Nil2)
next
  case (complete_recovery now k t response res)
  with inv show ?thesis using CompleteRecovery_effect same [of "[]"] tx by (metis append_Nil2)
next
  case (settle k x t i db1 only now phase res kind facts)
  from settle_recovered_effect [OF inv settle(1-4)] have "tx_effect db db1 k" unfolding settle(5) .
  with settle(6) tx_effect_event [OF this settle(1,4)] tx show ?thesis by blast
next
  case environment
  then show ?thesis by (rule same)
qed (rule tx, erule AuthorizeMutation_effect [OF inv] RecordPhase_effect [OF inv] markReconciling_effect [OF inv]
      recoverOne_effect [OF inv] ResolveActionRequired_effect [OF inv], assumption?, assumption?)+

lemma coord_inv_same_tables:
  assumes "operations db' = operations db" and "leases db' = leases db"
  shows "coord_inv db' = coord_inv db"
  unfolding coord_inv_def assms ..

lemma coord_step_inv:
  assumes "coord_inv db" and "coord_step db db'"
  shows "coord_inv db'"
  using assms
proof (cases rule: coord_step_cases)
  case (same vs)
  from coord_inv_same_tables [OF same(1,2)] assms(1) show ?thesis by blast
qed (rule tx_effect_inv refuses_inv acquires_inv, rule assms(1), assumption)+

lemma coord_steps_inv:
  assumes "coord_step\<^sup>*\<^sup>* db db'" and "coord_inv db"
  shows "coord_inv db'"
  using assms by (induction rule: rtranclp_induct) (auto intro: coord_step_inv)

lemma coord_inv_empty: "coord_inv empty_db"
  by (simp add: coord_inv_def empty_db_def tbl_wf_def tbl_get_def)

lemma coord_reach_inv: "coord_reach db \<Longrightarrow> coord_inv db"
  unfolding coord_reach_def by (erule coord_steps_inv) (rule coord_inv_empty)

section \<open>The abstract lock\<close>

datatype lock = Unlocked int | Locked string int | Quarantined string int

fun lock_token :: "lock \<Rightarrow> int" where
  "lock_token (Unlocked t) = t"
| "lock_token (Locked _ t) = t"
| "lock_token (Quarantined _ t) = t"

inductive lock_step :: "lock \<Rightarrow> lock \<Rightarrow> bool" where
  acquire: "lock_step (Unlocked t) (Locked k (t + 1))"
| release: "lock_step (Locked k t) (Unlocked t)"
| quarantine: "lock_step (Locked k t) (Quarantined k (t + 1))"
| requarantine: "lock_step (Quarantined k t) (Quarantined k (t + 1))"
| take_over: "lock_step (Quarantined k t) (Locked k' (t + 1))"
| settle: "lock_step (Quarantined k t) (Unlocked t)"

inductive_simps lock_step_simps:
  "lock_step (Unlocked t) s" "lock_step (Locked k t) s" "lock_step (Quarantined k t) s"

definition lock_of :: "lease_row option \<Rightarrow> lock" where
  "lock_of m = (case m of None \<Rightarrow> Unlocked 0
     | Some l \<Rightarrow> (case l_state l of Released \<Rightarrow> Unlocked (l_fencing_token l)
        | Held \<Rightarrow> Locked (l_operation_id l) (l_fencing_token l)
        | RecoveryRequired \<Rightarrow> Quarantined (l_operation_id l) (l_fencing_token l)))"

definition abs_lock :: "helper_db \<Rightarrow> string \<Rightarrow> lock" where
  "abs_lock db i = lock_of (lease_get db i)"

lemma row_move_lock:
  assumes "lease_matches x l" and "row_move x l x' l'" and "l_operation_id l' = l_operation_id l"
  shows "lock_of (Some l') = lock_of (Some l) \<or> lock_step (lock_of (Some l)) (lock_of (Some l'))"
  using assms(2,1,3)
  by (cases rule: row_move.cases)
    (auto simp: lock_of_def lease_matches_def lock_step_simps is_interrupted_def split: lease_state.splits)

lemma tx_effect_lock:
  assumes "tx_effect db db' k"
  shows "abs_lock db' i = abs_lock db i \<or> lock_step (abs_lock db i) (abs_lock db' i)"
proof -
  from assms obtain x x' l l' where ch: "changes db db' k x x' l l'" and m: "lease_matches x l" and mv: "row_move x l x' l'"
    unfolding tx_effect_def by blast
  from ch have "lease_get db (o_installation_id x) = Some l" "l_operation_id l' = l_operation_id l"
    "\<And>j. lease_get db' j = (if j = o_installation_id x then Some l' else lease_get db j)"
    by (simp_all add: changes_def)
  with row_move_lock [OF m mv] show ?thesis by (cases "i = o_installation_id x") (simp_all add: abs_lock_def)
qed

lemma acquires_lock:
  assumes "acquires db db' k i t"
  shows "abs_lock db' j = abs_lock db j \<or> lock_step (abs_lock db j) (abs_lock db' j)"
proof (cases "j = i")
  case False
  with assms show ?thesis by (simp add: abs_lock_def acquires_def)
next
  case True
  from assms obtain x' l' where x': "o_state x' = StateAccepted" "lease_get db' i = Some l'"
      "lease_matches x' l'" "l_fencing_token l' = t"
    by (auto simp: acquires_def)
  then have "abs_lock db' i = Locked (l_operation_id l') t"
    by (simp add: abs_lock_def lock_of_def lease_matches_def)
  with assms True show ?thesis
    by (auto simp: abs_lock_def lock_of_def acquires_def lock_step_simps split: option.splits)
qed

lemma coord_step_lock:
  assumes "coord_inv db" and "coord_step db db'"
  shows "abs_lock db' i = abs_lock db i \<or> lock_step (abs_lock db i) (abs_lock db' i)"
  using assms
proof (cases rule: coord_step_cases)
  case (same vs)
  then show ?thesis by (simp add: abs_lock_def)
next
  case (refused k j)
  then show ?thesis by (simp add: abs_lock_def refuses_def)
qed (rule tx_effect_lock acquires_lock, assumption)+

section \<open>Fencing\<close>

text \<open>
  What a client of a fenced lock relies on: tokens never decrease, a holder's token is the
  current one, and whoever becomes a holder gets a token that was not issued before. It
  follows that a holder who lost the lock never passes the fence again with its old token.
\<close>

locale fenced_lock =
  fixes step :: "'s \<Rightarrow> 's \<Rightarrow> bool" and inv :: "'s \<Rightarrow> bool" and token :: "'s \<Rightarrow> int"
    and holds :: "'s \<Rightarrow> 'k \<Rightarrow> int \<Rightarrow> bool"
  assumes inv_step: "inv s \<Longrightarrow> step s s' \<Longrightarrow> inv s'"
    and token_mono: "inv s \<Longrightarrow> step s s' \<Longrightarrow> token s \<le> token s'"
    and holds_token: "inv s \<Longrightarrow> holds s k t \<Longrightarrow> token s = t"
    and holds_fresh: "inv s \<Longrightarrow> step s s' \<Longrightarrow> \<not> holds s k t \<Longrightarrow> holds s' k t \<Longrightarrow> token s < t"
    and holds_unique: "inv s \<Longrightarrow> holds s k t \<Longrightarrow> holds s k' t' \<Longrightarrow> k = k'"
begin

lemma steps_inv: "step\<^sup>*\<^sup>* s s' \<Longrightarrow> inv s \<Longrightarrow> inv s'"
  by (induction rule: rtranclp_induct) (auto intro: inv_step)

lemma steps_token_mono: "step\<^sup>*\<^sup>* s s' \<Longrightarrow> inv s \<Longrightarrow> token s \<le> token s'"
proof (induction rule: rtranclp_induct)
  case (step y z)
  then have "token y \<le> token z" using token_mono steps_inv by blast
  with step show ?case by simp
qed simp

text \<open>A pair of holder and token that is not in force and not newer than the lock stays out of force.\<close>

lemma stale_forever:
  assumes "step\<^sup>*\<^sup>* s s'" and "inv s" and "\<not> holds s k t" and "t \<le> token s"
  shows "\<not> holds s' k t"
  using assms
proof (induction rule: rtranclp_induct)
  case (step y z)
  show ?case
  proof
    assume "holds z k t"
    with step holds_fresh [of y z k t] steps_inv have "token y < t" by blast
    moreover have "token s \<le> token y" using step.hyps(1) step.prems(1) by (rule steps_token_mono)
    ultimately show False using step.prems(3) by simp
  qed
qed simp

lemma lost_forever:
  assumes "inv s" and "holds s k t" and "step\<^sup>*\<^sup>* s s'" and "\<not> holds s' k t" and "step\<^sup>*\<^sup>* s' s''"
  shows "\<not> holds s'' k t"
proof -
  have "t \<le> token s'" using steps_token_mono [OF assms(3,1)] holds_token [OF assms(1,2)] by simp
  with stale_forever assms steps_inv show ?thesis by blast
qed

end

fun lock_holds :: "lock \<Rightarrow> string \<Rightarrow> int \<Rightarrow> bool" where
  "lock_holds (Locked k t) k' t' = (k' = k \<and> t' = t)"
| "lock_holds _ _ _ = False"

interpretation lk: fenced_lock lock_step "\<lambda>_. True" lock_token lock_holds
proof
  show "lock_token s \<le> lock_token s'" if "lock_step s s'" for s s'
    using that by (cases rule: lock_step.cases) simp_all
  show "lock_token s < t" if "lock_step s s'" "\<not> lock_holds s k t" "lock_holds s' k t" for s s' k t
    using that by (cases rule: lock_step.cases) simp_all
qed (auto elim: lock_holds.elims)

text \<open>
  The coordinator is a fenced lock for every installation: the holder is the operation that
  passes \<open>verifyFence\<close>.
\<close>

lemma fenced_lock_iff:
  assumes "coord_inv db"
  shows "(\<exists>x l. fenced db k t x l \<and> o_installation_id x = i) \<longleftrightarrow> lock_holds (abs_lock db i) k t"
    (is "?f \<longleftrightarrow> ?h")
proof
  show "?f \<Longrightarrow> ?h" by (auto simp: fenced_def abs_lock_def lock_of_def)
  assume h: ?h
  then obtain l where l: "lease_get db i = Some l" "l_state l = Held" "l_operation_id l = k" "l_fencing_token l = t"
    by (auto simp: abs_lock_def lock_of_def split: option.splits lease_state.splits)
  with assms obtain x where "op_get db k = Some x" "o_installation_id x = i" "lease_matches x l"
    by (metis coord_inv_leaseD lease_state.distinct(3))
  with l show ?f by (auto simp: fenced_def lease_matches_def)
qed

interpretation coord: fenced_lock coord_step coord_inv "\<lambda>db. lock_token (abs_lock db i)"
    "\<lambda>db k t. \<exists>x l. fenced db k t x l \<and> o_installation_id x = i" for i
proof
  fix db db'
  assume inv: "coord_inv db" and step: "coord_step db db'"
  show inv': "coord_inv db'" using inv step by (rule coord_step_inv)
  from coord_step_lock [OF inv step, of i] consider "abs_lock db' i = abs_lock db i" | "lock_step (abs_lock db i) (abs_lock db' i)"
    by blast
  note cs = this
  show "lock_token (abs_lock db i) \<le> lock_token (abs_lock db' i)"
    using cs by cases (simp_all add: lk.token_mono)
  show "lock_token (abs_lock db i) < t"
    if "\<not> (\<exists>x l. fenced db k t x l \<and> o_installation_id x = i)" "\<exists>x l. fenced db' k t x l \<and> o_installation_id x = i" for k t
    using cs that unfolding fenced_lock_iff [OF inv] fenced_lock_iff [OF inv']
    by cases (simp_all add: lk.holds_fresh)
next
  fix db k t k' t'
  assume inv: "coord_inv db" and h: "\<exists>x l. fenced db k t x l \<and> o_installation_id x = i"
  show "lock_token (abs_lock db i) = t"
    using h unfolding fenced_lock_iff [OF inv] by (auto elim: lock_holds.elims)
  assume "\<exists>x l. fenced db k' t' x l \<and> o_installation_id x = i"
  with h show "k = k'"
    unfolding fenced_lock_iff [OF inv] by (auto elim: lock_holds.elims)
qed

section \<open>Histories of operation rows\<close>

text \<open>An operation once recorded stays recorded, and once it is final its row never changes.\<close>

lemma coord_step_keeps_op:
  assumes inv: "coord_inv db" and st: "coord_step db db'" and x: "op_get db k = Some x"
  obtains x' where "op_get db' k = Some x'" and "op_ident x' = op_ident x" and "\<not> live (o_state x) \<Longrightarrow> x' = x"
  using inv st
proof (cases rule: coord_step_cases)
  case (same vs)
  with x that show ?thesis by simp
next
  case (tx j)
  then obtain y y' l l' where "changes db db' j y y' l l'" "lease_matches y l" "op_ident y' = op_ident y"
    unfolding tx_effect_def by blast
  with x that show ?thesis by (cases "k = j") (auto simp: changes_def dest: lease_matches_live)
next
  case (refused j i)
  with x have "k \<noteq> j" by (auto simp: refuses_def)
  with refused x that show ?thesis by (simp add: refuses_def)
next
  case (acquired j i t)
  with x have "k \<noteq> j" by (auto simp: acquires_def)
  from acquires_superseded [OF inv acquired this] x that show ?thesis
    by (auto simp: live_def)
qed

lemma coord_steps_keep_op:
  assumes "coord_step\<^sup>*\<^sup>* db db'" and "coord_inv db" and "op_get db k = Some x"
  shows "\<exists>x'. op_get db' k = Some x' \<and> op_ident x' = op_ident x \<and> (\<not> live (o_state x) \<longrightarrow> x' = x)"
  using assms
proof (induction rule: rtranclp_induct)
  case (step y z)
  then obtain x' where x': "op_get y k = Some x'" "op_ident x' = op_ident x" "\<not> live (o_state x) \<longrightarrow> x' = x" by blast
  from step have "coord_inv y" using coord_steps_inv by blast
  with step.hyps(2) x'(1) obtain x'' where "op_get z k = Some x''" "op_ident x'' = op_ident x'" "\<not> live (o_state x') \<Longrightarrow> x'' = x'"
    by (blast elim: coord_step_keeps_op)
  with x' show ?case by auto
qed blast

lemma coord_step_events:
  assumes "coord_inv db" and "coord_step db db'"
  shows "\<exists>vs. events db' = events db @ vs"
  using assms
  by (cases rule: coord_step_cases) (auto simp: tx_effect_def changes_def refuses_def acquires_def tx_frame_def)

section \<open>Restart recovery\<close>

definition classified :: "op_state \<Rightarrow> op_state" where
  "classified prior = (if prior = StateAccepted then StateFailed else StateActionRequired)"

lemma recover_one_item:
  assumes inv: "coord_inv db" and x: "op_get db k = Some x" and st: "is_interrupted (o_state x)"
  obtains db1 db2 x' where "markReconciling now k db = Inr db1" and "recoverOne now k (o_state x) db1 = Inr db2"
    and "coord_step db db1" and "coord_step db1 db2"
    and "\<And>j. op_get db2 j = (if j = k then Some x' else op_get db j)"
    and "o_state x' = classified (o_state x)"
proof -
  have "live (o_state x)" using st by (auto simp: live_def is_interrupted_def)
  with inv x(1) obtain l where l: "op_get db k = Some x" "lease_matches x l" "lease_get db (o_installation_id x) = Some l"
      "l_operation_id l = k" "o_fencing_token x = Some (l_fencing_token l)"
    by (rule coord_inv_liveD')
  note f = l coord_inv_wf [OF inv]
  obtain db1 x1 l1 where m: "markReconciling now k db = Inr db1"
      and x1: "op_get db1 k = Some x1" "o_state x1 = StateReconciling" "o_installation_id x1 = o_installation_id x"
      and j1: "\<And>j. j \<noteq> k \<Longrightarrow> op_get db1 j = op_get db j"
      and l1: "lease_get db1 (o_installation_id x) = Some l1" "l_operation_id l1 = k"
    using f by (simp add: markReconciling_def tx_run scan_token_def)
  from m x st have s1: "coord_step db db1" by (blast intro: coord_step.mark)
  with inv have "coord_inv db1" by (rule coord_step_inv)
  note f1 = coord_inv_wf [OF this] x1 l1
  obtain db2 x2 where r: "recoverOne now k (o_state x) db1 = Inr db2"
      and x2: "op_get db2 k = Some x2" "o_state x2 = classified (o_state x)"
      and j2: "\<And>j. j \<noteq> k \<Longrightarrow> op_get db2 j = op_get db1 j"
    using f1 by (cases "o_state x = StateAccepted") (simp_all add: recoverOne_def tx_run sql_row_key_and classified_def)
  from r x1 have s2: "coord_step db1 db2" by (blast intro: coord_step.recover)
  show thesis by (rule that [OF m r s1 s2, of x2]) (use j1 j2 x2 in auto)
qed

lemma recover_items_all:
  assumes "coord_inv db" and "distinct (map fst items)"
    and "\<And>k s. (k, s) \<in> set items \<Longrightarrow> is_interrupted s \<and> (\<exists>x. op_get db k = Some x \<and> o_state x = s)"
  shows "\<exists>db'. recover_items now items db = (Inr (), db') \<and> coord_step\<^sup>*\<^sup>* db db'
    \<and> (\<forall>j. j \<notin> fst ` set items \<longrightarrow> op_get db' j = op_get db j)
    \<and> (\<forall>(k, s) \<in> set items. \<exists>x'. op_get db' k = Some x' \<and> o_state x' = classified s)"
  using assms
proof (induction items arbitrary: db)
  case Nil
  then show ?case by simp
next
  case (Cons it items)
  obtain k s where it: "it = (k, s)" by (cases it)
  with Cons.prems(3) obtain x where x: "op_get db k = Some x" "o_state x = s" "is_interrupted s" by force
  with Cons.prems(1) obtain db1 db2 x' where run: "markReconciling now k db = Inr db1" "recoverOne now k s db1 = Inr db2"
      and steps: "coord_step db db1" "coord_step db1 db2"
      and get: "\<And>j. op_get db2 j = (if j = k then Some x' else op_get db j)"
      and x': "o_state x' = classified s"
    by (metis recover_one_item)
  have inv2: "coord_inv db2" using Cons.prems(1) steps coord_step_inv by blast
  have "k \<notin> fst ` set items" using Cons.prems(2) it by auto
  moreover have "is_interrupted s' \<and> (\<exists>x. op_get db2 k' = Some x \<and> o_state x = s')" if "(k', s') \<in> set items" for k' s'
    using that Cons.prems(3) [of k' s'] get [of k'] \<open>k \<notin> fst ` set items\<close> by force
  ultimately obtain db' where IH: "recover_items now items db2 = (Inr (), db')" "coord_step\<^sup>*\<^sup>* db2 db'"
      "\<forall>j. j \<notin> fst ` set items \<longrightarrow> op_get db' j = op_get db2 j"
      "\<forall>(k, s) \<in> set items. \<exists>x'. op_get db' k = Some x' \<and> o_state x' = classified s"
    using Cons.IH [OF inv2] Cons.prems(2) by auto
  have "coord_step\<^sup>*\<^sup>* db db'"
    using steps IH(2) by (meson converse_rtranclp_into_rtranclp)
  moreover have "op_get db' k = Some x'" using IH(3) \<open>k \<notin> fst ` set items\<close> get by simp
  ultimately show ?case using it run IH get x' by simp
qed

lemma interrupted_items_spec:
  assumes "tbl_wf o_operation_id (operations db)"
  shows "distinct (map fst (interrupted_items db))"
    and "(k, s) \<in> set (interrupted_items db) \<longleftrightarrow> is_interrupted s \<and> (\<exists>x. op_get db k = Some x \<and> o_state x = s)"
proof -
  have "distinct (map o_operation_id (filter (\<lambda>o'. is_interrupted (o_state o')) (operations db)))"
    using assms by (simp add: tbl_wf_def distinct_map_filter)
  then show "distinct (map fst (interrupted_items db))"
    by (simp add: interrupted_items_def comp_def distinct_map)
  show "(k, s) \<in> set (interrupted_items db) \<longleftrightarrow> is_interrupted s \<and> (\<exists>x. op_get db k = Some x \<and> o_state x = s)"
    using tbl_get_of_mem [OF assms] by (auto simp: interrupted_items_def dest: tbl_get_key tbl_get_mem)
qed

lemma RecoverInterrupted_spec:
  assumes inv: "coord_inv db"
  shows "\<exists>db'. RecoverInterrupted now db = (Inr (length (interrupted_items db)), db') \<and> coord_step\<^sup>*\<^sup>* db db'
    \<and> (\<forall>k x. op_get db k = Some x \<longrightarrow> (if is_interrupted (o_state x)
          then \<exists>x'. op_get db' k = Some x' \<and> o_state x' = classified (o_state x)
          else op_get db' k = Some x))"
proof -
  note spec = interrupted_items_spec [OF coord_inv_wf(1) [OF inv]]
  from recover_items_all [OF inv spec(1), of now] spec(2) obtain db' where
    r: "recover_items now (interrupted_items db) db = (Inr (), db')" "coord_step\<^sup>*\<^sup>* db db'"
      "\<forall>j. j \<notin> fst ` set (interrupted_items db) \<longrightarrow> op_get db' j = op_get db j"
      "\<forall>(k, s) \<in> set (interrupted_items db). \<exists>x'. op_get db' k = Some x' \<and> o_state x' = classified s"
    by blast
  have "if is_interrupted (o_state x) then \<exists>x'. op_get db' k = Some x' \<and> o_state x' = classified (o_state x)
      else op_get db' k = Some x" if x: "op_get db k = Some x" for k x
  proof (cases "is_interrupted (o_state x)")
    case True
    with x spec(2) [of k "o_state x"] r(4) show ?thesis by auto
  next
    case False
    with x spec(2) have "k \<notin> fst ` set (interrupted_items db)" by auto
    with False x r(3) show ?thesis by simp
  qed
  with r show ?thesis by (auto simp: RecoverInterrupted_def)
qed
section \<open>Progress of acceptance\<close>

definition well_formed_request :: "Request \<Rightarrow> string \<Rightarrow> bool" where
  "well_formed_request r scope = (rq_Version r = 2 \<and> rq_OperationRevision r = 1
     \<and> operationIDPattern (rq_OperationID r) \<and> scope \<noteq> [] \<and> length scope \<le> 128 \<and> is_ok (Canonical r))"

lemma Begin_well_formed:
  assumes "well_formed_request r i"
  obtains c h where "Hash r = Inr h" and "\<And>now uid db. Begin now r uid i db =
    (case op_get db (rq_OperationID r) of Some x \<Rightarrow> (replay x h r, db) | None \<Rightarrow> begin_fresh now r uid i h c db)"
proof -
  from assms obtain c where "Canonical r = Inr c" by (auto simp: well_formed_request_def is_ok_iff)
  with assms show ?thesis
    by (intro that [of "sha256_hex c" c])
      (auto simp: well_formed_request_def Begin_def Hash_def op_row_of_def sql_row_key split: option.split)
qed

lemma Begin_accepts:
  assumes inv: "coord_inv db" and wfr: "well_formed_request r i"
    and fresh: "op_get db (rq_OperationID r) = None" and free: "abs_lock db i = Unlocked t"
  obtains db' where "Begin now r uid i db = (BeginDecision \<lparr>d_Execute = True, d_FencingToken = t + 1, d_Response = empty_Response\<rparr>, db')"
    and "acquires db db' (rq_OperationID r) i (t + 1)"
proof -
  from wfr obtain c h where b: "Begin now r uid i db = begin_fresh now r uid i h c db"
    using fresh by (metis Begin_well_formed option.case(1))
  let ?n = "new_operation now r uid i h c"
  have "\<exists>db2. acquire_lease now r i (db\<lparr>operations := operations db @ [?n]\<rparr>) = Acquired (t + 1) db2
      \<and> operations db2 = operations db @ [?n]"
    using free by (auto simp: acquire_lease_def sql_row_key abs_lock_def lock_of_def Let_def split: option.splits lease_state.splits)
  then obtain db2 where a: "acquire_lease now r i (db\<lparr>operations := operations db @ [?n]\<rparr>) = Acquired (t + 1) db2"
      "operations db2 = operations db @ [?n]" by blast
  have "sql_count (\<lambda>o'. o_operation_id o' = rq_OperationID r) (operations db2) = 1"
    unfolding a(2) using coord_inv_wf(1) [OF inv] fresh
    by (subst sql_count_key_only) (simp_all add: tbl_wf_append op_get_insert)
  with b a that acquire_lease_acquires [OF inv fresh, of ?n i now "t + 1" db2] show ?thesis
    by (simp add: begin_fresh_def Let_def)
qed

lemma acquires_holds:
  assumes "acquires db db' k i t"
  shows "verifyFence k t db' = Inr ()" "abs_lock db' i = Locked k t"
proof -
  from assms obtain x' l' where x: "op_get db' k = Some x'" "o_state x' = StateAccepted" "o_installation_id x' = i"
      "lease_get db' i = Some l'" "lease_matches x' l'" "l_fencing_token l' = t"
    by (auto simp: acquires_def)
  then have l: "l_operation_id l' = k" "l_state l' = Held" "o_fencing_token x' = Some t"
    by (auto simp: lease_matches_def dest: tbl_get_key)
  with x show "abs_lock db' i = Locked k t" by (simp add: abs_lock_def lock_of_def)
  from x l have "fenced db' k t x' l'" by (simp add: fenced_def)
  then show "verifyFence k t db' = Inr ()" using verifyFence_iff by blast
qed

text \<open>The conflict branch: the installation is busy and the request is not a repair of a quarantined one.\<close>

lemma Begin_refuses:
  assumes inv: "coord_inv db" and wfr: "well_formed_request r i"
    and fresh: "op_get db (rq_OperationID r) = None"
    and busy: "abs_lock db i = Locked a t \<or> abs_lock db i = Quarantined a t \<and> \<not> is_repair_request r"
  obtains db' where "Begin now r uid i db = (BeginConflict (respond (conflict_response r a)) a, db')"
    and "refuses db db' (rq_OperationID r) i"
proof -
  from wfr obtain c h where b: "Begin now r uid i db = begin_fresh now r uid i h c db"
    using fresh by (metis Begin_well_formed option.case(1))
  from busy obtain l where l: "lease_get db i = Some l" "l_state l \<noteq> Released" "l_operation_id l = a"
      "l_state l = RecoveryRequired \<Longrightarrow> \<not> is_repair_request r"
    by (auto simp: abs_lock_def lock_of_def split: option.splits lease_state.splits)
  with inv obtain y where "op_get db a = Some y" by (metis coord_inv_leaseD)
  with fresh have "a \<noteq> rq_OperationID r" by auto
  with l b have run: "Begin now r uid i db = (BeginConflict (respond (conflict_response r a)) a,
      refuse_conflict now r i a (db\<lparr>operations := operations db @ [new_operation now r uid i h c]\<rparr>))"
    by (auto simp: begin_fresh_def Let_def acquire_lease_def sql_row_key)
  from inv run show ?thesis
  proof (cases rule: Begin_cases)
    case refused
    with run that show ?thesis by blast
  next
    case kept
    then have "length (operations (refuse_conflict now r i a
        (db\<lparr>operations := operations db @ [new_operation now r uid i h c]\<rparr>))) = length (operations db)" by simp
    then show ?thesis by (simp add: refuse_conflict_def)
  qed simp
qed

text \<open>A repair takes over a quarantined installation whose operation waits for an administrator.\<close>

lemma Begin_takes_over:
  assumes inv: "coord_inv db" and wfr: "well_formed_request r i" and rep: "is_repair_request r"
    and fresh: "op_get db (rq_OperationID r) = None" and q: "abs_lock db i = Quarantined a t"
    and y: "op_get db a = Some y" "o_state y = StateActionRequired"
  obtains db' where "Begin now r uid i db = (BeginDecision \<lparr>d_Execute = True, d_FencingToken = t + 1, d_Response = empty_Response\<rparr>, db')"
    and "acquires db db' (rq_OperationID r) i (t + 1)"
proof -
  from wfr obtain c h where b: "Begin now r uid i db = begin_fresh now r uid i h c db"
    using fresh by (metis Begin_well_formed option.case(1))
  let ?n = "new_operation now r uid i h c"
  from y fresh have ne: "a \<noteq> rq_OperationID r" by auto
  from q obtain l where l: "lease_get db i = Some l" "l_state l = RecoveryRequired" "l_operation_id l = a" "l_fencing_token l = t"
    by (auto simp: abs_lock_def lock_of_def split: option.splits lease_state.splits)
  have "\<exists>db2. acquire_lease now r i (db\<lparr>operations := operations db @ [?n]\<rparr>) = Acquired (t + 1) db2
      \<and> map o_operation_id (operations db2) = map o_operation_id (operations db @ [?n])"
    using l rep y fresh ne
    by (auto simp: acquire_lease_def sql_row_key Let_def take_over_def op_row_of_def op_get_insert sql_update_def)
  then obtain db2 where a: "acquire_lease now r i (db\<lparr>operations := operations db @ [?n]\<rparr>) = Acquired (t + 1) db2"
      "map o_operation_id (operations db2) = map o_operation_id (operations db @ [?n])" by blast
  have "tbl_wf o_operation_id (operations db2)"
    unfolding tbl_wf_def a(2) using coord_inv_wf(1) [OF inv] fresh
    by (simp add: tbl_wf_append [unfolded tbl_wf_def, symmetric] tbl_wf_def tbl_get_None_iff image_iff) metis
  moreover have "rq_OperationID r \<in> set (map o_operation_id (operations db2))" unfolding a(2) by simp
  then have "tbl_get o_operation_id (rq_OperationID r) (operations db2) \<noteq> None"
    by (auto simp: tbl_get_None_iff)
  ultimately have "sql_count (\<lambda>o'. o_operation_id o' = rq_OperationID r) (operations db2) = 1"
    by (subst sql_count_key_only) auto
  with b a that acquire_lease_acquires [OF inv fresh, of ?n i now "t + 1" db2] show ?thesis
    by (simp add: begin_fresh_def Let_def)
qed

section \<open>Progress of execution\<close>

lemma AuthorizeMutation_ok:
  assumes inv: "coord_inv db" and f: "fenced db k t x l" and st: "o_state x = StateAccepted"
  obtains db' x' where "AuthorizeMutation now k t db = Inr db'" and "fenced db' k t x' l"
    and "o_state x' = StateExecuting" and "o_installation_id x' = o_installation_id x"
proof -
  have "\<exists>db' x'. AuthorizeMutation now k t db = Inr db' \<and> fenced db' k t x' l \<and> o_state x' = StateExecuting
      \<and> o_installation_id x' = o_installation_id x"
    using fencedD [OF inv f] coord_inv_wf [OF inv] st
    by (simp add: AuthorizeMutation_def tx_run fenced_def)
  with that show ?thesis by blast
qed

lemma Complete_commits:
  assumes inv: "coord_inv db" and fx: "fenced db k t x l" and st: "o_state x = StateExecuting"
    and enc: "encode_result (rs_Result response) ''operation result too large'' = Inr res"
    and ok: "rs_ErrorCode response \<noteq> ''RecoveryRequired''"
  obtains db' x' where "Complete now k t response db = (Inr (responseFor x' (rs_RequestID response)), db')"
    and "op_get db' k = Some x'" and "o_state x' = (if rs_OK response then StateSucceeded else StateFailed)"
    and "o_result_json x' = res" and "abs_lock db' (o_installation_id x) = Unlocked t"
proof -
  note f = fencedD [OF inv fx] coord_inv_wf [OF inv] st
  let ?c = "\<lambda>state outcome recovery code detail. commit_completion now k t state outcome recovery res code detail db"
  have commit: "\<exists>db' x'. ?c state outcome recovery code detail = Inr db' \<and> op_get db' k = Some x' \<and> o_state x' = state
      \<and> o_result_json x' = res \<and> abs_lock db' (o_installation_id x) = Unlocked t" for state outcome recovery code detail
    using f by (simp add: commit_completion_def tx_run abs_lock_def lock_of_def)
  show ?thesis
  proof (cases "rs_OK response")
    case True
    with commit [of StateSucceeded confirmed_applied rd_completed "[]" "[]"] that f enc ok show ?thesis
      by (auto simp: Complete_def get_response_def op_row_of_def sql_row_key)
  next
    case False
    with commit [of StateFailed mixed_outcome retry_after_validation
        "if rs_ErrorCode response = [] then ''ExecutionFailed'' else rs_ErrorCode response" "sanitize (rs_Error response)"]
      that f enc ok show ?thesis
      by (auto simp: Complete_def get_response_def op_row_of_def sql_row_key)
  qed
qed

lemma Complete_quarantines:
  assumes inv: "coord_inv db" and fx: "fenced db k t x l" and st: "o_state x = StateExecuting"
    and enc: "encode_result (rs_Result response) ''operation result too large'' = Inr res"
    and rr: "rs_ErrorCode response = ''RecoveryRequired''"
  obtains db' x' where "Complete now k t response db = (Inr (responseFor x' (rs_RequestID response)), db')"
    and "op_get db' k = Some x'" and "o_state x' = StateActionRequired"
    and "abs_lock db' (o_installation_id x) = Quarantined k (t + 1)"
proof -
  note f = fencedD [OF inv fx] coord_inv_wf [OF inv] st
  have "\<exists>db' x'. require_reconciliation now k t detail db = Inr db' \<and> op_get db' k = Some x' \<and> o_state x' = StateActionRequired
      \<and> abs_lock db' (o_installation_id x) = Quarantined k (t + 1)" for detail
    using f by (simp add: require_reconciliation_def tx_run abs_lock_def lock_of_def)
  from this [of "if rs_OK response then [] else sanitize (rs_Error response)"] that f enc rr show ?thesis
    by (auto simp: Complete_def get_response_def op_row_of_def sql_row_key)
qed

lemma Complete_stale:
  assumes "verifyFence k t db \<noteq> Inr ()"
  shows "\<exists>e. Complete now k t response db = (Inl e, db)"
proof (cases "verifyFence k t db")
  case (Inl e)
  then show ?thesis
    by (cases "encode_result (rs_Result response) ''operation result too large''") (simp_all add: Complete_def)
qed (use assms in simp)

lemma AuthorizeMutation_stale:
  assumes "verifyFence k t db \<noteq> Inr ()"
  shows "\<exists>e. AuthorizeMutation now k t db = Inl e" and "\<exists>e. RecordPhase now k t phase outcome facts db = Inl e"
  using assms by (cases "verifyFence k t db"; simp add: AuthorizeMutation_def RecordPhase_def)+

end
