(* ===== verification/Gen_Store_Inv.thy ===== *)
theory Gen_Store_Inv
  imports Gen_Multi_Store Coordinator_Lock
begin

text \<open>
  The invariant of the generation tables (keys, at most one active generation per
  installation, foreign keys), its preservation by every statement and transaction of the
  store, and the graph along which the status of a generation moves.
\<close>

section \<open>Which tables a statement touches\<close>

lemma set_gens_simps [simp]:
  "generations (set_gens P f db) = sql_update P f (generations db)"
  "operations (set_gens P f db) = operations db" "leases (set_gens P f db) = leases db"
  "events (set_gens P f db) = events db" "components (set_gens P f db) = components db"
  "bindings (set_gens P f db) = bindings db" "steps (set_gens P f db) = steps db"
  "ownership (set_gens P f db) = ownership db"
  by (simp_all add: set_gens_def)

lemma set_comps_simps [simp]:
  "components (set_comps P f db) = sql_update P f (components db)"
  "operations (set_comps P f db) = operations db" "leases (set_comps P f db) = leases db"
  "events (set_comps P f db) = events db" "generations (set_comps P f db) = generations db"
  "bindings (set_comps P f db) = bindings db" "steps (set_comps P f db) = steps db"
  "ownership (set_comps P f db) = ownership db"
  by (simp_all add: set_comps_def)

lemma activate_Inr_iff:
  "activate P f db = Inr db' \<longleftrightarrow> one_active (sql_update P f (generations db)) \<and> db' = set_gens P f db"
  by (auto simp: activate_def set_gens_def Let_def)

lemma insert_gen_Inr_iff:
  "insert_gen g db = Inr db' \<longleftrightarrow> tbl_get gen_key (gen_key g) (generations db) = None
     \<and> one_active (generations db @ [g]) \<and> db' = db\<lparr>generations := generations db @ [g]\<rparr>"
  by (auto simp: insert_gen_def bind_result_Inr_iff sql_insert_Inr_iff split: if_splits)

lemma insert_comp_Inr_iff:
  "insert_comp c db = Inr db' \<longleftrightarrow> tbl_get comp_key (comp_key c) (components db) = None
     \<and> ordinal_free c (components db) \<and> gen_exists (c_installation_id c) (c_runtime_generation c) db
     \<and> db' = db\<lparr>components := components db @ [c]\<rparr>"
  by (auto simp: insert_comp_def bind_result_Inr_iff sql_insert_Inr_iff split: if_splits)

lemma insert_binding_Inr_iff:
  "insert_binding b db = Inr db' \<longleftrightarrow> tbl_get binding_key (binding_key b) (bindings db) = None
     \<and> binding_check b \<and> gen_exists (b_installation_id b) (b_runtime_generation b) db
     \<and> db' = db\<lparr>bindings := bindings db @ [b]\<rparr>"
  by (auto simp: insert_binding_def bind_result_Inr_iff sql_insert_Inr_iff split: if_splits)

section \<open>The invariant\<close>

definition ord_key :: "comp_row \<Rightarrow> string \<times> int \<times> int" where
  "ord_key c = (c_installation_id c, c_runtime_generation c, c_start_ordinal c)"

definition store_inv :: "helper_db \<Rightarrow> bool" where
  "store_inv db \<longleftrightarrow> tbl_wf gen_key (generations db) \<and> one_active (generations db)
     \<and> tbl_wf comp_key (components db) \<and> tbl_wf ord_key (components db)
     \<and> tbl_wf binding_key (bindings db)
     \<and> (\<forall>c \<in> set (components db). gen_exists (c_installation_id c) (c_runtime_generation c) db)
     \<and> (\<forall>b \<in> set (bindings db). binding_check b \<and> gen_exists (b_installation_id b) (b_runtime_generation b) db)"

lemma gen_exists_iff: "gen_exists i n db \<longleftrightarrow> gen_get db (i, n) \<noteq> None"
  by (auto simp: gen_exists_def in_gen_def tbl_get_None_iff gen_key_def)

lemma one_active_map:
  assumes "\<And>g. g \<in> set gs \<Longrightarrow> g_status (h g) = GActive \<Longrightarrow> g_status g = GActive"
    and "\<And>g. g \<in> set gs \<Longrightarrow> g_installation_id (h g) = g_installation_id g"
    and "one_active gs"
  shows "one_active (map h gs)"
proof -
  have "set (map g_installation_id (filter (\<lambda>g. g_status g = GActive) (map h gs)))
      \<subseteq> set (map g_installation_id (filter (\<lambda>g. g_status g = GActive) gs)) \<and> one_active (map h gs)"
    using assms
  proof (induction gs)
    case (Cons g gs)
    then have IH: "set (map g_installation_id (filter (\<lambda>g. g_status g = GActive) (map h gs)))
      \<subseteq> set (map g_installation_id (filter (\<lambda>g. g_status g = GActive) gs)) \<and> one_active (map h gs)"
      by (simp add: one_active_def split: if_splits)
    show ?case
    proof (cases "g_status (h g) = GActive")
      case True
      with Cons.prems have a: "g_status g = GActive" "g_installation_id (h g) = g_installation_id g" by auto
      then have "g_installation_id g \<notin> set (map g_installation_id (filter (\<lambda>g. g_status g = GActive) gs))"
        using Cons.prems(3) by (simp add: one_active_def)
      with IH True a show ?thesis by (auto simp: one_active_def)
    next
      case False
      with IH show ?thesis by (auto simp: one_active_def)
    qed
  qed (simp add: one_active_def)
  then show ?thesis ..
qed

lemma one_active_unique:
  assumes "one_active gs" "a \<in> set gs" "b \<in> set gs" "g_status a = GActive" "g_status b = GActive"
    and "g_installation_id a = g_installation_id b" and wf: "tbl_wf gen_key gs"
  shows "a = b"
proof -
  have "inj_on g_installation_id (set (filter (\<lambda>g. g_status g = GActive) gs))"
    using assms(1) by (simp add: one_active_def distinct_map)
  with assms show ?thesis by (auto dest: inj_onD)
qed

subsection \<open>Statements\<close>

lemma gen_exists_set_gens:
  assumes "\<And>g. P g \<Longrightarrow> gen_key (f g) = gen_key g"
  shows "gen_exists i n (set_gens P f db) = gen_exists i n db"
  using assms unfolding gen_exists_iff by (simp add: tbl_get_update)

lemma store_inv_set_gens:
  assumes inv: "store_inv db" and key: "\<And>g. P g \<Longrightarrow> gen_key (f g) = gen_key g"
    and act: "\<And>g. P g \<Longrightarrow> g_status (f g) \<noteq> GActive"
  shows "store_inv (set_gens P f db)"
proof -
  have "g_installation_id (f g) = g_installation_id g" if "P g" for g using key [OF that] by (simp add: gen_key_def)
  with act have "one_active (sql_update P f (generations db))"
    unfolding sql_update_def using inv by (intro one_active_map) (auto simp: store_inv_def split: if_splits)
  with inv key show ?thesis by (simp add: store_inv_def gen_exists_set_gens tbl_wf_update)
qed

lemma store_inv_activate:
  assumes inv: "store_inv db" and run: "activate P f db = Inr db'" and key: "\<And>g. P g \<Longrightarrow> gen_key (f g) = gen_key g"
  shows "store_inv db'"
  using assms by (auto simp: activate_Inr_iff store_inv_def gen_exists_set_gens tbl_wf_update)

lemma gen_exists_set_comps [simp]: "gen_exists i n (set_comps P f db) = gen_exists i n db"
  by (simp add: gen_exists_def)

lemma store_inv_set_comps:
  assumes inv: "store_inv db" and key: "\<And>c. P c \<Longrightarrow> comp_key (f c) = comp_key c" "\<And>c. P c \<Longrightarrow> ord_key (f c) = ord_key c"
  shows "store_inv (set_comps P f db)"
proof -
  have "c_installation_id (f c) = c_installation_id c \<and> c_runtime_generation (f c) = c_runtime_generation c" if "P c" for c
    using key(1) [OF that] by (simp add: comp_key_def)
  with inv key show ?thesis
    by (auto simp: store_inv_def tbl_wf_update set_sql_update)
qed

lemma ordinal_free_iff: "ordinal_free c cs \<longleftrightarrow> tbl_get ord_key (ord_key c) cs = None"
  by (auto simp: ordinal_free_def tbl_get_None_iff ord_key_def in_comp_def)

lemma gen_exists_insert_comp: "gen_exists i n (db\<lparr>components := cs\<rparr>) = gen_exists i n db"
  "gen_exists i n (db\<lparr>bindings := bs\<rparr>) = gen_exists i n db"
  by (simp_all add: gen_exists_def)

lemma store_inv_insert_gen: "store_inv db \<Longrightarrow> insert_gen g db = Inr db' \<Longrightarrow> store_inv db'"
  by (auto simp: store_inv_def insert_gen_Inr_iff tbl_wf_append gen_exists_def)

lemma store_inv_insert_comp: "store_inv db \<Longrightarrow> insert_comp c db = Inr db' \<Longrightarrow> store_inv db'"
  by (auto simp: store_inv_def insert_comp_Inr_iff tbl_wf_append gen_exists_insert_comp ordinal_free_iff)

lemma store_inv_insert_binding: "store_inv db \<Longrightarrow> insert_binding b db = Inr db' \<Longrightarrow> store_inv db'"
  by (auto simp: store_inv_def insert_binding_Inr_iff tbl_wf_append gen_exists_insert_comp)

lemma store_inv_insert_bindings: "store_inv db \<Longrightarrow> insert_bindings i n bs db = Inr db' \<Longrightarrow> store_inv db'"
  by (induction bs arbitrary: db) (auto simp: bind_result_Inr_iff dest: store_inv_insert_binding)

lemma tbl_wf_filter: "tbl_wf key t \<Longrightarrow> tbl_wf key (filter P t)"
  by (simp add: tbl_wf_def distinct_map_filter)

lemma store_inv_filter_bindings: "store_inv db \<Longrightarrow> store_inv (db\<lparr>bindings := filter P (bindings db)\<rparr>)"
  by (auto simp: store_inv_def tbl_wf_filter gen_exists_insert_comp)

lemma store_inv_replaceBindings: "store_inv db \<Longrightarrow> replaceBindings i n bs db = Inr db' \<Longrightarrow> store_inv db'"
  by (auto simp: replaceBindings_def split: if_splits
      intro: store_inv_insert_bindings [OF store_inv_filter_bindings])

section \<open>Effects\<close>

text \<open>
  The status graph. \<open>None\<close> is a generation that is not recorded; the arrows out of it
  are preparation and the two migrations. A clean failed or removed generation may be
  prepared again.
\<close>

inductive status_edge :: "gen_status option \<Rightarrow> gen_status option \<Rightarrow> bool" where
  prepare: "status_edge None (Some GPrepared)"
| migrate: "status_edge None (Some GVerificationRequired)"
| migrate_removed: "status_edge None (Some GRemoved)"
| promote: "status_edge (Some GVerificationRequired) (Some GActive)"
| network: "status_edge (Some GPrepared) (Some GCandidate)"
| prepared_fails: "status_edge (Some GPrepared) (Some GFailed)"
| candidate_fails: "status_edge (Some GCandidate) (Some GFailed)"
| commit: "status_edge (Some GCandidate) (Some GActive)"
| retire: "status_edge (Some GActive) (Some GRetained)"
| retire_missing: "status_edge (Some GActive) (Some GCleanupPending)"
| remove_active: "status_edge (Some GActive) (Some GRemoved)"
| demote: "status_edge (Some GRetained) (Some GCleanupPending)"
| remove_retained: "status_edge (Some GRetained) (Some GRemoved)"
| remove_pending: "status_edge (Some GCleanupPending) (Some GRemoved)"
| remove_failed: "status_edge (Some GFailed) (Some GRemoved)"
| remove_candidate: "status_edge (Some GCandidate) (Some GRemoved)"
| remove_prepared: "status_edge (Some GPrepared) (Some GRemoved)"
| reuse_failed: "status_edge (Some GFailed) (Some GPrepared)"
| reuse_removed: "status_edge (Some GRemoved) (Some GPrepared)"

inductive_simps status_edge_simps:
  "status_edge None s" "status_edge (Some GActive) s" "status_edge (Some GCandidate) s" "status_edge (Some GPrepared) s"
  "status_edge (Some GFailed) s" "status_edge (Some GRemoved) s" "status_edge (Some GRetained) s"
  "status_edge (Some GCleanupPending) s" "status_edge (Some GVerificationRequired) s" "status_edge s (Some GActive)"

abbreviation status_path :: "gen_status option \<Rightarrow> gen_status option \<Rightarrow> bool" where
  "status_path \<equiv> status_edge\<^sup>*\<^sup>*"

definition status_at :: "helper_db \<Rightarrow> string \<times> int \<Rightarrow> gen_status option" where
  "status_at db k = map_option g_status (gen_get db k)"

text \<open>What belongs to other installations.\<close>

definition outside :: "string \<Rightarrow> helper_db \<Rightarrow> gen_row list \<times> comp_row list \<times> binding_row list" where
  "outside i db = (filter (\<lambda>g. g_installation_id g \<noteq> i) (generations db),
     filter (\<lambda>c. c_installation_id c \<noteq> i) (components db), filter (\<lambda>b. b_installation_id b \<noteq> i) (bindings db))"

definition store_effect :: "string \<Rightarrow> helper_db \<Rightarrow> helper_db \<Rightarrow> bool" where
  "store_effect i db db' \<longleftrightarrow> operations db' = operations db \<and> leases db' = leases db \<and> (\<exists>vs. events db' = events db @ vs)
     \<and> (store_inv db \<longrightarrow> store_inv db' \<and> outside i db' = outside i db \<and> (\<forall>k. status_path (status_at db k) (status_at db' k)))"

lemma store_effect_refl [simp, intro]: "store_effect i db db"
  by (simp add: store_effect_def)

lemma store_effect_trans: "store_effect i db db1 \<Longrightarrow> store_effect i db1 db2 \<Longrightarrow> store_effect i db db2"
  unfolding store_effect_def using rtranclp_trans [of status_edge] by (metis (mono_tags) append_assoc)

text \<open>Seen by the coordinator, a store transaction is a step of its environment.\<close>

lemma store_effect_coord: "store_effect i db db' \<Longrightarrow> coord_step db db'"
  unfolding store_effect_def by (blast intro: coord_step.environment)

lemma filter_update_outside:
  assumes "\<And>r. P r \<Longrightarrow> \<not> Q r \<and> \<not> Q (f r)"
  shows "filter Q (sql_update P f t) = filter Q t"
  using assms by (induction t) (auto simp: sql_update_def)

lemma status_at_set_gens:
  assumes "\<And>g. P g \<Longrightarrow> gen_key (f g) = gen_key g" and "\<And>g. P g \<Longrightarrow> status_path (Some (g_status g)) (Some (g_status (f g)))"
  shows "status_path (status_at db k) (status_at (set_gens P f db) k)"
  using assms by (auto simp: status_at_def tbl_get_update option.map_comp comp_def split: option.splits)
    (cases "gen_get db k"; simp)

lemma set_gens_effect:
  assumes key: "\<And>g. P g \<Longrightarrow> g_installation_id g = i \<and> gen_key (f g) = gen_key g"
    and st: "\<And>g. P g \<Longrightarrow> g_status (f g) \<noteq> GActive \<and> status_path (Some (g_status g)) (Some (g_status (f g)))"
  shows "store_effect i db (set_gens P f db)"
proof -
  have "g_installation_id (f g) = i" if "P g" for g using key [OF that] by (simp add: gen_key_def)
  with key st show ?thesis
    by (simp add: store_effect_def store_inv_set_gens status_at_set_gens outside_def filter_update_outside)
qed

lemma activate_effect:
  assumes run: "activate P f db = Inr db'" and key: "\<And>g. P g \<Longrightarrow> g_installation_id g = i \<and> gen_key (f g) = gen_key g"
    and st: "\<And>g. P g \<Longrightarrow> status_path (Some (g_status g)) (Some (g_status (f g)))"
  shows "store_effect i db db'"
proof -
  have "g_installation_id (f g) = i" if "P g" for g using key [OF that] by (simp add: gen_key_def)
  moreover have "store_inv db \<longrightarrow> store_inv db'" using store_inv_activate [OF _ run] key by blast
  moreover have "db' = set_gens P f db" using run by (simp add: activate_Inr_iff)
  ultimately show ?thesis using key st
    by (simp add: store_effect_def status_at_set_gens outside_def filter_update_outside)
qed

lemma set_comps_effect:
  assumes "\<And>c. P c \<Longrightarrow> c_installation_id c = i \<and> comp_key (f c) = comp_key c \<and> ord_key (f c) = ord_key c"
  shows "store_effect i db (set_comps P f db)"
proof -
  have "c_installation_id (f c) = i" if "P c" for c using assms [OF that] by (simp add: comp_key_def)
  with assms show ?thesis
    by (simp add: store_effect_def store_inv_set_comps status_at_def outside_def filter_update_outside)
qed

lemma insert_gen_effect:
  assumes "insert_gen g db = Inr db'" and "g_installation_id g = i"
    and "g_status g \<in> {GPrepared, GVerificationRequired, GRemoved}"
  shows "store_effect i db db'"
  using assms store_inv_insert_gen [OF _ assms(1)]
  by (auto simp: store_effect_def insert_gen_Inr_iff outside_def status_at_def tbl_get_append split: option.splits
      intro!: r_into_rtranclp status_edge.intros)

lemma insert_comp_effect:
  assumes "insert_comp c db = Inr db'" and "c_installation_id c = i"
  shows "store_effect i db db'"
  using assms store_inv_insert_comp [OF _ assms(1)]
  by (auto simp: store_effect_def insert_comp_Inr_iff outside_def status_at_def)

lemma insert_binding_effect:
  assumes "insert_binding b db = Inr db'" and "b_installation_id b = i"
  shows "store_effect i db db'"
  using assms store_inv_insert_binding [OF _ assms(1)]
  by (auto simp: store_effect_def insert_binding_Inr_iff outside_def status_at_def)

lemma insert_bindings_effect: "insert_bindings i n bs db = Inr db' \<Longrightarrow> store_effect i db db'"
  by (induction bs arbitrary: db)
    (auto simp: bind_result_Inr_iff intro: store_effect_trans [OF insert_binding_effect])

lemma replaceBindings_effect:
  assumes "replaceBindings i n bs db = Inr db'"
  shows "store_effect i db db'"
proof -
  let ?db = "db\<lparr>bindings := filter (\<lambda>b. \<not> (b_installation_id b = i \<and> b_runtime_generation b = n)) (bindings db)\<rparr>"
  have "filter (\<lambda>b. b_installation_id b \<noteq> i) (bindings ?db) = filter (\<lambda>b. b_installation_id b \<noteq> i) (bindings db)"
    by (auto simp: filter_filter intro: filter_cong)
  then have "store_effect i db ?db"
    using store_inv_filter_bindings [of db] by (simp add: store_effect_def outside_def status_at_def)
  moreover have "store_effect i ?db db'"
    using assms insert_bindings_effect by (auto simp: replaceBindings_def split: if_splits)
  ultimately show ?thesis by (rule store_effect_trans)
qed

end
