(* ===== verification/Gen_Lifecycle.thy ===== *)
theory Gen_Lifecycle
  imports Gen_Store_Inv
begin

text \<open>
  Every transaction of the generation store has an effect of the form \<open>store_effect\<close>: it
  keeps the invariant, moves generations along the status graph and leaves other
  installations alone.
\<close>

section \<open>Single-component transactions\<close>

lemma set_both_effect:
  assumes "store_effect i db (set_gens P f db)"
    and "\<And>c. Q c \<Longrightarrow> c_installation_id c = i \<and> comp_key (h c) = comp_key c \<and> ord_key (h c) = ord_key c"
  shows "store_effect i db (set_comps Q h (set_gens P f db))"
  using assms(1) set_comps_effect [OF assms(2)] by (rule store_effect_trans)

lemma activate_both_effect:
  assumes "activate P f db = Inr db1" and "\<And>g. P g \<Longrightarrow> g_installation_id g = i \<and> gen_key (f g) = gen_key g"
    and "\<And>g. P g \<Longrightarrow> status_path (Some (g_status g)) (Some (g_status (f g)))"
    and "\<And>c. Q c \<Longrightarrow> c_installation_id c = i \<and> comp_key (h c) = comp_key c \<and> ord_key (h c) = ord_key c"
  shows "store_effect i db (set_comps Q h db1)"
  using activate_effect [OF assms(1-3)] set_comps_effect [OF assms(4)] by (rule store_effect_trans)

lemmas gen_effect_intros = set_gens_effect r_into_rtranclp status_edge.intros

lemma fold_result_effect:
  assumes "\<And>x db db'. x \<in> set xs \<Longrightarrow> f x db = Inr db' \<Longrightarrow> store_effect i db db'"
    and "fold_result f xs db = Inr db'"
  shows "store_effect i db db'"
  using assms
proof (induction xs arbitrary: db)
  case (Cons x xs)
  then obtain db1 where db1: "f x db = Inr db1" "fold_result f xs db1 = Inr db'" by (auto simp: bind_result_Inr_iff)
  with Cons.prems(1) [of x] have "store_effect i db db1" by simp
  moreover have "store_effect i db1 db'" by (rule Cons.IH [OF _ db1(2)]) (use Cons.prems(1) in \<open>auto\<close>)
  ultimately show ?case by (rule store_effect_trans)
qed simp

lemma ignore_gen_effect:
  assumes "g_installation_id g = i" "g_status g \<in> {GPrepared, GVerificationRequired, GRemoved}"
  shows "store_effect i db (ignore_gen g db)"
  using assms insert_gen_effect [of g db _ i] by (auto simp: ignore_gen_def split: sum.splits)

lemma fold_ignore_gen_effect:
  assumes "\<And>w. w \<in> set ws \<Longrightarrow> w_instance_id w = i" "st \<in> {GVerificationRequired, GRemoved}"
  shows "store_effect i db (fold (ignore_gen \<circ> legacy_gen st cl) ws db)"
  using assms
proof (induction ws arbitrary: db)
  case (Cons w ws)
  have "store_effect i db (ignore_gen (legacy_gen st cl w) db)"
    by (rule ignore_gen_effect) (use Cons.prems in \<open>auto simp: legacy_gen_def\<close>)
  from store_effect_trans [OF this Cons.IH] Cons.prems show ?case by simp
qed simp

lemma ignore_comp_effect: "ignore_comp c db = Inr db' \<Longrightarrow> c_installation_id c = i \<Longrightarrow> store_effect i db db'"
  using insert_comp_effect [of c db db' i]
  by (auto simp: ignore_comp_def insert_comp_Inr_iff tbl_get_None_iff split: if_splits)

lemma ignore_binding_effect: "ignore_binding b db = Inr db' \<Longrightarrow> b_installation_id b = i \<Longrightarrow> store_effect i db db'"
  using insert_binding_effect [of b db db' i]
  by (auto simp: ignore_binding_def insert_binding_Inr_iff tbl_get_None_iff split: if_splits)

lemma BackfillInstallation_effect:
  assumes "BackfillInstallation i db = Inr db'"
  shows "store_effect i db db'"
proof -
  let ?own = "\<lambda>P. filter (\<lambda>w. w_instance_id w = i \<and> P w) (ownership db)"
  let ?run = "?own (\<lambda>w. 0 < w_runtime_generation w \<and> w_container_id w \<noteq> [])"
  let ?gone = "?own (\<lambda>w. 0 < w_runtime_generation w \<and> w_container_id w = [])"
  let ?db1 = "fold (ignore_gen \<circ> legacy_gen GVerificationRequired CNotRequired) ?run db"
  from assms obtain db2 db4 where db: "fold_result (ignore_comp \<circ> legacy_comp CsUnknown) ?run ?db1 = Inr db2"
      "fold_result (ignore_comp \<circ> legacy_comp CsRemoved) ?gone (fold (ignore_gen \<circ> legacy_gen GRemoved CClean) ?gone db2) = Inr db4"
      "fold_result (ignore_binding \<circ> legacy_binding)
        (?own (\<lambda>w. w_service_id w \<noteq> [] \<and> 1 \<le> w_container_port w \<and> w_container_port w \<le> 65535)) db4 = Inr db'"
    by (auto simp: BackfillInstallation_def Let_def bind_result_Inr_iff)
  have "store_effect i db ?db1" "store_effect i db2 (fold (ignore_gen \<circ> legacy_gen GRemoved CClean) ?gone db2)"
    by (rule fold_ignore_gen_effect; auto)+
  moreover have "store_effect i ?db1 db2" "store_effect i (fold (ignore_gen \<circ> legacy_gen GRemoved CClean) ?gone db2) db4"
    by (rule fold_result_effect [OF _ db(1)] fold_result_effect [OF _ db(2)]; auto intro!: ignore_comp_effect simp: legacy_comp_def)+
  moreover have "store_effect i db4 db'"
    by (rule fold_result_effect [OF _ db(3)]) (auto intro!: ignore_binding_effect simp: legacy_binding_def)
  ultimately show ?thesis by (blast intro: store_effect_trans)
qed

lemma RecordMigratedConfiguration_effect:
  "RecordMigratedConfiguration i n h db = Inr db' \<Longrightarrow> store_effect i db db'"
  by (auto simp: RecordMigratedConfiguration_def Let_def in_comp_def comp_key_def ord_key_def split: if_splits
      intro!: set_comps_effect)

lemma PromoteMigratedState_effect:
  assumes "PromoteMigratedState now g networkID imageID h st operationID token db = Inr db'"
  shows "store_effect (ge_InstallationID g) db db'"
  using assms
  by (auto simp: PromoteMigratedState_def Let_def bind_result_Inr_iff in_gen_def in_comp_def gen_key_def comp_key_def ord_key_def
      split: if_splits elim!: activate_both_effect intro!: r_into_rtranclp status_edge.intros)

lemma MarkActiveRemoved_effect:
  assumes "MarkActiveRemoved i n operationID token db = Inr db'"
  shows "store_effect i db db'"
  using assms
  by (auto simp: MarkActiveRemoved_def Let_def bind_result_Inr_iff in_gen_def in_comp_def gen_key_def comp_key_def ord_key_def
      split: if_splits intro!: set_both_effect gen_effect_intros)

lemma RecordNetwork_effect: "RecordNetwork plan networkID db = Inr db' \<Longrightarrow> store_effect (pl_InstallationID plan) db db'"
  by (auto simp: RecordNetwork_def Let_def in_gen_def gen_key_def split: if_splits intro!: gen_effect_intros)

lemma RecordContainer_effect:
  "RecordContainer now plan containerID imageID h st db = Inr db' \<Longrightarrow> store_effect (pl_InstallationID plan) db db'"
  by (auto simp: RecordContainer_def Let_def bind_result_Inr_iff in_comp_def comp_key_def ord_key_def split: if_splits
      intro!: set_comps_effect)

lemma RecordState_effect: "RecordState now plan st v db = Inr db' \<Longrightarrow> store_effect (pl_InstallationID plan) db db'"
  by (auto simp: RecordState_def Let_def in_comp_def comp_key_def ord_key_def split: if_splits intro!: set_comps_effect)

lemma MarkFailed_effect: "MarkFailed plan cleanup db = Inr db' \<Longrightarrow> store_effect (pl_InstallationID plan) db db'"
  by (auto simp: MarkFailed_def Let_def in_gen_def gen_key_def split: if_splits intro!: gen_effect_intros)

lemma MarkRemoved_effect: "store_effect (ge_InstallationID g) db (MarkRemoved g db)"
  by (auto simp: MarkRemoved_def in_gen_def in_comp_def gen_key_def comp_key_def ord_key_def
      intro!: set_both_effect gen_effect_intros)

lemma MarkCleanupPending_effect: "store_effect (ge_InstallationID g) db (MarkCleanupPending g db)"
  by (auto simp: MarkCleanupPending_def in_gen_def gen_key_def intro!: gen_effect_intros)

lemma reuse_gens_effect:
  assumes "g_installation_id row = i" "g_runtime_generation row = n" "g_status row = GPrepared"
  shows "store_effect i db (set_gens (reusable i n) (\<lambda>_. row) db)"
  using assms by (auto simp: reusable_def in_gen_def gen_key_def intro!: gen_effect_intros)

text \<open>
  Replacing the components that satisfy a condition by one row keeps the keys when the
  condition determines the component and no other component has the new ordinal.
\<close>

lemma tbl_wf_replace:
  assumes "tbl_wf key t" "tbl_wf ord t" "\<And>x. P x \<longleftrightarrow> key x = key c"
    and "\<forall>x \<in> set t. \<not> P x \<longrightarrow> ord x \<noteq> ord c"
  shows "tbl_wf ord (sql_update P (\<lambda>_. c) t)"
  using assms(1,2,4)
proof (induction t)
  case (Cons a t)
  then have IH: "tbl_wf ord (sql_update P (\<lambda>_. c) t)" by (simp add: tbl_wf_def)
  show ?case
  proof (cases "P a")
    case True
    then have np: "\<forall>x \<in> set t. \<not> P x" using Cons.prems(1) assms(3) by (auto simp: tbl_wf_def image_iff)
    then have "sql_update P (\<lambda>_. c) t = t" by (auto simp: sql_update_def intro: map_idI)
    moreover have "ord c \<notin> ord ` set t" using np Cons.prems(3) by force
    ultimately show ?thesis using True Cons.prems(2) by (simp add: tbl_wf_def sql_update_def)
  next
    case False
    then have "ord a \<notin> ord ` set (sql_update P (\<lambda>_. c) t)"
      using Cons.prems(2,3) by (auto simp: tbl_wf_def set_sql_update image_iff)
    moreover have "sql_update P (\<lambda>_. c) (a # t) = a # sql_update P (\<lambda>_. c) t" using False by (simp add: sql_update_def)
    ultimately show ?thesis using IH by (simp add: tbl_wf_def)
  qed
qed (simp add: tbl_wf_def sql_update_def)

lemma replace_comp_effect:
  assumes P: "\<And>x. P x \<longleftrightarrow> comp_key x = comp_key c"
    and ord: "\<forall>x \<in> set (components db). \<not> P x \<longrightarrow> ord_key x \<noteq> ord_key c"
    and i: "c_installation_id c = i"
  shows "store_effect i db (set_comps P (\<lambda>_. c) db)"
proof -
  have ins: "P x \<Longrightarrow> c_installation_id x = i \<and> c_runtime_generation x = c_runtime_generation c" for x
    using i by (simp add: P comp_key_def)
  have out: "outside i (set_comps P (\<lambda>_. c) db) = outside i db"
    using ins i by (simp add: outside_def filter_update_outside)
  have "gen_exists i (c_runtime_generation c) db" if "x \<in> set (components db)" "P x" "store_inv db" for x
    using that ins [OF that(2)] by (auto simp: store_inv_def)
  moreover have "tbl_wf comp_key (sql_update P (\<lambda>_. c) (components db)) = tbl_wf comp_key (components db)"
    by (rule tbl_wf_update) (simp add: P)
  ultimately show ?thesis using i ins tbl_wf_replace [OF _ _ P ord]
    by (auto simp: store_effect_def store_inv_def out status_at_def set_sql_update)
qed

lemma Prepare_effect:
  assumes "Prepare now plan db = Inr db'"
  shows "store_effect (pl_InstallationID plan) db db'"
proof -
  let ?i = "pl_InstallationID plan" and ?n = "pl_Generation plan"
  let ?row = "prepared_gen now (pl_OperationID plan) (pl_ApplicationID plan) (pl_ReleaseID plan)
            (pl_NetworkName plan) (pl_PlanHash plan) [] (pl_DataPath plan) ?i ?n"
  let ?c = "prepared_comp now ?i ?n ''app'' (pl_ContainerName plan) (pl_Image plan) [] 0"
  let ?C = "\<lambda>c. in_comp ?i ?n c \<and> c_component_id c = ''app''"
  from assms consider (reuse) db1 where "db1 = set_comps ?C (\<lambda>_. ?c) (set_gens (reusable ?i ?n) (\<lambda>_. ?row) db)"
      "\<not> (\<exists>x \<in> set (components db). in_comp ?i ?n x \<and> \<not> ?C x \<and> c_start_ordinal x = 0)"
      "replaceBindings ?i ?n (pl_Bindings plan) db1 = Inr db'"
    | (fresh) db1 db2 where "insert_gen ?row db = Inr db1" "insert_comp ?c db1 = Inr db2"
      "replaceBindings ?i ?n (pl_Bindings plan) db2 = Inr db'"
    by (auto simp: Prepare_def Let_def bind_result_Inr_iff split: sum.splits if_splits)
  then show ?thesis
  proof cases
    case reuse
    have "store_effect ?i db (set_gens (reusable ?i ?n) (\<lambda>_. ?row) db)"
      by (rule reuse_gens_effect) (simp_all add: prepared_gen_def)
    moreover have "store_effect ?i (set_gens (reusable ?i ?n) (\<lambda>_. ?row) db) db1" unfolding reuse(1)
      by (rule replace_comp_effect) (use reuse(2) in \<open>auto simp: in_comp_def comp_key_def ord_key_def prepared_comp_def\<close>)
    ultimately show ?thesis using replaceBindings_effect [OF reuse(3)] by (blast intro: store_effect_trans)
  next
    case fresh
    have "store_effect ?i db db1" by (rule insert_gen_effect [OF fresh(1)]) (simp_all add: prepared_gen_def)
    moreover have "store_effect ?i db1 db2" by (rule insert_comp_effect [OF fresh(2)]) (simp add: prepared_comp_def)
    ultimately show ?thesis using replaceBindings_effect [OF fresh(3)] by (blast intro: store_effect_trans)
  qed
qed

lemma retire_effect: "store_effect i db (retire now missing i n db)"
  by (auto simp: retire_def in_gen_def gen_key_def intro!: gen_effect_intros)

lemma demote_older_effect: "store_effect i db (demote_older i keep db)"
  by (auto simp: demote_older_def gen_key_def intro!: gen_effect_intros)

lemma activate_candidate_effect:
  assumes "activate P f db = Inr db'" and "\<And>r. P r \<Longrightarrow> g_installation_id r = i \<and> g_status r = GCandidate"
    and "\<And>r. gen_key (f r) = gen_key r \<and> g_status (f r) = GActive"
  shows "store_effect i db db'"
  using assms by (auto intro!: activate_effect [OF assms(1)] r_into_rtranclp status_edge.intros)

lemma switch_generation_effect:
  assumes "switch_generation now v currentActive missing i expected n operationID db = Inr db'"
  shows "store_effect i db db'"
proof -
  let ?db1 = "if currentActive then retire now missing i expected db else db"
  have "store_effect i db ?db1" "store_effect i ?db1 (demote_older i expected ?db1)"
    using retire_effect demote_older_effect by auto
  moreover obtain f where "activate (is_candidate i n operationID) f (demote_older i expected ?db1) = Inr db'"
      "\<And>r. gen_key (f r) = gen_key r \<and> g_status (f r) = GActive"
    using assms by (auto simp: switch_generation_def Let_def bind_result_Inr_iff gen_key_def split: if_splits)
  then have "store_effect i (demote_older i expected ?db1) db'"
    by (intro activate_candidate_effect [where P = "is_candidate i n operationID"]) (simp_all add: is_candidate_def in_gen_def)
  ultimately show ?thesis by (blast intro: store_effect_trans)
qed

lemma appendEvent_effect [simp]: "store_effect i db (appendEvent k j t kind phase facts now db)"
  by (simp add: store_effect_def appendEvent_def store_inv_def gen_exists_def outside_def status_at_def)

lemma Commit_effect: "Commit now plan db = Inr db' \<Longrightarrow> store_effect (pl_InstallationID plan) db db'"
  by (auto simp: Commit_def Let_def bind_result_Inr_iff split: prod.splits if_splits
      intro: store_effect_trans [OF switch_generation_effect appendEvent_effect])

lemma recover_baseline_effect:
  assumes "recover_baseline now i expected db = Inr db'"
  shows "store_effect i db db'"
  using assms store_effect_trans [OF retire_effect demote_older_effect] demote_older_effect
  by (auto simp: recover_baseline_def bind_result_Inr_iff split: if_splits option.splits sum.splits)

lemma activate_recovered_effect: "activate_recovered now i n db = Inr db' \<Longrightarrow> store_effect i db db'"
  by (auto simp: activate_recovered_def in_gen_def gen_key_def elim!: activate_candidate_effect)

text \<open>
  The forward recoveries move the generation tables and then settle the operation, whose
  row and lease the fence has checked.
\<close>

lemma recovery_fence_Inr:
  assumes "recovery_fence msg k db = Inr t"
  obtains x l where "op_get db k = Some x" "o_state x = StateActionRequired" "o_fencing_token x = Some t"
    "lease_get db (o_installation_id x) = Some l" "l_state l = RecoveryRequired" "l_operation_id l = k" "l_fencing_token l = t"
  using assms
  by (auto simp: recovery_fence_def bind_result_Inr_iff op_row_of_def sql_row_key scan_token_def split: option.splits if_splits)

lemma RecoverForward_effect:
  assumes "RecoverForward now g res db = Inr db'"
  obtains t db1 where "store_effect (ge_InstallationID g) db db1"
    and "recovery_fence ''generation recovery fence is not valid'' (ge_CreatingOperationID g) db = Inr t"
    and "db' = appendEvent (ge_CreatingOperationID g) (ge_InstallationID g) (Some t) ''generation_recovered'' ''recovered_generation_commit''
      [(''active_generation'', itoa (ge_Generation g))] now
      (settle_recovered True now ''recovered_generation_commit'' (json_of_Result res) (ge_InstallationID g)
        (ge_CreatingOperationID g) t db1)"
proof -
  from assms obtain t db2 db1 where t: "recovery_fence ''generation recovery fence is not valid'' (ge_CreatingOperationID g) db = Inr t"
    and "recover_baseline now (ge_InstallationID g) (ge_Generation g - 1) db = Inr db2"
    and "activate_recovered now (ge_InstallationID g) (ge_Generation g) db2 = Inr db1"
    and db': "db' = appendEvent (ge_CreatingOperationID g) (ge_InstallationID g) (Some t) ''generation_recovered'' ''recovered_generation_commit''
      [(''active_generation'', itoa (ge_Generation g))] now
      (settle_recovered True now ''recovered_generation_commit'' (json_of_Result res) (ge_InstallationID g)
        (ge_CreatingOperationID g) t db1)"
    by (auto simp: RecoverForward_def Let_def bind_result_Inr_iff split: if_splits prod.splits)
  then have "store_effect (ge_InstallationID g) db db1"
    by (blast intro: store_effect_trans recover_baseline_effect activate_recovered_effect)
  from that [OF this t db'] show ?thesis .
qed

section \<open>Multi-component transactions\<close>

lemma shift_ordinals_effect: "store_effect i db (shift_ordinals i n db)"
proof -
  let ?f = "\<lambda>c. c\<lparr>c_start_ordinal := c_start_ordinal c + 100\<rparr>"
  have "tbl_wf ord_key (sql_update (in_comp i n) ?f cs)" if "tbl_wf ord_key cs" for cs
  proof -
    let ?h = "\<lambda>(a, b, o'). (a, b, if a = i \<and> b = n then o' + 100 else o' :: int)"
    have "inj ?h" by (auto simp: inj_def split: if_splits)
    moreover have "map ord_key (sql_update (in_comp i n) ?f cs) = map ?h (map ord_key cs)"
      by (simp add: sql_update_def ord_key_def in_comp_def)
    ultimately show ?thesis using that by (simp only: tbl_wf_def distinct_map inj_on_subset [OF _ subset_UNIV])
  qed
  then show ?thesis
    by (auto simp: store_effect_def store_inv_def shift_ordinals_def status_at_def outside_def set_sql_update
        tbl_wf_update comp_key_def in_comp_def intro!: filter_update_outside)
qed

lemma reuse_component_effect:
  assumes "reuse_component now i n c ordinal db = Inr db'"
  shows "store_effect i db db'"
proof -
  let ?c = "prepared_comp now i n (mc_ID c) (mc_ContainerName c) (mc_Image c) (mc_DependsOn c) ordinal"
  from assms have db': "db' = set_comps (\<lambda>r. in_comp i n r \<and> c_component_id r = mc_ID c) (\<lambda>_. ?c) db"
    and ord: "\<not> (\<exists>x \<in> set (components db). in_comp i n x \<and> \<not> (in_comp i n x \<and> c_component_id x = mc_ID c) \<and> c_start_ordinal x = ordinal)"
    by (auto simp: reuse_component_def Let_def split: if_splits)
  show ?thesis unfolding db'
    by (rule replace_comp_effect) (use ord in \<open>auto simp: in_comp_def comp_key_def ord_key_def prepared_comp_def\<close>)
qed

lemma prepare_components_effect: "prepare_components now i n reusing o' cs db = Inr db' \<Longrightarrow> store_effect i db db'"
proof (induction cs arbitrary: o' db)
  case (Cons c cs)
  then obtain db1 where db1: "(if reusing then reuse_component now i n c o' db
         else insert_comp (prepared_comp now i n (mc_ID c) (mc_ContainerName c) (mc_Image c) (mc_DependsOn c) o') db) = Inr db1"
      "prepare_components now i n reusing (o' + 1) cs db1 = Inr db'"
    by (auto simp: bind_result_Inr_iff split: if_splits)
  have "store_effect i db db1"
    using db1(1) by (auto split: if_splits intro: reuse_component_effect elim!: insert_comp_effect simp: prepared_comp_def)
  from store_effect_trans [OF this Cons.IH [OF db1(2)]] show ?case .
qed simp

lemma PrepareMulti_effect:
  assumes "PrepareMulti now plan db = Inr db'"
  shows "store_effect (mp_InstallationID plan) db db'"
proof -
  let ?i = "mp_InstallationID plan" and ?n = "mp_Generation plan"
  let ?row = "prepared_gen now (mp_OperationID plan) (mp_ApplicationID plan) (mp_ReleaseID plan)
            (mp_NetworkName plan) (mp_PlanHash plan) (mp_TopologyHash plan) (mp_DataPath plan) ?i ?n"
  have row: "g_installation_id ?row = ?i" "g_runtime_generation ?row = ?n" "g_status ?row = GPrepared"
    by (simp_all add: prepared_gen_def)
  from assms obtain reusing db1 db2 where
      pre: "db1 = set_gens (reusable ?i ?n) (\<lambda>_. ?row) (shift_ordinals ?i ?n db) \<or> insert_gen ?row db = Inr db1"
      and db2: "prepare_components now ?i ?n reusing 0 (mp_Components plan) db1 = Inr db2"
      "replaceBindings ?i ?n (mp_Bindings plan) db2 = Inr db'"
    by (auto simp: PrepareMulti_def Let_def bind_result_Inr_iff split: sum.splits if_splits)
  have "store_effect ?i db db1"
    using pre store_effect_trans [OF shift_ordinals_effect reuse_gens_effect [OF row]] insert_gen_effect [OF _ row(1)] row(3) by auto
  with prepare_components_effect [OF db2(1)] replaceBindings_effect [OF db2(2)] show ?thesis
    by (blast intro: store_effect_trans)
qed

lemma legacy_components_effect: "legacy_components now i n cs db = Inr db' \<Longrightarrow> store_effect i db db'"
proof (induction cs arbitrary: db)
  case (Cons c cs)
  then obtain row db1 where "insert_comp row db = Inr db1" "c_installation_id row = i" "legacy_components now i n cs db1 = Inr db'"
    by (auto simp: bind_result_Inr_iff prepared_comp_def)
  with insert_comp_effect Cons.IH show ?case by (blast intro: store_effect_trans)
qed simp

lemma BackfillLegacyMulti_effect:
  assumes "BackfillLegacyMulti now g db = Inr db'"
  shows "store_effect (mg_InstallationID g) db db'"
proof -
  from assms consider "db' = db" | db1 db2 row where "insert_gen row db = Inr db1"
      "g_installation_id row = mg_InstallationID g" "g_status row = GVerificationRequired"
      "legacy_components now (mg_InstallationID g) (mg_Generation g) (mg_Components g) db1 = Inr db2"
      "replaceBindings (mg_InstallationID g) (mg_Generation g) (mg_Bindings g) db2 = Inr db'"
    by (auto simp: BackfillLegacyMulti_def Let_def bind_result_Inr_iff prepared_gen_def split: if_splits)
  then show ?thesis
  proof cases
    case (2 db1 db2 row)
    from insert_gen_effect [OF 2(1,2)] 2(3) have "store_effect (mg_InstallationID g) db db1" by simp
    with legacy_components_effect [OF 2(4)] replaceBindings_effect [OF 2(5)] show ?thesis by (blast intro: store_effect_trans)
  qed simp
qed

lemma promote_components_effect: "promote_components now i n obs st cs db = Inr db' \<Longrightarrow> store_effect i db db'"
proof (induction cs arbitrary: db)
  case (Cons c cs)
  from Cons.prems obtain P f where "promote_components now i n obs st cs (set_comps P f db) = Inr db'"
      "\<And>c. P c \<Longrightarrow> c_installation_id c = i \<and> comp_key (f c) = comp_key c \<and> ord_key (f c) = ord_key c"
    by (auto simp: Let_def in_comp_def comp_key_def ord_key_def split: option.splits if_splits)
  with set_comps_effect Cons.IH show ?case by (blast intro: store_effect_trans)
qed simp

lemma PromoteMigratedMulti_effect:
  assumes "PromoteMigratedMulti now g networkID obs st k t db = Inr db'"
  shows "store_effect (mg_InstallationID g) db db'"
proof -
  let ?i = "mg_InstallationID g"
  from assms obtain f db1 where
      "activate (\<lambda>r. in_gen ?i (mg_Generation g) r \<and> g_status r = GVerificationRequired) f db = Inr db1"
      "\<And>r. gen_key (f r) = gen_key r \<and> g_status (f r) = GActive"
      "promote_components now ?i (mg_Generation g) obs st (mg_Components g) db1 = Inr db'"
    by (auto simp: PromoteMigratedMulti_def Let_def bind_result_Inr_iff gen_key_def split: if_splits)
  moreover from this(1,2) have "store_effect ?i db db1"
    by - (rule activate_effect, assumption, auto simp: in_gen_def intro!: r_into_rtranclp status_edge.intros)
  ultimately show ?thesis by (blast intro: store_effect_trans promote_components_effect)
qed

lemma RecordMultiNetwork_effect:
  "RecordMultiNetwork plan networkID db = Inr db' \<Longrightarrow> store_effect (mp_InstallationID plan) db db'"
  by (auto simp: RecordMultiNetwork_def Let_def in_gen_def gen_key_def split: if_splits intro!: gen_effect_intros)

lemma RecordMultiContainer_effect:
  "RecordMultiContainer now plan c cid im h st v db = Inr db' \<Longrightarrow> store_effect (mp_InstallationID plan) db db'"
  by (auto simp: RecordMultiContainer_def Let_def bind_result_Inr_iff in_comp_def comp_key_def ord_key_def split: if_splits
      intro!: set_comps_effect)

lemma steps_update_effect [simp]: "store_effect i db (db\<lparr>steps := ss\<rparr>)"
  by (simp add: store_effect_def store_inv_def gen_exists_def outside_def status_at_def)

lemma component_step_effect:
  "BeginComponentStep now plan c action expected attempt db = Inr db' \<Longrightarrow> store_effect i db db'"
  "DispatchComponentStep now plan c action attempt db = Inr db' \<Longrightarrow> store_effect i db db'"
  "FinishComponentStep now plan c action attempt observed confidence detail db = Inr db' \<Longrightarrow> store_effect i db db'"
  by (auto simp: BeginComponentStep_def DispatchComponentStep_def FinishComponentStep_def Let_def bind_result_Inr_iff split: if_splits)

lemma CommitMulti_effect: "CommitMulti now plan db = Inr db' \<Longrightarrow> store_effect (mp_InstallationID plan) db db'"
  by (auto simp: CommitMulti_def Let_def bind_result_Inr_iff split: prod.splits if_splits
      intro: store_effect_trans [OF switch_generation_effect appendEvent_effect])

lemma RecoverForwardMulti_effect:
  assumes "RecoverForwardMulti now g res db = Inr db'"
  obtains t db1 where "store_effect (mg_InstallationID g) db db1"
    and "recovery_fence ''multi-component recovery fence is not valid'' (mg_CreatingOperationID g) db = Inr t"
    and "db' = settle_recovered True now ''recovered_multi_generation_commit'' (json_of_Result res) (mg_InstallationID g)
        (mg_CreatingOperationID g) t db1"
proof -
  from assms obtain t db2 db1 where t: "recovery_fence ''multi-component recovery fence is not valid'' (mg_CreatingOperationID g) db = Inr t"
    and "recover_baseline now (mg_InstallationID g) (mg_Generation g - 1) db = Inr db2"
    and "activate_recovered now (mg_InstallationID g) (mg_Generation g) db2 = Inr db1"
    and db': "db' = settle_recovered True now ''recovered_multi_generation_commit'' (json_of_Result res) (mg_InstallationID g)
        (mg_CreatingOperationID g) t db1"
    by (auto simp: RecoverForwardMulti_def Let_def bind_result_Inr_iff split: if_splits prod.splits)
  then have "store_effect (mg_InstallationID g) db db1"
    by (blast intro: store_effect_trans recover_baseline_effect activate_recovered_effect)
  from that [OF this t db'] show ?thesis .
qed

lemma reverify_components_effect: "reverify_components now i n cs db = Inr db' \<Longrightarrow> store_effect i db db'"
proof (induction cs arbitrary: db)
  case (Cons c cs)
  from Cons.prems obtain P f where "reverify_components now i n cs (set_comps P f db) = Inr db'"
      "\<And>c. P c \<Longrightarrow> c_installation_id c = i \<and> comp_key (f c) = comp_key c \<and> ord_key (f c) = ord_key c"
    by (auto simp: Let_def in_comp_def comp_key_def ord_key_def split: if_splits)
  with set_comps_effect Cons.IH show ?case by (blast intro: store_effect_trans)
qed simp

lemma RecordRecoveredMultiVerification_effect:
  "RecordRecoveredMultiVerification now g db = Inr db' \<Longrightarrow> store_effect (mg_InstallationID g) db db'"
  by (auto simp: RecordRecoveredMultiVerification_def Let_def bind_result_Inr_iff split: if_splits
      intro: reverify_components_effect)

lemma MarkMultiFailed_effect: "MarkMultiFailed plan cleanup db = Inr db' \<Longrightarrow> store_effect (mp_InstallationID plan) db db'"
  by (auto simp: MarkMultiFailed_def Let_def in_gen_def gen_key_def split: if_splits intro!: gen_effect_intros)

lemma MarkReconciledAbsent_effect: "MarkReconciledAbsent g db = Inr db' \<Longrightarrow> store_effect (mg_InstallationID g) db db'"
  by (auto simp: MarkReconciledAbsent_def Let_def in_gen_def in_comp_def gen_key_def comp_key_def ord_key_def 
      split: if_splits intro!: set_both_effect gen_effect_intros)

lemma MarkNonActiveRemoved_effect: "MarkNonActiveRemoved g k t db = Inr db' \<Longrightarrow> store_effect (mg_InstallationID g) db db'"
  by (auto simp: MarkNonActiveRemoved_def Let_def bind_result_Inr_iff in_gen_def in_comp_def gen_key_def comp_key_def ord_key_def
      split: if_splits intro!: set_both_effect gen_effect_intros)

lemma MarkRetainedCleanupPending_effect: "MarkRetainedCleanupPending g k t db = Inr db' \<Longrightarrow> store_effect (mg_InstallationID g) db db'"
  by (auto simp: MarkRetainedCleanupPending_def Let_def bind_result_Inr_iff in_gen_def gen_key_def split: if_splits intro!: gen_effect_intros)

end
