(* ===== verification/Kit_System.thy ===== *)
theory Kit_System
  imports Gen_Lifecycle
begin

text \<open>
  The coordinator and the generation store over their shared database. The store's
  transactions are steps of the composed system; seen from the coordinator they leave
  operations and leases alone, except for the recoveries, which settle an operation.
\<close>

section \<open>Steps of the store\<close>

text \<open>Transactions that record the life of a generation of installation \<open>i\<close>.\<close>

inductive record_step :: "string \<Rightarrow> helper_db \<Rightarrow> helper_db \<Rightarrow> bool" where
  "BackfillInstallation i db = Inr db' \<Longrightarrow> record_step i db db'"
| "RecordMigratedConfiguration i n h db = Inr db' \<Longrightarrow> record_step i db db'"
| "\<lbrakk>PromoteMigratedState now g networkID imageID h st k t db = Inr db'; i = ge_InstallationID g\<rbrakk> \<Longrightarrow> record_step i db db'"
| "MarkActiveRemoved i n k t db = Inr db' \<Longrightarrow> record_step i db db'"
| "\<lbrakk>Prepare now plan db = Inr db'; i = pl_InstallationID plan\<rbrakk> \<Longrightarrow> record_step i db db'"
| "\<lbrakk>RecordNetwork plan networkID db = Inr db'; i = pl_InstallationID plan\<rbrakk> \<Longrightarrow> record_step i db db'"
| "\<lbrakk>RecordContainer now plan containerID imageID h st db = Inr db'; i = pl_InstallationID plan\<rbrakk> \<Longrightarrow> record_step i db db'"
| "\<lbrakk>RecordState now plan st verified db = Inr db'; i = pl_InstallationID plan\<rbrakk> \<Longrightarrow> record_step i db db'"
| "\<lbrakk>Commit now plan db = Inr db'; i = pl_InstallationID plan\<rbrakk> \<Longrightarrow> record_step i db db'"
| "\<lbrakk>MarkFailed plan cleanup db = Inr db'; i = pl_InstallationID plan\<rbrakk> \<Longrightarrow> record_step i db db'"
| "\<lbrakk>db' = MarkRemoved g db; i = ge_InstallationID g\<rbrakk> \<Longrightarrow> record_step i db db'"
| "\<lbrakk>db' = MarkCleanupPending g db; i = ge_InstallationID g\<rbrakk> \<Longrightarrow> record_step i db db'"
| "\<lbrakk>PrepareMulti now mplan db = Inr db'; i = mp_InstallationID mplan\<rbrakk> \<Longrightarrow> record_step i db db'"
| "\<lbrakk>BackfillLegacyMulti now mg db = Inr db'; i = mg_InstallationID mg\<rbrakk> \<Longrightarrow> record_step i db db'"
| "\<lbrakk>PromoteMigratedMulti now mg networkID obs st k t db = Inr db'; i = mg_InstallationID mg\<rbrakk> \<Longrightarrow> record_step i db db'"
| "\<lbrakk>RecordMultiNetwork mplan networkID db = Inr db'; i = mp_InstallationID mplan\<rbrakk> \<Longrightarrow> record_step i db db'"
| "\<lbrakk>RecordMultiContainer now mplan c containerID imageID h st verified db = Inr db'; i = mp_InstallationID mplan\<rbrakk> \<Longrightarrow> record_step i db db'"
| "\<lbrakk>BeginComponentStep now mplan c action expected attempt db = Inr db'; i = mp_InstallationID mplan\<rbrakk> \<Longrightarrow> record_step i db db'"
| "\<lbrakk>DispatchComponentStep now mplan c action attempt db = Inr db'; i = mp_InstallationID mplan\<rbrakk> \<Longrightarrow> record_step i db db'"
| "\<lbrakk>FinishComponentStep now mplan c action attempt observed confidence detail db = Inr db'; i = mp_InstallationID mplan\<rbrakk>
    \<Longrightarrow> record_step i db db'"
| "\<lbrakk>CommitMulti now mplan db = Inr db'; i = mp_InstallationID mplan\<rbrakk> \<Longrightarrow> record_step i db db'"
| "\<lbrakk>RecordRecoveredMultiVerification now mg db = Inr db'; i = mg_InstallationID mg\<rbrakk> \<Longrightarrow> record_step i db db'"
| "\<lbrakk>MarkMultiFailed mplan cleanup db = Inr db'; i = mp_InstallationID mplan\<rbrakk> \<Longrightarrow> record_step i db db'"
| "\<lbrakk>MarkReconciledAbsent mg db = Inr db'; i = mg_InstallationID mg\<rbrakk> \<Longrightarrow> record_step i db db'"
| "\<lbrakk>MarkNonActiveRemoved mg k t db = Inr db'; i = mg_InstallationID mg\<rbrakk> \<Longrightarrow> record_step i db db'"
| "\<lbrakk>MarkRetainedCleanupPending mg k t db = Inr db'; i = mg_InstallationID mg\<rbrakk> \<Longrightarrow> record_step i db db'"

text \<open>The recoveries that settle operation \<open>k\<close>, whose generation is of installation \<open>i\<close>.\<close>

inductive recover_step :: "string \<Rightarrow> string \<Rightarrow> helper_db \<Rightarrow> helper_db \<Rightarrow> bool" where
  "\<lbrakk>RecoverForward now g res db = Inr db'; i = ge_InstallationID g; k = ge_CreatingOperationID g\<rbrakk> \<Longrightarrow> recover_step i k db db'"
| "\<lbrakk>FinalizeCommittedRecovery now g res db = Inr db'; i = ge_InstallationID g; k = ge_CreatingOperationID g\<rbrakk> \<Longrightarrow> recover_step i k db db'"
| "\<lbrakk>RecoverForwardMulti now mg res db = Inr db'; i = mg_InstallationID mg; k = mg_CreatingOperationID mg\<rbrakk> \<Longrightarrow> recover_step i k db db'"

lemma record_step_effect: "record_step i db db' \<Longrightarrow> store_effect i db db'"
  by (cases rule: record_step.cases, assumption)
    (auto intro: BackfillInstallation_effect RecordMigratedConfiguration_effect PromoteMigratedState_effect
      MarkActiveRemoved_effect Prepare_effect RecordNetwork_effect RecordContainer_effect RecordState_effect Commit_effect
      MarkFailed_effect MarkRemoved_effect MarkCleanupPending_effect PrepareMulti_effect BackfillLegacyMulti_effect
      PromoteMigratedMulti_effect RecordMultiNetwork_effect RecordMultiContainer_effect component_step_effect
      CommitMulti_effect RecordRecoveredMultiVerification_effect MarkMultiFailed_effect
      MarkReconciledAbsent_effect MarkNonActiveRemoved_effect MarkRetainedCleanupPending_effect)

lemma committed_fence_Inr:
  assumes "committed_fence k db = Inr t"
  obtains x where "op_get db k = Some x" "o_state x = StateActionRequired" "o_fencing_token x = Some t"
  using assms by (auto simp: committed_fence_def op_row_of_def sql_row_key scan_token_def split: option.splits sum.splits if_splits)

text \<open>A recovery is a change of the generation tables followed by the settlement of the operation.\<close>

lemma recover_step_shape:
  assumes "recover_step i k db db'"
  obtains db1 db2 x t only now phase res kind facts where "store_effect i db db1"
    and "op_get db k = Some x" "o_state x = StateActionRequired" "o_fencing_token x = Some t"
    and "db2 = settle_recovered only now phase res i k t db1"
    and "db' = db2 \<or> db' = appendEvent k i (Some t) kind phase facts now db2"
  using assms
proof (cases rule: recover_step.cases)
  case (1 now g res)
  from RecoverForward_effect [OF 1(1)] obtain t db1 where r: "store_effect i db db1"
    "recovery_fence ''generation recovery fence is not valid'' k db = Inr t"
    "db' = appendEvent k i (Some t) ''generation_recovered'' ''recovered_generation_commit''
      [(''active_generation'', itoa (ge_Generation g))] now
      (settle_recovered True now ''recovered_generation_commit'' (json_of_Result res) i k t db1)"
    unfolding 1(2,3) by metis
  from r(2) obtain x where "op_get db k = Some x" "o_state x = StateActionRequired" "o_fencing_token x = Some t"
    by (rule recovery_fence_Inr)
  from that [OF r(1) this refl disjI2 [OF r(3)]] show ?thesis .
next
  case (2 now g res)
  then obtain t where t: "committed_fence k db = Inr t"
    and db': "db' = settle_recovered False now ''recovered_post_commit'' (json_of_Result res) i k t db"
    by (auto simp: FinalizeCommittedRecovery_def bind_result_Inr_iff)
  from t obtain x where "op_get db k = Some x" "o_state x = StateActionRequired" "o_fencing_token x = Some t"
    by (rule committed_fence_Inr)
  from that [OF store_effect_refl this refl disjI1 [OF db']] show ?thesis .
next
  case (3 now g res)
  from RecoverForwardMulti_effect [OF 3(1)] obtain t db1 where r: "store_effect i db db1"
    "recovery_fence ''multi-component recovery fence is not valid'' k db = Inr t"
    "db' = settle_recovered True now ''recovered_multi_generation_commit'' (json_of_Result res) i k t db1"
    unfolding 3(2,3) by metis
  from r(2) obtain x where "op_get db k = Some x" "o_state x = StateActionRequired" "o_fencing_token x = Some t"
    by (rule recovery_fence_Inr)
  from that [OF r(1) this refl disjI1 [OF r(3)]] show ?thesis .
qed

section \<open>The composed system\<close>

text \<open>
  A step is a coordinator transaction (it keeps the generation tables), a recording
  transaction, or a recovery of an operation that belongs to the generation's installation.
\<close>

inductive kit_step :: "helper_db \<Rightarrow> helper_db \<Rightarrow> bool" where
  coordinator: "coord_step db db' \<Longrightarrow> tx_frame db db' \<Longrightarrow> kit_step db db'"
| store: "record_step i db db' \<Longrightarrow> kit_step db db'"
| recovery: "\<lbrakk>recover_step i k db db'; op_get db k = Some x; o_installation_id x = i\<rbrakk> \<Longrightarrow> kit_step db db'"

definition kit_reach :: "helper_db \<Rightarrow> bool" where
  "kit_reach db = kit_step\<^sup>*\<^sup>* empty_db db"

lemma tx_frame_tx: "tx_effect db db' k \<Longrightarrow> tx_frame db db'"
  by (auto simp: tx_effect_def changes_def tx_frame_def)

lemma tx_frame_refl [simp]: "tx_frame db db"
  by (simp add: tx_frame_def)

lemma coord_tx_frame:
  assumes inv: "coord_inv db"
  shows "Begin now r uid i db = (out, db') \<Longrightarrow> tx_frame db db'"
    and "AuthorizeMutation now k t db = Inr db' \<Longrightarrow> tx_frame db db'"
    and "RecordPhase now k t phase outcome facts db = Inr db' \<Longrightarrow> tx_frame db db'"
    and "Complete now k t response db = (res, db') \<Longrightarrow> tx_frame db db'"
    and "CompleteRecovery now k t response db = (res, db') \<Longrightarrow> tx_frame db db'"
    and "\<lbrakk>op_get db k = Some x; is_interrupted (o_state x); markReconciling now k db = Inr db'\<rbrakk> \<Longrightarrow> tx_frame db db'"
    and "\<lbrakk>op_get db k = Some x; o_state x = StateReconciling; recoverOne now k prior db = Inr db'\<rbrakk> \<Longrightarrow> tx_frame db db'"
    and "ResolveActionRequired now k db = Inr db' \<Longrightarrow> tx_frame db db'"
proof -
  show "Begin now r uid i db = (out, db') \<Longrightarrow> tx_frame db db'"
    by (erule Begin_cases [OF inv]) (auto simp: refuses_def acquires_def tx_frame_def)
  show "Complete now k t response db = (res, db') \<Longrightarrow> tx_frame db db'"
    by (drule Complete_effect [OF inv]) (auto intro: tx_frame_tx)
  show "CompleteRecovery now k t response db = (res, db') \<Longrightarrow> tx_frame db db'"
    by (drule CompleteRecovery_effect [OF inv]) (auto intro: tx_frame_tx)
qed (rule tx_frame_tx, erule AuthorizeMutation_effect [OF inv] RecordPhase_effect [OF inv] markReconciling_effect [OF inv]
      recoverOne_effect [OF inv] ResolveActionRequired_effect [OF inv], assumption?, assumption?)+

lemma settle_recovered_tables [simp]:
  "generations (settle_recovered only now phase res i k t db) = generations db"
  "components (settle_recovered only now phase res i k t db) = components db"
  "bindings (settle_recovered only now phase res i k t db) = bindings db"
  by (simp_all add: settle_recovered_def update_ops_def update_leases_def)

lemma kit_step_coord:
  assumes "kit_step db db'"
  shows "coord_step\<^sup>*\<^sup>* db db'"
  using assms
proof cases
  case coordinator
  then show ?thesis by blast
next
  case (store i)
  then show ?thesis using record_step_effect store_effect_coord by blast
next
  case (recovery i k x)
  from recovery(1) obtain db1 db2 x' t only now phase res kind facts where e: "store_effect i db db1"
    and x': "op_get db k = Some x'" "o_state x' = StateActionRequired" "o_fencing_token x' = Some t"
    and db2: "db2 = settle_recovered only now phase res i k t db1"
    and db': "db' = db2 \<or> db' = appendEvent k i (Some t) kind phase facts now db2"
    by (rule recover_step_shape)
  from x' recovery(2) have x: "o_state x = StateActionRequired" "o_fencing_token x = Some t" by simp_all
  have "op_get db1 k = Some x" using e recovery(2) by (simp add: store_effect_def)
  from coord_step.settle [OF this x recovery(3) [symmetric] db2 db'] have "coord_step db1 db'" .
  with store_effect_coord [OF e] show ?thesis by (meson rtranclp.simps)
qed

lemma kit_steps_coord: "kit_step\<^sup>*\<^sup>* db db' \<Longrightarrow> coord_step\<^sup>*\<^sup>* db db'"
  by (induction rule: rtranclp_induct) (auto dest: kit_step_coord)

text \<open>What a step does to the generation tables.\<close>

definition store_moves :: "helper_db \<Rightarrow> helper_db \<Rightarrow> bool" where
  "store_moves db db' \<longleftrightarrow> (store_inv db \<longrightarrow> store_inv db' \<and> (\<forall>k. status_path (status_at db k) (status_at db' k)))"

lemma store_moves_trans: "store_moves db db1 \<Longrightarrow> store_moves db1 db2 \<Longrightarrow> store_moves db db2"
  unfolding store_moves_def using rtranclp_trans [of status_edge] by (metis (mono_tags))

lemma store_effect_moves: "store_effect i db db' \<Longrightarrow> store_moves db db'"
  by (simp add: store_effect_def store_moves_def)

lemma store_moves_same:
  assumes "generations db' = generations db" "components db' = components db" "bindings db' = bindings db"
  shows "store_moves db db'"
  using assms by (simp add: store_moves_def store_inv_def gen_exists_def status_at_def)

lemma kit_step_moves:
  assumes "kit_step db db'"
  shows "store_moves db db'"
  using assms
proof cases
  case coordinator
  then show ?thesis by (simp add: tx_frame_def store_moves_same)
next
  case (store i)
  then show ?thesis using record_step_effect store_effect_moves by blast
next
  case (recovery i k x)
  from recovery(1) obtain db1 db2 t only now phase res kind facts where e: "store_effect i db db1"
    and db2: "db2 = settle_recovered only now phase res i k t db1"
    and db': "db' = db2 \<or> db' = appendEvent k i (Some t) kind phase facts now db2"
    by (rule recover_step_shape)
  have "store_moves db1 db'" using db' unfolding db2 by (intro store_moves_same) auto
  with store_effect_moves [OF e] show ?thesis by (rule store_moves_trans)
qed

lemma kit_steps_moves: "kit_step\<^sup>*\<^sup>* db db' \<Longrightarrow> store_moves db db'"
  by (induction rule: rtranclp_induct) (auto intro: store_moves_trans kit_step_moves simp: store_moves_def [of db db])

lemma store_inv_empty: "store_inv empty_db"
  by (simp add: store_inv_def empty_db_def tbl_wf_def one_active_def)

lemma kit_reach_inv:
  assumes "kit_reach db"
  shows "coord_inv db" "store_inv db" "coord_reach db"
  using assms kit_steps_moves [of empty_db db] kit_steps_coord [of empty_db db] store_inv_empty coord_reach_inv
  by (auto simp: kit_reach_def store_moves_def coord_reach_def)

text \<open>The store's fence is the coordinator's, restricted to the installation.\<close>

lemma verifyGenerationFence_iff:
  assumes "coord_inv db"
  shows "verifyGenerationFence i k t db = Inr () \<longleftrightarrow> (\<exists>x l. fenced db k t x l \<and> o_installation_id x = i)" (is "?v = ?f")
proof
  assume ?v
  then obtain l x where l: "lease_get db i = Some l" "l_operation_id l = k" "l_state l = Held" "l_fencing_token l = t"
      and x: "op_get db k = Some x" "o_fencing_token x = Some t"
    by (auto simp: verifyGenerationFence_def bind_result_Inr_iff sql_row_key op_row_of_def scan_token_def
        split: option.splits if_splits)
  from assms l(1) obtain y where "op_get db (l_operation_id l) = Some y" "o_installation_id y = i"
    by (blast elim: coord_inv_leaseD)
  with l x show ?f by (auto simp: fenced_def)
next
  assume ?f
  then show ?v
    by (auto simp: fenced_def verifyGenerationFence_def sql_row_key op_row_of_def scan_token_def)
qed

end
