(* ===== verification/Gen_Commit.thy ===== *)
theory Gen_Commit
  imports Kit_System
begin

text \<open>
  The switch of generations. The three updates by which a commit retires the active
  generation, demotes older ones and activates the candidate are one simultaneous map over
  the generation table, which always satisfies the unique index.
\<close>

lemma one_activeI:
  assumes "tbl_wf gen_key gs"
    and "\<And>a b. \<lbrakk>a \<in> set gs; b \<in> set gs; g_status a = GActive; g_status b = GActive; g_installation_id a = g_installation_id b\<rbrakk>
      \<Longrightarrow> g_runtime_generation a = g_runtime_generation b"
  shows "one_active gs"
proof -
  have "inj_on g_installation_id (set (filter (\<lambda>g. g_status g = GActive) gs))"
  proof (rule inj_onI)
    fix a b assume ab: "a \<in> set (filter (\<lambda>g. g_status g = GActive) gs)" "b \<in> set (filter (\<lambda>g. g_status g = GActive) gs)"
      "g_installation_id a = g_installation_id b"
    with assms(2) [of a b] have "gen_key a = gen_key b" by (simp add: gen_key_def)
    with ab assms(1) show "a = b" by (auto simp: tbl_wf_def distinct_map dest: inj_onD)
  qed
  with assms(1) show ?thesis by (auto simp: one_active_def tbl_wf_def distinct_map)
qed

lemma sql_count_gen:
  assumes "tbl_wf gen_key (generations db)"
  shows "sql_count (\<lambda>r. in_gen i n r \<and> Q r) (generations db) =
    (case gen_get db (i, n) of None \<Rightarrow> 0 | Some r \<Rightarrow> if Q r then 1 else 0)"
  using sql_count_key [OF assms, of "(i, n)" Q] by (simp add: gen_key_def in_gen_def conj_assoc)

lemma sql_row_gen:
  assumes "tbl_wf gen_key (generations db)"
  shows "sql_row (\<lambda>r. in_gen i n r \<and> Q r) (generations db) =
    (case gen_get db (i, n) of None \<Rightarrow> Inl ErrNoRows | Some r \<Rightarrow> if Q r then Inr r else Inl ErrNoRows)"
  using sql_row_key_and [OF assms, of "(i, n)" Q] by (simp add: gen_key_def in_gen_def conj_assoc)

lemma sql_row_comp:
  "sql_row (\<lambda>c. in_comp i n c \<and> c_component_id c = m) (components db) =
    (case comp_get db (i, n, m) of None \<Rightarrow> Inl ErrNoRows | Some r \<Rightarrow> Inr r)"
  using sql_row_key [of comp_key "(i, n, m)" "components db"] by (simp add: comp_key_def in_comp_def conj_assoc)

section \<open>The baseline\<close>

lemma active_row_iff:
  assumes "store_inv db"
  shows "active_row i db = Some r \<longleftrightarrow> r \<in> set (generations db) \<and> g_installation_id r = i \<and> g_status r = GActive"
proof
  assume r: "r \<in> set (generations db) \<and> g_installation_id r = i \<and> g_status r = GActive"
  then obtain r' where r': "active_row i db = Some r'"
    by (cases "active_row i db") (auto simp: active_row_def find_None_all)
  with find_SomeD [of _ "generations db" r'] have "r' \<in> set (generations db) \<and> g_installation_id r' = i \<and> g_status r' = GActive"
    by (auto simp: active_row_def)
  with r assms have "r' = r" by (metis one_active_unique store_inv_def)
  with r' show "active_row i db = Some r" by simp
qed (auto simp: active_row_def dest: find_SomeD)

lemma active_row_None_iff: "active_row i db = None \<longleftrightarrow> (\<forall>r \<in> set (generations db). g_installation_id r = i \<longrightarrow> g_status r \<noteq> GActive)"
  by (auto simp: active_row_def find_None_all)

lemma current_generation_active:
  assumes "store_inv db" and "current_generation i db = (ca, current)"
    and "r \<in> set (generations db)" "g_installation_id r = i" "g_status r = GActive"
  shows "ca \<and> g_runtime_generation r = current"
  using assms active_row_iff [OF assms(1), of i r] by (simp add: current_generation_def)

lemma current_generation_ca:
  assumes "store_inv db" and "current_generation i db = (True, current)"
  obtains r where "gen_get db (i, current) = Some r" "g_status r = GActive"
proof -
  from assms obtain r where r: "active_row i db = Some r" "g_runtime_generation r = current"
    by (auto simp: current_generation_def split: option.splits)
  with active_row_iff [OF assms(1)] have "r \<in> set (generations db)" "g_installation_id r = i" "g_status r = GActive" by blast+
  with r(2) tbl_get_of_mem [of gen_key "generations db" r] assms(1) that show ?thesis
    by (auto simp: store_inv_def gen_key_def)
qed

section \<open>The switch\<close>

definition retired :: "string \<Rightarrow> bool \<Rightarrow> gen_row \<Rightarrow> gen_row" where
  "retired now missing r = r\<lparr>g_status := (if missing then GCleanupPending else GRetained), g_retired_at := Some now,
     g_cleanup_state := (if missing then CPending else CNotRequired)\<rparr>"

definition switched :: "string \<Rightarrow> (gen_row \<Rightarrow> string option) \<Rightarrow> bool \<Rightarrow> string \<Rightarrow> int \<Rightarrow> int \<Rightarrow> string \<Rightarrow> gen_row \<Rightarrow> gen_row" where
  "switched now v missing i expected n k r =
     (if is_candidate i n k r
      then r\<lparr>g_status := GActive, g_verified_at := v r, g_committed_at := Some now, g_cleanup_state := CClean\<rparr>
      else if g_installation_id r = i \<and> g_status r = GActive then retired now missing r
      else if g_installation_id r = i \<and> g_status r = GRetained \<and> g_runtime_generation r \<noteq> expected
      then r\<lparr>g_status := GCleanupPending, g_cleanup_state := CPending\<rparr>
      else r)"

lemma switched_key [simp]: "gen_key (switched now v missing i expected n k r) = gen_key r"
  "g_installation_id (switched now v missing i expected n k r) = g_installation_id r"
  "g_runtime_generation (switched now v missing i expected n k r) = g_runtime_generation r"
  by (simp_all add: switched_def retired_def gen_key_def)

lemma switched_active [simp]: "g_status (switched now v missing i expected n k r) = GActive \<longleftrightarrow>
    is_candidate i n k r \<or> g_status r = GActive \<and> g_installation_id r \<noteq> i"
  by (cases "g_status r") (auto simp: switched_def retired_def is_candidate_def in_gen_def)

lemma one_active_switched:
  assumes "store_inv db"
  shows "one_active (map (switched now v missing i expected n k) (generations db))"
proof (rule one_activeI)
  show "tbl_wf gen_key (map (switched now v missing i expected n k) (generations db))"
    using assms by (simp add: store_inv_def tbl_wf_def comp_def)
  fix a b assume ab: "a \<in> set (map (switched now v missing i expected n k) (generations db))"
    "b \<in> set (map (switched now v missing i expected n k) (generations db))"
    "g_status a = GActive" "g_status b = GActive" "g_installation_id a = g_installation_id b"
  then obtain x y where xy: "x \<in> set (generations db)" "y \<in> set (generations db)"
      "a = switched now v missing i expected n k x" "b = switched now v missing i expected n k y"
    by auto
  show "g_runtime_generation a = g_runtime_generation b"
  proof (cases "g_installation_id x = i")
    case True
    with xy ab show ?thesis by (simp add: is_candidate_def in_gen_def)
  next
    case False
    with xy ab have "g_status x = GActive" "g_status y = GActive" "g_installation_id x = g_installation_id y"
      by (simp_all add: is_candidate_def in_gen_def)
    with xy assms have "x = y" by (intro one_active_unique [of "generations db"]) (simp_all add: store_inv_def)
    with xy show ?thesis by simp
  qed
qed

text \<open>On one row: the sequence of updates, when the active generation is the expected one.\<close>

lemma switched_compose:
  assumes "g_installation_id r = i \<Longrightarrow> g_status r = GActive \<Longrightarrow> ca \<and> g_runtime_generation r = expected"
    and "r1 = (if ca \<and> in_gen i expected r \<and> g_status r = GActive then retired now missing r else r)"
    and "r2 = (if g_installation_id r1 = i \<and> g_status r1 = GRetained \<and> g_runtime_generation r1 \<noteq> expected
      then r1\<lparr>g_status := GCleanupPending, g_cleanup_state := CPending\<rparr> else r1)"
  shows "(if is_candidate i n k r2 then r2\<lparr>g_status := GActive, g_verified_at := v r2, g_committed_at := Some now, g_cleanup_state := CClean\<rparr>
      else r2) = switched now v missing i expected n k r"
  using assms(1) unfolding assms(2,3)
  by (cases "g_status r"; cases "g_installation_id r = i") (simp_all add: switched_def retired_def is_candidate_def in_gen_def)

lemma switch_generation_spec:
  assumes inv: "store_inv db" and cur: "current_generation i db = (ca, expected)"
    and g: "gen_get db (i, n) = Some g" "g_status g = GCandidate" "g_creating_operation_id g = k"
  shows "switch_generation now v ca missing i expected n k db =
    Inr (db\<lparr>generations := map (switched now v missing i expected n k) (generations db)\<rparr>)"
proof -
  have wf: "tbl_wf gen_key (generations db)" using inv by (simp add: store_inv_def)
  have ok: "\<not> (ca \<and> sql_count (\<lambda>r. in_gen i expected r \<and> g_status r = GActive) (generations db) \<noteq> 1)"
  proof (cases ca)
    case True
    with cur have "current_generation i db = (True, expected)" by simp
    then obtain r where "gen_get db (i, expected) = Some r" "g_status r = GActive"
      by (rule current_generation_ca [OF inv])
    then show ?thesis by (simp add: sql_count_gen [OF wf])
  qed simp
  have act: "ca \<and> g_runtime_generation r = expected"
    if "r \<in> set (generations db)" "g_installation_id r = i" "g_status r = GActive" for r
    using that by (rule current_generation_active [OF inv cur])
  let ?db1 = "if ca then retire now missing i expected db else db"
  let ?db2 = "demote_older i expected ?db1"
  let ?act = "\<lambda>r. r\<lparr>g_status := GActive, g_verified_at := v r, g_committed_at := Some now, g_cleanup_state := CClean\<rparr>"
  have gens: "sql_update (is_candidate i n k) ?act (generations ?db2) = map (switched now v missing i expected n k) (generations db)"
  proof -
    let ?f1 = "\<lambda>r. if ca \<and> in_gen i expected r \<and> g_status r = GActive then retired now missing r else r"
    let ?f2 = "\<lambda>r. if g_installation_id r = i \<and> g_status r = GRetained \<and> g_runtime_generation r \<noteq> expected
      then r\<lparr>g_status := GCleanupPending, g_cleanup_state := CPending\<rparr> else r"
    have "generations ?db1 = map ?f1 (generations db)"
      by (cases ca) (simp_all add: retire_def sql_update_def retired_def)
    then have "generations ?db2 = map (?f2 \<circ> ?f1) (generations db)"
      by (simp add: demote_older_def sql_update_def)
    then have "sql_update (is_candidate i n k) ?act (generations ?db2) =
        map (\<lambda>r. if is_candidate i n k (?f2 (?f1 r)) then ?act (?f2 (?f1 r)) else ?f2 (?f1 r)) (generations db)"
      by (simp add: sql_update_def)
    also have "\<dots> = map (switched now v missing i expected n k) (generations db)"
      by (rule map_cong [OF refl], rule switched_compose [OF _ refl refl]) (use act in blast)
    finally show ?thesis .
  qed
  have "gen_get ?db2 (i, n) = Some g"
    using g by (auto simp: retire_def demote_older_def tbl_get_update gen_key_def)
  moreover have "tbl_wf gen_key (generations ?db2)"
    using wf by (auto simp: retire_def demote_older_def tbl_wf_update gen_key_def)
  ultimately have count: "sql_count (is_candidate i n k) (generations ?db2) = 1"
    using g sql_count_gen [of ?db2 i n "\<lambda>r. g_creating_operation_id r = k \<and> g_status r = GCandidate"]
    unfolding is_candidate_def by simp
  have "db\<lparr>generations := map (switched now v missing i expected n k) (generations db)\<rparr> =
      ?db2\<lparr>generations := map (switched now v missing i expected n k) (generations db)\<rparr>"
    by (simp add: retire_def demote_older_def set_gens_def)
  then show ?thesis
    using ok gens count one_active_switched [OF inv, of now v missing i expected n k]
    by (simp add: switch_generation_def Let_def activate_def)
qed

end
