(* ===== verification/Coordinator_Spec.thy ===== *)
theory Coordinator_Spec
  imports Coordinator_Lock
begin

text \<open>
  The coordinator's properties, over the states its transactions can reach, and a concrete
  run that witnesses them: an installation request is accepted on the empty database,
  authorized, and interrupted.
\<close>

section \<open>A concrete run\<close>

definition demo_id :: "char \<Rightarrow> string" where
  "demo_id c = ''op-0000000000000000000000000000000'' @ [c]"

definition demo_request :: "char \<Rightarrow> string \<Rightarrow> Request" where
  "demo_request n operation = \<lparr>rq_Version = 2, rq_ID = ''req-1'', rq_OperationID = demo_id n,
     rq_Operation = operation, rq_OperationRevision = 1, rq_Deadline = ''2026-01-01T00:00:00Z'',
     rq_InstanceID = ''inst-a'', rq_RuntimeGeneration = 1, rq_Image = ''nginx'', rq_ApplicationID = ''app'',
     rq_ReleaseID = ''r1'', rq_NetworkName = [], rq_DataPath = [], rq_RestartPolicy = [], rq_Command = [],
     rq_Environment = [], rq_Storage = [], rq_Bindings = [], rq_ExposureMode = [], rq_HostAddress = [],
     rq_HostPort = 0, rq_ServiceID = [], rq_ContainerPort = 0, rq_ServiceProtocol = [], rq_Services = [],
     rq_Components = [], rq_Hardware = [], rq_ExternalStorage = [], rq_RootID = [], rq_RootName = [],
     rq_RootPath = [], rq_RootMode = [], rq_RunAs = None, rq_BackupID = [], rq_RepairAction = [],
     rq_CredentialID = [], rq_Configuration = None, rq_IngressRoutes = [], rq_CertificateID = [],
     rq_Hostname = [], rq_CertificatePEM = [], rq_PrivateKeyPEM = [], rq_ACMEEmail = [], rq_ACMEDirectory = [],
     rq_AcceptACMETerms = False, rq_ProviderID = [], rq_ProviderToken = [], rq_ProviderAccount = [],
     rq_ProviderZone = [], rq_ProviderTunnel = [], rq_ConfirmRemote = False\<rparr>"

definition demo_begun :: helper_db where
  "demo_begun = snd (Begin ''t0'' (demo_request CHR ''1'' ''InstallApplication'') 1000 ''inst-a'' empty_db)"

definition demo_executing :: helper_db where
  "demo_executing = (case AuthorizeMutation ''t1'' (demo_id CHR ''1'') 1 demo_begun of Inr db \<Rightarrow> db | Inl _ \<Rightarrow> demo_begun)"

definition demo_released :: helper_db where
  "demo_released = snd (Complete ''t2'' (demo_id CHR ''1'') 1 (empty_Response\<lparr>rs_OK := True\<rparr>) demo_executing)"

lemma Canonical_ok:
  assumes "json_bound (json_of_Request (canonical_request r)) \<le> MaxFrame"
  shows "is_ok (Canonical r)"
  using json_encode_length [of "json_of_Request (canonical_request r)"] assms by (simp add: Canonical_def Let_def)

lemmas demo_eval = demo_request_def canonical_request_def blank_secrets_def json_of_Request_def
  omit_str_def omit_int_def omit_bool_def omit_list_def omit_ptr_def

lemma demo_pattern: "operationIDPattern (demo_id CHR ''1'')" "operationIDPattern (demo_id CHR ''2'')"
  by code_simp+

lemma demo_itoa: "length (itoa 1) = 1" "length (itoa 2) = 1"
  by code_simp+

lemma demo_well_formed:
  "well_formed_request (demo_request CHR ''1'' ''InstallApplication'') ''inst-a''"
  "well_formed_request (demo_request CHR ''2'' ''InstallApplication'') ''inst-a''"
  "well_formed_request (demo_request CHR ''2'' ''RepairInstallation'') ''inst-a''"
  unfolding well_formed_request_def
  by (intro conjI Canonical_ok; simp add: demo_eval demo_pattern demo_itoa MaxFrame_def)+

lemma demo_id_neq: "demo_id CHR ''2'' \<noteq> demo_id CHR ''1''" "demo_id CHR ''1'' \<noteq> demo_id CHR ''2''"
  by code_simp+

lemma demo_request_id [simp]: "rq_OperationID (demo_request n op) = demo_id n"
  by (simp add: demo_request_def)

lemma demo_begun:
  "Begin ''t0'' (demo_request CHR ''1'' ''InstallApplication'') 1000 ''inst-a'' empty_db =
     (BeginDecision \<lparr>d_Execute = True, d_FencingToken = 1, d_Response = empty_Response\<rparr>, demo_begun)"
  "acquires empty_db demo_begun (demo_id CHR ''1'') ''inst-a'' 1"
proof -
  have "op_get empty_db (rq_OperationID (demo_request CHR ''1'' ''InstallApplication'')) = None" "abs_lock empty_db ''inst-a'' = Unlocked 0"
    by (simp_all add: empty_db_def tbl_get_def abs_lock_def lock_of_def)
  from Begin_accepts [OF coord_inv_empty demo_well_formed(1) this, of "''t0''" 1000]
  obtain db' where "Begin ''t0'' (demo_request CHR ''1'' ''InstallApplication'') 1000 ''inst-a'' empty_db =
     (BeginDecision \<lparr>d_Execute = True, d_FencingToken = 1, d_Response = empty_Response\<rparr>, db')"
    "acquires empty_db db' (demo_id CHR ''1'') ''inst-a'' 1" by auto
  then show "Begin ''t0'' (demo_request CHR ''1'' ''InstallApplication'') 1000 ''inst-a'' empty_db =
     (BeginDecision \<lparr>d_Execute = True, d_FencingToken = 1, d_Response = empty_Response\<rparr>, demo_begun)"
    "acquires empty_db demo_begun (demo_id CHR ''1'') ''inst-a'' 1"
    by (simp_all add: demo_begun_def)
qed

lemma demo_reach_begun: "coord_reach demo_begun"
  unfolding coord_reach_def using coord_step.accept [OF demo_begun(1)] by blast

lemma demo_begun_row:
  obtains x where "op_get demo_begun (demo_id CHR ''1'') = Some x" "o_state x = StateAccepted"
    "o_installation_id x = ''inst-a''"
  using demo_begun(2) by (auto simp: acquires_def)

lemma demo_fenced:
  obtains x l where "fenced demo_begun (demo_id CHR ''1'') 1 x l" "o_state x = StateAccepted" "o_installation_id x = ''inst-a''"
proof -
  from demo_begun_row obtain x where x: "op_get demo_begun (demo_id CHR ''1'') = Some x" "o_state x = StateAccepted"
      "o_installation_id x = ''inst-a''" .
  from acquires_holds(1) [OF demo_begun(2)] obtain x' l where "fenced demo_begun (demo_id CHR ''1'') 1 x' l"
    using verifyFence_iff by blast
  moreover with x have "x' = x" by (simp add: fenced_def)
  ultimately show ?thesis using x that by blast
qed

lemma demo_executing:
  "AuthorizeMutation ''t1'' (demo_id CHR ''1'') 1 demo_begun = Inr demo_executing"
  "\<exists>x l. fenced demo_executing (demo_id CHR ''1'') 1 x l \<and> o_state x = StateExecuting \<and> o_installation_id x = ''inst-a''"
proof -
  from demo_fenced obtain x l where "fenced demo_begun (demo_id CHR ''1'') 1 x l" "o_state x = StateAccepted" "o_installation_id x = ''inst-a''" .
  with coord_reach_inv [OF demo_reach_begun] obtain db' x' where
    "AuthorizeMutation ''t1'' (demo_id CHR ''1'') 1 demo_begun = Inr db'" "fenced db' (demo_id CHR ''1'') 1 x' l"
    "o_state x' = StateExecuting" "o_installation_id x' = ''inst-a''"
    by (metis AuthorizeMutation_ok)
  then show "AuthorizeMutation ''t1'' (demo_id CHR ''1'') 1 demo_begun = Inr demo_executing"
    "\<exists>x l. fenced demo_executing (demo_id CHR ''1'') 1 x l \<and> o_state x = StateExecuting \<and> o_installation_id x = ''inst-a''"
    by (auto simp: demo_executing_def)
qed

lemma demo_steps_executing: "coord_step demo_begun demo_executing" "coord_reach demo_executing"
  using coord_step.authorize [OF demo_executing(1)] demo_reach_begun
  unfolding coord_reach_def by (auto intro: rtranclp.rtrancl_into_rtrancl)

lemma demo_released:
  "\<exists>x'. Complete ''t2'' (demo_id CHR ''1'') 1 (empty_Response\<lparr>rs_OK := True\<rparr>) demo_executing = (Inr (responseFor x' []), demo_released)
     \<and> op_get demo_released (demo_id CHR ''1'') = Some x' \<and> o_state x' = StateSucceeded"
  "abs_lock demo_released ''inst-a'' = Unlocked 1"
proof -
  from demo_executing(2) obtain x l where x: "fenced demo_executing (demo_id CHR ''1'') 1 x l" "o_state x = StateExecuting" "o_installation_id x = ''inst-a''"
    by blast
  obtain db' x' where
    "Complete ''t2'' (demo_id CHR ''1'') 1 (empty_Response\<lparr>rs_OK := True\<rparr>) demo_executing =
       (Inr (responseFor x' (rs_RequestID (empty_Response\<lparr>rs_OK := True\<rparr>))), db')" "op_get db' (demo_id CHR ''1'') = Some x'"
    "o_state x' = (if rs_OK (empty_Response\<lparr>rs_OK := True\<rparr>) then StateSucceeded else StateFailed)"
    "abs_lock db' (o_installation_id x) = Unlocked 1"
    using coord_reach_inv [OF demo_steps_executing(2)] x(1,2)
    by (rule Complete_commits [where response = "empty_Response\<lparr>rs_OK := True\<rparr>"])
      (simp_all add: empty_Response_def encode_result_def)
  then show "\<exists>x'. Complete ''t2'' (demo_id CHR ''1'') 1 (empty_Response\<lparr>rs_OK := True\<rparr>) demo_executing = (Inr (responseFor x' []), demo_released)
     \<and> op_get demo_released (demo_id CHR ''1'') = Some x' \<and> o_state x' = StateSucceeded"
    "abs_lock demo_released ''inst-a'' = Unlocked 1"
    using x(3) by (auto simp: demo_released_def empty_Response_def)
qed

lemma demo_steps_released: "coord_step demo_executing demo_released" "coord_reach demo_released"
proof -
  from demo_released(1) show "coord_step demo_executing demo_released" by (blast intro: coord_step.complete)
  with demo_steps_executing(2) show "coord_reach demo_released"
    unfolding coord_reach_def by (rule rtranclp.rtrancl_into_rtrancl)
qed

lemma tx_effect_other: "tx_effect db db' k \<Longrightarrow> j \<noteq> k \<Longrightarrow> op_get db' j = op_get db j"
  by (auto simp: tx_effect_def changes_def)

lemma demo_only_operation:
  assumes "j \<noteq> demo_id CHR ''1''"
  shows "op_get demo_begun j = None" "op_get demo_executing j = None" "op_get demo_released j = None"
proof -
  have "lease_get empty_db ''inst-a'' = None" "op_get empty_db j = None" by (simp_all add: empty_db_def tbl_get_def)
  with demo_begun(2) assms show b: "op_get demo_begun j = None" by (simp add: acquires_def)
  from AuthorizeMutation_effect [OF coord_reach_inv [OF demo_reach_begun] demo_executing(1)] b assms
  show e: "op_get demo_executing j = None" by (simp add: tx_effect_other)
  from demo_released(1) obtain res where
    "Complete ''t2'' (demo_id CHR ''1'') 1 (empty_Response\<lparr>rs_OK := True\<rparr>) demo_executing = (res, demo_released)" by blast
  from Complete_effect [OF coord_reach_inv [OF demo_steps_executing(2)] this] e assms
  show "op_get demo_released j = None" by (metis tx_effect_other)
qed

section \<open>Properties\<close>

text \<open>
  C1. Mutual exclusion. In every state the coordinator's transactions can reach, two
  operations that are accepted, executing, reconciling or waiting for an administrator never
  belong to the same installation.
\<close>

theorem coord_mutual_exclusion:
  assumes "coord_reach db"
    and "op_get db k = Some x" and "live (o_state x)"
    and "op_get db k' = Some y" and "live (o_state y)"
    and "o_installation_id x = o_installation_id y"
  shows "k = k'"
  using coord_inv_exclusive [OF coord_reach_inv] assms by blast

theorem coord_mutual_exclusion_witness:
  "\<exists>x. coord_reach demo_begun \<and> op_get demo_begun (demo_id CHR ''1'') = Some x \<and> live (o_state x)
     \<and> (\<forall>k' y. op_get demo_begun k' = Some y \<and> live (o_state y) \<and> o_installation_id y = ''inst-a'' \<longrightarrow> k' = demo_id CHR ''1'')"
proof -
  from demo_begun_row obtain x where x: "op_get demo_begun (demo_id CHR ''1'') = Some x" "o_state x = StateAccepted"
    "o_installation_id x = ''inst-a''" .
  then have lv: "live (o_state x)" by (simp add: live_def)
  have "\<forall>k' y. op_get demo_begun k' = Some y \<and> live (o_state y) \<and> o_installation_id y = ''inst-a'' \<longrightarrow> k' = demo_id CHR ''1''"
    using coord_mutual_exclusion [OF demo_reach_begun x(1) lv] x(3) by metis
  with x(1) lv demo_reach_begun show ?thesis by blast
qed

text \<open>
  C2. Refinement. Every transaction of the coordinator, seen through the abstraction that
  reads an installation's lease row as a lock, is a step of the abstract lock or leaves it
  alone: free locks are taken with the next token, held ones are released or quarantined,
  quarantined ones are taken over, quarantined again with the next token, or freed.
\<close>

theorem coord_refines_lock:
  assumes "coord_reach db" and "coord_step db db'"
  shows "abs_lock db' i = abs_lock db i \<or> lock_step (abs_lock db i) (abs_lock db' i)"
  using coord_step_lock [OF coord_reach_inv] assms by blast

theorem coord_refines_lock_witness:
  "abs_lock demo_begun ''inst-a'' = Locked (demo_id CHR ''1'') 1 \<and> lock_step (Unlocked 0) (abs_lock demo_begun ''inst-a'')"
proof -
  have "coord_reach empty_db" by (simp add: coord_reach_def)
  from coord_refines_lock [OF this coord_step.accept [OF demo_begun(1)], of "''inst-a''"] acquires_holds(2) [OF demo_begun(2)]
  show ?thesis by (simp add: abs_lock_def lock_of_def empty_db_def tbl_get_def)
qed

text \<open>
  C3. Stale tokens stay stale. Once an operation that passed the fence with a token fails it
  with that token, it fails it in every later state.
\<close>

theorem stale_token_stays_stale:
  assumes "coord_reach db" and "verifyFence k t db = Inr ()"
    and "coord_step\<^sup>*\<^sup>* db db'" and "verifyFence k t db' \<noteq> Inr ()" and "coord_step\<^sup>*\<^sup>* db' db''"
  shows "verifyFence k t db'' \<noteq> Inr ()"
proof
  assume "verifyFence k t db'' = Inr ()"
  then obtain x2 l2 where f2: "fenced db'' k t x2 l2" using verifyFence_iff by blast
  from assms(2) obtain x l where f: "fenced db k t x l" using verifyFence_iff by blast
  have inv: "coord_inv db" using assms(1) by (rule coord_reach_inv)
  have "coord_step\<^sup>*\<^sup>* db db''" using assms(3,5) by (rule rtranclp_trans)
  with inv f f2 have "o_installation_id x2 = o_installation_id x"
    using coord_steps_keep_op [of db db'' k x] by (auto simp: fenced_def op_ident_def)
  with f2 coord.lost_forever [of db k t "o_installation_id x" db' db''] inv f assms(3-5) verifyFence_iff [of k t db']
  show False by blast
qed

theorem stale_token_stays_stale_witness:
  "verifyFence (demo_id CHR ''1'') 1 demo_begun = Inr () \<and> verifyFence (demo_id CHR ''1'') 1 demo_released \<noteq> Inr ()"
proof -
  have now: "verifyFence (demo_id CHR ''1'') 1 demo_released \<noteq> Inr ()"
  proof
    assume "verifyFence (demo_id CHR ''1'') 1 demo_released = Inr ()"
    then obtain x l where f: "fenced demo_released (demo_id CHR ''1'') 1 x l" using verifyFence_iff by blast
    with fenced_live(2) [OF coord_reach_inv [OF demo_steps_released(2)] f] demo_released(1) show False
      by (auto simp: fenced_def)
  qed
  moreover have "coord_step\<^sup>*\<^sup>* demo_begun demo_released"
    using demo_steps_executing(1) demo_steps_released(1) by auto
  ultimately show ?thesis
    using stale_token_stays_stale [OF demo_reach_begun acquires_holds(1) [OF demo_begun(2)] _ now rtranclp.rtrancl_refl]
      acquires_holds(1) [OF demo_begun(2)] by blast
qed

text \<open>
  C4. At most one execution per operation ID. After an operation was accepted for execution,
  every later request that carries its ID, whatever else it says, is answered without
  executing anything and leaves the database as it is.
\<close>

theorem accepted_once:
  assumes "coord_reach db" and "Begin now r uid i db = (BeginDecision d, db1)" and "d_Execute d"
    and "coord_step\<^sup>*\<^sup>* db1 db2" and "rq_OperationID r' = rq_OperationID r"
    and "Begin now' r' uid' i' db2 = (out, db3)"
  shows "db3 = db2 \<and> (\<forall>d'. out = BeginDecision d' \<longrightarrow> \<not> d_Execute d')"
proof -
  have inv: "coord_inv db" using assms(1) by (rule coord_reach_inv)
  from inv assms(2) obtain t where acq: "acquires db db1 (rq_OperationID r) i t"
    by (cases rule: Begin_cases) (use assms(3) in auto)
  then obtain x where "op_get db1 (rq_OperationID r) = Some x" by (auto simp: acquires_def)
  with coord_steps_keep_op [OF assms(4) acquires_inv [OF inv acq]] obtain x' where
    x': "op_get db2 (rq_OperationID r) = Some x'" by blast
  have "coord_inv db2" using coord_steps_inv [OF assms(4) acquires_inv [OF inv acq]] .
  from this assms(6) show ?thesis
    by (cases rule: Begin_cases) (use x' assms(5) in \<open>auto simp: refuses_def acquires_def\<close>)
qed

theorem accepted_once_witness:
  "\<exists>out. Begin ''t9'' (demo_request CHR ''1'' ''UpdateApplication'') 0 ''inst-b'' demo_released = (out, demo_released)
     \<and> (\<forall>d. out = BeginDecision d \<longrightarrow> \<not> d_Execute d)"
proof -
  obtain out db3 where b: "Begin ''t9'' (demo_request CHR ''1'' ''UpdateApplication'') 0 ''inst-b'' demo_released = (out, db3)"
    by fastforce
  have "coord_reach empty_db" by (simp add: coord_reach_def)
  moreover have "coord_step\<^sup>*\<^sup>* demo_begun demo_released"
    using demo_steps_executing(1) demo_steps_released(1) by auto
  ultimately have "db3 = demo_released \<and> (\<forall>d'. out = BeginDecision d' \<longrightarrow> \<not> d_Execute d')"
    using accepted_once [OF _ demo_begun(1) _ _ _ b] by simp
  with b show ?thesis by blast
qed

text \<open>
  Final operations are immutable. The row of an operation that succeeded, failed, was
  cancelled or was superseded, its recorded result included, is the same in every later
  state.
\<close>

theorem final_rows_immutable:
  assumes "coord_reach db" and "op_get db k = Some x" and "\<not> live (o_state x)" and "coord_step\<^sup>*\<^sup>* db db'"
  shows "op_get db' k = Some x"
  using coord_steps_keep_op [OF assms(4) coord_reach_inv [OF assms(1)] assms(2)] assms(3) by auto

theorem final_rows_immutable_witness:
  "\<exists>x. op_get demo_released (demo_id CHR ''1'') = Some x \<and> o_state x = StateSucceeded
     \<and> op_get (snd (Begin ''t9'' (demo_request CHR ''2'' ''InstallApplication'') 0 ''inst-a'' demo_released)) (demo_id CHR ''1'') = Some x"
proof -
  from demo_released(1) obtain x where x: "op_get demo_released (demo_id CHR ''1'') = Some x" "o_state x = StateSucceeded" by blast
  moreover have "coord_step demo_released (snd (Begin ''t9'' (demo_request CHR ''2'' ''InstallApplication'') 0 ''inst-a'' demo_released))"
    by (rule coord_step.accept) (rule prod.collapse [symmetric])
  ultimately show ?thesis
    using final_rows_immutable [OF demo_steps_released(2) x(1)] by (auto simp: live_def)
qed

text \<open>
  C5. Acceptance. A well-formed request with a fresh ID for an installation whose lock is
  free is accepted with the next token, and that token passes the fence.
\<close>

theorem free_installation_accepts:
  assumes "coord_reach db" and "well_formed_request r i"
    and "op_get db (rq_OperationID r) = None" and "abs_lock db i = Unlocked t"
  shows "\<exists>db'. Begin now r uid i db =
      (BeginDecision \<lparr>d_Execute = True, d_FencingToken = t + 1, d_Response = empty_Response\<rparr>, db')
    \<and> verifyFence (rq_OperationID r) (t + 1) db' = Inr () \<and> abs_lock db' i = Locked (rq_OperationID r) (t + 1)"
proof -
  from Begin_accepts [OF coord_reach_inv [OF assms(1)] assms(2-4), of now uid] obtain db' where
    "Begin now r uid i db = (BeginDecision \<lparr>d_Execute = True, d_FencingToken = t + 1, d_Response = empty_Response\<rparr>, db')"
    "acquires db db' (rq_OperationID r) i (t + 1)" .
  with acquires_holds show ?thesis by blast
qed

theorem free_installation_accepts_witness:
  "\<exists>db'. Begin ''t3'' (demo_request CHR ''2'' ''InstallApplication'') 7 ''inst-a'' demo_released =
      (BeginDecision \<lparr>d_Execute = True, d_FencingToken = 2, d_Response = empty_Response\<rparr>, db')"
proof -
  have "op_get demo_released (rq_OperationID (demo_request CHR ''2'' ''InstallApplication'')) = None"
    using demo_only_operation demo_id_neq by simp
  from free_installation_accepts [OF demo_steps_released(2) demo_well_formed(2) this demo_released(2), of "''t3''" 7]
  show ?thesis by auto
qed

text \<open>
  C6. Refusal. A request with a fresh ID for a busy installation (or for a quarantined one,
  when it is not a repair) is refused with a conflict that names the holder; the refused
  operation is recorded as failed, and no lease and no other operation changes.
\<close>

theorem busy_installation_refuses:
  assumes "coord_reach db" and "well_formed_request r i" and "op_get db (rq_OperationID r) = None"
    and "abs_lock db i = Locked a t \<or> abs_lock db i = Quarantined a t \<and> \<not> is_repair_request r"
  shows "\<exists>db' x. Begin now r uid i db = (BeginConflict (respond (conflict_response r a)) a, db')
    \<and> leases db' = leases db \<and> op_get db' (rq_OperationID r) = Some x \<and> o_state x = StateFailed
    \<and> (\<forall>j. j \<noteq> rq_OperationID r \<longrightarrow> op_get db' j = op_get db j)"
proof -
  from Begin_refuses [OF coord_reach_inv [OF assms(1)] assms(2-4), of now uid] obtain db' where
    "Begin now r uid i db = (BeginConflict (respond (conflict_response r a)) a, db')" "refuses db db' (rq_OperationID r) i" .
  then show ?thesis by (auto simp: refuses_def)
qed

theorem busy_installation_refuses_witness:
  "\<exists>db' x. Begin ''t1'' (demo_request CHR ''2'' ''InstallApplication'') 7 ''inst-a'' demo_begun =
      (BeginConflict (respond (conflict_response (demo_request CHR ''2'' ''InstallApplication'') (demo_id CHR ''1''))) (demo_id CHR ''1''), db')
    \<and> leases db' = leases demo_begun \<and> op_get db' (demo_id CHR ''2'') = Some x \<and> o_state x = StateFailed"
proof -
  have "op_get demo_begun (rq_OperationID (demo_request CHR ''2'' ''InstallApplication'')) = None"
    using demo_only_operation demo_id_neq by simp
  from busy_installation_refuses [OF demo_reach_begun demo_well_formed(2) this disjI1 [OF acquires_holds(2) [OF demo_begun(2)]], of "''t1''" 7]
  show ?thesis by auto
qed



text \<open>
  Completion. Under the fence an executing operation with a result that fits is completed:
  an outcome that needs reconciliation quarantines the installation with the next token, any
  other outcome records success or failure together with the result and frees the lock.
  Without the fence nothing is written.
\<close>

theorem complete_behaviour:
  assumes "coord_reach db" and "op_get db k = Some x" and "o_state x = StateExecuting"
    and "encode_result (rs_Result response) ''operation result too large'' = Inr res"
  shows "if verifyFence k t db = Inr ()
    then \<exists>db' x'. Complete now k t response db = (Inr (responseFor x' (rs_RequestID response)), db')
        \<and> op_get db' k = Some x'
        \<and> (if rs_ErrorCode response = ''RecoveryRequired''
           then o_state x' = StateActionRequired \<and> abs_lock db' (o_installation_id x) = Quarantined k (t + 1)
           else o_state x' = (if rs_OK response then StateSucceeded else StateFailed)
             \<and> o_result_json x' = res \<and> abs_lock db' (o_installation_id x) = Unlocked t)
    else \<exists>e. Complete now k t response db = (Inl e, db)" (is "if ?fence then ?done else ?kept")
proof (cases ?fence)
  case False
  then show ?thesis by (simp add: Complete_stale)
next
  case True
  with assms(2) obtain l where f: "fenced db k t x l" using verifyFence_iff by (auto simp: fenced_def)
  note inv = coord_reach_inv [OF assms(1)]
  have ?done
  proof (cases "rs_ErrorCode response = ''RecoveryRequired''")
    case rr: True
    show ?thesis by (rule Complete_quarantines [OF inv f assms(3,4) rr, of now]) (use rr in auto)
  next
    case rr: False
    show ?thesis by (rule Complete_commits [OF inv f assms(3,4) rr, of now]) (use rr in auto)
  qed
  with True show ?thesis by simp
qed

theorem complete_behaviour_witness:
  "\<exists>db' x'. Complete ''t2'' (demo_id CHR ''1'') 1 (empty_Response\<lparr>rs_ErrorCode := ''RecoveryRequired''\<rparr>) demo_executing =
       (Inr (responseFor x' []), db')
     \<and> o_state x' = StateActionRequired \<and> abs_lock db' ''inst-a'' = Quarantined (demo_id CHR ''1'') 2"
proof -
  from demo_executing(2) obtain x l where f: "fenced demo_executing (demo_id CHR ''1'') 1 x l"
      and st: "o_state x = StateExecuting" and i: "o_installation_id x = ''inst-a''" by blast
  then have x: "op_get demo_executing (demo_id CHR ''1'') = Some x" by (simp add: fenced_def)
  have "encode_result (rs_Result (empty_Response\<lparr>rs_ErrorCode := ''RecoveryRequired''\<rparr>)) ''operation result too large'' = Inr None"
    by (simp add: encode_result_def empty_Response_def)
  moreover have "verifyFence (demo_id CHR ''1'') 1 demo_executing = Inr ()" using f verifyFence_iff by blast
  ultimately show ?thesis
    using complete_behaviour [OF demo_steps_executing(2) x st, where t = 1 and now = "''t2''"
      and response = "empty_Response\<lparr>rs_ErrorCode := ''RecoveryRequired''\<rparr>"] i
    by (auto simp: empty_Response_def)
qed

end
