(* ===== verification/Gen_Spec.thy ===== *)
theory Gen_Spec
  imports Gen_Commit Coordinator_Spec "HOL-Library.Multiset"
begin

text \<open>
  Properties of the generation store and of its composition with the coordinator.
\<close>

section \<open>When a commit succeeds, and what it does\<close>

definition committable :: "Plan \<Rightarrow> helper_db \<Rightarrow> bool" where
  "committable plan db \<longleftrightarrow> (let i = pl_InstallationID plan; n = pl_Generation plan; k = pl_OperationID plan in
     verifyGenerationFence i k (pl_FencingToken plan) db = Inr ()
     \<and> snd (current_generation i db) = pl_ExpectedGeneration plan
     \<and> (case gen_get db (i, n) of None \<Rightarrow> False | Some g \<Rightarrow> g_creating_operation_id g = k \<and> g_status g = GCandidate)
     \<and> (case comp_get db (i, n, ''app'') of None \<Rightarrow> False
        | Some c \<Rightarrow> c_state c = CsRunning \<and> c_configuration_hash c \<noteq> []))"

definition commit_result :: "string \<Rightarrow> Plan \<Rightarrow> helper_db \<Rightarrow> helper_db" where
  "commit_result now plan db = (let i = pl_InstallationID plan; n = pl_Generation plan; k = pl_OperationID plan in
     appendEvent k i (Some (pl_FencingToken plan)) ''generation_committed'' ''generation_commit''
       [(''active_generation'', itoa n), (''previous_generation'', itoa (pl_ExpectedGeneration plan))] now
       (db\<lparr>generations := map (switched now (\<lambda>r. coalesce (g_verified_at r) now) (pl_AllowMissingActive plan) i
          (pl_ExpectedGeneration plan) n k) (generations db)\<rparr>))"

lemma Commit_Inr_iff:
  assumes inv: "store_inv db"
  shows "Commit now plan db = Inr db' \<longleftrightarrow> committable plan db \<and> db' = commit_result now plan db"
proof -
  obtain ca cur where cur: "current_generation (pl_InstallationID plan) db = (ca, cur)" by fastforce
  have wf: "tbl_wf gen_key (generations db)" using inv by (simp add: store_inv_def)
  show ?thesis
    using cur switch_generation_spec [OF inv, of "pl_InstallationID plan" ca "pl_ExpectedGeneration plan" "pl_Generation plan"]
    by (auto simp: Commit_def Let_def bind_result_Inr_iff committable_def commit_result_def sql_row_gen [OF wf] sql_row_comp
        split: option.splits if_splits)
qed

definition committable_multi :: "MultiPlan \<Rightarrow> helper_db \<Rightarrow> bool" where
  "committable_multi plan db \<longleftrightarrow> (let i = mp_InstallationID plan; n = mp_Generation plan; k = mp_OperationID plan in
     verifyGenerationFence i k (mp_FencingToken plan) db = Inr ()
     \<and> snd (current_generation i db) = mp_ExpectedGeneration plan
     \<and> (case gen_get db (i, n) of None \<Rightarrow> False | Some g \<Rightarrow> g_creating_operation_id g = k \<and> g_status g = GCandidate
          \<and> g_topology_hash g = mp_TopologyHash plan)
     \<and> 0 < length (mp_Components plan) \<and> sql_count (in_comp i n) (components db) = length (mp_Components plan)
     \<and> (\<forall>c \<in> set (components db). in_comp i n c \<longrightarrow> component_verified c))"

lemma sql_count_all:
  "sql_count (\<lambda>r. P r \<and> Q r) t = sql_count P t \<longleftrightarrow> (\<forall>r \<in> set t. P r \<longrightarrow> Q r)"
proof (induction t)
  case (Cons a t)
  have "sql_count (\<lambda>r. P r \<and> Q r) t \<le> sql_count P t" by (induction t) (auto simp: sql_count_def)
  with Cons show ?case by (auto simp: sql_count_def)
qed (simp add: sql_count_def)

definition commit_multi_result :: "string \<Rightarrow> MultiPlan \<Rightarrow> helper_db \<Rightarrow> helper_db" where
  "commit_multi_result now plan db = (let i = mp_InstallationID plan; n = mp_Generation plan; k = mp_OperationID plan in
     appendEvent k i (Some (mp_FencingToken plan)) ''generation_committed'' ''generation_commit''
       [(''active_generation'', itoa n), (''component_count'', itoa (int (length (mp_Components plan)))),
        (''previous_generation'', itoa (mp_ExpectedGeneration plan))] now
       (db\<lparr>generations := map (switched now (\<lambda>_. Some now) (mp_AllowMissingActive plan) i
          (mp_ExpectedGeneration plan) n k) (generations db)\<rparr>))"

lemma CommitMulti_Inr_iff:
  assumes inv: "store_inv db"
  shows "CommitMulti now plan db = Inr db' \<longleftrightarrow> committable_multi plan db \<and> db' = commit_multi_result now plan db"
proof -
  let ?i = "mp_InstallationID plan" and ?n = "mp_Generation plan"
  obtain ca cur where cur: "current_generation ?i db = (ca, cur)" by fastforce
  have wf: "tbl_wf gen_key (generations db)" using inv by (simp add: store_inv_def)
  have counts: "verified_counts ?i ?n db = Inr (length (mp_Components plan), length (mp_Components plan)) \<longleftrightarrow>
      0 < length (mp_Components plan) \<and> sql_count (in_comp ?i ?n) (components db) = length (mp_Components plan)
      \<and> (\<forall>c \<in> set (components db). in_comp ?i ?n c \<longrightarrow> component_verified c)"
    using sql_count_all [of "in_comp ?i ?n" component_verified "components db"]
    by (auto simp: verified_counts_def Let_def)
  note sw = switch_generation_spec [OF inv, of ?i ca "mp_ExpectedGeneration plan" ?n]
  show ?thesis
  proof
    assume run: "CommitMulti now plan db = Inr db'"
    then show "committable_multi plan db \<and> db' = commit_multi_result now plan db"
      using cur sw counts
      by (auto simp: CommitMulti_def Let_def bind_result_Inr_iff committable_multi_def commit_multi_result_def sql_row_gen [OF wf]
        split: option.splits if_splits)
  next
    assume c: "committable_multi plan db \<and> db' = commit_multi_result now plan db"
    then obtain g where g: "gen_get db (?i, ?n) = Some g" "g_creating_operation_id g = mp_OperationID plan" "g_status g = GCandidate"
        "g_topology_hash g = mp_TopologyHash plan"
      and "verified_counts ?i ?n db = Inr (length (mp_Components plan), length (mp_Components plan))"
      using counts by (auto simp: committable_multi_def Let_def split: option.splits)
    with c cur sw [OF _ g(1,3,2)] show "CommitMulti now plan db = Inr db'"
      by (simp add: CommitMulti_def Let_def committable_multi_def commit_multi_result_def sql_row_gen [OF wf])
  qed
qed

lemma status_active_unique:
  assumes "store_inv db" and "status_at db (i, m) = Some GActive" "status_at db (i, n) = Some GActive"
  shows "m = n"
proof -
  from assms obtain a b where ab: "gen_get db (i, m) = Some a" "g_status a = GActive" "gen_get db (i, n) = Some b" "g_status b = GActive"
    by (auto simp: status_at_def)
  note keys = tbl_get_key [OF ab(1)] tbl_get_key [OF ab(3)]
  then have "a = b" using assms(1) ab tbl_get_mem [OF ab(1)] tbl_get_mem [OF ab(3)]
    by (intro one_active_unique [of "generations db"]) (simp_all add: store_inv_def gen_key_def)
  with keys show ?thesis by (simp add: gen_key_def)
qed

text \<open>What the switch means for the statuses of the installation's generations.\<close>

lemma gen_get_map:
  assumes "\<And>r. gen_key (h r) = gen_key r"
  shows "tbl_get gen_key k (map h gs) = map_option h (tbl_get gen_key k gs)"
  using assms by (simp add: tbl_get_def find_map_key)

lemma switched_statuses:
  assumes inv: "store_inv db" and cur: "snd (current_generation i db) = e"
    and g: "gen_get db (i, n) = Some g" "g_status g = GCandidate" "g_creating_operation_id g = k"
    and db': "generations db' = map (switched now v missing i e n k) (generations db)"
  shows "status_at db' (i, n) = Some GActive" and "m \<noteq> n \<Longrightarrow> status_at db' (i, m) \<noteq> Some GActive"
    and "status_at db (i, m) = Some GActive \<Longrightarrow> m = e \<and> status_at db' (i, m) = Some (if missing then GCleanupPending else GRetained)"
    and "status_at db' (i, m) = Some GRetained \<Longrightarrow> m = e"
    and "filter (\<lambda>r. g_installation_id r \<noteq> i) (generations db') = filter (\<lambda>r. g_installation_id r \<noteq> i) (generations db)"
proof -
  have get: "gen_get db' k' = map_option (switched now v missing i e n k) (gen_get db k')" for k'
    unfolding db' by (rule gen_get_map) simp
  have key: "g_installation_id r = j \<and> g_runtime_generation r = m \<and> r \<in> set (generations db)" if "gen_get db (j, m) = Some r" for r j m
    using tbl_get_key [OF that] tbl_get_mem [OF that] by (simp add: gen_key_def)
  have act: "m = e" if "gen_get db (i, m) = Some r" "g_status r = GActive" for m r
    using current_generation_active [OF inv prod.collapse [symmetric], of r i] cur key [OF that(1)] that(2) by auto
  have "is_candidate i n k g" using g key [OF g(1)] by (simp add: is_candidate_def in_gen_def)
  then show "status_at db' (i, n) = Some GActive" using g by (simp add: status_at_def get switched_def)
  show "m \<noteq> n \<Longrightarrow> status_at db' (i, m) \<noteq> Some GActive"
    using key [of i m] by (cases "gen_get db (i, m)") (auto simp: status_at_def get is_candidate_def in_gen_def)
  show "m = e \<and> status_at db' (i, m) = Some (if missing then GCleanupPending else GRetained)"
    if a: "status_at db (i, m) = Some GActive"
  proof -
    from a obtain r where r: "gen_get db (i, m) = Some r" "g_status r = GActive" by (auto simp: status_at_def)
    with act key [OF r(1)] show ?thesis by (simp add: status_at_def get switched_def retired_def is_candidate_def)
  qed
  show "m = e" if ret: "status_at db' (i, m) = Some GRetained"
  proof -
    from ret obtain r where r: "gen_get db (i, m) = Some r" "g_status (switched now v missing i e n k r) = GRetained"
      by (auto simp: status_at_def get)
    with act [OF r(1)] key [OF r(1)] show ?thesis by (auto simp: switched_def retired_def split: if_splits)
  qed
  have same: "switched now v missing i e n k r = r" if "g_installation_id r \<noteq> i" for r
    using that by (simp add: switched_def is_candidate_def in_gen_def)
  show "filter (\<lambda>r. g_installation_id r \<noteq> i) (generations db') = filter (\<lambda>r. g_installation_id r \<noteq> i) (generations db)"
    unfolding db' filter_map by (auto simp: comp_def same intro: map_idI)
qed

section \<open>Reading back what was prepared\<close>

definition binding_of_row :: "string \<Rightarrow> int \<Rightarrow> Binding \<Rightarrow> binding_row" where
  "binding_of_row i n b = \<lparr>b_installation_id = i, b_runtime_generation = n, b_service_id = eb_ServiceID b,
       b_transport = eb_Transport b, b_container_port = eb_ContainerPort b, b_mode = eb_Mode b,
       b_host_address = eb_HostAddress b, b_host_port = eb_HostPort b\<rparr>"

lemma insert_bindings_rows:
  "insert_bindings i n bs db = Inr db' \<Longrightarrow> bindings db' = bindings db @ map (binding_of_row i n) bs
     \<and> generations db' = generations db \<and> components db' = components db"
  by (induction bs arbitrary: db) (auto simp: bind_result_Inr_iff insert_binding_Inr_iff binding_of_row_def)

lemma replaceBindings_load:
  assumes "replaceBindings i n bs db = Inr db'"
  shows "loadBindings i n db' = Normalize bs" "generations db' = generations db" "components db' = components db"
proof -
  from assms have ins: "insert_bindings i n (Normalize bs)
      (db\<lparr>bindings := filter (\<lambda>b. \<not> (b_installation_id b = i \<and> b_runtime_generation b = n)) (bindings db)\<rparr>) = Inr db'"
    by (simp add: replaceBindings_def split: if_splits)
  note rows = insert_bindings_rows [OF this]
  from rows show "generations db' = generations db" "components db' = components db" by simp_all
  have "filter (\<lambda>b. b_installation_id b = i \<and> b_runtime_generation b = n) (bindings db') = map (binding_of_row i n) (Normalize bs)"
    using rows by (simp add: filter_map comp_def binding_of_row_def)
  moreover have "sorted (map b_service_id (map (binding_of_row i n) (Normalize bs)))"
    by (simp add: binding_of_row_def Normalize_def comp_def)
  ultimately show "loadBindings i n db' = Normalize bs"
    by (simp add: loadBindings_def sort_key_id_if_sorted binding_of_row_def comp_def map_idI)
qed

lemma prepare_components_rows:
  assumes "prepare_components now i n False o' cs db = Inr db'"
  shows "components db' = components db @ map (\<lambda>c. prepared_comp now i n (mc_ID c) (mc_ContainerName c) (mc_Image c)
      (mc_DependsOn c) (mc_StartOrdinal c)) cs \<and> generations db' = generations db
      \<and> map mc_StartOrdinal cs = map (\<lambda>j. o' + int j) [0..<length cs]"
  using assms
proof (induction cs arbitrary: o' db)
  case (Cons c cs)
  then obtain db1 where o': "mc_StartOrdinal c = o'" and
      db1: "insert_comp (prepared_comp now i n (mc_ID c) (mc_ContainerName c) (mc_Image c) (mc_DependsOn c) o') db = Inr db1"
      "prepare_components now i n False (o' + 1) cs db1 = Inr db'"
    by (auto simp: bind_result_Inr_iff split: if_splits)
  have "[0..<length (c # cs)] = 0 # map Suc [0..<length cs]" by (simp add: map_Suc_upt upt_conv_Cons del: upt_Suc)
  then show ?case
    using Cons.IH [OF db1(2)] db1(1) o' by (simp add: insert_comp_Inr_iff comp_def algebra_simps del: upt_Suc)
qed simp

lemma sort_key_unique:
  assumes "mset ys = mset xs" "sorted (map f ys)" "inj_on f (set ys)"
  shows "sort_key f xs = ys"
proof (rule properties_for_sort_key [OF assms(1) _ assms(2)])
  fix k assume k: "k \<in> set ys"
  have eq: "filter (\<lambda>x. f k = f x) zs = filter (HOL.eq k) zs" if "mset zs = mset ys" for zs
  proof (rule filter_cong [OF refl])
    fix x assume "x \<in> set zs"
    with that have "x \<in> set ys" by (metis set_mset_mset)
    with k assms(3) show "(f k = f x) = (k = x)" by (auto dest: inj_onD)
  qed
  show "filter (\<lambda>x. f k = f x) ys = filter (\<lambda>x. f k = f x) xs"
    using eq [OF refl] eq [OF assms(1) [symmetric]] assms(1) by (metis replicate_count_mset_eq_filter_eq)
qed

text \<open>What loading returns for a multi-component plan: its components in start order.\<close>

definition loaded_component :: "MultiComponentPlan \<Rightarrow> LComponent" where
  "loaded_component c = \<lparr>lc_ID = mc_ID c, lc_ContainerName = mc_ContainerName c, lc_ContainerID = [],
     lc_Image = mc_Image c, lc_ImageID = [], lc_ConfigurationHash = [], lc_State = CsUnknown,
     lc_DependsOn = mc_DependsOn c, lc_StartOrdinal = mc_StartOrdinal c\<rparr>"

definition loaded_plan :: "MultiPlan \<Rightarrow> MultiGeneration" where
  "loaded_plan p = \<lparr>mg_InstallationID = mp_InstallationID p, mg_CreatingOperationID = mp_OperationID p,
     mg_ApplicationID = mp_ApplicationID p, mg_ReleaseID = mp_ReleaseID p, mg_Generation = mp_Generation p,
     mg_Status = GPrepared, mg_NetworkName = mp_NetworkName p, mg_NetworkID = [], mg_PlanHash = mp_PlanHash p,
     mg_TopologyHash = mp_TopologyHash p, mg_DataPath = mp_DataPath p, mg_Bindings = Normalize (mp_Bindings p),
     mg_CleanupState = CNotRequired, mg_Components = map loaded_component (mp_Components p)\<rparr>"

lemma sort_by_ordinal:
  assumes "map f ys = map (\<lambda>j. int j) [0..<length ys]" and "mset ys = mset xs"
  shows "sort_key f xs = ys"
proof (rule sort_key_unique [OF assms(2)])
  have "sorted (map (\<lambda>j. int j) [0..<length ys])" by (simp add: sorted_map)
  then show "sorted (map f ys)" unfolding assms(1) .
  have "distinct (map f ys)" unfolding assms(1) by (simp add: distinct_map)
  then show "inj_on f (set ys)" by (simp add: distinct_map)
qed

lemma PrepareMulti_load:
  assumes inv: "store_inv db" and fresh: "gen_get db (mp_InstallationID plan, mp_Generation plan) = None"
    and run: "PrepareMulti now plan db = Inr db'"
  shows "LoadMultiGeneration (mp_InstallationID plan) (mp_Generation plan) db' = Inr (loaded_plan plan)"
proof -
  let ?i = "mp_InstallationID plan" and ?n = "mp_Generation plan"
  let ?row = "prepared_gen now (mp_OperationID plan) (mp_ApplicationID plan) (mp_ReleaseID plan)
            (mp_NetworkName plan) (mp_PlanHash plan) (mp_TopologyHash plan) (mp_DataPath plan) ?i ?n"
  let ?rows = "map (\<lambda>c. prepared_comp now ?i ?n (mc_ID c) (mc_ContainerName c) (mc_Image c)
      (mc_DependsOn c) (mc_StartOrdinal c)) (mp_Components plan)"
  have none: "sql_row (in_gen ?i ?n) (generations db) = Inl ErrNoRows"
    using fresh sql_row_gen [of db ?i ?n "\<lambda>_. True"] inv by (simp add: store_inv_def)
  with run obtain db1 db2 where db1: "insert_gen ?row db = Inr db1"
      and db2: "prepare_components now ?i ?n False 0 (mp_Components plan) db1 = Inr db2"
      and db': "replaceBindings ?i ?n (mp_Bindings plan) db2 = Inr db'"
    by (auto simp: PrepareMulti_def Let_def bind_result_Inr_iff split: if_splits)
  have "\<not> in_comp ?i ?n c" if "c \<in> set (components db)" for c
    using inv fresh that by (auto simp: store_inv_def gen_exists_iff in_comp_def)
  then have "filter (in_comp ?i ?n) (components db') = ?rows"
    using db1 prepare_components_rows [OF db2] replaceBindings_load [OF db']
    by (simp add: insert_gen_Inr_iff filter_map comp_def prepared_comp_def in_comp_def)
  moreover have "sort_key c_start_ordinal (sort_key c_component_id ?rows) = ?rows"
    by (rule sort_by_ordinal) (use prepare_components_rows [OF db2] in \<open>simp_all add: prepared_comp_def comp_def\<close>)
  moreover have "sql_row (in_gen ?i ?n) (generations db') = Inr ?row"
    using db1 prepare_components_rows [OF db2] replaceBindings_load [OF db'] none
    by (auto simp: insert_gen_Inr_iff sql_row_def find_append in_gen_def prepared_gen_def split: option.splits)
  ultimately show ?thesis
    using replaceBindings_load(1) [OF db']
    by (simp add: LoadMultiGeneration_def loaded_plan_def loaded_component_def prepared_gen_def prepared_comp_def comp_def)
qed

section \<open>A concrete store\<close>

definition demo_plan :: Plan where
  "demo_plan = \<lparr>pl_OperationID = demo_id CHR ''1'', pl_InstallationID = ''inst-a'', pl_ApplicationID = ''app'', pl_ReleaseID = ''r1'',
     pl_Generation = 1, pl_ExpectedGeneration = 0, pl_FencingToken = 1, pl_Image = ''nginx'', pl_NetworkName = ''net'',
     pl_ContainerName = ''c1'', pl_PlanHash = ''p'', pl_DataPath = [],
     pl_Bindings = [\<lparr>eb_ServiceID = ''web'', eb_Transport = ''tcp'', eb_ContainerPort = 80, eb_Mode = ''internal'', eb_HostAddress = [], eb_HostPort = 0\<rparr>],
     pl_Container = \<lparr>ct_Image = ''nginx'', ct_Name = ''c1'', ct_Network = ''net'', ct_User = [], ct_ImageDefaultUser = [],
       ct_ImageDefaultVolumes = [], ct_Labels = [], ct_Command = [], ct_Environment = [], ct_DataPath = [], ct_ReadOnly = False,
       ct_Storage = [], ct_PortBindings = [], ct_RestartPolicy = [], ct_NetworkAliases = [], ct_Dependencies = [],
       ct_Devices = [], ct_DeviceRequests = []\<rparr>,
     pl_RollbackSafe = True, pl_AllowMissingActive = False\<rparr>"

definition demo_component :: "string \<Rightarrow> int \<Rightarrow> string list \<Rightarrow> MultiComponentPlan" where
  "demo_component c o' deps = \<lparr>mc_ID = c, mc_Image = ''img'', mc_ContainerName = c, mc_DependsOn = deps, mc_StartOrdinal = o',
     mc_Container = pl_Container demo_plan\<rparr>"

definition demo_multi :: MultiPlan where
  "demo_multi = \<lparr>mp_OperationID = demo_id CHR ''1'', mp_InstallationID = ''inst-a'', mp_ApplicationID = ''app'', mp_ReleaseID = ''r1'',
     mp_Generation = 1, mp_ExpectedGeneration = 0, mp_FencingToken = 1, mp_NetworkName = ''net'', mp_PlanHash = ''p'',
     mp_TopologyHash = ''topo'', mp_DataPath = [], mp_Bindings = pl_Bindings demo_plan,
     mp_Components = [demo_component ''db'' 0 [], demo_component ''app'' 1 [''db'']], mp_RollbackSafe = True, mp_AllowMissingActive = False\<rparr>"

text \<open>An operation that holds its installation's lease, or waits for recovery with the lease quarantined.\<close>

definition demo_store :: "op_state \<Rightarrow> lease_state \<Rightarrow> helper_db" where
  "demo_store s ls = empty_db\<lparr>operations := [(new_operation ''t0'' (demo_request CHR ''1'' ''InstallApplication'') 1000 ''inst-a'' ''h'' ''c'')
       \<lparr>o_fencing_token := Some 1, o_state := s\<rparr>],
     leases := [\<lparr>l_installation_id = ''inst-a'', l_operation_id = demo_id CHR ''1'', l_fencing_token = 1, l_state = ls,
       l_acquired_at = ''t0'', l_updated_at = ''t0'', l_recovery_required = (ls = RecoveryRequired)\<rparr>]\<rparr>"

definition ok_or :: "'a \<Rightarrow> 'a result \<Rightarrow> 'a" where
  "ok_or d r = (case r of Inr x \<Rightarrow> x | Inl _ \<Rightarrow> d)"

definition demo_candidate :: helper_db where
  "demo_candidate = ok_or empty_db (bind_result (Prepare ''t1'' demo_plan (demo_store StateExecuting Held)) (\<lambda>a.
     bind_result (RecordNetwork demo_plan ''n1'' a) (\<lambda>b.
     bind_result (RecordContainer ''t2'' demo_plan ''cid'' ''img'' ''hash'' CsStopped b) (RecordState ''t3'' demo_plan CsRunning True))))"

definition demo_multi_candidate :: helper_db where
  "demo_multi_candidate = ok_or empty_db (bind_result (PrepareMulti ''t1'' demo_multi (demo_store StateExecuting Held)) (\<lambda>a.
     bind_result (RecordMultiNetwork demo_multi ''n1'' a) (\<lambda>b.
     bind_result (RecordMultiContainer ''t2'' demo_multi ''db'' ''c1'' ''img'' ''hash'' CsRunning True b)
       (RecordMultiContainer ''t3'' demo_multi ''app'' ''c2'' ''img'' ''hash'' CsRunning True))))"

definition demo_stuck :: helper_db where
  "demo_stuck = demo_candidate\<lparr>operations := operations (demo_store StateActionRequired RecoveryRequired),
     leases := leases (demo_store StateActionRequired RecoveryRequired)\<rparr>"

lemma demo_store_inv: "store_inv demo_candidate" "store_inv demo_multi_candidate" "store_inv demo_stuck"
  "store_inv (demo_store StateExecuting Held)"
  by code_simp+

lemma demo_committable: "committable demo_plan demo_candidate" "committable_multi demo_multi demo_multi_candidate"
  by code_simp+

section \<open>Properties\<close>

text \<open>
  C13. When a commit succeeds. A commit succeeds exactly when the caller holds the
  installation's fence, the current generation is the one the plan expects, the plan's
  generation is this operation's candidate and its component runs with a recorded
  configuration; the result is then one simultaneous switch of the installation's
  generations and one event.
\<close>

theorem commit_succeeds_iff:
  assumes "store_inv db"
  shows "(Commit now plan db = Inr db') = (committable plan db \<and> db' = commit_result now plan db)"
  using assms by (rule Commit_Inr_iff)

theorem commit_succeeds_iff_witness:
  "Commit ''t4'' demo_plan demo_candidate = Inr (commit_result ''t4'' demo_plan demo_candidate)"
  using commit_succeeds_iff [OF demo_store_inv(1)] demo_committable(1) by simp

text \<open>
  C14. A commit switches generations atomically. Afterwards the plan's generation is the only
  active one of the installation, the previously active one is retained (or awaits cleanup
  when its runtime was missing), no older generation stays retained, and no row of another
  installation has changed.
\<close>

theorem commit_switches:
  assumes "store_inv db" and "Commit now plan db = Inr db'"
  shows "status_at db' (pl_InstallationID plan, pl_Generation plan) = Some GActive
    \<and> (\<forall>m. m \<noteq> pl_Generation plan \<longrightarrow> status_at db' (pl_InstallationID plan, m) \<noteq> Some GActive)
    \<and> (\<forall>m. status_at db (pl_InstallationID plan, m) = Some GActive \<longrightarrow> m = pl_ExpectedGeneration plan
        \<and> status_at db' (pl_InstallationID plan, m) = Some (if pl_AllowMissingActive plan then GCleanupPending else GRetained))
    \<and> (\<forall>m. status_at db' (pl_InstallationID plan, m) = Some GRetained \<longrightarrow> m = pl_ExpectedGeneration plan)
    \<and> outside (pl_InstallationID plan) db' = outside (pl_InstallationID plan) db"
proof -
  from assms have c: "committable plan db" and db': "db' = commit_result now plan db" by (simp_all add: Commit_Inr_iff)
  from c obtain g where g: "gen_get db (pl_InstallationID plan, pl_Generation plan) = Some g" "g_status g = GCandidate"
      "g_creating_operation_id g = pl_OperationID plan" and e: "snd (current_generation (pl_InstallationID plan) db) = pl_ExpectedGeneration plan"
    by (auto simp: committable_def Let_def split: option.splits)
  have gens: "generations db' = map (switched now (\<lambda>r. coalesce (g_verified_at r) now) (pl_AllowMissingActive plan) (pl_InstallationID plan)
      (pl_ExpectedGeneration plan) (pl_Generation plan) (pl_OperationID plan)) (generations db)"
    unfolding db' by (simp add: commit_result_def Let_def)
  note st = switched_statuses [OF assms(1) e g gens]
  from assms(1) Commit_effect [OF assms(2)] have "outside (pl_InstallationID plan) db' = outside (pl_InstallationID plan) db"
    by (simp add: store_effect_def)
  with st show ?thesis by blast
qed

theorem commit_switches_witness:
  "status_at (commit_result ''t4'' demo_plan demo_candidate) (''inst-a'', 1) = Some GActive"
proof -
  have "Commit ''t4'' demo_plan demo_candidate = Inr (commit_result ''t4'' demo_plan demo_candidate)"
    using demo_store_inv(1) demo_committable(1) by (simp add: Commit_Inr_iff)
  from commit_switches [OF demo_store_inv(1) this] show ?thesis by (simp add: demo_plan_def)
qed

lemma CommitMulti_switches:
  assumes inv: "store_inv db" and run: "CommitMulti now plan db = Inr db'"
  shows "status_at db' (mp_InstallationID plan, m) = Some GActive \<longleftrightarrow> m = mp_Generation plan"
    and "\<forall>c \<in> set (components db'). in_comp (mp_InstallationID plan) (mp_Generation plan) c \<longrightarrow> component_verified c"
    and "components db' = components db"
proof -
  from run have c: "committable_multi plan db" and db': "db' = commit_multi_result now plan db" by (simp_all add: CommitMulti_Inr_iff [OF inv])
  from c obtain g where g: "gen_get db (mp_InstallationID plan, mp_Generation plan) = Some g" "g_status g = GCandidate"
      "g_creating_operation_id g = mp_OperationID plan" and e: "snd (current_generation (mp_InstallationID plan) db) = mp_ExpectedGeneration plan"
    by (auto simp: committable_multi_def Let_def split: option.splits)
  have gens: "generations db' = map (switched now (\<lambda>_. Some now) (mp_AllowMissingActive plan) (mp_InstallationID plan)
      (mp_ExpectedGeneration plan) (mp_Generation plan) (mp_OperationID plan)) (generations db)"
    unfolding db' by (simp add: commit_multi_result_def Let_def)
  note st = switched_statuses [OF inv e g gens]
  then show "status_at db' (mp_InstallationID plan, m) = Some GActive \<longleftrightarrow> m = mp_Generation plan" by blast
  show "\<forall>c \<in> set (components db'). in_comp (mp_InstallationID plan) (mp_Generation plan) c \<longrightarrow> component_verified c"
    "components db' = components db"
    using c unfolding db' by (simp_all add: commit_multi_result_def committable_multi_def Let_def)
qed

text \<open>
  A generation of several components becomes active only when all of them are verified.
  \<open>CommitMulti\<close> succeeds exactly when the fence, the expected generation and the topology
  hash agree, there are as many recorded components as planned and each one runs, has a
  recorded configuration and was verified; the plan's generation is then the only active one.
\<close>

theorem commit_multi_all_verified:
  assumes "store_inv db"
  shows "((\<exists>db'. CommitMulti now plan db = Inr db') = committable_multi plan db)
    \<and> (\<forall>db'. CommitMulti now plan db = Inr db' \<longrightarrow>
        (\<forall>c \<in> set (components db'). in_comp (mp_InstallationID plan) (mp_Generation plan) c \<longrightarrow> component_verified c)
        \<and> (\<forall>m. status_at db' (mp_InstallationID plan, m) = Some GActive \<longleftrightarrow> m = mp_Generation plan))"
proof (intro conjI allI impI)
  show "(\<exists>db'. CommitMulti now plan db = Inr db') = committable_multi plan db"
    by (simp add: CommitMulti_Inr_iff [OF assms])
qed (fact CommitMulti_switches [OF assms])+

theorem commit_multi_all_verified_witness: "\<exists>db'. CommitMulti ''t4'' demo_multi demo_multi_candidate = Inr db'"
  using commit_multi_all_verified [OF demo_store_inv(2), of "''t4''" demo_multi] demo_committable(2) by blast


lemma demo_kit_steps: "kit_step demo_begun demo_executing" "kit_step demo_executing demo_released" "kit_reach demo_begun"
proof -
  have fr: "tx_frame empty_db demo_begun" by (rule coord_tx_frame(1) [OF coord_inv_empty demo_begun(1)])
  then show "kit_reach demo_begun"
    using kit_step.coordinator [OF coord_step.accept [OF demo_begun(1)]] by (auto simp: kit_reach_def)
  show "kit_step demo_begun demo_executing"
    by (rule kit_step.coordinator [OF demo_steps_executing(1) coord_tx_frame(2) [OF coord_reach_inv [OF demo_reach_begun] demo_executing(1)]])
  from demo_released(1) obtain x' where c: "Complete ''t2'' (demo_id CHR ''1'') 1 (empty_Response\<lparr>rs_OK := True\<rparr>) demo_executing
      = (Inr (responseFor x' []), demo_released)" by blast
  show "kit_step demo_executing demo_released"
    by (rule kit_step.coordinator [OF coord_step.complete [OF c]])
      (rule coord_tx_frame(4) [OF coord_reach_inv [OF demo_steps_executing(2)] c])
qed


text \<open>
  C16. A stale executor never commits. Once an operation that held an installation's fence
  with a token has lost it (it completed, was interrupted, or a repair took over), no later
  attempt with that token commits a generation, records a container, removes the active
  generation or dispatches a component mutation, in any reachable state.
\<close>

theorem stale_executor_never_commits:
  assumes "kit_reach db" and "verifyGenerationFence (pl_InstallationID plan) (pl_OperationID plan) (pl_FencingToken plan) db = Inr ()"
    and "kit_step\<^sup>*\<^sup>* db db1"
    and "verifyGenerationFence (pl_InstallationID plan) (pl_OperationID plan) (pl_FencingToken plan) db1 \<noteq> Inr ()"
    and "kit_step\<^sup>*\<^sup>* db1 db2"
    and "mp_InstallationID mplan = pl_InstallationID plan" "mp_OperationID mplan = pl_OperationID plan"
      "mp_FencingToken mplan = pl_FencingToken plan"
  shows "(\<exists>e. Commit now plan db2 = Inl e) \<and> (\<exists>e. CommitMulti now mplan db2 = Inl e)
    \<and> (\<exists>e. RecordContainer now plan containerID imageID h st db2 = Inl e)
    \<and> (\<exists>e. MarkActiveRemoved (pl_InstallationID plan) n (pl_OperationID plan) (pl_FencingToken plan) db2 = Inl e)
    \<and> (\<exists>e. DispatchComponentStep now mplan c action attempt db2 = Inl e)"
proof -
  have inv: "coord_inv db" using assms(1) by (rule kit_reach_inv)
  note steps = kit_steps_coord [OF assms(3)] kit_steps_coord [OF assms(5)]
  note inv' = coord_steps_inv [OF steps(1) inv] coord_steps_inv [OF steps(2) coord_steps_inv [OF steps(1) inv]]
  have "verifyGenerationFence (pl_InstallationID plan) (pl_OperationID plan) (pl_FencingToken plan) db2 \<noteq> Inr ()"
    using coord.lost_forever [OF inv _ steps(1) _ steps(2)] assms(2,4)
    unfolding verifyGenerationFence_iff [OF inv] verifyGenerationFence_iff [OF inv'(1)] verifyGenerationFence_iff [OF inv'(2)]
    by blast
  then obtain e where "verifyGenerationFence (pl_InstallationID plan) (pl_OperationID plan) (pl_FencingToken plan) db2 = Inl e"
    by (cases "verifyGenerationFence (pl_InstallationID plan) (pl_OperationID plan) (pl_FencingToken plan) db2") auto
  then show ?thesis
    by (simp add: Commit_def CommitMulti_def RecordContainer_def MarkActiveRemoved_def DispatchComponentStep_def Let_def assms(6-8))
qed

theorem stale_executor_never_commits_witness: "\<exists>e. Commit ''t9'' demo_plan demo_released = Inl e"
proof -
  have p: "pl_InstallationID demo_plan = ''inst-a''" "pl_OperationID demo_plan = demo_id CHR ''1''" "pl_FencingToken demo_plan = 1"
    by (simp_all add: demo_plan_def)
  have inv: "coord_inv demo_begun" "coord_inv demo_released"
    using coord_reach_inv demo_reach_begun demo_steps_released(2) by blast+
  have "lock_holds (abs_lock demo_begun ''inst-a'') (demo_id CHR ''1'') 1"
    using acquires_holds(2) [OF demo_begun(2)] by simp
  then have a: "verifyGenerationFence ''inst-a'' (demo_id CHR ''1'') 1 demo_begun = Inr ()"
    unfolding verifyGenerationFence_iff [OF inv(1)] fenced_lock_iff [OF inv(1)] .
  have b: "verifyGenerationFence ''inst-a'' (demo_id CHR ''1'') 1 demo_released \<noteq> Inr ()"
    unfolding verifyGenerationFence_iff [OF inv(2)] fenced_lock_iff [OF inv(2)] using demo_released(2) by simp
  have "kit_step\<^sup>*\<^sup>* demo_begun demo_released" using demo_kit_steps(1,2) by auto
  from stale_executor_never_commits [of _ demo_plan, unfolded p, OF demo_kit_steps(3) a this b rtranclp.rtrancl_refl, of demo_multi "''t9''"]
  show ?thesis by (simp add: demo_multi_def)
qed


lemma demo_prepared: "\<exists>db'. Prepare ''t1'' demo_plan demo_begun = Inr db'"
proof -
  have "tx_frame empty_db demo_begun" by (rule coord_tx_frame(1) [OF coord_inv_empty demo_begun(1)])
  then have e: "generations demo_begun = []" "components demo_begun = []" "bindings demo_begun = []"
    by (simp_all add: tx_frame_def empty_db_def)
  show ?thesis
    by (simp add: Prepare_def Let_def demo_plan_def e sql_row_def insert_gen_def insert_comp_def sql_insert_def one_active_def
        prepared_gen_def prepared_comp_def ordinal_free_def gen_exists_def in_gen_def replaceBindings_def MaxBindings_def
        Normalize_def insert_binding_def binding_check_def TCP_def UDP_def Internal_def Loopback_def LAN_def)
qed


lemma recover_baseline_candidate:
  assumes "recover_baseline now i e db = Inr db1" and "gen_get db k = Some r" and "g_status r = GCandidate"
  shows "gen_get db1 k = Some r"
  using assms
  by (auto simp: recover_baseline_def bind_result_Inr_iff retire_def demote_older_def tbl_get_update gen_key_def
      split: if_splits option.splits sum.splits)

lemma settle_recovered_rows:
  assumes "op_get db k = Some x" "o_state x = StateActionRequired" "o_fencing_token x = Some t"
    and "lease_get db i = Some l" "l_state l = RecoveryRequired" "l_operation_id l = k" "l_fencing_token l = t"
    and "db' = settle_recovered only now phase res i k t db"
  shows "\<exists>x'. op_get db' k = Some x' \<and> o_state x' = StateSucceeded \<and> o_result_json x' = Some res" and "abs_lock db' i = Unlocked t"
  using assms
  by (auto simp: settle_recovered_def update_ops_def update_leases_def tbl_get_update_at abs_lock_def lock_of_def)

text \<open>
  Forward recovery settles everything at once. When the recovery of an interrupted
  operation's candidate succeeds, the candidate is the only active generation of the
  installation, the operation has succeeded with the given result, and the installation's
  lock, quarantined under the operation before, is free under the same token.
\<close>

theorem recovery_settles:
  assumes "store_inv db" and "RecoverForward now g res db = Inr db'"
    and "op_get db (ge_CreatingOperationID g) = Some x" "o_installation_id x = ge_InstallationID g"
  shows "\<exists>t. abs_lock db (ge_InstallationID g) = Quarantined (ge_CreatingOperationID g) t
      \<and> abs_lock db' (ge_InstallationID g) = Unlocked t
      \<and> (\<exists>x'. op_get db' (ge_CreatingOperationID g) = Some x' \<and> o_state x' = StateSucceeded \<and> o_result_json x' = Some (json_of_Result res))
      \<and> (\<forall>m. status_at db' (ge_InstallationID g, m) = Some GActive \<longleftrightarrow> m = ge_Generation g)"
proof -
  let ?i = "ge_InstallationID g" and ?n = "ge_Generation g" and ?k = "ge_CreatingOperationID g"
  have wf: "tbl_wf gen_key (generations db)" using assms(1) by (simp add: store_inv_def)
  from assms(2) obtain t r db1 db2 where t: "recovery_fence ''generation recovery fence is not valid'' ?k db = Inr t"
      and r: "gen_get db (?i, ?n) = Some r" "g_status r = GCandidate"
      and db1: "recover_baseline now ?i (?n - 1) db = Inr db1" and db2: "activate_recovered now ?i ?n db1 = Inr db2"
      and db': "db' = appendEvent ?k ?i (Some t) ''generation_recovered'' ''recovered_generation_commit''
        [(''active_generation'', itoa ?n)] now (settle_recovered True now ''recovered_generation_commit'' (json_of_Result res) ?i ?k t db2)"
    by (auto simp: RecoverForward_def Let_def bind_result_Inr_iff sql_row_gen [OF wf] split: if_splits option.splits)
  note eff = store_effect_trans [OF recover_baseline_effect [OF db1] activate_recovered_effect [OF db2]]
  from t assms(3,4) obtain l where l: "o_state x = StateActionRequired" "o_fencing_token x = Some t"
      "lease_get db ?i = Some l" "l_state l = RecoveryRequired" "l_operation_id l = ?k" "l_fencing_token l = t"
    by (auto elim: recovery_fence_Inr)
  have rows: "op_get db2 ?k = Some x" "lease_get db2 ?i = Some l" using eff assms(3) l(3) by (simp_all add: store_effect_def)
  note settled = settle_recovered_rows [OF rows(1) l(1,2) rows(2) l(4-6) refl]
  have key: "gen_key r = (?i, ?n)" using r(1) by (rule tbl_get_key)
  have act: "status_at db2 (?i, ?n) = Some GActive"
    using db2 recover_baseline_candidate [OF db1 r] r(2) key
    by (auto simp: activate_recovered_def activate_Inr_iff status_at_def tbl_get_update gen_key_def in_gen_def)
  have inv2: "store_inv db2" using eff assms(1) by (simp add: store_effect_def)
  have "status_at db2 (?i, m) = Some GActive \<longleftrightarrow> m = ?n" for m
    using act status_active_unique [OF inv2 _ act] by blast
  then have "status_at db' (?i, m) = Some GActive \<longleftrightarrow> m = ?n" for m unfolding db' by (simp add: status_at_def)
  moreover have "abs_lock db ?i = Quarantined ?k t" using l by (simp add: abs_lock_def lock_of_def)
  moreover have "abs_lock db' ?i = Unlocked t" using settled(2) unfolding db' by (simp add: abs_lock_def)
  moreover have "\<exists>x'. op_get db' ?k = Some x' \<and> o_state x' = StateSucceeded \<and> o_result_json x' = Some (json_of_Result res)"
    using settled(1) unfolding db' by simp
  ultimately show ?thesis by blast
qed

definition demo_generation :: Generation where
  "demo_generation = scanGeneration (hd (generationSelect demo_stuck))"

definition demo_result :: Result where
  "demo_result = \<lparr>re_Generation = 1, re_ReleaseID = ''r1'', re_RuntimeState = ''running'', re_ContainerName = ''c1'',
     re_ContainerID = ''cid'', re_NetworkName = ''net'', re_Bindings = [], re_CleanupDeferred = False, re_Components = []\<rparr>"

theorem recovery_settles_witness:
  "\<exists>db'. RecoverForward ''t5'' demo_generation demo_result demo_stuck = Inr db' \<and> abs_lock db' ''inst-a'' = Unlocked 1
     \<and> status_at db' (''inst-a'', 1) = Some GActive"
proof -
  have "is_ok (RecoverForward ''t5'' demo_generation demo_result demo_stuck)" by code_simp
  then obtain db' where db': "RecoverForward ''t5'' demo_generation demo_result demo_stuck = Inr db'"
    by (cases "RecoverForward ''t5'' demo_generation demo_result demo_stuck") auto
  have g: "ge_InstallationID demo_generation = ''inst-a''" "ge_CreatingOperationID demo_generation = demo_id CHR ''1''"
      "ge_Generation demo_generation = 1" by code_simp+
  have q: "abs_lock demo_stuck ''inst-a'' = Quarantined (demo_id CHR ''1'') 1" by code_simp
  have x: "op_get demo_stuck (ge_CreatingOperationID demo_generation) = Some (hd (operations demo_stuck))"
      "o_installation_id (hd (operations demo_stuck)) = ge_InstallationID demo_generation"
    by (simp_all add: g) (simp_all add: demo_stuck_def demo_store_def new_operation_def tbl_get_def)
  from recovery_settles [OF demo_store_inv(3) db' x] q show ?thesis using db' by (auto simp: g)
qed

text \<open>
  C18. What was prepared is what is loaded. Preparing a generation of several components that
  was not recorded before and loading it again returns the plan: its identity and hashes, its
  bindings in normal form, and its components in start order with their dependencies, each
  without an observed container.
\<close>

theorem prepare_load_roundtrip:
  assumes "store_inv db" and "gen_get db (mp_InstallationID plan, mp_Generation plan) = None"
    and "PrepareMulti now plan db = Inr db'"
  shows "LoadMultiGeneration (mp_InstallationID plan) (mp_Generation plan) db' = Inr (loaded_plan plan)"
  using assms by (rule PrepareMulti_load)

theorem prepare_load_roundtrip_witness:
  "\<exists>db'. PrepareMulti ''t1'' demo_multi (demo_store StateExecuting Held) = Inr db'
     \<and> LoadMultiGeneration ''inst-a'' 1 db' = Inr (loaded_plan demo_multi)"
proof -
  have "is_ok (PrepareMulti ''t1'' demo_multi (demo_store StateExecuting Held))" by code_simp
  then obtain db' where db': "PrepareMulti ''t1'' demo_multi (demo_store StateExecuting Held) = Inr db'"
    by (cases "PrepareMulti ''t1'' demo_multi (demo_store StateExecuting Held)") auto
  have p: "mp_InstallationID demo_multi = ''inst-a''" "mp_Generation demo_multi = 1" by (simp_all add: demo_multi_def)
  have "gen_get (demo_store StateExecuting Held) (''inst-a'', 1) = None" by (simp add: demo_store_def empty_db_def tbl_get_def)
  from prepare_load_roundtrip [OF demo_store_inv(4) _ db', unfolded p, OF this] db' show ?thesis by blast
qed

end
