(* ===== verification/Protocol_Spec.thy ===== *)
theory Protocol_Spec
  imports Protocol
begin

text \<open>
  Facts about the helper protocol: what the request hash depends on, that a written frame
  is read back, and that the duplicate-key check decides whether a JSON value repeats an
  object key at any depth.
\<close>

section \<open>The canonical form\<close>

lemma blank_secrets_idem: "blank_secrets (blank_secrets r) = blank_secrets r"
proof -
  have b: "blank_secret (blank_secret e) = blank_secret e" for e by (simp add: blank_secret_def)
  then have "blank_component (blank_component c) = blank_component c" for c by (simp add: blank_component_def comp_def)
  with b show ?thesis by (simp add: blank_secrets_def comp_def)
qed

text \<open>Two requests with the same canonical form have the same canonical text and hash.\<close>

lemma Hash_cong: "canonical_request r = canonical_request r' \<Longrightarrow> Canonical r = Canonical r' \<and> Hash r = Hash r'"
  by (simp add: Canonical_def Hash_def)

text \<open>
  What the canonical form forgets: the request and operation IDs, the deadline, the values
  of secret environment variables, the certificate and key, and the provider token.
\<close>

definition same_semantics :: "Request \<Rightarrow> Request \<Rightarrow> bool" where
  "same_semantics r r' \<longleftrightarrow> (\<exists>i k d c p t. blank_secrets r' =
     (blank_secrets r)\<lparr>rq_ID := i, rq_OperationID := k, rq_Deadline := d,
       rq_CertificatePEM := c, rq_PrivateKeyPEM := p, rq_ProviderToken := t\<rparr>)"

lemma same_semantics_canonical: "same_semantics r r' \<Longrightarrow> canonical_request r' = canonical_request r"
proof -
  have c: "canonical_request r = (blank_secrets r)\<lparr>rq_ID := [], rq_OperationID := [], rq_Deadline := [],
     rq_CertificatePEM := [], rq_PrivateKeyPEM := [], rq_ProviderToken := []\<rparr>" for r
    by (simp add: canonical_request_def blank_secrets_def)
  show "same_semantics r r' \<Longrightarrow> canonical_request r' = canonical_request r"
    by (auto simp: c same_semantics_def)
qed

section \<open>Frames\<close>

lemma get_put_uint32:
  assumes "n < 2 ^ 32"
  shows "get_uint32 (put_uint32 n) = n" and "length (put_uint32 n) = 4"
proof -
  have "put_uint32 n = map char_of [n div 16777216 mod 256, n div 65536 mod 256, n div 256 mod 256, n mod 256]"
    using assms by (simp add: put_uint32_def be_bytes_def upt_rec)
  moreover have "((n div 16777216 * 256 + n div 65536 mod 256) * 256 + n div 256 mod 256) * 256 + n mod 256 = n"
  proof -
    have d: "n div 65536 = n div 256 div 256" "n div 16777216 = n div 256 div 256 div 256"
      by (simp_all flip: div_mult2_eq)
    have "n div 256 div 256 div 256 < 256" using assms by (simp flip: div_mult2_eq)
    then show ?thesis unfolding d by simp
  qed
  moreover have "n div 16777216 mod 256 = n div 16777216" using assms by simp
  ultimately show "get_uint32 (put_uint32 n) = n" "length (put_uint32 n) = 4"
    by (simp_all add: get_uint32_def)
qed

lemma read_write_frame:
  assumes "write_frame b = Inr w" and "b \<noteq> []"
  shows "read_frame (w @ rest) = Inr (b, rest)"
proof -
  from assms have b: "length b \<le> MaxFrame" and w: "w = put_uint32 (length b) @ b"
    by (auto simp: write_frame_def split: if_splits)
  from b have n: "length b < 2 ^ 32" by (simp add: MaxFrame_def)
  show ?thesis
    using get_put_uint32 [OF n] b assms(2) by (simp add: read_frame_def w)
qed

section \<open>Duplicate keys\<close>

fun tokens :: "json \<Rightarrow> token list" where
  "tokens (JStr s) = [TStr s]"
| "tokens (JArr vs) = TArrOpen # concat (map tokens vs) @ [TArrClose]"
| "tokens (JObj fs) = TObjOpen # concat (map (\<lambda>(k, v). TStr k # tokens v) fs) @ [TObjClose]"
| "tokens _ = [TScalar]"

fun unique_keys :: "json \<Rightarrow> bool" where
  "unique_keys (JArr vs) = (\<forall>v \<in> set vs. unique_keys v)"
| "unique_keys (JObj fs) = (distinct (map fst fs) \<and> (\<forall>(k, v) \<in> set fs. unique_keys v))"
| "unique_keys _ = True"

definition checked :: "bool \<Rightarrow> token list \<Rightarrow> token list result" where
  "checked ok r = (if ok then Inr r else Inl (Errorf ''duplicate JSON key''))"

lemma tokens_more [simp]: "more (tokens v @ ts)"
  by (cases v) (simp_all add: more_def)

lemma more_close [simp]: "\<not> more (TArrClose # r)" "\<not> more (TObjClose # r)" "more (TStr k # r)"
  by (simp_all add: more_def)

lemma tokens_length: "1 \<le> length (tokens v)"
  by (cases v) simp_all

lemma readArray_tokens:
  assumes "\<And>v n r. v \<in> set vs \<Longrightarrow> length (tokens v) \<le> n \<Longrightarrow> readUniqueValue n (tokens v @ r) = checked (unique_keys v) r"
    and "length (concat (map tokens vs)) + 1 \<le> n"
  shows "readArray n (concat (map tokens vs) @ TArrClose # r) = checked (\<forall>v \<in> set vs. unique_keys v) r"
  using assms
proof (induction vs arbitrary: n)
  case Nil
  then show ?case by (cases n) (simp_all add: checked_def)
next
  case (Cons v vs)
  from Cons.prems(2) tokens_length [of v] obtain m where n: "n = Suc m" "length (tokens v) \<le> m"
      "length (concat (map tokens vs)) + 1 \<le> m"
    by (cases n) simp_all
  with Cons show ?case by (simp add: checked_def)
qed

lemma readObject_tokens:
  assumes "\<And>k v n r. (k, v) \<in> set fs \<Longrightarrow> length (tokens v) \<le> n \<Longrightarrow> readUniqueValue n (tokens v @ r) = checked (unique_keys v) r"
    and "length (concat (map (\<lambda>(k, v). TStr k # tokens v) fs)) + 1 \<le> n"
  shows "readObject n seen (concat (map (\<lambda>(k, v). TStr k # tokens v) fs) @ TObjClose # r) =
    checked (distinct (map fst fs) \<and> set (map fst fs) \<inter> set seen = {} \<and> (\<forall>(k, v) \<in> set fs. unique_keys v)) r"
  using assms
proof (induction fs arbitrary: n seen)
  case Nil
  then show ?case by (cases n) (simp_all add: checked_def)
next
  case (Cons kv fs)
  obtain k v where kv: "kv = (k, v)" by fastforce
  from Cons.prems(2) kv obtain m where n: "n = Suc m" "length (tokens v) \<le> m"
      "length (concat (map (\<lambda>(k, v). TStr k # tokens v) fs)) + 1 \<le> m"
    by (cases n) simp_all
  have "readUniqueValue m (tokens v @ r') = checked (unique_keys v) r'" for r'
    using Cons.prems(1) [of k v] kv n by simp
  moreover have "readObject m (k # seen) (concat (map (\<lambda>(k, v). TStr k # tokens v) fs) @ TObjClose # r) =
      checked (distinct (map fst fs) \<and> set (map fst fs) \<inter> set (k # seen) = {} \<and> (\<forall>(k, v) \<in> set fs. unique_keys v)) r"
    by (rule Cons.IH) (use Cons.prems(1) n in auto)
  ultimately show ?case by (auto simp: checked_def n kv)
qed

lemma readUniqueValue_tokens:
  "length (tokens v) \<le> n \<Longrightarrow> readUniqueValue n (tokens v @ r) = checked (unique_keys v) r"
proof (induction v arbitrary: n r)
  case (JArr vs)
  then obtain m where "n = Suc m" "length (concat (map tokens vs)) + 1 \<le> m" by (cases n) simp_all
  with readArray_tokens [of vs m r] JArr.IH show ?case by simp
next
  case (JObj fs)
  then obtain m where "n = Suc m" "length (concat (map (\<lambda>(k, v). TStr k # tokens v) fs)) + 1 \<le> m" by (cases n) simp_all
  moreover have "readObject m [] (concat (map (\<lambda>(k, v). TStr k # tokens v) fs) @ TObjClose # r) =
      checked (distinct (map fst fs) \<and> set (map fst fs) \<inter> set [] = {} \<and> (\<forall>(k, v) \<in> set fs. unique_keys v)) r"
    using calculation(2) by (intro readObject_tokens) (auto intro: JObj.IH)
  ultimately show ?case by simp
next
  case JNull
  then show ?case by (cases n) (simp_all add: checked_def)
next
  case (JBool b)
  then show ?case by (cases n) (simp_all add: checked_def)
next
  case (JInt i)
  then show ?case by (cases n) (simp_all add: checked_def)
next
  case (JStr s)
  then show ?case by (cases n) (simp_all add: checked_def)
qed

lemma rejectDuplicateKeys_tokens:
  "rejectDuplicateKeys (tokens v) = (if unique_keys v then Inr () else Inl (Errorf ''duplicate JSON key''))"
  using readUniqueValue_tokens [of v "Suc (length (tokens v))" "[]"]
  by (simp add: rejectDuplicateKeys_def checked_def)
section \<open>Properties\<close>

text \<open>
  C8. Frame round trip. A non-empty payload that \<open>Write\<close> accepts is read back from the
  stream as it was, and the rest of the stream is left for the next frame.
\<close>

theorem frame_roundtrip:
  assumes "write_frame b = Inr w" and "b \<noteq> []"
  shows "read_frame (w @ rest) = Inr (b, rest)"
  using assms by (rule read_write_frame)

theorem frame_roundtrip_witness:
  "\<exists>w. write_frame ''ping'' = Inr w \<and> read_frame (w @ ''tail'') = Inr (''ping'', ''tail'')"
proof -
  have w: "write_frame ''ping'' = Inr (put_uint32 (length ''ping'') @ ''ping'')" by (simp add: write_frame_def MaxFrame_def)
  with frame_roundtrip [OF w, of "''tail''"] show ?thesis by simp
qed

text \<open>
  C9. Duplicate keys. On the token stream of any JSON value \<open>rejectDuplicateKeys\<close> accepts
  exactly the values in which no object, at any depth, repeats a key; every other value is
  refused with the duplicate-key error.
\<close>

theorem duplicate_keys_decided:
  "rejectDuplicateKeys (tokens v) = (if unique_keys v then Inr () else Inl (Errorf ''duplicate JSON key''))"
  by (rule rejectDuplicateKeys_tokens)

end
