(* ===== verification/Exposure_Spec.thy ===== *)
theory Exposure_Spec
  imports Exposure "HOL-Library.Multiset"
begin

text \<open>
  Correctness of service exposure: conflict detection against the set of sockets a binding
  occupies, the greedy comparison of observed bindings against equality of multisets, port
  allocation, what validation admits, and the table of assignments.
\<close>

section \<open>Sockets a binding occupies\<close>

text \<open>
  The addresses a listener on \<open>ip\<close> covers: every address of its family for a wildcard,
  itself otherwise.
\<close>

definition same_family :: "nat list \<Rightarrow> nat list \<Rightarrow> bool" where
  "same_family a b \<longleftrightarrow> (To4 a = None) = (To4 b = None)"

definition covers :: "nat list \<Rightarrow> nat list set" where
  "covers ip = (if IsUnspecified ip then {x. length x = 16 \<and> same_family ip x} else {ip})"

definition published :: "Binding \<Rightarrow> bool" where
  "published b \<longleftrightarrow> eb_Mode b \<noteq> Internal \<and> eb_HostPort b \<noteq> 0"

definition sockets :: "Binding \<Rightarrow> (string \<times> int \<times> nat list) set" where
  "sockets b = (case ParseIP (eb_HostAddress b) of
      Some ip \<Rightarrow> if published b then {(eb_Transport b, eb_HostPort b, a) | a. a \<in> covers ip} else {}
    | None \<Rightarrow> {})"

lemma parse_octets_length: "parse_octets fs = Some bs \<Longrightarrow> length bs = length fs"
  by (induction fs arbitrary: bs) (auto split: option.splits)

lemma parse_ipv4_length: "parse_ipv4 s = Some b \<Longrightarrow> length b = 4"
  by (auto simp: parse_ipv4_def Let_def dest: parse_octets_length split: if_splits)

lemma v6_loop_length:
  assumes "v6_loop ip ell s = Some (ip', ell', rest)" and "length ip \<le> 16" and "even (length ip)"
  shows "length ip' \<le> 16"
  using assms
proof (induction ip ell s arbitrary: ip' ell' rest rule: v6_loop.induct)
  case (1 ip ell s)
  show ?case
  proof (cases "16 \<le> length ip")
    case True
    with 1 show ?thesis by (simp add: v6_loop.simps [of ip])
  next
    case False
    then have "length ip + 2 \<le> 16" using "1.prems"(3) by presburger
    with False 1 show ?thesis
      by (subst (asm) (3) v6_loop.simps)
        (auto simp: Let_def dest: parse_ipv4_length split: if_splits list.splits)
  qed
qed

lemma parse_ipv6_length:
  assumes "parse_ipv6 s = Some ip"
  shows "length ip = 16"
proof (cases "has_prefix ''::'' s \<and> drop 2 s = []")
  case True
  with assms show ?thesis by (auto simp: parse_ipv6_def)
next
  case False
  let ?s = "if has_prefix ''::'' s then drop 2 s else s"
  let ?e = "if has_prefix ''::'' s then Some 0 else None"
  from False assms obtain ip' ell where l: "v6_loop [] ?e ?s = Some (ip', ell, [])"
      and ip: "(if length ip' < 16 then (case ell of None \<Rightarrow> None
         | Some e \<Rightarrow> Some (take e ip' @ replicate (16 - length ip') 0 @ drop e ip'))
        else if ell \<noteq> None then None else Some ip') = Some ip"
    by (auto simp: parse_ipv6_def Let_def split: if_splits option.splits)
  from v6_loop_length [OF l] have "length ip' \<le> 16" by simp
  with ip show ?thesis by (auto split: if_splits option.splits)
qed

lemma ParseIP_length:
  assumes "ParseIP s = Some ip"
  shows "length ip = 16"
  using assms by (cases rule: ParseIP_cases) (auto simp: v4_mapped_def dest: parse_ipv4_length parse_ipv6_length)

lemma To4_16: "length ip = 16 \<Longrightarrow> To4 ip = (if take 12 ip = v4_mapped then Some (drop 12 ip) else None)"
  by (simp add: To4_def)

lemma ip_equal_16:
  assumes "length a = 16" and "length b = 16"
  shows "ip_equal a b \<longleftrightarrow> a = b"
proof -
  have "a = b" if "take 12 a = take 12 b" "drop 12 a = drop 12 b" using that by (metis append_take_drop_id)
  with assms show ?thesis by (auto simp: ip_equal_def To4_16 split: if_splits)
qed

lemma covers_meet:
  assumes a: "length a = 16" and b: "length b = 16"
  shows "covers a \<inter> covers b \<noteq> {} \<longleftrightarrow> same_family a b \<and> (IsUnspecified a \<or> IsUnspecified b \<or> a = b)"
  using assms by (auto simp: covers_def same_family_def)

lemma addressesOverlap_iff:
  assumes "ParseIP x = Some a" and "ParseIP y = Some b"
  shows "addressesOverlap x y \<longleftrightarrow> covers a \<inter> covers b \<noteq> {}"
  using assms by (auto simp: addressesOverlap_def covers_meet ParseIP_length ip_equal_16 same_family_def)

lemma BindingsConflict_iff:
  assumes "published a \<Longrightarrow> ParseIP (eb_HostAddress a) \<noteq> None" and "published b \<Longrightarrow> ParseIP (eb_HostAddress b) \<noteq> None"
  shows "BindingsConflict a b \<longleftrightarrow> sockets a \<inter> sockets b \<noteq> {}"
proof (cases "published a \<and> published b")
  case True
  with assms obtain x y where xy: "ParseIP (eb_HostAddress a) = Some x" "ParseIP (eb_HostAddress b) = Some y" by auto
  have "sockets a \<inter> sockets b \<noteq> {} \<longleftrightarrow>
      eb_Transport a = eb_Transport b \<and> eb_HostPort a = eb_HostPort b \<and> covers x \<inter> covers y \<noteq> {}"
    using True xy by (auto simp: sockets_def)
  with True show ?thesis
    using addressesOverlap_iff [OF xy] by (auto simp: BindingsConflict_def published_def)
next
  case False
  then show ?thesis by (auto simp: BindingsConflict_def published_def sockets_def split: option.splits)
qed

lemma conflicts_loop_iff:
  "conflicts_loop before bs = Inr () \<longleftrightarrow>
     (\<forall>i < length bs. eb_Mode (bs ! i) \<noteq> Internal \<longrightarrow> \<not> list_ex (BindingsConflict (bs ! i)) (before @ take i bs))"
proof (induction bs arbitrary: before)
  case (Cons b bs)
  have all: "(\<forall>i < length (b # bs). P i) \<longleftrightarrow> P 0 \<and> (\<forall>i < length bs. P (Suc i))" for P
    by (simp add: All_less_Suc2)
  show ?case
    unfolding all using Cons.IH [of "before @ [b]"] by simp
qed simp

lemma ValidateConflicts_iff:
  "ValidateConflicts bs = Inr () \<longleftrightarrow> (\<forall>i < length bs. \<forall>j < i. \<not> BindingsConflict (bs ! i) (bs ! j))"
proof -
  have "list_ex P (take i bs) \<longleftrightarrow> (\<exists>j < i. P (bs ! j))" if "i < length bs" for P i
    using that by (auto simp: list_ex_length)
  moreover have "BindingsConflict a b \<Longrightarrow> eb_Mode a \<noteq> Internal" for a b by (auto simp: BindingsConflict_def split: if_splits)
  ultimately show ?thesis unfolding ValidateConflicts_def conflicts_loop_iff by auto
qed

section \<open>Observed bindings as multisets\<close>

definition socket_text :: "Binding \<Rightarrow> string \<times> string" where
  "socket_text b = (eb_HostAddress b, itoa (eb_HostPort b))"

definition unmatched :: "bool list \<Rightarrow> Binding list \<Rightarrow> Binding list" where
  "unmatched ms bs = map snd (filter (\<lambda>(m, b). \<not> m) (zip ms bs))"

lemma unmatched_simps [simp]:
  "unmatched [] bs = []" "unmatched ms [] = []"
  "unmatched (m # ms) (b # bs) = (if m then unmatched ms bs else b # unmatched ms bs)"
  by (simp_all add: unmatched_def)

lemma unmatched_fresh: "unmatched (replicate (length bs) False) bs = bs"
  by (induction bs) simp_all

lemma take_first_socket:
  "case take_first (\<lambda>b. socket_text b = s) ms bs of
      None \<Rightarrow> s \<notin># mset (map socket_text (unmatched ms bs))
    | Some ms' \<Rightarrow> mset (map socket_text (unmatched ms bs)) = add_mset s (mset (map socket_text (unmatched ms' bs)))"
proof (induction ms bs rule: list_induct2')
  case (4 m ms b bs)
  then show ?case by (auto split: option.splits)
qed simp_all

lemma socket_text_eq: "(\<lambda>b. ip = eb_HostAddress b \<and> port = itoa (eb_HostPort b)) = (\<lambda>b. socket_text b = (ip, port))"
  by (auto simp: socket_text_def fun_eq_iff)

lemmas take_first_spec = take_first_socket [where s = "(ip, port)" for ip port, folded socket_text_eq]

lemma match_items_spec:
  "match_items expected ms items \<longleftrightarrow> (\<forall>it \<in> set items. item_socket it \<noteq> None)
     \<and> mset (map (the \<circ> item_socket) items) \<subseteq># mset (map socket_text (unmatched ms expected))"
proof (induction items arbitrary: ms)
  case (Cons it items)
  show ?case
  proof (cases "item_socket it")
    case (Some s)
    obtain ip port where s: "s = (ip, port)" by fastforce
    show ?thesis
    proof (cases "take_first (\<lambda>b. ip = eb_HostAddress b \<and> port = itoa (eb_HostPort b)) ms expected")
      case None
      with Some s take_first_spec [of ip port ms expected] show ?thesis
        by (auto dest: mset_subset_eqD [where x = "(ip, port)"])
    next
      case (Some ms')
      with \<open>item_socket it = Some s\<close> s take_first_spec [of ip port ms expected] Cons.IH [of ms'] show ?thesis by auto
    qed
  qed simp
qed simp

lemma match_all_spec:
  assumes "length items = length expected"
  shows "match_items expected (replicate (length expected) False) items \<longleftrightarrow>
    (\<forall>it \<in> set items. item_socket it \<noteq> None) \<and> mset (map (the \<circ> item_socket) items) = mset (map socket_text expected)"
proof -
  have "A = B" if "A \<subseteq># B" "size A = size B" for A B :: "(string \<times> string) multiset"
    using that by (metis mset_subset_size subset_mset.le_imp_less_or_eq less_irrefl)
  then show ?thesis
    using assms by (auto simp: match_items_spec unmatched_fresh)
qed

definition reports_exactly :: "Binding list \<Rightarrow> observed \<Rightarrow> bool" where
  "reports_exactly expected obs \<longleftrightarrow> fst ` set obs = set (wanted_keys expected)
     \<and> (\<forall>(key, raw) \<in> set obs. \<exists>items. raw = JArr items \<and> (\<forall>it \<in> set items. item_socket it \<noteq> None)
          \<and> mset (map (the \<circ> item_socket) items) = mset (map socket_text (wanted_items expected key)))"

lemma distinct_wanted_keys: "distinct (wanted_keys expected)"
  by (simp add: wanted_keys_def)

lemma observed_keys:
  assumes "distinct (map fst obs)" and "length (wanted_keys expected) = length obs"
    and "\<forall>key \<in> set (wanted_keys expected). map_of obs key \<noteq> None"
  shows "fst ` set obs = set (wanted_keys expected)"
proof (rule sym, rule card_subset_eq)
  show "finite (fst ` set obs)" by simp
  show "set (wanted_keys expected) \<subseteq> fst ` set obs"
    using assms(3) by (metis map_of_eq_None_iff subsetI)
  have "card (fst ` set obs) = length obs" using assms(1) by (metis distinct_card length_map set_map)
  moreover have "card (set (wanted_keys expected)) = length (wanted_keys expected)"
    using distinct_wanted_keys by (rule distinct_card)
  ultimately show "card (set (wanted_keys expected)) = card (fst ` set obs)" using assms(2) by simp
qed

lemma ObservedBindingsExactSet_spec:
  assumes d: "distinct (map fst obs)"
  shows "ObservedBindingsExactSet expected obs \<longleftrightarrow> reports_exactly expected obs"
proof
  assume o: "ObservedBindingsExactSet expected obs"
  then have keys: "fst ` set obs = set (wanted_keys expected)"
    by (intro observed_keys [OF d]) (auto simp: ObservedBindingsExactSet_def list_all_iff split: option.splits)
  have "\<exists>items. raw = JArr items \<and> (\<forall>it \<in> set items. item_socket it \<noteq> None)
      \<and> mset (map (the \<circ> item_socket) items) = mset (map socket_text (wanted_items expected key))"
    if "(key, raw) \<in> set obs" for key raw
  proof -
    from that d have "map_of obs key = Some raw" by simp
    moreover from that keys have "key \<in> set (wanted_keys expected)" by force
    with o have "case Some raw of
          Some (JArr items) \<Rightarrow> length items = length (wanted_items expected key)
            \<and> match_items (wanted_items expected key) (replicate (length (wanted_items expected key)) False) items
        | _ \<Rightarrow> False"
      unfolding ObservedBindingsExactSet_def list_all_iff calculation(1) [symmetric] by blast
    then obtain items where "raw = JArr items" "length items = length (wanted_items expected key)"
        "match_items (wanted_items expected key) (replicate (length (wanted_items expected key)) False) items"
      by (cases raw) simp_all
    with match_all_spec show ?thesis by blast
  qed
  with keys show "reports_exactly expected obs" by (auto simp: reports_exactly_def)
next
  assume r: "reports_exactly expected obs"
  have "length (wanted_keys expected) = length obs"
    using d r distinct_card [OF distinct_wanted_keys, of expected] distinct_card [OF d]
    by (simp add: reports_exactly_def)
  moreover have "case map_of obs key of
          Some (JArr items) \<Rightarrow> length items = length (wanted_items expected key)
            \<and> match_items (wanted_items expected key) (replicate (length (wanted_items expected key)) False) items
        | _ \<Rightarrow> False" if "key \<in> set (wanted_keys expected)" for key
  proof -
    from that r have "key \<in> fst ` set obs" by (simp add: reports_exactly_def)
    then obtain raw where raw: "(key, raw) \<in> set obs" by auto
    with r obtain items where it: "raw = JArr items" "\<forall>it \<in> set items. item_socket it \<noteq> None"
        "mset (map (the \<circ> item_socket) items) = mset (map socket_text (wanted_items expected key))"
      by (auto simp: reports_exactly_def)
    then have "length items = length (wanted_items expected key)" by (metis length_map mset_eq_length)
    with match_all_spec it have "match_items (wanted_items expected key) (replicate (length (wanted_items expected key)) False) items"
      by blast
    with \<open>length items = _\<close> it(1) raw d show ?thesis by simp
  qed
  ultimately show "ObservedBindingsExactSet expected obs" by (simp add: ObservedBindingsExactSet_def list_all_iff)
qed

section \<open>Validation\<close>

lemma IsLoopback_not_unspecified: "IsLoopback ip \<Longrightarrow> \<not> IsUnspecified ip"
proof (cases "To4 ip")
  case None
  have "replicate 15 0 @ [1] \<noteq> replicate 16 (0 :: nat)"
    by (simp add: replicate_append_same [symmetric] numeral_eq_Suc)
  with None show "IsLoopback ip \<Longrightarrow> ?thesis" by (auto simp: IsLoopback_def IsUnspecified_def)
next
  case (Some b)
  have "To4 (replicate 16 0) = None" by code_simp
  with Some show "IsLoopback ip \<Longrightarrow> ?thesis" by (auto simp: IsLoopback_def IsUnspecified_def)
qed

lemma validateAddress_ok:
  assumes "validateAddress mode address port lan = Inr ()"
  shows "mode = Internal \<and> address = [] \<or> mode \<noteq> Internal \<and> port \<noteq> 0 \<and>
    (\<exists>ip. ParseIP address = Some ip \<and> \<not> IsUnspecified ip
       \<and> (mode = Loopback \<and> IsLoopback ip \<or> mode = LAN \<and> address = lan \<and> \<not> IsLoopback ip \<and> \<not> IsMulticast ip))"
  using assms IsLoopback_not_unspecified
  by (auto simp: validateAddress_def split: if_splits option.splits)

lemma ValidateBinding_ok:
  assumes "ValidateBinding b lan fixed = Inr ()"
  shows "validateAddress (eb_Mode b) (eb_HostAddress b) (eb_HostPort b) lan = Inr ()"
    and "eb_HostPort b = 0 \<or> (if fixed = 0 then FirstPort \<le> eb_HostPort b \<and> eb_HostPort b \<le> LastPort else eb_HostPort b = fixed)"
    and "eb_Transport b = TCP \<or> eb_Transport b = UDP" and "eb_ServiceID b \<noteq> []"
    and "0 \<le> eb_HostPort b \<and> eb_HostPort b \<le> 65535"
  using assms by (auto simp: ValidateBinding_def FirstPort_def LastPort_def split: if_splits)

lemma ValidateBinding_sockets:
  assumes "ValidateBinding b lan fixed = Inr ()"
  shows "eb_Mode b = Internal \<and> sockets b = {} \<or>
    eb_Mode b \<noteq> Internal \<and> (\<exists>ip. ParseIP (eb_HostAddress b) = Some ip \<and> sockets b = {(eb_Transport b, eb_HostPort b, ip)}
      \<and> \<not> IsUnspecified ip \<and> (IsLoopback ip \<or> eb_HostAddress b = lan)
      \<and> (if fixed = 0 then FirstPort \<le> eb_HostPort b \<and> eb_HostPort b \<le> LastPort else eb_HostPort b = fixed))"
  using validateAddress_ok [OF ValidateBinding_ok(1) [OF assms]] ValidateBinding_ok(2) [OF assms]
  by (auto simp: sockets_def published_def covers_def split: option.splits)

section \<open>Allocation\<close>

lemma find_upto:
  "(case find P [a..b :: int] of Some p \<Rightarrow> a \<le> p \<and> p \<le> b \<and> P p \<and> (\<forall>q. a \<le> q \<and> q < p \<longrightarrow> \<not> P q)
    | None \<Rightarrow> \<forall>q. a \<le> q \<and> q \<le> b \<longrightarrow> \<not> P q)"
proof (induction a b rule: upto.induct)
  case (1 a b)
  show ?case
  proof (cases "a \<le> b")
    case True
    with 1 show ?thesis
      by (auto simp: upto_rec1 split: option.splits) (metis order_le_less zless_imp_add1_zle)+
  qed auto
qed

lemma allocate_spec:
  "case (case find P [a..b :: int] of Some p \<Rightarrow> Inr p | None \<Rightarrow> Inl e) of
     Inr p \<Rightarrow> a \<le> p \<and> p \<le> b \<and> P p \<and> (\<forall>q. a \<le> q \<and> q < p \<longrightarrow> \<not> P q)
   | Inl _ \<Rightarrow> (\<forall>q. a \<le> q \<and> q \<le> b \<longrightarrow> \<not> P q)"
  using find_upto [where P = P and a = a and b = b] by (simp split: option.splits)

section \<open>The table\<close>

definition exposure_ok :: "exposure_row list \<Rightarrow> bool" where
  "exposure_ok t \<longleftrightarrow> tbl_wf exposure_key t \<and> (\<forall>r \<in> set t. exposure_check r)
     \<and> (\<forall>r \<in> set t. \<forall>r' \<in> set t. exposure_key r \<noteq> exposure_key r' \<longrightarrow> \<not> same_socket r r')"

lemma exposure_key_update [simp]:
  "exposure_key (o'\<lparr>x_transport := a, x_mode := b, x_host_address := c, x_host_port := d, x_updated_at := e\<rparr>) = exposure_key o'"
  by (simp add: exposure_key_def)

lemma same_socket_sym: "same_socket a b = same_socket b a"
  by (auto simp: same_socket_def)

definition overwrite :: "exposure_row \<Rightarrow> exposure_row \<Rightarrow> exposure_row" where
  "overwrite r o' = o'\<lparr>x_transport := x_transport r, x_mode := x_mode r, x_host_address := x_host_address r,
           x_host_port := x_host_port r, x_updated_at := x_updated_at r\<rparr>"

lemma overwrite_simps:
  "exposure_key (overwrite r o') = exposure_key o'" "exposure_check (overwrite r o') = exposure_check r"
  "same_socket (overwrite r o') x = same_socket r x" "same_socket x (overwrite r o') = same_socket x r"
  by (simp_all add: overwrite_def exposure_check_def same_socket_def)

lemma exposure_upsert_ok:
  assumes ok: "exposure_ok t" and run: "exposure_upsert r t = Inr t'"
  shows "exposure_ok t'"
    and "\<exists>r'. (\<forall>k. tbl_get exposure_key k t' = (if k = exposure_key r then Some r' else tbl_get exposure_key k t))
      \<and> x_transport r' = x_transport r \<and> x_mode r' = x_mode r \<and> x_host_address r' = x_host_address r
      \<and> x_host_port r' = x_host_port r \<and> exposure_key r' = exposure_key r"
proof -
  from run have chk: "exposure_check r" and free: "\<And>x. x \<in> set t \<Longrightarrow> exposure_key x \<noteq> exposure_key r \<Longrightarrow> \<not> same_socket x r"
    by (auto simp: exposure_upsert_def split: if_splits)
  have both: "exposure_ok t' \<and> (\<exists>r'. (\<forall>k. tbl_get exposure_key k t' = (if k = exposure_key r then Some r' else tbl_get exposure_key k t))
      \<and> x_transport r' = x_transport r \<and> x_mode r' = x_mode r \<and> x_host_address r' = x_host_address r
      \<and> x_host_port r' = x_host_port r \<and> exposure_key r' = exposure_key r)"
  proof (cases "tbl_get exposure_key (exposure_key r) t")
    case None
    then have t': "t' = t @ [r]" using run chk free by (auto simp: exposure_upsert_def tbl_get_None_iff split: if_splits)
    have "exposure_ok t'"
      using ok None chk free unfolding t' exposure_ok_def by (auto simp: tbl_wf_append same_socket_sym)
    moreover have "tbl_get exposure_key k t' = (if k = exposure_key r then Some r else tbl_get exposure_key k t)" for k
      using None by (auto simp: t' tbl_get_append split: option.splits)
    ultimately show ?thesis by blast
  next
    case (Some o')
    then have k: "exposure_key o' = exposure_key r" and m: "o' \<in> set t" by (auto dest: tbl_get_key tbl_get_mem)
    then have t': "t' = sql_update (\<lambda>x. exposure_key x = exposure_key r) (overwrite r) t"
      using run chk free by (auto simp: exposure_upsert_def overwrite_def [abs_def] split: if_splits)
    have "exposure_ok t'"
      using ok chk free unfolding t' exposure_ok_def
      by (auto simp: set_sql_update overwrite_simps same_socket_sym)
    moreover have "tbl_get exposure_key k t' = (if k = exposure_key r then Some (overwrite r o') else tbl_get exposure_key k t)" for k
      using Some by (simp add: t' tbl_get_update_key overwrite_simps)
    moreover have "x_transport (overwrite r o') = x_transport r \<and> x_mode (overwrite r o') = x_mode r
      \<and> x_host_address (overwrite r o') = x_host_address r \<and> x_host_port (overwrite r o') = x_host_port r"
      by (simp add: overwrite_def)
    ultimately show ?thesis using k overwrite_simps(1) by metis
  qed
  then show "exposure_ok t'" "\<exists>r'. (\<forall>k. tbl_get exposure_key k t' = (if k = exposure_key r then Some r' else tbl_get exposure_key k t))
      \<and> x_transport r' = x_transport r \<and> x_mode r' = x_mode r \<and> x_host_address r' = x_host_address r
      \<and> x_host_port r' = x_host_port r \<and> exposure_key r' = exposure_key r" by blast+
qed

section \<open>Kernel addresses\<close>

lemma is_digit_char_of: "n < 10 \<Longrightarrow> is_digit (char_of (48 + n :: nat))"
  by (auto simp: is_digit_def less_eq_char_def of_char_of)

lemma nat_digits_digits: "list_all is_digit (nat_digits n)"
proof (induction n rule: nat_digits.induct)
  case (1 n)
  then show ?case by (cases "n < 10") (auto simp: nat_digits.simps [of n] is_digit_char_of)
qed

lemma nat_digits_not_Nil: "nat_digits n \<noteq> []"
  by (simp add: nat_digits.simps [of n])

lemma nat_digits_no_leading_zero: "10 \<le> n \<Longrightarrow> hd (nat_digits n) \<noteq> CHR ''0''"
proof (induction n rule: nat_digits.induct)
  case (1 n)
  have hd: "hd (nat_digits n) = hd (nat_digits (n div 10))"
    using 1 nat_digits_not_Nil by (simp add: nat_digits.simps [of n])
  show ?case
  proof (cases "n div 10 < 10")
    case True
    have "n div 10 \<noteq> 0" using 1 by simp
    then have "of_char (char_of (48 + n div 10) :: char) \<noteq> (of_char CHR ''0'' :: nat)"
      using True by (simp add: of_char_digit del: of_char_of)
    then have "char_of (48 + n div 10) \<noteq> CHR ''0''" by metis
    with True hd show ?thesis by (simp add: nat_digits.simps [of "n div 10"])
  next
    case False
    with 1 hd show ?thesis by simp
  qed
qed

lemma parse_octet_nat_digits: "n \<le> 255 \<Longrightarrow> parse_octet (nat_digits n) = Some n"
proof -
  have "hd (nat_digits n) \<noteq> CHR ''0''" if "1 < length (nat_digits n)"
    using that nat_digits_no_leading_zero [of n] by (cases "n < 10") (simp_all add: nat_digits.simps [of n])
  then show "n \<le> 255 \<Longrightarrow> ?thesis"
    using nat_digits_not_Nil nat_digits_digits [of n] by (auto simp: parse_octet_def digits_value_nat_digits)
qed

lemma parse_octets_nat_digits: "\<forall>b \<in> set bs. b \<le> 255 \<Longrightarrow> parse_octets (map nat_digits bs) = Some bs"
  by (induction bs) (simp_all add: parse_octet_nat_digits)

lemma split_on_append: "d \<notin> set x \<Longrightarrow> split_on d (x @ d # y) = x # split_on d y"
  by (induction x) (auto split: list.splits)

lemma split_on_single: "d \<notin> set x \<Longrightarrow> split_on d x = [x]"
  by (induction x) auto

lemma split_on_join: "xs \<noteq> [] \<Longrightarrow> \<forall>x \<in> set xs. d \<notin> set x \<Longrightarrow> split_on d (join_with [d] xs) = xs"
  by (induction "[d]" xs rule: join_with.induct) (simp_all add: split_on_append split_on_single)

lemma nat_digits_only: "c \<in> set (nat_digits n) \<Longrightarrow> is_digit c"
  using nat_digits_digits by (auto simp: list_all_iff)

lemma digit_not_special: "is_digit c \<Longrightarrow> c \<notin> {CHR ''.'', CHR '':'', CHR ''%''}"
  by (auto simp: is_digit_def less_eq_char_def)

lemma ParseIP_ipv4_string:
  assumes "\<forall>b \<in> set [a, b, c, d]. b \<le> 255"
  shows "ParseIP (ipv4_string [a, b, c, d]) = Some (v4_mapped @ [a, b, c, d])"
proof -
  have "split_on (CHR ''.'') (ipv4_string [a, b, c, d]) = map nat_digits [a, b, c, d]"
    unfolding ipv4_string_def
    by (rule split_on_join) (auto dest: nat_digits_only digit_not_special)
  then have p: "parse_ipv4 (ipv4_string [a, b, c, d]) = Some [a, b, c, d]"
    using parse_octets_nat_digits [OF assms] by (simp add: parse_ipv4_def)
  have "find (\<lambda>c. c \<in> {CHR ''.'', CHR '':'', CHR ''%''}) (nat_digits a @ CHR ''.'' # r) = Some CHR ''.''" for r
  proof -
    have "find (\<lambda>c. c \<in> {CHR ''.'', CHR '':'', CHR ''%''}) (nat_digits a) = None"
      unfolding find_None_all using nat_digits_only digit_not_special by blast
    then show ?thesis by (simp add: find_append)
  qed
  with p show ?thesis by (simp add: ParseIP_def ipv4_string_def)
qed

text \<open>The kernel prints a 32-bit address word in host byte order, as uppercase hexadecimal.\<close>

definition hex_upper :: "nat \<Rightarrow> char" where
  "hex_upper n = (if n < 10 then char_of (48 + n) else char_of (55 + n))"

definition hex_byte :: "nat \<Rightarrow> string" where
  "hex_byte n = [hex_upper (n div 16), hex_upper (n mod 16)]"

lemma hex_upper_spec:
  assumes "n < 16"
  shows "is_hex (hex_upper n)" "hex_val (hex_upper n) = n"
  using assms
  by (auto simp: hex_upper_def is_hex_def is_hex_lower_def hex_val_def is_digit_def is_lower_def less_eq_char_def of_char_of)

lemma ParseUint16_hex_byte: "n \<le> 255 \<Longrightarrow> ParseUint16 8 (hex_byte n) = Inr n"
  by (simp add: ParseUint16_def hex_byte_def hex_number_def hex_upper_spec)

lemma decodeProcAddress_ipv4:
  assumes "\<forall>b \<in> set [a, b, c, d]. b \<le> 255"
  shows "decodeProcAddress (hex_byte d @ hex_byte c @ hex_byte b @ hex_byte a) False = Inr (ipv4_string [a, b, c, d])"
proof -
  have "proc_pairs (hex_byte d @ hex_byte c @ hex_byte b @ hex_byte a) 4 = map hex_byte [a, b, c, d]"
    by (simp add: proc_pairs_def hex_byte_def upt_rec)
  with assms show ?thesis
    by (simp add: decodeProcAddress_def ParseUint16_hex_byte ip_string_def To4_def) (simp add: hex_byte_def)
qed

section \<open>Properties\<close>

definition demo_binding :: "string \<Rightarrow> int \<Rightarrow> Binding" where
  "demo_binding s p = \<lparr>eb_ServiceID = s, eb_Transport = TCP, eb_ContainerPort = 80, eb_Mode = Loopback,
     eb_HostAddress = ''127.0.0.1'', eb_HostPort = p\<rparr>"

lemma demo_loopback: "ParseIP ''127.0.0.1'' = Some (v4_mapped @ [127, 0, 0, 1])" "IsLoopback (v4_mapped @ [127, 0, 0, 1])"
proof -
  have "ipv4_string [127, 0, 0, 1] = ''127.0.0.1''" by code_simp
  with ParseIP_ipv4_string [of 127 0 0 1] show "ParseIP ''127.0.0.1'' = Some (v4_mapped @ [127, 0, 0, 1])" by simp
  show "IsLoopback (v4_mapped @ [127, 0, 0, 1])" by (simp add: IsLoopback_def To4_def v4_mapped_def)
qed

lemma demo_binding_valid:
  assumes "20000 \<le> p" and "p \<le> 29999" and "s \<noteq> []"
  shows "ValidateBinding (demo_binding s p) ''10.0.0.5'' 0 = Inr ()"
  using assms demo_loopback
  by (simp add: ValidateBinding_def validateAddress_def demo_binding_def FirstPort_def LastPort_def Loopback_def Internal_def)

text \<open>
  C11. Conflict detection. For bindings that passed validation, \<open>ValidateConflicts\<close> accepts
  exactly those lists in which no two bindings occupy a common socket, where a wildcard
  address occupies that port on every address of its family.
\<close>

theorem conflicts_detected:
  assumes "\<forall>b \<in> set bs. \<exists>fixed. ValidateBinding b lan fixed = Inr ()"
  shows "ValidateConflicts bs = Inr () \<longleftrightarrow> (\<forall>i < length bs. \<forall>j < i. sockets (bs ! i) \<inter> sockets (bs ! j) = {})"
proof -
  have "ParseIP (eb_HostAddress b) \<noteq> None" if "b \<in> set bs" and pub: "published b" for b
  proof -
    from assms \<open>b \<in> set bs\<close> obtain fixed where "ValidateBinding b lan fixed = Inr ()" by blast
    from ValidateBinding_sockets [OF this] pub show ?thesis by (auto simp: published_def)
  qed
  then show ?thesis
    unfolding ValidateConflicts_iff by (metis BindingsConflict_iff nth_mem order_less_trans)
qed

theorem conflicts_detected_witness:
  "ValidateConflicts [demo_binding ''web'' 20001, demo_binding ''api'' 20002] = Inr ()
   \<and> sockets (demo_binding ''api'' 20002) \<inter> sockets (demo_binding ''web'' 20001) = {}"
proof -
  let ?bs = "[demo_binding ''web'' 20001, demo_binding ''api'' 20002]"
  have v: "\<forall>b \<in> set ?bs. \<exists>fixed. ValidateBinding b ''10.0.0.5'' fixed = Inr ()"
    using demo_binding_valid [of 20001 "''web''"] demo_binding_valid [of 20002 "''api''"] by auto
  have c: "ValidateConflicts ?bs = Inr ()"
    by (simp add: ValidateConflicts_def BindingsConflict_def demo_binding_def)
  with conflicts_detected [OF v] have "\<forall>i < length ?bs. \<forall>j < i. sockets (?bs ! i) \<inter> sockets (?bs ! j) = {}" by blast
  then have "sockets (?bs ! 1) \<inter> sockets (?bs ! 0) = {}" by (metis One_nat_def length_Cons lessI list.size(3) zero_less_one)
  with c show ?thesis by simp
qed

text \<open>
  C12. Observed bindings. The comparison of expected and observed port bindings, with its
  greedy matching of repeated entries, decides whether the runtime reports exactly the
  expected bindings: the same container ports, and for each of them the same multiset of
  host addresses and ports, whatever the order.
\<close>

theorem observed_set_is_exact:
  assumes "distinct (map fst obs)"
  shows "ObservedBindingsExactSet expected obs \<longleftrightarrow> reports_exactly expected obs"
  using assms by (rule ObservedBindingsExactSet_spec)

theorem observed_set_is_exact_witness:
  "reports_exactly [demo_binding ''web'' 20001]
     [(''80/tcp'', JArr [JObj [(''HostPort'', JStr ''20001''), (''HostIp'', JStr ''127.0.0.1'')]])]"
proof -
  have k: "port_key 80 TCP = ''80/tcp''" and p: "itoa 20001 = ''20001''"
    by (simp add: port_key_def TCP_def itoa_def nat_digits.simps, code_simp)+
  have "ObservedBindingsExactSet [demo_binding ''web'' 20001]
     [(''80/tcp'', JArr [JObj [(''HostPort'', JStr ''20001''), (''HostIp'', JStr ''127.0.0.1'')]])]"
    by (simp add: ObservedBindingsExactSet_def wanted_keys_def wanted_items_def demo_binding_def item_socket_def
        k p Loopback_def Internal_def)
  with observed_set_is_exact [of "[(''80/tcp'', JArr [JObj [(''HostPort'', JStr ''20001''), (''HostIp'', JStr ''127.0.0.1'')]])]"]
  show ?thesis by simp
qed

text \<open>
  Allocation. Port allocation returns the smallest port of the range 20000 to 29999 that
  is neither assigned nor occupied on the address, and fails only when there is none.
\<close>

theorem allocation_is_least:
  "case AllocateAvailableTransport bindable used address transport of
     Inr p \<Rightarrow> FirstPort \<le> p \<and> p \<le> LastPort \<and> \<not> used p
       \<and> bindable (if transport = UDP then UDP else TCP) address p
       \<and> (\<forall>q. FirstPort \<le> q \<and> q < p \<longrightarrow> used q \<or> \<not> bindable (if transport = UDP then UDP else TCP) address q)
   | Inl _ \<Rightarrow> (\<forall>q. FirstPort \<le> q \<and> q \<le> LastPort \<longrightarrow> used q \<or> \<not> bindable (if transport = UDP then UDP else TCP) address q)"
  using allocate_spec [where P = "\<lambda>p. \<not> used p \<and> bindable (if transport = UDP then UDP else TCP) address p"
      and a = FirstPort and b = LastPort]
  unfolding AllocateAvailableTransport_def port_range_def de_Morgan_conj not_not conj_assoc .

theorem allocation_is_least_witness:
  "AllocateAvailableTransport (\<lambda>_ _ p. p \<noteq> 20001) (\<lambda>p. p = 20000) ''127.0.0.1'' TCP = Inr 20002
   \<and> FirstPort \<le> 20002 \<and> 20002 \<le> LastPort"
proof -
  have a: "AllocateAvailableTransport (\<lambda>_ _ p. p \<noteq> 20001) (\<lambda>p. p = 20000) ''127.0.0.1'' TCP = Inr 20002"
    by (simp add: AllocateAvailableTransport_def port_range_def FirstPort_def LastPort_def
        upto_rec1 [of 20000] upto_rec1 [of 20001] upto_rec1 [of 20002] del: upto_rec_numeral)
  with allocation_is_least [where bindable = "\<lambda>_ _ p. p \<noteq> 20001" and used = "\<lambda>p. p = 20000"
      and address = "''127.0.0.1''" and transport = TCP] show ?thesis by simp
qed

text \<open>
  What validation admits. A valid internal binding occupies no socket; any other valid
  binding occupies exactly one, on a loopback address or the configured LAN address and
  never on a wildcard, at the fixed port when the service has one and in the approved
  range otherwise.
\<close>

theorem valid_binding_sockets:
  assumes "ValidateBinding b lan fixed = Inr ()"
  shows "if eb_Mode b = Internal then sockets b = {}
    else \<exists>ip. ParseIP (eb_HostAddress b) = Some ip \<and> sockets b = {(eb_Transport b, eb_HostPort b, ip)}
      \<and> \<not> IsUnspecified ip \<and> (IsLoopback ip \<or> eb_HostAddress b = lan)
      \<and> (if fixed = 0 then FirstPort \<le> eb_HostPort b \<and> eb_HostPort b \<le> LastPort else eb_HostPort b = fixed)"
  using ValidateBinding_sockets [OF assms] by auto

theorem valid_binding_sockets_witness:
  "sockets (demo_binding ''web'' 20001) = {(TCP, 20001, v4_mapped @ [127, 0, 0, 1])}"
  using valid_binding_sockets [OF demo_binding_valid [of 20001 "''web''"]] demo_loopback
  by (simp add: demo_binding_def Loopback_def Internal_def)

text \<open>
  The exposure table. From a table that satisfies its constraints every upsert leads to
  one that does; an error leaves the table as it was, and a success stores the binding under
  its key, returns the stored row and touches no other key.
\<close>

theorem upsert_keeps_table:
  assumes "exposure_ok t" and "UpsertBinding now inst b lan fixed t = (res, t')"
  shows "exposure_ok t' \<and> (case res of Inl _ \<Rightarrow> t' = t
    | Inr r \<Rightarrow> (\<forall>k. tbl_get exposure_key k t' = (if k = (inst, eb_ServiceID b) then Some r else tbl_get exposure_key k t))
        \<and> x_transport r = eb_Transport b \<and> x_mode r = eb_Mode b \<and> x_host_address r = eb_HostAddress b
        \<and> x_host_port r = eb_HostPort b)"
proof (cases "t' = t \<and> (\<exists>e. res = Inl e)")
  case True
  with assms(1) show ?thesis by auto
next
  case False
  define row where "row = \<lparr>x_installation_id = inst, x_service_id = eb_ServiceID b,
     x_transport = eb_Transport b, x_mode = eb_Mode b, x_host_address = eb_HostAddress b,
     x_host_port = eb_HostPort b, x_created_at = now, x_updated_at = now\<rparr>"
  have k: "exposure_key row = (inst, eb_ServiceID b)" by (simp add: row_def exposure_key_def)
  from False assms(2) have run: "exposure_upsert row t = Inr t'" and res: "res = get_exposure inst (eb_ServiceID b) t'"
    by (auto simp: UpsertBinding_def Let_def row_def split: if_splits sum.splits)
  from exposure_upsert_ok [OF assms(1) run] obtain r' where ok: "exposure_ok t'"
      and get: "\<And>k. tbl_get exposure_key k t' = (if k = exposure_key row then Some r' else tbl_get exposure_key k t)"
      and cols: "x_transport r' = x_transport row" "x_mode r' = x_mode row" "x_host_address r' = x_host_address row" "x_host_port r' = x_host_port row"
    by blast
  have "res = Inr r'" using get k by (simp add: res get_exposure_def sql_row_key)
  with ok get k cols show ?thesis by (simp add: row_def)
qed

theorem upsert_keeps_table_witness:
  "\<exists>r t'. UpsertBinding ''t0'' ''blog'' (demo_binding ''web'' 20001) ''10.0.0.5'' 0 [] = (Inr r, t')
     \<and> exposure_ok t' \<and> tbl_get exposure_key (''blog'', ''web'') t' = Some r"
proof -
  have ids: "identityPattern ''blog''" "identityPattern ''web''" by code_simp+
  obtain r t' where u: "UpsertBinding ''t0'' ''blog'' (demo_binding ''web'' 20001) ''10.0.0.5'' 0 [] = (Inr r, t')"
    using demo_binding_valid [of 20001 "''web''"] ids
    by (simp add: UpsertBinding_def exposure_upsert_def demo_binding_def exposure_check_def
        get_exposure_def sql_row_def exposure_key_def Let_def)
  moreover have "exposure_ok []" by (simp add: exposure_ok_def tbl_wf_def)
  ultimately show ?thesis
    using upsert_keeps_table [OF _ u] by (auto simp: demo_binding_def)
qed

text \<open>
  Kernel socket tables. The address decoder turns the kernel's little-endian
  hexadecimal word of an IPv4 address into the dotted text that parses back to that address.
\<close>

theorem proc_address_roundtrip:
  assumes "\<forall>x \<in> set [a, b, c, d]. x \<le> 255"
  shows "bind_result (decodeProcAddress (hex_byte d @ hex_byte c @ hex_byte b @ hex_byte a) False) (\<lambda>s. Inr (ParseIP s))
    = Inr (Some (v4_mapped @ [a, b, c, d]))"
  using decodeProcAddress_ipv4 [OF assms] ParseIP_ipv4_string [OF assms] by simp

theorem proc_address_roundtrip_witness:
  "bind_result (decodeProcAddress ''0100007F'' False) (\<lambda>s. Inr (ParseIP s)) = Inr (Some (v4_mapped @ [127, 0, 0, 1]))"
proof -
  have "hex_byte 1 @ hex_byte 0 @ hex_byte 0 @ hex_byte 127 = ''0100007F''" by code_simp
  with proc_address_roundtrip [of 127 0 0 1] show ?thesis by simp
qed

end
