(* ===== verification/Manifest.thy ===== *)
theory Manifest
  imports Protocol Go_Net
begin

text \<open>
  \<^verbatim>\<open>internal/manifest/manifest.go\<close>: the application manifest, its validation and its
  resolution into a digest-pinned plan. A pointer is an option; the maps of seen names that
  the validation loops keep are lists.
\<close>

section \<open>Data\<close>

record MRelease =
  rl_Version :: string
  rl_Registry :: string
  rl_Repository :: string
  rl_Digest :: string
  rl_Platform :: string

record MStorage =
  sg_ID :: string
  sg_ContainerPath :: string
  sg_Persistent :: bool
  sg_ReadOnly :: bool
  sg_SystemConfig :: bool
  sg_OwnerUID :: int
  sg_OwnerGID :: int

record MIdentity =
  mi_UID :: int
  mi_GID :: int

record MExternal =
  xs_ID :: string
  xs_ContainerPath :: string
  xs_Mode :: string
  xs_Required :: bool
  xs_Purpose :: string

record BackupStorage =
  bs_Component :: string
  bs_ID :: string
  bs_Disposition :: string

record BackupPolicy =
  bp_Strategy :: string
  bp_Storage :: "BackupStorage list"

record CredentialPresentation =
  cr_ID :: string
  cr_Label :: string
  cr_Username :: string

record Env =
  en_Name :: string
  en_Value :: string
  en_Secret :: bool
  en_Generate :: string
  en_Required :: bool
  en_Credential :: "CredentialPresentation option"

record PresentedCredential =
  pc_ID :: string
  pc_Label :: string
  pc_Username :: string
  pc_ComponentID :: string
  pc_EnvironmentName :: string

record IngressEligibility =
  ie_ExposureModes :: "string list"
  ie_External :: bool

record ReadinessCheck =
  rd_Type :: string
  rd_Path :: string
  rd_ExpectedStatus :: "int list"
  rd_TimeoutSeconds :: int

record MService =
  se_ID :: string
  se_Name :: string
  se_Protocol :: string
  se_ContainerPort :: int
  se_DefaultExposure :: string
  se_FixedHostPort :: int
  se_Ingress :: "IngressEligibility option"
  se_Readiness :: "ReadinessCheck option"

record Accelerator =
  ac_Class :: string
  ac_Optional :: bool
  ac_CPUFallback :: bool

record MComponent =
  mk_ID :: string
  mk_Release :: string
  mk_Storage :: "MStorage list"
  mk_Environment :: "Env list"
  mk_Command :: "string list"
  mk_Services :: "MService list"
  mk_DependsOn :: "string list"
  mk_Restart :: string
  mk_Hardware :: "Accelerator list"
  mk_ExternalStorage :: "MExternal list"
  mk_RunAs :: "MIdentity option"

record LifecycleNotice =
  ln_Install :: string
  ln_Stop :: string
  ln_Remove :: string
  ln_RequireAcknowledgement :: bool

record MConfigurationPolicy =
  cf_Type :: string
  cf_StorageID :: string

record Manifest =
  ma_SchemaVersion :: int
  ma_ID :: string
  ma_Name :: string
  ma_Description :: string
  ma_Releases :: "MRelease list"
  ma_Storage :: "MStorage list"
  ma_Environment :: "Env list"
  ma_Command :: "string list"
  ma_Restart :: string
  ma_Services :: "MService list"
  ma_Components :: "MComponent list"
  ma_Hardware :: "Accelerator list"
  ma_ExternalStorage :: "MExternal list"
  ma_RunAs :: "MIdentity option"
  ma_Backup :: "BackupPolicy option"
  ma_Category :: string
  ma_Kind :: string
  ma_CatalogStatus :: string
  ma_WebsiteURL :: string
  ma_SourceURL :: string
  ma_DocumentationURL :: string
  ma_Logo :: string
  ma_Limitations :: "string list"
  ma_LifecycleNotice :: "LifecycleNotice option"
  ma_Configuration :: "MConfigurationPolicy option"

section \<open>Names, texts and paths\<close>

definition HardwareSchemaVersion :: int where "HardwareSchemaVersion = 3"
definition ExternalStorageSchemaVersion :: int where "ExternalStorageSchemaVersion = 4"
definition RuntimeIdentitySchemaVersion :: int where "RuntimeIdentitySchemaVersion = 5"
definition BackupSchemaVersion :: int where "BackupSchemaVersion = 6"
definition CatalogMetadataSchemaVersion :: int where "CatalogMetadataSchemaVersion = 7"
definition NetworkBindingSchemaVersion :: int where "NetworkBindingSchemaVersion = 8"
definition IngressReadinessSchemaVersion :: int where "IngressReadinessSchemaVersion = 9"

lemmas schema_versions = HardwareSchemaVersion_def ExternalStorageSchemaVersion_def RuntimeIdentitySchemaVersion_def
  BackupSchemaVersion_def CatalogMetadataSchemaVersion_def NetworkBindingSchemaVersion_def IngressReadinessSchemaVersion_def

definition id_char :: "char \<Rightarrow> bool" where
  "id_char c = (is_lower c \<or> is_digit c \<or> c = CHR ''-'')"

definition idPattern :: "string \<Rightarrow> bool" where
  "idPattern = match_head_tail is_lower id_char 1 31"

definition logoPattern :: "string \<Rightarrow> bool" where
  "logoPattern = match_head_tail is_lower id_char 1 63"

definition digestPattern :: "string \<Rightarrow> bool" where
  "digestPattern = match_prefix_rep ''sha256:'' is_hex_lower 64"

definition legacyEnvPattern :: "string \<Rightarrow> bool" where
  "legacyEnvPattern = match_head_tail (\<lambda>c. is_upper c \<or> c = CHR ''_'') (\<lambda>c. is_upper c \<or> is_digit c \<or> c = CHR ''_'') 0 63"

definition v8EnvPattern :: "string \<Rightarrow> bool" where
  "v8EnvPattern = match_head_tail (\<lambda>c. is_upper c \<or> c = CHR ''_'')
     (\<lambda>c. is_upper c \<or> is_lower c \<or> is_digit c \<or> c = CHR ''_'') 0 63"

definition catalogCategories :: "string list" where
  "catalogCategories = [''AI'', ''Developer Tools'', ''Documents'', ''Files'', ''Finance'', ''Food and recipes'',
     ''Home automation'', ''Media'', ''Monitoring'', ''Music'', ''Networking'', ''Notes'', ''Productivity'',
     ''Reading'', ''Security'']"

definition crlf :: string where
  "crlf = [CHR 0x0D, CHR 0x0A]"

definition ValidClass :: "string \<Rightarrow> bool" where
  "ValidClass c = (c \<in> set [''gpu.nvidia'', ''gpu.amd'', ''gpu.intel.render'', ''video.vaapi''])"

definition validCatalogText :: "string \<Rightarrow> nat \<Rightarrow> bool" where
  "validCatalogText v limit = (v \<noteq> [] \<and> v = trim_space v \<and> length v \<le> limit \<and> \<not> contains_any v crlf)"

lemma validCatalogText_code [code]:
  "validCatalogText v limit = (v \<noteq> [] \<and> length v \<le> limit \<and> \<not> contains_any v crlf
     \<and> (if list_all visible_ascii v then True else v = trim_space v))"
  using trim_space_visible [of v] by (auto simp: validCatalogText_def)

definition optionalCatalogText :: "string \<Rightarrow> nat \<Rightarrow> bool" where
  "optionalCatalogText v limit = (v = [] \<or> validCatalogText v limit)"

definition validEnvironmentName :: "string \<Rightarrow> int \<Rightarrow> bool" where
  "validEnvironmentName name v = (if NetworkBindingSchemaVersion \<le> v then v8EnvPattern name else legacyEnvPattern name)"

definition containsRuntimeSocket :: "string \<Rightarrow> bool" where
  "containsRuntimeSocket path = list_ex (\<lambda>c. c \<in> set [''docker.sock'', ''podman.sock'', ''containerd.sock'']) (split_on CHR ''/'' path)"

definition safeContainerPath :: "string \<Rightarrow> bool \<Rightarrow> bool" where
  "safeContainerPath path systemConfig =
     (if \<not> has_prefix ''/'' path \<or> str_contains ''..'' path \<or> path = ''/'' \<or> has_prefix ''/proc'' path
         \<or> has_prefix ''/sys'' path \<or> has_prefix ''/dev'' path \<or> containsRuntimeSocket path then False
      else if has_prefix ''/etc'' path then systemConfig \<and> has_prefix ''/etc/'' path \<and> path \<noteq> ''/etc/''
      else \<not> systemConfig)"

section \<open>Catalog URLs\<close>

text \<open>
  \<open>url.ParseRequestURI\<close> (Go 1.26), as far as \<open>validCatalogURL\<close> depends on it: a string
  with an ASCII control byte is rejected; after the scheme the query is cut off; an authority
  follows \<open>//\<close> and ends at the next slash; an authority with \<open>@\<close> has user information;
  a host is a bracketed IPv6 address, possibly with a zone, or a name with an optional port
  after its first colon; percent escapes must be well formed. The request form never splits off
  a fragment, so \<open>Fragment\<close> is empty for every string.
\<close>

definition ascii_lower :: "char \<Rightarrow> char" where
  "ascii_lower c = (if is_upper c then char_of (of_char c + 32 :: nat) else c)"

definition host_char :: "char \<Rightarrow> bool" where
  "host_char c = (is_lower c \<or> is_upper c \<or> is_digit c \<or> 128 \<le> (of_char c :: nat)
     \<or> c \<in> set ''-_.~!$&'' \<or> c \<in> set [CHR 0x27] \<or> c \<in> set ''()*+,;=:[]<>'' \<or> c = CHR 0x22)"

fun path_escapes_ok :: "string \<Rightarrow> bool" where
  "path_escapes_ok [] = True"
| "path_escapes_ok (c # s) =
     (if c = CHR ''%'' then (case s of a # b # r \<Rightarrow> is_hex a \<and> is_hex b \<and> path_escapes_ok r | _ \<Rightarrow> False)
      else path_escapes_ok s)"

text \<open>\<open>unescape(s, encodeHost)\<close>: only bytes above 127 and the percent sign may be escaped.\<close>

fun unescape_host :: "string \<Rightarrow> string option" where
  "unescape_host [] = Some []"
| "unescape_host (c # s) =
     (if c = CHR ''%'' then
        (case s of a # b # r \<Rightarrow>
           if is_hex a \<and> is_hex b \<and> (8 \<le> hex_val a \<or> (a = CHR ''2'' \<and> b = CHR ''5''))
           then map_option (Cons (char_of (16 * hex_val a + hex_val b))) (unescape_host r) else None
         | _ \<Rightarrow> None)
      else if host_char c then map_option (Cons c) (unescape_host s) else None)"

fun zone_escapes_ok :: "string \<Rightarrow> bool" where
  "zone_escapes_ok [] = True"
| "zone_escapes_ok (c # s) =
     (if c = CHR ''%'' then
        (case s of a # b # r \<Rightarrow> is_hex a \<and> is_hex b
             \<and> ((a = CHR ''2'' \<and> b = CHR ''5'') \<or> (a = CHR ''2'' \<and> b = CHR ''0'')
                \<or> 128 \<le> 16 * hex_val a + hex_val b \<or> host_char (char_of (16 * hex_val a + hex_val b)))
             \<and> zone_escapes_ok r
         | _ \<Rightarrow> False)
      else host_char c \<and> zone_escapes_ok s)"

definition validOptionalPort :: "string \<Rightarrow> bool" where
  "validOptionalPort p = (case p of [] \<Rightarrow> True | c # ds \<Rightarrow> c = CHR '':'' \<and> list_all is_digit ds)"

text \<open>Everything before, and from, the first byte with a property.\<close>

definition cut_at :: "(char \<Rightarrow> bool) \<Rightarrow> string \<Rightarrow> string \<times> string" where
  "cut_at P s = (takeWhile (\<lambda>c. \<not> P c) s, dropWhile (\<lambda>c. \<not> P c) s)"

definition after_last :: "char \<Rightarrow> string \<Rightarrow> string" where
  "after_last c s = rev (takeWhile (\<lambda>x. x \<noteq> c) (rev s))"

fun cut_zone :: "string \<Rightarrow> string \<times> string option" where
  "cut_zone [] = ([], None)"
| "cut_zone (c # s) = (if has_prefix ''%25'' (c # s) then ([], Some (drop 2 s))
     else (case cut_zone s of (a, z) \<Rightarrow> (c # a, z)))"

definition bracket_host_ok :: "string \<Rightarrow> bool" where
  "bracket_host_ok host =
     (has_prefix ''['' host \<and> CHR '']'' \<in> set host \<and>
      (let colonPort = after_last CHR '']'' host;
           inner = after_last CHR ''['' (take (length host - length colonPort - 1) host) in
       validOptionalPort colonPort \<and> unescape_host colonPort \<noteq> None \<and>
       (case cut_zone inner of
          (a, None) \<Rightarrow> (case unescape_host a of None \<Rightarrow> False | Some u \<Rightarrow> parse_ipv6 u \<noteq> None)
        | (a, Some z) \<Rightarrow> zone_escapes_ok z \<and> z \<noteq> []
            \<and> (case unescape_host a of None \<Rightarrow> False | Some u \<Rightarrow> parse_ipv6 u \<noteq> None))))"

definition parseHost_ok :: "string \<Rightarrow> bool" where
  "parseHost_ok host =
     (if CHR ''['' \<in> set host then bracket_host_ok host
      else validOptionalPort (snd (cut_at (\<lambda>c. c = CHR '':'') host)) \<and> unescape_host host \<noteq> None)"

definition validCatalogURL :: "string \<Rightarrow> bool" where
  "validCatalogURL v =
     (length v \<le> 512 \<and> \<not> contains_any v (crlf @ [CHR 0x09]) \<and>
      list_all (\<lambda>c. 32 \<le> (of_char c :: nat) \<and> of_char c \<noteq> (127 :: nat)) v \<and>
      map ascii_lower (take 5 v) = ''https'' \<and> has_prefix '':'' (drop 5 v) \<and>
      (let rest = fst (cut_at (\<lambda>c. c = CHR ''?'') (drop 6 v)) in
       has_prefix ''//'' rest \<and>
       (let (authority, path) = cut_at (\<lambda>c. c = CHR ''/'') (drop 2 rest) in
        CHR ''@'' \<notin> set authority \<and> authority \<noteq> [] \<and> parseHost_ok authority \<and> path_escapes_ok path)))"

section \<open>Validation of the parts\<close>

definition bad :: "string \<Rightarrow> 'a result" where
  "bad message = Inl (Errorf message)"

definition guard :: "bool \<Rightarrow> string \<Rightarrow> unit result" where
  "guard violated message = (if violated then bad message else Inr ())"

lemma guard_Inr_iff [simp]: "guard v m = Inr () \<longleftrightarrow> \<not> v"
  by (simp add: guard_def bad_def)

definition then_check :: "unit result \<Rightarrow> unit result \<Rightarrow> unit result" where
  "then_check a b = bind_result a (\<lambda>_. b)"

lemma then_check_Inr_iff [simp]: "then_check a b = Inr () \<longleftrightarrow> a = Inr () \<and> b = Inr ()"
  by (simp add: then_check_def bind_result_Inr_iff)

fun checks :: "unit result list \<Rightarrow> unit result" where
  "checks [] = Inr ()"
| "checks (c # cs) = then_check c (checks cs)"

lemma checks_Inr_iff: "checks cs = Inr () \<longleftrightarrow> (\<forall>c \<in> set cs. c = Inr ())"
  by (induction cs) auto

definition validateRuntimeIdentity :: "MIdentity option \<Rightarrow> unit result" where
  "validateRuntimeIdentity identity = (case identity of None \<Rightarrow> Inr ()
     | Some x \<Rightarrow> guard (mi_UID x < 1 \<or> 65535 < mi_UID x \<or> mi_GID x < 1 \<or> 65535 < mi_GID x) ''runtime identity outside policy'')"

definition validateStorageOwnership :: "MStorage \<Rightarrow> unit result" where
  "validateStorageOwnership s = checks
     [guard ((sg_OwnerUID s = 0) \<noteq> (sg_OwnerGID s = 0)) ''managed storage owner requires uid and gid'',
      guard (sg_OwnerUID s < 0 \<or> 65535 < sg_OwnerUID s \<or> sg_OwnerGID s < 0 \<or> 65535 < sg_OwnerGID s)
        ''managed storage owner outside policy'']"

definition storageHasOwnership :: "MStorage list \<Rightarrow> bool" where
  "storageHasOwnership items = list_ex (\<lambda>s. sg_OwnerUID s \<noteq> 0) items"

definition componentsHaveRuntimeIdentity :: "MComponent list \<Rightarrow> bool" where
  "componentsHaveRuntimeIdentity cs = list_ex (\<lambda>c. mk_RunAs c \<noteq> None \<or> storageHasOwnership (mk_Storage c)) cs"

definition componentsHaveHardware :: "MComponent list \<Rightarrow> bool" where
  "componentsHaveHardware cs = list_ex (\<lambda>c. mk_Hardware c \<noteq> []) cs"

definition componentsHaveExternalStorage :: "MComponent list \<Rightarrow> bool" where
  "componentsHaveExternalStorage cs = list_ex (\<lambda>c. mk_ExternalStorage c \<noteq> []) cs"

definition validateSystemConfigStorage :: "MStorage \<Rightarrow> int \<Rightarrow> unit result" where
  "validateSystemConfigStorage s v =
     guard (sg_SystemConfig s \<and> (v < NetworkBindingSchemaVersion \<or> \<not> sg_Persistent s \<or> sg_ReadOnly s))
       ''managed system configuration requires schema version 8 persistent read-write storage''"

definition validateDefaultExposure :: "MService \<Rightarrow> int \<Rightarrow> unit result" where
  "validateDefaultExposure s v =
     (if se_DefaultExposure s = [] then Inr ()
      else checks [guard (v < NetworkBindingSchemaVersion \<or> se_DefaultExposure s \<notin> set [''internal'', ''loopback'', ''lan''])
          ''default exposure requires schema version 8 and a constrained mode'',
        guard (se_DefaultExposure s = ''lan'' \<and> se_FixedHostPort s = 0) ''default LAN exposure requires a trusted fixed host port''])"

definition validateHardware :: "Accelerator list \<Rightarrow> unit result" where
  "validateHardware items = then_check (guard (4 < length items) ''too many hardware requirements'')
     (each_unique (\<lambda>a. [ac_Class a]) (\<lambda>a dup. checks
        [guard (\<not> ValidClass (ac_Class a) \<or> dup) ''unknown or duplicate device class'',
         guard (ac_CPUFallback a \<and> \<not> ac_Optional a) ''CPU fallback requires optional acceleration'']) items [])"

definition validateExternalStorage :: "MExternal list \<Rightarrow> MStorage list \<Rightarrow> unit result" where
  "validateExternalStorage items managed = then_check (guard (8 < length items) ''too many external storage slots'')
     (each_unique (\<lambda>x. [Inl (xs_ID x), Inr (xs_ContainerPath x)]) (\<lambda>x dup.
        guard (\<not> idPattern (xs_ID x) \<or> dup \<or> xs_Mode x \<notin> set [''read-only'', ''read-write'']
            \<or> \<not> safeContainerPath (xs_ContainerPath x) False \<or> xs_Purpose x = [] \<or> 80 < length (xs_Purpose x)
            \<or> contains_any (xs_Purpose x) crlf) ''invalid external storage declaration'') items
       (concat (map (\<lambda>s. [Inl (sg_ID s), Inr (sg_ContainerPath s)]) managed)))"

definition check_mode :: "IngressEligibility \<Rightarrow> string \<Rightarrow> bool \<Rightarrow> unit result" where
  "check_mode policy mode dup = checks
     [guard (dup \<or> mode \<notin> set [''lan'', ''managed-https'', ''cloudflare-tunnel'']) ''invalid ingress exposure policy'',
      guard (mode = ''cloudflare-tunnel'' \<and> \<not> ie_External policy) ''Cloudflare exposure requires external access opt-in'']"

definition http_service :: "MService \<Rightarrow> bool" where
  "http_service s = (se_Protocol s = ''http'' \<or> se_Protocol s = ''https'')"

definition readiness_path_ok :: "string \<Rightarrow> bool" where
  "readiness_path_ok p = (p \<noteq> [] \<and> length p \<le> 256 \<and> has_prefix ''/'' p \<and> \<not> has_prefix ''//'' p
     \<and> \<not> contains_any p (CHR 0x5C # crlf @ [CHR 0x09, CHR ''?'', CHR ''#'']) \<and> \<not> str_contains ''..'' p)"

definition validateReadiness :: "MService \<Rightarrow> ReadinessCheck \<Rightarrow> unit result" where
  "validateReadiness s c = then_check
     (guard (rd_TimeoutSeconds c < 1 \<or> 30 < rd_TimeoutSeconds c) ''invalid readiness timeout'')
     (if rd_Type c \<in> set [''runtime'', ''docker-health'', ''tcp''] then
        guard (rd_Path c \<noteq> [] \<or> rd_ExpectedStatus c \<noteq> []) ''non-HTTP readiness cannot declare HTTP policy''
      else if rd_Type c = ''http'' then checks
        [guard (\<not> http_service s) ''HTTP readiness requires an HTTP service'',
         guard (\<not> readiness_path_ok (rd_Path c)) ''invalid readiness path'',
         guard (rd_ExpectedStatus c = [] \<or> 8 < length (rd_ExpectedStatus c)) ''invalid readiness status policy'',
         each_unique (\<lambda>x. [x]) (\<lambda>x dup. guard (x < 100 \<or> 599 < x \<or> dup) ''invalid readiness status policy'') (rd_ExpectedStatus c) []]
      else bad ''unsupported readiness type'')"

definition validateIngressReadiness :: "MService \<Rightarrow> int \<Rightarrow> unit result" where
  "validateIngressReadiness s v =
     (if se_Ingress s = None \<and> se_Readiness s = None then Inr ()
      else checks [guard (v < IngressReadinessSchemaVersion) ''ingress and readiness require schema version 9'',
        (case se_Ingress s of None \<Rightarrow> Inr () | Some policy \<Rightarrow> checks
           [guard (\<not> http_service s) ''ingress requires an HTTP service'',
            guard (ie_ExposureModes policy = [] \<or> 3 < length (ie_ExposureModes policy)) ''invalid ingress exposure policy'',
            each_unique (\<lambda>x. [x]) (check_mode policy) (ie_ExposureModes policy) []]),
        (case se_Readiness s of None \<Rightarrow> Inr () | Some c \<Rightarrow> validateReadiness s c)])"

section \<open>Storage, environment, services\<close>

definition check_storage :: "int \<Rightarrow> MStorage \<Rightarrow> bool \<Rightarrow> unit result" where
  "check_storage v s dup = checks
     [guard (\<not> idPattern (sg_ID s) \<or> dup \<or> \<not> safeContainerPath (sg_ContainerPath s) (sg_SystemConfig s)) ''invalid storage declaration'',
      validateSystemConfigStorage s v, validateStorageOwnership s]"

definition generated_secret_bad :: "Env \<Rightarrow> bool" where
  "generated_secret_bad e = ((en_Generate e \<noteq> [] \<and> (\<not> en_Secret e \<or> \<not> en_Required e))
     \<or> (en_Generate e \<noteq> [] \<and> en_Generate e \<noteq> ''random-hex-32''))"

definition check_env :: "int \<Rightarrow> Env \<Rightarrow> bool \<Rightarrow> unit result" where
  "check_env v e dup = checks
     [guard (\<not> validEnvironmentName (en_Name e) v \<or> dup \<or> (en_Required e \<and> en_Value e \<noteq> [])) ''invalid environment declaration'',
      guard (en_Secret e \<and> en_Value e \<noteq> []) ''secret values may not be embedded'',
      guard (generated_secret_bad e) ''invalid generated secret declaration'']"

definition check_component_env :: "int \<Rightarrow> Env \<Rightarrow> bool \<Rightarrow> unit result" where
  "check_component_env v e dup = checks
     [guard (\<not> validEnvironmentName (en_Name e) v \<or> dup \<or> (en_Required e \<and> en_Value e \<noteq> []) \<or> (en_Secret e \<and> en_Value e \<noteq> []))
        ''invalid environment declaration'',
      guard (generated_secret_bad e) ''invalid generated secret declaration'']"

definition service_keys :: "MService \<Rightarrow> (string + string) list" where
  "service_keys s = [Inl (se_ID s), Inr (itoa (se_ContainerPort s) @ ''/'' @ se_Protocol s)]"

definition check_service :: "int \<Rightarrow> string \<Rightarrow> MService \<Rightarrow> bool \<Rightarrow> unit result" where
  "check_service v message s dup = checks
     [guard (\<not> idPattern (se_ID s) \<or> se_Name s = [] \<or> 128 < length (se_Name s) \<or> dup \<or> se_ContainerPort s < 1
         \<or> 65535 < se_ContainerPort s \<or> se_Protocol s \<notin> set [''http'', ''https'', ''tcp'', ''udp'']) message,
      guard (se_FixedHostPort s \<noteq> 0 \<and> (v < NetworkBindingSchemaVersion \<or> se_FixedHostPort s < 1 \<or> 65535 < se_FixedHostPort s))
        ''fixed host port requires schema version 8 and a valid port'',
      validateDefaultExposure s v, validateIngressReadiness s v]"

definition command_arg_ok :: "string \<Rightarrow> bool" where
  "command_arg_ok c = (c \<noteq> [] \<and> length c \<le> 256 \<and> \<not> contains_any c crlf)"

definition validateComponentFields :: "MComponent \<Rightarrow> int \<Rightarrow> unit result" where
  "validateComponentFields c v = checks
     [each_unique (\<lambda>s. [sg_ID s]) (check_storage v) (mk_Storage c) [],
      each_unique (\<lambda>e. [en_Name e]) (check_component_env v) (mk_Environment c) [],
      guard (16 < length (mk_Command c) \<or> 8 < length (mk_Services c)) ''component declaration too large'',
      each (\<lambda>arg. guard (\<not> command_arg_ok arg \<or> arg \<in> set [''/bin/sh'', ''/bin/bash'', ''-c'']) ''invalid command'') (mk_Command c),
      each_unique service_keys (check_service v ''invalid service'') (mk_Services c) []]"

section \<open>Catalog metadata, credentials, configuration, backup\<close>

definition hasCatalogMetadata :: "Manifest \<Rightarrow> bool" where
  "hasCatalogMetadata m = (ma_Category m \<noteq> [] \<or> ma_Kind m \<noteq> [] \<or> ma_CatalogStatus m \<noteq> [] \<or> ma_WebsiteURL m \<noteq> []
     \<or> ma_SourceURL m \<noteq> [] \<or> ma_DocumentationURL m \<noteq> [] \<or> ma_Logo m \<noteq> [] \<or> ma_Limitations m \<noteq> []
     \<or> ma_LifecycleNotice m \<noteq> None)"

definition validateCatalogMetadata :: "Manifest \<Rightarrow> unit result" where
  "validateCatalogMetadata m = checks
     [guard (ma_Category m \<notin> set catalogCategories) ''invalid catalog category'',
      guard (ma_Kind m \<noteq> ''application'' \<and> ma_Kind m \<noteq> ''network-service'') ''invalid application kind'',
      guard (ma_CatalogStatus m \<noteq> ''standard'' \<and> ma_CatalogStatus m \<noteq> ''experimental'') ''invalid catalog status'',
      each (\<lambda>u. guard (u \<noteq> [] \<and> \<not> validCatalogURL u) ''invalid catalog URL'') [ma_WebsiteURL m, ma_SourceURL m, ma_DocumentationURL m],
      guard (ma_Logo m \<noteq> [] \<and> \<not> logoPattern (ma_Logo m)) ''invalid catalog logo'',
      guard (8 < length (ma_Limitations m)) ''too many catalog limitations'',
      each_unique (\<lambda>l. [l]) (\<lambda>l dup. guard (\<not> validCatalogText l 280 \<or> dup) ''invalid catalog limitation'') (ma_Limitations m) [],
      (case ma_LifecycleNotice m of None \<Rightarrow> Inr () | Some n \<Rightarrow> checks
         [guard (\<not> optionalCatalogText (ln_Install n) 280 \<or> \<not> optionalCatalogText (ln_Stop n) 280
             \<or> \<not> optionalCatalogText (ln_Remove n) 280) ''invalid lifecycle notice'',
          guard (ln_Install n = [] \<and> ln_Stop n = [] \<and> ln_Remove n = []) ''empty lifecycle notice''])]"

definition presented :: "string \<Rightarrow> Env list \<Rightarrow> PresentedCredential list" where
  "presented component es = concat (map (\<lambda>e. case en_Credential e of None \<Rightarrow> []
     | Some c \<Rightarrow> [\<lparr>pc_ID = cr_ID c, pc_Label = cr_Label c, pc_Username = cr_Username c,
         pc_ComponentID = component, pc_EnvironmentName = en_Name e\<rparr>]) es)"

definition PresentedCredentials :: "Manifest \<Rightarrow> PresentedCredential list" where
  "PresentedCredentials m = presented [] (ma_Environment m)
     @ concat (map (\<lambda>c. presented (mk_ID c) (mk_Environment c)) (ma_Components m))"

definition FindPresentedCredential :: "Manifest \<Rightarrow> string \<Rightarrow> PresentedCredential option" where
  "FindPresentedCredential m i = find (\<lambda>c. pc_ID c = i) (PresentedCredentials m)"

text \<open>
  The closure of \<open>validateCredentialPresentations\<close>, applied to the manifest's variables
  and then to those of each component (tagged, since the error is wrapped there); the map of
  seen credential IDs runs through all of them.
\<close>

definition check_credential :: "int \<Rightarrow> bool \<times> Env \<Rightarrow> bool \<Rightarrow> unit result" where
  "check_credential v te dup = (case te of (in_component, e) \<Rightarrow>
     (if in_component then wrapf ''component'' else id)
     (case en_Credential e of None \<Rightarrow> Inr ()
      | Some c \<Rightarrow> checks
         [guard (v < NetworkBindingSchemaVersion) ''credential presentation requires schema version 8'',
          guard (\<not> en_Secret e \<or> \<not> en_Required e \<or> en_Generate e \<noteq> ''random-hex-32'' \<or> en_Value e \<noteq> [])
            ''credential presentation requires a generated secret'',
          guard (\<not> idPattern (cr_ID c) \<or> dup \<or> \<not> validCatalogText (cr_Label c) 64 \<or> \<not> optionalCatalogText (cr_Username c) 64)
            ''invalid credential presentation'']))"

definition credential_keys :: "bool \<times> Env \<Rightarrow> string list" where
  "credential_keys te = (case en_Credential (snd te) of None \<Rightarrow> [] | Some c \<Rightarrow> [cr_ID c])"

definition validateCredentialPresentations :: "Manifest \<Rightarrow> unit result" where
  "validateCredentialPresentations m =
     each_unique credential_keys (check_credential (ma_SchemaVersion m))
       (map (Pair False) (ma_Environment m) @ map (Pair True) (concat (map mk_Environment (ma_Components m)))) []"

definition validateConfigurationPolicy :: "Manifest \<Rightarrow> unit result" where
  "validateConfigurationPolicy m = (case ma_Configuration m of None \<Rightarrow> Inr ()
     | Some c \<Rightarrow> then_check
         (guard (ma_SchemaVersion m < NetworkBindingSchemaVersion \<or> ma_Components m \<noteq> [] \<or> cf_Type c \<noteq> ''syncthing-tcp-only-v1''
            \<or> \<not> idPattern (cf_StorageID c)) ''invalid structured configuration policy'')
         (case find (\<lambda>s. sg_ID s = cf_StorageID c) (ma_Storage m) of
            None \<Rightarrow> bad ''structured configuration policy storage not found''
          | Some s \<Rightarrow> guard (\<not> sg_Persistent s \<or> sg_ReadOnly s \<or> sg_ContainerPath s \<noteq> ''/var/syncthing'')
              ''structured configuration policy requires managed read-write Syncthing storage''))"

text \<open>The keys of the map \<open>declared\<close>; its size is the number of distinct keys.\<close>

definition declared_keys :: "Manifest \<Rightarrow> string list" where
  "declared_keys m = remdups (map (\<lambda>s. ''app/'' @ sg_ID s) (filter sg_Persistent (ma_Storage m))
     @ concat (map (\<lambda>c. map (\<lambda>s. mk_ID c @ ''/'' @ sg_ID s) (filter sg_Persistent (mk_Storage c))) (ma_Components m)))"

definition backup_key :: "BackupStorage \<Rightarrow> string" where
  "backup_key b = bs_Component b @ ''/'' @ bs_ID b"

definition validateBackupPolicy :: "Manifest \<Rightarrow> unit result" where
  "validateBackupPolicy m = (case ma_Backup m of None \<Rightarrow> Inr ()
     | Some policy \<Rightarrow> let declared = declared_keys m in
       if bp_Strategy policy \<notin> set [''metadata-only'', ''cold-filesystem'', ''cold-sqlite-filesystem''] then bad ''invalid backup strategy''
       else if bp_Strategy policy = ''metadata-only'' then
         guard (declared \<noteq> [] \<or> bp_Storage policy \<noteq> []) ''metadata-only backup cannot declare persistent storage''
       else checks
         [guard (declared = [] \<or> length (bp_Storage policy) \<noteq> length declared) ''backup policy must classify every persistent storage declaration'',
          each_unique (\<lambda>b. [backup_key b]) (\<lambda>b dup. checks
            [guard (bs_Component b = [] \<or> bs_ID b = [] \<or> bs_Disposition b \<notin> set [''include'', ''exclude-ephemeral'']) ''invalid backup storage policy'',
             guard (backup_key b \<notin> set declared \<or> dup) ''backup storage policy references unknown or duplicate storage'']) (bp_Storage policy) [],
          guard (\<not> list_ex (\<lambda>b. bs_Disposition b = ''include'') (bp_Storage policy)) ''backup policy must include authoritative storage''])"

section \<open>Validation of a manifest\<close>

definition check_release :: "MRelease \<Rightarrow> bool \<Rightarrow> unit result" where
  "check_release r dup = checks
     [guard (rl_Version r = [] \<or> dup) ''duplicate/invalid release version'',
      guard (rl_Registry r \<notin> set [''docker.io'', ''ghcr.io'', ''codeberg.org'']) ''registry not allowed'',
      guard (contains_any (rl_Repository r) [CHR '' '', CHR 0x09, CHR 0x0A] \<or> \<not> digestPattern (rl_Digest r)
         \<or> rl_Platform r \<noteq> ''linux/amd64'') ''invalid release image'']"

definition restart_ok :: "string \<Rightarrow> bool" where
  "restart_ok r = (r = [] \<or> r = ''no'' \<or> r = ''unless-stopped'')"

definition check_component :: "int \<Rightarrow> string list \<Rightarrow> MComponent \<Rightarrow> bool \<Rightarrow> unit result" where
  "check_component v releaseIDs c dup = checks
     [guard (\<not> idPattern (mk_ID c) \<or> dup \<or> mk_Release c = [] \<or> 64 < length (mk_Release c) \<or> mk_Release c \<notin> set releaseIDs)
        ''invalid component declaration'',
      guard (\<not> restart_ok (mk_Restart c)) ''invalid component restart policy'',
      wrapf ''component'' (validateComponentFields c v), wrapf ''component'' (validateHardware (mk_Hardware c)),
      wrapf ''component'' (validateExternalStorage (mk_ExternalStorage c) (mk_Storage c)),
      wrapf ''component'' (validateRuntimeIdentity (mk_RunAs c))]"

definition validate_schema :: "Manifest \<Rightarrow> unit result" where
  "validate_schema m = (let v = ma_SchemaVersion m in checks
     [guard (v < 1 \<or> IngressReadinessSchemaVersion < v) ''unsupported manifest schema version'',
      guard (v = 1 \<and> ma_Components m \<noteq> []) ''components require schema version 2'',
      guard (v = 2 \<and> length (ma_Components m) < 2) ''multi-container manifest requires at least two components'',
      guard (v = HardwareSchemaVersion \<and> length (ma_Components m) = 1) ''multi-container manifest requires at least two components'',
      guard (v < HardwareSchemaVersion \<and> (ma_Hardware m \<noteq> [] \<or> componentsHaveHardware (ma_Components m))) ''hardware requires schema version 3'',
      guard (v < ExternalStorageSchemaVersion \<and> (ma_ExternalStorage m \<noteq> [] \<or> componentsHaveExternalStorage (ma_Components m)))
        ''external storage requires schema version 4'',
      guard (v < RuntimeIdentitySchemaVersion \<and> (ma_RunAs m \<noteq> None \<or> storageHasOwnership (ma_Storage m) \<or> componentsHaveRuntimeIdentity (ma_Components m)))
        ''runtime identity requires schema version 5'',
      guard (v < BackupSchemaVersion \<and> ma_Backup m \<noteq> None) ''backup policy requires schema version 6'',
      guard (BackupSchemaVersion \<le> v \<and> ma_Backup m = None) ''schema version requires backup policy'',
      guard (v < CatalogMetadataSchemaVersion \<and> hasCatalogMetadata m) ''catalog metadata requires schema version 7'',
      if CatalogMetadataSchemaVersion \<le> v then validateCatalogMetadata m else Inr ()])"

definition Validate :: "Manifest \<Rightarrow> unit result" where
  "Validate m = (let v = ma_SchemaVersion m in checks
     [validate_schema m, validateRuntimeIdentity (ma_RunAs m), validateExternalStorage (ma_ExternalStorage m) (ma_Storage m),
      validateHardware (ma_Hardware m),
      guard (\<not> idPattern (ma_ID m) \<or> ma_Name m = [] \<or> 128 < length (ma_Name m) \<or> 280 < length (ma_Description m)
         \<or> contains_any (ma_Description m) crlf) ''invalid application identity'',
      guard (ma_Releases m = [] \<or> 16 < length (ma_Releases m)) ''release list invalid'',
      each_unique (\<lambda>r. [rl_Version r]) check_release (ma_Releases m) [],
      each_unique (\<lambda>s. [sg_ID s]) (check_storage v) (ma_Storage m) [],
      each_unique (\<lambda>e. [en_Name e]) (check_env v) (ma_Environment m) [],
      guard (\<not> restart_ok (ma_Restart m)) ''invalid restart policy'',
      guard (16 < length (ma_Command m)) ''command too long'',
      each (\<lambda>c. guard (\<not> command_arg_ok c) ''invalid command'') (ma_Command m),
      guard (8 < length (ma_Services m)) ''too many services'',
      each_unique service_keys (check_service v ''invalid port'') (ma_Services m) [],
      guard (16 < length (ma_Components m)) ''too many components'',
      each_unique (\<lambda>c. [mk_ID c]) (check_component v (map rl_Version (ma_Releases m))) (ma_Components m) [],
      validateCredentialPresentations m, validateConfigurationPolicy m,
      each (\<lambda>c. each (\<lambda>dep. guard (dep \<notin> set (map mk_ID (ma_Components m))) ''component dependency not found'') (mk_DependsOn c)) (ma_Components m),
      validateBackupPolicy m])"

section \<open>Resolution\<close>

record ResolvedComponent =
  rv_ID :: string
  rv_ImageDigest :: string
  rv_Command :: "string list"
  rv_Environment :: "Env list"
  rv_Storage :: "MStorage list"
  rv_Services :: "MService list"
  rv_DependsOn :: "string list"
  rv_Restart :: string
  rv_Hardware :: "Accelerator list"
  rv_ExternalStorage :: "MExternal list"
  rv_RunAs :: "MIdentity option"

record MPlan =
  mn_ApplicationID :: string
  mn_ReleaseID :: string
  mn_InstanceID :: string
  mn_ImageDigest :: string
  mn_NetworkName :: string
  mn_DataPath :: string
  mn_Restart :: string
  mn_Command :: "string list"
  mn_Environment :: "Env list"
  mn_Storage :: "MStorage list"
  mn_Services :: "MService list"
  mn_Components :: "MComponent list"
  mn_ResolvedComponents :: "ResolvedComponent list"
  mn_Hardware :: "Accelerator list"
  mn_ExternalStorage :: "MExternal list"
  mn_RunAs :: "MIdentity option"
  mn_Backup :: "BackupPolicy option"
  mn_Configuration :: "MConfigurationPolicy option"

definition empty_release :: MRelease where
  "empty_release = \<lparr>rl_Version = [], rl_Registry = [], rl_Repository = [], rl_Digest = [], rl_Platform = []\<rparr>"

definition image_of :: "MRelease \<Rightarrow> string" where
  "image_of r = rl_Registry r @ ''/'' @ rl_Repository r @ ''@'' @ rl_Digest r"

text \<open>The first loop keeps the last release with the wanted version, the second takes the first.\<close>

definition resolve_component :: "MRelease list \<Rightarrow> MComponent \<Rightarrow> ResolvedComponent" where
  "resolve_component rs c = \<lparr>rv_ID = mk_ID c,
     rv_ImageDigest = image_of (case find (\<lambda>r. rl_Version r = mk_Release c) rs of None \<Rightarrow> empty_release | Some r \<Rightarrow> r),
     rv_Command = mk_Command c, rv_Environment = mk_Environment c, rv_Storage = mk_Storage c, rv_Services = mk_Services c,
     rv_DependsOn = mk_DependsOn c, rv_Restart = mk_Restart c, rv_Hardware = mk_Hardware c,
     rv_ExternalStorage = mk_ExternalStorage c, rv_RunAs = mk_RunAs c\<rparr>"

definition instance_paths_ok :: "string \<Rightarrow> string \<Rightarrow> string \<Rightarrow> bool" where
  "instance_paths_ok inst network dataPath = (idPattern inst \<and> network \<noteq> [] \<and> \<not> contains_any network [CHR ''/'', CHR ''.'', CHR 0x5C]
     \<and> has_prefix ''/srv/kitpro/apps/'' dataPath \<and> \<not> str_contains ''..'' dataPath \<and> \<not> contains_any dataPath (CHR 0x5C # crlf))"

definition Resolve :: "Manifest \<Rightarrow> string \<Rightarrow> string \<Rightarrow> string \<Rightarrow> string \<Rightarrow> MPlan result" where
  "Resolve m release inst network dataPath = bind_result (Validate m) (\<lambda>_.
     let r = fold (\<lambda>x r. if rl_Version x = release then x else r) (ma_Releases m) empty_release in
     if rl_Version r = [] then bad ''release not found''
     else if \<not> instance_paths_ok inst network dataPath then bad ''invalid instance paths''
     else Inr \<lparr>mn_ApplicationID = ma_ID m, mn_ReleaseID = rl_Version r, mn_InstanceID = inst, mn_ImageDigest = image_of r,
       mn_NetworkName = network, mn_DataPath = dataPath, mn_Restart = ma_Restart m, mn_Command = ma_Command m,
       mn_Environment = ma_Environment m, mn_Storage = ma_Storage m, mn_Services = ma_Services m, mn_Components = ma_Components m,
       mn_ResolvedComponents = map (resolve_component (ma_Releases m)) (ma_Components m), mn_Hardware = ma_Hardware m,
       mn_ExternalStorage = ma_ExternalStorage m, mn_RunAs = ma_RunAs m, mn_Backup = ma_Backup m, mn_Configuration = ma_Configuration m\<rparr>)"

section \<open>Duplicate fields\<close>

text \<open>
  \<open>walkJSON\<close> over the decoder's tokens, with the fuel of \<open>readUniqueValue\<close>; a stream
  that ends is one whose next token the decoder cannot produce. \<open>decodes\<close> says that the
  decoder reads one more value from the rest of the input.
\<close>

fun walkJSON :: "nat \<Rightarrow> token list \<Rightarrow> token list result"
  and walkObject :: "nat \<Rightarrow> string list \<Rightarrow> token list \<Rightarrow> token list result"
  and walkArray :: "nat \<Rightarrow> token list \<Rightarrow> token list result" where
  "walkJSON 0 ts = Inl (ErrInfrastructure ''out of fuel'')"
| "walkJSON (Suc n) ts = (case ts of
      [] \<Rightarrow> Inl (ErrInfrastructure ''EOF'')
    | TObjOpen # r \<Rightarrow> walkObject n [] r
    | TArrOpen # r \<Rightarrow> walkArray n r
    | _ # r \<Rightarrow> Inr r)"
| "walkObject 0 seen ts = Inl (ErrInfrastructure ''out of fuel'')"
| "walkObject (Suc n) seen ts =
     (if Protocol.more ts then
        (case ts of
           TStr k # r \<Rightarrow> if k \<in> set seen then Inl (Errorf ''duplicate JSON field'')
             else bind_result (walkJSON n r) (walkObject n (k # seen))
         | _ \<Rightarrow> Inl (ErrInfrastructure ''key is not a string''))
      else (case ts of [] \<Rightarrow> Inl (ErrInfrastructure ''EOF'') | _ # r \<Rightarrow> Inr r))"
| "walkArray 0 ts = Inl (ErrInfrastructure ''out of fuel'')"
| "walkArray (Suc n) ts =
     (if Protocol.more ts then bind_result (walkJSON n ts) (walkArray n)
      else (case ts of [] \<Rightarrow> Inl (ErrInfrastructure ''EOF'') | _ # r \<Rightarrow> Inr r))"

fun decodes :: "nat \<Rightarrow> token list \<Rightarrow> token list option"
  and decodes_object :: "nat \<Rightarrow> token list \<Rightarrow> token list option"
  and decodes_array :: "nat \<Rightarrow> token list \<Rightarrow> token list option" where
  "decodes 0 ts = None"
| "decodes (Suc n) ts = (case ts of
      TStr _ # r \<Rightarrow> Some r | TScalar # r \<Rightarrow> Some r
    | TObjOpen # r \<Rightarrow> decodes_object n r | TArrOpen # r \<Rightarrow> decodes_array n r
    | _ \<Rightarrow> None)"
| "decodes_object 0 ts = None"
| "decodes_object (Suc n) ts = (case ts of
      TObjClose # r \<Rightarrow> Some r
    | TStr _ # r \<Rightarrow> (case decodes n r of None \<Rightarrow> None | Some r' \<Rightarrow> decodes_object n r')
    | _ \<Rightarrow> None)"
| "decodes_array 0 ts = None"
| "decodes_array (Suc n) ts = (case ts of
      TArrClose # r \<Rightarrow> Some r
    | _ \<Rightarrow> (case decodes n ts of None \<Rightarrow> None | Some r' \<Rightarrow> decodes_array n r'))"

definition uniqueJSON :: "token list \<Rightarrow> unit result" where
  "uniqueJSON ts = bind_result (walkJSON (Suc (length ts)) ts) (\<lambda>r.
     if decodes (Suc (length r)) r \<noteq> None then bad ''trailing JSON'' else Inr ())"

end
