(* ===== verification/Topology.thy ===== *)
theory Topology
  imports Manifest
begin

text \<open>
  \<^verbatim>\<open>internal/multicontainer/plan.go\<close>: the dependency order of components.
\<close>

section \<open>Start order\<close>

text \<open>
  The depth-first search of \<open>StartOrder\<close>. The map \<open>state\<close> of the source is 1 for the
  identifiers on the call stack (\<open>path\<close>) and 2 for those already appended to \<open>order\<close>; the
  list argument is the rest of the loop over identifiers or dependencies.
\<close>

lemma bind_result_cong [fundef_cong]:
  "m = m' \<Longrightarrow> (\<And>x. m' = Inr x \<Longrightarrow> k x = k' x) \<Longrightarrow> bind_result m k = bind_result m' k'"
  by (cases m') simp_all

function visit :: "(string \<times> string list) list \<Rightarrow> string list \<Rightarrow> string list \<Rightarrow> string list \<Rightarrow> string list result" where
  "visit byID path [] order = Inr order"
| "visit byID path (i # ids) order =
     (if i \<in> set path then Inl (Errorf ''component dependency cycle'')
      else if i \<in> set order then visit byID path ids order
      else (case map_of byID i of
          None \<Rightarrow> Inl (Errorf ''component dependency not found'')
        | Some deps \<Rightarrow> bind_result (visit byID (i # path) (sort deps) order)
            (\<lambda>order'. visit byID path ids (order' @ [i]))))"
  by pat_completeness auto

lemma unvisited_smaller:
  assumes "map_of byID i = Some deps" "i \<notin> set path"
  shows "card (fst ` set byID - set (i # path)) < card (fst ` set byID - set path)"
proof (rule psubset_card_mono)
  have "i \<in> fst ` set byID" using assms(1) by (metis map_of_eq_None_iff option.distinct(1))
  with assms(2) show "fst ` set byID - set (i # path) \<subset> fst ` set byID - set path" by auto
qed simp

termination visit
  by (relation "inv_image (less_than <*lex*> less_than) (\<lambda>(byID, path, ids, order). (card (fst ` set byID - set path), length ids))")
    (auto dest: unvisited_smaller)

fun byID_of :: "MComponent list \<Rightarrow> (string \<times> string list) list \<Rightarrow> (string \<times> string list) list result" where
  "byID_of [] byID = Inr byID"
| "byID_of (c # cs) byID =
     (if mk_ID c = [] then Inl (Errorf ''component ID is required'')
      else if map_of byID (mk_ID c) \<noteq> None then Inl (Errorf ''duplicate component'')
      else byID_of cs ((mk_ID c, mk_DependsOn c) # byID))"

definition StartOrder :: "MComponent list \<Rightarrow> string list result" where
  "StartOrder cs =
     (if length cs < 2 \<or> 16 < length cs then Inl (Errorf ''component count outside policy'')
      else bind_result (byID_of cs []) (\<lambda>byID. visit byID [] (sort (map mk_ID cs)) []))"

section \<open>Topology\<close>

record TopologyComponent =
  tc_ID :: string
  tc_DependsOn :: "string list"
  tc_Ordinal :: int

record Topology =
  tp_Components :: "TopologyComponent list"
  tp_StartOrder :: "string list"
  tp_StopOrder :: "string list"
  tp_Hash :: string

definition json_of_TopologyComponent :: "TopologyComponent \<Rightarrow> json" where
  "json_of_TopologyComponent c = JObj [(''id'', JStr (tc_ID c)),
     (''depends_on'', if tc_DependsOn c = [] then JNull else JArr (map JStr (tc_DependsOn c))), (''start_ordinal'', JInt (tc_Ordinal c))]"

text \<open>
  A nil slice is encoded as \<open>null\<close>: \<open>append([]string(nil), \<dots>)\<close> of no dependencies is nil,
  and the components and the order are not empty. The map \<open>byID\<close> is that of the second
  loop; later components overwrite earlier ones.
\<close>

definition topology_of :: "(string \<Rightarrow> string list option) \<Rightarrow> string list \<Rightarrow> Topology" where
  "topology_of byID order =
     (let comps = map (\<lambda>(o', i). \<lparr>tc_ID = i, tc_DependsOn = (case byID i of None \<Rightarrow> [] | Some d \<Rightarrow> d), tc_Ordinal = int o'\<rparr>)
           (enumerate 0 order) in
      \<lparr>tp_Components = comps, tp_StartOrder = order, tp_StopOrder = rev order,
       tp_Hash = sha256_hex (json_encode (JObj [(''components'', JArr (map json_of_TopologyComponent comps)),
         (''start_order'', JArr (map JStr order))]))\<rparr>)"

definition BuildTopology :: "MComponent list \<Rightarrow> Topology result" where
  "BuildTopology cs = bind_result (StartOrder cs) (\<lambda>order.
     Inr (topology_of (map_of (rev (map (\<lambda>c. (mk_ID c, sort (mk_DependsOn c))) cs))) order))"

end
