(* ===== verification/Manifest_Spec.thy ===== *)
theory Manifest_Spec
  imports Manifest Protocol_Spec
begin

text \<open>
  What a validated manifest guarantees to the code that executes its plan.
\<close>

section \<open>Reading the checks\<close>

lemma check_dups [simp]:
  "check_storage v s True \<noteq> Inr u" "check_env v e True \<noteq> Inr u" "check_component_env v e True \<noteq> Inr u"
  "check_service v msg x True \<noteq> Inr u" "check_release r True \<noteq> Inr u" "check_component v rs c True \<noteq> Inr u"
  by (simp_all add: check_storage_def check_env_def check_component_env_def check_service_def check_release_def check_component_def)

lemma service_keys_distinct [simp]: "distinct (service_keys s)"
  by (simp add: service_keys_def)

lemma concat_singletons: "concat (map (\<lambda>x. [f x]) xs) = map f xs"
  by (induction xs) simp_all

text \<open>\<open>Validate\<close> as a conjunction.\<close>

lemma Validate_parts:
  assumes "Validate m = Inr ()"
  shows "validate_schema m = Inr ()"
    and "\<forall>r \<in> set (ma_Releases m). check_release r False = Inr ()" "distinct (map rl_Version (ma_Releases m))"
    and "\<forall>s \<in> set (ma_Storage m). check_storage (ma_SchemaVersion m) s False = Inr ()" "distinct (map sg_ID (ma_Storage m))"
    and "\<forall>e \<in> set (ma_Environment m). check_env (ma_SchemaVersion m) e False = Inr ()"
    and "\<forall>c \<in> set (ma_Components m). check_component (ma_SchemaVersion m) (map rl_Version (ma_Releases m)) c False = Inr ()"
      "distinct (map mk_ID (ma_Components m))"
    and "\<forall>s \<in> set (ma_Services m). check_service (ma_SchemaVersion m) ''invalid port'' s False = Inr ()"
      "distinct (concat (map service_keys (ma_Services m)))"
    and "\<forall>c \<in> set (ma_Components m). \<forall>d \<in> set (mk_DependsOn c). d \<in> set (map mk_ID (ma_Components m))"
    and "validateCredentialPresentations m = Inr ()" "validateBackupPolicy m = Inr ()"
    and "validateExternalStorage (ma_ExternalStorage m) (ma_Storage m) = Inr ()"
    and "length (ma_Components m) \<le> 16" "ma_Releases m \<noteq> []" "\<forall>c \<in> set (ma_Command m). command_arg_ok c"
  using assms
  by (auto simp: Validate_def Let_def each_unique_ok_iff each_ok_iff concat_singletons)

lemma component_parts:
  assumes "check_component v rs c False = Inr ()"
  shows "idPattern (mk_ID c)" "mk_Release c \<in> set rs" "mk_Release c \<noteq> []"
    and "\<forall>s \<in> set (mk_Storage c). check_storage v s False = Inr ()" "distinct (map sg_ID (mk_Storage c))"
    and "\<forall>e \<in> set (mk_Environment c). check_component_env v e False = Inr ()"
    and "\<forall>s \<in> set (mk_Services c). check_service v ''invalid service'' s False = Inr ()"
      "distinct (concat (map service_keys (mk_Services c)))"
    and "\<forall>a \<in> set (mk_Command c). command_arg_ok a \<and> a \<notin> {''/bin/sh'', ''/bin/bash'', ''-c''}"
    and "validateExternalStorage (mk_ExternalStorage c) (mk_Storage c) = Inr ()"
  using assms
  by (auto simp: check_component_def validateComponentFields_def each_unique_ok_iff each_ok_iff concat_singletons)

section \<open>Container paths\<close>

lemma split_on_infix: "w \<in> set (split_on d s) \<Longrightarrow> \<exists>u v. s = u @ w @ v"
proof (induction s arbitrary: w)
  case (Cons c s)
  show ?case
  proof (cases "c = d")
    case True
    with Cons.prems consider "w = []" | "w \<in> set (split_on d s)" by auto
    then show ?thesis
    proof cases
      case 2
      from Cons.IH [OF 2] obtain u v where "s = u @ w @ v" by blast
      then have "c # s = (c # u) @ w @ v" by simp
      then show ?thesis by blast
    qed (auto intro: exI [of _ "[]"])
  next
    case False
    obtain x xs where sp: "split_on d s = x # xs" by (cases "split_on d s") auto
    have hd: "\<exists>v. s = x @ v" using sp
    proof (induction s arbitrary: x xs)
      case (Cons a s)
      then show ?case by (cases "split_on d s") (auto split: if_splits)
    qed auto
    from Cons.prems False sp consider "w = c # x" | "w \<in> set xs" by auto
    then show ?thesis
    proof cases
      case 1
      with hd show ?thesis by (auto intro: exI [of _ "[]"])
    next
      case 2
      with Cons.IH [of w] sp obtain u v where "s = u @ w @ v" by auto
      then have "c # s = (c # u) @ w @ v" by simp
      then show ?thesis by blast
    qed
  qed
qed auto

lemma split_on_hd: "\<exists>v. s = hd (split_on d s) @ v"
proof (induction s)
  case (Cons c s)
  then show ?case by (cases "split_on d s") auto
qed simp

text \<open>The components of an absolute path.\<close>

definition path_components :: "string \<Rightarrow> string list" where
  "path_components p = split_on CHR ''/'' (tl p)"

definition confined :: "bool \<Rightarrow> string \<Rightarrow> bool" where
  "confined system_config p \<longleftrightarrow> (\<exists>q. p = CHR ''/'' # q \<and> q \<noteq> []) \<and> ''..'' \<notin> set (path_components p)
     \<and> hd (path_components p) \<notin> {''proc'', ''sys'', ''dev''}
     \<and> set (path_components p) \<inter> {''docker.sock'', ''podman.sock'', ''containerd.sock''} = {}
     \<and> (hd (path_components p) = ''etc'' \<longrightarrow> system_config)"

lemma safeContainerPath_confined:
  assumes "safeContainerPath p sc"
  shows "confined sc p"
proof -
  from assms obtain q where p: "p = CHR ''/'' # q" "q \<noteq> []"
    by (cases p) (auto simp: safeContainerPath_def has_prefix_def split: if_splits)
  have pre: "has_prefix (CHR ''/'' # hd (path_components p)) p"
    using split_on_hd [of q "CHR ''/''"] unfolding path_components_def p by (auto simp: has_prefix_iff)
  have "''..'' \<notin> set (path_components p)"
  proof
    assume "''..'' \<in> set (path_components p)"
    then have "''..'' \<in> set (split_on CHR ''/'' q)" by (simp add: path_components_def p)
    from split_on_infix [OF this] obtain u v where "p = (CHR ''/'' # u) @ ''..'' @ v" unfolding p by auto
    then have "str_contains ''..'' p" unfolding str_contains_iff by blast
    with assms show False by (simp add: safeContainerPath_def)
  qed
  moreover have "hd (path_components p) \<notin> {''proc'', ''sys'', ''dev''}" "hd (path_components p) = ''etc'' \<longrightarrow> sc"
    using assms pre by (auto simp: safeContainerPath_def split: if_splits)
  moreover have "set (path_components p) \<inter> {''docker.sock'', ''podman.sock'', ''containerd.sock''} = {}"
  proof -
    have "\<not> containsRuntimeSocket p" using assms by (simp add: safeContainerPath_def split: if_splits)
    then show ?thesis by (auto simp: containsRuntimeSocket_def p path_components_def list_ex_iff)
  qed
  ultimately show ?thesis using p by (auto simp: confined_def)
qed

section \<open>Backup classification\<close>

lemma backup_classifies:
  assumes "validateBackupPolicy m = Inr ()" and "ma_Backup m = Some policy"
  shows "set (map backup_key (bp_Storage policy)) = set (declared_keys m)" and "distinct (map backup_key (bp_Storage policy))"
proof -
  show d: "distinct (map backup_key (bp_Storage policy))"
    using assms by (auto simp: validateBackupPolicy_def Let_def each_unique_ok_iff concat_singletons bad_def split: if_splits)
  have "distinct (declared_keys m)" by (simp add: declared_keys_def)
  moreover have "set (map backup_key (bp_Storage policy)) \<subseteq> set (declared_keys m)" "length (bp_Storage policy) = length (declared_keys m)"
    using assms by (auto simp: validateBackupPolicy_def Let_def each_unique_ok_iff bad_def split: if_splits)
  ultimately show "set (map backup_key (bp_Storage policy)) = set (declared_keys m)"
    using d by (intro card_subset_eq) (simp_all add: distinct_card del: set_map)
qed

section \<open>Credentials\<close>

lemma presented_keys: "map pc_ID (presented c es) = concat (map (\<lambda>e. credential_keys (b, e)) es)"
  by (induction es) (auto simp: presented_def credential_keys_def split: option.splits)

lemma PresentedCredentials_ids:
  "map pc_ID (PresentedCredentials m) = concat (map credential_keys
     (map (Pair False) (ma_Environment m) @ map (Pair True) (concat (map mk_Environment (ma_Components m)))))"
proof -
  have "map pc_ID (concat (map (\<lambda>c. presented (mk_ID c) (mk_Environment c)) cs)) =
      concat (map credential_keys (map (Pair True) (concat (map mk_Environment cs))))" for cs
    by (induction cs) (auto simp: presented_keys [where b = True] comp_def)
  then show ?thesis by (simp add: PresentedCredentials_def presented_keys [where b = False] comp_def)
qed

lemma check_credential_dup: "en_Credential (snd te) \<noteq> None \<Longrightarrow> check_credential v te True \<noteq> Inr u"
  by (auto simp: check_credential_def split: prod.splits)

lemma credential_ids_distinct:
  assumes "validateCredentialPresentations m = Inr ()"
  shows "distinct (map pc_ID (PresentedCredentials m))"
    and "te \<in> set (map (Pair False) (ma_Environment m) @ map (Pair True) (concat (map mk_Environment (ma_Components m))))
      \<Longrightarrow> check_credential (ma_SchemaVersion m) te False = Inr ()"
proof -
  have *: "each_unique credential_keys (check_credential (ma_SchemaVersion m)) xs [] = Inr () \<longleftrightarrow>
      (\<forall>te \<in> set xs. check_credential (ma_SchemaVersion m) te False = Inr ()) \<and> distinct (concat (map credential_keys xs))
      \<and> set (concat (map credential_keys xs)) \<inter> set [] = {}" for xs
    by (rule each_unique_ok_iff) (auto simp: credential_keys_def check_credential_dup split: option.splits)
  show "distinct (map pc_ID (PresentedCredentials m))"
    using assms unfolding validateCredentialPresentations_def * PresentedCredentials_ids by blast
  show "te \<in> set (map (Pair False) (ma_Environment m) @ map (Pair True) (concat (map mk_Environment (ma_Components m))))
      \<Longrightarrow> check_credential (ma_SchemaVersion m) te False = Inr ()"
    using assms unfolding validateCredentialPresentations_def * by blast
qed

lemma find_unique_key:
  assumes "distinct (map f xs)" "x \<in> set xs"
  shows "find (\<lambda>y. f y = f x) xs = Some x"
  using tbl_get_of_mem [of f xs x] assms by (simp add: tbl_get_def tbl_wf_def)

section \<open>A concrete manifest\<close>

definition demo_env :: Env where
  "demo_env = \<lparr>en_Name = ''ADMIN_PASSWORD'', en_Value = [], en_Secret = True, en_Generate = ''random-hex-32'', en_Required = True,
     en_Credential = Some \<lparr>cr_ID = ''admin'', cr_Label = ''Administrator'', cr_Username = ''root''\<rparr>\<rparr>"

definition demo_mcomponent :: "string \<Rightarrow> string list \<Rightarrow> MComponent" where
  "demo_mcomponent c deps = \<lparr>mk_ID = c, mk_Release = ''1.0'',
     mk_Storage = [\<lparr>sg_ID = ''data'', sg_ContainerPath = ''/data'', sg_Persistent = True, sg_ReadOnly = False,
       sg_SystemConfig = False, sg_OwnerUID = 0, sg_OwnerGID = 0\<rparr>],
     mk_Environment = [], mk_Command = [], mk_Services = [], mk_DependsOn = deps, mk_Restart = [], mk_Hardware = [],
     mk_ExternalStorage = [], mk_RunAs = None\<rparr>"

definition demo_manifest :: "MComponent list \<Rightarrow> Manifest" where
  "demo_manifest cs = \<lparr>ma_SchemaVersion = 9, ma_ID = ''demo'', ma_Name = ''Demo'', ma_Description = [],
     ma_Releases = [\<lparr>rl_Version = ''1.0'', rl_Registry = ''ghcr.io'', rl_Repository = ''demo/app'',
       rl_Digest = ''sha256:'' @ replicate 64 CHR ''0'', rl_Platform = ''linux/amd64''\<rparr>],
     ma_Storage = [], ma_Environment = [demo_env], ma_Command = [], ma_Restart = [], ma_Services = [], ma_Components = cs,
     ma_Hardware = [], ma_ExternalStorage = [], ma_RunAs = None,
     ma_Backup = Some \<lparr>bp_Strategy = ''cold-filesystem'', bp_Storage = map (\<lambda>c. \<lparr>bs_Component = mk_ID c, bs_ID = ''data'',
        bs_Disposition = ''include''\<rparr>) cs\<rparr>,
     ma_Category = ''Notes'', ma_Kind = ''application'', ma_CatalogStatus = ''standard'', ma_WebsiteURL = ''https://example.org/a#b'',
     ma_SourceURL = [], ma_DocumentationURL = [], ma_Logo = [], ma_Limitations = [], ma_LifecycleNotice = None,
     ma_Configuration = None\<rparr>"

definition demo_two :: Manifest where
  "demo_two = demo_manifest [demo_mcomponent ''db'' [], demo_mcomponent ''web'' [''db'']]"

lemma demo_two_valid: "Validate demo_two = Inr ()"
  by code_simp

section \<open>Properties\<close>

definition storages :: "Manifest \<Rightarrow> MStorage list" where
  "storages m = ma_Storage m @ concat (map mk_Storage (ma_Components m))"

definition slots :: "Manifest \<Rightarrow> MExternal list" where
  "slots m = ma_ExternalStorage m @ concat (map mk_ExternalStorage (ma_Components m))"



definition pinned :: "Manifest \<Rightarrow> string \<Rightarrow> bool" where
  "pinned m im \<longleftrightarrow> (\<exists>r \<in> set (ma_Releases m). im = rl_Registry r @ ''/'' @ rl_Repository r @ ''@'' @ rl_Digest r
     \<and> rl_Registry r \<in> {''docker.io'', ''ghcr.io'', ''codeberg.org''} \<and> digestPattern (rl_Digest r))"

lemma pinnedI:
  assumes "Validate m = Inr ()" "r \<in> set (ma_Releases m)"
  shows "pinned m (image_of r)"
  using assms Validate_parts(2) [OF assms(1)] by (auto simp: pinned_def image_of_def check_release_def)

lemma fold_last_match:
  "fold (\<lambda>x r. if P x then x else r) xs r = r \<or> fold (\<lambda>x r. if P x then x else r) xs r \<in> set xs"
  by (induction xs arbitrary: r) (auto split: if_splits)

text \<open>
  A resolved plan is pinned. When a manifest resolves, the plan's image and the image of
  every component is a release of the manifest named by registry, repository and SHA-256
  digest, from an approved registry; the data path lies below the managed root without
  \<open>..\<close>; and the dependencies of the resolved components name resolved components, each of
  which is there once.
\<close>

theorem resolve_pins_images:
  assumes "Resolve m release inst network dataPath = Inr p"
  shows "pinned m (mn_ImageDigest p) \<and> (\<forall>c \<in> set (mn_ResolvedComponents p). pinned m (rv_ImageDigest c))
    \<and> (\<exists>q. mn_DataPath p = ''/srv/kitpro/apps/'' @ q) \<and> \<not> str_contains ''..'' (mn_DataPath p)
    \<and> distinct (map rv_ID (mn_ResolvedComponents p))
    \<and> (\<forall>c \<in> set (mn_ResolvedComponents p). set (rv_DependsOn c) \<subseteq> set (map rv_ID (mn_ResolvedComponents p)))"
proof -
  let ?r = "fold (\<lambda>x r. if rl_Version x = release then x else r) (ma_Releases m) empty_release"
  from assms have v: "Validate m = Inr ()" and r: "rl_Version ?r \<noteq> []" and paths: "instance_paths_ok inst network dataPath"
    and p: "mn_ImageDigest p = image_of ?r" "mn_DataPath p = dataPath"
      "mn_ResolvedComponents p = map (resolve_component (ma_Releases m)) (ma_Components m)"
    by (auto simp: Resolve_def bind_result_Inr_iff Let_def bad_def split: if_splits)
  have "?r \<in> set (ma_Releases m)"
    using fold_last_match [of "\<lambda>x. rl_Version x = release" "ma_Releases m" empty_release] r by (auto simp: empty_release_def)
  from pinnedI [OF v this] have "pinned m (mn_ImageDigest p)" by (simp add: p)
  moreover have "pinned m (rv_ImageDigest (resolve_component (ma_Releases m) c))" if c: "c \<in> set (ma_Components m)" for c
  proof -
    have "mk_Release c \<in> rl_Version ` set (ma_Releases m)"
      using component_parts(2) Validate_parts(7) [OF v] c by fastforce
    then obtain r where r: "find (\<lambda>r. rl_Version r = mk_Release c) (ma_Releases m) = Some r"
      by (cases "find (\<lambda>r. rl_Version r = mk_Release c) (ma_Releases m)") (auto simp: find_None_all)
    with find_SomeD [OF r] show ?thesis by (simp add: resolve_component_def pinnedI [OF v])
  qed
  moreover have ids: "map rv_ID (mn_ResolvedComponents p) = map mk_ID (ma_Components m)" by (simp add: p resolve_component_def)
  moreover have "\<forall>c \<in> set (mn_ResolvedComponents p). set (rv_DependsOn c) \<subseteq> set (map rv_ID (mn_ResolvedComponents p))"
    using Validate_parts(11) [OF v] unfolding ids by (auto simp: p resolve_component_def)
  moreover have "distinct (map rv_ID (mn_ResolvedComponents p))" unfolding ids using Validate_parts(8) [OF v] .
  ultimately show ?thesis
    using paths by (simp add: p instance_paths_ok_def has_prefix_iff)
qed

theorem resolve_pins_images_witness:
  "\<exists>p. Resolve demo_two ''1.0'' ''inst-a'' ''net'' ''/srv/kitpro/apps/inst-a'' = Inr p \<and> pinned demo_two (mn_ImageDigest p)"
proof -
  have "is_ok (Resolve demo_two ''1.0'' ''inst-a'' ''net'' ''/srv/kitpro/apps/inst-a'')" by code_simp
  then obtain p where p: "Resolve demo_two ''1.0'' ''inst-a'' ''net'' ''/srv/kitpro/apps/inst-a'' = Inr p" by (auto simp: is_ok_iff)
  from resolve_pins_images [OF p] p show ?thesis by blast
qed

text \<open>
  Every persistent directory has a backup decision. A validated manifest of schema
  version 6 or later has a backup policy; unless it backs up metadata only, in which case
  nothing persistent is declared, its entries are exactly the persistent storage declarations,
  each listed once, and at least one of them is included.
\<close>

theorem backup_classifies_all_storage:
  assumes "Validate m = Inr ()" and "6 \<le> ma_SchemaVersion m"
  shows "\<exists>policy. ma_Backup m = Some policy
    \<and> set (map backup_key (bp_Storage policy)) =
        {''app/'' @ sg_ID s | s. s \<in> set (ma_Storage m) \<and> sg_Persistent s}
        \<union> {mk_ID c @ ''/'' @ sg_ID s | c s. c \<in> set (ma_Components m) \<and> s \<in> set (mk_Storage c) \<and> sg_Persistent s}
    \<and> distinct (map backup_key (bp_Storage policy))
    \<and> (bp_Strategy policy = ''metadata-only'' \<longrightarrow> bp_Storage policy = [])
    \<and> (bp_Strategy policy \<noteq> ''metadata-only'' \<longrightarrow> (\<exists>b \<in> set (bp_Storage policy). bs_Disposition b = ''include''))"
proof -
  from Validate_parts(1) [OF assms(1)] assms(2) obtain policy where policy: "ma_Backup m = Some policy"
    by (auto simp: validate_schema_def Let_def schema_versions)
  note b = Validate_parts(13) [OF assms(1)]
  have "set (declared_keys m) = {''app/'' @ sg_ID s | s. s \<in> set (ma_Storage m) \<and> sg_Persistent s}
        \<union> {mk_ID c @ ''/'' @ sg_ID s | c s. c \<in> set (ma_Components m) \<and> s \<in> set (mk_Storage c) \<and> sg_Persistent s}"
    by (force simp: declared_keys_def)
  moreover have "(bp_Strategy policy = ''metadata-only'' \<longrightarrow> bp_Storage policy = [])
    \<and> (bp_Strategy policy \<noteq> ''metadata-only'' \<longrightarrow> (\<exists>b \<in> set (bp_Storage policy). bs_Disposition b = ''include''))"
    using b policy by (auto simp: validateBackupPolicy_def Let_def bad_def list_ex_iff split: if_splits)
  ultimately show ?thesis using policy backup_classifies [OF b policy] by blast
qed

theorem backup_classifies_all_storage_witness: "\<exists>policy. ma_Backup demo_two = Some policy \<and> distinct (map backup_key (bp_Storage policy))"
proof -
  have "6 \<le> ma_SchemaVersion demo_two" by (simp add: demo_two_def demo_manifest_def)
  from backup_classifies_all_storage [OF demo_two_valid this] show ?thesis by blast
qed

text \<open>
  Credential lookup. In a validated manifest, looking up the public ID of a credential
  presentation returns exactly the environment variable that declares it, with its component;
  the variable is a generated, required secret without an embedded value.
\<close>

theorem credential_lookup:
  assumes "Validate m = Inr ()" and "en_Credential e = Some c"
    and "(comp_id = [] \<and> e \<in> set (ma_Environment m)) \<or> (\<exists>k \<in> set (ma_Components m). comp_id = mk_ID k \<and> e \<in> set (mk_Environment k))"
  shows "FindPresentedCredential m (cr_ID c) = Some \<lparr>pc_ID = cr_ID c, pc_Label = cr_Label c, pc_Username = cr_Username c,
      pc_ComponentID = comp_id, pc_EnvironmentName = en_Name e\<rparr>
    \<and> en_Secret e \<and> en_Required e \<and> en_Generate e = ''random-hex-32'' \<and> en_Value e = []"
proof
  let ?p = "\<lparr>pc_ID = cr_ID c, pc_Label = cr_Label c, pc_Username = cr_Username c, pc_ComponentID = comp_id, pc_EnvironmentName = en_Name e\<rparr>"
  note v = credential_ids_distinct [OF Validate_parts(12) [OF assms(1)]]
  have "?p \<in> set (presented comp_id es)" if "e \<in> set es" for es
    using that assms(2) by (force simp: presented_def)
  then have "?p \<in> set (PresentedCredentials m)" using assms(3) by (auto simp: PresentedCredentials_def)
  from find_unique_key [OF v(1) this] show "FindPresentedCredential m (cr_ID c) = Some ?p"
    by (simp add: FindPresentedCredential_def)
  from assms(3) obtain b where "(b, e) \<in> set (map (Pair False) (ma_Environment m) @ map (Pair True) (concat (map mk_Environment (ma_Components m))))"
    by auto
  from v(2) [OF this] show "en_Secret e \<and> en_Required e \<and> en_Generate e = ''random-hex-32'' \<and> en_Value e = []"
    using assms(2) by (cases b) (simp_all add: check_credential_def)
qed

theorem credential_lookup_witness:
  "FindPresentedCredential demo_two ''admin'' = Some \<lparr>pc_ID = ''admin'', pc_Label = ''Administrator'', pc_Username = ''root'',
     pc_ComponentID = [], pc_EnvironmentName = ''ADMIN_PASSWORD''\<rparr>"
  using credential_lookup [OF demo_two_valid, of demo_env _ "[]"]
  by (simp add: demo_env_def demo_two_def demo_manifest_def)

section \<open>Duplicate fields\<close>

text \<open>On the token streams it accepts or rejects as duplicate, \<open>walkJSON\<close> agrees with \<open>readUniqueValue\<close>.\<close>

definition agrees :: "token list result \<Rightarrow> token list result \<Rightarrow> bool" where
  "agrees a b \<longleftrightarrow> (\<forall>r. a = Inr r \<longrightarrow> b = Inr r) \<and> (a = Inl (Errorf ''duplicate JSON key'') \<longrightarrow> b = Inl (Errorf ''duplicate JSON field''))"

lemma agrees_simps [simp]: "agrees (Inr r) b \<longleftrightarrow> b = Inr r"
  "agrees (Inl e) b \<longleftrightarrow> (e = Errorf ''duplicate JSON key'' \<longrightarrow> b = Inl (Errorf ''duplicate JSON field''))"
  by (auto simp: agrees_def)

lemma agrees_bind:
  assumes "agrees a b" "\<And>r. agrees (f r) (g r)"
  shows "agrees (bind_result a f) (bind_result b g)"
  using assms by (cases a) (auto simp: agrees_def)

lemma walkJSON_agrees:
  "agrees (readUniqueValue n ts) (walkJSON n ts)"
  "agrees (readObject n seen ts) (walkObject n seen ts)"
  "agrees (readArray n ts) (walkArray n ts)"
proof (induction n ts and n seen ts and n ts rule: readUniqueValue_readObject_readArray.induct)
  case (2 n ts)
  then show ?case by (auto simp: agrees_def split: list.splits token.splits)
next
  case (4 n seen ts)
  show ?case
  proof (cases "Protocol.more ts")
    case True
    with 4 show ?thesis by (auto intro!: agrees_bind split: list.splits token.splits)
  qed (auto simp: agrees_def split: list.splits token.splits)
next
  case (6 n ts)
  show ?case
  proof (cases "Protocol.more ts")
    case True
    with 6 show ?thesis by (simp add: agrees_bind)
  qed (auto simp: agrees_def split: list.splits token.splits)
qed (simp_all add: agrees_def)

lemma walkJSON_tokens:
  "walkJSON (Suc (length (tokens v @ r))) (tokens v @ r) = (if unique_keys v then Inr r else Inl (Errorf ''duplicate JSON field''))"
  using walkJSON_agrees(1) [of "Suc (length (tokens v @ r))" "tokens v @ r"]
    readUniqueValue_tokens [of v "Suc (length (tokens v @ r))" r]
  by (auto simp: agrees_def checked_def)

text \<open>
  Duplicate manifest fields. On the tokens of a JSON document, the check accepts exactly
  the documents in which no object, at any depth, has two fields of the same name; a further
  JSON value after the document is rejected.
\<close>

theorem manifest_duplicate_fields:
  "(uniqueJSON (tokens v) = Inr ()) = unique_keys v"
  using walkJSON_tokens [of v "[]"] by (simp add: uniqueJSON_def bad_def)

text \<open>
  Input after the document that is not itself a JSON value, such as a stray closing brace, is
  not noticed: the decoder's error is taken for the end of the input.
\<close>

lemma trailing_garbage_accepted:
  assumes "unique_keys v"
  shows "uniqueJSON (tokens v @ [TObjClose]) = Inr ()"
  using walkJSON_tokens [of v "[TObjClose]"] assms by (simp add: uniqueJSON_def bad_def)

text \<open>A URL with a fragment passes the check that is meant to exclude fragments.\<close>

lemma fragment_accepted: "validCatalogURL ''https://example.org/a#b''"
  by code_simp

end
