(* ===== verification/Topology_Spec.thy ===== *)
theory Topology_Spec
  imports Topology Manifest_Spec "HOL-Library.Multiset"
begin

text \<open>
  The start order is a topological order of the dependency graph, exists exactly when the
  graph is closed and acyclic, and does not depend on the order of declarations.
\<close>

section \<open>Topological orders\<close>

inductive topo :: "(string \<times> string list) list \<Rightarrow> string list \<Rightarrow> bool" for m where
  nil: "topo m []"
| snoc: "\<lbrakk>topo m xs; x \<notin> set xs; map_of m x = Some deps; set deps \<subseteq> set xs\<rbrakk> \<Longrightarrow> topo m (xs @ [x])"

lemma topo_distinct: "topo m xs \<Longrightarrow> distinct xs"
  by (induction rule: topo.induct) simp_all

lemma topo_before:
  assumes "topo m xs" "x \<in> set xs"
  obtains pre post deps where "xs = pre @ x # post" "map_of m x = Some deps" "set deps \<subseteq> set pre"
  using assms
proof (induction arbitrary: thesis rule: topo.induct)
  case (snoc xs y deps)
  show ?case
  proof (cases "x = y")
    case True
    with snoc show ?thesis by blast
  next
    case False
    with snoc.prems(2) have "x \<in> set xs" by simp
    then obtain pre post d where "xs = pre @ x # post" "map_of m x = Some d" "set d \<subseteq> set pre" using snoc.IH by blast
    with snoc.prems(1) [of pre "post @ [y]" d] show ?thesis by simp
  qed
qed simp

lemma visit_topo:
  assumes "visit m path ids order = Inr order'" "topo m order" "set path \<inter> set order = {}"
  shows "topo m order' \<and> set order \<subseteq> set order' \<and> set ids \<subseteq> set order' \<and> set path \<inter> set order' = {}"
  using assms
proof (induction m path ids order arbitrary: order' rule: visit.induct)
  case (2 m path i ids order)
  from 2(4) have np: "i \<notin> set path" by (auto split: if_splits)
  show ?case
  proof (cases "i \<in> set order")
    case True
    with 2(1) [OF np True] 2(4-6) np show ?thesis by auto
  next
    case False
    with 2(4) np obtain deps order1 where d: "map_of m i = Some deps" and v: "visit m (i # path) (sort deps) order = Inr order1"
        and r: "visit m path ids (order1 @ [i]) = Inr order'"
      by (auto simp: bind_result_Inr_iff split: option.splits if_splits)
    from 2(2) [OF np False d v 2(5)] False 2(6) have o1: "topo m order1" "set order \<subseteq> set order1" "set deps \<subseteq> set order1"
        "set (i # path) \<inter> set order1 = {}" by auto
    then have "topo m (order1 @ [i])" using d by (auto intro: topo.snoc)
    moreover have "set path \<inter> set (order1 @ [i]) = {}" using o1(4) np by auto
    ultimately have "topo m order' \<and> set (order1 @ [i]) \<subseteq> set order' \<and> set ids \<subseteq> set order' \<and> set path \<inter> set order' = {}"
      by (rule 2(3) [OF np False d v r])
    with o1(2) show ?thesis by auto
  qed
qed simp

section \<open>Existence\<close>

definition dep_edges :: "(string \<times> string list) list \<Rightarrow> (string \<times> string) set" where
  "dep_edges m = {(d, x). \<exists>deps. map_of m x = Some deps \<and> d \<in> set deps}"

fun chain :: "(string \<times> string) set \<Rightarrow> string list \<Rightarrow> bool" where
  "chain E (x # y # zs) = ((x, y) \<in> E \<and> chain E (y # zs))"
| "chain E _ = True"

lemma chain_reach: "chain E (p # ps) \<Longrightarrow> i \<in> set (p # ps) \<Longrightarrow> (p, i) \<in> E\<^sup>*"
proof (induction ps arbitrary: p)
  case (Cons q qs)
  then show ?case by (cases "i = p") (auto intro: converse_rtrancl_into_rtrancl)
qed simp

lemma visit_exists:
  assumes "acyclic (dep_edges m)" and "\<And>d x. (d, x) \<in> dep_edges m \<Longrightarrow> map_of m d \<noteq> None"
    and "\<forall>i \<in> set ids. map_of m i \<noteq> None" and "chain (dep_edges m) path"
    and "path \<noteq> [] \<Longrightarrow> \<forall>i \<in> set ids. (i, hd path) \<in> dep_edges m"
  shows "\<exists>order'. visit m path ids order = Inr order'"
  using assms
proof (induction m path ids order rule: visit.induct)
  case (2 m path i ids order)
  have np: "i \<notin> set path"
  proof
    assume i: "i \<in> set path"
    then obtain p ps where p: "path = p # ps" by (cases path) auto
    with chain_reach [of _ p ps i] 2(7) i have "(p, i) \<in> (dep_edges m)\<^sup>*" by blast
    moreover have "(i, p) \<in> dep_edges m" using 2(8) p by simp
    ultimately have "(i, i) \<in> (dep_edges m)\<^sup>+" by (rule rtrancl_into_trancl2 [rotated])
    with 2(4) show False by (simp add: acyclic_def)
  qed
  show ?case
  proof (cases "i \<in> set order")
    case True
    with 2(1) [OF np True 2(4,5) _ 2(7)] 2(6,8) np show ?thesis by simp
  next
    case False
    from 2(6) obtain deps where d: "map_of m i = Some deps" by auto
    have e: "(x, i) \<in> dep_edges m" if "x \<in> set deps" for x using d that by (auto simp: dep_edges_def)
    have "chain (dep_edges m) (i # path)" using 2(7,8) by (cases path) auto
    then obtain order1 where o1: "visit m (i # path) (sort deps) order = Inr order1"
      using 2(2) [OF np False d 2(4,5)] e 2(5) by fastforce
    from 2(3) [OF np False d o1 2(4,5) _ 2(7)] 2(6,8) np False d o1 show ?thesis by simp
  qed
qed simp

lemma topo_acyclic:
  assumes "topo m xs" "\<And>x deps. map_of m x = Some deps \<Longrightarrow> x \<in> set xs"
  shows "acyclic (dep_edges m)"
proof -
  have lt: "length (takeWhile (\<lambda>y. y \<noteq> d) xs) < length (takeWhile (\<lambda>y. y \<noteq> x) xs)" if dx: "(d, x) \<in> dep_edges m" for d x
  proof -
    from dx obtain deps where deps: "map_of m x = Some deps" "d \<in> set deps" by (auto simp: dep_edges_def)
    from topo_before [OF assms(1) assms(2) [OF deps(1)]] deps obtain pre post where xs: "xs = pre @ x # post" "d \<in> set pre"
      by (metis option.inject subsetD)
    with topo_distinct [OF assms(1)] have "x \<notin> set pre" by auto
    then have "takeWhile (\<lambda>y. y \<noteq> x) xs = pre" unfolding xs by (subst takeWhile_append2) auto
    moreover obtain a b where "pre = a @ d # b" "d \<notin> set a" using split_list_first [OF xs(2)] by blast
    then have "length (takeWhile (\<lambda>y. y \<noteq> d) xs) < length pre"
      unfolding xs by (simp, subst takeWhile_append2) auto
    ultimately show ?thesis by simp
  qed
  then have "dep_edges m \<subseteq> measure (\<lambda>x. length (takeWhile (\<lambda>y. y \<noteq> x) xs))" by auto
  then show ?thesis by (meson acyclic_subset wf_acyclic wf_measure)
qed

section \<open>The map of components\<close>

lemma byID_of_Inr_iff:
  "byID_of cs m = Inr m' \<longleftrightarrow> m' = rev (map (\<lambda>c. (mk_ID c, mk_DependsOn c)) cs) @ m \<and> (\<forall>c \<in> set cs. mk_ID c \<noteq> [])
     \<and> distinct (map mk_ID cs) \<and> set (map mk_ID cs) \<inter> fst ` set m = {}"
  by (induction cs arbitrary: m) (auto simp: map_of_eq_None_iff)

lemma byID_mem:
  assumes "distinct (map mk_ID cs)"
  shows "map_of (rev (map (\<lambda>c. (mk_ID c, mk_DependsOn c)) cs)) i = Some deps \<longleftrightarrow> (\<exists>c \<in> set cs. mk_ID c = i \<and> mk_DependsOn c = deps)"
  using assms by (subst map_of_eq_Some_iff) (auto simp: comp_def rev_map [symmetric])

text \<open>The dependency relation of a list of components: \<open>(d, x)\<close> when \<open>x\<close> depends on \<open>d\<close>.\<close>

definition depends :: "MComponent list \<Rightarrow> (string \<times> string) set" where
  "depends cs = {(d, mk_ID c) | d c. c \<in> set cs \<and> d \<in> set (mk_DependsOn c)}"

lemma dep_edges_depends:
  assumes "distinct (map mk_ID cs)"
  shows "dep_edges (rev (map (\<lambda>c. (mk_ID c, mk_DependsOn c)) cs)) = depends cs"
  by (auto simp: dep_edges_def depends_def byID_mem [OF assms])

lemma StartOrder_Inr_iff:
  "StartOrder cs = Inr order \<longleftrightarrow> 2 \<le> length cs \<and> length cs \<le> 16 \<and> (\<forall>c \<in> set cs. mk_ID c \<noteq> []) \<and> distinct (map mk_ID cs)
     \<and> visit (rev (map (\<lambda>c. (mk_ID c, mk_DependsOn c)) cs)) [] (sort (map mk_ID cs)) [] = Inr order"
  by (auto simp: StartOrder_def bind_result_Inr_iff byID_of_Inr_iff)

lemma StartOrder_topo:
  assumes "StartOrder cs = Inr order"
  shows "topo (rev (map (\<lambda>c. (mk_ID c, mk_DependsOn c)) cs)) order" and "set order = set (map mk_ID cs)"
proof -
  let ?m = "rev (map (\<lambda>c. (mk_ID c, mk_DependsOn c)) cs)"
  from assms have d: "distinct (map mk_ID cs)" and v: "visit ?m [] (sort (map mk_ID cs)) [] = Inr order"
    by (simp_all add: StartOrder_Inr_iff)
  from visit_topo [OF v topo.nil] show t: "topo ?m order" by simp
  have "x \<in> set (map mk_ID cs)" if "x \<in> set order" for x
  proof -
    from topo_before [OF t that] obtain deps where "map_of ?m x = Some deps" by blast
    with byID_mem [OF d] show ?thesis by auto
  qed
  with visit_topo [OF v topo.nil] show "set order = set (map mk_ID cs)" by auto
qed

section \<open>Independence of the order of declarations\<close>

definition same_graph :: "(string \<times> string list) list \<Rightarrow> (string \<times> string list) list \<Rightarrow> bool" where
  "same_graph m m' \<longleftrightarrow> (\<forall>i. map_option sort (map_of m i) = map_option sort (map_of m' i))"

lemma visit_same_graph:
  "same_graph m m' \<Longrightarrow> visit m path ids order = visit m' path ids order"
proof (induction m path ids order rule: visit.induct)
  case (2 m path i ids order)
  have eq: "map_option sort (map_of m i) = map_option sort (map_of m' i)" using 2(4) by (simp add: same_graph_def)
  show ?case
  proof (cases "i \<in> set path \<or> i \<in> set order")
    case True
    with 2 show ?thesis by auto
  next
    case False
    then have np: "i \<notin> set path" "i \<notin> set order" by auto
    show ?thesis
    proof (cases "map_of m i")
      case None
      with eq np show ?thesis by simp
    next
      case (Some deps)
      with eq obtain deps' where d': "map_of m' i = Some deps'" "sort deps' = sort deps" by (cases "map_of m' i") auto
      have "visit m (i # path) (sort deps) order = visit m' (i # path) (sort deps) order"
        using 2(2) [OF np Some 2(4)] .
      moreover have "visit m path ids (x @ [i]) = visit m' path ids (x @ [i])" if "visit m (i # path) (sort deps) order = Inr x" for x
        using 2(3) [OF np Some that 2(4)] .
      ultimately show ?thesis using np Some d' by (auto simp: bind_result_def split: sum.splits)
    qed
  qed
qed simp

text \<open>What the topology depends on: identifiers and sorted dependencies.\<close>

definition declared :: "MComponent list \<Rightarrow> (string \<times> string list) list" where
  "declared cs = map (\<lambda>c. (mk_ID c, sort (mk_DependsOn c))) cs"

lemma map_of_sorted: "map_of (rev (declared cs)) i = map_option sort (map_of (rev (map (\<lambda>c. (mk_ID c, mk_DependsOn c)) cs)) i)"
proof -
  have "rev (declared cs) = map (\<lambda>(k, v). (k, sort v)) (rev (map (\<lambda>c. (mk_ID c, mk_DependsOn c)) cs))"
    by (simp add: declared_def rev_map comp_def)
  then show ?thesis by (simp add: map_of_map)
qed

lemma declared_fst: "map fst (declared cs) = map mk_ID cs"
  by (simp add: declared_def comp_def)

lemma map_of_permuted:
  assumes "mset xs = mset ys" "distinct (map fst xs)"
  shows "map_of (rev xs) = map_of (rev ys)"
proof -
  have "distinct (map fst ys)" using assms by (metis mset_map mset_eq_imp_distinct_iff)
  moreover have "set xs = set ys" using assms(1) by (rule mset_eq_setD)
  ultimately show ?thesis using assms(2) by (intro map_of_eqI) (auto simp: map_of_eq_Some_iff rev_map [symmetric] intro!: ext)
qed

lemma StartOrder_permuted:
  assumes "mset (declared cs') = mset (declared cs)" and "StartOrder cs = Inr order"
  shows "StartOrder cs' = Inr order"
proof -
  have ids: "mset (map mk_ID cs') = mset (map mk_ID cs)"
    unfolding declared_fst [symmetric] mset_map using assms(1) by simp
  from assms(2) have s: "2 \<le> length cs" "length cs \<le> 16" "\<forall>c \<in> set cs. mk_ID c \<noteq> []" "distinct (map mk_ID cs)"
      "visit (rev (map (\<lambda>c. (mk_ID c, mk_DependsOn c)) cs)) [] (sort (map mk_ID cs)) [] = Inr order"
    by (simp_all add: StartOrder_Inr_iff)
  have "map_of (rev (declared cs')) = map_of (rev (declared cs))"
    by (rule map_of_permuted [OF assms(1)]) (metis declared_fst ids mset_eq_imp_distinct_iff s(4))
  then have "same_graph (rev (map (\<lambda>c. (mk_ID c, mk_DependsOn c)) cs')) (rev (map (\<lambda>c. (mk_ID c, mk_DependsOn c)) cs))"
    unfolding same_graph_def by (metis map_of_sorted)
  moreover have "sort (map mk_ID cs') = sort (map mk_ID cs)" using ids by (metis properties_for_sort sorted_sort mset_sort)
  moreover have "length cs' = length cs" using ids by (metis length_map mset_eq_length)
  moreover have "\<forall>c \<in> set cs'. mk_ID c \<noteq> []" "distinct (map mk_ID cs')"
    using ids s(3,4) by (metis (mono_tags) image_iff list.set_map mset_eq_setD, metis mset_eq_imp_distinct_iff)
  ultimately show ?thesis using s visit_same_graph by (simp add: StartOrder_Inr_iff)
qed

lemma StartOrder_exists_iff:
  "(\<exists>order. StartOrder cs = Inr order) \<longleftrightarrow>
     2 \<le> length cs \<and> length cs \<le> 16 \<and> [] \<notin> set (map mk_ID cs) \<and> distinct (map mk_ID cs)
     \<and> fst ` depends cs \<subseteq> set (map mk_ID cs) \<and> acyclic (depends cs)" (is "?l \<longleftrightarrow> ?r")
proof
  let ?m = "rev (map (\<lambda>c. (mk_ID c, mk_DependsOn c)) cs)"
  assume ?l
  then obtain order where o': "StartOrder cs = Inr order" ..
  note topo = StartOrder_topo [OF o']
  from o' have s: "2 \<le> length cs" "length cs \<le> 16" "\<forall>c \<in> set cs. mk_ID c \<noteq> []" and d: "distinct (map mk_ID cs)"
    by (auto simp: StartOrder_Inr_iff)
  have "x \<in> set order" if "map_of ?m x = Some deps" for x deps
    using that byID_mem [OF d] topo(2) by auto
  with topo_acyclic [OF topo(1)] have "acyclic (depends cs)" by (simp add: dep_edges_depends [OF d])
  moreover have "x \<in> set (map mk_ID cs)" if "(x, y) \<in> depends cs" for x y
  proof -
    from that obtain deps where deps: "map_of ?m y = Some deps" "x \<in> set deps" by (auto simp: dep_edges_depends [OF d, symmetric] dep_edges_def)
    then have "y \<in> set order" using byID_mem [OF d] topo(2) by auto
    from topo_before [OF topo(1) this] deps have "x \<in> set order" by (metis Un_iff option.inject set_append subsetD)
    with topo(2) show ?thesis by simp
  qed
  ultimately show ?r using s d by auto
next
  let ?m = "rev (map (\<lambda>c. (mk_ID c, mk_DependsOn c)) cs)"
  assume r: ?r
  then have d: "distinct (map mk_ID cs)" by simp
  have keys: "map_of ?m x \<noteq> None \<longleftrightarrow> x \<in> set (map mk_ID cs)" for x by (simp add: map_of_eq_None_iff image_image)
  have "\<exists>order. visit ?m [] (sort (map mk_ID cs)) [] = Inr order"
  proof (rule visit_exists)
    show "acyclic (dep_edges ?m)" using r by (simp add: dep_edges_depends [OF d])
    show "map_of ?m y \<noteq> None" if "(y, x) \<in> dep_edges ?m" for x y
      using that r keys by (auto simp: dep_edges_depends [OF d])
    show "\<forall>i \<in> set (sort (map mk_ID cs)). map_of ?m i \<noteq> None" using keys by simp
  qed simp_all
  moreover have "\<forall>c \<in> set cs. mk_ID c \<noteq> []" using r by force
  ultimately show ?l using r by (auto simp: StartOrder_Inr_iff)
qed

section \<open>Properties\<close>

lemma map_ordinals: "map (\<lambda>p. int (fst p)) (zip [0..<length xs] xs) = map int [0..<length xs]"
proof -
  have "map int (map fst (zip [0..<length xs] xs)) = map int [0..<length xs]" by simp
  then show ?thesis by (simp only: map_map comp_def)
qed

text \<open>
  C20. The start order is a dependency order. When \<open>BuildTopology\<close> succeeds, the start order
  lists every component exactly once and each component after all components it depends on;
  the stop order is its reverse, and the ordinal of a component is its position.
\<close>

theorem start_order_correct:
  assumes "BuildTopology cs = Inr t"
  shows "distinct (tp_StartOrder t) \<and> set (tp_StartOrder t) = set (map mk_ID cs) \<and> tp_StopOrder t = rev (tp_StartOrder t)
    \<and> (\<forall>c \<in> set cs. \<exists>pre post. tp_StartOrder t = pre @ mk_ID c # post \<and> set (mk_DependsOn c) \<subseteq> set pre)
    \<and> map tc_ID (tp_Components t) = tp_StartOrder t
    \<and> map tc_Ordinal (tp_Components t) = map int [0..<length cs]"
proof -
  let ?o = "tp_StartOrder t" and ?m = "rev (map (\<lambda>c. (mk_ID c, mk_DependsOn c)) cs)"
  from assms have o': "StartOrder cs = Inr ?o" and t: "tp_StopOrder t = rev ?o" "map tc_ID (tp_Components t) = ?o"
      "map tc_Ordinal (tp_Components t) = map int [0..<length ?o]"
    by (auto simp: BuildTopology_def topology_of_def bind_result_Inr_iff Let_def comp_def case_prod_unfold enumerate_eq_zip map_ordinals
        intro: map_snd_zip)
  note topo = StartOrder_topo [OF o']
  from o' have d: "distinct (map mk_ID cs)" by (simp add: StartOrder_Inr_iff)
  have dist: "distinct ?o" by (rule topo_distinct [OF topo(1)])
  have "length ?o = length cs" using dist topo(2) d by (metis distinct_card length_map)
  moreover have "\<exists>pre post. ?o = pre @ mk_ID c # post \<and> set (mk_DependsOn c) \<subseteq> set pre" if c: "c \<in> set cs" for c
  proof -
    have "mk_ID c \<in> set ?o" using c topo(2) by auto
    from topo_before [OF topo(1) this] obtain pre post deps where *: "?o = pre @ mk_ID c # post" "map_of ?m (mk_ID c) = Some deps" "set deps \<subseteq> set pre" .
    moreover have "map_of ?m (mk_ID c) = Some (mk_DependsOn c)" using c byID_mem [OF d] by auto
    ultimately show ?thesis by auto
  qed
  ultimately show ?thesis using dist topo(2) t by auto
qed

definition demo_components :: "MComponent list" where
  "demo_components = [demo_mcomponent ''web'' [''db'', ''cache''], demo_mcomponent ''cache'' [''db''], demo_mcomponent ''db'' []]"

lemma demo_order: "StartOrder demo_components = Inr [''db'', ''cache'', ''web'']"
  by (simp add: demo_components_def demo_mcomponent_def StartOrder_def)

lemma BuildTopology_total: "StartOrder cs = Inr order \<Longrightarrow> \<exists>t. BuildTopology cs = Inr t \<and> tp_StartOrder t = order"
  by (simp add: BuildTopology_def topology_of_def Let_def)

theorem start_order_correct_witness:
  "\<exists>t. BuildTopology demo_components = Inr t \<and> tp_StopOrder t = [''web'', ''cache'', ''db'']"
proof -
  from BuildTopology_total [OF demo_order] obtain t where t: "BuildTopology demo_components = Inr t" "tp_StartOrder t = [''db'', ''cache'', ''web'']"
    by blast
  from start_order_correct [OF t(1)] t show ?thesis by auto
qed

text \<open>
  C21. When a start order exists. The search ends on every input, and it succeeds exactly when
  there are 2 to 16 components with distinct, non-empty identifiers, every dependency names a
  component, and the dependency relation has no cycle.
\<close>

theorem start_order_exists_iff:
  "(\<exists>order. StartOrder cs = Inr order) \<longleftrightarrow>
     2 \<le> length cs \<and> length cs \<le> 16 \<and> [] \<notin> set (map mk_ID cs) \<and> distinct (map mk_ID cs)
     \<and> fst ` depends cs \<subseteq> set (map mk_ID cs) \<and> acyclic (depends cs)"
  by (rule StartOrder_exists_iff)

text \<open>
  The topology does not depend on the order of declarations. Listing the components, and
  the dependencies of a component, in another order yields the same topology with the same
  hash.
\<close>

theorem topology_canonical:
  assumes "BuildTopology cs = Inr t" and "mset (declared cs') = mset (declared cs)"
  shows "BuildTopology cs' = Inr t"
proof -
  from assms(1) have o': "StartOrder cs = Inr (tp_StartOrder t)"
    by (auto simp: BuildTopology_def topology_of_def bind_result_Inr_iff Let_def)
  have "distinct (map fst (declared cs'))"
    using o' assms(2) by (metis StartOrder_Inr_iff declared_fst mset_eq_imp_distinct_iff mset_map)
  from map_of_permuted [OF assms(2) this] have "map_of (rev (declared cs')) = map_of (rev (declared cs))" .
  with assms(1) StartOrder_permuted [OF assms(2) o'] o' show ?thesis by (simp add: BuildTopology_def declared_def)
qed

theorem topology_canonical_witness: "\<exists>t. BuildTopology demo_components = Inr t \<and> BuildTopology (rev demo_components) = Inr t"
proof -
  from BuildTopology_total [OF demo_order] obtain t where t: "BuildTopology demo_components = Inr t" by blast
  have "mset (declared (rev demo_components)) = mset (declared demo_components)" by (simp add: declared_def rev_map)
  from topology_canonical [OF t this] t show ?thesis by blast
qed

section \<open>Validated manifests\<close>

text \<open>
  A validated manifest leaves two reasons for the search to fail: a cycle, and a single
  component. The second is a gap: schema versions 4 and later accept a manifest with exactly
  one component, which no topology can be built for.
\<close>

lemma validated_start_order:
  assumes "Validate m = Inr ()" "2 \<le> length (ma_Components m)" "acyclic (depends (ma_Components m))"
  shows "\<exists>order. StartOrder (ma_Components m) = Inr order"
proof -
  note p = Validate_parts [OF assms(1)]
  have "\<forall>c \<in> set (ma_Components m). mk_ID c \<noteq> []"
    using p(7) component_parts(1) by (fastforce simp: idPattern_def match_head_tail_def)
  then have "[] \<notin> set (map mk_ID (ma_Components m))" by force
  moreover have "fst ` depends (ma_Components m) \<subseteq> set (map mk_ID (ma_Components m))"
    using p(11) by (auto simp: depends_def)
  ultimately show ?thesis unfolding StartOrder_exists_iff using assms(2,3) p(8,15) by auto
qed

lemma one_component_gap:
  "Validate (demo_manifest [demo_mcomponent ''db'' []]) = Inr ()"
  "StartOrder (ma_Components (demo_manifest [demo_mcomponent ''db'' []])) = Inl (Errorf ''component count outside policy'')"
  by code_simp (simp add: demo_manifest_def StartOrder_def)

end
