(* ===== verification/Docker_Pools.thy ===== *)
theory Docker_Pools
  imports Exposure Complex_Main
begin

unbundle bit_operations_syntax

text \<open>
  The Docker address-pool prerequisite (\<open>internal/docker/prerequisite.go\<close>): the parts of
  \<open>net/netip\<close> it uses, the decoding of the daemon's pool configuration, of its networks
  and of the kernel's routing table, and the policy \<open>ValidateNetworkPrerequisites\<close> with
  its count of the child subnets of a pool that existing networks occupy. Counters are
  64-bit words, as the \<open>uint64\<close> variables of the source.
\<close>

section \<open>Addresses and prefixes\<close>

text \<open>\<open>netip.Addr\<close> without zones, and \<open>netip.Prefix\<close> with its zero value.\<close>

datatype Addr = Addr0 | Addr4 "32 word" | Addr16 "128 word"

datatype Prefix = Prefix0 | PrefixOf Addr nat

primrec Is4 :: "Addr \<Rightarrow> bool" where
  "Is4 Addr0 = False" | "Is4 (Addr4 _) = True" | "Is4 (Addr16 _) = False"

primrec BitLen :: "Addr \<Rightarrow> nat" where
  "BitLen Addr0 = 0" | "BitLen (Addr4 _) = 32" | "BitLen (Addr16 _) = 128"

primrec pf_Addr :: "Prefix \<Rightarrow> Addr" where
  "pf_Addr Prefix0 = Addr0" | "pf_Addr (PrefixOf a n) = a"

primrec pf_Bits :: "Prefix \<Rightarrow> int" where
  "pf_Bits Prefix0 = -1" | "pf_Bits (PrefixOf a n) = int n"

text \<open>The address as a number: \<open>binary.BigEndian.Uint32(a.AsSlice())\<close> for IPv4.\<close>

primrec addr_uint32 :: "Addr \<Rightarrow> 32 word" where
  "addr_uint32 Addr0 = 0" | "addr_uint32 (Addr4 w) = w" | "addr_uint32 (Addr16 w) = 0"

fun Contains :: "Prefix \<Rightarrow> Addr \<Rightarrow> bool" where
  "Contains (PrefixOf (Addr4 x) n) (Addr4 y) = (drop_bit (32 - n) (y XOR x) = 0)"
| "Contains (PrefixOf (Addr16 x) n) (Addr16 y) = (drop_bit (128 - n) (y XOR x) = 0)"
| "Contains _ _ = False"

fun Masked :: "Prefix \<Rightarrow> Prefix" where
  "Masked (PrefixOf (Addr4 x) n) = PrefixOf (Addr4 (push_bit (32 - n) (drop_bit (32 - n) x))) n"
| "Masked (PrefixOf (Addr16 x) n) = PrefixOf (Addr16 (push_bit (128 - n) (drop_bit (128 - n) x))) n"
| "Masked _ = Prefix0"

definition be_number :: "nat list \<Rightarrow> nat" where
  "be_number bs = fold (\<lambda>b acc. acc * 256 + b) bs 0"

definition ParseAddr :: "string \<Rightarrow> Addr option" where
  "ParseAddr s =
     (case find (\<lambda>c. c \<in> {CHR ''.'', CHR '':'', CHR ''%''}) s of
        Some CHR ''.'' \<Rightarrow> map_option (\<lambda>b. Addr4 (of_nat (be_number b))) (parse_ipv4 s)
      | Some CHR '':'' \<Rightarrow> if CHR ''%'' \<in> set s then None
          else map_option (\<lambda>b. Addr16 (of_nat (be_number b))) (parse_ipv6 s)
      | _ \<Rightarrow> None)"

text \<open>\<open>netip.ParsePrefix\<close>: the length follows the last slash, without sign or leading zero.\<close>

definition ParsePrefix :: "string \<Rightarrow> Prefix option" where
  "ParsePrefix s =
     (let parts = split_on (CHR ''/'') s; bits = last parts in
      if length parts < 2 then None
      else case ParseAddr (join_with ''/'' (butlast parts)) of None \<Rightarrow> None
        | Some a \<Rightarrow> if bits = [] \<or> \<not> list_all is_digit bits \<or> (1 < length bits \<and> hd bits = CHR ''0'')
            \<or> BitLen a < digits_value 0 bits then None
          else Some (PrefixOf a (digits_value 0 bits)))"

fun addr_string :: "Addr \<Rightarrow> string" where
  "addr_string Addr0 = ''invalid IP''"
| "addr_string (Addr4 w) = ipv4_string (be_bytes 4 (unat w))"
| "addr_string (Addr16 w) = (let bs = be_bytes 16 (unat w) in
     if take 12 bs = v4_mapped then ''::ffff:'' @ ipv4_string (drop 12 bs) else ipv6_string bs)"

fun prefix_string :: "Prefix \<Rightarrow> string" where
  "prefix_string Prefix0 = ''invalid Prefix''"
| "prefix_string (PrefixOf a n) = addr_string a @ ''/'' @ nat_digits n"

section \<open>Pools, networks and routes\<close>

record DefaultAddressPool =
  po_Base :: string
  po_Size :: int

record ExistingNetwork =
  xn_Name :: string
  xn_Interface :: string
  xn_Subnet :: Prefix

record HostRoute =
  ho_Interface :: string
  ho_Prefix :: Prefix

definition MinimumAvailableNetworkSubnets :: "64 word" where
  "MinimumAvailableNetworkSubnets = 64"

text \<open>A decoded JSON value, \<open>any\<close>; a number is a \<open>float64\<close>.\<close>

datatype go_any = AnyNil | AnyBool bool | AnyFloat rat | AnyString string
  | AnyList "go_any list" | AnyMap "(string \<times> go_any) list"

text \<open>\<open>int(f)\<close>: towards zero; out of range it is the smallest integer on the supported platforms.\<close>

definition int_of_float :: "rat \<Rightarrow> int" where
  "int_of_float q = (let t = (if q < 0 then \<lceil>q\<rceil> else \<lfloor>q\<rfloor>) in if - (2 ^ 63) \<le> t \<and> t < 2 ^ 63 then t else - (2 ^ 63))"

definition parse_pool_entry :: "go_any \<Rightarrow> DefaultAddressPool result" where
  "parse_pool_entry item = (case item of
      AnyMap entry \<Rightarrow>
        (let base = (case map_of entry ''Base'' of Some (AnyString s) \<Rightarrow> s | _ \<Rightarrow> []) in
         case map_of entry ''Size'' of
           Some (AnyFloat f) \<Rightarrow> if f \<noteq> of_int (int_of_float f) then Inl (Errorf ''address pool has an invalid subnet size'')
             else Inr \<lparr>po_Base = base, po_Size = int_of_float f\<rparr>
         | _ \<Rightarrow> Inl (Errorf ''address pool has an invalid subnet size''))
    | _ \<Rightarrow> Inl (Errorf ''unexpected default address-pool entry''))"

definition parseDefaultAddressPools :: "go_any \<Rightarrow> DefaultAddressPool list result" where
  "parseDefaultAddressPools value = (case value of
      AnyNil \<Rightarrow> Inr []
    | AnyList raw \<Rightarrow> map_result parse_pool_entry raw
    | _ \<Rightarrow> Inl (Errorf ''unexpected DefaultAddressPools value''))"

text \<open>An entry of the daemon's network list, as decoded.\<close>

record raw_network =
  rn_ID :: string
  rn_Name :: string
  rn_Driver :: string
  rn_Options :: "(string \<times> string) list"
  rn_Subnets :: "string list"

definition bridge_interface :: "raw_network \<Rightarrow> string" where
  "bridge_interface n =
     (let b = (case map_of (rn_Options n) ''com.docker.network.bridge.name'' of Some v \<Rightarrow> v | None \<Rightarrow> []) in
      if rn_Driver n = ''bridge'' \<and> b = [] then
        (if rn_Name n = ''bridge'' then ''docker0''
         else if 12 \<le> length (rn_ID n) then ''br-'' @ take 12 (rn_ID n) else b)
      else b)"

definition network_subnet :: "raw_network \<Rightarrow> string \<Rightarrow> ExistingNetwork list result" where
  "network_subnet n config =
     (if trim_space config = [] then Inr []
      else case ParsePrefix config of
          None \<Rightarrow> Inl (Errorf ''network has invalid subnet metadata'')
        | Some subnet \<Rightarrow> if Is4 (pf_Addr subnet)
            then Inr [\<lparr>xn_Name = rn_Name n, xn_Interface = bridge_interface n, xn_Subnet = Masked subnet\<rparr>]
            else Inr [])"

definition existingNetworks :: "raw_network list \<Rightarrow> ExistingNetwork list result" where
  "existingNetworks raw =
     bind_result (map_result (\<lambda>n. map_result (network_subnet n) (rn_Subnets n)) raw) (\<lambda>nss.
       Inr (concat (map concat nss)))"

definition privateIPv4Prefix :: "Prefix \<Rightarrow> bool" where
  "privateIPv4Prefix p = list_ex (\<lambda>private. pf_Bits private \<le> pf_Bits p \<and> Contains private (pf_Addr p))
     [PrefixOf (Addr4 0x0A000000) 8, PrefixOf (Addr4 0xAC100000) 12, PrefixOf (Addr4 0xC0A80000) 16]"

definition routeIsDockerNetwork :: "HostRoute \<Rightarrow> ExistingNetwork list \<Rightarrow> bool" where
  "routeIsDockerNetwork r networks = list_ex (\<lambda>n. xn_Interface n \<noteq> [] \<and> ho_Interface r = xn_Interface n
     \<and> ho_Prefix r = Masked (xn_Subnet n)) networks"

definition prefixesOverlap :: "Prefix \<Rightarrow> Prefix \<Rightarrow> bool" where
  "prefixesOverlap a b = (BitLen (pf_Addr a) = BitLen (pf_Addr b)
     \<and> (Contains a (pf_Addr b) \<or> Contains b (pf_Addr a)))"

section \<open>Occupied child subnets\<close>

record indexRange =
  ir_first :: "64 word"
  ir_last :: "64 word"

definition network_range :: "Prefix \<Rightarrow> int \<Rightarrow> ExistingNetwork \<Rightarrow> indexRange option" where
  "network_range pool childBits network =
     (let poolStart = ucast (addr_uint32 (pf_Addr pool)) :: 64 word;
          poolAddresses = push_bit (nat (32 - pf_Bits pool)) 1;
          poolEnd = poolStart + poolAddresses - 1;
          childAddresses = push_bit (nat (32 - childBits)) 1;
          subnet = Masked (xn_Subnet network) in
      if \<not> Is4 (pf_Addr subnet) \<or> \<not> prefixesOverlap pool subnet then None
      else let start = ucast (addr_uint32 (pf_Addr subnet)) :: 64 word;
               addresses = push_bit (nat (32 - pf_Bits subnet)) 1;
               last = start + addresses - 1;
               start' = (if start < poolStart then poolStart else start);
               last' = (if poolEnd < last then poolEnd else last) in
        Some \<lparr>ir_first = (start' - poolStart) div childAddresses, ir_last = (last' - poolStart) div childAddresses\<rparr>)"

text \<open>The loop over the sorted ranges: the count so far and the range being merged.\<close>

fun merge_ranges :: "64 word \<Rightarrow> indexRange \<Rightarrow> indexRange list \<Rightarrow> 64 word" where
  "merge_ranges occupied current [] = occupied + ir_last current - ir_first current + 1"
| "merge_ranges occupied current (item # rest) =
     (if ir_first item \<le> ir_last current + 1 then
        merge_ranges occupied (if ir_last current < ir_last item then current\<lparr>ir_last := ir_last item\<rparr> else current) rest
      else merge_ranges (occupied + (ir_last current - ir_first current + 1)) item rest)"

definition count_ranges :: "indexRange list \<Rightarrow> 64 word" where
  "count_ranges ranges = (case ranges of [] \<Rightarrow> 0 | r # rs \<Rightarrow> merge_ranges 0 r rs)"

definition occupiedChildSubnets :: "Prefix \<Rightarrow> int \<Rightarrow> ExistingNetwork list \<Rightarrow> 64 word" where
  "occupiedChildSubnets pool childBits networks =
     count_ranges (sort_key ir_first (List.map_filter (network_range pool childBits) networks))"

section \<open>The policy\<close>

text \<open>\<open>quote\<close> is the \<open>%q\<close> verb, \<open>strconv.Quote\<close>.\<close>

definition validate_pool :: "(string \<Rightarrow> string) \<Rightarrow> DefaultAddressPool \<Rightarrow> (Prefix \<times> int) result" where
  "validate_pool quote pool =
     (case ParsePrefix (trim_space (po_Base pool)) of
        None \<Rightarrow> Inl (Errorf (''Docker address-pool base '' @ quote (po_Base pool) @ '' is not a valid IPv4 CIDR''))
      | Some p0 \<Rightarrow>
        if \<not> Is4 (pf_Addr p0)
        then Inl (Errorf (''Docker address-pool base '' @ quote (po_Base pool) @ '' is not a valid IPv4 CIDR''))
        else let prefix = Masked p0 in
          if \<not> privateIPv4Prefix prefix
          then Inl (Errorf (''Docker address pool '' @ prefix_string prefix @ '' is not contained in RFC 1918 private address space''))
          else if po_Size pool \<le> pf_Bits prefix \<or> 24 < po_Size pool
          then Inl (Errorf (''Docker address pool '' @ prefix_string prefix
            @ '' must allocate subnets no smaller than /24 and narrower than its base''))
          else Inr (prefix, po_Size pool))"

fun pools_overlap_check :: "(Prefix \<times> int) list \<Rightarrow> unit result" where
  "pools_overlap_check [] = Inr ()"
| "pools_overlap_check (p # ps) =
     bind_result (each (\<lambda>q. require (\<not> prefixesOverlap (fst p) (fst q))
        (Errorf (''Docker default address pools '' @ prefix_string (fst p) @ '' and '' @ prefix_string (fst q) @ '' overlap''))
        (Inr ())) ps) (\<lambda>_. pools_overlap_check ps)"

definition route_check :: "(Prefix \<times> int) list \<Rightarrow> ExistingNetwork list \<Rightarrow> HostRoute \<Rightarrow> unit result" where
  "route_check validated networks route0 =
     (let route = route0\<lparr>ho_Prefix := Masked (ho_Prefix route0)\<rparr> in
      if \<not> Is4 (pf_Addr (ho_Prefix route)) \<or> pf_Bits (ho_Prefix route) = 0 \<or> routeIsDockerNetwork route networks
      then Inr ()
      else each (\<lambda>pool. require (\<not> prefixesOverlap (ho_Prefix route) (fst pool))
        (Errorf (''Docker address pool '' @ prefix_string (fst pool) @ '' overlaps existing host route ''
           @ prefix_string (ho_Prefix route) @ '' on '' @ ho_Interface route)) (Inr ())) validated)"

definition add_available :: "ExistingNetwork list \<Rightarrow> Prefix \<times> int \<Rightarrow> 64 word \<Rightarrow> 64 word" where
  "add_available networks pool available =
     (let total = push_bit (nat (snd pool - pf_Bits (fst pool))) 1;
          occupied = occupiedChildSubnets (fst pool) (snd pool) networks in
      if occupied < total then available + (total - occupied) else available)"

definition available_subnets :: "(Prefix \<times> int) list \<Rightarrow> ExistingNetwork list \<Rightarrow> 64 word" where
  "available_subnets validated networks = fold (add_available networks) validated 0"

definition ValidateNetworkPrerequisites ::
  "(string \<Rightarrow> string) \<Rightarrow> DefaultAddressPool list \<Rightarrow> ExistingNetwork list \<Rightarrow> HostRoute list \<Rightarrow> unit result" where
  "ValidateNetworkPrerequisites quote pools networks routes =
     require (pools \<noteq> []) (Errorf ''Docker has no explicit default address pool'')
     (bind_result (map_result (validate_pool quote) pools) (\<lambda>validated.
      bind_result (pools_overlap_check validated) (\<lambda>_.
      bind_result (each (route_check validated networks) routes) (\<lambda>_.
      let available = available_subnets validated networks in
      require (\<not> available < MinimumAvailableNetworkSubnets)
        (Errorf (''Docker default address pools provide '' @ nat_digits (unat available)
           @ '' available network subnets; KITPro alpha.13 requires at least '' @ nat_digits (unat MinimumAvailableNetworkSubnets)))
        (Inr ())))))"

section \<open>The kernel's routing table\<close>

fun hex_pairs :: "string \<Rightarrow> nat list option" where
  "hex_pairs [] = Some []"
| "hex_pairs [c] = None"
| "hex_pairs (c # d # s) = (if is_hex c \<and> is_hex d then map_option ((#) (hex_number [c, d])) (hex_pairs s) else None)"

definition decodeRouteIPv4 :: "string \<Rightarrow> Addr result" where
  "decodeRouteIPv4 value =
     (case hex_pairs value of
        Some [b0, b1, b2, b3] \<Rightarrow> Inr (Addr4 (of_nat (be_number [b3, b2, b1, b0])))
      | _ \<Rightarrow> Inl (Errorf ''invalid IPv4 route value''))"

text \<open>The loop over the mask's bits, from the most significant.\<close>

fun mask_bits :: "32 word \<Rightarrow> nat list \<Rightarrow> nat \<Rightarrow> bool \<Rightarrow> nat result" where
  "mask_bits m [] bits seenZero = Inr bits"
| "mask_bits m (i # is) bits seenZero =
     (let set = (m AND push_bit i 1 \<noteq> 0) in
      if seenZero \<and> set then Inl (Errorf ''host route has a non-contiguous IPv4 mask'')
      else if set then mask_bits m is (Suc bits) seenZero else mask_bits m is bits True)"

definition route_line :: "string \<Rightarrow> HostRoute list result" where
  "route_line line =
     (let fs = Fields line in
      if length fs < 8 then Inr []
      else case ParseUint16 32 (fs ! 3) of Inl _ \<Rightarrow> Inr []
        | Inr flags \<Rightarrow> if flags mod 2 = 0 then Inr []
          else bind_result (decodeRouteIPv4 (fs ! 1)) (\<lambda>destination.
               bind_result (decodeRouteIPv4 (fs ! 7)) (\<lambda>mask.
               bind_result (mask_bits (addr_uint32 mask) (rev [0..<32]) 0 False) (\<lambda>bits.
               Inr [\<lparr>ho_Interface = fs ! 0, ho_Prefix = Masked (PrefixOf destination bits)\<rparr>]))))"

definition readIPv4Routes :: "string result \<Rightarrow> HostRoute list result" where
  "readIPv4Routes data =
     bind_result data (\<lambda>text.
     bind_result (map_result route_line (tl (split_on (CHR 0x0A) (trim_space text)))) (\<lambda>rss. Inr (concat rss)))"

section \<open>The assessment\<close>

record AddressPoolAssessment =
  aa_State :: string
  aa_ReasonCode :: string
  aa_Summary :: string
  aa_CurrentPools :: "DefaultAddressPool list"
  aa_MinimumSubnetCapacity :: "64 word"
  aa_RequiresDockerRestart :: bool
  aa_Remediation :: string

definition addressPoolGuidance :: string where
  "addressPoolGuidance = ''configure an operator-selected, non-overlapping Docker '' @ [CHR 0x22] @ ''default-address-pools'' @ [CHR 0x22] @
     '' entry with at least 64 available IPv4 subnets of /24 or larger, restart Docker, and run kitpro-helper --verify-host-prerequisites again; Docker applies address-pool changes only to newly created networks''"

text \<open>
  The daemon's answers are arguments: \<open>info\<close> is the value of \<open>DefaultAddressPools\<close> or
  the error of the request, \<open>raw\<close> the decoded network list, \<open>route_text\<close> the contents
  of \<open>/proc/net/route\<close>.
\<close>

definition AssessNetworkPrerequisites ::
  "(string \<Rightarrow> string) \<Rightarrow> go_any result \<Rightarrow> raw_network list result \<Rightarrow> string result \<Rightarrow> AddressPoolAssessment" where
  "AssessNetworkPrerequisites quote info raw route_text =
     (let result = \<lparr>aa_State = ''failed'', aa_ReasonCode = ''inspection_failed'',
            aa_Summary = ''Docker address-pool readiness could not be inspected'', aa_CurrentPools = [],
            aa_MinimumSubnetCapacity = MinimumAvailableNetworkSubnets, aa_RequiresDockerRestart = False,
            aa_Remediation = addressPoolGuidance\<rparr> in
      case info of
        Inl _ \<Rightarrow> result\<lparr>aa_ReasonCode := ''docker_unavailable'', aa_Summary := ''Docker is unavailable''\<rparr>
      | Inr value \<Rightarrow>
        (case parseDefaultAddressPools value of
           Inl _ \<Rightarrow> result\<lparr>aa_ReasonCode := ''invalid_pool_configuration'',
               aa_Summary := ''Docker reported an invalid default address-pool configuration''\<rparr>
         | Inr pools \<Rightarrow>
           (let result = result\<lparr>aa_CurrentPools := pools\<rparr> in
            case bind_result raw existingNetworks of Inl _ \<Rightarrow> result
            | Inr networks \<Rightarrow>
              (case readIPv4Routes route_text of Inl _ \<Rightarrow> result
               | Inr routes \<Rightarrow>
                 (case ValidateNetworkPrerequisites quote pools networks routes of
                    Inl err \<Rightarrow> result\<lparr>aa_RequiresDockerRestart := True, aa_Summary := error_text err,
                        aa_ReasonCode := (if pools = [] then ''default_pool_missing''
                          else if str_contains ''overlap'' (error_text err) then ''address_pool_conflict''
                          else if str_contains ''available network subnets'' (error_text err) then ''address_pool_capacity''
                          else ''invalid_pool_configuration'')\<rparr>
                  | Inr _ \<Rightarrow> result\<lparr>aa_State := ''ready'', aa_ReasonCode := ''address_pool_sufficient'',
                        aa_Summary := ''Docker has a non-overlapping default address pool with sufficient capacity'',
                        aa_Remediation := []\<rparr>)))))"

definition VerifyNetworkPrerequisites :: "AddressPoolAssessment \<Rightarrow> unit result" where
  "VerifyNetworkPrerequisites assessment =
     (if aa_State assessment \<noteq> ''ready''
      then Inl (Errorf (''docker address-pool prerequisite failed: '' @ aa_Summary assessment @ ''; '' @ addressPoolGuidance))
      else Inr ())"

end
