(* ===== verification/Docker_Pools_Spec.thy ===== *)
theory Docker_Pools_Spec
  imports Docker_Pools "HOL-Library.Multiset"
begin

text \<open>
  Correctness of the address-pool prerequisite. A prefix denotes the set of addresses it
  contains; the count of occupied child subnets is compared with the set of child prefixes
  whose addresses meet those of an existing network, and the policy with the statement
  about address sets it is meant to enforce.
\<close>

section \<open>Prefixes as intervals\<close>

definition addresses :: "Prefix \<Rightarrow> 32 word set" where
  "addresses p = {a. Contains p (Addr4 a)}"

fun prefix4 :: "Prefix \<Rightarrow> bool" where
  "prefix4 (PrefixOf (Addr4 _) n) = (n \<le> 32)"
| "prefix4 _ = False"

fun prefix_ok :: "Prefix \<Rightarrow> bool" where
  "prefix_ok (PrefixOf (Addr4 _) n) = (n \<le> 32)"
| "prefix_ok _ = True"

definition lo :: "Prefix \<Rightarrow> nat" where
  "lo p = (let k = nat (32 - pf_Bits p) in unat (addr_uint32 (pf_Addr p)) div 2 ^ k * 2 ^ k)"

definition sz :: "Prefix \<Rightarrow> nat" where
  "sz p = 2 ^ nat (32 - pf_Bits p)"

lemma prefix4_cases [elim?]:
  assumes "prefix4 p" obtains x n where "p = PrefixOf (Addr4 x) n" and "n \<le> 32"
  using assms by (cases p rule: prefix4.cases) auto

lemma word_xor_0_iff: "a XOR b = 0 \<longleftrightarrow> a = b" for a b :: "'a::len word"
  by (metis bit.xor_self xor.left_neutral xor.left_commute xor.comm_neutral)

lemma unat_drop_bit: "unat (drop_bit k w) = unat w div 2 ^ k" for w :: "'a::len word"
  by (subst unat_drop_bit_eq, subst drop_bit_eq_div, rule refl)

lemma unat_of_nat32: "m < 2 ^ 32 \<Longrightarrow> unat (of_nat m :: 32 word) = m"
  by (simp add: unat_of_nat take_bit_nat_eq_self)

lemma Contains4_iff:
  "Contains (PrefixOf (Addr4 x) n) (Addr4 y) \<longleftrightarrow> unat y div 2 ^ (32 - n) = unat x div 2 ^ (32 - n)"
proof -
  have "drop_bit (32 - n) (y XOR x) = 0 \<longleftrightarrow> drop_bit (32 - n) y = drop_bit (32 - n) x"
    by (simp add: drop_bit_xor word_xor_0_iff)
  also have "\<dots> \<longleftrightarrow> unat (drop_bit (32 - n) y) = unat (drop_bit (32 - n) x)"
    by (rule word_unat_eq_iff)
  finally show ?thesis by (simp only: Contains.simps unat_drop_bit)
qed

lemma div_interval: "a div C = b div C \<longleftrightarrow> b div C * C \<le> a \<and> a < b div C * C + C" if "0 < C" for a b C :: nat
  using that by (metis add.commute div_nat_eqI dividend_less_times_div mult.commute mult_Suc_right
      div_times_less_eq_dividend add_Suc_right less_add_Suc1 nat_le_iff_add)

lemma mem_addresses:
  assumes "prefix4 p"
  shows "a \<in> addresses p \<longleftrightarrow> lo p \<le> unat a \<and> unat a < lo p + sz p"
  using assms by (cases rule: prefix4_cases)
    (simp add: addresses_def Contains4_iff lo_def sz_def div_interval Let_def nat_diff_distrib del: Contains.simps)


lemma lo_sz_bound: assumes "prefix4 p" shows "lo p + sz p \<le> 2 ^ 32"
proof -
  from assms obtain x n where p: "p = PrefixOf (Addr4 x) n" "n \<le> 32" ..
  let ?C = "2 ^ (32 - n) :: nat"
  have "unat x < 2 ^ 32" using unsigned_less [of x] by simp
  also have "(2::nat) ^ 32 = 2 ^ n * ?C" using p(2) by (simp flip: power_add)
  finally have "unat x div ?C < 2 ^ n" by (simp add: div_less_iff_less_mult)
  then have "(unat x div ?C + 1) * ?C \<le> 2 ^ n * ?C" by (intro mult_le_mono1) simp
  also have "\<dots> = 2 ^ 32" using p(2) by (simp flip: power_add)
  finally show ?thesis using p by (simp add: lo_def sz_def Let_def algebra_simps nat_diff_distrib)
qed

lemma unat_Masked:
  "unat (push_bit k (drop_bit k x)) = unat x div 2 ^ k * 2 ^ k" for x :: "'a::len word"
proof -
  have "push_bit k (drop_bit k x) = of_nat (unat (drop_bit k x)) * 2 ^ k"
    by (simp add: push_bit_eq_mult)
  also have "\<dots> = of_nat (unat x div 2 ^ k * 2 ^ k)"
    by (simp only: unat_drop_bit of_nat_mult of_nat_power of_nat_numeral)
  finally have "push_bit k (drop_bit k x) = (of_nat (unat x div 2 ^ k * 2 ^ k) :: 'a word)" .
  moreover have "unat x div 2 ^ k * 2 ^ k < 2 ^ LENGTH('a)"
    using div_times_less_eq_dividend [of "unat x" "2 ^ k"] unsigned_less [of x] le_less_trans by blast
  ultimately show ?thesis by (simp only: unat_of_nat take_bit_nat_eq_self_iff) (simp add: take_bit_nat_eq_self)
qed


lemma Masked4:
  assumes "prefix4 p"
  shows "prefix4 (Masked p)" and "unat (addr_uint32 (pf_Addr (Masked p))) = lo p"
    and "pf_Bits (Masked p) = pf_Bits p" and "lo (Masked p) = lo p" and "sz (Masked p) = sz p"
  using assms by (auto simp: lo_def sz_def Let_def unat_Masked nat_diff_distrib elim!: prefix4_cases
      simp del: push_bit_eq_mult drop_bit_eq_div)

lemma card_addresses:
  assumes "prefix4 p" shows "card (addresses p) = sz p"
proof -
  have "unat ` addresses p = {lo p..<lo p + sz p}"
  proof (intro equalityI subsetI)
    fix m assume m: "m \<in> {lo p..<lo p + sz p}"
    then have "m < 2 ^ 32" using lo_sz_bound [OF assms] by simp
    then have "m = unat (of_nat m :: 32 word)" by (simp only: unat_of_nat32)
    then show "m \<in> unat ` addresses p" using m by (intro image_eqI [of _ _ "of_nat m"]) (auto simp: mem_addresses assms)
  qed (auto simp: mem_addresses assms)
  moreover have "card (unat ` addresses p) = card (addresses p)"
    by (intro card_image inj_onI) (simp add: word_unat_eq_iff)
  ultimately show ?thesis by simp
qed

lemma addresses_Masked: "prefix4 p \<Longrightarrow> addresses (Masked p) = addresses p"
  by (auto simp: mem_addresses Masked4)

section \<open>Merging index ranges\<close>

definition idx :: "indexRange \<Rightarrow> nat set" where
  "idx r = {unat (ir_first r)..unat (ir_last r)}"

definition range_ok :: "indexRange \<Rightarrow> bool" where
  "range_ok r \<longleftrightarrow> unat (ir_first r) \<le> unat (ir_last r) \<and> unat (ir_last r) < 2 ^ 32"

lemma unat_add_small: "unat a + unat b < 2 ^ 64 \<Longrightarrow> unat (a + b) = unat a + unat b" for a b :: "64 word"
  using unat_add_lem [of a b] by simp

lemma unat_len:
  assumes "range_ok r" shows "unat (ir_last r - ir_first r + 1) = card (idx r)"
proof -
  have "unat (ir_last r - ir_first r) = unat (ir_last r) - unat (ir_first r)"
    using assms by (simp add: range_ok_def unat_sub word_le_nat_alt)
  then show ?thesis
    using assms by (subst unat_add_small) (auto simp: range_ok_def idx_def)
qed

lemma unat_grow:
  assumes "range_ok r" and "unat occ \<le> unat (ir_first r)"
  shows "unat (occ + (ir_last r - ir_first r + 1)) = unat occ + card (idx r)"
proof -
  have "unat occ + card (idx r) < 2 ^ 64" using assms by (auto simp: range_ok_def idx_def)
  then show ?thesis using unat_len [OF assms(1)] by (subst unat_add_small) auto
qed

lemma merge_ranges_card:
  assumes "sorted (map ir_first (c # rs))" and "list_all range_ok (c # rs)" and "unat occ \<le> unat (ir_first c)"
  shows "unat (merge_ranges occ c rs) = unat occ + card (\<Union> (idx ` set (c # rs)))"
  using assms
proof (induction rs arbitrary: occ c)
  case Nil
  have "occ + ir_last c - ir_first c + 1 = occ + (ir_last c - ir_first c + 1)" by simp
  then have "merge_ranges occ c [] = occ + (ir_last c - ir_first c + 1)" by (simp only: merge_ranges.simps)
  with Nil show ?case by (simp add: unat_grow del: merge_ranges.simps)
next
  case (Cons r rs)
  have l1: "unat (ir_last c + 1) = unat (ir_last c) + 1"
    using Cons.prems by (subst unat_add_small) (auto simp: range_ok_def)
  have ord: "\<And>x. x \<in> set (r # rs) \<Longrightarrow> unat (ir_first c) \<le> unat (ir_first x)" "unat (ir_first c) \<le> unat (ir_first r)"
    "\<And>x. x \<in> set rs \<Longrightarrow> unat (ir_first r) \<le> unat (ir_first x)"
    using Cons.prems(1) by (auto simp: word_le_nat_alt)
  show ?case
  proof (cases "ir_first r \<le> ir_last c + 1")
    case True
    let ?c = "if ir_last c < ir_last r then c\<lparr>ir_last := ir_last r\<rparr> else c"
    have u: "idx ?c = idx c \<union> idx r" and "range_ok ?c" "ir_first ?c = ir_first c"
      using True Cons.prems ord(2) l1
      by (auto simp: idx_def range_ok_def word_le_nat_alt word_less_nat_alt)
    with Cons.prems ord have "unat (merge_ranges occ ?c rs) = unat occ + card (\<Union> (idx ` set (?c # rs)))"
      by (intro Cons.IH) (auto simp: word_le_nat_alt)
    with u True show ?thesis by (simp add: Un_assoc)
  next
    case False
    let ?o = "occ + (ir_last c - ir_first c + 1)"
    have o: "unat ?o = unat occ + card (idx c)"
      using Cons.prems by (intro unat_grow) auto
    have gap: "unat (ir_last c) + 1 < unat (ir_first r)" using False l1 by (simp add: word_le_nat_alt)
    have "card (idx c) \<le> unat (ir_last c) + 1 - unat (ir_first c)" by (simp add: idx_def)
    with o gap Cons.prems(2,3) have "unat ?o \<le> unat (ir_first r)" by (auto simp: range_ok_def)
    with Cons.prems have "unat (merge_ranges ?o r rs) = unat ?o + card (\<Union> (idx ` set (r # rs)))"
      by (intro Cons.IH) auto
    moreover have "idx c \<inter> \<Union> (idx ` set (r # rs)) = {}"
      using gap ord(3) by (fastforce simp: idx_def)
    then have "card (idx c \<union> \<Union> (idx ` set (r # rs))) = card (idx c) + card (\<Union> (idx ` set (r # rs)))"
      by (intro card_Un_disjoint) (auto simp: idx_def)
    ultimately show ?thesis using False o by simp
  qed
qed

lemma count_ranges_card:
  assumes "sorted (map ir_first rs)" and "list_all range_ok rs"
  shows "unat (count_ranges rs) = card (\<Union> (idx ` set rs))"
  using merge_ranges_card [of "hd rs" "tl rs" 0] assms by (cases rs) (auto simp: count_ranges_def)

text \<open>
  \<open>sort.Slice\<close> is not stable, but every order of the ranges with ascending first indices
  gives the same count.
\<close>

lemma count_ranges_any_order:
  assumes "mset rs' = mset rs" and "sorted (map ir_first rs')" and "list_all range_ok rs"
  shows "count_ranges rs' = count_ranges (sort_key ir_first rs)"
proof -
  have s: "set rs' = set rs" using assms(1) by (metis mset_eq_setD)
  with assms have "unat (count_ranges rs') = unat (count_ranges (sort_key ir_first rs))"
    by (subst (1 2) count_ranges_card) (auto simp: list_all_iff)
  then show ?thesis by (simp add: word_unat_eq_iff)
qed


section \<open>The range of a network in a pool\<close>

text \<open>The half-open intervals of two prefixes have a common address.\<close>

definition meets :: "Prefix \<Rightarrow> Prefix \<Rightarrow> bool" where
  "meets p q \<longleftrightarrow> lo p < lo q + sz q \<and> lo q < lo p + sz p"

lemma sz_pos [simp]: "0 < sz p" by (simp add: sz_def)

lemma Contains_masked:
  assumes "prefix4 p" and "prefix4 q"
  shows "Contains p (pf_Addr (Masked q)) \<longleftrightarrow> lo p \<le> lo q \<and> lo q < lo p + sz p"
proof -
  from Masked4(1) [OF assms(2)] obtain x n where q: "Masked q = PrefixOf (Addr4 x) n" ..
  with Masked4(2) [OF assms(2)] have "unat x = lo q" by simp
  with q mem_addresses [OF assms(1), of x] show ?thesis by (simp add: addresses_def)
qed

lemma prefixesOverlap_iff:
  assumes "prefix4 p" and "Masked p = p" and "prefix4 q"
  shows "prefixesOverlap p (Masked q) \<longleftrightarrow> meets p q"
proof -
  have "BitLen (pf_Addr p) = BitLen (pf_Addr (Masked q))"
    using assms(1) Masked4(1) [OF assms(3)] by (auto elim!: prefix4_cases)
  moreover have "Contains p (pf_Addr (Masked q)) \<longleftrightarrow> lo p \<le> lo q \<and> lo q < lo p + sz p"
    using assms by (simp add: Contains_masked)
  moreover have "Contains (Masked q) (pf_Addr p) \<longleftrightarrow> lo q \<le> lo p \<and> lo p < lo q + sz q"
    using assms Contains_masked [OF Masked4(1) [OF assms(3)] assms(1)] by (simp add: Masked4)
  ultimately show ?thesis
    using sz_pos [of p] sz_pos [of q] unfolding prefixesOverlap_def meets_def by linarith
qed

lemma addresses_meet_iff:
  assumes "prefix4 p" and "prefix4 q"
  shows "addresses p \<inter> addresses q \<noteq> {} \<longleftrightarrow> meets p q"
proof
  assume "meets p q"
  define m where "m = max (lo p) (lo q)"
  have "m < 2 ^ 32" using lo_sz_bound [OF assms(1)] lo_sz_bound [OF assms(2)] sz_pos [of p] sz_pos [of q]
    unfolding m_def by linarith
  then have "unat (of_nat m :: 32 word) = m" by (rule unat_of_nat32)
  with \<open>meets p q\<close> have "of_nat m \<in> addresses p \<inter> addresses q"
    by (auto simp: mem_addresses assms meets_def m_def)
  then show "addresses p \<inter> addresses q \<noteq> {}" by blast
qed (auto simp: mem_addresses assms meets_def)

definition child :: "Prefix \<Rightarrow> nat \<Rightarrow> nat \<Rightarrow> Prefix" where
  "child pool cb i = PrefixOf (Addr4 (of_nat (lo pool + i * 2 ^ (32 - cb)))) cb"

lemma pool_split:
  assumes "prefix4 p" and "pf_Bits p < int cb" and "cb \<le> 32"
  shows "sz p = 2 ^ nat (int cb - pf_Bits p) * 2 ^ (32 - cb)" and "(2::nat) ^ (32 - cb) dvd lo p"
proof -
  from assms obtain x n where p: "p = PrefixOf (Addr4 x) n" "n < cb" "n \<le> 32" by (auto elim!: prefix4_cases)
  have "32 - n = (cb - n) + (32 - cb)" using p assms by simp
  then have "(2::nat) ^ (32 - n) = 2 ^ (cb - n) * 2 ^ (32 - cb)" by (simp add: power_add)
  with p show "sz p = 2 ^ nat (int cb - pf_Bits p) * 2 ^ (32 - cb)" "(2::nat) ^ (32 - cb) dvd lo p"
    by (auto simp: sz_def lo_def Let_def nat_diff_distrib)
qed

lemma child_interval:
  assumes "prefix4 p" and "pf_Bits p < int cb" and "cb \<le> 32" and "i < 2 ^ nat (int cb - pf_Bits p)"
  shows "prefix4 (child p cb i)" and "lo (child p cb i) = lo p + i * 2 ^ (32 - cb)"
    and "sz (child p cb i) = 2 ^ (32 - cb)" and "lo (child p cb i) + sz (child p cb i) \<le> lo p + sz p"
proof -
  let ?C = "2 ^ (32 - cb) :: nat"
  have "(i + 1) * ?C \<le> sz p"
    unfolding pool_split(1) [OF assms(1-3)] using assms(4) by (intro mult_le_mono1) simp
  moreover have "0 < ?C" by simp
  moreover from calculation have "lo p + i * ?C < 2 ^ 32"
    using lo_sz_bound [OF assms(1)] unfolding add_mult_distrib by linarith
  then have "unat (of_nat (lo p + i * ?C) :: 32 word) = lo p + i * ?C" by (rule unat_of_nat32)
  moreover have "?C dvd lo p + i * ?C" using pool_split(2) [OF assms(1-3)] by simp
  moreover have "lo (child p cb i) = unat (of_nat (lo p + i * ?C) :: 32 word) div ?C * ?C" "sz (child p cb i) = ?C"
    "prefix4 (child p cb i)" using assms(3) by (simp_all add: child_def lo_def sz_def Let_def nat_diff_distrib)
  ultimately show "prefix4 (child p cb i)" "lo (child p cb i) = lo p + i * ?C"
    "sz (child p cb i) = ?C" "lo (child p cb i) + sz (child p cb i) \<le> lo p + sz p"
    by (auto simp: add_mult_distrib)
qed

lemma index_interval:
  fixes C N P S E i :: nat
  assumes "0 < C" and "P < E" and "0 < N"
  shows "(max S P - P) div C \<le> i \<and> i \<le> (min (E - 1) (P + N * C - 1) - P) div C
    \<longleftrightarrow> i < N \<and> P + i * C < E \<and> S < P + i * C + C"
proof -
  have "(max S P - P) div C \<le> i \<longleftrightarrow> max S P - P < i * C + C"
    using assms(1) div_less_iff_less_mult [of C "max S P - P" "Suc i"] by (simp add: less_Suc_eq_le add.commute)
  moreover have "i \<le> (min (E - 1) (P + N * C - 1) - P) div C \<longleftrightarrow> i * C \<le> min (E - 1) (P + N * C - 1) - P"
    using assms(1) by (simp add: less_eq_div_iff_mult_less_eq)
  moreover have "i < N \<longleftrightarrow> i * C < N * C" using assms(1) by simp
  moreover have "max S P - P < q + C \<longleftrightarrow> S < P + q + C" for q
    using assms(1) unfolding max_def by (cases "S \<le> P") auto
  moreover have "q \<le> min (E - 1) (P + Z - 1) - P \<longleftrightarrow> P + q < E \<and> q < Z" if "0 < Z" for q Z
    using assms(2) that by (cases "E \<le> P + Z") (auto simp: min_def)
  ultimately show ?thesis using assms by auto
qed


lemma unat_pow64: assumes "k < 64" shows "unat ((2 :: 64 word) ^ k) = 2 ^ k"
proof -
  have "(2 :: 64 word) ^ k = of_nat (2 ^ k)" by simp
  moreover have "(2 :: nat) ^ k < 2 ^ 64" using assms by (intro power_strict_increasing) auto
  ultimately show ?thesis by (simp only: unat_of_nat) (simp add: take_bit_nat_eq_self)
qed

lemma unat_ucast32: "unat (ucast w :: 64 word) = unat (w :: 32 word)"
proof -
  have "unat w < 2 ^ LENGTH(32)" by (rule unsigned_less)
  then show ?thesis by (simp add: unsigned_ucast_eq take_bit_nat_eq_self)
qed

lemma unat_last:
  assumes "prefix4 p"
  shows "unat (ucast (addr_uint32 (pf_Addr (Masked p))) + push_bit (nat (32 - pf_Bits (Masked p))) 1 - 1 :: 64 word) = lo p + sz p - 1"
proof -
  have n: "nat (32 - pf_Bits p) < 64" using assms by (auto elim!: prefix4_cases)
  have s: "unat (ucast (addr_uint32 (pf_Addr (Masked p))) + push_bit (nat (32 - pf_Bits p)) 1 :: 64 word) = lo p + sz p"
    using lo_sz_bound [OF assms] n
    by (subst unat_add_small) (simp_all add: unat_pow64 unat_ucast32 Masked4 assms sz_def)
  then have "(1 :: 64 word) \<le> ucast (addr_uint32 (pf_Addr (Masked p))) + push_bit (nat (32 - pf_Bits p)) 1"
    using sz_pos [of p] by (simp add: word_le_nat_alt del: sz_pos)
  from unat_sub [OF this] s show ?thesis by (simp add: Masked4 assms)
qed


definition hit_children :: "Prefix \<Rightarrow> nat \<Rightarrow> Prefix \<Rightarrow> nat set" where
  "hit_children pool cb s = {i. i < 2 ^ nat (int cb - pf_Bits pool) \<and> meets (child pool cb i) s}"

lemma network_range_value:
  assumes "prefix4 p" and "Masked p = p" and "cb \<le> 32" and "prefix4 (xn_Subnet n)" and "meets p (xn_Subnet n)"
  obtains r where "network_range p (int cb) n = Some r"
    and "unat (ir_first r) = (max (lo (xn_Subnet n)) (lo p) - lo p) div 2 ^ (32 - cb)"
    and "unat (ir_last r) = (min (lo (xn_Subnet n) + sz (xn_Subnet n) - 1) (lo p + sz p - 1) - lo p) div 2 ^ (32 - cb)"
proof -
  let ?s = "xn_Subnet n"
  let ?ps = "ucast (addr_uint32 (pf_Addr p)) :: 64 word" and ?ss = "ucast (addr_uint32 (pf_Addr (Masked ?s))) :: 64 word"
  let ?pe = "?ps + push_bit (nat (32 - pf_Bits p)) 1 - 1"
    and ?se = "?ss + push_bit (nat (32 - pf_Bits (Masked ?s))) 1 - 1" and ?ch = "push_bit (nat (32 - int cb)) 1 :: 64 word"
  define b e where "b = (if ?ss < ?ps then ?ps else ?ss)" and "e = (if ?pe < ?se then ?pe else ?se)"
  have ps: "unat ?ps = lo p" using Masked4(2) [OF assms(1)] assms(2) by (simp only: unat_ucast32)
  have ss: "unat ?ss = lo ?s" using Masked4(2) [OF assms(4)] by (simp only: unat_ucast32)
  have pe: "unat ?pe = lo p + sz p - 1" using unat_last [OF assms(1)] assms(2) by simp
  have ch: "unat ?ch = 2 ^ (32 - cb)" using assms(3) by (simp add: unat_pow64 nat_diff_distrib)
  have b: "unat b = max (lo ?s) (lo p)"
    using ps ss by (auto simp: b_def word_less_nat_alt max_def)
  have e: "unat e = min (lo ?s + sz ?s - 1) (lo p + sz p - 1)"
    using pe unat_last [OF assms(4)] by (auto simp only: e_def word_less_nat_alt min_def split: if_splits)
  have "lo p \<le> min (lo ?s + sz ?s - 1) (lo p + sz p - 1)"
    using assms(5) sz_pos [of p] unfolding meets_def by linarith
  then have "unat ((e - ?ps) div ?ch) = (min (lo ?s + sz ?s - 1) (lo p + sz p - 1) - lo p) div 2 ^ (32 - cb)"
    using e ps ch by (simp add: unat_div unat_sub word_le_nat_alt)
  moreover have "unat ((b - ?ps) div ?ch) = (max (lo ?s) (lo p) - lo p) div 2 ^ (32 - cb)"
    using b ps ch by (simp add: unat_div unat_sub word_le_nat_alt)
  moreover have "network_range p (int cb) n = Some \<lparr>ir_first = (b - ?ps) div ?ch, ir_last = (e - ?ps) div ?ch\<rparr>"
    using assms Masked4(1) [OF assms(4)]
    by (auto simp: network_range_def Let_def prefixesOverlap_iff b_def e_def elim!: prefix4_cases)
  ultimately show ?thesis using that by simp
qed

lemma network_range_idx:
  assumes "prefix4 p" and "Masked p = p" and "pf_Bits p < int cb" and "cb \<le> 32" and "prefix4 (xn_Subnet n)"
  shows "case network_range p (int cb) n of
      None \<Rightarrow> hit_children p cb (xn_Subnet n) = {}
    | Some r \<Rightarrow> range_ok r \<and> idx r = hit_children p cb (xn_Subnet n)"
proof (cases "meets p (xn_Subnet n)")
  case False
  then have "network_range p (int cb) n = None"
    using assms by (simp add: network_range_def Let_def prefixesOverlap_iff)
  moreover have "hit_children p cb (xn_Subnet n) = {}"
    using False child_interval [OF assms(1,3,4)] by (fastforce simp: hit_children_def meets_def)
  ultimately show ?thesis by simp
next
  case True
  let ?s = "xn_Subnet n"
  obtain r where r: "network_range p (int cb) n = Some r"
    and f: "unat (ir_first r) = (max (lo ?s) (lo p) - lo p) div 2 ^ (32 - cb)"
    and l: "unat (ir_last r) = (min (lo ?s + sz ?s - 1) (lo p + sz p - 1) - lo p) div 2 ^ (32 - cb)"
    using network_range_value [OF assms(1,2,4,5) True] .
  have "idx r = hit_children p cb ?s"
    unfolding idx_def f l hit_children_def pool_split(1) [OF assms(1,3,4)]
    using True child_interval [OF assms(1,3,4)]
      index_interval [of "2 ^ (32 - cb)" "lo p" "lo ?s + sz ?s" "2 ^ nat (int cb - pf_Bits p)" "lo ?s"]
    by (auto simp: meets_def)
  moreover have "unat (ir_last r) \<le> sz p - 1"
    unfolding l by (rule order_trans [OF div_le_dividend]) simp
  then have "unat (ir_last r) < 2 ^ 32" using lo_sz_bound [OF assms(1)] sz_pos [of p] by linarith
  moreover have "max (lo ?s) (lo p) \<le> min (lo ?s + sz ?s - 1) (lo p + sz p - 1)"
    using True sz_pos [of p] sz_pos [of ?s] unfolding meets_def by linarith
  then have "unat (ir_first r) \<le> unat (ir_last r)" unfolding f l by (intro div_le_mono diff_le_mono)
  ultimately show ?thesis using r by (simp add: range_ok_def)
qed

section \<open>The number of occupied child subnets\<close>

text \<open>The prefixes of length \<open>cb\<close> inside a pool, and those that share an address with a network.\<close>

definition child_subnets :: "Prefix \<Rightarrow> nat \<Rightarrow> Prefix set" where
  "child_subnets pool cb = {c. \<exists>a. c = PrefixOf (Addr4 a) cb \<and> Masked c = c \<and> addresses c \<subseteq> addresses pool}"

definition taken :: "ExistingNetwork list \<Rightarrow> Prefix \<Rightarrow> bool" where
  "taken networks c \<longleftrightarrow> (\<exists>n \<in> set networks. addresses c \<inter> addresses (xn_Subnet n) \<noteq> {})"

lemma lo_in_addresses:
  assumes "prefix4 p" and "Masked p = p" shows "addr_uint32 (pf_Addr p) \<in> addresses p"
  using Masked4(2) [OF assms(1)] assms by (simp add: mem_addresses)

lemma Masked_iff: "prefix4 p \<Longrightarrow> Masked p = p \<longleftrightarrow> unat (addr_uint32 (pf_Addr p)) = lo p"
  using Masked4(2) [of p] Masked4(3) [of p]
  by (auto elim!: prefix4_cases simp: word_unat_eq_iff simp del: push_bit_eq_mult)

lemma child_subnets_image:
  assumes "prefix4 p" and "pf_Bits p < int cb" and "cb \<le> 32"
  shows "child_subnets p cb = child p cb ` {..<2 ^ nat (int cb - pf_Bits p)}"
proof (intro set_eqI iffI)
  fix c assume "c \<in> child p cb ` {..<2 ^ nat (int cb - pf_Bits p)}"
  then obtain i where i: "i < 2 ^ nat (int cb - pf_Bits p)" "c = child p cb i" by auto
  note ci = child_interval [OF assms i(1)]
  have "lo p + i * 2 ^ (32 - cb) < 2 ^ 32"
    using ci(2,4) sz_pos [of "child p cb i"] lo_sz_bound [OF assms(1)] by linarith
  then have "unat (addr_uint32 (pf_Addr c)) = lo c"
    using ci(2) i(2) unat_of_nat32 [of "lo p + i * 2 ^ (32 - cb)"] by (simp add: child_def)
  then have "Masked c = c" using ci(1) i(2) by (simp add: Masked_iff)
  moreover have "addresses c \<subseteq> addresses p" using ci i(2) assms(1) by (auto simp: mem_addresses)
  ultimately show "c \<in> child_subnets p cb" using i(2) by (auto simp: child_subnets_def child_def)
next
  fix c assume "c \<in> child_subnets p cb"
  then obtain a where c: "c = PrefixOf (Addr4 a) cb" "Masked c = c" "addresses c \<subseteq> addresses p"
    by (auto simp: child_subnets_def)
  let ?C = "2 ^ (32 - cb) :: nat"
  have c4: "prefix4 c" using c(1) assms(3) by simp
  have a: "unat a = lo c" using Masked_iff [OF c4] c by simp
  have "lo p \<le> unat a" "unat a < lo p + sz p"
    using lo_in_addresses [OF c4 c(2)] c mem_addresses [OF assms(1)] by auto
  moreover have "?C dvd lo c" using c(1) assms(3) by (simp add: lo_def Let_def nat_diff_distrib)
  then have "?C dvd unat a - lo p" using a pool_split(2) [OF assms] by simp
  then obtain i where i: "unat a - lo p = i * ?C" by (metis dvd_div_mult_self)
  ultimately have "unat a = lo p + i * ?C" "i * ?C < 2 ^ nat (int cb - pf_Bits p) * ?C"
    using pool_split(1) [OF assms] by linarith+
  moreover have "a = of_nat (unat a)" by simp
  ultimately have "c = child p cb i" "i < 2 ^ nat (int cb - pf_Bits p)"
    using c(1) by (simp_all only: child_def mult_less_cancel2)
  then show "c \<in> child p cb ` {..<2 ^ nat (int cb - pf_Bits p)}" by blast
qed

lemma child_inj:
  assumes "prefix4 p" and "pf_Bits p < int cb" and "cb \<le> 32"
  shows "inj_on (child p cb) {..<2 ^ nat (int cb - pf_Bits p)}"
proof (rule inj_onI)
  fix i j
  assume i: "i \<in> {..<2 ^ nat (int cb - pf_Bits p)}" and j: "j \<in> {..<2 ^ nat (int cb - pf_Bits p)}"
    and eq: "child p cb i = child p cb j"
  have "lo p + i * 2 ^ (32 - cb) = lo p + j * 2 ^ (32 - cb)"
    using child_interval(2) [OF assms, of i] child_interval(2) [OF assms, of j] i j unfolding eq by simp
  then show "i = j" by simp
qed

lemma addresses_not4: "\<not> prefix4 s \<Longrightarrow> prefix_ok s \<Longrightarrow> addresses s = {} \<and> \<not> Is4 (pf_Addr (Masked s))"
  by (cases s rule: prefix4.cases) (auto simp: addresses_def)


lemma ranges_union:
  assumes "prefix4 p" and "Masked p = p" and "pf_Bits p < int cb" and "cb \<le> 32"
    and "\<forall>n \<in> set networks. prefix_ok (xn_Subnet n)"
  defines "rs \<equiv> List.map_filter (network_range p (int cb)) networks"
  shows "list_all range_ok rs"
    and "\<Union> (idx ` set rs) = {i. i < 2 ^ nat (int cb - pf_Bits p) \<and> taken networks (child p cb i)}"
proof -
  have r: "case network_range p (int cb) n of
      None \<Rightarrow> \<forall>i < 2 ^ nat (int cb - pf_Bits p). addresses (child p cb i) \<inter> addresses (xn_Subnet n) = {}
    | Some r \<Rightarrow> range_ok r \<and> idx r = {i. i < 2 ^ nat (int cb - pf_Bits p) \<and> addresses (child p cb i) \<inter> addresses (xn_Subnet n) \<noteq> {}}"
    if "n \<in> set networks" for n
  proof (cases "prefix4 (xn_Subnet n)")
    case True
    have "hit_children p cb (xn_Subnet n) =
        {i. i < 2 ^ nat (int cb - pf_Bits p) \<and> addresses (child p cb i) \<inter> addresses (xn_Subnet n) \<noteq> {}}"
      unfolding hit_children_def
      by (intro Collect_cong conj_cong refl sym [OF addresses_meet_iff [OF child_interval(1) [OF assms(1,3,4)] True]])
    with network_range_idx [OF assms(1-4) True] show ?thesis by (auto split: option.splits)
  next
    case False
    with that assms(5) addresses_not4 show ?thesis by (auto simp: network_range_def Let_def)
  qed
  have "set rs = {r. \<exists>n \<in> set networks. network_range p (int cb) n = Some r}"
    by (auto simp: rs_def map_filter_def image_iff) (metis option.sel)
  with r show "list_all range_ok rs"
    and "\<Union> (idx ` set rs) = {i. i < 2 ^ nat (int cb - pf_Bits p) \<and> taken networks (child p cb i)}"
    by (fastforce simp: list_all_iff taken_def split: option.splits)+
qed

lemma occupied_eq_card:
  assumes "prefix4 p" and "Masked p = p" and "pf_Bits p < int cb" and "cb \<le> 32"
    and "\<forall>n \<in> set networks. prefix_ok (xn_Subnet n)"
  shows "unat (occupiedChildSubnets p (int cb) networks) = card {c \<in> child_subnets p cb. taken networks c}"
    and "card (child_subnets p cb) = 2 ^ nat (int cb - pf_Bits p)"
proof -
  let ?I = "{i. i < 2 ^ nat (int cb - pf_Bits p) \<and> taken networks (child p cb i)}"
  have "{c \<in> child_subnets p cb. taken networks c} = child p cb ` ?I"
    unfolding child_subnets_image [OF assms(1,3,4)] by auto
  moreover have "inj_on (child p cb) ?I"
    by (rule inj_on_subset [OF child_inj [OF assms(1,3,4)]]) auto
  ultimately have "card {c \<in> child_subnets p cb. taken networks c} = card ?I" by (simp add: card_image)
  then show "unat (occupiedChildSubnets p (int cb) networks) = card {c \<in> child_subnets p cb. taken networks c}"
    using ranges_union [OF assms] by (simp add: occupiedChildSubnets_def count_ranges_card list_all_iff)
  show "card (child_subnets p cb) = 2 ^ nat (int cb - pf_Bits p)"
    by (simp add: child_subnets_image [OF assms(1,3,4)] card_image [OF child_inj [OF assms(1,3,4)]])
qed

section \<open>Private pools\<close>

lemma addresses_subset_iff:
  assumes "prefix4 p" and "Masked p = p" and "prefix4 q"
  shows "addresses p \<subseteq> addresses q \<longleftrightarrow> pf_Bits q \<le> pf_Bits p \<and> Contains q (pf_Addr p)"
proof
  assume sub: "addresses p \<subseteq> addresses q"
  have "card (addresses p) \<le> card (addresses q)" using sub by (intro card_mono) simp_all
  then have "sz p \<le> sz q" using card_addresses assms by simp
  then have "pf_Bits q \<le> pf_Bits p" using assms(1,3) by (auto simp: sz_def nat_diff_distrib elim!: prefix4_cases)
  moreover have "Contains q (pf_Addr p)"
    using lo_in_addresses [OF assms(1,2)] sub assms(1) by (auto simp: addresses_def elim!: prefix4_cases)
  ultimately show "pf_Bits q \<le> pf_Bits p \<and> Contains q (pf_Addr p)" by simp
next
  assume c: "pf_Bits q \<le> pf_Bits p \<and> Contains q (pf_Addr p)"
  from assms obtain x n y m where pq: "p = PrefixOf (Addr4 x) n" "n \<le> 32" "q = PrefixOf (Addr4 y) m" "m \<le> 32"
    by (auto elim!: prefix4_cases)
  with c have "32 - m = (32 - n) + (n - m)" by simp
  then have "a div 2 ^ (32 - m) = a div 2 ^ (32 - n) div 2 ^ (n - m)" for a :: nat
    by (metis power_add div_mult2_eq)
  with c pq show "addresses p \<subseteq> addresses q" by (auto simp: addresses_def Contains4_iff simp del: Contains.simps)
qed


lemma prefix_ok_BitLen: "n \<le> BitLen a \<Longrightarrow> prefix_ok (PrefixOf a n)"
  by (cases a) simp_all

lemma ParsePrefix_ok: "ParsePrefix s = Some q \<Longrightarrow> prefix_ok q"
  by (auto simp: ParsePrefix_def Let_def not_less intro!: prefix_ok_BitLen split: if_splits option.splits)

definition rfc1918 :: "Prefix set" where
  "rfc1918 = {PrefixOf (Addr4 0x0A000000) 8, PrefixOf (Addr4 0xAC100000) 12, PrefixOf (Addr4 0xC0A80000) 16}"

lemma privateIPv4Prefix_iff:
  assumes "prefix4 p" and "Masked p = p"
  shows "privateIPv4Prefix p \<longleftrightarrow> (\<exists>q \<in> rfc1918. addresses p \<subseteq> addresses q)"
  using addresses_subset_iff [OF assms] by (simp add: privateIPv4Prefix_def rfc1918_def)

text \<open>What the policy asks of one configured pool, and the prefix and child length it denotes.\<close>

definition pool_denotes :: "DefaultAddressPool \<Rightarrow> Prefix \<times> int \<Rightarrow> bool" where
  "pool_denotes pool v \<longleftrightarrow> (\<exists>q. ParsePrefix (trim_space (po_Base pool)) = Some q \<and> prefix4 q \<and> fst v = Masked q
     \<and> snd v = po_Size pool \<and> (\<exists>r \<in> rfc1918. addresses q \<subseteq> addresses r) \<and> pf_Bits q < po_Size pool \<and> po_Size pool \<le> 24)"

lemma Masked_idem: "prefix4 p \<Longrightarrow> Masked (Masked p) = Masked p"
  by (simp add: Masked_iff Masked4)

lemma validate_pool_iff: "validate_pool quote pool = Inr v \<longleftrightarrow> pool_denotes pool v"
proof (cases "ParsePrefix (trim_space (po_Base pool))")
  case (Some q)
  show ?thesis
  proof (cases "prefix4 q")
    case True
    then have "Is4 (pf_Addr q)" by (auto elim!: prefix4_cases)
    with Some True show ?thesis
      by (cases v) (auto simp: validate_pool_def pool_denotes_def Let_def privateIPv4Prefix_iff Masked4 Masked_idem
          addresses_Masked split: if_splits)
  next
    case False
    with ParsePrefix_ok [OF Some] have "\<not> Is4 (pf_Addr q)" by (cases q rule: prefix4.cases) auto
    with Some False show ?thesis by (auto simp: validate_pool_def pool_denotes_def)
  qed
qed (auto simp: validate_pool_def pool_denotes_def)


section \<open>The policy\<close>

lemma map_result_iff: "map_result f xs = Inr ys \<longleftrightarrow> list_all2 (\<lambda>x y. f x = Inr y) xs ys"
  by (induction xs arbitrary: ys) (auto simp: bind_result_Inr_iff list_all2_Cons1)

text \<open>The pools after validation: masked IPv4 prefixes shorter than their child length.\<close>

definition valid_pools :: "(Prefix \<times> int) list \<Rightarrow> bool" where
  "valid_pools vs \<longleftrightarrow> (\<forall>(p, size) \<in> set vs. prefix4 p \<and> Masked p = p \<and> pf_Bits p < size \<and> size \<le> 24)"

lemma pool_denotes_valid: "list_all2 pool_denotes pools vs \<Longrightarrow> valid_pools vs"
  by (induction rule: list_all2_induct)
    (auto simp: valid_pools_def pool_denotes_def Masked4 Masked_idem)

definition disjoint_pools :: "(Prefix \<times> int) list \<Rightarrow> bool" where
  "disjoint_pools vs \<longleftrightarrow> sorted_wrt (\<lambda>v w. addresses (fst v) \<inter> addresses (fst w) = {}) vs"

lemma overlap_addresses:
  assumes "prefix4 p" "Masked p = p" "prefix4 q" "Masked q = q"
  shows "prefixesOverlap p q \<longleftrightarrow> addresses p \<inter> addresses q \<noteq> {}"
  using prefixesOverlap_iff [OF assms(1-3)] addresses_meet_iff [OF assms(1,3)] assms(4) by simp

lemma pools_overlap_check_iff:
  "valid_pools vs \<Longrightarrow> pools_overlap_check vs = Inr () \<longleftrightarrow> disjoint_pools vs"
proof (induction vs)
  case (Cons v vs)
  have "\<And>w. w \<in> set vs \<Longrightarrow> prefixesOverlap (fst v) (fst w) \<longleftrightarrow> addresses (fst v) \<inter> addresses (fst w) \<noteq> {}"
    using Cons.prems by (intro overlap_addresses) (auto simp: valid_pools_def)
  moreover have "valid_pools vs" using Cons.prems by (auto simp: valid_pools_def)
  ultimately show ?case
    using Cons.IH by (auto simp: disjoint_pools_def bind_result_Inr_iff each_ok_iff require_Inr_iff)
qed (simp add: disjoint_pools_def)

text \<open>A route the policy looks at: not the default route and not a route of a Docker network.\<close>

definition foreign_route :: "ExistingNetwork list \<Rightarrow> HostRoute \<Rightarrow> bool" where
  "foreign_route networks r \<longleftrightarrow> pf_Bits (ho_Prefix r) \<noteq> 0
     \<and> \<not> routeIsDockerNetwork (r\<lparr>ho_Prefix := Masked (ho_Prefix r)\<rparr>) networks"

lemma route_check_iff:
  assumes "valid_pools vs" and "prefix_ok (ho_Prefix r)"
  shows "route_check vs networks r = Inr () \<longleftrightarrow>
    (foreign_route networks r \<longrightarrow> (\<forall>v \<in> set vs. addresses (ho_Prefix r) \<inter> addresses (fst v) = {}))"
proof (cases "prefix4 (ho_Prefix r)")
  case True
  let ?q = "Masked (ho_Prefix r)"
  have "Is4 (pf_Addr ?q)" using Masked4(1) [OF True] by (auto elim!: prefix4_cases)
  moreover have "prefixesOverlap ?q (fst v) \<longleftrightarrow> addresses (ho_Prefix r) \<inter> addresses (fst v) \<noteq> {}" if "v \<in> set vs" for v
  proof -
    have "prefix4 (fst v)" "Masked (fst v) = fst v" using that assms(1) by (auto simp: valid_pools_def)
    from overlap_addresses [OF Masked4(1) [OF True] Masked_idem [OF True] this] show ?thesis
      by (simp add: addresses_Masked True)
  qed
  ultimately show ?thesis
    by (simp add: route_check_def Let_def foreign_route_def each_ok_iff require_Inr_iff Masked4 True)
next
  case False
  with assms addresses_not4 show ?thesis by (auto simp: route_check_def Let_def)
qed

definition free_subnets :: "ExistingNetwork list \<Rightarrow> Prefix \<times> int \<Rightarrow> Prefix set" where
  "free_subnets networks v = {c \<in> child_subnets (fst v) (nat (snd v)). \<not> taken networks c}"

lemma finite_child_subnets: "prefix4 p \<Longrightarrow> pf_Bits p < int cb \<Longrightarrow> cb \<le> 32 \<Longrightarrow> finite (child_subnets p cb)"
  by (simp add: child_subnets_image)

lemma pool_step:
  assumes "prefix4 p" and "Masked p = p" and "pf_Bits p < sb" and "sb \<le> 24"
    and nets: "\<forall>n \<in> set networks. prefix_ok (xn_Subnet n)"
  defines "tot \<equiv> push_bit (nat (sb - pf_Bits p)) 1 :: 64 word" and "occ \<equiv> occupiedChildSubnets p sb networks"
  shows "unat tot - unat occ = card (free_subnets networks (p, sb))" and "unat occ \<le> unat tot"
    and "unat tot \<le> card (addresses p)"
proof -
  have s: "0 \<le> sb" "int (nat sb) = sb" using assms(1,3) by (auto elim!: prefix4_cases)
  with assms(3,4) have cb: "pf_Bits p < int (nat sb)" "nat sb \<le> 32" by auto
  let ?K = "child_subnets p (nat sb)"
  have o: "unat occ = card {c \<in> ?K. taken networks c}" and K: "card ?K = 2 ^ nat (sb - pf_Bits p)"
    using occupied_eq_card [OF assms(1,2) cb nets] s by (simp_all add: occ_def)
  have n: "nat (sb - pf_Bits p) < 64" using assms(1,4) by (auto elim!: prefix4_cases)
  then have t: "unat tot = card ?K" by (simp add: tot_def unat_pow64 K)
  have fin: "finite ?K" using finite_child_subnets [OF assms(1) cb] .
  have "free_subnets networks (p, sb) = ?K - {c \<in> ?K. taken networks c}" by (auto simp: free_subnets_def)
  with o t fin show "unat tot - unat occ = card (free_subnets networks (p, sb))" "unat occ \<le> unat tot"
    by (auto simp: card_Diff_subset intro!: card_mono)
  have "unat tot \<le> 2 ^ nat (sb - pf_Bits p) * 2 ^ (32 - nat sb)" using t K by simp
  then show "unat tot \<le> card (addresses p)"
    using pool_split(1) [OF assms(1) cb] s by (simp add: card_addresses assms(1))
qed


lemma available_step:
  assumes "prefix4 p" and "Masked p = p" and "pf_Bits p < sb" and "sb \<le> 24"
    and nets: "\<forall>n \<in> set networks. prefix_ok (xn_Subnet n)"
    and av: "unat av + card (addresses p) < 2 ^ 64"
  shows "unat (add_available networks (p, sb) av) = unat av + card (free_subnets networks (p, sb))"
proof -
  let ?tot = "push_bit (nat (sb - pf_Bits p)) 1 :: 64 word" and ?occ = "occupiedChildSubnets p sb networks"
  note step = pool_step [OF assms(1-4) nets]
  show ?thesis
  proof (cases "?occ < ?tot")
    case True
    then have "unat (?tot - ?occ) = card (free_subnets networks (p, sb))"
      using step(1) by (simp only: unat_sub less_imp_le)
    moreover from this have "unat av + unat (?tot - ?occ) < 2 ^ 64" using av step(1,3) by linarith
    ultimately show ?thesis using True by (simp only: add_available_def Let_def fst_conv snd_conv if_True unat_add_small)
  next
    case False
    with step show ?thesis by (simp add: add_available_def word_less_nat_alt)
  qed
qed

lemma available_fold:
  assumes "valid_pools vs" and "\<forall>n \<in> set networks. prefix_ok (xn_Subnet n)"
    and "unat av + (\<Sum>v\<leftarrow>vs. card (addresses (fst v))) < 2 ^ 64"
  shows "unat (fold (add_available networks) vs av) = unat av + (\<Sum>v\<leftarrow>vs. card (free_subnets networks v))"
  using assms(1,3)
proof (induction vs arbitrary: av)
  case (Cons v vs)
  obtain p sb where v: "v = (p, sb)" by force
  with Cons.prems have p: "prefix4 p" "Masked p = p" "pf_Bits p < sb" "sb \<le> 24" by (auto simp: valid_pools_def)
  have u: "unat (add_available networks v av) = unat av + card (free_subnets networks v)"
    unfolding v using Cons.prems v by (intro available_step p assms(2)) simp
  have "card (free_subnets networks v) \<le> card (addresses p)"
    unfolding v pool_step(1) [OF p assms(2), symmetric] using pool_step(3) [OF p assms(2)] by linarith
  with Cons.prems v have "unat (add_available networks v av) + (\<Sum>v\<leftarrow>vs. card (addresses (fst v))) < 2 ^ 64" "valid_pools vs"
    unfolding u by (auto simp: valid_pools_def)
  from Cons.IH [OF this(2,1)] show ?case unfolding u by simp
qed simp

lemma card_disjoint_pools:
  "disjoint_pools vs \<Longrightarrow> (\<Sum>v\<leftarrow>vs. card (addresses (fst v))) = card (\<Union>v \<in> set vs. addresses (fst v))"
proof (induction vs)
  case (Cons v vs)
  then show ?case
    by (subst list.set, subst UN_insert, subst card_Un_disjoint) (auto simp: disjoint_pools_def)
qed simp

lemma child_addresses: "c \<in> child_subnets p cb \<Longrightarrow> cb \<le> 32 \<Longrightarrow> addresses c \<noteq> {} \<and> addresses c \<subseteq> addresses p"
  using lo_in_addresses [of c] by (auto simp: child_subnets_def)

lemma card_free_subnets:
  "valid_pools vs \<Longrightarrow> disjoint_pools vs \<Longrightarrow>
    (\<Sum>v\<leftarrow>vs. card (free_subnets networks v)) = card (\<Union>v \<in> set vs. free_subnets networks v)"
proof (induction vs)
  case (Cons v vs)
  have fin: "finite (free_subnets networks w)" and sub: "\<And>c. c \<in> free_subnets networks w \<Longrightarrow> addresses c \<noteq> {} \<and> addresses c \<subseteq> addresses (fst w)"
    if "w \<in> set (v # vs)" for w
  proof -
    have w: "prefix4 (fst w)" "pf_Bits (fst w) < snd w" "snd w \<le> 24" using that Cons.prems(1) by (auto simp: valid_pools_def)
    then have "pf_Bits (fst w) < int (nat (snd w))" "nat (snd w) \<le> 32" by auto
    with finite_child_subnets [OF w(1)] child_addresses [of _ "fst w" "nat (snd w)"] show "finite (free_subnets networks w)"
      "\<And>c. c \<in> free_subnets networks w \<Longrightarrow> addresses c \<noteq> {} \<and> addresses c \<subseteq> addresses (fst w)"
      by (auto simp: free_subnets_def)
  qed
  have "free_subnets networks v \<inter> (\<Union>v \<in> set vs. free_subnets networks v) = {}"
  proof (rule ccontr)
    assume "\<not> ?thesis"
    then obtain c w where c: "c \<in> free_subnets networks v" "w \<in> set vs" "c \<in> free_subnets networks w" by blast
    moreover have "addresses (fst v) \<inter> addresses (fst w) = {}" using Cons.prems(2) c(2) by (simp add: disjoint_pools_def)
    ultimately show False using sub [of v c] sub [of w c] by auto
  qed
  moreover have "valid_pools vs" "disjoint_pools vs" using Cons.prems by (auto simp: valid_pools_def disjoint_pools_def)
  ultimately show ?case using Cons.IH fin by (auto simp: card_Un_disjoint)
qed simp

lemma available_eq_card:
  assumes "valid_pools vs" and "disjoint_pools vs" and "\<forall>n \<in> set networks. prefix_ok (xn_Subnet n)"
  shows "unat (available_subnets vs networks) = card (\<Union>v \<in> set vs. free_subnets networks v)"
proof -
  have "(\<Sum>v\<leftarrow>vs. card (addresses (fst v))) \<le> card (UNIV :: 32 word set)"
    unfolding card_disjoint_pools [OF assms(2)] by (intro card_mono) simp_all
  then have "unat (0 :: 64 word) + (\<Sum>v\<leftarrow>vs. card (addresses (fst v))) < 2 ^ 64" by (simp add: card_word)
  from available_fold [OF assms(1,3) this] show ?thesis
    by (simp add: available_subnets_def card_free_subnets assms(1,2))
qed


section \<open>What the assessment decides\<close>

lemma existingNetworks_ok: "existingNetworks raw = Inr networks \<Longrightarrow> \<forall>n \<in> set networks. prefix_ok (xn_Subnet n)"
proof -
  have ok: "prefix_ok (Masked q)" if "ParsePrefix c = Some q" for c q
    using ParsePrefix_ok [OF that] by (cases q rule: prefix_ok.cases) auto
  have one: "\<forall>x \<in> set xs. prefix_ok (xn_Subnet x)" if "network_subnet n c = Inr xs" for n c xs
    using that ok by (auto simp: network_subnet_def split: if_splits option.splits)
  assume "existingNetworks raw = Inr networks"
  then obtain nss where "list_all2 (\<lambda>n ns. list_all2 (\<lambda>c xs. network_subnet n c = Inr xs) (rn_Subnets n) ns) raw nss"
    and "networks = concat (map concat nss)"
    by (auto simp: existingNetworks_def bind_result_Inr_iff map_result_iff)
  then show ?thesis
  proof (induction raw nss arbitrary: networks rule: list_all2_induct)
    case (Cons n raw ns nss)
    have "\<forall>x \<in> set (concat ns). prefix_ok (xn_Subnet x)"
      using Cons(1) one by (fastforce simp: list_all2_conv_all_nth in_set_conv_nth)
    with Cons show ?case by auto
  qed simp
qed

lemma mask_bits_bound: "mask_bits m is bits z = Inr n \<Longrightarrow> n \<le> bits + length is"
  by (induction "is" arbitrary: bits z) (fastforce simp: Let_def split: if_splits)+

lemma decodeRouteIPv4_Is4: "decodeRouteIPv4 v = Inr a \<Longrightarrow> Is4 a"
  by (auto simp: decodeRouteIPv4_def split: option.splits list.splits)

lemma readIPv4Routes_ok: "readIPv4Routes data = Inr routes \<Longrightarrow> \<forall>r \<in> set routes. prefix_ok (ho_Prefix r)"
proof -
  have one: "\<forall>r \<in> set rs. prefix_ok (ho_Prefix r)" if "route_line l = Inr rs" for l rs
  proof -
    have "prefix_ok (Masked (PrefixOf a n))" if "mask_bits m (rev [0..<32]) 0 False = Inr n" for a n m
      using mask_bits_bound [OF that] by (cases a) auto
    with that show ?thesis by (auto simp: route_line_def Let_def result_iffs split: if_splits sum.splits)
  qed
  assume "readIPv4Routes data = Inr routes"
  then obtain ls rss where "list_all2 (\<lambda>l rs. route_line l = Inr rs) ls rss" "routes = concat rss"
    by (auto simp: readIPv4Routes_def bind_result_Inr_iff map_result_iff)
  with one show ?thesis by (fastforce simp: list_all2_conv_all_nth in_set_conv_nth)
qed

text \<open>
  The policy in terms of address sets: private pools that share no address, no route of
  another interface into a pool, and 64 child subnets no existing network touches.
\<close>

definition pool_policy :: "DefaultAddressPool list \<Rightarrow> ExistingNetwork list \<Rightarrow> HostRoute list \<Rightarrow> bool" where
  "pool_policy pools networks routes \<longleftrightarrow> pools \<noteq> [] \<and> (\<exists>vs. list_all2 pool_denotes pools vs \<and> disjoint_pools vs
     \<and> (\<forall>r \<in> set routes. foreign_route networks r \<longrightarrow> (\<forall>v \<in> set vs. addresses (ho_Prefix r) \<inter> addresses (fst v) = {}))
     \<and> 64 \<le> card (\<Union>v \<in> set vs. free_subnets networks v))"

lemma ex_conj_cong: "(\<And>x. A x \<Longrightarrow> B x \<longleftrightarrow> C x) \<Longrightarrow> (\<exists>x. A x \<and> B x) \<longleftrightarrow> (\<exists>x. A x \<and> C x)"
  by blast

lemma ValidateNetworkPrerequisites_iff:
  assumes nets: "\<forall>n \<in> set networks. prefix_ok (xn_Subnet n)" and routes: "\<forall>r \<in> set routes. prefix_ok (ho_Prefix r)"
  shows "ValidateNetworkPrerequisites quote pools networks routes = Inr () \<longleftrightarrow> pool_policy pools networks routes"
proof -
  have "(pools_overlap_check vs = Inr () \<and> each (route_check vs networks) routes = Inr ()
      \<and> \<not> available_subnets vs networks < MinimumAvailableNetworkSubnets) \<longleftrightarrow>
    (disjoint_pools vs
      \<and> (\<forall>r \<in> set routes. foreign_route networks r \<longrightarrow> (\<forall>v \<in> set vs. addresses (ho_Prefix r) \<inter> addresses (fst v) = {}))
      \<and> 64 \<le> card (\<Union>v \<in> set vs. free_subnets networks v))" if "list_all2 pool_denotes pools vs" for vs
  proof -
    note valid = pool_denotes_valid [OF that]
    have "\<not> available_subnets vs networks < MinimumAvailableNetworkSubnets \<longleftrightarrow>
        64 \<le> card (\<Union>v \<in> set vs. free_subnets networks v)" if "disjoint_pools vs"
      using available_eq_card [OF valid that nets]
      by (simp add: word_less_nat_alt MinimumAvailableNetworkSubnets_def not_less)
    then show ?thesis
      using pools_overlap_check_iff [OF valid] route_check_iff [OF valid] routes
      by (auto simp only: each_ok_iff)
  qed
  then have "(\<exists>vs. list_all2 pool_denotes pools vs \<and> pools_overlap_check vs = Inr ()
      \<and> each (route_check vs networks) routes = Inr ()
      \<and> \<not> available_subnets vs networks < MinimumAvailableNetworkSubnets) \<longleftrightarrow>
    (\<exists>vs. list_all2 pool_denotes pools vs \<and> disjoint_pools vs
      \<and> (\<forall>r \<in> set routes. foreign_route networks r \<longrightarrow> (\<forall>v \<in> set vs. addresses (ho_Prefix r) \<inter> addresses (fst v) = {}))
      \<and> 64 \<le> card (\<Union>v \<in> set vs. free_subnets networks v))"
    by (rule ex_conj_cong)
  then show ?thesis
    unfolding ValidateNetworkPrerequisites_def pool_policy_def Let_def result_iffs map_result_iff validate_pool_iff
    by simp
qed

text \<open>
  C22. The number of occupied child subnets is exact and never wraps. For a masked IPv4
  pool and a longer child length the 64-bit count that sorting and merging index ranges
  produces is the number of child prefixes of the pool that share an address with some
  existing network, IPv6 networks and networks outside the pool counting for nothing, in
  whatever order the unstable sort leaves ranges with the same first index.
\<close>

theorem occupied_count_exact:
  assumes "prefix4 p" and "Masked p = p" and "pf_Bits p < int cb" and "cb \<le> 32"
    and "\<forall>n \<in> set networks. prefix_ok (xn_Subnet n)"
  shows "unat (occupiedChildSubnets p (int cb) networks) = card {c \<in> child_subnets p cb. taken networks c}
    \<and> card {c \<in> child_subnets p cb. taken networks c} \<le> 2 ^ nat (int cb - pf_Bits p)
    \<and> (\<forall>rs. mset rs = mset (List.map_filter (network_range p (int cb)) networks) \<and> sorted (map ir_first rs)
        \<longrightarrow> count_ranges rs = occupiedChildSubnets p (int cb) networks)"
proof (intro conjI allI impI)
  show "unat (occupiedChildSubnets p (int cb) networks) = card {c \<in> child_subnets p cb. taken networks c}"
    using occupied_eq_card [OF assms] by simp
  have "card {c \<in> child_subnets p cb. taken networks c} \<le> card (child_subnets p cb)"
    by (intro card_mono finite_child_subnets assms) auto
  then show "card {c \<in> child_subnets p cb. taken networks c} \<le> 2 ^ nat (int cb - pf_Bits p)"
    by (simp only: occupied_eq_card(2) [OF assms])
  show "count_ranges rs = occupiedChildSubnets p (int cb) networks"
    if "mset rs = mset (List.map_filter (network_range p (int cb)) networks) \<and> sorted (map ir_first rs)" for rs
    using count_ranges_any_order [OF conjunct1 [OF that] conjunct2 [OF that] ranges_union(1) [OF assms]]
    by (simp add: occupiedChildSubnets_def)
qed

text \<open>A pool 10.0.0.0/16 with children /24, and networks 10.0.1.0/24, 10.0.2.0/23 and 192.168.0.0/24.\<close>

definition demo_pool :: Prefix where "demo_pool = PrefixOf (Addr4 0x0A000000) 16"

definition demo_networks :: "ExistingNetwork list" where
  "demo_networks = map (\<lambda>p. \<lparr>xn_Name = ''n'', xn_Interface = ''br-1'', xn_Subnet = p\<rparr>)
     [PrefixOf (Addr4 0x0A000100) 24, PrefixOf (Addr4 0x0A000200) 23, PrefixOf (Addr4 0xC0A80000) 24]"

theorem occupied_count_exact_witness:
  "unat (occupiedChildSubnets demo_pool 24 demo_networks) = 3
    \<and> card {c \<in> child_subnets demo_pool 24. taken demo_networks c} = 3"
proof -
  have v: "occupiedChildSubnets demo_pool 24 demo_networks = 3" by code_simp
  have "Masked demo_pool = demo_pool" by code_simp
  then have "unat (occupiedChildSubnets demo_pool (int 24) demo_networks) = card {c \<in> child_subnets demo_pool 24. taken demo_networks c}"
    by (intro occupied_count_exact [THEN conjunct1]) (auto simp: demo_pool_def demo_networks_def)
  with v show ?thesis by simp
qed

text \<open>
  The assessment reports \<open>ready\<close> exactly when everything could be inspected and the
  pools satisfy the policy on address sets: every pool is a private IPv4 block with a child
  length longer than its own and at most 24, no two pools share an address, no route other
  than the default one and those of Docker's own networks reaches into a pool, and at least
  64 child subnets are untouched by existing networks. Then, and only then, the host check
  passes.
\<close>

theorem assessment_ready_iff:
  "VerifyNetworkPrerequisites (AssessNetworkPrerequisites quote info raw route_text) = Inr () \<longleftrightarrow>
    (\<exists>value pools rn networks routes. info = Inr value \<and> parseDefaultAddressPools value = Inr pools
      \<and> raw = Inr rn \<and> existingNetworks rn = Inr networks \<and> readIPv4Routes route_text = Inr routes
      \<and> pool_policy pools networks routes)"
proof -
  have "VerifyNetworkPrerequisites (AssessNetworkPrerequisites quote info raw route_text) = Inr () \<longleftrightarrow>
    (\<exists>value pools rn networks routes. info = Inr value \<and> parseDefaultAddressPools value = Inr pools
      \<and> raw = Inr rn \<and> existingNetworks rn = Inr networks \<and> readIPv4Routes route_text = Inr routes
      \<and> ValidateNetworkPrerequisites quote pools networks routes = Inr ())"
    by (auto simp: VerifyNetworkPrerequisites_def AssessNetworkPrerequisites_def Let_def bind_result_def
        split: sum.splits)
  also have "\<dots> \<longleftrightarrow> (\<exists>value pools rn networks routes. info = Inr value \<and> parseDefaultAddressPools value = Inr pools
      \<and> raw = Inr rn \<and> existingNetworks rn = Inr networks \<and> readIPv4Routes route_text = Inr routes
      \<and> pool_policy pools networks routes)"
    by (intro ex_cong1 conj_cong refl ValidateNetworkPrerequisites_iff existingNetworks_ok readIPv4Routes_ok)
  finally show ?thesis .
qed

end
