(* ===== verification/Lifecycle_Run.thy ===== *)
theory Lifecycle_Run
  imports Gen_Commit
begin

text \<open>
  The vocabulary of the lifecycle runners. A runner acts on a world, which holds the
  container runtime and everything else outside the program, and on the helper's database.
  A database access may fail by itself, without effect; otherwise it happens at a time. The
  nil checks of a runner's dependencies have no counterpart: its record has all its fields.
\<close>

section \<open>Programs\<close>

type_synonym ('w, 'r) prog = "'w \<times> helper_db \<Rightarrow> 'r \<times> 'w \<times> helper_db"

type_synonym 'w store = "'w \<Rightarrow> string result \<times> 'w"

text \<open>The \<open>Evidence\<close> interface; its implementation is the coordinator's \<open>RecordPhase\<close>.\<close>

type_synonym evidence = "string \<Rightarrow> string \<Rightarrow> int \<Rightarrow> string \<Rightarrow> string \<Rightarrow> string go_map \<Rightarrow> helper_db \<Rightarrow> helper_db result"

datatype run_error = Fail go_error | UnknownOutcome string go_error

primrec run_error_text :: "run_error \<Rightarrow> string" where
  "run_error_text (Fail e) = error_text e"
| "run_error_text (UnknownOutcome phase cause) = ''runtime outcome requires reconciliation at '' @ phase @ '': '' @ error_text cause"

definition ret :: "'r \<Rightarrow> ('w, 'r) prog" where
  "ret r s = (r, s)"

definition andThen :: "('w, 'a) prog \<Rightarrow> ('a \<Rightarrow> ('w, 'r) prog) \<Rightarrow> ('w, 'r) prog" where
  "andThen m k s = (case m s of (r, s') \<Rightarrow> k r s')"

text \<open>\<open>x, err := m; if err != nil \<open>h err\<close>; k x\<close>\<close>

definition attempt :: "('w, 'e + 'a) prog \<Rightarrow> ('e \<Rightarrow> ('w, 'r) prog) \<Rightarrow> ('a \<Rightarrow> ('w, 'r) prog) \<Rightarrow> ('w, 'r) prog" where
  "attempt m h k = andThen m (\<lambda>r. case r of Inl e \<Rightarrow> h e | Inr x \<Rightarrow> k x)"

definition call :: "('w \<Rightarrow> 'a \<times> 'w) \<Rightarrow> ('w, 'a) prog" where
  "call f s = (case f (fst s) of (r, w') \<Rightarrow> (r, (w', snd s)))"

text \<open>A transaction and a query.\<close>

definition txn :: "'w store \<Rightarrow> (string \<Rightarrow> helper_db \<Rightarrow> helper_db result) \<Rightarrow> ('w, unit result) prog" where
  "txn st f s = (case st (fst s) of
      (Inl e, w') \<Rightarrow> (Inl e, (w', snd s))
    | (Inr now, w') \<Rightarrow> (case f now (snd s) of Inl e \<Rightarrow> (Inl e, (w', snd s)) | Inr db' \<Rightarrow> (Inr (), (w', db'))))"

definition query :: "'w store \<Rightarrow> (helper_db \<Rightarrow> 'a result) \<Rightarrow> ('w, 'a result) prog" where
  "query st f s = (case st (fst s) of (Inl e, w') \<Rightarrow> (Inl e, (w', snd s)) | (Inr now, w') \<Rightarrow> (f (snd s), (w', snd s)))"

definition fail :: "go_error \<Rightarrow> ('w, run_error + 'a) prog" where
  "fail e = ret (Inl (Fail e))"

definition unknown :: "string \<Rightarrow> go_error \<Rightarrow> ('w, run_error + 'a) prog" where
  "unknown phase cause = ret (Inl (UnknownOutcome phase cause))"

text \<open>\<open>errors.Join\<close> of the errors that are not nil, and the first of them.\<close>

definition join_errors :: "go_error option list \<Rightarrow> go_error" where
  "join_errors es = Errorf (join_with [CHR 0x0A] (map error_text (List.map_filter id es)))"

definition err_of :: "'e + 'a \<Rightarrow> 'e option" where
  "err_of r = (case r of Inl e \<Rightarrow> Some e | Inr _ \<Rightarrow> None)"

section \<open>Postconditions\<close>

text \<open>Every result and final state of a program run from \<open>s\<close> satisfies \<open>Q\<close>.\<close>

definition wp :: "('w, 'r) prog \<Rightarrow> ('r \<Rightarrow> 'w \<times> helper_db \<Rightarrow> bool) \<Rightarrow> 'w \<times> helper_db \<Rightarrow> bool" where
  "wp m Q s = (case m s of (r, s') \<Rightarrow> Q r s')"

named_theorems run_wp \<open>weakest preconditions of program constructs\<close>

lemma wp_ret [run_wp]: "wp (ret r) Q s = Q r s"
  by (simp add: wp_def ret_def)

lemma wp_andThen [run_wp]: "wp (andThen m k) Q s = wp m (\<lambda>r. wp (k r) Q) s"
  by (simp add: wp_def andThen_def split: prod.splits)

lemma wp_attempt [run_wp]: "wp (attempt m h k) Q s = wp m (\<lambda>r. case r of Inl e \<Rightarrow> wp (h e) Q | Inr x \<Rightarrow> wp (k x) Q) s"
  unfolding attempt_def wp_andThen by (auto intro!: arg_cong [where f = "\<lambda>Q. wp m Q s"] ext split: sum.splits)

lemma wp_fail [run_wp]: "wp (fail e) Q s = Q (Inl (Fail e)) s"
  by (simp add: fail_def wp_ret)

lemma wp_unknown [run_wp]: "wp (unknown p e) Q s = Q (Inl (UnknownOutcome p e)) s"
  by (simp add: unknown_def wp_ret)

lemma wp_mono: "wp m Q s \<Longrightarrow> (\<And>r s'. Q r s' \<Longrightarrow> Q' r s') \<Longrightarrow> wp m Q' s"
  by (auto simp: wp_def)

lemma wp_if [run_wp]: "wp (if c then m1 else m2) Q s = (if c then wp m1 Q s else wp m2 Q s)"
  by simp

lemma wpD: "wp m Q s \<Longrightarrow> m s = (r, s') \<Longrightarrow> Q r s'"
  by (simp add: wp_def)

text \<open>A call leaves the database alone; a query reads it; a transaction that succeeds replaces it.\<close>

lemma wp_callI [intro]: "(\<And>r w'. Q r (w', snd s)) \<Longrightarrow> wp (call f) Q s"
  by (auto simp: wp_def call_def split: prod.splits)

lemma wp_queryI:
  assumes "\<And>e w'. Q (Inl e) (w', snd s)" and "\<And>x w'. f (snd s) = Inr x \<Longrightarrow> Q (Inr x) (w', snd s)"
  shows "wp (query st f) Q s"
  using assms by (cases "f (snd s)") (auto simp: wp_def query_def split: prod.splits sum.splits)

lemma wp_txnI:
  assumes "\<And>e w'. Q (Inl e) (w', snd s)" and "\<And>now db' w'. f now (snd s) = Inr db' \<Longrightarrow> Q (Inr ()) (w', db')"
  shows "wp (txn st f) Q s"
  using assms by (auto simp: wp_def txn_def split: prod.splits sum.splits)

text \<open>
  Rules that carry a predicate of the database through a program: each construct keeps it
  when its parts do, and what a program returns is only known from its own rule.
\<close>

definition keeps :: "(helper_db \<Rightarrow> bool) \<Rightarrow> ('w, 'r) prog \<Rightarrow> bool" where
  "keeps I m \<longleftrightarrow> (\<forall>s. I (snd s) \<longrightarrow> wp m (\<lambda>r s'. I (snd s')) s)"

named_theorems keeps_intro \<open>programs that keep a predicate of the database\<close>

lemma keeps_ret [keeps_intro]: "keeps I (ret r)"
  by (simp add: keeps_def wp_ret)

lemma keeps_fail [keeps_intro]: "keeps I (fail e)" and keeps_unknown [keeps_intro]: "keeps I (unknown p e)"
  by (simp_all add: fail_def unknown_def keeps_ret)

lemma keeps_call [keeps_intro]: "keeps I (call f)"
  by (auto simp: keeps_def)

lemma keeps_query [keeps_intro]: "keeps I (query st f)"
  by (auto simp: keeps_def intro: wp_queryI)

lemma keeps_txn: "(\<And>now db db'. I db \<Longrightarrow> f now db = Inr db' \<Longrightarrow> I db') \<Longrightarrow> keeps I (txn st f)"
  by (auto simp: keeps_def intro!: wp_txnI)

lemma keeps_andThen [keeps_intro]: "keeps I m \<Longrightarrow> (\<And>r. keeps I (k r)) \<Longrightarrow> keeps I (andThen m k)"
  unfolding keeps_def wp_andThen by (blast intro: wp_mono)

lemma keeps_attempt [keeps_intro]:
  "keeps I m \<Longrightarrow> (\<And>e. keeps I (h e)) \<Longrightarrow> (\<And>x. keeps I (k x)) \<Longrightarrow> keeps I (attempt m h k)"
  unfolding attempt_def by (intro keeps_andThen) (auto split: sum.splits)

lemma keeps_if [keeps_intro]: "keeps I m1 \<Longrightarrow> keeps I m2 \<Longrightarrow> keeps I (if c then m1 else m2)"
  by simp

lemma keepsD: "keeps I m \<Longrightarrow> I (snd s) \<Longrightarrow> m s = (r, s') \<Longrightarrow> I (snd s')"
  unfolding keeps_def by (blast dest: wpD)

lemma keeps_case_sum [keeps_intro]: "(\<And>e. keeps I (f e)) \<Longrightarrow> (\<And>x. keeps I (g x)) \<Longrightarrow> keeps I (case res of Inl e \<Rightarrow> f e | Inr x \<Rightarrow> g x)"
  by (cases res) simp_all

lemma keeps_case_option [keeps_intro]: "keeps I f \<Longrightarrow> (\<And>x. v = Some x \<Longrightarrow> keeps I (g x)) \<Longrightarrow> keeps I (case v of None \<Rightarrow> f | Some x \<Rightarrow> g x)"
  by (cases v) simp_all

text \<open>Partial postconditions: what is known of the database before and of result and database after.\<close>

definition triple :: "(helper_db \<Rightarrow> bool) \<Rightarrow> ('w, 'r) prog \<Rightarrow> ('r \<Rightarrow> helper_db \<Rightarrow> bool) \<Rightarrow> bool" where
  "triple I m Q \<longleftrightarrow> (\<forall>s. I (snd s) \<longrightarrow> wp m (\<lambda>r s'. Q r (snd s')) s)"

named_theorems triple_intro \<open>postconditions of program constructs\<close>

lemma triple_ret: "(\<And>db. I db \<Longrightarrow> Q r db) \<Longrightarrow> triple I (ret r) Q"
  by (simp add: triple_def wp_ret)

lemma triple_fail: "(\<And>db. I db \<Longrightarrow> Q (Inl (Fail e)) db) \<Longrightarrow> triple I (fail e) Q"
  and triple_unknown: "(\<And>db. I db \<Longrightarrow> Q (Inl (UnknownOutcome p e)) db) \<Longrightarrow> triple I (unknown p e) Q"
  by (simp_all add: fail_def unknown_def triple_ret)

lemma triple_andThen: "triple I m R \<Longrightarrow> (\<And>r. triple (R r) (k r) Q) \<Longrightarrow> triple I (andThen m k) Q"
  unfolding triple_def wp_andThen by (blast intro: wp_mono)

lemma triple_andThen_keeps [triple_intro]: "keeps I m \<Longrightarrow> (\<And>r. triple I (k r) Q) \<Longrightarrow> triple I (andThen m k) Q"
  unfolding triple_def keeps_def wp_andThen by (blast intro: wp_mono)

lemma triple_attempt_ret [triple_intro]:
  "(\<And>e. x = Inl e \<Longrightarrow> triple I (h e) Q) \<Longrightarrow> (\<And>y. x = Inr y \<Longrightarrow> triple I (k y) Q) \<Longrightarrow> triple I (attempt (ret x) h k) Q"
  by (cases x) (auto simp: triple_def wp_attempt wp_ret)

lemma triple_attempt_keeps [triple_intro]:
  "keeps I m \<Longrightarrow> (\<And>e. triple I (h e) Q) \<Longrightarrow> (\<And>x. triple I (k x) Q) \<Longrightarrow> triple I (attempt m h k) Q"
  unfolding attempt_def by (intro triple_andThen_keeps) (auto split: sum.splits)

lemma triple_attempt:
  "triple I m R \<Longrightarrow> (\<And>e. triple (R (Inl e)) (h e) Q) \<Longrightarrow> (\<And>x. triple (R (Inr x)) (k x) Q) \<Longrightarrow> triple I (attempt m h k) Q"
  unfolding attempt_def by (erule triple_andThen) (auto split: sum.splits)

lemma triple_txn:
  assumes "\<And>now db db'. I db \<Longrightarrow> f now db = Inr db' \<Longrightarrow> J db'" and "\<And>e. triple I (h e) Q" and "triple J (k ()) Q"
  shows "triple I (attempt (txn st f) h k) Q"
proof (rule triple_attempt)
  show "triple I (txn st f) (\<lambda>r db. case r of Inl e \<Rightarrow> I db | Inr _ \<Rightarrow> J db)"
    using assms(1) by (auto simp: triple_def intro!: wp_txnI)
qed (use assms in auto)

lemma triple_query:
  assumes "\<And>e. triple I (h e) Q" and "\<And>x. triple (\<lambda>db. I db \<and> f db = Inr x) (k x) Q"
  shows "triple I (attempt (query st f) h k) Q"
proof (rule triple_attempt)
  show "triple I (query st f) (\<lambda>r db. case r of Inl e \<Rightarrow> I db | Inr x \<Rightarrow> I db \<and> f db = Inr x)"
    by (auto simp: triple_def intro!: wp_queryI)
qed (use assms in auto)

text \<open>
  A stage of a run that ends with an error returns it: the database then satisfies \<open>I\<close>, and
  otherwise the next stage starts from \<open>K\<close> of what the stage obtained.
\<close>

definition stage :: "(helper_db \<Rightarrow> bool) \<Rightarrow> ('a \<Rightarrow> helper_db \<Rightarrow> bool) \<Rightarrow> 'e + 'a \<Rightarrow> helper_db \<Rightarrow> bool" where
  "stage I K res db = (case res of Inl _ \<Rightarrow> I db | Inr x \<Rightarrow> K x db)"

lemma stage_simps [simp]: "stage I K (Inl e) = I" "stage I K (Inr x) = K x"
  by (auto simp: stage_def)

lemma triple_stage:
  assumes "triple I m (stage J K)" and "\<And>e. triple J (h e) Q" and "\<And>x. triple (K x) (k x) Q"
  shows "triple I (attempt m h k) Q"
  using assms by (intro triple_attempt [where R = "stage J K"]) simp_all

lemma triple_fact: "(P \<Longrightarrow> triple I m Q) \<Longrightarrow> triple (\<lambda>db. I db \<and> P) m Q"
  by (auto simp: triple_def)

lemma triple_of_keeps: "keeps I m \<Longrightarrow> (\<And>r db. I db \<Longrightarrow> Q r db) \<Longrightarrow> triple I m Q"
  unfolding triple_def keeps_def by (blast intro: wp_mono)

lemma triple_if [triple_intro]: "(c \<Longrightarrow> triple I m1 Q) \<Longrightarrow> (\<not> c \<Longrightarrow> triple I m2 Q) \<Longrightarrow> triple I (if c then m1 else m2) Q"
  by simp

lemma triple_case_sum [triple_intro]:
  "(\<And>e. res = Inl e \<Longrightarrow> triple I (f e) Q) \<Longrightarrow> (\<And>x. res = Inr x \<Longrightarrow> triple I (g x) Q)
    \<Longrightarrow> triple I (case res of Inl e \<Rightarrow> f e | Inr x \<Rightarrow> g x) Q"
  by (cases res) simp_all

lemma triple_case_option [triple_intro]:
  "(v = None \<Longrightarrow> triple I f Q) \<Longrightarrow> (\<And>x. v = Some x \<Longrightarrow> triple I (g x) Q) \<Longrightarrow> triple I (case v of None \<Rightarrow> f | Some x \<Rightarrow> g x) Q"
  by (cases v) simp_all

lemma triple_pre: "triple J m Q \<Longrightarrow> (\<And>db. I db \<Longrightarrow> J db) \<Longrightarrow> triple I m Q"
  by (auto simp: triple_def)

lemma triple_post: "triple I m Q \<Longrightarrow> (\<And>r db. Q r db \<Longrightarrow> Q' r db) \<Longrightarrow> triple I m Q'"
  unfolding triple_def by (blast intro: wp_mono)

lemma triple_keeps: "triple I m (\<lambda>_. I) \<longleftrightarrow> keeps I m"
  by (simp add: triple_def keeps_def)

lemma tripleD: "triple I m Q \<Longrightarrow> I db \<Longrightarrow> m (w, db) = (res, (w', db')) \<Longrightarrow> Q res db'"
  unfolding triple_def by (drule spec [of _ "(w, db)"]) (auto simp: wp_def)

end
