(* ===== verification/Runner.thy ===== *)
theory Runner
  imports Lifecycle_Run
begin

text \<open>
  \<^verbatim>\<open>internal/lifecycle/runner.go\<close>: the staged replacement of an application with one
  component. The candidate is created and verified beside the active generation, the old
  container is stopped, the candidate started and verified again, and one transaction
  switches the generations; every runtime mutation is announced by a checkpoint.
\<close>

section \<open>Phases and constants\<close>

definition PhaseBeforePull :: string where "PhaseBeforePull = ''before_pull''"
definition PhaseAfterPull :: string where "PhaseAfterPull = ''after_pull''"
definition PhaseBeforeNetwork :: string where "PhaseBeforeNetwork = ''before_candidate_network''"
definition PhaseAfterNetwork :: string where "PhaseAfterNetwork = ''after_candidate_network''"
definition PhaseBeforeContainer :: string where "PhaseBeforeContainer = ''before_candidate_container''"
definition PhaseAfterContainer :: string where "PhaseAfterContainer = ''after_candidate_container''"
definition PhaseBeforeOldStop :: string where "PhaseBeforeOldStop = ''before_old_stop''"
definition PhaseAfterOldStop :: string where "PhaseAfterOldStop = ''after_old_stop''"
definition PhaseBeforeCandidateStart :: string where "PhaseBeforeCandidateStart = ''before_candidate_start''"
definition PhaseAfterCandidateStart :: string where "PhaseAfterCandidateStart = ''after_candidate_start''"
definition PhaseBeforeVerification :: string where "PhaseBeforeVerification = ''before_runtime_verification''"
definition PhaseAfterVerification :: string where "PhaseAfterVerification = ''after_runtime_verification''"
definition PhaseBeforeCommit :: string where "PhaseBeforeCommit = ''before_generation_commit''"
definition PhaseAfterCommit :: string where "PhaseAfterCommit = ''after_generation_commit''"
definition PhaseCleanup :: string where "PhaseCleanup = ''old_generation_cleanup''"

definition LabelManaged :: string where "LabelManaged = ''com.kitpro.managed''"
definition LabelInstance :: string where "LabelInstance = ''com.kitpro.instance''"
definition LabelGeneration :: string where "LabelGeneration = ''com.kitpro.runtime-generation''"

text \<open>A nil hook is the one that returns no error.\<close>

record 'w Runner =
  rr_Runtime :: "'w LifecycleRuntime"
  rr_Store :: "'w store"
  rr_Evidence :: evidence
  rr_Hook :: "string \<Rightarrow> 'w \<Rightarrow> unit result \<times> 'w"

definition rollbackPolicy :: "Plan \<Rightarrow> string" where
  "rollbackPolicy plan = (if pl_RollbackSafe plan then ''same_image_restart_allowed'' else ''shared_data_conservative'')"

definition RecordPhase_run ::
  "'w Runner \<Rightarrow> Plan \<Rightarrow> string \<Rightarrow> string \<Rightarrow> string go_map \<Rightarrow> ('w, unit result) prog" where
  "RecordPhase_run r plan phase outcome facts =
     txn (rr_Store r) (\<lambda>now. rr_Evidence r now (pl_OperationID plan) (pl_FencingToken plan) phase outcome facts)"

definition checkpoint :: "'w Runner \<Rightarrow> Plan \<Rightarrow> string \<Rightarrow> string \<Rightarrow> string go_map \<Rightarrow> ('w, unit result) prog" where
  "checkpoint r plan phase outcome facts =
     attempt (RecordPhase_run r plan phase outcome facts) (\<lambda>e. ret (Inl e)) (\<lambda>_. call (rr_Hook r phase))"

section \<open>Verification\<close>

text \<open>The labels that say a container is the helper's, of this installation and generation.\<close>

definition owned :: "string \<Rightarrow> int \<Rightarrow> ContainerObservation \<Rightarrow> bool" where
  "owned installation generation o' = (lookup_str (co_Labels o') LabelManaged = ''true''
     \<and> lookup_str (co_Labels o') LabelInstance = installation
     \<and> lookup_str (co_Labels o') LabelGeneration = itoa generation)"

definition network_identity :: "Plan \<Rightarrow> NetworkObservation \<Rightarrow> ContainerObservation \<Rightarrow> string \<Rightarrow> bool" where
  "network_identity plan network observed want =
     (case map_of (co_Networks observed) (pl_NetworkName plan) of None \<Rightarrow> False
      | Some attachment \<Rightarrow> na_NetworkID attachment = nw_ID network
          \<or> (want = RuntimeStopped \<and> na_NetworkID attachment = [] \<and> co_NetworkMode observed = pl_NetworkName plan))"

definition verifyCandidate :: "Plan \<Rightarrow> NetworkObservation \<Rightarrow> ContainerObservation \<Rightarrow> string \<Rightarrow> unit result" where
  "verifyCandidate plan network observed want =
     (if \<not> nw_Exists network \<or> nw_Name network \<noteq> pl_NetworkName plan \<or> co_State observed \<noteq> want \<or> \<not> co_Exists observed
         \<or> co_Name observed \<noteq> pl_ContainerName plan \<or> co_ImageReference observed \<noteq> pl_Image plan
      then Inl (Errorf ''candidate runtime identity mismatch'')
      else if \<not> owned (pl_InstallationID plan) (pl_Generation plan) observed
      then Inl (Errorf ''candidate ownership evidence mismatch'')
      else if \<not> network_identity plan network observed want
      then Inl (Errorf ''candidate network identity mismatch'')
      else if \<not> configuration_matches (pl_Container plan) observed
      then Inl (Errorf ''candidate runtime configuration mismatch'')
      else if \<not> resources_match (pl_Container plan) observed
      then Inl (Errorf ''candidate mounts, ports, or devices mismatch'')
      else Inr ())"

definition stored_generation_check :: "Generation \<Rightarrow> string \<Rightarrow> ContainerObservation \<Rightarrow> ContainerObservation result" where
  "stored_generation_check generation want observed =
     (let c = ge_Component generation in
      if \<not> co_Exists observed \<or> co_ID observed \<noteq> lc_ContainerID c \<or> co_Name observed \<noteq> lc_ContainerName c
         \<or> co_ImageReference observed \<noteq> lc_Image c \<or> co_State observed \<noteq> want
      then Inl (Errorf ''container identity or state mismatch'')
      else if \<not> owned (ge_InstallationID generation) (ge_Generation generation) observed
      then Inl (Errorf ''container ownership evidence mismatch'')
      else if map_of (co_Networks observed) (ge_NetworkName generation) = None
      then Inl (Errorf ''container network mismatch'')
      else if ge_Status generation = Some GVerificationRequired \<and> lc_ConfigurationHash c = []
      then Inl (Errorf ''migrated container configuration is not verified'')
      else if lc_ConfigurationHash c \<noteq> [] \<and> observationHash observed \<noteq> lc_ConfigurationHash c
      then Inl (Errorf ''container configuration hash mismatch'')
      else Inr observed)"

definition verifyStoredGeneration :: "'w Runner \<Rightarrow> Generation \<Rightarrow> string \<Rightarrow> ('w, ContainerObservation result) prog" where
  "verifyStoredGeneration r generation want =
     attempt (call (ObserveContainer (rr_Runtime r) (lc_ContainerID (ge_Component generation)))) (\<lambda>e. ret (Inl e))
       (\<lambda>observed. ret (stored_generation_check generation want observed))"

definition repairable_state :: "ContainerObservation \<Rightarrow> ContainerObservation result" where
  "repairable_state observed =
     (if co_State observed \<noteq> RuntimeRunning \<and> co_State observed \<noteq> RuntimeStopped
      then Inl (Errorf ''active container state is not repairable'') else Inr observed)"

definition observeRepairableActive :: "'w Runner \<Rightarrow> Generation \<Rightarrow> ('w, ContainerObservation result) prog" where
  "observeRepairableActive r generation =
     (let c = ge_Component generation in
      attempt (call (ObserveContainer (rr_Runtime r) (lc_ContainerID c))) (\<lambda>e. ret (Inl e)) (\<lambda>observed.
      if \<not> co_Exists observed then
        attempt (call (ObserveContainer (rr_Runtime r) (lc_ContainerName c))) (\<lambda>e. ret (Inl e)) (\<lambda>byName.
          if co_Exists byName
          then ret (Inl (Errorf ''expected container name is occupied by an untrusted runtime object''))
          else ret (Inr observed))
      else if co_ID observed \<noteq> lc_ContainerID c \<or> co_Name observed \<noteq> lc_ContainerName c \<or> co_ImageReference observed \<noteq> lc_Image c
        \<or> \<not> owned (ge_InstallationID generation) (ge_Generation generation) observed
      then ret (Inl (Errorf ''active container identity changed''))
      else if lc_ConfigurationHash c \<noteq> [] \<and> observationHash observed \<noteq> lc_ConfigurationHash c then
        andThen (call (ObserveNetwork (rr_Runtime r) (ge_NetworkName generation))) (\<lambda>res.
          case res of
            Inl _ \<Rightarrow> ret (Inl (Errorf ''active container configuration changed''))
          | Inr network \<Rightarrow>
            if \<not> nw_Exists network \<or> (ge_NetworkID generation \<noteq> [] \<and> nw_ID network \<noteq> ge_NetworkID generation)
               \<or> \<not> detachedStoppedConfigurationMatches observed (lc_ConfigurationHash c) (ge_NetworkName generation) (nw_ID network)
            then ret (Inl (Errorf ''active container configuration changed''))
            else ret (repairable_state observed))
      else ret (repairable_state observed)))"

section \<open>Cleanup\<close>

definition generation_fact :: "int \<Rightarrow> string go_map" where
  "generation_fact n = [(''generation'', itoa n)]"

definition cleanup_network :: "'w Runner \<Rightarrow> Plan \<Rightarrow> Generation \<Rightarrow> ('w, unit result) prog" where
  "cleanup_network r plan generation =
     (let finish = RecordPhase_run r plan ''candidate_cleanup'' ''confirmed'' (generation_fact (pl_Generation plan)) in
      if ge_NetworkName generation \<noteq> [] then
        attempt (call (ObserveNetwork (rr_Runtime r) (ge_NetworkName generation))) (\<lambda>e. ret (Inl e)) (\<lambda>network.
        if nw_Exists network \<and> nw_ID network \<noteq> ge_NetworkID generation
        then ret (Inl (Errorf ''candidate network ownership changed during cleanup''))
        else if nw_Exists network then
          attempt (call (RemoveLifecycleNetwork (rr_Runtime r) (ge_NetworkName generation))) (\<lambda>e. ret (Inl e)) (\<lambda>_.
          andThen (call (ObserveNetwork (rr_Runtime r) (ge_NetworkName generation))) (\<lambda>removed.
            case removed of
              Inr n \<Rightarrow> if nw_Exists n then ret (Inl (Errorf ''candidate network removal could not be verified'')) else finish
            | Inl _ \<Rightarrow> ret (Inl (Errorf ''candidate network removal could not be verified''))))
        else finish)
      else finish)"

definition cleanupCandidate :: "'w Runner \<Rightarrow> Plan \<Rightarrow> ('w, unit result) prog" where
  "cleanupCandidate r plan =
     attempt (query (rr_Store r) (ByOperation (pl_OperationID plan))) (\<lambda>e. ret (Inl e)) (\<lambda>generation.
     attempt (RecordPhase_run r plan ''candidate_cleanup'' ''intent'' (generation_fact (pl_Generation plan))) (\<lambda>e. ret (Inl e)) (\<lambda>_.
     let id = lc_ContainerID (ge_Component generation) in
     if id \<noteq> [] then
       andThen (call (ObserveContainer (rr_Runtime r) id)) (\<lambda>res.
         case res of
           Inl _ \<Rightarrow> ret (Inl (Errorf ''candidate ownership changed during cleanup''))
         | Inr observed \<Rightarrow>
           if co_Exists observed \<and> co_ID observed \<noteq> id
           then ret (Inl (Errorf ''candidate ownership changed during cleanup''))
           else if co_Exists observed then
             andThen (if co_State observed = RuntimeRunning then call (StopContainer (rr_Runtime r) (co_ID observed)) else ret (Inr ())) (\<lambda>_.
             attempt (call (RemoveContainer (rr_Runtime r) (co_ID observed))) (\<lambda>e. ret (Inl e)) (\<lambda>_.
             andThen (call (ObserveContainer (rr_Runtime r) (co_ID observed))) (\<lambda>removed.
               case removed of
                 Inr o' \<Rightarrow> if co_State o' \<noteq> RuntimeMissing
                   then ret (Inl (Errorf ''candidate container removal could not be verified''))
                   else cleanup_network r plan generation
               | Inl _ \<Rightarrow> ret (Inl (Errorf ''candidate container removal could not be verified'')))))
           else cleanup_network r plan generation)
     else cleanup_network r plan generation))"

definition failBeforeCutover :: "'w Runner \<Rightarrow> Plan \<Rightarrow> go_error \<Rightarrow> ('w, run_error + 'a) prog" where
  "failBeforeCutover r plan cause =
     andThen (cleanupCandidate r plan) (\<lambda>cleanupErr.
     andThen (txn (rr_Store r) (\<lambda>_. MarkFailed plan (if is_ok cleanupErr then CClean else CPending))) (\<lambda>markErr.
     if \<not> is_ok cleanupErr \<or> \<not> is_ok markErr
     then unknown PhaseCleanup (join_errors [Some cause, err_of cleanupErr, err_of markErr])
     else fail cause))"

definition afterCutoverFailure ::
  "'w Runner \<Rightarrow> Plan \<Rightarrow> Generation \<Rightarrow> string \<Rightarrow> string \<Rightarrow> go_error \<Rightarrow> ('w, run_error + 'a) prog" where
  "afterCutoverFailure r plan active containerID phase cause =
     attempt (call (ObserveContainer (rr_Runtime r) containerID)) (\<lambda>_. unknown phase cause) (\<lambda>observed.
     attempt (if co_State observed = RuntimeRunning then call (StopContainer (rr_Runtime r) containerID) else ret (Inr ()))
       (\<lambda>_. unknown phase cause) (\<lambda>_.
     if ge_Status active = Some GActive \<and> pl_RollbackSafe plan then
       attempt (call (StartContainer (rr_Runtime r) (lc_ContainerID (ge_Component active)))) (\<lambda>_. unknown phase cause) (\<lambda>_.
       attempt (call (WaitContainer (rr_Runtime r) (lc_ContainerID (ge_Component active)) RuntimeRunning)) (\<lambda>_. unknown phase cause) (\<lambda>_.
       andThen (cleanupCandidate r plan) (\<lambda>cleanupErr.
       andThen (txn (rr_Store r) (\<lambda>_. MarkFailed plan (if is_ok cleanupErr then CClean else CPending))) (\<lambda>markErr.
       if \<not> is_ok cleanupErr then unknown PhaseCleanup (join_errors [Some cause, err_of cleanupErr, err_of markErr])
       else if \<not> is_ok markErr then unknown PhaseCleanup (join_errors [Some cause, err_of markErr])
       else fail cause))))
     else unknown phase cause))"

text \<open>
  One generation of \<open>cleanupOlder\<close>: whether its cleanup is deferred. \<open>defer\<close> is the
  marking as pending with which every failed step of the loop body ends.
\<close>

definition cleanup_pending :: "'w Runner \<Rightarrow> Generation \<Rightarrow> ('w, bool) prog" where
  "cleanup_pending r generation =
     andThen (txn (rr_Store r) (\<lambda>_ db. Inr (MarkCleanupPending generation db))) (\<lambda>_. ret True)"

definition cleanup_old_network :: "'w Runner \<Rightarrow> Plan \<Rightarrow> Generation \<Rightarrow> ('w, bool) prog" where
  "cleanup_old_network r plan generation =
     (let pending = cleanup_pending r generation;
          finish = attempt (RecordPhase_run r plan PhaseCleanup ''confirmed'' (generation_fact (ge_Generation generation)))
            (\<lambda>_. pending) (\<lambda>_. attempt (txn (rr_Store r) (\<lambda>_ db. Inr (MarkRemoved generation db))) (\<lambda>_. ret True) (\<lambda>_. ret False)) in
      attempt (call (ObserveNetwork (rr_Runtime r) (ge_NetworkName generation))) (\<lambda>_. pending) (\<lambda>network.
      if nw_Exists network \<and> nw_ID network \<noteq> ge_NetworkID generation then pending
      else if nw_Exists network then
        attempt (call (RemoveLifecycleNetwork (rr_Runtime r) (ge_NetworkName generation))) (\<lambda>_. pending) (\<lambda>_.
        attempt (call (ObserveNetwork (rr_Runtime r) (ge_NetworkName generation))) (\<lambda>_. pending) (\<lambda>removed.
        if nw_Exists removed then pending else finish))
      else finish))"

definition cleanup_old :: "'w Runner \<Rightarrow> Plan \<Rightarrow> Generation \<Rightarrow> ('w, bool) prog" where
  "cleanup_old r plan generation =
     (let pending = cleanup_pending r generation in
      attempt (checkpoint r plan PhaseCleanup ''intent'' (generation_fact (ge_Generation generation))) (\<lambda>_. pending) (\<lambda>_.
      attempt (call (ObserveContainer (rr_Runtime r) (lc_ContainerID (ge_Component generation)))) (\<lambda>_. pending) (\<lambda>observed.
      if co_Exists observed then
        attempt (if pl_AllowMissingActive plan \<and> ge_Generation generation = pl_ExpectedGeneration plan
                 then observeRepairableActive r generation else verifyStoredGeneration r generation RuntimeStopped)
          (\<lambda>_. pending) (\<lambda>_.
        attempt (call (RemoveContainer (rr_Runtime r) (co_ID observed))) (\<lambda>_. pending) (\<lambda>_.
        attempt (call (ObserveContainer (rr_Runtime r) (co_ID observed))) (\<lambda>_. pending) (\<lambda>removed.
        if co_State removed \<noteq> RuntimeMissing then pending else cleanup_old_network r plan generation)))
      else cleanup_old_network r plan generation)))"

fun cleanup_each :: "'w Runner \<Rightarrow> Plan \<Rightarrow> Generation list \<Rightarrow> bool \<Rightarrow> ('w, bool) prog" where
  "cleanup_each r plan [] deferred = ret deferred"
| "cleanup_each r plan (g # gs) deferred = andThen (cleanup_old r plan g) (\<lambda>d. cleanup_each r plan gs (deferred \<or> d))"

definition cleanupOlder :: "'w Runner \<Rightarrow> Plan \<Rightarrow> int \<Rightarrow> ('w, bool) prog" where
  "cleanupOlder r plan keepGeneration =
     attempt (query (rr_Store r) (\<lambda>db. Inr (OlderRetained (pl_InstallationID plan) keepGeneration db))) (\<lambda>_. ret True)
       (\<lambda>older. cleanup_each r plan older False)"

section \<open>The active generation\<close>

definition zero_component :: LComponent where
  "zero_component = \<lparr>lc_ID = [], lc_ContainerName = [], lc_ContainerID = [], lc_Image = [], lc_ImageID = [],
     lc_ConfigurationHash = [], lc_State = CsUnknown, lc_DependsOn = [], lc_StartOrdinal = 0\<rparr>"

text \<open>\<open>Generation{}\<close>; its component state and cleanup state are never read.\<close>

definition zero_generation :: Generation where
  "zero_generation = \<lparr>ge_InstallationID = [], ge_CreatingOperationID = [], ge_ApplicationID = [], ge_ReleaseID = [],
     ge_Generation = 0, ge_Status = None, ge_NetworkName = [], ge_NetworkID = [], ge_PlanHash = [], ge_DataPath = [],
     ge_Bindings = [], ge_CleanupState = CNotRequired, ge_Component = zero_component\<rparr>"

definition removed_row :: "string \<Rightarrow> int \<Rightarrow> helper_db \<Rightarrow> Generation result" where
  "removed_row i n db = bind_result (first_row (filter (\<lambda>(g, c). g_installation_id g = i \<and> g_runtime_generation g = n
       \<and> g_status g = GRemoved \<and> g_cleanup_state g = CClean) (generationSelect db))) (\<lambda>gc. Inr (scanGeneration gc))"

definition verify_current :: "'w Runner \<Rightarrow> Plan \<Rightarrow> Generation \<Rightarrow> ('w, Generation result) prog" where
  "verify_current r plan active =
     (if ge_Status active = Some GRemoved then ret (Inr active)
      else attempt (verifyStoredGeneration r active RuntimeRunning)
        (\<lambda>err. let ambiguous = ret (Inl (Errorf (''active runtime ownership is ambiguous: '' @ error_text err))) in
          if pl_AllowMissingActive plan \<and> ge_Status active = Some GActive
          then attempt (observeRepairableActive r active) (\<lambda>_. ambiguous) (\<lambda>_. ret (Inr active))
          else ambiguous)
        (\<lambda>observed.
          if ge_Status active = Some GVerificationRequired then
            andThen (call (ObserveNetwork (rr_Runtime r) (ge_NetworkName active))) (\<lambda>res.
              case res of
                Inl _ \<Rightarrow> ret (Inl (Errorf ''migrated network cannot be verified''))
              | Inr network \<Rightarrow>
                if \<not> nw_Exists network then ret (Inl (Errorf ''migrated network cannot be verified''))
                else attempt (txn (rr_Store r) (\<lambda>now. PromoteMigrated now active (nw_ID network) (co_ImageID observed) (observationHash observed)))
                  (\<lambda>e. ret (Inl e))
                  (\<lambda>_. ret (Inr (active\<lparr>ge_Status := Some GActive, ge_NetworkID := nw_ID network,
                     ge_Component := (ge_Component active)\<lparr>lc_ImageID := co_ImageID observed,
                       lc_ConfigurationHash := observationHash observed\<rparr>\<rparr>))))
          else ret (Inr active)))"

definition loadAndVerifyActive :: "'w Runner \<Rightarrow> Plan \<Rightarrow> ('w, Generation result) prog" where
  "loadAndVerifyActive r plan =
     attempt (txn (rr_Store r) (\<lambda>_. BackfillInstallation (pl_InstallationID plan))) (\<lambda>e. ret (Inl e)) (\<lambda>_.
     andThen (query (rr_Store r) (Current (pl_InstallationID plan))) (\<lambda>res.
     case res of
       Inl e \<Rightarrow>
         if e = ErrNoRows then
           (if pl_ExpectedGeneration plan \<noteq> 0 then ret (Inl (Errorf ''active generation is missing'')) else ret (Inr zero_generation))
         else ret (Inl e)
     | Inr active \<Rightarrow>
         if ge_Status active = Some GRemoved \<and> ge_Generation active = pl_Generation plan then
           (if ge_CleanupState active \<noteq> CClean then ret (Inl (Errorf ''target generation has unresolved cleanup evidence''))
            else if pl_ExpectedGeneration plan = 0 then ret (Inr zero_generation)
            else attempt (query (rr_Store r) (removed_row (pl_InstallationID plan) (pl_ExpectedGeneration plan)))
              (\<lambda>_. ret (Inl (Errorf ''previous removed generation is unavailable for target retry''))) (\<lambda>prior.
              attempt (query (rr_Store r) (\<lambda>db. Inr (loadBindings (ge_InstallationID prior) (ge_Generation prior) db))) (\<lambda>e. ret (Inl e))
                (\<lambda>bs. verify_current r plan (prior\<lparr>ge_Bindings := bs\<rparr>))))
         else verify_current r plan active))"

section \<open>The replacement\<close>

text \<open>
  The method \<open>Replace\<close> in the order of its stages, each given the plan with the image
  defaults, the active generation and what earlier stages obtained.
\<close>

definition replace_commit :: "'w Runner \<Rightarrow> Plan \<Rightarrow> ContainerObservation \<Rightarrow> ('w, run_error + Result) prog" where
  "replace_commit r plan observed =
     attempt (checkpoint r plan PhaseBeforeCommit ''intent'' []) (unknown PhaseBeforeCommit) (\<lambda>_.
     attempt (txn (rr_Store r) (\<lambda>now. Commit now plan)) (unknown PhaseBeforeCommit) (\<lambda>_.
     let result = \<lparr>re_Generation = pl_Generation plan, re_ReleaseID = pl_ReleaseID plan, re_RuntimeState = ''running'',
           re_ContainerName = pl_ContainerName plan, re_ContainerID = co_ID observed, re_NetworkName = pl_NetworkName plan,
           re_Bindings = Normalize (pl_Bindings plan), re_CleanupDeferred = False, re_Components = []\<rparr> in
     attempt (checkpoint r plan PhaseAfterCommit ''confirmed'' []) (unknown PhaseAfterCommit) (\<lambda>_.
     andThen (cleanupOlder r plan (if pl_AllowMissingActive plan then 0 else pl_ExpectedGeneration plan)) (\<lambda>deferred.
     ret (Inr (result\<lparr>re_CleanupDeferred := deferred\<rparr>))))))"

definition replace_verify ::
  "'w Runner \<Rightarrow> Plan \<Rightarrow> Generation \<Rightarrow> string \<Rightarrow> string \<Rightarrow> ('w, run_error + Result) prog" where
  "replace_verify r plan active containerID configHash =
     (let failed = afterCutoverFailure r plan active containerID PhaseBeforeVerification in
      attempt (checkpoint r plan PhaseBeforeVerification ''intent'' []) failed (\<lambda>_.
      attempt (call (ObserveNetwork (rr_Runtime r) (pl_NetworkName plan))) failed (\<lambda>network.
      attempt (call (ObserveContainer (rr_Runtime r) containerID)) failed (\<lambda>observed.
      attempt (ret (verifyCandidate plan network observed RuntimeRunning)) failed (\<lambda>_.
      if observationHash observed \<noteq> configHash then failed (Errorf ''candidate configuration changed before commit'')
      else attempt (txn (rr_Store r) (\<lambda>now. RecordState now plan CsRunning True)) (unknown PhaseAfterVerification) (\<lambda>_.
        attempt (checkpoint r plan PhaseAfterVerification ''confirmed'' [(''runtime_state'', ''running''), (''health'', co_Health observed)])
          (unknown PhaseAfterVerification) (\<lambda>_. replace_commit r plan observed)))))))"

definition replace_start ::
  "'w Runner \<Rightarrow> Plan \<Rightarrow> Generation \<Rightarrow> string \<Rightarrow> string \<Rightarrow> ('w, run_error + Result) prog" where
  "replace_start r plan active containerID configHash =
     attempt (checkpoint r plan PhaseBeforeCandidateStart ''intent'' [])
       (afterCutoverFailure r plan active containerID PhaseBeforeCandidateStart) (\<lambda>_.
     attempt (call (StartContainer (rr_Runtime r) containerID))
       (afterCutoverFailure r plan active containerID PhaseBeforeCandidateStart) (\<lambda>_.
     attempt (call (WaitContainer (rr_Runtime r) containerID RuntimeRunning))
       (afterCutoverFailure r plan active containerID PhaseAfterCandidateStart) (\<lambda>_.
     attempt (txn (rr_Store r) (\<lambda>now. RecordState now plan CsRunning False)) (unknown PhaseAfterCandidateStart) (\<lambda>_.
     attempt (checkpoint r plan PhaseAfterCandidateStart ''confirmed'' []) (unknown PhaseAfterCandidateStart) (\<lambda>_.
     replace_verify r plan active containerID configHash)))))"

definition stop_old ::
  "'w Runner \<Rightarrow> Plan \<Rightarrow> Generation \<Rightarrow> ('w, run_error + Result) prog \<Rightarrow> ('w, run_error + Result) prog" where
  "stop_old r plan active continue =
     (let old = lc_ContainerID (ge_Component active) in
      attempt (checkpoint r plan PhaseBeforeOldStop ''intent'' [(''rollback_policy'', rollbackPolicy plan)]) (failBeforeCutover r plan) (\<lambda>_.
      attempt (call (StopContainer (rr_Runtime r) old))
        (\<lambda>err. andThen (call (ObserveContainer (rr_Runtime r) old)) (\<lambda>res.
           case res of
             Inr oldObserved \<Rightarrow> if co_State oldObserved = RuntimeRunning
               then failBeforeCutover r plan (Errorf (''old generation stop failed: '' @ error_text err))
               else unknown PhaseBeforeOldStop err
           | Inl _ \<Rightarrow> unknown PhaseBeforeOldStop err)) (\<lambda>_.
      attempt (call (WaitContainer (rr_Runtime r) old RuntimeStopped)) (unknown PhaseAfterOldStop) (\<lambda>_.
      attempt (checkpoint r plan PhaseAfterOldStop ''confirmed'' []) (unknown PhaseAfterOldStop) (\<lambda>_. continue)))))"

definition replace_cutover ::
  "'w Runner \<Rightarrow> Plan \<Rightarrow> Generation \<Rightarrow> string \<Rightarrow> string \<Rightarrow> ('w, run_error + Result) prog" where
  "replace_cutover r plan active containerID configHash =
     attempt (if ge_Status active = Some GActive then
         attempt (if pl_AllowMissingActive plan then observeRepairableActive r active else verifyStoredGeneration r active RuntimeRunning)
           (\<lambda>e. ret (Inl e)) (\<lambda>o'. ret (Inr (Some o')))
       else ret (Inr None)) (failBeforeCutover r plan) (\<lambda>activeObserved.
     attempt (call (ObserveNetwork (rr_Runtime r) (pl_NetworkName plan))) (failBeforeCutover r plan) (\<lambda>network.
     attempt (call (ObserveContainer (rr_Runtime r) containerID)) (failBeforeCutover r plan) (\<lambda>observed.
     attempt (ret (verifyCandidate plan network observed RuntimeStopped)) (failBeforeCutover r plan) (\<lambda>_.
     let continue = replace_start r plan active containerID configHash in
     case activeObserved of
       Some o' \<Rightarrow> if co_Exists o' \<and> co_State o' = RuntimeRunning then stop_old r plan active continue else continue
     | None \<Rightarrow> continue))))"

definition replace_container ::
  "'w Runner \<Rightarrow> Plan \<Rightarrow> Generation \<Rightarrow> NetworkObservation \<Rightarrow> ('w, run_error + Result) prog" where
  "replace_container r plan active network =
     attempt (checkpoint r plan PhaseBeforeContainer ''intent'' []) (failBeforeCutover r plan) (\<lambda>_.
     attempt (call (CreateLifecycleContainer (rr_Runtime r) (pl_Container plan)))
       (\<lambda>err. andThen (call (ObserveContainer (rr_Runtime r) (pl_ContainerName plan))) (\<lambda>res.
          case res of
            Inr o' \<Rightarrow> if co_Exists o' then unknown PhaseBeforeContainer err
              else failBeforeCutover r plan (Errorf (''create stopped candidate: '' @ error_text err))
          | Inl _ \<Rightarrow> unknown PhaseBeforeContainer err)) (\<lambda>containerID.
     attempt (txn (rr_Store r) (\<lambda>now. RecordContainer now plan containerID [] [] CsCreated)) (unknown PhaseAfterContainer) (\<lambda>_.
     attempt (call (ObserveContainer (rr_Runtime r) containerID)) (unknown PhaseAfterContainer) (\<lambda>observed.
     attempt (ret (verifyCandidate plan network observed RuntimeStopped)) (failBeforeCutover r plan) (\<lambda>_.
     let configHash = observationHash observed in
     attempt (txn (rr_Store r) (\<lambda>now. RecordContainer now plan (co_ID observed) (co_ImageID observed) configHash CsStopped))
       (unknown PhaseAfterContainer) (\<lambda>_.
     attempt (checkpoint r plan PhaseAfterContainer ''confirmed'' [(''container_id'', co_ID observed), (''configuration_hash'', configHash)])
       (unknown PhaseAfterContainer) (\<lambda>_.
     replace_cutover r plan active containerID configHash)))))))"

definition replace_network :: "'w Runner \<Rightarrow> Plan \<Rightarrow> Generation \<Rightarrow> ('w, run_error + Result) prog" where
  "replace_network r plan active =
     attempt (checkpoint r plan PhaseBeforeNetwork ''intent'' []) (failBeforeCutover r plan) (\<lambda>_.
     attempt (call (CreateLifecycleNetwork (rr_Runtime r) (pl_NetworkName plan) (ct_Labels (pl_Container plan))))
       (\<lambda>err. andThen (call (ObserveNetwork (rr_Runtime r) (pl_NetworkName plan))) (\<lambda>res.
          case res of
            Inr n \<Rightarrow> if nw_Exists n then unknown PhaseBeforeNetwork err
              else failBeforeCutover r plan (Errorf (''create candidate network: '' @ error_text err))
          | Inl _ \<Rightarrow> unknown PhaseBeforeNetwork err)) (\<lambda>network.
     attempt (txn (rr_Store r) (\<lambda>_. RecordNetwork plan (nw_ID network))) (unknown PhaseAfterNetwork) (\<lambda>_.
     attempt (checkpoint r plan PhaseAfterNetwork ''confirmed'' [(''network_id'', nw_ID network)]) (unknown PhaseAfterNetwork) (\<lambda>_.
     replace_container r plan active network))))"

definition with_image :: "Plan \<Rightarrow> ImageObservation \<Rightarrow> Plan" where
  "with_image plan img = plan\<lparr>pl_Container := (pl_Container plan)\<lparr>ct_ImageDefaultUser := im_ConfiguredUser img,
     ct_ImageDefaultVolumes := im_ConfiguredVolumes img\<rparr>\<rparr>"

definition Replace :: "'w Runner \<Rightarrow> Plan \<Rightarrow> ('w, run_error + Result) prog" where
  "Replace r plan =
     attempt (loadAndVerifyActive r plan) fail (\<lambda>active.
     if ge_Generation active \<noteq> pl_ExpectedGeneration plan \<or> pl_Generation plan \<noteq> pl_ExpectedGeneration plan + 1
     then fail (Errorf (''stale runtime generation: expected '' @ itoa (pl_ExpectedGeneration plan)
       @ '' active '' @ itoa (ge_Generation active) @ '' target '' @ itoa (pl_Generation plan)))
     else
     attempt (checkpoint r plan PhaseBeforePull ''intent'' []) fail (\<lambda>_.
     attempt (call (PullImage (rr_Runtime r) (pl_Image plan))) (\<lambda>e. fail (Errorf (''pull target image: '' @ error_text e))) (\<lambda>_.
     attempt (call (ObserveImage (rr_Runtime r) (pl_Image plan))) (unknown PhaseAfterPull) (\<lambda>img.
     if \<not> imageContainsDigest img (pl_Image plan) then fail (Errorf ''pulled target digest could not be verified'')
     else let plan' = with_image plan img in
     attempt (checkpoint r plan' PhaseAfterPull ''confirmed'' [(''image_id'', im_ID img)]) fail (\<lambda>_.
     attempt (txn (rr_Store r) (\<lambda>now. Prepare now plan')) fail (\<lambda>_.
     replace_network r plan' active))))))"

text \<open>The runner the helper's command builds, without a hook.\<close>

definition helper_runner :: "'w LifecycleRuntime \<Rightarrow> 'w store \<Rightarrow> 'w Runner" where
  "helper_runner rt st = \<lparr>rr_Runtime = rt, rr_Store = st, rr_Evidence = RecordPhase, rr_Hook = (\<lambda>_ w. (Inr (), w))\<rparr>"

lemma sim_runner_simps [simp]:
  "rr_Runtime (helper_runner rt st) = rt" "rr_Store (helper_runner rt st) = st" "rr_Evidence (helper_runner rt st) = RecordPhase"
  "rr_Hook (helper_runner rt st) phase w = (Inr (), w)"
  by (simp_all add: helper_runner_def)

end
