(* ===== verification/Multi_Runner.thy ===== *)
theory Multi_Runner
  imports Runner
begin

text \<open>
  \<^verbatim>\<open>internal/lifecycle/multi_runner.go\<close>: replacement and ordinary lifecycle changes of an
  application with several components. Every mutation of a component is bracketed by a
  recorded step: intent, dispatch, and the outcome an observation confirmed.
\<close>

section \<open>Data\<close>

text \<open>A nil hook is the one that returns no error.\<close>

record 'w MultiRunner =
  mr_Runtime :: "'w LifecycleRuntime"
  mr_Store :: "'w store"
  mr_Evidence :: evidence
  mr_Hook :: "string \<Rightarrow> string \<Rightarrow> string \<Rightarrow> 'w \<Rightarrow> unit result \<times> 'w"

text \<open>An error as the cause of another one.\<close>

definition cause_of :: "run_error \<Rightarrow> go_error" where
  "cause_of e = (case e of Fail g \<Rightarrow> g | UnknownOutcome p c \<Rightarrow> Errorf (run_error_text e))"

definition lift_fail :: "'a result \<Rightarrow> run_error + 'a" where
  "lift_fail r = (case r of Inl e \<Rightarrow> Inl (Fail e) | Inr x \<Rightarrow> Inr x)"

definition phaseForAction :: "string \<Rightarrow> string" where
  "phaseForAction action = (if action = ''stop'' then PhaseAfterOldStop else PhaseAfterCandidateStart)"

text \<open>\<open>firstError\<close> and \<open>stableError\<close> of a call's result and a second error.\<close>

definition firstError :: "'a result \<Rightarrow> go_error \<Rightarrow> go_error" where
  "firstError first second = (case first of Inl e \<Rightarrow> e | Inr _ \<Rightarrow> second)"

definition stableError :: "'a result \<Rightarrow> go_error \<Rightarrow> string" where
  "stableError first second = error_text (firstError first second)"

definition error_detail :: "'a result \<Rightarrow> string" where
  "error_detail res = (case res of Inl e \<Rightarrow> error_text e | Inr _ \<Rightarrow> [])"

text \<open>Start ordinals are unique within a generation, so the unstable sort has one outcome.\<close>

definition reverseComponents :: "LComponent list \<Rightarrow> LComponent list" where
  "reverseComponents cs = sort_key (\<lambda>c. - lc_StartOrdinal c) cs"

definition componentByID :: "LComponent list \<Rightarrow> string \<Rightarrow> LComponent option" where
  "componentByID cs n = find (\<lambda>c. lc_ID c = n) cs"

definition multi_checkpoint ::
  "'w MultiRunner \<Rightarrow> MultiPlan \<Rightarrow> string \<Rightarrow> string \<Rightarrow> string go_map \<Rightarrow> ('w, unit result) prog" where
  "multi_checkpoint r plan phase outcome facts =
     txn (mr_Store r) (\<lambda>now. mr_Evidence r now (mp_OperationID plan) (mp_FencingToken plan) phase outcome facts)"

definition stepIntent :: "'w MultiRunner \<Rightarrow> MultiPlan \<Rightarrow> string \<Rightarrow> string \<Rightarrow> string \<Rightarrow> ('w, unit result) prog" where
  "stepIntent r plan component action expected =
     txn (mr_Store r) (\<lambda>now. BeginComponentStep now plan component action expected 1)"

definition runHook :: "'w MultiRunner \<Rightarrow> string \<Rightarrow> string \<Rightarrow> string \<Rightarrow> ('w, unit result) prog" where
  "runHook r action component point = call (mr_Hook r action component point)"

definition dispatch :: "'w MultiRunner \<Rightarrow> MultiPlan \<Rightarrow> string \<Rightarrow> string \<Rightarrow> ('w, unit result) prog" where
  "dispatch r plan component action = txn (mr_Store r) (\<lambda>now. DispatchComponentStep now plan component action 1)"

definition finish_step ::
  "'w MultiRunner \<Rightarrow> MultiPlan \<Rightarrow> string \<Rightarrow> string \<Rightarrow> string \<Rightarrow> outcome_confidence \<Rightarrow> string \<Rightarrow> ('w, unit result) prog" where
  "finish_step r plan component action observedID confidence detail =
     txn (mr_Store r) (\<lambda>now. FinishComponentStep now plan component action 1 observedID confidence detail)"

text \<open>The hooks after a mutation: the first error among the mutation's and theirs.\<close>

definition after_hooks :: "'w MultiRunner \<Rightarrow> string \<Rightarrow> string \<Rightarrow> bool \<Rightarrow> unit result \<Rightarrow> ('w, unit result) prog" where
  "after_hooks r action component transport res =
     andThen (runHook r action component ''after_dispatch'') (\<lambda>h1.
     let e1 = (if is_ok res then h1 else res) in
     andThen (if is_ok e1 then runHook r action component ''after_mutation_success'' else ret e1) (\<lambda>e2.
     if transport then andThen (runHook r action component ''after_mutation_transport_error'') (\<lambda>h3. ret (if is_ok e2 then h3 else e2))
     else ret e2))"

section \<open>Verification\<close>

definition single_plan :: "MultiPlan \<Rightarrow> MultiComponentPlan \<Rightarrow> Plan" where
  "single_plan plan component = \<lparr>pl_OperationID = [], pl_InstallationID = mp_InstallationID plan, pl_ApplicationID = [], pl_ReleaseID = [],
     pl_Generation = mp_Generation plan, pl_ExpectedGeneration = 0, pl_FencingToken = 0, pl_Image = mc_Image component,
     pl_NetworkName = mp_NetworkName plan, pl_ContainerName = mc_ContainerName component, pl_PlanHash = [], pl_DataPath = [],
     pl_Bindings = [], pl_Container = mc_Container component, pl_RollbackSafe = False, pl_AllowMissingActive = False\<rparr>"

definition verifyMultiCandidate ::
  "MultiPlan \<Rightarrow> MultiComponentPlan \<Rightarrow> NetworkObservation \<Rightarrow> ContainerObservation \<Rightarrow> string \<Rightarrow> unit result" where
  "verifyMultiCandidate plan component network observed want = verifyCandidate (single_plan plan component) network observed want"

definition component_check ::
  "MultiGeneration \<Rightarrow> NetworkObservation \<Rightarrow> string \<Rightarrow> LComponent \<Rightarrow> ContainerObservation result \<Rightarrow> unit result" where
  "component_check generation network want c res = (case res of
      Inl _ \<Rightarrow> Inl (Errorf (''component '' @ lc_ID c @ '' identity or state mismatch''))
    | Inr observed \<Rightarrow>
      if \<not> co_Exists observed \<or> co_ID observed \<noteq> lc_ContainerID c \<or> co_Name observed \<noteq> lc_ContainerName c
         \<or> co_ImageReference observed \<noteq> lc_Image c \<or> co_State observed \<noteq> want
      then Inl (Errorf (''component '' @ lc_ID c @ '' identity or state mismatch''))
      else if \<not> owned (mg_InstallationID generation) (mg_Generation generation) observed
      then Inl (Errorf (''component '' @ lc_ID c @ '' ownership mismatch''))
      else if map_option na_NetworkID (map_of (co_Networks observed) (mg_NetworkName generation)) \<noteq> Some (nw_ID network)
      then Inl (Errorf (''component '' @ lc_ID c @ '' network mismatch''))
      else if lc_ConfigurationHash c \<noteq> [] \<and> observationHash observed \<noteq> lc_ConfigurationHash c
      then Inl (Errorf (''component '' @ lc_ID c @ '' configuration mismatch''))
      else Inr ())"

fun verify_components ::
  "'w MultiRunner \<Rightarrow> MultiGeneration \<Rightarrow> NetworkObservation \<Rightarrow> string \<Rightarrow> LComponent list \<Rightarrow> ('w, unit result) prog" where
  "verify_components r generation network want [] = ret (Inr ())"
| "verify_components r generation network want (c # cs) =
     andThen (call (ObserveContainer (mr_Runtime r) (lc_ContainerID c))) (\<lambda>res.
     attempt (ret (component_check generation network want c res)) (\<lambda>e. ret (Inl e)) (\<lambda>_.
     verify_components r generation network want cs))"

definition verifyGeneration :: "'w MultiRunner \<Rightarrow> MultiGeneration \<Rightarrow> string \<Rightarrow> ('w, unit result) prog" where
  "verifyGeneration r generation want =
     (let mismatch = ret (Inl (Errorf ''generation network identity mismatch'')) in
      attempt (call (ObserveNetwork (mr_Runtime r) (mg_NetworkName generation))) (\<lambda>_. mismatch) (\<lambda>network.
      if \<not> nw_Exists network \<or> (mg_NetworkID generation \<noteq> [] \<and> nw_ID network \<noteq> mg_NetworkID generation) then mismatch
      else verify_components r generation network want (mg_Components generation)))"

text \<open>The check of one existing component in \<open>observeRepairableGeneration\<close>.\<close>

definition repairable_component :: "MultiGeneration \<Rightarrow> NetworkObservation \<Rightarrow> LComponent \<Rightarrow> ContainerObservation \<Rightarrow> unit result" where
  "repairable_component generation network c observed =
     (let detached = detachedStoppedConfigurationMatches observed (lc_ConfigurationHash c) (mg_NetworkName generation) (nw_ID network) in
      if co_ID observed \<noteq> lc_ContainerID c \<or> co_Name observed \<noteq> lc_ContainerName c \<or> co_ImageReference observed \<noteq> lc_Image c
         \<or> \<not> owned (mg_InstallationID generation) (mg_Generation generation) observed
      then Inl (Errorf (''component '' @ lc_ID c @ '' identity changed''))
      else if lc_ImageID c \<noteq> [] \<and> co_ImageID observed \<noteq> lc_ImageID c then Inl (Errorf (''component '' @ lc_ID c @ '' image identity changed''))
      else if lc_ConfigurationHash c \<noteq> [] \<and> observationHash observed \<noteq> lc_ConfigurationHash c \<and> \<not> detached
      then Inl (Errorf (''component '' @ lc_ID c @ '' configuration changed''))
      else if co_State observed \<noteq> RuntimeRunning \<and> co_State observed \<noteq> RuntimeStopped
      then Inl (Errorf (''component '' @ lc_ID c @ '' state is not repairable''))
      else if \<not> nw_Exists network then Inl (Errorf ''active network is missing while a component still exists'')
      else if map_option na_NetworkID (map_of (co_Networks observed) (mg_NetworkName generation)) \<noteq> Some (nw_ID network) \<and> \<not> detached
      then Inl (Errorf (''component '' @ lc_ID c @ '' network changed''))
      else Inr ())"

fun observe_repairable ::
  "'w MultiRunner \<Rightarrow> MultiGeneration \<Rightarrow> NetworkObservation \<Rightarrow> LComponent list \<Rightarrow> ContainerObservation go_map
    \<Rightarrow> ('w, ContainerObservation go_map result) prog" where
  "observe_repairable r generation network [] observations = ret (Inr observations)"
| "observe_repairable r generation network (c # cs) observations =
     attempt (call (ObserveContainer (mr_Runtime r) (lc_ContainerID c))) (\<lambda>e. ret (Inl e)) (\<lambda>observed.
     let continue = observe_repairable r generation network cs ((lc_ID c, observed) # observations) in
     if \<not> co_Exists observed then
       attempt (call (ObserveContainer (mr_Runtime r) (lc_ContainerName c))) (\<lambda>e. ret (Inl e)) (\<lambda>byName.
       if co_Exists byName then ret (Inl (Errorf (''component '' @ lc_ID c @ '' expected name is occupied''))) else continue)
     else attempt (ret (repairable_component generation network c observed)) (\<lambda>e. ret (Inl e)) (\<lambda>_. continue))"

definition observeRepairableGeneration ::
  "'w MultiRunner \<Rightarrow> MultiGeneration \<Rightarrow> ('w, ContainerObservation go_map result) prog" where
  "observeRepairableGeneration r generation =
     attempt (call (ObserveNetwork (mr_Runtime r) (mg_NetworkName generation))) (\<lambda>e. ret (Inl e)) (\<lambda>network.
     if nw_Exists network \<and> mg_NetworkID generation \<noteq> [] \<and> nw_ID network \<noteq> mg_NetworkID generation
     then ret (Inl (Errorf ''active network identity changed''))
     else observe_repairable r generation network (mg_Components generation) [])"

fun observe_all :: "'w MultiRunner \<Rightarrow> LComponent list \<Rightarrow> ContainerObservation go_map \<Rightarrow> ('w, ContainerObservation go_map result) prog" where
  "observe_all r [] observations = ret (Inr observations)"
| "observe_all r (c # cs) observations =
     attempt (call (ObserveContainer (mr_Runtime r) (lc_ContainerID c))) (\<lambda>e. ret (Inl e)) (\<lambda>observed.
     observe_all r cs ((lc_ID c, observed) # observations))"

fun verify_prepared ::
  "'w MultiRunner \<Rightarrow> MultiPlan \<Rightarrow> NetworkObservation \<Rightarrow> MultiGeneration \<Rightarrow> string go_map \<Rightarrow> MultiComponentPlan list \<Rightarrow> ('w, unit result) prog" where
  "verify_prepared r plan network stored hashes [] = ret (Inr ())"
| "verify_prepared r plan network stored hashes (planned # rest) =
     (case componentByID (mg_Components stored) (mc_ID planned) of
        None \<Rightarrow> ret (Inl (Errorf ''prepared component evidence missing''))
      | Some c \<Rightarrow>
        attempt (call (ObserveContainer (mr_Runtime r) (lc_ContainerID c))) (\<lambda>e. ret (Inl e)) (\<lambda>observed.
        if \<not> is_ok (verifyMultiCandidate plan planned network observed RuntimeStopped)
           \<or> observationHash observed \<noteq> lookup_str hashes (mc_ID planned)
        then ret (Inl (Errorf (''prepared component '' @ mc_ID planned @ '' drifted'')))
        else verify_prepared r plan network stored hashes rest))"

definition verifyPrepared :: "'w MultiRunner \<Rightarrow> MultiPlan \<Rightarrow> string go_map \<Rightarrow> ('w, unit result) prog" where
  "verifyPrepared r plan hashes =
     attempt (call (ObserveNetwork (mr_Runtime r) (mp_NetworkName plan))) (\<lambda>e. ret (Inl e)) (\<lambda>network.
     attempt (query (mr_Store r) (LoadMultiGeneration (mp_InstallationID plan) (mp_Generation plan))) (\<lambda>e. ret (Inl e)) (\<lambda>stored.
     verify_prepared r plan network stored hashes (mp_Components plan)))"

section \<open>Mutation of one component\<close>

definition owned_before :: "MultiPlan \<Rightarrow> LComponent \<Rightarrow> ContainerObservation \<Rightarrow> bool" where
  "owned_before plan c prior = (co_Exists prior \<and> co_ID prior = lc_ContainerID c \<and> co_Name prior = lc_ContainerName c
     \<and> co_ImageReference prior = lc_Image c \<and> owned (mp_InstallationID plan) (mp_Generation plan) prior
     \<and> (lc_ConfigurationHash c \<noteq> [] \<longrightarrow> observationHash prior = lc_ConfigurationHash c))"

definition mutation_call :: "'w MultiRunner \<Rightarrow> string \<Rightarrow> string \<Rightarrow> ('w, unit result) prog option" where
  "mutation_call r action n = (if action = ''start'' then Some (call (StartContainer (mr_Runtime r) n))
     else if action = ''stop'' then Some (call (StopContainer (mr_Runtime r) n))
     else if action = ''remove'' then Some (call (RemoveContainer (mr_Runtime r) n)) else None)"

definition mutateExisting ::
  "'w MultiRunner \<Rightarrow> MultiPlan \<Rightarrow> LComponent \<Rightarrow> string \<Rightarrow> string \<Rightarrow> ('w, run_error + unit) prog" where
  "mutateExisting r plan c action want =
     (let ambiguous = fail (Errorf ''component ownership is ambiguous before mutation'') in
      attempt (call (ObserveContainer (mr_Runtime r) (lc_ContainerID c))) (\<lambda>_. ambiguous) (\<lambda>prior.
      if \<not> owned_before plan c prior then ambiguous
      else
      attempt (stepIntent r plan (lc_ID c) action (lc_ContainerID c)) fail (\<lambda>_.
      attempt (runHook r action (lc_ID c) ''before_dispatch'') fail (\<lambda>_.
      attempt (dispatch r plan (lc_ID c) action) fail (\<lambda>_.
      case mutation_call r action (lc_ContainerID c) of
        None \<Rightarrow> fail (Errorf ''unsupported component mutation'')
      | Some mutation \<Rightarrow>
        andThen mutation (\<lambda>res.
        andThen (after_hooks r action (lc_ID c) True res) (\<lambda>mutationErr.
        attempt (call (ObserveContainer (mr_Runtime r) (lc_ContainerID c)))
          (\<lambda>observeErr. andThen (finish_step r plan (lc_ID c) action [] unknown_outcome (stableError mutationErr observeErr))
             (\<lambda>_. unknown (phaseForAction action) (firstError mutationErr observeErr))) (\<lambda>observed.
        let applied = (if action = ''remove'' then \<not> co_Exists observed \<or> co_State observed = RuntimeMissing else co_State observed = want);
            detail = stableError mutationErr (Errorf ''observed postcondition not achieved'') in
        if \<not> applied then
          andThen (finish_step r plan (lc_ID c) action (co_ID observed) confirmed_absent detail) (\<lambda>_. fail (Errorf detail))
        else if \<not> is_ok mutationErr then
          andThen (finish_step r plan (lc_ID c) action (co_ID observed) confirmed_applied (error_detail mutationErr)) (\<lambda>_. ret (Inr ()))
        else attempt (finish_step r plan (lc_ID c) action (co_ID observed) confirmed_applied []) fail (\<lambda>_. ret (Inr ()))))))))))"

section \<open>Cleanup of a candidate\<close>

fun cleanup_components :: "'w MultiRunner \<Rightarrow> MultiPlan \<Rightarrow> LComponent list \<Rightarrow> ('w, run_error + unit) prog" where
  "cleanup_components r plan [] = ret (Inr ())"
| "cleanup_components r plan (c # cs) =
     (if lc_ContainerID c = [] then cleanup_components r plan cs
      else let changed = fail (Errorf ''candidate ownership changed during cleanup'') in
      attempt (call (ObserveContainer (mr_Runtime r) (lc_ContainerID c))) (\<lambda>_. changed) (\<lambda>observed.
      if co_Exists observed \<and> co_ID observed \<noteq> lc_ContainerID c then changed
      else
      attempt (if co_Exists observed \<and> co_State observed = RuntimeRunning then mutateExisting r plan c ''stop'' RuntimeStopped else ret (Inr ()))
        (\<lambda>e. ret (Inl e)) (\<lambda>_.
      attempt (if co_Exists observed then mutateExisting r plan c ''remove'' RuntimeMissing else ret (Inr ()))
        (\<lambda>e. ret (Inl e)) (\<lambda>_. cleanup_components r plan cs))))"

definition cleanup_multi_network :: "'w MultiRunner \<Rightarrow> MultiGeneration \<Rightarrow> ('w, run_error + unit) prog" where
  "cleanup_multi_network r generation =
     (let changed = fail (Errorf ''candidate network ownership changed during cleanup'');
          unverified = fail (Errorf ''candidate network removal could not be verified'');
          network = ObserveNetwork (mr_Runtime r) (mg_NetworkName generation) in
      if mg_NetworkName generation = [] then ret (Inr ())
      else attempt (call network) (\<lambda>_. changed) (\<lambda>observed.
      if nw_Exists observed \<and> mg_NetworkID generation \<noteq> [] \<and> nw_ID observed \<noteq> mg_NetworkID generation then changed
      else if nw_Exists observed then
        attempt (call (RemoveLifecycleNetwork (mr_Runtime r) (mg_NetworkName generation))) fail (\<lambda>_.
        attempt (call network) (\<lambda>_. unverified) (\<lambda>removed.
        if nw_Exists removed then unverified else ret (Inr ())))
      else ret (Inr ())))"

definition cleanupMultiCandidate :: "'w MultiRunner \<Rightarrow> MultiPlan \<Rightarrow> ('w, run_error + unit) prog" where
  "cleanupMultiCandidate r plan =
     attempt (query (mr_Store r) (MultiByOperation (mp_OperationID plan))) fail (\<lambda>generation.
     attempt (cleanup_components r plan (reverseComponents (mg_Components generation))) (\<lambda>e. ret (Inl e)) (\<lambda>_.
     cleanup_multi_network r generation))"

text \<open>The end both failure handlers share: clean up, mark the candidate failed, report.\<close>

definition mark_failed :: "'w MultiRunner \<Rightarrow> MultiPlan \<Rightarrow> cleanup_state \<Rightarrow> ('w, unit result) prog" where
  "mark_failed r plan cleanup = txn (mr_Store r) (\<lambda>_. MarkMultiFailed plan cleanup)"

definition multi_failBeforeCutover :: "'w MultiRunner \<Rightarrow> MultiPlan \<Rightarrow> run_error \<Rightarrow> ('w, run_error + 'a) prog" where
  "multi_failBeforeCutover r plan cause =
     andThen (cleanupMultiCandidate r plan) (\<lambda>cleanupErr.
     andThen (mark_failed r plan (if is_ok cleanupErr then CClean else CPending)) (\<lambda>markErr.
     if \<not> is_ok cleanupErr
     then unknown PhaseCleanup (join_errors [Some (cause_of cause), map_option cause_of (err_of cleanupErr), err_of markErr])
     else if \<not> is_ok markErr then unknown PhaseCleanup (join_errors [Some (cause_of cause), err_of markErr])
     else ret (Inl cause)))"

section \<open>Failure after the cutover began\<close>

text \<open>The loops that stop the started candidates, ignoring failures, and restart what was stopped.\<close>

fun stop_started :: "'w MultiRunner \<Rightarrow> MultiPlan \<Rightarrow> string list \<Rightarrow> LComponent list \<Rightarrow> ('w, unit) prog" where
  "stop_started r plan started [] = ret ()"
| "stop_started r plan started (c # cs) =
     (if lc_ID c \<notin> set started then stop_started r plan started cs
      else andThen (mutateExisting r plan c ''stop'' RuntimeStopped) (\<lambda>_. stop_started r plan started cs))"

fun restart_stopped :: "'w MultiRunner \<Rightarrow> MultiPlan \<Rightarrow> string list \<Rightarrow> LComponent list \<Rightarrow> ('w, run_error + unit) prog" where
  "restart_stopped r oldPlan stoppedOld [] = ret (Inr ())"
| "restart_stopped r oldPlan stoppedOld (c # cs) =
     (if lc_ID c \<notin> set stoppedOld then restart_stopped r oldPlan stoppedOld cs
      else
      attempt (mutateExisting r oldPlan c ''start'' RuntimeRunning) (\<lambda>e. ret (Inl e)) (\<lambda>_.
      attempt (txn (mr_Store r) (\<lambda>now. RecordMultiContainer now oldPlan (lc_ID c) (lc_ContainerID c) [] [] CsRunning True)) fail (\<lambda>_.
      restart_stopped r oldPlan stoppedOld cs)))"

text \<open>
  The active generation is \<open>None\<close> for the zero value that a first installation has. A failed
  load of the stored candidate leaves its components empty. The list of created components
  is a parameter of the method that its body never reads.
\<close>

definition is_active :: "MultiGeneration option \<Rightarrow> bool" where
  "is_active active = (case active of None \<Rightarrow> False | Some a \<Rightarrow> mg_Status a = GActive)"

definition multi_afterCutoverFailure ::
  "'w MultiRunner \<Rightarrow> MultiPlan \<Rightarrow> MultiGeneration option \<Rightarrow> string list \<Rightarrow> string list \<Rightarrow> string \<Rightarrow> run_error \<Rightarrow> ('w, run_error + 'a) prog" where
  "multi_afterCutoverFailure r plan active stoppedOld started phase cause =
     (let give_up = andThen (mark_failed r plan CPending) (\<lambda>_. unknown phase (cause_of cause)) in
      andThen (query (mr_Store r) (LoadMultiGeneration (mp_InstallationID plan) (mp_Generation plan))) (\<lambda>stored.
      andThen (stop_started r plan started (reverseComponents (case stored of Inl _ \<Rightarrow> [] | Inr g \<Rightarrow> mg_Components g))) (\<lambda>_.
      case active of
        None \<Rightarrow> give_up
      | Some a \<Rightarrow>
        if mg_Status a = GActive \<and> mp_RollbackSafe plan then
          attempt (restart_stopped r (plan\<lparr>mp_Generation := mg_Generation a\<rparr>) stoppedOld (mg_Components a)) (\<lambda>_. give_up) (\<lambda>_.
          multi_failBeforeCutover r plan cause)
        else give_up)))"

section \<open>Cleanup of older generations\<close>

definition bare_generation :: "MultiGeneration \<Rightarrow> Generation" where
  "bare_generation g = zero_generation\<lparr>ge_InstallationID := mg_InstallationID g, ge_Generation := mg_Generation g\<rparr>"

text \<open>The loop that removes the containers of an older generation: whether it failed.\<close>

fun remove_components :: "'w MultiRunner \<Rightarrow> LComponent list \<Rightarrow> ('w, bool) prog" where
  "remove_components r [] = ret False"
| "remove_components r (c # cs) =
     attempt (call (ObserveContainer (mr_Runtime r) (lc_ContainerID c))) (\<lambda>_. ret True) (\<lambda>observed.
     if co_Exists observed \<and> (co_ID observed \<noteq> lc_ContainerID c \<or> co_Name observed \<noteq> lc_ContainerName c) then ret True
     else if co_Exists observed \<and> co_State observed = RuntimeRunning then ret True
     else if co_Exists observed then
       attempt (call (RemoveContainer (mr_Runtime r) (co_ID observed))) (\<lambda>_. ret True) (\<lambda>_. remove_components r cs)
     else remove_components r cs)"

definition remove_network :: "'w MultiRunner \<Rightarrow> MultiGeneration \<Rightarrow> ('w, bool) prog" where
  "remove_network r generation =
     attempt (call (ObserveNetwork (mr_Runtime r) (mg_NetworkName generation))) (\<lambda>_. ret True) (\<lambda>network.
     if nw_Exists network \<and> nw_ID network \<noteq> mg_NetworkID generation then ret True
     else if nw_Exists network then
       attempt (call (RemoveLifecycleNetwork (mr_Runtime r) (mg_NetworkName generation))) (\<lambda>_. ret True) (\<lambda>_. ret False)
     else ret False)"

definition multi_cleanup_old :: "'w MultiRunner \<Rightarrow> MultiPlan \<Rightarrow> MultiGeneration \<Rightarrow> ('w, bool) prog" where
  "multi_cleanup_old r plan generation =
     (let pending = andThen (txn (mr_Store r) (\<lambda>_ db. Inr (MarkCleanupPending (bare_generation generation) db))) (\<lambda>_. ret True) in
      attempt (runHook r ''cleanup'' ''application'' ''before_dispatch'') (\<lambda>_. pending) (\<lambda>_.
      attempt (if mp_AllowMissingActive plan \<and> mg_Generation generation = mp_ExpectedGeneration plan
               then attempt (observeRepairableGeneration r generation) (\<lambda>e. ret (Inl e)) (\<lambda>_. ret (Inr ()))
               else verifyGeneration r generation RuntimeStopped) (\<lambda>_. pending) (\<lambda>_.
      andThen (remove_components r (reverseComponents (mg_Components generation))) (\<lambda>failed.
      andThen (if failed then ret True else remove_network r generation) (\<lambda>failed'.
      if failed' then pending
      else attempt (txn (mr_Store r) (\<lambda>_ db. Inr (MarkRemoved (bare_generation generation) db))) (\<lambda>_. ret True) (\<lambda>_. ret False))))))"

fun multi_cleanup_each :: "'w MultiRunner \<Rightarrow> MultiPlan \<Rightarrow> MultiGeneration list \<Rightarrow> bool \<Rightarrow> ('w, bool) prog" where
  "multi_cleanup_each r plan [] deferred = ret deferred"
| "multi_cleanup_each r plan (g # gs) deferred =
     andThen (multi_cleanup_old r plan g) (\<lambda>d. multi_cleanup_each r plan gs (deferred \<or> d))"

definition multi_cleanupOlder :: "'w MultiRunner \<Rightarrow> MultiPlan \<Rightarrow> int \<Rightarrow> ('w, bool) prog" where
  "multi_cleanupOlder r plan keepGeneration =
     attempt (query (mr_Store r) (MultiOlderRetained (mp_InstallationID plan) keepGeneration)) (\<lambda>_. ret True)
       (\<lambda>older. multi_cleanup_each r plan older False)"

end
