(* ===== verification/Multi_Replace.thy ===== *)
theory Multi_Replace
  imports Multi_Runner
begin

text \<open>
  \<^verbatim>\<open>internal/lifecycle/multi_runner.go\<close>: the replacement of an application with several
  components. All images are pulled and all candidates created and verified before the first
  active component is stopped; the candidates start in dependency order, each verified
  running, and one transaction switches the generations.
\<close>

section \<open>Validation of the plan\<close>

fun validate_components :: "string list \<Rightarrow> int \<Rightarrow> MultiComponentPlan list \<Rightarrow> unit result" where
  "validate_components seen ordinal [] = Inr ()"
| "validate_components seen ordinal (c # cs) =
     (if mc_ID c = [] \<or> mc_ID c \<in> set seen \<or> mc_StartOrdinal c \<noteq> ordinal \<or> mc_ContainerName c = [] \<or> mc_Image c = []
      then Inl (Errorf ''invalid normalized component plan'')
      else if \<not> list_all (\<lambda>d. d \<in> set seen) (mc_DependsOn c) then Inl (Errorf ''component plan is not dependency-first'')
      else validate_components (mc_ID c # seen) (ordinal + 1) cs)"

definition validateMultiPlan :: "MultiPlan \<Rightarrow> unit result" where
  "validateMultiPlan plan =
     (if length (mp_Components plan) < 2 \<or> 16 < length (mp_Components plan) \<or> mp_TopologyHash plan = [] \<or> mp_PlanHash plan = []
      then Inl (Errorf ''invalid multi-component generation plan'')
      else validate_components [] 0 (mp_Components plan))"

section \<open>The active generation\<close>

text \<open>A missing observation reads as the zero value, which no component of the loop has.\<close>

definition promoted_component :: "ContainerObservation go_map \<Rightarrow> LComponent \<Rightarrow> LComponent" where
  "promoted_component observations c = (case map_of observations (lc_ID c) of
      None \<Rightarrow> c
    | Some observed \<Rightarrow> c\<lparr>lc_ImageID := co_ImageID observed, lc_ConfigurationHash := observationHash observed, lc_State := CsRunning\<rparr>)"

definition promote_active :: "'w MultiRunner \<Rightarrow> MultiPlan \<Rightarrow> MultiGeneration \<Rightarrow> ('w, MultiGeneration result) prog" where
  "promote_active r plan active =
     (let unverified = ret (Inl (Errorf ''migrated multi-component network cannot be verified'')) in
      attempt (call (ObserveNetwork (mr_Runtime r) (mg_NetworkName active))) (\<lambda>_. unverified) (\<lambda>network.
      if \<not> nw_Exists network then unverified
      else
      attempt (observe_all r (mg_Components active) []) (\<lambda>e. ret (Inl e)) (\<lambda>observations.
      attempt (txn (mr_Store r) (\<lambda>now. PromoteMigratedMulti now active (nw_ID network) observations CsRunning
          (mp_OperationID plan) (mp_FencingToken plan))) (\<lambda>e. ret (Inl e)) (\<lambda>_.
      ret (Inr (active\<lparr>mg_Status := GActive, mg_NetworkID := nw_ID network,
        mg_Components := map (promoted_component observations) (mg_Components active)\<rparr>))))))"

definition multi_loadActive :: "'w MultiRunner \<Rightarrow> MultiPlan \<Rightarrow> ('w, MultiGeneration option result) prog" where
  "multi_loadActive r plan =
     attempt (query (mr_Store r) (MultiCurrent (mp_InstallationID plan)))
       (\<lambda>e. if e = ErrNoRows then
              (if mp_ExpectedGeneration plan \<noteq> 0 then ret (Inl (Errorf ''active generation is missing'')) else ret (Inr None))
            else ret (Inl e)) (\<lambda>active.
     if length (mg_Components active) < 2 then ret (Inl (Errorf ''stored active generation is not multi-component''))
     else if mg_Status active = GRemoved then ret (Inr (Some active))
     else
     attempt (verifyGeneration r active RuntimeRunning)
       (\<lambda>err. let ambiguous = ret (Inl (Errorf (''active runtime ownership is ambiguous: '' @ error_text err))) in
          if mp_AllowMissingActive plan \<and> mg_Status active = GActive
          then attempt (observeRepairableGeneration r active) (\<lambda>_. ambiguous) (\<lambda>_. ret (Inr (Some active)))
          else ambiguous) (\<lambda>_.
     if mg_Status active = GVerificationRequired
     then attempt (promote_active r plan active) (\<lambda>e. ret (Inl e)) (\<lambda>a. ret (Inr (Some a)))
     else ret (Inr (Some active))))"

section \<open>Preparation\<close>

text \<open>
  The images pulled so far, by reference: the map \<open>pulled\<close> with the two maps of the image
  defaults, which are written together.
\<close>

definition pull_image ::
  "'w MultiRunner \<Rightarrow> MultiPlan \<Rightarrow> MultiComponentPlan \<Rightarrow> ('w, run_error + ImageObservation) prog" where
  "pull_image r plan c =
     (let failed = (\<lambda>e. multi_failBeforeCutover r plan (Fail e)) in
      attempt (stepIntent r plan (mc_ID c) ''pull'' (mc_Image c)) failed (\<lambda>_.
      attempt (runHook r ''pull'' (mc_ID c) ''before_dispatch'') failed (\<lambda>_.
      attempt (dispatch r plan (mc_ID c) ''pull'') failed (\<lambda>_.
      andThen (call (PullImage (mr_Runtime r) (mc_Image c))) (\<lambda>res.
      andThen (after_hooks r ''pull'' (mc_ID c) False res) (\<lambda>err.
      attempt (call (ObserveImage (mr_Runtime r) (mc_Image c)))
        (\<lambda>observeErr. andThen (finish_step r plan (mc_ID c) ''pull'' [] unknown_outcome (stableError err observeErr))
           (\<lambda>_. unknown PhaseAfterPull (firstError err observeErr))) (\<lambda>img.
      if \<not> imageContainsDigest img (mc_Image c) then
        let cause = firstError err (Errorf ''pulled digest could not be verified'') in
        andThen (finish_step r plan (mc_ID c) ''pull'' (im_ID img) confirmed_absent (error_text cause))
          (\<lambda>_. failed (Errorf (''pull '' @ mc_ID c @ '': '' @ error_text cause)))
      else
        attempt (finish_step r plan (mc_ID c) ''pull'' (im_ID img) confirmed_applied (error_detail err)) (unknown PhaseAfterPull)
          (\<lambda>_. ret (Inr img)))))))))"

fun pull_images ::
  "'w MultiRunner \<Rightarrow> MultiPlan \<Rightarrow> ImageObservation go_map \<Rightarrow> MultiComponentPlan list \<Rightarrow> ('w, run_error + ImageObservation go_map) prog" where
  "pull_images r plan pulled [] = ret (Inr pulled)"
| "pull_images r plan pulled (c # cs) =
     (if map_of pulled (mc_Image c) \<noteq> None then pull_images r plan pulled cs
      else attempt (pull_image r plan c) (\<lambda>e. ret (Inl e)) (\<lambda>img. pull_images r plan ((mc_Image c, img) # pulled) cs))"

definition with_defaults :: "ImageObservation go_map \<Rightarrow> MultiComponentPlan \<Rightarrow> MultiComponentPlan" where
  "with_defaults pulled c =
     (let user = (case map_of pulled (mc_Image c) of None \<Rightarrow> [] | Some img \<Rightarrow> im_ConfiguredUser img);
          volumes = (case map_of pulled (mc_Image c) of None \<Rightarrow> [] | Some img \<Rightarrow> im_ConfiguredVolumes img) in
      c\<lparr>mc_Container := (mc_Container c)\<lparr>ct_ImageDefaultUser := user, ct_ImageDefaultVolumes := volumes\<rparr>\<rparr>)"

definition with_images :: "MultiPlan \<Rightarrow> ImageObservation go_map \<Rightarrow> MultiPlan" where
  "with_images plan pulled = plan\<lparr>mp_Components := map (with_defaults pulled) (mp_Components plan)\<rparr>"

text \<open>The labels of the network: those of the first component, which validation guarantees, less its name.\<close>

definition network_labels :: "MultiPlan \<Rightarrow> string go_map" where
  "network_labels plan = (case mp_Components plan of [] \<Rightarrow> []
     | c # _ \<Rightarrow> filter (\<lambda>(k, v). k \<noteq> ''com.kitpro.component'') (ct_Labels (mc_Container c)))"

definition create_network :: "'w MultiRunner \<Rightarrow> MultiPlan \<Rightarrow> ('w, run_error + NetworkObservation) prog" where
  "create_network r plan =
     (let failed = (\<lambda>e. multi_failBeforeCutover r plan (Fail e)) in
      attempt (multi_checkpoint r plan PhaseBeforeNetwork ''intent'' []) failed (\<lambda>_.
      attempt (runHook r ''network'' ''application'' ''before_dispatch'') failed (\<lambda>_.
      attempt
        (attempt (call (CreateLifecycleNetwork (mr_Runtime r) (mp_NetworkName plan) (network_labels plan))) (\<lambda>e. ret (Inl e)) (\<lambda>network.
         attempt (runHook r ''network'' ''application'' ''after_mutation_success'') (\<lambda>e. ret (Inl e)) (\<lambda>_. ret (Inr network))))
        (\<lambda>err. attempt (call (ObserveNetwork (mr_Runtime r) (mp_NetworkName plan))) (\<lambda>_. unknown PhaseBeforeNetwork err) (\<lambda>observed.
           if nw_Exists observed then unknown PhaseBeforeNetwork err else failed err)) (\<lambda>network.
      attempt (txn (mr_Store r) (\<lambda>_. RecordMultiNetwork plan (nw_ID network))) (unknown PhaseAfterNetwork) (\<lambda>_.
      ret (Inr network))))))"

text \<open>Creation of one candidate: the identity the runtime gave it, or found under its name.\<close>

definition dispatch_create :: "'w MultiRunner \<Rightarrow> MultiPlan \<Rightarrow> MultiComponentPlan \<Rightarrow> ('w, run_error + string) prog" where
  "dispatch_create r plan c =
     (let failed = (\<lambda>e. multi_failBeforeCutover r plan (Fail e)) in
      attempt (stepIntent r plan (mc_ID c) ''create'' (mc_ContainerName c)) failed (\<lambda>_.
      attempt (runHook r ''create'' (mc_ID c) ''before_dispatch'') failed (\<lambda>_.
      attempt (dispatch r plan (mc_ID c) ''create'') failed (\<lambda>_.
      andThen (call (CreateLifecycleContainer (mr_Runtime r) (mc_Container c))) (\<lambda>res.
      andThen (after_hooks r ''create'' (mc_ID c) True (map_sum id (\<lambda>_. ()) res)) (\<lambda>hooks.
      case hooks of
        Inl createErr \<Rightarrow>
          attempt (call (ObserveContainer (mr_Runtime r) (mc_ContainerName c)))
            (\<lambda>_. andThen (finish_step r plan (mc_ID c) ''create'' [] unknown_outcome (error_text createErr))
               (\<lambda>_. unknown PhaseBeforeContainer createErr)) (\<lambda>observed.
          if \<not> co_Exists observed then
            andThen (finish_step r plan (mc_ID c) ''create'' [] confirmed_absent (error_text createErr)) (\<lambda>_. failed createErr)
          else ret (Inr (co_ID observed)))
      | Inr _ \<Rightarrow> ret (Inr (case res of Inl _ \<Rightarrow> [] | Inr containerID \<Rightarrow> containerID))))))))"

definition create_component ::
  "'w MultiRunner \<Rightarrow> MultiPlan \<Rightarrow> NetworkObservation \<Rightarrow> MultiComponentPlan \<Rightarrow> ('w, run_error + string) prog" where
  "create_component r plan network c =
     attempt (dispatch_create r plan c) (\<lambda>e. ret (Inl e)) (\<lambda>containerID.
     attempt (txn (mr_Store r) (\<lambda>now. RecordMultiContainer now plan (mc_ID c) containerID [] [] CsCreated False)) (unknown PhaseAfterContainer) (\<lambda>_.
     attempt (call (ObserveContainer (mr_Runtime r) containerID)) (unknown PhaseAfterContainer) (\<lambda>observed.
     attempt (ret (verifyMultiCandidate plan c network observed RuntimeStopped))
       (\<lambda>verifyErr. andThen (finish_step r plan (mc_ID c) ''create'' (co_ID observed) unknown_outcome (error_text verifyErr))
          (\<lambda>_. multi_failBeforeCutover r plan (Fail verifyErr))) (\<lambda>_.
     attempt (txn (mr_Store r) (\<lambda>now. RecordMultiContainer now plan (mc_ID c) (co_ID observed) (co_ImageID observed)
         (observationHash observed) CsStopped True)) (unknown PhaseAfterContainer) (\<lambda>_.
     attempt (finish_step r plan (mc_ID c) ''create'' (co_ID observed) confirmed_applied []) (unknown PhaseAfterContainer) (\<lambda>_.
     ret (Inr (observationHash observed))))))))"

fun create_components ::
  "'w MultiRunner \<Rightarrow> MultiPlan \<Rightarrow> NetworkObservation \<Rightarrow> string go_map \<Rightarrow> MultiComponentPlan list \<Rightarrow> ('w, run_error + string go_map) prog" where
  "create_components r plan network configHashes [] = ret (Inr configHashes)"
| "create_components r plan network configHashes (c # cs) =
     attempt (create_component r plan network c) (\<lambda>e. ret (Inl e)) (\<lambda>hash.
     create_components r plan network ((mc_ID c, hash) # configHashes) cs)"

section \<open>Cutover\<close>

text \<open>The fresh observations of the active components before the first destructive mutation.\<close>

definition observe_active ::
  "'w MultiRunner \<Rightarrow> MultiPlan \<Rightarrow> MultiGeneration option \<Rightarrow> ('w, ContainerObservation go_map result) prog" where
  "observe_active r plan active = (case active of
      None \<Rightarrow> ret (Inr [])
    | Some a \<Rightarrow>
      if mg_Status a \<noteq> GActive then ret (Inr [])
      else if mp_AllowMissingActive plan then observeRepairableGeneration r a
      else attempt (verifyGeneration r a RuntimeRunning) (\<lambda>e. ret (Inl e)) (\<lambda>_. observe_all r (mg_Components a) []))"

fun stop_active ::
  "'w MultiRunner \<Rightarrow> MultiPlan \<Rightarrow> MultiGeneration \<Rightarrow> ContainerObservation go_map \<Rightarrow> string list \<Rightarrow> LComponent list
    \<Rightarrow> ('w, run_error + string list) prog" where
  "stop_active r plan active observations stoppedOld [] = ret (Inr stoppedOld)"
| "stop_active r plan active observations stoppedOld (c # cs) =
     (let oldPlan = plan\<lparr>mp_Generation := mg_Generation active\<rparr>;
          running = (case map_of observations (lc_ID c) of None \<Rightarrow> False
            | Some observed \<Rightarrow> co_Exists observed \<and> co_State observed \<noteq> RuntimeStopped) in
      if \<not> running then stop_active r plan active observations stoppedOld cs
      else
      attempt (mutateExisting r oldPlan c ''stop'' RuntimeStopped)
        (multi_afterCutoverFailure r plan (Some active) stoppedOld [] PhaseBeforeOldStop) (\<lambda>_.
      attempt (txn (mr_Store r) (\<lambda>now. RecordMultiContainer now oldPlan (lc_ID c) (lc_ContainerID c) [] [] CsStopped False))
        (\<lambda>e. multi_afterCutoverFailure r plan (Some active) (stoppedOld @ [lc_ID c]) [] PhaseAfterOldStop (Fail e)) (\<lambda>_.
      stop_active r plan active observations (stoppedOld @ [lc_ID c]) cs)))"

definition stop_old_components ::
  "'w MultiRunner \<Rightarrow> MultiPlan \<Rightarrow> MultiGeneration option \<Rightarrow> ContainerObservation go_map \<Rightarrow> ('w, run_error + string list) prog" where
  "stop_old_components r plan active observations = (case active of
      None \<Rightarrow> ret (Inr [])
    | Some a \<Rightarrow> if mg_Status a = GActive then stop_active r plan a observations [] (reverseComponents (mg_Components a)) else ret (Inr []))"

definition start_component ::
  "'w MultiRunner \<Rightarrow> MultiPlan \<Rightarrow> MultiGeneration option \<Rightarrow> string go_map \<Rightarrow> string list \<Rightarrow> string list \<Rightarrow> MultiComponentPlan
    \<Rightarrow> ('w, run_error + unit) prog" where
  "start_component r plan active configHashes stoppedOld started c =
     (let failed = multi_afterCutoverFailure r plan active stoppedOld started;
          mismatch = failed PhaseBeforeVerification (Fail (Errorf ''candidate runtime verification failed'')) in
      attempt (query (mr_Store r) (LoadMultiGeneration (mp_InstallationID plan) (mp_Generation plan))) (unknown PhaseBeforeCandidateStart) (\<lambda>stored.
      case componentByID (mg_Components stored) (mc_ID c) of
        None \<Rightarrow> unknown PhaseBeforeCandidateStart (Errorf ''candidate component evidence missing'')
      | Some candidate \<Rightarrow>
        attempt (mutateExisting r plan candidate ''start'' RuntimeRunning) (failed PhaseBeforeCandidateStart) (\<lambda>_.
        attempt (call (ObserveContainer (mr_Runtime r) (lc_ContainerID candidate))) (\<lambda>e. failed PhaseBeforeVerification (Fail e)) (\<lambda>observed.
        attempt (runHook r ''verify'' (mc_ID c) ''failure'') (\<lambda>e. failed PhaseBeforeVerification (Fail e)) (\<lambda>_.
        attempt (call (ObserveNetwork (mr_Runtime r) (mp_NetworkName plan))) (\<lambda>e. failed PhaseBeforeVerification (Fail e)) (\<lambda>network.
        attempt (ret (verifyMultiCandidate plan c network observed RuntimeRunning)) (\<lambda>_. mismatch) (\<lambda>_.
        if observationHash observed \<noteq> lookup_str configHashes (mc_ID c) then mismatch
        else
        attempt (txn (mr_Store r) (\<lambda>now. RecordMultiContainer now plan (mc_ID c) (co_ID observed) (co_ImageID observed)
            (lookup_str configHashes (mc_ID c)) CsRunning True)) (unknown PhaseAfterVerification) (\<lambda>_.
        ret (Inr ())))))))))"

fun start_components ::
  "'w MultiRunner \<Rightarrow> MultiPlan \<Rightarrow> MultiGeneration option \<Rightarrow> string go_map \<Rightarrow> string list \<Rightarrow> string list \<Rightarrow> MultiComponentPlan list
    \<Rightarrow> ('w, run_error + unit) prog" where
  "start_components r plan active configHashes stoppedOld started [] = ret (Inr ())"
| "start_components r plan active configHashes stoppedOld started (c # cs) =
     attempt (start_component r plan active configHashes stoppedOld started c) (\<lambda>e. ret (Inl e)) (\<lambda>_.
     start_components r plan active configHashes stoppedOld (started @ [mc_ID c]) cs)"

section \<open>Commit\<close>

definition put :: "string \<Rightarrow> 'v \<Rightarrow> 'v go_map \<Rightarrow> 'v go_map" where
  "put k v kvs = (k, v) # filter (\<lambda>p. fst p \<noteq> k) kvs"

definition multiResult :: "MultiPlan \<Rightarrow> Result" where
  "multiResult plan = \<lparr>re_Generation = mp_Generation plan, re_ReleaseID = mp_ReleaseID plan, re_RuntimeState = ''running'',
     re_ContainerName = [], re_ContainerID = [], re_NetworkName = mp_NetworkName plan, re_Bindings = Normalize (mp_Bindings plan),
     re_CleanupDeferred = False, re_Components = fold (\<lambda>c. put (mc_ID c) (mc_ContainerName c)) (mp_Components plan) []\<rparr>"

definition multi_commit :: "'w MultiRunner \<Rightarrow> MultiPlan \<Rightarrow> ('w, run_error + Result) prog" where
  "multi_commit r plan =
     attempt (multi_checkpoint r plan PhaseBeforeCommit ''intent'' [(''components'', itoa (int (length (mp_Components plan))))])
       (unknown PhaseBeforeCommit) (\<lambda>_.
     attempt (runHook r ''commit'' ''application'' ''before_dispatch'') (unknown PhaseBeforeCommit) (\<lambda>_.
     attempt (txn (mr_Store r) (\<lambda>now. CommitMulti now plan)) (unknown PhaseBeforeCommit) (\<lambda>_.
     attempt (query (mr_Store r) (LoadMultiGeneration (mp_InstallationID plan) (mp_Generation plan))) (unknown PhaseAfterCommit) (\<lambda>committed.
     let result = (multiResult plan)\<lparr>re_Components :=
           fold (\<lambda>c. put (lc_ID c) (lc_ContainerID c)) (mg_Components committed) (re_Components (multiResult plan))\<rparr> in
     attempt (multi_checkpoint r plan PhaseAfterCommit ''confirmed'' []) (unknown PhaseAfterCommit) (\<lambda>_.
     andThen (multi_cleanupOlder r plan (if mp_AllowMissingActive plan then 0 else mp_ExpectedGeneration plan)) (\<lambda>deferred.
     ret (Inr (result\<lparr>re_CleanupDeferred := deferred\<rparr>))))))))"

section \<open>The replacement\<close>

definition multi_cutover ::
  "'w MultiRunner \<Rightarrow> MultiPlan \<Rightarrow> MultiGeneration option \<Rightarrow> string go_map \<Rightarrow> ('w, run_error + Result) prog" where
  "multi_cutover r plan active configHashes =
     (let failed = (\<lambda>e. multi_failBeforeCutover r plan (Fail e)) in
      attempt (observe_active r plan active) failed (\<lambda>observations.
      attempt (verifyPrepared r plan configHashes) failed (\<lambda>_.
      attempt (stop_old_components r plan active observations) (\<lambda>e. ret (Inl e)) (\<lambda>stoppedOld.
      attempt (start_components r plan active configHashes stoppedOld [] (mp_Components plan)) (\<lambda>e. ret (Inl e)) (\<lambda>_.
      multi_commit r plan)))))"

definition active_number :: "MultiGeneration option \<Rightarrow> int" where
  "active_number active = (case active of None \<Rightarrow> 0 | Some a \<Rightarrow> mg_Generation a)"

definition multi_Replace :: "'w MultiRunner \<Rightarrow> MultiPlan \<Rightarrow> ('w, run_error + Result) prog" where
  "multi_Replace r plan =
     attempt (ret (validateMultiPlan plan)) fail (\<lambda>_.
     attempt (multi_loadActive r plan) fail (\<lambda>active.
     if active_number active \<noteq> mp_ExpectedGeneration plan \<or> mp_Generation plan \<noteq> mp_ExpectedGeneration plan + 1
     then fail (Errorf (''stale runtime generation: expected '' @ itoa (mp_ExpectedGeneration plan)
       @ '' active '' @ itoa (active_number active) @ '' target '' @ itoa (mp_Generation plan)))
     else
     attempt (txn (mr_Store r) (\<lambda>now. PrepareMulti now plan)) fail (\<lambda>_.
     attempt (pull_images r plan [] (mp_Components plan)) (\<lambda>e. ret (Inl e)) (\<lambda>pulled.
     let plan' = with_images plan pulled in
     attempt (create_network r plan') (\<lambda>e. ret (Inl e)) (\<lambda>network.
     attempt (create_components r plan' network [] (mp_Components plan')) (\<lambda>e. ret (Inl e)) (\<lambda>configHashes.
     multi_cutover r plan' active configHashes))))))"

text \<open>The runner the helper's command builds, without a hook.\<close>

definition helper_multi_runner :: "'w LifecycleRuntime \<Rightarrow> 'w store \<Rightarrow> 'w MultiRunner" where
  "helper_multi_runner rt st = \<lparr>mr_Runtime = rt, mr_Store = st, mr_Evidence = RecordPhase, mr_Hook = (\<lambda>_ _ _ w. (Inr (), w))\<rparr>"

end
