(* ===== verification/Operate.thy ===== *)
theory Operate
  imports Multi_Replace
begin

text \<open>
  \<^verbatim>\<open>MultiRunner.Operate\<close> of \<^verbatim>\<open>internal/lifecycle/multi_runner.go\<close> and
  \<^verbatim>\<open>internal/lifecycle/single_runner.go\<close>: starting, stopping, restarting and removing the
  active generation of an application, component by component, from its recorded topology.
\<close>

section \<open>Several components\<close>

definition zero_container :: ContainerPlan where
  "zero_container = \<lparr>ct_Image = [], ct_Name = [], ct_Network = [], ct_User = [], ct_ImageDefaultUser = [], ct_ImageDefaultVolumes = [],
     ct_Labels = [], ct_Command = [], ct_Environment = [], ct_DataPath = [], ct_ReadOnly = False, ct_Storage = [], ct_PortBindings = [],
     ct_RestartPolicy = [], ct_NetworkAliases = [], ct_Dependencies = [], ct_Devices = [], ct_DeviceRequests = []\<rparr>"

definition recorded_component :: "LComponent \<Rightarrow> MultiComponentPlan" where
  "recorded_component c = \<lparr>mc_ID = lc_ID c, mc_Image = lc_Image c, mc_ContainerName = lc_ContainerName c,
     mc_DependsOn = lc_DependsOn c, mc_StartOrdinal = lc_StartOrdinal c, mc_Container = zero_container\<rparr>"

definition operate_plan :: "string \<Rightarrow> string \<Rightarrow> int \<Rightarrow> MultiGeneration \<Rightarrow> MultiPlan" where
  "operate_plan installation operationID fencingToken g = \<lparr>mp_OperationID = operationID, mp_InstallationID = installation,
     mp_ApplicationID = mg_ApplicationID g, mp_ReleaseID = mg_ReleaseID g, mp_Generation = mg_Generation g,
     mp_ExpectedGeneration = mg_Generation g, mp_FencingToken = fencingToken, mp_NetworkName = mg_NetworkName g,
     mp_PlanHash = mg_PlanHash g, mp_TopologyHash = mg_TopologyHash g, mp_DataPath = mg_DataPath g, mp_Bindings = mg_Bindings g,
     mp_Components = map recorded_component (mg_Components g), mp_RollbackSafe = False, mp_AllowMissingActive = False\<rparr>"

definition state_for :: "string \<Rightarrow> comp_state" where
  "state_for want = (if want = RuntimeMissing then CsRemoved else if want = RuntimeRunning then CsRunning else CsStopped)"

text \<open>The closure \<open>apply\<close>; \<open>mutated\<close> says whether a component was mutated already.\<close>

fun apply_each ::
  "'w MultiRunner \<Rightarrow> MultiPlan \<Rightarrow> string \<Rightarrow> string \<Rightarrow> bool \<Rightarrow> LComponent list \<Rightarrow> ('w, run_error + unit) prog" where
  "apply_each r plan mutation want mutated [] = ret (Inr ())"
| "apply_each r plan mutation want mutated (c # cs) =
     attempt (mutateExisting r plan c mutation want)
       (\<lambda>e. if mutated then unknown (phaseForAction mutation) (cause_of e) else ret (Inl e)) (\<lambda>_.
     attempt (txn (mr_Store r) (\<lambda>now. RecordMultiContainer now plan (lc_ID c) (lc_ContainerID c) [] [] (state_for want) (want = RuntimeRunning)))
       (unknown (phaseForAction mutation)) (\<lambda>_.
     apply_each r plan mutation want True cs))"

definition remove_active_network :: "'w MultiRunner \<Rightarrow> MultiGeneration \<Rightarrow> ('w, run_error + unit) prog" where
  "remove_active_network r g =
     (let ambiguous = unknown PhaseCleanup (Errorf ''active network identity is ambiguous'') in
      attempt (call (ObserveNetwork (mr_Runtime r) (mg_NetworkName g))) (\<lambda>_. ambiguous) (\<lambda>observed.
      if nw_Exists observed \<and> nw_ID observed \<noteq> mg_NetworkID g then ambiguous
      else if nw_Exists observed then
        andThen (call (RemoveLifecycleNetwork (mr_Runtime r) (mg_NetworkName g))) (\<lambda>removeErr.
        attempt (call (ObserveNetwork (mr_Runtime r) (mg_NetworkName g))) (\<lambda>e. unknown PhaseCleanup (firstError removeErr e)) (\<lambda>removed.
        if nw_Exists removed
        then unknown PhaseCleanup (firstError removeErr (Errorf ''active network removal did not reach the requested state''))
        else ret (Inr ())))
      else ret (Inr ())))"

definition perform ::
  "'w MultiRunner \<Rightarrow> MultiPlan \<Rightarrow> MultiGeneration \<Rightarrow> string \<Rightarrow> string \<Rightarrow> int \<Rightarrow> string \<Rightarrow> ('w, run_error + unit) prog" where
  "perform r plan g installation operationID fencingToken action =
     (let forward = mg_Components g; backward = reverseComponents (mg_Components g) in
      if action = ''start'' then apply_each r plan ''start'' RuntimeRunning False forward
      else if action = ''stop'' then apply_each r plan ''stop'' RuntimeStopped False backward
      else if action = ''restart'' then
        attempt (apply_each r plan ''stop'' RuntimeStopped False backward) (\<lambda>e. ret (Inl e)) (\<lambda>_.
        apply_each r plan ''start'' RuntimeRunning False forward)
      else if action = ''remove'' then
        attempt (apply_each r plan ''stop'' RuntimeStopped False backward) (\<lambda>e. ret (Inl e)) (\<lambda>_.
        attempt (apply_each r plan ''remove'' RuntimeMissing False backward) (\<lambda>e. ret (Inl e)) (\<lambda>_.
        attempt (remove_active_network r g) (\<lambda>e. ret (Inl e)) (\<lambda>_.
        attempt (txn (mr_Store r) (\<lambda>_. MarkActiveRemoved installation (mg_Generation g) operationID fencingToken)) fail (\<lambda>_. ret (Inr ())))))
      else fail (Errorf ''unsupported multi-component lifecycle action''))"

definition runtime_state_of :: "string \<Rightarrow> string" where
  "runtime_state_of action = (if action = ''start'' \<or> action = ''restart'' then ''running''
     else if action = ''stop'' then ''stopped'' else if action = ''remove'' then ''runtime_removed'' else [])"

text \<open>The adoption of a migrated generation, whose runtime must be entirely running or entirely stopped.\<close>

definition adopt_migrated ::
  "'w MultiRunner \<Rightarrow> string \<Rightarrow> string \<Rightarrow> int \<Rightarrow> MultiGeneration \<Rightarrow> ('w, run_error + MultiGeneration) prog" where
  "adopt_migrated r installation operationID fencingToken g =
     (let ambiguous = fail (Errorf ''legacy multi-component network is ambiguous'') in
      attempt
        (attempt (verifyGeneration r g RuntimeRunning)
          (\<lambda>_. attempt (verifyGeneration r g RuntimeStopped)
             (\<lambda>_. ret (Inl (Errorf ''legacy multi-component runtime is partial or ambiguous''))) (\<lambda>_. ret (Inr CsStopped)))
          (\<lambda>_. ret (Inr CsRunning))) fail (\<lambda>runtimeState.
      attempt (call (ObserveNetwork (mr_Runtime r) (mg_NetworkName g))) (\<lambda>_. ambiguous) (\<lambda>network.
      if \<not> nw_Exists network then ambiguous
      else
      attempt (observe_all r (mg_Components g) []) fail (\<lambda>observations.
      attempt (txn (mr_Store r) (\<lambda>now. PromoteMigratedMulti now g (nw_ID network) observations runtimeState operationID fencingToken)) fail (\<lambda>_.
      attempt (query (mr_Store r) (MultiCurrent installation)) fail (\<lambda>g'. ret (Inr g')))))))"

definition operate_active ::
  "'w MultiRunner \<Rightarrow> string \<Rightarrow> string \<Rightarrow> int \<Rightarrow> string \<Rightarrow> MultiGeneration \<Rightarrow> ('w, run_error + Result) prog" where
  "operate_active r installation operationID fencingToken action g =
     (if mg_Status g \<noteq> GActive \<or> length (mg_Components g) < 2 then fail (Errorf ''active multi-component generation unavailable'')
      else
      let plan = operate_plan installation operationID fencingToken g;
          ambiguous = unknown PhaseBeforeVerification (Errorf ''active network identity is ambiguous'') in
      attempt (multi_checkpoint r plan PhaseBeforeVerification ''intent'' [(''lifecycle_action'', action)]) fail (\<lambda>_.
      attempt (call (ObserveNetwork (mr_Runtime r) (mg_NetworkName g))) (\<lambda>_. ambiguous) (\<lambda>network.
      if \<not> nw_Exists network \<or> nw_ID network \<noteq> mg_NetworkID g then ambiguous
      else
      attempt (perform r plan g installation operationID fencingToken action) (\<lambda>e. ret (Inl e)) (\<lambda>_.
      ret (Inr \<lparr>re_Generation = mg_Generation g, re_ReleaseID = mg_ReleaseID g, re_RuntimeState = runtime_state_of action,
        re_ContainerName = [], re_ContainerID = [], re_NetworkName = mg_NetworkName g, re_Bindings = mg_Bindings g,
        re_CleanupDeferred = False, re_Components = fold (\<lambda>c. put (lc_ID c) (lc_ContainerID c)) (mg_Components g) []\<rparr>)))))"

definition multi_Operate :: "'w MultiRunner \<Rightarrow> string \<Rightarrow> string \<Rightarrow> int \<Rightarrow> string \<Rightarrow> ('w, run_error + Result) prog" where
  "multi_Operate r installation operationID fencingToken action =
     attempt (txn (mr_Store r) (\<lambda>now. mr_Evidence r now operationID fencingToken ''multi_lifecycle_validation'' ''intent''
         [(''lifecycle_action'', action)])) fail (\<lambda>_.
     attempt (query (mr_Store r) (MultiCurrent installation)) fail (\<lambda>g.
     attempt (if mg_Status g = GVerificationRequired then adopt_migrated r installation operationID fencingToken g else ret (Inr g))
       (\<lambda>e. ret (Inl e)) (\<lambda>g'.
     operate_active r installation operationID fencingToken action g')))"

section \<open>One component\<close>

text \<open>A single runner has the runtime, store and evidence of a runner without a hook.\<close>

record 'w SingleRunner =
  sr_Runtime :: "'w LifecycleRuntime"
  sr_Store :: "'w store"
  sr_Evidence :: evidence

definition mutator :: "'w SingleRunner \<Rightarrow> 'w MultiRunner" where
  "mutator r = \<lparr>mr_Runtime = sr_Runtime r, mr_Store = sr_Store r, mr_Evidence = sr_Evidence r, mr_Hook = (\<lambda>_ _ _ w. (Inr (), w))\<rparr>"

definition singleRuntimeStateClassifiable :: "string \<Rightarrow> bool" where
  "singleRuntimeStateClassifiable st = (st \<in> set [RuntimeRunning, RuntimeStopped, RuntimeRestarting, RuntimePaused])"

definition singleRuntimeStateStoppable :: "string \<Rightarrow> bool" where
  "singleRuntimeStateStoppable st = (st \<in> set [RuntimeRunning, RuntimeRestarting, RuntimePaused])"

definition exact_container :: "Generation \<Rightarrow> ContainerObservation \<Rightarrow> unit result" where
  "exact_container g observed =
     (let c = ge_Component g in
      if co_ID observed \<noteq> lc_ContainerID c \<or> co_Name observed \<noteq> lc_ContainerName c \<or> co_ImageReference observed \<noteq> lc_Image c
         \<or> \<not> owned (ge_InstallationID g) (ge_Generation g) observed
      then Inl (Errorf ''active runtime ownership is not exact'')
      else if lc_ImageID c \<noteq> [] \<and> co_ImageID observed \<noteq> lc_ImageID c then Inl (Errorf ''active runtime image identity changed'')
      else if ge_Status g = Some GVerificationRequired \<and> lc_ConfigurationHash c = []
      then Inl (Errorf ''migrated runtime configuration is not verified'')
      else if lc_ConfigurationHash c \<noteq> [] \<and> observationHash observed \<noteq> lc_ConfigurationHash c
      then Inl (Errorf ''active runtime configuration changed'')
      else Inr ())"

definition observeExact ::
  "'w SingleRunner \<Rightarrow> Generation \<Rightarrow> ('w, run_error + ContainerObservation \<times> NetworkObservation) prog" where
  "observeExact r g =
     attempt (call (ObserveContainer (sr_Runtime r) (lc_ContainerID (ge_Component g)))) (unknown PhaseBeforeVerification) (\<lambda>observed.
     if \<not> co_Exists observed then
       attempt (call (ObserveContainer (sr_Runtime r) (lc_ContainerName (ge_Component g)))) (unknown PhaseBeforeVerification) (\<lambda>byName.
       if co_Exists byName then fail (Errorf ''expected runtime name is occupied by another object'')
       else fail (Errorf ''active runtime is missing; reconciliation and recreation are required''))
     else
     attempt (ret (exact_container g observed)) fail (\<lambda>_.
     attempt (call (ObserveNetwork (sr_Runtime r) (ge_NetworkName g))) (unknown PhaseBeforeVerification) (\<lambda>network.
     if \<not> nw_Exists network \<or> (ge_NetworkID g \<noteq> [] \<and> nw_ID network \<noteq> ge_NetworkID g)
        \<or> map_option na_NetworkID (map_of (co_Networks observed) (ge_NetworkName g)) \<noteq> Some (nw_ID network)
     then fail (Errorf ''active runtime network identity changed'')
     else ret (Inr (observed, network)))))"

definition single_operate_plan :: "string \<Rightarrow> string \<Rightarrow> int \<Rightarrow> Generation \<Rightarrow> MultiPlan" where
  "single_operate_plan installation operationID fencingToken g = \<lparr>mp_OperationID = operationID, mp_InstallationID = installation,
     mp_ApplicationID = ge_ApplicationID g, mp_ReleaseID = ge_ReleaseID g, mp_Generation = ge_Generation g,
     mp_ExpectedGeneration = ge_Generation g, mp_FencingToken = fencingToken, mp_NetworkName = ge_NetworkName g,
     mp_PlanHash = ge_PlanHash g, mp_TopologyHash = [], mp_DataPath = ge_DataPath g, mp_Bindings = ge_Bindings g,
     mp_Components = [], mp_RollbackSafe = False, mp_AllowMissingActive = False\<rparr>"

definition single_phase :: "'w SingleRunner \<Rightarrow> MultiPlan \<Rightarrow> string \<Rightarrow> string \<Rightarrow> string go_map \<Rightarrow> ('w, unit result) prog" where
  "single_phase r plan phase outcome facts = multi_checkpoint (mutator r) plan phase outcome facts"

definition single_apply :: "'w SingleRunner \<Rightarrow> MultiPlan \<Rightarrow> Generation \<Rightarrow> string \<Rightarrow> string \<Rightarrow> ('w, run_error + unit) prog" where
  "single_apply r plan g mutation want =
     (let c = ge_Component g; m = mutator r in
      attempt (observeExact r g) (\<lambda>e. ret (Inl e)) (\<lambda>(current, _).
      if co_State current = want then
        attempt (stepIntent m plan (lc_ID c) mutation (lc_ContainerID c)) fail (\<lambda>_.
        attempt (finish_step m plan (lc_ID c) mutation (lc_ContainerID c) confirmed_applied ''already in requested state'') fail (\<lambda>_.
        attempt (single_phase r plan (''single_'' @ mutation) ''confirmed'' [(''runtime_id'', lc_ContainerID c), (''idempotent'', ''true'')]) fail
          (\<lambda>_. ret (Inr ()))))
      else if mutation = ''start'' \<and> co_State current \<noteq> RuntimeStopped
      then fail (Errorf ''active runtime must be stopped before it can be started'')
      else if mutation = ''stop'' \<and> \<not> singleRuntimeStateStoppable (co_State current)
      then fail (Errorf ''active runtime state is not safely stoppable'')
      else
        attempt (mutateExisting m plan c mutation want) (\<lambda>e. ret (Inl e)) (\<lambda>_.
        attempt (txn (sr_Store r) (\<lambda>now. RecordMultiContainer now plan (lc_ID c) (lc_ContainerID c) [] []
            (if want = RuntimeRunning then CsRunning else CsStopped) (want = RuntimeRunning))) (unknown (phaseForAction mutation)) (\<lambda>_.
        attempt (single_phase r plan (''single_'' @ mutation) ''confirmed'' [(''runtime_id'', lc_ContainerID c)]) fail (\<lambda>_. ret (Inr ()))))))"

definition single_remove_network :: "'w SingleRunner \<Rightarrow> MultiPlan \<Rightarrow> Generation \<Rightarrow> NetworkObservation \<Rightarrow> ('w, run_error + unit) prog" where
  "single_remove_network r plan g network =
     attempt (single_phase r plan ''single_remove_network'' ''intent'' [(''network_id'', nw_ID network)]) fail (\<lambda>_.
     andThen (call (RemoveLifecycleNetwork (sr_Runtime r) (ge_NetworkName g))) (\<lambda>removeErr.
     attempt (call (ObserveNetwork (sr_Runtime r) (ge_NetworkName g))) (\<lambda>e. unknown PhaseCleanup (firstError removeErr e)) (\<lambda>removed.
     if nw_Exists removed then fail (firstError removeErr (Errorf ''active network removal did not reach the requested state''))
     else attempt (single_phase r plan ''single_remove_network'' ''confirmed'' []) (unknown PhaseCleanup) (\<lambda>_. ret (Inr ())))))"

definition single_perform ::
  "'w SingleRunner \<Rightarrow> MultiPlan \<Rightarrow> Generation \<Rightarrow> ContainerObservation \<Rightarrow> NetworkObservation \<Rightarrow> string \<Rightarrow> ('w, run_error + unit) prog" where
  "single_perform r plan g observed network action =
     (let stop = single_apply r plan g ''stop'' RuntimeStopped; start = single_apply r plan g ''start'' RuntimeRunning in
      if action = ''start'' then start
      else if action = ''stop'' then stop
      else if action = ''restart'' then attempt stop (\<lambda>e. ret (Inl e)) (\<lambda>_. start)
      else
        attempt (if singleRuntimeStateStoppable (co_State observed) then stop else ret (Inr ())) (\<lambda>e. ret (Inl e)) (\<lambda>_.
        attempt (mutateExisting (mutator r) plan (ge_Component g) ''remove'' RuntimeMissing) (\<lambda>e. ret (Inl e)) (\<lambda>_.
        attempt (single_remove_network r plan g network) (\<lambda>e. ret (Inl e)) (\<lambda>_.
        attempt (txn (sr_Store r) (\<lambda>_. MarkActiveRemoved (mp_InstallationID plan) (ge_Generation g) (mp_OperationID plan) (mp_FencingToken plan)))
          fail (\<lambda>_. ret (Inr ()))))))"

text \<open>The state recorded for a migrated runtime; \<open>restarting\<close> and \<open>paused\<close> are recorded as unknown.\<close>

definition persisted_state :: "string \<Rightarrow> comp_state" where
  "persisted_state st = (if st = RuntimeRunning then CsRunning else if st = RuntimeStopped then CsStopped else CsUnknown)"

definition single_promote ::
  "'w SingleRunner \<Rightarrow> string \<Rightarrow> int \<Rightarrow> Generation \<Rightarrow> ContainerObservation \<Rightarrow> NetworkObservation \<Rightarrow> ('w, run_error + Generation) prog" where
  "single_promote r operationID fencingToken g observed network =
     (if ge_Status g \<noteq> Some GVerificationRequired then ret (Inr g)
      else if \<not> singleRuntimeStateClassifiable (co_State observed) then fail (Errorf ''migrated runtime state is not safely classifiable'')
      else
      attempt (txn (sr_Store r) (\<lambda>now. PromoteMigratedState now g (nw_ID network) (co_ImageID observed) (observationHash observed)
          (persisted_state (co_State observed)) operationID fencingToken)) fail (\<lambda>_.
      ret (Inr (g\<lparr>ge_Status := Some GActive, ge_NetworkID := nw_ID network, ge_Component := (ge_Component g)\<lparr>lc_ImageID := co_ImageID observed,
        lc_ConfigurationHash := observationHash observed, lc_State := persisted_state (co_State observed)\<rparr>\<rparr>))))"

definition single_Operate :: "'w SingleRunner \<Rightarrow> string \<Rightarrow> string \<Rightarrow> int \<Rightarrow> string \<Rightarrow> ('w, run_error + Result) prog" where
  "single_Operate r installation operationID fencingToken action =
     (if action \<notin> set [''start'', ''stop'', ''restart'', ''remove''] then fail (Errorf ''unsupported single-component lifecycle action'')
      else
      attempt (txn (sr_Store r) (\<lambda>now. sr_Evidence r now operationID fencingToken ''single_lifecycle_validation'' ''intent''
          [(''lifecycle_action'', action)])) fail (\<lambda>_.
      attempt (query (sr_Store r) (Current installation)) fail (\<lambda>g.
      if ge_Status g = Some GRemoved then fail (Errorf ''active runtime is missing; reconciliation and recreation are required'')
      else
      attempt (observeExact r g) (\<lambda>e. ret (Inl e)) (\<lambda>(observed, network).
      attempt (single_promote r operationID fencingToken g observed network) (\<lambda>e. ret (Inl e)) (\<lambda>g'.
      if ge_Status g' \<noteq> Some GActive then fail (Errorf ''active single-component generation unavailable'')
      else
      attempt (single_perform r (single_operate_plan installation operationID fencingToken g') g' observed network action) (\<lambda>e. ret (Inl e)) (\<lambda>_.
      ret (Inr \<lparr>re_Generation = ge_Generation g', re_ReleaseID = ge_ReleaseID g', re_RuntimeState = runtime_state_of action,
        re_ContainerName = lc_ContainerName (ge_Component g'), re_ContainerID = lc_ContainerID (ge_Component g'),
        re_NetworkName = ge_NetworkName g', re_Bindings = ge_Bindings g', re_CleanupDeferred = False, re_Components = []\<rparr>)))))))"

end
