(* ===== verification/Run_Inv.thy ===== *)
theory Run_Inv
  imports Runner Gen_Spec
begin

text \<open>
  What the transactions of a lifecycle run do to the active generations, and the contract
  of the evidence log that the runners rely on.
\<close>

section \<open>Active rows\<close>

definition active_rows :: "helper_db \<Rightarrow> gen_row set" where
  "active_rows db = {g \<in> set (generations db). g_status g = GActive}"

text \<open>The store is well formed and every generation active in \<open>db0\<close> is recorded unchanged.\<close>

definition active_kept :: "helper_db \<Rightarrow> helper_db \<Rightarrow> bool" where
  "active_kept db0 db \<longleftrightarrow> store_inv db \<and> active_rows db0 \<subseteq> active_rows db"

lemma active_kept_refl: "store_inv db \<Longrightarrow> active_kept db db"
  by (simp add: active_kept_def)

lemma active_keptI:
  assumes "active_kept db0 db" and "store_effect i db db'" and "active_rows db \<subseteq> active_rows db'"
  shows "active_kept db0 db'"
  using assms by (auto simp: active_kept_def store_effect_def)

lemma active_rows_set_gens: "(\<And>g. P g \<Longrightarrow> g_status g \<noteq> GActive) \<Longrightarrow> active_rows db \<subseteq> active_rows (set_gens P f db)"
  by (auto simp: active_rows_def set_sql_update)

lemma active_rows_simps [simp]:
  "active_rows (set_comps P f db) = active_rows db"
  "active_rows (db\<lparr>components := cs\<rparr>) = active_rows db"
  "active_rows (db\<lparr>bindings := bs\<rparr>) = active_rows db"
  "active_rows (appendEvent k j t kind phase facts now db) = active_rows db"
  by (simp_all add: active_rows_def appendEvent_def)

lemma active_rows_insert_gen: "insert_gen g db = Inr db' \<Longrightarrow> active_rows db \<subseteq> active_rows db'"
  by (auto simp: insert_gen_Inr_iff active_rows_def)

lemma active_rows_insert_comp: "insert_comp c db = Inr db' \<Longrightarrow> active_rows db' = active_rows db"
  by (auto simp: insert_comp_Inr_iff)

lemma active_rows_insert_bindings: "insert_bindings i n bs db = Inr db' \<Longrightarrow> active_rows db' = active_rows db"
  by (induction bs arbitrary: db) (fastforce simp: bind_result_Inr_iff insert_binding_Inr_iff)+

lemma active_rows_replaceBindings: "replaceBindings i n bs db = Inr db' \<Longrightarrow> active_rows db' = active_rows db"
  by (auto simp: replaceBindings_def split: if_splits dest: active_rows_insert_bindings)

lemma active_rows_fold_result:
  assumes "\<And>x db db'. f x db = Inr db' \<Longrightarrow> active_rows db \<subseteq> active_rows db'" and "fold_result f xs db = Inr db'"
  shows "active_rows db \<subseteq> active_rows db'"
  using assms(2) by (induction xs arbitrary: db) (auto simp: bind_result_Inr_iff dest!: assms(1))

lemma active_rows_ignore_gen: "active_rows db \<subseteq> active_rows (ignore_gen g db)"
  using active_rows_insert_gen [of g db] by (auto simp: ignore_gen_def split: sum.splits)

lemma active_rows_fold_gens: "active_rows db \<subseteq> active_rows (fold (ignore_gen \<circ> f) ws db)"
proof (induction ws arbitrary: db)
  case (Cons w ws)
  show ?case using subset_trans [OF active_rows_ignore_gen Cons.IH] by simp
qed simp

lemma active_rows_Backfill:
  assumes "BackfillInstallation i db = Inr db'"
  shows "active_rows db \<subseteq> active_rows db'"
proof -
  have c: "active_rows db \<subseteq> active_rows db'" if "fold_result (ignore_comp \<circ> f) ws db = Inr db'" for f :: "ownership_row \<Rightarrow> comp_row" and ws db db'
    by (rule active_rows_fold_result [OF _ that]) (auto simp: ignore_comp_def split: if_splits)
  have b: "active_rows db \<subseteq> active_rows db'" if "fold_result (ignore_binding \<circ> f) ws db = Inr db'" for f :: "ownership_row \<Rightarrow> binding_row" and ws db db'
    by (rule active_rows_fold_result [OF _ that]) (auto simp: ignore_binding_def split: if_splits)
  from assms show ?thesis
    unfolding BackfillInstallation_def Let_def bind_result_Inr_iff
    by (elim exE conjE) (drule c, drule c, drule b, rule subset_trans [OF active_rows_fold_gens],
        erule subset_trans, rule subset_trans [OF active_rows_fold_gens], erule subset_trans, assumption)
qed

lemma active_rows_PromoteMigratedState:
  "PromoteMigratedState now g networkID imageID h st k t db = Inr db' \<Longrightarrow> active_rows db \<subseteq> active_rows db'"
  by (auto simp: PromoteMigratedState_def Let_def bind_result_Inr_iff activate_Inr_iff split: if_splits
      intro!: subsetD [OF active_rows_set_gens])

lemma active_rows_Prepare:
  assumes "Prepare now plan db = Inr db'"
  shows "active_rows db \<subseteq> active_rows db'"
proof -
  have "active_rows db \<subseteq> active_rows (set_gens (reusable i n) f db)" for i n f
    by (rule active_rows_set_gens) (auto simp: reusable_def)
  with assms show ?thesis
    by (fastforce simp: Prepare_def Let_def bind_result_Inr_iff split: sum.splits if_splits
        dest!: active_rows_replaceBindings active_rows_insert_comp active_rows_insert_gen)
qed

lemma active_rows_RecordNetwork: "RecordNetwork plan networkID db = Inr db' \<Longrightarrow> active_rows db \<subseteq> active_rows db'"
  by (auto simp: RecordNetwork_def Let_def simp del: set_gens_simps split: if_splits intro!: subsetD [OF active_rows_set_gens])

lemma active_rows_comp_txns:
  "RecordContainer now plan containerID imageID h st db = Inr db' \<Longrightarrow> active_rows db \<subseteq> active_rows db'"
  "RecordState now plan st v db = Inr db' \<Longrightarrow> active_rows db \<subseteq> active_rows db'"
  by (auto simp: RecordContainer_def RecordState_def Let_def bind_result_Inr_iff split: if_splits)

lemma active_rows_marks:
  "MarkFailed plan cleanup db = Inr db' \<Longrightarrow> active_rows db \<subseteq> active_rows db'"
  "active_rows db \<subseteq> active_rows (MarkRemoved g db)"
  "active_rows db \<subseteq> active_rows (MarkCleanupPending g db)"
  by (auto simp: MarkFailed_def MarkRemoved_def MarkCleanupPending_def Let_def split: if_splits
      intro!: subsetD [OF active_rows_set_gens])

lemma active_kept_txns:
  assumes "active_kept db0 db"
  shows "BackfillInstallation i db = Inr db' \<Longrightarrow> active_kept db0 db'"
    and "PromoteMigrated now g networkID imageID h db = Inr db' \<Longrightarrow> active_kept db0 db'"
    and "Prepare now plan db = Inr db' \<Longrightarrow> active_kept db0 db'"
    and "RecordNetwork plan networkID db = Inr db' \<Longrightarrow> active_kept db0 db'"
    and "RecordContainer now plan containerID imageID h st db = Inr db' \<Longrightarrow> active_kept db0 db'"
    and "RecordState now plan st v db = Inr db' \<Longrightarrow> active_kept db0 db'"
    and "MarkFailed plan cleanup db = Inr db' \<Longrightarrow> active_kept db0 db'"
    and "active_kept db0 (MarkRemoved g' db)" and "active_kept db0 (MarkCleanupPending g' db)"
  unfolding PromoteMigrated_def
  by (rule active_keptI [OF assms], (erule BackfillInstallation_effect PromoteMigratedState_effect Prepare_effect
        RecordNetwork_effect RecordContainer_effect RecordState_effect MarkFailed_effect
      | rule MarkRemoved_effect MarkCleanupPending_effect),
      (erule active_rows_Backfill active_rows_PromoteMigratedState active_rows_Prepare active_rows_RecordNetwork
        active_rows_comp_txns active_rows_marks | rule active_rows_marks))+

section \<open>The configuration a candidate was verified with\<close>

lemma observationHash_nonempty: "observationHash o' \<noteq> []"
  using sha256_hex_length by (metis list.size(3) observationHash_def zero_neq_numeral)

definition hash_at :: "string \<Rightarrow> int \<Rightarrow> helper_db \<Rightarrow> string option" where
  "hash_at i n db = map_option c_configuration_hash (comp_get db (i, n, ''app''))"

lemma hash_at_set_comps:
  assumes "\<And>c. P c \<Longrightarrow> comp_key (f c) = comp_key c" and "\<And>c. P c \<Longrightarrow> c_configuration_hash (f c) = c_configuration_hash c"
  shows "hash_at i n (set_comps P f db) = hash_at i n db"
  using assms by (cases "comp_get db (i, n, ''app'')") (auto simp: hash_at_def tbl_get_update)

lemma hash_at_simps [simp]:
  "hash_at i n (set_gens P f db) = hash_at i n db"
  "hash_at i n (appendEvent k j t kind phase facts now db) = hash_at i n db"
  by (simp_all add: hash_at_def appendEvent_def)

lemma hash_at_RecordState: "RecordState now plan st v db = Inr db' \<Longrightarrow> hash_at i n db' = hash_at i n db"
  by (auto simp: RecordState_def Let_def hash_at_set_comps comp_key_def split: if_splits)

lemma hash_at_marks: "hash_at i n (MarkRemoved g db) = hash_at i n db" "hash_at i n (MarkCleanupPending g db) = hash_at i n db"
  by (simp_all add: MarkRemoved_def MarkCleanupPending_def hash_at_set_comps comp_key_def)

lemma hash_at_RecordContainer:
  assumes "store_inv db" and "RecordContainer now plan containerID imageID h st db = Inr db'"
  shows "hash_at (pl_InstallationID plan) (pl_Generation plan) db' = Some h"
proof -
  let ?i = "pl_InstallationID plan" and ?n = "pl_Generation plan"
  let ?f = "\<lambda>c. c\<lparr>c_observed_container_id := containerID, c_observed_image_id := imageID,
        c_configuration_hash := h, c_state := st, c_created_at := now,
        c_verified_at := (if st = CsStopped then Some now else c_verified_at c)\<rparr>"
  let ?P = "\<lambda>c. in_comp ?i ?n c \<and> c_component_id c = ''app'' \<and> (\<exists>r \<in> set (generations db). is_candidate ?i ?n (pl_OperationID plan) r)"
  from assms(2) have one: "sql_count ?P (components db) = 1" and db': "db' = set_comps ?P ?f db"
    by (auto simp: RecordContainer_def Let_def bind_result_Inr_iff split: if_splits)
  from one have "filter ?P (components db) \<noteq> []" by (auto simp: sql_count_def)
  then obtain c where c: "c \<in> set (components db)" "?P c" by (auto simp: filter_empty_conv)
  then have "comp_get db (?i, ?n, ''app'') = Some c"
    using assms(1) tbl_get_of_mem [of comp_key "components db" c] by (auto simp: store_inv_def comp_key_def in_comp_def)
  with c show ?thesis unfolding db' by (simp add: hash_at_def tbl_get_update comp_key_def)
qed

lemma Commit_keeps:
  assumes "store_inv db" and "Commit now plan db = Inr db'"
  shows "store_inv db'" and "status_at db' (pl_InstallationID plan, pl_Generation plan) = Some GActive"
    and "hash_at i n db' = hash_at i n db"
proof -
  show "store_inv db'" using Commit_effect [OF assms(2)] assms(1) by (simp add: store_effect_def)
  from assms have c: "committable plan db" and db': "db' = commit_result now plan db" by (simp_all add: Commit_Inr_iff)
  from c obtain g where g: "gen_get db (pl_InstallationID plan, pl_Generation plan) = Some g" "g_status g = GCandidate"
      "g_creating_operation_id g = pl_OperationID plan" and e: "snd (current_generation (pl_InstallationID plan) db) = pl_ExpectedGeneration plan"
    by (auto simp: committable_def Let_def split: option.splits)
  show "status_at db' (pl_InstallationID plan, pl_Generation plan) = Some GActive"
  proof (rule switched_statuses(1) [OF assms(1) e g])
    show "generations db' = map (switched now (\<lambda>r. coalesce (g_verified_at r) now) (pl_AllowMissingActive plan)
        (pl_InstallationID plan) (pl_ExpectedGeneration plan) (pl_Generation plan) (pl_OperationID plan)) (generations db)"
      by (simp add: db' commit_result_def Let_def)
  qed
  show "hash_at i n db' = hash_at i n db" unfolding db' by (simp add: commit_result_def Let_def hash_at_def)
qed

section \<open>The evidence log\<close>

text \<open>
  What a runner relies on: recording a phase touches none of the generation tables. The
  coordinator's log satisfies it.
\<close>

locale evidence_log =
  fixes ev :: evidence
  assumes keeps_tables: "ev now k t phase outcome facts db = Inr db' \<Longrightarrow>
    generations db' = generations db \<and> components db' = components db \<and> bindings db' = bindings db"
begin

lemma store_inv_record: "ev now k t phase outcome facts db = Inr db' \<Longrightarrow> store_inv db' = store_inv db"
  using keeps_tables [of now k t phase outcome facts db db'] by (simp add: store_inv_def gen_exists_def)

lemma active_kept_record: "active_kept db0 db \<Longrightarrow> ev now k t phase outcome facts db = Inr db' \<Longrightarrow> active_kept db0 db'"
  using keeps_tables [of now k t phase outcome facts db db'] store_inv_record [of now k t phase outcome facts db db']
  by (simp add: active_kept_def active_rows_def)

lemma hash_at_record: "ev now k t phase outcome facts db = Inr db' \<Longrightarrow> hash_at i n db' = hash_at i n db"
  using keeps_tables [of now k t phase outcome facts db db'] by (simp add: hash_at_def)

lemma status_at_record: "ev now k t phase outcome facts db = Inr db' \<Longrightarrow> status_at db' key = status_at db key"
  using keeps_tables [of now k t phase outcome facts db db'] by (simp add: status_at_def)

end

interpretation coordinator_log: evidence_log RecordPhase
  by unfold_locales
    (auto simp: RecordPhase_def Let_def bind_result_Inr_iff update_ops_def appendEvent_def split: if_splits)

end
