(* ===== verification/Multi_Inv.thy ===== *)
theory Multi_Inv
  imports Run_Inv Multi_Replace
begin

text \<open>
  What the transactions of a run over several components do to the active generations and
  to the evidence that a component was verified running.
\<close>

section \<open>Active rows\<close>

lemma active_rows_steps [simp]: "active_rows (db\<lparr>steps := ss\<rparr>) = active_rows db"
  by (simp add: active_rows_def)

lemma component_step_tables:
  "BeginComponentStep now plan c action expected a db = Inr db' \<Longrightarrow> \<exists>ss. db' = db\<lparr>steps := ss\<rparr>"
  "DispatchComponentStep now plan c action a db = Inr db' \<Longrightarrow> \<exists>ss. db' = db\<lparr>steps := ss\<rparr>"
  "FinishComponentStep now plan c action a observed confidence detail db = Inr db' \<Longrightarrow> \<exists>ss. db' = db\<lparr>steps := ss\<rparr>"
  by (auto simp: BeginComponentStep_def DispatchComponentStep_def FinishComponentStep_def Let_def bind_result_Inr_iff split: if_splits)

lemma active_rows_prepare_components:
  "prepare_components now i n reusing k cs db = Inr db' \<Longrightarrow> active_rows db' = active_rows db"
  by (induction cs arbitrary: k db)
    (auto simp: bind_result_Inr_iff reuse_component_def Let_def split: if_splits dest: active_rows_insert_comp)

lemma active_rows_PrepareMulti:
  assumes "PrepareMulti now plan db = Inr db'"
  shows "active_rows db \<subseteq> active_rows db'"
proof -
  have "active_rows db \<subseteq> active_rows (set_gens (reusable i n) f db)" for i n f db
    by (rule active_rows_set_gens) (auto simp: reusable_def)
  from this [of "shift_ordinals (mp_InstallationID plan) (mp_Generation plan) db"] assms show ?thesis
    by (fastforce simp: PrepareMulti_def Let_def bind_result_Inr_iff shift_ordinals_def split: sum.splits if_splits
        dest!: active_rows_replaceBindings active_rows_prepare_components active_rows_insert_gen)
qed

lemma active_rows_promote_components:
  "promote_components now i n obs st cs db = Inr db' \<Longrightarrow> active_rows db' = active_rows db"
  by (induction cs arbitrary: db) (auto simp: Let_def split: option.splits if_splits)

lemma active_rows_PromoteMigratedMulti:
  assumes "PromoteMigratedMulti now g networkID obs st k t db = Inr db'"
  shows "active_rows db \<subseteq> active_rows db'"
proof -
  from assms obtain P f where "promote_components now (mg_InstallationID g) (mg_Generation g) obs st (mg_Components g) (set_gens P f db) = Inr db'"
    and "\<And>r. P r \<Longrightarrow> g_status r \<noteq> GActive"
    by (fastforce simp: PromoteMigratedMulti_def Let_def bind_result_Inr_iff activate_Inr_iff split: if_splits)
  then show ?thesis using active_rows_set_gens [of P db f] active_rows_promote_components by blast
qed

lemma active_rows_multi_txns:
  "RecordMultiContainer now plan c cid im h cs v db = Inr db' \<Longrightarrow> active_rows db \<subseteq> active_rows db'"
  "RecordMultiNetwork plan networkID db = Inr db' \<Longrightarrow> active_rows db \<subseteq> active_rows db'"
  "MarkMultiFailed plan cleanup db = Inr db' \<Longrightarrow> active_rows db \<subseteq> active_rows db'"
  by (auto simp: RecordMultiNetwork_def RecordMultiContainer_def MarkMultiFailed_def Let_def bind_result_Inr_iff
      simp del: set_gens_simps split: if_splits intro!: subsetD [OF active_rows_set_gens])

lemma active_kept_steps: "active_kept db0 (db\<lparr>steps := ss\<rparr>) = active_kept db0 db"
  by (simp add: active_kept_def store_inv_def gen_exists_def)

lemma active_kept_multi_txns:
  assumes "active_kept db0 db"
  shows "PrepareMulti now plan db = Inr db' \<Longrightarrow> active_kept db0 db'"
    and "PromoteMigratedMulti now g networkID obs st k t db = Inr db' \<Longrightarrow> active_kept db0 db'"
    and "PromoteMigratedState now ge networkID imageID h st k t db = Inr db' \<Longrightarrow> active_kept db0 db'"
    and "RecordMultiNetwork plan networkID db = Inr db' \<Longrightarrow> active_kept db0 db'"
    and "RecordMultiContainer now plan c cid im h st v db = Inr db' \<Longrightarrow> active_kept db0 db'"
    and "MarkMultiFailed plan cleanup db = Inr db' \<Longrightarrow> active_kept db0 db'"
  by (rule active_keptI [OF assms], (erule PrepareMulti_effect PromoteMigratedMulti_effect PromoteMigratedState_effect
        RecordMultiNetwork_effect RecordMultiContainer_effect MarkMultiFailed_effect),
      (erule active_rows_PrepareMulti active_rows_multi_txns active_rows_PromoteMigratedState active_rows_PromoteMigratedMulti))+

section \<open>Verified components\<close>

text \<open>
  The recorded component is verified running, and its configuration is that of an
  observation which satisfied the plan.
\<close>

definition verified_as :: "MultiPlan \<Rightarrow> MultiComponentPlan \<Rightarrow> helper_db \<Rightarrow> bool" where
  "verified_as plan c db \<longleftrightarrow> (\<exists>network observed row. verifyMultiCandidate plan c network observed RuntimeRunning = Inr ()
     \<and> comp_get db (mp_InstallationID plan, mp_Generation plan, mc_ID c) = Some row
     \<and> c_configuration_hash row = observationHash observed \<and> component_verified row)"

lemma verified_as_cong:
  "comp_get db' (mp_InstallationID plan, mp_Generation plan, mc_ID c) = comp_get db (mp_InstallationID plan, mp_Generation plan, mc_ID c)
    \<Longrightarrow> verified_as plan c db' = verified_as plan c db"
  by (simp add: verified_as_def)

lemma verified_as_steps [simp]: "verified_as plan c (db\<lparr>steps := ss\<rparr>) = verified_as plan c db"
  by (simp add: verified_as_def)

lemma RecordMultiContainer_get:
  assumes "store_inv db" and "RecordMultiContainer now plan k cid im h st v db = Inr db'"
  shows "(j, m, k') \<noteq> (mp_InstallationID plan, mp_Generation plan, k) \<Longrightarrow> comp_get db' (j, m, k') = comp_get db (j, m, k')"
    and "h \<noteq> [] \<Longrightarrow> \<exists>row. comp_get db' (mp_InstallationID plan, mp_Generation plan, k) = Some row \<and> c_configuration_hash row = h
      \<and> c_state row = st \<and> (v \<longrightarrow> c_verified_at row \<noteq> None)"
proof -
  let ?i = "mp_InstallationID plan" and ?n = "mp_Generation plan"
  let ?P = "\<lambda>c. in_comp ?i ?n c \<and> c_component_id c = k"
  from assms(2) obtain f where one: "sql_count ?P (components db) = 1" and db': "db' = set_comps ?P f db"
    and f: "\<And>c. comp_key (f c) = comp_key c" "\<And>c. h \<noteq> [] \<Longrightarrow> c_configuration_hash (f c) = h" "\<And>c. c_state (f c) = st"
      "\<And>c. v \<Longrightarrow> c_verified_at (f c) \<noteq> None"
    by (fastforce simp: RecordMultiContainer_def Let_def bind_result_Inr_iff comp_key_def split: if_splits)
  have P: "?P c \<longleftrightarrow> comp_key c = (?i, ?n, k)" for c by (auto simp: in_comp_def comp_key_def)
  have get: "comp_get db' q = (if q = (?i, ?n, k) then map_option f (comp_get db q) else comp_get db q)" for q
    unfolding db' P by (simp add: tbl_get_update_key f(1))
  then show "(j, m, k') \<noteq> (?i, ?n, k) \<Longrightarrow> comp_get db' (j, m, k') = comp_get db (j, m, k')" by metis
  from one have "filter ?P (components db) \<noteq> []" by (auto simp: sql_count_def)
  then obtain c where "c \<in> set (components db)" "comp_key c = (?i, ?n, k)" unfolding P by (auto simp: filter_empty_conv)
  then have "comp_get db (?i, ?n, k) = Some c"
    using assms(1) tbl_get_of_mem [of comp_key "components db" c] by (auto simp: store_inv_def)
  then show "h \<noteq> [] \<Longrightarrow> \<exists>row. comp_get db' (?i, ?n, k) = Some row \<and> c_configuration_hash row = h
      \<and> c_state row = st \<and> (v \<longrightarrow> c_verified_at row \<noteq> None)"
    using f by (simp add: get)
qed

end
