(* ===== verification/Runner_Spec.thy ===== *)
theory Runner_Spec
  imports Run_Inv
begin

text \<open>
  The outcomes of a staged replacement. Whatever the runtime does, a run that does not
  succeed leaves every active generation recorded as it was, unless the outcome is unknown
  because recording the end of the commit failed; a run that succeeds has made the planned
  generation the active one, with a candidate that was verified running.
\<close>

section \<open>Postconditions\<close>

definition serving :: "string \<Rightarrow> int \<Rightarrow> helper_db \<Rightarrow> bool" where
  "serving i n db \<longleftrightarrow> store_inv db \<and> (\<exists>g \<in> active_rows db. gen_key g = (i, n))"

lemma serving_store_inv: "serving i n db \<Longrightarrow> store_inv db"
  by (simp add: serving_def)

lemma serving_mono: "serving i n db \<Longrightarrow> active_kept db db' \<Longrightarrow> serving i n db'"
  by (auto simp: serving_def active_kept_def)

lemma serving_iff: "serving i n db \<longleftrightarrow> store_inv db \<and> status_at db (i, n) = Some GActive"
proof -
  have "(\<exists>g \<in> active_rows db. gen_key g = (i, n)) \<longleftrightarrow> status_at db (i, n) = Some GActive" if "store_inv db"
    using that by (auto simp: active_rows_def status_at_def store_inv_def dest: tbl_get_of_mem [of gen_key] tbl_get_mem tbl_get_key)
  then show ?thesis by (auto simp: serving_def)
qed

text \<open>
  A successful replacement: the planned generation is active, and the container in the result
  was observed running with the planned identity and the configuration recorded for it.
\<close>

definition replaced :: "Plan \<Rightarrow> Result \<Rightarrow> helper_db \<Rightarrow> bool" where
  "replaced plan result db \<longleftrightarrow> serving (pl_InstallationID plan) (pl_Generation plan) db
     \<and> re_Generation result = pl_Generation plan \<and> re_RuntimeState result = ''running''
     \<and> (\<exists>network observed. verifyCandidate plan network observed RuntimeRunning = Inr ()
          \<and> re_ContainerID result = co_ID observed
          \<and> hash_at (pl_InstallationID plan) (pl_Generation plan) db = Some (observationHash observed))"

definition replace_post :: "helper_db \<Rightarrow> Plan \<Rightarrow> run_error + Result \<Rightarrow> helper_db \<Rightarrow> bool" where
  "replace_post db0 plan res db = (case res of
      Inr result \<Rightarrow> replaced plan result db
    | Inl (Fail e) \<Rightarrow> active_kept db0 db
    | Inl (UnknownOutcome phase e) \<Rightarrow> phase = PhaseAfterCommit \<or> active_kept db0 db)"

lemma replace_post_error: "active_kept db0 db \<Longrightarrow> replace_post db0 plan (Inl e) db"
  by (cases e) (simp_all add: replace_post_def)

section \<open>Programs that keep the active generations\<close>

locale staged_runner = evidence_log "rr_Evidence r" for r :: "'w Runner"
begin

text \<open>Predicates of the database that every transaction before the commit keeps.\<close>

definition stable :: "(helper_db \<Rightarrow> bool) \<Rightarrow> bool" where
  "stable I \<longleftrightarrow> (\<forall>now k t phase outcome facts db db'. I db \<longrightarrow> rr_Evidence r now k t phase outcome facts db = Inr db' \<longrightarrow> I db')"

lemma keeps_record: "stable I \<Longrightarrow> keeps I (RecordPhase_run r plan phase outcome facts)"
  unfolding RecordPhase_run_def by (rule keeps_txn) (auto simp: stable_def)

lemma keeps_checkpoint: "stable I \<Longrightarrow> keeps I (checkpoint r plan phase outcome facts)"
  unfolding checkpoint_def by (intro keeps_intro keeps_record)

lemma keeps_observe:
  "keeps I (verifyStoredGeneration r generation want)" "keeps I (observeRepairableActive r generation)"
  unfolding verifyStoredGeneration_def observeRepairableActive_def Let_def by (intro keeps_intro)+

lemma keeps_cleanupCandidate: "stable I \<Longrightarrow> keeps I (cleanupCandidate r plan)"
  unfolding cleanupCandidate_def cleanup_network_def Let_def by (intro keeps_intro keeps_record)

lemma stable_active_kept: "stable (active_kept db0)"
  unfolding stable_def by (blast intro: active_kept_record)

lemma stable_and_hash: "stable I \<Longrightarrow> stable (\<lambda>db. I db \<and> hash_at i n db = h)"
  unfolding stable_def using hash_at_record by metis

lemma stable_serving: "stable (serving i n)"
  unfolding stable_def by (metis serving_mono serving_store_inv active_kept_refl active_kept_record)

lemma keeps_MarkFailed: "keeps (active_kept db0) (txn st (\<lambda>_. MarkFailed plan cleanup))"
  by (rule keeps_txn) (rule active_kept_txns)

lemmas error_intros = triple_fail triple_unknown replace_post_error keeps_cleanupCandidate keeps_MarkFailed stable_active_kept

lemma failBeforeCutover_post: "triple (active_kept db0) (failBeforeCutover r plan' cause) (replace_post db0 plan)"
  unfolding failBeforeCutover_def by (intro triple_intro error_intros)

lemma afterCutoverFailure_post:
  "triple (active_kept db0) (afterCutoverFailure r plan' active containerID phase cause) (replace_post db0 plan)"
  unfolding afterCutoverFailure_def by (intro triple_intro error_intros keeps_intro)

section \<open>After the commit\<close>

lemma keeps_cleanupOlder:
  assumes "stable I" and "\<And>g db. I db \<Longrightarrow> I (MarkRemoved g db)" and "\<And>g db. I db \<Longrightarrow> I (MarkCleanupPending g db)"
  shows "keeps I (cleanupOlder r plan keepGeneration)"
proof -
  have p: "keeps I (cleanup_pending r g)" for g
    unfolding cleanup_pending_def by (intro keeps_intro keeps_txn) (use assms in auto)
  have m: "keeps I (txn (rr_Store r) (\<lambda>_ db. Inr (MarkRemoved g db)))" for g
    by (rule keeps_txn) (use assms in auto)
  have one: "keeps I (cleanup_old r plan g)" for g
    unfolding cleanup_old_def cleanup_old_network_def Let_def
    by (intro keeps_intro p m keeps_checkpoint keeps_record keeps_observe assms(1))
  have "keeps I (cleanup_each r plan gs d)" for gs d
    by (induction gs arbitrary: d) (auto intro!: keeps_intro one)
  then show ?thesis unfolding cleanupOlder_def by (intro keeps_intro)
qed

lemma replace_commit_post:
  assumes "verifyCandidate plan network observed RuntimeRunning = Inr ()"
  shows "triple (\<lambda>db. active_kept db0 db \<and> hash_at (pl_InstallationID plan) (pl_Generation plan) db = Some (observationHash observed))
    (replace_commit r plan observed) (replace_post db0 plan)"
proof -
  let ?i = "pl_InstallationID plan" and ?n = "pl_Generation plan"
  let ?J = "\<lambda>db. serving ?i ?n db \<and> hash_at ?i ?n db = Some (observationHash observed)"
  have J: "stable ?J" by (intro stable_and_hash stable_serving)
  have "keeps ?J (cleanupOlder r plan k)" for k
    by (rule keeps_cleanupOlder [OF J])
      (auto simp: hash_at_marks intro: serving_mono active_kept_txns active_kept_refl serving_store_inv)
  then show ?thesis
    unfolding replace_commit_def Let_def
    by (intro triple_attempt_keeps [OF keeps_checkpoint] triple_txn [where J = ?J] triple_andThen_keeps triple_ret triple_unknown
        J stable_and_hash stable_active_kept)
      (use assms in \<open>auto simp: replace_post_def replaced_def serving_iff active_kept_def Commit_keeps\<close>)
qed

section \<open>The stages\<close>

text \<open>
  Up to the first verification the database predicate is that the active generations are
  kept; from then on it also holds the hash of the verified configuration.
\<close>

abbreviation kept_with :: "helper_db \<Rightarrow> Plan \<Rightarrow> string \<Rightarrow> helper_db \<Rightarrow> bool" where
  "kept_with db0 plan h \<equiv> \<lambda>db. active_kept db0 db \<and> hash_at (pl_InstallationID plan) (pl_Generation plan) db = Some h"

lemma stable_kept_with: "stable (kept_with db0 plan h)"
  by (intro stable_and_hash stable_active_kept)

lemma handlers:
  "triple (kept_with db0 plan h) (failBeforeCutover r plan' cause) (replace_post db0 plan)"
  "triple (kept_with db0 plan h) (afterCutoverFailure r plan' active containerID phase cause) (replace_post db0 plan)"
  "triple (kept_with db0 plan h) (unknown p e) (replace_post db0 plan)"
  by (rule triple_pre [OF failBeforeCutover_post] triple_pre [OF afterCutoverFailure_post] triple_unknown; simp add: replace_post_error)+

lemma keeps_RecordState: "keeps (kept_with db0 plan h) (txn st (\<lambda>now. RecordState now plan' cs v))"
  by (rule keeps_txn) (auto simp: hash_at_RecordState intro: active_kept_txns)

lemmas stage_intros = handlers triple_intro keeps_call keeps_checkpoint keeps_RecordState stable_kept_with

lemma replace_verify_post:
  "triple (kept_with db0 plan configHash) (replace_verify r plan active containerID configHash) (replace_post db0 plan)"
  unfolding replace_verify_def Let_def
  by (intro stage_intros triple_pre [OF replace_commit_post]) auto

lemma replace_start_post:
  "triple (kept_with db0 plan configHash) (replace_start r plan active containerID configHash) (replace_post db0 plan)"
  unfolding replace_start_def by (intro stage_intros replace_verify_post)

lemma stop_old_post:
  "triple (kept_with db0 plan h) m (replace_post db0 plan) \<Longrightarrow>
    triple (kept_with db0 plan h) (stop_old r plan active m) (replace_post db0 plan)"
  unfolding stop_old_def Let_def by (intro stage_intros)

lemma replace_cutover_post:
  "triple (kept_with db0 plan configHash) (replace_cutover r plan active containerID configHash) (replace_post db0 plan)"
  unfolding replace_cutover_def Let_def
  by (intro stage_intros keeps_intro keeps_observe stop_old_post replace_start_post)

lemma record_verified_post:
  "triple (active_kept db0) (attempt (txn st (\<lambda>now. RecordContainer now plan cid imageID h cs)) (unknown p) (\<lambda>_.
     attempt (checkpoint r plan phase outcome facts) (unknown p) (\<lambda>_. replace_cutover r plan active containerID h)))
     (replace_post db0 plan)"
proof (rule triple_txn [where J = "kept_with db0 plan h"])
  show "kept_with db0 plan h db'" if "active_kept db0 db" "RecordContainer now plan cid imageID h cs db = Inr db'" for now db db'
    using that hash_at_RecordContainer [OF _ that(2)] active_kept_txns(5) [OF that] by (auto simp: active_kept_def)
qed (intro stage_intros replace_cutover_post triple_unknown replace_post_error; assumption)+

lemma keeps_before:
  "keeps (active_kept db0) (txn st (\<lambda>now. RecordContainer now plan cid imageID h cs))"
  "keeps (active_kept db0) (txn st (\<lambda>_. RecordNetwork plan networkID))"
  "keeps (active_kept db0) (txn st (\<lambda>now. Prepare now plan))"
  "keeps (active_kept db0) (txn st (\<lambda>_. BackfillInstallation i))"
  "keeps (active_kept db0) (txn st (\<lambda>now. PromoteMigrated now g networkID imageID h))"
  by (rule keeps_txn; erule (1) active_kept_txns)+

lemmas early_intros = failBeforeCutover_post triple_intro keeps_call keeps_query keeps_checkpoint stable_active_kept keeps_before
  triple_unknown triple_fail replace_post_error

lemma replace_container_post: "triple (active_kept db0) (replace_container r plan active network) (replace_post db0 plan)"
  unfolding replace_container_def Let_def by (intro record_verified_post early_intros)

lemma replace_network_post: "triple (active_kept db0) (replace_network r plan active) (replace_post db0 plan)"
  unfolding replace_network_def by (intro replace_container_post early_intros)

lemma keeps_loadAndVerifyActive: "keeps (active_kept db0) (loadAndVerifyActive r plan)"
  unfolding loadAndVerifyActive_def verify_current_def Let_def
  by (intro keeps_intro keeps_observe keeps_before)

lemma Replace_post:
  "triple (active_kept db0) (Replace r plan) (\<lambda>res db. \<exists>img. (is_ok res \<longrightarrow> imageContainsDigest img (pl_Image plan))
     \<and> replace_post db0 (with_image plan img) res db)"
  unfolding Replace_def Let_def
  by (intro keeps_loadAndVerifyActive triple_intro keeps_call keeps_checkpoint stable_active_kept keeps_before triple_post [OF replace_network_post]
       triple_unknown triple_fail exI conjI replace_post_error) auto

end


section \<open>The helper's runner\<close>

interpretation replacement: staged_runner "helper_runner rt st" for rt st
  by (simp add: staged_runner_def coordinator_log.evidence_log_axioms)


end
