(* ===== verification/Multi_Spec.thy ===== *)
theory Multi_Spec
  imports Multi_Inv Runner_Spec
begin

text \<open>
  The outcomes of a replacement of several components. As for one component, a run that does
  not succeed leaves the active generations recorded as they were, unless it failed after
  the commit; one that succeeds has verified every component of the new generation.
\<close>

section \<open>Postconditions\<close>

definition replaced_multi :: "MultiPlan \<Rightarrow> Result \<Rightarrow> helper_db \<Rightarrow> bool" where
  "replaced_multi plan result db \<longleftrightarrow> serving (mp_InstallationID plan) (mp_Generation plan) db
     \<and> re_Generation result = mp_Generation plan \<and> re_RuntimeState result = ''running''
     \<and> (\<forall>c \<in> set (mp_Components plan). verified_as plan c db
          \<and> map_of (re_Components result) (mc_ID c) =
              map_option c_observed_container_id (comp_get db (mp_InstallationID plan, mp_Generation plan, mc_ID c)))"

definition multi_post :: "helper_db \<Rightarrow> MultiPlan \<Rightarrow> run_error + Result \<Rightarrow> helper_db \<Rightarrow> bool" where
  "multi_post db0 plan res db = (case res of
      Inr result \<Rightarrow> replaced_multi plan result db
    | Inl (Fail e) \<Rightarrow> active_kept db0 db
    | Inl (UnknownOutcome phase e) \<Rightarrow> phase = PhaseAfterCommit \<or> active_kept db0 db)"

lemma multi_post_error: "active_kept db0 db \<Longrightarrow> multi_post db0 plan (Inl e) db"
  by (cases e) (simp_all add: multi_post_def)

text \<open>The components of \<open>S\<close> are verified running, and the active generations are kept.\<close>

definition started_as :: "helper_db \<Rightarrow> MultiPlan \<Rightarrow> MultiComponentPlan set \<Rightarrow> helper_db \<Rightarrow> bool" where
  "started_as db0 plan S db \<longleftrightarrow> active_kept db0 db \<and> (\<forall>c \<in> S. verified_as plan c db)"

lemma started_as_kept: "started_as db0 plan S db \<Longrightarrow> active_kept db0 db"
  by (simp add: started_as_def)

lemma started_as_insert:
  assumes "started_as db0 plan S db" and "mc_ID c \<notin> mc_ID ` S"
    and "verifyMultiCandidate plan c network observed RuntimeRunning = Inr ()"
    and "RecordMultiContainer now plan (mc_ID c) cid im (observationHash observed) CsRunning True db = Inr db'"
  shows "started_as db0 plan (insert c S) db'"
proof -
  have inv: "store_inv db" using assms(1) by (simp add: started_as_def active_kept_def)
  note get = RecordMultiContainer_get [OF inv assms(4)]
  have "verified_as plan c' db'" if "c' \<in> S" for c'
  proof -
    have "mc_ID c' \<noteq> mc_ID c" using assms(2) that by (metis imageI)
    then have "verified_as plan c' db' = verified_as plan c' db" by (intro verified_as_cong get(1)) simp
    then show ?thesis using assms(1) that by (simp add: started_as_def)
  qed
  moreover have "verified_as plan c db'"
    using assms(3) get(2) [OF observationHash_nonempty] by (fastforce simp: verified_as_def component_verified_def observationHash_nonempty)
  ultimately show ?thesis
    using active_kept_multi_txns(5) [OF started_as_kept [OF assms(1)] assms(4)] by (simp add: started_as_def)
qed

section \<open>The result\<close>

lemma map_of_put: "map_of (put k v kvs) = (map_of kvs)(k \<mapsto> v)"
proof -
  have "x \<noteq> k \<Longrightarrow> map_of (filter (\<lambda>p. fst p \<noteq> k) kvs) x = map_of kvs x" for x by (induction kvs) auto
  then show ?thesis by (auto simp: put_def fun_eq_iff)
qed

lemma map_of_fold_put:
  "distinct (map f xs) \<Longrightarrow> map_of (fold (\<lambda>x. put (f x) (g x)) xs kvs) k =
    (case find (\<lambda>x. f x = k) xs of None \<Rightarrow> map_of kvs k | Some x \<Rightarrow> Some (g x))"
proof (induction xs arbitrary: kvs)
  case (Cons x xs)
  from Cons.prems have "f x = k \<Longrightarrow> find (\<lambda>x. f x = k) xs = None" unfolding find_None_iff by simp (metis imageI)
  with Cons.prems show ?case by (cases "f x = k") (auto simp: Cons.IH map_of_put split: option.splits)
qed simp

lemma find_map_list: "find P (map f xs) = map_option f (find (\<lambda>x. P (f x)) xs)"
  by (induction xs) auto

lemma find_unique:
  assumes "x \<in> set xs" "P x" "\<And>y. y \<in> set xs \<Longrightarrow> P y \<Longrightarrow> y = x"
  shows "find P xs = Some x"
proof (cases "find P xs")
  case None
  with assms(1,2) show ?thesis by (simp add: find_None_iff)
next
  case (Some y)
  with assms(3) show ?thesis by (auto dest: find_SomeD)
qed

lemma LoadMultiGeneration_components:
  assumes "store_inv db" and "LoadMultiGeneration i n db = Inr g"
  shows "distinct (map lc_ID (mg_Components g))"
    and "map_option lc_ContainerID (find (\<lambda>c. lc_ID c = k) (mg_Components g)) = map_option c_observed_container_id (comp_get db (i, n, k))"
proof -
  let ?rows = "sort_key c_start_ordinal (sort_key c_component_id (filter (in_comp i n) (components db)))"
  have wf: "tbl_wf comp_key (components db)" using assms(1) by (simp add: store_inv_def)
  from assms(2) obtain f where cs: "mg_Components g = map f ?rows"
    and f: "lc_ID (f r) = c_component_id r" "lc_ContainerID (f r) = c_observed_container_id r" for r
    by (fastforce simp: LoadMultiGeneration_def bind_result_Inr_iff)
  have get: "r \<in> set ?rows \<Longrightarrow> comp_get db (i, n, c_component_id r) = Some r" for r
    using tbl_get_of_mem [OF wf, of r] by (auto simp: in_comp_def comp_key_def)
  have "distinct ?rows" using wf by (simp add: tbl_wf_def distinct_map)
  moreover have "inj_on c_component_id (set ?rows)" by (rule inj_onI) (metis get option.inject)
  ultimately show "distinct (map lc_ID (mg_Components g))" by (simp add: cs f distinct_map comp_def)
  have "find (\<lambda>r. c_component_id r = k) ?rows = comp_get db (i, n, k)"
  proof (cases "comp_get db (i, n, k)")
    case None
    then show ?thesis using get by (fastforce simp: find_None_iff)
  next
    case (Some r)
    then have r: "r \<in> set ?rows" "c_component_id r = k"
      using tbl_get_mem [OF Some] tbl_get_key [OF Some] by (auto simp: in_comp_def comp_key_def)
    then have "find (\<lambda>r. c_component_id r = k) ?rows = Some r"
      by (rule find_unique) (metis get r option.inject)
    with Some show ?thesis by simp
  qed
  then show "map_option lc_ContainerID (find (\<lambda>c. lc_ID c = k) (mg_Components g)) = map_option c_observed_container_id (comp_get db (i, n, k))"
    by (simp add: cs f find_map_list comp_def option.map_comp)
qed

text \<open>The container identities in the result of a committed replacement are the recorded ones.\<close>

lemma committed_components:
  assumes "store_inv db" and "LoadMultiGeneration i n db = Inr g" and "comp_get db (i, n, k) = Some row"
  shows "map_of (fold (\<lambda>c. put (lc_ID c) (lc_ContainerID c)) (mg_Components g) kvs) k = Some (c_observed_container_id row)"
proof -
  from LoadMultiGeneration_components(2) [OF assms(1,2), of k] assms(3) obtain c where
    "find (\<lambda>c. lc_ID c = k) (mg_Components g) = Some c" "lc_ContainerID c = c_observed_container_id row" by auto
  with LoadMultiGeneration_components(1) [OF assms(1,2)] show ?thesis by (simp add: map_of_fold_put)
qed

lemma map_result_mem: "map_result f xs = Inr ys \<Longrightarrow> y \<in> set ys \<Longrightarrow> \<exists>x \<in> set xs. f x = Inr y"
  by (induction xs arbitrary: ys) (auto simp: bind_result_Inr_iff)

lemma older_not_serving:
  assumes "serving i n db" and "MultiOlderRetained j keep db = Inr older" and "g \<in> set older"
  shows "(mg_InstallationID g, mg_Generation g) \<noteq> (i, n)"
proof -
  have wf: "tbl_wf gen_key (generations db)" using assms(1) by (simp add: serving_def store_inv_def)
  from assms(2,3) obtain row where row: "row \<in> set (generations db)" "g_installation_id row = j" "g_status row \<noteq> GActive"
    and load: "LoadMultiGeneration j (g_runtime_generation row) db = Inr g"
    by (auto simp: MultiOlderRetained_def dest!: map_result_mem)
  from row(1) have get: "gen_get db (j, g_runtime_generation row) = Some row"
    using tbl_get_of_mem [OF wf row(1)] row(2) by (simp add: gen_key_def)
  from load have "(mg_InstallationID g, mg_Generation g) = (j, g_runtime_generation row)"
    by (auto simp: LoadMultiGeneration_def bind_result_Inr_iff sql_row_gen [OF wf, where Q = "\<lambda>_. True", simplified] get row)
  with get row(3) assms(1) show ?thesis by (auto simp: serving_iff status_at_def)
qed

section \<open>Plans\<close>

lemma validate_components_distinct:
  "validate_components seen k cs = Inr () \<Longrightarrow> distinct (map mc_ID cs) \<and> set seen \<inter> mc_ID ` set cs = {}"
  by (induction seen k cs rule: validate_components.induct) (auto split: if_splits)

lemma validateMultiPlan_distinct: "validateMultiPlan plan = Inr () \<Longrightarrow> distinct (map mc_ID (mp_Components plan))"
  by (auto simp: validateMultiPlan_def split: if_splits dest: validate_components_distinct)

section \<open>The stages\<close>

locale component_runner = evidence_log "mr_Evidence r" for r :: "'w MultiRunner"
begin

text \<open>Predicates that hold whatever is recorded as evidence.\<close>

definition durable :: "(helper_db \<Rightarrow> bool) \<Rightarrow> bool" where
  "durable I \<longleftrightarrow> (\<forall>db ss. I db \<longrightarrow> I (db\<lparr>steps := ss\<rparr>))
     \<and> (\<forall>now k t phase outcome facts db db'. I db \<longrightarrow> mr_Evidence r now k t phase outcome facts db = Inr db' \<longrightarrow> I db')"

lemma keeps_evidence:
  assumes "durable I"
  shows "keeps I (multi_checkpoint r plan phase outcome facts)" "keeps I (stepIntent r plan c action expected)"
    "keeps I (dispatch r plan c action)" "keeps I (finish_step r plan c action observed confidence detail)"
  unfolding multi_checkpoint_def stepIntent_def dispatch_def finish_step_def
  by (rule keeps_txn, use assms in \<open>auto simp: durable_def dest!: component_step_tables\<close>)+

lemma keeps_hooks: "keeps I (runHook r action c point)" "keeps I (after_hooks r action c b res)"
  unfolding runHook_def after_hooks_def Let_def by (intro keeps_intro)+

lemma keeps_mutation_call: "mutation_call r action n = Some m \<Longrightarrow> keeps I m"
  by (auto simp: mutation_call_def split: if_splits intro: keeps_call)

lemma keeps_mutateExisting: "durable I \<Longrightarrow> keeps I (mutateExisting r plan c action want)"
  unfolding mutateExisting_def Let_def by (intro keeps_intro keeps_evidence keeps_hooks; (assumption | erule keeps_mutation_call))

lemma keeps_observations:
  "keeps I (verifyGeneration r generation want)" "keeps I (observeRepairableGeneration r generation)"
  "keeps I (observe_all r cs obs)" "keeps I (verifyPrepared r plan hashes)" "keeps I (observe_active r plan active)"
proof -
  have v: "keeps I (verify_components r generation network want cs)" for generation network want cs
    by (induction cs) (auto intro!: keeps_intro)
  have o: "keeps I (observe_repairable r generation network cs obs)" for generation network cs obs
    by (induction cs arbitrary: obs) (auto simp: Let_def intro!: keeps_intro)
  have p: "keeps I (verify_prepared r plan network stored hashes cs)" for plan network stored hashes cs
    by (induction cs) (auto intro!: keeps_intro)
  have a: "keeps I (observe_all r cs obs)" for cs obs
    by (induction cs arbitrary: obs) (auto intro!: keeps_intro)
  have g: "keeps I (verifyGeneration r generation want)" "keeps I (observeRepairableGeneration r generation)" for generation want
    unfolding verifyGeneration_def observeRepairableGeneration_def Let_def by (intro keeps_intro v o)+
  show "keeps I (verifyGeneration r generation want)" "keeps I (observeRepairableGeneration r generation)"
    "keeps I (observe_all r cs obs)" "keeps I (verifyPrepared r plan hashes)" "keeps I (observe_active r plan active)"
    unfolding verifyPrepared_def observe_active_def by (intro keeps_intro a g p)+
qed

lemma durable_active_kept: "durable (active_kept db0)"
  unfolding durable_def by (auto simp: active_kept_steps intro: active_kept_record)

lemma verified_as_record:
  "mr_Evidence r now k t phase outcome facts db = Inr db' \<Longrightarrow> verified_as plan c db' = verified_as plan c db"
  using keeps_tables [of now k t phase outcome facts db db'] by (intro verified_as_cong) simp

lemma durable_started_as: "durable (started_as db0 plan S)"
  unfolding durable_def started_as_def
  by (auto simp: active_kept_steps verified_as_record intro: active_kept_record)

lemma keeps_store:
  "keeps (active_kept db0) (txn st (\<lambda>now. RecordMultiContainer now plan c cid im h cs v))"
  "keeps (active_kept db0) (txn st (\<lambda>_. RecordMultiNetwork plan networkID))"
  "keeps (active_kept db0) (txn st (\<lambda>now. PrepareMulti now plan))"
  "keeps (active_kept db0) (txn st (\<lambda>now. PromoteMigratedMulti now g networkID obs cs k t))"
  "keeps (active_kept db0) (mark_failed r plan cleanup)"
  unfolding mark_failed_def by (rule keeps_txn; erule (1) active_kept_multi_txns)+

lemma keeps_cleanupMultiCandidate: "durable I \<Longrightarrow> keeps I (cleanupMultiCandidate r plan)"
proof -
  assume I: "durable I"
  have "keeps I (cleanup_components r plan cs)" for cs
    by (induction cs) (auto simp: Let_def intro!: keeps_intro keeps_mutateExisting I)
  then show ?thesis
    unfolding cleanupMultiCandidate_def cleanup_multi_network_def Let_def by (intro keeps_intro)
qed

text \<open>The failure handlers end with an error, whatever they are asked to return.\<close>

lemma multi_failBeforeCutover_stage:
  "triple (active_kept db0) (multi_failBeforeCutover r plan cause) (stage (active_kept db0) K)"
  unfolding multi_failBeforeCutover_def
  by (intro triple_intro keeps_cleanupMultiCandidate durable_active_kept keeps_store triple_unknown triple_ret) simp_all

lemma multi_afterCutoverFailure_stage:
  "triple (active_kept db0) (multi_afterCutoverFailure r plan active stoppedOld started phase cause) (stage (active_kept db0) K)"
proof -
  let ?I = "active_kept db0"
  have s: "keeps ?I (stop_started r plan started cs)" for cs
    by (induction cs) (auto intro!: keeps_intro keeps_mutateExisting durable_active_kept)
  have t: "keeps ?I (restart_stopped r plan' stoppedOld cs)" for plan' cs
    by (induction cs) (auto intro!: keeps_intro keeps_mutateExisting durable_active_kept keeps_store)
  show ?thesis
    unfolding multi_afterCutoverFailure_def Let_def
    by (intro triple_intro keeps_query s t keeps_store multi_failBeforeCutover_stage triple_unknown) simp_all
qed

lemmas kept_intros = multi_failBeforeCutover_stage multi_afterCutoverFailure_stage triple_intro keeps_intro keeps_evidence keeps_hooks
  keeps_mutateExisting keeps_observations keeps_store durable_active_kept triple_unknown triple_fail

lemma keeps_multi_loadActive: "keeps (active_kept db0) (multi_loadActive r plan)"
  unfolding multi_loadActive_def promote_active_def Let_def by (intro kept_intros)

text \<open>Every pulled image is the one its reference pins.\<close>

definition pinned :: "ImageObservation go_map \<Rightarrow> bool" where
  "pinned pulled \<longleftrightarrow> (\<forall>(ref, img) \<in> set pulled. imageContainsDigest img ref)"

lemma pull_image_stage:
  "triple (active_kept db0) (pull_image r plan c) (stage (active_kept db0) (\<lambda>img db. active_kept db0 db \<and> imageContainsDigest img (mc_Image c)))"
  unfolding pull_image_def Let_def by (intro kept_intros triple_ret) simp_all

lemma pull_images_stage:
  "pinned pulled \<Longrightarrow> triple (active_kept db0) (pull_images r plan pulled cs)
    (stage (active_kept db0) (\<lambda>pulled' db. active_kept db0 db \<and> pinned pulled' \<and> fst ` set pulled \<union> mc_Image ` set cs \<subseteq> fst ` set pulled'))"
proof (induction cs arbitrary: pulled)
  case (Cons c cs)
  have pulled: "map_of pulled (mc_Image c) \<noteq> None \<Longrightarrow> mc_Image c \<in> fst ` set pulled" by (auto simp: map_of_eq_None_iff)
  show ?case
    unfolding pull_images.simps
    by (intro triple_if triple_post [OF Cons.IH] triple_stage [OF pull_image_stage] triple_fact triple_ret)
      (use Cons.prems pulled in \<open>auto simp: stage_def pinned_def split: sum.splits\<close>)
qed (auto intro!: triple_ret)

lemma keeps_of_stage: "triple I m (stage I (\<lambda>_. I)) \<Longrightarrow> keeps I m"
  unfolding triple_keeps [symmetric] by (erule triple_post) (simp add: stage_def split: sum.splits)

lemma keeps_create:
  "keeps (active_kept db0) (create_network r plan)" "keeps (active_kept db0) (create_components r plan network hashes cs)"
proof -
  show "keeps (active_kept db0) (create_network r plan)"
    unfolding create_network_def Let_def by (rule keeps_of_stage, (intro kept_intros triple_ret; simp?))
  have d: "keeps (active_kept db0) (dispatch_create r plan c)" for c
    unfolding dispatch_create_def Let_def by (rule keeps_of_stage, (intro kept_intros triple_ret; simp?))
  have "keeps (active_kept db0) (create_component r plan network c)" for c
    unfolding create_component_def by (rule keeps_of_stage, (intro d kept_intros triple_ret; simp?))
  then show "keeps (active_kept db0) (create_components r plan network hashes cs)"
    by (induction cs arbitrary: hashes) (auto intro!: keeps_intro)
qed

lemma keeps_stop_old_components: "keeps (active_kept db0) (stop_old_components r plan active obs)"
proof -
  have "keeps (active_kept db0) (stop_active r plan a obs stopped cs)" for a stopped cs
  proof (induction cs arbitrary: stopped)
    case (Cons c cs)
    show ?case
      unfolding stop_active.simps Let_def
      by (intro keeps_if Cons.IH, rule keeps_of_stage, intro kept_intros triple_of_keeps [OF Cons.IH]) (auto simp: stage_def split: sum.splits)
  qed (auto intro!: keeps_intro)
  then show ?thesis unfolding stop_old_components_def by (intro keeps_intro)
qed

lemma start_component_stage:
  assumes "mc_ID c \<notin> mc_ID ` S"
  shows "triple (started_as db0 plan S) (start_component r plan active hashes stopped started c)
    (stage (active_kept db0) (\<lambda>_. started_as db0 plan (insert c S)))"
proof -
  have failed: "triple (started_as db0 plan S) (multi_afterCutoverFailure r plan active stopped started phase cause)
      (stage (active_kept db0) K)" for phase cause K
    by (rule triple_pre [OF multi_afterCutoverFailure_stage]) (rule started_as_kept)
  show ?thesis
    unfolding start_component_def Let_def
    by (intro failed triple_txn [where J = "started_as db0 plan (insert c S)"] triple_intro keeps_intro keeps_mutateExisting
        durable_started_as keeps_hooks triple_unknown triple_ret)
      (auto intro: started_as_kept started_as_insert [OF _ assms])
qed

lemma start_components_stage:
  "distinct (map mc_ID cs) \<Longrightarrow> mc_ID ` S \<inter> mc_ID ` set cs = {} \<Longrightarrow>
    triple (started_as db0 plan S) (start_components r plan active hashes stopped started cs)
      (stage (active_kept db0) (\<lambda>_. started_as db0 plan (S \<union> set cs)))"
proof (induction cs arbitrary: S started)
  case (Cons c cs)
  then have "mc_ID c \<notin> mc_ID ` S" by auto
  moreover have "triple (started_as db0 plan (insert c S)) (start_components r plan active hashes stopped started' cs)
      (stage (active_kept db0) (\<lambda>_. started_as db0 plan (S \<union> set (c # cs))))" for started'
    using Cons.IH [of "insert c S"] Cons.prems by (simp add: disjoint_iff) 
  ultimately show ?case
    unfolding start_components.simps by (intro triple_stage [OF start_component_stage] triple_ret) simp_all
qed (auto intro!: triple_ret)

text \<open>After the commit the generation serves and its evidence stays as it was verified.\<close>

definition committed_as :: "MultiPlan \<Rightarrow> (string \<Rightarrow> string option) \<Rightarrow> helper_db \<Rightarrow> bool" where
  "committed_as plan ids db \<longleftrightarrow> serving (mp_InstallationID plan) (mp_Generation plan) db
     \<and> (\<forall>c \<in> set (mp_Components plan). verified_as plan c db
          \<and> map_option c_observed_container_id (comp_get db (mp_InstallationID plan, mp_Generation plan, mc_ID c)) = ids (mc_ID c))"

lemma committed_as_mono:
  assumes "committed_as plan ids db" and "active_kept db db'"
    and "\<And>k. comp_get db' (mp_InstallationID plan, mp_Generation plan, k) = comp_get db (mp_InstallationID plan, mp_Generation plan, k)"
  shows "committed_as plan ids db'"
  using assms by (auto simp: committed_as_def verified_as_def intro: serving_mono)

lemma committed_as_inv: "committed_as plan ids db \<Longrightarrow> store_inv db"
  by (auto simp: committed_as_def intro: serving_store_inv)

lemma durable_committed_as: "durable (committed_as plan ids)"
  unfolding durable_def
proof (intro conjI allI impI)
  show "committed_as plan ids (db\<lparr>steps := ss\<rparr>)" if "committed_as plan ids db" for db ss
    using that by (rule committed_as_mono) (simp_all add: active_kept_steps active_kept_refl committed_as_inv [OF that])
next
  fix now k t phase outcome facts db db'
  assume a: "committed_as plan ids db" and e: "mr_Evidence r now k t phase outcome facts db = Inr db'"
  have "active_kept db db'" using a active_kept_record [OF active_kept_refl e] by (simp add: committed_as_inv)
  with a show "committed_as plan ids db'" by (rule committed_as_mono) (simp add: keeps_tables [OF e])
qed

lemma committed_as_marks:
  assumes "committed_as plan ids db"
  shows "committed_as plan ids (MarkCleanupPending g db)"
    and "(ge_InstallationID g, ge_Generation g) \<noteq> (mp_InstallationID plan, mp_Generation plan) \<Longrightarrow> committed_as plan ids (MarkRemoved g db)"
proof -
  have inv: "store_inv db" using assms by (rule committed_as_inv)
  show "committed_as plan ids (MarkCleanupPending g db)"
    by (rule committed_as_mono [OF assms active_kept_txns(9) [OF active_kept_refl [OF inv]]]) (simp add: MarkCleanupPending_def)
  assume "(ge_InstallationID g, ge_Generation g) \<noteq> (mp_InstallationID plan, mp_Generation plan)"
  then have "comp_get (MarkRemoved g db) (mp_InstallationID plan, mp_Generation plan, k) = comp_get db (mp_InstallationID plan, mp_Generation plan, k)" for k
    by (cases "comp_get db (mp_InstallationID plan, mp_Generation plan, k)")
      (auto simp: MarkRemoved_def tbl_get_update comp_key_def in_comp_def dest: tbl_get_key)
  then show "committed_as plan ids (MarkRemoved g db)"
    by (rule committed_as_mono [OF assms active_kept_txns(8) [OF active_kept_refl [OF inv]]])
qed

lemma keeps_multi_cleanup_each:
  assumes "\<forall>g \<in> set gs. (mg_InstallationID g, mg_Generation g) \<noteq> (mp_InstallationID plan, mp_Generation plan)"
  shows "keeps (committed_as plan ids) (multi_cleanup_each r plan gs deferred)"
  using assms
proof (induction gs arbitrary: deferred)
  case (Cons g gs)
  let ?I = "committed_as plan ids"
  have p: "keeps ?I (txn st (\<lambda>_ db. Inr (MarkCleanupPending (bare_generation g) db)))" for st :: "'w store"
    by (rule keeps_txn) (auto intro: committed_as_marks)
  have m: "keeps ?I (txn st (\<lambda>_ db. Inr (MarkRemoved (bare_generation g) db)))" for st :: "'w store"
    by (rule keeps_txn) (use Cons.prems in \<open>auto simp: bare_generation_def intro!: committed_as_marks(2)\<close>)
  have c: "keeps ?I (remove_components r cs)" for cs
    by (induction cs) (auto intro!: keeps_intro)
  have "keeps ?I (multi_cleanup_old r plan g)"
    unfolding multi_cleanup_old_def remove_network_def Let_def by (intro keeps_intro keeps_hooks keeps_observations p m c)
  with Cons show ?case by (auto intro!: keeps_intro)
qed (auto intro: keeps_intro)

lemma keeps_multi_cleanupOlder: "keeps (committed_as plan ids) (multi_cleanupOlder r plan keep)"
  unfolding triple_keeps [symmetric] multi_cleanupOlder_def
proof (rule triple_query)
  fix older
  have "triple (\<lambda>db. committed_as plan ids db \<and> (\<forall>g \<in> set older. (mg_InstallationID g, mg_Generation g) \<noteq> (mp_InstallationID plan, mp_Generation plan)))
    (multi_cleanup_each r plan older False) (\<lambda>_. committed_as plan ids)"
    unfolding triple_keeps by (rule triple_fact) (rule keeps_multi_cleanup_each [folded triple_keeps])
  then show "triple (\<lambda>db. committed_as plan ids db \<and> MultiOlderRetained (mp_InstallationID plan) keep db = Inr older)
    (multi_cleanup_each r plan older False) (\<lambda>_. committed_as plan ids)"
    by (rule triple_pre) (auto simp: committed_as_def dest: older_not_serving)
qed (auto intro: triple_ret)

lemma multi_commit_post:
  "triple (started_as db0 plan (set (mp_Components plan))) (multi_commit r plan) (multi_post db0 plan)"
proof -
  let ?i = "mp_InstallationID plan" and ?n = "mp_Generation plan" and ?S = "set (mp_Components plan)"
  let ?J = "\<lambda>db. serving ?i ?n db \<and> (\<forall>c \<in> ?S. verified_as plan c db)"
  have err: "multi_post db0 plan (Inl (UnknownOutcome PhaseBeforeCommit e)) db" if "started_as db0 plan ?S db" for e db
    using that by (simp add: multi_post_error started_as_def)
  have commit: "?J db'" if "started_as db0 plan ?S db" "CommitMulti now plan db = Inr db'" for now db db'
  proof -
    have inv: "store_inv db" using that(1) by (simp add: started_as_def active_kept_def)
    note sw = CommitMulti_switches [OF inv that(2)]
    have "store_inv db'" using CommitMulti_effect [OF that(2)] inv by (simp add: store_effect_def)
    then show ?thesis using that(1) sw(1) by (auto simp: serving_iff started_as_def verified_as_def sw(3))
  qed
  have load: "triple (\<lambda>db. ?J db \<and> LoadMultiGeneration ?i ?n db = Inr g)
      (let result = (multiResult plan)\<lparr>re_Components :=
           fold (\<lambda>c. put (lc_ID c) (lc_ContainerID c)) (mg_Components g) (re_Components (multiResult plan))\<rparr> in
       attempt (multi_checkpoint r plan PhaseAfterCommit ''confirmed'' []) (unknown PhaseAfterCommit) (\<lambda>_.
       andThen (multi_cleanupOlder r plan keep) (\<lambda>deferred. ret (Inr (result\<lparr>re_CleanupDeferred := deferred\<rparr>)))))
      (multi_post db0 plan)" for g keep
  proof -
    let ?ids = "map_of (fold (\<lambda>c. put (lc_ID c) (lc_ContainerID c)) (mg_Components g) (re_Components (multiResult plan)))"
    have ids: "committed_as plan ?ids db" if "?J db \<and> LoadMultiGeneration ?i ?n db = Inr g" for db
      using that committed_components [OF _ conjunct2 [OF that]] by (fastforce simp: committed_as_def verified_as_def dest: serving_store_inv)
    show ?thesis
      unfolding Let_def
      by (rule triple_pre [where J = "committed_as plan ?ids", OF _ ids], intro triple_intro triple_unknown triple_ret keeps_evidence durable_committed_as keeps_multi_cleanupOlder)
        (auto simp: multi_post_def replaced_multi_def committed_as_def multiResult_def)
  qed
  show ?thesis
    unfolding multi_commit_def
    by (intro triple_attempt_keeps [OF keeps_evidence(1)] triple_attempt_keeps [OF keeps_hooks(1)] triple_txn [where J = ?J] triple_query
        durable_started_as triple_unknown load err commit) (auto simp: multi_post_def)
qed

lemma multi_cutover_post:
  assumes "distinct (map mc_ID (mp_Components plan))"
  shows "triple (active_kept db0) (multi_cutover r plan active hashes) (multi_post db0 plan)"
proof -
  have failed: "triple (active_kept db0) (multi_failBeforeCutover r plan cause) (multi_post db0 plan)" for cause
    by (rule triple_post [OF multi_failBeforeCutover_stage [where K = "\<lambda>_ _. False"]]) (auto simp: stage_def multi_post_error split: sum.splits)
  have start: "triple (active_kept db0) (start_components r plan active hashes stopped [] (mp_Components plan))
      (stage (active_kept db0) (\<lambda>_. started_as db0 plan (set (mp_Components plan))))" for stopped
    using start_components_stage [OF assms, of "{}" db0 plan] by (simp add: started_as_def [abs_def])
  show ?thesis
    unfolding multi_cutover_def Let_def
    by (intro triple_attempt_keeps [OF keeps_observations(5)] triple_attempt_keeps [OF keeps_observations(4)]
        triple_attempt_keeps [OF keeps_stop_old_components] triple_stage [OF start] multi_commit_post triple_ret failed multi_post_error)
qed

lemma multi_Replace_post:
  assumes "validateMultiPlan plan = Inr ()"
  shows "triple (active_kept db0) (multi_Replace r plan) (\<lambda>res db. \<exists>pulled.
     (is_ok res \<longrightarrow> pinned pulled \<and> mc_Image ` set (mp_Components plan) \<subseteq> fst ` set pulled) \<and> multi_post db0 (with_images plan pulled) res db)"
proof -
  let ?Q = "\<lambda>res db. \<exists>pulled. (is_ok res \<longrightarrow> pinned pulled \<and> mc_Image ` set (mp_Components plan) \<subseteq> fst ` set pulled)
    \<and> multi_post db0 (with_images plan pulled) res db"
  have err: "active_kept db0 db \<Longrightarrow> ?Q (Inl e) db" for e db by (auto intro: multi_post_error)
  have d: "distinct (map mc_ID (mp_Components (with_images plan pulled)))" for pulled
    using validateMultiPlan_distinct [OF assms] by (simp add: with_images_def with_defaults_def Let_def comp_def)
  have rest: "triple (active_kept db0) (let plan' = with_images plan pulled in
      attempt (create_network r plan') (\<lambda>e. ret (Inl e)) (\<lambda>network.
      attempt (create_components r plan' network [] (mp_Components plan')) (\<lambda>e. ret (Inl e)) (\<lambda>hashes. multi_cutover r plan' active hashes))) ?Q"
    if "pinned pulled" "mc_Image ` set (mp_Components plan) \<subseteq> fst ` set pulled" for pulled active
    unfolding Let_def
    by (intro triple_attempt_keeps [OF keeps_create(1)] triple_attempt_keeps [OF keeps_create(2)] triple_ret err
        triple_post [OF multi_cutover_post [OF d]]) (use that in auto)
  show ?thesis
    unfolding multi_Replace_def assms
    by (intro triple_attempt_ret triple_attempt_keeps [OF keeps_multi_loadActive] triple_attempt_keeps [OF keeps_store(3)] triple_if triple_fail
        triple_stage [OF pull_images_stage] triple_ret err triple_fact rest) (auto simp: pinned_def)
qed

end

section \<open>The helper's runner\<close>

interpretation multi_replacement: component_runner "helper_multi_runner rt st" for rt st
  by (simp add: component_runner_def helper_multi_runner_def coordinator_log.evidence_log_axioms)


end
