(* ===== verification/Operate_Spec.thy ===== *)
theory Operate_Spec
  imports Operate Multi_Spec
begin

text \<open>
  The outcomes of the ordinary lifecycle actions: none of them but a completed removal
  changes what is active, and a completed action leaves every component recorded in the
  state the action asked for.
\<close>

section \<open>The state of an operation\<close>

text \<open>
  Generation \<open>n\<close> serves, its components are among \<open>ids\<close> and those of \<open>S\<close> are recorded
  in state \<open>st\<close>.
\<close>

definition operating ::
  "helper_db \<Rightarrow> string \<Rightarrow> int \<Rightarrow> string set \<Rightarrow> string set \<Rightarrow> comp_state \<Rightarrow> helper_db \<Rightarrow> bool" where
  "operating db0 i n ids S st db \<longleftrightarrow> active_kept db0 db \<and> serving i n db
     \<and> (\<forall>row \<in> set (components db). in_comp i n row \<longrightarrow> c_component_id row \<in> ids \<and> (c_component_id row \<in> S \<longrightarrow> c_state row = st))"

lemma operating_cong:
  assumes "operating db0 i n ids S st db" and "active_kept db db'" and "components db' = components db"
  shows "operating db0 i n ids S st db'"
  using assms by (auto simp: operating_def active_kept_def intro: serving_mono)

lemma operating_restart: "operating db0 i n ids S st db \<Longrightarrow> operating db0 i n ids {} st' db"
  by (simp add: operating_def)

lemma operating_record:
  assumes "operating db0 i n ids S st db" and "RecordMultiContainer now plan k cid im h st v db = Inr db'"
    and "mp_InstallationID plan = i" "mp_Generation plan = n"
  shows "operating db0 i n ids (insert k S) st db'"
proof -
  from assms(2-4) obtain f where db': "db' = set_comps (\<lambda>c. in_comp i n c \<and> c_component_id c = k) f db"
    and f: "\<And>c. in_comp i n (f c) = in_comp i n c" "\<And>c. c_component_id (f c) = c_component_id c" "\<And>c. c_state (f c) = st"
    by (fastforce simp: RecordMultiContainer_def Let_def bind_result_Inr_iff in_comp_def split: if_splits)
  have "active_kept db0 db'" using active_kept_multi_txns(5) [OF _ assms(2)] assms(1) by (auto simp: operating_def)
  moreover have "serving i n db'"
    using assms(1) active_kept_multi_txns(5) [OF active_kept_refl assms(2)] by (auto simp: operating_def intro: serving_mono serving_store_inv)
  ultimately show ?thesis
    using assms(1) f by (auto simp: operating_def db' set_sql_update)
qed

definition all_in_state :: "string \<Rightarrow> int \<Rightarrow> comp_state \<Rightarrow> helper_db \<Rightarrow> bool" where
  "all_in_state i n st db \<longleftrightarrow> (\<forall>row \<in> set (components db). in_comp i n row \<longrightarrow> c_state row = st)"

text \<open>A completed removal takes exactly this generation out of the active ones.\<close>

definition removed_from :: "helper_db \<Rightarrow> string \<Rightarrow> int \<Rightarrow> helper_db \<Rightarrow> bool" where
  "removed_from db0 i n db \<longleftrightarrow> store_inv db \<and> status_at db (i, n) = Some GRemoved
     \<and> (\<forall>g \<in> active_rows db0. gen_key g \<noteq> (i, n) \<longrightarrow> g \<in> active_rows db) \<and> all_in_state i n CsRemoved db"

lemma MarkActiveRemoved_removes:
  assumes "active_kept db0 db" and "serving i n db" and "MarkActiveRemoved i n k t db = Inr db'"
  shows "removed_from db0 i n db'"
proof -
  let ?P = "\<lambda>r. in_gen i n r \<and> g_status r = GActive"
  from assms(3) have db': "db' = set_comps (in_comp i n) (\<lambda>c. c\<lparr>c_state := CsRemoved\<rparr>)
      (set_gens ?P (\<lambda>r. r\<lparr>g_status := GRemoved, g_cleanup_state := CClean\<rparr>) db)"
    by (auto simp: MarkActiveRemoved_def Let_def bind_result_Inr_iff split: if_splits)
  have inv: "store_inv db'" using MarkActiveRemoved_effect [OF assms(3)] assms(1) by (auto simp: store_effect_def active_kept_def)
  obtain g where g: "gen_get db (i, n) = Some g" "g_status g = GActive"
    using assms(2) by (auto simp: serving_iff status_at_def)
  then have "status_at db' (i, n) = Some GRemoved"
    using tbl_get_key [OF g(1)] by (simp add: db' status_at_def tbl_get_update gen_key_def in_gen_def)
  moreover have "g \<in> active_rows db'" if "g \<in> active_rows db0" "gen_key g \<noteq> (i, n)" for g
  proof -
    have "g \<in> active_rows db" using that(1) assms(1) by (auto simp: active_kept_def)
    moreover have "\<not> in_gen i n g" using that(2) by (simp add: in_gen_def gen_key_def)
    ultimately show ?thesis
      unfolding active_rows_def db' by (simp add: set_sql_update)
  qed
  moreover have "all_in_state i n CsRemoved db'"
    unfolding db' all_in_state_def by (simp add: set_sql_update in_comp_def ball_Un) blast
  ultimately show ?thesis using inv by (simp add: removed_from_def)
qed

section \<open>The generation an action works on\<close>

lemma first_row_mem: "first_row xs = Inr x \<Longrightarrow> x \<in> set xs"
  by (cases xs) (auto simp: first_row_def)

lemma MultiCurrent_known:
  assumes "store_inv db" and "MultiCurrent i db = Inr g"
  shows "status_at db (i, mg_Generation g) = Some (mg_Status g)"
    and "row \<in> set (components db) \<Longrightarrow> in_comp i (mg_Generation g) row \<Longrightarrow> c_component_id row \<in> lc_ID ` set (mg_Components g)"
proof -
  have wf: "tbl_wf gen_key (generations db)" using assms(1) by (simp add: store_inv_def)
  from assms(2) obtain n where load: "LoadMultiGeneration i n db = Inr g"
    by (auto simp: MultiCurrent_def bind_result_Inr_iff)
  then obtain r where r: "gen_get db (i, n) = Some r" and g: "mg_Generation g = g_runtime_generation r" "mg_Status g = g_status r"
      "lc_ID ` set (mg_Components g) = c_component_id ` set (filter (in_comp i n) (components db))"
    by (fastforce simp: LoadMultiGeneration_def bind_result_Inr_iff sql_row_gen [OF wf, where Q = "\<lambda>_. True", simplified] image_image
        split: option.splits)
  have n: "g_runtime_generation r = n" using tbl_get_key [OF r] by (simp add: gen_key_def)
  show "status_at db (i, mg_Generation g) = Some (mg_Status g)" using r g n by (simp add: status_at_def)
  show "c_component_id row \<in> lc_ID ` set (mg_Components g)" if "row \<in> set (components db)" "in_comp i (mg_Generation g) row"
    using that g n by auto
qed

lemma operating_current:
  assumes "active_kept db0 db" and "MultiCurrent i db = Inr g" and "mg_Status g = GActive"
  shows "operating db0 i (mg_Generation g) (lc_ID ` set (mg_Components g)) {} st db"
proof -
  have inv: "store_inv db" using assms(1) by (simp add: active_kept_def)
  show ?thesis using assms MultiCurrent_known [OF inv assms(2)] inv by (auto simp: operating_def serving_iff)
qed

section \<open>Postconditions\<close>

definition requested_state :: "string \<Rightarrow> comp_state" where
  "requested_state action = (if action = ''stop'' then CsStopped else if action = ''remove'' then CsRemoved else CsRunning)"

definition operated :: "helper_db \<Rightarrow> string \<Rightarrow> int \<Rightarrow> string \<Rightarrow> helper_db \<Rightarrow> bool" where
  "operated db0 i n action db \<longleftrightarrow> (if action = ''remove'' then removed_from db0 i n db else active_kept db0 db \<and> serving i n db)"

lemma operated_of: "operating db0 i n ids S st db \<Longrightarrow> action \<noteq> ''remove'' \<Longrightarrow> operated db0 i n action db"
  by (simp add: operated_def operating_def)

context component_runner
begin

lemma durable_operating: "durable (operating db0 i n ids S st)"
  unfolding durable_def
proof (intro conjI allI impI)
  show "operating db0 i n ids S st (db\<lparr>steps := ss\<rparr>)" if "operating db0 i n ids S st db" for db ss
    using that by (rule operating_cong) (use that in \<open>auto simp: active_kept_steps operating_def serving_def intro: active_kept_refl\<close>)
next
  fix now k t phase outcome facts db db'
  assume o: "operating db0 i n ids S st db" and e: "mr_Evidence r now k t phase outcome facts db = Inr db'"
  have "store_inv db" using o by (simp add: operating_def serving_def)
  then show "operating db0 i n ids S st db'"
    using operating_cong [OF o active_kept_record [OF active_kept_refl e]] keeps_tables [OF e] by simp
qed

lemma apply_each_stage:
  assumes "mp_InstallationID plan = i" and "mp_Generation plan = n"
  shows "triple (operating db0 i n ids S (state_for want)) (apply_each r plan mutation want mutated cs)
    (stage (active_kept db0) (\<lambda>_. operating db0 i n ids (S \<union> lc_ID ` set cs) (state_for want)))"
proof (induction cs arbitrary: S mutated)
  case (Cons c cs)
  have IH: "triple (operating db0 i n ids (insert (lc_ID c) S) (state_for want)) (apply_each r plan mutation want True cs)
      (stage (active_kept db0) (\<lambda>_. operating db0 i n ids (S \<union> lc_ID ` set (c # cs)) (state_for want)))"
    using Cons.IH [of "insert (lc_ID c) S"] by simp
  show ?case
    unfolding apply_each.simps
    by (intro triple_attempt_keeps [OF keeps_mutateExisting [OF durable_operating]] triple_if triple_unknown triple_ret
        triple_txn [OF _ _ IH] operating_record [OF _ _ assms]) (auto simp: operating_def)
qed (auto intro!: triple_ret)

lemma perform_stage:
  assumes plan: "mp_InstallationID plan = i" "mp_Generation plan = n" and n: "mg_Generation g = n"
    and ids: "ids = lc_ID ` set (mg_Components g)"
  shows "triple (operating db0 i n ids {} st) (perform r plan g i k t action)
    (stage (active_kept db0) (\<lambda>_ db. operated db0 i n action db \<and> all_in_state i n (requested_state action) db))"
proof -
  have kept: "operating db0 i n ids S st' db \<Longrightarrow> active_kept db0 db" for S st' db by (simp add: operating_def)
  have app: "triple (operating db0 i n ids {} st0) (apply_each r plan mutation want False cs)
      (stage (active_kept db0) (\<lambda>_. operating db0 i n ids ids (state_for want)))"
    if "set cs = set (mg_Components g)" for st0 mutation want cs
    using triple_pre [OF apply_each_stage [OF plan, of db0 ids "{}" want mutation False cs] operating_restart] by (simp add: that ids)
  have all: "all_in_state i n st' db" if "operating db0 i n ids ids st' db" for st' db
    using that by (auto simp: operating_def all_in_state_def)
  have rev: "set (reverseComponents (mg_Components g)) = set (mg_Components g)" by (simp add: reverseComponents_def)
  note up = app [OF refl, of _ "''start''" RuntimeRunning] and down = app [OF rev, of _ "''stop''" RuntimeStopped]
    and away = app [OF rev, of _ "''remove''" RuntimeMissing]
  have act: "triple P m (stage (active_kept db0) (\<lambda>_ db. operated db0 i n action db \<and> all_in_state i n (requested_state action) db))"
    if "triple P m (stage (active_kept db0) (\<lambda>_. operating db0 i n ids ids st'))" "action \<noteq> ''remove''" "requested_state action = st'" for P m st'
    by (rule triple_post [OF that(1)]) (auto simp: stage_def that(3) split: sum.splits intro: operated_of [OF _ that(2)] all)
  have restart: "triple (operating db0 i n ids {} st) (attempt (apply_each r plan ''stop'' RuntimeStopped False (reverseComponents (mg_Components g)))
      (\<lambda>e. ret (Inl e)) (\<lambda>_. apply_each r plan ''start'' RuntimeRunning False (mg_Components g)))
      (stage (active_kept db0) (\<lambda>_. operating db0 i n ids ids CsRunning))"
    by (intro triple_stage [OF down] triple_pre [OF up [unfolded state_for_def, simplified] operating_restart] triple_ret) simp_all
  have mark: "triple (operating db0 i n ids ids st') (attempt (txn (mr_Store r) (\<lambda>_. MarkActiveRemoved i (mg_Generation g) k t)) fail (\<lambda>_. ret (Inr ())))
      (stage (active_kept db0) (\<lambda>_. removed_from db0 i n))" for st'
    by (rule triple_txn [where J = "removed_from db0 i n"])
      (auto simp: n operating_def intro!: triple_fail triple_ret elim!: MarkActiveRemoved_removes)
  have net: "keeps I (remove_active_network r g)" for I
    unfolding remove_active_network_def Let_def by (intro keeps_intro)
  have remove: "triple (operating db0 i n ids {} st)
      (attempt (apply_each r plan ''stop'' RuntimeStopped False (reverseComponents (mg_Components g))) (\<lambda>e. ret (Inl e)) (\<lambda>_.
       attempt (apply_each r plan ''remove'' RuntimeMissing False (reverseComponents (mg_Components g))) (\<lambda>e. ret (Inl e)) (\<lambda>_.
       attempt (remove_active_network r g) (\<lambda>e. ret (Inl e)) (\<lambda>_.
       attempt (txn (mr_Store r) (\<lambda>_. MarkActiveRemoved i (mg_Generation g) k t)) fail (\<lambda>_. ret (Inr ()))))))
      (stage (active_kept db0) (\<lambda>_. removed_from db0 i n))"
    by (intro triple_stage [OF down] triple_stage [OF triple_pre [OF away operating_restart]] triple_attempt_keeps [OF net] mark triple_ret)
      (auto dest: kept)
  show ?thesis
    unfolding perform_def Let_def
    by (intro triple_if act [OF up] act [OF down] act [OF restart] triple_post [OF remove] triple_fail)
      (auto simp: requested_state_def state_for_def operated_def removed_from_def stage_def split: sum.splits dest: kept)
qed

lemma operate_active_stage:
  "triple (\<lambda>db. active_kept db0 db \<and> MultiCurrent i db = Inr g) (operate_active r i k t action g)
    (stage (active_kept db0) (\<lambda>result db. operated db0 i (re_Generation result) action db
       \<and> all_in_state i (re_Generation result) (requested_state action) db \<and> re_RuntimeState result = runtime_state_of action))"
proof (cases "mg_Status g = GActive")
  case True
  let ?n = "mg_Generation g" and ?ids = "lc_ID ` set (mg_Components g)"
  have "triple (operating db0 i ?n ?ids {} CsUnknown) (operate_active r i k t action g)
    (stage (active_kept db0) (\<lambda>result db. operated db0 i (re_Generation result) action db
       \<and> all_in_state i (re_Generation result) (requested_state action) db \<and> re_RuntimeState result = runtime_state_of action))"
    unfolding operate_active_def Let_def
    by (intro triple_if triple_attempt_keeps [OF keeps_evidence(1) [OF durable_operating]] triple_attempt_keeps [OF keeps_call]
        triple_stage [OF perform_stage [OF _ _ refl refl]] triple_fail triple_unknown triple_ret)
      (auto simp: operating_def operate_plan_def)
  then show ?thesis by (rule triple_pre) (use True in \<open>auto intro: operating_current\<close>)
next
  case False
  then show ?thesis by (auto simp: operate_active_def intro!: triple_fail)
qed

lemma adopt_migrated_stage:
  "triple (active_kept db0) (adopt_migrated r i k t g) (stage (active_kept db0) (\<lambda>g' db. active_kept db0 db \<and> MultiCurrent i db = Inr g'))"
  unfolding adopt_migrated_def Let_def
  by (intro triple_query triple_intro keeps_intro keeps_observations keeps_store triple_fail triple_ret) auto

lemma multi_Operate_post:
  "triple (active_kept db0) (multi_Operate r i k t action)
    (stage (active_kept db0) (\<lambda>result db. operated db0 i (re_Generation result) action db
       \<and> all_in_state i (re_Generation result) (requested_state action) db \<and> re_RuntimeState result = runtime_state_of action))"
proof -
  have ev: "keeps (active_kept db0) (txn (mr_Store r) (\<lambda>now. mr_Evidence r now k t phase outcome facts))" for phase outcome facts
    by (rule keeps_txn) (rule active_kept_record)
  have adopt: "triple (\<lambda>db. active_kept db0 db \<and> MultiCurrent i db = Inr g)
      (if mg_Status g = GVerificationRequired then adopt_migrated r i k t g else ret (Inr g))
      (stage (active_kept db0) (\<lambda>g' db. active_kept db0 db \<and> MultiCurrent i db = Inr g'))" for g
    by (intro triple_if triple_pre [OF adopt_migrated_stage] triple_ret) auto
  show ?thesis
    unfolding multi_Operate_def
    by (intro triple_attempt_keeps [OF ev] triple_query triple_stage [OF adopt] operate_active_stage triple_fail triple_ret) auto
qed

end

section \<open>One component\<close>

definition working :: "helper_db \<Rightarrow> string \<Rightarrow> int \<Rightarrow> helper_db \<Rightarrow> bool" where
  "working db0 i n db \<longleftrightarrow> active_kept db0 db \<and> serving i n db"

lemma active_kept_inv: "active_kept db0 db \<Longrightarrow> store_inv db"
  by (simp add: active_kept_def)

lemma Current_known:
  assumes "store_inv db" and "Current i db = Inr g"
  shows "ge_InstallationID g = i" and "status_at db (i, ge_Generation g) = ge_Status g"
proof -
  have wf: "tbl_wf gen_key (generations db)" using assms(1) by (simp add: store_inv_def)
  from assms(2) obtain gr c where r: "gr \<in> set (generations db)" "g_installation_id gr = i" and g: "g = load_row db (gr, c)"
    by (auto simp: Current_def bind_result_Inr_iff generationSelect_def dest!: first_row_mem)
  have "gen_get db (i, g_runtime_generation gr) = Some gr" using tbl_get_of_mem [OF wf r(1)] r(2) by (simp add: gen_key_def)
  then show "ge_InstallationID g = i" "status_at db (i, ge_Generation g) = ge_Status g"
    using r(2) by (simp_all add: g load_row_def scanGeneration_def status_at_def Let_def)
qed

lemma PromoteMigratedState_serves:
  assumes "store_inv db" and "PromoteMigratedState now g networkID imageID h st k t db = Inr db'"
  shows "serving (ge_InstallationID g) (ge_Generation g) db'"
proof -
  let ?i = "ge_InstallationID g" and ?n = "ge_Generation g"
  let ?P = "\<lambda>r. in_gen ?i ?n r \<and> g_status r = GVerificationRequired"
  let ?f = "\<lambda>r. r\<lparr>g_status := GActive, g_observed_network_id := networkID, g_verified_at := Some now, g_committed_at := Some now, g_cleanup_state := CClean\<rparr>"
  have wf: "tbl_wf gen_key (generations db)" using assms(1) by (simp add: store_inv_def)
  from assms(2) have one: "sql_count ?P (generations db) = 1" and gens: "generations db' = sql_update ?P ?f (generations db)"
    by (auto simp: PromoteMigratedState_def Let_def bind_result_Inr_iff activate_Inr_iff split: if_splits)
  have "(case gen_get db (?i, ?n) of None \<Rightarrow> 0 | Some r \<Rightarrow> if g_status r = GVerificationRequired then 1 else 0) = (1 :: nat)"
    using one unfolding sql_count_gen [OF wf] .
  then obtain row where row: "gen_get db (?i, ?n) = Some row" "g_status row = GVerificationRequired"
    by (auto split: option.splits if_splits)
  moreover have "in_gen ?i ?n row" using tbl_get_key [OF row(1)] by (simp add: gen_key_def in_gen_def)
  ultimately have "status_at db' (?i, ?n) = Some GActive" by (simp add: status_at_def gens tbl_get_update gen_key_def)
  with PromoteMigratedState_effect [OF assms(2)] assms(1) show ?thesis by (simp add: serving_iff store_effect_def)
qed

locale single_runner = evidence_log "sr_Evidence r" for r :: "'w SingleRunner"

sublocale single_runner \<subseteq> component: component_runner "mutator r"
  by (simp add: component_runner_def mutator_def evidence_log_axioms)

context single_runner
begin

lemma durable_working: "component.durable (working db0 i n)"
proof -
  have "working db0 i n = operating db0 i n UNIV {} CsUnknown" by (auto simp: working_def operating_def)
  then show ?thesis by (simp add: component.durable_operating)
qed

lemma keeps_observeExact: "keeps I (observeExact r g)"
  unfolding observeExact_def by (intro keeps_intro)

lemma working_txn:
  assumes "working db0 i n db" and "active_kept db0 db \<Longrightarrow> active_kept db0 db'" and "active_kept db db \<Longrightarrow> active_kept db db'"
  shows "working db0 i n db'"
  using assms by (auto simp: working_def intro: serving_mono active_kept_refl serving_store_inv)

lemma keeps_single_apply: "keeps (working db0 i n) (single_apply r plan g mutation want)"
proof -
  have "keeps (working db0 i n) (txn (sr_Store r) (\<lambda>now. RecordMultiContainer now plan k cid im h cs v))" for k cid im h cs v
    by (rule keeps_txn) (auto intro: working_txn active_kept_multi_txns)
  then show ?thesis
    unfolding single_apply_def single_phase_def Let_def case_prod_unfold
    by (intro keeps_intro keeps_observeExact component.keeps_evidence component.keeps_mutateExisting durable_working)
qed

lemma single_perform_stage:
  assumes "mp_InstallationID plan = i" and "ge_Generation g = n" and "action \<in> set [''start'', ''stop'', ''restart'', ''remove'']"
  shows "triple (working db0 i n) (single_perform r plan g observed network action) (stage (active_kept db0) (\<lambda>_. operated db0 i n action))"
proof -
  have kept: "working db0 i n db \<Longrightarrow> active_kept db0 db" for db by (simp add: working_def)
  have app: "triple (working db0 i n) (single_apply r plan g mutation want) (stage (active_kept db0) (\<lambda>_. operated db0 i n action))"
    if "action \<noteq> ''remove''" for mutation want
    by (rule triple_of_keeps [OF keeps_single_apply]) (use that in \<open>auto simp: stage_def working_def operated_def split: sum.splits\<close>)
  have net: "keeps (working db0 i n) (single_remove_network r plan g network)"
    unfolding single_remove_network_def single_phase_def by (intro keeps_intro component.keeps_evidence durable_working)
  have mark: "triple (working db0 i n)
      (attempt (txn (sr_Store r) (\<lambda>_. MarkActiveRemoved (mp_InstallationID plan) (ge_Generation g) (mp_OperationID plan) (mp_FencingToken plan)))
         fail (\<lambda>_. ret (Inr ()))) (stage (active_kept db0) (\<lambda>_. removed_from db0 i n))"
    by (rule triple_txn [where J = "removed_from db0 i n"])
      (auto simp: assms working_def intro!: triple_fail triple_ret elim!: MarkActiveRemoved_removes)
  show ?thesis
    unfolding single_perform_def Let_def
    by (intro triple_if app triple_attempt_keeps [OF keeps_single_apply] triple_attempt_keeps [OF keeps_if [OF keeps_single_apply keeps_ret]]
        triple_attempt_keeps [OF component.keeps_mutateExisting [OF durable_working]] triple_attempt_keeps [OF net] triple_post [OF mark] triple_ret)
      (use assms(3) in \<open>auto dest: kept simp: stage_def operated_def split: sum.splits\<close>)
qed

lemma single_promote_stage:
  "triple (\<lambda>db. active_kept db0 db \<and> Current i db = Inr g) (single_promote r k t g observed network)
    (stage (active_kept db0) (\<lambda>g' db. active_kept db0 db \<and> (ge_Status g' = Some GActive \<longrightarrow> serving i (ge_Generation g') db)))"
proof (cases "ge_Status g = Some GVerificationRequired")
  case True
  show ?thesis
    unfolding single_promote_def
    by (intro triple_if triple_fail triple_ret triple_txn [where J = "\<lambda>db. active_kept db0 db \<and> serving i (ge_Generation g) db"])
      (auto simp: True dest: Current_known PromoteMigratedState_serves active_kept_inv intro: active_kept_multi_txns(3))
next
  case False
  have "serving i (ge_Generation g) db" if "active_kept db0 db" "Current i db = Inr g" "ge_Status g = Some GActive" for db
    using that Current_known(2) [OF active_kept_inv [OF that(1)] that(2)] by (simp add: serving_iff active_kept_inv)
  with False show ?thesis
    unfolding single_promote_def by (auto intro!: triple_ret)
qed

lemma single_Operate_post:
  "triple (active_kept db0) (single_Operate r i k t action)
    (stage (active_kept db0) (\<lambda>result db. operated db0 i (re_Generation result) action db \<and> re_RuntimeState result = runtime_state_of action))"
proof (cases "action \<in> set [''start'', ''stop'', ''restart'', ''remove'']")
  case True
  have ev: "keeps (active_kept db0) (txn (sr_Store r) (\<lambda>now. sr_Evidence r now k t phase outcome facts))" for phase outcome facts
    by (rule keeps_txn) (rule active_kept_record)
  have run: "triple (\<lambda>db. active_kept db0 db \<and> (ge_Status g = Some GActive \<longrightarrow> serving i (ge_Generation g) db))
      (single_perform r (single_operate_plan i k t g) g observed network action) (stage (active_kept db0) (\<lambda>_. operated db0 i (ge_Generation g) action))"
    if "ge_Status g = Some GActive" for g observed network
    by (rule triple_pre [OF single_perform_stage [OF _ refl True]]) (use that in \<open>auto simp: single_operate_plan_def working_def\<close>)
  show ?thesis
    unfolding single_Operate_def case_prod_unfold
    by (intro triple_if triple_attempt_keeps [OF ev] triple_query triple_attempt_keeps [OF keeps_observeExact] triple_stage [OF single_promote_stage]
        triple_stage [OF run] triple_fail triple_ret) auto
next
  case False
  then show ?thesis unfolding single_Operate_def by (auto intro!: triple_fail)
qed

end

section \<open>The helper's runners\<close>

definition helper_single_runner :: "'w LifecycleRuntime \<Rightarrow> 'w store \<Rightarrow> 'w SingleRunner" where
  "helper_single_runner rt st = \<lparr>sr_Runtime = rt, sr_Store = st, sr_Evidence = RecordPhase\<rparr>"

interpretation single_operation: single_runner "helper_single_runner rt st" for rt st
  by (simp add: single_runner_def helper_single_runner_def coordinator_log.evidence_log_axioms)


text \<open>
  The same for an application with one component: only a completed removal changes what
  is active.
\<close>

theorem single_operate_outcome:
  assumes "store_inv db" and "single_Operate (helper_single_runner rt st) i k t action (w, db) = (res, (w', db'))"
  shows "case res of Inl e \<Rightarrow> active_kept db db'
    | Inr result \<Rightarrow> operated db i (re_Generation result) action db' \<and> re_RuntimeState result = runtime_state_of action"
  using tripleD [OF single_operation.single_Operate_post active_kept_refl [OF assms(1)] assms(2)]
  by (simp add: stage_def split: sum.splits)

end
