(* ===== verification/Runner_Live.thy ===== *)
theory Runner_Live
  imports Runner_Spec
begin

text \<open>
  A first installation completes. The runtime of this theory is one that does what it is
  asked: it creates, starts and observes the container of one plan. On it, with a database
  whose accesses do not fail and an operation that holds its lease, the staged replacement
  runs through all its stages and returns the new generation.
\<close>

section \<open>The operation holds its lease\<close>

definition executing_fence :: "Plan \<Rightarrow> helper_db \<Rightarrow> bool" where
  "executing_fence plan db \<longleftrightarrow> tbl_wf o_operation_id (operations db)
     \<and> (\<exists>x l. fenced db (pl_OperationID plan) (pl_FencingToken plan) x l
          \<and> o_installation_id x = pl_InstallationID plan \<and> o_state x = StateExecuting)"

lemma executing_fence_cong:
  "operations db' = operations db \<Longrightarrow> leases db' = leases db \<Longrightarrow> executing_fence plan db' = executing_fence plan db"
  by (simp add: executing_fence_def fenced_def)

lemma executing_fence_effect: "store_effect i db db' \<Longrightarrow> executing_fence plan db' = executing_fence plan db"
  by (rule executing_fence_cong) (simp_all add: store_effect_def)

lemma generation_fence: "executing_fence plan db \<Longrightarrow>
    verifyGenerationFence (pl_InstallationID plan) (pl_OperationID plan) (pl_FencingToken plan) db = Inr ()"
  by (auto simp: executing_fence_def fenced_def verifyGenerationFence_def sql_row_key op_row_of_def scan_token_def)

lemma RecordPhase_executing:
  assumes "executing_fence plan db"
  obtains db' where "RecordPhase now (pl_OperationID plan) (pl_FencingToken plan) phase outcome facts db = Inr db'"
    and "executing_fence plan db'"
proof -
  let ?k = "pl_OperationID plan" and ?t = "pl_FencingToken plan"
  let ?P = "\<lambda>o'. o_operation_id o' = ?k \<and> o_fencing_token o' = Some ?t \<and> o_state o' = StateExecuting"
  let ?f = "\<lambda>o'. o'\<lparr>o_current_phase := phase, o_updated_at := now\<rparr>"
  let ?db = "update_ops ?P ?f db"
  from assms obtain x l where x: "fenced db ?k ?t x l" "o_installation_id x = pl_InstallationID plan" "o_state x = StateExecuting"
    and wf: "tbl_wf o_operation_id (operations db)"
    by (auto simp: executing_fence_def)
  have get: "op_get ?db ?k = Some (?f x)"
    using x tbl_get_key [of o_operation_id ?k "operations db" x] by (simp add: update_ops_def tbl_get_update fenced_def)
  have "verifyFence ?k ?t db = Inr ()" using x(1) verifyFence_iff by blast
  moreover have "sql_count ?P (operations db) = 1"
    using sql_count_key [OF wf, of ?k "\<lambda>o'. o_fencing_token o' = Some ?t \<and> o_state o' = StateExecuting"] x
    by (simp add: fenced_def)
  ultimately have "RecordPhase now ?k ?t phase outcome facts db =
      Inr (appendEvent ?k (pl_InstallationID plan) (Some ?t) (''lifecycle_phase_'' @ outcome) phase facts now ?db)"
    using x(2) get by (simp add: RecordPhase_def Let_def op_row_of_def sql_row_key)
  moreover have "fenced ?db ?k ?t (?f x) l" using get x(1) by (simp add: fenced_def update_ops_def)
  moreover have "tbl_wf o_operation_id (operations ?db)" using wf by (simp add: update_ops_def tbl_wf_update)
  ultimately show ?thesis using that x by (auto simp: executing_fence_def fenced_def appendEvent_def)
qed

section \<open>The record of the candidate\<close>

text \<open>The plan's generation is the only one of its installation, with this status, hash and state.\<close>

definition at_stage :: "Plan \<Rightarrow> gen_status \<Rightarrow> string \<Rightarrow> comp_state \<Rightarrow> helper_db \<Rightarrow> bool" where
  "at_stage plan st h cs db \<longleftrightarrow> store_inv db \<and> executing_fence plan db
     \<and> (\<forall>g \<in> set (generations db). g_installation_id g = pl_InstallationID plan \<longrightarrow> g_runtime_generation g = pl_Generation plan)
     \<and> (\<exists>g. gen_get db (pl_InstallationID plan, pl_Generation plan) = Some g \<and> g_status g = st
          \<and> g_creating_operation_id g = pl_OperationID plan)
     \<and> (\<exists>c. comp_get db (pl_InstallationID plan, pl_Generation plan, ''app'') = Some c
          \<and> c_configuration_hash c = h \<and> c_state c = cs)"

lemma at_stage_record:
  assumes "at_stage plan st h cs db"
  obtains db' where "RecordPhase now (pl_OperationID plan) (pl_FencingToken plan) phase outcome facts db = Inr db'"
    and "at_stage plan st h cs db'"
proof -
  from assms obtain db' where db': "RecordPhase now (pl_OperationID plan) (pl_FencingToken plan) phase outcome facts db = Inr db'"
    and "executing_fence plan db'"
    by (auto simp: at_stage_def intro: RecordPhase_executing)
  with assms coordinator_log.keeps_tables [OF db'] coordinator_log.store_inv_record [OF db'] that show ?thesis
    by (auto simp: at_stage_def)
qed

lemma at_stage_RecordNetwork:
  assumes "at_stage plan GPrepared h cs db"
  obtains db' where "RecordNetwork plan networkID db = Inr db'" and "at_stage plan GCandidate h cs db'"
proof -
  let ?i = "pl_InstallationID plan" and ?n = "pl_Generation plan"
  let ?P = "\<lambda>r. in_gen ?i ?n r \<and> g_creating_operation_id r = pl_OperationID plan \<and> g_status r = GPrepared"
  let ?db = "set_gens ?P (\<lambda>r. r\<lparr>g_status := GCandidate, g_observed_network_id := networkID\<rparr>) db"
  from assms obtain g where g: "gen_get db (?i, ?n) = Some g" "g_status g = GPrepared" "g_creating_operation_id g = pl_OperationID plan"
    and wf: "tbl_wf gen_key (generations db)"
    by (auto simp: at_stage_def store_inv_def)
  have run: "RecordNetwork plan networkID db = Inr ?db"
    using g sql_count_gen [OF wf] by (simp add: RecordNetwork_def Let_def)
  have "in_gen ?i ?n g" using tbl_get_key [OF g(1)] by (simp add: gen_key_def in_gen_def)
  then have "gen_get ?db (?i, ?n) = Some (g\<lparr>g_status := GCandidate, g_observed_network_id := networkID\<rparr>)"
    using g by (simp add: tbl_get_update gen_key_def)
  moreover note RecordNetwork_effect [OF run]
  ultimately have "at_stage plan GCandidate h cs ?db"
    using assms g executing_fence_effect [OF RecordNetwork_effect [OF run]]
    by (auto simp: at_stage_def store_effect_def set_sql_update)
  with run that show ?thesis by blast
qed

lemma at_stage_set_comps:
  assumes "at_stage plan st h cs db" and "store_effect (pl_InstallationID plan) db (set_comps P f db)"
    and "\<And>c. comp_key (f c) = comp_key c"
    and "\<And>c. comp_get db (pl_InstallationID plan, pl_Generation plan, ''app'') = Some c \<Longrightarrow>
      P c \<and> c_configuration_hash (f c) = h' \<and> c_state (f c) = cs'"
  shows "at_stage plan st h' cs' (set_comps P f db)"
  using assms executing_fence_effect [OF assms(2)]
  by (auto simp: at_stage_def store_effect_def tbl_get_update)

lemma app_row:
  assumes "at_stage plan st h cs db"
  obtains c where "comp_get db (pl_InstallationID plan, pl_Generation plan, ''app'') = Some c"
    and "in_comp (pl_InstallationID plan) (pl_Generation plan) c" and "c_component_id c = ''app''" and "c \<in> set (components db)"
    and "sql_count (\<lambda>c. in_comp (pl_InstallationID plan) (pl_Generation plan) c \<and> c_component_id c = ''app'') (components db) = 1"
proof -
  from assms obtain c where c: "comp_get db (pl_InstallationID plan, pl_Generation plan, ''app'') = Some c"
    and wf: "tbl_wf comp_key (components db)"
    by (auto simp: at_stage_def store_inv_def)
  have "sql_count (\<lambda>c. in_comp (pl_InstallationID plan) (pl_Generation plan) c \<and> c_component_id c = ''app'') (components db) = 1"
    using sql_count_key_only [OF wf, of "(pl_InstallationID plan, pl_Generation plan, ''app'')"] c
    by (simp add: comp_key_def in_comp_def conj_assoc)
  with that c tbl_get_key [OF c] tbl_get_mem [OF c] show ?thesis by (auto simp: comp_key_def in_comp_def)
qed

lemma at_stage_RecordContainer:
  assumes "at_stage plan GCandidate h cs db"
  obtains db' where "RecordContainer now plan containerID imageID h' cs' db = Inr db'" and "at_stage plan GCandidate h' cs' db'"
proof -
  let ?i = "pl_InstallationID plan" and ?n = "pl_Generation plan"
  from assms obtain g where g: "gen_get db (?i, ?n) = Some g" "g_status g = GCandidate" "g_creating_operation_id g = pl_OperationID plan"
    by (auto simp: at_stage_def)
  then have ex: "\<exists>r \<in> set (generations db). is_candidate ?i ?n (pl_OperationID plan) r"
    using tbl_get_key [OF g(1)] tbl_get_mem [OF g(1)] by (auto simp: is_candidate_def in_gen_def gen_key_def)
  from assms obtain c where c: "comp_get db (?i, ?n, ''app'') = Some c" "in_comp ?i ?n c" "c_component_id c = ''app''"
    "sql_count (\<lambda>c. in_comp ?i ?n c \<and> c_component_id c = ''app'') (components db) = 1" by (rule app_row)
  have "verifyGenerationFence ?i (pl_OperationID plan) (pl_FencingToken plan) db = Inr ()"
    using assms generation_fence by (simp add: at_stage_def)
  with ex c(4) obtain P f where run: "RecordContainer now plan containerID imageID h' cs' db = Inr (set_comps P f db)"
    and "P = (\<lambda>c. in_comp ?i ?n c \<and> c_component_id c = ''app'')" "\<And>c. comp_key (f c) = comp_key c"
      "\<And>c. c_configuration_hash (f c) = h'" "\<And>c. c_state (f c) = cs'"
    by (simp add: RecordContainer_def Let_def comp_key_def)
  then have "at_stage plan GCandidate h' cs' (set_comps P f db)"
    using RecordContainer_effect [OF run] c by (intro at_stage_set_comps [OF assms]) auto
  with run that show ?thesis by blast
qed

lemma at_stage_RecordState:
  assumes "at_stage plan st h cs db"
  obtains db' where "RecordState now plan cs' v db = Inr db'" and "at_stage plan st h cs' db'"
proof -
  let ?i = "pl_InstallationID plan" and ?n = "pl_Generation plan"
  from assms obtain c where c: "comp_get db (?i, ?n, ''app'') = Some c" "in_comp ?i ?n c" "c_component_id c = ''app''"
    "sql_count (\<lambda>c. in_comp ?i ?n c \<and> c_component_id c = ''app'') (components db) = 1" by (rule app_row)
  then obtain P f where run: "RecordState now plan cs' v db = Inr (set_comps P f db)"
    and "P = (\<lambda>c. in_comp ?i ?n c \<and> c_component_id c = ''app'')" "\<And>c. comp_key (f c) = comp_key c"
      "\<And>c. c_configuration_hash (f c) = c_configuration_hash c" "\<And>c. c_state (f c) = cs'"
    by (simp add: RecordState_def Let_def comp_key_def)
  then have "at_stage plan st h cs' (set_comps P f db)"
    using RecordState_effect [OF run] c assms by (intro at_stage_set_comps [OF assms]) (auto simp: at_stage_def)
  with run that show ?thesis by blast
qed

lemma current_generation_fresh:
  assumes "\<And>g. g \<in> set (generations db) \<Longrightarrow> g_installation_id g = i \<Longrightarrow> g_status g \<noteq> GActive \<and> g_status g \<noteq> GRemoved"
  shows "current_generation i db = (False, 0)"
  using assms by (auto simp: current_generation_def active_row_None_iff max_removed_def filter_empty_conv split: option.splits)

lemma at_stage_Commit:
  assumes "at_stage plan GCandidate h CsRunning db" and "h \<noteq> []" and "pl_ExpectedGeneration plan = 0"
  obtains db' where "Commit now plan db = Inr db'" and "executing_fence plan db'"
proof -
  let ?i = "pl_InstallationID plan" and ?n = "pl_Generation plan"
  from assms have inv: "store_inv db" and f: "executing_fence plan db" by (simp_all add: at_stage_def)
  from assms obtain g where g: "gen_get db (?i, ?n) = Some g" "g_status g = GCandidate" "g_creating_operation_id g = pl_OperationID plan"
    by (auto simp: at_stage_def)
  have "g' = g" if "g' \<in> set (generations db)" "g_installation_id g' = ?i" for g'
    using that assms(1) g(1) inv tbl_get_of_mem [of gen_key "generations db" g'] by (auto simp: at_stage_def store_inv_def gen_key_def)
  with g have "current_generation ?i db = (False, 0)" by (intro current_generation_fresh) auto
  with assms g f have "committable plan db"
    by (auto simp: committable_def Let_def generation_fence at_stage_def)
  then have run: "Commit now plan db = Inr (commit_result now plan db)" using Commit_Inr_iff [OF inv] by simp
  with that executing_fence_effect [OF Commit_effect [OF run]] f show ?thesis by blast
qed

text \<open>Preparation in an installation without generations.\<close>

definition bindings_ok :: "Binding list \<Rightarrow> bool" where
  "bindings_ok bs \<longleftrightarrow> length bs \<le> MaxBindings \<and> distinct (map eb_ServiceID bs)
     \<and> (\<forall>b \<in> set bs. eb_Transport b \<in> set [TCP, UDP] \<and> 1 \<le> eb_ContainerPort b \<and> eb_ContainerPort b \<le> 65535
          \<and> eb_Mode b \<in> set [Internal, Loopback, LAN] \<and> 0 \<le> eb_HostPort b \<and> eb_HostPort b \<le> 65535)"

definition fresh :: "Plan \<Rightarrow> helper_db \<Rightarrow> bool" where
  "fresh plan db \<longleftrightarrow> store_inv db \<and> executing_fence plan db
     \<and> (\<forall>g \<in> set (generations db). g_installation_id g \<noteq> pl_InstallationID plan)"

lemma insert_bindings_ok:
  assumes "gen_exists i n db" and "distinct (map eb_ServiceID bs)"
    and "\<And>b x. b \<in> set bs \<Longrightarrow> x \<in> set (bindings db) \<Longrightarrow> binding_key x \<noteq> (i, n, eb_ServiceID b)"
    and "\<And>b. b \<in> set bs \<Longrightarrow> eb_Transport b \<in> set [TCP, UDP] \<and> 1 \<le> eb_ContainerPort b \<and> eb_ContainerPort b \<le> 65535
          \<and> eb_Mode b \<in> set [Internal, Loopback, LAN] \<and> 0 \<le> eb_HostPort b \<and> eb_HostPort b \<le> 65535"
  shows "\<exists>bs'. insert_bindings i n bs db = Inr (db\<lparr>bindings := bs'\<rparr>)"
  using assms
proof (induction bs arbitrary: db)
  case (Cons b bs)
  let ?b = "\<lparr>b_installation_id = i, b_runtime_generation = n, b_service_id = eb_ServiceID b,
       b_transport = eb_Transport b, b_container_port = eb_ContainerPort b, b_mode = eb_Mode b,
       b_host_address = eb_HostAddress b, b_host_port = eb_HostPort b\<rparr>"
  let ?db = "db\<lparr>bindings := bindings db @ [?b]\<rparr>"
  have "insert_binding ?b db = Inr ?db"
    using Cons.prems by (auto simp: insert_binding_Inr_iff binding_check_def tbl_get_None_iff binding_key_def)
  moreover have "binding_key x \<noteq> (i, n, eb_ServiceID b')" if b': "b' \<in> set bs" and x: "x \<in> set (bindings ?db)" for b' x
  proof (cases "x = ?b")
    case True
    with Cons.prems(2) b' show ?thesis by (auto simp: binding_key_def)
  next
    case False
    with Cons.prems(3) [of b' x] b' x show ?thesis by simp
  qed
  then have "\<exists>bs'. insert_bindings i n bs ?db = Inr (?db\<lparr>bindings := bs'\<rparr>)"
    using Cons.prems(1,2,4) by (intro Cons.IH) (simp_all add: gen_exists_insert_comp)
  ultimately show ?case by auto
next
  case Nil
  show ?case by (rule exI [of _ "bindings db"]) simp
qed

lemma fresh_Prepare:
  assumes "fresh plan db" and "bindings_ok (pl_Bindings plan)"
  obtains db' where "Prepare now plan db = Inr db'" and "at_stage plan GPrepared [] CsUnknown db'"
proof -
  let ?i = "pl_InstallationID plan" and ?n = "pl_Generation plan"
  let ?row = "prepared_gen now (pl_OperationID plan) (pl_ApplicationID plan) (pl_ReleaseID plan)
            (pl_NetworkName plan) (pl_PlanHash plan) [] (pl_DataPath plan) ?i ?n"
  let ?comp = "prepared_comp now ?i ?n ''app'' (pl_ContainerName plan) (pl_Image plan) [] 0"
  let ?db = "db\<lparr>generations := generations db @ [?row], components := components db @ [?comp]\<rparr>"
  from assms have inv: "store_inv db" and no: "\<And>g. g \<in> set (generations db) \<Longrightarrow> g_installation_id g \<noteq> ?i"
    by (auto simp: fresh_def)
  then have noc: "c_installation_id c \<noteq> ?i" if "c \<in> set (components db)" for c
    using that by (auto simp: store_inv_def gen_exists_def in_gen_def)
  from inv no have nob: "b_installation_id b \<noteq> ?i" if "b \<in> set (bindings db)" for b
    using that by (auto simp: store_inv_def gen_exists_def in_gen_def)
  have none: "sql_row (in_gen ?i ?n) (generations db) = Inl ErrNoRows"
    using no by (auto simp: sql_row_def in_gen_def find_None_all split: option.splits dest: find_SomeD)
  have g: "insert_gen ?row db = Inr (db\<lparr>generations := generations db @ [?row]\<rparr>)"
    using no inv by (auto simp: insert_gen_Inr_iff tbl_get_None_iff gen_key_def prepared_gen_def store_inv_def one_active_def)
  have c: "insert_comp ?comp (db\<lparr>generations := generations db @ [?row]\<rparr>) = Inr ?db"
    using noc by (auto simp: insert_comp_Inr_iff tbl_get_None_iff comp_key_def prepared_comp_def ordinal_free_def gen_exists_def
        in_gen_def in_comp_def prepared_gen_def)
  obtain bs' where b: "replaceBindings ?i ?n (pl_Bindings plan) ?db = Inr (?db\<lparr>bindings := bs'\<rparr>)"
  proof -
    have "\<exists>bs'. insert_bindings ?i ?n (Normalize (pl_Bindings plan))
        (?db\<lparr>bindings := filter (\<lambda>b. \<not> (b_installation_id b = ?i \<and> b_runtime_generation b = ?n)) (bindings ?db)\<rparr>)
      = Inr (?db\<lparr>bindings := filter (\<lambda>b. \<not> (b_installation_id b = ?i \<and> b_runtime_generation b = ?n)) (bindings ?db)\<rparr>\<lparr>bindings := bs'\<rparr>)"
      using assms(2) nob by (intro insert_bindings_ok)
        (auto simp: bindings_ok_def Normalize_def gen_exists_def in_gen_def prepared_gen_def binding_key_def distinct_map)
    then show ?thesis using that assms(2) by (auto simp: replaceBindings_def bindings_ok_def)
  qed
  from none g c b have run: "Prepare now plan db = Inr (?db\<lparr>bindings := bs'\<rparr>)" by (simp add: Prepare_def Let_def)
  have "gen_get (?db\<lparr>bindings := bs'\<rparr>) (?i, ?n) = Some ?row" "comp_get (?db\<lparr>bindings := bs'\<rparr>) (?i, ?n, ''app'') = Some ?comp"
  proof -
    have "gen_get db (?i, ?n) = None" using no by (auto simp: tbl_get_None_iff gen_key_def)
    moreover have "comp_get db (?i, ?n, ''app'') = None" using noc by (auto simp: tbl_get_None_iff comp_key_def)
    moreover have "gen_key ?row = (?i, ?n)" "comp_key ?comp = (?i, ?n, ''app'')"
      by (simp_all add: gen_key_def comp_key_def prepared_gen_def prepared_comp_def)
    ultimately show "gen_get (?db\<lparr>bindings := bs'\<rparr>) (?i, ?n) = Some ?row"
      "comp_get (?db\<lparr>bindings := bs'\<rparr>) (?i, ?n, ''app'') = Some ?comp" by (simp_all add: tbl_get_append)
  qed
  with assms(1) Prepare_effect [OF run] executing_fence_effect [OF Prepare_effect [OF run], of plan]
  have "at_stage plan GPrepared [] CsUnknown (?db\<lparr>bindings := bs'\<rparr>)"
    by (auto simp: at_stage_def fresh_def store_effect_def prepared_gen_def prepared_comp_def)
  with run that show ?thesis by blast
qed

section \<open>A runtime that does what it is asked\<close>

text \<open>Whether the plan's network exists, and the state of its container when there is one.\<close>

record sim =
  sim_network :: bool
  sim_container :: "string option"

definition sim_empty :: sim where
  "sim_empty = \<lparr>sim_network = False, sim_container = None\<rparr>"

definition sim_image :: "Plan \<Rightarrow> ImageObservation" where
  "sim_image plan = \<lparr>im_Exists = True, im_ID = ''image'', im_RepoDigests = [pl_Image plan],
     im_ConfiguredUser = ct_ImageDefaultUser (pl_Container plan), im_ConfiguredVolumes = ct_ImageDefaultVolumes (pl_Container plan)\<rparr>"

definition sim_net :: "Plan \<Rightarrow> sim \<Rightarrow> NetworkObservation" where
  "sim_net plan w = \<lparr>nw_Exists = sim_network w, nw_ID = ''net-1'', nw_Name = pl_NetworkName plan, nw_Labels = ct_Labels (pl_Container plan)\<rparr>"

definition sim_observe :: "Plan \<Rightarrow> string \<Rightarrow> ContainerObservation" where
  "sim_observe plan st = (let c = pl_Container plan in \<lparr>co_Exists = (st \<noteq> RuntimeMissing), co_ID = ''c-1'', co_Name = pl_ContainerName plan,
     co_ImageID = ''image'', co_ImageReference = pl_Image plan, co_State = st, co_Health = [], co_Labels = ct_Labels c,
     co_User = (if ct_User c = [] then ct_ImageDefaultUser c else ct_User c), co_Command = ct_Command c,
     co_Environment = ct_Environment c, co_RestartPolicy = ct_RestartPolicy c, co_Mounts = normalizeExpectedMounts c,
     co_Networks = [(pl_NetworkName plan, \<lparr>na_NetworkID = ''net-1'', na_Aliases = []\<rparr>)], co_NetworkMode = pl_NetworkName plan,
     co_PortBindings = ct_PortBindings c, co_Devices = ct_Devices c, co_DeviceRequests = ct_DeviceRequests c\<rparr>)"

definition sim_now :: "sim \<Rightarrow> string" where
  "sim_now w = (case sim_container w of None \<Rightarrow> RuntimeMissing | Some st \<Rightarrow> st)"

definition sim_runtime :: "Plan \<Rightarrow> sim LifecycleRuntime" where
  "sim_runtime plan = \<lparr>PullImage = (\<lambda>_ w. (Inr (), w)), ObserveImage = (\<lambda>_ w. (Inr (sim_image plan), w)),
     CreateLifecycleNetwork = (\<lambda>_ _ w. let w' = w\<lparr>sim_network := True\<rparr> in (Inr (sim_net plan w'), w')),
     ObserveNetwork = (\<lambda>_ w. (Inr (sim_net plan w), w)),
     CreateLifecycleContainer = (\<lambda>_ w. (Inr ''c-1'', w\<lparr>sim_container := Some RuntimeStopped\<rparr>)),
     ObserveContainer = (\<lambda>_ w. (Inr (sim_observe plan (sim_now w)), w)),
     StartContainer = (\<lambda>_ w. (Inr (), w\<lparr>sim_container := Some RuntimeRunning\<rparr>)),
     StopContainer = (\<lambda>_ w. (Inr (), w\<lparr>sim_container := Some RuntimeStopped\<rparr>)),
     RemoveContainer = (\<lambda>_ w. (Inr (), w\<lparr>sim_container := None\<rparr>)),
     RemoveLifecycleNetwork = (\<lambda>_ w. (Inr (), w\<lparr>sim_network := False\<rparr>)),
     WaitContainer = (\<lambda>_ want w. (if sim_now w = want then Inr (sim_observe plan want) else Inl (ErrInfrastructure ''timeout''), w))\<rparr>"

text \<open>Database accesses that do not fail.\<close>

definition steady :: "string \<Rightarrow> 'w store" where
  "steady now w = (Inr now, w)"

text \<open>A plan whose container carries its labels and mounts each path once.\<close>

definition plan_consistent :: "Plan \<Rightarrow> bool" where
  "plan_consistent plan \<longleftrightarrow> lookup_str (ct_Labels (pl_Container plan)) LabelManaged = ''true''
     \<and> lookup_str (ct_Labels (pl_Container plan)) LabelInstance = pl_InstallationID plan
     \<and> lookup_str (ct_Labels (pl_Container plan)) LabelGeneration = itoa (pl_Generation plan)
     \<and> distinct (map mo_Destination (normalizeExpectedMounts (pl_Container plan)))"

lemma sim_verified:
  assumes "plan_consistent plan" and "sim_network w" and "st = RuntimeRunning \<or> st = RuntimeStopped"
  shows "verifyCandidate plan (sim_net plan w) (sim_observe plan st) st = Inr ()"
  using assms
  by (auto simp: verifyCandidate_def sim_net_def sim_observe_def Let_def owned_def plan_consistent_def network_identity_def
      configuration_matches_def resources_match_def runtimeUserMatches_def containsStrings_def list_all_iff mountsMatch_iff equalJSON_def)

lemma sim_hash: "observationHash (sim_observe plan st) = observationHash (sim_observe plan st')"
  by (simp add: observationHash_def json_of_observation_def sim_observe_def Let_def)

section \<open>The run\<close>

abbreviation sim_runner :: "Plan \<Rightarrow> sim Runner" where
  "sim_runner plan \<equiv> helper_runner (sim_runtime plan) (steady ''now'')"

text \<open>One step of a run whose database accesses do not fail.\<close>

lemma attempt_txn: "attempt (txn (steady now) f) h k (w, db) =
    (case f now db of Inl e \<Rightarrow> h e (w, db) | Inr db' \<Rightarrow> k () (w, db'))"
  by (simp add: attempt_def andThen_def txn_def steady_def split: sum.splits)

lemma attempt_query: "attempt (query (steady now) f) h k (w, db) = (case f db of Inl e \<Rightarrow> h e (w, db) | Inr x \<Rightarrow> k x (w, db))"
  "andThen (query (steady now) f) k' (w, db) = k' (f db) (w, db)"
  by (simp_all add: attempt_def andThen_def query_def steady_def split: sum.splits)

lemma attempt_call: "attempt (call f) h k (w, db) =
    (case f w of (Inl e, w') \<Rightarrow> h e (w', db) | (Inr x, w') \<Rightarrow> k x (w', db))"
  by (simp add: attempt_def andThen_def call_def split: sum.splits prod.splits)

lemma attempt_ret: "attempt (ret x) h k s = (case x of Inl e \<Rightarrow> h e s | Inr y \<Rightarrow> k y s)"
  by (simp add: attempt_def andThen_def ret_def split: sum.splits)

lemma attempt_checkpoint: "attempt (checkpoint (sim_runner p) plan phase outcome facts) h k (w, db) =
    (case RecordPhase ''now'' (pl_OperationID plan) (pl_FencingToken plan) phase outcome facts db of
       Inl e \<Rightarrow> h e (w, db) | Inr db' \<Rightarrow> k () (w, db'))"
  by (simp add: attempt_def andThen_def checkpoint_def RecordPhase_run_def txn_def steady_def ret_def call_def split: sum.splits)

lemmas sim_steps = attempt_txn attempt_query attempt_call attempt_ret attempt_checkpoint

lemma replace_commit_ok:
  assumes "at_stage plan GCandidate h CsRunning db" and "h \<noteq> []" and "pl_ExpectedGeneration plan = 0"
  shows "\<exists>result s'. replace_commit (sim_runner p) plan observed (w, db) = (Inr result, s')"
proof -
  from assms(1) obtain db1 where 1: "RecordPhase ''now'' (pl_OperationID plan) (pl_FencingToken plan) PhaseBeforeCommit ''intent'' [] db = Inr db1"
    "at_stage plan GCandidate h CsRunning db1" by (rule at_stage_record)
  from 1(2) assms(2,3) obtain db2 where 2: "Commit ''now'' plan db1 = Inr db2" "executing_fence plan db2" by (rule at_stage_Commit)
  from 2(2) obtain db3 where 3: "RecordPhase ''now'' (pl_OperationID plan) (pl_FencingToken plan) PhaseAfterCommit ''confirmed'' [] db2 = Inr db3"
    by (rule RecordPhase_executing)
  show ?thesis
    by (simp add: replace_commit_def Let_def sim_steps 1(1) 2(1) 3 andThen_def ret_def split: prod.splits)
qed

lemma sim_simps [simp]:
  "ObserveNetwork (sim_runtime plan) name w = (Inr (sim_net plan w), w)"
  "ObserveContainer (sim_runtime plan) name w = (Inr (sim_observe plan (sim_now w)), w)"
  "StartContainer (sim_runtime plan) name w = (Inr (), w\<lparr>sim_container := Some RuntimeRunning\<rparr>)"
  "WaitContainer (sim_runtime plan) name want w =
     (if sim_now w = want then Inr (sim_observe plan want) else Inl (ErrInfrastructure ''timeout''), w)"
  "CreateLifecycleContainer (sim_runtime plan) c w = (Inr ''c-1'', w\<lparr>sim_container := Some RuntimeStopped\<rparr>)"
  "CreateLifecycleNetwork (sim_runtime plan) name labels w = (Inr (sim_net plan (w\<lparr>sim_network := True\<rparr>)), w\<lparr>sim_network := True\<rparr>)"
  "PullImage (sim_runtime plan) ref w = (Inr (), w)"
  "ObserveImage (sim_runtime plan) ref w = (Inr (sim_image plan), w)"
  "sim_now (w\<lparr>sim_container := Some st\<rparr>) = st" "nw_ID (sim_net plan w) = ''net-1''"
  "co_ID (sim_observe plan st) = ''c-1''" "co_ImageID (sim_observe plan st) = ''image''"
  by (simp_all add: sim_runtime_def Let_def sim_now_def sim_net_def sim_observe_def)

lemma replace_verify_ok:
  assumes "at_stage plan GCandidate (observationHash (sim_observe plan RuntimeStopped)) CsRunning db"
    and "pl_ExpectedGeneration plan = 0" and "plan_consistent plan" and "sim_network w" and "sim_now w = RuntimeRunning"
  shows "\<exists>result s'. replace_verify (sim_runner plan) plan active cid (observationHash (sim_observe plan RuntimeStopped)) (w, db) = (Inr result, s')"
proof -
  let ?h = "observationHash (sim_observe plan RuntimeStopped)"
  from assms(1) obtain db1 where 1: "RecordPhase ''now'' (pl_OperationID plan) (pl_FencingToken plan) PhaseBeforeVerification ''intent'' [] db = Inr db1"
    "at_stage plan GCandidate ?h CsRunning db1" by (rule at_stage_record)
  from 1(2) obtain db2 where 2: "RecordState ''now'' plan CsRunning True db1 = Inr db2" "at_stage plan GCandidate ?h CsRunning db2"
    by (rule at_stage_RecordState)
  from 2(2) obtain db3 where 3: "RecordPhase ''now'' (pl_OperationID plan) (pl_FencingToken plan) PhaseAfterVerification ''confirmed''
      [(''runtime_state'', ''running''), (''health'', co_Health (sim_observe plan RuntimeRunning))] db2 = Inr db3"
    "at_stage plan GCandidate ?h CsRunning db3" by (rule at_stage_record)
  from replace_commit_ok [OF 3(2) observationHash_nonempty assms(2)]
  show ?thesis
    using assms(5) sim_hash [of plan RuntimeRunning RuntimeStopped]
    by (simp add: replace_verify_def Let_def sim_steps 1(1) 2(1) 3(1) sim_verified [OF assms(3,4)])
qed

lemma replace_start_ok:
  assumes "at_stage plan GCandidate (observationHash (sim_observe plan RuntimeStopped)) CsStopped db"
    and "pl_ExpectedGeneration plan = 0" and "plan_consistent plan" and "sim_network w"
  shows "\<exists>result s'. replace_start (sim_runner plan) plan active cid (observationHash (sim_observe plan RuntimeStopped)) (w, db) = (Inr result, s')"
proof -
  let ?h = "observationHash (sim_observe plan RuntimeStopped)"
  from assms(1) obtain db1 where 1: "RecordPhase ''now'' (pl_OperationID plan) (pl_FencingToken plan) PhaseBeforeCandidateStart ''intent'' [] db = Inr db1"
    "at_stage plan GCandidate ?h CsStopped db1" by (rule at_stage_record)
  from 1(2) obtain db2 where 2: "RecordState ''now'' plan CsRunning False db1 = Inr db2" "at_stage plan GCandidate ?h CsRunning db2"
    by (rule at_stage_RecordState)
  from 2(2) obtain db3 where 3: "RecordPhase ''now'' (pl_OperationID plan) (pl_FencingToken plan) PhaseAfterCandidateStart ''confirmed'' [] db2 = Inr db3"
    "at_stage plan GCandidate ?h CsRunning db3" by (rule at_stage_record)
  let ?w = "w\<lparr>sim_container := Some RuntimeRunning\<rparr>"
  have "\<exists>result s'. replace_verify (sim_runner plan) plan active cid ?h (?w, db3) = (Inr result, s')"
    using assms(4) by (intro replace_verify_ok [OF 3(2) assms(2,3)]) simp_all
  then show ?thesis by (simp add: replace_start_def sim_steps 1(1) 2(1) 3(1))
qed

lemma replace_container_ok:
  assumes "at_stage plan GCandidate [] CsUnknown db"
    and "pl_ExpectedGeneration plan = 0" and "plan_consistent plan" and "sim_network w"
  shows "\<exists>result s'. replace_container (sim_runner plan) plan zero_generation (sim_net plan w) (w, db) = (Inr result, s')"
proof -
  let ?o = "sim_observe plan RuntimeStopped"
  let ?h = "observationHash ?o"
  from assms(1) obtain db1 where 1: "RecordPhase ''now'' (pl_OperationID plan) (pl_FencingToken plan) PhaseBeforeContainer ''intent'' [] db = Inr db1"
    "at_stage plan GCandidate [] CsUnknown db1" by (rule at_stage_record)
  from 1(2) obtain db2 where 2: "RecordContainer ''now'' plan ''c-1'' [] [] CsCreated db1 = Inr db2" "at_stage plan GCandidate [] CsCreated db2"
    by (rule at_stage_RecordContainer)
  from 2(2) obtain db3 where 3: "RecordContainer ''now'' plan ''c-1'' ''image'' ?h CsStopped db2 = Inr db3" "at_stage plan GCandidate ?h CsStopped db3"
    by (rule at_stage_RecordContainer)
  from 3(2) obtain db4 where 4: "RecordPhase ''now'' (pl_OperationID plan) (pl_FencingToken plan) PhaseAfterContainer ''confirmed''
      [(''container_id'', ''c-1''), (''configuration_hash'', ?h)] db3 = Inr db4"
    "at_stage plan GCandidate ?h CsStopped db4" by (rule at_stage_record)
  let ?w = "w\<lparr>sim_container := Some RuntimeStopped\<rparr>"
  have n: "sim_net plan ?w = sim_net plan w" by (simp add: sim_net_def)
  have "\<exists>result s'. replace_start (sim_runner plan) plan zero_generation ''c-1'' ?h (?w, db4) = (Inr result, s')"
    using assms(4) by (intro replace_start_ok [OF 4(2) assms(2,3)]) simp
  then have "\<exists>result s'. replace_cutover (sim_runner plan) plan zero_generation ''c-1'' ?h (?w, db4) = (Inr result, s')"
    using sim_verified [OF assms(3,4), of RuntimeStopped]
    by (simp add: replace_cutover_def zero_generation_def sim_steps Let_def n)
  then show ?thesis
    using sim_verified [OF assms(3,4), of RuntimeStopped]
    by (simp add: replace_container_def Let_def sim_steps 1(1) 2(1) 3(1) 4(1))
qed

lemma fresh_record:
  assumes "fresh plan db"
  obtains db' where "RecordPhase now (pl_OperationID plan) (pl_FencingToken plan) phase outcome facts db = Inr db'" and "fresh plan db'"
proof -
  from assms obtain db' where db': "RecordPhase now (pl_OperationID plan) (pl_FencingToken plan) phase outcome facts db = Inr db'"
    and "executing_fence plan db'"
    by (auto simp: fresh_def intro: RecordPhase_executing)
  with assms coordinator_log.keeps_tables [OF db'] coordinator_log.store_inv_record [OF db'] that show ?thesis
    by (auto simp: fresh_def)
qed

lemma Backfill_fresh:
  assumes "\<forall>o' \<in> set (ownership db). w_instance_id o' \<noteq> i"
  shows "BackfillInstallation i db = Inr db"
proof -
  have "filter (\<lambda>o'. w_instance_id o' = i \<and> P o') (ownership db) = []" for P using assms by (auto simp: filter_empty_conv)
  then show ?thesis by (simp add: BackfillInstallation_def Let_def)
qed

lemma Current_fresh: "fresh plan db \<Longrightarrow> Current (pl_InstallationID plan) db = Inl ErrNoRows"
proof -
  assume "fresh plan db"
  then have "filter (\<lambda>(g, c). g_installation_id g = pl_InstallationID plan \<and> g_status g \<in> set [GActive, GVerificationRequired, GRemoved])
      (generationSelect db) = []"
    by (auto simp: fresh_def generationSelect_def filter_empty_conv)
  then show ?thesis by (simp add: Current_def first_row_def)
qed

lemma Replace_ok:
  assumes "fresh plan db" and "\<forall>o' \<in> set (ownership db). w_instance_id o' \<noteq> pl_InstallationID plan"
    and "bindings_ok (pl_Bindings plan)" and "plan_consistent plan"
    and "pl_ExpectedGeneration plan = 0" and "pl_Generation plan = 1"
  shows "\<exists>result s'. Replace (sim_runner plan) plan (sim_empty, db) = (Inr result, s')"
proof -
  have p: "with_image plan (sim_image plan) = plan" by (simp add: with_image_def sim_image_def)
  have d: "imageContainsDigest (sim_image plan) (pl_Image plan)" by (simp add: imageContainsDigest_def sim_image_def)
  from assms(1) obtain db1 where 1: "RecordPhase ''now'' (pl_OperationID plan) (pl_FencingToken plan) PhaseBeforePull ''intent'' [] db = Inr db1"
    "fresh plan db1" by (rule fresh_record)
  from 1(2) obtain db2 where 2: "RecordPhase ''now'' (pl_OperationID plan) (pl_FencingToken plan) PhaseAfterPull ''confirmed''
      [(''image_id'', im_ID (sim_image plan))] db1 = Inr db2" "fresh plan db2" by (rule fresh_record)
  from 2(2) assms(3) obtain db3 where 3: "Prepare ''now'' plan db2 = Inr db3" "at_stage plan GPrepared [] CsUnknown db3" by (rule fresh_Prepare)
  from 3(2) obtain db4 where 4: "RecordPhase ''now'' (pl_OperationID plan) (pl_FencingToken plan) PhaseBeforeNetwork ''intent'' [] db3 = Inr db4"
    "at_stage plan GPrepared [] CsUnknown db4" by (rule at_stage_record)
  from 4(2) obtain db5 where 5: "RecordNetwork plan ''net-1'' db4 = Inr db5" "at_stage plan GCandidate [] CsUnknown db5"
    by (rule at_stage_RecordNetwork)
  from 5(2) obtain db6 where 6: "RecordPhase ''now'' (pl_OperationID plan) (pl_FencingToken plan) PhaseAfterNetwork ''confirmed''
      [(''network_id'', ''net-1'')] db5 = Inr db6" "at_stage plan GCandidate [] CsUnknown db6" by (rule at_stage_record)
  let ?w = "sim_empty\<lparr>sim_network := True\<rparr>"
  have "\<exists>result s'. replace_container (sim_runner plan) plan zero_generation (sim_net plan ?w) (?w, db6) = (Inr result, s')"
    by (rule replace_container_ok [OF 6(2) assms(5,4)]) simp
  then have n: "\<exists>result s'. replace_network (sim_runner plan) plan zero_generation (sim_empty, db3) = (Inr result, s')"
    by (simp add: replace_network_def sim_steps 4(1) 5(1) 6(1))
  have "loadAndVerifyActive (sim_runner plan) plan (sim_empty, db) = (Inr zero_generation, (sim_empty, db))"
    using Backfill_fresh [OF assms(2)] Current_fresh [OF assms(1)] assms(5)
    by (simp add: loadAndVerifyActive_def sim_steps ret_def)
  then have "Replace (sim_runner plan) plan (sim_empty, db) = replace_network (sim_runner plan) plan zero_generation (sim_empty, db3)"
    unfolding Replace_def
    by (subst attempt_def, subst andThen_def)
      (simp add: assms(5,6) zero_generation_def sim_steps 1(1) 2(1) 3(1) p d Let_def)
  with n show ?thesis by simp
qed

text \<open>
  C24. A first installation completes. When the operation holds its installation's lease, the
  installation has no generation yet, the bindings are valid and the container plan carries its
  own labels, then on a runtime that does what it is asked and a database that answers, the
  staged replacement returns generation 1, which is then the active one, with a container that
  was observed running and verified.
\<close>

theorem first_install_completes:
  assumes "fresh plan db" and "\<forall>o' \<in> set (ownership db). w_instance_id o' \<noteq> pl_InstallationID plan"
    and "bindings_ok (pl_Bindings plan)" and "plan_consistent plan"
    and "pl_ExpectedGeneration plan = 0" and "pl_Generation plan = 1"
  shows "\<exists>result w' db'. Replace (helper_runner (sim_runtime plan) (steady ''now'')) plan (sim_empty, db) = (Inr result, (w', db'))
    \<and> re_Generation result = 1 \<and> status_at db' (pl_InstallationID plan, 1) = Some GActive"
proof -
  from Replace_ok [OF assms] obtain result w' db' where
    run: "Replace (sim_runner plan) plan (sim_empty, db) = (Inr result, (w', db'))" by auto
  have "active_kept db db" using assms(1) by (simp add: fresh_def active_kept_refl)
  from tripleD [OF replacement.Replace_post this run] show ?thesis
    using run assms(6) by (auto simp: replace_post_def replaced_def serving_iff with_image_def)
qed

definition demo_live_plan :: Plan where
  "demo_live_plan = demo_plan\<lparr>pl_Container := (pl_Container demo_plan)\<lparr>ct_Labels := [(LabelManaged, ''true''),
     (LabelInstance, ''inst-a''), (LabelGeneration, ''1'')]\<rparr>\<rparr>"

lemma demo_live:
  "fresh demo_live_plan (demo_store StateExecuting Held)"
  "\<forall>o' \<in> set (ownership (demo_store StateExecuting Held)). w_instance_id o' \<noteq> pl_InstallationID demo_live_plan"
  "bindings_ok (pl_Bindings demo_live_plan)" "plan_consistent demo_live_plan"
  "pl_ExpectedGeneration demo_live_plan = 0" "pl_Generation demo_live_plan = 1" "pl_InstallationID demo_live_plan = ''inst-a''"
proof -
  have "executing_fence demo_live_plan (demo_store StateExecuting Held)"
    by (simp add: executing_fence_def fenced_def demo_store_def empty_db_def tbl_wf_def tbl_get_def demo_live_plan_def demo_plan_def
        new_operation_def demo_request_def)
  then show "fresh demo_live_plan (demo_store StateExecuting Held)"
    using demo_store_inv(4) by (simp add: fresh_def demo_store_def empty_db_def)
  show "\<forall>o' \<in> set (ownership (demo_store StateExecuting Held)). w_instance_id o' \<noteq> pl_InstallationID demo_live_plan"
    by (simp add: demo_store_def empty_db_def)
  have "char_of (49 :: nat) = CHR ''1''" by code_simp
  then show "plan_consistent demo_live_plan"
    by (simp add: plan_consistent_def demo_live_plan_def demo_plan_def lookup_str_def LabelManaged_def LabelInstance_def
        LabelGeneration_def itoa_def nat_digits.simps normalizeExpectedMounts_def normalizeMounts_def)
qed (simp_all add: bindings_ok_def demo_live_plan_def demo_plan_def MaxBindings_def TCP_def UDP_def Internal_def Loopback_def LAN_def)

theorem first_install_completes_witness:
  "\<exists>result w' db'. Replace (helper_runner (sim_runtime demo_live_plan) (steady ''now'')) demo_live_plan
      (sim_empty, demo_store StateExecuting Held) = (Inr result, (w', db')) \<and> status_at db' (''inst-a'', 1) = Some GActive"
  using first_install_completes [OF demo_live(1-6)] demo_live(7) by auto


end
