(* ===== verification/Multi_Live.thy ===== *)
theory Multi_Live
  imports Operate_Spec Runner_Live
begin

text \<open>
  Runs on concrete data, over a runtime that lost every container: the repair of an
  application with several components, which stops when the registry serves another image
  than the pinned one, and ordinary actions, which refuse to act.
\<close>

section \<open>The data\<close>

definition demo_absent :: ContainerObservation where
  "demo_absent = \<lparr>co_Exists = False, co_ID = [], co_Name = [], co_ImageID = [], co_ImageReference = [], co_State = RuntimeMissing, co_Health = [],
     co_Labels = [], co_User = [], co_Command = [], co_Environment = [], co_RestartPolicy = [], co_Mounts = [], co_Networks = [],
     co_NetworkMode = [], co_PortBindings = [], co_Devices = [], co_DeviceRequests = []\<rparr>"

definition demo_no_network :: NetworkObservation where
  "demo_no_network = \<lparr>nw_Exists = False, nw_ID = [], nw_Name = [], nw_Labels = []\<rparr>"

text \<open>A runtime that lost every container and serves another image than the pinned one.\<close>

definition demo_lost :: "unit LifecycleRuntime" where
  "demo_lost = \<lparr>PullImage = (\<lambda>_ w. (Inr (), w)),
     ObserveImage = (\<lambda>_ w. (Inr \<lparr>im_Exists = True, im_ID = ''other'', im_RepoDigests = [], im_ConfiguredUser = [], im_ConfiguredVolumes = []\<rparr>, w)),
     CreateLifecycleNetwork = (\<lambda>_ _ w. (Inr demo_no_network, w)), ObserveNetwork = (\<lambda>_ w. (Inr demo_no_network, w)),
     CreateLifecycleContainer = (\<lambda>_ w. (Inr [], w)), ObserveContainer = (\<lambda>_ w. (Inr demo_absent, w)),
     StartContainer = (\<lambda>_ w. (Inr (), w)), StopContainer = (\<lambda>_ w. (Inr (), w)), RemoveContainer = (\<lambda>_ w. (Inr (), w)),
     RemoveLifecycleNetwork = (\<lambda>_ w. (Inr (), w)), WaitContainer = (\<lambda>_ _ w. (Inr demo_absent, w))\<rparr>"

definition demo_multi_active :: helper_db where
  "demo_multi_active = ok_or empty_db (CommitMulti ''t4'' demo_multi demo_multi_candidate)"

definition demo_repair :: MultiPlan where
  "demo_repair = demo_multi\<lparr>mp_Generation := 2, mp_ExpectedGeneration := 1, mp_AllowMissingActive := True\<rparr>"

definition demo_prepared :: helper_db where
  "demo_prepared = ok_or empty_db (PrepareMulti ''t5'' demo_repair demo_multi_active)"

definition demo_pulled :: helper_db where
  "demo_pulled = ok_or empty_db (bind_result (BeginComponentStep ''t5'' demo_repair ''db'' ''pull'' (mc_Image (hd (mp_Components demo_repair))) 1 demo_prepared)
     (\<lambda>a. bind_result (DispatchComponentStep ''t5'' demo_repair ''db'' ''pull'' 1 a)
     (FinishComponentStep ''t5'' demo_repair ''db'' ''pull'' 1 ''other'' confirmed_absent ''pulled digest could not be verified'')))"

lemma ok_orI: "is_ok r \<Longrightarrow> r = Inr (ok_or d r)"
  by (cases r) (simp_all add: ok_or_def)

lemma demo_repair_steps:
  "PrepareMulti ''t5'' demo_repair demo_multi_active = Inr demo_prepared"
  "bind_result (BeginComponentStep ''t5'' demo_repair ''db'' ''pull'' (mc_Image (hd (mp_Components demo_repair))) 1 demo_prepared)
     (\<lambda>a. bind_result (DispatchComponentStep ''t5'' demo_repair ''db'' ''pull'' 1 a)
     (FinishComponentStep ''t5'' demo_repair ''db'' ''pull'' 1 ''other'' confirmed_absent ''pulled digest could not be verified'')) = Inr demo_pulled"
  unfolding demo_prepared_def demo_pulled_def by (rule ok_orI, code_simp)+

lemma demo_repair_facts:
  "store_inv demo_multi_active" "validateMultiPlan demo_repair = Inr ()"
  "is_ok (MarkMultiFailed demo_repair CClean demo_pulled)"
  "map_sum id (map lc_ContainerID \<circ> mg_Components) (MultiByOperation (mp_OperationID demo_repair) demo_pulled) = Inr [[], []]"
  "map_sum id (\<lambda>g. (length (mg_Components g), mg_Status g, mg_Generation g)) (MultiCurrent ''inst-a'' demo_multi_active) = Inr (2, GActive, 1)"
  "map (\<lambda>g. (g_installation_id g, g_runtime_generation g, g_status g)) (generations demo_multi_active) = [(''inst-a'', 1, GActive)]"
  by code_simp+

section \<open>The run\<close>

abbreviation lost_runner :: "unit MultiRunner" where
  "lost_runner \<equiv> helper_multi_runner demo_lost (steady ''t5'')"

lemma lost_simps [simp]:
  "mr_Runtime lost_runner = demo_lost" "mr_Store lost_runner = steady ''t5''"
  "ObserveNetwork demo_lost name w = (Inr demo_no_network, w)" "ObserveContainer demo_lost name w = (Inr demo_absent, w)"
  "PullImage demo_lost name w = (Inr (), w)" "\<not> nw_Exists demo_no_network" "\<not> co_Exists demo_absent"
  "runHook lost_runner action c point (w, db) = (Inr (), (w, db))"
  "ObserveImage demo_lost name w = (Inr \<lparr>im_Exists = True, im_ID = ''other'', im_RepoDigests = [], im_ConfiguredUser = [], im_ConfiguredVolumes = []\<rparr>, w)"
  by (simp_all add: helper_multi_runner_def demo_lost_def demo_no_network_def demo_absent_def runHook_def call_def)

lemma lost_observe: "observe_repairable lost_runner g network cs obs ((), db) =
    (Inr (rev (map (\<lambda>c. (lc_ID c, demo_absent)) cs) @ obs), ((), db))"
  by (induction cs arbitrary: obs) (simp_all add: ret_def attempt_call Let_def)

lemma lost_load: "\<exists>a. multi_loadActive lost_runner demo_repair ((), demo_multi_active) = (Inr (Some a), ((), demo_multi_active)) \<and> mg_Generation a = 1"
proof -
  from demo_repair_facts(5) obtain a where a: "MultiCurrent ''inst-a'' demo_multi_active = Inr a" "length (mg_Components a) = 2"
      "mg_Status a = GActive" "mg_Generation a = 1"
    by (cases "MultiCurrent ''inst-a'' demo_multi_active") auto
  have v: "verifyGeneration lost_runner a want ((), db) = (Inl (Errorf ''generation network identity mismatch''), ((), db))" for want db
    by (simp add: verifyGeneration_def attempt_call ret_def Let_def)
  have o: "\<exists>obs. observeRepairableGeneration lost_runner a ((), db) = (Inr obs, ((), db))" for db
    by (simp add: observeRepairableGeneration_def attempt_call lost_observe)
  have p: "mp_InstallationID demo_repair = ''inst-a''" "mp_AllowMissingActive demo_repair"
    by (simp_all add: demo_repair_def demo_multi_def)
  obtain obs where obs: "observeRepairableGeneration lost_runner a ((), demo_multi_active) = (Inr obs, ((), demo_multi_active))"
    using o by blast
  have "multi_loadActive lost_runner demo_repair ((), demo_multi_active) = (Inr (Some a), ((), demo_multi_active))"
    unfolding multi_loadActive_def
    by (simp add: attempt_query a p) (simp add: attempt_def andThen_def v obs ret_def Let_def)
  with a(4) show ?thesis by blast
qed

lemma lost_cleanup: "cleanupMultiCandidate lost_runner demo_repair ((), demo_pulled) = (Inr (), ((), demo_pulled))"
proof -
  have c: "cleanup_components lost_runner p cs s = (Inr (), s)" if "\<forall>c \<in> set cs. lc_ContainerID c = []" for p cs s
    using that by (induction cs) (simp_all add: ret_def)
  from demo_repair_facts(4) obtain g where g: "MultiByOperation (mp_OperationID demo_repair) demo_pulled = Inr g"
      "map lc_ContainerID (mg_Components g) = [[], []]"
    by (cases "MultiByOperation (mp_OperationID demo_repair) demo_pulled") auto
  from g(2) have "\<forall>c \<in> set (reverseComponents (mg_Components g)). lc_ContainerID c = []"
    by (auto simp: reverseComponents_def map_eq_Cons_conv)
  then show ?thesis
    unfolding cleanupMultiCandidate_def
    by (simp add: attempt_query g(1)) (simp add: attempt_def andThen_def c cleanup_multi_network_def Let_def call_def ret_def)
qed

lemma demo_component_plan:
  "mp_Components demo_repair = [demo_component ''db'' 0 [], demo_component ''app'' 1 [''db'']]"
  "mc_ID (demo_component k n ds) = k" "mp_ExpectedGeneration demo_repair = 1" "mp_Generation demo_repair = 2"
  by (simp_all add: demo_repair_def demo_multi_def demo_component_def)

lemma lost_pull: "\<exists>e db'. pull_image lost_runner demo_repair (demo_component ''db'' 0 []) ((), demo_prepared) = (Inl (Fail e), ((), db'))"
proof -
  from demo_repair_steps(2) obtain a b where
    a: "BeginComponentStep ''t5'' demo_repair ''db'' ''pull'' (mc_Image (demo_component ''db'' 0 [])) 1 demo_prepared = Inr a"
    and b: "DispatchComponentStep ''t5'' demo_repair ''db'' ''pull'' 1 a = Inr b"
    and c: "FinishComponentStep ''t5'' demo_repair ''db'' ''pull'' 1 ''other'' confirmed_absent ''pulled digest could not be verified'' b = Inr demo_pulled"
    by (auto simp: bind_result_Inr_iff demo_component_plan)
  from demo_repair_facts(3) obtain d where d: "MarkMultiFailed demo_repair CClean demo_pulled = Inr d"
    by (cases "MarkMultiFailed demo_repair CClean demo_pulled") auto
  have f: "\<exists>db'. (multi_failBeforeCutover lost_runner demo_repair (Fail e) ((), demo_pulled) :: (run_error + ImageObservation) \<times> _) = (Inl (Fail e), ((), db'))" for e
    unfolding multi_failBeforeCutover_def
    by (simp add: andThen_def lost_cleanup mark_failed_def txn_def steady_def d ret_def)
  have i: "\<not> imageContainsDigest \<lparr>im_Exists = True, im_ID = ''other'', im_RepoDigests = [], im_ConfiguredUser = [], im_ConfiguredVolumes = []\<rparr> x" for x
    by (simp add: imageContainsDigest_def)
  have h: "after_hooks lost_runner action k t (Inr ()) (w, db) = (Inr (), (w, db))" for action k t w db
    by (simp add: after_hooks_def andThen_def ret_def)
  obtain db' where "multi_failBeforeCutover lost_runner demo_repair (Fail (Errorf ''pull db: pulled digest could not be verified'')) ((), demo_pulled)
      = (Inl (Fail (Errorf ''pull db: pulled digest could not be verified'')) :: run_error + ImageObservation, ((), db'))"
    using f by blast
  then show ?thesis
    by (simp add: pull_image_def Let_def attempt_txn attempt_call stepIntent_def dispatch_def finish_step_def a b demo_component_plan
        attempt_def andThen_def txn_def steady_def call_def h i c firstError_def error_text_def)
qed


section \<open>Ordinary actions\<close>

definition demo_recorded :: helper_db where
  "demo_recorded = ok_or empty_db (RecordPhase ''t5'' (demo_id CHR ''1'') 1 ''multi_lifecycle_validation'' ''intent''
     [(''lifecycle_action'', ''stop'')] demo_multi_active)"

definition demo_checked :: helper_db where
  "demo_checked = ok_or empty_db (RecordPhase ''t5'' (demo_id CHR ''1'') 1 PhaseBeforeVerification ''intent''
     [(''lifecycle_action'', ''stop'')] demo_recorded)"

definition demo_single_active :: helper_db where
  "demo_single_active = ok_or empty_db (Commit ''t4'' demo_plan demo_candidate)"

definition demo_single_recorded :: helper_db where
  "demo_single_recorded = ok_or empty_db (RecordPhase ''t5'' (demo_id CHR ''1'') 1 ''single_lifecycle_validation'' ''intent''
     [(''lifecycle_action'', ''restart'')] demo_single_active)"

lemma demo_operate_facts:
  "is_ok (RecordPhase ''t5'' (demo_id CHR ''1'') 1 ''multi_lifecycle_validation'' ''intent'' [(''lifecycle_action'', ''stop'')] demo_multi_active)"
  "is_ok (RecordPhase ''t5'' (demo_id CHR ''1'') 1 PhaseBeforeVerification ''intent'' [(''lifecycle_action'', ''stop'')] demo_recorded)"
  "map_sum id (\<lambda>g. (length (mg_Components g), mg_Status g)) (MultiCurrent ''inst-a'' demo_recorded) = Inr (2, GActive)"
  "is_ok (RecordPhase ''t5'' (demo_id CHR ''1'') 1 ''single_lifecycle_validation'' ''intent'' [(''lifecycle_action'', ''restart'')] demo_single_active)"
  "map_sum id ge_Status (Current ''inst-a'' demo_single_recorded) = Inr (Some GActive)"
  "store_inv demo_single_active"
  "map (\<lambda>g. (g_installation_id g, g_runtime_generation g, g_status g)) (generations demo_single_active) = [(''inst-a'', 1, GActive)]"
  by code_simp+

lemma multi_active_kept:
  assumes "active_kept db0 db'" and "map (\<lambda>g. (g_installation_id g, g_runtime_generation g, g_status g)) (generations db0) = [(i, n, GActive)]"
  shows "\<exists>g \<in> set (generations db'). gen_key g = (i, n) \<and> g_status g = GActive"
proof -
  obtain g where "g \<in> active_rows db0" "gen_key g = (i, n)"
    using assms(2) by (auto simp: active_rows_def gen_key_def map_eq_Cons_conv)
  with assms(1) show ?thesis by (auto simp: active_kept_def active_rows_def)
qed


theorem single_operate_outcome_witness:
  "\<exists>e w' db'. single_Operate (helper_single_runner demo_lost (steady ''t5'')) ''inst-a'' (demo_id CHR ''1'') 1 ''restart'' ((), demo_single_active) =
      (Inl (Fail e), (w', db'))
    \<and> (\<exists>g \<in> set (generations db'). gen_key g = (''inst-a'', 1) \<and> g_status g = GActive)"
proof -
  note rec = ok_orI [OF demo_operate_facts(4), of empty_db, folded demo_single_recorded_def]
  from demo_operate_facts(5) obtain g where g: "Current ''inst-a'' demo_single_recorded = Inr g" "ge_Status g = Some GActive"
    by (cases "Current ''inst-a'' demo_single_recorded") auto
  have run: "single_Operate (helper_single_runner demo_lost (steady ''t5'')) ''inst-a'' (demo_id CHR ''1'') 1 ''restart'' ((), demo_single_active) =
      (Inl (Fail (Errorf ''active runtime is missing; reconciliation and recreation are required'')), ((), demo_single_recorded))"
    by (simp add: single_Operate_def helper_single_runner_def attempt_txn attempt_query rec g)
      (simp add: attempt_def andThen_def observeExact_def call_def fail_def ret_def)
  from single_operate_outcome [OF demo_operate_facts(6) run] have "active_kept demo_single_active demo_single_recorded" by simp
  from multi_active_kept [OF this demo_operate_facts(7)] run show ?thesis by blast
qed

end
