(* ===== verification/Reconcile.thy ===== *)
theory Reconcile
  imports Operate
begin

text \<open>
  \<^verbatim>\<open>internal/lifecycle/reconciliation.go\<close>: the comparison of what the helper recorded with
  what the container runtime shows. It classifies an installation, recommends a repair and
  records both; of the generations it only retires those whose resources are gone.
\<close>

section \<open>Data\<close>

definition ReconciliationConsistent :: string where "ReconciliationConsistent = ''consistent''"
definition ReconciliationRepairable :: string where "ReconciliationRepairable = ''repairable''"
definition ReconciliationDegraded :: string where "ReconciliationDegraded = ''degraded''"
definition ReconciliationActionRequired :: string where "ReconciliationActionRequired = ''action_required''"
definition ReconciliationRuntimeMissing :: string where "ReconciliationRuntimeMissing = ''runtime_missing''"
definition ReconciliationRuntimeUnknown :: string where "ReconciliationRuntimeUnknown = ''runtime_unknown''"
definition ReconciliationCleanupPending :: string where "ReconciliationCleanupPending = ''cleanup_pending''"

definition MismatchActiveContainerMissing :: string where "MismatchActiveContainerMissing = ''active_container_missing''"
definition MismatchActiveContainerStopped :: string where "MismatchActiveContainerStopped = ''active_container_stopped''"
definition MismatchActiveContainerDetached :: string where "MismatchActiveContainerDetached = ''active_container_detached''"
definition MismatchActiveContainerRunning :: string where "MismatchActiveContainerRunning = ''active_container_unexpectedly_running''"
definition MismatchActiveContainerUnstable :: string where "MismatchActiveContainerUnstable = ''active_container_unstable''"
definition MismatchImage :: string where "MismatchImage = ''image_mismatch''"
definition MismatchConfiguration :: string where "MismatchConfiguration = ''configuration_mismatch''"
definition MismatchNetwork :: string where "MismatchNetwork = ''network_mismatch''"
definition MismatchComponentMissing :: string where "MismatchComponentMissing = ''component_missing''"
definition MismatchComponentStateMixed :: string where "MismatchComponentStateMixed = ''component_state_mixed''"
definition MismatchDependencyState :: string where "MismatchDependencyState = ''dependency_state_inconsistent''"
definition MismatchRetainedGenerationMissing :: string where "MismatchRetainedGenerationMissing = ''retained_generation_missing''"
definition MismatchRetainedGenerationRunning :: string where "MismatchRetainedGenerationRunning = ''retained_generation_running''"
definition MismatchCandidateOrphaned :: string where "MismatchCandidateOrphaned = ''candidate_orphaned''"
definition MismatchCleanupPending :: string where "MismatchCleanupPending = ''cleanup_pending''"
definition MismatchRuntimeUnreachable :: string where "MismatchRuntimeUnreachable = ''runtime_unreachable''"
definition MismatchRuntimeStateUnknown :: string where "MismatchRuntimeStateUnknown = ''runtime_state_unclassified''"
definition MismatchOwnershipAmbiguous :: string where "MismatchOwnershipAmbiguous = ''ownership_ambiguous''"

definition RepairNone :: string where "RepairNone = ''none''"
definition RepairStartActive :: string where "RepairStartActive = ''start_active''"
definition RepairRecreateGeneration :: string where "RepairRecreateGeneration = ''recreate_generation''"
definition RepairCleanupResources :: string where "RepairCleanupResources = ''cleanup_resources''"
definition RepairAcknowledgeRetainedLoss :: string where "RepairAcknowledgeRetainedLoss = ''acknowledge_retained_missing''"

record CommittedProjection =
  cp_Generation :: int
  cp_ReleaseID :: string
  cp_RuntimeState :: string
  cp_Bindings :: "Binding list"

record ReconciliationResult =
  rx_InstallationID :: string
  rx_CheckedGeneration :: int
  rx_State :: string
  rx_RuntimeState :: string
  rx_RuntimeIdentity :: string
  rx_ObservedAt :: string
  rx_MismatchCodes :: "string list"
  rx_RecommendedAction :: string
  rx_OriginatingOperation :: string
  rx_Summary :: string
  rx_Components :: "ComponentFinding list"
  rx_Projection :: "CommittedProjection option"

text \<open>
  A runtime that can tell its identity provides it with its name, ID and version. The clock is
  that of the world.
\<close>

record 'w Reconciler =
  rc_Runtime :: "'w LifecycleRuntime"
  rc_Store :: "'w store"
  rc_Now :: "'w \<Rightarrow> string \<times> 'w"
  rc_Identity :: "('w \<Rightarrow> (string \<times> string \<times> string) result \<times> 'w) option"

section \<open>Classification\<close>

text \<open>The sort makes it unobservable which of several equal codes is kept.\<close>

definition uniqueCodes :: "string list \<Rightarrow> string list" where
  "uniqueCodes values = sort (remdups (filter (\<lambda>v. v \<noteq> []) values))"

definition classified :: "ReconciliationResult \<Rightarrow> string \<Rightarrow> string \<Rightarrow> string \<Rightarrow> ReconciliationResult" where
  "classified r st action summary = r\<lparr>rx_State := st, rx_RecommendedAction := action, rx_Summary := summary\<rparr>"

definition finish :: "ReconciliationResult \<Rightarrow> ReconciliationResult" where
  "finish result =
     (let codes = uniqueCodes (rx_MismatchCodes result); r = result\<lparr>rx_MismatchCodes := codes\<rparr>; has = (\<lambda>code. code \<in> set codes) in
      if has MismatchRuntimeUnreachable
      then classified r ReconciliationRuntimeUnknown RepairNone ''container runtime unavailable''
      else if has MismatchRuntimeStateUnknown
      then classified r ReconciliationActionRequired RepairNone ''runtime state cannot be safely classified''
      else if has MismatchOwnershipAmbiguous \<or> has MismatchImage \<or> has MismatchConfiguration \<or> has MismatchNetwork
        \<or> has MismatchRetainedGenerationRunning \<or> has MismatchActiveContainerRunning
      then classified r ReconciliationActionRequired RepairNone ''runtime identity or configuration differs from helper authority''
      else if has MismatchActiveContainerDetached
      then classified r ReconciliationRepairable RepairRecreateGeneration ''exact stopped runtime detached after a failed start; recreate the generation''
      else if has MismatchActiveContainerMissing \<or> has MismatchComponentMissing
      then classified r ReconciliationRuntimeMissing RepairRecreateGeneration ''active runtime resources are missing''
      else if has MismatchDependencyState \<or> has MismatchComponentStateMixed
      then classified r ReconciliationDegraded RepairStartActive ''active components are in a mixed dependency state''
      else if has MismatchActiveContainerUnstable
      then classified r ReconciliationDegraded RepairNone ''exact active runtime is unstable; bounded lifecycle actions remain available''
      else if has MismatchActiveContainerStopped
      then classified r ReconciliationRepairable RepairStartActive ''exact active runtime is stopped''
      else if has MismatchCandidateOrphaned \<or> has MismatchCleanupPending
      then classified r ReconciliationCleanupPending RepairCleanupResources ''exact non-active runtime resources require cleanup''
      else if has MismatchRetainedGenerationMissing
      then classified r ReconciliationDegraded RepairAcknowledgeRetainedLoss ''retained recovery generation is no longer available''
      else classified r ReconciliationConsistent RepairNone ''helper authority and runtime observation agree'')"

section \<open>Queries and transactions\<close>

definition reconciliation_rank :: "gen_status \<Rightarrow> int" where
  "reconciliation_rank s = (case s of GActive \<Rightarrow> 0 | GVerificationRequired \<Rightarrow> 1 | GRetained \<Rightarrow> 2 | GCleanupPending \<Rightarrow> 3 | _ \<Rightarrow> 4)"

definition ReconciliationGenerations :: "string \<Rightarrow> helper_db \<Rightarrow> MultiGeneration list result" where
  "ReconciliationGenerations installation db =
     map_result (\<lambda>g. LoadMultiGeneration installation (g_runtime_generation g) db)
       (sort_key (\<lambda>g. reconciliation_rank (g_status g)) (sort_key (\<lambda>g. - g_runtime_generation g)
         (filter (\<lambda>g. g_installation_id g = installation \<and> g_status g \<noteq> GRemoved) (generations db))))"

definition LatestRemovedGeneration :: "string \<Rightarrow> helper_db \<Rightarrow> MultiGeneration result" where
  "LatestRemovedGeneration installation db =
     bind_result (first_row (sort_key (\<lambda>g. - g_runtime_generation g)
       (filter (\<lambda>g. g_installation_id g = installation \<and> g_status g = GRemoved) (generations db))))
     (\<lambda>g. LoadMultiGeneration installation (g_runtime_generation g) db)"

definition json_of_finding :: "ComponentFinding \<Rightarrow> json" where
  "json_of_finding f = JObj ([(''component_id'', JStr (cf_ComponentID f)), (''generation'', JInt (cf_Generation f)), (''role'', JStr (cf_Role f)),
       (''expected_runtime_state'', JStr (cf_ExpectedRuntime f)), (''observed_runtime_state'', JStr (cf_ObservedRuntime f))]
     @ omit_str ''expected_runtime_id'' (cf_ExpectedRuntimeID f) @ omit_str ''observed_runtime_id'' (cf_ObservedRuntimeID f)
     @ (if cf_MismatchCodes f = [] then [] else [(''mismatch_codes'', JArr (map JStr (cf_MismatchCodes f)))]))"

definition recon_row_of :: "ReconciliationResult \<Rightarrow> recon_row" where
  "recon_row_of r = \<lparr>n_instance_id = rx_InstallationID r, n_classification = rx_State r, n_observed_at = rx_ObservedAt r,
     n_summary = rx_Summary r, n_checked_generation = rx_CheckedGeneration r, n_runtime_state = rx_RuntimeState r,
     n_runtime_identity = rx_RuntimeIdentity r, n_mismatch_codes = rx_MismatchCodes r, n_recommended_action = rx_RecommendedAction r,
     n_originating_operation_id = rx_OriginatingOperation r, n_evidence = rx_Components r\<rparr>"

definition recon_upsert :: "recon_row \<Rightarrow> recon_row list \<Rightarrow> recon_row list" where
  "recon_upsert row t = (if tbl_get n_instance_id (n_instance_id row) t = None then t @ [row]
     else sql_update (\<lambda>x. n_instance_id x = n_instance_id row) (\<lambda>_. row) t)"

text \<open>The evidence document of no findings is \<open>null\<close>.\<close>

definition evidence_text :: "ComponentFinding list \<Rightarrow> string" where
  "evidence_text fs = json_encode (if fs = [] then JNull else JArr (map json_of_finding fs))"

definition SaveReconciliation :: "ReconciliationResult \<Rightarrow> helper_db \<Rightarrow> helper_db result" where
  "SaveReconciliation result db =
     (if 32 * 1024 < length (evidence_text (rx_Components result)) then Inl (Errorf ''reconciliation evidence exceeds bounded record'')
      else Inr (db\<lparr>reconciliation := recon_upsert (recon_row_of result) (reconciliation db)\<rparr>))"

definition LoadReconciliation :: "string \<Rightarrow> helper_db \<Rightarrow> ReconciliationResult result" where
  "LoadReconciliation installation db =
     (case tbl_get n_instance_id installation (reconciliation db) of
        None \<Rightarrow> Inl ErrNoRows
      | Some row \<Rightarrow> Inr \<lparr>rx_InstallationID = n_instance_id row, rx_CheckedGeneration = n_checked_generation row,
          rx_State = n_classification row, rx_RuntimeState = n_runtime_state row, rx_RuntimeIdentity = n_runtime_identity row,
          rx_ObservedAt = n_observed_at row, rx_MismatchCodes = n_mismatch_codes row, rx_RecommendedAction = n_recommended_action row,
          rx_OriginatingOperation = n_originating_operation_id row, rx_Summary = n_summary row, rx_Components = n_evidence row,
          rx_Projection = (if 0 < n_checked_generation row then
              (case LoadMultiGeneration installation (n_checked_generation row) db of
                 Inr g \<Rightarrow> if mg_Status g = GActive
                   then Some \<lparr>cp_Generation = mg_Generation g, cp_ReleaseID = mg_ReleaseID g, cp_RuntimeState = n_runtime_state row,
                     cp_Bindings = mg_Bindings g\<rparr> else None
               | Inl _ \<Rightarrow> None) else None)\<rparr>)"

section \<open>Observation\<close>

definition zero_observation :: ContainerObservation where
  "zero_observation = \<lparr>co_Exists = False, co_ID = [], co_Name = [], co_ImageID = [], co_ImageReference = [], co_State = RuntimeMissing, co_Health = [],
     co_Labels = [], co_User = [], co_Command = [], co_Environment = [], co_RestartPolicy = [], co_Mounts = [], co_Networks = [],
     co_NetworkMode = [], co_PortBindings = [], co_Devices = [], co_DeviceRequests = []\<rparr>"

definition observeComponent :: "'w LifecycleRuntime \<Rightarrow> LComponent \<Rightarrow> ('w, ContainerObservation result) prog" where
  "observeComponent rt c =
     (let byName = (if lc_ContainerName c = [] then ret (Inr zero_observation) else call (ObserveContainer rt (lc_ContainerName c))) in
      if lc_ContainerID c \<noteq> [] then
        attempt (call (ObserveContainer rt (lc_ContainerID c))) (\<lambda>e. ret (Inl e)) (\<lambda>observed.
        if co_Exists observed then ret (Inr observed) else byName)
      else byName)"

primrec runtime_name :: "comp_state \<Rightarrow> string" where
  "runtime_name CsUnknown = ''unknown''"
| "runtime_name CsCreated = ''created''"
| "runtime_name CsStopped = ''stopped''"
| "runtime_name CsRunning = ''running''"
| "runtime_name CsMissing = ''missing''"
| "runtime_name CsFailed = ''failed''"
| "runtime_name CsRemoved = ''removed''"

definition expected_runtime :: "string \<Rightarrow> comp_state \<Rightarrow> string" where
  "expected_runtime role st =
     (if role = ''retained'' then ''stopped''
      else if runtime_name st \<noteq> ''running'' \<and> runtime_name st \<noteq> ''stopped''
      then (if role = ''cleanup'' \<or> role = ''candidate'' then ''stopped'' else ''running'')
      else runtime_name st)"

definition code_if :: "bool \<Rightarrow> string \<Rightarrow> string list" where
  "code_if b code = (if b then [code] else [])"

definition missing_codes :: "string \<Rightarrow> MultiGeneration \<Rightarrow> string list" where
  "missing_codes role g =
     (if role = ''active'' then [if length (mg_Components g) = 1 then MismatchActiveContainerMissing else MismatchComponentMissing]
      else code_if (role = ''retained'') MismatchRetainedGenerationMissing)"

text \<open>The identity that a reading of \<open>observed.Networks[name]\<close> yields, the zero value when it is not attached.\<close>

definition attachment_id :: "ContainerObservation \<Rightarrow> string \<Rightarrow> string" where
  "attachment_id observed name = (case map_of (co_Networks observed) name of None \<Rightarrow> [] | Some a \<Rightarrow> na_NetworkID a)"

definition detached_after_failed_start :: "MultiGeneration \<Rightarrow> NetworkObservation \<Rightarrow> LComponent \<Rightarrow> ContainerObservation \<Rightarrow> bool" where
  "detached_after_failed_start g network c observed =
     (nw_Exists network \<and> (mg_NetworkID g = [] \<or> nw_ID network = mg_NetworkID g)
      \<and> detachedStoppedConfigurationMatches observed (lc_ConfigurationHash c) (mg_NetworkName g) (nw_ID network))"

text \<open>A network that does not agree with the record; \<open>early\<close> says whether the generation may never have started.\<close>

definition network_differs :: "bool \<Rightarrow> MultiGeneration \<Rightarrow> NetworkObservation \<Rightarrow> ContainerObservation \<Rightarrow> bool" where
  "network_differs early g network observed =
     (let stoppedBeforeFirstStart = (early \<and> co_State observed = RuntimeStopped \<and> attachment_id observed (mg_NetworkName g) = []
            \<and> co_NetworkMode observed = mg_NetworkName g);
          staleCleanupNetwork = (early \<and> co_State observed = RuntimeStopped \<and> \<not> nw_Exists network) in
      (\<not> nw_Exists network \<and> \<not> staleCleanupNetwork)
      \<or> (\<not> staleCleanupNetwork \<and> mg_NetworkID g \<noteq> [] \<and> nw_ID network \<noteq> mg_NetworkID g)
      \<or> map_of (co_Networks observed) (mg_NetworkName g) = None
      \<or> (nw_ID network \<noteq> [] \<and> attachment_id observed (mg_NetworkName g) \<noteq> nw_ID network \<and> \<not> stoppedBeforeFirstStart))"

definition component_codes ::
  "MultiGeneration \<Rightarrow> NetworkObservation \<Rightarrow> string \<Rightarrow> LComponent \<Rightarrow> ContainerObservation \<Rightarrow> string list" where
  "component_codes g network role c observed =
     (let expected = expected_runtime role (lc_State c);
          detached = detached_after_failed_start g network c observed in
      code_if ((lc_ContainerID c \<noteq> [] \<and> co_ID observed \<noteq> lc_ContainerID c) \<or> co_Name observed \<noteq> lc_ContainerName c
          \<or> \<not> owned (mg_InstallationID g) (mg_Generation g) observed) MismatchOwnershipAmbiguous
      @ code_if (co_ImageReference observed \<noteq> lc_Image c \<or> (lc_ImageID c \<noteq> [] \<and> co_ImageID observed \<noteq> lc_ImageID c)) MismatchImage
      @ (if detached then [if role = ''active'' then MismatchActiveContainerDetached else MismatchCleanupPending]
         else code_if (network_differs (role = ''candidate'' \<or> role = ''cleanup'') g network observed) MismatchNetwork)
      @ code_if ((mg_Status g = GVerificationRequired \<and> mg_TopologyHash g = [] \<and> length (mg_Components g) = 1 \<and> lc_ConfigurationHash c = [])
          \<or> (lc_ConfigurationHash c \<noteq> [] \<and> observationHash observed \<noteq> lc_ConfigurationHash c \<and> \<not> detached)) MismatchConfiguration
      @ code_if (role = ''active'' \<and> expected = ''running'' \<and> co_State observed = RuntimeStopped) MismatchActiveContainerStopped
      @ code_if (role = ''active'' \<and> expected = ''stopped'' \<and> co_State observed = RuntimeRunning) MismatchActiveContainerRunning
      @ code_if (role = ''active'' \<and> (co_State observed = RuntimeRestarting \<or> co_State observed = RuntimePaused)) MismatchActiveContainerUnstable
      @ code_if (role = ''active'' \<and> co_State observed = RuntimeUnknown) MismatchRuntimeStateUnknown
      @ code_if (role = ''retained'' \<and> co_State observed = RuntimeRunning) MismatchRetainedGenerationRunning)"

definition finding_of ::
  "MultiGeneration \<Rightarrow> NetworkObservation \<Rightarrow> string \<Rightarrow> LComponent \<Rightarrow> ContainerObservation \<Rightarrow> ComponentFinding" where
  "finding_of g network role c observed = \<lparr>cf_ComponentID = lc_ID c, cf_Generation = mg_Generation g, cf_Role = role,
     cf_ExpectedRuntime = expected_runtime role (lc_State c),
     cf_ObservedRuntime = (if co_Exists observed then co_State observed else ''missing''),
     cf_ExpectedRuntimeID = lc_ContainerID c, cf_ObservedRuntimeID = (if co_Exists observed then co_ID observed else []),
     cf_MismatchCodes = (if co_Exists observed then component_codes g network role c observed else missing_codes role g)\<rparr>"

text \<open>The loop over the components: the findings and what is observed of the existing ones, the last first.\<close>

fun observe_findings ::
  "'w LifecycleRuntime \<Rightarrow> MultiGeneration \<Rightarrow> NetworkObservation \<Rightarrow> string \<Rightarrow> LComponent list \<Rightarrow> ComponentFinding list \<Rightarrow> string go_map
    \<Rightarrow> ('w, (ComponentFinding list \<times> string go_map) result) prog" where
  "observe_findings rt g network role [] findings observedByID = ret (Inr (findings, observedByID))"
| "observe_findings rt g network role (c # cs) findings observedByID =
     attempt (observeComponent rt c) (\<lambda>e. ret (Inl e)) (\<lambda>observed.
     observe_findings rt g network role cs (findings @ [finding_of g network role c observed])
       (if co_Exists observed then (lc_ID c, co_State observed) # observedByID else observedByID))"

definition add_codes :: "ComponentFinding \<Rightarrow> string list \<Rightarrow> ComponentFinding" where
  "add_codes f codes = f\<lparr>cf_MismatchCodes := cf_MismatchCodes f @ codes\<rparr>"

definition mixed_states :: "string \<Rightarrow> ComponentFinding list \<Rightarrow> ComponentFinding list" where
  "mixed_states role findings =
     (if role = ''active'' \<and> 1 < card (set (map cf_ObservedRuntime findings))
      then map (\<lambda>f. add_codes f [MismatchComponentStateMixed]) findings else findings)"

definition dependency_codes :: "string go_map \<Rightarrow> LComponent \<Rightarrow> string list" where
  "dependency_codes observedByID c =
     (if lookup_str observedByID (lc_ID c) \<noteq> ''running'' then []
      else map (\<lambda>_. MismatchDependencyState) (filter (\<lambda>d. lookup_str observedByID d \<noteq> ''running'') (lc_DependsOn c)))"

definition dependency_states :: "string \<Rightarrow> MultiGeneration \<Rightarrow> string go_map \<Rightarrow> ComponentFinding list \<Rightarrow> ComponentFinding list" where
  "dependency_states role g observedByID findings =
     (if role = ''active'' then map2 (\<lambda>f c. add_codes f (dependency_codes observedByID c)) findings (mg_Components g) else findings)"

definition runtime_summary :: "ComponentFinding list \<Rightarrow> string" where
  "runtime_summary findings =
     (let all = (\<lambda>st. length (filter (\<lambda>f. cf_ObservedRuntime f = st) findings) = length findings) in
      if all ''running'' then ''running'' else if all ''stopped'' then ''stopped'' else if all ''missing'' then ''missing''
      else if all RuntimeRestarting then RuntimeRestarting else if all RuntimePaused then RuntimePaused
      else if all RuntimeUnknown then RuntimeUnknown else ''degraded'')"

definition observeGeneration ::
  "'w LifecycleRuntime \<Rightarrow> MultiGeneration \<Rightarrow> string \<Rightarrow> ('w, (ComponentFinding list \<times> string) result) prog" where
  "observeGeneration rt g role =
     attempt (call (ObserveNetwork rt (mg_NetworkName g))) (\<lambda>e. ret (Inl e)) (\<lambda>network.
     attempt (observe_findings rt g network role (mg_Components g) [] []) (\<lambda>e. ret (Inl e)) (\<lambda>(findings, observedByID).
     ret (Inr (dependency_states role g observedByID (mixed_states role findings), runtime_summary findings))))"

section \<open>Reconciliation\<close>

definition role_of :: "gen_status \<Rightarrow> string option" where
  "role_of st = (case st of GRetained \<Rightarrow> Some ''retained'' | GCleanupPending \<Rightarrow> Some ''cleanup''
     | GCandidate \<Rightarrow> Some ''candidate'' | GPrepared \<Rightarrow> Some ''candidate'' | GFailed \<Rightarrow> Some ''candidate'' | _ \<Rightarrow> None)"

definition add_findings :: "ReconciliationResult \<Rightarrow> ComponentFinding list \<Rightarrow> ReconciliationResult" where
  "add_findings result findings = result\<lparr>rx_Components := rx_Components result @ findings,
     rx_MismatchCodes := rx_MismatchCodes result @ concat (map cf_MismatchCodes findings)\<rparr>"

definition add_mismatch :: "ReconciliationResult \<Rightarrow> string \<Rightarrow> ReconciliationResult" where
  "add_mismatch result code = result\<lparr>rx_MismatchCodes := rx_MismatchCodes result @ [code]\<rparr>"

definition classify_cleanup ::
  "'w Reconciler \<Rightarrow> MultiGeneration \<Rightarrow> ComponentFinding list \<Rightarrow> ReconciliationResult \<Rightarrow> ('w, ReconciliationResult result) prog" where
  "classify_cleanup r g findings result =
     (let allMissing = (findings \<noteq> [] \<and> list_all (\<lambda>f. cf_ObservedRuntime f = ''missing'') findings);
          pending = ret (Inr (add_mismatch result MismatchCleanupPending)) in
      if mg_CleanupState g \<noteq> CPending then ret (Inr result)
      else if allMissing then
        attempt (call (ObserveNetwork (rc_Runtime r) (mg_NetworkName g))) (\<lambda>e. ret (Inl e)) (\<lambda>network.
        if nw_Exists network then pending
        else attempt (txn (rc_Store r) (\<lambda>_. MarkReconciledAbsent g)) (\<lambda>e. ret (Inl e)) (\<lambda>_. ret (Inr result)))
      else pending)"

definition orphaned :: "string \<Rightarrow> MultiGeneration \<Rightarrow> ComponentFinding list \<Rightarrow> ReconciliationResult \<Rightarrow> ReconciliationResult" where
  "orphaned role g findings result =
     (let anyExact = list_ex (\<lambda>f. cf_ObservedRuntime f \<noteq> ''missing'' \<and> cf_MismatchCodes f = []) findings in
      if role = ''candidate'' \<and> anyExact
      then (add_mismatch result MismatchCandidateOrphaned)\<lparr>rx_OriginatingOperation :=
        (if rx_OriginatingOperation result = [] then mg_CreatingOperationID g else rx_OriginatingOperation result)\<rparr>
      else result)"

fun classifyNonActive ::
  "'w Reconciler \<Rightarrow> ReconciliationResult \<Rightarrow> MultiGeneration list \<Rightarrow> ('w, ReconciliationResult \<times> unit result) prog" where
  "classifyNonActive r result [] = ret (result, Inr ())"
| "classifyNonActive r result (g # gs) =
     (case role_of (mg_Status g) of
        None \<Rightarrow> classifyNonActive r result gs
      | Some role \<Rightarrow>
        attempt (observeGeneration (rc_Runtime r) g role) (\<lambda>e. ret (result, Inl e)) (\<lambda>(findings, _).
        let result' = add_findings result findings in
        attempt (classify_cleanup r g findings result') (\<lambda>e. ret (result', Inl e)) (\<lambda>result''.
        classifyNonActive r (orphaned role g findings result'') gs)))"

definition save :: "'w Reconciler \<Rightarrow> ReconciliationResult \<Rightarrow> ('w, ReconciliationResult result) prog" where
  "save r result = attempt (txn (rc_Store r) (\<lambda>_. SaveReconciliation result)) (\<lambda>e. ret (Inl e)) (\<lambda>_. ret (Inr result))"

definition runtimeUnknown :: "'w Reconciler \<Rightarrow> ReconciliationResult \<Rightarrow> ('w, ReconciliationResult result) prog" where
  "runtimeUnknown r result = save r (result\<lparr>rx_State := ReconciliationRuntimeUnknown, rx_RuntimeState := ''unknown'',
     rx_MismatchCodes := uniqueCodes (rx_MismatchCodes result @ [MismatchRuntimeUnreachable]), rx_RecommendedAction := RepairNone,
     rx_Summary := ''container runtime observation failed''\<rparr>)"

definition conclude :: "'w Reconciler \<Rightarrow> ReconciliationResult \<Rightarrow> MultiGeneration list \<Rightarrow> ('w, ReconciliationResult result) prog" where
  "conclude r result gens =
     andThen (classifyNonActive r result gens) (\<lambda>(result', err).
     case err of Inl _ \<Rightarrow> runtimeUnknown r result' | Inr _ \<Rightarrow> save r (finish result'))"

definition reconcile_active ::
  "'w Reconciler \<Rightarrow> ReconciliationResult \<Rightarrow> MultiGeneration \<Rightarrow> MultiGeneration list \<Rightarrow> ('w, ReconciliationResult result) prog" where
  "reconcile_active r result active gens =
     (let projection = \<lparr>cp_Generation = mg_Generation active, cp_ReleaseID = mg_ReleaseID active, cp_RuntimeState = [], cp_Bindings = mg_Bindings active\<rparr>;
          result' = result\<lparr>rx_CheckedGeneration := mg_Generation active, rx_OriginatingOperation := mg_CreatingOperationID active,
            rx_Projection := Some projection\<rparr> in
      attempt (observeGeneration (rc_Runtime r) active ''active'') (\<lambda>_. runtimeUnknown r result') (\<lambda>(findings, runtimeState).
      conclude r ((add_findings result' findings)\<lparr>rx_RuntimeState := runtimeState,
        rx_Projection := Some (projection\<lparr>cp_RuntimeState := runtimeState\<rparr>)\<rparr>) gens))"

definition reconcile_loaded ::
  "'w Reconciler \<Rightarrow> string \<Rightarrow> ReconciliationResult \<Rightarrow> MultiGeneration list \<Rightarrow> ('w, ReconciliationResult result) prog" where
  "reconcile_loaded r installation result gens =
     (case gens of
       [] \<Rightarrow>
         attempt (query (rc_Store r) (LatestRemovedGeneration installation)) (\<lambda>e. ret (Inl e)) (\<lambda>removed.
         save r (result\<lparr>rx_CheckedGeneration := mg_Generation removed, rx_OriginatingOperation := mg_CreatingOperationID removed,
           rx_RuntimeState := ''runtime_removed'', rx_Summary := ''no active runtime generation; runtime resources are removed''\<rparr>))
     | latest # _ \<Rightarrow>
         (case find (\<lambda>g. mg_Status g = GActive \<or> mg_Status g = GVerificationRequired) gens of
            None \<Rightarrow> conclude r (result\<lparr>rx_CheckedGeneration := mg_Generation latest, rx_RuntimeState := ''runtime_removed'',
              rx_Summary := ''no active runtime generation''\<rparr>) gens
          | Some active \<Rightarrow> reconcile_active r result active gens))"

definition reconcile_generations :: "'w Reconciler \<Rightarrow> string \<Rightarrow> ReconciliationResult \<Rightarrow> ('w, ReconciliationResult result) prog" where
  "reconcile_generations r installation result =
     attempt (query (rc_Store r) (ReconciliationGenerations installation)) (\<lambda>e. ret (Inl e)) (reconcile_loaded r installation result)"

definition initial_result :: "string \<Rightarrow> string \<Rightarrow> ReconciliationResult" where
  "initial_result installation observedAt = \<lparr>rx_InstallationID = installation, rx_CheckedGeneration = 0, rx_State = ReconciliationConsistent,
     rx_RuntimeState = ''unknown'', rx_RuntimeIdentity = [], rx_ObservedAt = observedAt, rx_MismatchCodes = [],
     rx_RecommendedAction = RepairNone, rx_OriginatingOperation = [], rx_Summary = [], rx_Components = [], rx_Projection = None\<rparr>"

definition Reconcile :: "'w Reconciler \<Rightarrow> string \<Rightarrow> ('w, ReconciliationResult result) prog" where
  "Reconcile r installation =
     (if installation = [] then ret (Inl (Errorf ''reconciliation dependencies unavailable''))
      else andThen (call (rc_Now r)) (\<lambda>observedAt.
      let result = initial_result installation observedAt in
      case rc_Identity r of
        None \<Rightarrow> reconcile_generations r installation result
      | Some provider \<Rightarrow>
        attempt (call provider)
          (\<lambda>_. save r (result\<lparr>rx_State := ReconciliationRuntimeUnknown, rx_MismatchCodes := [MismatchRuntimeUnreachable],
             rx_Summary := ''container runtime unavailable''\<rparr>))
          (\<lambda>(name, ID, version). reconcile_generations r installation
             (result\<lparr>rx_RuntimeIdentity := name @ '':'' @ ID @ '':'' @ version\<rparr>))))"

fun reconcile_each :: "'w Reconciler \<Rightarrow> string list \<Rightarrow> ('w, unit result) prog" where
  "reconcile_each r [] = ret (Inr ())"
| "reconcile_each r (i # is) = attempt (Reconcile r i) (\<lambda>e. ret (Inl e)) (\<lambda>_. reconcile_each r is)"

definition ReconcileAll :: "'w Reconciler \<Rightarrow> ('w, nat result) prog" where
  "ReconcileAll r =
     attempt (query (rc_Store r) (\<lambda>db. Inr (sort (remdups (map g_installation_id (filter (\<lambda>g. g_status g \<noteq> GRemoved) (generations db)))))))
       (\<lambda>e. ret (Inl e)) (\<lambda>installations.
     attempt (reconcile_each r installations) (\<lambda>e. ret (Inl e)) (\<lambda>_. ret (Inr (length installations))))"

end
