(* ===== verification/Repair.thy ===== *)
theory Repair
  imports Reconcile
begin

text \<open>
  \<^verbatim>\<open>internal/lifecycle/repair.go\<close>: the repairs an administrator may ask for, each checked
  against a fresh reconciliation, and \<^verbatim>\<open>internal/lifecycle/recovery.go\<close>: the classification
  of interrupted operations when the helper starts.
\<close>

section \<open>One component\<close>

text \<open>The runtime and the store of a repairer are those of the reconciler it uses.\<close>

record 'w Repairer =
  rp_Reconciler :: "'w Reconciler"
  rp_Evidence :: evidence

definition repair_phase :: "'w Repairer \<Rightarrow> string \<Rightarrow> int \<Rightarrow> string \<Rightarrow> string \<Rightarrow> string go_map \<Rightarrow> ('w, unit result) prog" where
  "repair_phase r operationID token phase outcome facts =
     txn (rc_Store (rp_Reconciler r)) (\<lambda>now. rp_Evidence r now operationID token phase outcome facts)"

definition early_status :: "gen_status \<Rightarrow> bool" where
  "early_status st = (st \<in> set [GPrepared, GCandidate, GFailed, GCleanupPending])"

definition exact_identity :: "MultiGeneration \<Rightarrow> LComponent \<Rightarrow> ContainerObservation \<Rightarrow> unit result" where
  "exact_identity g c observed =
     (if \<not> co_Exists observed \<or> co_ID observed \<noteq> lc_ContainerID c \<or> co_Name observed \<noteq> lc_ContainerName c
         \<or> co_ImageReference observed \<noteq> lc_Image c \<or> \<not> owned (mg_InstallationID g) (mg_Generation g) observed
      then Inl (Errorf ''repair refused because component ownership is not exact'')
      else if lc_ImageID c \<noteq> [] \<and> co_ImageID observed \<noteq> lc_ImageID c
      then Inl (Errorf ''repair refused because component image identity changed'') else Inr ())"

definition exact_network :: "MultiGeneration \<Rightarrow> NetworkObservation \<Rightarrow> LComponent \<Rightarrow> ContainerObservation \<Rightarrow> unit result" where
  "exact_network g network c observed =
     (let detached = detached_after_failed_start g network c observed in
      if lc_ConfigurationHash c \<noteq> [] \<and> observationHash observed \<noteq> lc_ConfigurationHash c \<and> \<not> detached
      then Inl (Errorf ''repair refused because component configuration changed'')
      else if \<not> detached \<and> network_differs (early_status (mg_Status g)) g network observed
      then Inl (Errorf ''repair refused because component network identity changed'') else Inr ())"

definition verifyExactComponent ::
  "'w Repairer \<Rightarrow> MultiGeneration \<Rightarrow> LComponent \<Rightarrow> ('w, ContainerObservation result) prog" where
  "verifyExactComponent r g c =
     (let rt = rc_Runtime (rp_Reconciler r) in
      attempt (call (ObserveContainer rt (lc_ContainerID c))) (\<lambda>e. ret (Inl e)) (\<lambda>observed.
      attempt (ret (exact_identity g c observed)) (\<lambda>e. ret (Inl e)) (\<lambda>_.
      attempt (call (ObserveNetwork rt (mg_NetworkName g))) (\<lambda>e. ret (Inl e)) (\<lambda>network.
      attempt (ret (exact_network g network c observed)) (\<lambda>e. ret (Inl e)) (\<lambda>_. ret (Inr observed))))))"

definition repair_call :: "'w LifecycleRuntime \<Rightarrow> string \<Rightarrow> string \<Rightarrow> ('w, unit result) prog option" where
  "repair_call rt action n = (if action = ''repair_start'' then Some (call (StartContainer rt n))
     else if action = ''repair_stop'' then Some (call (StopContainer rt n))
     else if action = ''repair_remove'' then Some (call (RemoveContainer rt n)) else None)"

definition repairPlan :: "MultiGeneration \<Rightarrow> string \<Rightarrow> int \<Rightarrow> MultiPlan" where
  "repairPlan g operationID token = operate_plan (mg_InstallationID g) operationID token g"

definition repair_step :: "'w Repairer \<Rightarrow> (string \<Rightarrow> helper_db \<Rightarrow> helper_db result) \<Rightarrow> ('w, unit result) prog" where
  "repair_step r f = txn (rc_Store (rp_Reconciler r)) f"

definition repair_finish ::
  "'w Repairer \<Rightarrow> MultiPlan \<Rightarrow> string \<Rightarrow> string \<Rightarrow> string \<Rightarrow> outcome_confidence \<Rightarrow> string \<Rightarrow> ('w, unit result) prog" where
  "repair_finish r plan component action observedID confidence detail =
     repair_step r (\<lambda>now. FinishComponentStep now plan component action 1 observedID confidence detail)"

definition mutateComponent ::
  "'w Repairer \<Rightarrow> MultiPlan \<Rightarrow> MultiGeneration \<Rightarrow> LComponent \<Rightarrow> string \<Rightarrow> string \<Rightarrow> ('w, run_error + unit) prog" where
  "mutateComponent r plan g c action want =
     (let rt = rc_Runtime (rp_Reconciler r) in
      attempt (repair_step r (\<lambda>now. BeginComponentStep now plan (lc_ID c) action (lc_ContainerID c) 1)) fail (\<lambda>_.
      attempt (repair_phase r (mp_OperationID plan) (mp_FencingToken plan) action ''intent''
        [(''component_id'', lc_ID c), (''runtime_id'', lc_ContainerID c)]) fail (\<lambda>_.
      attempt (repair_step r (\<lambda>now. DispatchComponentStep now plan (lc_ID c) action 1)) fail (\<lambda>_.
      case repair_call rt action (lc_ContainerID c) of
        None \<Rightarrow> fail (Errorf ''unsupported repair mutation'')
      | Some mutation \<Rightarrow>
        andThen mutation (\<lambda>mutationErr.
        attempt (call (ObserveContainer rt (lc_ContainerID c)))
          (\<lambda>observeErr. andThen (repair_finish r plan (lc_ID c) action [] unknown_outcome (stableError mutationErr observeErr))
             (\<lambda>_. unknown PhaseCleanup (firstError mutationErr observeErr))) (\<lambda>observed.
        let applied = (if want = RuntimeMissing then \<not> co_Exists observed \<or> co_State observed = RuntimeMissing else co_State observed = want);
            detail = stableError mutationErr (Errorf ''repair postcondition was not achieved'');
            confirm = attempt (repair_finish r plan (lc_ID c) action (co_ID observed) confirmed_applied (error_detail mutationErr)) fail (\<lambda>_.
              attempt (repair_phase r (mp_OperationID plan) (mp_FencingToken plan) action ''confirmed'' [(''component_id'', lc_ID c)]) fail
                (\<lambda>_. ret (Inr ())));
            doubtful = (\<lambda>e. let detail = stableError mutationErr e in
              andThen (repair_finish r plan (lc_ID c) action (co_ID observed) unknown_outcome detail)
                (\<lambda>_. unknown PhaseBeforeVerification (Errorf detail))) in
        if \<not> applied then
          andThen (repair_finish r plan (lc_ID c) action (co_ID observed) confirmed_absent detail) (\<lambda>_. fail (Errorf detail))
        else if want \<noteq> RuntimeMissing then
          attempt (verifyExactComponent r g c) doubtful (\<lambda>verified.
          if co_State verified \<noteq> want then doubtful (Errorf ''repair identity verification failed'') else confirm)
        else confirm))))))"

section \<open>Starting the active generation\<close>

fun dependencies_running :: "'w Repairer \<Rightarrow> MultiGeneration \<Rightarrow> LComponent \<Rightarrow> string list \<Rightarrow> ('w, unit result) prog" where
  "dependencies_running r g c [] = ret (Inr ())"
| "dependencies_running r g c (d # ds) =
     (case componentByID (mg_Components g) d of
        None \<Rightarrow> ret (Inl (Errorf ''stored dependency topology is incomplete''))
      | Some dependency \<Rightarrow>
        (let stopped = ret (Inl (Errorf (''dependency '' @ d @ '' is not running before '' @ lc_ID c))) in
         attempt (verifyExactComponent r g dependency) (\<lambda>_. stopped) (\<lambda>observed.
         if co_State observed \<noteq> RuntimeRunning then stopped else dependencies_running r g c ds)))"

definition start_one :: "'w Repairer \<Rightarrow> MultiPlan \<Rightarrow> MultiGeneration \<Rightarrow> LComponent \<Rightarrow> ('w, run_error + unit) prog" where
  "start_one r plan g c =
     attempt (verifyExactComponent r g c) fail (\<lambda>observed.
     if co_State observed = RuntimeRunning then ret (Inr ())
     else if co_State observed \<noteq> RuntimeStopped
     then fail (Errorf (''component '' @ lc_ID c @ '' cannot be started from '' @ co_State observed))
     else
     attempt (dependencies_running r g c (lc_DependsOn c)) fail (\<lambda>_.
     attempt (mutateComponent r plan g c ''repair_start'' RuntimeRunning) (\<lambda>e. ret (Inl e)) (\<lambda>_.
     attempt (repair_step r (\<lambda>now. RecordMultiContainer now plan (lc_ID c) (lc_ContainerID c) [] [] CsRunning True)) fail (\<lambda>_. ret (Inr ())))))"

fun start_each :: "'w Repairer \<Rightarrow> MultiPlan \<Rightarrow> MultiGeneration \<Rightarrow> LComponent list \<Rightarrow> ('w, run_error + unit) prog" where
  "start_each r plan g [] = ret (Inr ())"
| "start_each r plan g (c # cs) = attempt (start_one r plan g c) (\<lambda>e. ret (Inl e)) (\<lambda>_. start_each r plan g cs)"

definition startActive :: "'w Repairer \<Rightarrow> string \<Rightarrow> string \<Rightarrow> int \<Rightarrow> ('w, run_error + unit) prog" where
  "startActive r installation operationID token =
     attempt (query (rc_Store (rp_Reconciler r)) (MultiCurrent installation)) fail (\<lambda>g.
     if mg_Status g \<noteq> GActive then fail (Errorf ''active generation unavailable'')
     else start_each r (repairPlan g operationID token) g (mg_Components g))"

section \<open>Cleanup\<close>

fun detached_components :: "'w Repairer \<Rightarrow> MultiGeneration \<Rightarrow> NetworkObservation \<Rightarrow> bool \<Rightarrow> LComponent list \<Rightarrow> ('w, bool result) prog" where
  "detached_components r g network detached [] = ret (Inr detached)"
| "detached_components r g network detached (c # cs) =
     attempt (verifyExactComponent r g c) (\<lambda>e. ret (Inl e)) (\<lambda>observed.
     detached_components r g network
       (detached \<or> detachedStoppedConfigurationMatches observed (lc_ConfigurationHash c) (mg_NetworkName g) (nw_ID network)) cs)"

definition retainedGenerationDetached :: "'w Repairer \<Rightarrow> MultiGeneration \<Rightarrow> ('w, bool result) prog" where
  "retainedGenerationDetached r g =
     attempt (call (ObserveNetwork (rc_Runtime (rp_Reconciler r)) (mg_NetworkName g))) (\<lambda>e. ret (Inl e)) (\<lambda>network.
     if \<not> nw_Exists network \<or> (mg_NetworkID g \<noteq> [] \<and> nw_ID network \<noteq> mg_NetworkID g) then ret (Inr False)
     else detached_components r g network False (mg_Components g))"

definition cleanup_component :: "'w Repairer \<Rightarrow> MultiPlan \<Rightarrow> MultiGeneration \<Rightarrow> LComponent \<Rightarrow> ('w, run_error + unit) prog" where
  "cleanup_component r plan g c =
     attempt (observeComponent (rc_Runtime (rp_Reconciler r)) c) fail (\<lambda>observed.
     if \<not> co_Exists observed then
       attempt (call (ObserveContainer (rc_Runtime (rp_Reconciler r)) (lc_ContainerName c))) fail (\<lambda>byName.
       if co_Exists byName then fail (Errorf ''cleanup refused because expected name is occupied by another runtime object'')
       else ret (Inr ()))
     else
       let c' = (if lc_ContainerID c = [] then c\<lparr>lc_ContainerID := co_ID observed\<rparr> else c) in
       attempt (verifyExactComponent r g c') fail (\<lambda>_.
       attempt (if co_State observed = RuntimeRunning then mutateComponent r plan g c' ''repair_stop'' RuntimeStopped else ret (Inr ()))
         (\<lambda>e. ret (Inl e)) (\<lambda>_.
       mutateComponent r plan g c' ''repair_remove'' RuntimeMissing)))"

fun cleanup_all :: "'w Repairer \<Rightarrow> MultiPlan \<Rightarrow> MultiGeneration \<Rightarrow> LComponent list \<Rightarrow> ('w, run_error + unit) prog" where
  "cleanup_all r plan g [] = ret (Inr ())"
| "cleanup_all r plan g (c # cs) = attempt (cleanup_component r plan g c) (\<lambda>e. ret (Inl e)) (\<lambda>_. cleanup_all r plan g cs)"

definition repair_network :: "'w Repairer \<Rightarrow> MultiGeneration \<Rightarrow> string \<Rightarrow> int \<Rightarrow> ('w, run_error + unit) prog" where
  "repair_network r g operationID token =
     (let rt = rc_Runtime (rp_Reconciler r) in
      attempt (call (ObserveNetwork rt (mg_NetworkName g))) fail (\<lambda>network.
      if nw_Exists network \<and> mg_NetworkID g \<noteq> [] \<and> nw_ID network \<noteq> mg_NetworkID g
      then fail (Errorf ''cleanup refused because network identity changed'')
      else if nw_Exists network then
        attempt (repair_phase r operationID token ''repair_remove_network'' ''intent''
          [(''generation'', itoa (mg_Generation g)), (''network_id'', nw_ID network)]) fail (\<lambda>_.
        andThen (call (RemoveLifecycleNetwork rt (mg_NetworkName g))) (\<lambda>removeErr.
        attempt (call (ObserveNetwork rt (mg_NetworkName g))) (\<lambda>e. unknown PhaseCleanup (firstError removeErr e)) (\<lambda>removed.
        if nw_Exists removed then fail (firstError removeErr (Errorf ''cleanup network removal was not applied''))
        else attempt (repair_phase r operationID token ''repair_remove_network'' ''confirmed'' [(''generation'', itoa (mg_Generation g))]) fail
          (\<lambda>_. ret (Inr ())))))
      else ret (Inr ())))"

definition cleanup_generation :: "'w Repairer \<Rightarrow> MultiGeneration \<Rightarrow> string \<Rightarrow> int \<Rightarrow> ('w, run_error + unit) prog" where
  "cleanup_generation r g operationID token =
     attempt (cleanup_all r (repairPlan g operationID token) g (reverseComponents (mg_Components g))) (\<lambda>e. ret (Inl e)) (\<lambda>_.
     attempt (repair_network r g operationID token) (\<lambda>e. ret (Inl e)) (\<lambda>_.
     attempt (repair_step r (\<lambda>_. MarkNonActiveRemoved g operationID token)) fail (\<lambda>_. ret (Inr ()))))"

fun cleanup_generations :: "'w Repairer \<Rightarrow> string \<Rightarrow> int \<Rightarrow> MultiGeneration list \<Rightarrow> ('w, run_error + unit) prog" where
  "cleanup_generations r operationID token [] = ret (Inr ())"
| "cleanup_generations r operationID token (g # gs) =
     (if mg_Status g = GActive \<or> mg_Status g = GVerificationRequired then cleanup_generations r operationID token gs
      else
      attempt (if mg_Status g = GRetained then retainedGenerationDetached r g else ret (Inr True)) fail (\<lambda>detached.
      if \<not> detached then cleanup_generations r operationID token gs
      else attempt (cleanup_generation r g operationID token) (\<lambda>e. ret (Inl e)) (\<lambda>_. cleanup_generations r operationID token gs)))"

definition cleanupNonActive :: "'w Repairer \<Rightarrow> string \<Rightarrow> string \<Rightarrow> int \<Rightarrow> ('w, run_error + unit) prog" where
  "cleanupNonActive r installation operationID token =
     attempt (query (rc_Store (rp_Reconciler r)) (ReconciliationGenerations installation)) fail (cleanup_generations r operationID token)"

section \<open>Loss of a retained generation\<close>

fun any_exists :: "'w Repairer \<Rightarrow> bool \<Rightarrow> LComponent list \<Rightarrow> ('w, bool result) prog" where
  "any_exists r found [] = ret (Inr found)"
| "any_exists r found (c # cs) =
     attempt (call (ObserveContainer (rc_Runtime (rp_Reconciler r)) (lc_ContainerID c))) (\<lambda>e. ret (Inl e))
       (\<lambda>observed. any_exists r (found \<or> co_Exists observed) cs)"

fun acknowledge_each :: "'w Repairer \<Rightarrow> string \<Rightarrow> int \<Rightarrow> bool \<Rightarrow> MultiGeneration list \<Rightarrow> ('w, bool result) prog" where
  "acknowledge_each r operationID token changed [] = ret (Inr changed)"
| "acknowledge_each r operationID token changed (g # gs) =
     (if mg_Status g \<noteq> GRetained then acknowledge_each r operationID token changed gs
      else
      attempt (any_exists r False (mg_Components g)) (\<lambda>e. ret (Inl e)) (\<lambda>found.
      if found then acknowledge_each r operationID token changed gs
      else
      attempt (call (ObserveNetwork (rc_Runtime (rp_Reconciler r)) (mg_NetworkName g))) (\<lambda>e. ret (Inl e)) (\<lambda>network.
      attempt (repair_step r (\<lambda>_. if nw_Exists network then MarkRetainedCleanupPending g operationID token
          else MarkNonActiveRemoved g operationID token)) (\<lambda>e. ret (Inl e)) (\<lambda>_.
      acknowledge_each r operationID token True gs))))"

definition acknowledgeRetainedLoss :: "'w Repairer \<Rightarrow> string \<Rightarrow> string \<Rightarrow> int \<Rightarrow> ('w, run_error + unit) prog" where
  "acknowledgeRetainedLoss r installation operationID token =
     attempt (query (rc_Store (rp_Reconciler r)) (ReconciliationGenerations installation)) fail (\<lambda>gens.
     attempt (acknowledge_each r operationID token False gens) fail (\<lambda>changed.
     if changed then ret (Inr ()) else fail (Errorf ''no exactly missing retained generation found'')))"

section \<open>Repair\<close>

definition eligible :: "ReconciliationResult \<Rightarrow> string \<Rightarrow> bool" where
  "eligible current action = (rx_RecommendedAction current = action \<or> rx_State current = ReconciliationConsistent)"

definition repair_action ::
  "'w Repairer \<Rightarrow> ReconciliationResult \<Rightarrow> string \<Rightarrow> string \<Rightarrow> int \<Rightarrow> string \<Rightarrow> ('w, run_error + unit) prog" where
  "repair_action r current installation operationID token action =
     (if action = RepairStartActive then
        (if \<not> eligible current action then fail (Errorf ''active runtime is not eligible for exact start repair'')
         else startActive r installation operationID token)
      else if action = RepairCleanupResources then
        (if \<not> eligible current action then fail (Errorf ''installation is not eligible for exact resource cleanup'')
         else cleanupNonActive r installation operationID token)
      else if action = RepairAcknowledgeRetainedLoss then
        (if \<not> eligible current action then fail (Errorf ''retained generation loss is not eligible for acknowledgement'')
         else acknowledgeRetainedLoss r installation operationID token)
      else fail (Errorf ''unsupported repair action''))"

definition Repair :: "'w Repairer \<Rightarrow> string \<Rightarrow> string \<Rightarrow> int \<Rightarrow> string \<Rightarrow> ('w, run_error + ReconciliationResult) prog" where
  "Repair r installation operationID token action =
     attempt (Reconcile (rp_Reconciler r) installation) fail (\<lambda>current.
     attempt (repair_phase r operationID token ''repair_validation'' ''confirmed''
       [(''repair_action'', action), (''classification'', rx_State current)]) fail (\<lambda>_.
     attempt (repair_action r current installation operationID token action) (\<lambda>e. ret (Inl e)) (\<lambda>_.
     attempt (repair_phase r operationID token ''repair_verification'' ''intent'' [(''repair_action'', action)]) fail (\<lambda>_.
     attempt (Reconcile (rp_Reconciler r) installation) fail (\<lambda>result.
     attempt (repair_phase r operationID token ''repair_verification'' ''confirmed'' [(''classification'', rx_State result)]) fail
       (\<lambda>_. ret (Inr result)))))))"

section \<open>Recovery of interrupted operations\<close>

definition interrupted :: "helper_db \<Rightarrow> gen_row \<Rightarrow> bool" where
  "interrupted db g = ((\<exists>o' \<in> set (operations db). o_operation_id o' = g_creating_operation_id g \<and> o_state o' = StateActionRequired)
     \<and> g_status g \<in> set [GCandidate, GActive])"

definition component_count :: "helper_db \<Rightarrow> gen_row \<Rightarrow> nat" where
  "component_count db g = sql_count (in_comp (g_installation_id g) (g_runtime_generation g)) (components db)"

definition interrupted_single :: "helper_db \<Rightarrow> Generation list" where
  "interrupted_single db = map scanGeneration (sort_key (\<lambda>(g, c). g_created_at g)
     (filter (\<lambda>(g, c). interrupted db g \<and> component_count db g = 1) (generationSelect db)))"

definition interrupted_multi :: "helper_db \<Rightarrow> (string \<times> int) list" where
  "interrupted_multi db = map (\<lambda>g. (g_installation_id g, g_runtime_generation g)) (sort_key g_created_at
     (filter (\<lambda>g. interrupted db g \<and> 1 < component_count db g) (generations db)))"

definition recovered_result :: "Generation \<Rightarrow> Result" where
  "recovered_result g = \<lparr>re_Generation = ge_Generation g, re_ReleaseID = ge_ReleaseID g, re_RuntimeState = ''running'',
     re_ContainerName = lc_ContainerName (ge_Component g), re_ContainerID = lc_ContainerID (ge_Component g),
     re_NetworkName = ge_NetworkName g, re_Bindings = ge_Bindings g, re_CleanupDeferred = False, re_Components = []\<rparr>"

text \<open>The exact runtime of an interrupted generation, and what one turn of the loop adds to the count.\<close>

definition attached_to :: "Generation \<Rightarrow> NetworkObservation \<Rightarrow> ContainerObservation \<Rightarrow> bool" where
  "attached_to g network observed = (nw_Exists network \<and> nw_ID network = ge_NetworkID g
     \<and> map_option na_NetworkID (map_of (co_Networks observed) (ge_NetworkName g)) = Some (nw_ID network))"

definition recover_single :: "'w LifecycleRuntime \<Rightarrow> 'w store \<Rightarrow> Generation \<Rightarrow> ('w, nat result) prog" where
  "recover_single rt st g =
     attempt (verifyStoredGeneration (helper_runner rt st) g RuntimeRunning) (\<lambda>_. ret (Inr 0)) (\<lambda>observed.
     attempt (call (ObserveNetwork rt (ge_NetworkName g))) (\<lambda>_. ret (Inr 0)) (\<lambda>network.
     if \<not> attached_to g network observed then ret (Inr 0)
     else attempt (txn st (\<lambda>now. if ge_Status g = Some GActive then FinalizeCommittedRecovery now g (recovered_result g)
         else RecoverForward now g (recovered_result g))) (\<lambda>e. ret (Inl e)) (\<lambda>_. ret (Inr 1))))"

definition multi_recovered_result :: "MultiGeneration \<Rightarrow> Result" where
  "multi_recovered_result g = \<lparr>re_Generation = mg_Generation g, re_ReleaseID = mg_ReleaseID g, re_RuntimeState = ''running'',
     re_ContainerName = [], re_ContainerID = [], re_NetworkName = mg_NetworkName g, re_Bindings = mg_Bindings g,
     re_CleanupDeferred = False, re_Components = fold (\<lambda>c. put (lc_ID c) (lc_ContainerID c)) (mg_Components g) []\<rparr>"

definition recover_multi :: "'w LifecycleRuntime \<Rightarrow> 'w store \<Rightarrow> string \<times> int \<Rightarrow> ('w, nat result) prog" where
  "recover_multi rt st item =
     (let r = helper_multi_runner rt st in
      attempt (query st (LoadMultiGeneration (fst item) (snd item))) (\<lambda>_. ret (Inr 0)) (\<lambda>g.
      attempt (verifyGeneration r g RuntimeRunning) (\<lambda>_. ret (Inr 0)) (\<lambda>_.
      if mg_Status g = GActive then
        attempt (txn st (\<lambda>now. FinalizeCommittedRecovery now ((bare_generation g)\<lparr>ge_CreatingOperationID := mg_CreatingOperationID g\<rparr>)
          (multi_recovered_result g))) (\<lambda>e. ret (Inl e)) (\<lambda>_. ret (Inr 1))
      else
        attempt (if 1 < mg_Generation g then
            attempt (query st (LoadMultiGeneration (mg_InstallationID g) (mg_Generation g - 1))) (\<lambda>e. ret (Inl e))
              (\<lambda>previous. verifyGeneration r previous RuntimeStopped)
          else ret (Inr ())) (\<lambda>_. ret (Inr 0)) (\<lambda>_.
        attempt (txn st (\<lambda>now. RecordRecoveredMultiVerification now g)) (\<lambda>_. ret (Inr 0)) (\<lambda>_.
        attempt (txn st (\<lambda>now. RecoverForwardMulti now g (multi_recovered_result g))) (\<lambda>e. ret (Inl e)) (\<lambda>_. ret (Inr 1)))))))"

fun recover_each :: "('a \<Rightarrow> ('w, nat result) prog) \<Rightarrow> nat \<Rightarrow> 'a list \<Rightarrow> ('w, nat result) prog" where
  "recover_each f recovered [] = ret (Inr recovered)"
| "recover_each f recovered (x # xs) = attempt (f x) (\<lambda>e. ret (Inl e)) (\<lambda>n. recover_each f (recovered + n) xs)"

definition lifecycle_RecoverInterrupted :: "'w LifecycleRuntime \<Rightarrow> 'w store \<Rightarrow> ('w, nat result) prog" where
  "lifecycle_RecoverInterrupted rt st =
     attempt (query st (\<lambda>db. Inr (interrupted_single db))) (\<lambda>e. ret (Inl e)) (\<lambda>gs.
     attempt (recover_each (recover_single rt st) 0 gs) (\<lambda>e. ret (Inl e)) (\<lambda>recovered.
     attempt (query st (\<lambda>db. Inr (interrupted_multi db))) (\<lambda>e. ret (Inl e)) (\<lambda>keys.
     recover_each (recover_multi rt st) recovered keys)))"

end
