(* ===== verification/Reconcile_Spec.thy ===== *)
theory Reconcile_Spec
  imports Reconcile Operate_Spec
begin

text \<open>
  What a reconciliation guarantees: it never changes what is active, it reports an
  installation as consistent, or its runtime as exact, only after it observed every component
  of the active generation with the recorded identity, and its stored result can be read back.
\<close>

section \<open>Codes\<close>

definition known_codes :: "string set" where
  "known_codes = {MismatchActiveContainerMissing, MismatchActiveContainerStopped, MismatchActiveContainerDetached, MismatchActiveContainerRunning,
     MismatchActiveContainerUnstable, MismatchImage, MismatchConfiguration, MismatchNetwork, MismatchComponentMissing,
     MismatchComponentStateMixed, MismatchDependencyState, MismatchRetainedGenerationMissing, MismatchRetainedGenerationRunning,
     MismatchCandidateOrphaned, MismatchCleanupPending, MismatchRuntimeUnreachable, MismatchRuntimeStateUnknown, MismatchOwnershipAmbiguous}"

lemma set_uniqueCodes: "set (uniqueCodes cs) = set cs - {[]}"
  by (auto simp: uniqueCodes_def)

lemma uniqueCodes_sorted: "sorted (uniqueCodes cs) \<and> distinct (uniqueCodes cs)"
  by (simp add: uniqueCodes_def)

lemmas code_defs = MismatchActiveContainerMissing_def MismatchActiveContainerStopped_def MismatchActiveContainerDetached_def
  MismatchActiveContainerRunning_def MismatchActiveContainerUnstable_def MismatchImage_def MismatchConfiguration_def MismatchNetwork_def
  MismatchComponentMissing_def MismatchComponentStateMixed_def MismatchDependencyState_def MismatchRetainedGenerationMissing_def
  MismatchRetainedGenerationRunning_def MismatchCandidateOrphaned_def MismatchCleanupPending_def MismatchRuntimeUnreachable_def
  MismatchRuntimeStateUnknown_def MismatchOwnershipAmbiguous_def

lemma known_codes_nonempty: "[] \<notin> known_codes"
  by (simp add: known_codes_def code_defs)

lemma code_if_known: "set (code_if b c) \<subseteq> S \<longleftrightarrow> (b \<longrightarrow> c \<in> S)"
  by (auto simp: code_if_def)

lemma component_codes_known: "set (component_codes g network role c observed) \<subseteq> known_codes"
  unfolding component_codes_def Let_def set_append Un_subset_iff code_if_known
  by (auto simp: code_if_known known_codes_def)

lemma missing_codes_known: "set (missing_codes role g) \<subseteq> known_codes"
  by (auto simp: missing_codes_def code_if_known known_codes_def)

text \<open>The codes that say the runtime is not the recorded one, and those that say it is gone.\<close>

definition identity_codes :: "string set" where
  "identity_codes = {MismatchOwnershipAmbiguous, MismatchImage, MismatchConfiguration, MismatchNetwork}"

definition missing_active :: "string set" where
  "missing_active = {MismatchActiveContainerMissing, MismatchComponentMissing, MismatchActiveContainerDetached}"

lemma finish_codes: "rx_MismatchCodes (finish result) = uniqueCodes (rx_MismatchCodes result)"
  by (simp add: finish_def classified_def Let_def)

lemma finish_consistent:
  assumes "rx_State (finish result) = ReconciliationConsistent"
  shows "set (rx_MismatchCodes result) \<inter> known_codes = {}"
proof -
  have "uniqueCodes (rx_MismatchCodes result) = cs \<Longrightarrow> set cs \<inter> known_codes = {}" for cs
    using assms unfolding finish_def Let_def classified_def
    by (auto simp: known_codes_def ReconciliationConsistent_def ReconciliationRuntimeUnknown_def ReconciliationActionRequired_def
        ReconciliationRepairable_def ReconciliationRuntimeMissing_def ReconciliationDegraded_def ReconciliationCleanupPending_def split: if_splits)
  then show ?thesis using known_codes_nonempty by (auto simp: set_uniqueCodes)
qed

lemma finish_repair:
  assumes "rx_RecommendedAction (finish result) \<noteq> RepairNone"
  shows "set (rx_MismatchCodes result) \<inter> identity_codes = {}"
    and "rx_RecommendedAction (finish result) = RepairStartActive \<Longrightarrow> set (rx_MismatchCodes result) \<inter> missing_active = {}"
proof -
  have "[] \<notin> identity_codes" "[] \<notin> missing_active" by (simp_all add: identity_codes_def missing_active_def code_defs)
  then have set_eq: "set (rx_MismatchCodes result) \<inter> identity_codes = set (uniqueCodes (rx_MismatchCodes result)) \<inter> identity_codes"
    "set (rx_MismatchCodes result) \<inter> missing_active = set (uniqueCodes (rx_MismatchCodes result)) \<inter> missing_active"
    by (auto simp: set_uniqueCodes)
  show "set (rx_MismatchCodes result) \<inter> identity_codes = {}"
    unfolding set_eq using assms unfolding finish_def Let_def classified_def identity_codes_def by (auto split: if_splits)
  show "rx_RecommendedAction (finish result) = RepairStartActive \<Longrightarrow> set (rx_MismatchCodes result) \<inter> missing_active = {}"
    unfolding set_eq unfolding finish_def Let_def classified_def missing_active_def
    by (auto simp: RepairStartActive_def RepairNone_def RepairRecreateGeneration_def split: if_splits)
qed

section \<open>Observations\<close>

text \<open>
  A recorded component and what the runtime showed for it: the object of the recorded ID or
  name, owned by this generation, of the recorded image and configuration, attached to the
  generation's network.
\<close>

definition shown :: "'w LifecycleRuntime \<Rightarrow> LComponent \<Rightarrow> ContainerObservation \<Rightarrow> bool" where
  "shown rt c observed \<longleftrightarrow> observed = zero_observation \<or> (\<exists>w. fst (ObserveContainer rt (lc_ContainerID c) w) = Inr observed)
     \<or> (\<exists>w. fst (ObserveContainer rt (lc_ContainerName c) w) = Inr observed)"

definition exact_component :: "MultiGeneration \<Rightarrow> NetworkObservation \<Rightarrow> LComponent \<Rightarrow> ContainerObservation \<Rightarrow> bool" where
  "exact_component g network c observed \<longleftrightarrow> co_Exists observed
     \<and> (lc_ContainerID c \<noteq> [] \<longrightarrow> co_ID observed = lc_ContainerID c) \<and> co_Name observed = lc_ContainerName c
     \<and> owned (mg_InstallationID g) (mg_Generation g) observed
     \<and> co_ImageReference observed = lc_Image c \<and> (lc_ImageID c \<noteq> [] \<longrightarrow> co_ImageID observed = lc_ImageID c)
     \<and> (lc_ConfigurationHash c \<noteq> [] \<longrightarrow> observationHash observed = lc_ConfigurationHash c)
     \<and> nw_Exists network \<and> (mg_NetworkID g \<noteq> [] \<longrightarrow> nw_ID network = mg_NetworkID g)
     \<and> (\<exists>a. map_of (co_Networks observed) (mg_NetworkName g) = Some a \<and> (nw_ID network \<noteq> [] \<longrightarrow> na_NetworkID a = nw_ID network))"

text \<open>The state of a component agrees with the record.\<close>

definition settled :: "LComponent \<Rightarrow> ContainerObservation \<Rightarrow> bool" where
  "settled c observed \<longleftrightarrow> co_State observed \<noteq> RuntimeRestarting \<and> co_State observed \<noteq> RuntimePaused \<and> co_State observed \<noteq> RuntimeUnknown
     \<and> (if lc_State c = CsStopped then co_State observed \<noteq> RuntimeRunning else co_State observed \<noteq> RuntimeStopped)"

lemma active_codes_exact:
  assumes "co_Exists observed" and "set (component_codes g network ''active'' c observed) \<inter> (identity_codes \<union> missing_active) = {}"
  shows "exact_component g network c observed"
proof -
  from assms(2) have d: "\<not> detached_after_failed_start g network c observed"
    by (auto simp: component_codes_def Let_def missing_active_def split: if_splits)
  from assms(2) have "(lc_ContainerID c \<noteq> [] \<longrightarrow> co_ID observed = lc_ContainerID c)" "co_Name observed = lc_ContainerName c"
    "owned (mg_InstallationID g) (mg_Generation g) observed"
    "co_ImageReference observed = lc_Image c" "(lc_ImageID c \<noteq> [] \<longrightarrow> co_ImageID observed = lc_ImageID c)"
    "(lc_ConfigurationHash c \<noteq> [] \<longrightarrow> observationHash observed = lc_ConfigurationHash c)"
    and n: "\<not> network_differs False g network observed"
    by (auto simp: component_codes_def Let_def identity_codes_def code_if_def d split: if_splits)
  with assms(1) n show ?thesis
    by (auto simp: exact_component_def network_differs_def attachment_id_def Let_def split: option.splits)
qed

lemma active_codes_settled:
  assumes "component_codes g network ''active'' c observed = []"
  shows "settled c observed"
  using assms by (cases "lc_State c")
    (auto simp: component_codes_def Let_def code_if_def settled_def expected_runtime_def split: if_splits)

text \<open>What the loop over the components of a generation finds.\<close>

lemma triple_call:
  assumes "\<And>e. triple I (h e) Q" and "\<And>x. (\<exists>w. fst (f w) = Inr x) \<Longrightarrow> triple I (k x) Q"
  shows "triple I (attempt (call f) h k) Q"
proof (rule triple_attempt [where R = "\<lambda>res db. I db \<and> (\<forall>x. res = Inr x \<longrightarrow> (\<exists>w. fst (f w) = Inr x))"])
  show "triple I (call f) (\<lambda>res db. I db \<and> (\<forall>x. res = Inr x \<longrightarrow> (\<exists>w. fst (f w) = Inr x)))"
    by (auto simp: triple_def wp_def call_def split: prod.splits) (metis fst_conv)
qed (use assms in \<open>auto simp: triple_def\<close>)

lemma observeComponent_shown: "triple I (observeComponent rt c) (stage I (\<lambda>observed db. I db \<and> shown rt c observed))"
proof -
  have byName: "triple I (call (ObserveContainer rt n)) (stage I (\<lambda>observed db. I db \<and> (\<exists>w. fst (ObserveContainer rt n w) = Inr observed)))" for n
    by (auto simp: triple_def wp_def call_def stage_def split: prod.splits sum.splits) (metis fst_conv)
  show ?thesis
    unfolding observeComponent_def Let_def
    by (intro triple_if triple_call triple_ret triple_post [OF byName]) (auto simp: shown_def stage_def split: sum.splits)
qed

definition states_of :: "LComponent list \<Rightarrow> ContainerObservation list \<Rightarrow> string go_map" where
  "states_of cs obs = rev (map (\<lambda>(c, observed). (lc_ID c, co_State observed)) (filter (\<lambda>(c, observed). co_Exists observed) (zip cs obs)))"

lemma observe_findings_post:
  "triple I (observe_findings rt g network role cs findings states)
    (stage I (\<lambda>(fs, sts) db. I db \<and> (\<exists>obs. list_all2 (shown rt) cs obs \<and> fs = findings @ map2 (finding_of g network role) cs obs
       \<and> sts = states_of cs obs @ states)))"
proof (induction cs arbitrary: findings states)
  case (Cons c cs)
  show ?case
    unfolding observe_findings.simps
  proof (intro triple_stage [OF observeComponent_shown] triple_ret triple_fact, goal_cases)
    case (2 observed)
    show ?case
      by (rule triple_post [OF Cons.IH]) (use 2 in \<open>auto simp: stage_def states_of_def split: sum.splits intro!: exI [of _ "observed # _"]\<close>)
  qed simp
qed (auto intro!: triple_ret simp: states_of_def)

section \<open>Generations\<close>

definition observed_as :: "'w LifecycleRuntime \<Rightarrow> MultiGeneration \<Rightarrow> NetworkObservation \<Rightarrow> ContainerObservation list \<Rightarrow> bool" where
  "observed_as rt g network obs \<longleftrightarrow> (\<exists>w. fst (ObserveNetwork rt (mg_NetworkName g) w) = Inr network)
     \<and> list_all2 (shown rt) (mg_Components g) obs \<and> list_all2 (exact_component g network) (mg_Components g) obs"

text \<open>Every component was observed as recorded; and moreover all in the same, recorded state.\<close>

definition exact_runtime :: "'w LifecycleRuntime \<Rightarrow> MultiGeneration \<Rightarrow> bool" where
  "exact_runtime rt g \<longleftrightarrow> (\<exists>network obs. observed_as rt g network obs)"

definition consistent_runtime :: "'w LifecycleRuntime \<Rightarrow> MultiGeneration \<Rightarrow> bool" where
  "consistent_runtime rt g \<longleftrightarrow> (\<exists>network obs. observed_as rt g network obs \<and> list_all2 settled (mg_Components g) obs
     \<and> (\<forall>x \<in> set obs. \<forall>y \<in> set obs. co_State x = co_State y))"

lemma findings_exact:
  assumes len: "length obs = length (mg_Components g)"
    and clear: "\<forall>f \<in> set (map2 (finding_of g network ''active'') (mg_Components g) obs). set (cf_MismatchCodes f) \<inter> (identity_codes \<union> missing_active) = {}"
  shows "list_all2 (exact_component g network) (mg_Components g) obs"
proof (rule list_all2_all_nthI)
  fix i assume i: "i < length (mg_Components g)"
  let ?c = "mg_Components g ! i" and ?o = "obs ! i"
  have "finding_of g network ''active'' ?c ?o \<in> set (map2 (finding_of g network ''active'') (mg_Components g) obs)"
    using i len by (auto simp: set_zip)
  with clear have c: "set (cf_MismatchCodes (finding_of g network ''active'' ?c ?o)) \<inter> (identity_codes \<union> missing_active) = {}" by blast
  have "co_Exists ?o"
    using c by (auto simp: finding_of_def missing_codes_def missing_active_def split: if_splits)
  with c show "exact_component g network ?c ?o" by (intro active_codes_exact) (auto simp: finding_of_def)
qed (use len in simp)

lemma findings_settled:
  assumes len: "length obs = length (mg_Components g)"
    and clear: "\<forall>f \<in> set (map2 (finding_of g network ''active'') (mg_Components g) obs). cf_MismatchCodes f = []"
  shows "list_all2 settled (mg_Components g) obs" and "\<forall>o' \<in> set obs. co_Exists o'"
proof -
  have f: "cf_MismatchCodes (finding_of g network ''active'' (mg_Components g ! i) (obs ! i)) = []" if "i < length obs" for i
    using clear that len by (auto simp: set_zip)
  have e: "co_Exists (obs ! i)" if "i < length obs" for i
    using f [OF that] by (auto simp: finding_of_def missing_codes_def split: if_splits)
  then show "\<forall>o' \<in> set obs. co_Exists o'" by (auto simp: in_set_conv_nth)
  show "list_all2 settled (mg_Components g) obs"
    by (rule list_all2_all_nthI) (use f e len in \<open>auto simp: finding_of_def intro!: active_codes_settled\<close>)
qed

definition codes_of :: "ComponentFinding list \<Rightarrow> string set" where
  "codes_of fs = set (concat (map cf_MismatchCodes fs))"

lemma codes_of_mixed: "codes_of fs \<subseteq> codes_of (mixed_states role fs)"
  by (auto simp: codes_of_def mixed_states_def add_codes_def)

lemma codes_of_dependency: "length fs = length (mg_Components g) \<Longrightarrow> codes_of fs \<subseteq> codes_of (dependency_states role g m fs)"
proof -
  assume len: "length fs = length (mg_Components g)"
  have "x \<in> codes_of (map2 (\<lambda>f c. add_codes f (h c)) fs cs)" if "f \<in> set fs" "x \<in> set (cf_MismatchCodes f)" "length fs = length cs" for x f h and cs :: "LComponent list"
    using that(3,1,2) by (induction fs cs rule: list_induct2) (auto simp: codes_of_def add_codes_def)
  then show ?thesis using len by (auto simp: codes_of_def dependency_states_def)
qed

lemma mixed_states_clear:
  assumes "codes_of (mixed_states ''active'' fs) \<inter> known_codes = {}"
  shows "\<forall>f \<in> set fs. \<forall>f' \<in> set fs. cf_ObservedRuntime f = cf_ObservedRuntime f'"
proof (cases "1 < card (cf_ObservedRuntime ` set fs)")
  case True
  have "MismatchComponentStateMixed \<in> codes_of (mixed_states ''active'' fs)"
    using True by (cases "fs = []") (simp_all add: codes_of_def mixed_states_def add_codes_def)
  with assms show ?thesis by (auto simp: known_codes_def)
next
  case False
  then have "card (cf_ObservedRuntime ` set fs) \<le> Suc 0" by simp
  then have "\<forall>a \<in> cf_ObservedRuntime ` set fs. \<forall>b \<in> cf_ObservedRuntime ` set fs. a = b"
    using card_le_Suc0_iff_eq [of "cf_ObservedRuntime ` set fs"] by blast
  then show ?thesis by blast
qed

lemma finding_codes_known: "set (cf_MismatchCodes (finding_of g network role c observed)) \<subseteq> known_codes"
  using component_codes_known missing_codes_known by (simp add: finding_of_def)

text \<open>What the codes of the active generation's findings say when none of a kind is among them.\<close>

definition justified :: "'w LifecycleRuntime \<Rightarrow> MultiGeneration \<Rightarrow> string set \<Rightarrow> bool" where
  "justified rt g codes \<longleftrightarrow> (codes \<inter> (identity_codes \<union> missing_active) = {} \<longrightarrow> exact_runtime rt g)
     \<and> (codes \<inter> known_codes = {} \<longrightarrow> consistent_runtime rt g)"

lemma justified_mono: "justified rt g codes \<Longrightarrow> codes \<subseteq> codes' \<Longrightarrow> justified rt g codes'"
  unfolding justified_def by blast

lemma findings_justified:
  assumes net: "\<exists>w. fst (ObserveNetwork rt (mg_NetworkName g) w) = Inr network" and sh: "list_all2 (shown rt) (mg_Components g) obs"
    and fs: "fs = map2 (finding_of g network ''active'') (mg_Components g) obs"
  shows "justified rt g (codes_of (dependency_states ''active'' g m (mixed_states ''active'' fs)))"
proof -
  have len: "length obs = length (mg_Components g)" using sh by (simp add: list_all2_lengthD)
  have lfs: "length (mixed_states ''active'' fs) = length (mg_Components g)" by (simp add: mixed_states_def fs len)
  have exact: "observed_as rt g network obs" if "codes_of fs \<inter> (identity_codes \<union> missing_active) = {}"
    using net sh findings_exact [OF len] that unfolding observed_as_def codes_of_def fs by fastforce
  have "consistent_runtime rt g" if c: "codes_of (mixed_states ''active'' fs) \<inter> known_codes = {}"
  proof -
    have k: "codes_of fs \<inter> known_codes = {}" using c codes_of_mixed [of fs "''active''"] by blast
    have clear: "\<forall>f \<in> set fs. cf_MismatchCodes f = []"
    proof
      fix f assume f: "f \<in> set fs"
      have "set (cf_MismatchCodes f) \<subseteq> known_codes" using f by (auto simp: fs intro: subsetD [OF finding_codes_known])
      moreover have "set (cf_MismatchCodes f) \<subseteq> codes_of fs" using f by (auto simp: codes_of_def)
      ultimately have "set (cf_MismatchCodes f) \<subseteq> codes_of fs \<inter> known_codes" by simp
      then show "cf_MismatchCodes f = []" using k by simp
    qed
    note st = findings_settled [OF len clear [unfolded fs]]
    have "co_State x = co_State y" if "x \<in> set obs" "y \<in> set obs" for x y
    proof -
      have "\<exists>f \<in> set fs. cf_ObservedRuntime f = co_State z" if "z \<in> set obs" for z
      proof -
        from that obtain i where "i < length obs" "z = obs ! i" by (auto simp: in_set_conv_nth)
        then have "finding_of g network ''active'' (mg_Components g ! i) z \<in> set fs" using len by (auto simp: fs set_zip)
        with st(2) that show ?thesis by (auto simp: finding_of_def intro!: bexI)
      qed
      with mixed_states_clear [OF c] that show ?thesis by metis
    qed
    moreover have "codes_of fs \<inter> (identity_codes \<union> missing_active) = {}"
      using k by (auto simp: identity_codes_def missing_active_def known_codes_def)
    ultimately show ?thesis using exact st(1) by (auto simp: consistent_runtime_def)
  qed
  with exact have "justified rt g (codes_of (mixed_states ''active'' fs))"
    unfolding justified_def exact_runtime_def using codes_of_mixed [of fs "''active''"] by blast
  then show ?thesis by (rule justified_mono) (rule codes_of_dependency [OF lfs])
qed

lemma observeGeneration_active:
  "triple I (observeGeneration rt g ''active'') (stage I (\<lambda>(fs, st) db. I db \<and> justified rt g (codes_of fs)))"
  unfolding observeGeneration_def case_prod_unfold
  by (intro triple_call triple_stage [OF observe_findings_post] triple_ret) (auto intro: findings_justified)

section \<open>Transactions\<close>

lemma active_kept_reconciliation: "active_kept db0 (db\<lparr>reconciliation := t\<rparr>) = active_kept db0 db"
  by (simp add: active_kept_def store_inv_def gen_exists_def active_rows_def)

lemma active_rows_repair_txns:
  "MarkReconciledAbsent g db = Inr db' \<Longrightarrow> active_rows db \<subseteq> active_rows db'"
  "MarkNonActiveRemoved g k t db = Inr db' \<Longrightarrow> active_rows db \<subseteq> active_rows db'"
  "MarkRetainedCleanupPending g k t db = Inr db' \<Longrightarrow> active_rows db \<subseteq> active_rows db'"
  by (auto simp: MarkReconciledAbsent_def MarkNonActiveRemoved_def MarkRetainedCleanupPending_def Let_def bind_result_Inr_iff
      split: if_splits intro!: subsetD [OF active_rows_set_gens])

lemma active_kept_repair_txns:
  assumes "active_kept db0 db"
  shows "MarkReconciledAbsent g db = Inr db' \<Longrightarrow> active_kept db0 db'"
    and "MarkNonActiveRemoved g k t db = Inr db' \<Longrightarrow> active_kept db0 db'"
    and "MarkRetainedCleanupPending g k t db = Inr db' \<Longrightarrow> active_kept db0 db'"
  by (rule active_keptI [OF assms], erule MarkReconciledAbsent_effect MarkNonActiveRemoved_effect MarkRetainedCleanupPending_effect,
      erule active_rows_repair_txns)+

lemma active_kept_Save: "active_kept db0 db \<Longrightarrow> SaveReconciliation result db = Inr db' \<Longrightarrow> active_kept db0 db'"
  by (auto simp: SaveReconciliation_def active_kept_reconciliation split: if_splits)

text \<open>The stored result is read back, with the projection of what is active when it is read.\<close>

definition stored :: "ReconciliationResult \<Rightarrow> helper_db \<Rightarrow> bool" where
  "stored result db \<longleftrightarrow> (\<exists>p. LoadReconciliation (rx_InstallationID result) db = Inr (result\<lparr>rx_Projection := p\<rparr>))"

lemma recon_upsert_get: "tbl_get n_instance_id (n_instance_id row) (recon_upsert row t) = Some row"
  by (auto simp: recon_upsert_def tbl_get_append tbl_get_update dest: tbl_get_key)

lemma SaveReconciliation_stored:
  assumes "SaveReconciliation result db = Inr db'"
  shows "stored result db'"
proof -
  from assms have db': "db' = db\<lparr>reconciliation := recon_upsert (recon_row_of result) (reconciliation db)\<rparr>"
    by (auto simp: SaveReconciliation_def split: if_splits)
  have "tbl_get n_instance_id (rx_InstallationID result) (reconciliation db') = Some (recon_row_of result)"
    using recon_upsert_get [of "recon_row_of result"] by (simp add: db' recon_row_of_def)
  then show ?thesis by (cases result) (simp add: stored_def LoadReconciliation_def recon_row_of_def)
qed

lemma save_post: "triple (active_kept db0) (save r result) (stage (active_kept db0) (\<lambda>x db. active_kept db0 db \<and> x = result \<and> stored result db))"
  unfolding save_def
  by (rule triple_txn [where J = "\<lambda>db. active_kept db0 db \<and> stored result db"])
    (auto intro: active_kept_Save SaveReconciliation_stored intro!: triple_ret)

section \<open>Non-active generations\<close>

definition start_codes :: "string set" where
  "start_codes = {MismatchDependencyState, MismatchComponentStateMixed, MismatchActiveContainerStopped}"

text \<open>Classifying the other generations adds codes, but none that suggests starting the active one.\<close>

definition extends :: "ReconciliationResult \<Rightarrow> ReconciliationResult \<Rightarrow> bool" where
  "extends result result' \<longleftrightarrow> rx_InstallationID result' = rx_InstallationID result \<and> rx_CheckedGeneration result' = rx_CheckedGeneration result
     \<and> set (rx_MismatchCodes result) \<subseteq> set (rx_MismatchCodes result')
     \<and> set (rx_MismatchCodes result') \<inter> start_codes \<subseteq> set (rx_MismatchCodes result)"

lemma extends_refl [simp]: "extends result result"
  by (simp add: extends_def)

lemma extends_trans: "extends a b \<Longrightarrow> extends b c \<Longrightarrow> extends a c"
  unfolding extends_def by fastforce

lemma passive_codes: "role \<noteq> ''active'' \<Longrightarrow> set (cf_MismatchCodes (finding_of g network role c observed)) \<inter> start_codes = {}"
  by (auto simp: finding_of_def component_codes_def missing_codes_def Let_def code_if_def start_codes_def code_defs split: if_splits)

lemma role_of_passive: "role_of st = Some role \<Longrightarrow> role \<noteq> ''active''"
  by (auto simp: role_of_def split: gen_status.splits)

lemma observeGeneration_passive:
  assumes "role \<noteq> ''active''"
  shows "triple I (observeGeneration rt g role) (stage I (\<lambda>(fs, st) db. I db \<and> codes_of fs \<inter> start_codes = {}))"
  unfolding observeGeneration_def case_prod_unfold
  by (intro triple_call triple_stage [OF observe_findings_post] triple_ret)
    (use assms passive_codes in \<open>fastforce simp: codes_of_def dependency_states_def mixed_states_def\<close>)+

lemma extends_add_findings: "codes_of fs \<inter> start_codes = {} \<Longrightarrow> extends result (add_findings result fs)"
  by (auto simp: extends_def add_findings_def codes_of_def)

lemma extends_add_mismatch: "c \<notin> start_codes \<Longrightarrow> extends result (add_mismatch result c)"
  by (auto simp: extends_def add_mismatch_def)

lemma cleanup_not_start: "MismatchCleanupPending \<notin> start_codes" "MismatchCandidateOrphaned \<notin> start_codes"
  by (simp_all add: start_codes_def code_defs)

lemma extends_orphaned: "extends result (orphaned role g fs result)"
  using extends_add_mismatch [OF cleanup_not_start(2), of result] by (simp add: orphaned_def extends_def)

lemma classify_cleanup_post:
  "triple (active_kept db0) (classify_cleanup r g fs result)
    (stage (active_kept db0) (\<lambda>x db. active_kept db0 db \<and> extends result x))"
  unfolding classify_cleanup_def Let_def
  by (intro triple_if triple_call triple_ret triple_txn [where J = "active_kept db0"])
    (auto simp: extends_add_mismatch cleanup_not_start intro: active_kept_repair_txns)

lemma classifyNonActive_post:
  "triple (active_kept db0) (classifyNonActive r result gs) (\<lambda>(x, err) db. active_kept db0 db \<and> extends result x)"
proof (induction gs arbitrary: result)
  case (Cons g gs)
  have step: "triple (\<lambda>db. active_kept db0 db \<and> extends result x) (classifyNonActive r x gs) (\<lambda>(x, err) db. active_kept db0 db \<and> extends result x)" for x
    by (intro triple_fact triple_post [OF Cons.IH]) (auto intro: extends_trans)
  have cleanup: "triple (active_kept db0) (attempt (classify_cleanup r g fs (add_findings result fs)) (\<lambda>e. ret (add_findings result fs, Inl e))
      (\<lambda>x. classifyNonActive r (orphaned role g fs x) gs)) (\<lambda>(x, err) db. active_kept db0 db \<and> extends result x)"
    if "codes_of fs \<inter> start_codes = {}" for fs role
  proof -
    note add = extends_add_findings [OF that, of result]
    show ?thesis
      by (intro triple_stage [OF classify_cleanup_post] triple_ret triple_fact triple_pre [OF step])
        (auto intro: add extends_trans [OF add] extends_trans [OF _ extends_orphaned])
  qed
  show ?case
    unfolding classifyNonActive.simps case_prod_unfold Let_def
    by (intro triple_case_option Cons.IH triple_stage [OF observeGeneration_passive [OF role_of_passive]] triple_ret)
      (use cleanup Cons.IH in \<open>auto intro!: triple_fact simp: case_prod_unfold\<close>)
qed (auto intro!: triple_ret)

section \<open>Reconciliation\<close>

lemma map_result_covers: "map_result f xs = Inr ys \<Longrightarrow> x \<in> set xs \<Longrightarrow> \<exists>y \<in> set ys. f x = Inr y"
  by (induction xs arbitrary: ys) (auto simp: bind_result_Inr_iff)

definition authoritative :: "gen_status \<Rightarrow> bool" where
  "authoritative st \<longleftrightarrow> st = GActive \<or> st = GVerificationRequired"

lemma LoadMultiGeneration_row:
  assumes "store_inv db" and "LoadMultiGeneration i n db = Inr g"
  obtains row where "gen_get db (i, n) = Some row" "mg_InstallationID g = i" "mg_Generation g = n" "mg_Status g = g_status row"
proof -
  have wf: "tbl_wf gen_key (generations db)" using assms(1) by (simp add: store_inv_def)
  from assms(2) obtain row where "gen_get db (i, n) = Some row" "mg_InstallationID g = g_installation_id row"
      "mg_Generation g = g_runtime_generation row" "mg_Status g = g_status row"
    by (fastforce simp: LoadMultiGeneration_def bind_result_Inr_iff sql_row_gen [OF wf, where Q = "\<lambda>_. True", simplified] split: option.splits)
  with that tbl_get_key [of gen_key "(i, n)" "generations db" row] show ?thesis by (auto simp: gen_key_def)
qed

lemma ReconciliationGenerations_mem:
  assumes "store_inv db" and "ReconciliationGenerations i db = Inr gens" and "g \<in> set gens"
  shows "LoadMultiGeneration i (mg_Generation g) db = Inr g"
proof -
  from map_result_mem [OF assms(2) [unfolded ReconciliationGenerations_def] assms(3)] obtain n where "LoadMultiGeneration i n db = Inr g" by auto
  with LoadMultiGeneration_row [OF assms(1) this] show ?thesis by metis
qed

lemma ReconciliationGenerations_authoritative:
  assumes inv: "store_inv db" and "ReconciliationGenerations i db = Inr gens" and "\<forall>g \<in> set gens. \<not> authoritative (mg_Status g)"
    and "row \<in> set (generations db)" "g_installation_id row = i"
  shows "\<not> authoritative (g_status row)"
proof
  assume a: "authoritative (g_status row)"
  then have "g_status row \<noteq> GRemoved" by (auto simp: authoritative_def)
  with assms(4,5) obtain g where g: "g \<in> set gens" "LoadMultiGeneration i (g_runtime_generation row) db = Inr g"
    using map_result_covers [OF assms(2) [unfolded ReconciliationGenerations_def], of row] by auto
  have "gen_get db (i, g_runtime_generation row) = Some row"
    using tbl_get_of_mem [of gen_key "generations db" row] assms(4,5) inv by (auto simp: gen_key_def store_inv_def)
  with LoadMultiGeneration_row [OF inv g(2)] have "mg_Status g = g_status row" by (metis option.sel)
  with a assms(3) g(1) show False by auto
qed

text \<open>
  What a result says of the generations recorded when the reconciliation began: a start of
  the active generation is only recommended when its runtime is exact, and an installation
  is only consistent when nothing of it is to serve or the serving generation was observed
  as recorded.
\<close>

definition supported :: "'w LifecycleRuntime \<Rightarrow> string \<Rightarrow> helper_db \<Rightarrow> ReconciliationResult \<Rightarrow> bool" where
  "supported rt i db result \<longleftrightarrow>
     (rx_RecommendedAction result = RepairStartActive \<longrightarrow>
        (\<exists>g. LoadMultiGeneration i (rx_CheckedGeneration result) db = Inr g \<and> authoritative (mg_Status g) \<and> exact_runtime rt g))
     \<and> (rx_State result = ReconciliationConsistent \<longrightarrow>
        (\<exists>g. LoadMultiGeneration i (rx_CheckedGeneration result) db = Inr g \<and> authoritative (mg_Status g) \<and> consistent_runtime rt g)
        \<or> (\<forall>row \<in> set (generations db). g_installation_id row = i \<longrightarrow> \<not> authoritative (g_status row)))"

lemma finish_start: "rx_RecommendedAction (finish result) = RepairStartActive \<Longrightarrow> set (rx_MismatchCodes result) \<inter> start_codes \<noteq> {}"
  unfolding finish_def Let_def classified_def start_codes_def
  by (auto simp: set_uniqueCodes RepairStartActive_def RepairNone_def RepairRecreateGeneration_def RepairCleanupResources_def
      RepairAcknowledgeRetainedLoss_def split: if_splits)

lemma finish_fields [simp]:
  "rx_CheckedGeneration (finish result) = rx_CheckedGeneration result" "rx_InstallationID (finish result) = rx_InstallationID result"
  by (simp_all add: finish_def Let_def classified_def)

lemma finish_exact:
  assumes "rx_RecommendedAction (finish result) = RepairStartActive"
  shows "set (rx_MismatchCodes result) \<inter> (identity_codes \<union> missing_active) = {}"
proof -
  have "RepairStartActive \<noteq> RepairNone" by (simp add: RepairStartActive_def RepairNone_def)
  with assms have "rx_RecommendedAction (finish result) \<noteq> RepairNone" by simp
  from finish_repair [OF this] assms show ?thesis by (simp add: Int_Un_distrib)
qed

lemma supported_finish:
  assumes "LoadMultiGeneration i (rx_CheckedGeneration result) db = Inr g" and "authoritative (mg_Status g)"
    and "justified rt g (set (rx_MismatchCodes result))"
  shows "supported rt i db (finish result)"
  using assms finish_exact [of result] finish_consistent [of result] by (auto simp: supported_def justified_def)

lemma supported_none:
  assumes "\<forall>row \<in> set (generations db). g_installation_id row = i \<longrightarrow> \<not> authoritative (g_status row)"
    and "rx_RecommendedAction result \<noteq> RepairStartActive"
  shows "supported rt i db result"
  using assms by (auto simp: supported_def)

lemma supported_unknown: "rx_State result = ReconciliationRuntimeUnknown \<Longrightarrow> rx_RecommendedAction result = RepairNone \<Longrightarrow> supported rt i db result"
  by (simp add: supported_def ReconciliationRuntimeUnknown_def ReconciliationConsistent_def RepairNone_def RepairStartActive_def)

definition reconciled :: "'w LifecycleRuntime \<Rightarrow> string \<Rightarrow> helper_db \<Rightarrow> ReconciliationResult \<Rightarrow> helper_db \<Rightarrow> bool" where
  "reconciled rt i db0 result db \<longleftrightarrow> active_kept db0 db \<and> rx_InstallationID result = i \<and> stored result db \<and> supported rt i db0 result"

lemma save_reconciled:
  "rx_InstallationID result = i \<Longrightarrow> supported rt i db0 result
    \<Longrightarrow> triple (active_kept db0) (save r result) (stage (active_kept db0) (reconciled rt i db0))"
  by (rule triple_post [OF save_post]) (auto simp: stage_def reconciled_def split: sum.splits)

lemma runtimeUnknown_reconciled:
  "rx_InstallationID result = i \<Longrightarrow> triple (active_kept db0) (runtimeUnknown r result) (stage (active_kept db0) (reconciled rt i db0))"
  unfolding runtimeUnknown_def by (rule save_reconciled) (auto intro: supported_unknown)

lemma conclude_reconciled:
  assumes "rx_InstallationID result = i"
    and "\<And>x. extends result x \<Longrightarrow> supported rt i db0 (finish x)"
  shows "triple (active_kept db0) (conclude r result gens) (stage (active_kept db0) (reconciled rt i db0))"
proof -
  have "triple (\<lambda>db. active_kept db0 db \<and> extends result x) (case err of Inl _ \<Rightarrow> runtimeUnknown r x | Inr _ \<Rightarrow> save r (finish x))
      (stage (active_kept db0) (reconciled rt i db0))" for x and err :: "unit result"
    by (intro triple_fact triple_case_sum runtimeUnknown_reconciled save_reconciled) (use assms in \<open>auto simp: extends_def\<close>)
  then show ?thesis
    unfolding conclude_def by (intro triple_andThen [OF classifyNonActive_post]) (auto simp: case_prod_unfold)
qed

lemma reconcile_active_reconciled:
  assumes "rx_InstallationID result = i" and "rx_MismatchCodes result = []"
    and "LoadMultiGeneration i (mg_Generation active) db0 = Inr active" and "authoritative (mg_Status active)"
  shows "triple (active_kept db0) (reconcile_active r result active gens)
    (stage (active_kept db0) (reconciled (rc_Runtime r) i db0))"
proof -
  have go: "triple (active_kept db0) (conclude r ((add_findings result' fs)\<lparr>rx_RuntimeState := st, rx_Projection := p\<rparr>) gens)
      (stage (active_kept db0) (reconciled (rc_Runtime r) i db0))"
    if "justified (rc_Runtime r) active (codes_of fs)" "rx_InstallationID result' = i" "rx_CheckedGeneration result' = mg_Generation active"
    for result' fs st p
  proof (rule conclude_reconciled)
    fix x assume x: "extends ((add_findings result' fs)\<lparr>rx_RuntimeState := st, rx_Projection := p\<rparr>) x"
    have "codes_of fs \<subseteq> set (rx_MismatchCodes x)" using x by (auto simp: extends_def add_findings_def codes_of_def)
    then show "supported (rc_Runtime r) i db0 (finish x)"
      using x that assms(3,4) by (intro supported_finish [where g = active]) (auto simp: extends_def add_findings_def intro: justified_mono)
  qed (use that in \<open>simp add: add_findings_def\<close>)
  show ?thesis
    unfolding reconcile_active_def Let_def case_prod_unfold
    by (intro triple_stage [OF observeGeneration_active] runtimeUnknown_reconciled) (auto simp: assms(1) intro!: triple_fact go)
qed

text \<open>The state in which a reconciliation reads the generations.\<close>

definition unchanged :: "helper_db \<Rightarrow> helper_db \<Rightarrow> bool" where
  "unchanged db0 db \<longleftrightarrow> db = db0 \<and> store_inv db"

lemma unchanged_kept: "unchanged db0 db \<Longrightarrow> active_kept db0 db"
  by (auto simp: unchanged_def active_kept_refl)

lemma start_not_none: "RepairNone \<noteq> RepairStartActive"
  by (simp add: RepairNone_def RepairStartActive_def)

lemma reconcile_loaded_reconciled:
  assumes result: "rx_InstallationID result = i" "rx_MismatchCodes result = []" "rx_RecommendedAction result = RepairNone"
    and inv: "store_inv db0" and gens: "ReconciliationGenerations i db0 = Inr gens"
  shows "triple (active_kept db0) (reconcile_loaded r i result gens) (stage (active_kept db0) (reconciled (rc_Runtime r) i db0))"
proof -
  let ?auth = "\<lambda>g. mg_Status g = GActive \<or> mg_Status g = GVerificationRequired"
  have none: "\<forall>row \<in> set (generations db0). g_installation_id row = i \<longrightarrow> \<not> authoritative (g_status row)" if "\<forall>g \<in> set gens. \<not> ?auth g"
    using ReconciliationGenerations_authoritative [OF inv gens] that by (auto simp: authoritative_def)
  have empty: "triple (active_kept db0) (conclude r (result\<lparr>rx_CheckedGeneration := m, rx_RuntimeState := st, rx_Summary := su\<rparr>) gens)
      (stage (active_kept db0) (reconciled (rc_Runtime r) i db0))" if "\<forall>g \<in> set gens. \<not> ?auth g" for m st su
  proof (intro conclude_reconciled supported_none [OF none [OF that]])
    fix x assume "extends (result\<lparr>rx_CheckedGeneration := m, rx_RuntimeState := st, rx_Summary := su\<rparr>) x"
    then have "set (rx_MismatchCodes x) \<inter> start_codes = {}" using result(2) by (simp add: extends_def)
    then show "rx_RecommendedAction (finish x) \<noteq> RepairStartActive" using finish_start by blast
  qed (simp add: result)
  have active: "triple (active_kept db0) (reconcile_active r result active gens) (stage (active_kept db0) (reconciled (rc_Runtime r) i db0))"
    if "find ?auth gens = Some active" for active
  proof -
    from that have "active \<in> set gens" "?auth active" by (auto simp: find_Some_iff)
    then show ?thesis
      using ReconciliationGenerations_mem [OF inv gens] by (intro reconcile_active_reconciled) (auto simp: result authoritative_def)
  qed
  show ?thesis
  proof (cases gens)
    case Nil
    with none show ?thesis
      by (auto simp: reconcile_loaded_def result start_not_none
          intro!: triple_attempt_keeps [OF keeps_query] triple_ret save_reconciled supported_none)
  next
    case (Cons latest rest)
    have "reconcile_loaded r i result gens = (case find ?auth gens of
        None \<Rightarrow> conclude r (result\<lparr>rx_CheckedGeneration := mg_Generation latest, rx_RuntimeState := ''runtime_removed'',
          rx_Summary := ''no active runtime generation''\<rparr>) gens
      | Some active \<Rightarrow> reconcile_active r result active gens)"
      by (simp only: reconcile_loaded_def Cons list.case)
    then show ?thesis using empty active by (auto simp: find_None_iff split: option.splits)
  qed
qed

lemma reconcile_generations_reconciled:
  assumes "rx_InstallationID result = i" and "rx_MismatchCodes result = []" and "rx_RecommendedAction result = RepairNone"
  shows "triple (unchanged db0) (reconcile_generations r i result) (stage (active_kept db0) (reconciled (rc_Runtime r) i db0))"
  unfolding reconcile_generations_def
proof (rule triple_query)
  fix gens
  show "triple (\<lambda>db. unchanged db0 db \<and> ReconciliationGenerations i db = Inr gens) (reconcile_loaded r i result gens)
      (stage (active_kept db0) (reconciled (rc_Runtime r) i db0))"
    using reconcile_loaded_reconciled [OF assms, of db0 gens r] by (auto simp: triple_def unchanged_def active_kept_refl)
qed (auto intro!: triple_ret dest: unchanged_kept)

lemma Reconcile_post: "triple (unchanged db0) (Reconcile r i) (stage (active_kept db0) (reconciled (rc_Runtime r) i db0))"
  unfolding Reconcile_def Let_def case_prod_unfold
  by (intro triple_if triple_ret triple_andThen_keeps [OF keeps_call] triple_case_option triple_call reconcile_generations_reconciled
      triple_pre [OF save_reconciled])
    (auto simp: initial_result_def intro: supported_unknown dest: unchanged_kept)

text \<open>Anything that the two transactions of a reconciliation keep, it keeps.\<close>

lemma keeps_observeGeneration: "keeps I (observeGeneration rt g role)"
proof -
  have "keeps I (observeComponent rt c)" for c
    unfolding observeComponent_def Let_def by (intro keeps_intro)
  then have "keeps I (observe_findings rt g network role cs fs m)" for network cs fs m
    by (induction cs arbitrary: fs m) (auto intro!: keeps_intro)
  then show ?thesis unfolding observeGeneration_def case_prod_unfold by (intro keeps_intro)
qed

lemma keeps_Reconcile:
  assumes "\<And>t db. I db \<Longrightarrow> I (db\<lparr>reconciliation := t\<rparr>)"
    and "\<And>g db db'. I db \<Longrightarrow> MarkReconciledAbsent g db = Inr db' \<Longrightarrow> I db'"
  shows "keeps I (Reconcile r i)"
proof -
  have s: "keeps I (save r result)" for result
    unfolding save_def using assms(1) by (intro keeps_intro keeps_txn) (auto simp: SaveReconciliation_def split: if_splits)
  have m: "keeps I (txn (rc_Store r) (\<lambda>_. MarkReconciledAbsent g))" for g
    by (rule keeps_txn) (rule assms(2))
  have cl: "keeps I (classify_cleanup r g fs result)" for g fs result
    unfolding classify_cleanup_def Let_def by (intro keeps_intro m)
  have "keeps I (classifyNonActive r result gs)" for result gs
    by (induction gs arbitrary: result) (auto simp: Let_def case_prod_unfold intro!: keeps_intro keeps_observeGeneration cl)
  then have c: "keeps I (conclude r result gs)" for result gs
    unfolding conclude_def runtimeUnknown_def case_prod_unfold by (intro keeps_intro s)
  have "keeps I (reconcile_loaded r i result gs)" for result gs
    unfolding reconcile_loaded_def reconcile_active_def runtimeUnknown_def Let_def case_prod_unfold
    by (cases gs) (auto intro!: keeps_intro keeps_observeGeneration s c)
  then show ?thesis
    unfolding Reconcile_def reconcile_generations_def Let_def case_prod_unfold by (intro keeps_intro s)
qed

lemma stored_cong: "reconciliation db' = reconciliation db \<Longrightarrow> stored result db' = stored result db"
  by (cases result) (simp add: stored_def LoadReconciliation_def split: option.splits)

end
