(* ===== verification/Repair_Spec.thy ===== *)
theory Repair_Spec
  imports Repair Reconcile_Spec
begin

text \<open>
  The outcomes of repairs and of the recovery at start-up: neither takes an active generation
  out of service by a failed run, a completed cleanup leaves nothing behind, and recovery
  activates a candidate only after it observed exactly that candidate running.
\<close>

section \<open>Left-over generations\<close>

text \<open>The generations of installation \<open>i\<close> that never served, failed or await cleanup are among those of \<open>R\<close>.\<close>

definition cleaned :: "helper_db \<Rightarrow> string \<Rightarrow> int set \<Rightarrow> helper_db \<Rightarrow> bool" where
  "cleaned db0 i R db \<longleftrightarrow> active_kept db0 db \<and> (\<forall>n s. status_at db (i, n) = Some s \<longrightarrow> early_status s \<longrightarrow> n \<in> R)"

lemma cleaned_removed:
  assumes "cleaned db0 i (insert (mg_Generation g) R) db" and "mg_InstallationID g = i" and "MarkNonActiveRemoved g k t db = Inr db'"
  shows "cleaned db0 i R db'"
proof -
  let ?n = "mg_Generation g"
  let ?P = "\<lambda>r. in_gen i ?n r \<and> g_status r \<in> set [GRetained, GCleanupPending, GFailed, GCandidate, GPrepared]"
  from assms(2,3) have db': "db' = set_comps (in_comp i ?n) (\<lambda>c. c\<lparr>c_state := CsRemoved\<rparr>)
      (set_gens ?P (\<lambda>r. r\<lparr>g_status := GRemoved, g_cleanup_state := CClean\<rparr>) db)"
    by (auto simp: MarkNonActiveRemoved_def Let_def bind_result_Inr_iff split: if_splits)
  have "m \<in> R" if m: "status_at db' (i, m) = Some s" "early_status s" for m s
  proof -
    from m(1) obtain row where row: "gen_get db (i, m) = Some row"
        "s = g_status (if ?P row then row\<lparr>g_status := GRemoved, g_cleanup_state := CClean\<rparr> else row)"
      by (auto simp: db' status_at_def tbl_get_update gen_key_def)
    have np: "\<not> ?P row" "s = g_status row" using row(2) m(2) by (auto simp: early_status_def split: if_splits)
    have "m \<noteq> ?n" using np tbl_get_key [OF row(1)] m(2) by (auto simp: in_gen_def gen_key_def early_status_def)
    moreover have "status_at db (i, m) = Some s" using row(1) np(2) by (simp add: status_at_def)
    ultimately show ?thesis using assms(1) m(2) by (auto simp: cleaned_def)
  qed
  moreover have "active_kept db0 db'" using assms(1,3) by (auto simp: cleaned_def intro: active_kept_repair_txns)
  ultimately show ?thesis by (simp add: cleaned_def)
qed

lemma cleaned_absent:
  assumes "cleaned db0 i {} db" and "MarkReconciledAbsent g db = Inr db'"
  shows "cleaned db0 i {} db'"
proof -
  have "active_kept db0 db'" using assms by (auto simp: cleaned_def intro: active_kept_repair_txns)
  moreover have "\<not> early_status s" if "status_at db' (i, n) = Some s" for n s
  proof -
    from assms(2) that have "status_at db (i, n) = Some s \<or> s = GRemoved"
      by (auto simp: MarkReconciledAbsent_def Let_def status_at_def tbl_get_update gen_key_def split: if_splits)
    then show ?thesis using assms(1) by (auto simp: cleaned_def early_status_def)
  qed
  ultimately show ?thesis by (simp add: cleaned_def)
qed

lemma cleaned_start:
  assumes "active_kept db0 db" and gens: "ReconciliationGenerations i db = Inr gens"
  shows "cleaned db0 i (mg_Generation ` {g \<in> set gens. early_status (mg_Status g)}) db"
    and "\<forall>g \<in> set gens. mg_InstallationID g = i"
proof -
  have inv: "store_inv db" using assms(1) by (simp add: active_kept_def)
  show "\<forall>g \<in> set gens. mg_InstallationID g = i"
    using ReconciliationGenerations_mem [OF inv gens] LoadMultiGeneration_row [OF inv] by metis
  have "n \<in> mg_Generation ` {g \<in> set gens. early_status (mg_Status g)}" if n: "status_at db (i, n) = Some s" "early_status s" for n s
  proof -
    from n(1) obtain row where row: "gen_get db (i, n) = Some row" "g_status row = s" by (auto simp: status_at_def)
    then have k: "g_installation_id row = i" "g_runtime_generation row = n" "row \<in> set (generations db)"
      using tbl_get_key [OF row(1)] tbl_get_mem [OF row(1)] by (auto simp: gen_key_def)
    then obtain g where g: "g \<in> set gens" "LoadMultiGeneration i n db = Inr g"
      using map_result_covers [OF gens [unfolded ReconciliationGenerations_def], of row] row(2) n(2) by (auto simp: early_status_def)
    then show ?thesis using LoadMultiGeneration_row [OF inv g(2)] row n(2) by (metis (mono_tags, lifting) image_eqI mem_Collect_eq option.sel)
  qed
  then show "cleaned db0 i (mg_Generation ` {g \<in> set gens. early_status (mg_Status g)}) db" using assms(1) by (simp add: cleaned_def)
qed

section \<open>Repairs\<close>

text \<open>The evidence log of a repairer does not touch the stored reconciliations either.\<close>

locale repairer = evidence_log "rp_Evidence r" for r :: "'w Repairer" +
  assumes keeps_reconciliation: "rp_Evidence r now k t phase outcome facts db = Inr db' \<Longrightarrow> reconciliation db' = reconciliation db"
begin

definition durable :: "(helper_db \<Rightarrow> bool) \<Rightarrow> bool" where
  "durable I \<longleftrightarrow> (\<forall>db ss. I db \<longrightarrow> I (db\<lparr>steps := ss\<rparr>))
     \<and> (\<forall>now k t phase outcome facts db db'. I db \<longrightarrow> rp_Evidence r now k t phase outcome facts db = Inr db' \<longrightarrow> I db')"

lemma durable_intro:
  "durable I \<Longrightarrow> durable J \<Longrightarrow> durable (\<lambda>db. I db \<and> J db)" "durable I \<Longrightarrow> durable (\<lambda>db. P \<longrightarrow> I db)" "durable (\<lambda>db. P)"
  by (auto simp: durable_def)

lemma keeps_repair_phase: "durable I \<Longrightarrow> keeps I (repair_phase r k t phase outcome facts)"
  unfolding repair_phase_def by (rule keeps_txn) (auto simp: durable_def)

lemma keeps_steps:
  assumes "durable I"
  shows "keeps I (repair_step r (\<lambda>now. BeginComponentStep now plan c action expected a))"
    "keeps I (repair_step r (\<lambda>now. DispatchComponentStep now plan c action a))" "keeps I (repair_finish r plan c action observed confidence detail)"
  unfolding repair_finish_def repair_step_def
  by (rule keeps_txn, use assms in \<open>auto simp: durable_def dest!: component_step_tables\<close>)+

lemma keeps_verifyExactComponent: "keeps I (verifyExactComponent r g c)"
  unfolding verifyExactComponent_def Let_def by (intro keeps_intro)

lemma keeps_repair_call: "repair_call rt action n = Some m \<Longrightarrow> keeps I m"
  by (auto simp: repair_call_def split: if_splits intro: keeps_call)

lemma keeps_mutateComponent: "durable I \<Longrightarrow> keeps I (mutateComponent r plan g c action want)"
  unfolding mutateComponent_def Let_def
  by (intro keeps_intro keeps_steps keeps_repair_phase keeps_verifyExactComponent; (assumption | erule keeps_repair_call))

lemma keeps_observeComponent: "keeps I (observeComponent rt c)"
  unfolding observeComponent_def Let_def by (intro keeps_intro)

lemma keeps_cleanup_all:
  assumes "durable I"
  shows "keeps I (cleanup_all r plan g cs)"
proof (induction cs)
  case (Cons c cs)
  then show ?case
    unfolding cleanup_all.simps cleanup_component_def Let_def
    by (intro keeps_intro keeps_observeComponent keeps_verifyExactComponent keeps_mutateComponent [OF assms])
qed (simp add: keeps_ret)

lemma keeps_repair_network: "durable I \<Longrightarrow> keeps I (repair_network r g k t)"
  unfolding repair_network_def Let_def by (intro keeps_intro keeps_repair_phase; assumption)

lemma keeps_retainedGenerationDetached: "keeps I (retainedGenerationDetached r g)"
proof -
  have "keeps I (detached_components r g network detached cs)" for network detached cs
    by (induction cs arbitrary: detached) (auto intro!: keeps_intro keeps_verifyExactComponent)
  then show ?thesis unfolding retainedGenerationDetached_def by (intro keeps_intro)
qed

lemma durable_kept: "durable (active_kept db0)"
  unfolding durable_def by (auto simp: active_kept_steps intro: active_kept_record)

lemma keeps_startActive: "keeps (active_kept db0) (startActive r i k t)"
proof -
  have deps: "keeps I (dependencies_running r g c ds)" for I g c ds
    by (induction ds) (auto simp: Let_def intro!: keeps_intro keeps_verifyExactComponent)
  have rec: "keeps (active_kept db0) (repair_step r (\<lambda>now. RecordMultiContainer now plan c cid im h st v))" for plan c cid im h st v
    unfolding repair_step_def by (rule keeps_txn) (rule active_kept_multi_txns)
  have "keeps (active_kept db0) (start_one r plan g c)" for plan g c
    unfolding start_one_def
    by (intro keeps_intro keeps_verifyExactComponent deps rec keeps_mutateComponent durable_kept)
  then have "keeps (active_kept db0) (start_each r plan g cs)" for plan g cs
    by (induction cs) (auto intro!: keeps_intro)
  then show ?thesis unfolding startActive_def by (intro keeps_intro)
qed

lemma keeps_acknowledge: "keeps (active_kept db0) (acknowledgeRetainedLoss r i k t)"
proof -
  have exists: "keeps I (any_exists r found cs)" for I found cs
    by (induction cs arbitrary: found) (auto intro!: keeps_intro)
  have "keeps (active_kept db0) (acknowledge_each r k t changed gs)" for changed gs
    by (induction gs arbitrary: changed)
      (auto simp: repair_step_def intro!: keeps_intro exists keeps_txn intro: active_kept_repair_txns)
  then show ?thesis unfolding acknowledgeRetainedLoss_def by (intro keeps_intro)
qed

lemma durable_cleaned: "durable (cleaned db0 i R)"
  using durable_kept [of db0] status_at_record unfolding durable_def cleaned_def by (auto simp: status_at_def)

lemma cleanup_generation_post:
  assumes "mg_InstallationID g = i"
  shows "triple (cleaned db0 i (insert (mg_Generation g) R)) (cleanup_generation r g k t) (stage (active_kept db0) (\<lambda>_. cleaned db0 i R))"
  unfolding cleanup_generation_def repair_step_def
  by (intro triple_attempt_keeps [OF keeps_cleanup_all [OF durable_cleaned]] triple_attempt_keeps [OF keeps_repair_network [OF durable_cleaned]]
      triple_ret triple_txn [OF cleaned_removed [OF _ assms]] triple_fail) (auto simp: cleaned_def)

lemma cleanup_generations_post:
  assumes "\<forall>g \<in> set gs. mg_InstallationID g = i"
  shows "triple (cleaned db0 i (mg_Generation ` {g \<in> set gs. early_status (mg_Status g)})) (cleanup_generations r k t gs)
    (stage (active_kept db0) (\<lambda>_. cleaned db0 i {}))"
  using assms
proof (induction gs)
  case (Cons g gs)
  let ?R = "mg_Generation ` {g \<in> set gs. early_status (mg_Status g)}" and ?R' = "mg_Generation ` {h \<in> set (g # gs). early_status (mg_Status h)}"
  have IH: "triple (cleaned db0 i ?R) (cleanup_generations r k t gs) (stage (active_kept db0) (\<lambda>_. cleaned db0 i {}))"
    using Cons by simp
  have skip: "cleaned db0 i ?R' = cleaned db0 i ?R" if "\<not> early_status (mg_Status g)"
    using that by (intro arg_cong [where f = "cleaned db0 i"]) auto
  have all: "cleaned db0 i ?R' db \<Longrightarrow> cleaned db0 i (insert (mg_Generation g) ?R) db" for db
    by (auto simp: cleaned_def)
  have kept: "cleaned db0 i ?R' db \<Longrightarrow> active_kept db0 db" for db by (simp add: cleaned_def)
  have probe: "keeps I (if mg_Status g = GRetained then retainedGenerationDetached r g else ret (Inr True))" for I
    by (intro keeps_intro keeps_retainedGenerationDetached)
  have clean: "triple (cleaned db0 i ?R') (cleanup_generation r g k t) (stage (active_kept db0) (\<lambda>_. cleaned db0 i ?R))"
    using Cons.prems by (intro triple_pre [OF cleanup_generation_post all]) auto
  show ?case
  proof (cases "mg_Status g = GActive \<or> mg_Status g = GVerificationRequired")
    case True
    then have "\<not> early_status (mg_Status g)" by (auto simp: early_status_def)
    note IH' = IH [folded skip [OF this]]
    have "cleanup_generations r k t (g # gs) = cleanup_generations r k t gs" using True by simp
    with IH' show ?thesis by (simp only:)
  next
    case False
    show ?thesis
    proof (cases "mg_Status g = GRetained")
      case True
      then have "\<not> early_status (mg_Status g)" by (simp add: early_status_def)
      note IH' = IH [folded skip [OF this]]
      show ?thesis
        unfolding cleanup_generations.simps if_not_P [OF False]
        by (intro triple_attempt_keeps [OF probe] triple_fail triple_if IH' triple_stage [OF clean] triple_ret IH; simp only: stage_simps; (erule kept)?)
    next
      case not_retained: False
      show ?thesis
        unfolding cleanup_generations.simps if_not_P [OF False] if_not_P [OF not_retained]
        by (intro triple_attempt_ret triple_if triple_fail triple_stage [OF clean] triple_ret IH; simp)
    qed
  qed
qed (auto intro!: triple_ret)

lemma cleanupNonActive_post: "triple (active_kept db0) (cleanupNonActive r i k t) (stage (active_kept db0) (\<lambda>_. cleaned db0 i {}))"
  unfolding cleanupNonActive_def
proof (rule triple_query)
  fix gens
  have "triple (\<lambda>db. cleaned db0 i (mg_Generation ` {g \<in> set gens. early_status (mg_Status g)}) db \<and> (\<forall>g \<in> set gens. mg_InstallationID g = i))
      (cleanup_generations r k t gens) (stage (active_kept db0) (\<lambda>_. cleaned db0 i {}))"
    by (rule triple_fact) (rule cleanup_generations_post)
  then show "triple (\<lambda>db. active_kept db0 db \<and> ReconciliationGenerations i db = Inr gens) (cleanup_generations r k t gens)
      (stage (active_kept db0) (\<lambda>_. cleaned db0 i {}))"
    by (rule triple_pre) (use cleaned_start in blast)
qed (auto intro!: triple_fail)

definition repaired :: "helper_db \<Rightarrow> string \<Rightarrow> string \<Rightarrow> ReconciliationResult \<Rightarrow> helper_db \<Rightarrow> bool" where
  "repaired db0 i action result db \<longleftrightarrow> active_kept db0 db \<and> rx_InstallationID result = i \<and> stored result db
     \<and> (\<exists>db1. active_kept db0 db1 \<and> supported (rc_Runtime (rp_Reconciler r)) i db1 result)
     \<and> (action = RepairCleanupResources \<longrightarrow> cleaned db0 i {} db)"

lemma durable_repaired: "durable (repaired db0 i action result)"
proof -
  have "stored result (db\<lparr>steps := ss\<rparr>) = stored result db" for db ss by (rule stored_cong) simp
  moreover have "stored result db'" if "stored result db" "rp_Evidence r now k t phase outcome facts db = Inr db'" for now k t phase outcome facts db db'
    using that(1) stored_cong [OF keeps_reconciliation [OF that(2)]] by simp
  ultimately have "durable (stored result)" unfolding durable_def by blast
  then show ?thesis
    unfolding repaired_def [abs_def] by (intro durable_intro durable_kept durable_cleaned)
qed

lemma active_kept_trans: "active_kept db0 db1 \<Longrightarrow> active_kept db1 db2 \<Longrightarrow> active_kept db0 db2"
  by (auto simp: active_kept_def)

lemma Reconcile_final:
  "triple (\<lambda>db. active_kept db0 db \<and> (action = RepairCleanupResources \<longrightarrow> cleaned db0 i {} db)) (Reconcile (rp_Reconciler r) i)
    (stage (active_kept db0) (repaired db0 i action))"
  unfolding triple_def
proof (intro allI impI)
  fix s :: "'w \<times> helper_db"
  assume pre: "active_kept db0 (snd s) \<and> (action = RepairCleanupResources \<longrightarrow> cleaned db0 i {} (snd s))"
  obtain res w' db' where run: "Reconcile (rp_Reconciler r) i s = (res, (w', db'))" by (metis prod.exhaust)
  then have run': "Reconcile (rp_Reconciler r) i (fst s, snd s) = (res, (w', db'))" by simp
  have "unchanged (snd s) (snd s)" using pre by (auto simp: unchanged_def active_kept_def)
  from tripleD [OF Reconcile_post this run']
  have post: "stage (active_kept (snd s)) (reconciled (rc_Runtime (rp_Reconciler r)) i (snd s)) res db'" .
  have "keeps (cleaned db0 i {}) (Reconcile (rp_Reconciler r) i)"
  proof (rule keeps_Reconcile)
    show "cleaned db0 i {} (db\<lparr>reconciliation := t\<rparr>)" if "cleaned db0 i {} db" for t db
      using that by (simp add: cleaned_def active_kept_reconciliation status_at_def)
  qed (rule cleaned_absent)
  from keepsD [OF this _ run] have "cleaned db0 i {} (snd s) \<Longrightarrow> cleaned db0 i {} db'" by simp
  with post pre show "wp (Reconcile (rp_Reconciler r) i) (\<lambda>res s'. stage (active_kept db0) (repaired db0 i action) res (snd s')) s"
    by (auto simp: wp_def run stage_def repaired_def reconciled_def split: sum.splits intro: active_kept_trans)
qed

lemma Repair_post: "triple (active_kept db0) (Repair r i k t action) (stage (active_kept db0) (repaired db0 i action))"
proof -
  let ?J = "\<lambda>db. active_kept db0 db \<and> (action = RepairCleanupResources \<longrightarrow> cleaned db0 i {} db)"
  have act: "triple (active_kept db0) (repair_action r current i k t action) (stage (active_kept db0) (\<lambda>_. ?J))" for current
  proof -
    have "RepairStartActive \<noteq> RepairCleanupResources" "RepairAcknowledgeRetainedLoss \<noteq> RepairCleanupResources"
      by (simp_all add: RepairStartActive_def RepairCleanupResources_def RepairAcknowledgeRetainedLoss_def)
    then show ?thesis
      unfolding repair_action_def
      by (intro triple_if triple_fail triple_of_keeps [OF keeps_startActive] triple_of_keeps [OF keeps_acknowledge]
          triple_post [OF cleanupNonActive_post]) (auto simp: stage_def cleaned_def split: sum.splits)
  qed
  have first: "keeps (active_kept db0) (Reconcile (rp_Reconciler r) i)"
    by (rule keeps_Reconcile) (auto simp: active_kept_reconciliation intro: active_kept_repair_txns)
  have durable_J: "durable ?J" by (intro durable_intro durable_kept durable_cleaned)
  show ?thesis
    unfolding Repair_def
    by (intro triple_attempt_keeps [OF first] triple_attempt_keeps [OF keeps_repair_phase [OF durable_kept]] triple_stage [OF act]
        triple_attempt_keeps [OF keeps_repair_phase [OF durable_J]] triple_stage [OF Reconcile_final]
        triple_attempt_keeps [OF keeps_repair_phase [OF durable_repaired]] triple_fail triple_ret)
      (auto simp: repaired_def)
qed

end

text \<open>The helper's reconciler and repairer; \<open>identity\<close> is what the runtime tells of itself, if it does.\<close>

definition helper_reconciler ::
  "'w LifecycleRuntime \<Rightarrow> 'w store \<Rightarrow> ('w \<Rightarrow> string \<times> 'w) \<Rightarrow> ('w \<Rightarrow> (string \<times> string \<times> string) result \<times> 'w) option \<Rightarrow> 'w Reconciler" where
  "helper_reconciler rt st clock identity = \<lparr>rc_Runtime = rt, rc_Store = st, rc_Now = clock, rc_Identity = identity\<rparr>"

definition helper_repairer ::
  "'w LifecycleRuntime \<Rightarrow> 'w store \<Rightarrow> ('w \<Rightarrow> string \<times> 'w) \<Rightarrow> ('w \<Rightarrow> (string \<times> string \<times> string) result \<times> 'w) option \<Rightarrow> 'w Repairer" where
  "helper_repairer rt st clock identity = \<lparr>rp_Reconciler = helper_reconciler rt st clock identity, rp_Evidence = RecordPhase\<rparr>"

lemma RecordPhase_reconciliation: "RecordPhase now k t phase outcome facts db = Inr db' \<Longrightarrow> reconciliation db' = reconciliation db"
  by (auto simp: RecordPhase_def Let_def bind_result_Inr_iff update_ops_def appendEvent_def split: if_splits)

interpretation repair: repairer "helper_repairer rt st clock identity" for rt st clock identity
  by (simp add: repairer_def repairer_axioms_def helper_repairer_def coordinator_log.evidence_log_axioms RecordPhase_reconciliation)

section \<open>Recovery\<close>

text \<open>
  A generation active now was active at the start, or was a candidate of which the recovery
  verified the recorded generation running.
\<close>

definition seen_running :: "'w LifecycleRuntime \<Rightarrow> 'w store \<Rightarrow> string \<times> int \<Rightarrow> bool" where
  "seen_running rt st key \<longleftrightarrow>
     (\<exists>g observed network s. key = (ge_InstallationID g, ge_Generation g) \<and> fst (verifyStoredGeneration (helper_runner rt st) g RuntimeRunning s) = Inr observed
        \<and> (\<exists>w. fst (ObserveNetwork rt (ge_NetworkName g) w) = Inr network) \<and> attached_to g network observed)
     \<or> (\<exists>g s. key = (mg_InstallationID g, mg_Generation g) \<and> fst (verifyGeneration (helper_multi_runner rt st) g RuntimeRunning s) = Inr ())"

definition recovering :: "'w LifecycleRuntime \<Rightarrow> 'w store \<Rightarrow> helper_db \<Rightarrow> helper_db \<Rightarrow> bool" where
  "recovering rt st db0 db \<longleftrightarrow> store_inv db
     \<and> (\<forall>key. status_at db key = Some GActive \<longrightarrow>
          status_at db0 key = Some GActive \<or> status_at db0 key = Some GCandidate \<and> seen_running rt st key)
     \<and> (\<forall>key. status_at db key = Some GCandidate \<longrightarrow> status_at db0 key = Some GCandidate)"

lemma recovering_step:
  assumes "recovering rt st db0 db" and "store_inv db'" and "seen_running rt st (i, n)"
    and "\<And>key. status_at db' key = Some GActive \<Longrightarrow> status_at db key = Some GActive \<or> key = (i, n) \<and> status_at db key = Some GCandidate"
    and "\<And>key. status_at db' key = Some GCandidate \<Longrightarrow> status_at db key = Some GCandidate"
  shows "recovering rt st db0 db'"
  using assms unfolding recovering_def by blast

lemma status_at_updated:
  assumes "\<And>g. P g \<Longrightarrow> gen_key (f g) = gen_key g" and "status_at (set_gens P f db) k = Some s"
  obtains g where "gen_get db k = Some g" "gen_key g = k" "s = (if P g then g_status (f g) else g_status g)"
proof -
  from assms(2) obtain g where "gen_get db k = Some g" "s = g_status (if P g then f g else g)"
    using tbl_get_update [of P gen_key f k "generations db"] assms(1) by (auto simp: status_at_def)
  with that tbl_get_key [of gen_key k "generations db" g] show ?thesis by (simp add: if_distrib)
qed

lemma status_at_demoted:
  assumes "\<And>g. P g \<Longrightarrow> gen_key (f g) = gen_key g" and "\<And>g. P g \<Longrightarrow> g_status (f g) \<in> {GRetained, GCleanupPending}"
    and "status_at (set_gens P f db) k = Some s" and "s = GActive \<or> s = GCandidate"
  shows "status_at db k = Some s"
proof -
  obtain g where g: "gen_get db k = Some g" "s = (if P g then g_status (f g) else g_status g)"
    using status_at_updated [OF assms(1,3)] by blast
  then show ?thesis using assms(2) [of g] assms(4) by (auto simp: status_at_def split: if_splits)
qed

lemma recover_baseline_status:
  assumes "recover_baseline now i e db = Inr db1" and "status_at db1 key = Some s" and "s = GActive \<or> s = GCandidate"
  shows "status_at db key = Some s"
proof -
  have demote: "status_at db' key = Some s" if "status_at (demote_older i e db') key = Some s" for db'
    using that unfolding demote_older_def by (rule status_at_demoted [rotated 2]) (use assms(3) in \<open>auto simp: gen_key_def\<close>)
  have retire: "status_at db key = Some s" if "status_at (retire now False i e db) key = Some s"
    using that unfolding retire_def by (rule status_at_demoted [rotated 2]) (use assms(3) in \<open>auto simp: gen_key_def\<close>)
  from assms(1) have "db1 = demote_older i e db \<or> db1 = demote_older i e (retire now False i e db)"
    by (auto simp: recover_baseline_def bind_result_Inr_iff split: if_splits option.splits sum.splits)
  with assms(2) demote retire show ?thesis by auto
qed

lemma activate_recovered_status:
  assumes "activate_recovered now i n db = Inr db'"
  shows "status_at db' key = Some GActive \<Longrightarrow> status_at db key = Some GActive \<or> key = (i, n) \<and> status_at db key = Some GCandidate"
    and "status_at db' key = Some GCandidate \<Longrightarrow> status_at db key = Some GCandidate"
proof -
  from assms have db': "db' = set_gens (\<lambda>r. in_gen i n r \<and> g_status r = GCandidate)
      (\<lambda>r. r\<lparr>g_status := GActive, g_committed_at := Some now, g_cleanup_state := CClean\<rparr>) db"
    by (simp add: activate_recovered_def activate_Inr_iff)
  have cases: "\<exists>g. gen_get db key = Some g \<and> gen_key g = key \<and> s = (if in_gen i n g \<and> g_status g = GCandidate then GActive else g_status g)"
    if "status_at db' key = Some s" for s
    using that unfolding db' by (rule status_at_updated [rotated]) (auto simp: gen_key_def)
  show "status_at db' key = Some GActive \<Longrightarrow> status_at db key = Some GActive \<or> key = (i, n) \<and> status_at db key = Some GCandidate"
    by (drule cases) (auto simp: status_at_def in_gen_def gen_key_def split: if_splits)
  show "status_at db' key = Some GCandidate \<Longrightarrow> status_at db key = Some GCandidate"
    by (drule cases) (auto simp: status_at_def split: if_splits)
qed

lemma recover_tables:
  assumes "recover_baseline now i e db = Inr db1" and "activate_recovered now i n db1 = Inr db2"
    and "recovering rt st db0 db" and "seen_running rt st (i, n)"
  shows "recovering rt st db0 db2"
proof (rule recovering_step [OF assms(3) _ assms(4)])
  show "store_inv db2"
    using store_effect_trans [OF recover_baseline_effect [OF assms(1)] activate_recovered_effect [OF assms(2)]] assms(3)
    by (simp add: store_effect_def recovering_def)
qed (use recover_baseline_status [OF assms(1)] activate_recovered_status [OF assms(2)] in blast)+

lemma recovering_cong:
  assumes "generations db' = generations db" "components db' = components db" "bindings db' = bindings db"
  shows "recovering rt st db0 db' = recovering rt st db0 db"
  using assms by (simp add: recovering_def store_inv_def gen_exists_def status_at_def)

lemma recovering_settle [simp]:
  "recovering rt st db0 (settle_recovered only now phase res i k t db) = recovering rt st db0 db"
  "recovering rt st db0 (appendEvent k i ot kind phase facts now db) = recovering rt st db0 db"
  by (rule recovering_cong; simp add: appendEvent_def)+

lemma recovering_RecoverForward:
  assumes "recovering rt st db0 db" and "RecoverForward now g res db = Inr db'" and "seen_running rt st (ge_InstallationID g, ge_Generation g)"
  shows "recovering rt st db0 db'"
  using assms(2) recover_tables [OF _ _ assms(1,3)]
  by (auto simp: RecoverForward_def Let_def bind_result_Inr_iff split: if_splits)

lemma recovering_RecoverForwardMulti:
  assumes "recovering rt st db0 db" and "RecoverForwardMulti now g res db = Inr db'" and "seen_running rt st (mg_InstallationID g, mg_Generation g)"
  shows "recovering rt st db0 db'"
  using assms(2) recover_tables [OF _ _ assms(1,3)]
  by (auto simp: RecoverForwardMulti_def Let_def bind_result_Inr_iff split: if_splits prod.splits)

lemma recovering_Finalize: "recovering rt st db0 db \<Longrightarrow> FinalizeCommittedRecovery now g res db = Inr db' \<Longrightarrow> recovering rt st db0 db'"
  by (auto simp: FinalizeCommittedRecovery_def bind_result_Inr_iff)

lemma recovering_reverify:
  assumes "recovering rt st db0 db" and "RecordRecoveredMultiVerification now g db = Inr db'"
  shows "recovering rt st db0 db'"
proof -
  have "generations db' = generations db" if "reverify_components now i n cs db = Inr db'" for i n cs db
    using that by (induction cs arbitrary: db) (auto simp: Let_def split: if_splits)
  with assms(2) have "generations db' = generations db"
    by (auto simp: RecordRecoveredMultiVerification_def Let_def bind_result_Inr_iff split: if_splits)
  moreover have "store_inv db'"
    using RecordRecoveredMultiVerification_effect [OF assms(2)] assms(1) by (simp add: store_effect_def recovering_def)
  ultimately show ?thesis using assms(1) by (simp add: recovering_def status_at_def)
qed

text \<open>A stage whose success is known to come from the program itself.\<close>

lemma triple_result:
  assumes "keeps I m" and "\<And>e. triple I (h e) Q" and "\<And>x. (\<exists>s. fst (m s) = Inr x) \<Longrightarrow> triple I (k x) Q"
  shows "triple I (attempt m h k) Q"
proof (rule triple_attempt [where R = "\<lambda>res db. I db \<and> (\<forall>x. res = Inr x \<longrightarrow> (\<exists>s. fst (m s) = Inr x))"])
  show "triple I m (\<lambda>res db. I db \<and> (\<forall>x. res = Inr x \<longrightarrow> (\<exists>s. fst (m s) = Inr x)))"
    using assms(1) unfolding triple_def keeps_def wp_def by (auto split: prod.splits) (metis fst_conv)
qed (use assms in \<open>auto simp: triple_def\<close>)

lemma recover_single_keeps: "triple (recovering rt st db0) (recover_single rt st g) (\<lambda>_. recovering rt st db0)"
proof -
  have v: "keeps I (verifyStoredGeneration r g want)" for I r want unfolding verifyStoredGeneration_def by (intro keeps_intro)
  have settle: "triple (recovering rt st db0) (attempt (txn st (\<lambda>now. if ge_Status g = Some GActive then FinalizeCommittedRecovery now g (recovered_result g)
         else RecoverForward now g (recovered_result g))) (\<lambda>e. ret (Inl e)) (\<lambda>_. ret (Inr 1))) (\<lambda>_. recovering rt st db0)"
    if "seen_running rt st (ge_InstallationID g, ge_Generation g)"
    by (rule triple_txn [where J = "recovering rt st db0"])
      (auto split: if_splits intro: recovering_Finalize recovering_RecoverForward [OF _ _ that] intro!: triple_ret)
  show ?thesis
    unfolding recover_single_def
    by (intro triple_result [OF v] triple_call triple_if triple_ret settle) (auto simp: seen_running_def)
qed

lemma recover_multi_keeps: "triple (recovering rt st db0) (recover_multi rt st key) (\<lambda>_. recovering rt st db0)"
proof -
  have v: "keeps I (verifyGeneration (helper_multi_runner rt st) g want)" for I g want by (rule multi_replacement.keeps_observations)
  have p: "keeps I (if 1 < mg_Generation g then attempt (query st (LoadMultiGeneration (mg_InstallationID g) (mg_Generation g - 1)))
      (\<lambda>e. ret (Inl e)) (\<lambda>previous. verifyGeneration (helper_multi_runner rt st) previous RuntimeStopped) else ret (Inr ()))" for I g
    by (intro keeps_intro v)
  have seen: "seen_running rt st (mg_InstallationID g, mg_Generation g)"
    if "\<exists>s. fst (verifyGeneration (helper_multi_runner rt st) g RuntimeRunning s) = Inr u" for g u
    using that by (auto simp: seen_running_def)
  have settle: "triple (recovering rt st db0) (attempt (txn st f) (\<lambda>e. ret (Inl e)) (\<lambda>_. ret (Inr (1 :: nat)))) (\<lambda>_. recovering rt st db0)"
    if "\<And>now db db'. recovering rt st db0 db \<Longrightarrow> f now db = Inr db' \<Longrightarrow> recovering rt st db0 db'" for f
    by (rule triple_txn [where J = "recovering rt st db0"]) (auto intro: that intro!: triple_ret)
  show ?thesis
    unfolding recover_multi_def Let_def
    by (intro triple_attempt_keeps [OF keeps_query] triple_result [OF v] triple_if triple_ret settle triple_attempt_keeps [OF p]
        triple_txn [where J = "recovering rt st db0"])
      (auto intro: recovering_Finalize recovering_reverify recovering_RecoverForwardMulti seen)
qed

lemma recover_each_keeps:
  assumes "\<And>x. triple I (f x) (\<lambda>_. I)"
  shows "triple I (recover_each f n xs) (\<lambda>_. I)"
  using assms unfolding triple_keeps by (induction xs arbitrary: n) (auto intro!: keeps_intro)

lemma RecoverInterrupted_keeps: "triple (recovering rt st db0) (lifecycle_RecoverInterrupted rt st) (\<lambda>_. recovering rt st db0)"
  unfolding lifecycle_RecoverInterrupted_def
  by (intro triple_attempt_keeps [OF keeps_query] triple_ret recover_each_keeps recover_multi_keeps
      triple_attempt_keeps [OF recover_each_keeps [OF recover_single_keeps, unfolded triple_keeps]]) simp_all

lemma recovering_start: "store_inv db \<Longrightarrow> recovering rt st db db"
  by (simp add: recovering_def)

text \<open>
  C32. A reconciliation is sound. Whatever the runtime answers and however database accesses
  fail, it leaves every active generation recorded; a result it returns is the one recorded;
  it recommends starting the active generation only when it observed every component of it
  with the recorded identity, image, configuration and network; and it calls the installation
  consistent only when nothing of it is to serve, or every component of the serving
  generation was so observed, all in one state that agrees with the record.
\<close>

theorem reconcile_sound:
  assumes "store_inv db" and "Reconcile (helper_reconciler rt st clock identity) i (w, db) = (res, (w', db'))"
  shows "active_kept db db' \<and> (\<forall>result. res = Inr result \<longrightarrow> stored result db' \<and> rx_InstallationID result = i \<and> supported rt i db result)"
proof -
  have "unchanged db db" using assms(1) by (simp add: unchanged_def)
  from tripleD [OF Reconcile_post this assms(2)] show ?thesis
    by (cases res) (auto simp: reconciled_def helper_reconciler_def)
qed



end
