(* ===== verification/Repair_Live.thy ===== *)
theory Repair_Live
  imports Repair_Spec Multi_Live
begin

text \<open>
  Reconciliation, repair and recovery on concrete data: an installation whose containers are
  gone, the cleanup of a removed installation, and an interrupted operation whose candidate
  does not run.
\<close>

section \<open>A lost runtime\<close>

abbreviation lost_reconciler :: "unit Reconciler" where
  "lost_reconciler \<equiv> helper_reconciler demo_lost (steady ''t5'') (\<lambda>w. (''t5'', w)) None"

definition missing_finding :: "MultiGeneration \<Rightarrow> LComponent \<Rightarrow> ComponentFinding" where
  "missing_finding g c = \<lparr>cf_ComponentID = lc_ID c, cf_Generation = mg_Generation g, cf_Role = ''active'',
     cf_ExpectedRuntime = expected_runtime ''active'' (lc_State c), cf_ObservedRuntime = ''missing'',
     cf_ExpectedRuntimeID = lc_ContainerID c, cf_ObservedRuntimeID = [], cf_MismatchCodes = missing_codes ''active'' g\<rparr>"

lemma lost_finding: "finding_of g network ''active'' c demo_absent = missing_finding g c"
  by (simp add: finding_of_def missing_finding_def)

lemma lost_observeComponent: "observeComponent demo_lost c (w, db) = (Inr demo_absent, (w, db))"
  by (simp add: observeComponent_def Let_def attempt_call call_def ret_def zero_observation_def demo_absent_def)

lemma lost_findings:
  "observe_findings demo_lost g network ''active'' cs fs m (w, db) = (Inr (fs @ map (missing_finding g) cs, m), (w, db))"
  by (induction cs arbitrary: fs) (simp_all add: ret_def attempt_def andThen_def lost_observeComponent lost_finding)

lemma lost_observeGeneration:
  assumes "mg_Components g \<noteq> []"
  shows "observeGeneration demo_lost g ''active'' (w, db) = (Inr (map (missing_finding g) (mg_Components g), ''missing''), (w, db))"
proof -
  let ?fs = "map (missing_finding g) (mg_Components g)"
  have "card (set (map cf_ObservedRuntime ?fs)) \<le> 1"
    by (cases "mg_Components g") (auto simp: missing_finding_def comp_def image_constant_conv)
  then have mixed: "mixed_states ''active'' ?fs = ?fs" by (simp add: mixed_states_def)
  have deps: "dependency_states ''active'' g [] ?fs = ?fs"
  proof -
    have "map2 (\<lambda>f c. add_codes f (dependency_codes [] c)) (map f cs) cs = map f cs" for f and cs :: "LComponent list"
      by (induction cs) (simp_all add: add_codes_def dependency_codes_def lookup_str_def)
    then show ?thesis by (simp add: dependency_states_def)
  qed
  have "filter (\<lambda>f. cf_ObservedRuntime f = st) ?fs = (if st = ''missing'' then ?fs else [])" for st
    by (auto simp: filter_map comp_def missing_finding_def)
  then have "runtime_summary ?fs = ''missing''"
    using assms by (simp add: runtime_summary_def Let_def)
  then show ?thesis
    by (simp add: observeGeneration_def attempt_call) (simp add: attempt_def andThen_def lost_findings ret_def mixed deps)
qed

lemma demo_lost_facts:
  "(case ReconciliationGenerations ''inst-a'' demo_multi_active of Inr [g] \<Rightarrow> mg_Status g = GActive \<and> mg_Generation g = 1
     \<and> map (\<lambda>c. (lc_ID c, lc_State c, lc_ContainerID c)) (mg_Components g) = [(''db'', CsRunning, ''c1''), (''app'', CsRunning, ''c2'')] | _ \<Rightarrow> False)"
  by code_simp

lemma lost_evidence:
  assumes "map (\<lambda>c. (lc_ID c, lc_State c, lc_ContainerID c)) (mg_Components g) = [(''db'', CsRunning, ''c1''), (''app'', CsRunning, ''c2'')]"
    and "mg_Generation g = 1"
  shows "length (evidence_text (map (missing_finding g) (mg_Components g))) \<le> 32 * 1024"
proof -
  let ?fs = "map (missing_finding g) (mg_Components g)"
  from assms(1) obtain c d where cs: "mg_Components g = [c, d]" "lc_ID c = ''db''" "lc_State c = CsRunning" "lc_ContainerID c = ''c1''"
      "lc_ID d = ''app''" "lc_State d = CsRunning" "lc_ContainerID d = ''c2''"
    by (auto simp: map_eq_Cons_conv)
  have one: "itoa 1 = ''1''" by code_simp
  have "length (evidence_text ?fs) \<le> json_bound (JArr (map json_of_finding ?fs))"
    unfolding evidence_text_def using json_encode_length [of "JArr (map json_of_finding ?fs)"] by (simp add: cs)
  also have "\<dots> \<le> 32 * 1024"
    by (simp add: cs assms(2) json_of_finding_def missing_finding_def omit_str_def missing_codes_def MismatchComponentMissing_def
        expected_runtime_def one)
  finally show ?thesis .
qed

text \<open>The reconciliation reports the missing runtime and generation 1 stays the active one.\<close>

theorem reconcile_sound_witness:
  "\<exists>result w' db'. Reconcile (helper_reconciler demo_lost (steady ''t5'') (\<lambda>w. (''t5'', w)) None) ''inst-a'' ((), demo_multi_active) = (Inr result, (w', db'))
    \<and> rx_State result = ReconciliationRuntimeMissing \<and> stored result db' \<and> status_at db' (''inst-a'', 1) = Some GActive"
proof -
  from demo_lost_facts obtain g where g: "ReconciliationGenerations ''inst-a'' demo_multi_active = Inr [g]" "mg_Status g = GActive" "mg_Generation g = 1"
      "map (\<lambda>c. (lc_ID c, lc_State c, lc_ContainerID c)) (mg_Components g) = [(''db'', CsRunning, ''c1''), (''app'', CsRunning, ''c2'')]"
    by (auto split: sum.splits list.splits)
  have two: "length (mg_Components g) = 2" "mg_Components g \<noteq> []" using g(4) by (auto simp: map_eq_Cons_conv)
  let ?fs = "map (missing_finding g) (mg_Components g)"
  have codes: "uniqueCodes (concat (map cf_MismatchCodes ?fs)) = [MismatchComponentMissing]"
    using g(4) two by (auto simp: map_eq_Cons_conv missing_finding_def missing_codes_def uniqueCodes_def MismatchComponentMissing_def)
  have "\<exists>result db'. Reconcile lost_reconciler ''inst-a'' ((), demo_multi_active) = (Inr result, ((), db')) \<and> rx_State result = ReconciliationRuntimeMissing"
  proof -
    let ?r = "lost_reconciler"
    have r: "rc_Runtime ?r = demo_lost" "rc_Store ?r = steady ''t5''" "rc_Now ?r = (\<lambda>w. (''t5'', w))" "rc_Identity ?r = None"
      by (simp_all add: helper_reconciler_def)
    have sv: "save ?r x (w, db) = (Inr x, (w, db\<lparr>reconciliation := recon_upsert (recon_row_of x) (reconciliation db)\<rparr>))"
      if "rx_Components x = ?fs" for x w db
      using lost_evidence [OF g(4,3)] that by (simp add: save_def r attempt_txn SaveReconciliation_def ret_def)
    have fin: "rx_Components (finish x) = rx_Components x" for x by (simp add: finish_def Let_def classified_def)
    have st: "rx_State (finish x) = ReconciliationRuntimeMissing" if "rx_MismatchCodes x = concat (map cf_MismatchCodes ?fs)" for x
      unfolding finish_def Let_def classified_def that codes by (simp add: code_defs)
    show ?thesis
      by (simp add: Reconcile_def r andThen_def call_def Let_def reconcile_generations_def query_def steady_def g(1) reconcile_loaded_def g(2)
          reconcile_active_def attempt_def lost_observeGeneration [OF two(2)] conclude_def role_of_def ret_def)
        (simp add: sv fin st add_findings_def initial_result_def)
  qed
  then obtain result db' where run: "Reconcile lost_reconciler ''inst-a'' ((), demo_multi_active) = (Inr result, ((), db'))"
    and st: "rx_State result = ReconciliationRuntimeMissing" by blast
  from reconcile_sound [OF demo_repair_facts(1) run] have sound: "active_kept demo_multi_active db'" "stored result db'" by simp_all
  have "store_inv db'" using sound(1) by (simp add: active_kept_def)
  with multi_active_kept [OF sound(1) demo_repair_facts(6)] have "status_at db' (''inst-a'', 1) = Some GActive"
    using tbl_get_of_mem [of gen_key "generations db'"] by (fastforce simp: status_at_def store_inv_def)
  with run st sound(2) show ?thesis by blast
qed

section \<open>A removed installation\<close>

definition demo_gone :: helper_db where
  "demo_gone = ok_or empty_db (MarkActiveRemoved ''inst-a'' 1 (demo_id CHR ''1'') 1 demo_multi_active)"

definition gone_result :: ReconciliationResult where
  "gone_result = (initial_result ''inst-a'' ''t5'')\<lparr>rx_CheckedGeneration := 1, rx_OriginatingOperation := demo_id CHR ''1'',
     rx_RuntimeState := ''runtime_removed'', rx_Summary := ''no active runtime generation; runtime resources are removed''\<rparr>"

definition record_gone :: "helper_db \<Rightarrow> helper_db" where
  "record_gone db = db\<lparr>reconciliation := recon_upsert (recon_row_of gone_result) (reconciliation db)\<rparr>"

definition record_demo :: "string \<Rightarrow> string \<Rightarrow> string go_map \<Rightarrow> helper_db \<Rightarrow> helper_db" where
  "record_demo phase outcome facts db = ok_or empty_db (RecordPhase ''t5'' (demo_id CHR ''1'') 1 phase outcome facts db)"

definition demo_validated :: helper_db where
  "demo_validated = record_demo ''repair_validation'' ''confirmed''
     [(''repair_action'', RepairCleanupResources), (''classification'', ReconciliationConsistent)] (record_gone demo_gone)"

definition demo_verifying :: helper_db where
  "demo_verifying = record_demo ''repair_verification'' ''intent'' [(''repair_action'', RepairCleanupResources)] demo_validated"

definition demo_cleaned :: helper_db where
  "demo_cleaned = record_demo ''repair_verification'' ''confirmed'' [(''classification'', ReconciliationConsistent)] (record_gone demo_verifying)"

definition is_gone :: "helper_db \<Rightarrow> bool" where
  "is_gone db \<longleftrightarrow> ReconciliationGenerations ''inst-a'' db = Inr []
     \<and> map_sum id (\<lambda>g. (mg_Generation g, mg_CreatingOperationID g)) (LatestRemovedGeneration ''inst-a'' db) = Inr (1, demo_id CHR ''1'')"

lemma demo_gone_facts: "store_inv demo_gone" "is_gone demo_gone" "is_gone demo_verifying"
  "ReconciliationGenerations ''inst-a'' demo_validated = Inr []"
  "is_ok (RecordPhase ''t5'' (demo_id CHR ''1'') 1 ''repair_validation'' ''confirmed''
     [(''repair_action'', RepairCleanupResources), (''classification'', ReconciliationConsistent)] (record_gone demo_gone))"
  "is_ok (RecordPhase ''t5'' (demo_id CHR ''1'') 1 ''repair_verification'' ''intent'' [(''repair_action'', RepairCleanupResources)] demo_validated)"
  "is_ok (RecordPhase ''t5'' (demo_id CHR ''1'') 1 ''repair_verification'' ''confirmed'' [(''classification'', ReconciliationConsistent)]
     (record_gone demo_verifying))"
  "status_at demo_cleaned (''inst-a'', 1) = Some GRemoved"
  by code_simp+

lemma Reconcile_gone:
  assumes "is_gone db"
  shows "Reconcile lost_reconciler ''inst-a'' ((), db) = (Inr gone_result, ((), record_gone db))"
proof -
  from assms obtain g where g: "ReconciliationGenerations ''inst-a'' db = Inr []" "LatestRemovedGeneration ''inst-a'' db = Inr g"
      "mg_Generation g = 1" "mg_CreatingOperationID g = demo_id CHR ''1''"
    by (cases "LatestRemovedGeneration ''inst-a'' db") (auto simp: is_gone_def)
  have "save lost_reconciler gone_result (w, db) = (Inr gone_result, (w, record_gone db))" for w
    by (simp add: save_def helper_reconciler_def attempt_txn SaveReconciliation_def gone_result_def initial_result_def evidence_text_def
        record_gone_def ret_def)
  then show ?thesis
    by (simp add: Reconcile_def andThen_def call_def Let_def reconcile_generations_def attempt_def query_def steady_def reconcile_loaded_def g
        helper_reconciler_def) (simp add: gone_result_def initial_result_def)
qed


section \<open>An interrupted operation\<close>

lemma demo_stuck_facts: "length (interrupted_single demo_stuck) = 1" "interrupted_multi demo_stuck = []"
  "status_at demo_stuck (''inst-a'', 1) = Some GCandidate"
  by code_simp+


end
