(* ===== verification/Go_File.thy ===== *)
theory Go_File
  imports Go_Codec
begin

text \<open>
  Go's \<open>path/filepath\<close> on Unix and the calls of the \<open>os\<close> package the program issues,
  on an explicit tree of files. A call may fail at any time: the host carries the outcomes of
  the calls to come, and a failing call may have done a part of its work.
\<close>

section \<open>Paths\<close>

definition IsAbs :: "string \<Rightarrow> bool" where
  "IsAbs p = has_prefix ''/'' p"

text \<open>The elements kept so far, last one first.\<close>

definition clean_step :: "bool \<Rightarrow> string \<Rightarrow> string list \<Rightarrow> string list" where
  "clean_step rooted c acc =
     (if c = [] \<or> c = ''.'' then acc
      else if c = ''..'' then
        (case acc of [] \<Rightarrow> if rooted then [] else [''..'']
         | a # rest \<Rightarrow> if a = ''..'' then ''..'' # acc else rest)
      else c # acc)"

definition clean_elems :: "bool \<Rightarrow> string list \<Rightarrow> string list" where
  "clean_elems rooted cs = rev (fold (clean_step rooted) cs [])"

definition filepath_Clean :: "string \<Rightarrow> string" where
  "filepath_Clean p =
     (let cs = clean_elems (IsAbs p) (split_on (CHR ''/'') p) in
      if IsAbs p then CHR ''/'' # join_with ''/'' cs
      else if cs = [] then ''.'' else join_with ''/'' cs)"

definition filepath_Join :: "string list \<Rightarrow> string" where
  "filepath_Join elems =
     (let es = dropWhile (\<lambda>e. e = []) elems
      in if es = [] then [] else filepath_Clean (join_with ''/'' es))"

text \<open>The elements of an absolute cleaned path.\<close>

definition path_elems :: "string \<Rightarrow> string list" where
  "path_elems p = filter (\<lambda>c. c \<noteq> []) (split_on (CHR ''/'') p)"

section \<open>The tree\<close>

text \<open>
  A file is addressed by the elements of its path; the root directory always exists. The
  directories the program works in are no links.
\<close>

datatype fs_node = FsDir | FsFile string | FsLink string

type_synonym fs = "(string list \<times> fs_node) list"

definition fs_get :: "fs \<Rightarrow> string list \<Rightarrow> fs_node option" where
  "fs_get fs p = (if p = [] then Some FsDir else map_of fs p)"

definition fs_del :: "string list \<Rightarrow> fs \<Rightarrow> fs" where
  "fs_del p fs = filter (\<lambda>e. fst e \<noteq> p) fs"

definition fs_put :: "string list \<Rightarrow> fs_node \<Rightarrow> fs \<Rightarrow> fs" where
  "fs_put p n fs = (p, n) # fs_del p fs"

definition fs_names :: "fs \<Rightarrow> string list \<Rightarrow> string list" where
  "fs_names fs p = sort (remdups (map last (filter (\<lambda>q. q \<noteq> [] \<and> butlast q = p) (map fst fs))))"

lemma map_of_fs_del: "map_of (fs_del p fs) q = (if q = p then None else map_of fs q)"
  by (induction fs) (auto simp: fs_del_def)

lemma fs_get_put [simp]: "p \<noteq> [] \<Longrightarrow> fs_get (fs_put p n fs) q = (if q = p then Some n else fs_get fs q)"
  by (simp add: fs_get_def fs_put_def map_of_fs_del)

lemma fs_get_del [simp]: "p \<noteq> [] \<Longrightarrow> fs_get (fs_del p fs) q = (if q = p then None else fs_get fs q)"
  by (simp add: fs_get_def map_of_fs_del)

lemma fs_names_iff: "c \<in> set (fs_names fs p) \<longleftrightarrow> fs_get fs (p @ [c]) \<noteq> None"
proof -
  have "c \<in> set (fs_names fs p) \<longleftrightarrow> (\<exists>q \<in> fst ` set fs. q \<noteq> [] \<and> butlast q = p \<and> last q = c)"
    by (auto simp: fs_names_def image_iff)
  also have "\<dots> \<longleftrightarrow> p @ [c] \<in> fst ` set fs"
    by (metis append_butlast_last_id butlast_snoc last_snoc snoc_eq_iff_butlast)
  also have "\<dots> \<longleftrightarrow> fs_get fs (p @ [c]) \<noteq> None"
    by (simp add: fs_get_def map_of_eq_None_iff)
  finally show ?thesis .
qed

section \<open>The host\<close>

text \<open>
  The outcome of the next call: \<open>None\<close> when nothing interferes, otherwise the error and
  how much of the work was done. \<open>hs_env\<close> is what lies outside the file system.
\<close>

record 'n host =
  hs_fs :: fs
  hs_faults :: "(go_error \<times> nat) option list"
  hs_env :: 'n

definition ErrNotExist :: go_error where
  "ErrNotExist = ErrInfrastructure ''file does not exist''"

definition next_fault :: "'n host \<Rightarrow> (go_error \<times> nat) option \<times> 'n host" where
  "next_fault h = (case hs_faults h of [] \<Rightarrow> (None, h) | f # fs \<Rightarrow> (f, h\<lparr>hs_faults := fs\<rparr>))"

text \<open>\<open>partial n\<close> is the tree a failing call leaves.\<close>

definition os_call :: "(nat \<Rightarrow> fs \<Rightarrow> fs) \<Rightarrow> (fs \<Rightarrow> unit result \<times> fs) \<Rightarrow> 'n host \<Rightarrow> unit result \<times> 'n host" where
  "os_call partial act h =
     (case next_fault h of
        (Some (e, n), h') \<Rightarrow> (Inl e, h'\<lparr>hs_fs := partial n (hs_fs h')\<rparr>)
      | (None, h') \<Rightarrow> (case act (hs_fs h') of (r, fs') \<Rightarrow> (r, h'\<lparr>hs_fs := fs'\<rparr>)))"

definition bind_host :: "('n host \<Rightarrow> 'a result \<times> 'n host) \<Rightarrow> ('a \<Rightarrow> 'n host \<Rightarrow> 'b result \<times> 'n host)
    \<Rightarrow> 'n host \<Rightarrow> 'b result \<times> 'n host" where
  "bind_host m k h = (case m h of (Inl e, h') \<Rightarrow> (Inl e, h') | (Inr x, h') \<Rightarrow> k x h')"

definition wrap_host :: "string \<Rightarrow> ('n host \<Rightarrow> 'a result \<times> 'n host) \<Rightarrow> 'n host \<Rightarrow> 'a result \<times> 'n host" where
  "wrap_host what m h = (case m h of (r, h') \<Rightarrow> (wrapf what r, h'))"

text \<open>An error replaced by another one.\<close>

definition restate :: "string \<Rightarrow> ('n host \<Rightarrow> 'a result \<times> 'n host) \<Rightarrow> 'n host \<Rightarrow> 'a result \<times> 'n host" where
  "restate what m h = (case m h of (Inl _, h') \<Rightarrow> (Inl (Errorf what), h') | (Inr x, h') \<Rightarrow> (Inr x, h'))"

definition lift_host :: "'a result \<Rightarrow> 'n host \<Rightarrow> 'a result \<times> 'n host" where
  "lift_host r h = (r, h)"

section \<open>Calls\<close>

fun mkdirs :: "string list list \<Rightarrow> fs \<Rightarrow> unit result \<times> fs" where
  "mkdirs [] fs = (Inr (), fs)"
| "mkdirs (p # ps) fs =
     (case fs_get fs p of
        None \<Rightarrow> mkdirs ps (fs_put p FsDir fs)
      | Some FsDir \<Rightarrow> mkdirs ps fs
      | Some _ \<Rightarrow> (Inl (ErrInfrastructure ''not a directory''), fs))"

definition dir_chain :: "string list \<Rightarrow> string list list" where
  "dir_chain p = map (\<lambda>k. take (Suc k) p) [0..<length p]"

definition os_MkdirAll :: "string \<Rightarrow> 'n host \<Rightarrow> unit result \<times> 'n host" where
  "os_MkdirAll path =
     (let ps = dir_chain (path_elems path)
      in os_call (\<lambda>n fs. snd (mkdirs (take n ps) fs)) (mkdirs ps))"

text \<open>\<open>os.OpenFile(path, O_WRONLY|O_CREATE|O_EXCL, \<dots>)\<close>\<close>

definition os_CreateExcl :: "string \<Rightarrow> 'n host \<Rightarrow> unit result \<times> 'n host" where
  "os_CreateExcl path = (let p = path_elems path in os_call (\<lambda>_ fs. fs) (\<lambda>fs.
     if fs_get fs p \<noteq> None then (Inl (ErrInfrastructure ''file exists''), fs)
     else if fs_get fs (butlast p) \<noteq> Some FsDir then (Inl ErrNotExist, fs)
     else (Inr (), fs_put p (FsFile []) fs)))"

definition file_Write :: "string \<Rightarrow> string \<Rightarrow> 'n host \<Rightarrow> unit result \<times> 'n host" where
  "file_Write path text = (let p = path_elems path in
     os_call (\<lambda>n fs. fs_put p (FsFile (take n text)) fs) (\<lambda>fs. (Inr (), fs_put p (FsFile text) fs)))"

text \<open>\<open>Sync\<close> and \<open>Close\<close> of an open file.\<close>

definition file_Sync :: "'n host \<Rightarrow> unit result \<times> 'n host" where
  "file_Sync = os_call (\<lambda>_ fs. fs) (\<lambda>fs. (Inr (), fs))"

definition file_Close :: "'n host \<Rightarrow> unit result \<times> 'n host" where
  "file_Close = os_call (\<lambda>_ fs. fs) (\<lambda>fs. (Inr (), fs))"

definition os_Open :: "string \<Rightarrow> 'n host \<Rightarrow> unit result \<times> 'n host" where
  "os_Open path = os_call (\<lambda>_ fs. fs) (\<lambda>fs.
     if fs_get fs (path_elems path) = None then (Inl ErrNotExist, fs) else (Inr (), fs))"

definition os_Remove :: "string \<Rightarrow> 'n host \<Rightarrow> unit result \<times> 'n host" where
  "os_Remove path = (let p = path_elems path in os_call (\<lambda>_ fs. fs) (\<lambda>fs.
     case fs_get fs p of
       None \<Rightarrow> (Inl ErrNotExist, fs)
     | Some n \<Rightarrow> if n = FsDir \<and> (p = [] \<or> fs_names fs p \<noteq> []) then (Inl (ErrInfrastructure ''directory not empty''), fs)
         else (Inr (), fs_del p fs)))"

definition os_Symlink :: "string \<Rightarrow> string \<Rightarrow> 'n host \<Rightarrow> unit result \<times> 'n host" where
  "os_Symlink target path = (let p = path_elems path in os_call (\<lambda>_ fs. fs) (\<lambda>fs.
     if fs_get fs p \<noteq> None then (Inl (ErrInfrastructure ''file exists''), fs)
     else if fs_get fs (butlast p) \<noteq> Some FsDir then (Inl ErrNotExist, fs)
     else (Inr (), fs_put p (FsLink target) fs)))"

text \<open>
  \<open>os.Rename\<close> of a file or a link, which replaces the new name in one step unless it is a
  directory. The program renames no directory through it.
\<close>

definition os_Rename :: "string \<Rightarrow> string \<Rightarrow> 'n host \<Rightarrow> unit result \<times> 'n host" where
  "os_Rename old new = (let p = path_elems old; q = path_elems new in os_call (\<lambda>_ fs. fs) (\<lambda>fs.
     case fs_get fs p of
       None \<Rightarrow> (Inl ErrNotExist, fs)
     | Some n \<Rightarrow>
       if n = FsDir \<or> fs_get fs q = Some FsDir then (Inl (ErrInfrastructure ''file exists''), fs)
       else if fs_get fs (butlast q) \<noteq> Some FsDir then (Inl ErrNotExist, fs)
       else (Inr (), fs_put q n (fs_del p fs))))"

definition os_ReadFile :: "string \<Rightarrow> 'n host \<Rightarrow> string result \<times> 'n host" where
  "os_ReadFile path h =
     (case next_fault h of
        (Some (e, _), h') \<Rightarrow> (Inl e, h')
      | (None, h') \<Rightarrow>
        (case fs_get (hs_fs h') (path_elems path) of
           None \<Rightarrow> Inl ErrNotExist
         | Some (FsFile text) \<Rightarrow> Inr text
         | Some _ \<Rightarrow> Inl (ErrInfrastructure ''is a directory''), h'))"

text \<open>\<open>os.WriteFile\<close> creates the file or replaces its contents.\<close>

definition os_WriteFile :: "string \<Rightarrow> string \<Rightarrow> 'n host \<Rightarrow> unit result \<times> 'n host" where
  "os_WriteFile path text = (let p = path_elems path in
     os_call (\<lambda>n fs. case n of 0 \<Rightarrow> fs | Suc k \<Rightarrow> fs_put p (FsFile (take k text)) fs)
       (\<lambda>fs. if fs_get fs p = Some FsDir then (Inl (ErrInfrastructure ''is a directory''), fs)
          else if fs_get fs (butlast p) \<noteq> Some FsDir then (Inl ErrNotExist, fs)
          else (Inr (), fs_put p (FsFile text) fs)))"

text \<open>\<open>os.ReadDir\<close>: the names in a directory, sorted.\<close>

definition os_ReadDir :: "string \<Rightarrow> 'n host \<Rightarrow> string list result \<times> 'n host" where
  "os_ReadDir path h =
     (case next_fault h of
        (Some (e, _), h') \<Rightarrow> (Inl e, h')
      | (None, h') \<Rightarrow>
        (case fs_get (hs_fs h') (path_elems path) of
           None \<Rightarrow> Inl ErrNotExist
         | Some FsDir \<Rightarrow> Inr (fs_names (hs_fs h') (path_elems path))
         | Some _ \<Rightarrow> Inl (ErrInfrastructure ''not a directory''), h'))"

text \<open>\<open>filepath.EvalSymlinks\<close> of an absolute path: at most 255 links are followed.\<close>

function (sequential) eval_links :: "nat \<Rightarrow> fs \<Rightarrow> string list \<Rightarrow> string list \<Rightarrow> string list result" where
  "eval_links n fs pre [] = Inr pre"
| "eval_links n fs pre (c # cs) =
     (if c = [] \<or> c = ''.'' then eval_links n fs pre cs
      else if c = ''..'' then eval_links n fs (butlast pre) cs
      else (case fs_get fs (pre @ [c]) of
         None \<Rightarrow> Inl ErrNotExist
       | Some FsDir \<Rightarrow> eval_links n fs (pre @ [c]) cs
       | Some (FsFile _) \<Rightarrow> if cs \<noteq> [] then Inl (ErrInfrastructure ''not a directory'') else Inr (pre @ [c])
       | Some (FsLink t) \<Rightarrow>
         if n = 0 then Inl (Errorf ''EvalSymlinks: too many links'')
         else eval_links (n - 1) fs (if IsAbs t then [] else pre) (split_on (CHR ''/'') t @ cs)))"
  by pat_completeness auto
termination
  by (relation "measures [\<lambda>(n, _, _, _). n, \<lambda>(_, _, _, cs). length cs]") auto

definition EvalSymlinks :: "string \<Rightarrow> 'n host \<Rightarrow> string result \<times> 'n host" where
  "EvalSymlinks path h =
     (case next_fault h of
        (Some (e, _), h') \<Rightarrow> (Inl e, h')
      | (None, h') \<Rightarrow>
        (bind_result (eval_links 255 (hs_fs h') [] (split_on (CHR ''/'') path)) (\<lambda>cs. Inr (CHR ''/'' # join_with ''/'' cs)), h'))"

end
