(* ===== verification/Ingress.thy ===== *)
theory Ingress
  imports Manifest Go_File
begin

text \<open>
  \<^verbatim>\<open>internal/ingress\<close>: routes and their validation (\<^verbatim>\<open>model.go\<close>), the nginx
  configuration rendered from them (\<^verbatim>\<open>render.go\<close>) and the store of routes and
  generations in the control database (\<^verbatim>\<open>store.go\<close>).
\<close>

section \<open>Data\<close>

text \<open>\<open>ExposureMode\<close>, \<open>TLSPolicy\<close> and \<open>DesiredState\<close> are string types.\<close>

definition IngressLAN :: string where "IngressLAN = ''lan''"
definition ManagedHTTPS :: string where "ManagedHTTPS = ''managed-https''"
definition CloudflareTunnel :: string where "CloudflareTunnel = ''cloudflare-tunnel''"

definition TLSNone :: string where "TLSNone = ''none''"
definition TLSProvided :: string where "TLSProvided = ''provided''"
definition TLSACME :: string where "TLSACME = ''acme''"
definition TLSCloudflare :: string where "TLSCloudflare = ''cloudflare''"

definition Disabled :: string where "Disabled = ''disabled''"
definition Enabled :: string where "Enabled = ''enabled''"

lemmas ingress_names = IngressLAN_def ManagedHTTPS_def CloudflareTunnel_def TLSNone_def TLSProvided_def
  TLSACME_def TLSCloudflare_def Disabled_def Enabled_def

record Route =
  rt_ID :: string
  rt_InstallationID :: string
  rt_ServiceID :: string
  rt_Hostname :: string
  rt_ExposureMode :: string
  rt_UpstreamProtocol :: string
  rt_TLSPolicy :: string
  rt_CertificateID :: string
  rt_ProviderID :: string
  rt_DesiredState :: string
  rt_AppliedGeneration :: int
  rt_CreatedAt :: string
  rt_UpdatedAt :: string

record Backend =
  be_Address :: string
  be_Port :: int

record AppliedRoute =
  ar_Route :: Route
  ar_Backend :: Backend

section \<open>Names\<close>

definition identity_char :: "char \<Rightarrow> bool" where
  "identity_char c = (is_lower c \<or> is_digit c \<or> c = CHR ''-'')"

definition ingressIdentityPattern :: "string \<Rightarrow> bool" where
  "ingressIdentityPattern s = match_head_tail is_lower identity_char 1 63 s"

definition routePattern :: "string \<Rightarrow> bool" where
  "routePattern s = match_prefix_rep ''route-'' is_hex_lower 16 s"

definition certificatePattern :: "string \<Rightarrow> bool" where
  "certificatePattern s = match_prefix_rep ''cert-'' is_hex_lower 16 s"

definition providerPattern :: "string \<Rightarrow> bool" where
  "providerPattern s = match_prefix_rep ''provider-'' is_hex_lower 16 s"

definition label_end :: "char \<Rightarrow> bool" where
  "label_end c = (is_lower c \<or> is_digit c)"

definition labelPattern :: "string \<Rightarrow> bool" where
  "labelPattern s = (s \<noteq> [] \<and> length s \<le> 63 \<and> label_end (hd s) \<and> label_end (last s) \<and> list_all identity_char s)"

text \<open>The random bytes are an argument; \<open>None\<close> when the generator fails.\<close>

definition NewID :: "string \<Rightarrow> nat list option \<Rightarrow> string result" where
  "NewID prefix raw =
     (if prefix \<noteq> ''route'' \<and> prefix \<noteq> ''cert'' \<and> prefix \<noteq> ''provider'' \<and> prefix \<noteq> ''bundle''
      then Inl (Errorf ''unsupported identity prefix'')
      else case raw of None \<Rightarrow> Inl (ErrInfrastructure ''random'') | Some bs \<Rightarrow> Inr (prefix @ ''-'' @ hex_encode bs))"

text \<open>
  \<open>strings.ToLower\<close>. Two runes outside ASCII have an ASCII letter as their lower case: the
  Kelvin sign and the dotted capital I. The lower case of the others is outside ASCII and is
  left as it is here: what remains outside ASCII is refused below in either form. A byte
  that is no part of a rune becomes the replacement rune.
\<close>

definition lower_rune :: "nat \<times> string \<Rightarrow> string" where
  "lower_rune rb = (case rb of (r, bs) \<Rightarrow>
     if r < 128 then map ascii_lower bs
     else if r = 8490 then ''k'' else if r = 304 then ''i''
     else if r = rune_error \<and> length bs = 1 then replacement_bytes else bs)"

definition ToLower :: "string \<Rightarrow> string" where
  "ToLower s = concat (map lower_rune (utf8_runes s))"

definition trim_suffix :: "string \<Rightarrow> string \<Rightarrow> string" where
  "trim_suffix x s = (if length x \<le> length s \<and> drop (length s - length x) s = x
     then take (length s - length x) s else s)"

definition hostname_stops :: string where
  "hostname_stops = ''_/:'' @ [CHR 0x5C, CHR 0x00, CHR 0x0D, CHR 0x0A, CHR 0x09, CHR 0x20]"

definition NormalizeHostname :: "string \<Rightarrow> string result" where
  "NormalizeHostname v =
     (let value = ToLower (trim_suffix ''.'' (trim_space v)); labels = split_on (CHR ''.'') value in
      if value = [] \<or> 253 < length value \<or> ParseIP value \<noteq> None \<or> contains_any value hostname_stops
      then Inl (Errorf ''invalid hostname'')
      else if length labels < 2 then Inl (Errorf ''hostname must contain at least two labels'')
      else if \<not> list_all labelPattern labels then Inl (Errorf ''invalid hostname'')
      else Inr value)"

section \<open>Validation\<close>

definition policy_check :: "Route \<Rightarrow> bool \<Rightarrow> unit result" where
  "policy_check r externalAllowed =
     (if rt_ExposureMode r = IngressLAN then
        guard (rt_TLSPolicy r \<noteq> TLSNone \<and> rt_TLSPolicy r \<noteq> TLSProvided) ''invalid LAN TLS policy''
      else if rt_ExposureMode r = ManagedHTTPS then
        guard (rt_TLSPolicy r \<noteq> TLSProvided \<and> rt_TLSPolicy r \<noteq> TLSACME) ''managed HTTPS requires a certificate''
      else if rt_ExposureMode r = CloudflareTunnel then
        guard (\<not> externalAllowed \<or> rt_TLSPolicy r \<noteq> TLSCloudflare \<or> \<not> providerPattern (rt_ProviderID r))
          ''invalid Cloudflare route''
      else Inl (Errorf ''invalid exposure mode''))"

definition ValidateRoute :: "Route \<Rightarrow> string list \<Rightarrow> bool \<Rightarrow> unit result" where
  "ValidateRoute r allowedModes externalAllowed = checks
     [guard (NormalizeHostname (rt_Hostname r) \<noteq> Inr (rt_Hostname r) \<or> \<not> routePattern (rt_ID r)
        \<or> \<not> ingressIdentityPattern (rt_InstallationID r) \<or> \<not> ingressIdentityPattern (rt_ServiceID r)) ''invalid route identity'',
      guard (rt_UpstreamProtocol r \<noteq> ''http'' \<and> rt_UpstreamProtocol r \<noteq> ''https'') ''invalid upstream protocol'',
      guard (\<not> list_ex (\<lambda>mode. rt_ExposureMode r = mode) allowedModes) ''exposure mode is not allowed by the catalog'',
      guard (rt_DesiredState r \<noteq> Disabled \<and> rt_DesiredState r \<noteq> Enabled) ''invalid desired state'',
      policy_check r externalAllowed,
      (if rt_TLSPolicy r = TLSProvided \<or> rt_TLSPolicy r = TLSACME
       then guard (\<not> certificatePattern (rt_CertificateID r)) ''certificate is required''
       else guard (rt_CertificateID r \<noteq> []) ''certificate is not allowed''),
      guard (rt_ExposureMode r \<noteq> CloudflareTunnel \<and> rt_ProviderID r \<noteq> []) ''provider is not allowed'']"

definition ValidateBackend :: "Backend \<Rightarrow> unit result" where
  "ValidateBackend b =
     (case ParseIP (be_Address b) of
        None \<Rightarrow> Inl (Errorf ''ingress backend must be an exact loopback binding'')
      | Some ip \<Rightarrow> guard (\<not> IsLoopback ip \<or> be_Port b < 1 \<or> 65535 < be_Port b)
          ''ingress backend must be an exact loopback binding'')"

text \<open>
  \<open>sort.Slice\<close> orders by hostname, then by route; routes that agree in both may come out
  in any order and are refused as duplicates below.
\<close>

definition route_order :: "AppliedRoute \<Rightarrow> string list" where
  "route_order a = [rt_Hostname (ar_Route a), rt_ID (ar_Route a)]"

definition route_keys :: "AppliedRoute \<Rightarrow> (string + string) list" where
  "route_keys a = [Inl (rt_Hostname (ar_Route a)), Inr (rt_ID (ar_Route a))]"

definition check_route :: "AppliedRoute \<Rightarrow> bool \<Rightarrow> unit result" where
  "check_route a dup = checks
     [guard (rt_DesiredState (ar_Route a) \<noteq> Enabled) ''disabled route included in active generation'',
      ValidateRoute (ar_Route a) [IngressLAN, ManagedHTTPS, CloudflareTunnel] True,
      ValidateBackend (ar_Backend a),
      guard dup ''duplicate ingress route'']"

definition NormalizeRoutes :: "AppliedRoute list \<Rightarrow> AppliedRoute list result" where
  "NormalizeRoutes routes =
     (let out = sort_key route_order routes
      in bind_result (each_unique route_keys check_route out []) (\<lambda>_. Inr out))"

section \<open>Rendering\<close>

definition unlines :: "string list \<Rightarrow> string" where
  "unlines ls = concat (map (\<lambda>l. l @ [CHR 0x0A]) ls)"

definition cloudflareOriginPort :: int where "cloudflareOriginPort = 18080"
definition acmeChallengeSocket :: string where "acmeChallengeSocket = ''/run/kitpro-ingress/acme.sock''"

record RenderOptions =
  ro_CertificateRoot :: string
  ro_WorkerUser :: string

definition with_defaults :: "RenderOptions \<Rightarrow> RenderOptions" where
  "with_defaults opts = \<lparr>ro_CertificateRoot = (if ro_CertificateRoot opts = [] then ''/var/lib/kitpro-helper/ingress/certificates''
       else ro_CertificateRoot opts),
     ro_WorkerUser = (if ro_WorkerUser opts = [] then ''kitpro-ingress'' else ro_WorkerUser opts)\<rparr>"

definition writeACMEChallengeLocation :: string where
  "writeACMEChallengeLocation = unlines
     [''    location ^~ /.well-known/acme-challenge/ {'',
      ''      proxy_pass http://unix:'' @ acmeChallengeSocket @ '':;'',
      ''      proxy_set_header Host $host;'',
      ''      proxy_pass_request_body off;'',
      ''      proxy_set_header Content-Length '' @ [CHR 0x22, CHR 0x22] @ '';'',
      ''    }'']"

definition render_head :: "string \<Rightarrow> string" where
  "render_head user = unlines
     [''user '' @ user @ '';'', ''worker_processes auto;'', ''pid run/nginx.pid;'', ''error_log logs/error.log warn;'',
      ''events { worker_connections 1024; }'', ''http {'',
      ''  client_body_temp_path temp-client-body;'', ''  proxy_temp_path temp-proxy;'', ''  fastcgi_temp_path temp-fastcgi;'',
      ''  uwsgi_temp_path temp-uwsgi;'', ''  scgi_temp_path temp-scgi;'',
      ''  access_log logs/access.log combined;'', ''  server_tokens off;'', ''  proxy_http_version 1.1;'',
      ''  map $http_upgrade $kitpro_connection { default upgrade; '' @ [CHR 0x27, CHR 0x27] @ '' close; }'',
      ''  server { listen 80 default_server; server_name _;'']
     @ writeACMEChallengeLocation
     @ unlines [''    location / { return 444; }'', ''  }'',
      ''  server { listen 443 ssl default_server; ssl_reject_handshake on; server_name _; }'']"

definition cloudflare_listen :: string where
  "cloudflare_listen = ''127.0.0.1:'' @ itoa cloudflareOriginPort"

definition is_cloudflare :: "AppliedRoute \<Rightarrow> bool" where
  "is_cloudflare a = (rt_ExposureMode (ar_Route a) = CloudflareTunnel)"

definition render_cloudflare_default :: "AppliedRoute list \<Rightarrow> string" where
  "render_cloudflare_default routes =
     (if list_ex is_cloudflare routes
      then unlines [''  server { listen '' @ cloudflare_listen @ '' default_server; server_name _; location / { return 444; } }'']
      else [])"

text \<open>A route that is served over TLS redirects plain requests.\<close>

definition redirects :: "AppliedRoute \<Rightarrow> bool" where
  "redirects a = (rt_ExposureMode (ar_Route a) = ManagedHTTPS \<or> rt_TLSPolicy (ar_Route a) = TLSProvided)"

definition has_certificate :: "AppliedRoute \<Rightarrow> bool" where
  "has_certificate a = (rt_TLSPolicy (ar_Route a) = TLSProvided \<or> rt_TLSPolicy (ar_Route a) = TLSACME)"

definition render_redirect :: "AppliedRoute \<Rightarrow> string" where
  "render_redirect a =
     unlines [''  server {'', ''    listen 80;'', ''    server_name '' @ rt_Hostname (ar_Route a) @ '';'']
     @ writeACMEChallengeLocation
     @ unlines [''    location / { return 308 https://$host$request_uri; }'', ''  }'']"

definition render_certificate :: "string \<Rightarrow> AppliedRoute \<Rightarrow> string" where
  "render_certificate root a =
     (let certRoot = filepath_Join [root, rt_CertificateID (ar_Route a)] in unlines
       [''    ssl_certificate '' @ filepath_Join [certRoot, ''fullchain.pem''] @ '';'',
        ''    ssl_certificate_key '' @ filepath_Join [certRoot, ''privkey.pem''] @ '';'',
        ''    ssl_protocols TLSv1.2 TLSv1.3;'', ''    ssl_session_tickets off;''])"

definition route_listen :: "AppliedRoute \<Rightarrow> string" where
  "route_listen a = (if redirects a then ''443 ssl'' else if is_cloudflare a then cloudflare_listen else ''80'')"

definition render_route :: "string \<Rightarrow> AppliedRoute \<Rightarrow> string" where
  "render_route root a =
     (if redirects a then render_redirect a else [])
     @ unlines [''  server {'', ''    listen '' @ route_listen a @ '';'', ''    server_name '' @ rt_Hostname (ar_Route a) @ '';'']
     @ (if has_certificate a then render_certificate root a else [])
     @ (if is_cloudflare a then writeACMEChallengeLocation else [])
     @ unlines
       [''    location / {'',
        ''      proxy_pass '' @ rt_UpstreamProtocol (ar_Route a) @ ''://'' @ be_Address (ar_Backend a)
          @ '':'' @ itoa (be_Port (ar_Backend a)) @ '';'',
        ''      proxy_set_header Host $host;'', ''      proxy_set_header X-Forwarded-Host $host;'',
        ''      proxy_set_header X-Forwarded-Proto $scheme;'', ''      proxy_set_header X-Forwarded-For $remote_addr;'',
        ''      proxy_set_header Upgrade $http_upgrade;'', ''      proxy_set_header Connection $kitpro_connection;'',
        ''    }'', ''  }'']"

definition RenderNginx :: "AppliedRoute list \<Rightarrow> RenderOptions \<Rightarrow> string result" where
  "RenderNginx rs opts0 =
     bind_result (NormalizeRoutes rs) (\<lambda>routes. let opts = with_defaults opts0 in
       if \<not> ingressIdentityPattern (ro_WorkerUser opts) \<or> \<not> IsAbs (ro_CertificateRoot opts)
          \<or> filepath_Clean (ro_CertificateRoot opts) \<noteq> ro_CertificateRoot opts
       then Inl (Errorf ''invalid nginx render options'')
       else Inr (render_head (ro_WorkerUser opts) @ render_cloudflare_default routes
              @ concat (map (render_route (ro_CertificateRoot opts)) routes) @ unlines [''}'']))"

section \<open>The store\<close>

text \<open>
  The tables of the control database (\<^verbatim>\<open>internal/state/state.go\<close>, schema version 15). The
  installations are those the foreign key of a route may name.
\<close>

record ctl_generation =
  cg_generation :: int
  cg_operation_id :: string
  cg_configuration_sha256 :: string
  cg_status :: string
  cg_previous :: "int option"
  cg_created_at :: string
  cg_updated_at :: string
  cg_failure_code :: string

record ingress_store =
  is_routes :: "Route list"
  is_generations :: "ctl_generation list"
  is_installations :: "string list"

definition generation_statuses :: "string list" where
  "generation_statuses = [''prepared'', ''validated'', ''activating'', ''active'', ''failed'', ''rollback_pending'',
     ''rolled_back'', ''cleanup_pending'']"

text \<open>The partial unique index on the active rows.\<close>

definition at_most_one_active :: "('r \<Rightarrow> string) \<Rightarrow> 'r list \<Rightarrow> bool" where
  "at_most_one_active status t = (length (filter (\<lambda>r. status r = ''active'') t) \<le> 1)"

text \<open>The \<open>CHECK\<close> constraints of a route.\<close>

definition route_row_ok :: "Route \<Rightarrow> bool" where
  "route_row_ok r = (rt_ExposureMode r \<in> set [IngressLAN, ManagedHTTPS, CloudflareTunnel]
     \<and> rt_UpstreamProtocol r \<in> set [''http'', ''https'']
     \<and> rt_TLSPolicy r \<in> set [TLSNone, TLSProvided, TLSACME, TLSCloudflare]
     \<and> rt_DesiredState r \<in> set [Disabled, Enabled])"

definition CreateRoute :: "Route \<Rightarrow> string \<Rightarrow> ingress_store option \<Rightarrow> (Route \<times> ingress_store) result" where
  "CreateRoute route0 now st =
     (case st of None \<Rightarrow> Inl (Errorf ''ingress store is not configured'')
      | Some s \<Rightarrow>
        (let route = route0\<lparr>rt_CreatedAt := now, rt_UpdatedAt := now\<rparr> in
         if \<not> route_row_ok route \<or> (\<exists>x \<in> set (is_routes s). rt_Hostname x = rt_Hostname route)
            \<or> rt_InstallationID route \<notin> set (is_installations s)
         then wrapf ''create ingress route'' (Inl ErrConstraint)
         else wrapf ''create ingress route'' (bind_result (sql_insert rt_ID route (is_routes s))
           (\<lambda>t. Inr (route, s\<lparr>is_routes := t\<rparr>)))))"

definition GetRoute :: "string \<Rightarrow> ingress_store \<Rightarrow> Route result" where
  "GetRoute routeID s = sql_row (\<lambda>r. rt_ID r = routeID) (is_routes s)"

definition ListRoutes :: "string \<Rightarrow> ingress_store \<Rightarrow> Route list" where
  "ListRoutes installationID s =
     sort_key (\<lambda>r. [rt_Hostname r, rt_ID r])
       (filter (\<lambda>r. installationID = [] \<or> rt_InstallationID r = installationID) (is_routes s))"

definition SetDesiredState :: "string \<Rightarrow> string \<Rightarrow> string \<Rightarrow> ingress_store \<Rightarrow> (Route \<times> ingress_store) result" where
  "SetDesiredState routeID state now s =
     (if state \<noteq> Enabled \<and> state \<noteq> Disabled then Inl (Errorf ''invalid desired state'')
      else if sql_count (\<lambda>r. rt_ID r = routeID) (is_routes s) \<noteq> 1 then Inl ErrNoRows
      else let s' = s\<lparr>is_routes := sql_update (\<lambda>r. rt_ID r = routeID)
                 (\<lambda>r. r\<lparr>rt_DesiredState := state, rt_UpdatedAt := now\<rparr>) (is_routes s)\<rparr>
           in bind_result (GetRoute routeID s') (\<lambda>r. Inr (r, s')))"

definition max_generation :: "int list \<Rightarrow> int" where
  "max_generation gs = (case gs of [] \<Rightarrow> 0 | g # rest \<Rightarrow> fold max rest g)"

definition NextGeneration :: "ingress_store \<Rightarrow> int \<times> int" where
  "NextGeneration s =
     (max_generation (map cg_generation (is_generations s)) + 1,
      max_generation (map cg_generation (filter (\<lambda>g. cg_status g = ''active'') (is_generations s))))"

record Candidate =
  cd_Generation :: int
  cd_PreviousGeneration :: int
  cd_Configuration :: string
  cd_SHA256 :: string

definition nullableGeneration :: "int \<Rightarrow> int option" where
  "nullableGeneration g = (if g = 0 then None else Some g)"

text \<open>A statement whose result violates the unique index is refused.\<close>

definition put_generations :: "ctl_generation list \<Rightarrow> ingress_store \<Rightarrow> ingress_store result" where
  "put_generations t s = (if at_most_one_active cg_status t then Inr (s\<lparr>is_generations := t\<rparr>) else Inl ErrConstraint)"

definition RecordGeneration :: "Candidate \<Rightarrow> string \<Rightarrow> string \<Rightarrow> string \<Rightarrow> string \<Rightarrow> ingress_store \<Rightarrow> ingress_store result" where
  "RecordGeneration c operationID status failureCode now s =
     (if status \<notin> set generation_statuses then Inl (Errorf ''invalid generation status'')
      else if \<exists>g \<in> set (is_generations s). cg_generation g = cd_Generation c
      then put_generations (sql_update (\<lambda>g. cg_generation g = cd_Generation c)
             (\<lambda>g. g\<lparr>cg_status := status, cg_updated_at := now, cg_failure_code := failureCode\<rparr>) (is_generations s)) s
      else if \<exists>g \<in> set (is_generations s). cg_operation_id g = operationID then Inl ErrConstraint
      else put_generations (is_generations s @
             [\<lparr>cg_generation = cd_Generation c, cg_operation_id = operationID, cg_configuration_sha256 = cd_SHA256 c,
               cg_status = status, cg_previous = nullableGeneration (cd_PreviousGeneration c), cg_created_at = now,
               cg_updated_at = now, cg_failure_code = failureCode\<rparr>]) s)"

definition apply_route :: "int \<Rightarrow> string \<Rightarrow> string \<Rightarrow> ingress_store \<Rightarrow> ingress_store result" where
  "apply_route generation now routeID s =
     (if \<not> routePattern routeID then Inl (Errorf ''invalid route identity'')
      else Inr (s\<lparr>is_routes := sql_update (\<lambda>r. rt_ID r = routeID \<and> rt_DesiredState r = Enabled)
             (\<lambda>r. r\<lparr>rt_AppliedGeneration := generation, rt_UpdatedAt := now\<rparr>) (is_routes s)\<rparr>))"

text \<open>A transaction: an error leaves the store as it was.\<close>

definition CommitGeneration :: "Candidate \<Rightarrow> string list \<Rightarrow> string \<Rightarrow> ingress_store \<Rightarrow> ingress_store result" where
  "CommitGeneration c routeIDs now s =
     (let retired = (if 0 < cd_PreviousGeneration c
            then sql_update (\<lambda>g. cg_generation g = cd_PreviousGeneration c \<and> cg_status g = ''active'')
                   (\<lambda>g. g\<lparr>cg_status := ''rolled_back'', cg_updated_at := now\<rparr>) (is_generations s)
            else is_generations s) in
      bind_result (put_generations (sql_update (\<lambda>g. cg_generation g = cd_Generation c)
             (\<lambda>g. g\<lparr>cg_status := ''active'', cg_updated_at := now, cg_failure_code := []\<rparr>) retired) s) (\<lambda>s'.
      if sql_count (\<lambda>g. cg_generation g = cd_Generation c) retired \<noteq> 1 then Inl (Errorf ''candidate generation not found'')
      else fold_result (apply_route (cd_Generation c) now) routeIDs s'))"

end
