(* ===== verification/Ingress_Run.thy ===== *)
theory Ingress_Run
  imports Ingress
begin

text \<open>
  \<^verbatim>\<open>internal/ingress\<close>: the staged application of a configuration (\<^verbatim>\<open>transaction.go\<close>), the
  runtime that keeps one directory per generation and a link to the current one
  (\<^verbatim>\<open>runtime.go\<close>), the validator process (\<^verbatim>\<open>validator.go\<close>) and the reload request
  (\<^verbatim>\<open>reload.go\<close>).
\<close>

section \<open>Applying a candidate\<close>

text \<open>\<open>Runtime\<close>: calls on a world \<open>'w\<close>. A failed call may have acted.\<close>

record 'w IngressRuntime =
  ig_Prepare :: "Candidate \<Rightarrow> 'w \<Rightarrow> unit result \<times> 'w"
  ig_Validate :: "Candidate \<Rightarrow> 'w \<Rightarrow> unit result \<times> 'w"
  ig_Activate :: "Candidate \<Rightarrow> 'w \<Rightarrow> unit result \<times> 'w"
  ig_Verify :: "Candidate \<Rightarrow> 'w \<Rightarrow> unit result \<times> 'w"
  ig_Rollback :: "Candidate \<Rightarrow> 'w \<Rightarrow> unit result \<times> 'w"
  ig_VerifyGeneration :: "int \<Rightarrow> 'w \<Rightarrow> unit result \<times> 'w"
  ig_Cleanup :: "Candidate \<Rightarrow> 'w \<Rightarrow> unit result \<times> 'w"

record ApplyError =
  ae_Code :: string
  ae_RolledBack :: bool
  ae_RecoveryNow :: bool
  ae_Cause :: go_error

definition plain_error :: "string \<Rightarrow> go_error \<Rightarrow> ApplyError" where
  "plain_error code cause = \<lparr>ae_Code = code, ae_RolledBack = False, ae_RecoveryNow = False, ae_Cause = cause\<rparr>"

definition recovery_error :: "string \<Rightarrow> string \<Rightarrow> go_error \<Rightarrow> go_error \<Rightarrow> ApplyError" where
  "recovery_error code what cause e = \<lparr>ae_Code = code, ae_RolledBack = False, ae_RecoveryNow = True,
     ae_Cause = Errorf (what @ '': '' @ error_text cause @ ''; '' @ error_text e)\<rparr>"

definition ApplyError_text :: "ApplyError \<Rightarrow> string" where
  "ApplyError_text e = ae_Code e @ '': '' @ error_text (ae_Cause e)"

definition on_step :: "('w \<Rightarrow> 'a result \<times> 'w) \<Rightarrow> (go_error \<Rightarrow> 'w \<Rightarrow> 'b \<times> 'w) \<Rightarrow> ('w \<Rightarrow> 'b \<times> 'w) \<Rightarrow> 'w \<Rightarrow> 'b \<times> 'w" where
  "on_step m failed k w = (case m w of (Inl e, w') \<Rightarrow> failed e w' | (Inr _, w') \<Rightarrow> k w')"

definition rollback_candidate :: "'w IngressRuntime \<Rightarrow> Candidate \<Rightarrow> string \<Rightarrow> go_error \<Rightarrow> 'w \<Rightarrow> ApplyError \<times> 'w" where
  "rollback_candidate rt c code cause =
     on_step (ig_Rollback rt c)
       (\<lambda>e w. (recovery_error ''rollback_failed'' code cause e, w))
       (on_step (if 0 < cd_PreviousGeneration c then ig_VerifyGeneration rt (cd_PreviousGeneration c) else Pair (Inr ()))
          (\<lambda>e w. (recovery_error ''rollback_unverified'' code cause e, w))
          (\<lambda>w. (\<lparr>ae_Code = code, ae_RolledBack = True, ae_RecoveryNow = False, ae_Cause = cause\<rparr>, w)))"

definition no_candidate :: Candidate where
  "no_candidate = \<lparr>cd_Generation = 0, cd_PreviousGeneration = 0, cd_Configuration = [], cd_SHA256 = []\<rparr>"

definition candidate_of :: "int \<Rightarrow> int \<Rightarrow> string \<Rightarrow> Candidate" where
  "candidate_of generation previous conf =
     \<lparr>cd_Generation = generation, cd_PreviousGeneration = previous, cd_Configuration = conf, cd_SHA256 = sha256_hex conf\<rparr>"

definition run_candidate :: "'w IngressRuntime \<Rightarrow> Candidate \<Rightarrow> 'w \<Rightarrow> ApplyError option \<times> 'w" where
  "run_candidate rt c =
     (let rolled = (\<lambda>code e w. apfst Some (rollback_candidate rt c code e w)) in
      on_step (ig_Prepare rt c) (\<lambda>e w. (Some (plain_error ''prepare_failed'' e), w))
     (on_step (ig_Validate rt c) (\<lambda>e w. (Some (plain_error ''validation_failed'' e), w))
     (on_step (ig_Activate rt c) (rolled ''activation_failed'')
     (on_step (ig_Verify rt c) (rolled ''verification_failed'')
     (on_step (ig_Cleanup rt c) (\<lambda>e w. (Some (plain_error ''cleanup_pending'' e), w))
     (\<lambda>w. (None, w)))))))"

definition Apply :: "'w IngressRuntime option \<Rightarrow> int \<Rightarrow> int \<Rightarrow> string \<Rightarrow> 'w \<Rightarrow> (Candidate \<times> ApplyError option) \<times> 'w" where
  "Apply runtime generation previous conf w =
     (case runtime of
        None \<Rightarrow> ((no_candidate, Some (plain_error ''invalid_candidate'' (Errorf ''invalid ingress candidate''))), w)
      | Some rt \<Rightarrow>
        if generation < 1 \<or> previous < 0 \<or> generation = previous \<or> conf = [] \<or> 1024 * 1024 < length conf
        then ((no_candidate, Some (plain_error ''invalid_candidate'' (Errorf ''invalid ingress candidate''))), w)
        else apfst (Pair (candidate_of generation previous conf)) (run_candidate rt (candidate_of generation previous conf) w))"

section \<open>The nginx runtime\<close>

definition defaultIngressRoot :: string where
  "defaultIngressRoot = ''/var/lib/kitpro-helper/ingress''"

text \<open>The three functions are nil when they are \<open>None\<close>.\<close>

record 'n NginxRuntime =
  nr_Root :: string
  nr_Check :: "(string \<Rightarrow> int \<Rightarrow> 'n host \<Rightarrow> unit result \<times> 'n host) option"
  nr_Reload :: "('n host \<Rightarrow> unit result \<times> 'n host) option"
  nr_VerifyProcess :: "('n host \<Rightarrow> unit result \<times> 'n host) option"

text \<open>The receiver is a copy: the default root is checked, not kept.\<close>

definition nginx_validate :: "'n NginxRuntime \<Rightarrow> unit result" where
  "nginx_validate n =
     (let root = (if nr_Root n = [] then defaultIngressRoot else nr_Root n) in
      if \<not> IsAbs root \<or> filepath_Clean root \<noteq> root \<or> nr_Check n = None \<or> nr_Reload n = None \<or> nr_VerifyProcess n = None
      then Inl (Errorf ''invalid ingress runtime'') else Inr ())"

definition generationPath :: "'n NginxRuntime \<Rightarrow> int \<Rightarrow> string result" where
  "generationPath n generation =
     bind_result (nginx_validate n) (\<lambda>_.
       if generation < 1 then Inl (Errorf ''invalid ingress generation'')
       else Inr (filepath_Join [nr_Root n, ''generations'', itoa generation]))"

definition syncDirectory :: "string \<Rightarrow> 'n host \<Rightarrow> unit result \<times> 'n host" where
  "syncDirectory path = bind_host (os_Open path) (\<lambda>_. file_Sync)"

text \<open>The file is closed whether or not the write succeeded; the write's error goes first.\<close>

definition write_config :: "string \<Rightarrow> string \<Rightarrow> 'n host \<Rightarrow> unit result \<times> 'n host" where
  "write_config path text h =
     (case bind_host (file_Write path text) (\<lambda>_. file_Sync) h of (written, h1) \<Rightarrow>
      case file_Close h1 of (closed, h2) \<Rightarrow>
        (bind_result (wrapf ''write ingress configuration'' written) (\<lambda>_. wrapf ''close ingress configuration'' closed), h2))"

definition nginx_Prepare :: "'n NginxRuntime \<Rightarrow> Candidate \<Rightarrow> 'n host \<Rightarrow> unit result \<times> 'n host" where
  "nginx_Prepare n c =
     bind_host (lift_host (generationPath n (cd_Generation c))) (\<lambda>path.
     bind_host (wrap_host ''prepare ingress run directory'' (os_MkdirAll (filepath_Join [path, ''run'']))) (\<lambda>_.
     bind_host (wrap_host ''prepare ingress log directory'' (os_MkdirAll (filepath_Join [path, ''logs'']))) (\<lambda>_.
     let configPath = filepath_Join [path, ''nginx.conf''] in
     bind_host (wrap_host ''prepare ingress configuration'' (os_CreateExcl configPath)) (\<lambda>_.
     bind_host (write_config configPath (cd_Configuration c)) (\<lambda>_. syncDirectory path)))))"

text \<open>A nil function is not called: \<open>generationPath\<close> has refused it.\<close>

definition call_check :: "'n NginxRuntime \<Rightarrow> string \<Rightarrow> int \<Rightarrow> 'n host \<Rightarrow> unit result \<times> 'n host" where
  "call_check n target generation =
     (case nr_Check n of Some f \<Rightarrow> f target generation | None \<Rightarrow> lift_host (Inl (Errorf ''nil function'')))"

definition call_process :: "'n NginxRuntime \<Rightarrow> 'n host \<Rightarrow> unit result \<times> 'n host" where
  "call_process n = (case nr_VerifyProcess n of Some f \<Rightarrow> f | None \<Rightarrow> lift_host (Inl (Errorf ''nil function'')))"

definition nginx_reload :: "'n NginxRuntime \<Rightarrow> 'n host \<Rightarrow> unit result \<times> 'n host" where
  "nginx_reload n = wrap_host ''reload KITPro ingress''
     (case nr_Reload n of Some f \<Rightarrow> f | None \<Rightarrow> lift_host (Inl (Errorf ''nil function'')))"

definition nginx_Validate :: "'n NginxRuntime \<Rightarrow> Candidate \<Rightarrow> 'n host \<Rightarrow> unit result \<times> 'n host" where
  "nginx_Validate n c =
     bind_host (lift_host (generationPath n (cd_Generation c))) (\<lambda>_.
       wrap_host ''nginx candidate rejected'' (call_check n ''generation'' (cd_Generation c)))"

text \<open>\<open>os.Remove\<close>, a missing file being as good as a removed one.\<close>

definition remove_stale :: "string \<Rightarrow> 'n host \<Rightarrow> unit result \<times> 'n host" where
  "remove_stale path h = (case os_Remove path h of (r, h') \<Rightarrow> (if r = Inl ErrNotExist then Inr () else r, h'))"

text \<open>\<open>_ = os.Remove(temporary)\<close> after a failed rename, with the error of the rename.\<close>

definition rename_or_remove :: "string \<Rightarrow> string \<Rightarrow> string \<Rightarrow> 'n host \<Rightarrow> unit result \<times> 'n host" where
  "rename_or_remove what old new h =
     (case os_Rename old new h of
        (Inr u, h') \<Rightarrow> (Inr u, h')
      | (Inl e, h') \<Rightarrow> (wrapf what (Inl e), snd (os_Remove old h')))"

definition replaceSymlink :: "string \<Rightarrow> string \<Rightarrow> 'n host \<Rightarrow> unit result \<times> 'n host" where
  "replaceSymlink root target =
     (let temporary = filepath_Join [root, ''.current-new''] in
      bind_host (os_MkdirAll root) (\<lambda>_.
      bind_host (remove_stale temporary) (\<lambda>_.
      bind_host (os_Symlink target temporary) (\<lambda>_.
      bind_host (rename_or_remove ''activate ingress generation'' temporary (filepath_Join [root, ''current''])) (\<lambda>_.
      syncDirectory root)))))"

definition nginx_Activate :: "'n NginxRuntime \<Rightarrow> Candidate \<Rightarrow> 'n host \<Rightarrow> unit result \<times> 'n host" where
  "nginx_Activate n c =
     bind_host (lift_host (generationPath n (cd_Generation c))) (\<lambda>path.
     bind_host (replaceSymlink (nr_Root n) path) (\<lambda>_. nginx_reload n))"

definition nginx_VerifyGeneration :: "'n NginxRuntime \<Rightarrow> int \<Rightarrow> 'n host \<Rightarrow> unit result \<times> 'n host" where
  "nginx_VerifyGeneration n generation =
     bind_host (lift_host (generationPath n generation)) (\<lambda>path h.
       (case EvalSymlinks (filepath_Join [nr_Root n, ''current'']) h of (current, h') \<Rightarrow>
          if current \<noteq> Inr path then (Inl (Errorf ''active ingress generation does not match''), h')
          else bind_host (wrap_host ''active nginx configuration failed verification'' (call_check n ''generation'' generation)) (\<lambda>_.
            restate ''managed nginx process is unavailable'' (call_process n)) h'))"

definition nginx_Verify :: "'n NginxRuntime \<Rightarrow> Candidate \<Rightarrow> 'n host \<Rightarrow> unit result \<times> 'n host" where
  "nginx_Verify n c = nginx_VerifyGeneration n (cd_Generation c)"

definition nginx_Rollback :: "'n NginxRuntime \<Rightarrow> Candidate \<Rightarrow> 'n host \<Rightarrow> unit result \<times> 'n host" where
  "nginx_Rollback n c =
     (if cd_PreviousGeneration c = 0
      then bind_host (replaceSymlink (nr_Root n) (filepath_Join [nr_Root n, ''bootstrap''])) (\<lambda>_. nginx_reload n)
      else bind_host (lift_host (generationPath n (cd_PreviousGeneration c))) (\<lambda>path.
           bind_host (replaceSymlink (nr_Root n) path) (\<lambda>_. nginx_reload n)))"

definition nginx_Cleanup :: "'n NginxRuntime \<Rightarrow> Candidate \<Rightarrow> 'n host \<Rightarrow> unit result \<times> 'n host" where
  "nginx_Cleanup n c =
     (if cd_PreviousGeneration c = 0 then lift_host (Inr ())
      else bind_host (lift_host (generationPath n (cd_PreviousGeneration c))) (\<lambda>_. lift_host (Inr ())))"

definition ReloadAndVerifyCurrent :: "'n NginxRuntime \<Rightarrow> 'n host \<Rightarrow> unit result \<times> 'n host" where
  "ReloadAndVerifyCurrent n =
     bind_host (lift_host (nginx_validate n)) (\<lambda>_.
     bind_host (wrap_host ''active nginx configuration failed verification'' (call_check n ''current'' 0)) (\<lambda>_.
     bind_host (nginx_reload n) (\<lambda>_. restate ''managed nginx process is unavailable'' (call_process n))))"

definition nginx_runtime :: "'n NginxRuntime \<Rightarrow> 'n host IngressRuntime" where
  "nginx_runtime n = \<lparr>ig_Prepare = nginx_Prepare n, ig_Validate = nginx_Validate n, ig_Activate = nginx_Activate n,
     ig_Verify = nginx_Verify n, ig_Rollback = nginx_Rollback n, ig_VerifyGeneration = nginx_VerifyGeneration n,
     ig_Cleanup = nginx_Cleanup n\<rparr>"

section \<open>The next generation\<close>

text \<open>\<open>strconv.ParseInt(s, 10, 64)\<close> and \<open>strconv.Atoi\<close>\<close>

definition max_int64 :: int where
  "max_int64 = 9223372036854775807"

definition parse_int64 :: "string \<Rightarrow> int option" where
  "parse_int64 s =
     (let neg = has_prefix ''-'' s; ds = (if neg \<or> has_prefix ''+'' s then tl s else s); v = int (digits_value 0 ds) in
      if ds = [] \<or> \<not> list_all is_digit ds then None
      else if neg then (if max_int64 + 1 < v then None else Some (- v))
      else if max_int64 < v then None else Some v)"

fun next_unused :: "string list \<Rightarrow> int \<Rightarrow> int result" where
  "next_unused [] nxt = Inr nxt"
| "next_unused (name # names) nxt =
     (case parse_int64 name of
        None \<Rightarrow> next_unused names nxt
      | Some n \<Rightarrow>
        if n < nxt then next_unused names nxt
        else if n = max_int64 then Inl (Errorf ''ingress generation exhausted'')
        else next_unused names (n + 1))"

definition NextUnusedGeneration :: "string \<Rightarrow> int \<Rightarrow> 'n host \<Rightarrow> int result \<times> 'n host" where
  "NextUnusedGeneration root minimum h =
     (if minimum < 1 then (Inl (Errorf ''invalid ingress generation''), h)
      else case os_ReadDir (filepath_Join [root, ''generations'']) h of (entries, h') \<Rightarrow>
        (if entries = Inl ErrNotExist then Inr minimum
         else bind_result entries (\<lambda>names. next_unused names minimum), h'))"

section \<open>The managed process\<close>

definition verifyManagedNginx :: "string \<Rightarrow> 'n host \<Rightarrow> unit result \<times> 'n host" where
  "verifyManagedNginx pidPath =
     bind_host (os_ReadFile pidPath) (\<lambda>raw h.
       (case parse_int64 (trim_space raw) of
          None \<Rightarrow> (Inl (Errorf ''invalid managed nginx PID''), h)
        | Some pid \<Rightarrow>
          if pid < 2 then (Inl (Errorf ''invalid managed nginx PID''), h)
          else case os_ReadFile (filepath_Join [''/proc'', itoa pid, ''comm'']) h of (command, h') \<Rightarrow>
            (case command of
               Inl _ \<Rightarrow> Inl (Errorf ''managed nginx process is unavailable'')
             | Inr text \<Rightarrow> if trim_space text \<noteq> ''nginx'' then Inl (Errorf ''managed nginx process is unavailable'') else Inr (), h')))"

section \<open>The validator\<close>

definition validValidationTarget :: "string \<Rightarrow> int \<Rightarrow> bool" where
  "validValidationTarget target generation =
     ((target = ''current'' \<and> generation = 0) \<or> (target = ''generation'' \<and> 0 < generation))"

text \<open>The command line of the check; \<open>run\<close> says whether the command succeeds.\<close>

definition worker_validate ::
  "(string list \<Rightarrow> fs \<Rightarrow> bool) \<Rightarrow> string \<Rightarrow> string \<Rightarrow> int \<Rightarrow> fs \<Rightarrow> unit result" where
  "worker_validate run root0 target generation fs =
     (let root = (if root0 = [] then defaultIngressRoot else root0);
          config = (if target = ''generation'' then filepath_Join [''generations'', itoa generation, ''nginx.conf'']
            else ''current/nginx.conf'') in
      if \<not> validValidationTarget target generation then Inl (Errorf ''invalid validation target'')
      else if \<not> IsAbs root \<or> filepath_Clean root \<noteq> root then Inl (Errorf ''invalid ingress runtime'')
      else if \<not> run [''/usr/sbin/nginx'', ''-t'', ''-p'', root @ ''/'', ''-c'', config] fs
      then Inl (Errorf ''nginx configuration validation failed'') else Inr ())"

record validatorResponse =
  vr_OK :: bool
  vr_ErrorCode :: string

text \<open>
  What a connection is answered: nothing to a peer other than root; the request is \<open>None\<close>
  when its frame cannot be read.
\<close>

definition serve_validation ::
  "(string list \<Rightarrow> fs \<Rightarrow> bool) \<Rightarrow> string \<Rightarrow> bool \<Rightarrow> (string \<times> int) option \<Rightarrow> fs \<Rightarrow> validatorResponse option" where
  "serve_validation run root peer_is_root request fs =
     (if \<not> peer_is_root then None
      else case request of
          None \<Rightarrow> Some \<lparr>vr_OK = False, vr_ErrorCode = ''invalid_request''\<rparr>
        | Some (target, generation) \<Rightarrow>
          if \<not> validValidationTarget target generation then Some \<lparr>vr_OK = False, vr_ErrorCode = ''invalid_request''\<rparr>
          else if \<not> is_ok (worker_validate run root target generation fs)
          then Some \<lparr>vr_OK = False, vr_ErrorCode = ''validation_failed''\<rparr>
          else Some \<lparr>vr_OK = True, vr_ErrorCode = []\<rparr>)"

text \<open>A call on the connection, with the error the client reports for it.\<close>

definition conn_call :: "string \<Rightarrow> 'n host \<Rightarrow> unit result \<times> 'n host" where
  "conn_call what h = (case next_fault h of (None, h') \<Rightarrow> (Inr (), h') | (Some _, h') \<Rightarrow> (Inl (Errorf what), h'))"

definition client_Check ::
  "(string list \<Rightarrow> fs \<Rightarrow> bool) \<Rightarrow> string \<Rightarrow> bool \<Rightarrow> string \<Rightarrow> int \<Rightarrow> 'n host \<Rightarrow> unit result \<times> 'n host" where
  "client_Check run root is_root target generation =
     (if \<not> validValidationTarget target generation then lift_host (Inl (Errorf ''invalid validation target''))
      else bind_host (conn_call ''ingress validator is unavailable'') (\<lambda>_.
           bind_host (conn_call ''ingress validation request failed'') (\<lambda>_.
           bind_host (conn_call ''ingress validation response failed'') (\<lambda>_ h.
             (case serve_validation run root is_root (Some (target, generation)) (hs_fs h) of
                None \<Rightarrow> Inl (Errorf ''ingress validation response failed'')
              | Some response \<Rightarrow> if vr_OK response then Inr () else Inl (Errorf ''nginx configuration validation failed''), h)))))"

section \<open>The reload request\<close>

definition reloadRequest :: string where "reloadRequest = ''/run/kitpro/ingress-reload.request''"
definition reloadComplete :: string where "reloadComplete = ''/run/kitpro/ingress-reload.complete''"

text \<open>
  The contents of the acknowledgement file at the ticks before the deadline, \<open>None\<close> when
  it cannot be read; after the last of them the deadline has passed.
\<close>

fun await_ack :: "string \<Rightarrow> string option list \<Rightarrow> bool" where
  "await_ack token [] = False"
| "await_ack token (a # acks) = ((case a of None \<Rightarrow> False | Some text \<Rightarrow> trim_space text = token) \<or> await_ack token acks)"

text \<open>\<open>raw\<close> are the random bytes, \<open>acks\<close> the acknowledgements seen.\<close>

definition requestReload ::
  "nat list option \<Rightarrow> string option list \<Rightarrow> string \<Rightarrow> string \<Rightarrow> 'n host \<Rightarrow> unit result \<times> 'n host" where
  "requestReload raw acks requestPath completePath =
     (case raw of
        None \<Rightarrow> lift_host (Inl (Errorf ''create ingress reload request''))
      | Some bs \<Rightarrow>
        (let token = hex_encode bs; temporary = requestPath @ ''.new'' in
         bind_host (restate ''prepare ingress reload acknowledgement'' (remove_stale completePath)) (\<lambda>_.
         bind_host (restate ''write ingress reload request'' (os_WriteFile temporary (token @ [CHR 0x0A]))) (\<lambda>_.
         bind_host (restate ''publish ingress reload request'' (rename_or_remove [] temporary requestPath)) (\<lambda>_ h.
         if await_ack token acks then (Inr (), snd (os_Remove completePath h))
         else (Inl (Errorf ''ingress reload acknowledgement timed out''), h))))))"

text \<open>
  \<open>NewNginxRuntime\<close>. The environment supplies the random bytes and the acknowledgements of
  each reload and moves on.
\<close>

type_synonym reload_env = "(nat list option \<times> string option list) list"

definition bridge_Request :: "reload_env host \<Rightarrow> unit result \<times> reload_env host" where
  "bridge_Request h =
     (case hs_env h of
        [] \<Rightarrow> requestReload None [] reloadRequest reloadComplete h
      | (raw, acks) # rest \<Rightarrow> requestReload raw acks reloadRequest reloadComplete (h\<lparr>hs_env := rest\<rparr>))"

definition NewNginxRuntime :: "(string list \<Rightarrow> fs \<Rightarrow> bool) \<Rightarrow> reload_env NginxRuntime" where
  "NewNginxRuntime run =
     \<lparr>nr_Root = defaultIngressRoot, nr_Check = Some (client_Check run [] True), nr_Reload = Some bridge_Request,
      nr_VerifyProcess = Some (verifyManagedNginx (filepath_Join [defaultIngressRoot, ''run'', ''nginx.pid'']))\<rparr>"

end
