(* ===== verification/Ingress_Apply.thy ===== *)
theory Ingress_Apply
  imports Ingress_Run Gen_Store
begin

text \<open>
  \<^verbatim>\<open>cmd/kitpro-helper/ingress.go\<close>: the helper operation that resolves requested routes to the
  bindings of active installations, renders their configuration and applies it as the next
  ingress generation, with the two tables of the helper database that record generations.
\<close>

section \<open>Tables\<close>

record ingress_generation =
  hg_generation :: int
  hg_operation_id :: string
  hg_configuration_sha256 :: string
  hg_status :: string
  hg_previous :: "int option"
  hg_generation_path :: string
  hg_created_at :: string
  hg_validated_at :: "string option"
  hg_activated_at :: "string option"
  hg_failure_code :: string
  hg_evidence_json :: string

record ingress_generation_route =
  hr_generation :: int
  hr_route_id :: string
  hr_installation_id :: string
  hr_service_id :: string
  hr_hostname :: string
  hr_backend_address :: string
  hr_backend_port :: int
  hr_exposure_mode :: string
  hr_tls_policy :: string
  hr_certificate_id :: string
  hr_provider_id :: string

record ingress_tables =
  hi_generations :: "ingress_generation list"
  hi_routes :: "ingress_generation_route list"

text \<open>The keys and the \<open>CHECK\<close> constraints of a route row.\<close>

definition insert_route_row :: "ingress_generation_route \<Rightarrow> ingress_tables \<Rightarrow> ingress_tables result" where
  "insert_route_row r t =
     (if (\<exists>x \<in> set (hi_routes t). hr_generation x = hr_generation r
            \<and> (hr_route_id x = hr_route_id r \<or> hr_hostname x = hr_hostname r))
         \<or> (\<forall>g \<in> set (hi_generations t). hg_generation g \<noteq> hr_generation r)
         \<or> hr_exposure_mode r \<notin> set [IngressLAN, ManagedHTTPS, CloudflareTunnel]
         \<or> hr_tls_policy r \<notin> set [TLSNone, TLSProvided, TLSACME, TLSCloudflare]
         \<or> hr_backend_port r < 0 \<or> 65535 < hr_backend_port r
      then Inl ErrConstraint
      else Inr (t\<lparr>hi_routes := hi_routes t @ [r]\<rparr>))"

definition put_ingress :: "ingress_generation list \<Rightarrow> ingress_tables \<Rightarrow> ingress_tables result" where
  "put_ingress gs t = (if at_most_one_active hg_status gs then Inr (t\<lparr>hi_generations := gs\<rparr>) else Inl ErrConstraint)"

section \<open>Resolving routes\<close>

definition findManifestService :: "Manifest \<Rightarrow> string \<Rightarrow> MService option" where
  "findManifestService m serviceID =
     find (\<lambda>s. se_ID s = serviceID) (ma_Services m @ concat (map mk_Services (ma_Components m)))"

text \<open>The newest active generation of the installation.\<close>

definition active_target :: "string \<Rightarrow> helper_db \<Rightarrow> gen_row result" where
  "active_target installation db =
     first_row (sort_key (\<lambda>g. - g_runtime_generation g)
       (filter (\<lambda>g. g_installation_id g = installation \<and> g_status g = GActive) (generations db)))"

definition requested_route :: "IngressRoute \<Rightarrow> Route" where
  "requested_route c = \<lparr>rt_ID = ir_RouteID c, rt_InstallationID = ir_InstallationID c, rt_ServiceID = ir_ServiceID c,
     rt_Hostname = ir_Hostname c, rt_ExposureMode = ir_ExposureMode c, rt_UpstreamProtocol = ir_UpstreamProtocol c,
     rt_TLSPolicy = ir_TLSPolicy c, rt_CertificateID = ir_CertificateID c, rt_ProviderID = ir_ProviderID c,
     rt_DesiredState = Enabled, rt_AppliedGeneration = 0, rt_CreatedAt = [], rt_UpdatedAt = []\<rparr>"

definition resolve_route :: "Manifest go_map \<Rightarrow> helper_db \<Rightarrow> IngressRoute \<Rightarrow> AppliedRoute result" where
  "resolve_route entries db c =
     (case active_target (ir_InstallationID c) db of
        Inl _ \<Rightarrow> Inl (Errorf ''route target is not an active managed installation'')
      | Inr g \<Rightarrow>
     (case map_of entries (g_application_id g) of
        None \<Rightarrow> Inl (Errorf ''route application is not trusted'')
      | Some entry \<Rightarrow>
     (case Option.bind (findManifestService entry (ir_ServiceID c)) se_Ingress of
        None \<Rightarrow> Inl (Errorf ''service is not ingress eligible'')
      | Some policy \<Rightarrow>
     (case sql_row (\<lambda>b. binding_key b = (ir_InstallationID c, g_runtime_generation g, ir_ServiceID c)) (bindings db) of
        Inl _ \<Rightarrow> Inl (Errorf ''route target binding is unavailable'')
      | Inr b \<Rightarrow>
        if b_mode b \<noteq> ''loopback'' \<or> b_transport b \<noteq> ''tcp'' \<or> b_host_address b \<noteq> ''127.0.0.1''
        then Inl (Errorf ''route target must be a managed loopback TCP binding'')
        else bind_result (ValidateRoute (requested_route c) (ie_ExposureModes policy) (ie_External policy)) (\<lambda>_.
          Inr \<lparr>ar_Route = requested_route c, ar_Backend = \<lparr>be_Address = b_host_address b, be_Port = b_host_port b\<rparr>\<rparr>)))))"

section \<open>Applying a generation\<close>

text \<open>The error a caller receives: an \<open>ApplyError\<close>, or any other error.\<close>

datatype ingress_failure = Rejected go_error | NotApplied ApplyError

record ingress_outcome =
  io_generation :: int
  io_previous_generation :: int
  io_configuration_sha256 :: string
  io_route_ids :: "string list"

definition ingressErrorCode :: "ingress_failure \<Rightarrow> string" where
  "ingressErrorCode f = (case f of Rejected _ \<Rightarrow> ''IngressRejected'' | NotApplied e \<Rightarrow> ''Ingress'' @ ae_Code e)"

definition failure_status :: "ApplyError \<Rightarrow> string" where
  "failure_status e = (if ae_RecoveryNow e then ''rollback_pending'' else if ae_RolledBack e then ''rolled_back'' else ''failed'')"

definition prepared_row :: "int \<Rightarrow> int \<Rightarrow> string \<Rightarrow> string \<Rightarrow> ingress_generation" where
  "prepared_row generation previous operationID now =
     \<lparr>hg_generation = generation, hg_operation_id = operationID, hg_configuration_sha256 = [], hg_status = ''prepared'',
      hg_previous = nullableGeneration previous,
      hg_generation_path = filepath_Join [''/var/lib/kitpro-helper/ingress/generations'', itoa generation],
      hg_created_at = now, hg_validated_at = None, hg_activated_at = None, hg_failure_code = [], hg_evidence_json = ''{}''\<rparr>"

definition insert_prepared :: "ingress_generation \<Rightarrow> ingress_tables \<Rightarrow> ingress_tables result" where
  "insert_prepared r t =
     (if \<exists>x \<in> set (hi_generations t). hg_operation_id x = hg_operation_id r then Inl ErrConstraint
      else bind_result (sql_insert hg_generation r (hi_generations t)) (\<lambda>gs. put_ingress gs t))"

definition record_failure :: "int \<Rightarrow> string \<Rightarrow> ApplyError \<Rightarrow> ingress_tables \<Rightarrow> ingress_tables" where
  "record_failure generation sha e t =
     t\<lparr>hi_generations := sql_update (\<lambda>g. hg_generation g = generation)
         (\<lambda>g. g\<lparr>hg_configuration_sha256 := sha, hg_status := failure_status e, hg_failure_code := ae_Code e\<rparr>) (hi_generations t)\<rparr>"

definition route_row :: "int \<Rightarrow> AppliedRoute \<Rightarrow> ingress_generation_route" where
  "route_row generation a = (let r = ar_Route a in
     \<lparr>hr_generation = generation, hr_route_id = rt_ID r, hr_installation_id = rt_InstallationID r,
      hr_service_id = rt_ServiceID r, hr_hostname = rt_Hostname r, hr_backend_address = be_Address (ar_Backend a),
      hr_backend_port = be_Port (ar_Backend a), hr_exposure_mode = rt_ExposureMode r, hr_tls_policy = rt_TLSPolicy r,
      hr_certificate_id = rt_CertificateID r, hr_provider_id = rt_ProviderID r\<rparr>)"

text \<open>
  The transaction that makes the generation active; \<open>fault\<close> is an error of the database
  driver at its begin, at one of its statements or at its commit.
\<close>

definition activate_rows ::
  "go_error option \<Rightarrow> int \<Rightarrow> int \<Rightarrow> string \<Rightarrow> string \<Rightarrow> AppliedRoute list \<Rightarrow> ingress_tables \<Rightarrow> ingress_tables result" where
  "activate_rows fault generation previous sha now applied t =
     (let retired = (if 0 < previous then sql_update (\<lambda>g. hg_generation g = previous)
            (\<lambda>g. g\<lparr>hg_status := ''rolled_back''\<rparr>) (hi_generations t) else hi_generations t) in
      bind_result (put_ingress (sql_update (\<lambda>g. hg_generation g = generation)
            (\<lambda>g. g\<lparr>hg_configuration_sha256 := sha, hg_status := ''active'', hg_validated_at := Some now,
                   hg_activated_at := Some now\<rparr>) retired) t) (\<lambda>t1.
      bind_result (fold_result insert_route_row (map (route_row generation) applied) t1) (\<lambda>t2.
      case fault of Some e \<Rightarrow> Inl e | None \<Rightarrow> Inr t2)))"

definition ingress_root :: string where
  "ingress_root = ''/var/lib/kitpro-helper/ingress''"

text \<open>
  From the rendered configuration on: the numbers of the generation, its prepared row, the
  staged application and the rows of its success or failure.
\<close>

definition apply_configuration ::
  "'n host IngressRuntime \<Rightarrow> go_error option \<Rightarrow> string \<Rightarrow> string \<Rightarrow> AppliedRoute list \<Rightarrow> string
    \<Rightarrow> ingress_tables \<Rightarrow> 'n host \<Rightarrow> (ingress_failure + ingress_outcome) \<times> ingress_tables \<times> 'n host" where
  "apply_configuration rt fault operationID now applied configuration t h =
     (let minimum = max_generation (map hg_generation (hi_generations t)) + 1;
          previous = max_generation (map hg_generation (filter (\<lambda>g. hg_status g = ''active'') (hi_generations t))) in
      case NextUnusedGeneration ingress_root minimum h of
        (Inl e, h1) \<Rightarrow> (Inl (Rejected e), t, h1)
      | (Inr generation, h1) \<Rightarrow>
        (case insert_prepared (prepared_row generation previous operationID now) t of
           Inl e \<Rightarrow> (Inl (Rejected e), t, h1)
         | Inr t1 \<Rightarrow>
           (case Apply (Some rt) generation previous configuration h1 of
              ((candidate, Some e), h2) \<Rightarrow> (Inl (NotApplied e), record_failure generation (cd_SHA256 candidate) e t1, h2)
            | ((candidate, None), h2) \<Rightarrow>
              (case activate_rows fault generation previous (cd_SHA256 candidate) now applied t1 of
                 Inl e \<Rightarrow> (Inl (Rejected e), t1, h2)
               | Inr t2 \<Rightarrow>
                 (Inr \<lparr>io_generation = generation, io_previous_generation = previous,
                    io_configuration_sha256 = cd_SHA256 candidate, io_route_ids = map (rt_ID \<circ> ar_Route) applied\<rparr>, t2, h2)))))"

text \<open>\<open>entries\<close> is the trusted catalog: the manifest of each application it holds.\<close>

definition applyIngressGeneration ::
  "Manifest go_map result \<Rightarrow> 'n host IngressRuntime \<Rightarrow> go_error option \<Rightarrow> string \<Rightarrow> Request \<Rightarrow> helper_db
    \<Rightarrow> ingress_tables \<Rightarrow> 'n host \<Rightarrow> (ingress_failure + ingress_outcome) \<times> ingress_tables \<times> 'n host" where
  "applyIngressGeneration catalog rt fault now request db t h =
     (if 128 < length (rq_IngressRoutes request) then (Inl (Rejected (Errorf ''too many ingress routes'')), t, h)
      else case catalog of
          Inl _ \<Rightarrow> (Inl (Rejected (Errorf ''trusted catalog unavailable'')), t, h)
        | Inr entries \<Rightarrow>
          (case map_result (resolve_route entries db) (rq_IngressRoutes request) of
             Inl e \<Rightarrow> (Inl (Rejected e), t, h)
           | Inr applied \<Rightarrow>
             (case RenderNginx applied \<lparr>ro_CertificateRoot = [], ro_WorkerUser = []\<rparr> of
                Inl e \<Rightarrow> (Inl (Rejected e), t, h)
              | Inr configuration \<Rightarrow>
                apply_configuration rt fault (rq_OperationID request) now applied configuration t h)))"

end
