(* ===== verification/Ingress_Spec.thy ===== *)
theory Ingress_Spec
  imports Ingress Exposure_Spec "HOL-Library.Multiset"
begin

text \<open>
  What ingress routes and their configuration guarantee: hostnames have one normal form, the
  configuration depends on the set of routes and not on their order, and no name, address or
  certificate of a route can change the structure of the configuration.
\<close>

section \<open>Hostnames\<close>

lemma split_on_chars: "c \<in> set s \<Longrightarrow> c = d \<or> (\<exists>w \<in> set (split_on d s). c \<in> set w)"
  by (induction s) (fastforce split: list.splits if_splits)+

lemma split_on_last: "last (split_on d s) \<noteq> [] \<Longrightarrow> s \<noteq> [] \<and> last s = last (last (split_on d s))"
proof (induction s)
  case (Cons a s)
  then show ?case by (cases s) (auto split: list.splits if_splits)
qed simp

definition hostname_char :: "char \<Rightarrow> bool" where
  "hostname_char c = (identity_char c \<or> c = CHR ''.'')"

lemma hostname_char_visible:
  assumes "hostname_char c"
  shows "visible_ascii c \<and> \<not> is_upper c \<and> c \<notin> set hostname_stops"
  using assms by (auto simp: hostname_char_def identity_char_def visible_ascii_def is_lower_def is_digit_def is_upper_def
    hostname_stops_def less_eq_char_def)

definition dns_name :: "string \<Rightarrow> bool" where
  "dns_name h = (length h \<le> 253 \<and> ParseIP h = None \<and> 2 \<le> length (split_on (CHR ''.'') h)
     \<and> list_all labelPattern (split_on (CHR ''.'') h))"

lemma dns_name_chars:
  assumes "dns_name h"
  shows "list_all hostname_char h"
proof -
  have "hostname_char c" if "c \<in> set h" for c
    using split_on_chars [OF that, of "CHR ''.''"] assms
    by (auto simp: dns_name_def list_all_iff labelPattern_def hostname_char_def)
  then show ?thesis by (simp add: list_all_iff)
qed

lemma dns_name_last:
  assumes "dns_name h"
  shows "h \<noteq> [] \<and> last h \<noteq> CHR ''.''"
proof -
  let ?w = "last (split_on (CHR ''.'') h)"
  have "labelPattern ?w" using assms by (simp add: dns_name_def list_all_iff)
  then have "?w \<noteq> []" and e: "label_end (last ?w)" by (auto simp: labelPattern_def)
  then have h: "h \<noteq> []" "last h = last ?w" using split_on_last by blast+
  have "\<not> label_end (CHR ''.'')"
    by (simp add: label_end_def is_lower_def is_digit_def less_eq_char_def)
  with e h show ?thesis by metis
qed

lemma concat_map_single: "\<forall>c \<in> set h. f c = [c] \<Longrightarrow> concat (map f h) = h"
  by (induction h) simp_all

lemma ToLower_fixed:
  assumes "list_all hostname_char h"
  shows "ToLower h = h"
proof -
  have v: "list_all visible_ascii h" using assms hostname_char_visible by (auto simp: list_all_iff)
  have "lower_rune (of_char c, [c]) = [c]" if "c \<in> set h" for c
  proof -
    from assms that hostname_char_visible [of c] have "of_char c < (128 :: nat)" "\<not> is_upper c"
      by (auto simp: list_all_iff visible_ascii_def less_eq_char_def)
    then show ?thesis by (simp add: lower_rune_def ascii_lower_def)
  qed
  then show ?thesis by (simp add: ToLower_def utf8_runes_visible [OF v] comp_def concat_map_single)
qed

lemma trim_suffix_dot: "h = [] \<or> last h \<noteq> CHR ''.'' \<Longrightarrow> trim_suffix ''.'' h = h"
  by (cases h rule: rev_cases) (auto simp: trim_suffix_def)

lemma dns_name_safe:
  assumes "dns_name h"
  shows "h \<noteq> [] \<and> \<not> contains_any h hostname_stops \<and> trim_suffix ''.'' (trim_space h) = h \<and> ToLower h = h"
proof -
  have c: "list_all hostname_char h" by (rule dns_name_chars [OF assms])
  then have "list_all visible_ascii h" using hostname_char_visible by (auto simp: list_all_iff)
  with c show ?thesis using dns_name_last [OF assms] hostname_char_visible
    by (auto simp: trim_space_visible trim_suffix_dot ToLower_fixed contains_any_iff list_all_iff)
qed

lemma NormalizeHostname_iff:
  "NormalizeHostname v = Inr h \<longleftrightarrow> h = ToLower (trim_suffix ''.'' (trim_space v)) \<and> dns_name h"
proof
  assume "NormalizeHostname v = Inr h"
  then show "h = ToLower (trim_suffix ''.'' (trim_space v)) \<and> dns_name h"
    by (auto simp: NormalizeHostname_def dns_name_def Let_def not_less split: if_splits)
next
  assume "h = ToLower (trim_suffix ''.'' (trim_space v)) \<and> dns_name h"
  then show "NormalizeHostname v = Inr h" using dns_name_safe [of h]
    by (auto simp: NormalizeHostname_def dns_name_def Let_def not_less)
qed

lemma NormalizeHostname_self: "NormalizeHostname h = Inr h \<longleftrightarrow> dns_name h"
  using dns_name_safe [of h] by (auto simp: NormalizeHostname_iff)

text \<open>
  C35. A string is its own normal form exactly when it is a DNS name of at least two labels in
  lower case that is no IP address, and what normalization returns is always such a name, so that
  normalizing it again changes nothing.
\<close>

theorem hostname_normal_form:
  "(NormalizeHostname h = Inr h \<longleftrightarrow> dns_name h) \<and> (\<forall>v. NormalizeHostname v = Inr h \<longrightarrow> NormalizeHostname h = Inr h)"
  using NormalizeHostname_self by (auto simp: NormalizeHostname_iff)

definition addr_char :: "char \<Rightarrow> bool" where
  "addr_char c = (is_hex c \<or> c = CHR ''.'' \<or> c = CHR '':'')"

lemma addr_char_colon [simp]: "addr_char (CHR '':'')"
  by (simp add: addr_char_def)

lemma parse_octets_digits: "parse_octets fs = Some v \<Longrightarrow> f \<in> set fs \<Longrightarrow> list_all is_digit f"
  by (induction fs arbitrary: v) (auto simp: parse_octet_def split: option.splits if_splits)

lemma parse_ipv4_chars:
  assumes "parse_ipv4 s = Some v"
  shows "list_all addr_char s"
proof -
  have "addr_char c" if "c \<in> set s" for c
    using split_on_chars [OF that, of "CHR ''.''"] assms parse_octets_digits
    by (fastforce simp: parse_ipv4_def Let_def addr_char_def is_hex_def is_hex_lower_def list_all_iff split: if_splits)
  then show ?thesis by (simp add: list_all_iff)
qed

lemma v6_loop_chars:
  "v6_loop ip ell s = Some (ip', ell', rest) \<Longrightarrow> \<exists>u. s = u @ rest \<and> list_all addr_char u"
proof (induction ip ell s rule: v6_loop.induct)
  case (1 ip ell s)
  define g where "g = takeWhile is_hex s"
  have hex: "list_all addr_char g" by (auto simp: g_def addr_char_def list_all_iff dest: set_takeWhileD)
  have s: "s = g @ dropWhile is_hex s" by (simp add: g_def)
  show ?case
  proof (cases "16 \<le> length ip")
    case True
    with 1(3) show ?thesis by (simp add: v6_loop.simps)
  next
    case False
    show ?thesis
    proof (cases "dropWhile is_hex s")
      case Nil
      then have "rest = []"
        using False "1.prems"
        by (simp add: v6_loop.simps [of ip ell s] Let_def del: dropWhile_eq_Nil_conv split: if_splits)
      with hex s Nil show ?thesis by simp
    next
      case (Cons c s1)
      consider "c = CHR ''.''" | "c = CHR '':''" "s1 \<noteq> []" "hd s1 = CHR '':''" | "c = CHR '':''" "s1 \<noteq> []" "hd s1 \<noteq> CHR '':''"
        using 1(3) False Cons by (auto simp: v6_loop.simps [of ip ell s] Let_def split: if_splits)
      then show ?thesis
      proof cases
        case 1
        with "1.prems" False Cons show ?thesis
          by (auto simp: v6_loop.simps [of ip ell s] Let_def split: if_splits dest: parse_ipv4_chars)
      next
        case 2
        then obtain s2 where s2: "s1 = CHR '':'' # s2" by (cases s1) auto
        then have e: "s = (g @ [CHR '':'', CHR '':'']) @ s2" using s Cons 2 by simp
        show ?thesis
        proof (cases "s2 = []")
          case True
          with "1.prems" False Cons 2 s2 have "rest = []"
            by (auto simp: v6_loop.simps [of ip ell s] Let_def split: if_splits)
          moreover have "list_all addr_char s" using e True hex by simp
          ultimately show ?thesis by simp
        next
          case rec: False
          let ?ip = "ip @ [hex_number g div 256, hex_number g mod 256]"
          from "1.prems" False Cons 2 s2 rec have "v6_loop ?ip (Some (length ?ip)) s2 = Some (ip', ell', rest)"
            by (auto simp: v6_loop.simps [of ip ell s] Let_def g_def split: if_splits)
          with "1.IH"(1) [OF False refl refl refl refl _ Cons] "1.prems" False Cons 2 s2 rec
          obtain u where "s2 = u @ rest" "list_all addr_char u"
            by (auto simp: v6_loop.simps [of ip ell s] Let_def g_def split: if_splits)
          with e hex show ?thesis
            by (intro exI [of _ "(g @ [CHR '':'', CHR '':'']) @ u"]) simp
        qed
      next
        case 3
        let ?ip = "ip @ [hex_number g div 256, hex_number g mod 256]"
        from "1.prems" False Cons 3 have "v6_loop ?ip ell s1 = Some (ip', ell', rest)"
          by (auto simp: v6_loop.simps [of ip ell s] Let_def g_def split: if_splits)
        with "1.IH"(2) [OF False refl refl refl refl _ Cons] "1.prems" False Cons 3
        obtain u where "s1 = u @ rest" "list_all addr_char u"
          by (auto simp: v6_loop.simps [of ip ell s] Let_def g_def split: if_splits)
        with s Cons hex 3 show ?thesis
          by (intro exI [of _ "(g @ [CHR '':'']) @ u"]) simp
      qed
    qed
  qed
qed

lemma ParseIP_chars:
  assumes "ParseIP s = Some ip"
  shows "list_all addr_char s"
proof -
  have v6: "list_all addr_char s" if v: "parse_ipv6 s = Some ip"
  proof -
    define lead where "lead = has_prefix ''::'' s"
    define t where "t = (if lead then drop 2 s else s)"
    have s: "s = (if lead then ''::'' else []) @ t"
      by (auto simp: lead_def t_def has_prefix_iff)
    have "list_all addr_char t"
    proof (cases "lead \<and> t = []")
      case False
      with v obtain ip' ell' where "v6_loop [] (if lead then Some 0 else None) t = Some (ip', ell', [])"
        by (auto simp: parse_ipv6_def Let_def lead_def [symmetric] t_def [symmetric] split: option.splits if_splits)
      from v6_loop_chars [OF this] show ?thesis by simp
    qed simp
    with s show ?thesis by (auto split: if_splits)
  qed
  from assms show ?thesis
    by (cases rule: ParseIP_cases) (auto intro: v6 parse_ipv4_chars)
qed

section \<open>The order of the routes\<close>

lemma check_route_dup: "check_route a True \<noteq> Inr u"
  by (cases u) (simp add: check_route_def)

lemma route_keys_distinct: "distinct (concat (map route_keys rs)) \<longleftrightarrow>
    distinct (map (rt_Hostname \<circ> ar_Route) rs) \<and> distinct (map (rt_ID \<circ> ar_Route) rs)"
  by (induction rs) (auto simp: route_keys_def)

lemma NormalizeRoutes_iff:
  "NormalizeRoutes rs = Inr out \<longleftrightarrow> out = sort_key route_order rs \<and> (\<forall>a \<in> set rs. check_route a False = Inr ())
     \<and> distinct (map (rt_Hostname \<circ> ar_Route) rs) \<and> distinct (map (rt_ID \<circ> ar_Route) rs)"
proof -
  have u: "each_unique route_keys check_route xs [] = Inr () \<longleftrightarrow> (\<forall>a \<in> set xs. check_route a False = Inr ())
      \<and> distinct (map (rt_Hostname \<circ> ar_Route) xs) \<and> distinct (map (rt_ID \<circ> ar_Route) xs)" for xs
    by (subst each_unique_ok_iff) (auto simp: check_route_dup route_keys_distinct, simp add: route_keys_def)
  have d: "distinct (map f (sort_key route_order rs)) \<longleftrightarrow> distinct (map f rs)" for f :: "AppliedRoute \<Rightarrow> string"
    by (metis mset_map mset_sort mset_eq_imp_distinct_iff)
  show ?thesis by (auto simp: NormalizeRoutes_def Let_def bind_result_Inr_iff u d)
qed

lemma rendered_normal:
  assumes "RenderNginx rs opts = Inr conf"
  shows "NormalizeRoutes rs = Inr (sort_key route_order rs)"
proof -
  from assms obtain out where "NormalizeRoutes rs = Inr out" unfolding RenderNginx_def bind_result_Inr_iff by blast
  then show ?thesis by (simp add: NormalizeRoutes_iff)
qed

text \<open>
  The rendered configuration is a function of the set of routes: any order in which the routes
  are given yields the same text.
\<close>

theorem render_order_independent:
  assumes "mset rs = mset rs'" and "RenderNginx rs opts = Inr conf"
  shows "RenderNginx rs' opts = Inr conf"
proof -
  note out = rendered_normal [OF assms(2)]
  then have i: "distinct (map (rt_Hostname \<circ> ar_Route) rs)" by (simp add: NormalizeRoutes_iff)
  have "inj_on route_order (set rs)"
    using i by (auto simp: route_order_def distinct_map inj_on_def)
  then have "sort_key route_order rs = sort_key route_order rs'"
    using assms(1) by (intro sort_key_inj_key_eq) auto
  moreover have "set rs = set rs'" "distinct (map f rs) = distinct (map f rs')" for f :: "AppliedRoute \<Rightarrow> string"
    using assms(1) by (metis set_mset_mset, metis mset_map mset_eq_imp_distinct_iff)
  ultimately have "NormalizeRoutes rs' = Inr (sort_key route_order rs)"
    using out by (simp add: NormalizeRoutes_iff)
  then have "NormalizeRoutes rs' = NormalizeRoutes rs" using out by simp
  with assms(2) show ?thesis unfolding RenderNginx_def by (simp only:)
qed

section \<open>Paths\<close>

definition clean_path :: "string \<Rightarrow> bool" where
  "clean_path p = (IsAbs p \<and> filepath_Clean p = p)"

definition plain_name :: "string \<Rightarrow> bool" where
  "plain_name c = (c \<noteq> [] \<and> c \<noteq> ''.'' \<and> c \<noteq> ''..'' \<and> CHR ''/'' \<notin> set c)"

lemma split_on_glue: "split_on d (x @ d # y) = split_on d x @ split_on d y"
  by (induction x) (auto split: list.splits)

lemma join_with_snoc: "join_with d (xs @ [c]) = (if xs = [] then c else join_with d xs @ d @ c)"
proof (induction xs)
  case (Cons x xs)
  then show ?case by (cases xs) auto
qed simp

lemma clean_elems_snoc: "plain_name c \<Longrightarrow> clean_elems b (xs @ [c]) = clean_elems b xs @ [c]"
  by (simp add: clean_elems_def clean_step_def plain_name_def)

definition abs_elems :: "string \<Rightarrow> string list" where
  "abs_elems p = clean_elems True (split_on (CHR ''/'') p)"

lemma Clean_glue:
  assumes "IsAbs p" and "plain_name c"
  shows "abs_elems (p @ ''/'' @ c) = abs_elems p @ [c]"
    and "filepath_Clean (p @ ''/'' @ c) = CHR ''/'' # join_with ''/'' (abs_elems p @ [c])"
proof -
  have "split_on (CHR ''/'') c = [c]" using assms(2) by (intro split_on_single) (simp add: plain_name_def)
  then show e: "abs_elems (p @ ''/'' @ c) = abs_elems p @ [c]"
    using assms(2) by (simp add: abs_elems_def split_on_glue clean_elems_snoc)
  have "IsAbs (p @ ''/'' @ c)" using assms(1) by (auto simp: IsAbs_def has_prefix_iff)
  then show "filepath_Clean (p @ ''/'' @ c) = CHR ''/'' # join_with ''/'' (abs_elems p @ [c])"
    using e by (simp add: filepath_Clean_def Let_def abs_elems_def)
qed

lemma clean_path_eq: "clean_path p \<Longrightarrow> p = CHR ''/'' # join_with ''/'' (abs_elems p)"
  by (auto simp: clean_path_def filepath_Clean_def Let_def abs_elems_def)

definition slashed :: "string \<Rightarrow> string" where
  "slashed p = (if abs_elems p = [] then ''/'' else p @ ''/'')"

lemma Join_plain:
  assumes "clean_path p" and "plain_name c"
  shows "filepath_Join [p, c] = slashed p @ c" and "clean_path (slashed p @ c)"
    and "slashed (slashed p @ c) = (slashed p @ c) @ ''/''"
proof -
  have a: "IsAbs p" using assms(1) by (simp add: clean_path_def)
  have j: "CHR ''/'' # join_with ''/'' (abs_elems p @ [c]) = slashed p @ c"
    using clean_path_eq [OF assms(1)] by (auto simp: slashed_def join_with_snoc)
  have "p \<noteq> []" using a by (auto simp: IsAbs_def has_prefix_iff)
  then show "filepath_Join [p, c] = slashed p @ c"
    using Clean_glue(2) [OF a assms(2)] j by (simp add: filepath_Join_def)
  have ab: "IsAbs (slashed p @ c)" using a by (auto simp: slashed_def IsAbs_def has_prefix_iff)
  have e: "abs_elems (slashed p @ c) = abs_elems p @ [c]"
  proof (cases "abs_elems p = []")
    case True
    with Clean_glue(1) [of "''/''" c] assms(2) show ?thesis
      by (simp add: slashed_def abs_elems_def clean_elems_def clean_step_def split_on_single plain_name_def)
  next
    case False
    with Clean_glue(1) [OF a assms(2)] show ?thesis by (simp add: slashed_def)
  qed
  show "clean_path (slashed p @ c)"
    using ab e j by (simp add: clean_path_def filepath_Clean_def Let_def abs_elems_def)
  show "slashed (slashed p @ c) = (slashed p @ c) @ ''/''"
    using e by (simp add: slashed_def [of "slashed p @ c"])
qed

lemma Join_plain2:
  assumes "clean_path p" "plain_name c" "plain_name f"
  shows "filepath_Join [filepath_Join [p, c], f] = slashed p @ c @ ''/'' @ f"
  using Join_plain [OF assms(1,2)] Join_plain(1) [OF _ assms(3)] by simp

section \<open>Structure\<close>

definition syntax_char :: "char \<Rightarrow> bool" where
  "syntax_char c = (c \<in> set (''{};#$ '' @ [CHR 0x22, CHR 0x27, CHR 0x5C, CHR 0x0A, CHR 0x0D, CHR 0x09]))"

definition inert :: "string \<Rightarrow> bool" where
  "inert s = (\<forall>c \<in> set s. \<not> syntax_char c)"

lemma inert_filter: "inert s \<Longrightarrow> filter syntax_char s = []"
  by (simp add: inert_def filter_empty_conv)

lemma identity_char_inert: "identity_char c \<Longrightarrow> \<not> syntax_char c"
  by (auto simp: identity_char_def is_lower_def is_digit_def syntax_char_def less_eq_char_def)

lemma hex_char_inert: "is_hex c \<Longrightarrow> \<not> syntax_char c"
  by (auto simp: is_hex_def is_hex_lower_def is_digit_def syntax_char_def less_eq_char_def)

lemma dot_colon_inert: "\<not> syntax_char (CHR ''.'')" "\<not> syntax_char (CHR '':'')"
  by (simp_all add: syntax_char_def)

lemma checked_route:
  assumes "check_route a False = Inr ()"
  shows "dns_name (rt_Hostname (ar_Route a))"
    and "rt_UpstreamProtocol (ar_Route a) \<in> {''http'', ''https''}"
    and "has_certificate a \<Longrightarrow> certificatePattern (rt_CertificateID (ar_Route a))"
    and "ParseIP (be_Address (ar_Backend a)) \<noteq> None"
    and "1 \<le> be_Port (ar_Backend a)" and "be_Port (ar_Backend a) \<le> 65535"
    and "\<exists>ip. ParseIP (be_Address (ar_Backend a)) = Some ip \<and> IsLoopback ip"
    and "rt_ExposureMode (ar_Route a) \<in> {IngressLAN, ManagedHTTPS, CloudflareTunnel}"
    and "rt_TLSPolicy (ar_Route a) \<in> {TLSNone, TLSProvided, TLSACME, TLSCloudflare}"
proof -
  let ?r = "ar_Route a"
  have v: "ValidateRoute ?r [IngressLAN, ManagedHTTPS, CloudflareTunnel] True = Inr ()" and b: "ValidateBackend (ar_Backend a) = Inr ()"
    using assms by (simp_all add: check_route_def)
  from v have "NormalizeHostname (rt_Hostname ?r) = Inr (rt_Hostname ?r)"
    and up: "rt_UpstreamProtocol ?r = ''http'' \<or> rt_UpstreamProtocol ?r = ''https''"
    and mo: "rt_ExposureMode ?r = IngressLAN \<or> rt_ExposureMode ?r = ManagedHTTPS \<or> rt_ExposureMode ?r = CloudflareTunnel"
    and pc: "policy_check ?r True = Inr ()"
    and ce: "(if rt_TLSPolicy ?r = TLSProvided \<or> rt_TLSPolicy ?r = TLSACME
       then guard (\<not> certificatePattern (rt_CertificateID ?r)) ''certificate is required''
       else guard (rt_CertificateID ?r \<noteq> []) ''certificate is not allowed'') = Inr ()"
    by (auto simp: ValidateRoute_def)
  then show "dns_name (rt_Hostname ?r)" by (simp add: NormalizeHostname_iff)
  show "rt_UpstreamProtocol ?r \<in> {''http'', ''https''}" using up by simp
  show "has_certificate a \<Longrightarrow> certificatePattern (rt_CertificateID ?r)"
    using ce by (simp add: has_certificate_def)
  show "ParseIP (be_Address (ar_Backend a)) \<noteq> None" "1 \<le> be_Port (ar_Backend a)" "be_Port (ar_Backend a) \<le> 65535"
    "\<exists>ip. ParseIP (be_Address (ar_Backend a)) = Some ip \<and> IsLoopback ip"
    using b by (auto simp: ValidateBackend_def split: option.splits)
  show "rt_ExposureMode ?r \<in> {IngressLAN, ManagedHTTPS, CloudflareTunnel}" using mo by simp
  show "rt_TLSPolicy ?r \<in> {TLSNone, TLSProvided, TLSACME, TLSCloudflare}"
    using pc by (auto simp: policy_check_def split: if_splits)
qed

lemma prefix_rep_chars: "match_prefix_rep p P n s \<Longrightarrow> c \<in> set s \<Longrightarrow> c \<in> set p \<or> P c"
  by (auto simp: match_prefix_rep_def has_prefix_iff list_all_iff)

lemma certificate_inert:
  assumes "certificatePattern c"
  shows "inert c" and "plain_name c"
proof -
  have ch: "identity_char x" if "x \<in> set c" for x
    using prefix_rep_chars [OF assms [unfolded certificatePattern_def] that]
    by (auto simp: identity_char_def is_lower_def is_digit_def is_hex_lower_def less_eq_char_def)
  then show "inert c" using identity_char_inert by (auto simp: inert_def)
  have "\<not> identity_char (CHR ''/'')" by (simp add: identity_char_def is_lower_def is_digit_def less_eq_char_def)
  then have "CHR ''/'' \<notin> set c" using ch by blast
  moreover have "5 < length c" using assms by (simp add: certificatePattern_def match_prefix_rep_def)
  ultimately show "plain_name c" by (auto simp: plain_name_def)
qed

lemma hostname_inert: "dns_name h \<Longrightarrow> inert h"
  using dns_name_chars identity_char_inert dot_colon_inert by (auto simp: inert_def list_all_iff hostname_char_def)

lemma address_inert: "ParseIP s \<noteq> None \<Longrightarrow> inert s"
  using ParseIP_chars hex_char_inert dot_colon_inert by (fastforce simp: inert_def list_all_iff addr_char_def)

lemma nat_digits_inert: "inert (nat_digits n)"
  using nat_digits_only identity_char_inert by (auto simp: inert_def identity_char_def)

lemma port_inert: "0 \<le> p \<Longrightarrow> inert (itoa p)"
  by (simp add: itoa_def nat_digits_inert)

definition shape :: "AppliedRoute \<Rightarrow> string \<times> string" where
  "shape a = (rt_ExposureMode (ar_Route a), rt_TLSPolicy (ar_Route a))"

lemma shape_same:
  assumes "shape a = shape b"
  shows "redirects a = redirects b" "has_certificate a = has_certificate b" "is_cloudflare a = is_cloudflare b"
    "route_listen a = route_listen b"
  using assms by (simp_all add: shape_def redirects_def has_certificate_def is_cloudflare_def route_listen_def)

lemmas spread = unlines_def list.map concat.simps filter_append append_assoc filter.simps(1) append_Nil append_Nil2

lemma redirect_structure:
  assumes "inert (rt_Hostname (ar_Route a))" "inert (rt_Hostname (ar_Route b))"
  shows "filter syntax_char (render_redirect a) = filter syntax_char (render_redirect b)"
  unfolding render_redirect_def by (simp only: spread inert_filter [OF assms(1)] inert_filter [OF assms(2)])

lemma certificate_structure:
  assumes "clean_path root" "certificatePattern (rt_CertificateID (ar_Route a))" "certificatePattern (rt_CertificateID (ar_Route b))"
  shows "filter syntax_char (render_certificate root a) = filter syntax_char (render_certificate root b)"
proof -
  have p: "plain_name ''fullchain.pem''" "plain_name ''privkey.pem''" by (simp_all add: plain_name_def)
  note a = certificate_inert [OF assms(2)] and b = certificate_inert [OF assms(3)]
  show ?thesis
    unfolding render_certificate_def Let_def
    by (simp only: spread Join_plain2 [OF assms(1) a(2) p(1)] Join_plain2 [OF assms(1) a(2) p(2)]
        Join_plain2 [OF assms(1) b(2) p(1)] Join_plain2 [OF assms(1) b(2) p(2)] inert_filter [OF a(1)] inert_filter [OF b(1)])
qed

lemma upstream_inert: "s \<in> {''http'', ''https''} \<Longrightarrow> inert s"
  by (auto simp: inert_def syntax_char_def)

lemma route_structure:
  assumes root: "clean_path root" and s: "shape a = shape b"
    and a: "check_route a False = Inr ()" and b: "check_route b False = Inr ()"
  shows "filter syntax_char (render_route root a) = filter syntax_char (render_route root b)"
proof -
  note inert = checked_route(1) [THEN hostname_inert] checked_route(2) [THEN upstream_inert]
    checked_route(4) [THEN address_inert]
  have pa: "inert (itoa (be_Port (ar_Backend a)))" and pb: "inert (itoa (be_Port (ar_Backend b)))"
    using checked_route(5) [OF a] checked_route(5) [OF b] by (simp_all add: port_inert)
  have r: "filter syntax_char (if redirects a then render_redirect a else []) =
      filter syntax_char (if redirects b then render_redirect b else [])"
    using redirect_structure [OF inert(1) [OF a] inert(1) [OF b]] by (simp only: shape_same [OF s] split: if_split) simp
  have c: "filter syntax_char (if has_certificate a then render_certificate root a else []) =
      filter syntax_char (if has_certificate b then render_certificate root b else [])"
    using certificate_structure [OF root checked_route(3) [OF a] checked_route(3) [OF b]]
    by (simp add: shape_same [OF s])
  show ?thesis
    unfolding render_route_def
    by (simp only: filter_append r c) (simp only: spread shape_same [OF s] inert [OF a, THEN inert_filter] inert [OF b, THEN inert_filter]
        inert_filter [OF pa] inert_filter [OF pb])
qed

lemma routes_structure:
  assumes "clean_path root" "map shape as = map shape bs"
    and "\<forall>a \<in> set as. check_route a False = Inr ()" "\<forall>b \<in> set bs. check_route b False = Inr ()"
  shows "filter syntax_char (concat (map (render_route root) as)) = filter syntax_char (concat (map (render_route root) bs))"
proof -
  have "list_all2 (\<lambda>a b. shape a = shape b) as bs"
    using assms(2) by (simp add: list_all2_map1 list_all2_map2 flip: list.rel_eq)
  from this assms(3,4) show ?thesis
  proof (induction rule: list_all2_induct)
    case (Cons a as b bs)
    then have "filter syntax_char (render_route root a) = filter syntax_char (render_route root b)"
      by (intro route_structure [OF assms(1)]) simp_all
    with Cons show ?case by simp
  qed simp
qed

lemma rendered:
  assumes "RenderNginx rs opts = Inr conf" and "NormalizeRoutes rs = Inr out"
  shows "conf = render_head (ro_WorkerUser (with_defaults opts)) @ render_cloudflare_default out
     @ concat (map (render_route (ro_CertificateRoot (with_defaults opts))) out) @ unlines [''}'']"
  using assms by (simp only: RenderNginx_def bind_result_simps Let_def sum.inject sum.distinct split: if_split_asm)

text \<open>
  C36. No injection: the characters that structure an nginx configuration (braces, semicolons, quotes,
  variables, comments, white space) are fixed by the exposure modes and TLS policies of the
  routes in their order; hostnames, backends, ports and certificates contribute none.
\<close>

theorem render_structure:
  assumes a: "RenderNginx as opts = Inr conf" and b: "RenderNginx bs opts = Inr conf'"
    and s: "map shape (sort_key route_order as) = map shape (sort_key route_order bs)"
  shows "filter syntax_char conf = filter syntax_char conf'"
proof -
  let ?as = "sort_key route_order as" and ?bs = "sort_key route_order bs"
  let ?root = "ro_CertificateRoot (with_defaults opts)"
  have na: "NormalizeRoutes as = Inr ?as" and nb: "NormalizeRoutes bs = Inr ?bs"
    by (rule rendered_normal [OF a], rule rendered_normal [OF b])
  have root: "clean_path ?root"
    using a unfolding RenderNginx_def na bind_result_simps Let_def clean_path_def by (metis sum.distinct(1))
  have ca: "\<forall>x \<in> set ?as. check_route x False = Inr ()" and cb: "\<forall>x \<in> set ?bs. check_route x False = Inr ()"
    using na nb by (simp_all add: NormalizeRoutes_iff)
  have "list_ex is_cloudflare ?as = list_ex (\<lambda>m. fst m = CloudflareTunnel) (map shape ?as)"
    "list_ex is_cloudflare ?bs = list_ex (\<lambda>m. fst m = CloudflareTunnel) (map shape ?bs)"
    by (simp_all add: list_ex_iff is_cloudflare_def shape_def)
  then have "render_cloudflare_default ?as = render_cloudflare_default ?bs"
    using s by (simp add: render_cloudflare_default_def)
  then show ?thesis
    by (simp only: rendered [OF a na] rendered [OF b nb] filter_append routes_structure [OF root s ca cb])
qed

end
