(* ===== verification/Ingress_Run_Spec.thy ===== *)
theory Ingress_Run_Spec
  imports Ingress_Run Ingress_Spec
begin

text \<open>
  The staged application of an ingress configuration: the contract of a runtime as a locale, the
  outcome of an application proved from it, and the nginx runtime as an instance, with the
  frame lemmas of the file calls it issues. Then the choice of an unused generation.
\<close>

section \<open>Paths of the runtime\<close>

lemma path_elems_plain:
  assumes "clean_path p" "plain_name c"
  shows "path_elems (slashed p @ c) = path_elems p @ [c]"
proof -
  have s: "split_on (CHR ''/'') c = [c]" "c \<noteq> []" using assms(2) by (auto simp: plain_name_def split_on_single)
  show ?thesis
  proof (cases "abs_elems p = []")
    case True
    with clean_path_eq [OF assms(1)] have "p = ''/''" by simp
    with True s split_on_glue [of "CHR ''/''" "[]" c] show ?thesis
      by (simp add: slashed_def path_elems_def)
  next
    case False
    with s show ?thesis by (simp add: slashed_def path_elems_def split_on_glue)
  qed
qed

lemma path_elems_Join:
  "clean_path p \<Longrightarrow> plain_name c \<Longrightarrow> path_elems (filepath_Join [p, c]) = path_elems p @ [c]"
  by (simp add: Join_plain(1) path_elems_plain)

lemma Join_clean: "clean_path p \<Longrightarrow> plain_name c \<Longrightarrow> clean_path (filepath_Join [p, c])"
  by (simp add: Join_plain)

lemma Join_three:
  assumes "clean_path p" "plain_name a" "plain_name b"
  shows "filepath_Join [p, a, b] = filepath_Join [filepath_Join [p, a], b]"
proof -
  have ab: "IsAbs p" using assms(1) by (simp add: clean_path_def)
  then have "p \<noteq> []" and ab': "IsAbs (p @ ''/'' @ a)" by (auto simp: IsAbs_def has_prefix_iff)
  then have "filepath_Join [p, a, b] = filepath_Clean ((p @ ''/'' @ a) @ ''/'' @ b)"
    by (simp add: filepath_Join_def)
  also have "\<dots> = CHR ''/'' # join_with ''/'' ((abs_elems p @ [a]) @ [b])"
    using Clean_glue(2) [OF ab' assms(3)] Clean_glue(1) [OF ab assms(2)] by simp
  also have "\<dots> = slashed p @ a @ ''/'' @ b"
    unfolding join_with_snoc [of _ "abs_elems p @ [a]" b] join_with_snoc [of _ "abs_elems p" a]
    using clean_path_eq [OF assms(1)] by (auto simp: slashed_def)
  finally show ?thesis using Join_plain2 [OF assms] by simp
qed

lemma itoa_plain: "0 \<le> i \<Longrightarrow> plain_name (itoa i)"
proof -
  assume "0 \<le> i"
  then have i: "itoa i = nat_digits (nat i)" by (simp add: itoa_def)
  have "\<not> is_digit (CHR ''/'')" "\<not> is_digit (CHR ''.'')" by (simp_all add: is_digit_def less_eq_char_def)
  then show ?thesis using nat_digits_only [of _ "nat i"] nat_digits_not_Nil [of "nat i"]
    by (metis i list.set_intros(1) plain_name_def)
qed

section \<open>Frames\<close>

definition leaves :: "string list set \<Rightarrow> ('n host \<Rightarrow> 'a \<times> 'n host) \<Rightarrow> bool" where
  "leaves P m = (\<forall>h. \<forall>p \<in> P. fs_get (hs_fs (snd (m h))) p = fs_get (hs_fs h) p)"

lemma leavesD: "leaves P m \<Longrightarrow> m h = (r, h') \<Longrightarrow> p \<in> P \<Longrightarrow> fs_get (hs_fs h') p = fs_get (hs_fs h) p"
  unfolding leaves_def by (metis snd_conv)

lemma fs_get_put_other: "q \<noteq> p \<Longrightarrow> fs_get (fs_put p n fs) q = fs_get fs q"
  by (simp add: fs_get_def fs_put_def map_of_fs_del)

lemma fs_get_del_other: "q \<noteq> p \<Longrightarrow> fs_get (fs_del p fs) q = fs_get fs q"
  by (simp add: fs_get_def map_of_fs_del)

lemma next_fault_fs [simp]: "hs_fs (snd (next_fault h)) = hs_fs h"
  by (simp add: next_fault_def split: list.split)

lemma next_faultD: "next_fault h = (f, h') \<Longrightarrow> hs_fs h' = hs_fs h"
  using next_fault_fs [of h] by simp

named_theorems frames

lemma leaves_bind [frames]:
  assumes "leaves P m" and "\<And>x. leaves P (k x)"
  shows "leaves P (bind_host m k)"
  unfolding leaves_def bind_host_def
  using assms [unfolded leaves_def] by (auto split: prod.splits sum.splits) (metis snd_conv)+

lemma leaves_wrap [frames]: "leaves P m \<Longrightarrow> leaves P (wrap_host what m)"
  by (simp add: leaves_def wrap_host_def split: prod.splits) (metis snd_conv)

lemma leaves_restate [frames]: "leaves P m \<Longrightarrow> leaves P (restate what m)"
  by (auto simp: leaves_def restate_def split: prod.splits sum.splits) (metis snd_conv)+

lemma leaves_lift [frames]: "leaves P (lift_host r)"
  by (simp add: leaves_def lift_host_def)

lemma leaves_call:
  assumes "\<And>fs n p. p \<in> P \<Longrightarrow> fs_get (partial n fs) p = fs_get fs p"
    and "\<And>fs p. p \<in> P \<Longrightarrow> fs_get (snd (act fs)) p = fs_get fs p"
  shows "leaves P (os_call partial act)"
  unfolding leaves_def
proof (intro allI ballI)
  fix h p
  assume p: "p \<in> P"
  obtain f h1 where f: "next_fault h = (f, h1)" by fastforce
  then have h1: "hs_fs h1 = hs_fs h" using next_fault_fs [of h] by simp
  show "fs_get (hs_fs (snd (os_call partial act h))) p = fs_get (hs_fs h) p"
    using assms(1) [OF p] assms(2) [OF p] h1 by (auto simp: os_call_def f split: option.splits prod.splits) (metis snd_conv)
qed

lemma mkdirs_other: "p \<notin> set ps \<Longrightarrow> fs_get (snd (mkdirs ps fs)) p = fs_get fs p"
  by (induction ps fs rule: mkdirs.induct) (auto simp: fs_get_put_other split: option.splits fs_node.splits)

lemma mkdirs_existing: "fs_get fs p \<noteq> None \<Longrightarrow> fs_get (snd (mkdirs ps fs)) p = fs_get fs p"
proof (induction ps fs rule: mkdirs.induct)
  case (2 q ps fs)
  then show ?case by (cases "q = p") (auto simp: fs_get_put_other split: option.splits fs_node.splits)
qed simp

lemma leaves_mkdir:
  assumes "P \<inter> set (dir_chain (path_elems path)) = {}"
  shows "leaves P (os_MkdirAll path)"
  unfolding os_MkdirAll_def Let_def
  by (rule leaves_call) (use assms in \<open>auto intro!: mkdirs_other dest: in_set_takeD\<close>)

lemma leaves_call_at:
  assumes "\<And>fs n p. p \<notin> Q \<Longrightarrow> fs_get (partial n fs) p = fs_get fs p"
    and "\<And>fs p. p \<notin> Q \<Longrightarrow> fs_get (snd (act fs)) p = fs_get fs p" and "P \<inter> Q = {}"
  shows "leaves P (os_call partial act)"
  using assms by (intro leaves_call) blast+

lemma leaves_create [frames]: "path_elems path \<notin> P \<Longrightarrow> leaves P (os_CreateExcl path)"
  unfolding os_CreateExcl_def Let_def
  by (rule leaves_call_at [where Q = "{path_elems path}"]) (auto simp: fs_get_put_other)

lemma leaves_write [frames]: "path_elems path \<notin> P \<Longrightarrow> leaves P (file_Write path text)"
  unfolding file_Write_def Let_def
  by (rule leaves_call_at [where Q = "{path_elems path}"]) (auto simp: fs_get_put_other)

lemma leaves_writefile [frames]: "path_elems path \<notin> P \<Longrightarrow> leaves P (os_WriteFile path text)"
  unfolding os_WriteFile_def Let_def
  by (rule leaves_call_at [where Q = "{path_elems path}"]) (auto simp: fs_get_put_other split: nat.splits)

lemma leaves_remove [frames]: "path_elems path \<notin> P \<Longrightarrow> leaves P (os_Remove path)"
  unfolding os_Remove_def Let_def
  by (rule leaves_call_at [where Q = "{path_elems path}"]) (auto simp: fs_get_del_other split: option.splits)

lemma leaves_symlink [frames]: "path_elems path \<notin> P \<Longrightarrow> leaves P (os_Symlink target path)"
  unfolding os_Symlink_def Let_def
  by (rule leaves_call_at [where Q = "{path_elems path}"]) (auto simp: fs_get_put_other)

lemma leaves_sync [frames]: "leaves P file_Sync" "leaves P file_Close" "leaves P (os_Open path)"
  unfolding file_Sync_def file_Close_def os_Open_def by (rule leaves_call; simp)+

lemma leaves_rename [frames]: "path_elems old \<notin> P \<Longrightarrow> path_elems new \<notin> P \<Longrightarrow> leaves P (os_Rename old new)"
  unfolding os_Rename_def Let_def
  by (rule leaves_call_at [where Q = "{path_elems old, path_elems new}"])
     (auto simp: fs_get_put_other fs_get_del_other split: option.splits)

lemma leaves_read [frames]: "leaves P (os_ReadFile path)" "leaves P (EvalSymlinks path)" "leaves P (os_ReadDir path)"
  unfolding leaves_def os_ReadFile_def EvalSymlinks_def os_ReadDir_def
  by (auto split: prod.splits option.splits dest: next_faultD)

section \<open>What the host serves\<close>

definition current_path :: "string \<Rightarrow> string list" where
  "current_path root = path_elems root @ [''current'']"

definition config_path :: "string \<Rightarrow> int \<Rightarrow> string list" where
  "config_path root g = path_elems root @ [''generations'', itoa g, ''nginx.conf'']"

definition current_link :: "string \<Rightarrow> 'n host \<Rightarrow> string option" where
  "current_link root h = (case fs_get (hs_fs h) (current_path root) of Some (FsLink t) \<Rightarrow> Some t | _ \<Rightarrow> None)"

definition config_at :: "string \<Rightarrow> int \<Rightarrow> 'n host \<Rightarrow> string option" where
  "config_at root g h = (case fs_get (hs_fs h) (config_path root g) of Some (FsFile t) \<Rightarrow> Some t | _ \<Rightarrow> None)"

definition gen_target :: "string \<Rightarrow> int \<Rightarrow> string" where
  "gen_target root g = (if g = 0 then filepath_Join [root, ''bootstrap''] else filepath_Join [root, ''generations'', itoa g])"

section \<open>The interface\<close>

locale ingress_runtime =
  fixes rt :: "'w IngressRuntime" and current :: "'w \<Rightarrow> 't option" and target :: "int \<Rightarrow> 't"
    and config :: "int \<Rightarrow> 'w \<Rightarrow> string option"
  assumes prepare: "ig_Prepare rt c w = (r, w') \<Longrightarrow> 1 \<le> cd_Generation c \<Longrightarrow> current w' = current w
      \<and> (\<forall>g. 1 \<le> g \<and> g \<noteq> cd_Generation c \<longrightarrow> config g w' = config g w)
      \<and> (r = Inr () \<longrightarrow> config (cd_Generation c) w = None \<and> config (cd_Generation c) w' = Some (cd_Configuration c))"
    and validate: "ig_Validate rt c w = (r, w') \<Longrightarrow> current w' = current w \<and> (\<forall>g \<ge> 1. config g w' = config g w)"
    and activate: "ig_Activate rt c w = (r, w') \<Longrightarrow> (\<forall>g \<ge> 1. config g w' = config g w)
      \<and> (r = Inr () \<longrightarrow> current w' = Some (target (cd_Generation c)))"
    and verify: "ig_Verify rt c w = (r, w') \<Longrightarrow> current w' = current w \<and> (\<forall>g \<ge> 1. config g w' = config g w)"
    and rollback: "ig_Rollback rt c w = (r, w') \<Longrightarrow> (\<forall>g \<ge> 1. config g w' = config g w)
      \<and> (r = Inr () \<longrightarrow> current w' = Some (target (cd_PreviousGeneration c)))"
    and verify_generation: "ig_VerifyGeneration rt i w = (r, w') \<Longrightarrow> current w' = current w \<and> (\<forall>g \<ge> 1. config g w' = config g w)"
    and cleanup: "ig_Cleanup rt c w = (r, w') \<Longrightarrow> w' = w \<and> (0 \<le> cd_PreviousGeneration c \<longrightarrow> r = Inr ())"
begin

definition same_configs :: "'w \<Rightarrow> 'w \<Rightarrow> bool" where
  "same_configs w w' = (\<forall>g \<ge> 1. config g w' = config g w)"

lemma rolled_back:
  assumes "rollback_candidate rt c code cause w = (e, w')" and "code \<notin> {''rollback_failed'', ''rollback_unverified''}"
  shows "same_configs w w' \<and> (if ae_RecoveryNow e then ae_Code e \<in> {''rollback_failed'', ''rollback_unverified''}
    else ae_RolledBack e \<and> ae_Code e = code \<and> ae_Cause e = cause \<and> current w' = Some (target (cd_PreviousGeneration c))
      \<and> (0 < cd_PreviousGeneration c \<longrightarrow> (\<exists>w1. ig_VerifyGeneration rt (cd_PreviousGeneration c) w1 = (Inr (), w'))))"
proof -
  obtain r1 w1 where 1: "ig_Rollback rt c w = (r1, w1)" by fastforce
  have k1: "same_configs w w1" and c1: "r1 = Inr () \<Longrightarrow> current w1 = Some (target (cd_PreviousGeneration c))"
    using rollback [OF 1] by (auto simp: same_configs_def)
  show ?thesis
  proof (cases "r1 = Inr () \<and> 0 < cd_PreviousGeneration c")
    case True
    obtain r2 w2 where 2: "ig_VerifyGeneration rt (cd_PreviousGeneration c) w1 = (r2, w2)" by fastforce
    from verify_generation [OF 2] have "same_configs w w2" "current w2 = current w1"
      using k1 by (auto simp: same_configs_def)
    with assms 1 2 True c1 show ?thesis
      by (cases r2) (auto simp: rollback_candidate_def on_step_def recovery_error_def)
  next
    case False
    with assms 1 k1 c1 show ?thesis
      by (cases r1) (auto simp: rollback_candidate_def on_step_def recovery_error_def)
  qed
qed

lemma run_candidate_outcome:
  assumes run: "run_candidate rt c w = (e, w')" and g: "1 \<le> cd_Generation c" "0 \<le> cd_PreviousGeneration c"
  shows "(\<forall>g. 1 \<le> g \<and> g \<noteq> cd_Generation c \<longrightarrow> config g w' = config g w)
    \<and> (case e of
        None \<Rightarrow> current w' = Some (target (cd_Generation c)) \<and> config (cd_Generation c) w = None
          \<and> config (cd_Generation c) w' = Some (cd_Configuration c)
          \<and> (\<exists>w1. ig_Verify rt c w1 = (Inr (), w'))
      | Some err \<Rightarrow>
          if ae_RecoveryNow err then ae_Code err \<in> {''rollback_failed'', ''rollback_unverified''}
          else if ae_RolledBack err then ae_Code err \<in> {''activation_failed'', ''verification_failed''}
            \<and> current w' = Some (target (cd_PreviousGeneration c))
            \<and> (0 < cd_PreviousGeneration c \<longrightarrow> (\<exists>w1. ig_VerifyGeneration rt (cd_PreviousGeneration c) w1 = (Inr (), w')))
          else ae_Code err \<in> {''prepare_failed'', ''validation_failed''} \<and> current w' = current w)"
proof -
  obtain r1 w1 where s1: "ig_Prepare rt c w = (r1, w1)" by fastforce
  obtain r2 w2 where s2: "ig_Validate rt c w1 = (r2, w2)" by fastforce
  obtain r3 w3 where s3: "ig_Activate rt c w2 = (r3, w3)" by fastforce
  obtain r4 w4 where s4: "ig_Verify rt c w3 = (r4, w4)" by fastforce
  obtain r5 w5 where s5: "ig_Cleanup rt c w4 = (r5, w5)" by fastforce
  note p = prepare [OF s1 g(1)] and v = validate [OF s2] and a = activate [OF s3] and y = verify [OF s4] and z = cleanup [OF s5]
  note eqs = run_candidate_def on_step_def plain_error_def s1 s2 s3 s4 s5
  consider "\<exists>x. r1 = Inl x" | "r1 = Inr ()" "\<exists>x. r2 = Inl x"
    | "r1 = Inr ()" "r2 = Inr ()" "\<exists>x. r3 = Inl x"
    | "r1 = Inr ()" "r2 = Inr ()" "r3 = Inr ()" "\<exists>x. r4 = Inl x"
    | "r1 = Inr ()" "r2 = Inr ()" "r3 = Inr ()" "r4 = Inr ()"
    by (cases r1; cases r2; cases r3; cases r4) auto
  then show ?thesis
  proof cases
    case 1
    with run p show ?thesis by (auto simp: eqs)
  next
    case 2
    with run p v show ?thesis by (auto simp: eqs)
  next
    case 3
    then obtain x where x: "r3 = Inl x" by blast
    obtain err w6 where r: "rollback_candidate rt c ''activation_failed'' x w3 = (err, w6)" by fastforce
    with run 3 x have "e = Some err" "w' = w6" by (auto simp: eqs)
    with rolled_back [OF r] p v a show ?thesis by (auto simp: same_configs_def)
  next
    case 4
    then obtain x where x: "r4 = Inl x" by blast
    obtain err w6 where r: "rollback_candidate rt c ''verification_failed'' x w4 = (err, w6)" by fastforce
    with run 4 x have "e = Some err" "w' = w6" by (auto simp: eqs)
    with rolled_back [OF r] p v a y show ?thesis by (auto simp: same_configs_def)
  next
    case 5
    with z g have "r5 = Inr ()" "w5 = w4" by auto
    with run 5 have "e = None" "w' = w4" by (auto simp: eqs)
    moreover have "ig_Verify rt c w3 = (Inr (), w4)" using s4 5 by simp
    ultimately show ?thesis using 5 p v a y g by auto
  qed
qed

lemma Apply_outcome:
  assumes ran: "Apply (Some rt) generation previous conf w = ((c, e), w')"
  shows "(\<forall>g. 1 \<le> g \<and> g \<noteq> generation \<longrightarrow> config g w' = config g w)
    \<and> (case e of
        None \<Rightarrow> current w' = Some (target generation) \<and> config generation w = None
          \<and> config generation w' = Some conf \<and> cd_SHA256 c = sha256_hex conf
          \<and> (\<exists>w1. ig_Verify rt c w1 = (Inr (), w'))
      | Some err \<Rightarrow>
          if ae_RecoveryNow err then ae_Code err \<in> {''rollback_failed'', ''rollback_unverified''}
          else if ae_RolledBack err then ae_Code err \<in> {''activation_failed'', ''verification_failed''}
            \<and> current w' = Some (target previous)
            \<and> (0 < previous \<longrightarrow> (\<exists>w1. ig_VerifyGeneration rt previous w1 = (Inr (), w')))
          else ae_Code err \<in> {''invalid_candidate'', ''prepare_failed'', ''validation_failed''} \<and> current w' = current w)"
proof (cases "generation < 1 \<or> previous < 0 \<or> generation = previous \<or> conf = [] \<or> 1024 * 1024 < length conf")
  case True
  with ran have "e = Some (plain_error ''invalid_candidate'' (Errorf ''invalid ingress candidate''))" "w' = w"
    by (simp_all only: Apply_def option.case if_True prod.inject)
  then show ?thesis by (simp add: plain_error_def)
next
  case False
  let ?c = "candidate_of generation previous conf"
  obtain e1 w1 where run: "run_candidate rt ?c w = (e1, w1)" by fastforce
  from False have n: "(generation < 1 \<or> previous < 0 \<or> generation = previous \<or> conf = [] \<or> 1024 * 1024 < length conf) = False" by blast
  from ran have c: "c = ?c" "e1 = e" "w1 = w'"
    by (simp_all only: Apply_def option.case n if_False run apfst_conv prod.inject)
  have f: "cd_Generation ?c = generation" "cd_PreviousGeneration ?c = previous" "cd_Configuration ?c = conf" "cd_SHA256 ?c = sha256_hex conf"
    by (simp_all add: candidate_of_def)
  note o = run_candidate_outcome [OF run, unfolded f c]
  show ?thesis
  proof (cases e)
    case None
    with o False show ?thesis by (simp add: c f)
  next
    case (Some err)
    with o False show ?thesis by (cases "ae_RecoveryNow err"; cases "ae_RolledBack err") (simp_all add: Some)
  qed
qed

end

section \<open>The nginx runtime\<close>

definition tree :: "string \<Rightarrow> string list set" where
  "tree root = {p. \<exists>q. p = path_elems root @ q}"

lemma bind_host_Inr: "bind_host m k h = (Inr y, h') \<longleftrightarrow> (\<exists>x h1. m h = (Inr x, h1) \<and> k x h1 = (Inr y, h'))"
  by (auto simp: bind_host_def split: prod.splits sum.splits)

lemma wrap_host_Inr: "wrap_host what m h = (Inr x, h') \<longleftrightarrow> m h = (Inr x, h')"
  by (auto simp: wrap_host_def split: prod.splits)

lemma lift_host_Inr: "lift_host r h = (Inr x, h') \<longleftrightarrow> r = Inr x \<and> h' = h"
  by (auto simp: lift_host_def)

lemma bind_lift [simp]: "bind_host (lift_host (Inr x)) k = k x" "bind_host (lift_host (Inl e)) k = lift_host (Inl e)"
  by (simp_all add: fun_eq_iff bind_host_def lift_host_def)

lemmas host_Inr = bind_host_Inr wrap_host_Inr lift_host_Inr

lemma in_dir_chain:
  assumes "r @ q \<in> set (dir_chain (r @ p))"
  shows "q = take (length q) p"
proof -
  from assms obtain k where "r @ q = take k (r @ p)" by (auto simp: dir_chain_def)
  then have "q = drop (length r) (take k (r @ p))" by (metis append_eq_conv_conj)
  then have "q = take (k - length r) (drop (length r) (r @ p))" unfolding drop_take .
  then show ?thesis by (simp add: min_def)
qed

lemma create_ok: "os_CreateExcl path h = (Inr u, h') \<Longrightarrow> fs_get (hs_fs h) (path_elems path) = None"
  by (auto simp: os_CreateExcl_def os_call_def Let_def split: prod.splits option.splits if_splits dest!: next_faultD)

lemma write_ok: "file_Write path text h = (Inr u, h') \<Longrightarrow> path_elems path \<noteq> [] \<Longrightarrow>
    fs_get (hs_fs h') (path_elems path) = Some (FsFile text)"
  by (auto simp: file_Write_def os_call_def Let_def split: prod.splits option.splits)

lemma symlink_ok: "os_Symlink target path h = (Inr u, h') \<Longrightarrow> path_elems path \<noteq> [] \<Longrightarrow>
    fs_get (hs_fs h') (path_elems path) = Some (FsLink target)"
  by (auto simp: os_Symlink_def os_call_def Let_def split: prod.splits option.splits if_splits)

lemma rename_ok: "os_Rename old new h = (Inr u, h') \<Longrightarrow> path_elems new \<noteq> [] \<Longrightarrow>
    fs_get (hs_fs h') (path_elems new) = fs_get (hs_fs h) (path_elems old)"
  by (auto simp: os_Rename_def os_call_def Let_def split: prod.splits option.splits if_splits dest!: next_faultD)

lemma leaves_syncDirectory [frames]: "leaves P (syncDirectory path)"
  unfolding syncDirectory_def by (intro frames)

lemma leaves_snd: "leaves P m \<Longrightarrow> p \<in> P \<Longrightarrow> fs_get (hs_fs (snd (m h))) p = fs_get (hs_fs h) p"
  by (simp add: leaves_def)

lemma leaves_stale [frames]: "path_elems path \<notin> P \<Longrightarrow> leaves P (remove_stale path)"
  unfolding leaves_def remove_stale_def by (auto split: prod.splits dest: leavesD [OF leaves_remove])

lemma leaves_rename_or_remove [frames]:
  assumes "path_elems old \<notin> P" "path_elems new \<notin> P"
  shows "leaves P (rename_or_remove what old new)"
  unfolding leaves_def
proof (intro allI ballI)
  fix h p
  assume p: "p \<in> P"
  obtain r h1 where 1: "os_Rename old new h = (r, h1)" by fastforce
  have "fs_get (hs_fs (snd (os_Remove old h1))) p = fs_get (hs_fs h1) p"
    by (rule leaves_snd [OF leaves_remove [OF assms(1)] p])
  with leavesD [OF leaves_rename [OF assms] 1 p]
  show "fs_get (hs_fs (snd (rename_or_remove what old new h))) p = fs_get (hs_fs h) p"
    by (cases r) (auto simp: rename_or_remove_def 1)
qed

lemma leaves_config [frames]: "path_elems path \<notin> P \<Longrightarrow> leaves P (write_config path text)"
proof -
  assume "path_elems path \<notin> P"
  then have a: "leaves P (bind_host (file_Write path text) (\<lambda>_. file_Sync))" by (intro frames)
  show ?thesis
    unfolding leaves_def write_config_def
    by (auto split: prod.splits dest!: leavesD [OF a] leavesD [OF leaves_sync(2)])
qed

lemma write_config_ok:
  assumes "write_config path text h = (Inr u, h')" "path_elems path \<noteq> []"
  shows "fs_get (hs_fs h') (path_elems path) = Some (FsFile text)"
proof -
  obtain r1 h1 where 1: "bind_host (file_Write path text) (\<lambda>_. file_Sync) h = (r1, h1)" by fastforce
  obtain r2 h2 where 2: "file_Close h1 = (r2, h2)" by fastforce
  from assms(1) 1 2 have "r1 = Inr ()" "h' = h2" by (auto simp: write_config_def bind_result_Inr_iff)
  with 1 obtain v h3 where 3: "file_Write path text h = (Inr v, h3)" "file_Sync h3 = (Inr (), h1)"
    by (auto simp: bind_host_Inr)
  note k = leavesD [OF leaves_sync(1) 3(2), of _ UNIV] leavesD [OF leaves_sync(2) 2, of _ UNIV]
  from write_ok [OF 3(1) assms(2)] k \<open>h' = h2\<close> show ?thesis by simp
qed

locale quiet_nginx =
  fixes n :: "'n NginxRuntime"
  assumes valid: "nginx_validate n = Inr ()" and rooted: "nr_Root n \<noteq> []"
    and quiet_check: "leaves (tree (nr_Root n)) (call_check n t g)"
    and quiet_reload: "leaves (tree (nr_Root n)) (nginx_reload n)"
    and quiet_process: "leaves (tree (nr_Root n)) (call_process n)"
begin

lemma root_clean: "clean_path (nr_Root n)"
  using valid rooted by (auto simp: nginx_validate_def clean_path_def Let_def split: if_splits)

lemma plain_names [simp]: "plain_name ''current''" "plain_name ''.current-new''" "plain_name ''generations''"
  "plain_name ''bootstrap''" "plain_name ''run''" "plain_name ''logs''" "plain_name ''nginx.conf''"
  by (simp_all add: plain_name_def)

lemma generation_path: "generationPath n g = (if g < 1 then Inl (Errorf ''invalid ingress generation'') else Inr (gen_target (nr_Root n) g))"
  by (simp add: generationPath_def valid gen_target_def)

lemma target_clean: "1 \<le> g \<Longrightarrow> clean_path (gen_target (nr_Root n) g)"
  by (simp add: gen_target_def Join_three root_clean itoa_plain Join_clean)

lemma target_elems: "1 \<le> g \<Longrightarrow> path_elems (gen_target (nr_Root n) g) = path_elems (nr_Root n) @ [''generations'', itoa g]"
  by (simp add: gen_target_def Join_three root_clean itoa_plain Join_clean path_elems_Join)

lemma config_elems: "1 \<le> g \<Longrightarrow> path_elems (filepath_Join [gen_target (nr_Root n) g, ''nginx.conf'']) = config_path (nr_Root n) g"
  by (simp add: path_elems_Join target_clean target_elems config_path_def)

lemma link_elems: "path_elems (filepath_Join [nr_Root n, ''current'']) = current_path (nr_Root n)"
  "path_elems (filepath_Join [nr_Root n, ''.current-new'']) = path_elems (nr_Root n) @ [''.current-new'']"
  by (simp_all add: path_elems_Join root_clean current_path_def)

definition others :: "int \<Rightarrow> string list set" where
  "others g = insert (current_path (nr_Root n)) (config_path (nr_Root n) ` {g'. 1 \<le> g' \<and> g' \<noteq> g})"

definition configs :: "string list set" where
  "configs = config_path (nr_Root n) ` {g. 1 \<le> g}"

lemma subtree: "leaves (tree (nr_Root n)) m \<Longrightarrow> leaves (insert (current_path (nr_Root n)) configs) m"
  by (auto simp: leaves_def tree_def current_path_def configs_def config_path_def)

lemma views:
  assumes "leaves (insert (current_path (nr_Root n)) configs) m" and "m h = (r, h')"
  shows "current_link (nr_Root n) h' = current_link (nr_Root n) h \<and> (\<forall>g \<ge> 1. config_at (nr_Root n) g h' = config_at (nr_Root n) g h)"
proof -
  have "fs_get (hs_fs h') p = fs_get (hs_fs h) p" if "p \<in> insert (current_path (nr_Root n)) configs" for p
    by (rule leavesD [OF assms that])
  then show ?thesis by (simp add: current_link_def config_at_def configs_def)
qed

lemma views_configs:
  assumes "leaves configs m" and "m h = (r, h')"
  shows "\<forall>g \<ge> 1. config_at (nr_Root n) g h' = config_at (nr_Root n) g h"
proof -
  have "fs_get (hs_fs h') p = fs_get (hs_fs h) p" if "p \<in> configs" for p
    by (rule leavesD [OF assms that])
  then show ?thesis by (simp add: config_at_def configs_def)
qed

lemma mkdir_frame:
  assumes g: "1 \<le> g" and d: "d = ''run'' \<or> d = ''logs''"
  shows "leaves (insert (config_path (nr_Root n) g) (others g)) (os_MkdirAll (filepath_Join [gen_target (nr_Root n) g, d]))"
proof (rule leaves_mkdir)
  have "plain_name d" using d by auto
  then have e: "path_elems (filepath_Join [gen_target (nr_Root n) g, d]) = path_elems (nr_Root n) @ [''generations'', itoa g, d]"
    by (simp add: path_elems_Join target_clean target_elems g)
  have "config_path (nr_Root n) g' \<notin> set (dir_chain (path_elems (nr_Root n) @ [''generations'', itoa g, d]))" for g'
    using in_dir_chain [of "path_elems (nr_Root n)" "[''generations'', itoa g', ''nginx.conf'']" "[''generations'', itoa g, d]"] d
    by (auto simp: config_path_def)
  moreover have "current_path (nr_Root n) \<notin> set (dir_chain (path_elems (nr_Root n) @ [''generations'', itoa g, d]))"
    using in_dir_chain [of "path_elems (nr_Root n)" "[''current'']" "[''generations'', itoa g, d]"]
    by (auto simp: current_path_def)
  ultimately show "insert (config_path (nr_Root n) g) (others g) \<inter> set (dir_chain (path_elems (filepath_Join [gen_target (nr_Root n) g, d]))) = {}"
    by (auto simp: e others_def)
qed

lemma leaves_mono: "leaves P m \<Longrightarrow> Q \<subseteq> P \<Longrightarrow> leaves Q m"
  by (auto simp: leaves_def)

lemma prepare_frame:
  assumes g: "1 \<le> cd_Generation c"
  shows "leaves (others (cd_Generation c)) (nginx_Prepare n c)"
proof -
  let ?g = "cd_Generation c"
  have m: "leaves (others ?g) (os_MkdirAll (filepath_Join [gen_target (nr_Root n) ?g, d]))" if "d = ''run'' \<or> d = ''logs''" for d
    by (rule leaves_mono [OF mkdir_frame [OF g that]]) blast
  have c: "path_elems (filepath_Join [gen_target (nr_Root n) ?g, ''nginx.conf'']) \<notin> others ?g"
    using g by (auto simp: config_elems others_def current_path_def config_path_def itoa_inject)
  have "leaves (others ?g) (bind_host (wrap_host ''prepare ingress run directory'' (os_MkdirAll (filepath_Join [gen_target (nr_Root n) ?g, ''run'']))) (\<lambda>_.
     bind_host (wrap_host ''prepare ingress log directory'' (os_MkdirAll (filepath_Join [gen_target (nr_Root n) ?g, ''logs'']))) (\<lambda>_.
     bind_host (wrap_host ''prepare ingress configuration'' (os_CreateExcl (filepath_Join [gen_target (nr_Root n) ?g, ''nginx.conf'']))) (\<lambda>_.
     bind_host (write_config (filepath_Join [gen_target (nr_Root n) ?g, ''nginx.conf'']) (cd_Configuration c)) (\<lambda>_. syncDirectory (gen_target (nr_Root n) ?g))))))"
    using m c by (intro frames) auto
  with g show ?thesis by (simp add: nginx_Prepare_def generation_path Let_def)
qed

lemma prepare_config:
  assumes g: "1 \<le> cd_Generation c" and ok: "nginx_Prepare n c h = (Inr (), h')"
  shows "config_at (nr_Root n) (cd_Generation c) h = None \<and> config_at (nr_Root n) (cd_Generation c) h' = Some (cd_Configuration c)"
proof -
  let ?g = "cd_Generation c" and ?path = "gen_target (nr_Root n) (cd_Generation c)"
  let ?cp = "config_path (nr_Root n) ?g"
  from ok g obtain u1 h1 u2 h2 u3 h3 u4 h4 where
    1: "os_MkdirAll (filepath_Join [?path, ''run'']) h = (Inr u1, h1)"
    and 2: "os_MkdirAll (filepath_Join [?path, ''logs'']) h1 = (Inr u2, h2)"
    and 3: "os_CreateExcl (filepath_Join [?path, ''nginx.conf'']) h2 = (Inr u3, h3)"
    and 4: "write_config (filepath_Join [?path, ''nginx.conf'']) (cd_Configuration c) h3 = (Inr u4, h4)"
    and 5: "syncDirectory ?path h4 = (Inr (), h')"
    by (auto simp: nginx_Prepare_def host_Inr generation_path Let_def)
  have m: "fs_get (hs_fs h1) ?cp = fs_get (hs_fs h) ?cp" "fs_get (hs_fs h2) ?cp = fs_get (hs_fs h1) ?cp"
    by (rule leavesD [OF mkdir_frame [OF g] 1], simp_all) (rule leavesD [OF mkdir_frame [OF g] 2], simp_all)
  from create_ok [OF 3] m g have "fs_get (hs_fs h) ?cp = None" by (simp add: config_elems)
  moreover have "fs_get (hs_fs h4) ?cp = Some (FsFile (cd_Configuration c))"
    using write_config_ok [OF 4] g by (simp add: config_elems config_path_def)
  moreover have "fs_get (hs_fs h') ?cp = fs_get (hs_fs h4) ?cp"
    by (rule leavesD [OF leaves_syncDirectory [of UNIV] 5]) simp
  ultimately show ?thesis by (simp add: config_at_def)
qed

lemma replace_frame: "leaves configs (replaceSymlink (nr_Root n) t)"
proof -
  have m: "leaves configs (os_MkdirAll (nr_Root n))"
  proof (rule leaves_mkdir)
    show "configs \<inter> set (dir_chain (path_elems (nr_Root n))) = {}"
      using in_dir_chain [of "path_elems (nr_Root n)" _ "[]"] by (fastforce simp: configs_def config_path_def)
  qed
  have p: "current_path (nr_Root n) \<notin> configs" "path_elems (nr_Root n) @ [''.current-new''] \<notin> configs"
    by (auto simp: configs_def config_path_def current_path_def)
  show ?thesis
    unfolding replaceSymlink_def Let_def using m p by (intro frames) (auto simp: link_elems)
qed

lemma replace_ok:
  assumes "replaceSymlink (nr_Root n) t h = (Inr (), h')"
  shows "current_link (nr_Root n) h' = Some t"
proof -
  let ?tmp = "filepath_Join [nr_Root n, ''.current-new'']" and ?cur = "filepath_Join [nr_Root n, ''current'']"
  from assms obtain h1 u2 h2 u3 h3 where
    2: "os_Symlink t ?tmp h1 = (Inr u2, h2)"
    and 3: "rename_or_remove ''activate ingress generation'' ?tmp ?cur h2 = (Inr u3, h3)"
    and 4: "syncDirectory (nr_Root n) h3 = (Inr (), h')"
    by (auto simp: replaceSymlink_def host_Inr Let_def)
  from 3 have "os_Rename ?tmp ?cur h2 = (Inr u3, h3)"
    by (auto simp: rename_or_remove_def wrapf_def split: prod.splits sum.splits)
  from rename_ok [OF this] symlink_ok [OF 2]
  have "fs_get (hs_fs h3) (current_path (nr_Root n)) = Some (FsLink t)"
    by (simp add: link_elems current_path_def)
  moreover have "fs_get (hs_fs h') (current_path (nr_Root n)) = fs_get (hs_fs h3) (current_path (nr_Root n))"
    by (rule leavesD [OF leaves_syncDirectory [of UNIV] 4]) simp
  ultimately show ?thesis by (simp add: current_link_def)
qed

text \<open>Linking to a target and reloading, as activation and rollback do.\<close>

lemma relink:
  assumes "bind_host (replaceSymlink (nr_Root n) t) (\<lambda>_. nginx_reload n) h = (r, h')"
  shows "(\<forall>g \<ge> 1. config_at (nr_Root n) g h' = config_at (nr_Root n) g h)
    \<and> (r = Inr () \<longrightarrow> current_link (nr_Root n) h' = Some t)"
proof
  have "leaves configs (bind_host (replaceSymlink (nr_Root n) t) (\<lambda>_. nginx_reload n))"
    using leaves_mono [OF subtree [OF quiet_reload]] by (intro frames replace_frame) blast
  from views_configs [OF this assms] show "\<forall>g \<ge> 1. config_at (nr_Root n) g h' = config_at (nr_Root n) g h" .
  show "r = Inr () \<longrightarrow> current_link (nr_Root n) h' = Some t"
    using assms replace_ok views [OF subtree [OF quiet_reload]] by (auto simp: bind_host_Inr)
qed

lemma gen_target_0: "gen_target (nr_Root n) 0 = filepath_Join [nr_Root n, ''bootstrap'']"
  by (simp add: gen_target_def)

lemma verify_frame: "leaves (insert (current_path (nr_Root n)) configs) (nginx_VerifyGeneration n g)"
proof -
  let ?P = "insert (current_path (nr_Root n)) configs"
  have k: "leaves ?P (bind_host (wrap_host what (call_check n ''generation'' g)) (\<lambda>_. restate what' (call_process n)))" for what what'
    by (intro frames subtree quiet_check quiet_process)
  show ?thesis
  proof (cases "g < 1")
    case True
    then show ?thesis by (simp add: nginx_VerifyGeneration_def generation_path leaves_lift)
  next
    case False
    then show ?thesis
      unfolding leaves_def nginx_VerifyGeneration_def
      by (auto simp: generation_path split: prod.splits dest: leavesD [OF leaves_read(2)] simp: leaves_snd [OF k])
  qed
qed

sublocale ingress_runtime "nginx_runtime n" "current_link (nr_Root n)" "gen_target (nr_Root n)" "config_at (nr_Root n)"
proof
  fix c h r h'
  note views = views [OF _ , of _ h r h']
  show "current_link (nr_Root n) h' = current_link (nr_Root n) h
      \<and> (\<forall>g. 1 \<le> g \<and> g \<noteq> cd_Generation c \<longrightarrow> config_at (nr_Root n) g h' = config_at (nr_Root n) g h)
      \<and> (r = Inr () \<longrightarrow> config_at (nr_Root n) (cd_Generation c) h = None
           \<and> config_at (nr_Root n) (cd_Generation c) h' = Some (cd_Configuration c))"
    if "ig_Prepare (nginx_runtime n) c h = (r, h')" "1 \<le> cd_Generation c"
  proof -
    from that(1) have p: "nginx_Prepare n c h = (r, h')" by (simp add: nginx_runtime_def)
    have f: "fs_get (hs_fs h') q = fs_get (hs_fs h) q" if "q \<in> others (cd_Generation c)" for q
      by (rule leavesD [OF prepare_frame p that]) (rule \<open>1 \<le> cd_Generation c\<close>)
    show ?thesis
      using f prepare_config [OF that(2)] p by (auto simp: current_link_def config_at_def others_def)
  qed
  show "current_link (nr_Root n) h' = current_link (nr_Root n) h \<and> (\<forall>g \<ge> 1. config_at (nr_Root n) g h' = config_at (nr_Root n) g h)"
    if "ig_Validate (nginx_runtime n) c h = (r, h')"
  proof (rule views)
    show "nginx_Validate n c h = (r, h')" using that by (simp add: nginx_runtime_def)
    show "leaves (insert (current_path (nr_Root n)) configs) (nginx_Validate n c)"
      unfolding nginx_Validate_def by (intro frames subtree quiet_check)
  qed
  show "(\<forall>g \<ge> 1. config_at (nr_Root n) g h' = config_at (nr_Root n) g h)
      \<and> (r = Inr () \<longrightarrow> current_link (nr_Root n) h' = Some (gen_target (nr_Root n) (cd_Generation c)))"
    if "ig_Activate (nginx_runtime n) c h = (r, h')"
    using that relink [of _ h r h']
    by (auto simp: nginx_runtime_def nginx_Activate_def generation_path lift_host_def split: if_splits)
  show "current_link (nr_Root n) h' = current_link (nr_Root n) h \<and> (\<forall>g \<ge> 1. config_at (nr_Root n) g h' = config_at (nr_Root n) g h)"
    if "ig_Verify (nginx_runtime n) c h = (r, h')"
    using that by (intro views [OF verify_frame]) (simp add: nginx_runtime_def nginx_Verify_def)
  show "(\<forall>g \<ge> 1. config_at (nr_Root n) g h' = config_at (nr_Root n) g h)
      \<and> (r = Inr () \<longrightarrow> current_link (nr_Root n) h' = Some (gen_target (nr_Root n) (cd_PreviousGeneration c)))"
    if "ig_Rollback (nginx_runtime n) c h = (r, h')"
    using that relink [of _ h r h']
    by (auto simp: nginx_runtime_def nginx_Rollback_def generation_path lift_host_def gen_target_0 split: if_splits)
  show "current_link (nr_Root n) h' = current_link (nr_Root n) h \<and> (\<forall>g \<ge> 1. config_at (nr_Root n) g h' = config_at (nr_Root n) g h)"
    if "ig_VerifyGeneration (nginx_runtime n) i h = (r, h')" for i
    using that by (intro views [OF verify_frame]) (simp add: nginx_runtime_def)
  show "h' = h \<and> (0 \<le> cd_PreviousGeneration c \<longrightarrow> r = Inr ())"
    if "ig_Cleanup (nginx_runtime n) c h = (r, h')"
    using that by (auto simp: nginx_runtime_def nginx_Cleanup_def generation_path lift_host_def split: if_splits)
qed

end

lemma default_root: "filepath_Clean defaultIngressRoot = defaultIngressRoot" "IsAbs defaultIngressRoot"
  "path_elems defaultIngressRoot = [''var'', ''lib'', ''kitpro-helper'', ''ingress'']"
  by code_simp+

lemma default_root_ne: "defaultIngressRoot \<noteq> []"
  by (simp add: defaultIngressRoot_def)

lemma reload_elems: "path_elems reloadComplete = [''run'', ''kitpro'', ''ingress-reload.complete'']"
  "path_elems reloadRequest = [''run'', ''kitpro'', ''ingress-reload.request'']"
  "path_elems (reloadRequest @ ''.new'') = [''run'', ''kitpro'', ''ingress-reload.request.new'']"
  by code_simp+

lemma leaves_conn [frames]: "leaves P (conn_call what)"
  unfolding leaves_def conn_call_def by (auto split: prod.splits option.splits dest: next_faultD)

lemma leaves_client: "leaves P (client_Check run root is_root t g)"
proof -
  have "leaves P (\<lambda>h. (f h, h))" for f :: "'n host \<Rightarrow> unit result" by (simp add: leaves_def)
  then show ?thesis by (auto simp: client_Check_def intro!: frames)
qed

lemma leaves_process: "leaves P (verifyManagedNginx pid)"
  unfolding verifyManagedNginx_def
proof (intro frames)
  fix raw
  show "leaves P (\<lambda>h. case parse_int64 (trim_space raw) of None \<Rightarrow> (Inl (Errorf ''invalid managed nginx PID''), h)
     | Some pid \<Rightarrow> if pid < 2 then (Inl (Errorf ''invalid managed nginx PID''), h)
         else case os_ReadFile (filepath_Join [''/proc'', itoa pid, ''comm'']) h of (command, h') \<Rightarrow>
           (case command of Inl _ \<Rightarrow> Inl (Errorf ''managed nginx process is unavailable'')
             | Inr text \<Rightarrow> if trim_space text \<noteq> ''nginx'' then Inl (Errorf ''managed nginx process is unavailable'') else Inr (), h'))"
    unfolding leaves_def by (auto split: option.splits prod.splits dest: leavesD [OF leaves_read(1)])
qed

lemma leaves_reload:
  assumes "path_elems completePath \<notin> P" "path_elems requestPath \<notin> P" "path_elems (requestPath @ ''.new'') \<notin> P"
  shows "leaves P (requestReload raw acks requestPath completePath)"
proof (cases raw)
  case (Some bs)
  have l: "leaves P (\<lambda>h. if await_ack tok acks then (Inr (), snd (os_Remove completePath h))
         else (Inl (Errorf ''ingress reload acknowledgement timed out''), h))" for tok
    unfolding leaves_def by (auto intro: leaves_snd [OF leaves_remove [OF assms(1)]])
  show ?thesis unfolding requestReload_def using assms Some by (auto simp: Let_def intro!: frames l)
qed (simp add: requestReload_def leaves_lift)

lemma leaves_bridge: "leaves (tree defaultIngressRoot) bridge_Request"
proof -
  have n: "path_elems reloadComplete \<notin> tree defaultIngressRoot" "path_elems reloadRequest \<notin> tree defaultIngressRoot"
    "path_elems (reloadRequest @ ''.new'') \<notin> tree defaultIngressRoot"
    by (auto simp: tree_def reload_elems default_root)
  note l = leaves_snd [OF leaves_reload [OF n]]
  show ?thesis
    unfolding leaves_def bridge_Request_def by (auto split: list.splits simp: l)
qed

interpretation nginx: quiet_nginx "NewNginxRuntime run" for run
proof
  show "nginx_validate (NewNginxRuntime run) = Inr ()"
    by (simp add: nginx_validate_def NewNginxRuntime_def default_root default_root_ne)
  show "nr_Root (NewNginxRuntime run) \<noteq> []"
    by (simp add: NewNginxRuntime_def default_root_ne)
  show "leaves (tree (nr_Root (NewNginxRuntime run))) (call_check (NewNginxRuntime run) t g)" for t g
    by (simp add: call_check_def NewNginxRuntime_def leaves_client)
  show "leaves (tree (nr_Root (NewNginxRuntime run))) (nginx_reload (NewNginxRuntime run))"
    unfolding nginx_reload_def by (rule leaves_wrap) (simp add: NewNginxRuntime_def leaves_bridge)
  show "leaves (tree (nr_Root (NewNginxRuntime run))) (call_process (NewNginxRuntime run))"
    by (simp add: call_process_def NewNginxRuntime_def leaves_process)
qed

text \<open>An empty root passes the validation, and the paths are then relative.\<close>

lemma nginx_empty_root:
  "generationPath \<lparr>nr_Root = [], nr_Check = Some c, nr_Reload = Some r, nr_VerifyProcess = Some v\<rparr> 1 = Inr ''generations/1''"
  by code_simp

section \<open>Fresh generations\<close>

lemma parse_int64_itoa:
  assumes "0 \<le> i" "i \<le> max_int64"
  shows "parse_int64 (itoa i) = Some i"
proof -
  have i: "itoa i = nat_digits (nat i)" using assms by (simp add: itoa_def)
  obtain c cs where d: "nat_digits (nat i) = c # cs" using nat_digits_not_Nil by (cases "nat_digits (nat i)") auto
  have "is_digit c" using nat_digits_only [of c "nat i"] d by simp
  then have "c \<noteq> CHR ''-''" "c \<noteq> CHR ''+''" by (auto simp: is_digit_def less_eq_char_def)
  then have "\<not> has_prefix ''-'' (nat_digits (nat i))" "\<not> has_prefix ''+'' (nat_digits (nat i))"
    by (simp_all add: d has_prefix_def)
  then show ?thesis
    using assms nat_digits_digits [of "nat i"] nat_digits_not_Nil [of "nat i"]
    by (simp add: parse_int64_def Let_def i digits_value_nat_digits)
qed

lemma parse_int64_max: "parse_int64 s = Some v \<Longrightarrow> v \<le> max_int64"
  by (auto simp: parse_int64_def Let_def max_int64_def split: if_splits)

lemma next_unused_bound:
  assumes "next_unused names m = Inr g" "m \<le> max_int64"
  shows "m \<le> g \<and> g \<le> max_int64 \<and> (\<forall>name \<in> set names. \<forall>v. parse_int64 name = Some v \<longrightarrow> v < g)"
  using assms
proof (induction names m rule: next_unused.induct)
  case (2 name names nxt)
  show ?case
  proof (cases "parse_int64 name")
    case None
    with 2 show ?thesis by simp
  next
    case (Some v)
    with 2 parse_int64_max [OF Some] show ?thesis by (fastforce split: if_splits)
  qed
qed simp

text \<open>
  C40. The number chosen for a new generation is at least the wanted one, fits 64 bits, and no file
  of that name is in the directory of generations.
\<close>

theorem next_generation_fresh:
  assumes g: "NextUnusedGeneration root minimum h = (Inr g, h')" and f: "fst (next_fault h) = None"
    and r: "clean_path root" and m: "minimum \<le> max_int64"
  shows "minimum \<le> g \<and> g \<le> max_int64
    \<and> (fs_get (hs_fs h) (path_elems root @ [''generations'']) \<noteq> None \<longrightarrow>
         fs_get (hs_fs h) (path_elems root @ [''generations'', itoa g]) = None)"
proof -
  let ?d = "path_elems root @ [''generations'']"
  have d: "path_elems (filepath_Join [root, ''generations'']) = ?d"
    using r by (intro path_elems_Join) (simp_all add: plain_name_def)
  from f obtain h1 where h1: "next_fault h = (None, h1)" by (cases "next_fault h") auto
  then have fs: "hs_fs h1 = hs_fs h" by (rule next_faultD)
  have m1: "1 \<le> minimum" using g by (auto simp: NextUnusedGeneration_def split: if_splits)
  show ?thesis
  proof (cases "fs_get (hs_fs h) ?d")
    case None
    with g m m1 show ?thesis
      by (simp add: NextUnusedGeneration_def os_ReadDir_def h1 fs d)
  next
    case (Some node)
    with g m1 have "node = FsDir" and "next_unused (fs_names (hs_fs h) ?d) minimum = Inr g"
      by (auto simp: NextUnusedGeneration_def os_ReadDir_def h1 fs d ErrNotExist_def split: fs_node.splits)
    from next_unused_bound [OF this(2) m] have b: "minimum \<le> g" "g \<le> max_int64"
      and l: "\<And>name v. name \<in> set (fs_names (hs_fs h) ?d) \<Longrightarrow> parse_int64 name = Some v \<Longrightarrow> v < g"
      by blast+
    have "itoa g \<notin> set (fs_names (hs_fs h) ?d)"
      using l parse_int64_itoa [of g] b m1 by fastforce
    with b show ?thesis by (simp add: fs_names_iff)
  qed
qed

end
