(* ===== verification/Ingress_Apply_Spec.thy ===== *)
theory Ingress_Apply_Spec
  imports Ingress_Apply Ingress_Run_Spec
begin

text \<open>
  The helper's tables of ingress generations and the link nginx serves from: every application
  of a generation keeps them in agreement, or records that a recovery is due.
\<close>

section \<open>The tables\<close>

definition active_gens :: "ingress_tables \<Rightarrow> int list" where
  "active_gens t = map hg_generation (filter (\<lambda>g. hg_status g = ''active'') (hi_generations t))"

definition ingress_ok :: "ingress_tables \<Rightarrow> bool" where
  "ingress_ok t = (tbl_wf hg_generation (hi_generations t) \<and> distinct (map hg_operation_id (hi_generations t))
     \<and> at_most_one_active hg_status (hi_generations t)
     \<and> (\<forall>g \<in> set (hi_generations t). 1 \<le> hg_generation g \<and> hg_status g \<in> set generation_statuses)
     \<and> (\<forall>r \<in> set (hi_routes t). \<exists>g \<in> set (hi_generations t). hg_generation g = hr_generation r)
     \<and> distinct (map (\<lambda>r. (hr_generation r, hr_route_id r)) (hi_routes t))
     \<and> distinct (map (\<lambda>r. (hr_generation r, hr_hostname r)) (hi_routes t)))"

text \<open>The link points to the generation the tables call active.\<close>

definition agrees :: "ingress_tables \<Rightarrow> 'n host \<Rightarrow> bool" where
  "agrees t h = (\<forall>g \<in> set (active_gens t). current_link ingress_root h = Some (gen_target ingress_root g))"

lemma fold_max: "m \<le> fold max gs m \<and> (\<forall>g \<in> set gs. g \<le> fold max gs m) \<and> fold max gs m \<in> insert m (set gs)"
  for m :: int
proof (induction gs arbitrary: m)
  case (Cons a gs)
  show ?case using Cons [of "max a m"] by (auto simp: max_def split: if_splits)
qed simp

lemma max_generation_ge: "g \<in> set gs \<Longrightarrow> g \<le> max_generation gs"
  using fold_max by (fastforce simp: max_generation_def split: list.split)

lemma max_generation_mem: "gs \<noteq> [] \<Longrightarrow> max_generation gs \<in> set gs"
  using fold_max by (fastforce simp: max_generation_def split: list.split)

lemma max_generation_nonneg:
  assumes "\<And>g. g \<in> set gs \<Longrightarrow> 1 \<le> g"
  shows "0 \<le> max_generation gs"
proof (cases "gs = []")
  case True
  then show ?thesis by (simp add: max_generation_def)
next
  case False
  from assms [OF max_generation_mem [OF False]] show ?thesis by simp
qed

lemma active_single:
  assumes "ingress_ok t"
  obtains (none) "active_gens t = []" "max_generation (active_gens t) = 0"
    | (one) p where "active_gens t = [p]" "max_generation (active_gens t) = p" "1 \<le> p"
proof -
  have "length (active_gens t) \<le> 1" and pos: "\<And>g. g \<in> set (active_gens t) \<Longrightarrow> 1 \<le> g"
    using assms by (auto simp: ingress_ok_def at_most_one_active_def active_gens_def)
  then consider "active_gens t = []" | p where "active_gens t = [p]"
    by (cases "active_gens t") auto
  then show thesis using that pos by cases (auto simp: max_generation_def)
qed

lemma insert_prepared_iff:
  "insert_prepared r t = Inr t' \<longleftrightarrow> (\<forall>x \<in> set (hi_generations t). hg_operation_id x \<noteq> hg_operation_id r)
     \<and> tbl_get hg_generation (hg_generation r) (hi_generations t) = None
     \<and> at_most_one_active hg_status (hi_generations t @ [r]) \<and> t' = t\<lparr>hi_generations := hi_generations t @ [r]\<rparr>"
  by (auto simp: insert_prepared_def put_ingress_def bind_result_Inr_iff sql_insert_Inr_iff split: if_splits)

lemma prepared_ok:
  assumes "ingress_ok t" and "insert_prepared r t = Inr t'" and "1 \<le> hg_generation r" and "hg_status r = ''prepared''"
  shows "ingress_ok t'" and "active_gens t' = active_gens t"
  using assms by (auto simp: ingress_ok_def insert_prepared_iff tbl_wf_append active_gens_def generation_statuses_def)

lemma update_at_most_one:
  assumes "\<And>g. hg_status (f g) \<noteq> ''active''"
  shows "filter (\<lambda>g. hg_status g = ''active'') (sql_update P f gs) = filter (\<lambda>g. hg_status g = ''active'' \<and> \<not> P g) gs"
  by (induction gs) (auto simp: sql_update_def assms)

lemma ingress_ok_update:
  assumes ok: "ingress_ok t" and keys: "\<And>g. hg_generation (f g) = hg_generation g" "\<And>g. hg_operation_id (f g) = hg_operation_id g"
    and st: "\<And>g. hg_status (f g) \<in> set generation_statuses" and one: "at_most_one_active hg_status (sql_update P f (hi_generations t))"
  shows "ingress_ok (t\<lparr>hi_generations := sql_update P f (hi_generations t)\<rparr>)"
proof -
  have k: "map hg_operation_id (sql_update P f (hi_generations t)) = map hg_operation_id (hi_generations t)"
    by (rule sql_update_cong_keys) (rule keys)
  have e: "(\<exists>g \<in> set (sql_update P f (hi_generations t)). hg_generation g = i) \<longleftrightarrow> (\<exists>g \<in> set (hi_generations t). hg_generation g = i)" for i
  proof -
    have "map hg_generation (sql_update P f (hi_generations t)) = map hg_generation (hi_generations t)"
      by (rule sql_update_cong_keys) (rule keys)
    from arg_cong [OF this, of set] show ?thesis by (simp add: set_eq_iff image_iff) metis
  qed
  show ?thesis
    using ok one keys st by (auto simp: ingress_ok_def k e) (auto simp: set_sql_update split: if_splits)
qed

lemma record_failure_ok:
  assumes "ingress_ok t" and "\<And>g. g \<in> set (hi_generations t) \<Longrightarrow> hg_generation g = i \<Longrightarrow> hg_status g \<noteq> ''active''"
  shows "ingress_ok (record_failure i sha e t)" and "active_gens (record_failure i sha e t) = active_gens t"
proof -
  let ?f = "\<lambda>g. g\<lparr>hg_configuration_sha256 := sha, hg_status := failure_status e, hg_failure_code := ae_Code e\<rparr>"
  have s: "failure_status e \<noteq> ''active''" "failure_status e \<in> set generation_statuses"
    by (auto simp: failure_status_def generation_statuses_def)
  have f: "filter (\<lambda>g. hg_status g = ''active'') (sql_update (\<lambda>g. hg_generation g = i) ?f (hi_generations t)) =
      filter (\<lambda>g. hg_status g = ''active'') (hi_generations t)"
    using assms(2) by (subst update_at_most_one) (auto simp: s intro!: filter_cong)
  show "ingress_ok (record_failure i sha e t)"
    unfolding record_failure_def
    by (rule ingress_ok_update [OF assms(1)]) (use s f assms(1) in \<open>auto simp: at_most_one_active_def ingress_ok_def\<close>)
  show "active_gens (record_failure i sha e t) = active_gens t"
    by (simp add: active_gens_def record_failure_def f)
qed

section \<open>Activation\<close>

lemma route_rows_inserted:
  assumes "distinct (map hr_route_id rs)" "distinct (map hr_hostname rs)"
    and "\<And>r. r \<in> set rs \<Longrightarrow> hr_generation r = i \<and> hr_exposure_mode r \<in> {IngressLAN, ManagedHTTPS, CloudflareTunnel}
      \<and> hr_tls_policy r \<in> {TLSNone, TLSProvided, TLSACME, TLSCloudflare} \<and> 0 \<le> hr_backend_port r \<and> hr_backend_port r \<le> 65535"
    and "\<exists>g \<in> set (hi_generations t). hg_generation g = i"
    and "\<And>x r. x \<in> set (hi_routes t) \<Longrightarrow> r \<in> set rs \<Longrightarrow> hr_generation x = i \<Longrightarrow> hr_route_id x \<noteq> hr_route_id r \<and> hr_hostname x \<noteq> hr_hostname r"
  shows "fold_result insert_route_row rs t = Inr (t\<lparr>hi_routes := hi_routes t @ rs\<rparr>)"
  using assms
proof (induction rs arbitrary: t)
  case (Cons r rs)
  have "insert_route_row r t = Inr (t\<lparr>hi_routes := hi_routes t @ [r]\<rparr>)"
    using Cons.prems(3) [of r] Cons.prems(4,5) by (fastforce simp: insert_route_row_def)
  moreover have "fold_result insert_route_row rs (t\<lparr>hi_routes := hi_routes t @ [r]\<rparr>) =
      Inr (t\<lparr>hi_routes := (hi_routes t @ [r]) @ rs\<rparr>)"
    using Cons.prems by (subst Cons.IH) (auto simp: image_iff)
  ultimately show ?case by simp
qed simp

lemma filter_active_at:
  assumes "tbl_wf hg_generation gs" "r \<in> set gs" "hg_generation r = i" and "\<And>g. g \<in> set gs \<Longrightarrow> hg_status g \<noteq> ''active''"
    and "\<And>g. hg_status (f g) = ''active''" "\<And>g. hg_generation (f g) = hg_generation g"
  shows "map hg_generation (filter (\<lambda>g. hg_status g = ''active'') (sql_update (\<lambda>g. hg_generation g = i) f gs)) = [i]"
  using assms
proof (induction gs)
  case (Cons a gs)
  show ?case
  proof (cases "hg_generation a = i")
    case True
    with Cons.prems have "\<forall>g \<in> set gs. hg_generation g \<noteq> i" by (auto simp: tbl_wf_def image_iff)
    then have "sql_update (\<lambda>g. hg_generation g = i) f gs = gs"
      by (simp add: sql_update_def map_idI)
    with True Cons.prems show ?thesis by (auto simp: sql_update_def filter_empty_conv)
  next
    case False
    with Cons show ?thesis by (auto simp: sql_update_def tbl_wf_def)
  qed
qed simp


lemma rendered_rows:
  assumes "RenderNginx applied opts = Inr conf"
  shows "distinct (map hr_route_id (map (route_row i) applied))" "distinct (map hr_hostname (map (route_row i) applied))"
    and "\<And>r. r \<in> set (map (route_row i) applied) \<Longrightarrow> hr_generation r = i \<and> hr_exposure_mode r \<in> {IngressLAN, ManagedHTTPS, CloudflareTunnel}
      \<and> hr_tls_policy r \<in> {TLSNone, TLSProvided, TLSACME, TLSCloudflare} \<and> 0 \<le> hr_backend_port r \<and> hr_backend_port r \<le> 65535"
proof -
  note out = rendered_normal [OF assms]
  then show "distinct (map hr_route_id (map (route_row i) applied))" "distinct (map hr_hostname (map (route_row i) applied))"
    by (simp_all add: NormalizeRoutes_iff comp_def route_row_def Let_def)
  fix r
  assume "r \<in> set (map (route_row i) applied)"
  then obtain a where a: "r = route_row i a" "check_route a False = Inr ()"
    using out by (auto simp: NormalizeRoutes_iff)
  from checked_route(5,6,8,9) [OF a(2)] a(1) show "hr_generation r = i \<and> hr_exposure_mode r \<in> {IngressLAN, ManagedHTTPS, CloudflareTunnel}
      \<and> hr_tls_policy r \<in> {TLSNone, TLSProvided, TLSACME, TLSCloudflare} \<and> 0 \<le> hr_backend_port r \<and> hr_backend_port r \<le> 65535"
    by (simp add: route_row_def Let_def)
qed

lemma distinct_rows_append:
  assumes "distinct (map (\<lambda>r. (hr_generation r, k r)) xs)" and x: "\<forall>x \<in> set xs. hr_generation x \<noteq> i"
    and y: "\<forall>y \<in> set ys. hr_generation y = i" and "distinct (map k ys)"
  shows "distinct (map (\<lambda>r. (hr_generation r, k r)) (xs @ ys))"
proof -
  have "map (\<lambda>r. (hr_generation r, k r)) ys = map (Pair i) (map k ys)" using y by simp
  then have "distinct (map (\<lambda>r. (hr_generation r, k r)) ys)" using assms(4) by (simp add: distinct_map inj_on_def del: map_map)
  with assms(1) x y show ?thesis by auto
qed

lemma ingress_ok_routes:
  assumes ok: "ingress_ok t" and fresh: "\<forall>x \<in> set (hi_routes t). hr_generation x \<noteq> i"
    and mem: "\<exists>g \<in> set (hi_generations t). hg_generation g = i"
    and rows: "distinct (map hr_route_id rs)" "distinct (map hr_hostname rs)" "\<forall>y \<in> set rs. hr_generation y = i"
  shows "ingress_ok (t\<lparr>hi_routes := hi_routes t @ rs\<rparr>)"
proof -
  have "distinct (map (\<lambda>r. (hr_generation r, hr_route_id r)) (hi_routes t))" "distinct (map (\<lambda>r. (hr_generation r, hr_hostname r)) (hi_routes t))"
    and fk: "\<forall>r \<in> set (hi_routes t). \<exists>g \<in> set (hi_generations t). hg_generation g = hr_generation r"
    using ok by (simp_all add: ingress_ok_def)
  note d = distinct_rows_append [OF this(1) fresh rows(3,1)] distinct_rows_append [OF this(2) fresh rows(3,2)]
  have "\<forall>r \<in> set (hi_routes t @ rs). \<exists>g \<in> set (hi_generations t). hg_generation g = hr_generation r"
    using fk mem rows(3) by auto
  moreover have "hi_generations (t\<lparr>hi_routes := x\<rparr>) = hi_generations t" "hi_routes (t\<lparr>hi_routes := x\<rparr>) = x" for x
    by simp_all
  ultimately show ?thesis using d ok by (simp only: ingress_ok_def simp_thms) blast
qed

text \<open>Without an error of the driver the activating transaction meets no constraint.\<close>

lemma activate_rows_succeeds:
  assumes ok: "ingress_ok t" and row: "r \<in> set (hi_generations t)" "hg_generation r = i" "hg_status r \<noteq> ''active''"
    and fresh: "\<forall>x \<in> set (hi_routes t). hr_generation x \<noteq> i" and conf: "RenderNginx applied opts = Inr conf"
    and prev: "previous = max_generation (active_gens t)"
  shows "\<exists>t'. activate_rows None i previous sha now applied t = Inr t' \<and> active_gens t' = [i] \<and> ingress_ok t'
    \<and> hi_routes t' = hi_routes t @ map (route_row i) applied"
proof -
  let ?g = "\<lambda>g. g\<lparr>hg_status := ''rolled_back''\<rparr>"
  let ?f = "\<lambda>g. g\<lparr>hg_configuration_sha256 := sha, hg_status := ''active'', hg_validated_at := Some now, hg_activated_at := Some now\<rparr>"
  define retired where "retired = (if 0 < previous then sql_update (\<lambda>g. hg_generation g = previous) ?g (hi_generations t) else hi_generations t)"
  define t1 where "t1 = t\<lparr>hi_generations := retired\<rparr>"
  have none: "\<forall>g \<in> set retired. hg_status g \<noteq> ''active''"
    using ok
  proof (cases rule: active_single)
    case none
    then show ?thesis using prev by (auto simp: retired_def active_gens_def filter_empty_conv)
  next
    case (one p)
    then have "filter (\<lambda>g. hg_status g = ''active'') retired = filter (\<lambda>g. hg_status g = ''active'' \<and> hg_generation g \<noteq> p) (hi_generations t)"
      using prev by (simp add: retired_def update_at_most_one)
    also have "\<dots> = []"
    proof -
      have "hg_generation g = p" if "g \<in> set (hi_generations t)" "hg_status g = ''active''" for g
      proof -
        have "hg_generation g \<in> set (active_gens t)" using that by (simp add: active_gens_def)
        with one show ?thesis by simp
      qed
      then show ?thesis by (auto simp: filter_empty_conv)
    qed
    finally show ?thesis by (simp add: filter_empty_conv)
  qed
  have ok1: "ingress_ok t1"
  proof (cases "0 < previous")
    case True
    have "at_most_one_active hg_status (sql_update (\<lambda>g. hg_generation g = previous) ?g (hi_generations t))"
      using none True by (simp add: retired_def at_most_one_active_def)
    from ingress_ok_update [OF ok _ _ _ this] True show ?thesis by (simp add: t1_def retired_def generation_statuses_def)
  qed (use ok in \<open>simp add: t1_def retired_def\<close>)
  obtain r' where r': "r' \<in> set retired" "hg_generation r' = i"
  proof (cases "hg_generation r = previous \<and> 0 < previous")
    case True
    with row that [of "?g r"] show thesis by (auto simp: retired_def set_sql_update)
  next
    case False
    with row that [of r] show thesis by (auto simp: retired_def set_sql_update)
  qed
  define act where "act = sql_update (\<lambda>g. hg_generation g = i) ?f retired"
  have wf: "tbl_wf hg_generation retired" using ok1 by (simp add: ingress_ok_def t1_def)
  have one: "map hg_generation (filter (\<lambda>g. hg_status g = ''active'') act) = [i]"
    unfolding act_def by (rule filter_active_at [OF wf r']) (use none in auto)
  have am: "at_most_one_active hg_status act"
    using arg_cong [OF one, of length] by (simp add: at_most_one_active_def)
  let ?t2 = "t\<lparr>hi_generations := act\<rparr>"
  have ok2: "ingress_ok ?t2"
    using ingress_ok_update [OF ok1, of ?f "\<lambda>g. hg_generation g = i"] am by (simp add: t1_def act_def generation_statuses_def)
  have mem: "\<exists>g \<in> set (hi_generations ?t2). hg_generation g = i"
    using r' by (auto simp: act_def set_sql_update intro!: bexI [of _ "?f r'"])
  have ins: "fold_result insert_route_row (map (route_row i) applied) ?t2 = Inr (?t2\<lparr>hi_routes := hi_routes ?t2 @ map (route_row i) applied\<rparr>)"
    using fresh by (intro route_rows_inserted [OF rendered_rows [OF conf] mem]) auto
  have res: "activate_rows None i previous sha now applied t = Inr (?t2\<lparr>hi_routes := hi_routes t @ map (route_row i) applied\<rparr>)"
    using am ins by (simp add: activate_rows_def Let_def retired_def [symmetric] put_ingress_def act_def [symmetric])
  moreover have "ingress_ok (?t2\<lparr>hi_routes := hi_routes t @ map (route_row i) applied\<rparr>)"
  proof -
    have "\<forall>x \<in> set (hi_routes ?t2). hr_generation x \<noteq> i" using fresh by simp
    moreover have "\<forall>y \<in> set (map (route_row i) applied). hr_generation y = i" using rendered_rows(3) [OF conf] by blast
    ultimately have "ingress_ok (?t2\<lparr>hi_routes := hi_routes ?t2 @ map (route_row i) applied\<rparr>)"
      by (intro ingress_ok_routes [OF ok2 _ mem rendered_rows(1,2) [OF conf]])
    moreover have "hi_routes ?t2 = hi_routes t" by simp
    ultimately show ?thesis by (simp only:)
  qed
  ultimately show ?thesis using one by (simp add: active_gens_def)
qed


section \<open>Applying on the host\<close>

lemma root_names: "nr_Root (NewNginxRuntime run) = ingress_root" "clean_path ingress_root"
  by (simp_all add: NewNginxRuntime_def ingress_root_def clean_path_def default_root [unfolded defaultIngressRoot_def] defaultIngressRoot_def)

lemma nginx_verify_calls: "ig_Verify (nginx_runtime n) = nginx_Verify n"
  "ig_VerifyGeneration (nginx_runtime n) = nginx_VerifyGeneration n"
  by (simp_all add: nginx_runtime_def)

text \<open>
  C38. One application of a configuration to the host. When it succeeds, the new generation was
  not there before, holds exactly the configuration, is what the link points to and has been
  verified; when it is rolled back, the link points to the previous generation, or to the bootstrap
  configuration when there was none; otherwise the link is as it was, unless the error asks for a
  recovery. The configurations of all other generations stay as they are in every case.
\<close>

theorem ingress_transaction:
  assumes "Apply (Some (nginx_runtime (NewNginxRuntime run))) generation previous conf h = ((c, e), h')"
  shows "(\<forall>g. 1 \<le> g \<and> g \<noteq> generation \<longrightarrow> config_at ingress_root g h' = config_at ingress_root g h)
    \<and> (case e of
        None \<Rightarrow> current_link ingress_root h' = Some (gen_target ingress_root generation)
          \<and> config_at ingress_root generation h = None \<and> config_at ingress_root generation h' = Some conf
          \<and> cd_SHA256 c = sha256_hex conf \<and> (\<exists>h1. nginx_Verify (NewNginxRuntime run) c h1 = (Inr (), h'))
      | Some err \<Rightarrow>
          if ae_RecoveryNow err then ae_Code err \<in> {''rollback_failed'', ''rollback_unverified''}
          else if ae_RolledBack err then ae_Code err \<in> {''activation_failed'', ''verification_failed''}
            \<and> current_link ingress_root h' = Some (gen_target ingress_root previous)
            \<and> (0 < previous \<longrightarrow> (\<exists>h1. nginx_VerifyGeneration (NewNginxRuntime run) previous h1 = (Inr (), h')))
          else ae_Code err \<in> {''invalid_candidate'', ''prepare_failed'', ''validation_failed''}
            \<and> current_link ingress_root h' = current_link ingress_root h)"
  using nginx.Apply_outcome [OF assms] unfolding root_names nginx_verify_calls .


section \<open>Applying a generation\<close>

lemma next_unused_ge: "next_unused names m = Inr g \<Longrightarrow> m \<le> g"
  by (induction names m rule: next_unused.induct) (auto split: option.splits if_splits)

lemma next_generation_ge:
  assumes "NextUnusedGeneration root m h = (Inr g, h1)"
  shows "m \<le> g"
  using assms next_unused_ge
  by (auto simp: NextUnusedGeneration_def bind_result_Inr_iff split: if_splits prod.splits)

lemma next_generation_fs: "NextUnusedGeneration root m h = (r, h1) \<Longrightarrow> hs_fs h1 = hs_fs h"
  by (auto simp: NextUnusedGeneration_def os_ReadDir_def split: if_splits prod.splits option.splits dest: next_faultD)

lemma views_fs: "hs_fs h1 = hs_fs h \<Longrightarrow> current_link root h1 = current_link root h \<and> config_at root g h1 = config_at root g h"
  by (simp add: current_link_def config_at_def)

text \<open>What an application of a generation leaves behind, per result.\<close>

definition apply_result_ok ::
  "AppliedRoute list \<Rightarrow> string \<Rightarrow> ingress_tables \<Rightarrow> 'n host \<Rightarrow> (ingress_failure + ingress_outcome) \<Rightarrow> ingress_tables \<Rightarrow> 'n host \<Rightarrow> bool" where
  "apply_result_ok applied conf t h r t' h' = (case r of
      Inr out \<Rightarrow> active_gens t' = [io_generation out] \<and> io_generation out \<notin> hg_generation ` set (hi_generations t)
        \<and> config_at ingress_root (io_generation out) h' = Some conf \<and> io_configuration_sha256 out = sha256_hex conf
        \<and> hi_routes t' = hi_routes t @ map (route_row (io_generation out)) applied \<and> agrees t' h'
    | Inl (Rejected _) \<Rightarrow> t' = t \<and> agrees t' h'
    | Inl (NotApplied e) \<Rightarrow> active_gens t' = active_gens t \<and> hi_routes t' = hi_routes t
        \<and> (if ae_RecoveryNow e then \<exists>g \<in> set (hi_generations t'). hg_status g = ''rollback_pending'' \<and> hg_failure_code g = ae_Code e
           else agrees t' h'))"

lemma apply_configuration_outcome:
  assumes run: "apply_configuration (nginx_runtime (NewNginxRuntime run)) None op now applied conf t h = (r, t', h')"
    and ok: "ingress_ok t" and ag: "agrees t h" and conf: "RenderNginx applied opts = Inr conf"
  shows "ingress_ok t' \<and> apply_result_ok applied conf t h r t' h'
    \<and> (\<forall>g \<in> set (hi_generations t). config_at ingress_root (hg_generation g) h' = config_at ingress_root (hg_generation g) h)"
proof -
  define minimum where "minimum = max_generation (map hg_generation (hi_generations t)) + 1"
  define previous where "previous = max_generation (active_gens t)"
  obtain r1 h1 where next_g: "NextUnusedGeneration ingress_root minimum h = (r1, h1)" by fastforce
  note same = views_fs [OF next_generation_fs [OF next_g], of ingress_root]
  have ag1: "agrees t h1" using ag same by (simp add: agrees_def)
  note unfolded = run [unfolded apply_configuration_def Let_def minimum_def [symmetric] active_gens_def [symmetric]
      previous_def [symmetric] next_g prod.case]
  show ?thesis
  proof (cases r1)
    case (Inl e)
    with unfolded ok ag1 same show ?thesis by (auto simp: apply_result_ok_def)
  next
    case (Inr generation)
    then have ge: "minimum \<le> generation" using next_generation_ge next_g by simp
    have fresh: "hg_generation g < generation" if "g \<in> set (hi_generations t)" for g
      using max_generation_ge [of "hg_generation g" "map hg_generation (hi_generations t)"] that ge by (simp add: minimum_def)
    have pos: "1 \<le> generation" using ge max_generation_nonneg [of "map hg_generation (hi_generations t)"] ok
      by (fastforce simp: minimum_def ingress_ok_def)
    let ?row = "prepared_row generation previous op now"
    show ?thesis
    proof (cases "insert_prepared ?row t")
      case (Inl e)
      with unfolded Inr ok ag1 same show ?thesis by (auto simp: apply_result_ok_def)
    next
      case ins: (Inr t1)
      have ok1: "ingress_ok t1" and act1: "active_gens t1 = active_gens t"
        by (rule prepared_ok [OF ok ins]; use pos in \<open>simp add: prepared_row_def\<close>)+
      have t1: "hi_generations t1 = hi_generations t @ [?row]" "hi_routes t1 = hi_routes t"
        using ins by (auto simp: insert_prepared_iff)
      have row: "hg_generation ?row = generation" "hg_status ?row = ''prepared''" by (simp_all add: prepared_row_def)
      obtain c e h2 where ap: "Apply (Some (nginx_runtime (NewNginxRuntime run))) generation previous conf h1 = ((c, e), h2)"
        by (metis surj_pair)
      note tr = nginx.Apply_outcome [OF ap, unfolded root_names]
      have cfg: "\<forall>g \<in> set (hi_generations t). config_at ingress_root (hg_generation g) h2 = config_at ingress_root (hg_generation g) h"
        using tr fresh same ok by (fastforce simp: ingress_ok_def)
      show ?thesis
      proof (cases e)
        case (Some err)
        have res: "r = Inl (NotApplied err)" "t' = record_failure generation (cd_SHA256 c) err t1" "h' = h2"
          using unfolded Inr ins ap Some by auto
        have na: "hg_status g \<noteq> ''active''" if "g \<in> set (hi_generations t1)" "hg_generation g = generation" for g
          using that fresh row by (auto simp: t1)
        note f = record_failure_ok [OF ok1 na, where sha = "cd_SHA256 c" and e = err]
        have ag2: "agrees t' h2" if "\<not> ae_RecoveryNow err"
        proof (cases "ae_RolledBack err")
          case True
          with tr Some that have "current_link ingress_root h2 = Some (gen_target ingress_root previous)" by simp
          with ok show ?thesis
            by (cases rule: active_single) (auto simp: agrees_def res f act1 previous_def)
        next
          case False
          with tr Some that have "current_link ingress_root h2 = current_link ingress_root h1" by simp
          with ag1 show ?thesis by (simp add: agrees_def res f act1)
        qed
        have "\<exists>g \<in> set (hi_generations t'). hg_status g = failure_status err \<and> hg_failure_code g = ae_Code err"
          using row by (auto simp: res record_failure_def t1 set_sql_update)
        then have pend: "\<exists>g \<in> set (hi_generations t'). hg_status g = ''rollback_pending'' \<and> hg_failure_code g = ae_Code err"
          if "ae_RecoveryNow err" using that by (simp add: failure_status_def)
        have "ingress_ok t'" "active_gens t' = active_gens t" by (simp_all add: res(2) f act1)
        moreover have "hi_routes t' = hi_routes t" by (simp add: res(2) record_failure_def t1)
        ultimately show ?thesis
          using ag2 cfg pend by (cases "ae_RecoveryNow err") (simp_all add: apply_result_ok_def res(1,3))
      next
        case None
        have fr: "\<forall>x \<in> set (hi_routes t1). hr_generation x \<noteq> generation"
          using ok fresh by (fastforce simp: ingress_ok_def t1)
        have "?row \<in> set (hi_generations t1)" "hg_status ?row \<noteq> ''active''" by (simp_all add: t1 row)
        from activate_rows_succeeds [OF ok1 this(1) row(1) this(2) fr conf, of previous "cd_SHA256 c" now]
        obtain t2 where t2: "activate_rows None generation previous (cd_SHA256 c) now applied t1 = Inr t2"
          "active_gens t2 = [generation]" "ingress_ok t2" "hi_routes t2 = hi_routes t @ map (route_row generation) applied"
          by (auto simp: act1 previous_def t1)
        have res: "r = Inr \<lparr>io_generation = generation, io_previous_generation = previous,
            io_configuration_sha256 = cd_SHA256 c, io_route_ids = map (rt_ID \<circ> ar_Route) applied\<rparr>" "t' = t2" "h' = h2"
          using unfolded Inr ins ap None t2(1) by auto
        have "generation \<notin> hg_generation ` set (hi_generations t)" using fresh by fastforce
        with tr None t2 cfg show ?thesis by (simp add: apply_result_ok_def res agrees_def)
      qed
    qed
  qed
qed



section \<open>A failing commit\<close>

lemma gen_target_inject:
  assumes "1 \<le> i" "1 \<le> j" "gen_target ingress_root i = gen_target ingress_root j"
  shows "i = j"
proof -
  have "path_elems ingress_root @ [''generations'', itoa i] = path_elems ingress_root @ [''generations'', itoa j]"
    using nginx.target_elems [of i] nginx.target_elems [of j] assms unfolding root_names by metis
  then show ?thesis by (simp add: itoa_inject)
qed

text \<open>
  When the database refuses the transaction after the switch, the error is returned with the link on
  the new generation, while the tables keep the old one as active.
\<close>

lemma ingress_commit_gap:
  assumes run: "apply_configuration (nginx_runtime (NewNginxRuntime run)) (Some err) op now applied conf t h = (Inl (Rejected e), t', h')"
    and ok: "ingress_ok t" and changed: "t' \<noteq> t"
  shows "active_gens t' = active_gens t
    \<and> (\<forall>g \<in> set (active_gens t'). current_link ingress_root h' \<noteq> Some (gen_target ingress_root g))"
proof -
  define minimum where "minimum = max_generation (map hg_generation (hi_generations t)) + 1"
  define previous where "previous = max_generation (active_gens t)"
  obtain r1 h1 where n: "NextUnusedGeneration ingress_root minimum h = (r1, h1)" by fastforce
  note unfolded = run [unfolded apply_configuration_def Let_def minimum_def [symmetric] active_gens_def [symmetric]
      previous_def [symmetric] n prod.case]
  from unfolded changed obtain generation t1 c h2 where g: "r1 = Inr generation"
    and ins: "insert_prepared (prepared_row generation previous op now) t = Inr t1"
    and ap: "Apply (Some (nginx_runtime (NewNginxRuntime run))) generation previous conf h1 = ((c, None), h2)"
    and res: "t' = t1" "h' = h2"
    by (auto split: sum.splits prod.splits option.splits)
  have pos: "1 \<le> i \<and> i < generation" if "i \<in> set (active_gens t)" for i
  proof -
    from that obtain x where x: "x \<in> set (hi_generations t)" "i = hg_generation x" by (auto simp: active_gens_def)
    have "minimum \<le> generation" using next_generation_ge n g by simp
    with x max_generation_ge [of i "map hg_generation (hi_generations t)"] ok show ?thesis
      by (auto simp: minimum_def ingress_ok_def)
  qed
  have "active_gens t' = active_gens t" using ins by (auto simp: res insert_prepared_iff active_gens_def prepared_row_def)
  moreover have "current_link ingress_root h' = Some (gen_target ingress_root generation)"
    using nginx.Apply_outcome [OF ap, unfolded root_names] by (simp add: res)
  moreover have "gen_target ingress_root i \<noteq> gen_target ingress_root generation" if "i \<in> set (active_gens t)" for i
    using pos [OF that] gen_target_inject [of i generation] by auto
  ultimately show ?thesis by (metis option.inject)
qed

end
