(* ===== verification/Ingress_Store_Spec.thy ===== *)
theory Ingress_Store_Spec
  imports Ingress_Spec
begin

text \<open>
  The store of routes and generations in the control database: its constraints as an invariant
  of every operation, what a commit of a generation does, and example routes on which the
  properties of the rendered configuration hold.
\<close>

section \<open>The store of the control database\<close>

definition store_ok :: "ingress_store \<Rightarrow> bool" where
  "store_ok s = (tbl_wf rt_ID (is_routes s) \<and> distinct (map rt_Hostname (is_routes s))
     \<and> (\<forall>r \<in> set (is_routes s). route_row_ok r \<and> rt_InstallationID r \<in> set (is_installations s))
     \<and> tbl_wf cg_generation (is_generations s) \<and> distinct (map cg_operation_id (is_generations s))
     \<and> at_most_one_active cg_status (is_generations s)
     \<and> (\<forall>g \<in> set (is_generations s). cg_status g \<in> set generation_statuses))"

inductive store_step :: "ingress_store \<Rightarrow> ingress_store \<Rightarrow> bool" where
  create: "CreateRoute route now (Some s) = Inr (r, s') \<Longrightarrow> store_step s s'"
| desired: "SetDesiredState routeID state now s = Inr (r, s') \<Longrightarrow> store_step s s'"
| recorded: "RecordGeneration c op status code now s = Inr s' \<Longrightarrow> store_step s s'"
| committed: "CommitGeneration c ids now s = Inr s' \<Longrightarrow> store_step s s'"

text \<open>An update of routes that keeps their identities.\<close>

lemma store_ok_routes:
  assumes "store_ok s" and "\<And>r. rt_ID (f r) = rt_ID r \<and> rt_Hostname (f r) = rt_Hostname r \<and> rt_InstallationID (f r) = rt_InstallationID r"
    and "\<And>r. route_row_ok r \<Longrightarrow> route_row_ok (f r)"
  shows "store_ok (s\<lparr>is_routes := sql_update P f (is_routes s)\<rparr>)"
proof -
  have "map rt_Hostname (sql_update P f (is_routes s)) = map rt_Hostname (is_routes s)"
    by (rule sql_update_cong_keys) (simp add: assms)
  moreover have "tbl_wf rt_ID (sql_update P f (is_routes s)) = tbl_wf rt_ID (is_routes s)"
    by (rule tbl_wf_update_total) (simp add: assms)
  ultimately show ?thesis
    using assms by (auto simp: store_ok_def set_sql_update)
qed

lemma store_ok_generations:
  assumes "store_ok s" and "\<And>g. cg_generation (f g) = cg_generation g \<and> cg_operation_id (f g) = cg_operation_id g"
    and "\<And>g. cg_status (f g) \<in> set generation_statuses"
    and "at_most_one_active cg_status (sql_update P f (is_generations s))"
  shows "store_ok (s\<lparr>is_generations := sql_update P f (is_generations s)\<rparr>)"
proof -
  have "map cg_operation_id (sql_update P f (is_generations s)) = map cg_operation_id (is_generations s)"
    by (rule sql_update_cong_keys) (simp add: assms)
  moreover have "tbl_wf cg_generation (sql_update P f (is_generations s)) = tbl_wf cg_generation (is_generations s)"
    by (rule tbl_wf_update_total) (simp add: assms)
  ultimately show ?thesis
    using assms by (auto simp: store_ok_def set_sql_update)
qed

lemma fewer_active:
  assumes "\<And>g. cg_status (f g) \<noteq> ''active''"
  shows "length (filter (\<lambda>g. cg_status g = ''active'') (sql_update P f gs)) \<le> length (filter (\<lambda>g. cg_status g = ''active'') gs)"
  by (induction gs) (auto simp: sql_update_def assms)

lemma create_keeps:
  assumes "store_ok s" "CreateRoute route now (Some s) = Inr (r, s')"
  shows "store_ok s'"
proof -
  let ?r = "route\<lparr>rt_CreatedAt := now, rt_UpdatedAt := now\<rparr>"
  from assms(2) have "tbl_get rt_ID (rt_ID ?r) (is_routes s) = None" "route_row_ok ?r" "rt_InstallationID ?r \<in> set (is_installations s)"
    and h: "\<forall>x \<in> set (is_routes s). rt_Hostname x \<noteq> rt_Hostname ?r" and s': "s' = s\<lparr>is_routes := is_routes s @ [?r]\<rparr>"
    by (auto simp: CreateRoute_def Let_def bind_result_Inr_iff sql_insert_Inr_iff split: if_splits)
  moreover have "rt_Hostname ?r \<notin> rt_Hostname ` set (is_routes s)" using h by (metis imageE)
  ultimately show ?thesis using assms(1) unfolding store_ok_def s' by (simp add: tbl_wf_append)
qed

lemma desired_keeps:
  assumes "store_ok s" "SetDesiredState i state now s = Inr (r, s')"
  shows "store_ok s'"
proof -
  have s': "s' = s\<lparr>is_routes := sql_update (\<lambda>r. rt_ID r = i) (\<lambda>r. r\<lparr>rt_DesiredState := state, rt_UpdatedAt := now\<rparr>) (is_routes s)\<rparr>"
    and st: "state = Enabled \<or> state = Disabled"
    using assms(2) by (auto simp: SetDesiredState_def Let_def bind_result_Inr_iff split: if_splits)
  show ?thesis unfolding s' by (rule store_ok_routes [OF assms(1)]) (use st in \<open>auto simp: route_row_ok_def\<close>)
qed

lemma recorded_keeps:
  assumes ok: "store_ok s" and r: "RecordGeneration c op status code now s = Inr s'"
  shows "store_ok s'"
proof (cases "\<exists>g \<in> set (is_generations s). cg_generation g = cd_Generation c")
  case True
  let ?f = "\<lambda>g. g\<lparr>cg_status := status, cg_updated_at := now, cg_failure_code := code\<rparr>"
  from True r have "at_most_one_active cg_status (sql_update (\<lambda>g. cg_generation g = cd_Generation c) ?f (is_generations s))"
    and s': "s' = s\<lparr>is_generations := sql_update (\<lambda>g. cg_generation g = cd_Generation c) ?f (is_generations s)\<rparr>"
    and st: "status \<in> set generation_statuses"
    by (auto simp: RecordGeneration_def put_generations_def split: if_splits)
  then show ?thesis unfolding s' by (intro store_ok_generations [OF ok]) simp_all
next
  case False
  with r ok show ?thesis
    by (auto simp: RecordGeneration_def put_generations_def store_ok_def tbl_wf_append tbl_get_None_iff split: if_splits)
qed

lemma apply_routes_effect:
  assumes "fold_result (apply_route i now) ids s = Inr s'"
  shows "is_generations s' = is_generations s \<and> is_installations s' = is_installations s
    \<and> is_routes s' = sql_update (\<lambda>r. rt_ID r \<in> set ids \<and> rt_DesiredState r = Enabled)
         (\<lambda>r. r\<lparr>rt_AppliedGeneration := i, rt_UpdatedAt := now\<rparr>) (is_routes s)"
  using assms
proof (induction ids arbitrary: s)
  case Nil
  then show ?case by (simp add: sql_update_def map_idI)
next
  case (Cons a ids)
  then obtain s1 where 1: "apply_route i now a s = Inr s1" "fold_result (apply_route i now) ids s1 = Inr s'"
    by (auto simp: bind_result_Inr_iff)
  from 1(1) have "s1 = s\<lparr>is_routes := sql_update (\<lambda>r. rt_ID r = a \<and> rt_DesiredState r = Enabled)
         (\<lambda>r. r\<lparr>rt_AppliedGeneration := i, rt_UpdatedAt := now\<rparr>) (is_routes s)\<rparr>"
    by (simp add: apply_route_def split: if_splits)
  with Cons.IH [OF 1(2)] show ?case by (auto simp: sql_update_def)
qed

lemma commit_effect:
  assumes ok: "store_ok s" and c: "CommitGeneration c ids now s = Inr s'"
  shows "store_ok s' \<and> map cg_generation (filter (\<lambda>g. cg_status g = ''active'') (is_generations s')) = [cd_Generation c]
    \<and> map cg_generation (is_generations s') = map cg_generation (is_generations s)
    \<and> is_routes s' = sql_update (\<lambda>r. rt_ID r \<in> set ids \<and> rt_DesiredState r = Enabled)
         (\<lambda>r. r\<lparr>rt_AppliedGeneration := cd_Generation c, rt_UpdatedAt := now\<rparr>) (is_routes s)"
proof -
  let ?g = "\<lambda>g. g\<lparr>cg_status := ''rolled_back'', cg_updated_at := now\<rparr>"
  let ?f = "\<lambda>g. g\<lparr>cg_status := ''active'', cg_updated_at := now, cg_failure_code := []\<rparr>"
  define retired where "retired = (if 0 < cd_PreviousGeneration c
      then sql_update (\<lambda>g. cg_generation g = cd_PreviousGeneration c \<and> cg_status g = ''active'') ?g (is_generations s) else is_generations s)"
  define act where "act = sql_update (\<lambda>g. cg_generation g = cd_Generation c) ?f retired"
  from c have one: "at_most_one_active cg_status act" and cnt: "sql_count (\<lambda>g. cg_generation g = cd_Generation c) retired = 1"
    and fr: "fold_result (apply_route (cd_Generation c) now) ids (s\<lparr>is_generations := act\<rparr>) = Inr s'"
    unfolding CommitGeneration_def Let_def retired_def [symmetric] act_def [symmetric]
    by (auto simp: put_generations_def bind_result_Inr_iff split: if_splits)
  have am: "at_most_one_active cg_status retired"
  proof -
    have "length (filter (\<lambda>g. cg_status g = ''active'') retired) \<le> length (filter (\<lambda>g. cg_status g = ''active'') (is_generations s))"
      unfolding retired_def by (simp add: fewer_active)
    with ok show ?thesis by (simp add: store_ok_def at_most_one_active_def)
  qed
  have ok1: "store_ok (s\<lparr>is_generations := retired\<rparr>)"
    using ok am store_ok_generations [OF ok, of ?g] by (auto simp: retired_def generation_statuses_def)
  have ok2: "store_ok (s\<lparr>is_generations := act\<rparr>)"
    using store_ok_generations [OF ok1, of ?f "\<lambda>g. cg_generation g = cd_Generation c"] one
    by (simp add: act_def generation_statuses_def)
  have keys: "map cg_generation act = map cg_generation (is_generations s)"
    by (simp add: act_def retired_def sql_update_cong_keys)
  obtain x where x: "x \<in> set act" "cg_generation x = cd_Generation c" "cg_status x = ''active''"
  proof -
    from cnt have "filter (\<lambda>g. cg_generation g = cd_Generation c) retired \<noteq> []" by (auto simp: sql_count_def)
    then obtain y where "y \<in> set retired" "cg_generation y = cd_Generation c" by (auto simp: filter_empty_conv)
    with that [of "?f y"] show thesis by (auto simp: act_def set_sql_update)
  qed
  have sing: "map cg_generation (filter (\<lambda>g. cg_status g = ''active'') act) = [cd_Generation c]"
  proof -
    have "x \<in> set (filter (\<lambda>g. cg_status g = ''active'') act)" "length (filter (\<lambda>g. cg_status g = ''active'') act) \<le> 1"
      using x one by (simp_all add: at_most_one_active_def)
    then have "filter (\<lambda>g. cg_status g = ''active'') act = [x]"
      by (cases "filter (\<lambda>g. cg_status g = ''active'') act") auto
    with x show ?thesis by simp
  qed
  note e = apply_routes_effect [OF fr]
  have "s' = s\<lparr>is_generations := act, is_routes := is_routes s'\<rparr>" using e by (cases s') (simp add: ingress_store.defs)
  moreover have "store_ok (s\<lparr>is_generations := act\<rparr>\<lparr>is_routes := is_routes s'\<rparr>)"
    using store_ok_routes [OF ok2] e by (simp add: route_row_ok_def)
  ultimately have "store_ok s'" by simp
  with e sing keys show ?thesis by simp
qed


section \<open>Examples\<close>

definition demo_route :: "string \<Rightarrow> string \<Rightarrow> int \<Rightarrow> AppliedRoute" where
  "demo_route i host port = \<lparr>ar_Route = \<lparr>rt_ID = ''route-'' @ i, rt_InstallationID = ''notes-1'', rt_ServiceID = ''web'', rt_Hostname = host,
     rt_ExposureMode = IngressLAN, rt_UpstreamProtocol = ''http'', rt_TLSPolicy = TLSNone, rt_CertificateID = [],
     rt_ProviderID = [], rt_DesiredState = Enabled, rt_AppliedGeneration = 0, rt_CreatedAt = [], rt_UpdatedAt = []\<rparr>,
     ar_Backend = \<lparr>be_Address = ''127.0.0.1'', be_Port = port\<rparr>\<rparr>"

definition demo_opts :: RenderOptions where
  "demo_opts = \<lparr>ro_CertificateRoot = [], ro_WorkerUser = []\<rparr>"

definition demo_a :: AppliedRoute where "demo_a = demo_route ''0123456789abcdef'' ''a.example'' 20001"
definition demo_b :: AppliedRoute where "demo_b = demo_route ''fedcba9876543210'' ''b.example'' 20002"

lemmas demo_chars = label_end_def identity_char_def is_lower_def is_digit_def is_hex_lower_def less_eq_char_def

lemma demo_names: "dns_name ''a.example''" "dns_name ''b.example''"
  by (simp_all add: dns_name_def ParseIP_def parse_ipv4_def labelPattern_def demo_chars)

lemma demo_hosts: "NormalizeHostname ''a.example'' = Inr ''a.example''" "NormalizeHostname ''b.example'' = Inr ''b.example''"
  using NormalizeHostname_self demo_names by blast+

lemma demo_checked: "check_route demo_a False = Inr ()" "check_route demo_b False = Inr ()"
  by (simp_all add: check_route_def demo_a_def demo_b_def demo_route_def ValidateRoute_def ValidateBackend_def policy_check_def
    demo_hosts demo_loopback routePattern_def ingressIdentityPattern_def match_prefix_rep_def match_head_tail_def has_prefix_def ingress_names demo_chars del: One_nat_def)

lemma demo_opts_ok: "ingressIdentityPattern (ro_WorkerUser (with_defaults demo_opts))"
   "clean_path (ro_CertificateRoot (with_defaults demo_opts))"
  by code_simp+

lemma ipv6_backend: "ValidateBackend \<lparr>be_Address = ''::1'', be_Port = 20001\<rparr> = Inr ()"
  by code_simp

lemma demo_rendered: "\<exists>conf. RenderNginx rs demo_opts = Inr conf"
  if "\<forall>a \<in> set rs. check_route a False = Inr ()" "distinct (map (rt_Hostname \<circ> ar_Route) rs)" "distinct (map (rt_ID \<circ> ar_Route) rs)"
proof -
  have "NormalizeRoutes rs = Inr (sort_key route_order rs)" using that by (simp add: NormalizeRoutes_iff)
  with demo_opts_ok show ?thesis unfolding RenderNginx_def clean_path_def Let_def by (simp only: bind_result_simps if_False simp_thms) blast
qed

lemma demo_distinct: "distinct (map (rt_Hostname \<circ> ar_Route) [demo_a, demo_b])" "distinct (map (rt_ID \<circ> ar_Route) [demo_a, demo_b])"
  by (simp_all add: demo_a_def demo_b_def demo_route_def)

theorem hostname_normal_form_witness:
  "dns_name ''a.example'' \<and> NormalizeHostname ''a.example'' = Inr ''a.example''"
  using hostname_normal_form [of "''a.example''"] demo_names by blast

theorem render_order_independent_witness:
  "\<exists>conf. RenderNginx [demo_a, demo_b] demo_opts = Inr conf \<and> RenderNginx [demo_b, demo_a] demo_opts = Inr conf"
proof -
  obtain conf where "RenderNginx [demo_a, demo_b] demo_opts = Inr conf"
    using demo_rendered [of "[demo_a, demo_b]"] demo_checked demo_distinct by auto
  with render_order_independent [OF _ this, of "[demo_b, demo_a]"] show ?thesis by auto
qed

theorem render_structure_witness:
  "\<exists>conf conf'. RenderNginx [demo_a] demo_opts = Inr conf \<and> RenderNginx [demo_b] demo_opts = Inr conf'
     \<and> filter syntax_char conf = filter syntax_char conf'"
proof -
  obtain conf conf' where c: "RenderNginx [demo_a] demo_opts = Inr conf" "RenderNginx [demo_b] demo_opts = Inr conf'"
    using demo_rendered [of "[demo_a]"] demo_rendered [of "[demo_b]"] demo_checked by auto
  have "map shape (sort_key route_order [demo_a]) = map shape (sort_key route_order [demo_b])"
    by (simp add: shape_def demo_a_def demo_b_def demo_route_def)
  from render_structure [OF c this] c show ?thesis by blast
qed

end
