(* ===== verification/Ingress_Live.thy ===== *)
theory Ingress_Live
  imports Ingress_Apply_Spec Ingress_Store_Spec Coordinator_Spec
begin

text \<open>
  A host on which nothing fails: the properties of the ingress runtime and of the helper operation at
  work, from an empty table to the first active generation.
\<close>

definition demo_root :: "string list" where
  "demo_root = [''var'', ''lib'', ''kitpro-helper'', ''ingress'']"

definition demo_host :: "reload_env host" where
  "demo_host = \<lparr>hs_fs = [(demo_root, FsDir), ([''var''], FsDir), ([''var'', ''lib''], FsDir), ([''var'', ''lib'', ''kitpro-helper''], FsDir),
       ([''run''], FsDir), ([''run'', ''kitpro''], FsDir), (demo_root @ [''bootstrap''], FsDir),
       (demo_root @ [''run'', ''nginx.pid''], FsFile ''42''), ([''proc'', ''42'', ''comm''], FsFile ''nginx'')],
     hs_faults = [], hs_env = [(Some [1, 2], [None, Some ''0102''])]\<rparr>"

lemma trim_space_fast [code]:
  "trim_space s = (if list_all visible_ascii s then s else concat (map snd (trim_runes (utf8_runes s))))"
  using trim_space_visible [of s] trim_space_def [of s] by simp

definition demo_candidate :: "string \<Rightarrow> string \<Rightarrow> Candidate" where
  "demo_candidate conf sha = \<lparr>cd_Generation = 1, cd_PreviousGeneration = 0, cd_Configuration = conf, cd_SHA256 = sha\<rparr>"

abbreviation demo_runtime :: "reload_env NginxRuntime" where
  "demo_runtime \<equiv> NewNginxRuntime (\<lambda>_ _. True)"

definition demo_prepared :: "string \<Rightarrow> reload_env host" where
  "demo_prepared conf = demo_host\<lparr>hs_fs := (demo_root @ [''generations'', ''1'', ''nginx.conf''], FsFile conf)
     # (demo_root @ [''generations'', ''1'', ''logs''], FsDir) # (demo_root @ [''generations'', ''1'', ''run''], FsDir)
     # (demo_root @ [''generations'', ''1''], FsDir) # (demo_root @ [''generations''], FsDir) # hs_fs demo_host\<rparr>"

lemma demo_run: "fst (run_candidate (nginx_runtime demo_runtime) (demo_candidate conf sha) demo_host) = None"
  by code_simp


lemma demo_apply:
  assumes "conf \<noteq> []" and "length conf \<le> 1024 * 1024"
  shows "\<exists>h'. Apply (Some (nginx_runtime demo_runtime)) 1 0 conf demo_host = ((candidate_of 1 0 conf, None), h')"
proof -
  obtain e h' where r: "run_candidate (nginx_runtime demo_runtime) (candidate_of 1 0 conf) demo_host = (e, h')" by fastforce
  with demo_run [of conf "sha256_hex conf"] have "e = None" by (simp add: demo_candidate_def candidate_of_def)
  with r assms show ?thesis by (auto simp: Apply_def)
qed

theorem ingress_transaction_witness:
  "\<exists>h'. Apply (Some (nginx_runtime demo_runtime)) 1 0 ''http {}'' demo_host = ((candidate_of 1 0 ''http {}'', None), h')
     \<and> current_link ingress_root h' = Some (gen_target ingress_root 1) \<and> config_at ingress_root 1 h' = Some ''http {}''"
proof -
  obtain h' where "Apply (Some (nginx_runtime demo_runtime)) 1 0 ''http {}'' demo_host = ((candidate_of 1 0 ''http {}'', None), h')"
    using demo_apply [of "''http {}''"] by auto
  with ingress_transaction [OF this] show ?thesis by auto
qed

section \<open>The first generation\<close>

lemma demo_next: "NextUnusedGeneration ingress_root 1 demo_host = (Inr 1, demo_host)"
  by code_simp

definition no_generations :: ingress_tables where
  "no_generations = \<lparr>hi_generations = [], hi_routes = []\<rparr>"

lemma demo_empty_conf:
  "\<exists>conf. RenderNginx [] demo_opts = Inr conf \<and> conf \<noteq> [] \<and> length conf \<le> 1024 * 1024"
proof -
  obtain conf where c: "RenderNginx [] demo_opts = Inr conf" using demo_rendered [of "[]"] by auto
  have "conf = render_head (ro_WorkerUser (with_defaults demo_opts)) @ unlines [''}'']"
    using rendered [OF c rendered_normal [OF c]] by (simp add: render_cloudflare_default_def)
  moreover have "length (render_head (ro_WorkerUser (with_defaults demo_opts)) @ unlines [''}'']) \<le> 1024 * 1024"
    by (simp add: render_head_def unlines_def writeACMEChallengeLocation_def acmeChallengeSocket_def demo_opts_def with_defaults_def)
  ultimately show ?thesis using c by (auto simp: unlines_def)
qed

definition demo_ingress_request :: Request where
  "demo_ingress_request = demo_request (CHR ''1'') ''ApplyIngressGeneration''"


section \<open>Choosing a generation\<close>

definition crowded_host :: "reload_env host" where
  "crowded_host = \<lparr>hs_fs = [(demo_root @ [''generations''], FsDir), (demo_root @ [''generations'', ''7''], FsDir),
     (demo_root @ [''generations'', ''12''], FsDir), (demo_root @ [''generations'', ''old''], FsDir)], hs_faults = [], hs_env = []\<rparr>"

theorem next_generation_fresh_witness:
  "NextUnusedGeneration ingress_root 3 crowded_host = (Inr 13, crowded_host)
     \<and> fs_get (hs_fs crowded_host) (path_elems ingress_root @ [''generations'', itoa 13]) = None"
proof -
  have n: "NextUnusedGeneration ingress_root 3 crowded_host = (Inr 13, crowded_host)" by code_simp
  have "fst (next_fault crowded_host) = None" "fs_get (hs_fs crowded_host) (path_elems ingress_root @ [''generations'']) \<noteq> None"
    by code_simp+
  with next_generation_fresh [OF n _ root_names(2)] n show ?thesis by (simp add: max_int64_def)
qed

section \<open>The store\<close>

definition empty_store :: ingress_store where
  "empty_store = \<lparr>is_routes = [], is_generations = [], is_installations = [''notes-1'']\<rparr>"


end
