(* ===== verification/Restore_Plan.thy ===== *)
theory Restore_Plan
  imports Gen_Store Manifest Topology Coordinator Go_File
begin

text \<open>
  \<^verbatim>\<open>cmd/kitpro-helper/application_backup.go\<close>: the plan of a backup or a restore, read from
  the catalogue, the helper database and the managed storage on disk, the generated secrets,
  and the checks of a backup's manifest against the plan. The tables of a restore are those
  of \<^verbatim>\<open>internal/state/state.go\<close>. The catalogue is the map of the manifests shipped with the
  program.
\<close>

section \<open>Tables\<close>

record component_ownership_row =
  cw_installation_id :: string
  cw_component_id :: string
  cw_container_id :: string
  cw_container_name :: string
  cw_network_name :: string
  cw_image_digest :: string
  cw_runtime_generation :: int
  cw_created_at :: string

record secret_row =
  sr_installation_id :: string
  sr_component_id :: string
  sr_name :: string
  sr_value :: string
  sr_created_at :: string

record storage_root_row =
  rr_root_id :: string
  rr_display_name :: string
  rr_canonical_path :: string
  rr_allowed_mode :: string
  rr_device_major :: "64 word"
  rr_device_minor :: "64 word"
  rr_inode :: "64 word"
  rr_filesystem_type :: string
  rr_mount_source :: string
  rr_mount_point :: string
  rr_network_backed :: bool
  rr_created_at :: string

record external_binding_row =
  xb_installation_id :: string
  xb_component_id :: string
  xb_slot_id :: string
  xb_root_id :: string
  xb_access_mode :: string
  xb_container_path :: string
  xb_runtime_generation :: int
  xb_created_at :: string

text \<open>The status of a backup is always \<open>complete\<close>.\<close>

record application_backup_row =
  ab_backup_id :: string
  ab_installation_id :: string
  ab_application_id :: string
  ab_release_id :: string
  ab_runtime_generation :: int
  ab_archive_path :: string
  ab_archive_sha256 :: string
  ab_created_at :: string

record secretValue =
  sv_Component :: string
  sv_Name :: string
  sv_Value :: string

record secretValues =
  sv_Version :: int
  sv_Values :: "secretValue list"

datatype restore_phase =
    RValidated | RStaged | RSwapping | RRuntimeRestorePending | RCommitted
  | RCleanupPending | RCompleted | RRolledBack | RActionRequired

datatype step_phase =
    SStaged | SOriginalToRollbackPrepared | SOriginalToRollbackDispatched | SOriginalToRollbackConfirmed
  | SStagedToActivePrepared | SStagedToActiveDispatched | SStagedToActiveConfirmed
  | SCleanupPending | SCompleted | SRolledBack | SActionRequired

text \<open>JSON columns hold the value they encode.\<close>

record restore_operation =
  ro_operation_id :: string
  ro_installation_id :: string
  ro_backup_id :: string
  ro_fencing_token :: int
  ro_phase :: restore_phase
  ro_running_components :: "string list"
  ro_original_secrets :: secretValues
  ro_restored_secrets :: secretValues
  ro_started_at :: string
  ro_updated_at :: string
  ro_completed_at :: "string option"
  ro_cleanup_error :: string
  ro_error_detail :: string

record restorePathIdentity =
  pi_Device :: "64 word"
  pi_Inode :: "64 word"

record restore_step =
  rs_operation_id :: string
  rs_storage_key :: string
  rs_original_path :: string
  rs_staged_path :: string
  rs_rollback_path :: string
  rs_original :: restorePathIdentity
  rs_staged :: restorePathIdentity
  rs_phase :: step_phase
  rs_original_to_rollback_dispatched :: bool
  rs_original_to_rollback_confirmed :: bool
  rs_staged_to_active_dispatched :: bool
  rs_staged_to_active_confirmed :: bool
  rs_cleanup_dispatched :: bool
  rs_cleanup_confirmed :: bool
  rs_error_detail :: string
  rs_updated_at :: string

record restore_db =
  rd_helper :: helper_db
  rd_component_ownership :: "component_ownership_row list"
  rd_secrets :: "secret_row list"
  rd_roots :: "storage_root_row list"
  rd_external :: "external_binding_row list"
  rd_backups :: "application_backup_row list"
  rd_restores :: "restore_operation list"
  rd_steps :: "restore_step list"

section \<open>Managed storage on disk\<close>

text \<open>
  What is at a path of the managed root: its device and inode, whether it is a directory and
  the files below it. Paths of one installation's storages lie side by side, none inside
  another, so a map from path to tree is enough for the renames and removals of whole trees.
\<close>

record managed_tree =
  mt_id :: restorePathIdentity
  mt_dir :: bool
  mt_files :: "string list"

type_synonym disk = "string \<rightharpoonup> managed_tree"

definition managedApplicationRoot :: string where
  "managedApplicationRoot = ''/srv/kitpro/apps''"

section \<open>Plans\<close>

record AComponent =
  bc_ID :: string
  bc_ImageDigest :: string
  bc_DependsOn :: "string list"

record AStorage =
  bst_Component :: string
  bst_ID :: string
  bst_Disposition :: string
  bst_ArchivePath :: string
  bst_OwnerUID :: int
  bst_OwnerGID :: int

record ImportedStorage =
  is_Component :: string
  is_SlotID :: string
  is_RootID :: string
  is_AccessMode :: string
  is_Filesystem :: string
  is_DeviceMajor :: "64 word"
  is_DeviceMinor :: "64 word"
  is_Inode :: "64 word"
  is_NetworkBacked :: bool
  is_ContentIncluded :: bool
  is_ExclusionReason :: string

record Database =
  db_Engine :: string
  db_Component :: string
  db_StorageID :: string
  db_RelativePath :: string
  db_IntegrityCheck :: string

record BackupManifest =
  bm_ApplicationID :: string
  bm_InstallationID :: string
  bm_ReleaseID :: string
  bm_RuntimeGeneration :: int
  bm_Strategy :: string
  bm_Components :: "AComponent list"
  bm_Storage :: "AStorage list"
  bm_ImportedStorage :: "ImportedStorage list"
  bm_Databases :: "Database list"

record managedBackupStorage =
  mb_Manifest :: AStorage
  mb_HostPath :: string

record ownedBackupComponent =
  oc_Manifest :: AComponent
  oc_Runtime :: string
  oc_Running :: bool

record applicationBackupPlan =
  ap_Application :: Manifest
  ap_ReleaseID :: string
  ap_Generation :: int
  ap_Components :: "ownedBackupComponent list"
  ap_Storage :: "managedBackupStorage list"
  ap_Imported :: "ImportedStorage list"
  ap_Secrets :: secretValues
  ap_StartOrder :: "string list"

text \<open>\<open>m[k] = v\<close> on a map, in which later assignments replace earlier ones.\<close>

definition map_put :: "string \<Rightarrow> 'v \<Rightarrow> 'v go_map \<Rightarrow> 'v go_map" where
  "map_put k v m = (k, v) # filter (\<lambda>e. fst e \<noteq> k) m"

definition map_delete :: "string \<Rightarrow> 'v go_map \<Rightarrow> 'v go_map" where
  "map_delete k m = filter (\<lambda>e. fst e \<noteq> k) m"

definition map_puts :: "(string \<times> 'v) list \<Rightarrow> 'v go_map" where
  "map_puts entries = fold (\<lambda>(k, v). map_put k v) entries []"

definition storageKey :: "string \<Rightarrow> string \<Rightarrow> string" where
  "storageKey component i = component @ ''/'' @ i"

definition pathJoin :: "string list \<Rightarrow> string" where
  "pathJoin parts = join_with ''/'' parts"

definition backupIDPattern :: "string \<Rightarrow> bool" where
  "backupIDPattern s = match_prefix_rep ''op-'' is_hex_lower 32 s"

definition releaseImage :: "Manifest \<Rightarrow> string \<Rightarrow> string result" where
  "releaseImage application releaseID =
     (case find (\<lambda>r. rl_Version r = releaseID) (ma_Releases application) of
        Some r \<Rightarrow> Inr (rl_Registry r @ ''/'' @ rl_Repository r @ ''@'' @ rl_Digest r)
      | None \<Rightarrow> Inl (Errorf ''trusted release unavailable''))"

definition componentImage :: "Manifest \<Rightarrow> MComponent \<Rightarrow> string result" where
  "componentImage application c = releaseImage application (mk_Release c)"

definition sameStringSet :: "string list \<Rightarrow> string list \<Rightarrow> bool" where
  "sameStringSet left right =
     (if length left \<noteq> length right then False
      else list_all (\<lambda>(a, b). a = b) (zip (sort left) (sort right)))"

text \<open>A declaration of each component, the application itself under the name \<open>app\<close>.\<close>

definition declared_items :: "(MComponent \<Rightarrow> 'a list) \<Rightarrow> ('a \<Rightarrow> string) \<Rightarrow> 'a list \<Rightarrow> MComponent list \<Rightarrow> 'a go_map" where
  "declared_items items name own cs =
     map_puts (map (\<lambda>x. (storageKey ''app'' (name x), x)) own
       @ concat (map (\<lambda>c. map (\<lambda>x. (storageKey (mk_ID c) (name x), x)) (items c)) cs))"

subsection \<open>Storage\<close>

definition storage_host_path :: "Manifest \<Rightarrow> string \<Rightarrow> BackupStorage \<Rightarrow> string" where
  "storage_host_path application installationID policy =
     (let base = filepath_Join [managedApplicationRoot, ma_ID application, installationID];
          dir = (if bs_Component policy \<noteq> ''app'' then filepath_Join [base, bs_Component policy] else base)
      in filepath_Join [dir, bs_ID policy])"

definition backup_storage_entry ::
  "Manifest \<Rightarrow> string \<Rightarrow> disk \<Rightarrow> MStorage go_map \<Rightarrow> BackupStorage \<Rightarrow> managedBackupStorage result" where
  "backup_storage_entry application installationID disk declared policy =
     (case map_of declared (storageKey (bs_Component policy) (bs_ID policy)) of
        None \<Rightarrow> Inl (Errorf ''trusted backup storage unavailable'')
      | Some item \<Rightarrow>
        let hostPath = storage_host_path application installationID policy;
            archivePath = (if bs_Disposition policy = ''include''
              then pathJoin [''application'', bs_Component policy, bs_ID policy] else [])
        in (case disk hostPath of
              Some t \<Rightarrow> if mt_dir t
                then Inr \<lparr>mb_Manifest = \<lparr>bst_Component = bs_Component policy, bst_ID = bs_ID policy,
                       bst_Disposition = bs_Disposition policy, bst_ArchivePath = archivePath,
                       bst_OwnerUID = sg_OwnerUID item, bst_OwnerGID = sg_OwnerGID item\<rparr>, mb_HostPath = hostPath\<rparr>
                else Inl (Errorf ''managed backup storage unavailable'')
            | None \<Rightarrow> Inl (Errorf ''managed backup storage unavailable'')))"

fun map_result :: "('a \<Rightarrow> 'b result) \<Rightarrow> 'a list \<Rightarrow> 'b list result" where
  "map_result f [] = Inr []"
| "map_result f (x # xs) = bind_result (f x) (\<lambda>y. bind_result (map_result f xs) (\<lambda>ys. Inr (y # ys)))"

definition backupStoragePlan :: "Manifest \<Rightarrow> BackupPolicy \<Rightarrow> string \<Rightarrow> disk \<Rightarrow> managedBackupStorage list result" where
  "backupStoragePlan application policy installationID disk =
     (let declared = declared_items mk_Storage sg_ID (ma_Storage application) (ma_Components application)
      in map_result (backup_storage_entry application installationID disk declared) (bp_Storage policy))"

definition archive_component :: "string \<Rightarrow> string" where
  "archive_component component = (if component = [] then ''app'' else component)"

text \<open>The bindings of the installation with the roots they bind, in the order of the query.\<close>

definition external_rows :: "string \<Rightarrow> restore_db \<Rightarrow> (external_binding_row \<times> storage_root_row) list" where
  "external_rows installationID d =
     concat (map (\<lambda>b. map (Pair b) (filter (\<lambda>r. rr_root_id r = xb_root_id b) (rd_roots d)))
       (sort_key xb_component_id (sort_key xb_slot_id
         (filter (\<lambda>b. xb_installation_id b = installationID) (rd_external d)))))"

fun imported_bindings ::
  "(external_binding_row \<times> storage_root_row) list \<Rightarrow> MExternal go_map \<Rightarrow> (ImportedStorage list \<times> MExternal go_map) result" where
  "imported_bindings [] expected = Inr ([], expected)"
| "imported_bindings ((b, r) # rows) expected =
     (let component = archive_component (xb_component_id b); key = storageKey component (xb_slot_id b) in
      case map_of expected key of
        None \<Rightarrow> Inl (Errorf ''trusted imported storage binding mismatch'')
      | Some declaration \<Rightarrow>
        if xs_Mode declaration \<noteq> xb_access_mode b then Inl (Errorf ''trusted imported storage binding mismatch'')
        else bind_result (imported_bindings rows (map_delete key expected)) (\<lambda>(result, rest).
          Inr (\<lparr>is_Component = component, is_SlotID = xb_slot_id b, is_RootID = xb_root_id b,
             is_AccessMode = xb_access_mode b, is_Filesystem = rr_filesystem_type r,
             is_DeviceMajor = rr_device_major r, is_DeviceMinor = rr_device_minor r, is_Inode = rr_inode r,
             is_NetworkBacked = rr_network_backed r, is_ContentIncluded = False,
             is_ExclusionReason = ''external-administrator-managed''\<rparr> # result, rest)))"

definition loadImportedBackupBindings :: "restore_db \<Rightarrow> string \<Rightarrow> Manifest \<Rightarrow> ImportedStorage list result" where
  "loadImportedBackupBindings d installationID application =
     bind_result (imported_bindings (external_rows installationID d)
        (declared_items mk_ExternalStorage xs_ID (ma_ExternalStorage application) (ma_Components application)))
       (\<lambda>(result, expected). if list_ex (\<lambda>(k, x). xs_Required x) expected
          then Inl (Errorf ''required imported storage binding missing'') else Inr result)"

subsection \<open>Generated secrets\<close>

definition is_hex :: "char \<Rightarrow> bool" where
  "is_hex c = (is_digit c \<or> (CHR ''a'' \<le> c \<and> c \<le> CHR ''f'') \<or> (CHR ''A'' \<le> c \<and> c \<le> CHR ''F''))"

text \<open>\<open>hex.DecodeString\<close> accepts an even number of hexadecimal digits.\<close>

definition hex_decodes :: "string \<Rightarrow> bool" where
  "hex_decodes s = (even (length s) \<and> list_all is_hex s)"

definition generated_env :: "Env \<Rightarrow> bool" where
  "generated_env e = (en_Secret e \<and> en_Generate e \<noteq> [])"

text \<open>The keys of the secrets that the manifest has generated, without duplicates.\<close>

definition expected_secrets :: "Manifest \<Rightarrow> string list" where
  "expected_secrets application =
     remdups (map (\<lambda>e. storageKey ''app'' (en_Name e)) (filter generated_env (ma_Environment application))
       @ concat (map (\<lambda>c. map (\<lambda>e. storageKey (mk_ID c) (en_Name e)) (filter generated_env (mk_Environment c)))
           (ma_Components application)))"

fun scan_secrets :: "secret_row list \<Rightarrow> string list \<Rightarrow> (secretValue list \<times> string list) result" where
  "scan_secrets [] expected = Inr ([], expected)"
| "scan_secrets (r # rows) expected =
     (let component = archive_component (sr_component_id r); key = storageKey component (sr_name r) in
      if key \<notin> set expected \<or> length (sr_value r) \<noteq> 64 then Inl (Errorf ''generated secret inventory mismatch'')
      else if \<not> hex_decodes (sr_value r) then Inl (Errorf ''generated secret inventory invalid'')
      else bind_result (scan_secrets rows (filter (\<lambda>k. k \<noteq> key) expected)) (\<lambda>(result, rest).
        Inr (\<lparr>sv_Component = component, sv_Name = sr_name r, sv_Value = sr_value r\<rparr> # result, rest)))"

definition secrets_of :: "string \<Rightarrow> secret_row list \<Rightarrow> secret_row list" where
  "secrets_of installationID rows =
     sort_key sr_component_id (sort_key sr_name (filter (\<lambda>r. sr_installation_id r = installationID) rows))"

definition loadBackupSecrets :: "restore_db \<Rightarrow> string \<Rightarrow> Manifest \<Rightarrow> secretValues result" where
  "loadBackupSecrets d installationID application =
     bind_result (scan_secrets (secrets_of installationID (rd_secrets d)) (expected_secrets application))
       (\<lambda>(values, expected). if expected \<noteq> [] then Inl (Errorf ''required generated secret missing'')
          else Inr \<lparr>sv_Version = 1, sv_Values = values\<rparr>)"

text \<open>The checks of a decoded secret payload; decoding is that of \<open>encoding/json\<close>.\<close>

fun check_secrets :: "string list \<Rightarrow> secretValue list \<Rightarrow> string list \<Rightarrow> string list result" where
  "check_secrets expected [] seen = Inr seen"
| "check_secrets expected (v # vs) seen =
     (let key = storageKey (sv_Component v) (sv_Name v) in
      if key \<notin> set expected \<or> key \<in> set seen \<or> length (sv_Value v) \<noteq> 64
      then Inl (Errorf ''generated secret payload does not match catalog'')
      else if \<not> hex_decodes (sv_Value v) then Inl (Errorf ''invalid generated secret value'')
      else check_secrets expected vs (key # seen))"

definition readRestoreSecrets :: "secretValues option \<Rightarrow> Manifest \<Rightarrow> secretValues result" where
  "readRestoreSecrets decoded application =
     (case decoded of
        None \<Rightarrow> Inl (Errorf ''invalid generated secret payload'')
      | Some values \<Rightarrow>
        if sv_Version values \<noteq> 1 then Inl (Errorf ''invalid generated secret payload'')
        else bind_result (check_secrets (expected_secrets application) (sv_Values values) []) (\<lambda>seen.
          if length seen \<noteq> length (expected_secrets application)
          then Inl (Errorf ''generated secret payload is incomplete'') else Inr values))"

definition secret_key :: "secret_row \<Rightarrow> string \<times> string \<times> string" where
  "secret_key r = (sr_installation_id r, sr_component_id r, sr_name r)"

definition secret_row_of :: "string \<Rightarrow> string \<Rightarrow> secretValue \<Rightarrow> secret_row" where
  "secret_row_of now installationID v =
     \<lparr>sr_installation_id = installationID, sr_component_id = (if sv_Component v = ''app'' then [] else sv_Component v),
      sr_name = sv_Name v, sr_value = sv_Value v, sr_created_at = now\<rparr>"

text \<open>The transaction: the installation's secrets are deleted and the given ones inserted.\<close>

definition replaceSecrets :: "string \<Rightarrow> string \<Rightarrow> secretValues \<Rightarrow> restore_db \<Rightarrow> restore_db result" where
  "replaceSecrets now installationID values d =
     bind_result (fold_result (\<lambda>v. sql_insert secret_key (secret_row_of now installationID v)) (sv_Values values)
        (filter (\<lambda>r. sr_installation_id r \<noteq> installationID) (rd_secrets d)))
       (\<lambda>rows. Inr (d\<lparr>rd_secrets := rows\<rparr>))"

section \<open>Loading the plan\<close>

record singleRuntimeOwnership =
  so_Generation :: int
  so_ContainerID :: string
  so_ContainerName :: string
  so_NetworkName :: string
  so_Image :: string
  so_ApplicationID :: string
  so_ReleaseID :: string
  so_DataPath :: string
  so_ExposureMode :: string
  so_ServiceID :: string
  so_HostAddress :: string
  so_ServiceProtocol :: string
  so_HostPort :: int
  so_ContainerPort :: int

definition owned_generation :: "gen_row \<times> comp_row \<Rightarrow> singleRuntimeOwnership" where
  "owned_generation gc = (case gc of (g, c) \<Rightarrow> \<lparr>so_Generation = g_runtime_generation g,
     so_ContainerID = c_observed_container_id c, so_ContainerName = c_container_name c,
     so_NetworkName = g_network_name g, so_Image = c_image_digest c, so_ApplicationID = g_application_id g,
     so_ReleaseID = g_release_id g, so_DataPath = g_data_path g, so_ExposureMode = g_exposure_mode g,
     so_ServiceID = g_service_id g, so_HostAddress = g_host_address g, so_ServiceProtocol = g_service_protocol g,
     so_HostPort = g_host_port g, so_ContainerPort = g_container_port g\<rparr>)"

definition owned_legacy :: "ownership_row \<Rightarrow> singleRuntimeOwnership" where
  "owned_legacy w = \<lparr>so_Generation = w_runtime_generation w, so_ContainerID = w_container_id w,
     so_ContainerName = w_container_name w, so_NetworkName = w_network_name w, so_Image = w_image_digest w,
     so_ApplicationID = w_application_id w, so_ReleaseID = w_release_id w, so_DataPath = w_data_path w,
     so_ExposureMode = w_exposure_mode w, so_ServiceID = w_service_id w, so_HostAddress = w_host_address w,
     so_ServiceProtocol = w_service_protocol w, so_HostPort = w_host_port w, so_ContainerPort = w_container_port w\<rparr>"

definition loadSingleRuntime :: "helper_db \<Rightarrow> string \<Rightarrow> singleRuntimeOwnership result" where
  "loadSingleRuntime db installation =
     (case sort_key (\<lambda>(g, c). status_rank (g_status g))
        (filter (\<lambda>(g, c). g_installation_id g = installation \<and> g_status g \<in> set [GActive, GVerificationRequired]
           \<and> c_component_id c = ''app'') (generationSelect db)) of
        gc # _ \<Rightarrow> Inr (owned_generation gc)
      | [] \<Rightarrow> bind_result (sql_row (\<lambda>w. w_instance_id w = installation) (ownership db)) (\<lambda>w. Inr (owned_legacy w)))"

text \<open>The components of the active generation in their start order.\<close>

definition active_components :: "helper_db \<Rightarrow> string \<Rightarrow> (gen_row \<times> comp_row) list" where
  "active_components db installation =
     sort_key (\<lambda>(g, c). c_start_ordinal c) (sort_key (\<lambda>(g, c). c_component_id c)
       (filter (\<lambda>(g, c). c_installation_id c = installation \<and> g_status g = GActive) (generationSelect db)))"

definition owned_component :: "string \<Rightarrow> string \<Rightarrow> string list \<Rightarrow> string \<Rightarrow> ownedBackupComponent" where
  "owned_component i digest dependencies runtimeID =
     \<lparr>oc_Manifest = \<lparr>bc_ID = i, bc_ImageDigest = digest, bc_DependsOn = dependencies\<rparr>, oc_Runtime = runtimeID, oc_Running = False\<rparr>"

fun scan_components ::
  "Request \<Rightarrow> (gen_row \<times> comp_row) list \<Rightarrow> ownedBackupComponent go_map \<Rightarrow> string list
    \<Rightarrow> (ownedBackupComponent go_map \<times> string list) result" where
  "scan_components request [] owned order = Inr (owned, order)"
| "scan_components request ((g, c) # rows) owned order =
     (if c_start_ordinal c \<noteq> int (length order) \<or> g_application_id g \<noteq> rq_ApplicationID request
         \<or> g_release_id g \<noteq> rq_ReleaseID request \<or> g_runtime_generation g \<noteq> rq_RuntimeGeneration request
      then Inl (Errorf ''trusted component generation or topology mismatch'')
      else scan_components request rows
        (map_put (c_component_id c) (owned_component (c_component_id c) (c_image_digest c) (c_dependencies c)
           (c_observed_container_id c)) owned)
        (order @ [c_component_id c]))"

fun scan_legacy ::
  "int \<Rightarrow> component_ownership_row list \<Rightarrow> ownedBackupComponent go_map \<Rightarrow> ownedBackupComponent go_map result" where
  "scan_legacy generation [] owned = Inr owned"
| "scan_legacy generation (w # rows) owned =
     (if cw_runtime_generation w \<noteq> generation then Inl (Errorf ''trusted component generation mismatch'')
      else scan_legacy generation rows
        (map_put (cw_component_id w) (owned_component (cw_component_id w) (cw_image_digest w) [] (cw_container_id w)) owned))"

definition plan_component :: "Manifest \<Rightarrow> ownedBackupComponent go_map \<Rightarrow> MComponent \<Rightarrow> ownedBackupComponent result" where
  "plan_component application owned c =
     (case map_of owned (mk_ID c) of
        None \<Rightarrow> Inl (Errorf ''trusted component backup identity mismatch'')
      | Some o' \<Rightarrow>
        if componentImage application c \<noteq> Inr (bc_ImageDigest (oc_Manifest o'))
        then Inl (Errorf ''trusted component backup identity mismatch'')
        else let dependencies = (if bc_DependsOn (oc_Manifest o') = [] then mk_DependsOn c else bc_DependsOn (oc_Manifest o')) in
          if \<not> sameStringSet dependencies (mk_DependsOn c) then Inl (Errorf ''trusted component topology mismatch'')
          else Inr (o'\<lparr>oc_Manifest := (oc_Manifest o')\<lparr>bc_DependsOn := dependencies\<rparr>\<rparr>))"

text \<open>The components and the start order of an application with one component.\<close>

definition single_backup_plan :: "restore_db \<Rightarrow> Request \<Rightarrow> Manifest \<Rightarrow> (ownedBackupComponent list \<times> string list) result" where
  "single_backup_plan d request application =
     (case loadSingleRuntime (rd_helper d) (rq_InstanceID request) of
        Inl e \<Rightarrow> Inl (Errorf ''trusted application ownership unavailable'')
      | Inr owned \<Rightarrow>
        case releaseImage application (rq_ReleaseID request) of
          Inl e \<Rightarrow> Inl (Errorf ''trusted application backup identity mismatch'')
        | Inr expectedImage \<Rightarrow>
          if so_ApplicationID owned \<noteq> rq_ApplicationID request \<or> so_ReleaseID owned \<noteq> rq_ReleaseID request
             \<or> so_Generation owned \<noteq> rq_RuntimeGeneration request \<or> so_Image owned \<noteq> expectedImage
          then Inl (Errorf ''trusted application backup identity mismatch'')
          else Inr ([owned_component ''app'' expectedImage [] (so_ContainerID owned)], [''app'']))"

text \<open>
  The components and the start order of an application with several: from its active
  generation, or from the ownership rows of an installation older than generations. A
  manifest has a release (\<^verbatim>\<open>manifest.Validate\<close>); indexing none of them is a panic.
\<close>

definition multi_backup_plan :: "restore_db \<Rightarrow> Request \<Rightarrow> Manifest \<Rightarrow> (ownedBackupComponent list \<times> string list) result" where
  "multi_backup_plan d request application =
     (case ma_Releases application of
        [] \<Rightarrow> Inl (Errorf ''index out of range'')
      | release # _ \<Rightarrow>
        if rq_ReleaseID request \<noteq> rl_Version release then Inl (Errorf ''trusted application release mismatch'')
        else bind_result (scan_components request (active_components (rd_helper d) (rq_InstanceID request)) [] [])
          (\<lambda>(active, persistedOrder).
        bind_result (if active = [] then scan_legacy (rq_RuntimeGeneration request)
             (sort_key cw_component_id (filter (\<lambda>w. cw_installation_id w = rq_InstanceID request) (rd_component_ownership d))) []
           else Inr active) (\<lambda>owned.
        bind_result (map_result (plan_component application owned) (ma_Components application)) (\<lambda>components.
        if length owned \<noteq> length (ma_Components application) then Inl (Errorf ''trusted component count mismatch'')
        else bind_result (if persistedOrder \<noteq> [] then Inr persistedOrder else StartOrder (ma_Components application)) (\<lambda>order.
        Inr (components, order))))))"

definition loadApplicationBackupPlan ::
  "Manifest go_map result \<Rightarrow> disk \<Rightarrow> Request \<Rightarrow> restore_db \<Rightarrow> applicationBackupPlan result" where
  "loadApplicationBackupPlan catalog disk request d =
     (if \<not> backupIDPattern (SemanticOperationID request) \<or> rq_InstanceID request = [] \<or> rq_ApplicationID request = []
         \<or> rq_ReleaseID request = [] \<or> rq_RuntimeGeneration request < 1
      then Inl (Errorf ''invalid application backup request'')
      else case catalog of
        Inl e \<Rightarrow> Inl (Errorf ''trusted catalog unavailable'')
      | Inr entries \<Rightarrow>
        case map_of entries (rq_ApplicationID request) of
          None \<Rightarrow> Inl (Errorf ''application backup policy unavailable'')
        | Some application \<Rightarrow>
          case ma_Backup application of
            None \<Rightarrow> Inl (Errorf ''application backup policy unavailable'')
          | Some policy \<Rightarrow>
            bind_result (if ma_Components application = [] then single_backup_plan d request application
               else multi_backup_plan d request application) (\<lambda>(components, startOrder).
            bind_result (backupStoragePlan application policy (rq_InstanceID request) disk) (\<lambda>storage.
            bind_result (loadImportedBackupBindings d (rq_InstanceID request) application) (\<lambda>imported.
            bind_result (loadBackupSecrets d (rq_InstanceID request) application) (\<lambda>secrets.
            Inr \<lparr>ap_Application = application, ap_ReleaseID = rq_ReleaseID request,
               ap_Generation = rq_RuntimeGeneration request, ap_Components = components, ap_Storage = storage,
               ap_Imported = imported, ap_Secrets = secrets, ap_StartOrder = startOrder\<rparr>)))))"

section \<open>The manifest of a backup\<close>

definition validateRestoreManifest :: "BackupManifest \<Rightarrow> Request \<Rightarrow> applicationBackupPlan \<Rightarrow> unit result" where
  "validateRestoreManifest backup request plan =
     (if bm_ApplicationID backup \<noteq> rq_ApplicationID request \<or> bm_InstallationID backup \<noteq> rq_InstanceID request
         \<or> bm_ReleaseID backup \<noteq> rq_ReleaseID request \<or> bm_RuntimeGeneration backup \<noteq> rq_RuntimeGeneration request
         \<or> Some (bm_Strategy backup) \<noteq> map_option bp_Strategy (ma_Backup (ap_Application plan))
      then Inl (Errorf ''backup is incompatible with target installation'')
      else if length (bm_Components backup) \<noteq> length (ap_Components plan) \<or> length (bm_Storage backup) \<noteq> length (ap_Storage plan)
         \<or> length (bm_ImportedStorage backup) \<noteq> length (ap_Imported plan)
      then Inl (Errorf ''backup topology does not match target installation'')
      else if \<not> list_all2 (\<lambda>b c. bc_ID b = bc_ID (oc_Manifest c) \<and> bc_ImageDigest b = bc_ImageDigest (oc_Manifest c))
         (bm_Components backup) (ap_Components plan)
      then Inl (Errorf ''backup component image does not match target'')
      else if \<not> list_all2 (\<lambda>b s. b = mb_Manifest s) (bm_Storage backup) (ap_Storage plan)
      then Inl (Errorf ''backup storage mapping does not match target'')
      else if \<not> list_all2 (\<lambda>b i. b = i) (bm_ImportedStorage backup) (ap_Imported plan)
      then Inl (Errorf ''imported storage must be reassociated before restore'')
      else Inr ())"

definition sameDatabaseInventory :: "Database list \<Rightarrow> Database list \<Rightarrow> bool" where
  "sameDatabaseInventory got want =
     (if length got \<noteq> length want then False else list_all (\<lambda>(a, b). a = b) (zip got want))"

end
