(* ===== verification/Restore_Run.thy ===== *)
theory Restore_Run
  imports Restore_Plan
begin

text \<open>
  \<^verbatim>\<open>cmd/kitpro-helper/restore_journal.go\<close> and the second half of
  \<^verbatim>\<open>restoreApplicationBackupWithFence\<close> (\<^verbatim>\<open>application_backup.go\<close>), from the point where the
  restored trees are staged beside the managed storage: the journal, the exchange of the trees,
  its rollback and the recovery after the process died in between. Archives, their extraction
  and the copies that stage them are not modelled. The test hook \<^verbatim>\<open>restoreFaultHook\<close> is nil
  outside tests and left out; failures and crashes come from the schedule of the machine.
\<close>

section \<open>A machine whose calls fail and whose process dies\<close>

text \<open>
  Every call on the disk, the database or the container runtime takes the next entry of the
  schedule: it is carried out, fails, or the process dies in it. The number says how many files
  a removal had deleted by then. Past the end of the schedule all calls are carried out. A
  transaction that fails, or in which the process dies, leaves the database as it was.
\<close>

datatype fault = Fine | Fail go_error nat | Die nat

text \<open>
  The container runtime is an arbitrary record of functions on its own state. A container that
  is started sees the managed trees and the secrets of that moment. An inspection reports the
  field \<open>State.Running\<close>, if the document has it.
\<close>

record 'w BackupRuntime =
  br_Start :: "string \<Rightarrow> disk \<Rightarrow> secret_row list \<Rightarrow> 'w \<Rightarrow> unit result \<times> 'w"
  br_Stop :: "string \<Rightarrow> 'w \<Rightarrow> unit result \<times> 'w"
  br_Inspect :: "string \<Rightarrow> 'w \<Rightarrow> bool option result \<times> 'w"

record 'w machine =
  mc_disk :: disk
  mc_db :: restore_db
  mc_host :: 'w
  mc_faults :: "fault list"

text \<open>A program: its result, or \<open>None\<close> when the process died, and the machine it leaves.\<close>

type_synonym ('w, 'a) run = "'w machine \<Rightarrow> 'a option \<times> 'w machine"

definition rret :: "'a \<Rightarrow> ('w, 'a) run" where
  "rret a m = (Some a, m)"

definition rbind :: "('w, 'a) run \<Rightarrow> ('a \<Rightarrow> ('w, 'b) run) \<Rightarrow> ('w, 'b) run" where
  "rbind c k m = (case c m of (None, m') \<Rightarrow> (None, m') | (Some a, m') \<Rightarrow> k a m')"

text \<open>\<open>if err := c; err != nil\<close> with both continuations, and \<open>_ = c\<close>.\<close>

definition on_result :: "('w, 'a result) run \<Rightarrow> (go_error \<Rightarrow> ('w, 'b) run) \<Rightarrow> ('a \<Rightarrow> ('w, 'b) run) \<Rightarrow> ('w, 'b) run" where
  "on_result c err ok = rbind c (\<lambda>r. case r of Inl e \<Rightarrow> err e | Inr a \<Rightarrow> ok a)"

definition ignoring :: "('w, 'a) run \<Rightarrow> ('w, 'b) run \<Rightarrow> ('w, 'b) run" where
  "ignoring c k = rbind c (\<lambda>_. k)"

definition rfail :: "go_error \<Rightarrow> ('w, 'a result) run" where
  "rfail e = rret (Inl e)"

definition take_fault :: "'w machine \<Rightarrow> fault \<times> 'w machine" where
  "take_fault m = (case mc_faults m of [] \<Rightarrow> (Fine, m) | f # fs \<Rightarrow> (f, m\<lparr>mc_faults := fs\<rparr>))"

definition call :: "(nat \<Rightarrow> 'w machine \<Rightarrow> 'w machine) \<Rightarrow> ('w machine \<Rightarrow> 'a result \<times> 'w machine) \<Rightarrow> ('w, 'a result) run" where
  "call partial act m =
     (case take_fault m of
        (Fine, m') \<Rightarrow> (case act m' of (r, m'') \<Rightarrow> (Some r, m''))
      | (Fail e n, m') \<Rightarrow> (Some (Inl e), partial n m')
      | (Die n, m') \<Rightarrow> (None, partial n m'))"

definition db_call :: "(restore_db \<Rightarrow> 'a result \<times> restore_db) \<Rightarrow> ('w, 'a result) run" where
  "db_call f = call (\<lambda>_ m. m) (\<lambda>m. case f (mc_db m) of (r, d) \<Rightarrow> (r, m\<lparr>mc_db := d\<rparr>))"

text \<open>A statement that returns an error or the changed database, and a query.\<close>

definition db_exec :: "(restore_db \<Rightarrow> restore_db result) \<Rightarrow> ('w, unit result) run" where
  "db_exec f = db_call (\<lambda>d. case f d of Inl e \<Rightarrow> (Inl e, d) | Inr d' \<Rightarrow> (Inr (), d'))"

definition db_query :: "(restore_db \<Rightarrow> 'a result) \<Rightarrow> ('w, 'a result) run" where
  "db_query f = db_call (\<lambda>d. (f d, d))"

definition rt_call :: "('w \<Rightarrow> 'a result \<times> 'w) \<Rightarrow> ('w, 'a result) run" where
  "rt_call f = call (\<lambda>_ m. m) (\<lambda>m. case f (mc_host m) of (r, w) \<Rightarrow> (r, m\<lparr>mc_host := w\<rparr>))"

definition rt_start :: "'w BackupRuntime \<Rightarrow> string \<Rightarrow> ('w, unit result) run" where
  "rt_start rt c = call (\<lambda>_ m. m)
     (\<lambda>m. case br_Start rt c (mc_disk m) (rd_secrets (mc_db m)) (mc_host m) of (r, w) \<Rightarrow> (r, m\<lparr>mc_host := w\<rparr>))"

section \<open>Calls on the disk\<close>

text \<open>
  \<open>rename(2)\<close> on trees: an existing target is replaced when both are directories and it is
  empty, or when neither is one.
\<close>

definition rename_tree :: "string \<Rightarrow> string \<Rightarrow> disk \<Rightarrow> unit result \<times> disk" where
  "rename_tree a b disk =
     (case disk a of
        None \<Rightarrow> (Inl ErrNotExist, disk)
      | Some t \<Rightarrow>
        if a = b then (Inr (), disk)
        else case disk b of
          None \<Rightarrow> (Inr (), (disk(a := None))(b \<mapsto> t))
        | Some u \<Rightarrow>
          if mt_dir t = mt_dir u \<and> (mt_dir u \<longrightarrow> mt_files u = []) then (Inr (), (disk(a := None))(b \<mapsto> t))
          else (Inl (ErrInfrastructure ''file exists''), disk))"

definition os_RenameTree :: "string \<Rightarrow> string \<Rightarrow> ('w, unit result) run" where
  "os_RenameTree a b = call (\<lambda>_ m. m) (\<lambda>m. case rename_tree a b (mc_disk m) of (r, d) \<Rightarrow> (r, m\<lparr>mc_disk := d\<rparr>))"

text \<open>
  \<open>removeBackupTree\<close>: the files go one after the other, the directory last; what is not there is
  removed already. The change of ownership and mode that precedes does not show in the model.
\<close>

definition removeBackupTree :: "string \<Rightarrow> ('w, unit result) run" where
  "removeBackupTree name =
     call (\<lambda>n m. case mc_disk m name of None \<Rightarrow> m
             | Some t \<Rightarrow> m\<lparr>mc_disk := (mc_disk m)(name \<mapsto> t\<lparr>mt_files := drop n (mt_files t)\<rparr>)\<rparr>)
       (\<lambda>m. (Inr (), m\<lparr>mc_disk := (mc_disk m)(name := None)\<rparr>))"

definition no_identity :: restorePathIdentity where
  "no_identity = \<lparr>pi_Device = 0, pi_Inode = 0\<rparr>"

definition pathIdentity :: "string \<Rightarrow> ('w, (restorePathIdentity \<times> bool) result) run" where
  "pathIdentity name = call (\<lambda>_ m. m)
     (\<lambda>m. (case mc_disk m name of None \<Rightarrow> Inr (no_identity, False) | Some t \<Rightarrow> Inr (mt_id t, True), m))"

definition exactPathIdentity :: "string \<Rightarrow> restorePathIdentity \<Rightarrow> ('w, bool result) run" where
  "exactPathIdentity name want =
     on_result (pathIdentity name) rfail (\<lambda>(got, present). rret (Inr (present \<and> got = want)))"

definition path_base :: "string \<Rightarrow> string" where
  "path_base p = last (split_on (CHR ''/'') p)"

text \<open>\<open>filepath.Base\<close> of a cleaned path is its last element.\<close>

definition validateRestoreJournalPath :: "string \<Rightarrow> string \<Rightarrow> unit result" where
  "validateRestoreJournalPath name suffix =
     (let clean = filepath_Clean name; root = filepath_Clean managedApplicationRoot @ ''/'' in
      if \<not> has_prefix root clean \<or> (suffix \<noteq> [] \<and> \<not> str_contains suffix (path_base clean))
      then Inl (Errorf ''restore journal path is outside exact managed storage scope'') else Inr ())"

section \<open>The journal\<close>

definition verifyRestoreFence :: "string \<Rightarrow> string \<Rightarrow> int \<Rightarrow> bool \<Rightarrow> restore_db \<Rightarrow> unit result" where
  "verifyRestoreFence installation operation token allowRecovery d =
     (let states = (if allowRecovery then [Held, RecoveryRequired] else [Held]);
          rows = concat (map (\<lambda>l. map (Pair l) (filter (\<lambda>o'. o_operation_id o' = l_operation_id l) (operations (rd_helper d))))
            (filter (\<lambda>l. l_installation_id l = installation \<and> l_state l \<in> set states) (leases (rd_helper d))))
      in case rows of
           [] \<Rightarrow> Inl ErrNoRows
         | (l, o') # _ \<Rightarrow>
           (case o_fencing_token o' of
              None \<Rightarrow> Inl ErrNullScan
            | Some operationToken \<Rightarrow>
              if l_operation_id l \<noteq> operation \<or> l_fencing_token l \<noteq> token \<or> operationToken \<noteq> token
              then Inl (Errorf ''stale restore fencing token'') else Inr ()))"

text \<open>
  The arguments of the restore that its steps and its rollback share: \<open>newPaths\<close> and
  \<open>rollbackPaths\<close> are keyed by storage.
\<close>

record restore_job =
  rj_now :: string
  rj_request :: Request
  rj_token :: int
  rj_plan :: applicationBackupPlan
  rj_secrets :: secretValues
  rj_newPaths :: "string go_map"
  rj_rollbackPaths :: "string go_map"

definition storage_key :: "managedBackupStorage \<Rightarrow> string" where
  "storage_key s = storageKey (bst_Component (mb_Manifest s)) (bst_ID (mb_Manifest s))"

definition included :: "applicationBackupPlan \<Rightarrow> managedBackupStorage list" where
  "included plan = filter (\<lambda>s. bst_Disposition (mb_Manifest s) = ''include'') (ap_Storage plan)"

definition insert_restore :: "restore_operation \<Rightarrow> restore_db \<Rightarrow> restore_db result" where
  "insert_restore r d =
     (if op_get (rd_helper d) (ro_operation_id r) = None then Inl ErrConstraint
      else bind_result (sql_insert ro_operation_id r (rd_restores d)) (\<lambda>t. Inr (d\<lparr>rd_restores := t\<rparr>)))"

definition restore_step_key :: "restore_step \<Rightarrow> string \<times> string" where
  "restore_step_key s = (rs_operation_id s, rs_storage_key s)"

definition insert_step :: "restore_step \<Rightarrow> restore_db \<Rightarrow> restore_db result" where
  "insert_step s d =
     (if tbl_get ro_operation_id (rs_operation_id s) (rd_restores d) = None then Inl ErrConstraint
      else bind_result (sql_insert restore_step_key s (rd_steps d)) (\<lambda>t. Inr (d\<lparr>rd_steps := t\<rparr>)))"

definition new_restore :: "restore_job \<Rightarrow> restore_operation" where
  "new_restore j = \<lparr>ro_operation_id = rq_OperationID (rj_request j), ro_installation_id = rq_InstanceID (rj_request j),
     ro_backup_id = rq_BackupID (rj_request j), ro_fencing_token = rj_token j, ro_phase = RValidated,
     ro_running_components = [], ro_original_secrets = ap_Secrets (rj_plan j), ro_restored_secrets = rj_secrets j,
     ro_started_at = rj_now j, ro_updated_at = rj_now j, ro_completed_at = None, ro_cleanup_error = [],
     ro_error_detail = []\<rparr>"

definition new_step ::
  "string \<Rightarrow> string \<Rightarrow> string \<Rightarrow> string \<Rightarrow> string \<Rightarrow> string \<Rightarrow> restorePathIdentity \<Rightarrow> restorePathIdentity \<Rightarrow> restore_step" where
  "new_step now operationID key originalPath stagedPath rollbackPath original staged =
     \<lparr>rs_operation_id = operationID, rs_storage_key = key, rs_original_path = originalPath,
      rs_staged_path = stagedPath, rs_rollback_path = rollbackPath, rs_original = original, rs_staged = staged,
      rs_phase = SStaged, rs_original_to_rollback_dispatched = False, rs_original_to_rollback_confirmed = False,
      rs_staged_to_active_dispatched = False, rs_staged_to_active_confirmed = False, rs_cleanup_dispatched = False,
      rs_cleanup_confirmed = False, rs_error_detail = [], rs_updated_at = now\<rparr>"

text \<open>The rows of the storages, inserted into the transaction's view \<open>d\<close> of the database.\<close>

fun journal_steps :: "restore_job \<Rightarrow> managedBackupStorage list \<Rightarrow> restore_db \<Rightarrow> ('w, restore_db result) run" where
  "journal_steps j [] d = rret (Inr d)"
| "journal_steps j (s # ss) d =
     (let key = storage_key s; originalPath = mb_HostPath s; stagedPath = lookup_str (rj_newPaths j) key;
          rollbackPath = lookup_str (rj_rollbackPaths j) key in
      case bind_result (validateRestoreJournalPath originalPath []) (\<lambda>_.
           bind_result (validateRestoreJournalPath stagedPath ''.kitpro-restore-new-'') (\<lambda>_.
           validateRestoreJournalPath rollbackPath ''.kitpro-restore-rollback-'')) of
        Inl e \<Rightarrow> rfail e
      | Inr _ \<Rightarrow>
        on_result (pathIdentity originalPath) (\<lambda>_. rfail (Errorf ''original restore storage identity unavailable''))
          (\<lambda>(original, present). if \<not> present then rfail (Errorf ''original restore storage identity unavailable'') else
        on_result (pathIdentity stagedPath) (\<lambda>_. rfail (Errorf ''staged restore storage identity unavailable''))
          (\<lambda>(staged, present). if \<not> present then rfail (Errorf ''staged restore storage identity unavailable'') else
        case insert_step (new_step (rj_now j) (rq_OperationID (rj_request j)) key originalPath stagedPath rollbackPath
               original staged) d of
          Inl e \<Rightarrow> rfail e | Inr d' \<Rightarrow> journal_steps j ss d')))"

definition beginRestoreJournal :: "restore_job \<Rightarrow> ('w, unit result) run" where
  "beginRestoreJournal j =
     (let request = rj_request j in
      on_result (db_query (\<lambda>d. bind_result (verifyRestoreFence (rq_InstanceID request) (rq_OperationID request) (rj_token j) False d)
          (\<lambda>_. insert_restore (new_restore j) d))) rfail (\<lambda>d.
      on_result (journal_steps j (included (rj_plan j)) d) rfail (\<lambda>d'.
      db_exec (\<lambda>_. Inr (d'\<lparr>rd_restores := sql_update (\<lambda>r. ro_operation_id r = rq_OperationID request)
         (\<lambda>r. r\<lparr>ro_phase := RStaged, ro_updated_at := rj_now j\<rparr>) (rd_restores d')\<rparr>)))))"

definition running_ids :: "bool go_map \<Rightarrow> string list" where
  "running_ids running = sort (map fst (filter snd running))"

definition updateRestoreRuntimeIntent :: "string \<Rightarrow> string \<Rightarrow> int \<Rightarrow> bool go_map \<Rightarrow> restore_db \<Rightarrow> restore_db result" where
  "updateRestoreRuntimeIntent now operationID token running d =
     (let P = (\<lambda>r. ro_operation_id r = operationID \<and> ro_fencing_token r = token \<and> ro_phase r = RStaged) in
      if sql_count P (rd_restores d) \<noteq> 1 then Inl (Errorf ''restore runtime intent transition lost'')
      else Inr (d\<lparr>rd_restores := sql_update P (\<lambda>r. r\<lparr>ro_running_components := running_ids running,
        ro_phase := RSwapping, ro_updated_at := now\<rparr>) (rd_restores d)\<rparr>))"

definition of_step :: "string \<Rightarrow> string \<Rightarrow> restore_step \<Rightarrow> bool" where
  "of_step operationID key s = (rs_operation_id s = operationID \<and> rs_storage_key s = key)"

definition updateRestoreStep ::
  "string \<Rightarrow> string \<Rightarrow> string \<Rightarrow> step_phase \<Rightarrow> (restore_step \<Rightarrow> restore_step) \<Rightarrow> restore_db \<Rightarrow> restore_db result" where
  "updateRestoreStep now operationID key phase columns d =
     (if sql_count (of_step operationID key) (rd_steps d) \<noteq> 1 then Inl (Errorf ''restore storage phase transition lost'')
      else Inr (d\<lparr>rd_steps := sql_update (of_step operationID key)
        (\<lambda>s. columns (s\<lparr>rs_phase := phase, rs_updated_at := now\<rparr>)) (rd_steps d)\<rparr>))"

definition boundedRestoreError :: "string \<Rightarrow> string" where
  "boundedRestoreError detail = take 512 (trim_space detail)"

definition updateRestoreOperation :: "string \<Rightarrow> string \<Rightarrow> restore_phase \<Rightarrow> string \<Rightarrow> restore_db \<Rightarrow> restore_db result" where
  "updateRestoreOperation now operationID phase detail d =
     Inr (d\<lparr>rd_restores := sql_update (\<lambda>r. ro_operation_id r = operationID)
       (\<lambda>r. r\<lparr>ro_phase := phase, ro_error_detail := boundedRestoreError detail,
          ro_cleanup_error := (if phase = RCompleted then [] else ro_cleanup_error r), ro_updated_at := now,
          ro_completed_at := (if phase = RCompleted \<or> phase = RRolledBack then Some now else ro_completed_at r)\<rparr>)
       (rd_restores d)\<rparr>)"

definition markRestoreStepsActionRequired :: "string \<Rightarrow> string \<Rightarrow> string \<Rightarrow> restore_db \<Rightarrow> restore_db result" where
  "markRestoreStepsActionRequired now operationID detail d =
     (let P = (\<lambda>s. rs_operation_id s = operationID \<and> rs_phase s \<noteq> SCompleted \<and> rs_phase s \<noteq> SRolledBack) in
      if sql_count P (rd_steps d) = 0 then Inl (Errorf ''restore recovery has no unresolved storage steps'')
      else Inr (d\<lparr>rd_steps := sql_update P (\<lambda>s. s\<lparr>rs_phase := SActionRequired,
        rs_error_detail := boundedRestoreError detail, rs_updated_at := now\<rparr>) (rd_steps d)\<rparr>))"

text \<open>The statement that records why the removal of a rollback tree failed.\<close>

definition step_error :: "string \<Rightarrow> string \<Rightarrow> string \<Rightarrow> go_error \<Rightarrow> restore_db \<Rightarrow> restore_db result" where
  "step_error now operationID key e d =
     Inr (d\<lparr>rd_steps := sql_update (of_step operationID key)
       (\<lambda>s. s\<lparr>rs_error_detail := boundedRestoreError (error_text e), rs_updated_at := now\<rparr>) (rd_steps d)\<rparr>)"

definition defer_cleanup :: "string \<Rightarrow> string \<Rightarrow> restore_db \<Rightarrow> restore_db result" where
  "defer_cleanup now operationID d =
     Inr (d\<lparr>rd_restores := sql_update (\<lambda>r. ro_operation_id r = operationID)
       (\<lambda>r. r\<lparr>ro_phase := RCleanupPending, ro_cleanup_error := ''rollback cleanup deferred'', ro_updated_at := now\<rparr>)
       (rd_restores d)\<rparr>)"

record restoreStorageJournal =
  sj_Key :: string
  sj_OriginalPath :: string
  sj_StagedPath :: string
  sj_RollbackPath :: string
  sj_Original :: restorePathIdentity
  sj_Staged :: restorePathIdentity
  sj_Phase :: step_phase

record restoreJournal =
  jr_OperationID :: string
  jr_InstallationID :: string
  jr_BackupID :: string
  jr_Phase :: restore_phase
  jr_FencingToken :: int
  jr_Running :: "string list"
  jr_OriginalSecrets :: secretValues
  jr_RestoredSecrets :: secretValues
  jr_Storage :: "restoreStorageJournal list"

definition scan_step :: "restore_step \<Rightarrow> restoreStorageJournal" where
  "scan_step s = \<lparr>sj_Key = rs_storage_key s, sj_OriginalPath = rs_original_path s, sj_StagedPath = rs_staged_path s,
     sj_RollbackPath = rs_rollback_path s, sj_Original = rs_original s, sj_Staged = rs_staged s, sj_Phase = rs_phase s\<rparr>"

definition valid_item :: "restoreStorageJournal \<Rightarrow> bool" where
  "valid_item i = (is_ok (validateRestoreJournalPath (sj_OriginalPath i) [])
     \<and> is_ok (validateRestoreJournalPath (sj_StagedPath i) ''.kitpro-restore-new-'')
     \<and> is_ok (validateRestoreJournalPath (sj_RollbackPath i) ''.kitpro-restore-rollback-''))"

definition journal_items :: "string \<Rightarrow> restore_db \<Rightarrow> restoreStorageJournal list" where
  "journal_items operationID d =
     map scan_step (sort_key rs_storage_key (filter (\<lambda>s. rs_operation_id s = operationID) (rd_steps d)))"

definition loadRestoreJournal :: "string \<Rightarrow> restore_db \<Rightarrow> restoreJournal result" where
  "loadRestoreJournal operationID d =
     bind_result (sql_row (\<lambda>r. ro_operation_id r = operationID) (rd_restores d)) (\<lambda>r.
       if \<not> list_all valid_item (journal_items operationID d) then Inl (Errorf ''restore journal contains an invalid path'')
       else Inr \<lparr>jr_OperationID = ro_operation_id r, jr_InstallationID = ro_installation_id r,
          jr_BackupID = ro_backup_id r, jr_Phase = ro_phase r, jr_FencingToken = ro_fencing_token r,
          jr_Running = ro_running_components r, jr_OriginalSecrets = ro_original_secrets r,
          jr_RestoredSecrets = ro_restored_secrets r, jr_Storage = journal_items operationID d\<rparr>)"

definition unresolved_phase :: "restore_phase \<Rightarrow> bool" where
  "unresolved_phase p = (p \<in> set [RValidated, RStaged, RSwapping, RRuntimeRestorePending, RCommitted, RActionRequired])"

definition restoreBlocksInstallation :: "string \<Rightarrow> string \<Rightarrow> restore_db \<Rightarrow> bool" where
  "restoreBlocksInstallation installation operationID d =
     (sql_count (\<lambda>r. ro_installation_id r = installation \<and> ro_operation_id r \<noteq> operationID \<and> unresolved_phase (ro_phase r))
        (rd_restores d) \<noteq> 0)"

definition restoreOperationNeedsRecovery :: "string \<Rightarrow> restore_db \<Rightarrow> bool" where
  "restoreOperationNeedsRecovery operationID d =
     (sql_count (\<lambda>r. ro_operation_id r = operationID \<and> unresolved_phase (ro_phase r)) (rd_restores d) \<noteq> 0)"

section \<open>The containers of the application\<close>

definition runtimeRunning :: "bool option \<Rightarrow> bool" where
  "runtimeRunning observed = (observed = Some True)"

text \<open>\<open>byID\<close>: a component that is not in the plan has no runtime.\<close>

definition runtime_of :: "applicationBackupPlan \<Rightarrow> string \<Rightarrow> string" where
  "runtime_of plan i =
     (case map_of (map_puts (map (\<lambda>c. (bc_ID (oc_Manifest c), c)) (ap_Components plan))) i of
        None \<Rightarrow> [] | Some c \<Rightarrow> oc_Runtime c)"

definition is_running :: "bool go_map \<Rightarrow> string \<Rightarrow> bool" where
  "is_running running i = (map_of running i = Some True)"

fun resume_components ::
  "'w BackupRuntime \<Rightarrow> applicationBackupPlan \<Rightarrow> bool go_map \<Rightarrow> string list \<Rightarrow> ('w, unit result) run" where
  "resume_components rt plan running [] = rret (Inr ())"
| "resume_components rt plan running (i # is) =
     (if runtime_of plan i = [] \<or> \<not> is_running running i then resume_components rt plan running is
      else on_result (rt_start rt (runtime_of plan i)) rfail (\<lambda>_.
        on_result (rt_call (br_Inspect rt (runtime_of plan i)))
          (\<lambda>_. rfail (Errorf ''application runtime did not return to the running state''))
          (\<lambda>observed. if \<not> runtimeRunning observed then rfail (Errorf ''application runtime did not return to the running state'')
             else resume_components rt plan running is)))"

definition resumeBackupRuntime :: "'w BackupRuntime \<Rightarrow> applicationBackupPlan \<Rightarrow> bool go_map \<Rightarrow> ('w, unit result) run" where
  "resumeBackupRuntime rt plan running = resume_components rt plan running (ap_StartOrder plan)"

text \<open>Stops a component and checks that it stopped; otherwise what was running is started again.\<close>

definition stop_component ::
  "'w BackupRuntime \<Rightarrow> applicationBackupPlan \<Rightarrow> bool go_map \<Rightarrow> string \<Rightarrow> ('w, unit result) run \<Rightarrow> ('w, unit result) run" where
  "stop_component rt plan running c k =
     on_result (rt_call (br_Stop rt c))
       (\<lambda>e. ignoring (resumeBackupRuntime rt plan running) (rfail (Errorf (''stop application for backup: '' @ error_text e))))
       (\<lambda>_. on_result (rt_call (br_Inspect rt c))
          (\<lambda>_. ignoring (resumeBackupRuntime rt plan running) (rfail (Errorf ''application did not quiesce'')))
          (\<lambda>observed. if runtimeRunning observed
             then ignoring (resumeBackupRuntime rt plan running) (rfail (Errorf ''application did not quiesce''))
             else k))"

fun stop_components ::
  "'w BackupRuntime \<Rightarrow> applicationBackupPlan \<Rightarrow> bool go_map \<Rightarrow> string list \<Rightarrow> ('w, unit result) run" where
  "stop_components rt plan running [] = rret (Inr ())"
| "stop_components rt plan running (i # is) =
     (if runtime_of plan i = [] \<or> \<not> is_running running i then stop_components rt plan running is
      else stop_component rt plan running (runtime_of plan i) (stop_components rt plan running is))"

definition quiesceRecordedBackupRuntime ::
  "'w BackupRuntime \<Rightarrow> applicationBackupPlan \<Rightarrow> bool go_map \<Rightarrow> ('w, unit result) run" where
  "quiesceRecordedBackupRuntime rt plan running = stop_components rt plan running (rev (ap_StartOrder plan))"

text \<open>What is running; a component without a runtime is skipped.\<close>

fun snapshot_components ::
  "'w BackupRuntime \<Rightarrow> ownedBackupComponent list \<Rightarrow> bool go_map \<Rightarrow> ('w, (bool go_map \<times> ownedBackupComponent list) result) run" where
  "snapshot_components rt [] running = rret (Inr (running, []))"
| "snapshot_components rt (c # cs) running =
     (if oc_Runtime c = []
      then on_result (snapshot_components rt cs running) rfail (\<lambda>(running', cs'). rret (Inr (running', c # cs')))
      else on_result (rt_call (br_Inspect rt (oc_Runtime c)))
        (\<lambda>e. rfail (Errorf (''inspect application before backup: '' @ error_text e)))
        (\<lambda>observed. case observed of
            None \<Rightarrow> rfail (Errorf ''runtime did not report application state'')
          | Some isRunning \<Rightarrow>
            on_result (snapshot_components rt cs (map_put (bc_ID (oc_Manifest c)) isRunning running)) rfail
              (\<lambda>(running', cs'). rret (Inr (running', c\<lparr>oc_Running := isRunning\<rparr> # cs')))))"

definition snapshotBackupRuntime ::
  "'w BackupRuntime \<Rightarrow> applicationBackupPlan \<Rightarrow> bool \<Rightarrow> ('w, (bool go_map \<times> applicationBackupPlan) result) run" where
  "snapshotBackupRuntime rt plan stop =
     on_result (snapshot_components rt (ap_Components plan) []) rfail (\<lambda>(running, components).
       let plan' = plan\<lparr>ap_Components := components\<rparr> in
       if \<not> stop then rret (Inr (running, plan'))
       else on_result (stop_components rt plan' running (rev (ap_StartOrder plan))) rfail
         (\<lambda>_. rret (Inr (running, plan'))))"

fun stop_all :: "'w BackupRuntime \<Rightarrow> applicationBackupPlan \<Rightarrow> string list \<Rightarrow> ('w, unit) run" where
  "stop_all rt plan [] = rret ()"
| "stop_all rt plan (i # is) =
     (if runtime_of plan i = [] then stop_all rt plan is
      else on_result (rt_call (br_Inspect rt (runtime_of plan i))) (\<lambda>_. stop_all rt plan is)
        (\<lambda>observed. if runtimeRunning observed
           then ignoring (rt_call (br_Stop rt (runtime_of plan i))) (stop_all rt plan is)
           else stop_all rt plan is))"

text \<open>The joined errors of \<open>stopBackupRuntime\<close> are not looked at by its only caller.\<close>

definition stopBackupRuntime :: "'w BackupRuntime \<Rightarrow> applicationBackupPlan \<Rightarrow> ('w, unit) run" where
  "stopBackupRuntime rt plan = stop_all rt plan (rev (ap_StartOrder plan))"

section \<open>The exchange of the trees\<close>

text \<open>Where the restored trees are staged, and where the current ones go, by storage.\<close>

definition staged_paths :: "Request \<Rightarrow> applicationBackupPlan \<Rightarrow> string go_map" where
  "staged_paths request plan = map (\<lambda>s. (storage_key s,
     mb_HostPath s @ ''.kitpro-restore-new-'' @ SemanticOperationID request)) (included plan)"

definition rollback_paths :: "Request \<Rightarrow> applicationBackupPlan \<Rightarrow> string go_map" where
  "rollback_paths request plan = map (\<lambda>s. (storage_key s,
     mb_HostPath s @ ''.kitpro-restore-rollback-'' @ SemanticOperationID request)) (included plan)"

definition job_op :: "restore_job \<Rightarrow> string" where
  "job_op j = rq_OperationID (rj_request j)"

definition journaled :: "restore_job \<Rightarrow> bool" where
  "journaled j = (0 < rj_token j \<and> job_op j \<noteq> [])"

definition rollback_path :: "restore_job \<Rightarrow> managedBackupStorage \<Rightarrow> string" where
  "rollback_path j s = lookup_str (rj_rollbackPaths j) (storage_key s)"

definition failed_path :: "string \<Rightarrow> string \<Rightarrow> string" where
  "failed_path hostPath operationID = hostPath @ ''.kitpro-restore-failed-'' @ operationID"

text \<open>A transition of the journal's row of a storage.\<close>

definition mark_step :: "restore_job \<Rightarrow> string \<Rightarrow> step_phase \<Rightarrow> (restore_step \<Rightarrow> restore_step) \<Rightarrow> ('w, unit result) run" where
  "mark_step j key phase columns =
     (if journaled j then db_exec (updateRestoreStep (rj_now j) (job_op j) key phase columns) else rret (Inr ()))"

definition mark_restore :: "restore_job \<Rightarrow> restore_phase \<Rightarrow> string \<Rightarrow> ('w, unit result) run" where
  "mark_restore j phase detail =
     (if journaled j then db_exec (updateRestoreOperation (rj_now j) (job_op j) phase detail) else rret (Inr ()))"

fun undo_swaps :: "restore_job \<Rightarrow> managedBackupStorage list \<Rightarrow> ('w, unit) run" where
  "undo_swaps j [] = rret ()"
| "undo_swaps j (s # ss) =
     ignoring (os_RenameTree (mb_HostPath s) (failed_path (mb_HostPath s) (SemanticOperationID (rj_request j))))
    (ignoring (os_RenameTree (rollback_path j s) (mb_HostPath s))
    (ignoring (mark_step j (storage_key s) SRolledBack id) (undo_swaps j ss)))"

definition also_failed :: "go_error \<Rightarrow> string \<Rightarrow> unit result \<Rightarrow> go_error" where
  "also_failed cause what r = (case r of Inl _ \<Rightarrow> Errorf (error_text cause @ what) | Inr _ \<Rightarrow> cause)"

text \<open>The closure \<open>rollback\<close>: its result is the cause, extended by what else failed.\<close>

definition restore_rollback ::
  "'w BackupRuntime \<Rightarrow> restore_job \<Rightarrow> bool go_map \<Rightarrow> managedBackupStorage list \<Rightarrow> go_error \<Rightarrow> ('w, go_error) run" where
  "restore_rollback rt j running swapped cause =
     ignoring (stopBackupRuntime rt (rj_plan j))
    (ignoring (undo_swaps j (rev swapped))
    (rbind (db_exec (replaceSecrets (rj_now j) (rq_InstanceID (rj_request j)) (ap_Secrets (rj_plan j)))) (\<lambda>r1.
     rbind (resumeBackupRuntime rt (rj_plan j) running) (\<lambda>r2.
       let cause' = also_failed (also_failed cause ''; secret rollback failed'' r1) ''; application rollback restart failed'' r2 in
       ignoring (mark_restore j RRolledBack (error_text cause')) (rret cause')))))"

text \<open>
  How a part of the restore leaves: with an error, and whether the staged trees are kept for the
  recovery, or going on. Either way with the staged trees that are still to be moved.
\<close>

datatype 'a exit = Leave go_error bool "string go_map" | Proceed 'a "string go_map"

definition rolled_back_exit ::
  "'w BackupRuntime \<Rightarrow> restore_job \<Rightarrow> bool go_map \<Rightarrow> managedBackupStorage list \<Rightarrow> string go_map \<Rightarrow> go_error \<Rightarrow> ('w, 'a exit) run" where
  "rolled_back_exit rt j running swapped newPaths cause =
     rbind (restore_rollback rt j running swapped cause) (\<lambda>e. rret (Leave e False newPaths))"

fun swap_storages ::
  "'w BackupRuntime \<Rightarrow> restore_job \<Rightarrow> bool go_map \<Rightarrow> managedBackupStorage list \<Rightarrow> managedBackupStorage list \<Rightarrow> string go_map
    \<Rightarrow> ('w, managedBackupStorage list exit) run" where
  "swap_storages rt j running [] swapped newPaths = rret (Proceed swapped newPaths)"
| "swap_storages rt j running (s # ss) swapped newPaths =
     (let key = storage_key s; undo = rolled_back_exit rt j running swapped newPaths;
          kept = (\<lambda>e. rret (Leave e True newPaths)) in
      on_result (mark_step j key SOriginalToRollbackPrepared id) undo (\<lambda>_.
      on_result (mark_step j key SOriginalToRollbackDispatched (\<lambda>r. r\<lparr>rs_original_to_rollback_dispatched := True\<rparr>)) undo (\<lambda>_.
      on_result (os_RenameTree (mb_HostPath s) (rollback_path j s))
        (\<lambda>e. undo (Errorf (''stage current managed storage for rollback: '' @ error_text e))) (\<lambda>_.
      on_result (mark_step j key SOriginalToRollbackConfirmed (\<lambda>r. r\<lparr>rs_original_to_rollback_confirmed := True\<rparr>)) kept (\<lambda>_.
      on_result (mark_step j key SStagedToActivePrepared id) kept (\<lambda>_.
      on_result (mark_step j key SStagedToActiveDispatched (\<lambda>r. r\<lparr>rs_staged_to_active_dispatched := True\<rparr>)) kept (\<lambda>_.
      on_result (os_RenameTree (lookup_str newPaths key) (mb_HostPath s))
        (\<lambda>e. ignoring (os_RenameTree (rollback_path j s) (mb_HostPath s))
           (undo (Errorf (''activate restored managed storage: '' @ error_text e)))) (\<lambda>_.
      on_result (mark_step j key SStagedToActiveConfirmed (\<lambda>r. r\<lparr>rs_staged_to_active_confirmed := True\<rparr>)) kept (\<lambda>_.
      swap_storages rt j running ss (swapped @ [s]) (map_delete key newPaths))))))))))"

text \<open>The removal of the replaced trees after the commit: whether one of them is left for later.\<close>

fun remove_replaced :: "restore_job \<Rightarrow> managedBackupStorage list \<Rightarrow> bool \<Rightarrow> ('w, bool result) run" where
  "remove_replaced j [] deferred = rret (Inr deferred)"
| "remove_replaced j (s # ss) deferred =
     ignoring (mark_step j (storage_key s) SCleanupPending (\<lambda>r. r\<lparr>rs_cleanup_dispatched := True\<rparr>))
    (on_result (removeBackupTree (rollback_path j s))
       (\<lambda>e. if \<not> journaled j then rfail (Errorf (''restore succeeded but rollback cleanup failed: '' @ error_text e))
          else ignoring (db_exec (step_error (rj_now j) (job_op j) (storage_key s) e)) (remove_replaced j ss True))
       (\<lambda>_. ignoring (mark_step j (storage_key s) SCompleted (\<lambda>r. r\<lparr>rs_cleanup_confirmed := True\<rparr>))
          (remove_replaced j ss deferred)))"

record restore_result =
  rr_backup_id :: string
  rr_status :: string
  rr_application_id :: string
  rr_release_id :: string
  rr_cleanup_deferred :: bool

definition restored_result :: "restore_job \<Rightarrow> bool \<Rightarrow> restore_result" where
  "restored_result j deferred = \<lparr>rr_backup_id = rq_BackupID (rj_request j), rr_status = ''restored'',
     rr_application_id = rq_ApplicationID (rj_request j), rr_release_id = rq_ReleaseID (rj_request j),
     rr_cleanup_deferred = deferred\<rparr>"

text \<open>After all trees are exchanged: secrets, restart, commit, removal of the replaced trees.\<close>

definition finish_restore ::
  "'w BackupRuntime \<Rightarrow> restore_job \<Rightarrow> bool go_map \<Rightarrow> managedBackupStorage list \<Rightarrow> string go_map \<Rightarrow> ('w, restore_result exit) run" where
  "finish_restore rt j running swapped newPaths =
     (let undo = rolled_back_exit rt j running swapped newPaths; kept = (\<lambda>e. rret (Leave e True newPaths)) in
      on_result (mark_restore j RRuntimeRestorePending []) kept (\<lambda>_.
      on_result (db_exec (replaceSecrets (rj_now j) (rq_InstanceID (rj_request j)) (rj_secrets j)))
        (\<lambda>e. undo (Errorf (''restore generated secrets: '' @ error_text e))) (\<lambda>_.
      on_result (resumeBackupRuntime rt (rj_plan j) running)
        (\<lambda>e. undo (Errorf (''start restored application: '' @ error_text e))) (\<lambda>_.
      on_result (mark_restore j RCommitted []) kept (\<lambda>_.
      on_result (remove_replaced j swapped False) (\<lambda>e. rret (Leave e False newPaths)) (\<lambda>deferred.
      let leave = rret (Proceed (restored_result j deferred) newPaths) in
      if \<not> journaled j then leave
      else if deferred then ignoring (db_exec (defer_cleanup (rj_now j) (job_op j))) leave
      else on_result (mark_restore j RCompleted []) (\<lambda>e. rret (Leave e False newPaths)) (\<lambda>_. leave)))))))"

fun remove_trees :: "string list \<Rightarrow> ('w, unit) run" where
  "remove_trees [] = rret ()"
| "remove_trees (p # ps) = ignoring (removeBackupTree p) (remove_trees ps)"

definition restore_body :: "'w BackupRuntime \<Rightarrow> restore_job \<Rightarrow> ('w, restore_result exit) run" where
  "restore_body rt j =
     (let new = rj_newPaths j; gone = (\<lambda>e. rret (Leave e False new)) in
      on_result (if journaled j then beginRestoreJournal j else rret (Inr ()))
        (\<lambda>e. gone (Errorf (''record restore journal: '' @ error_text e))) (\<lambda>_.
      on_result (snapshotBackupRuntime rt (rj_plan j) False) gone (\<lambda>(running, plan).
      let j' = j\<lparr>rj_plan := plan\<rparr> in
      on_result (if journaled j then db_exec (updateRestoreRuntimeIntent (rj_now j) (job_op j) (rj_token j) running)
          else rret (Inr ())) gone (\<lambda>_.
      on_result (quiesceRecordedBackupRuntime rt plan running) gone (\<lambda>_.
      rbind (swap_storages rt j' running (included plan) [] new) (\<lambda>x. case x of
          Leave e keep newPaths \<Rightarrow> rret (Leave e keep newPaths)
        | Proceed swapped newPaths \<Rightarrow> finish_restore rt j' running swapped newPaths))))))"

text \<open>
  The restore from the staged trees on. The deferred function removes the staged trees that were
  not moved, in an order Go leaves open, unless a recovery will need them.
\<close>

definition restoreStaged :: "'w BackupRuntime \<Rightarrow> restore_job \<Rightarrow> ('w, restore_result result) run" where
  "restoreStaged rt j =
     rbind (restore_body rt j) (\<lambda>x. case x of
        Leave e keep newPaths \<Rightarrow> if keep then rfail e else ignoring (remove_trees (map snd newPaths)) (rfail e)
      | Proceed r newPaths \<Rightarrow> ignoring (remove_trees (map snd newPaths)) (rret (Inr r)))"

section \<open>Recovery\<close>

datatype active_tree = ActiveRestored | ActiveOriginal | ActiveMissing

text \<open>The loop over the three paths: whatever is there must be one of the trees of the journal.\<close>

fun check_paths :: "(string \<times> bool) list \<Rightarrow> ('w, unit result) run" where
  "check_paths [] = rret (Inr ())"
| "check_paths ((name, valid) # rest) =
     on_result (pathIdentity name) rfail (\<lambda>(_, present).
       if present \<and> \<not> valid then rfail (Errorf ''restore path identity is ambiguous'') else check_paths rest)"

definition classifyRestorePaths :: "restoreStorageJournal \<Rightarrow> ('w, (active_tree \<times> bool) result) run" where
  "classifyRestorePaths item =
     on_result (exactPathIdentity (sj_OriginalPath item) (sj_Original item)) rfail (\<lambda>originalIsOriginal.
     on_result (exactPathIdentity (sj_OriginalPath item) (sj_Staged item)) rfail (\<lambda>originalIsStaged.
     on_result (exactPathIdentity (sj_RollbackPath item) (sj_Original item)) rfail (\<lambda>rollbackIsOriginal.
     on_result (exactPathIdentity (sj_StagedPath item) (sj_Staged item)) rfail (\<lambda>stagedIsStaged.
     on_result (check_paths [(sj_OriginalPath item, originalIsOriginal \<or> originalIsStaged),
         (sj_RollbackPath item, rollbackIsOriginal), (sj_StagedPath item, stagedIsStaged)]) rfail (\<lambda>_.
     rret (Inr (if originalIsStaged then ActiveRestored else if originalIsOriginal then ActiveOriginal else ActiveMissing,
       originalIsOriginal \<or> rollbackIsOriginal)))))))"

definition recovery_request :: "restoreJournal \<Rightarrow> application_backup_row \<Rightarrow> Request" where
  "recovery_request journal b = \<lparr>rq_Version = 2, rq_ID = ''recovery'', rq_OperationID = jr_OperationID journal,
     rq_Operation = ''RestoreApplicationBackup'', rq_OperationRevision = 1, rq_Deadline = [],
     rq_InstanceID = jr_InstallationID journal, rq_RuntimeGeneration = ab_runtime_generation b, rq_Image = [],
     rq_ApplicationID = ab_application_id b, rq_ReleaseID = ab_release_id b, rq_NetworkName = [], rq_DataPath = [],
     rq_RestartPolicy = [], rq_Command = [], rq_Environment = [], rq_Storage = [], rq_Bindings = [],
     rq_ExposureMode = [], rq_HostAddress = [], rq_HostPort = 0, rq_ServiceID = [], rq_ContainerPort = 0,
     rq_ServiceProtocol = [], rq_Services = [], rq_Components = [], rq_Hardware = [], rq_ExternalStorage = [],
     rq_RootID = [], rq_RootName = [], rq_RootPath = [], rq_RootMode = [], rq_RunAs = None,
     rq_BackupID = jr_BackupID journal, rq_RepairAction = [], rq_CredentialID = [], rq_Configuration = None,
     rq_IngressRoutes = [], rq_CertificateID = [], rq_Hostname = [], rq_CertificatePEM = [], rq_PrivateKeyPEM = [],
     rq_ACMEEmail = [], rq_ACMEDirectory = [], rq_AcceptACMETerms = False, rq_ProviderID = [], rq_ProviderToken = [],
     rq_ProviderAccount = [], rq_ProviderZone = [], rq_ProviderTunnel = [], rq_ConfirmRemote = False\<rparr>"

definition recovery_plan :: "Manifest go_map result \<Rightarrow> restoreJournal \<Rightarrow> disk \<Rightarrow> restore_db \<Rightarrow> applicationBackupPlan result" where
  "recovery_plan catalog journal disk d =
     bind_result (sql_row (\<lambda>b. ab_backup_id b = jr_BackupID journal \<and> ab_installation_id b = jr_InstallationID journal) (rd_backups d))
       (\<lambda>b. loadApplicationBackupPlan catalog disk (recovery_request journal b) d)"

text \<open>
  The reads that make up the plan are one call of the model: each of them that fails fails
  the whole, and none changes anything.
\<close>

definition restoreRecoveryPlan :: "Manifest go_map result \<Rightarrow> restoreJournal \<Rightarrow> ('w, applicationBackupPlan result) run" where
  "restoreRecoveryPlan catalog journal =
     call (\<lambda>_ m. m) (\<lambda>m. (recovery_plan catalog journal (mc_disk m) (mc_db m), m))"

definition journal_running :: "restoreJournal \<Rightarrow> bool go_map" where
  "journal_running journal = map (\<lambda>i. (i, True)) (jr_Running journal)"

fun rollback_items :: "string \<Rightarrow> restoreJournal \<Rightarrow> restoreStorageJournal list \<Rightarrow> ('w, unit result) run" where
  "rollback_items now journal [] = rret (Inr ())"
| "rollback_items now journal (item # items) =
     on_result (classifyRestorePaths item) (\<lambda>_. rfail (Errorf ''restore rollback identity became ambiguous''))
      (\<lambda>(active, originalAvailable).
       if \<not> originalAvailable then rfail (Errorf ''restore rollback identity became ambiguous'')
       else let failedPath = failed_path (sj_OriginalPath item) (jr_OperationID journal) in
       on_result (if active = ActiveRestored
            then ignoring (removeBackupTree failedPath) (os_RenameTree (sj_OriginalPath item) failedPath)
            else rret (Inr ())) rfail (\<lambda>_.
       on_result (exactPathIdentity (sj_RollbackPath item) (sj_Original item)) rfail (\<lambda>rollbackExact.
       on_result (if rollbackExact then os_RenameTree (sj_RollbackPath item) (sj_OriginalPath item) else rret (Inr ())) rfail (\<lambda>_.
       ignoring (removeBackupTree (sj_StagedPath item))
      (ignoring (db_exec (updateRestoreStep now (jr_OperationID journal) (sj_Key item) SRolledBack id))
        (rollback_items now journal items))))))"

definition finishRestoreRollback ::
  "'w BackupRuntime \<Rightarrow> Manifest go_map result \<Rightarrow> string \<Rightarrow> restoreJournal \<Rightarrow> string \<Rightarrow> ('w, unit result) run" where
  "finishRestoreRollback rt catalog now journal cause =
     (let quiesced = jr_Phase journal \<noteq> RValidated \<and> jr_Phase journal \<noteq> RStaged in
      on_result (rollback_items now journal (rev (jr_Storage journal))) rfail (\<lambda>_.
      on_result (restoreRecoveryPlan catalog journal) rfail (\<lambda>plan.
      on_result (db_exec (replaceSecrets now (jr_InstallationID journal) (jr_OriginalSecrets journal))) rfail (\<lambda>_.
      on_result (if quiesced then resumeBackupRuntime rt plan (journal_running journal) else rret (Inr ())) rfail (\<lambda>_.
      db_exec (updateRestoreOperation now (jr_OperationID journal) RRolledBack cause))))))"

text \<open>
  The removal of the replaced trees of a journal; \<open>cleaned\<close> sets the columns written with the
  phase \<open>completed\<close>.
\<close>

fun cleanup_items ::
  "string \<Rightarrow> string \<Rightarrow> (restore_step \<Rightarrow> restore_step) \<Rightarrow> restoreStorageJournal list \<Rightarrow> bool \<Rightarrow> ('w, bool) run" where
  "cleanup_items now operationID cleaned [] deferred = rret deferred"
| "cleanup_items now operationID cleaned (item # items) deferred =
     ignoring (db_exec (updateRestoreStep now operationID (sj_Key item) SCleanupPending (\<lambda>r. r\<lparr>rs_cleanup_dispatched := True\<rparr>)))
    (on_result (removeBackupTree (sj_RollbackPath item))
       (\<lambda>e. ignoring (db_exec (step_error now operationID (sj_Key item) e))
          (cleanup_items now operationID cleaned items True))
       (\<lambda>_. ignoring (db_exec (updateRestoreStep now operationID (sj_Key item) SCompleted cleaned))
          (cleanup_items now operationID cleaned items deferred)))"

definition confirm_cleanup :: "restore_step \<Rightarrow> restore_step" where
  "confirm_cleanup r = r\<lparr>rs_cleanup_confirmed := True\<rparr>"

definition confirm_late_cleanup :: "restore_step \<Rightarrow> restore_step" where
  "confirm_late_cleanup r = r\<lparr>rs_cleanup_dispatched := True, rs_cleanup_confirmed := True, rs_error_detail := []\<rparr>"

definition commit_forward ::
  "'w BackupRuntime \<Rightarrow> Manifest go_map result \<Rightarrow> string \<Rightarrow> restoreJournal \<Rightarrow> ('w, unit result) run" where
  "commit_forward rt catalog now journal =
     on_result (restoreRecoveryPlan catalog journal) rfail (\<lambda>plan.
     on_result (db_exec (updateRestoreOperation now (jr_OperationID journal) RRuntimeRestorePending [])) rfail (\<lambda>_.
     on_result (db_exec (replaceSecrets now (jr_InstallationID journal) (jr_RestoredSecrets journal))) rfail (\<lambda>_.
     on_result (resumeBackupRuntime rt plan (journal_running journal)) rfail (\<lambda>_.
     db_exec (updateRestoreOperation now (jr_OperationID journal) RCommitted [])))))"

definition finishRestoreForward ::
  "'w BackupRuntime \<Rightarrow> Manifest go_map result \<Rightarrow> string \<Rightarrow> restoreJournal \<Rightarrow> ('w, unit result) run" where
  "finishRestoreForward rt catalog now journal =
     on_result (if jr_Phase journal \<noteq> RCommitted then commit_forward rt catalog now journal else rret (Inr ())) rfail (\<lambda>_.
     rbind (cleanup_items now (jr_OperationID journal) confirm_cleanup (jr_Storage journal) False) (\<lambda>deferred.
     if deferred then db_exec (defer_cleanup now (jr_OperationID journal))
     else db_exec (updateRestoreOperation now (jr_OperationID journal) RCompleted [])))"

text \<open>
  The classification of all storages: whether every one is restored, and whether every original
  is available. An error ends the loop with neither.
\<close>

fun classify_items :: "restoreStorageJournal list \<Rightarrow> bool \<Rightarrow> bool \<Rightarrow> ('w, bool \<times> bool) run" where
  "classify_items [] allRestored canRollback = rret (allRestored, canRollback)"
| "classify_items (item # items) allRestored canRollback =
     on_result (classifyRestorePaths item) (\<lambda>_. rret (False, False)) (\<lambda>(active, originalAvailable).
       if active = ActiveMissing then classify_items items False (canRollback \<and> originalAvailable)
       else classify_items items (allRestored \<and> active = ActiveRestored) (canRollback \<and> originalAvailable))"

definition restored_response :: "string \<Rightarrow> Response" where
  "restored_response backupID = empty_Response\<lparr>rs_OK := True,
     rs_Result := Some (JObj [(''backup_id'', JStr backupID), (''status'', JStr ''restored'')])\<rparr>"

definition interrupted_text :: string where
  "interrupted_text = ''restore interrupted; original data restored''"

definition rolled_back_response :: Response where
  "rolled_back_response = empty_Response\<lparr>rs_ErrorCode := ''RestoreInterrupted'', rs_Error := interrupted_text\<rparr>"

definition complete_recovery :: "string \<Rightarrow> string \<Rightarrow> int \<Rightarrow> Response \<Rightarrow> ('w, Response result) run" where
  "complete_recovery now operation token response =
     db_call (\<lambda>d. case CompleteRecovery now operation token response (rd_helper d) of
        (r, db) \<Rightarrow> (r, d\<lparr>rd_helper := db\<rparr>))"

definition mixed_text :: string where
  "mixed_text = ''restore storage generations are mixed or ambiguous; runtime was not started''"

text \<open>What the loop does with a journal it holds the lease of; the result says that it is resolved.\<close>

definition resolve_restore ::
  "'w BackupRuntime \<Rightarrow> Manifest go_map result \<Rightarrow> string \<Rightarrow> restoreJournal \<Rightarrow> int \<Rightarrow> ('w, bool result) run" where
  "resolve_restore rt catalog now journal token =
     (let operation = jr_OperationID journal in
      rbind (classify_items (jr_Storage journal) (jr_Storage journal \<noteq> []) True) (\<lambda>(allRestored, canRollback).
      if allRestored then
        on_result (finishRestoreForward rt catalog now journal) rfail (\<lambda>_.
        on_result (complete_recovery now operation token (restored_response (jr_BackupID journal))) rfail (\<lambda>_. rret (Inr True)))
      else if canRollback then
        on_result (finishRestoreRollback rt catalog now journal interrupted_text) rfail (\<lambda>_.
        on_result (complete_recovery now operation token rolled_back_response) rfail (\<lambda>_. rret (Inr True)))
      else
        on_result (db_exec (markRestoreStepsActionRequired now operation mixed_text)) rfail (\<lambda>_.
        on_result (db_exec (updateRestoreOperation now operation RActionRequired mixed_text)) rfail (\<lambda>_. rret (Inr False)))))"

definition recovery_token :: "string \<Rightarrow> string \<Rightarrow> restore_db \<Rightarrow> int result" where
  "recovery_token installation operation d =
     bind_result (sql_row (\<lambda>l. l_installation_id l = installation \<and> l_operation_id l = operation
        \<and> l_state l = RecoveryRequired) (leases (rd_helper d))) (\<lambda>l. Inr (l_fencing_token l))"

definition take_journal :: "string \<Rightarrow> string \<Rightarrow> int \<Rightarrow> restore_db \<Rightarrow> restore_db result" where
  "take_journal now operation token d =
     Inr (d\<lparr>rd_restores := sql_update (\<lambda>r. ro_operation_id r = operation)
       (\<lambda>r. r\<lparr>ro_fencing_token := token, ro_updated_at := now\<rparr>) (rd_restores d)\<rparr>)"

text \<open>The body of the loop: an error ends the recovery of all restores.\<close>

definition recover_restore ::
  "'w BackupRuntime \<Rightarrow> Manifest go_map result \<Rightarrow> string \<Rightarrow> string \<Rightarrow> ('w, bool result) run" where
  "recover_restore rt catalog now operation =
     (let give_up = (\<lambda>detail. ignoring (db_exec (updateRestoreOperation now operation RActionRequired detail)) (rret (Inr False))) in
      on_result (db_query (loadRestoreJournal operation)) rfail (\<lambda>journal.
      on_result (db_query (recovery_token (jr_InstallationID journal) operation))
        (\<lambda>_. give_up ''restore recovery lease unavailable'') (\<lambda>token.
      on_result (db_exec (take_journal now operation token)) rfail (\<lambda>_.
      on_result (resolve_restore rt catalog now (journal\<lparr>jr_FencingToken := token\<rparr>) token) (\<lambda>e. give_up (error_text e))
        (\<lambda>resolved. rret (Inr resolved))))))"

fun recover_all ::
  "'w BackupRuntime \<Rightarrow> Manifest go_map result \<Rightarrow> string \<Rightarrow> string list \<Rightarrow> nat \<Rightarrow> ('w, nat \<times> unit result) run" where
  "recover_all rt catalog now [] recovered = rret (recovered, Inr ())"
| "recover_all rt catalog now (operation # rest) recovered =
     on_result (recover_restore rt catalog now operation) (\<lambda>e. rret (recovered, Inl e))
       (\<lambda>resolved. recover_all rt catalog now rest (if resolved then recovered + 1 else recovered))"

definition recoverInterruptedRestores ::
  "'w BackupRuntime \<Rightarrow> Manifest go_map result \<Rightarrow> string \<Rightarrow> ('w, nat \<times> unit result) run" where
  "recoverInterruptedRestores rt catalog now =
     on_result (db_query (\<lambda>d. Inr (map ro_operation_id (sort_key ro_started_at
          (filter (\<lambda>r. unresolved_phase (ro_phase r)) (rd_restores d))))))
       (\<lambda>e. rret (0, Inl e)) (\<lambda>unresolved. recover_all rt catalog now unresolved 0)"

definition finishRestoreCleanupOnly :: "string \<Rightarrow> restoreJournal \<Rightarrow> ('w, unit result) run" where
  "finishRestoreCleanupOnly now journal =
     rbind (cleanup_items now (jr_OperationID journal) confirm_late_cleanup (jr_Storage journal) False) (\<lambda>deferred.
     if deferred then ignoring (db_exec (defer_cleanup now (jr_OperationID journal))) (rfail (Errorf ''restore cleanup remains pending''))
     else db_exec (updateRestoreOperation now (jr_OperationID journal) RCompleted []))"

fun cleanup_all :: "string \<Rightarrow> string list \<Rightarrow> ('w, unit) run" where
  "cleanup_all now [] = rret ()"
| "cleanup_all now (operation # rest) =
     on_result (db_query (loadRestoreJournal operation)) (\<lambda>_. cleanup_all now rest)
       (\<lambda>journal. ignoring (finishRestoreCleanupOnly now journal) (cleanup_all now rest))"

definition cleanupCommittedRestores :: "string \<Rightarrow> ('w, unit) run" where
  "cleanupCommittedRestores now =
     on_result (db_query (\<lambda>d. Inr (map ro_operation_id (sort_key ro_updated_at
          (filter (\<lambda>r. ro_phase r = RCommitted \<or> ro_phase r = RCleanupPending) (rd_restores d))))))
       (\<lambda>_. rret ()) (cleanup_all now)"

section \<open>The request\<close>

text \<open>
  The answer of the helper to a restore request: an error is marked as one that needs recovery
  while the journal is unresolved, or when that cannot be read.
\<close>

definition restore_answer :: "restore_result \<Rightarrow> Response" where
  "restore_answer r = empty_Response\<lparr>rs_OK := True, rs_Result := Some (JObj [(''backup_id'', JStr (rr_backup_id r)),
     (''status'', JStr (rr_status r)), (''application_id'', JStr (rr_application_id r)),
     (''release_id'', JStr (rr_release_id r)), (''cleanup_deferred'', JBool (rr_cleanup_deferred r))])\<rparr>"

definition handleRestore :: "'w BackupRuntime \<Rightarrow> restore_job \<Rightarrow> ('w, Response) run" where
  "handleRestore rt j =
     (let failed = (\<lambda>code e. empty_Response\<lparr>rs_RequestID := rq_ID (rj_request j), rs_ErrorCode := code, rs_Error := error_text e\<rparr>) in
      on_result (restoreStaged rt j)
        (\<lambda>e. on_result (db_query (\<lambda>d. Inr (restoreOperationNeedsRecovery (job_op j) d)))
           (\<lambda>_. rret (failed ''RecoveryRequired'' e))
           (\<lambda>needed. rret (failed (if needed then ''RecoveryRequired'' else []) e)))
        (\<lambda>r. rret ((restore_answer r)\<lparr>rs_RequestID := rq_ID (rj_request j)\<rparr>)))"

end
