(* ===== verification/Restore_Logic.thy ===== *)
theory Restore_Logic
  imports Restore_Run Coordinator_Inv
begin

text \<open>
  Weakest preconditions for programs whose process may die, and what the calls of a restore
  change: the disk, the rows of the journal, the secrets.
\<close>

section \<open>Weakest preconditions\<close>

text \<open>\<open>Q\<close> holds of the result and the machine when the program returns, \<open>D\<close> of the machine when its process died.\<close>

definition rwp :: "('w, 'a) run \<Rightarrow> ('a \<Rightarrow> 'w machine \<Rightarrow> bool) \<Rightarrow> ('w machine \<Rightarrow> bool) \<Rightarrow> 'w machine \<Rightarrow> bool" where
  "rwp c Q D m = (case c m of (Some a, m') \<Rightarrow> Q a m' | (None, m') \<Rightarrow> D m')"

lemma rwp_rret [simp]: "rwp (rret a) Q D m = Q a m"
  by (simp add: rwp_def rret_def)

lemma rwp_rfail [simp]: "rwp (rfail e) Q D m = Q (Inl e) m"
  by (simp add: rfail_def)

lemma rwp_rbind: "rwp (rbind c k) Q D m = rwp c (\<lambda>a. rwp (k a) Q D) D m"
  by (simp add: rwp_def rbind_def split: prod.splits option.splits)

lemma rwp_mono:
  assumes "rwp c Q D m" and "\<And>a m'. Q a m' \<Longrightarrow> Q' a m'" and "\<And>m'. D m' \<Longrightarrow> D' m'"
  shows "rwp c Q' D' m"
  using assms by (auto simp: rwp_def split: prod.splits option.splits)

lemma rwp_dead: "rwp c Q D m \<Longrightarrow> (\<And>m'. D m' \<Longrightarrow> D' m') \<Longrightarrow> rwp c Q D' m"
  by (erule rwp_mono)

lemma rwp_rbindI:
  assumes "rwp c P D m" and "\<And>a m'. P a m' \<Longrightarrow> rwp (k a) Q D m'"
  shows "rwp (rbind c k) Q D m"
  unfolding rwp_rbind using assms(1) by (rule rwp_mono) (use assms(2) in auto)

lemma rwp_on_resultI:
  assumes "rwp c P D m" and "\<And>e m'. P (Inl e) m' \<Longrightarrow> rwp (err e) Q D m'"
    and "\<And>a m'. P (Inr a) m' \<Longrightarrow> rwp (ok a) Q D m'"
  shows "rwp (on_result c err ok) Q D m"
  unfolding on_result_def using assms(1) by (rule rwp_rbindI) (use assms(2,3) in \<open>auto split: sum.split\<close>)

lemma rwp_ignoringI:
  assumes "rwp c (\<lambda>_. P) D m" and "\<And>m'. P m' \<Longrightarrow> rwp k Q D m'"
  shows "rwp (ignoring c k) Q D m"
  unfolding ignoring_def using assms(1) by (rule rwp_rbindI) (use assms(2) in auto)

lemma rwp_snd: "rwp c (\<lambda>_. I) I m \<Longrightarrow> I (snd (c m))"
  by (auto simp: rwp_def split: prod.splits option.splits)

lemma rwp_result: "rwp c Q D m \<Longrightarrow> c m = (Some a, m') \<Longrightarrow> Q a m'"
  by (simp add: rwp_def)

section \<open>Calls\<close>

lemma rwp_call:
  assumes "\<And>fs. rwp (\<lambda>m. apfst Some (act m)) Q D (m\<lparr>mc_faults := fs\<rparr>)"
    and "\<And>e n fs. Q (Inl e) (partial n (m\<lparr>mc_faults := fs\<rparr>))"
    and "\<And>n fs. D (partial n (m\<lparr>mc_faults := fs\<rparr>))"
  shows "rwp (call partial act) Q D m"
  using assms(1) [of "mc_faults m"] assms(1) assms(2,3)
  by (auto simp: rwp_def call_def take_fault_def apfst_def map_prod_def split: list.splits fault.splits prod.splits option.splits)

text \<open>A call on a machine without further faults is carried out.\<close>

lemma call_fine: "mc_faults m = [] \<Longrightarrow> call partial act m = apfst Some (act m)"
  by (auto simp: call_def take_fault_def split: prod.splits)

lemma db_call_wp:
  assumes "\<And>fs. Q (fst (f (mc_db m))) (m\<lparr>mc_faults := fs, mc_db := snd (f (mc_db m))\<rparr>)"
    and "\<And>e fs. Q (Inl e) (m\<lparr>mc_faults := fs\<rparr>)" and "\<And>fs. D (m\<lparr>mc_faults := fs\<rparr>)"
  shows "rwp (db_call f) Q D m"
  unfolding db_call_def by (rule rwp_call) (use assms in \<open>auto simp: rwp_def split: prod.splits\<close>)

lemma db_exec_wp:
  assumes "\<And>d fs. f (mc_db m) = Inr d \<Longrightarrow> Q (Inr ()) (m\<lparr>mc_faults := fs, mc_db := d\<rparr>)"
    and "\<And>e fs. Q (Inl e) (m\<lparr>mc_faults := fs\<rparr>)" and "\<And>fs. D (m\<lparr>mc_faults := fs\<rparr>)"
  shows "rwp (db_exec f) Q D m"
  unfolding db_exec_def by (rule db_call_wp) (use assms in \<open>auto split: sum.splits\<close>)

lemma db_query_wp:
  assumes "\<And>fs. Q (f (mc_db m)) (m\<lparr>mc_faults := fs\<rparr>)"
    and "\<And>e fs. Q (Inl e) (m\<lparr>mc_faults := fs\<rparr>)" and "\<And>fs. D (m\<lparr>mc_faults := fs\<rparr>)"
  shows "rwp (db_query f) Q D m"
  unfolding db_query_def by (rule db_call_wp) (use assms in simp_all)

lemma rename_wp:
  assumes "\<And>d fs. rename_tree a b (mc_disk m) = (Inr (), d) \<Longrightarrow> Q (Inr ()) (m\<lparr>mc_faults := fs, mc_disk := d\<rparr>)"
    and "\<And>e fs. Q (Inl e) (m\<lparr>mc_faults := fs\<rparr>)" and "\<And>fs. D (m\<lparr>mc_faults := fs\<rparr>)"
  shows "rwp (os_RenameTree a b) Q D m"
proof -
  have same: "d = mc_disk m" if "rename_tree a b (mc_disk m) = (Inl e, d)" for e d
    using that by (auto simp: rename_tree_def split: option.splits if_splits)
  obtain r d where rd: "rename_tree a b (mc_disk m) = (r, d)" by fastforce
  show ?thesis unfolding os_RenameTree_def
  proof (rule rwp_call)
    fix fs
    show "rwp (\<lambda>m. apfst Some (case rename_tree a b (mc_disk m) of (r, d) \<Rightarrow> (r, m\<lparr>mc_disk := d\<rparr>))) Q D (m\<lparr>mc_faults := fs\<rparr>)"
    proof (cases r)
      case (Inl e)
      with rd same [of e d] have "(m\<lparr>mc_faults := fs\<rparr>)\<lparr>mc_disk := d\<rparr> = m\<lparr>mc_faults := fs\<rparr>" by simp
      with rd Inl assms(2) show ?thesis by (simp add: rwp_def)
    qed (use rd assms(1) in \<open>simp add: rwp_def\<close>)
  qed (use assms(2,3) in simp_all)
qed

text \<open>A removal deletes some of the files of a tree, or all of it.\<close>

definition shrinks :: "string \<Rightarrow> disk \<Rightarrow> disk \<Rightarrow> bool" where
  "shrinks p d d' \<longleftrightarrow> d' = d(p := None) \<or> d' = d \<or> (\<exists>t n. d p = Some t \<and> d' = d(p \<mapsto> t\<lparr>mt_files := drop n (mt_files t)\<rparr>))"

lemma shrinks_other: "shrinks p d d' \<Longrightarrow> q \<noteq> p \<Longrightarrow> d' q = d q"
  by (auto simp: shrinks_def)

lemma shrinks_id: "shrinks p d d' \<Longrightarrow> d' p = Some t' \<Longrightarrow> \<exists>t. d p = Some t \<and> mt_id t' = mt_id t"
  by (auto simp: shrinks_def)

lemma remove_wp:
  assumes "\<And>fs. Q (Inr ()) (m\<lparr>mc_faults := fs, mc_disk := (mc_disk m)(p := None)\<rparr>)"
    and "\<And>e d fs. shrinks p (mc_disk m) d \<Longrightarrow> Q (Inl e) (m\<lparr>mc_faults := fs, mc_disk := d\<rparr>)"
    and "\<And>d fs. shrinks p (mc_disk m) d \<Longrightarrow> D (m\<lparr>mc_faults := fs, mc_disk := d\<rparr>)"
  shows "rwp (removeBackupTree p) Q D m"
proof -
  let ?p = "\<lambda>n m'. case mc_disk m' p of None \<Rightarrow> m'
    | Some t \<Rightarrow> m'\<lparr>mc_disk := (mc_disk m')(p \<mapsto> t\<lparr>mt_files := drop n (mt_files t)\<rparr>)\<rparr>"
  have part: "\<exists>d. shrinks p (mc_disk m) d \<and> ?p n (m\<lparr>mc_faults := fs\<rparr>) = m\<lparr>mc_faults := fs, mc_disk := d\<rparr>" for fs n
  proof (cases "mc_disk m p")
    case None
    then show ?thesis by (intro exI [of _ "mc_disk m"]) (simp add: shrinks_def)
  next
    case (Some t)
    then show ?thesis
      by (intro exI [of _ "(mc_disk m)(p \<mapsto> t\<lparr>mt_files := drop n (mt_files t)\<rparr>)"]) (auto simp: shrinks_def)
  qed
  show ?thesis unfolding removeBackupTree_def
  proof (rule rwp_call)
    fix e :: go_error and n fs
    obtain d where d: "shrinks p (mc_disk m) d" "?p n (m\<lparr>mc_faults := fs\<rparr>) = m\<lparr>mc_faults := fs, mc_disk := d\<rparr>"
      using part by blast
    show "Q (Inl e) (?p n (m\<lparr>mc_faults := fs\<rparr>))" unfolding d(2) by (rule assms(2) [OF d(1)])
  next
    fix n fs
    obtain d where d: "shrinks p (mc_disk m) d" "?p n (m\<lparr>mc_faults := fs\<rparr>) = m\<lparr>mc_faults := fs, mc_disk := d\<rparr>"
      using part by blast
    show "D (?p n (m\<lparr>mc_faults := fs\<rparr>))" unfolding d(2) by (rule assms(3) [OF d(1)])
  qed (use assms(1) in \<open>simp add: rwp_def\<close>)
qed

text \<open>Reads change nothing but the schedule.\<close>

lemma pathIdentity_wp:
  assumes "\<And>fs. Q (Inr (case mc_disk m p of None \<Rightarrow> (no_identity, False) | Some t \<Rightarrow> (mt_id t, True))) (m\<lparr>mc_faults := fs\<rparr>)"
    and "\<And>e fs. Q (Inl e) (m\<lparr>mc_faults := fs\<rparr>)" and "\<And>fs. D (m\<lparr>mc_faults := fs\<rparr>)"
  shows "rwp (pathIdentity p) Q D m"
  unfolding pathIdentity_def by (rule rwp_call) (use assms in \<open>auto simp: rwp_def split: option.splits\<close>)

lemma exactPathIdentity_wp:
  assumes "\<And>fs. Q (Inr (\<exists>t. mc_disk m p = Some t \<and> mt_id t = want)) (m\<lparr>mc_faults := fs\<rparr>)"
    and "\<And>e fs. Q (Inl e) (m\<lparr>mc_faults := fs\<rparr>)" and "\<And>fs. D (m\<lparr>mc_faults := fs\<rparr>)"
  shows "rwp (exactPathIdentity p want) Q D m"
  unfolding exactPathIdentity_def on_result_def rwp_rbind
  by (rule pathIdentity_wp) (use assms in \<open>auto split: option.split\<close>)

end
