(* ===== verification/Restore_Case.thy ===== *)
theory Restore_Case
  imports Restore_Logic
begin

text \<open>
  The restore a journal describes: its storages with the tree that was there and the tree that
  replaces it, the configurations in which the disk can be, and the journal's rows.
\<close>

section \<open>The case\<close>

record restore_case =
  rc_op :: string
  rc_inst :: string
  rc_backup :: string
  rc_items :: "restoreStorageJournal list"
  rc_old :: "string \<Rightarrow> managed_tree"
  rc_new :: "string \<Rightarrow> managed_tree"
  rc_old_secrets :: secretValues
  rc_new_secrets :: secretValues

definition item_paths :: "string \<Rightarrow> restoreStorageJournal \<Rightarrow> string list" where
  "item_paths op i = [sj_OriginalPath i, sj_StagedPath i, sj_RollbackPath i, failed_path (sj_OriginalPath i) op]"

definition case_ok :: "restore_case \<Rightarrow> bool" where
  "case_ok c \<longleftrightarrow> distinct (concat (map (item_paths (rc_op c)) (rc_items c))) \<and> distinct (map sj_Key (rc_items c))
     \<and> (\<forall>i \<in> set (rc_items c). valid_item i \<and> sj_Original i \<noteq> sj_Staged i
          \<and> mt_id (rc_old c (sj_Key i)) = sj_Original i \<and> mt_id (rc_new c (sj_Key i)) = sj_Staged i)"

section \<open>Configurations of the disk\<close>

text \<open>What is at the original, the staged and the rollback path of a storage.\<close>

type_synonym view = "managed_tree option \<times> managed_tree option \<times> managed_tree option"

definition view_of :: "restoreStorageJournal \<Rightarrow> disk \<Rightarrow> view" where
  "view_of i d = (d (sj_OriginalPath i), d (sj_StagedPath i), d (sj_RollbackPath i))"

definition fresh_item :: "restore_case \<Rightarrow> restoreStorageJournal \<Rightarrow> view \<Rightarrow> bool" where
  "fresh_item c i v \<longleftrightarrow> v = (Some (rc_old c (sj_Key i)), Some (rc_new c (sj_Key i)), None)"

definition original_item :: "restore_case \<Rightarrow> restoreStorageJournal \<Rightarrow> view \<Rightarrow> bool" where
  "original_item c i v \<longleftrightarrow> (\<exists>s. v = (Some (rc_old c (sj_Key i)), s, None) \<and> (\<forall>t. s = Some t \<longrightarrow> mt_id t = sj_Staged i))"

definition aside_item :: "restore_case \<Rightarrow> restoreStorageJournal \<Rightarrow> view \<Rightarrow> bool" where
  "aside_item c i v \<longleftrightarrow> (\<exists>s. v = (None, s, Some (rc_old c (sj_Key i))) \<and> (\<forall>t. s = Some t \<longrightarrow> mt_id t = sj_Staged i))"

definition restored_item :: "restore_case \<Rightarrow> restoreStorageJournal \<Rightarrow> view \<Rightarrow> bool" where
  "restored_item c i v \<longleftrightarrow> v = (Some (rc_new c (sj_Key i)), None, Some (rc_old c (sj_Key i)))"

definition final_item :: "restore_case \<Rightarrow> restoreStorageJournal \<Rightarrow> view \<Rightarrow> bool" where
  "final_item c i v \<longleftrightarrow> (\<exists>r. v = (Some (rc_new c (sj_Key i)), None, r) \<and> (\<forall>t. r = Some t \<longrightarrow> mt_id t = sj_Original i))"

definition kept_item :: "restore_case \<Rightarrow> restoreStorageJournal \<Rightarrow> view \<Rightarrow> bool" where
  "kept_item c i v \<longleftrightarrow> original_item c i v \<or> aside_item c i v \<or> restored_item c i v"

lemmas item_defs = fresh_item_def original_item_def aside_item_def restored_item_def final_item_def kept_item_def

definition on_items :: "restore_case \<Rightarrow> (restoreStorageJournal \<Rightarrow> view \<Rightarrow> bool) \<Rightarrow> disk \<Rightarrow> bool" where
  "on_items c P d \<longleftrightarrow> (\<forall>i \<in> set (rc_items c). P i (view_of i d))"

lemma on_items_mono: "on_items c P d \<Longrightarrow> (\<And>i v. i \<in> set (rc_items c) \<Longrightarrow> P i v \<Longrightarrow> Q i v) \<Longrightarrow> on_items c Q d"
  by (auto simp: on_items_def)

lemma on_itemsD: "on_items c P d \<Longrightarrow> i \<in> set (rc_items c) \<Longrightarrow> P i (view_of i d)"
  by (simp add: on_items_def)

lemma restored_final: "case_ok c \<Longrightarrow> i \<in> set (rc_items c) \<Longrightarrow> restored_item c i v \<Longrightarrow> final_item c i v"
  by (auto simp: item_defs case_ok_def)

text \<open>Before the commit the original of every storage is whole; afterwards every restored tree is in its place.\<close>

abbreviation all_original :: "restore_case \<Rightarrow> disk \<Rightarrow> bool" where
  "all_original c \<equiv> on_items c (original_item c)"

abbreviation all_kept :: "restore_case \<Rightarrow> disk \<Rightarrow> bool" where
  "all_kept c \<equiv> on_items c (kept_item c)"

abbreviation all_restored :: "restore_case \<Rightarrow> disk \<Rightarrow> bool" where
  "all_restored c \<equiv> on_items c (restored_item c)"

abbreviation all_final :: "restore_case \<Rightarrow> disk \<Rightarrow> bool" where
  "all_final c \<equiv> on_items c (final_item c)"

subsection \<open>Changes at the paths of one storage\<close>

definition only_at :: "string list \<Rightarrow> disk \<Rightarrow> disk \<Rightarrow> bool" where
  "only_at ps d d' \<longleftrightarrow> (\<forall>q. q \<notin> set ps \<longrightarrow> d' q = d q)"

lemma distinct_concat_disjoint:
  assumes "distinct (concat (map f xs))" and "x \<in> set xs" and "y \<in> set xs" and "x \<noteq> y"
  shows "set (f x) \<inter> set (f y) = {}"
  using assms by (induction xs) auto

lemma case_paths:
  assumes "case_ok c" and "i \<in> set (rc_items c)"
  shows "distinct (item_paths (rc_op c) i)"
proof -
  from assms have "distinct (concat (map (item_paths (rc_op c)) (rc_items c)))" by (simp add: case_ok_def)
  from distinct_concat_iff [THEN iffD1, OF this] assms(2) show ?thesis by auto
qed

lemma view_other:
  assumes "case_ok c" and "i \<in> set (rc_items c)" and "k \<in> set (rc_items c)" and "k \<noteq> i"
    and "only_at (item_paths (rc_op c) i) d d'"
  shows "view_of k d' = view_of k d"
proof -
  have "set (item_paths (rc_op c) k) \<inter> set (item_paths (rc_op c) i) = {}"
    using assms distinct_concat_disjoint [of "item_paths (rc_op c)" "rc_items c" k i] by (simp add: case_ok_def)
  then show ?thesis using assms(5) by (auto simp: view_of_def only_at_def item_paths_def)
qed

lemma on_items_update:
  assumes "case_ok c" and "on_items c P d" and "i \<in> set (rc_items c)" and "only_at (item_paths (rc_op c) i) d d'"
    and "Q i (view_of i d')" and "\<And>k v. k \<in> set (rc_items c) \<Longrightarrow> k \<noteq> i \<Longrightarrow> P k v \<Longrightarrow> Q k v"
  shows "on_items c Q d'"
  unfolding on_items_def
proof
  fix k
  assume k: "k \<in> set (rc_items c)"
  show "Q k (view_of k d')"
  proof (cases "k = i")
    case False
    with assms k show ?thesis using view_other [OF assms(1,3) k False assms(4)] on_itemsD [OF assms(2) k] by metis
  qed (use assms(5) in simp)
qed

text \<open>The three renames and the removals of a storage, on its view.\<close>

lemma rename_only_at: "rename_tree a b d = (r, d') \<Longrightarrow> a \<in> set ps \<Longrightarrow> b \<in> set ps \<Longrightarrow> only_at ps d d'"
  by (auto simp: rename_tree_def only_at_def split: option.splits if_splits)

lemma shrinks_only_at: "shrinks p d d' \<Longrightarrow> p \<in> set ps \<Longrightarrow> only_at ps d d'"
  by (auto simp: shrinks_def only_at_def)

lemma shrinks_del: "shrinks p d (d(p := None))"
  by (simp add: shrinks_def)

lemma rename_moves:
  "rename_tree a b d = (Inr (), d') \<Longrightarrow> a \<noteq> b \<Longrightarrow> \<exists>t. d a = Some t \<and> d' = (d(a := None))(b \<mapsto> t)"
  by (auto simp: rename_tree_def split: option.splits if_splits)

lemma rename_into_free: "d a = Some t \<Longrightarrow> d b = None \<Longrightarrow> rename_tree a b d = (Inr (), (d(a := None))(b \<mapsto> t))"
  by (auto simp: rename_tree_def)

text \<open>A storage of a restore, with paths of its own.\<close>

locale restore_storage =
  fixes c :: restore_case and i :: restoreStorageJournal
  assumes c: "case_ok c" and i: "i \<in> set (rc_items c)"
begin

lemma paths_differ:
  "sj_OriginalPath i \<noteq> sj_StagedPath i" "sj_OriginalPath i \<noteq> sj_RollbackPath i" "sj_StagedPath i \<noteq> sj_RollbackPath i"
  "failed_path (sj_OriginalPath i) (rc_op c) \<noteq> sj_OriginalPath i" "failed_path (sj_OriginalPath i) (rc_op c) \<noteq> sj_StagedPath i"
  "failed_path (sj_OriginalPath i) (rc_op c) \<noteq> sj_RollbackPath i"
  using case_paths [OF c i] by (auto simp: item_paths_def)

lemma set_aside_view:
  assumes "rename_tree (sj_OriginalPath i) (sj_RollbackPath i) d = (Inr (), d')" and "fresh_item c i (view_of i d)"
  shows "view_of i d' = (None, Some (rc_new c (sj_Key i)), Some (rc_old c (sj_Key i)))"
  using rename_moves [OF assms(1)] assms(2) paths_differ by (auto simp: view_of_def fresh_item_def)

lemma activate_view:
  assumes "rename_tree (sj_StagedPath i) (sj_OriginalPath i) d = (Inr (), d')"
    and "view_of i d = (None, Some (rc_new c (sj_Key i)), Some (rc_old c (sj_Key i)))"
  shows "restored_item c i (view_of i d')"
  using rename_moves [OF assms(1)] assms(2) paths_differ by (auto simp: view_of_def restored_item_def)

lemma discard_view:
  assumes "rename_tree (sj_OriginalPath i) (failed_path (sj_OriginalPath i) (rc_op c)) d = (Inr (), d')"
    and "restored_item c i (view_of i d)"
  shows "aside_item c i (view_of i d')"
  using rename_moves [OF assms(1)] assms(2) paths_differ by (auto simp: view_of_def restored_item_def aside_item_def)

lemma put_back_view:
  assumes r: "rename_tree (sj_RollbackPath i) (sj_OriginalPath i) d = (Inr (), d')"
    and v: "aside_item c i (view_of i d) \<or> restored_item c i (view_of i d)"
  shows "original_item c i (view_of i d')"
proof -
  from rename_moves [OF r] paths_differ obtain t where
    "d (sj_RollbackPath i) = Some t" "d' = (d(sj_RollbackPath i := None))(sj_OriginalPath i \<mapsto> t)" by metis
  then have "view_of i d' = (Some t, d (sj_StagedPath i), None)" and "snd (snd (view_of i d)) = Some t"
    using paths_differ by (auto simp: view_of_def)
  with v show ?thesis by (auto simp: view_of_def original_item_def aside_item_def restored_item_def)
qed

lemma shrunk_views:
  shows "shrinks (sj_StagedPath i) d d' \<Longrightarrow> view_of i d' = (d (sj_OriginalPath i), d' (sj_StagedPath i), d (sj_RollbackPath i))"
    and "shrinks (sj_RollbackPath i) d d' \<Longrightarrow> view_of i d' = (d (sj_OriginalPath i), d (sj_StagedPath i), d' (sj_RollbackPath i))"
    and "shrinks (failed_path (sj_OriginalPath i) (rc_op c)) d d' \<Longrightarrow> view_of i d' = view_of i d"
  using paths_differ by (simp_all add: view_of_def shrinks_other)

lemma shrinks_None: "shrinks p d d' \<Longrightarrow> d p = None \<Longrightarrow> d' p = None"
  by (auto simp: shrinks_def)

lemma unstage_view:
  assumes s: "shrinks (sj_StagedPath i) d d'"
  shows "original_item c i (view_of i d) \<Longrightarrow> original_item c i (view_of i d')"
    and "aside_item c i (view_of i d) \<Longrightarrow> aside_item c i (view_of i d')"
    and "restored_item c i (view_of i d) \<Longrightarrow> restored_item c i (view_of i d')"
    and "final_item c i (view_of i d) \<Longrightarrow> final_item c i (view_of i d')"
    and "kept_item c i (view_of i d) \<Longrightarrow> kept_item c i (view_of i d')"
proof -
  have *: "\<exists>t. d (sj_StagedPath i) = Some t \<and> mt_id t' = mt_id t" if "d' (sj_StagedPath i) = Some t'" for t'
    using shrinks_id [OF s that] .
  show o: "original_item c i (view_of i d) \<Longrightarrow> original_item c i (view_of i d')"
    unfolding shrunk_views(1) [OF s] using * by (auto simp: view_of_def original_item_def)
  show a: "aside_item c i (view_of i d) \<Longrightarrow> aside_item c i (view_of i d')"
    unfolding shrunk_views(1) [OF s] using * by (auto simp: view_of_def aside_item_def)
  show r: "restored_item c i (view_of i d) \<Longrightarrow> restored_item c i (view_of i d')"
    unfolding shrunk_views(1) [OF s] using shrinks_None [OF s] by (auto simp: view_of_def restored_item_def)
  show "final_item c i (view_of i d) \<Longrightarrow> final_item c i (view_of i d')"
    unfolding shrunk_views(1) [OF s] using shrinks_None [OF s] by (auto simp: view_of_def final_item_def)
  show "kept_item c i (view_of i d) \<Longrightarrow> kept_item c i (view_of i d')"
    unfolding kept_item_def using o a r by blast
qed

lemma remove_replaced_view:
  assumes s: "shrinks (sj_RollbackPath i) d d'" and f: "final_item c i (view_of i d)"
  shows "final_item c i (view_of i d')"
  unfolding shrunk_views(2) [OF s] using f shrinks_id [OF s] by (auto simp: view_of_def final_item_def)

end

section \<open>The rows of the journal\<close>

text \<open>An item of the journal apart from its phase, which changes.\<close>

definition strip :: "restoreStorageJournal \<Rightarrow> restoreStorageJournal" where
  "strip i = i\<lparr>sj_Phase := SStaged\<rparr>"

definition harmless :: "(restore_step \<Rightarrow> restore_step) \<Rightarrow> bool" where
  "harmless f \<longleftrightarrow> (\<forall>s. rs_operation_id (f s) = rs_operation_id s \<and> strip (scan_step (f s)) = strip (scan_step s))"

lemma harmless_key: "harmless f \<Longrightarrow> rs_storage_key (f s) = rs_storage_key s"
proof -
  assume "harmless f"
  then have "sj_Key (strip (scan_step (f s))) = sj_Key (strip (scan_step s))" by (simp add: harmless_def)
  then show ?thesis by (simp add: strip_def scan_step_def)
qed

lemma insort_key_map: "(\<And>x. g (h x) = f x) \<Longrightarrow> insort_key g (h x) (map h xs) = map h (insort_key f x xs)"
  by (induction xs) auto

lemma sort_key_map: "(\<And>x. g (h x) = f x) \<Longrightarrow> sort_key g (map h xs) = map h (sort_key f xs)"
  by (induction xs) (auto simp: insort_key_map)

lemma journal_items_update:
  assumes "harmless f"
  shows "map strip (journal_items op (d\<lparr>rd_steps := sql_update P f (rd_steps d)\<rparr>)) = map strip (journal_items op d)"
proof -
  let ?g = "\<lambda>s. if P s then f s else s"
  have key: "rs_storage_key (?g s) = rs_storage_key s" "rs_operation_id (?g s) = rs_operation_id s"
    "strip (scan_step (?g s)) = strip (scan_step s)" for s
    using assms harmless_key [OF assms] by (auto simp: harmless_def)
  have "filter (\<lambda>s. rs_operation_id s = op) (map ?g (rd_steps d)) = map ?g (filter (\<lambda>s. rs_operation_id s = op) (rd_steps d))"
    by (simp add: filter_map comp_def key(2))
  then have "journal_items op (d\<lparr>rd_steps := sql_update P f (rd_steps d)\<rparr>)
      = map scan_step (map ?g (sort_key rs_storage_key (filter (\<lambda>s. rs_operation_id s = op) (rd_steps d))))"
    by (simp add: journal_items_def sql_update_def sort_key_map [of rs_storage_key ?g rs_storage_key, OF key(1)])
  then show ?thesis by (simp add: journal_items_def comp_def key(3))
qed

definition phase_of :: "restore_case \<Rightarrow> restore_db \<Rightarrow> restore_phase option" where
  "phase_of c d = map_option ro_phase (tbl_get ro_operation_id (rc_op c) (rd_restores d))"

definition case_row :: "restore_case \<Rightarrow> restore_operation \<Rightarrow> bool" where
  "case_row c r \<longleftrightarrow> ro_installation_id r = rc_inst c \<and> ro_backup_id r = rc_backup c
     \<and> ro_original_secrets r = rc_old_secrets c \<and> ro_restored_secrets r = rc_new_secrets c"

text \<open>
  The journal has the row of the restore and the rows of its storages, and no other restore is
  left to be resolved or cleaned up.
\<close>

definition journal_ok :: "restore_case \<Rightarrow> restore_db \<Rightarrow> bool" where
  "journal_ok c d \<longleftrightarrow> tbl_wf ro_operation_id (rd_restores d)
     \<and> (\<exists>r. tbl_get ro_operation_id (rc_op c) (rd_restores d) = Some r \<and> case_row c r)
     \<and> map strip (journal_items (rc_op c) d) = rc_items c
     \<and> (\<forall>r \<in> set (rd_restores d). ro_operation_id r \<noteq> rc_op c \<longrightarrow> ro_phase r = RCompleted \<or> ro_phase r = RRolledBack)"

text \<open>Two databases with the same journal rows but for the phases of the storages, and the same secrets.\<close>

definition same_journal :: "restore_db \<Rightarrow> restore_db \<Rightarrow> bool" where
  "same_journal d d' \<longleftrightarrow> rd_restores d' = rd_restores d \<and> (\<forall>op. map strip (journal_items op d') = map strip (journal_items op d))"

lemma same_journal_refl [simp]: "same_journal d d"
  by (simp add: same_journal_def)

lemma same_journal_ok: "same_journal d d' \<Longrightarrow> journal_ok c d \<Longrightarrow> journal_ok c d' \<and> phase_of c d' = phase_of c d"
  by (auto simp: same_journal_def journal_ok_def phase_of_def)

lemma steps_update_same:
  assumes "harmless f"
  shows "same_journal d (d\<lparr>rd_steps := sql_update P f (rd_steps d)\<rparr>)"
  using journal_items_update [OF assms] by (simp add: same_journal_def)

lemma updateRestoreStep_same:
  assumes "updateRestoreStep now op key ph f d = Inr d'" and "harmless f"
  shows "same_journal d d' \<and> d' = d\<lparr>rd_steps := rd_steps d'\<rparr>"
proof -
  have "harmless (\<lambda>s. f (s\<lparr>rs_phase := ph, rs_updated_at := now\<rparr>))"
    using assms(2) by (simp add: harmless_def strip_def scan_step_def)
  from steps_update_same [OF this] assms(1) show ?thesis by (auto simp: updateRestoreStep_def split: if_splits)
qed

lemma step_error_same:
  "step_error now op key e d = Inr d' \<Longrightarrow> same_journal d d' \<and> d' = d\<lparr>rd_steps := rd_steps d'\<rparr>"
  using steps_update_same [of "\<lambda>s. s\<lparr>rs_error_detail := boundedRestoreError (error_text e), rs_updated_at := now\<rparr>" d "of_step op key"]
  by (auto simp: step_error_def harmless_def strip_def scan_step_def)

lemma markActionRequired_same:
  "markRestoreStepsActionRequired now op detail d = Inr d' \<Longrightarrow> same_journal d d' \<and> d' = d\<lparr>rd_steps := rd_steps d'\<rparr>"
  using steps_update_same [of "\<lambda>s. s\<lparr>rs_phase := SActionRequired, rs_error_detail := boundedRestoreError detail, rs_updated_at := now\<rparr>" d]
  by (auto simp: markRestoreStepsActionRequired_def Let_def harmless_def strip_def scan_step_def split: if_splits)

lemma replaceSecrets_same: "replaceSecrets now inst vs d = Inr d' \<Longrightarrow> same_journal d d'"
  by (auto simp: replaceSecrets_def result_iffs same_journal_def journal_items_def)

text \<open>An update of the row of the restore that keeps what the case fixes.\<close>

lemma restore_row_update:
  assumes ok: "journal_ok c d"
    and P: "\<And>r. P r \<Longrightarrow> ro_operation_id r = rc_op c"
    and f: "\<And>r. ro_operation_id (f r) = ro_operation_id r" "\<And>r. case_row c r \<Longrightarrow> case_row c (f r)"
  shows "journal_ok c (d\<lparr>rd_restores := sql_update P f (rd_restores d)\<rparr>) \<and>
    (\<exists>r. tbl_get ro_operation_id (rc_op c) (rd_restores d) = Some r \<and> ro_operation_id r = rc_op c
       \<and> tbl_get ro_operation_id (rc_op c) (sql_update P f (rd_restores d)) = Some (if P r then f r else r))"
proof -
  from ok obtain r where r: "tbl_get ro_operation_id (rc_op c) (rd_restores d) = Some r" "case_row c r"
    by (auto simp: journal_ok_def)
  have get: "tbl_get ro_operation_id (rc_op c) (sql_update P f (rd_restores d)) = Some (if P r then f r else r)"
    by (subst tbl_get_update) (simp_all add: f(1) r(1))
  have "case_row c (if P r then f r else r)" using r(2) f(2) by simp
  moreover have "ro_phase x = RCompleted \<or> ro_phase x = RRolledBack"
    if "x \<in> set (sql_update P f (rd_restores d))" "ro_operation_id x \<noteq> rc_op c" for x
    using that ok P f(1) by (auto simp: set_sql_update journal_ok_def split: if_splits)
  moreover have "tbl_wf ro_operation_id (sql_update P f (rd_restores d))"
    using ok f(1) by (simp add: journal_ok_def tbl_wf_update)
  ultimately show ?thesis using ok get r(1) tbl_get_key [OF r(1)] by (simp add: journal_ok_def journal_items_def)
qed

lemma updateRestoreOperation_effect:
  assumes "journal_ok c d" and "updateRestoreOperation now (rc_op c) ph detail d = Inr d'"
  shows "journal_ok c d' \<and> phase_of c d' = Some ph \<and> d' = d\<lparr>rd_restores := rd_restores d'\<rparr>"
  using assms(2) restore_row_update [OF assms(1), of "\<lambda>r. ro_operation_id r = rc_op c"
      "\<lambda>r. r\<lparr>ro_phase := ph, ro_error_detail := boundedRestoreError detail,
          ro_cleanup_error := (if ph = RCompleted then [] else ro_cleanup_error r), ro_updated_at := now,
          ro_completed_at := (if ph = RCompleted \<or> ph = RRolledBack then Some now else ro_completed_at r)\<rparr>"]
  by (auto simp: updateRestoreOperation_def phase_of_def case_row_def)

lemma take_journal_effect:
  assumes "journal_ok c d" and "take_journal now (rc_op c) token d = Inr d'"
  shows "journal_ok c d' \<and> phase_of c d' = phase_of c d \<and> d' = d\<lparr>rd_restores := rd_restores d'\<rparr>"
  using assms(2) restore_row_update [OF assms(1), of "\<lambda>r. ro_operation_id r = rc_op c"
      "\<lambda>r. r\<lparr>ro_fencing_token := token, ro_updated_at := now\<rparr>"]
  by (auto simp: take_journal_def phase_of_def case_row_def)

lemma defer_cleanup_effect:
  assumes "journal_ok c d" and "defer_cleanup now (rc_op c) d = Inr d'"
  shows "journal_ok c d' \<and> phase_of c d' = Some RCleanupPending \<and> d' = d\<lparr>rd_restores := rd_restores d'\<rparr>"
  using assms(2) restore_row_update [OF assms(1), of "\<lambda>r. ro_operation_id r = rc_op c"
      "\<lambda>r. r\<lparr>ro_phase := RCleanupPending, ro_cleanup_error := ''rollback cleanup deferred'', ro_updated_at := now\<rparr>"]
  by (auto simp: defer_cleanup_def phase_of_def case_row_def)

lemma runtimeIntent_effect:
  assumes "journal_ok c d" and "updateRestoreRuntimeIntent now (rc_op c) token running d = Inr d'"
  shows "journal_ok c d' \<and> (phase_of c d' = Some RSwapping \<or> phase_of c d' = phase_of c d) \<and> d' = d\<lparr>rd_restores := rd_restores d'\<rparr>"
  using assms(2) restore_row_update [OF assms(1), of "\<lambda>r. ro_operation_id r = rc_op c \<and> ro_fencing_token r = token \<and> ro_phase r = RStaged"
      "\<lambda>r. r\<lparr>ro_running_components := running_ids running, ro_phase := RSwapping, ro_updated_at := now\<rparr>"]
  by (auto simp: updateRestoreRuntimeIntent_def Let_def phase_of_def case_row_def split: if_splits)

lemma loadRestoreJournal_case:
  assumes "journal_ok c d" and "loadRestoreJournal (rc_op c) d = Inr j"
  shows "jr_OperationID j = rc_op c \<and> jr_InstallationID j = rc_inst c \<and> jr_BackupID j = rc_backup c
    \<and> phase_of c d = Some (jr_Phase j) \<and> jr_OriginalSecrets j = rc_old_secrets c \<and> jr_RestoredSecrets j = rc_new_secrets c
    \<and> map strip (jr_Storage j) = rc_items c"
  using assms by (auto simp: loadRestoreJournal_def journal_ok_def phase_of_def case_row_def sql_row_key result_iffs
      dest: tbl_get_key split: if_splits)

end
