(* ===== verification/Restore_State.thy ===== *)
theory Restore_State
  imports Restore_Case
begin

text \<open>
  Assertions about a machine in the middle of a restore, and the rule of every call: what it
  keeps when it succeeds, when it fails and when the process dies in it.
\<close>

section \<open>Assertions\<close>

text \<open>
  The journal of the case is in one of the phases \<open>F\<close>, \<open>P\<close> holds of the disk and the secrets, and
  \<open>I\<close> of the state of the container runtime.
\<close>

definition in_state ::
  "restore_case \<Rightarrow> restore_phase set \<Rightarrow> (disk \<Rightarrow> secret_row list \<Rightarrow> bool) \<Rightarrow> ('w \<Rightarrow> bool) \<Rightarrow> 'w machine \<Rightarrow> bool" where
  "in_state c F P I m \<longleftrightarrow> journal_ok c (mc_db m) \<and> (\<exists>ph \<in> F. phase_of c (mc_db m) = Some ph)
     \<and> P (mc_disk m) (rd_secrets (mc_db m)) \<and> I (mc_host m)"

lemma in_state_mono:
  "in_state c F P I m \<Longrightarrow> F \<subseteq> F' \<Longrightarrow> (\<And>d s. P d s \<Longrightarrow> P' d s) \<Longrightarrow> in_state c F' P' I m"
  by (auto simp: in_state_def)

lemma in_stateI:
  "journal_ok c (mc_db m) \<Longrightarrow> phase_of c (mc_db m) = Some ph \<Longrightarrow> ph \<in> F \<Longrightarrow> P (mc_disk m) (rd_secrets (mc_db m))
    \<Longrightarrow> I (mc_host m) \<Longrightarrow> in_state c F P I m"
  by (auto simp: in_state_def)

lemma in_state_faults [simp]: "in_state c F P I (m\<lparr>mc_faults := fs\<rparr>) = in_state c F P I m"
  by (simp add: in_state_def)

text \<open>The secrets of the installation are the given ones.\<close>

definition holds_secrets :: "string \<Rightarrow> secretValues \<Rightarrow> secret_row list \<Rightarrow> bool" where
  "holds_secrets inst vs rows \<longleftrightarrow>
     map (\<lambda>r. (sr_component_id r, sr_name r, sr_value r)) (filter (\<lambda>r. sr_installation_id r = inst) rows)
     = map (\<lambda>v. (if sv_Component v = ''app'' then [] else sv_Component v, sv_Name v, sv_Value v)) (sv_Values vs)"

lemma replaced_rows:
  assumes "fold_result (\<lambda>v. sql_insert secret_key (secret_row_of now inst v)) vs rows = Inr rows'"
  shows "rows' = rows @ map (secret_row_of now inst) vs"
  using assms
proof (induction vs arbitrary: rows)
  case (Cons v vs)
  then obtain t where "sql_insert secret_key (secret_row_of now inst v) rows = Inr t"
    "fold_result (\<lambda>v. sql_insert secret_key (secret_row_of now inst v)) vs t = Inr rows'"
    by (auto simp: result_iffs)
  with Cons.IH [of t] show ?case by (simp add: sql_insert_Inr_iff)
qed simp

lemma replaceSecrets_effect:
  assumes "replaceSecrets now inst vs d = Inr d'"
  shows "same_journal d d'" and "holds_secrets inst vs (rd_secrets d')" and "d' = d\<lparr>rd_secrets := rd_secrets d'\<rparr>"
proof -
  from assms obtain rows where
    rows: "fold_result (\<lambda>v. sql_insert secret_key (secret_row_of now inst v)) (sv_Values vs)
      (filter (\<lambda>r. sr_installation_id r \<noteq> inst) (rd_secrets d)) = Inr rows" and d': "d' = d\<lparr>rd_secrets := rows\<rparr>"
    by (auto simp: replaceSecrets_def result_iffs)
  show "same_journal d d'" by (rule replaceSecrets_same [OF assms])
  show "d' = d\<lparr>rd_secrets := rd_secrets d'\<rparr>" by (simp add: d')
  have "filter (\<lambda>r. sr_installation_id r = inst) (filter (\<lambda>r. sr_installation_id r \<noteq> inst) (rd_secrets d)) = []"
    by (simp add: filter_empty_conv)
  then show "holds_secrets inst vs (rd_secrets d')"
    unfolding d' replaced_rows [OF rows] holds_secrets_def by (simp add: secret_row_of_def comp_def filter_map)
qed

text \<open>The restored trees are in place, and with them the restored secrets.\<close>

definition committed :: "restore_case \<Rightarrow> disk \<Rightarrow> secret_row list \<Rightarrow> bool" where
  "committed c d sec \<longleftrightarrow> all_final c d \<and> holds_secrets (rc_inst c) (rc_new_secrets c) sec"

text \<open>
  What holds between two steps: before the commit every original is whole, after it every
  restored tree is in place. In the two phases that recoveries pass through it may be either.
\<close>

definition before_commit :: "restore_phase set" where
  "before_commit = {RValidated, RStaged, RSwapping, RRolledBack, RRuntimeRestorePending, RActionRequired}"

definition after_commit :: "restore_phase set" where
  "after_commit = {RCommitted, RCleanupPending, RCompleted}"

definition safe :: "restore_case \<Rightarrow> 'w machine \<Rightarrow> bool" where
  "safe c m \<longleftrightarrow> in_state c before_commit (\<lambda>d _. all_kept c d) (\<lambda>_. True) m
     \<or> in_state c {RRuntimeRestorePending, RActionRequired} (\<lambda>d _. all_final c d) (\<lambda>_. True) m
     \<or> in_state c after_commit (committed c) (\<lambda>_. True) m"

lemma safe_kept: "in_state c F (\<lambda>d _. all_kept c d) I m \<Longrightarrow> F \<subseteq> before_commit \<Longrightarrow> safe c m"
  by (auto simp: safe_def in_state_def)

lemma safe_final:
  "in_state c F P I m \<Longrightarrow> F \<subseteq> {RRuntimeRestorePending, RActionRequired} \<Longrightarrow> (\<And>d s. P d s \<Longrightarrow> all_final c d) \<Longrightarrow> safe c m"
  unfolding safe_def in_state_def by blast

lemma safe_committed: "in_state c F (committed c) I m \<Longrightarrow> F \<subseteq> after_commit \<Longrightarrow> safe c m"
  by (auto simp: safe_def in_state_def)

section \<open>Rules\<close>

lemma same_journal_wp:
  assumes "in_state c F P I m"
    and "\<And>d. f (mc_db m) = Inr d \<Longrightarrow> same_journal (mc_db m) d \<and> rd_secrets d = rd_secrets (mc_db m)"
  shows "rwp (db_exec f) (\<lambda>_. in_state c F P I) (in_state c F P I) m"
proof (rule db_exec_wp)
  fix d fs
  assume "f (mc_db m) = Inr d"
  with assms(2) have "same_journal (mc_db m) d" "rd_secrets d = rd_secrets (mc_db m)" by auto
  with assms(1) show "in_state c F P I (m\<lparr>mc_faults := fs, mc_db := d\<rparr>)"
    by (auto simp: in_state_def dest: same_journal_ok)
qed (use assms(1) in simp_all)

lemma step_wp:
  assumes "in_state c F P I m" and "harmless f"
  shows "rwp (db_exec (updateRestoreStep now op key ph f)) (\<lambda>_. in_state c F P I) (in_state c F P I) m"
proof (rule same_journal_wp [OF assms(1)])
  fix d
  assume "updateRestoreStep now op key ph f (mc_db m) = Inr d"
  from updateRestoreStep_same [OF this assms(2)]
  show "same_journal (mc_db m) d \<and> rd_secrets d = rd_secrets (mc_db m)"
    by (metis restore_db.select_convs(3) restore_db.surjective restore_db.update_convs(8))
qed

lemma harmless_columns [simp]:
  "harmless id" "harmless (\<lambda>r. r\<lparr>rs_original_to_rollback_dispatched := True\<rparr>)"
  "harmless (\<lambda>r. r\<lparr>rs_original_to_rollback_confirmed := True\<rparr>)" "harmless (\<lambda>r. r\<lparr>rs_staged_to_active_dispatched := True\<rparr>)"
  "harmless (\<lambda>r. r\<lparr>rs_staged_to_active_confirmed := True\<rparr>)" "harmless (\<lambda>r. r\<lparr>rs_cleanup_dispatched := True\<rparr>)"
  "harmless (\<lambda>r. r\<lparr>rs_cleanup_confirmed := True\<rparr>)" "harmless confirm_cleanup" "harmless confirm_late_cleanup"
  by (simp_all add: harmless_def strip_def scan_step_def confirm_cleanup_def confirm_late_cleanup_def)

lemma step_error_wp:
  assumes "in_state c F P I m"
  shows "rwp (db_exec (step_error now op key e)) (\<lambda>_. in_state c F P I) (in_state c F P I) m"
  by (rule same_journal_wp [OF assms]) (use step_error_same in \<open>auto simp: step_error_def\<close>)

lemma operation_wp:
  assumes "in_state c F P I m"
  shows "rwp (db_exec (updateRestoreOperation now (rc_op c) ph detail))
    (\<lambda>r. in_state c (if is_ok r then {ph} else F) P I) (in_state c F P I) m"
proof (rule db_exec_wp)
  fix d fs
  assume u: "updateRestoreOperation now (rc_op c) ph detail (mc_db m) = Inr d"
  moreover from u have "rd_secrets d = rd_secrets (mc_db m)" by (auto simp: updateRestoreOperation_def)
  ultimately show "in_state c (if is_ok (Inr ()) then {ph} else F) P I (m\<lparr>mc_faults := fs, mc_db := d\<rparr>)"
    using assms updateRestoreOperation_effect [of c "mc_db m"] by (auto simp: in_state_def)
qed (use assms in simp_all)

lemma operation_on:
  assumes "in_state c F P I m" and "\<And>m'. in_state c F P I m' \<Longrightarrow> D m'"
    and "\<And>e m'. in_state c F P I m' \<Longrightarrow> rwp (err e) Q D m'" and "\<And>u m'. in_state c {ph} P I m' \<Longrightarrow> rwp (k u) Q D m'"
  shows "rwp (on_result (db_exec (updateRestoreOperation now (rc_op c) ph detail)) err k) Q D m"
  by (rule rwp_on_resultI [OF rwp_dead [OF operation_wp [OF assms(1)] assms(2)]])
    (simp_all only: is_ok_simps if_True if_False assms(3,4))

lemma defer_wp:
  assumes "in_state c F P I m"
  shows "rwp (db_exec (defer_cleanup now (rc_op c))) (\<lambda>r. in_state c (if is_ok r then {RCleanupPending} else F) P I) (in_state c F P I) m"
proof (rule db_exec_wp)
  fix d fs
  assume u: "defer_cleanup now (rc_op c) (mc_db m) = Inr d"
  moreover from u have "rd_secrets d = rd_secrets (mc_db m)" by (auto simp: defer_cleanup_def)
  ultimately show "in_state c (if is_ok (Inr ()) then {RCleanupPending} else F) P I (m\<lparr>mc_faults := fs, mc_db := d\<rparr>)"
    using assms defer_cleanup_effect [of c "mc_db m"] by (auto simp: in_state_def)
qed (use assms in simp_all)

lemma secrets_wp:
  assumes "in_state c F (\<lambda>d _. P d) I m"
  shows "rwp (db_exec (replaceSecrets now inst vs))
    (\<lambda>r. in_state c F (\<lambda>d s. P d \<and> (is_ok r \<longrightarrow> holds_secrets inst vs s)) I) (in_state c F (\<lambda>d _. P d) I) m"
proof (rule db_exec_wp)
  fix d fs
  assume "replaceSecrets now inst vs (mc_db m) = Inr d"
  from replaceSecrets_effect [OF this] assms
  show "in_state c F (\<lambda>d s. P d \<and> (is_ok (Inr ()) \<longrightarrow> holds_secrets inst vs s)) I (m\<lparr>mc_faults := fs, mc_db := d\<rparr>)"
    by (auto simp: in_state_def dest: same_journal_ok)
qed (use assms in \<open>simp_all add: in_state_def\<close>)

lemma rename_state:
  assumes "in_state c F P I m"
    and "\<And>s d. P (mc_disk m) s \<Longrightarrow> rename_tree a b (mc_disk m) = (Inr (), d) \<Longrightarrow> P' d s"
  shows "rwp (os_RenameTree a b) (\<lambda>r. in_state c F (if is_ok r then P' else P) I) (in_state c F P I) m"
  by (rule rename_wp) (use assms in \<open>auto simp: in_state_def\<close>)

text \<open>A rename whose failure is of no consequence.\<close>

lemma rename_either:
  assumes m: "in_state c F P I m"
    and moved: "\<And>s d. P (mc_disk m) s \<Longrightarrow> rename_tree a b (mc_disk m) = (Inr (), d) \<Longrightarrow> P' d s"
    and unmoved: "\<And>d s. P d s \<Longrightarrow> P' d s" and dead: "\<And>d s. P d s \<Longrightarrow> K d s"
  shows "rwp (os_RenameTree a b) (\<lambda>_. in_state c F P' I) (in_state c F K I) m"
proof (rule rwp_mono [OF rename_state [OF m moved]])
  show "in_state c F P' I m'" if "in_state c F (if is_ok r then P' else P) I m'" for r :: "unit result" and m'
    using that by (cases "is_ok r") (auto elim: in_state_mono intro: unmoved)
qed (auto elim: in_state_mono intro: dead)

lemma remove_state:
  assumes "in_state c F P I m"
    and "\<And>s d. P (mc_disk m) s \<Longrightarrow> shrinks p (mc_disk m) d \<Longrightarrow> P d s"
  shows "rwp (removeBackupTree p) (\<lambda>_. in_state c F P I) (in_state c F P I) m"
  by (rule remove_wp) (use assms shrinks_del [of p] in \<open>auto simp: in_state_def\<close>)

lemma remove_trees_wp:
  assumes "R m" and "\<And>m p d fs. R m \<Longrightarrow> p \<in> set ps \<Longrightarrow> shrinks p (mc_disk m) d \<Longrightarrow> R (m\<lparr>mc_faults := fs, mc_disk := d\<rparr>)"
  shows "rwp (remove_trees ps) (\<lambda>_. R) R m"
  using assms
proof (induction ps arbitrary: m)
  case (Cons p ps)
  have "rwp (removeBackupTree p) (\<lambda>_. R) R m"
    by (rule remove_wp; rule Cons.prems(2) [OF Cons.prems(1), of p]) (assumption | rule shrinks_del | simp)+
  then show ?case unfolding remove_trees.simps
    by (rule rwp_ignoringI) (rule Cons.IH, assumption, rule Cons.prems(2), simp_all)
qed simp

text \<open>Reads.\<close>

lemma query_state:
  assumes "in_state c F P I m"
  shows "rwp (db_query f) (\<lambda>r m'. in_state c F P I m' \<and> (\<forall>a. r = Inr a \<longrightarrow> f (mc_db m') = Inr a)) (in_state c F P I) m"
  by (rule db_query_wp) (use assms in simp_all)

lemma plan_state:
  assumes "in_state c F P I m"
  shows "rwp (restoreRecoveryPlan catalog j) (\<lambda>_. in_state c F P I) (in_state c F P I) m"
  unfolding restoreRecoveryPlan_def by (rule rwp_call) (use assms in \<open>simp_all add: rwp_def\<close>)

subsection \<open>The container runtime\<close>

text \<open>
  What the programs rely on to keep \<open>I\<close>: inspecting and stopping keep it always, starting a
  container keeps it on the trees and secrets of which \<open>P\<close> holds.
\<close>

locale watched_runtime =
  fixes rt :: "'w BackupRuntime" and P :: "disk \<Rightarrow> secret_row list \<Rightarrow> bool" and I :: "'w \<Rightarrow> bool"
  assumes start: "P d s \<Longrightarrow> I w \<Longrightarrow> I (snd (br_Start rt x d s w))"
    and stop: "I w \<Longrightarrow> I (snd (br_Stop rt x w))"
    and inspect: "I w \<Longrightarrow> I (snd (br_Inspect rt x w))"
begin

lemma stop_state:
  assumes "in_state c F P I m"
  shows "rwp (rt_call (br_Stop rt x)) (\<lambda>_. in_state c F P I) (in_state c F P I) m"
  unfolding rt_call_def by (rule rwp_call) (use assms stop in \<open>auto simp: rwp_def in_state_def case_prod_beta\<close>)

lemma inspect_state:
  assumes "in_state c F P I m"
  shows "rwp (rt_call (br_Inspect rt x)) (\<lambda>_. in_state c F P I) (in_state c F P I) m"
  unfolding rt_call_def by (rule rwp_call) (use assms inspect in \<open>auto simp: rwp_def in_state_def case_prod_beta\<close>)

lemma start_state:
  assumes "in_state c F P I m"
  shows "rwp (rt_start rt x) (\<lambda>_. in_state c F P I) (in_state c F P I) m"
  unfolding rt_start_def by (rule rwp_call) (use assms start in \<open>auto simp: rwp_def in_state_def case_prod_beta\<close>)

lemma resume_components_state:
  "in_state c F P I m \<Longrightarrow> rwp (resume_components rt plan running is) (\<lambda>_. in_state c F P I) (in_state c F P I) m"
proof (induction "is" arbitrary: m)
  case (Cons i "is")
  have "rwp (rt_call (br_Inspect rt (runtime_of plan i))) (\<lambda>_. in_state c F P I) (in_state c F P I) m'"
    if "in_state c F P I m'" for m' by (rule inspect_state [OF that])
  with Cons show ?case
    by (auto intro!: rwp_on_resultI [OF start_state] rwp_on_resultI [OF inspect_state])
qed simp

lemma resume_state:
  "in_state c F P I m \<Longrightarrow> rwp (resumeBackupRuntime rt plan running) (\<lambda>_. in_state c F P I) (in_state c F P I) m"
  unfolding resumeBackupRuntime_def by (rule resume_components_state)

lemma stop_component_state:
  assumes "in_state c F P I m"
    and "\<And>m'. in_state c F P I m' \<Longrightarrow> rwp k (\<lambda>_. in_state c F P I) (in_state c F P I) m'"
  shows "rwp (stop_component rt plan running x k) (\<lambda>_. in_state c F P I) (in_state c F P I) m"
  unfolding stop_component_def
  by (rule rwp_on_resultI [OF stop_state [OF assms(1)]])
    (auto intro!: rwp_ignoringI [OF resume_state] rwp_on_resultI [OF inspect_state] assms(2))

lemma stop_components_state:
  "in_state c F P I m \<Longrightarrow> rwp (stop_components rt plan running is) (\<lambda>_. in_state c F P I) (in_state c F P I) m"
  by (induction "is" arbitrary: m) (auto intro!: stop_component_state)

lemma snapshot_components_state:
  "in_state c F P I m \<Longrightarrow> rwp (snapshot_components rt cs running) (\<lambda>_. in_state c F P I) (in_state c F P I) m"
proof (induction cs arbitrary: m running)
  case (Cons x cs)
  then show ?case
    by (auto intro!: rwp_on_resultI [OF Cons.IH] rwp_on_resultI [OF inspect_state] split: option.split)
qed simp

lemma stop_all_state:
  "in_state c F P I m \<Longrightarrow> rwp (stop_all rt plan is) (\<lambda>_. in_state c F P I) (in_state c F P I) m"
proof (induction "is" arbitrary: m)
  case (Cons i "is")
  then show ?case
    by (auto intro!: rwp_on_resultI [OF inspect_state] rwp_ignoringI [OF stop_state])
qed simp

end

end
