(* ===== verification/Restore_Swap.thy ===== *)
theory Restore_Swap
  imports Restore_State
begin

text \<open>
  The exchange of the trees: wherever it fails or its process dies, the original of every storage
  is whole on disk until the commit, and the journal says which recovery is due.
\<close>

section \<open>The case of a job\<close>

definition item_of :: "restore_job \<Rightarrow> (string \<Rightarrow> managed_tree) \<Rightarrow> (string \<Rightarrow> managed_tree) \<Rightarrow> managedBackupStorage \<Rightarrow> restoreStorageJournal" where
  "item_of j old new s = \<lparr>sj_Key = storage_key s, sj_OriginalPath = mb_HostPath s,
     sj_StagedPath = lookup_str (rj_newPaths j) (storage_key s), sj_RollbackPath = rollback_path j s,
     sj_Original = mt_id (old (storage_key s)), sj_Staged = mt_id (new (storage_key s)), sj_Phase = SStaged\<rparr>"

definition case_of :: "restore_job \<Rightarrow> (string \<Rightarrow> managed_tree) \<Rightarrow> (string \<Rightarrow> managed_tree) \<Rightarrow> restore_case" where
  "case_of j old new = \<lparr>rc_op = job_op j, rc_inst = rq_InstanceID (rj_request j), rc_backup = rq_BackupID (rj_request j),
     rc_items = sort_key sj_Key (map (item_of j old new) (included (rj_plan j))), rc_old = old, rc_new = new,
     rc_old_secrets = ap_Secrets (rj_plan j), rc_new_secrets = rj_secrets j\<rparr>"

text \<open>
  A restore with a journal whose trees are staged: they are where the program puts them, and the
  paths it uses are different.
\<close>

definition staged_job :: "restore_job \<Rightarrow> (string \<Rightarrow> managed_tree) \<Rightarrow> (string \<Rightarrow> managed_tree) \<Rightarrow> bool" where
  "staged_job j old new \<longleftrightarrow> journaled j \<and> rj_newPaths j = staged_paths (rj_request j) (rj_plan j)
     \<and> rj_rollbackPaths j = rollback_paths (rj_request j) (rj_plan j) \<and> case_ok (case_of j old new)"

text \<open>No journal of the restore yet, and no other restore to be resolved.\<close>

definition no_journal :: "restore_case \<Rightarrow> restore_db \<Rightarrow> bool" where
  "no_journal c d \<longleftrightarrow> tbl_wf ro_operation_id (rd_restores d) \<and> filter (\<lambda>s. rs_operation_id s = rc_op c) (rd_steps d) = []
     \<and> (\<forall>r \<in> set (rd_restores d). ro_operation_id r \<noteq> rc_op c \<and> (ro_phase r = RCompleted \<or> ro_phase r = RRolledBack))"

interpretation any_runtime: watched_runtime rt P "\<lambda>_. True" for rt :: "'w BackupRuntime" and P
  by unfold_locales simp_all

lemma lookup_of_map:
  "distinct (map k xs) \<Longrightarrow> x \<in> set xs \<Longrightarrow> lookup_str (map (\<lambda>x. (k x, f x)) xs) (k x) = f x"
  by (induction xs) (auto simp: lookup_str_def image_iff)

locale staged_restore =
  fixes j :: restore_job and old new :: "string \<Rightarrow> managed_tree"
  assumes staged: "staged_job j old new"
begin

abbreviation c :: restore_case where "c \<equiv> case_of j old new"
abbreviation item :: "managedBackupStorage \<Rightarrow> restoreStorageJournal" where "item \<equiv> item_of j old new"
abbreviation storages :: "managedBackupStorage list" where "storages \<equiv> included (rj_plan j)"

lemma ok: "case_ok c" and journaled: "journaled j" and op: "rc_op c = job_op j"
  using staged by (simp_all add: staged_job_def case_of_def)

lemma semantic_op: "SemanticOperationID (rj_request j) = job_op j"
  using journaled by (simp add: journaled_def job_op_def SemanticOperationID_def)

lemma items: "set (rc_items c) = item ` set storages"
  by (simp add: case_of_def)

lemma item_mem: "s \<in> set storages \<Longrightarrow> item s \<in> set (rc_items c)"
  by (simp add: items)

lemma keys_distinct: "distinct (map storage_key storages)"
proof -
  have "distinct (map sj_Key (rc_items c))" using ok by (simp add: case_ok_def)
  moreover have "set (map sj_Key (rc_items c)) = set (map storage_key storages)" "length (map sj_Key (rc_items c)) = length (map storage_key storages)"
    by (simp_all add: case_of_def image_comp comp_def item_of_def)
  ultimately show ?thesis by (metis card_distinct distinct_card)
qed

lemma item_inj: "s \<in> set storages \<Longrightarrow> t \<in> set storages \<Longrightarrow> item s = item t \<longleftrightarrow> s = t"
  using keys_distinct by (auto simp: item_of_def distinct_map inj_on_def)

lemma item_sel [simp]:
  "sj_Key (item s) = storage_key s" "sj_OriginalPath (item s) = mb_HostPath s" "sj_RollbackPath (item s) = rollback_path j s"
  "sj_StagedPath (item s) = lookup_str (rj_newPaths j) (storage_key s)"
  by (simp_all add: item_of_def)

lemma storage: "s \<in> set storages \<Longrightarrow> restore_storage c (item s)"
  by unfold_locales (simp_all add: ok item_mem)

lemma failed: "failed_path (mb_HostPath s) (SemanticOperationID (rj_request j)) = failed_path (sj_OriginalPath (item s)) (rc_op c)"
  by (simp add: semantic_op op)

section \<open>The rollback within the process\<close>

text \<open>The storages \<open>S\<close> are exchanged, the others keep their originals somewhere.\<close>

abbreviation exchanged :: "managedBackupStorage list \<Rightarrow> disk \<Rightarrow> secret_row list \<Rightarrow> bool" where
  "exchanged S d sec \<equiv> on_items c (\<lambda>i v. if i \<in> item ` set S then restored_item c i v else kept_item c i v) d"

abbreviation kept :: "disk \<Rightarrow> secret_row list \<Rightarrow> bool" where
  "kept d sec \<equiv> all_kept c d"

lemma exchanged_kept: "exchanged S d sec \<Longrightarrow> kept d sec"
  by (erule on_items_mono) (simp add: kept_item_def split: if_splits)

lemma mark_wp:
  assumes "in_state c F P I m" and "harmless f"
  shows "rwp (mark_step j key ph f) (\<lambda>_. in_state c F P I) (in_state c F P I) m"
  unfolding mark_step_def using step_wp [OF assms] journaled by simp

lemma mark_restore_wp:
  assumes "in_state c F P I m"
  shows "rwp (mark_restore j ph detail) (\<lambda>r. in_state c (if is_ok r then {ph} else F) P I) (in_state c F P I) m"
  unfolding mark_restore_def op [symmetric] using operation_wp [OF assms] journaled by simp

lemma mark_restore_on:
  assumes "in_state c F P I m" and "\<And>m'. in_state c F P I m' \<Longrightarrow> D m'"
    and "\<And>e m'. in_state c F P I m' \<Longrightarrow> rwp (err e) Q D m'" and "\<And>u m'. in_state c {ph} P I m' \<Longrightarrow> rwp (k u) Q D m'"
  shows "rwp (on_result (mark_restore j ph detail) err k) Q D m"
  unfolding mark_restore_def op [symmetric] if_P [OF journaled] by (rule operation_on) (rule assms; assumption)+

lemma undo_one:
  assumes s: "s \<in> set storages" "item s \<notin> item ` set S" and m: "in_state c F (exchanged (s # S)) I m"
    and k: "\<And>m'. in_state c F (exchanged S) I m' \<Longrightarrow> rwp k Q (in_state c F kept I) m'"
  shows "rwp (ignoring (os_RenameTree (mb_HostPath s) (failed_path (mb_HostPath s) (SemanticOperationID (rj_request j))))
    (ignoring (os_RenameTree (rollback_path j s) (mb_HostPath s)) k)) Q (in_state c F kept I) m"
proof -
  note st = storage [OF s(1)] and i = item_mem [OF s(1)]
  let ?mid = "\<lambda>d (sec :: secret_row list). on_items c (\<lambda>i v. if i = item s then aside_item c i v \<or> restored_item c i v
    else if i \<in> item ` set S then restored_item c i v else kept_item c i v) d"
  have mid: "exchanged (s # S) d sec \<Longrightarrow> ?mid d sec" for d sec
    by (erule on_items_mono) (auto split: if_splits)
  have mid_exchanged: "?mid d sec \<Longrightarrow> exchanged S d sec" for d sec
    using s(2) by (elim on_items_mono) (auto simp: kept_item_def split: if_splits)
  have mid_kept: "?mid d sec \<Longrightarrow> kept d sec" for d sec
    by (erule on_items_mono) (auto simp: kept_item_def split: if_splits)
  have frame: "only_at (item_paths (rc_op c) (item s)) d d'"
    if "rename_tree (mb_HostPath s) (failed_path (mb_HostPath s) (SemanticOperationID (rj_request j))) d = (r, d')
      \<or> rename_tree (rollback_path j s) (mb_HostPath s) d = (r, d')" for d d' r
    using that by (auto intro: rename_only_at simp: item_paths_def semantic_op op)
  have discard: "?mid d' sec" if "exchanged (s # S) d sec"
    and r: "rename_tree (mb_HostPath s) (failed_path (mb_HostPath s) (SemanticOperationID (rj_request j))) d = (Inr (), d')" for d d' sec
  proof (rule on_items_update [OF ok that(1) i frame])
    have "restored_item c (item s) (view_of (item s) d)" using on_itemsD [OF that(1) i] by simp
    with restore_storage.discard_view [OF st] r
    show "(if item s = item s then aside_item c (item s) (view_of (item s) d') \<or> restored_item c (item s) (view_of (item s) d')
      else if item s \<in> item ` set S then restored_item c (item s) (view_of (item s) d') else kept_item c (item s) (view_of (item s) d'))"
      by (simp add: semantic_op op)
  qed (use r in \<open>auto split: if_splits\<close>)
  have put_back: "exchanged S d' sec" if "?mid d sec" and r: "rename_tree (rollback_path j s) (mb_HostPath s) d = (Inr (), d')" for d d' sec
  proof (rule on_items_update [OF ok that(1) i frame])
    have "aside_item c (item s) (view_of (item s) d) \<or> restored_item c (item s) (view_of (item s) d)"
      using on_itemsD [OF that(1) i] by simp
    with restore_storage.put_back_view [OF st] r s(2)
    show "(if item s \<in> item ` set S then restored_item c (item s) (view_of (item s) d') else kept_item c (item s) (view_of (item s) d'))"
      by (simp add: kept_item_def)
  qed (use r in \<open>auto split: if_splits\<close>)
  show ?thesis
  proof (rule rwp_ignoringI [where P = "in_state c F ?mid I"])
    show "rwp (os_RenameTree (mb_HostPath s) (failed_path (mb_HostPath s) (SemanticOperationID (rj_request j))))
      (\<lambda>_. in_state c F ?mid I) (in_state c F kept I) m"
      by (rule rename_either [OF m discard mid exchanged_kept])
  next
    fix m'
    assume m': "in_state c F ?mid I m'"
    show "rwp (ignoring (os_RenameTree (rollback_path j s) (mb_HostPath s)) k) Q (in_state c F kept I) m'"
    proof (rule rwp_ignoringI [where P = "in_state c F (exchanged S) I"])
      show "rwp (os_RenameTree (rollback_path j s) (mb_HostPath s)) (\<lambda>_. in_state c F (exchanged S) I) (in_state c F kept I) m'"
        by (rule rename_either [OF m' put_back mid_exchanged mid_kept])
    qed (rule k)
  qed
qed

lemma undo_wp:
  assumes "set S \<subseteq> set storages" and "distinct S" and "in_state c F (exchanged S) I m"
  shows "rwp (undo_swaps j S) (\<lambda>_. in_state c F kept I) (in_state c F kept I) m"
  using assms
proof (induction S arbitrary: m)
  case Nil
  then show ?case by (auto elim: in_state_mono)
next
  case (Cons s S)
  then have new: "item s \<notin> item ` set S" using item_inj [of s] by auto
  have rest: "rwp (ignoring (mark_step j (storage_key s) SRolledBack id) (undo_swaps j S)) (\<lambda>_. in_state c F kept I) (in_state c F kept I) m'"
    if "in_state c F (exchanged S) I m'" for m'
    by (rule rwp_ignoringI [where P = "in_state c F (exchanged S) I"], rule rwp_mono [OF mark_wp [OF that]])
      (use Cons in \<open>auto elim: in_state_mono intro: exchanged_kept\<close>)
  show ?case unfolding undo_swaps.simps by (rule undo_one [OF _ new Cons.prems(3) rest]) (use Cons.prems(1) in simp_all)
qed


abbreviation U :: "'w \<Rightarrow> bool" where "U \<equiv> \<lambda>_. True"

lemma rollback_wp:
  fixes rt :: "'w BackupRuntime"
  assumes S: "set S \<subseteq> set storages" "distinct S" and m: "in_state c F (exchanged S) U m" and F: "RRolledBack \<in> F"
  shows "rwp (restore_rollback rt j running S cause) (\<lambda>_. in_state c F kept U) (in_state c F kept U) m"
  unfolding restore_rollback_def
proof (rule rwp_ignoringI [where P = "in_state c F (exchanged S) U"])
  show "rwp (stopBackupRuntime rt (rj_plan j)) (\<lambda>_. in_state c F (exchanged S) U) (in_state c F kept U) m"
    unfolding stopBackupRuntime_def
    by (rule rwp_mono [OF any_runtime.stop_all_state [OF m]]) (auto elim: in_state_mono intro: exchanged_kept)
next
  fix m1 :: "'w machine"
  assume m1: "in_state c F (exchanged S) U m1"
  have undo: "rwp (undo_swaps j (rev S)) (\<lambda>_. in_state c F kept U) (in_state c F kept U) m1"
    by (rule undo_wp) (use S m1 in simp_all)
  have secrets: "rwp (db_exec (replaceSecrets now i vs)) (\<lambda>_. in_state c F kept U) (in_state c F kept U) m2"
    if "in_state c F kept U m2" for now i vs and m2 :: "'w machine"
    by (rule rwp_mono [OF secrets_wp [OF that]]) (auto elim: in_state_mono)
  have mark: "rwp (mark_restore j RRolledBack detail) (\<lambda>_. in_state c F kept U) (in_state c F kept U) m2"
    if "in_state c F kept U m2" for detail and m2 :: "'w machine"
    by (rule rwp_mono [OF mark_restore_wp [OF that]]) (use F in \<open>auto elim!: in_state_mono split: if_splits\<close>)
  show "rwp (ignoring (undo_swaps j (rev S)) (rbind (db_exec (replaceSecrets (rj_now j) (rq_InstanceID (rj_request j)) (ap_Secrets (rj_plan j))))
     (\<lambda>r1. rbind (resumeBackupRuntime rt (rj_plan j) running)
       (\<lambda>r2. let cause' = also_failed (also_failed cause ''; secret rollback failed'' r1) ''; application rollback restart failed'' r2 in
          ignoring (mark_restore j RRolledBack (error_text cause')) (rret cause')))))
     (\<lambda>_. in_state c F kept U) (in_state c F kept U) m1"
    unfolding Let_def
    by (rule rwp_ignoringI [OF undo] rwp_rbindI [OF secrets] rwp_rbindI [OF any_runtime.resume_state] rwp_ignoringI [OF mark]
        | simp)+
qed

section \<open>The exchange\<close>

abbreviation swapping :: "managedBackupStorage list \<Rightarrow> managedBackupStorage list \<Rightarrow> disk \<Rightarrow> secret_row list \<Rightarrow> bool" where
  "swapping S T d sec \<equiv> on_items c (\<lambda>i v. if i \<in> item ` set S then restored_item c i v
     else if i \<in> item ` set T then fresh_item c i v else kept_item c i v) d"

lemma fresh_original: "i \<in> set (rc_items c) \<Longrightarrow> fresh_item c i v \<Longrightarrow> original_item c i v"
  using ok by (auto simp: item_defs case_ok_def)

lemma swapping_exchanged: "swapping S T d sec \<Longrightarrow> exchanged S d sec"
  by (erule on_items_mono) (auto simp: kept_item_def fresh_original split: if_splits)

lemma swapping_kept: "swapping S T d sec \<Longrightarrow> kept d sec"
  by (rule exchanged_kept [OF swapping_exchanged])

text \<open>The staged trees that are still to be moved.\<close>

definition paths_left :: "string go_map \<Rightarrow> managedBackupStorage list \<Rightarrow> bool" where
  "paths_left np T \<longleftrightarrow> (\<forall>t \<in> set T. lookup_str np (storage_key t) = sj_StagedPath (item t))
     \<and> snd ` set np \<subseteq> (\<lambda>t. sj_StagedPath (item t)) ` set storages"

lemma paths_left_delete:
  assumes "paths_left np (s # T)" and "distinct (s # T)" and "set (s # T) \<subseteq> set storages"
  shows "paths_left (map_delete (storage_key s) np) T"
proof -
  have "storage_key t \<noteq> storage_key s" if "t \<in> set T" for t
    using that assms(2,3) keys_distinct by (auto simp: distinct_map inj_on_def)
  then have "lookup_str (map_delete (storage_key s) np) (storage_key t) = lookup_str np (storage_key t)" if "t \<in> set T" for t
    using that by (induction np) (auto simp: map_delete_def lookup_str_def)
  with assms(1) show ?thesis by (auto simp: paths_left_def map_delete_def)
qed

definition exit_ok :: "restore_phase set \<Rightarrow> 'a exit \<Rightarrow> (string go_map \<Rightarrow> 'a \<Rightarrow> 'w machine \<Rightarrow> bool) \<Rightarrow> 'w machine \<Rightarrow> bool" where
  "exit_ok F x Q m \<longleftrightarrow> (case x of
     Leave e keep np \<Rightarrow> in_state c F kept U m \<and> paths_left np [] | Proceed a np \<Rightarrow> Q np a m)"

lemma rolled_back_exit_wp:
  fixes rt :: "'w BackupRuntime"
  assumes "set S \<subseteq> set storages" "distinct S" and "in_state c F (exchanged S) U m" and "RRolledBack \<in> F" and "paths_left np T"
  shows "rwp (rolled_back_exit rt j running S np e) (\<lambda>x. exit_ok F x Q) (in_state c F kept U) m"
  unfolding rolled_back_exit_def
  by (rule rwp_rbindI [OF rollback_wp [OF assms(1-4)]]) (use assms(5) in \<open>simp add: exit_ok_def paths_left_def\<close>)

text \<open>One storage whose current tree is set aside, between the two renames.\<close>

abbreviation between :: "managedBackupStorage list \<Rightarrow> managedBackupStorage \<Rightarrow> managedBackupStorage list \<Rightarrow> disk \<Rightarrow> secret_row list \<Rightarrow> bool" where
  "between S s T d sec \<equiv> on_items c (\<lambda>i v. if i = item s
     then v = (None, Some (new (storage_key s)), Some (old (storage_key s)))
     else if i \<in> item ` set S then restored_item c i v else if i \<in> item ` set T then fresh_item c i v else kept_item c i v) d"

lemma case_trees [simp]: "rc_old c = old" "rc_new c = new"
  by (simp_all add: case_of_def)

lemma staged_id: "s \<in> set storages \<Longrightarrow> mt_id (new (storage_key s)) = sj_Staged (item s)"
  by (simp add: item_of_def)

lemma between_aside: "between S s T d sec \<Longrightarrow> s \<in> set storages \<Longrightarrow> aside_item c (item s) (view_of (item s) d)"
  by (auto dest!: on_itemsD [OF _ item_mem] simp: aside_item_def staged_id)

lemma between_kept: "between S s T d sec \<Longrightarrow> s \<in> set storages \<Longrightarrow> kept d sec"
  by (erule on_items_mono) (auto simp: kept_item_def aside_item_def staged_id fresh_original split: if_splits)

lemma between_exchanged:
  "between S s T d sec \<Longrightarrow> s \<in> set storages \<Longrightarrow> item s \<notin> item ` set S \<Longrightarrow> exchanged S d sec"
  by (erule on_items_mono) (auto simp: kept_item_def aside_item_def staged_id fresh_original split: if_splits)

lemma set_aside_step:
  assumes s: "s \<in> set storages" "item s \<notin> item ` set S" and d: "swapping S (s # T) d sec"
    and r: "rename_tree (mb_HostPath s) (rollback_path j s) d = (Inr (), d')"
  shows "between S s T d' sec"
proof (rule on_items_update [OF ok d item_mem [OF s(1)]])
  show "only_at (item_paths (rc_op c) (item s)) d d'" using rename_only_at [OF r] by (simp add: item_paths_def)
  have "fresh_item c (item s) (view_of (item s) d)" using on_itemsD [OF d item_mem [OF s(1)]] s(2) by simp
  with restore_storage.set_aside_view [OF storage [OF s(1)]] r
  show "(if item s = item s then view_of (item s) d' = (None, Some (new (storage_key s)), Some (old (storage_key s)))
     else if item s \<in> item ` set S then restored_item c (item s) (view_of (item s) d')
     else if item s \<in> item ` set T then fresh_item c (item s) (view_of (item s) d') else kept_item c (item s) (view_of (item s) d'))"
    by simp
qed (auto split: if_splits)

lemma activate_step:
  assumes s: "s \<in> set storages" and d: "between S s T d sec"
    and r: "rename_tree (sj_StagedPath (item s)) (mb_HostPath s) d = (Inr (), d')"
  shows "swapping (S @ [s]) T d' sec"
proof (rule on_items_update [OF ok d item_mem [OF s]])
  show "only_at (item_paths (rc_op c) (item s)) d d'" using rename_only_at [OF r] by (simp add: item_paths_def)
  have "view_of (item s) d = (None, Some (rc_new c (sj_Key (item s))), Some (rc_old c (sj_Key (item s))))"
    using on_itemsD [OF d item_mem [OF s]] by simp
  with restore_storage.activate_view [OF storage [OF s]] r
  show "(if item s \<in> item ` set (S @ [s]) then restored_item c (item s) (view_of (item s) d')
     else if item s \<in> item ` set T then fresh_item c (item s) (view_of (item s) d') else kept_item c (item s) (view_of (item s) d'))"
    by simp
qed (auto split: if_splits)

lemma give_back_step:
  assumes s: "s \<in> set storages" "item s \<notin> item ` set S" and d: "between S s T d sec"
    and r: "rename_tree (rollback_path j s) (mb_HostPath s) d = (Inr (), d')"
  shows "exchanged S d' sec"
proof (rule on_items_update [OF ok d item_mem [OF s(1)]])
  show "only_at (item_paths (rc_op c) (item s)) d d'" using rename_only_at [OF r] by (simp add: item_paths_def)
  from restore_storage.put_back_view [OF storage [OF s(1)]] r between_aside [OF d s(1)] s(2)
  show "(if item s \<in> item ` set S then restored_item c (item s) (view_of (item s) d') else kept_item c (item s) (view_of (item s) d'))"
    by (simp add: kept_item_def)
qed (auto simp: kept_item_def fresh_original split: if_splits)

definition swapped_all :: "restore_phase set \<Rightarrow> string go_map \<Rightarrow> managedBackupStorage list \<Rightarrow> 'w machine \<Rightarrow> bool" where
  "swapped_all F np S m \<longleftrightarrow> in_state c F (exchanged S) U m \<and> set S = set storages \<and> distinct S \<and> paths_left np []"

lemma swap_wp:
  fixes rt :: "'w BackupRuntime"
  assumes "set S \<union> set T = set storages" and "distinct (S @ T)" and "in_state c F (swapping S T) U m"
    and "RRolledBack \<in> F" and "paths_left np T"
  shows "rwp (swap_storages rt j running T S np) (\<lambda>x. exit_ok F x (swapped_all F)) (in_state c F kept U) m"
  using assms
proof (induction T arbitrary: S np m)
  case Nil
  have "in_state c F (exchanged S) U m" by (rule in_state_mono [OF Nil(3) subset_refl swapping_exchanged])
  with Nil show ?case by (simp add: exit_ok_def swapped_all_def)
next
  case (Cons s T)
  from Cons.prems(1,2) have s: "s \<in> set storages" "item s \<notin> item ` set S" and S: "set S \<subseteq> set storages" "distinct S"
    using item_inj [of s] by auto
  have path: "lookup_str np (storage_key s) = sj_StagedPath (item s)" using Cons.prems(5) by (simp add: paths_left_def)
  let ?A = "in_state c F (swapping S (s # T)) U" and ?B = "in_state c F (between S s T) U"
  let ?K = "in_state c F kept U" and ?Q = "\<lambda>x. exit_ok F x (swapped_all F)"
  have toE: "in_state c F (exchanged S) U m'" if "?A m'" for m' :: "'w machine"
    by (rule in_state_mono [OF that subset_refl swapping_exchanged])
  have deadS: "?K m'" if "in_state c F (swapping S' T') U m'" for S' T' and m' :: "'w machine"
    by (rule in_state_mono [OF that subset_refl swapping_kept])
  have deadB: "?K m'" if "?B m'" for m' :: "'w machine"
    by (rule in_state_mono [OF that subset_refl between_kept [OF _ s(1)]])
  have leave: "?Q (Leave e keep np) m'" if "?K m'" for e keep and m' :: "'w machine"
    using that Cons.prems(5) by (simp add: exit_ok_def paths_left_def)
  have undo: "rwp (rolled_back_exit rt j running S np e) ?Q ?K m'" if "in_state c F (exchanged S) U m'" for e and m' :: "'w machine"
    by (rule rolled_back_exit_wp [OF S that Cons.prems(4,5)])
  have A: "rwp (on_result (mark_step j (storage_key s) ph f) (rolled_back_exit rt j running S np) k) ?Q ?K m'"
    if "?A m'" "harmless f" "\<And>u m'. ?A m' \<Longrightarrow> rwp (k u) ?Q ?K m'" for ph f k and m' :: "'w machine"
    by (rule rwp_on_resultI [OF rwp_dead [OF mark_wp [OF that(1,2)] deadS [of S "s # T"]]]) (assumption | rule undo [OF toE] | erule that(3))+
  have B: "rwp (on_result (mark_step j (storage_key s) ph f) (\<lambda>e. rret (Leave e True np)) k) ?Q ?K m'"
    if "?B m'" "harmless f" "\<And>u m'. ?B m' \<Longrightarrow> rwp (k u) ?Q ?K m'" for ph f k and m' :: "'w machine"
    by (rule rwp_on_resultI [OF rwp_dead [OF mark_wp [OF that(1,2)] deadB]]) (assumption | (unfold rwp_rret, rule leave, erule deadB) | erule that(3))+
  have rest: "rwp (swap_storages rt j running T (S @ [s]) (map_delete (storage_key s) np)) ?Q ?K m'"
    if "in_state c F (swapping (S @ [s]) T) U m'" for m' :: "'w machine"
    by (rule Cons.IH [OF _ _ that Cons.prems(4) paths_left_delete [OF Cons.prems(5)]]) (use Cons.prems(1,2) in auto)
  have last: "rwp (on_result (mark_step j (storage_key s) SStagedToActiveConfirmed f) (\<lambda>e. rret (Leave e True np))
      (\<lambda>_. swap_storages rt j running T (S @ [s]) (map_delete (storage_key s) np))) ?Q ?K m'"
    if m': "in_state c F (swapping (S @ [s]) T) U m'" and f: "harmless f" for f and m' :: "'w machine"
    by (rule rwp_on_resultI [OF rwp_dead [OF mark_wp [OF m' f] deadS [of "S @ [s]" T]]]) (assumption | (unfold rwp_rret, rule leave, erule deadS) | erule rest)+
  have second: "rwp (on_result (os_RenameTree (lookup_str np (storage_key s)) (mb_HostPath s))
      (\<lambda>e. ignoring (os_RenameTree (rollback_path j s) (mb_HostPath s)) (rolled_back_exit rt j running S np (E e))) k) ?Q ?K m'"
    if m': "?B m'" and k: "\<And>u m'. in_state c F (swapping (S @ [s]) T) U m' \<Longrightarrow> rwp (k u) ?Q ?K m'" for E k and m' :: "'w machine"
    unfolding path
  proof (rule rwp_on_resultI [OF rwp_dead [OF rename_state [OF m' activate_step [OF s(1)]] deadB]])
    fix e and m2 :: "'w machine"
    assume "in_state c F (if is_ok (Inl e :: unit result) then swapping (S @ [s]) T else between S s T) U m2"
    then have "?B m2" by simp
    then show "rwp (ignoring (os_RenameTree (rollback_path j s) (mb_HostPath s)) (rolled_back_exit rt j running S np (E e))) ?Q ?K m2"
      by (intro rwp_ignoringI [where P = "in_state c F (exchanged S) U"] undo
          rename_either [OF _ give_back_step [OF s] between_exchanged [OF _ s] between_kept [OF _ s(1)]])
  qed (assumption | (rule k, simp only: is_ok_simps if_True))+
  have first: "rwp (on_result (os_RenameTree (mb_HostPath s) (rollback_path j s)) (\<lambda>e. rolled_back_exit rt j running S np (E e)) k) ?Q ?K m'"
    if m': "?A m'" and k: "\<And>u m'. ?B m' \<Longrightarrow> rwp (k u) ?Q ?K m'" for E k and m' :: "'w machine"
  proof (rule rwp_on_resultI [OF rwp_dead [OF rename_state [OF m' set_aside_step [OF s]] deadS [of S "s # T"]]])
    fix e and m2 :: "'w machine"
    assume "in_state c F (if is_ok (Inl e :: unit result) then between S s T else swapping S (s # T)) U m2"
    then have "in_state c F (exchanged S) U m2" by (intro toE) simp
    then show "rwp (rolled_back_exit rt j running S np (E e)) ?Q ?K m2" by (rule undo)
  qed (assumption | (rule k, simp only: is_ok_simps if_True))+
  show ?case unfolding swap_storages.simps Let_def
    by (intro A B first second last Cons.prems(3) harmless_columns)
qed

section \<open>From the exchange to the end\<close>

lemma all_exchanged: "set S = set storages \<Longrightarrow> exchanged S d sec \<Longrightarrow> all_restored c d"
  by (erule on_items_mono) (auto simp: items split: if_splits)

lemma restored_all_final: "all_restored c d \<Longrightarrow> all_final c d"
  by (erule on_items_mono) (rule restored_final [OF ok])

lemma remove_replaced_wp:
  fixes m :: "'w machine"
  assumes "set S \<subseteq> set storages" and "in_state c F (committed c) U m"
  shows "rwp (remove_replaced j S deferred) (\<lambda>_. in_state c F (committed c) U) (in_state c F (committed c) U) m"
  using assms
proof (induction S arbitrary: deferred m)
  case (Cons s S)
  then have s: "s \<in> set storages" by simp
  have final: "committed c d' sec" if "committed c d sec" and r: "shrinks (rollback_path j s) d d'" for d d' sec
  proof -
    from that(1) have d: "all_final c d" by (simp add: committed_def)
    have "all_final c d'"
    proof (rule on_items_update [OF ok d item_mem [OF s]])
      show "only_at (item_paths (rc_op c) (item s)) d d'" using shrinks_only_at [OF r] by (simp add: item_paths_def)
      show "final_item c (item s) (view_of (item s) d')"
        using restore_storage.remove_replaced_view [OF storage [OF s]] r on_itemsD [OF d item_mem [OF s]] by simp
    qed
    with that(1) show ?thesis by (simp add: committed_def)
  qed
  have IH: "rwp (remove_replaced j S x) (\<lambda>_. in_state c F (committed c) U) (in_state c F (committed c) U) m'"
    if "in_state c F (committed c) U m'" for x and m' :: "'w machine" by (rule Cons.IH) (use Cons.prems that in auto)
  show ?case unfolding remove_replaced.simps
    apply (rule rwp_ignoringI [OF mark_wp [OF Cons.prems(2)]], simp)
    apply (rule rwp_on_resultI [OF remove_state], assumption, erule final, assumption)
     apply (use journaled in \<open>auto intro!: rwp_ignoringI [OF step_error_wp] rwp_ignoringI [OF mark_wp] IH\<close>)
    done
qed simp

definition finished :: "restore_result exit \<Rightarrow> 'w machine \<Rightarrow> bool" where
  "finished x m \<longleftrightarrow> (case x of
     Leave e keep np \<Rightarrow> safe c m \<and> paths_left np []
   | Proceed r np \<Rightarrow> in_state c {RCommitted, RCleanupPending, RCompleted} (committed c) U m \<and> paths_left np [])"

lemma finish_wp:
  fixes rt :: "'w BackupRuntime"
  assumes m: "swapped_all F np S m" and F: "RRolledBack \<in> F" "RRuntimeRestorePending \<in> F" "F \<subseteq> before_commit"
  shows "rwp (finish_restore rt j running S np) finished (safe c) m"
proof -
  from m have st: "in_state c F (exchanged S) U m" and S: "set S = set storages" "distinct S" and np: "paths_left np []"
    unfolding swapped_all_def by blast+
  have sub: "set S \<subseteq> set storages" using S by simp
  have safeE: "safe c m'" if "in_state c F (exchanged S) U m'" for m' :: "'w machine"
    by (rule safe_kept [OF in_state_mono [OF that subset_refl exchanged_kept] F(3)])
  have leave: "finished (Leave e keep np) m'" if "safe c m'" for e keep and m' :: "'w machine"
    using that np by (simp add: finished_def)
  have undo: "rwp (rolled_back_exit rt j running S np e) finished (safe c) m'" if "in_state c F (exchanged S) U m'" for e and m' :: "'w machine"
    by (rule rwp_mono [OF rolled_back_exit_wp [OF sub S(2) that F(1) np, where Q = "\<lambda>_ _ _. False"]])
      (auto simp: exit_ok_def finished_def intro: safe_kept [OF _ F(3)] split: exit.splits)
  let ?R = "\<lambda>d sec. exchanged S d sec \<and> holds_secrets (rc_inst c) (rc_new_secrets c) sec"
  have RE: "in_state c F (exchanged S) U m'" if "in_state c F ?R U m'" for m' :: "'w machine"
    by (rule in_state_mono [OF that subset_refl]) (erule conjunct1)
  have R_committed: "committed c d sec" if "?R d sec" for d sec
    using that all_exchanged [OF S(1)] restored_all_final by (simp add: committed_def)
  have doneF: "finished (Proceed r np) m'" if "in_state c {RCommitted, RCleanupPending, RCompleted} (committed c) U m'" for r and m' :: "'w machine"
    using that np by (simp add: finished_def)
  have safeC: "safe c m'" if "in_state c G (committed c) U m'" "G \<subseteq> after_commit" for G and m' :: "'w machine"
    by (rule safe_committed [OF that])
  have inst: "rq_InstanceID (rj_request j) = rc_inst c" "rj_secrets j = rc_new_secrets c" by (simp_all add: case_of_def)
  have last: "rwp (if deferred then ignoring (db_exec (defer_cleanup (rj_now j) (job_op j))) (rret (Proceed r np))
      else on_result (mark_restore j RCompleted []) (\<lambda>e. rret (Leave e False np)) (\<lambda>_. rret (Proceed r np))) finished (safe c) m'"
    if m': "in_state c {RCommitted} (committed c) U m'" for deferred r and m' :: "'w machine"
  proof (cases deferred)
    case True
    have "rwp (db_exec (defer_cleanup (rj_now j) (job_op j))) (\<lambda>_. in_state c {RCommitted, RCleanupPending, RCompleted} (committed c) U) (safe c) m'"
      unfolding op [symmetric]
      by (rule rwp_mono [OF defer_wp [OF m']]) (erule in_state_mono, simp_all add: safeC after_commit_def)
    then show ?thesis unfolding if_P [OF True] by (rule rwp_ignoringI) (simp add: doneF)
  next
    case False
    have safeCC: "safe c m2" if "in_state c {RCommitted} (committed c) U m2" for m2 :: "'w machine"
      by (rule safeC [OF that]) (simp add: after_commit_def)
    have doneC: "finished (Proceed r np) m2" if "in_state c {RCompleted} (committed c) U m2" for m2 :: "'w machine"
      by (rule doneF [OF in_state_mono [OF that]]) simp_all
    show ?thesis unfolding if_not_P [OF False]
      by (rule mark_restore_on [OF m' safeCC]) (simp_all only: rwp_rret leave safeCC doneC)
  qed
  have clean: "rwp (on_result (remove_replaced j S False) (\<lambda>e. rret (Leave e False np)) (\<lambda>deferred.
      let leave = rret (Proceed (restored_result j deferred) np) in
      if \<not> journaled j then leave
      else if deferred then ignoring (db_exec (defer_cleanup (rj_now j) (job_op j))) leave
      else on_result (mark_restore j RCompleted []) (\<lambda>e. rret (Leave e False np)) (\<lambda>_. leave))) finished (safe c) m'"
    if m': "in_state c {RCommitted} (committed c) U m'" for m' :: "'w machine"
    unfolding Let_def
    by (rule rwp_on_resultI [OF rwp_dead [OF remove_replaced_wp [OF sub m'] safeC]])
      (use last leave safeC journaled in \<open>auto simp: after_commit_def\<close>)
  have commit: "rwp (on_result (mark_restore j RCommitted []) (\<lambda>e. rret (Leave e True np)) k) finished (safe c) m'"
    if m': "in_state c F ?R U m'" and k: "\<And>u m'. in_state c {RCommitted} (committed c) U m' \<Longrightarrow> rwp (k u) finished (safe c) m'"
    for k and m' :: "'w machine"
  proof (rule mark_restore_on [OF m'])
    show safe: "safe c m2" if "in_state c F ?R U m2" for m2 :: "'w machine"
      by (rule safeE [OF RE [OF that]])
    show "rwp (rret (Leave e True np)) finished (safe c) m2" if "in_state c F ?R U m2" for e and m2 :: "'w machine"
      unfolding rwp_rret by (rule leave [OF safe [OF that]])
    show "rwp (k u) finished (safe c) m2" if "in_state c {RCommitted} ?R U m2" for u and m2 :: "'w machine"
      by (rule k [OF in_state_mono [OF that subset_refl R_committed]])
  qed
  have resume: "rwp (on_result (resumeBackupRuntime rt (rj_plan j) running) (\<lambda>e. rolled_back_exit rt j running S np (E e)) k) finished (safe c) m'"
    if m': "in_state c F ?R U m'" and k: "\<And>u m'. in_state c F ?R U m' \<Longrightarrow> rwp (k u) finished (safe c) m'" for E k and m' :: "'w machine"
    by (rule rwp_on_resultI [OF rwp_dead [OF any_runtime.resume_state [OF m']]])
      (rule safeE [OF RE], assumption, rule undo [OF RE], assumption, erule k)
  have secrets: "rwp (on_result (db_exec (replaceSecrets (rj_now j) (rc_inst c) (rc_new_secrets c))) (\<lambda>e. rolled_back_exit rt j running S np (E e)) k)
      finished (safe c) m'"
    if m': "in_state c F (exchanged S) U m'" and k: "\<And>u m'. in_state c F ?R U m' \<Longrightarrow> rwp (k u) finished (safe c) m'" for E k and m' :: "'w machine"
  proof (rule rwp_on_resultI [OF rwp_dead [OF secrets_wp [OF m'] safeE]])
    fix e and m2 :: "'w machine"
    assume "in_state c F (\<lambda>d s. exchanged S d s \<and> (is_ok (Inl e :: unit result) \<longrightarrow> holds_secrets (rc_inst c) (rc_new_secrets c) s)) U m2"
    then have "in_state c F (exchanged S) U m2" by (rule in_state_mono [OF _ subset_refl]) (erule conjunct1)
    then show "rwp (rolled_back_exit rt j running S np (E e)) finished (safe c) m2" by (rule undo)
  next
    fix u and m2 :: "'w machine"
    assume "in_state c F (\<lambda>d s. exchanged S d s \<and> (is_ok (Inr u :: unit result) \<longrightarrow> holds_secrets (rc_inst c) (rc_new_secrets c) s)) U m2"
    then have "in_state c F ?R U m2" by (rule in_state_mono [OF _ subset_refl]) simp
    then show "rwp (k u) finished (safe c) m2" by (rule k)
  qed
  have "rwp (mark_restore j RRuntimeRestorePending []) (\<lambda>_. in_state c F (exchanged S) U) (safe c) m"
    by (rule rwp_mono [OF mark_restore_wp [OF st]]) (erule in_state_mono, use F(2) in \<open>auto intro: safeE\<close>)
  then show ?thesis unfolding finish_restore_def Let_def inst
    by (rule rwp_on_resultI) (unfold rwp_rret, rule leave, erule safeE, intro secrets resume commit, assumption+, rule clean [unfolded Let_def])
qed

section \<open>The start of the journal\<close>

definition row_of :: "managedBackupStorage \<Rightarrow> restore_step" where
  "row_of s = new_step (rj_now j) (job_op j) (storage_key s) (mb_HostPath s) (sj_StagedPath (item s)) (rollback_path j s)
     (sj_Original (item s)) (sj_Staged (item s))"

lemma row_of_simps [simp]: "scan_step (row_of s) = item s" "rs_operation_id (row_of s) = job_op j" "rs_storage_key (row_of s) = storage_key s"
  by (simp_all add: row_of_def new_step_def scan_step_def item_of_def)

definition same_data :: "'w machine \<Rightarrow> 'w machine \<Rightarrow> bool" where
  "same_data m m' \<longleftrightarrow> mc_disk m' = mc_disk m \<and> mc_db m' = mc_db m"

lemma same_data_simps [simp]: "same_data m m" "same_data m (m'\<lparr>mc_faults := fs\<rparr>) = same_data m m'"
  by (simp_all add: same_data_def)

lemma fresh_identities:
  assumes "on_items c (fresh_item c) d" and "s \<in> set storages"
  shows "\<exists>t. d (mb_HostPath s) = Some t \<and> mt_id t = sj_Original (item s)"
    and "\<exists>t. d (sj_StagedPath (item s)) = Some t \<and> mt_id t = sj_Staged (item s)"
  using on_itemsD [OF assms(1) item_mem [OF assms(2)]] ok item_mem [OF assms(2)]
  by (auto simp: fresh_item_def view_of_def item_of_def)

lemma journal_steps_wp:
  fixes m :: "'w machine"
  assumes "set T \<subseteq> set storages" and "on_items c (fresh_item c) (mc_disk m0)" and "same_data m0 m"
  shows "rwp (journal_steps j T d) (\<lambda>r m'. same_data m0 m' \<and> (\<forall>d'. r = Inr d' \<longrightarrow> d' = d\<lparr>rd_steps := rd_steps d @ map row_of T\<rparr>))
    (same_data m0) m"
  using assms(1,3)
proof (induction T arbitrary: d m)
  case (Cons s T)
  then have s: "s \<in> set storages" by simp
  let ?Q = "\<lambda>r m'. same_data m0 m' \<and> (\<forall>d'. r = Inr d' \<longrightarrow> d' = d\<lparr>rd_steps := rd_steps d @ map row_of (s # T)\<rparr>)"
  have ident: "rwp (on_result (pathIdentity p) (\<lambda>_. rfail e) (\<lambda>(i, present). if \<not> present then rfail e else k i)) ?Q (same_data m0) m'"
    if m': "same_data m0 m'" and p: "\<exists>t. mc_disk m0 p = Some t \<and> mt_id t = x" and k: "\<And>m'. same_data m0 m' \<Longrightarrow> rwp (k x) ?Q (same_data m0) m'"
    for p e k x and m' :: "'w machine"
    unfolding on_result_def rwp_rbind
    by (rule pathIdentity_wp) (use m' p k in \<open>auto simp: same_data_def split: option.splits\<close>)
  have insert: "rwp (case insert_step (row_of s) d of Inl e \<Rightarrow> rfail e | Inr d' \<Rightarrow> journal_steps j T d') ?Q (same_data m0) m'"
    if m': "same_data m0 m'" for m' :: "'w machine"
  proof (cases "insert_step (row_of s) d")
    case (Inr d1)
    then have d1: "d1 = d\<lparr>rd_steps := rd_steps d @ [row_of s]\<rparr>" by (auto simp: insert_step_def result_iffs sql_insert_Inr_iff split: if_splits)
    show ?thesis unfolding Inr sum.case
      by (rule rwp_mono [OF Cons.IH [of m' d1]]) (use Cons.prems(1) m' in \<open>simp_all add: d1\<close>)
  qed (use m' in simp)
  have row: "new_step (rj_now j) (rq_OperationID (rj_request j)) (storage_key s) (mb_HostPath s) (lookup_str (rj_newPaths j) (storage_key s))
    (lookup_str (rj_rollbackPaths j) (storage_key s)) (sj_Original (item s)) (sj_Staged (item s)) = row_of s"
    by (simp add: row_of_def job_op_def rollback_path_def)
  have staged: "\<exists>t. mc_disk m0 (lookup_str (rj_newPaths j) (storage_key s)) = Some t \<and> mt_id t = sj_Staged (item s)"
    using fresh_identities(2) [OF assms(2) s] by simp
  show ?case unfolding journal_steps.simps Let_def
    by (split sum.split, intro conjI allI impI)
      (use Cons.prems(2) in simp, rule ident [OF Cons.prems(2) fresh_identities(1) [OF assms(2) s]],
        erule ident [OF _ staged], unfold row, erule insert)
qed (use assms in simp)

lemma begun_journal:
  assumes none: "no_journal c d"
    and d': "d' = d\<lparr>rd_restores := rd_restores d @ [new_restore j], rd_steps := rd_steps d @ map row_of storages\<rparr>"
  shows "journal_ok c (d'\<lparr>rd_restores := sql_update (\<lambda>r. ro_operation_id r = job_op j) (\<lambda>r. r\<lparr>ro_phase := RStaged, ro_updated_at := now\<rparr>) (rd_restores d')\<rparr>)"
    and "phase_of c (d'\<lparr>rd_restores := sql_update (\<lambda>r. ro_operation_id r = job_op j) (\<lambda>r. r\<lparr>ro_phase := RStaged, ro_updated_at := now\<rparr>) (rd_restores d')\<rparr>) = Some RStaged"
proof -
  let ?f = "\<lambda>r. r\<lparr>ro_phase := RStaged, ro_updated_at := now\<rparr>"
  have others: "\<forall>r \<in> set (rd_restores d). ro_operation_id r \<noteq> job_op j" using none by (simp add: no_journal_def op)
  have key: "ro_operation_id (new_restore j) = job_op j" by (simp add: new_restore_def job_op_def)
  have table: "sql_update (\<lambda>r. ro_operation_id r = job_op j) ?f (rd_restores d') = rd_restores d @ [?f (new_restore j)]"
    using others key by (simp add: d' sql_update_def map_idI)
  have get: "tbl_get ro_operation_id (job_op j) (rd_restores d @ [?f (new_restore j)]) = Some (?f (new_restore j))"
    using others key by (simp add: tbl_get_def find_append find_None_all [THEN iffD2])
  have "journal_items (rc_op c) (d'\<lparr>rd_restores := t\<rparr>) = sort_key sj_Key (map item storages)" for t
  proof -
    have "filter (\<lambda>s. rs_operation_id s = job_op j) (rd_steps d') = map row_of storages"
      using none by (simp add: d' no_journal_def op filter_map comp_def)
    then show ?thesis
      by (simp add: journal_items_def op sort_key_map [of rs_storage_key row_of storage_key] sort_key_map [of sj_Key item storage_key] comp_def)
  qed
  then have items: "map strip (journal_items (rc_op c) (d'\<lparr>rd_restores := t\<rparr>)) = rc_items c" for t
    by (simp add: case_of_def) (rule map_idI, auto simp: strip_def item_of_def)
  have row: "case_row c (?f (new_restore j))" by (simp add: case_row_def new_restore_def case_of_def)
  have "tbl_wf ro_operation_id (rd_restores d @ [?f (new_restore j)])"
    using none others key by (auto simp: tbl_wf_def no_journal_def)
  then show "journal_ok c (d'\<lparr>rd_restores := sql_update (\<lambda>r. ro_operation_id r = job_op j) ?f (rd_restores d')\<rparr>)"
    using items get row none key by (auto simp: journal_ok_def table op no_journal_def)
  show "phase_of c (d'\<lparr>rd_restores := sql_update (\<lambda>r. ro_operation_id r = job_op j) ?f (rd_restores d')\<rparr>) = Some RStaged"
    using get by (simp add: phase_of_def table op)
qed

abbreviation all_fresh :: "disk \<Rightarrow> secret_row list \<Rightarrow> bool" where
  "all_fresh d sec \<equiv> on_items c (fresh_item c) d"

lemma begin_wp:
  fixes m :: "'w machine"
  assumes none: "no_journal c (mc_db m)" and fresh: "on_items c (fresh_item c) (mc_disk m)"
  shows "rwp (beginRestoreJournal j) (\<lambda>r m'. if is_ok r then in_state c {RStaged} all_fresh U m' else same_data m m') (same_data m) m"
  unfolding beginRestoreJournal_def Let_def
proof (rule rwp_on_resultI [where P = "\<lambda>r m'. same_data m m' \<and> (\<forall>d. r = Inr d \<longrightarrow> d = (mc_db m)\<lparr>rd_restores := rd_restores (mc_db m) @ [new_restore j]\<rparr>)"],
    goal_cases)
  case 1
  show ?case
    by (rule db_query_wp) (auto simp: insert_restore_def result_iffs sql_insert_Inr_iff split: if_splits)
next
  case (3 d m1)
  then have m1: "same_data m m1" and d: "d = (mc_db m)\<lparr>rd_restores := rd_restores (mc_db m) @ [new_restore j]\<rparr>" by auto
  show ?case
  proof (rule rwp_on_resultI [OF journal_steps_wp [OF subset_refl fresh m1, of d]], goal_cases)
    case (2 d' m2)
    then have m2: "same_data m m2" and d': "d' = (mc_db m)\<lparr>rd_restores := rd_restores (mc_db m) @ [new_restore j],
        rd_steps := rd_steps (mc_db m) @ map row_of storages\<rparr>" by (auto simp: d)
    show ?case
      by (rule db_exec_wp) (use m2 fresh begun_journal [OF none d'] in \<open>auto simp: in_state_def same_data_def job_op_def\<close>)
  qed simp
qed simp

end

section \<open>The whole restore\<close>

text \<open>What a crash or a failure leaves: nothing begun, or a journal that the recovery can act on.\<close>

definition recoverable :: "restore_case \<Rightarrow> 'w machine \<Rightarrow> bool" where
  "recoverable c m \<longleftrightarrow> safe c m \<or> (no_journal c (mc_db m) \<and> all_original c (mc_disk m))"

lemma snapshot_wp:
  fixes m :: "'w machine"
  assumes "in_state c F P (\<lambda>_. True) m"
  shows "rwp (snapshotBackupRuntime rt plan False)
    (\<lambda>r m'. in_state c F P (\<lambda>_. True) m' \<and> (\<forall>x. r = Inr x \<longrightarrow> (\<exists>cs. snd x = plan\<lparr>ap_Components := cs\<rparr>))) (in_state c F P (\<lambda>_. True)) m"
  unfolding snapshotBackupRuntime_def
  by (rule rwp_on_resultI [OF any_runtime.snapshot_components_state [OF assms]]) (auto simp: Let_def)

text \<open>The snapshot of what is running changes the plan's components only.\<close>

definition with_components :: "restore_job \<Rightarrow> ownedBackupComponent list \<Rightarrow> restore_job" where
  "with_components j cs = j\<lparr>rj_plan := (rj_plan j)\<lparr>ap_Components := cs\<rparr>\<rparr>"

lemma with_components_item [simp]: "item_of (with_components j cs) = item_of j"
  by (intro ext) (simp add: with_components_def item_of_def rollback_path_def)

lemma with_components_simps [simp]:
  "included (rj_plan (with_components j cs)) = included (rj_plan j)" "job_op (with_components j cs) = job_op j"
  "rj_newPaths (with_components j cs) = rj_newPaths j" "rj_request (with_components j cs) = rj_request j"
  "rj_secrets (with_components j cs) = rj_secrets j" "ap_Secrets (rj_plan (with_components j cs)) = ap_Secrets (rj_plan j)"
  by (simp_all add: with_components_def included_def job_op_def)

lemma with_components_case [simp]: "case_of (with_components j cs) old new = case_of j old new"
  by (simp add: case_of_def)

lemma with_components_staged: "staged_job j old new \<Longrightarrow> staged_restore (with_components j cs) old new"
  by unfold_locales (simp add: staged_job_def, simp add: with_components_def journaled_def job_op_def staged_paths_def
      rollback_paths_def included_def)

context staged_restore
begin

definition body_done :: "restore_result exit \<Rightarrow> 'w machine \<Rightarrow> bool" where
  "body_done x m \<longleftrightarrow> (case x of
     Leave e keep np \<Rightarrow> recoverable c m \<and> paths_left np []
   | Proceed r np \<Rightarrow> in_state c {RCommitted, RCleanupPending, RCompleted} (committed c) U m \<and> paths_left np [])"

definition pre_phases :: "restore_phase set" where
  "pre_phases = {RStaged, RSwapping, RRuntimeRestorePending, RRolledBack}"

lemma initial_paths: "paths_left (rj_newPaths j) storages"
proof -
  have np: "rj_newPaths j = staged_paths (rj_request j) (rj_plan j)" using staged by (simp add: staged_job_def)
  have "lookup_str (rj_newPaths j) (storage_key t) = mb_HostPath t @ ''.kitpro-restore-new-'' @ SemanticOperationID (rj_request j)"
    if "t \<in> set storages" for t
    unfolding np staged_paths_def by (rule lookup_of_map [OF keys_distinct that])
  moreover have "snd ` set (rj_newPaths j) = (\<lambda>t. mb_HostPath t @ ''.kitpro-restore-new-'' @ SemanticOperationID (rj_request j)) ` set storages"
    unfolding np staged_paths_def by (simp add: image_image)
  ultimately have "snd ` set (rj_newPaths j) \<subseteq> (\<lambda>t. lookup_str (rj_newPaths j) (storage_key t)) ` set storages" by simp
  then show ?thesis by (simp add: paths_left_def)
qed

lemma fresh_swapping: "all_fresh d sec \<Longrightarrow> swapping [] storages d sec"
  by (erule on_items_mono) (auto simp: items)

lemma exchange_wp:
  fixes rt :: "'w BackupRuntime"
  assumes m: "in_state c pre_phases all_fresh U m"
  shows "rwp (rbind (swap_storages rt j running storages [] (rj_newPaths j)) (\<lambda>x. case x of
        Leave e keep np \<Rightarrow> rret (Leave e keep np) | Proceed swapped np \<Rightarrow> finish_restore rt j running swapped np))
      finished (safe c) m"
proof -
  have F: "RRolledBack \<in> pre_phases" "RRuntimeRestorePending \<in> pre_phases" "pre_phases \<subseteq> before_commit"
    by (auto simp: pre_phases_def before_commit_def)
  have d: "distinct storages" using keys_distinct by (simp add: distinct_map)
  have m': "in_state c pre_phases (swapping [] storages) U m" by (rule in_state_mono [OF m subset_refl fresh_swapping])
  have "rwp (swap_storages rt j running storages [] (rj_newPaths j)) (\<lambda>x. exit_ok pre_phases x (swapped_all pre_phases)) (safe c) m"
    by (rule rwp_dead [OF swap_wp [OF _ _ m' F(1) initial_paths]]) (use d in \<open>auto intro: safe_kept [OF _ F(3)]\<close>)
  then show ?thesis
  proof (rule rwp_rbindI)
    fix x :: "managedBackupStorage list exit" and m1 :: "'w machine"
    assume x: "exit_ok pre_phases x (swapped_all pre_phases) m1"
    show "rwp (case x of Leave e keep np \<Rightarrow> rret (Leave e keep np) | Proceed swapped np \<Rightarrow> finish_restore rt j running swapped np) finished (safe c) m1"
    proof (cases x)
      case (Leave e keep np)
      with x show ?thesis by (auto simp: exit_ok_def finished_def intro: safe_kept [OF _ F(3)])
    next
      case (Proceed S np)
      with x finish_wp [OF _ F] show ?thesis by (simp add: exit_ok_def)
    qed
  qed
qed

text \<open>The same with the components that the snapshot found.\<close>

lemma exchange_snapshot_wp:
  fixes rt :: "'w BackupRuntime"
  assumes m: "in_state c pre_phases all_fresh U m"
  shows "rwp (rbind (swap_storages rt (with_components j cs) running (included (rj_plan (with_components j cs))) [] (rj_newPaths j))
      (\<lambda>x. case x of Leave e keep np \<Rightarrow> rret (Leave e keep np)
         | Proceed swapped np \<Rightarrow> finish_restore rt (with_components j cs) running swapped np)) body_done (recoverable c) m"
proof -
  have sr: "staged_restore (with_components j cs) old new" by (rule with_components_staged [OF staged])
  have fin: "staged_restore.finished (with_components j cs) old new = (finished :: _ \<Rightarrow> 'w machine \<Rightarrow> bool)"
    by (intro ext) (simp add: staged_restore.finished_def [OF sr] finished_def staged_restore.paths_left_def [OF sr] paths_left_def
        split: exit.split)
  show ?thesis unfolding with_components_simps
    by (rule rwp_mono [OF staged_restore.exchange_wp [OF sr, unfolded with_components_simps with_components_case, OF m]])
      (auto simp: fin finished_def body_done_def recoverable_def split: exit.splits)
qed

lemma fresh_kept: "all_fresh d sec \<Longrightarrow> kept d sec"
  by (erule on_items_mono) (simp add: kept_item_def fresh_original)

lemma begun_recoverable: "in_state c pre_phases all_fresh U m \<Longrightarrow> recoverable c m"
  unfolding recoverable_def
  by (rule disjI1, rule safe_kept [OF in_state_mono [OF _ subset_refl fresh_kept]])
    (assumption, auto simp: before_commit_def pre_phases_def)

lemma gone: "recoverable c m \<Longrightarrow> body_done (Leave e keep (rj_newPaths j)) m"
  using initial_paths by (simp add: body_done_def paths_left_def)

lemma stage_wp:
  fixes m :: "'w machine"
  assumes "rwp r (\<lambda>r m'. in_state c pre_phases all_fresh U m' \<and> (\<forall>x. r = Inr x \<longrightarrow> P x)) (in_state c pre_phases all_fresh U) m"
    and "\<And>x m'. P x \<Longrightarrow> in_state c pre_phases all_fresh U m' \<Longrightarrow> rwp (k x) body_done (recoverable c) m'"
  shows "rwp (on_result r (\<lambda>e. rret (Leave e False (rj_newPaths j))) k) body_done (recoverable c) m"
proof (rule rwp_on_resultI [OF rwp_dead [OF assms(1) begun_recoverable]])
  fix e :: go_error and m' :: "'w machine"
  assume "in_state c pre_phases all_fresh U m' \<and> (\<forall>x. Inl e = Inr x \<longrightarrow> P x)"
  then show "rwp (rret (Leave e False (rj_newPaths j))) body_done (recoverable c) m'"
    unfolding rwp_rret by (rule gone [OF begun_recoverable [OF conjunct1]])
next
  fix x and m' :: "'w machine"
  assume "in_state c pre_phases all_fresh U m' \<and> (\<forall>y. Inr x = Inr y \<longrightarrow> P y)"
  then show "rwp (k x) body_done (recoverable c) m'" using assms(2) by blast
qed assumption

lemma intent_wp:
  fixes m :: "'w machine"
  assumes m: "in_state c pre_phases all_fresh U m"
  shows "rwp (db_exec (updateRestoreRuntimeIntent now (job_op j) t running))
      (\<lambda>r m'. in_state c pre_phases all_fresh U m' \<and> (\<forall>x. r = Inr x \<longrightarrow> True)) (in_state c pre_phases all_fresh U) m"
  unfolding op [symmetric]
proof (rule db_exec_wp)
  fix d fs
  assume u: "updateRestoreRuntimeIntent now (rc_op c) t running (mc_db m) = Inr d"
  from m have "journal_ok c (mc_db m)" by (simp add: in_state_def)
  from runtimeIntent_effect [OF this u] m
  show "in_state c pre_phases all_fresh U (m\<lparr>mc_faults := fs, mc_db := d\<rparr>) \<and> (\<forall>x. Inr () = Inr x \<longrightarrow> True)"
    by (auto simp: in_state_def pre_phases_def)
qed (use m in simp_all)

lemma body_wp:
  fixes rt :: "'w BackupRuntime"
  assumes none: "no_journal c (mc_db m)" and fresh: "on_items c (fresh_item c) (mc_disk m)"
  shows "rwp (restore_body rt j) body_done (recoverable c) m"
proof -
  have unstarted: "recoverable c m'" if "same_data m m'" for m' :: "'w machine"
    using that none on_items_mono [OF fresh] fresh_original by (auto simp: recoverable_def same_data_def)
  have begun: "in_state c pre_phases all_fresh U m'" if "in_state c {RStaged} all_fresh U m'" for m' :: "'w machine"
    using that by (rule in_state_mono) (simp_all add: pre_phases_def)
  have "rwp (if journaled j then beginRestoreJournal j else rret (Inr ()))
      (\<lambda>r m'. if is_ok r then in_state c pre_phases all_fresh U m' else recoverable c m') (recoverable c) m"
    unfolding if_P [OF journaled]
    by (rule rwp_mono [OF begin_wp [OF none fresh]]) (auto intro: unstarted begun split: if_splits)
  then show ?thesis unfolding restore_body_def Let_def
  proof (rule rwp_on_resultI)
    fix u and m1 :: "'w machine"
    assume "if is_ok (Inr u :: unit result) then in_state c pre_phases all_fresh U m1 else recoverable c m1"
    then have m1: "in_state c pre_phases all_fresh U m1" by simp
    show "rwp (on_result (snapshotBackupRuntime rt (rj_plan j) False) (\<lambda>e. rret (Leave e False (rj_newPaths j))) (\<lambda>(running, plan).
      on_result (if journaled j then db_exec (updateRestoreRuntimeIntent (rj_now j) (job_op j) (rj_token j) running) else rret (Inr ()))
        (\<lambda>e. rret (Leave e False (rj_newPaths j))) (\<lambda>_.
      on_result (quiesceRecordedBackupRuntime rt plan running) (\<lambda>e. rret (Leave e False (rj_newPaths j))) (\<lambda>_.
      rbind (swap_storages rt (j\<lparr>rj_plan := plan\<rparr>) running (included plan) [] (rj_newPaths j)) (\<lambda>x. case x of
          Leave e keep newPaths \<Rightarrow> rret (Leave e keep newPaths)
        | Proceed swapped newPaths \<Rightarrow> finish_restore rt (j\<lparr>rj_plan := plan\<rparr>) running swapped newPaths))))) body_done (recoverable c) m1"
    proof (rule stage_wp [OF snapshot_wp [OF m1]])
      fix x :: "bool go_map \<times> applicationBackupPlan" and m2 :: "'w machine"
      assume "\<exists>cs. snd x = rj_plan j\<lparr>ap_Components := cs\<rparr>" and m2: "in_state c pre_phases all_fresh U m2"
      then obtain running cs where x: "x = (running, rj_plan (with_components j cs))"
        by (cases x) (auto simp: with_components_def)
      have j': "j\<lparr>rj_plan := rj_plan (with_components j cs)\<rparr> = with_components j cs" by (simp add: with_components_def)
      have quiesce: "rwp (quiesceRecordedBackupRuntime rt plan running)
          (\<lambda>r m'. in_state c pre_phases all_fresh U m' \<and> (\<forall>x. r = Inr x \<longrightarrow> True)) (in_state c pre_phases all_fresh U) m3"
        if "in_state c pre_phases all_fresh U m3" for plan and m3 :: "'w machine"
        using any_runtime.stop_components_state [OF that] by (simp add: quiesceRecordedBackupRuntime_def)
      show "rwp (case x of (running, plan) \<Rightarrow>
        on_result (if journaled j then db_exec (updateRestoreRuntimeIntent (rj_now j) (job_op j) (rj_token j) running) else rret (Inr ()))
          (\<lambda>e. rret (Leave e False (rj_newPaths j))) (\<lambda>_.
        on_result (quiesceRecordedBackupRuntime rt plan running) (\<lambda>e. rret (Leave e False (rj_newPaths j))) (\<lambda>_.
        rbind (swap_storages rt (j\<lparr>rj_plan := plan\<rparr>) running (included plan) [] (rj_newPaths j)) (\<lambda>x. case x of
            Leave e keep newPaths \<Rightarrow> rret (Leave e keep newPaths)
          | Proceed swapped newPaths \<Rightarrow> finish_restore rt (j\<lparr>rj_plan := plan\<rparr>) running swapped newPaths)))) body_done (recoverable c) m2"
        unfolding x prod.case if_P [OF journaled] j'
        by (rule stage_wp [OF intent_wp [OF m2]], rule stage_wp [OF quiesce], assumption, rule exchange_snapshot_wp)
    qed
  qed (auto intro: gone)
qed

text \<open>The removal of staged trees keeps what the recovery needs.\<close>

lemma unstage_items:
  assumes s: "s \<in> set storages" and r: "shrinks (sj_StagedPath (item s)) d d'"
  shows "all_kept c d \<Longrightarrow> all_kept c d'" and "all_final c d \<Longrightarrow> all_final c d'" and "all_original c d \<Longrightarrow> all_original c d'"
proof -
  have frame: "only_at (item_paths (rc_op c) (item s)) d d'" using shrinks_only_at [OF r] by (simp add: item_paths_def)
  note view = restore_storage.unstage_view [OF storage [OF s] r] and upd = on_items_update [OF ok _ item_mem [OF s] frame]
  show "all_kept c d'" if "all_kept c d" by (rule upd [OF that]) (rule view(5), rule on_itemsD [OF that item_mem [OF s]])
  show "all_final c d'" if "all_final c d" by (rule upd [OF that]) (rule view(4), rule on_itemsD [OF that item_mem [OF s]])
  show "all_original c d'" if "all_original c d" by (rule upd [OF that]) (rule view(1), rule on_itemsD [OF that item_mem [OF s]])
qed

lemma recoverable_unstage:
  assumes "recoverable c m" and "s \<in> set storages" and "shrinks (sj_StagedPath (item s)) (mc_disk m) d"
  shows "recoverable c (m\<lparr>mc_faults := fs, mc_disk := d\<rparr>)"
  using assms(1) unstage_items [OF assms(2,3)] by (auto simp: recoverable_def safe_def in_state_def committed_def)

lemma staged_removed_wp:
  fixes m :: "'w machine"
  assumes "paths_left np []" and "R m"
    and "\<And>m d s fs. R m \<Longrightarrow> s \<in> set storages \<Longrightarrow> shrinks (sj_StagedPath (item s)) (mc_disk m) d \<Longrightarrow> R (m\<lparr>mc_faults := fs, mc_disk := d\<rparr>)"
  shows "rwp (remove_trees (map snd np)) (\<lambda>_. R) R m"
proof (rule remove_trees_wp [where R = R, OF assms(2)])
  fix m :: "'w machine" and p d fs
  assume m: "R m" and p: "p \<in> set (map snd np)" and r: "shrinks p (mc_disk m) d"
  from p assms(1) obtain s where "s \<in> set storages" "p = sj_StagedPath (item s)" by (auto simp: paths_left_def)
  with assms(3) [OF m] r show "R (m\<lparr>mc_faults := fs, mc_disk := d\<rparr>)" by blast
qed

theorem restore_staged_wp:
  fixes rt :: "'w BackupRuntime"
  assumes none: "no_journal c (mc_db m)" and fresh: "on_items c (fresh_item c) (mc_disk m)"
  shows "rwp (restoreStaged rt j) (\<lambda>r m'. recoverable c m' \<and>
      (is_ok r \<longrightarrow> in_state c {RCommitted, RCleanupPending, RCompleted} (committed c) U m')) (recoverable c) m"
  unfolding restoreStaged_def
proof (rule rwp_rbindI [OF body_wp [OF none fresh]])
  fix x :: "restore_result exit" and m1 :: "'w machine"
  assume x: "body_done x m1"
  show "rwp (case x of Leave e keep np \<Rightarrow> if keep then rfail e else ignoring (remove_trees (map snd np)) (rfail e)
      | Proceed r np \<Rightarrow> ignoring (remove_trees (map snd np)) (rret (Inr r)))
    (\<lambda>r m'. recoverable c m' \<and> (is_ok r \<longrightarrow> in_state c {RCommitted, RCleanupPending, RCompleted} (committed c) U m')) (recoverable c) m1"
  proof (cases x)
    case (Leave e keep np)
    with x have m1: "recoverable c m1" and np: "paths_left np []" by (simp_all add: body_done_def)
    have "rwp (ignoring (remove_trees (map snd np)) (rfail e)) (\<lambda>r m'. recoverable c m' \<and>
        (is_ok (r :: restore_result result) \<longrightarrow> in_state c {RCommitted, RCleanupPending, RCompleted} (committed c) U m')) (recoverable c) m1"
      by (rule rwp_ignoringI [OF staged_removed_wp [where R = "recoverable c", OF np m1 recoverable_unstage]]) simp_all
    with Leave m1 show ?thesis by simp
  next
    case (Proceed r np)
    with x have m1: "in_state c {RCommitted, RCleanupPending, RCompleted} (committed c) U m1" and np: "paths_left np []"
      by (simp_all add: body_done_def)
    let ?R = "in_state c {RCommitted, RCleanupPending, RCompleted} (committed c) U"
    have rec: "recoverable c m2" if "?R m2" for m2 :: "'w machine"
      using safe_committed [OF that] by (simp add: recoverable_def after_commit_def)
    have "?R (m2\<lparr>mc_faults := fs, mc_disk := d\<rparr>)" if "?R m2" "s \<in> set storages" "shrinks (sj_StagedPath (item s)) (mc_disk m2) d"
      for m2 :: "'w machine" and d s fs
      using that(1) unstage_items(2) [OF that(2,3)] by (auto simp: in_state_def committed_def)
    from staged_removed_wp [where R = ?R, OF np m1 this] show ?thesis unfolding Proceed exit.case
      by (rule rwp_ignoringI [OF rwp_dead]) (auto intro: rec)
  qed
qed

end

end
