(* ===== verification/Restore_Recover.thy ===== *)
theory Restore_Recover
  imports Restore_Swap
begin

text \<open>
  The recovery of an interrupted restore: which trees it finds, that it keeps what it needs to
  be run again when it is interrupted itself, and that it starts the application only on
  trees and secrets that belong together.
\<close>

section \<open>Classification\<close>

definition has_id :: "managed_tree option \<Rightarrow> restorePathIdentity \<Rightarrow> bool" where
  "has_id x i \<longleftrightarrow> (\<exists>t. x = Some t \<and> mt_id t = i)"

text \<open>What \<open>classifyRestorePaths\<close> reports of a view.\<close>

definition classify_view :: "restoreStorageJournal \<Rightarrow> view \<Rightarrow> active_tree \<times> bool" where
  "classify_view i v = (case v of (a, s, r) \<Rightarrow>
     (if has_id a (sj_Staged i) then ActiveRestored else if has_id a (sj_Original i) then ActiveOriginal else ActiveMissing,
      has_id a (sj_Original i) \<or> has_id r (sj_Original i)))"

definition ambiguous :: "restoreStorageJournal \<Rightarrow> view \<Rightarrow> bool" where
  "ambiguous i v = (case v of (a, s, r) \<Rightarrow>
     (a \<noteq> None \<and> \<not> has_id a (sj_Original i) \<and> \<not> has_id a (sj_Staged i)) \<or> (r \<noteq> None \<and> \<not> has_id r (sj_Original i))
       \<or> (s \<noteq> None \<and> \<not> has_id s (sj_Staged i)))"

definition only_faults :: "'w machine \<Rightarrow> 'w machine \<Rightarrow> bool" where
  "only_faults m m' \<longleftrightarrow> (\<exists>fs. m' = m\<lparr>mc_faults := fs\<rparr>)"

lemma only_faults_simps [simp]: "only_faults m m" "only_faults m (m\<lparr>mc_faults := fs\<rparr>)"
  by (auto simp: only_faults_def intro: exI [of _ "mc_faults m"])

lemma only_faults_trans: "only_faults m m' \<Longrightarrow> only_faults m' m'' \<Longrightarrow> only_faults m m''"
  by (auto simp: only_faults_def)

lemma only_faults_disk: "only_faults m m' \<Longrightarrow> mc_disk m' = mc_disk m \<and> mc_db m' = mc_db m \<and> mc_host m' = mc_host m"
  by (auto simp: only_faults_def)

lemma only_faults_state: "only_faults m m' \<Longrightarrow> in_state c F P I m' = in_state c F P I m"
  by (auto simp: only_faults_def)

lemma exact_on:
  assumes "only_faults m0 m" and "\<And>e m'. only_faults m0 m' \<Longrightarrow> rwp (err e) Q D m'"
    and "\<And>m'. only_faults m0 m' \<Longrightarrow> rwp (k (has_id (mc_disk m0 p) want)) Q D m'" and "\<And>m'. only_faults m0 m' \<Longrightarrow> D m'"
  shows "rwp (on_result (exactPathIdentity p want) err k) Q D m"
  unfolding on_result_def rwp_rbind
proof (rule exactPathIdentity_wp)
  fix fs
  have m: "only_faults m0 (m\<lparr>mc_faults := fs\<rparr>)" using assms(1) by (auto simp: only_faults_def)
  show "rwp (case Inr (\<exists>t. mc_disk m p = Some t \<and> mt_id t = want) of Inl e \<Rightarrow> err e | Inr a \<Rightarrow> k a) Q D (m\<lparr>mc_faults := fs\<rparr>)"
    using assms(3) [OF m] only_faults_disk [OF assms(1)] by (simp add: has_id_def)
  show "rwp (case Inl e of Inl e \<Rightarrow> err e | Inr a \<Rightarrow> k a) Q D (m\<lparr>mc_faults := fs\<rparr>)" for e
    using assms(2) [OF m] by simp
  show "D (m\<lparr>mc_faults := fs\<rparr>)" by (rule assms(4) [OF m])
qed

lemma check_paths_wp:
  "rwp (check_paths ps) (\<lambda>x m'. only_faults m m' \<and> (\<forall>a. x = Inr a \<longrightarrow> (\<forall>(p, ok) \<in> set ps. mc_disk m p \<noteq> None \<longrightarrow> ok))) (only_faults m) m"
proof (induction ps arbitrary: m)
  case (Cons p ps)
  obtain name ok where p: "p = (name, ok)" by fastforce
  have IH: "rwp (check_paths ps) (\<lambda>x m'. only_faults m m' \<and> (\<forall>a. x = Inr a \<longrightarrow> (\<forall>(p, ok) \<in> set ps. mc_disk m p \<noteq> None \<longrightarrow> ok)))
      (only_faults m) (m\<lparr>mc_faults := fs\<rparr>)" for fs
    by (rule rwp_mono [OF Cons.IH]) (auto simp: only_faults_def)
  show ?case unfolding p check_paths.simps on_result_def rwp_rbind
  proof (rule pathIdentity_wp)
    fix fs
    have "rwp (check_paths ps) (\<lambda>x m'. only_faults m m' \<and> (\<forall>a. x = Inr a \<longrightarrow> (\<forall>(p, ok) \<in> set ((name, ok) # ps). mc_disk m p \<noteq> None \<longrightarrow> ok)))
      (only_faults m) (m\<lparr>mc_faults := fs\<rparr>)" if "mc_disk m name \<noteq> None \<longrightarrow> ok"
      by (rule rwp_mono [OF IH]) (use that in auto)
    then show "rwp (case Inr (case mc_disk m name of None \<Rightarrow> (no_identity, False) | Some t \<Rightarrow> (mt_id t, True)) of Inl e \<Rightarrow> rfail e
        | Inr a \<Rightarrow> case a of (_, present) \<Rightarrow> if present \<and> \<not> ok then rfail (Errorf ''restore path identity is ambiguous'') else check_paths ps)
      (\<lambda>x m'. only_faults m m' \<and> (\<forall>a. x = Inr a \<longrightarrow> (\<forall>(p, ok) \<in> set ((name, ok) # ps). mc_disk m p \<noteq> None \<longrightarrow> ok))) (only_faults m) (m\<lparr>mc_faults := fs\<rparr>)"
      by (cases "mc_disk m name") auto
  qed auto
qed simp

lemma classify_wp:
  assumes m: "only_faults m0 m"
  shows "rwp (classifyRestorePaths i) (\<lambda>x m'. only_faults m0 m' \<and> (\<forall>a. x = Inr a \<longrightarrow> a = classify_view i (view_of i (mc_disk m0))))
    (only_faults m0) m"
proof -
  have check: "rwp (on_result (check_paths ps) rfail (\<lambda>_. rret (Inr v))) (\<lambda>x m'. only_faults m0 m' \<and> (\<forall>a. x = Inr a \<longrightarrow> a = v)) (only_faults m0) m'"
    if "only_faults m0 m'" for ps v and m' :: "'a machine"
    by (rule rwp_on_resultI [OF rwp_mono [OF check_paths_wp [of ps m']]]) (auto intro: only_faults_trans [OF that])
  show ?thesis unfolding classifyRestorePaths_def
    by (intro exact_on [OF m] exact_on)
      (simp_all only: rwp_rfail sum.distinct simp_thms classify_view_def view_of_def prod.case check)
qed

subsection \<open>The trees of a restore\<close>

text \<open>An item of the journal and the storage it describes differ in the phase only.\<close>

lemma strip_sel [simp]:
  "view_of (strip i) d = view_of i d" "classify_view (strip i) v = classify_view i v" "sj_Key (strip i) = sj_Key i"
  "sj_OriginalPath (strip i) = sj_OriginalPath i" "sj_StagedPath (strip i) = sj_StagedPath i"
  "sj_RollbackPath (strip i) = sj_RollbackPath i" "sj_Original (strip i) = sj_Original i" "sj_Staged (strip i) = sj_Staged i"
  by (simp_all add: strip_def view_of_def classify_view_def cong: if_cong)

lemma classified:
  assumes "case_ok c" and "i \<in> set (rc_items c)"
  shows "original_item c i v \<Longrightarrow> classify_view i v = (ActiveOriginal, True)"
    and "aside_item c i v \<Longrightarrow> classify_view i v = (ActiveMissing, True)"
    and "restored_item c i v \<Longrightarrow> classify_view i v = (ActiveRestored, True)"
    and "final_item c i v \<Longrightarrow> fst (classify_view i v) = ActiveRestored"
  using assms by (auto simp: item_defs classify_view_def has_id_def case_ok_def)

lemma classified_restored:
  assumes "case_ok c" and "i \<in> set (rc_items c)" and "kept_item c i v" and "fst (classify_view i v) = ActiveRestored"
  shows "restored_item c i v"
  using assms(3,4) classified [OF assms(1,2), of v] by (auto simp: kept_item_def)

lemma classify_items_wp:
  assumes "only_faults m0 m"
  shows "rwp (classify_items is a b) (\<lambda>(x, y) m'. only_faults m0 m'
      \<and> (x \<longrightarrow> a \<and> (\<forall>i \<in> set is. fst (classify_view i (view_of i (mc_disk m0))) = ActiveRestored))
      \<and> (y \<longrightarrow> b \<and> x = (a \<and> (\<forall>i \<in> set is. fst (classify_view i (view_of i (mc_disk m0))) = ActiveRestored))
           \<and> (\<forall>i \<in> set is. snd (classify_view i (view_of i (mc_disk m0)))))) (only_faults m0) m"
  using assms
proof (induction "is" arbitrary: a b m)
  case (Cons i "is")
  show ?case unfolding classify_items.simps
  proof (rule rwp_on_resultI [OF classify_wp [OF Cons.prems, of i]])
    fix x and m' :: "'a machine"
    assume x: "only_faults m0 m' \<and> (\<forall>a. Inr x = Inr a \<longrightarrow> a = classify_view i (view_of i (mc_disk m0)))"
    then have m': "only_faults m0 m'" by simp
    show "rwp (case x of (active, originalAvailable) \<Rightarrow>
        if active = ActiveMissing then classify_items is False (b \<and> originalAvailable)
        else classify_items is (a \<and> active = ActiveRestored) (b \<and> originalAvailable))
      (\<lambda>(x, y) m'. only_faults m0 m'
      \<and> (x \<longrightarrow> a \<and> (\<forall>i \<in> set (i # is). fst (classify_view i (view_of i (mc_disk m0))) = ActiveRestored))
      \<and> (y \<longrightarrow> b \<and> x = (a \<and> (\<forall>i \<in> set (i # is). fst (classify_view i (view_of i (mc_disk m0))) = ActiveRestored))
           \<and> (\<forall>i \<in> set (i # is). snd (classify_view i (view_of i (mc_disk m0)))))) (only_faults m0) m'"
      using x by (cases "classify_view i (view_of i (mc_disk m0))") (auto intro!: rwp_mono [OF Cons.IH [OF m']])
  qed auto
qed simp

section \<open>Rolling back\<close>

text \<open>The storages in \<open>A\<close> are back in place, the others keep their originals somewhere.\<close>

abbreviation rolling :: "restore_case \<Rightarrow> restoreStorageJournal set \<Rightarrow> disk \<Rightarrow> secret_row list \<Rightarrow> bool" where
  "rolling c A d sec \<equiv> on_items c (\<lambda>i v. if i \<in> A then original_item c i v else kept_item c i v) d"

lemma rolling_kept: "rolling c A d sec \<Longrightarrow> all_kept c d"
  by (erule on_items_mono) (simp add: kept_item_def split: if_splits)

text \<open>The trees and secrets on which the application may be started.\<close>

definition consistent :: "restore_case \<Rightarrow> disk \<Rightarrow> secret_row list \<Rightarrow> bool" where
  "consistent c d sec \<longleftrightarrow> (all_original c d \<and> holds_secrets (rc_inst c) (rc_old_secrets c) sec) \<or> committed c d sec"

lemma watched_mono: "watched_runtime rt P I \<Longrightarrow> (\<And>d s. P' d s \<Longrightarrow> P d s) \<Longrightarrow> watched_runtime rt P' I"
  by (simp add: watched_runtime_def)

locale restore_recovery =
  fixes c :: restore_case and rt :: "'w BackupRuntime" and I :: "'w \<Rightarrow> bool"
  assumes ok: "case_ok c" and nonempty: "rc_items c \<noteq> []" and watched: "watched_runtime rt (consistent c) I"
begin

text \<open>The trees of the storage \<open>strip i\<close> after its restored tree was moved away, if it was in place.\<close>

lemma discard_wp:
  fixes i :: restoreStorageJournal
  defines "f \<equiv> failed_path (sj_OriginalPath i) (rc_op c)"
  assumes i: "strip i \<in> set (rc_items c)" and iA: "strip i \<notin> A" and m: "in_state c F (rolling c A) I m"
    and v: "(active, avail) = classify_view i (view_of i (mc_disk m))"
    and k: "\<And>m'. in_state c F (rolling c A) I m' \<Longrightarrow> original_item c (strip i) (view_of i (mc_disk m')) \<or> aside_item c (strip i) (view_of i (mc_disk m'))
      \<Longrightarrow> rwp (k ()) Q (in_state c F (\<lambda>d _. all_kept c d) I) m'"
    and e: "\<And>e m'. in_state c F (\<lambda>d _. all_kept c d) I m' \<Longrightarrow> Q (Inl e) m'"
  shows "rwp (on_result (if active = ActiveRestored
      then ignoring (removeBackupTree f) (os_RenameTree (sj_OriginalPath i) f) else rret (Inr ())) rfail k)
    Q (in_state c F (\<lambda>d _. all_kept c d) I) m"
proof -
  have st: "restore_storage c (strip i)" by unfold_locales (simp_all add: ok i)
  let ?K = "in_state c F (\<lambda>d _. all_kept c d) I"
  have kept: "?K m'" if "in_state c F (rolling c A) I m'" for m' :: "'w machine"
    using that by (rule in_state_mono) (simp_all add: rolling_kept)
  from m have d: "rolling c A (mc_disk m) sec" for sec by (simp add: in_state_def)
  have vk: "kept_item c (strip i) (view_of i (mc_disk m))" using on_itemsD [OF d i] iA by simp
  show ?thesis
  proof (cases "active = ActiveRestored")
    case False
    with v vk classified(3) [OF ok i, of "view_of i (mc_disk m)"]
    have "original_item c (strip i) (view_of i (mc_disk m)) \<or> aside_item c (strip i) (view_of i (mc_disk m))"
      by (auto simp: kept_item_def)
    with False k [OF m] show ?thesis by (simp add: on_result_def rwp_rbind)
  next
    case True
    with v have "restored_item c (strip i) (view_of i (mc_disk m))"
      using classified_restored [OF ok i vk] by (metis fst_conv strip_sel(2))
    then have r: "in_state c F (\<lambda>d sec. rolling c A d sec \<and> restored_item c (strip i) (view_of i d)) I m"
      using m by (simp add: in_state_def)
    have frame: "only_at (item_paths (rc_op c) (strip i)) d d'"
      if "shrinks f d d' \<or> rename_tree (sj_OriginalPath i) f d = (Inr (), d')" for d d'
      using that by (auto simp: f_def item_paths_def intro: shrinks_only_at rename_only_at)
    let ?R = "\<lambda>d sec. rolling c A d sec \<and> restored_item c (strip i) (view_of i d)"
    let ?S = "\<lambda>d sec. rolling c A d sec \<and> aside_item c (strip i) (view_of i d)"
    have emptied: "?R d' sec" if "?R d sec" and s: "shrinks f d d'" for d d' sec
    proof -
      have "view_of i d' = view_of i d" using restore_storage.shrunk_views(3) [OF st] s by (simp add: f_def)
      with that on_items_update [OF ok conjunct1 [OF that(1)] i, of d'] frame iA show ?thesis by (auto simp: kept_item_def)
    qed
    have moved: "?S d' sec" if "?R d sec" and s: "rename_tree (sj_OriginalPath i) f d = (Inr (), d')" for d d' sec
    proof -
      have "aside_item c (strip i) (view_of i d')"
        using restore_storage.discard_view [OF st, of d d'] that by (simp add: f_def)
      with that on_items_update [OF ok conjunct1 [OF that(1)] i, of d'] frame iA show ?thesis by (auto simp: kept_item_def)
    qed
    have keptR: "?K m'" if "in_state c F ?R I m'" for m' :: "'w machine"
      using that by (rule in_state_mono) (auto intro: rolling_kept)
    have "rwp (ignoring (removeBackupTree f) (os_RenameTree (sj_OriginalPath i) f))
        (\<lambda>x. in_state c F (if is_ok x then ?S else ?R) I) ?K m"
      by (rule rwp_ignoringI [OF rwp_dead [OF remove_state [OF r emptied] keptR]])
        (assumption | rule rwp_dead [OF rename_state [OF _ moved] keptR])+
    then show ?thesis unfolding if_P [OF True]
    proof (rule rwp_on_resultI)
      fix e' and m' :: "'w machine"
      assume "in_state c F (if is_ok (Inl e' :: unit result) then ?S else ?R) I m'"
      then have "in_state c F ?R I m'" by simp
      then show "rwp (rfail e') Q ?K m'" unfolding rwp_rfail by (rule e [OF keptR])
    next
      fix u and m' :: "'w machine"
      assume "in_state c F (if is_ok (Inr u :: unit result) then ?S else ?R) I m'"
      then have "in_state c F ?S I m'" by simp
      then show "rwp (k u) Q ?K m'" by (intro k [of m', unfolded unit_eq [of u, symmetric]]) (auto simp: in_state_def)
    qed
  qed
qed

lemma rolling_insert:
  assumes "rolling c A d sec" and "strip i \<in> set (rc_items c)" and "only_at (item_paths (rc_op c) (strip i)) d d'"
    and "original_item c (strip i) (view_of i d')"
  shows "rolling c (insert (strip i) A) d' sec'"
  by (rule on_items_update [OF ok assms(1-3)]) (use assms(4) in \<open>auto split: if_splits\<close>)

lemma put_back_wp:
  assumes i: "strip i \<in> set (rc_items c)" and m: "in_state c F (rolling c A) I m"
    and v: "original_item c (strip i) (view_of i (mc_disk m)) \<or> aside_item c (strip i) (view_of i (mc_disk m))"
    and k: "\<And>m'. in_state c F (rolling c (insert (strip i) A)) I m' \<Longrightarrow> rwp k Q (in_state c F (\<lambda>d _. all_kept c d) I) m'"
    and e: "\<And>e m'. in_state c F (\<lambda>d _. all_kept c d) I m' \<Longrightarrow> Q (Inl e) m'"
  shows "rwp (on_result (exactPathIdentity (sj_RollbackPath i) (sj_Original i)) rfail (\<lambda>exact.
      on_result (if exact then os_RenameTree (sj_RollbackPath i) (sj_OriginalPath i) else rret (Inr ())) rfail (\<lambda>_. k)))
    Q (in_state c F (\<lambda>d _. all_kept c d) I) m"
proof -
  have st: "restore_storage c (strip i)" by unfold_locales (simp_all add: ok i)
  let ?K = "in_state c F (\<lambda>d _. all_kept c d) I"
  have kept: "?K m'" if "only_faults m m'" for m' :: "'w machine"
    using in_state_mono [OF m subset_refl rolling_kept] by (simp add: only_faults_state [OF that])
  show ?thesis
  proof (rule exact_on [of m])
    fix m' :: "'w machine"
    assume m': "only_faults m m'"
    have m'R: "in_state c F (rolling c A) I m'" and disk: "mc_disk m' = mc_disk m"
      using m only_faults_state [OF m'] only_faults_disk [OF m'] by auto
    show "rwp (on_result (if has_id (mc_disk m (sj_RollbackPath i)) (sj_Original i) then os_RenameTree (sj_RollbackPath i) (sj_OriginalPath i)
        else rret (Inr ())) rfail (\<lambda>_. k)) Q ?K m'"
    proof (cases "has_id (mc_disk m (sj_RollbackPath i)) (sj_Original i)")
      case False
      with v have v': "original_item c (strip i) (view_of i (mc_disk m'))"
        using ok i by (auto simp: disk aside_item_def view_of_def has_id_def case_ok_def)
      have "in_state c F (rolling c (insert (strip i) A)) I m'"
        using m'R rolling_insert [OF _ i _ v', of A "mc_disk m'"] by (simp add: in_state_def only_at_def)
      with False k show ?thesis by (simp add: on_result_def rwp_rbind)
    next
      case True
      then have a: "aside_item c (strip i) (view_of i (mc_disk m'))"
        using v by (auto simp: disk original_item_def view_of_def has_id_def)
      have moved: "rolling c (insert (strip i) A) d sec"
        if "rolling c A (mc_disk m') sec" and r: "rename_tree (sj_RollbackPath i) (sj_OriginalPath i) (mc_disk m') = (Inr (), d)" for d sec
      proof (rule rolling_insert [OF that(1) i])
        show "only_at (item_paths (rc_op c) (strip i)) (mc_disk m') d" using rename_only_at [OF r] by (simp add: item_paths_def)
        show "original_item c (strip i) (view_of i d)"
          using restore_storage.put_back_view [OF st, of "mc_disk m'" d] r a by simp
      qed
      have keptR: "?K m2" if "in_state c F (rolling c A) I m2" for m2 :: "'w machine"
        using that by (rule in_state_mono) (simp_all add: rolling_kept)
      show ?thesis unfolding if_P [OF True]
      proof (rule rwp_on_resultI [OF rwp_dead [OF rename_state [OF m'R moved] keptR]])
        fix e' and m2 :: "'w machine"
        assume "in_state c F (if is_ok (Inl e' :: unit result) then rolling c (insert (strip i) A) else rolling c A) I m2"
        then have "in_state c F (rolling c A) I m2" by simp
        then show "rwp (rfail e') Q ?K m2" unfolding rwp_rfail by (rule e [OF keptR])
      next
        fix u and m2 :: "'w machine"
        assume "in_state c F (if is_ok (Inr u :: unit result) then rolling c (insert (strip i) A) else rolling c A) I m2"
        then have "in_state c F (rolling c (insert (strip i) A)) I m2" by simp
        then show "rwp k Q ?K m2" by (rule k)
      qed assumption+
    qed
  qed (simp_all add: e kept)
qed

lemma rollback_items_wp:
  assumes "strip ` set is \<subseteq> set (rc_items c)" and "distinct (map strip is)" and "strip ` set is \<inter> A = {}"
    and "in_state c F (rolling c A) I m" and "jr_OperationID j = rc_op c"
  shows "rwp (rollback_items now j is) (\<lambda>r. in_state c F (if is_ok r then rolling c (A \<union> strip ` set is) else (\<lambda>d _. all_kept c d)) I)
    (in_state c F (\<lambda>d _. all_kept c d) I) m"
  using assms
proof (induction "is" arbitrary: A m)
  case (Cons i "is")
  let ?K = "in_state c F (\<lambda>d _. all_kept c d) I"
  let ?Q = "\<lambda>r. in_state c F (if is_ok r then rolling c (A \<union> strip ` set (i # is)) else (\<lambda>d _. all_kept c d)) I"
  from Cons.prems have i: "strip i \<in> set (rc_items c)" "strip i \<notin> A" by auto
  have eq: "A \<union> strip ` set (i # is) = insert (strip i) A \<union> strip ` set is" by auto
  have st: "restore_storage c (strip i)" by unfold_locales (simp_all add: ok i)
  have keptR: "?K m2" if "in_state c F (rolling c B) I m2" for B and m2 :: "'w machine"
    using that by (rule in_state_mono) (simp_all add: rolling_kept)
  have rest: "rwp (ignoring (removeBackupTree (sj_StagedPath i))
      (ignoring (db_exec (updateRestoreStep now (rc_op c) (sj_Key i) SRolledBack id)) (rollback_items now j is))) ?Q ?K m'"
    if m': "in_state c F (rolling c (insert (strip i) A)) I m'" for m' :: "'w machine"
  proof -
    have unstaged: "rolling c (insert (strip i) A) d' sec"
      if "rolling c (insert (strip i) A) d sec" and s: "shrinks (sj_StagedPath i) d d'" for d d' sec
    proof -
      have "original_item c (strip i) (view_of i d')"
        using restore_storage.unstage_view(1) [OF st, of d d'] s on_itemsD [OF that(1) i(1)] by simp
      from rolling_insert [OF that(1) i(1) _ this] shrinks_only_at [OF s] show ?thesis by (simp add: item_paths_def)
    qed
    have tail: "rwp (rollback_items now j is) ?Q ?K m2" if "in_state c F (rolling c (insert (strip i) A)) I m2" for m2 :: "'w machine"
      unfolding eq by (rule Cons.IH [OF _ _ _ that Cons.prems(5)]) (use Cons.prems(1-3) in auto)
    show ?thesis
      by (rule rwp_ignoringI [OF rwp_dead [OF remove_state [OF m' unstaged] keptR]])
        (assumption | rule rwp_ignoringI [OF rwp_dead [OF step_wp keptR]] | rule harmless_columns | rule tail)+
  qed
  have err: "?Q (Inl e) m'" if "?K m'" for e and m' :: "'w machine" using that by simp
  show ?case unfolding rollback_items.simps Cons.prems(5) Let_def
  proof (rule rwp_on_resultI [OF rwp_dead [OF classify_wp [OF only_faults_simps(1)]]])
    show dead: "?K m'" if "only_faults m m'" for m' :: "'w machine"
      by (rule keptR [of A]) (unfold only_faults_state [OF that], rule Cons.prems(4))
    show "rwp (rfail (Errorf ''restore rollback identity became ambiguous'')) ?Q ?K m'"
      if "only_faults m m' \<and> (\<forall>a. Inl e = Inr a \<longrightarrow> a = classify_view i (view_of i (mc_disk m)))" for e :: go_error and m' :: "'w machine"
      unfolding rwp_rfail by (rule err [OF dead [OF conjunct1 [OF that]]])
  next
    fix x and m' :: "'w machine"
    assume x: "only_faults m m' \<and> (\<forall>a. Inr x = Inr a \<longrightarrow> a = classify_view i (view_of i (mc_disk m)))"
    then have m': "only_faults m m'" by simp
    obtain active avail where xa: "x = (active, avail)" by fastforce
    have v: "(active, avail) = classify_view i (view_of i (mc_disk m'))" using x xa only_faults_disk [OF m'] by simp
    have m'R: "in_state c F (rolling c A) I m'" using Cons.prems(4) only_faults_state [OF m'] by blast
    show "rwp (case x of (active, originalAvailable) \<Rightarrow>
       if \<not> originalAvailable then rfail (Errorf ''restore rollback identity became ambiguous'')
       else on_result (if active = ActiveRestored
            then ignoring (removeBackupTree (failed_path (sj_OriginalPath i) (rc_op c))) (os_RenameTree (sj_OriginalPath i) (failed_path (sj_OriginalPath i) (rc_op c)))
            else rret (Inr ())) rfail (\<lambda>_.
       on_result (exactPathIdentity (sj_RollbackPath i) (sj_Original i)) rfail (\<lambda>rollbackExact.
       on_result (if rollbackExact then os_RenameTree (sj_RollbackPath i) (sj_OriginalPath i) else rret (Inr ())) rfail (\<lambda>_.
       ignoring (removeBackupTree (sj_StagedPath i))
      (ignoring (db_exec (updateRestoreStep now (rc_op c) (sj_Key i) SRolledBack id)) (rollback_items now j is)))))) ?Q ?K m'"
    proof (cases avail)
      case False
      with xa keptR [OF m'R] show ?thesis by simp
    next
      case True
      have mid: "rwp (on_result (exactPathIdentity (sj_RollbackPath i) (sj_Original i)) rfail (\<lambda>rollbackExact.
         on_result (if rollbackExact then os_RenameTree (sj_RollbackPath i) (sj_OriginalPath i) else rret (Inr ())) rfail (\<lambda>_.
         ignoring (removeBackupTree (sj_StagedPath i))
        (ignoring (db_exec (updateRestoreStep now (rc_op c) (sj_Key i) SRolledBack id)) (rollback_items now j is))))) ?Q ?K m2"
        if "in_state c F (rolling c A) I m2"
          "original_item c (strip i) (view_of i (mc_disk m2)) \<or> aside_item c (strip i) (view_of i (mc_disk m2))" for m2 :: "'w machine"
        by (rule put_back_wp [OF i(1) that]) (rule rest, assumption, rule err, assumption)
      from True show ?thesis unfolding xa prod.case
        by (simp only: simp_thms if_False) (rule discard_wp [OF i m'R v], rule mid, assumption+, rule err, assumption)
    qed
  qed
qed simp

text \<open>A journal loaded for the case.\<close>

definition journal_of :: "restoreJournal \<Rightarrow> bool" where
  "journal_of j \<longleftrightarrow> jr_OperationID j = rc_op c \<and> jr_InstallationID j = rc_inst c \<and> jr_BackupID j = rc_backup c
     \<and> jr_OriginalSecrets j = rc_old_secrets c \<and> jr_RestoredSecrets j = rc_new_secrets c \<and> map strip (jr_Storage j) = rc_items c"

abbreviation kept :: "disk \<Rightarrow> secret_row list \<Rightarrow> bool" where
  "kept d sec \<equiv> all_kept c d"

abbreviation undone :: "disk \<Rightarrow> secret_row list \<Rightarrow> bool" where
  "undone d sec \<equiv> all_original c d \<and> holds_secrets (rc_inst c) (rc_old_secrets c) sec"

lemma original_kept: "all_original c d \<Longrightarrow> all_kept c d"
  by (erule on_items_mono) (simp add: kept_item_def)

lemma resume_wp:
  assumes "in_state c F P I m" and "\<And>d s. P d s \<Longrightarrow> consistent c d s"
  shows "rwp (resumeBackupRuntime rt plan running) (\<lambda>_. in_state c F P I) (in_state c F P I) m"
  by (rule watched_runtime.resume_state [OF watched_mono [OF watched assms(2)] assms(1)])

lemma items_of_journal:
  assumes "journal_of j"
  shows "strip ` set (jr_Storage j) = set (rc_items c)" "distinct (map strip (jr_Storage j))"
proof -
  have "set (map strip (jr_Storage j)) = set (rc_items c)" using assms by (simp add: journal_of_def)
  then show "strip ` set (jr_Storage j) = set (rc_items c)" by simp
  show "distinct (map strip (jr_Storage j))" using assms ok by (auto simp: journal_of_def case_ok_def distinct_map)
qed

lemma rollback_done_wp:
  assumes j: "journal_of j" and m: "in_state c F kept I m"
  shows "rwp (rollback_items now j (rev (jr_Storage j))) (\<lambda>r. in_state c F (if is_ok r then (\<lambda>d _. all_original c d) else kept) I) (in_state c F kept I) m"
proof -
  have all: "all_original c d" if "rolling c ({} \<union> strip ` set (rev (jr_Storage j))) d sec" for d and sec :: "secret_row list"
    using that by (rule on_items_mono) (simp add: items_of_journal(1) [OF j])
  have start: "in_state c F (rolling c {}) I m" using m by simp
  have "rwp (rollback_items now j (rev (jr_Storage j)))
      (\<lambda>r. in_state c F (if is_ok r then rolling c ({} \<union> strip ` set (rev (jr_Storage j))) else kept) I) (in_state c F kept I) m"
    by (rule rollback_items_wp [OF _ _ _ start])
      (use items_of_journal [OF j] j in \<open>simp_all add: journal_of_def rev_map [symmetric]\<close>)
  then show ?thesis
  proof (rule rwp_mono)
    fix r :: "unit result" and m' :: "'w machine"
    assume r: "in_state c F (if is_ok r then rolling c ({} \<union> strip ` set (rev (jr_Storage j))) else kept) I m'"
    show "in_state c F (if is_ok r then (\<lambda>d _. all_original c d) else kept) I m'"
    proof (cases "is_ok r")
      case True
      then show ?thesis using in_state_mono [OF r [unfolded if_P [OF True]] subset_refl all] by simp
    qed (use r in simp)
  qed
qed

lemma finishRollback_wp:
  assumes j: "journal_of j" and m: "in_state c F kept I m"
  shows "rwp (finishRestoreRollback rt catalog now j cause)
    (\<lambda>r. if is_ok r then in_state c {RRolledBack} undone I else in_state c F kept I) (in_state c F kept I) m"
proof -
  let ?K = "in_state c F kept I"
  let ?Q = "\<lambda>r :: unit result. if is_ok r then in_state c {RRolledBack} undone I else ?K"
  have dead: "?K m'" if "in_state c F (\<lambda>d sec. all_original c d \<and> S sec) I m'" for S and m' :: "'w machine"
    using that by (rule in_state_mono) (simp_all add: original_kept)
  have err: "rwp (rfail e) ?Q ?K m'" if "in_state c F (\<lambda>d sec. all_original c d \<and> S sec) I m'" for e S and m' :: "'w machine"
    unfolding rwp_rfail using dead [OF that] by simp
  have last: "rwp (db_exec (updateRestoreOperation now (rc_op c) RRolledBack cause)) ?Q ?K m'" if "in_state c F undone I m'" for m' :: "'w machine"
    by (rule rwp_mono [OF operation_wp [OF that]]) (use dead in \<open>auto split: if_splits\<close>)
  have resume: "rwp (on_result (if q then resumeBackupRuntime rt plan run else rret (Inr ())) rfail
      (\<lambda>_. db_exec (updateRestoreOperation now (rc_op c) RRolledBack cause))) ?Q ?K m'"
    if "in_state c F undone I m'" for q plan run and m' :: "'w machine"
  proof (cases q)
    case True
    show ?thesis unfolding if_P [OF True]
      by (rule rwp_on_resultI [OF rwp_dead [OF resume_wp [OF that] dead]])
        (simp add: consistent_def, assumption, rule err, assumption, erule last)
  qed (use last [OF that] in \<open>simp add: on_result_def rwp_rbind\<close>)
  have secrets: "rwp (on_result (db_exec (replaceSecrets now (rc_inst c) (rc_old_secrets c))) rfail k) ?Q ?K m'"
    if m': "in_state c F (\<lambda>d _. all_original c d) I m'" and k: "\<And>u m'. in_state c F undone I m' \<Longrightarrow> rwp (k u) ?Q ?K m'"
    for k and m' :: "'w machine"
  proof (rule rwp_on_resultI [OF rwp_dead [OF secrets_wp [OF m']]])
    show "?K m2" if "in_state c F (\<lambda>d _. all_original c d) I m2" for m2 :: "'w machine"
      using dead [of "\<lambda>_. True" m2] that by simp
    show "rwp (rfail e) ?Q ?K m2"
      if "in_state c F (\<lambda>d s. all_original c d \<and> (is_ok (Inl e :: unit result) \<longrightarrow> holds_secrets (rc_inst c) (rc_old_secrets c) s)) I m2"
      for e and m2 :: "'w machine" by (rule err [OF that])
    show "rwp (k u) ?Q ?K m2"
      if "in_state c F (\<lambda>d s. all_original c d \<and> (is_ok (Inr u :: unit result) \<longrightarrow> holds_secrets (rc_inst c) (rc_old_secrets c) s)) I m2"
      for u and m2 :: "'w machine" using that by (intro k) simp
  qed
  let ?O = "in_state c F (\<lambda>d _. all_original c d) I"
  have O: "?K m'" "rwp (rfail e) ?Q ?K m'" if "?O m'" for e and m' :: "'w machine"
    using dead [of "\<lambda>_. True" m'] that by simp_all
  show ?thesis unfolding finishRestoreRollback_def Let_def
  proof (rule rwp_on_resultI [OF rollback_done_wp [OF j m]])
    fix u and m1 :: "'w machine"
    assume "in_state c F (if is_ok (Inr u :: unit result) then (\<lambda>d _. all_original c d) else kept) I m1"
    then have m1: "?O m1" by simp
    show "rwp (on_result (restoreRecoveryPlan catalog j) rfail (\<lambda>plan.
      on_result (db_exec (replaceSecrets now (jr_InstallationID j) (jr_OriginalSecrets j))) rfail (\<lambda>_.
      on_result (if jr_Phase j \<noteq> RValidated \<and> jr_Phase j \<noteq> RStaged then resumeBackupRuntime rt plan (journal_running j) else rret (Inr ())) rfail (\<lambda>_.
      db_exec (updateRestoreOperation now (jr_OperationID j) RRolledBack cause))))) ?Q ?K m1"
      using j unfolding journal_of_def
      by (elim conjE, simp only:) (rule rwp_on_resultI [OF rwp_dead [OF plan_state [OF m1] O(1)]],
          assumption, erule O(2), erule secrets, erule resume)
  qed simp
qed

section \<open>Going forward\<close>

text \<open>What every outcome keeps.\<close>

definition watched_safe :: "'w machine \<Rightarrow> bool" where
  "watched_safe m \<longleftrightarrow> safe c m \<and> I (mc_host m)"

lemma watched_final:
  "in_state c F P I m \<Longrightarrow> F \<subseteq> {RRuntimeRestorePending, RActionRequired} \<Longrightarrow> (\<And>d s. P d s \<Longrightarrow> all_final c d) \<Longrightarrow> watched_safe m"
  unfolding watched_safe_def using safe_final by (blast intro: in_state_def [THEN iffD1, THEN conjunct2, THEN conjunct2, THEN conjunct2])

lemma watched_committed: "in_state c F (committed c) I m \<Longrightarrow> F \<subseteq> after_commit \<Longrightarrow> watched_safe m"
  unfolding watched_safe_def by (auto intro: safe_committed simp: in_state_def)

lemma watched_kept: "in_state c F kept I m \<Longrightarrow> F \<subseteq> before_commit \<Longrightarrow> watched_safe m"
  unfolding watched_safe_def by (auto intro: safe_kept simp: in_state_def)

lemma cleanup_wp:
  assumes "strip ` set is \<subseteq> set (rc_items c)" and "harmless cleaned" and "in_state c F (committed c) I m"
  shows "rwp (cleanup_items now op cleaned is b) (\<lambda>_. in_state c F (committed c) I) (in_state c F (committed c) I) m"
  using assms(1,3)
proof (induction "is" arbitrary: b m)
  case (Cons i "is")
  then have i: "strip i \<in> set (rc_items c)" by simp
  have st: "restore_storage c (strip i)" by unfold_locales (simp_all add: ok i)
  have removed: "committed c d' sec" if "committed c d sec" and s: "shrinks (sj_RollbackPath i) d d'" for d d' sec
  proof -
    from that(1) have d: "all_final c d" by (simp add: committed_def)
    have "all_final c d'"
      by (rule on_items_update [OF ok d i])
        (use shrinks_only_at [OF s] restore_storage.remove_replaced_view [OF st, of d d'] s on_itemsD [OF d i] in \<open>simp_all add: item_paths_def\<close>)
    with that(1) show ?thesis by (simp add: committed_def)
  qed
  have rest: "rwp (cleanup_items now op cleaned is b) (\<lambda>_. in_state c F (committed c) I) (in_state c F (committed c) I) m'"
    if "in_state c F (committed c) I m'" for b and m' :: "'w machine"
    by (rule Cons.IH) (use Cons.prems(1) that in auto)
  show ?case unfolding cleanup_items.simps
    by (rule rwp_ignoringI [OF step_wp [OF Cons.prems(2)]], simp)
      (rule rwp_on_resultI [OF remove_state [OF _ removed]], assumption+,
        rule rwp_ignoringI [OF step_error_wp], assumption, erule rest,
        rule rwp_ignoringI [OF step_wp [OF _ assms(2)]], assumption, erule rest)
qed simp

lemma commit_forward_wp:
  assumes j: "journal_of j" and m: "in_state c F P I m" and P: "\<And>d s. P d s \<Longrightarrow> all_final c d"
    and s: "\<And>m'. in_state c F P I m' \<Longrightarrow> watched_safe m'"
  shows "rwp (commit_forward rt catalog now j)
    (\<lambda>r m'. watched_safe m' \<and> (is_ok r \<longrightarrow> in_state c {RCommitted} (committed c) I m')) watched_safe m"
proof -
  let ?Q = "\<lambda>(r :: unit result) m'. watched_safe m' \<and> (is_ok r \<longrightarrow> in_state c {RCommitted} (committed c) I m')"
  let ?F = "in_state c {RRuntimeRestorePending} (\<lambda>d _. all_final c d) I"
  have pending: "watched_safe m'" if "in_state c {RRuntimeRestorePending} (\<lambda>d sec. all_final c d \<and> S sec) I m'" for S and m' :: "'w machine"
    by (rule watched_final [OF that]) simp_all
  have F: "watched_safe m'" if "?F m'" for m' :: "'w machine" using pending [of "\<lambda>_. True" m'] that by simp
  have err: "rwp (rfail e) ?Q watched_safe m'" if "watched_safe m'" for e and m' :: "'w machine" using that by simp
  let ?R = "in_state c {RRuntimeRestorePending} (\<lambda>d sec. all_final c d \<and> holds_secrets (rc_inst c) (rc_new_secrets c) sec) I"
  have last: "rwp (db_exec (updateRestoreOperation now (rc_op c) RCommitted [])) ?Q watched_safe m'" if "?R m'" for m' :: "'w machine"
  proof (rule rwp_mono [OF operation_wp [OF that]])
    fix r :: "unit result" and m2 :: "'w machine"
    assume r: "in_state c (if is_ok r then {RCommitted} else {RRuntimeRestorePending}) (\<lambda>d sec. all_final c d \<and> holds_secrets (rc_inst c) (rc_new_secrets c) sec) I m2"
    show "?Q r m2"
    proof (cases "is_ok r")
      case True
      with r have "in_state c {RCommitted} (committed c) I m2" by (auto elim!: in_state_mono simp: committed_def)
      then show ?thesis using watched_committed by (simp add: after_commit_def)
    qed (use r pending in auto)
  qed (rule pending)
  have resume: "rwp (on_result (resumeBackupRuntime rt plan run) rfail (\<lambda>_. db_exec (updateRestoreOperation now (rc_op c) RCommitted []))) ?Q watched_safe m'"
    if "?R m'" for plan run and m' :: "'w machine"
    by (rule rwp_on_resultI [OF rwp_dead [OF resume_wp [OF that] pending]])
      (simp add: consistent_def committed_def, assumption, rule err [OF pending], assumption, erule last)
  have secrets: "rwp (on_result (db_exec (replaceSecrets now (rc_inst c) (rc_new_secrets c))) rfail k) ?Q watched_safe m'"
    if m': "?F m'" and k: "\<And>u m'. ?R m' \<Longrightarrow> rwp (k u) ?Q watched_safe m'" for k and m' :: "'w machine"
    by (rule rwp_on_resultI [OF rwp_dead [OF secrets_wp [OF m'] F]]) (assumption, rule err [OF pending], assumption, rule k, simp)
  have update: "rwp (on_result (db_exec (updateRestoreOperation now (rc_op c) RRuntimeRestorePending [])) rfail k) ?Q watched_safe m'"
    if "in_state c F P I m'" and k: "\<And>u m'. ?F m' \<Longrightarrow> rwp (k u) ?Q watched_safe m'" for k and m' :: "'w machine"
    by (rule operation_on [OF that(1) s]) (assumption, rule err [OF s], assumption, rule k, erule in_state_mono, simp, erule P)
  show ?thesis using j unfolding commit_forward_def journal_of_def
    by (elim conjE, simp only:) (rule rwp_on_resultI [OF rwp_dead [OF plan_state [OF m] s]], assumption, rule err [OF s], assumption,
        erule update, rule secrets, assumption, erule resume)
qed

lemma finishForward_wp:
  assumes j: "journal_of j" and m: "in_state c F P I m" and P: "\<And>d s. P d s \<Longrightarrow> all_final c d"
    and s: "\<And>m'. in_state c F P I m' \<Longrightarrow> watched_safe m'"
    and already: "jr_Phase j = RCommitted \<Longrightarrow> in_state c {RCommitted} (committed c) I m"
  shows "rwp (finishRestoreForward rt catalog now j)
    (\<lambda>r m'. watched_safe m' \<and> (is_ok r \<longrightarrow> in_state c {RCleanupPending, RCompleted} (committed c) I m')) watched_safe m"
proof -
  let ?Q = "\<lambda>(r :: unit result) m'. watched_safe m' \<and> (is_ok r \<longrightarrow> in_state c {RCleanupPending, RCompleted} (committed c) I m')"
  let ?C = "in_state c {RCommitted} (committed c) I"
  have C: "watched_safe m'" if "?C m'" for m' :: "'w machine"
    by (rule watched_committed [OF that]) (simp add: after_commit_def)
  have fin: "?Q r m'" if "in_state c (if is_ok r then {ph} else {RCommitted}) (committed c) I m'" and "ph = RCleanupPending \<or> ph = RCompleted"
    for r ph and m' :: "'w machine"
  proof (cases "is_ok r")
    case True
    with that have "in_state c {RCleanupPending, RCompleted} (committed c) I m'" by (auto elim!: in_state_mono)
    then show ?thesis using watched_committed by (simp add: after_commit_def)
  qed (use that C in auto)
  have last: "rwp (if deferred then db_exec (defer_cleanup now (rc_op c)) else db_exec (updateRestoreOperation now (rc_op c) RCompleted [])) ?Q watched_safe m'"
    if "?C m'" for deferred and m' :: "'w machine"
    using rwp_mono [OF defer_wp [OF that] fin C] rwp_mono [OF operation_wp [OF that] fin C] by (cases deferred) auto
  have clean: "rwp (rbind (cleanup_items now (rc_op c) confirm_cleanup (jr_Storage j) False) (\<lambda>deferred.
      if deferred then db_exec (defer_cleanup now (rc_op c)) else db_exec (updateRestoreOperation now (rc_op c) RCompleted []))) ?Q watched_safe m'"
    if "?C m'" for m' :: "'w machine"
    by (rule rwp_rbindI [OF rwp_dead [OF cleanup_wp [OF _ _ that] C]]) (use items_of_journal(1) [OF j] last in simp_all)
  have op: "jr_OperationID j = rc_op c" using j by (simp add: journal_of_def)
  have "rwp (if jr_Phase j \<noteq> RCommitted then commit_forward rt catalog now j else rret (Inr ()))
      (\<lambda>r m'. watched_safe m' \<and> (is_ok r \<longrightarrow> ?C m')) watched_safe m"
    using commit_forward_wp [OF j m P s] already C by simp
  then show ?thesis unfolding finishRestoreForward_def op
    by (rule rwp_on_resultI) (use clean in simp_all)
qed

section \<open>The recovery of one restore\<close>

definition resolved :: "'w machine \<Rightarrow> bool" where
  "resolved m \<longleftrightarrow> in_state c {RCleanupPending, RCompleted} (committed c) I m \<or> in_state c {RRolledBack} undone I m"

lemma complete_wp:
  assumes "in_state c F P I m"
  shows "rwp (complete_recovery now op t resp) (\<lambda>_. in_state c F P I) (in_state c F P I) m"
proof -
  have same: "journal_ok c (d\<lparr>rd_helper := h\<rparr>) = journal_ok c d" "phase_of c (d\<lparr>rd_helper := h\<rparr>) = phase_of c d" for d h
    by (simp_all add: journal_ok_def phase_of_def journal_items_def)
  show ?thesis unfolding complete_recovery_def
    by (rule db_call_wp) (use assms in \<open>auto simp: in_state_def same split: prod.splits\<close>)
qed

lemma watched_cases:
  assumes "watched_safe m"
  obtains (kept) "in_state c before_commit kept I m"
  | (final) "in_state c {RRuntimeRestorePending, RActionRequired} (\<lambda>d _. all_final c d) I m"
  | (committed) "in_state c after_commit (committed c) I m"
  using assms by (auto simp: watched_safe_def safe_def in_state_def)

lemma mark_action_required:
  assumes "watched_safe m"
  shows "rwp (db_exec (updateRestoreOperation now (rc_op c) RActionRequired detail)) (\<lambda>_. watched_safe) watched_safe m"
proof -
  have *: "rwp (db_exec (updateRestoreOperation now (rc_op c) RActionRequired detail)) (\<lambda>_. watched_safe) watched_safe m"
    if "in_state c F P I m" "\<And>m'. in_state c F P I m' \<Longrightarrow> watched_safe m'" "\<And>m'. in_state c {RActionRequired} P I m' \<Longrightarrow> watched_safe m'" for F P
    by (rule rwp_mono [OF operation_wp [OF that(1)]]) (use that(2,3) in \<open>auto split: if_splits\<close>)
  show ?thesis using assms
  proof (cases rule: watched_cases)
    case kept
    show ?thesis by (rule * [OF kept]) (erule watched_kept, simp add: before_commit_def)+
  next
    case final
    show ?thesis by (rule * [OF final]) (erule watched_final, simp_all)+
  next
    case committed
    show ?thesis
      by (rule * [OF committed]) (erule watched_committed, simp, erule watched_final, simp_all add: committed_def)
  qed
qed

lemma mark_steps:
  assumes "watched_safe m"
  shows "rwp (db_exec (markRestoreStepsActionRequired now op detail)) (\<lambda>_. watched_safe) watched_safe m"
proof -
  have *: "rwp (db_exec (markRestoreStepsActionRequired now op detail)) (\<lambda>_. watched_safe) watched_safe m"
    if "in_state c F P I m" "\<And>m'. in_state c F P I m' \<Longrightarrow> watched_safe m'" for F P
    by (rule rwp_mono [OF same_journal_wp [OF that(1)]])
      (use that(2) markActionRequired_same in \<open>auto simp: markRestoreStepsActionRequired_def Let_def split: if_splits\<close>)
  show ?thesis using assms
  proof (cases rule: watched_cases)
    case kept
    show ?thesis by (rule * [OF kept]) (erule watched_kept, simp)
  next
    case final
    show ?thesis by (rule * [OF final]) (erule watched_final, simp_all)
  next
    case committed
    show ?thesis by (rule * [OF committed]) (erule watched_committed, simp)
  qed
qed

text \<open>
  What the classification decides on: forward only when every restored tree is in place, back only
  when every original is whole.
\<close>

lemma decide_forward:
  assumes j: "journal_of j" and m: "watched_safe m"
    and all: "\<forall>i \<in> set (jr_Storage j). fst (classify_view i (view_of i (mc_disk m))) = ActiveRestored"
  shows "all_final c (mc_disk m)"
proof -
  have "fst (classify_view i (view_of i (mc_disk m))) = ActiveRestored" if "i \<in> set (rc_items c)" for i
  proof -
    from that items_of_journal(1) [OF j] obtain k where "k \<in> set (jr_Storage j)" "i = strip k" by auto
    with all show ?thesis by simp
  qed
  then have "all_final c (mc_disk m)" if "all_kept c (mc_disk m)"
    using that classified_restored [OF ok] restored_final [OF ok] by (auto simp: on_items_def)
  with m show ?thesis by (cases rule: watched_cases) (auto simp: in_state_def committed_def)
qed

lemma decide_back:
  assumes j: "journal_of j" and m: "watched_safe m"
    and some: "\<exists>i \<in> set (jr_Storage j). fst (classify_view i (view_of i (mc_disk m))) \<noteq> ActiveRestored"
  shows "in_state c before_commit kept I m"
proof -
  from some obtain k where k: "k \<in> set (jr_Storage j)" "fst (classify_view k (view_of k (mc_disk m))) \<noteq> ActiveRestored" by blast
  then have i: "strip k \<in> set (rc_items c)" using items_of_journal(1) [OF j] by auto
  have "\<not> all_final c (mc_disk m)"
    using on_itemsD [OF _ i, of "final_item c" "mc_disk m"] classified(4) [OF ok i, of "view_of k (mc_disk m)"] k(2) by auto
  with m show ?thesis by (cases rule: watched_cases) (auto simp: in_state_def committed_def)
qed

lemma resolve_wp:
  assumes j: "journal_of j" and m: "watched_safe m" and ph: "phase_of c (mc_db m) = Some (jr_Phase j)"
  shows "rwp (resolve_restore rt catalog now j t) (\<lambda>r m'. watched_safe m' \<and> (r = Inr True \<longrightarrow> resolved m')) watched_safe m"
proof -
  let ?Q = "\<lambda>(r :: bool result) m'. watched_safe m' \<and> (r = Inr True \<longrightarrow> resolved m')"
  have op: "jr_OperationID j = rc_op c" and ne: "jr_Storage j \<noteq> []" using j nonempty by (auto simp: journal_of_def)
  have wf: "watched_safe m'" if "only_faults m m'" for m' :: "'w machine"
    using m only_faults_state [OF that] only_faults_disk [OF that] by (simp add: watched_safe_def safe_def)
  have complete: "rwp (on_result (complete_recovery now (rc_op c) t resp) rfail (\<lambda>_. rret (Inr True))) ?Q watched_safe m'"
    if "in_state c F P I m'" "\<And>m'. in_state c F P I m' \<Longrightarrow> watched_safe m' \<and> resolved m'" for resp F P and m' :: "'w machine"
    by (rule rwp_on_resultI [OF rwp_dead [OF complete_wp [OF that(1)]]]) (use that(2) in auto)
  have go_forward: "rwp (on_result (finishRestoreForward rt catalog now j) rfail (\<lambda>_.
      on_result (complete_recovery now (rc_op c) t (restored_response (jr_BackupID j))) rfail (\<lambda>_. rret (Inr True)))) ?Q watched_safe m'"
    if m': "only_faults m m'" and all: "all_final c (mc_disk m)" for m' :: "'w machine"
  proof -
    have ph': "phase_of c (mc_db m') = Some (jr_Phase j)" and all': "all_final c (mc_disk m')"
      using ph all only_faults_disk [OF m'] by simp_all
    have "rwp (finishRestoreForward rt catalog now j)
        (\<lambda>r m'. watched_safe m' \<and> (is_ok r \<longrightarrow> in_state c {RCleanupPending, RCompleted} (committed c) I m')) watched_safe m'"
      using wf [OF m']
    proof (cases rule: watched_cases)
      case kept
      then have st: "in_state c before_commit (\<lambda>d _. all_kept c d \<and> all_final c d) I m'" using all' by (simp add: in_state_def)
      show ?thesis
      proof (rule finishForward_wp [OF j st])
        show "watched_safe m2" if "in_state c before_commit (\<lambda>d _. all_kept c d \<and> all_final c d) I m2" for m2 :: "'w machine"
          by (rule watched_kept [OF in_state_mono [OF that subset_refl]]) auto
        show "in_state c {RCommitted} (committed c) I m'" if "jr_Phase j = RCommitted"
          using kept ph' that by (auto simp: in_state_def before_commit_def)
      qed simp
    next
      case final
      show ?thesis
      proof (rule finishForward_wp [OF j final])
        show "watched_safe m2" if "in_state c {RRuntimeRestorePending, RActionRequired} (\<lambda>d _. all_final c d) I m2" for m2 :: "'w machine"
          by (rule watched_final [OF that]) auto
        show "in_state c {RCommitted} (committed c) I m'" if "jr_Phase j = RCommitted"
          using final ph' that by (auto simp: in_state_def)
      qed
    next
      case committed
      show ?thesis
      proof (rule finishForward_wp [OF j committed])
        show "watched_safe m2" if "in_state c after_commit (committed c) I m2" for m2 :: "'w machine"
          by (rule watched_committed [OF that]) auto
        show "in_state c {RCommitted} (committed c) I m'" if "jr_Phase j = RCommitted"
          using committed ph' that by (auto simp: in_state_def)
      qed (simp add: committed_def)
    qed
    then show ?thesis
      by (rule rwp_on_resultI) (simp, rule complete, simp, auto simp: resolved_def intro: watched_committed simp: after_commit_def)
  qed
  have go_backward: "rwp (on_result (finishRestoreRollback rt catalog now j interrupted_text) rfail (\<lambda>_.
      on_result (complete_recovery now (rc_op c) t rolled_back_response) rfail (\<lambda>_. rret (Inr True)))) ?Q watched_safe m'"
    if m': "in_state c before_commit kept I m'" for m' :: "'w machine"
  proof (rule rwp_on_resultI [OF rwp_dead [OF finishRollback_wp [OF j m']]])
    show safe: "watched_safe m2" if "in_state c before_commit kept I m2" for m2 :: "'w machine"
      by (rule watched_kept [OF that]) simp
    show "rwp (rfail e) ?Q watched_safe m2"
      if "(if is_ok (Inl e :: unit result) then in_state c {RRolledBack} undone I else in_state c before_commit kept I) m2" for e and m2 :: "'w machine"
      using that safe by simp
    show "rwp (on_result (complete_recovery now (rc_op c) t rolled_back_response) rfail (\<lambda>_. rret (Inr True))) ?Q watched_safe m2"
      if "(if is_ok (Inr u :: unit result) then in_state c {RRolledBack} undone I else in_state c before_commit kept I) m2" for u and m2 :: "'w machine"
    proof (rule complete)
      show "in_state c {RRolledBack} undone I m2" using that by simp
      fix m3 :: "'w machine"
      assume m3: "in_state c {RRolledBack} undone I m3"
      have "in_state c {RRolledBack} kept I m3" by (rule in_state_mono [OF m3 subset_refl]) (simp add: original_kept)
      with m3 show "watched_safe m3 \<and> resolved m3" using watched_kept by (auto simp: resolved_def before_commit_def)
    qed
  qed
  show ?thesis unfolding resolve_restore_def Let_def op
  proof (rule rwp_rbindI [OF rwp_dead [OF classify_items_wp [OF only_faults_simps(1)] wf]], goal_cases)
    case (2 x m')
    obtain a b where x: "x = (a, b)" by fastforce
    from 2 have m': "only_faults m m'"
      and a: "a \<Longrightarrow> \<forall>i \<in> set (jr_Storage j). fst (classify_view i (view_of i (mc_disk m))) = ActiveRestored"
      and b: "b \<Longrightarrow> \<not> a \<Longrightarrow> \<exists>i \<in> set (jr_Storage j). fst (classify_view i (view_of i (mc_disk m))) \<noteq> ActiveRestored"
      using ne by (auto simp: x)
    consider (forward) a | (backward) "\<not> a" b | (neither) "\<not> a" "\<not> b" by blast
    then show ?case
    proof cases
      case forward
      with forward go_forward [OF m' decide_forward [OF j m a]] show ?thesis by (simp add: x)
    next
      case backward
      have "in_state c before_commit kept I m'"
        using decide_back [OF j m b [OF backward(2,1)]] only_faults_state [OF m'] by blast
      with backward go_backward [OF this] show ?thesis by (simp add: x)
    next
      case neither
      show ?thesis unfolding x prod.case using neither
        by simp (rule rwp_on_resultI [OF mark_steps [OF wf [OF m']]], simp,
            rule rwp_on_resultI [OF mark_action_required], simp_all)
    qed
  qed simp
qed

lemma watched_faults [simp]: "watched_safe (m\<lparr>mc_faults := fs\<rparr>) = watched_safe m"
  by (simp add: watched_safe_def safe_def)

lemma take_wp:
  assumes m: "watched_safe m" and ph: "phase_of c (mc_db m) = Some ph"
  shows "rwp (db_exec (take_journal now (rc_op c) t))
    (\<lambda>_ m'. watched_safe m' \<and> phase_of c (mc_db m') = Some ph) watched_safe m"
proof (rule db_exec_wp)
  fix d fs
  assume u: "take_journal now (rc_op c) t (mc_db m) = Inr d"
  from m have "journal_ok c (mc_db m)" by (auto simp: watched_safe_def safe_def in_state_def)
  from take_journal_effect [OF this u] have d: "journal_ok c d" "phase_of c d = phase_of c (mc_db m)" "d = (mc_db m)\<lparr>rd_restores := rd_restores d\<rparr>"
    by blast+
  have "rd_secrets d = rd_secrets (mc_db m)" by (subst d(3)) simp
  with m ph d show "watched_safe (m\<lparr>mc_faults := fs, mc_db := d\<rparr>) \<and> phase_of c (mc_db (m\<lparr>mc_faults := fs, mc_db := d\<rparr>)) = Some ph"
    by (auto simp: watched_safe_def safe_def in_state_def)
qed (use m ph in simp_all)

lemma recover_wp:
  assumes m: "watched_safe m"
  shows "rwp (recover_restore rt catalog now (rc_op c)) (\<lambda>r m'. watched_safe m' \<and> (r = Inr True \<longrightarrow> resolved m')) watched_safe m"
proof -
  let ?Q = "\<lambda>(r :: bool result) m'. watched_safe m' \<and> (r = Inr True \<longrightarrow> resolved m')"
  have give_up: "rwp (ignoring (db_exec (updateRestoreOperation now (rc_op c) RActionRequired detail)) (rret (Inr False))) ?Q watched_safe m'"
    if "watched_safe m'" for detail and m' :: "'w machine"
    by (rule rwp_ignoringI [OF mark_action_required [OF that]]) simp
  have resolve: "rwp (on_result (resolve_restore rt catalog now (j\<lparr>jr_FencingToken := t\<rparr>) t)
      (\<lambda>e. ignoring (db_exec (updateRestoreOperation now (rc_op c) RActionRequired (error_text e))) (rret (Inr False)))
      (\<lambda>resolved. rret (Inr resolved))) ?Q watched_safe m'"
    if "journal_of j" "watched_safe m'" "phase_of c (mc_db m') = Some (jr_Phase j)" for j t and m' :: "'w machine"
    by (rule rwp_on_resultI [OF resolve_wp]) (use that give_up in \<open>auto simp: journal_of_def\<close>)
  show ?thesis unfolding recover_restore_def Let_def
  proof (rule rwp_on_resultI [where P = "\<lambda>x m'. only_faults m m' \<and> (\<forall>a. x = Inr a \<longrightarrow> loadRestoreJournal (rc_op c) (mc_db m) = Inr a)"], goal_cases)
    case 1
    show ?case by (rule db_query_wp) (use m in auto)
  next
    case (2 e m')
    then show ?case using m by (auto simp: only_faults_def)
  next
    case (3 j m')
    then have m': "watched_safe m'" and load: "loadRestoreJournal (rc_op c) (mc_db m') = Inr j"
      using m by (auto simp: only_faults_def)
    from m' have jok: "journal_ok c (mc_db m')" by (auto simp: watched_safe_def safe_def in_state_def)
    from loadRestoreJournal_case [OF jok load] have j: "journal_of j" and ph: "phase_of c (mc_db m') = Some (jr_Phase j)"
      by (auto simp: journal_of_def)
    let ?P = "\<lambda>x :: int result. \<lambda>m'. watched_safe m' \<and> phase_of c (mc_db m') = Some (jr_Phase j)"
    have token: "rwp (db_query (recovery_token (jr_InstallationID j) (rc_op c))) ?P watched_safe m'"
      by (rule db_query_wp) (use m' ph in simp_all)
    show ?case
    proof (rule rwp_on_resultI [OF token], goal_cases)
      case (2 t m2)
      show ?case
        by (rule rwp_on_resultI [OF take_wp]) (use 2 resolve [OF j] in auto)
    qed (use give_up in simp)
  qed
qed

lemma recover_all_wp:
  assumes m: "watched_safe m" and ops: "ops = [] \<or> ops = [rc_op c]"
  shows "rwp (recover_all rt catalog now ops n) (\<lambda>(k, r) m'. watched_safe m' \<and> (n < k \<longrightarrow> resolved m')) watched_safe m"
  using ops
proof
  assume "ops = [rc_op c]"
  then show ?thesis by (simp, intro rwp_on_resultI [OF recover_wp [OF m]]) (auto split: if_splits)
qed (use m in simp)

lemma distinct_singleton: "distinct xs \<Longrightarrow> set xs = {x} \<Longrightarrow> xs = [x]"
  by (cases xs; cases "tl xs") auto

text \<open>Only this restore is left for the recovery and the removal of replaced trees to pick up.\<close>

lemma picked:
  assumes "journal_ok c d" and "\<not> P RCompleted" and "\<not> P RRolledBack"
  shows "map ro_operation_id (sort_key f (filter (\<lambda>r. P (ro_phase r)) (rd_restores d)))
    = (if \<exists>ph. phase_of c d = Some ph \<and> P ph then [rc_op c] else [])"
proof -
  let ?sel = "filter (\<lambda>r. P (ro_phase r)) (rd_restores d)"
  from assms(1) obtain r where r: "tbl_get ro_operation_id (rc_op c) (rd_restores d) = Some r" and wf: "tbl_wf ro_operation_id (rd_restores d)"
    by (auto simp: journal_ok_def)
  have only: "x = r" if "x \<in> set ?sel" for x
  proof -
    from that assms have "ro_operation_id x = rc_op c" by (auto simp: journal_ok_def)
    with that r show ?thesis using tbl_get_of_mem [OF wf, of x] by simp
  qed
  have d: "distinct ?sel" using wf by (auto simp: tbl_wf_def distinct_map)
  have "?sel = (if P (ro_phase r) then [r] else [])"
  proof (cases "P (ro_phase r)")
    case True
    then have "r \<in> set ?sel" using tbl_get_mem [OF r] by simp
    then have "set ?sel = {r}" using only by blast
    with True distinct_singleton [OF d] show ?thesis by simp
  next
    case False
    have "\<not> P (ro_phase x)" if "x \<in> set (rd_restores d)" for x
      using only [of x] that False by fastforce
    then have "?sel = []" by (simp add: filter_empty_conv)
    with False show ?thesis by simp
  qed
  then show ?thesis using r tbl_get_key [OF r] by (auto simp: phase_of_def)
qed

text \<open>The program at the start of the process, from every state that a restore or a recovery leaves.\<close>

definition watched_recoverable :: "'w machine \<Rightarrow> bool" where
  "watched_recoverable m \<longleftrightarrow> recoverable c m \<and> I (mc_host m)"

lemma watched_recoverable_cases:
  assumes "watched_recoverable m"
  obtains (safe) "watched_safe m" | (none) "no_journal c (mc_db m)" "all_original c (mc_disk m)" "I (mc_host m)"
  using assms by (auto simp: watched_recoverable_def recoverable_def watched_safe_def)

lemma watched_safe_recoverable: "watched_safe m \<Longrightarrow> watched_recoverable m"
  by (simp add: watched_recoverable_def recoverable_def watched_safe_def)

lemma watched_recoverable_faults [simp]: "watched_recoverable (m\<lparr>mc_faults := fs\<rparr>) = watched_recoverable m"
  by (simp add: watched_recoverable_def recoverable_def safe_def)

lemma no_journal_picked:
  "no_journal c d \<Longrightarrow> \<not> P RCompleted \<Longrightarrow> \<not> P RRolledBack \<Longrightarrow> filter (\<lambda>r. P (ro_phase r)) (rd_restores d) = []"
  by (auto simp: no_journal_def filter_empty_conv)

theorem recover_interrupted_wp:
  assumes m: "watched_recoverable m"
  shows "rwp (recoverInterruptedRestores rt catalog now)
    (\<lambda>(k, r) m'. watched_recoverable m' \<and> (0 < k \<longrightarrow> resolved m')) watched_recoverable m"
  unfolding recoverInterruptedRestores_def on_result_def rwp_rbind
proof (rule db_query_wp, goal_cases)
  case (1 fs)
  show ?case using m
  proof (cases rule: watched_recoverable_cases)
    case safe
    then have j: "journal_ok c (mc_db m)" by (auto simp: watched_safe_def safe_def in_state_def)
    have "rwp (recover_all rt catalog now (map ro_operation_id (sort_key ro_started_at
        (filter (\<lambda>r. unresolved_phase (ro_phase r)) (rd_restores (mc_db m))))) 0)
      (\<lambda>(k, r) m'. watched_safe m' \<and> (0 < k \<longrightarrow> resolved m')) watched_safe (m\<lparr>mc_faults := fs\<rparr>)"
      by (rule recover_all_wp) (use safe picked [OF j, of unresolved_phase ro_started_at] in \<open>simp_all add: unresolved_phase_def\<close>)
    then show ?thesis unfolding sum.case by (rule rwp_mono) (auto intro: watched_safe_recoverable)
  next
    case none
    from no_journal_picked [OF this(1), of unresolved_phase] m show ?thesis by (simp add: unresolved_phase_def)
  qed
qed (use m in simp_all)

lemma cleanup_only_wp:
  assumes j: "journal_of j" and m: "in_state c F (committed c) I m" and F: "F \<subseteq> after_commit"
  shows "rwp (finishRestoreCleanupOnly now j) (\<lambda>_. watched_safe) watched_safe m"
proof -
  have C: "watched_safe m'" if "in_state c F (committed c) I m'" for m' :: "'w machine"
    by (rule watched_committed [OF that F])
  have D: "watched_safe m'" if "in_state c (if b then {ph} else F) (committed c) I m'" "ph = RCleanupPending \<or> ph = RCompleted"
    for b ph and m' :: "'w machine"
    by (rule watched_committed [OF that(1)]) (use that(2) F in \<open>auto simp: after_commit_def\<close>)
  have op: "jr_OperationID j = rc_op c" using j by (simp add: journal_of_def)
  have deferring: "rwp (db_exec (defer_cleanup now (rc_op c))) (\<lambda>_. watched_safe) watched_safe m'"
    if "in_state c F (committed c) I m'" for m' :: "'w machine"
    by (rule rwp_mono [OF defer_wp [OF that]]) (auto intro: C D)
  have complete: "rwp (db_exec (updateRestoreOperation now (rc_op c) RCompleted [])) (\<lambda>_. watched_safe) watched_safe m'"
    if "in_state c F (committed c) I m'" for m' :: "'w machine"
    by (rule rwp_mono [OF operation_wp [OF that]]) (auto intro: C D)
  show ?thesis unfolding finishRestoreCleanupOnly_def op
    by (rule rwp_rbindI [OF rwp_dead [OF cleanup_wp [OF _ _ m] C]])
      (use items_of_journal(1) [OF j] deferring complete in \<open>auto intro!: rwp_ignoringI [OF deferring]\<close>)
qed

theorem cleanup_committed_wp:
  assumes m: "watched_recoverable m"
  shows "rwp (cleanupCommittedRestores now) (\<lambda>_. watched_recoverable) watched_recoverable m"
  unfolding cleanupCommittedRestores_def on_result_def rwp_rbind
proof (rule db_query_wp, goal_cases)
  case (1 fs)
  let ?P = "\<lambda>ph. ph = RCommitted \<or> ph = RCleanupPending"
  show ?case using m
  proof (cases rule: watched_recoverable_cases)
    case safe
    then have j: "journal_ok c (mc_db m)" by (auto simp: watched_safe_def safe_def in_state_def)
    show ?thesis
    proof (cases "\<exists>ph. phase_of c (mc_db m) = Some ph \<and> ?P ph")
      case False
      with m picked [OF j, of ?P ro_updated_at] show ?thesis by simp
    next
      case True
      from safe True have after: "in_state c {RCommitted, RCleanupPending} (committed c) I (m\<lparr>mc_faults := fs\<rparr>)"
        by (cases rule: watched_cases) (auto simp: in_state_def before_commit_def)
      have "rwp (cleanup_all now [rc_op c]) (\<lambda>_. watched_safe) watched_safe (m\<lparr>mc_faults := fs\<rparr>)"
        unfolding cleanup_all.simps
      proof (rule rwp_on_resultI [OF rwp_dead [OF query_state [OF after]]], goal_cases)
        case (3 jr m')
        then have "loadRestoreJournal (rc_op c) (mc_db m') = Inr jr" "journal_ok c (mc_db m')" by (auto simp: in_state_def)
        with loadRestoreJournal_case have "journal_of jr" by (auto simp: journal_of_def)
        from cleanup_only_wp [OF this conjunct1 [OF 3]] show ?case
          by (intro rwp_ignoringI) (auto simp: after_commit_def)
      qed (auto intro: watched_committed simp: after_commit_def)
      then show ?thesis using True picked [OF j, of ?P ro_updated_at]
        by (auto intro: rwp_mono watched_safe_recoverable)
    qed
  next
    case none
    from no_journal_picked [OF this(1), of ?P] m show ?thesis by simp
  qed
qed (use m in simp_all)

end

end
