(* ===== verification/Restore_Spec.thy ===== *)
theory Restore_Spec
  imports Restore_Recover
begin

text \<open>
  What a restore promises over its whole history: the request, crashes at any call, restarts of
  the helper with their recoveries, and the removal of the replaced trees.
\<close>

section \<open>A restore and its recoveries\<close>

locale journaled_restore = staged_restore +
  assumes nonempty: "included (rj_plan j) \<noteq> []"

sublocale journaled_restore \<subseteq> rec: restore_recovery "case_of j old new" rt "\<lambda>_. True" for rt :: "'w BackupRuntime"
proof unfold_locales
  show "case_ok (case_of j old new)" by (rule ok)
  show "rc_items (case_of j old new) \<noteq> []"
  proof
    assume none: "rc_items (case_of j old new) = []"
    have "length (rc_items (case_of j old new)) = length (included (rj_plan j))" by (simp add: case_of_def)
    with none nonempty show False by simp
  qed
qed

text \<open>
  The states a restore goes through. Between the calls of the helper the process may be
  restarted, with another schedule, other containers and other operations in its tables.
\<close>

inductive restore_history ::
  "'w BackupRuntime \<Rightarrow> Manifest go_map result \<Rightarrow> restore_job \<Rightarrow> restore_case \<Rightarrow> 'w machine \<Rightarrow> bool"
  for rt catalog j c where
  requested: "no_journal c (mc_db m) \<Longrightarrow> on_items c (fresh_item c) (mc_disk m) \<Longrightarrow> restore_history rt catalog j c (snd (handleRestore rt j m))"
| restarted: "restore_history rt catalog j c m \<Longrightarrow>
    restore_history rt catalog j c (m\<lparr>mc_host := w, mc_faults := fs, mc_db := (mc_db m)\<lparr>rd_helper := h\<rparr>\<rparr>)"
| recovered: "restore_history rt catalog j c m \<Longrightarrow> restore_history rt catalog j c (snd (recoverInterruptedRestores rt catalog now m))"
| cleaned: "restore_history rt catalog j c m \<Longrightarrow> restore_history rt catalog j c (snd (cleanupCommittedRestores now m))"

lemma recoverable_others:
  "recoverable c (m\<lparr>mc_host := w, mc_faults := fs, mc_db := (mc_db m)\<lparr>rd_helper := h\<rparr>\<rparr>) = recoverable c m"
  by (simp add: recoverable_def no_journal_def safe_def in_state_def journal_ok_def phase_of_def journal_items_def)

lemma recoverable_faults [simp]: "recoverable c (m\<lparr>mc_faults := fs\<rparr>) = recoverable c m"
  by (simp add: recoverable_def safe_def)

text \<open>No row of the restore in a phase to be recovered.\<close>

lemma needs_recovery_phase:
  assumes "journal_ok c d"
  shows "restoreOperationNeedsRecovery (rc_op c) d \<longleftrightarrow> (\<exists>ph. phase_of c d = Some ph \<and> unresolved_phase ph)"
proof -
  from assms obtain r where r: "tbl_get ro_operation_id (rc_op c) (rd_restores d) = Some r" and wf: "tbl_wf ro_operation_id (rd_restores d)"
    by (auto simp: journal_ok_def)
  have "(\<exists>x \<in> set (rd_restores d). ro_operation_id x = rc_op c \<and> unresolved_phase (ro_phase x)) \<longleftrightarrow> unresolved_phase (ro_phase r)"
    using tbl_get_mem [OF r] tbl_get_key [OF r] tbl_get_of_mem [OF wf] r by fastforce
  with r show ?thesis by (simp add: restoreOperationNeedsRecovery_def sql_count_def phase_of_def filter_empty_conv)
qed

context journaled_restore
begin

lemma rec_recoverable [simp]: "rec.watched_recoverable = recoverable c"
  by (simp add: rec.watched_recoverable_def fun_eq_iff)

theorem handle_wp:
  fixes rt :: "'w BackupRuntime"
  assumes none: "no_journal c (mc_db m)" and fresh: "on_items c (fresh_item c) (mc_disk m)"
  shows "rwp (handleRestore rt j) (\<lambda>r m'. recoverable c m'
      \<and> (rs_OK r \<longrightarrow> in_state c {RCommitted, RCleanupPending, RCompleted} (committed c) U m')
      \<and> (\<not> rs_OK r \<and> rs_ErrorCode r \<noteq> ''RecoveryRequired'' \<longrightarrow> \<not> restoreOperationNeedsRecovery (job_op j) (mc_db m')))
    (recoverable c) m"
  unfolding handleRestore_def Let_def
proof (rule rwp_on_resultI [OF restore_staged_wp [OF none fresh]], goal_cases)
  case (1 e m')
  then have m': "recoverable c m'" by simp
  show ?case unfolding on_result_def rwp_rbind
    by (rule db_query_wp) (use m' in \<open>simp_all add: empty_Response_def\<close>)
next
  case (2 r m')
  then show ?case by (simp add: restore_answer_def)
qed

theorem history_recoverable:
  fixes rt :: "'w BackupRuntime"
  assumes "restore_history rt catalog j c m"
  shows "recoverable c m"
  using assms
proof induction
  case (requested m)
  from rwp_snd [OF rwp_mono [OF handle_wp [OF requested] _ ]] show ?case by simp
next
  case (recovered m now)
  from rwp_snd [OF rwp_mono [OF rec.recover_interrupted_wp [unfolded rec_recoverable, OF recovered(2)]]] show ?case by auto
next
  case (cleaned m now)
  from rwp_snd [OF rec.cleanup_committed_wp [unfolded rec_recoverable, OF cleaned(2)]] show ?case .
qed (simp add: recoverable_others)

end

section \<open>Starts during a recovery\<close>

text \<open>The same runtime, with a record of what every started container saw.\<close>

definition observed :: "'w BackupRuntime \<Rightarrow> ('w \<times> (string \<times> disk \<times> secret_row list) list) BackupRuntime" where
  "observed rt = \<lparr>br_Start = \<lambda>x d s (w, log). (case br_Start rt x d s w of (r, w') \<Rightarrow> (r, w', log @ [(x, d, s)])),
     br_Stop = \<lambda>x (w, log). (case br_Stop rt x w of (r, w') \<Rightarrow> (r, w', log)),
     br_Inspect = \<lambda>x (w, log). (case br_Inspect rt x w of (r, w') \<Rightarrow> (r, w', log))\<rparr>"

definition starts_ok :: "restore_case \<Rightarrow> 'w \<times> (string \<times> disk \<times> secret_row list) list \<Rightarrow> bool" where
  "starts_ok c h \<longleftrightarrow> (\<forall>(x, d, s) \<in> set (snd h). consistent c d s)"

interpretation observed_runtime: watched_runtime "observed rt" "consistent c" "starts_ok c" for rt :: "'w BackupRuntime" and c
  by unfold_locales (auto simp: observed_def starts_ok_def split: prod.splits)

context journaled_restore
begin

lemma observed_recovery: "restore_recovery c (observed rt) (starts_ok c)"
  by unfold_locales (use ok rec.nonempty observed_runtime.watched_runtime_axioms in simp_all)

lemma recovery_starts:
  assumes "restore_history (observed rt) catalog j c m"
  shows "starts_ok c (mc_host (snd (recoverInterruptedRestores (observed rt) catalog now (m\<lparr>mc_host := (w, [])\<rparr>))))"
proof -
  have "recoverable c (m\<lparr>mc_host := (w, [])\<rparr>)"
    using history_recoverable [OF assms] recoverable_others [where c = c and m = m and w = "(w, [])" and fs = "mc_faults m" and h = "rd_helper (mc_db m)"] by simp
  then have "restore_recovery.watched_recoverable c (starts_ok c) (m\<lparr>mc_host := (w, [])\<rparr>)"
    by (simp add: restore_recovery.watched_recoverable_def [OF observed_recovery] starts_ok_def)
  from rwp_snd [OF rwp_mono [OF restore_recovery.recover_interrupted_wp [OF observed_recovery this]]]
  have "restore_recovery.watched_recoverable c (starts_ok c)
      (snd (recoverInterruptedRestores (observed rt) catalog now (m\<lparr>mc_host := (w, [])\<rparr>)))" by auto
  then show ?thesis by (simp add: restore_recovery.watched_recoverable_def [OF observed_recovery])
qed

end

end
