(* ===== verification/Restore_Resolve.thy ===== *)
theory Restore_Resolve
  imports Restore_Spec
begin

text \<open>
  A recovery that nothing interrupts decides the restore: it returns, and either the originals
  are back with their secrets or the restored trees are in place with theirs.
\<close>

section \<open>Calls that are carried out\<close>

lemma rwp_on_result: "rwp (on_result c err ok) Q D m = rwp c (\<lambda>r. rwp (case r of Inl e \<Rightarrow> err e | Inr a \<Rightarrow> ok a) Q D) D m"
  by (simp add: on_result_def rwp_rbind)

lemma rwp_ignoring: "rwp (ignoring c k) Q D m = rwp c (\<lambda>_. rwp k Q D) D m"
  by (simp add: ignoring_def rwp_rbind)

lemmas rwp_steps = rwp_on_result rwp_ignoring rwp_rbind

lemma quiet_call: "mc_faults m = [] \<Longrightarrow> rwp (call partial act) Q D m = (case act m of (r, m') \<Rightarrow> Q r m')"
  by (simp add: rwp_def call_fine apfst_def map_prod_def split: prod.splits)

lemma quiet_calls:
  assumes "mc_faults m = []"
  shows "rwp (db_call f) Q D m = Q (fst (f (mc_db m))) (m\<lparr>mc_db := snd (f (mc_db m))\<rparr>)"
    and "rwp (db_query g) Q1 D m = Q1 (g (mc_db m)) m"
    and "rwp (os_RenameTree a b) Q2 D m = Q2 (fst (rename_tree a b (mc_disk m))) (m\<lparr>mc_disk := snd (rename_tree a b (mc_disk m))\<rparr>)"
    and "rwp (removeBackupTree a) Q2 D m = Q2 (Inr ()) (m\<lparr>mc_disk := (mc_disk m)(a := None)\<rparr>)"
    and "rwp (exactPathIdentity a want) Q3 D m = Q3 (Inr (has_id (mc_disk m a) want)) m"
    and "rwp (pathIdentity a) Q4 D m = Q4 (Inr (case mc_disk m a of None \<Rightarrow> (no_identity, False) | Some t \<Rightarrow> (mt_id t, True))) m"
    and "rwp (restoreRecoveryPlan catalog jr) Q5 D m = Q5 (recovery_plan catalog jr (mc_disk m) (mc_db m)) m"
  using assms
  by (simp_all add: db_call_def db_query_def os_RenameTree_def removeBackupTree_def pathIdentity_def exactPathIdentity_def
      restoreRecoveryPlan_def quiet_call rwp_on_result has_id_def split: prod.splits option.splits)

lemma quiet_exec:
  assumes "mc_faults m = []"
  shows "rwp (db_exec f) Q D m = (case f (mc_db m) of Inl e \<Rightarrow> Q (Inl e) m | Inr d \<Rightarrow> Q (Inr ()) (m\<lparr>mc_db := d\<rparr>))"
  using assms by (simp add: db_exec_def quiet_calls split: sum.splits)

section \<open>Classification\<close>

lemma check_paths_live:
  assumes "mc_faults m = []" and "\<forall>(p, ok) \<in> set ps. mc_disk m p \<noteq> None \<longrightarrow> ok"
  shows "rwp (check_paths ps) Q D m = Q (Inr ()) m"
  using assms(2)
proof (induction ps)
  case (Cons p ps)
  obtain name ok where p: "p = (name, ok)" by fastforce
  from Cons show ?case unfolding p check_paths.simps rwp_on_result quiet_calls(6) [OF assms(1)]
    by (cases "mc_disk m name") simp_all
qed simp

lemma classify_live:
  assumes q: "mc_faults m = []" and "\<not> ambiguous i (view_of i (mc_disk m))"
  shows "rwp (classifyRestorePaths i) Q D m = Q (Inr (classify_view i (view_of i (mc_disk m)))) m"
proof -
  let ?a = "mc_disk m (sj_OriginalPath i)" and ?s = "mc_disk m (sj_StagedPath i)" and ?r = "mc_disk m (sj_RollbackPath i)"
  have paths: "\<forall>(p, ok) \<in> set [(sj_OriginalPath i, has_id ?a (sj_Original i) \<or> has_id ?a (sj_Staged i)),
      (sj_RollbackPath i, has_id ?r (sj_Original i)), (sj_StagedPath i, has_id ?s (sj_Staged i))]. mc_disk m p \<noteq> None \<longrightarrow> ok"
    using assms(2) by (auto simp: ambiguous_def view_of_def)
  show ?thesis unfolding classifyRestorePaths_def
    by (simp only: rwp_on_result quiet_calls(5) [OF q] sum.case check_paths_live [OF q paths] rwp_rret
        classify_view_def view_of_def prod.case)
qed

lemma unambiguous:
  assumes "case_ok c" and "strip i \<in> set (rc_items c)" and "kept_item c (strip i) v \<or> final_item c (strip i) v"
  shows "\<not> ambiguous i v" and "kept_item c (strip i) v \<Longrightarrow> snd (classify_view i v)"
  using assms by (auto simp: item_defs ambiguous_def has_id_def classify_view_def case_ok_def)

lemma classify_items_live:
  assumes "mc_faults m = []" and "\<forall>i \<in> set is. \<not> ambiguous i (view_of i (mc_disk m))"
  shows "rwp (classify_items is a b) Q D m
    = Q (a \<and> (\<forall>i \<in> set is. fst (classify_view i (view_of i (mc_disk m))) = ActiveRestored),
         b \<and> (\<forall>i \<in> set is. snd (classify_view i (view_of i (mc_disk m))))) m"
  using assms(2)
proof (induction "is" arbitrary: a b)
  case (Cons i "is")
  then show ?case
    by (simp add: rwp_steps classify_live [OF assms(1)] split: prod.split)
qed simp

section \<open>The containers\<close>

text \<open>A runtime that starts the containers it is told to.\<close>

definition obedient :: "'w BackupRuntime \<Rightarrow> bool" where
  "obedient rt \<longleftrightarrow> (\<forall>x d s w. fst (br_Start rt x d s w) = Inr ()
     \<and> fst (br_Inspect rt x (snd (br_Start rt x d s w))) = Inr (Some True))"

lemma resume_live:
  assumes "obedient rt" and "mc_faults m = []" and "\<And>w. Q (Inr ()) (m\<lparr>mc_host := w\<rparr>)"
  shows "rwp (resume_components rt plan running is) Q D m"
  using assms(2,3)
proof (induction "is" arbitrary: m)
  case Nil
  from Nil.prems(2) [of "mc_host m"] show ?case by simp
next
  case (Cons i "is")
  have skip: "rwp (resume_components rt plan running is) Q D m" by (rule Cons.IH) (use Cons.prems in simp_all)
  have "rwp (resume_components rt plan running is) Q D (m\<lparr>mc_host := w\<rparr>)" for w by (rule Cons.IH) (use Cons.prems in simp_all)
  moreover obtain w where start: "br_Start rt (runtime_of plan i) (mc_disk m) (rd_secrets (mc_db m)) (mc_host m) = (Inr (), w)"
    using assms(1) by (metis obedient_def prod.collapse)
  moreover have "fst (br_Inspect rt (runtime_of plan i) w) = Inr (Some True)"
    using assms(1) start by (metis obedient_def snd_conv)
  then obtain w' where "br_Inspect rt (runtime_of plan i) w = (Inr (Some True), w')" by (metis prod.collapse)
  ultimately show ?case using skip Cons.prems(1)
    by (simp add: rwp_steps rt_start_def rt_call_def quiet_call runtimeRunning_def)
qed

section \<open>Rolling back\<close>

lemma rollback_item_live:
  assumes ok: "case_ok c" and i: "strip i \<in> set (rc_items c)" and q: "mc_faults m = []"
    and kept: "kept_item c (strip i) (view_of i (mc_disk m))" and op: "jr_OperationID j = rc_op c"
    and rest: "\<And>d s. only_at (item_paths (rc_op c) (strip i)) (mc_disk m) d
      \<Longrightarrow> rwp (rollback_items now j is) Q D (m\<lparr>mc_disk := d, mc_db := (mc_db m)\<lparr>rd_steps := s\<rparr>\<rparr>)"
  shows "rwp (rollback_items now j (i # is)) Q D m"
proof -
  define A S R F where p: "A = sj_OriginalPath i" "S = sj_StagedPath i" "R = sj_RollbackPath i" "F = failed_path (sj_OriginalPath i) (rc_op c)"
  have ps: "item_paths (rc_op c) (strip i) = [A, S, R, F]" by (simp add: item_paths_def p)
  have st: "restore_storage c (strip i)" by unfold_locales (simp_all add: ok i)
  have ne: "A \<noteq> S" "A \<noteq> R" "S \<noteq> R" "F \<noteq> A" "F \<noteq> S" "F \<noteq> R"
    using restore_storage.paths_differ [OF st] by (simp_all add: p)
  have tail: "rwp (ignoring (removeBackupTree S) (ignoring (db_exec (updateRestoreStep now (rc_op c) (sj_Key i) SRolledBack id))
      (rollback_items now j is))) Q D (m\<lparr>mc_disk := d\<rparr>)" if "only_at [A, S, R, F] (mc_disk m) d" for d
  proof -
    have d: "only_at (item_paths (rc_op c) (strip i)) (mc_disk m) (d(S := None))"
      using that unfolding ps by (simp add: only_at_def)
    show ?thesis using rest [OF d] rest [OF d, of "rd_steps (mc_db m)"] q
      by (simp add: rwp_steps quiet_calls quiet_exec updateRestoreStep_def)
  qed
  have amb: "\<not> ambiguous i (view_of i (mc_disk m))" and avail: "snd (classify_view i (view_of i (mc_disk m)))"
    using unambiguous [OF ok i, of "view_of i (mc_disk m)"] kept by auto
  obtain act where act: "classify_view i (view_of i (mc_disk m)) = (act, True)"
    using avail by (cases "classify_view i (view_of i (mc_disk m))") simp
  from ok i have old: "mt_id (rc_old c (sj_Key i)) = sj_Original i" by (auto simp: case_ok_def)
  note cl = classified [OF ok i, of "view_of i (mc_disk m)", unfolded strip_sel act prod.inject fst_conv]
  note view = view_of_def [of i "mc_disk m", folded p]
  have step: "rwp (rollback_items now j (i # is)) Q D m \<longleftrightarrow>
    rwp (on_result (if act = ActiveRestored then ignoring (removeBackupTree F) (os_RenameTree A F) else rret (Inr ())) rfail (\<lambda>_.
       on_result (exactPathIdentity R (sj_Original i)) rfail (\<lambda>rollbackExact.
       on_result (if rollbackExact then os_RenameTree R A else rret (Inr ())) rfail (\<lambda>_.
       ignoring (removeBackupTree S) (ignoring (db_exec (updateRestoreStep now (rc_op c) (sj_Key i) SRolledBack id))
        (rollback_items now j is)))))) Q D m"
    unfolding p by (simp add: rwp_on_result [of "classifyRestorePaths i"] classify_live [OF q amb] act Let_def op)
  from kept consider (original) s where "view_of i (mc_disk m) = (Some (rc_old c (sj_Key i)), s, None)" "act \<noteq> ActiveRestored"
    | (aside) s where "view_of i (mc_disk m) = (None, s, Some (rc_old c (sj_Key i)))" "act \<noteq> ActiveRestored"
    | (restored) t where "view_of i (mc_disk m) = (Some t, None, Some (rc_old c (sj_Key i)))" "act = ActiveRestored"
    using cl by (auto simp: kept_item_def original_item_def aside_item_def restored_item_def)
  then show ?thesis
  proof cases
    case original
    then have "mc_disk m R = None" by (simp add: view)
    with original tail [of "mc_disk m"] q show ?thesis unfolding step by (simp add: rwp_on_result quiet_calls has_id_def only_at_def)
  next
    case aside
    then have "mc_disk m R = Some (rc_old c (sj_Key i))" "mc_disk m A = None" by (simp_all add: view)
    with aside tail q old show ?thesis unfolding step
      by (simp add: rwp_on_result quiet_calls has_id_def rename_into_free only_at_def)
  next
    case restored
    then have d: "mc_disk m R = Some (rc_old c (sj_Key i))" "mc_disk m A = Some t" by (simp_all add: view)
    let ?d1 = "(mc_disk m)(F := None)" let ?d2 = "(mc_disk m)(A := None, F \<mapsto> t)" let ?d3 = "(?d2(R := None))(A \<mapsto> rc_old c (sj_Key i))"
    have "rename_tree A F ?d1 = (Inr (), (?d1(A := None))(F \<mapsto> t))" by (rule rename_into_free) (use d ne in auto)
    then have r1: "rename_tree A F ?d1 = (Inr (), ?d2)" using ne by (simp add: fun_upd_twist)
    have r2: "rename_tree R A ?d2 = (Inr (), ?d3)" by (rule rename_into_free) (use d ne in auto)
    have "only_at [A, S, R, F] (mc_disk m) ?d3" by (simp add: only_at_def)
    from tail [OF this] restored(2) q old d ne show ?thesis unfolding step
      by (simp add: rwp_on_result rwp_ignoring [of "removeBackupTree F"] quiet_calls r1 r2 has_id_def)
  qed
qed

lemma rollback_live:
  assumes ok: "case_ok c" and op: "jr_OperationID j = rc_op c"
    and items: "strip ` set is \<subseteq> set (rc_items c)" "distinct (map strip is)"
    and q: "mc_faults m = []" and kept: "\<forall>i \<in> set is. kept_item c (strip i) (view_of i (mc_disk m))"
    and fin: "\<And>d s. Q (Inr ()) (m\<lparr>mc_disk := d, mc_db := (mc_db m)\<lparr>rd_steps := s\<rparr>\<rparr>)"
  shows "rwp (rollback_items now j is) Q D m"
  using items q kept fin
proof (induction "is" arbitrary: m)
  case Nil
  from Nil.prems(5) [where d = "mc_disk m" and s = "rd_steps (mc_db m)"] show ?case by simp
next
  case (Cons i "is")
  show ?case
  proof (rule rollback_item_live [OF ok _ Cons.prems(3) _ op])
    fix d s
    assume d: "only_at (item_paths (rc_op c) (strip i)) (mc_disk m) d"
    have "view_of k d = view_of k (mc_disk m)" if "k \<in> set is" for k
    proof -
      have "strip k \<in> set (rc_items c)" "strip k \<noteq> strip i" using Cons.prems(1,2) imageI [OF that, of strip] by auto
      with view_other [OF ok _ _ _ d, of "strip k"] Cons.prems(1) show ?thesis by simp
    qed
    then show "rwp (rollback_items now j is) Q D (m\<lparr>mc_disk := d, mc_db := (mc_db m)\<lparr>rd_steps := s\<rparr>\<rparr>)"
      by (intro Cons.IH) (use Cons.prems in simp_all)
  qed (use Cons.prems in simp_all)
qed

section \<open>Statements that succeed\<close>

text \<open>No fault ahead, and the tables of the operations are \<open>h\<close>.\<close>

definition calm :: "helper_db \<Rightarrow> 'w machine \<Rightarrow> bool" where
  "calm h m \<longleftrightarrow> mc_faults m = [] \<and> rd_helper (mc_db m) = h"

abbreviation completes :: "helper_db \<Rightarrow> ('w, 'a result) run \<Rightarrow> 'w machine \<Rightarrow> bool" where
  "completes h p m \<equiv> rwp p (\<lambda>r m'. is_ok r \<and> calm h m') (\<lambda>_. False) m"

lemma calm_then:
  assumes "completes h p m" and "\<And>a m'. calm h m' \<Longrightarrow> rwp (k a) Q (\<lambda>_. False) m'"
  shows "rwp (on_result p err k) Q (\<lambda>_. False) m"
  by (rule rwp_on_resultI [OF assms(1)]) (use assms(2) in simp_all)

lemma calm_exec:
  assumes "calm h m" and "f (mc_db m) = Inr d" and "rd_helper d = rd_helper (mc_db m)"
  shows "completes h (db_exec f) m"
  using assms by (simp add: calm_def quiet_exec)

lemma calm_operation: "calm h m \<Longrightarrow> completes h (db_exec (updateRestoreOperation now op ph detail)) m"
  by (erule calm_exec, unfold updateRestoreOperation_def, rule refl, simp)

definition secrets_distinct :: "secretValues \<Rightarrow> bool" where
  "secrets_distinct vs = distinct (map (\<lambda>v. (if sv_Component v = ''app'' then [] else sv_Component v, sv_Name v)) (sv_Values vs))"

lemma insert_secrets:
  assumes "distinct (map secret_key (rows @ map (secret_row_of now inst) vs))"
  shows "fold_result (\<lambda>v. sql_insert secret_key (secret_row_of now inst v)) vs rows = Inr (rows @ map (secret_row_of now inst) vs)"
  using assms
proof (induction vs arbitrary: rows)
  case (Cons v vs)
  then have "secret_key (secret_row_of now inst v) \<notin> secret_key ` set rows" by simp
  then have "sql_insert secret_key (secret_row_of now inst v) rows = Inr (rows @ [secret_row_of now inst v])"
    by (force simp: sql_insert_Inr_iff tbl_get_None_iff intro: rev_image_eqI)
  with Cons.IH [of "rows @ [secret_row_of now inst v]"] Cons.prems show ?case by simp
qed simp

lemma replaceSecrets_live:
  assumes "secrets_distinct vs" and "tbl_wf secret_key (rd_secrets d)"
  shows "replaceSecrets now inst vs d
    = Inr (d\<lparr>rd_secrets := filter (\<lambda>r. sr_installation_id r \<noteq> inst) (rd_secrets d) @ map (secret_row_of now inst) (sv_Values vs)\<rparr>)"
proof -
  let ?rows = "filter (\<lambda>r. sr_installation_id r \<noteq> inst) (rd_secrets d)"
  have "map secret_key (map (secret_row_of now inst) (sv_Values vs))
      = map (Pair inst) (map (\<lambda>v. (if sv_Component v = ''app'' then [] else sv_Component v, sv_Name v)) (sv_Values vs))"
    by (simp add: secret_key_def secret_row_of_def)
  moreover have "distinct (map (Pair inst) (map (\<lambda>v. (if sv_Component v = ''app'' then [] else sv_Component v, sv_Name v)) (sv_Values vs)))"
    using assms(1) by (simp add: secrets_distinct_def distinct_map inj_on_def)
  ultimately have "distinct (map secret_key (map (secret_row_of now inst) (sv_Values vs)))" by (simp only:)
  moreover have "distinct (map secret_key ?rows)"
    using assms(2) by (simp add: tbl_wf_def distinct_map inj_on_def)
  ultimately have "distinct (map secret_key (?rows @ map (secret_row_of now inst) (sv_Values vs)))"
    by (auto simp: secret_key_def secret_row_of_def)
  from insert_secrets [OF this] show ?thesis by (simp add: replaceSecrets_def)
qed

text \<open>The operation that the helper left to its recovery can be completed.\<close>

definition awaits_recovery :: "string \<Rightarrow> string \<Rightarrow> helper_db \<Rightarrow> bool" where
  "awaits_recovery inst op h \<longleftrightarrow> coord_inv h
     \<and> (\<exists>x. op_get h op = Some x \<and> o_state x = StateActionRequired \<and> o_installation_id x = inst)"

lemma awaits_token:
  assumes "awaits_recovery inst op h"
  obtains t where "\<And>d. rd_helper d = h \<Longrightarrow> recovery_token inst op d = Inr t"
    "\<And>now response v. encode_result (rs_Result response) ''recovery result is invalid'' = Inr v
      \<Longrightarrow> \<exists>r h'. CompleteRecovery now op t response h = (Inr r, h')"
proof -
  from assms obtain x where x: "op_get h op = Some x" "o_state x = StateActionRequired" "o_installation_id x = inst" and inv: "coord_inv h"
    by (auto simp: awaits_recovery_def)
  note wf = coord_inv_wf [OF inv]
  have "live (o_state x)" using x by (simp add: live_def)
  from coord_inv_liveD [OF inv x(1) this] obtain l where l: "lease_get h inst = Some l" "lease_matches x l" using x(3) by metis
  have k: "o_operation_id x = op" by (rule tbl_get_key [OF x(1)])
  have m: "l_operation_id l = op" "l_installation_id l = inst" "o_fencing_token x = Some (l_fencing_token l)" "l_state l = RecoveryRequired"
    using l(2) x k by (simp_all add: lease_matches_def)
  show ?thesis
  proof
    show "recovery_token inst op d = Inr (l_fencing_token l)" if "rd_helper d = h" for d
      using that wf l(1) m by (simp add: recovery_token_def sql_row_key_and)
    fix now and response :: Response and v
    assume "encode_result (rs_Result response) ''recovery result is invalid'' = Inr v"
    then show "\<exists>r h'. CompleteRecovery now op (l_fencing_token l) response h = (Inr r, h')"
      using wf x l(1) m
      by (auto simp: CompleteRecovery_def commit_recovery_def Let_def sql_row_key_and sql_count_key get_response_def op_row_of_def
          sql_row_key tbl_get_update split: prod.split)
  qed
qed

text \<open>The plan of the recovery does not depend on the rows of the journal.\<close>

lemma journal_columns:
  "rd_helper (d\<lparr>rd_restores := r\<rparr>) = rd_helper d" "rd_component_ownership (d\<lparr>rd_restores := r\<rparr>) = rd_component_ownership d"
  "rd_secrets (d\<lparr>rd_restores := r\<rparr>) = rd_secrets d" "rd_roots (d\<lparr>rd_restores := r\<rparr>) = rd_roots d"
  "rd_external (d\<lparr>rd_restores := r\<rparr>) = rd_external d" "rd_backups (d\<lparr>rd_restores := r\<rparr>) = rd_backups d"
  "rd_helper (d\<lparr>rd_steps := s\<rparr>) = rd_helper d" "rd_component_ownership (d\<lparr>rd_steps := s\<rparr>) = rd_component_ownership d"
  "rd_secrets (d\<lparr>rd_steps := s\<rparr>) = rd_secrets d" "rd_roots (d\<lparr>rd_steps := s\<rparr>) = rd_roots d"
  "rd_external (d\<lparr>rd_steps := s\<rparr>) = rd_external d" "rd_backups (d\<lparr>rd_steps := s\<rparr>) = rd_backups d"
  by simp_all

lemma recovery_plan_journal:
  "recovery_plan catalog jr disk (d\<lparr>rd_restores := r\<rparr>) = recovery_plan catalog jr disk d"
  "recovery_plan catalog jr disk (d\<lparr>rd_steps := s\<rparr>) = recovery_plan catalog jr disk d"
  unfolding recovery_plan_def loadApplicationBackupPlan_def single_backup_plan_def multi_backup_plan_def
    loadImportedBackupBindings_def external_rows_def loadBackupSecrets_def journal_columns by (rule refl)+

definition plan_loads :: "Manifest go_map result \<Rightarrow> restore_case \<Rightarrow> restore_db \<Rightarrow> bool" where
  "plan_loads catalog c d \<longleftrightarrow> (\<forall>jr disk. jr_OperationID jr = rc_op c \<longrightarrow> jr_InstallationID jr = rc_inst c \<longrightarrow> jr_BackupID jr = rc_backup c
     \<longrightarrow> all_original c disk \<or> all_final c disk \<longrightarrow> is_ok (recovery_plan catalog jr disk d))"

lemma load_live:
  assumes "journal_ok c d" and "case_ok c"
  obtains jr where "loadRestoreJournal (rc_op c) d = Inr jr"
proof -
  have "valid_item i" if "i \<in> set (journal_items (rc_op c) d)" for i
  proof -
    have "strip i \<in> set (map strip (journal_items (rc_op c) d))" using that by simp
    then have "strip i \<in> set (rc_items c)" using assms(1) unfolding journal_ok_def by metis
    then have "valid_item (strip i)" using assms(2) by (simp add: case_ok_def)
    then show ?thesis by (simp add: valid_item_def)
  qed
  then have "list_all valid_item (journal_items (rc_op c) d)" by (simp add: list_all_iff)
  moreover obtain r where "tbl_get ro_operation_id (rc_op c) (rd_restores d) = Some r" using assms(1) by (auto simp: journal_ok_def)
  ultimately have "\<exists>jr. loadRestoreJournal (rc_op c) d = Inr jr" by (simp add: loadRestoreJournal_def sql_row_key)
  with that show ?thesis by blast
qed

lemma cleanup_live:
  "calm h m \<Longrightarrow> rwp (cleanup_items now op cleaned is b) (\<lambda>_. calm h) (\<lambda>_. False) m"
proof (induction "is" arbitrary: b m)
  case (Cons i "is")
  have "rwp (db_exec (updateRestoreStep now op key ph f)) (\<lambda>_. calm h) (\<lambda>_. False) m'" if "calm h m'" for key ph f and m' :: "'a machine"
    using that by (simp add: quiet_exec calm_def updateRestoreStep_def)
  note step = this
  have "calm h (m'\<lparr>mc_disk := d\<rparr>)" if "calm h m'" for d and m' :: "'a machine" using that by (simp add: calm_def)
  then have "rwp (removeBackupTree p) (\<lambda>r m'. r = Inr () \<and> calm h m') (\<lambda>_. False) m'" if "calm h m'" for p and m' :: "'a machine"
    using that by (simp add: quiet_calls calm_def)
  then show ?case using Cons.IH unfolding cleanup_items.simps
    by (intro rwp_ignoringI [where P = "calm h"] step Cons.prems rwp_on_resultI)
      (assumption | simp | rule rwp_ignoringI [OF step])+
qed simp

context restore_recovery
begin

text \<open>A recovery without faults of a journal in the given state.\<close>

definition decidable_now :: "Manifest go_map result \<Rightarrow> 'w machine \<Rightarrow> bool" where
  "decidable_now catalog m \<longleftrightarrow> mc_faults m = [] \<and> obedient rt \<and> plan_loads catalog c (mc_db m)
     \<and> secrets_distinct (rc_old_secrets c) \<and> secrets_distinct (rc_new_secrets c) \<and> tbl_wf secret_key (rd_secrets (mc_db m))"

lemma forward_live:
  assumes j: "journal_of j" and m: "decidable_now catalog m" and fin: "all_final c (mc_disk m)"
  shows "completes (rd_helper (mc_db m)) (finishRestoreForward rt catalog now j) m"
proof -
  let ?h = "rd_helper (mc_db m)"
  from m have calm: "calm ?h m" by (simp add: calm_def decidable_now_def)
  from m j fin obtain plan where plan: "recovery_plan catalog j (mc_disk m) (mc_db m) = Inr plan"
    unfolding decidable_now_def plan_loads_def journal_of_def is_ok_iff by blast
  have secrets: "completes ?h (db_exec (replaceSecrets now inst (rc_new_secrets c))) m'"
    if "calm ?h m'" "tbl_wf secret_key (rd_secrets (mc_db m'))" for inst and m' :: "'w machine"
    by (rule calm_exec [OF that(1) replaceSecrets_live]) (use m that in \<open>simp_all add: decidable_now_def\<close>)
  have resume: "completes ?h (resumeBackupRuntime rt plan running) m'" if "calm ?h m'" for running and m' :: "'w machine"
    unfolding resumeBackupRuntime_def by (rule resume_live) (use m that in \<open>simp_all add: decidable_now_def calm_def\<close>)
  have js: "jr_OperationID j = rc_op c" "jr_RestoredSecrets j = rc_new_secrets c" using j by (simp_all add: journal_of_def)
  have "completes ?h (commit_forward rt catalog now j) m"
    unfolding commit_forward_def js
  proof (rule rwp_on_resultI [where P = "\<lambda>r m'. r = Inr plan \<and> m' = m"])
    show "rwp (restoreRecoveryPlan catalog j) (\<lambda>r m'. r = Inr plan \<and> m' = m) (\<lambda>_. False) m"
      using m plan by (simp add: quiet_calls decidable_now_def)
    fix a and m' :: "'w machine"
    assume "Inr a = (Inr plan :: applicationBackupPlan result) \<and> m' = m"
    then have a: "a = plan" "m' = m" by simp_all
    let ?P = "\<lambda>r m'. is_ok r \<and> calm ?h m' \<and> rd_secrets (mc_db m') = rd_secrets (mc_db m)"
    have "rwp (db_exec (updateRestoreOperation now (rc_op c) RRuntimeRestorePending [])) ?P (\<lambda>_. False) m"
      using calm by (simp add: quiet_exec calm_def updateRestoreOperation_def)
    then show "completes ?h (on_result (db_exec (updateRestoreOperation now (rc_op c) RRuntimeRestorePending [])) rfail (\<lambda>_.
        on_result (db_exec (replaceSecrets now (jr_InstallationID j) (rc_new_secrets c))) rfail (\<lambda>_.
        on_result (resumeBackupRuntime rt a (journal_running j)) rfail (\<lambda>_.
        db_exec (updateRestoreOperation now (rc_op c) RCommitted []))))) m'"
      unfolding a
      by (rule rwp_on_resultI, simp)
        (rule calm_then [OF secrets], use m in \<open>simp_all add: decidable_now_def\<close>,
          rule calm_then [OF resume], assumption, erule calm_operation)
  qed simp
  moreover have "completes ?h (if jr_Phase j \<noteq> RCommitted then commit_forward rt catalog now j else rret (Inr ())) m"
    using calculation calm by simp
  moreover have "completes ?h (rbind (cleanup_items now (rc_op c) confirm_cleanup (jr_Storage j) False) (\<lambda>deferred.
     if deferred then db_exec (defer_cleanup now (rc_op c)) else db_exec (updateRestoreOperation now (rc_op c) RCompleted []))) m'"
    if "calm ?h m'" for m' :: "'w machine"
    by (rule rwp_rbindI [OF cleanup_live [OF that]])
      (auto simp: quiet_exec calm_def defer_cleanup_def updateRestoreOperation_def)
  ultimately show ?thesis unfolding finishRestoreForward_def js by (blast intro: calm_then)
qed

lemma backward_live:
  assumes j: "journal_of j" and m: "decidable_now catalog m" and kept: "all_kept c (mc_disk m)"
    and st: "in_state c F kept I m"
  shows "completes (rd_helper (mc_db m)) (finishRestoreRollback rt catalog now j cause) m"
proof -
  let ?h = "rd_helper (mc_db m)"
  have js: "jr_OperationID j = rc_op c" "jr_OriginalSecrets j = rc_old_secrets c" using j by (simp_all add: journal_of_def)
  let ?P = "\<lambda>(r :: unit result) m'. r = Inr () \<and> mc_faults m' = [] \<and> (\<exists>s. mc_db m' = (mc_db m)\<lparr>rd_steps := s\<rparr>)"
  have whole: "\<forall>i \<in> set (rev (jr_Storage j)). kept_item c (strip i) (view_of i (mc_disk m))"
    using on_itemsD [OF kept, of "strip i" for i] items_of_journal(1) [OF j] by force
  have "rwp (rollback_items now j (rev (jr_Storage j))) ?P (\<lambda>_. False) m"
    by (rule rollback_live [OF ok js(1) _ _ _ whole])
      (use items_of_journal [OF j] m in \<open>auto simp: decidable_now_def rev_map [symmetric]\<close>)
  moreover have "rwp (rollback_items now j (rev (jr_Storage j))) (\<lambda>r. in_state c F (if is_ok r then (\<lambda>d _. all_original c d) else kept) I) (in_state c F kept I) m"
    by (rule rollback_done_wp [OF j st])
  ultimately have undone: "rwp (rollback_items now j (rev (jr_Storage j))) (\<lambda>r m'. ?P r m' \<and> all_original c (mc_disk m')) (\<lambda>_. False) m"
    by (auto simp: rwp_def in_state_def split: prod.splits option.splits)
  have resume: "completes ?h (if q then resumeBackupRuntime rt plan running else rret (Inr ())) m'" if "calm ?h m'" for q plan running and m' :: "'w machine"
    using that m by (auto simp: resumeBackupRuntime_def decidable_now_def calm_def intro!: resume_live)
  show ?thesis unfolding finishRestoreRollback_def Let_def js
  proof (rule rwp_on_resultI [OF undone])
    fix u and m1 :: "'w machine"
    assume m1: "?P (Inr u) m1 \<and> all_original c (mc_disk m1)"
    then have calm1: "calm ?h m1" and sec: "rd_secrets (mc_db m1) = rd_secrets (mc_db m)" by (auto simp: calm_def)
    from m1 m j have "is_ok (recovery_plan catalog j (mc_disk m1) (mc_db m))"
      unfolding decidable_now_def plan_loads_def journal_of_def by blast
    moreover have "recovery_plan catalog j (mc_disk m1) (mc_db m1) = recovery_plan catalog j (mc_disk m1) (mc_db m)"
      using m1 by (auto simp: recovery_plan_journal)
    ultimately obtain plan where plan: "recovery_plan catalog j (mc_disk m1) (mc_db m1) = Inr plan" by (auto simp: is_ok_iff)
    have secrets: "completes ?h (db_exec (replaceSecrets now inst (rc_old_secrets c))) m1" for inst
      by (rule calm_exec [OF calm1 replaceSecrets_live]) (use m sec in \<open>simp_all add: decidable_now_def\<close>)
    have "rwp (restoreRecoveryPlan catalog j) (\<lambda>r m'. r = Inr plan \<and> m' = m1) (\<lambda>_. False) m1"
      using calm1 plan by (simp add: quiet_calls calm_def)
    then show "completes ?h (on_result (restoreRecoveryPlan catalog j) rfail (\<lambda>plan.
      on_result (db_exec (replaceSecrets now (jr_InstallationID j) (rc_old_secrets c))) rfail (\<lambda>_.
      on_result (if jr_Phase j \<noteq> RValidated \<and> jr_Phase j \<noteq> RStaged then resumeBackupRuntime rt plan (journal_running j) else rret (Inr ())) rfail (\<lambda>_.
      db_exec (updateRestoreOperation now (rc_op c) RRolledBack cause))))) m1"
      by (rule rwp_on_resultI, simp)
        (elim conjE, simp only: sum.inject, rule calm_then [OF secrets], rule calm_then [OF resume], assumption, erule calm_operation)
  qed simp
qed

lemma resolve_live:
  assumes j: "journal_of j" and m: "decidable_now catalog m" and s: "watched_safe m"
    and complete: "\<And>response v. encode_result (rs_Result response) ''recovery result is invalid'' = Inr v
      \<Longrightarrow> \<exists>r h'. CompleteRecovery now (rc_op c) t response (rd_helper (mc_db m)) = (Inr r, h')"
    and short: "length (json_encode (JObj [(''backup_id'', JStr (rc_backup c)), (''status'', JStr ''restored'')])) \<le> maxResultBytes"
  shows "rwp (resolve_restore rt catalog now j t) (\<lambda>r _. r = Inr True) (\<lambda>_. False) m"
proof -
  let ?h = "rd_helper (mc_db m)"
  let ?v = "\<lambda>i. view_of i (mc_disk m)"
  have js: "jr_OperationID j = rc_op c" "jr_BackupID j = rc_backup c" "jr_Storage j \<noteq> []"
    using j nonempty by (auto simp: journal_of_def)
  have q: "mc_faults m = []" using m by (simp add: decidable_now_def)
  have items: "kept_item c (strip i) (?v i) \<or> final_item c (strip i) (?v i)" if "i \<in> set (jr_Storage j)" for i
  proof -
    have "strip i \<in> set (rc_items c)" using that items_of_journal(1) [OF j] by auto
    from s on_itemsD [OF _ this, of _ "mc_disk m"] show ?thesis
      by (cases rule: watched_cases) (auto simp: in_state_def committed_def dest: on_itemsD)
  qed
  have amb: "\<forall>i \<in> set (jr_Storage j). \<not> ambiguous i (?v i)"
    using unambiguous(1) [OF ok] items items_of_journal(1) [OF j] by blast
  have response: "encode_result (rs_Result (restored_response (rc_backup c))) ''recovery result is invalid''
      = Inr (rs_Result (restored_response (rc_backup c)))"
    "encode_result (rs_Result rolled_back_response) ''recovery result is invalid'' = Inr None"
    using short by (simp_all add: encode_result_def restored_response_def rolled_back_response_def empty_Response_def)
  have last: "rwp (on_result (complete_recovery now (rc_op c) t resp) rfail (\<lambda>_. rret (Inr True))) (\<lambda>r _. r = Inr True) (\<lambda>_. False) m'"
    if "calm ?h m'" "encode_result (rs_Result resp) ''recovery result is invalid'' = Inr v" for resp v and m' :: "'w machine"
    using complete [OF that(2)] that(1)
    by (auto simp: complete_recovery_def rwp_on_result quiet_calls calm_def split: prod.splits)
  show ?thesis
  proof (cases "\<forall>i \<in> set (jr_Storage j). fst (classify_view i (?v i)) = ActiveRestored")
    case True
    have "rwp (on_result (finishRestoreForward rt catalog now j) rfail (\<lambda>_.
        on_result (complete_recovery now (rc_op c) t (restored_response (rc_backup c))) rfail (\<lambda>_. rret (Inr True)))) (\<lambda>r _. r = Inr True) (\<lambda>_. False) m"
      by (rule calm_then [OF forward_live [OF j m decide_forward [OF j s True]] last [OF _ response(1)]])
    then show ?thesis using True js unfolding resolve_restore_def Let_def rwp_rbind classify_items_live [OF q amb] by simp
  next
    case False
    then have st: "in_state c before_commit kept I m" by (intro decide_back [OF j s]) blast
    then have kept: "all_kept c (mc_disk m)" by (simp add: in_state_def)
    have avail: "\<forall>i \<in> set (jr_Storage j). snd (classify_view i (?v i))"
    proof
      fix i
      assume "i \<in> set (jr_Storage j)"
      then have i: "strip i \<in> set (rc_items c)" using items_of_journal(1) [OF j] by auto
      from on_itemsD [OF kept i] have "kept_item c (strip i) (?v i)" by simp
      with unambiguous(2) [OF ok i] show "snd (classify_view i (?v i))" by blast
    qed
    have "rwp (on_result (finishRestoreRollback rt catalog now j interrupted_text) rfail (\<lambda>_.
        on_result (complete_recovery now (rc_op c) t rolled_back_response) rfail (\<lambda>_. rret (Inr True)))) (\<lambda>r _. r = Inr True) (\<lambda>_. False) m"
      by (rule calm_then [OF backward_live [OF j m kept st] last [OF _ response(2)]])
    then show ?thesis using False avail js unfolding resolve_restore_def Let_def rwp_rbind classify_items_live [OF q amb] by auto
  qed
qed

theorem recover_live:
  assumes m: "decidable_now catalog m" and s: "watched_safe m" and w: "awaits_recovery (rc_inst c) (rc_op c) (rd_helper (mc_db m))"
    and short: "length (json_encode (JObj [(''backup_id'', JStr (rc_backup c)), (''status'', JStr ''restored'')])) \<le> maxResultBytes"
  shows "rwp (recover_restore rt catalog now (rc_op c)) (\<lambda>r _. r = Inr True) (\<lambda>_. False) m"
proof -
  let ?h = "rd_helper (mc_db m)"
  from w obtain t where token: "\<And>d. rd_helper d = ?h \<Longrightarrow> recovery_token (rc_inst c) (rc_op c) d = Inr t"
    and complete: "\<And>now (response :: Response) v. encode_result (rs_Result response) ''recovery result is invalid'' = Inr v
      \<Longrightarrow> \<exists>r h'. CompleteRecovery now (rc_op c) t response ?h = (Inr r, h')"
    by (rule awaits_token) blast
  from s have jok: "journal_ok c (mc_db m)" by (auto simp: watched_safe_def safe_def in_state_def)
  from load_live [OF this ok] obtain j where load: "loadRestoreJournal (rc_op c) (mc_db m) = Inr j" .
  from loadRestoreJournal_case [OF jok load] have j: "journal_of (j\<lparr>jr_FencingToken := t\<rparr>)" and inst: "jr_InstallationID j = rc_inst c"
    and ph: "phase_of c (mc_db m) = Some (jr_Phase j)"
    by (auto simp: journal_of_def)
  have q: "mc_faults m = []" using m by (simp add: decidable_now_def)
  obtain d where d: "take_journal now (rc_op c) t (mc_db m) = Inr d" "\<exists>r. d = (mc_db m)\<lparr>rd_restores := r\<rparr>" by (auto simp: take_journal_def)
  let ?m = "m\<lparr>mc_db := d\<rparr>"
  have "watched_safe ?m"
    using take_wp [OF s ph, of now t] q d(1) by (simp add: quiet_exec)
  moreover have "decidable_now catalog ?m" using m d(2) by (auto simp: decidable_now_def plan_loads_def recovery_plan_journal)
  moreover have "rd_helper (mc_db ?m) = ?h" using d(2) by auto
  ultimately have "rwp (resolve_restore rt catalog now (j\<lparr>jr_FencingToken := t\<rparr>) t) (\<lambda>r _. r = Inr True) (\<lambda>_. False) ?m"
    using resolve_live [OF j, of catalog ?m now t] complete short by simp
  then have "rwp (on_result (resolve_restore rt catalog now (j\<lparr>jr_FencingToken := t\<rparr>) t) err (\<lambda>resolved. rret (Inr resolved)))
      (\<lambda>r _. r = Inr True) (\<lambda>_. False) ?m" for err
    by (rule rwp_on_resultI) simp_all
  then show ?thesis using q load token d(1) inst
    by (simp add: recover_restore_def Let_def rwp_on_result quiet_calls quiet_exec)
qed

theorem recover_interrupted_live:
  assumes m: "decidable_now catalog m" and s: "watched_safe m" and w: "awaits_recovery (rc_inst c) (rc_op c) (rd_helper (mc_db m))"
    and short: "length (json_encode (JObj [(''backup_id'', JStr (rc_backup c)), (''status'', JStr ''restored'')])) \<le> maxResultBytes"
    and ph: "restoreOperationNeedsRecovery (rc_op c) (mc_db m)"
  shows "rwp (recoverInterruptedRestores rt catalog now) (\<lambda>r m'. r = (1, Inr ()) \<and> resolved m') (\<lambda>_. False) m"
proof -
  from s have j: "journal_ok c (mc_db m)" by (auto simp: watched_safe_def safe_def in_state_def)
  have q: "mc_faults m = []" using m by (simp add: decidable_now_def)
  have one: "map ro_operation_id (sort_key ro_started_at (filter (\<lambda>r. unresolved_phase (ro_phase r)) (rd_restores (mc_db m)))) = [rc_op c]"
    using picked [OF j, of unresolved_phase ro_started_at] ph [unfolded needs_recovery_phase [OF j]] by (simp add: unresolved_phase_def)
  have "rwp (recoverInterruptedRestores rt catalog now) (\<lambda>r _. r = (1, Inr ())) (\<lambda>_. False) m"
    unfolding recoverInterruptedRestores_def rwp_on_result quiet_calls(2) [OF q] sum.case one recover_all.simps
    by (rule rwp_mono [OF recover_live [OF m s w short]]) simp_all
  moreover have "rwp (recoverInterruptedRestores rt catalog now) (\<lambda>(k, r) m'. watched_recoverable m' \<and> (0 < k \<longrightarrow> resolved m')) watched_recoverable m"
    by (rule recover_interrupted_wp [OF watched_safe_recoverable [OF s]])
  ultimately show ?thesis by (auto simp: rwp_def split: prod.splits option.splits)
qed

end

context journaled_restore
begin

lemma recovery_locale: "restore_recovery c rt (\<lambda>_. True)"
  by (rule rec.restore_recovery_axioms)

end

end
