(* ===== verification/Restore_Live.thy ===== *)
theory Restore_Live
  imports Restore_Resolve Coordinator_Spec Manifest_Spec
begin

text \<open>
  The properties of a restore, and one at work: an application with one storage and one generated
  secret, restored without a fault, with a crash in the middle of the exchange, and with a
  rollback that fails.
\<close>

section \<open>Properties\<close>

lemma journaled_restoreI: "staged_job j old new \<Longrightarrow> included (rj_plan j) \<noteq> [] \<Longrightarrow> journaled_restore j old new"
  by unfold_locales

lemma on_storages:
  assumes "staged_job j old new" and "on_items (case_of j old new) P d" and "s \<in> set (included (rj_plan j))"
  shows "P (item_of j old new s) (view_of (item_of j old new s) d)"
  by (rule on_itemsD [OF assms(2) staged_restore.item_mem [OF staged_restore.intro [OF assms(1)] assms(3)]])

lemma storage_trees:
  assumes "staged_job j old new" and "s \<in> set (included (rj_plan j))"
  shows "all_kept (case_of j old new) d \<Longrightarrow> d (mb_HostPath s) = Some (old (storage_key s)) \<or> d (rollback_path j s) = Some (old (storage_key s))"
    and "all_original (case_of j old new) d \<Longrightarrow> d (mb_HostPath s) = Some (old (storage_key s)) \<and> d (rollback_path j s) = None"
    and "all_final (case_of j old new) d \<Longrightarrow> d (mb_HostPath s) = Some (new (storage_key s))"
proof -
  note views = on_storages [OF assms(1) _ assms(2)]
  note defs = item_defs view_of_def item_of_def case_of_def
  show "d (mb_HostPath s) = Some (old (storage_key s)) \<or> d (rollback_path j s) = Some (old (storage_key s))"
    if "all_kept (case_of j old new) d" using views [OF that] by (auto simp: defs)
  show "d (mb_HostPath s) = Some (old (storage_key s)) \<and> d (rollback_path j s) = None"
    if "all_original (case_of j old new) d" using views [OF that] by (auto simp: defs)
  show "d (mb_HostPath s) = Some (new (storage_key s))"
    if "all_final (case_of j old new) d" using views [OF that] by (auto simp: defs)
qed

text \<open>
  C27. No data is lost. Whatever calls of a restore, of its rollback and of its recoveries fail,
  wherever the process dies and however often it is restarted: either every storage has
  its original tree whole on disk, in its place or set aside, or every storage has its restored tree
  in place.
\<close>

theorem restore_keeps_data:
  fixes rt :: "'w BackupRuntime"
  assumes job: "staged_job j old new" and some: "included (rj_plan j) \<noteq> []"
    and history: "restore_history rt catalog j (case_of j old new) m"
  shows "(\<forall>s \<in> set (included (rj_plan j)). mc_disk m (mb_HostPath s) = Some (old (storage_key s))
        \<or> mc_disk m (rollback_path j s) = Some (old (storage_key s)))
      \<or> (\<forall>s \<in> set (included (rj_plan j)). mc_disk m (mb_HostPath s) = Some (new (storage_key s)))"
proof -
  let ?c = "case_of j old new"
  from journaled_restore.history_recoverable [OF journaled_restoreI [OF job some] history]
  have "all_kept ?c (mc_disk m) \<or> all_final ?c (mc_disk m)"
    using on_items_mono [of ?c "original_item ?c" "mc_disk m" "kept_item ?c"]
    by (auto simp: recoverable_def safe_def in_state_def committed_def kept_item_def)
  then show ?thesis
  proof
    assume "all_kept ?c (mc_disk m)"
    then show ?thesis by (intro disjI1 ballI storage_trees(1) [OF job])
  next
    assume "all_final ?c (mc_disk m)"
    then show ?thesis by (intro disjI2 ballI storage_trees(3) [OF job])
  qed
qed


text \<open>
  C29. A recovery starts containers on whole data only. Every container that the recovery after a
  restart starts sees either all original trees and the secrets that belonged to
  them, or all restored trees and the secrets of the backup, never a mixture.
\<close>

theorem recovery_starts_whole:
  fixes rt :: "'w BackupRuntime"
  assumes job: "staged_job j old new" and some: "included (rj_plan j) \<noteq> []"
    and history: "restore_history (observed rt) catalog j (case_of j old new) m"
    and start: "(x, d, sec) \<in> set (snd (mc_host (snd (recoverInterruptedRestores (observed rt) catalog now (m\<lparr>mc_host := (w, [])\<rparr>)))))"
  shows "((\<forall>s \<in> set (included (rj_plan j)). d (mb_HostPath s) = Some (old (storage_key s)))
        \<and> holds_secrets (rq_InstanceID (rj_request j)) (ap_Secrets (rj_plan j)) sec)
      \<or> ((\<forall>s \<in> set (included (rj_plan j)). d (mb_HostPath s) = Some (new (storage_key s)))
        \<and> holds_secrets (rq_InstanceID (rj_request j)) (rj_secrets j) sec)"
proof -
  let ?c = "case_of j old new"
  have c: "rc_inst ?c = rq_InstanceID (rj_request j)" "rc_new_secrets ?c = rj_secrets j"
    "rc_old_secrets ?c = ap_Secrets (rj_plan j)" by (simp_all add: case_of_def)
  from journaled_restore.recovery_starts [OF journaled_restoreI [OF job some] history] start
  have "consistent ?c d sec" unfolding starts_ok_def by blast
  then show ?thesis unfolding consistent_def committed_def c
    using storage_trees(2) [OF job, of _ d] storage_trees(3) [OF job, of _ d] by (elim disjE conjE) simp_all
qed

text \<open>
  C28. A recovery that is left in peace decides. From every state in which the history of a restore
  can be and the journal is unresolved, a restart whose calls succeed, whose containers start and
  whose plan can be loaded recovers the one restore: afterwards the journal has nothing to recover, and
  either every original tree is back in place, nothing is left set aside and the installation has the
  secrets from before, or every restored tree is in place with the secrets of the backup.
\<close>

theorem recovery_decides:
  fixes rt :: "'w BackupRuntime"
  assumes job: "staged_job j old new" and some: "included (rj_plan j) \<noteq> []"
    and history: "restore_history rt catalog j (case_of j old new) m"
    and needed: "restoreOperationNeedsRecovery (job_op j) (mc_db m)"
    and waits: "awaits_recovery (rq_InstanceID (rj_request j)) (job_op j) (rd_helper (mc_db m))"
    and quiet: "mc_faults m = []" "obedient rt" "plan_loads catalog (case_of j old new) (mc_db m)"
    and secrets: "secrets_distinct (ap_Secrets (rj_plan j))" "secrets_distinct (rj_secrets j)" "tbl_wf secret_key (rd_secrets (mc_db m))"
    and short: "length (json_encode (JObj [(''backup_id'', JStr (rq_BackupID (rj_request j))), (''status'', JStr ''restored'')])) \<le> maxResultBytes"
  shows "\<exists>m'. recoverInterruptedRestores rt catalog now m = (Some (1, Inr ()), m')
      \<and> \<not> restoreOperationNeedsRecovery (job_op j) (mc_db m')
      \<and> ((\<forall>s \<in> set (included (rj_plan j)). mc_disk m' (mb_HostPath s) = Some (old (storage_key s)) \<and> mc_disk m' (rollback_path j s) = None)
            \<and> holds_secrets (rq_InstanceID (rj_request j)) (ap_Secrets (rj_plan j)) (rd_secrets (mc_db m'))
        \<or> (\<forall>s \<in> set (included (rj_plan j)). mc_disk m' (mb_HostPath s) = Some (new (storage_key s)))
            \<and> holds_secrets (rq_InstanceID (rj_request j)) (rj_secrets j) (rd_secrets (mc_db m')))"
proof -
  let ?c = "case_of j old new"
  have c: "rc_inst ?c = rq_InstanceID (rj_request j)" "rc_new_secrets ?c = rj_secrets j"
    "rc_old_secrets ?c = ap_Secrets (rj_plan j)" "rc_op ?c = job_op j" "rc_backup ?c = rq_BackupID (rj_request j)"
    by (simp_all add: case_of_def)
  note jr = journaled_restoreI [OF job some]
  note rec = journaled_restore.recovery_locale [OF jr]
  have "safe ?c m" using journaled_restore.history_recoverable [OF jr history] needed
    by (auto simp: recoverable_def no_journal_def restoreOperationNeedsRecovery_def sql_count_def filter_empty_conv c)
  then have safe: "restore_recovery.watched_safe ?c (\<lambda>_. True) m" by (simp add: restore_recovery.watched_safe_def [OF rec])
  have now: "restore_recovery.decidable_now ?c rt catalog m"
    using quiet secrets by (simp add: restore_recovery.decidable_now_def [OF rec] c)
  have "rwp (recoverInterruptedRestores rt catalog now) (\<lambda>r m'. r = (1, Inr ()) \<and> restore_recovery.resolved ?c (\<lambda>_. True) m') (\<lambda>_. False) m"
    by (rule restore_recovery.recover_interrupted_live [OF rec now safe]) (use waits short needed in \<open>simp_all add: c\<close>)
  then obtain m' where run: "recoverInterruptedRestores rt catalog now m = (Some (1, Inr ()), m')"
    and "restore_recovery.resolved ?c (\<lambda>_. True) m'" by (auto simp: rwp_def split: prod.splits option.splits)
  then consider (new) "in_state ?c {RCleanupPending, RCompleted} (committed ?c) (\<lambda>_. True) m'"
    | (old) "in_state ?c {RRolledBack} (\<lambda>d sec. all_original ?c d \<and> holds_secrets (rc_inst ?c) (rc_old_secrets ?c) sec) (\<lambda>_. True) m'"
    by (auto simp: restore_recovery.resolved_def [OF rec])
  then show ?thesis
  proof cases
    case new
    then have fin: "all_final ?c (mc_disk m')" by (simp add: in_state_def committed_def)
    have "\<not> restoreOperationNeedsRecovery (rc_op ?c) (mc_db m')"
      using new by (auto simp: in_state_def needs_recovery_phase unresolved_phase_def)
    moreover have "holds_secrets (rc_inst ?c) (rc_new_secrets ?c) (rd_secrets (mc_db m'))"
      using new by (simp add: in_state_def committed_def)
    ultimately show ?thesis using run storage_trees(3) [OF job _ fin] unfolding c by blast
  next
    case old
    then have fin: "all_original ?c (mc_disk m')" by (simp add: in_state_def)
    have "\<not> restoreOperationNeedsRecovery (rc_op ?c) (mc_db m')"
      using old by (auto simp: in_state_def needs_recovery_phase unresolved_phase_def)
    moreover have "holds_secrets (rc_inst ?c) (rc_old_secrets ?c) (rd_secrets (mc_db m'))"
      using old by (simp add: in_state_def)
    ultimately show ?thesis using run storage_trees(2) [OF job _ fin] unfolding c by blast
  qed
qed

section \<open>Evaluation\<close>

text \<open>
  The programs applied to a machine: their equations for evaluation, which leave a continuation
  alone until it is run.
\<close>

lemmas run_apply [code] =
  fun_cong [OF on_result_def] fun_cong [OF ignoring_def] fun_cong [OF rfail_def] fun_cong [OF db_call_def]
  fun_cong [OF db_exec_def] fun_cong [OF db_query_def] fun_cong [OF rt_call_def] fun_cong [OF rt_start_def]
  fun_cong [OF os_RenameTree_def] fun_cong [OF removeBackupTree_def] fun_cong [OF pathIdentity_def]
  fun_cong [OF exactPathIdentity_def] journal_steps.simps [THEN fun_cong] fun_cong [OF beginRestoreJournal_def]
  resume_components.simps [THEN fun_cong] fun_cong [OF resumeBackupRuntime_def] fun_cong [OF stop_component_def]
  stop_components.simps [THEN fun_cong] fun_cong [OF quiesceRecordedBackupRuntime_def]
  snapshot_components.simps [THEN fun_cong] fun_cong [OF snapshotBackupRuntime_def] stop_all.simps [THEN fun_cong]
  fun_cong [OF stopBackupRuntime_def] fun_cong [OF mark_step_def] fun_cong [OF mark_restore_def] undo_swaps.simps [THEN fun_cong]
  fun_cong [OF restore_rollback_def] fun_cong [OF rolled_back_exit_def] swap_storages.simps [THEN fun_cong]
  remove_replaced.simps [THEN fun_cong] fun_cong [OF finish_restore_def] remove_trees.simps [THEN fun_cong]
  fun_cong [OF restore_body_def] fun_cong [OF restoreStaged_def] check_paths.simps [THEN fun_cong]
  fun_cong [OF classifyRestorePaths_def] fun_cong [OF restoreRecoveryPlan_def] rollback_items.simps [THEN fun_cong]
  fun_cong [OF finishRestoreRollback_def] cleanup_items.simps [THEN fun_cong] fun_cong [OF commit_forward_def]
  fun_cong [OF finishRestoreForward_def] classify_items.simps [THEN fun_cong] fun_cong [OF complete_recovery_def]
  fun_cong [OF resolve_restore_def] fun_cong [OF recover_restore_def] recover_all.simps [THEN fun_cong]
  fun_cong [OF recoverInterruptedRestores_def] fun_cong [OF finishRestoreCleanupOnly_def] cleanup_all.simps [THEN fun_cong]
  fun_cong [OF cleanupCommittedRestores_def] fun_cong [OF handleRestore_def]

text \<open>Printable text without blanks at its ends passes through unchanged.\<close>

definition printable :: "char \<Rightarrow> bool" where
  "printable c = (CHR '' '' \<le> c \<and> c \<le> CHR ''~'')"

definition plain_text :: "string \<Rightarrow> bool" where
  "plain_text s = (list_all printable s \<and> (s = [] \<or> visible_ascii (hd s) \<and> visible_ascii (last s)))"

lemma utf8_runes_printable: "list_all printable s \<Longrightarrow> utf8_runes s = map (\<lambda>c. (of_char c, [c])) s"
proof (induction s)
  case (Cons c s)
  then have "decode_rune (c # s) = (of_char c, 1)" by (simp add: decode_rune_def byte_in_def printable_def less_eq_char_def)
  with Cons show ?case by simp
qed simp

lemma plain_trim:
  assumes "plain_text s"
  shows "trim_space s = s"
proof (cases "s = []")
  case False
  let ?rs = "map (\<lambda>c. (of_char c :: nat, [c])) s"
  have ns: "\<not> is_space (of_char c)" if "visible_ascii c" for c
    using that by (auto simp: visible_ascii_def less_eq_char_def is_space_def)
  have runes: "utf8_runes s = ?rs" using assms by (simp add: plain_text_def utf8_runes_printable)
  have "dropWhile (is_space \<circ> fst) ?rs = ?rs" "dropWhile (is_space \<circ> fst) (rev ?rs) = rev ?rs"
    using assms ns False by (auto simp: dropWhile_eq_self_iff hd_map hd_rev last_map plain_text_def)
  then have "trim_runes ?rs = ?rs" by (simp add: trim_runes_def)
  moreover have "concat (map snd ?rs) = s" by (induction s) simp_all
  ultimately show ?thesis by (simp add: trim_space_def runes)
qed (simp add: trim_space_def trim_runes_def)

lemma plain_sanitize:
  assumes "plain_text s"
  shows "sanitize s = take maxErrorBytes s"
proof -
  have p: "list_all printable s" using assms by (simp add: plain_text_def)
  have "concat (map (\<lambda>(r, chunk). if is_control r \<and> r \<noteq> 9 then [] else if r = rune_error \<and> length chunk = 1 then replacement_bytes else chunk)
      (map (\<lambda>c. (of_char c :: nat, [c])) s)) = s"
    using p by (induction s) (auto simp: printable_def less_eq_char_def is_control_def rune_error_def)
  then show ?thesis by (simp add: sanitize_def plain_trim [OF assms] utf8_runes_printable [OF p])
qed

lemma boundedRestoreError_code [code]:
  "boundedRestoreError detail = (if plain_text detail then take 512 detail else take 512 (trim_space detail))"
  by (simp add: boundedRestoreError_def plain_trim)

lemma sanitize_code [code]:
  "sanitize v = (if plain_text v then take maxErrorBytes v else take maxErrorBytes (concat (map (\<lambda>(r, chunk).
      if is_control r \<and> r \<noteq> 9 then []
      else if r = rune_error \<and> length chunk = 1 then replacement_bytes
      else chunk) (utf8_runes (trim_space v)))))"
  by (simp add: plain_sanitize) (simp add: sanitize_def)

section \<open>A restore at work\<close>

definition demo_app :: Manifest where
  "demo_app = (demo_manifest [])\<lparr>ma_Storage := [\<lparr>sg_ID = ''data'', sg_ContainerPath = ''/data'', sg_Persistent = True, sg_ReadOnly = False,
       sg_SystemConfig = False, sg_OwnerUID = 0, sg_OwnerGID = 0\<rparr>],
     ma_Backup := Some \<lparr>bp_Strategy = ''cold-filesystem'', bp_Storage = [\<lparr>bs_Component = ''app'', bs_ID = ''data'', bs_Disposition = ''include''\<rparr>]\<rparr>\<rparr>"

definition demo_catalog :: "Manifest go_map result" where
  "demo_catalog = Inr [(''demo'', demo_app)]"

definition demo_values :: "char \<Rightarrow> secretValues" where
  "demo_values h = \<lparr>sv_Version = 1, sv_Values = [\<lparr>sv_Component = ''app'', sv_Name = ''ADMIN_PASSWORD'', sv_Value = replicate 64 h\<rparr>]\<rparr>"

definition demo_path :: string where
  "demo_path = ''/srv/kitpro/apps/demo/inst-a/data''"

definition demo_backup_plan :: applicationBackupPlan where
  "demo_backup_plan = \<lparr>ap_Application = demo_app, ap_ReleaseID = ''1.0'', ap_Generation = 1,
     ap_Components = [owned_component ''app'' (''ghcr.io/demo/app@sha256:'' @ replicate 64 CHR ''0'') [] ''c1''],
     ap_Storage = [\<lparr>mb_Manifest = \<lparr>bst_Component = ''app'', bst_ID = ''data'', bst_Disposition = ''include'',
        bst_ArchivePath = ''application/app/data'', bst_OwnerUID = 0, bst_OwnerGID = 0\<rparr>, mb_HostPath = demo_path\<rparr>],
     ap_Imported = [], ap_Secrets = demo_values CHR ''0'', ap_StartOrder = [''app'']\<rparr>"

definition demo_restore_request :: Request where
  "demo_restore_request = (demo_request CHR ''1'' ''RestoreApplicationBackup'')\<lparr>rq_ApplicationID := ''demo'', rq_ReleaseID := ''1.0'',
     rq_BackupID := demo_id CHR ''9''\<rparr>"

definition demo_job :: restore_job where
  "demo_job = \<lparr>rj_now = ''t1'', rj_request = demo_restore_request, rj_token = 1, rj_plan = demo_backup_plan,
     rj_secrets = demo_values CHR ''1'', rj_newPaths = staged_paths demo_restore_request demo_backup_plan,
     rj_rollbackPaths = rollback_paths demo_restore_request demo_backup_plan\<rparr>"

definition demo_old :: "string \<Rightarrow> managed_tree" where
  "demo_old _ = \<lparr>mt_id = \<lparr>pi_Device = 1, pi_Inode = 10\<rparr>, mt_dir = True, mt_files = [''old.db'', ''old.log'']\<rparr>"

definition demo_new :: "string \<Rightarrow> managed_tree" where
  "demo_new _ = \<lparr>mt_id = \<lparr>pi_Device = 1, pi_Inode = 20\<rparr>, mt_dir = True, mt_files = [''new.db'']\<rparr>"

definition demo_operation :: "op_state \<Rightarrow> op_row" where
  "demo_operation s = (new_operation ''t0'' demo_restore_request 1000 ''inst-a'' ''h'' ''c'')\<lparr>o_fencing_token := Some 1, o_state := s\<rparr>"

definition demo_helper :: "op_state \<Rightarrow> lease_state \<Rightarrow> helper_db" where
  "demo_helper s ls = empty_db\<lparr>operations := [demo_operation s],
     leases := [\<lparr>l_installation_id = ''inst-a'', l_operation_id = demo_id CHR ''1'', l_fencing_token = 1, l_state = ls,
       l_acquired_at = ''t0'', l_updated_at = ''t0'', l_recovery_required = (ls = RecoveryRequired)\<rparr>],
     ownership := [\<lparr>w_instance_id = ''inst-a'', w_container_id = ''c1'', w_container_name = ''kitpro-a'', w_network_name = ''n'',
       w_image_digest = ''ghcr.io/demo/app@sha256:'' @ replicate 64 CHR ''0'', w_data_path = demo_path, w_created_at = ''t0'',
       w_runtime_generation = 1, w_application_id = ''demo'', w_release_id = ''1.0'', w_exposure_mode = ''none'', w_service_id = [],
       w_host_address = [], w_host_port = 0, w_container_port = 0, w_service_protocol = []\<rparr>]\<rparr>"

definition demo_tables :: restore_db where
  "demo_tables = \<lparr>rd_helper = demo_helper StateExecuting Held, rd_component_ownership = [],
     rd_secrets = map (secret_row_of ''t0'' ''inst-a'') (sv_Values (demo_values CHR ''0'')), rd_roots = [], rd_external = [],
     rd_backups = [\<lparr>ab_backup_id = demo_id CHR ''9'', ab_installation_id = ''inst-a'', ab_application_id = ''demo'', ab_release_id = ''1.0'',
       ab_runtime_generation = 1, ab_archive_path = ''/b'', ab_archive_sha256 = [], ab_created_at = ''t0''\<rparr>],
     rd_restores = [], rd_steps = []\<rparr>"

text \<open>The host keeps the names of the running containers.\<close>

definition demo_engine :: "string list BackupRuntime" where
  "demo_engine = \<lparr>br_Start = \<lambda>x _ _ w. (Inr (), x # w), br_Stop = \<lambda>x w. (Inr (), removeAll x w),
     br_Inspect = \<lambda>x w. (Inr (Some (x \<in> set w)), w)\<rparr>"

definition demo_disk :: disk where
  "demo_disk = [demo_path \<mapsto> demo_old [], demo_path @ ''.kitpro-restore-new-'' @ demo_id CHR ''1'' \<mapsto> demo_new []]"

definition demo_machine :: "'w \<Rightarrow> fault list \<Rightarrow> 'w machine" where
  "demo_machine w fs = \<lparr>mc_disk = demo_disk, mc_db = demo_tables, mc_host = w, mc_faults = fs\<rparr>"

lemma demo_plan_loads: "loadApplicationBackupPlan demo_catalog demo_disk demo_restore_request demo_tables = Inr demo_backup_plan"
  by code_simp

lemma demo_included: "included (rj_plan demo_job) \<noteq> []"
  by code_simp

lemma demo_staged: "staged_job demo_job demo_old demo_new"
  by code_simp

lemma demo_unjournaled: "no_journal (case_of demo_job demo_old demo_new) (mc_db (demo_machine w fs))"
  by (simp add: no_journal_def demo_machine_def demo_tables_def tbl_wf_def)

lemma demo_fresh: "on_items (case_of demo_job demo_old demo_new) (fresh_item (case_of demo_job demo_old demo_new)) (mc_disk (demo_machine w fs))"
proof -
  have "on_items (case_of demo_job demo_old demo_new) (fresh_item (case_of demo_job demo_old demo_new)) demo_disk" by code_simp
  then show ?thesis by (simp add: demo_machine_def)
qed

interpretation demo: journaled_restore demo_job demo_old demo_new
  by (rule journaled_restoreI [OF demo_staged demo_included])

interpretation demo_storage: restore_storage "case_of demo_job demo_old demo_new" "item_of demo_job demo_old demo_new (hd (included (rj_plan demo_job)))"
  by (rule demo.storage) (simp add: demo_included)

text \<open>The process dies in the rename that puts the restored tree in place, and starts again.\<close>

definition demo_crashed :: "'w BackupRuntime \<Rightarrow> 'w \<Rightarrow> 'w machine" where
  "demo_crashed rt w = snd (handleRestore rt demo_job (demo_machine w (replicate 14 Fine @ [Die 0])))"

definition demo_restarted :: "'w BackupRuntime \<Rightarrow> 'w \<Rightarrow> 'w \<Rightarrow> 'w machine" where
  "demo_restarted rt w w' = (demo_crashed rt w)\<lparr>mc_host := w', mc_faults := [],
     mc_db := (mc_db (demo_crashed rt w))\<lparr>rd_helper := demo_helper StateActionRequired RecoveryRequired\<rparr>\<rparr>"

abbreviation demo_stopped :: "string list machine" where
  "demo_stopped \<equiv> demo_restarted demo_engine [''c1''] []"

lemma demo_history: "restore_history rt demo_catalog demo_job (case_of demo_job demo_old demo_new) (demo_restarted rt w w')"
  unfolding demo_restarted_def demo_crashed_def
  by (rule restore_history.restarted, rule restore_history.requested [OF demo_unjournaled demo_fresh])

theorem restore_keeps_data_witness:
  "mc_disk demo_stopped demo_path = Some (demo_old []) \<or> mc_disk demo_stopped (demo_path @ ''.kitpro-restore-rollback-'' @ demo_id CHR ''1'') = Some (demo_old [])
    \<or> mc_disk demo_stopped demo_path = Some (demo_new [])"
proof -
  let ?s = "hd (included (rj_plan demo_job))"
  have s: "?s \<in> set (included (rj_plan demo_job))" using demo_included by simp
  have sel: "mb_HostPath ?s = demo_path" "rollback_path demo_job ?s = demo_path @ ''.kitpro-restore-rollback-'' @ demo_id CHR ''1''"
    by code_simp+
  have trees: "demo_old k = demo_old []" "demo_new k = demo_new []" for k by (simp_all add: demo_old_def demo_new_def)
  from restore_keeps_data [OF demo_staged demo_included demo_history] show ?thesis
  proof
    assume "\<forall>s \<in> set (included (rj_plan demo_job)). mc_disk demo_stopped (mb_HostPath s) = Some (demo_old (storage_key s))
      \<or> mc_disk demo_stopped (rollback_path demo_job s) = Some (demo_old (storage_key s))"
    from bspec [OF this s] show ?thesis unfolding sel trees(1) [of "storage_key ?s"] by blast
  next
    assume "\<forall>s \<in> set (included (rj_plan demo_job)). mc_disk demo_stopped (mb_HostPath s) = Some (demo_new (storage_key s))"
    from bspec [OF this s] show ?thesis unfolding sel trees(2) [of "storage_key ?s"] by blast
  qed
qed

lemma demo_success: "\<exists>r m'. handleRestore demo_engine demo_job (demo_machine [''c1''] []) = (Some r, m') \<and> rs_OK r"
proof -
  have "(case handleRestore demo_engine demo_job (demo_machine [''c1''] []) of (Some r, _) \<Rightarrow> rs_OK r | _ \<Rightarrow> False)" by code_simp
  then show ?thesis by (auto split: prod.splits option.splits)
qed


text \<open>The recovery of the interrupted exchange.\<close>

lemma demo_needed: "restoreOperationNeedsRecovery (job_op demo_job) (mc_db demo_stopped)"
  by code_simp

lemma demo_awaits: "awaits_recovery (rq_InstanceID (rj_request demo_job)) (job_op demo_job) (rd_helper (mc_db demo_stopped))"
proof -
  have "rd_helper (mc_db demo_stopped) = demo_helper StateActionRequired RecoveryRequired" by (simp add: demo_restarted_def)
  moreover have "rq_InstanceID (rj_request demo_job) = ''inst-a''" "job_op demo_job = demo_id CHR ''1''" by code_simp+
  ultimately show ?thesis
    by (simp add: awaits_recovery_def coord_inv_def demo_helper_def demo_operation_def new_operation_def tbl_wf_def tbl_get_def
        demo_restore_request_def lease_matches_def)
qed

lemma demo_rest:
  "let d = mc_db demo_stopped in (rd_component_ownership d, rd_secrets d, rd_roots d, rd_external d, rd_backups d)
     = (rd_component_ownership demo_tables, rd_secrets demo_tables, rd_roots demo_tables, rd_external demo_tables, rd_backups demo_tables)"
  by code_simp

definition demo_tables_now :: restore_db where
  "demo_tables_now = demo_tables\<lparr>rd_helper := demo_helper StateActionRequired RecoveryRequired\<rparr>"

lemma demo_plan_tables: "recovery_plan catalog jr disk (mc_db demo_stopped) = recovery_plan catalog jr disk demo_tables_now"
proof -
  have "mc_db demo_stopped = demo_tables_now\<lparr>rd_restores := rd_restores (mc_db demo_stopped), rd_steps := rd_steps (mc_db demo_stopped)\<rparr>"
    by (rule restore_db.equality) (use demo_rest in \<open>simp_all add: demo_tables_now_def demo_restarted_def Let_def\<close>)
  then show ?thesis by (metis recovery_plan_journal)
qed

lemma demo_storage_plan:
  assumes "disk demo_path = Some t"
  shows "backupStoragePlan demo_app (the (ma_Backup demo_app)) ''inst-a'' disk = backupStoragePlan demo_app (the (ma_Backup demo_app)) ''inst-a'' [demo_path \<mapsto> t]"
proof -
  let ?b = "\<lparr>bs_Component = ''app'', bs_ID = ''data'', bs_Disposition = ''include''\<rparr>"
  have path: "storage_host_path demo_app ''inst-a'' ?b = demo_path" by code_simp
  have one: "bp_Storage (the (ma_Backup demo_app)) = [?b]" by (simp add: demo_app_def)
  show ?thesis unfolding backupStoragePlan_def one Let_def map_result.simps backup_storage_entry_def path assms fun_upd_same
    by (rule refl)
qed

definition demo_recovery_request :: Request where
  "demo_recovery_request = recovery_request \<lparr>jr_OperationID = demo_id CHR ''1'', jr_InstallationID = ''inst-a'', jr_BackupID = demo_id CHR ''9'',
     jr_Phase = RSwapping, jr_FencingToken = 0, jr_Running = [], jr_OriginalSecrets = demo_values CHR ''0'', jr_RestoredSecrets = demo_values CHR ''0'',
     jr_Storage = []\<rparr> (hd (rd_backups demo_tables))"

lemma demo_load_plan:
  assumes "disk demo_path = Some t"
  shows "loadApplicationBackupPlan demo_catalog disk demo_recovery_request demo_tables_now
    = loadApplicationBackupPlan demo_catalog [demo_path \<mapsto> t] demo_recovery_request demo_tables_now"
proof -
  have "rq_InstanceID demo_recovery_request = ''inst-a''" "map_of [(''demo'', demo_app)] (rq_ApplicationID demo_recovery_request) = Some demo_app"
    "ma_Backup demo_app = Some (the (ma_Backup demo_app))"
    by (simp_all add: demo_recovery_request_def recovery_request_def demo_tables_def demo_app_def)
  note sel = this
  show ?thesis unfolding loadApplicationBackupPlan_def demo_catalog_def sum.case sel(1,2) option.case
    by (subst (1 2) sel(3)) (simp only: option.case demo_storage_plan [of disk t, OF assms])
qed

lemma demo_loads: "plan_loads demo_catalog (case_of demo_job demo_old demo_new) (mc_db demo_stopped)"
  unfolding plan_loads_def
proof (intro allI impI)
  fix jr :: restoreJournal and disk :: disk
  assume ids: "jr_OperationID jr = rc_op (case_of demo_job demo_old demo_new)" "jr_InstallationID jr = rc_inst (case_of demo_job demo_old demo_new)"
      "jr_BackupID jr = rc_backup (case_of demo_job demo_old demo_new)"
    and d: "all_original (case_of demo_job demo_old demo_new) disk \<or> all_final (case_of demo_job demo_old demo_new) disk"
  let ?s = "hd (included (rj_plan demo_job))"
  have s: "?s \<in> set (included (rj_plan demo_job))" using demo_included by simp
  have sel: "mb_HostPath ?s = demo_path" by code_simp
  have "disk demo_path = Some (demo_old []) \<or> disk demo_path = Some (demo_new [])"
    using d storage_trees(2,3) [OF demo_staged s, of disk] unfolding sel by (auto simp: demo_old_def demo_new_def)
  moreover have "rc_op (case_of demo_job demo_old demo_new) = demo_id CHR ''1''" "rc_inst (case_of demo_job demo_old demo_new) = ''inst-a''"
    "rc_backup (case_of demo_job demo_old demo_new) = demo_id CHR ''9''" by code_simp+
  note this [unfolded ids [symmetric]]
  then have "recovery_plan demo_catalog jr disk demo_tables_now = loadApplicationBackupPlan demo_catalog disk demo_recovery_request demo_tables_now" for disk
    by (simp add: recovery_plan_def demo_tables_now_def demo_tables_def sql_row_def demo_recovery_request_def recovery_request_def)
  moreover have "is_ok (loadApplicationBackupPlan demo_catalog [demo_path \<mapsto> demo_old []] demo_recovery_request demo_tables_now)"
    "is_ok (loadApplicationBackupPlan demo_catalog [demo_path \<mapsto> demo_new []] demo_recovery_request demo_tables_now)" by code_simp+
  ultimately show "is_ok (recovery_plan demo_catalog jr disk (mc_db demo_stopped))"
    unfolding demo_plan_tables using demo_load_plan [of disk] by auto
qed

theorem recovery_decides_witness:
  "\<exists>m'. recoverInterruptedRestores demo_engine demo_catalog ''t2'' demo_stopped = (Some (1, Inr ()), m')
     \<and> \<not> restoreOperationNeedsRecovery (job_op demo_job) (mc_db m')"
proof -
  have rt: "obedient demo_engine" by (simp add: obedient_def demo_engine_def)
  have vs: "secrets_distinct (ap_Secrets (rj_plan demo_job))" "secrets_distinct (rj_secrets demo_job)" by code_simp+
  have "rd_secrets (mc_db demo_stopped) = rd_secrets demo_tables" using demo_rest by (simp add: Let_def)
  moreover have "tbl_wf secret_key (rd_secrets demo_tables)" by code_simp
  ultimately have rows: "tbl_wf secret_key (rd_secrets (mc_db demo_stopped))" by (simp only:)
  have short: "length (json_encode (JObj [(''backup_id'', JStr (rq_BackupID (rj_request demo_job))), (''status'', JStr ''restored'')])) \<le> maxResultBytes"
    by (rule order_trans [OF json_encode_length])
      (simp add: maxResultBytes_def demo_job_def demo_restore_request_def demo_id_def)
  have quiet: "mc_faults demo_stopped = []" by (simp add: demo_restarted_def)
  from recovery_decides [OF demo_staged demo_included demo_history demo_needed demo_awaits quiet rt demo_loads vs rows short, of "''t2''"]
  obtain m' where "recoverInterruptedRestores demo_engine demo_catalog ''t2'' demo_stopped = (Some (1, Inr ()), m')"
    "\<not> restoreOperationNeedsRecovery (job_op demo_job) (mc_db m')" by (elim exE conjE)
  then show ?thesis by (intro exI conjI)
qed

text \<open>The container that the recovery starts again.\<close>

abbreviation demo_log :: "(string \<times> disk \<times> secret_row list) list" where
  "demo_log \<equiv> snd (mc_host (snd (recoverInterruptedRestores (observed demo_engine) demo_catalog ''t2''
     ((demo_restarted (observed demo_engine) ([''c1''], []) ([], []))\<lparr>mc_host := ([], [])\<rparr>))))"

lemma demo_log: "map fst demo_log = [''c1'']"
  by code_simp

theorem recovery_starts_whole_witness:
  "\<exists>d sec. (''c1'', d, sec) \<in> set demo_log \<and>
     (d demo_path = Some (demo_old []) \<and> holds_secrets ''inst-a'' (demo_values CHR ''0'') sec
      \<or> d demo_path = Some (demo_new []) \<and> holds_secrets ''inst-a'' (demo_values CHR ''1'') sec)"
proof -
  let ?s = "hd (included (rj_plan demo_job))"
  have s: "?s \<in> set (included (rj_plan demo_job))" using demo_included by simp
  have sel: "mb_HostPath ?s = demo_path" by code_simp
  have trees: "demo_old k = demo_old []" "demo_new k = demo_new []" for k by (simp_all add: demo_old_def demo_new_def)
  have j: "rq_InstanceID (rj_request demo_job) = ''inst-a''" "rj_secrets demo_job = demo_values CHR ''1''"
    "ap_Secrets (rj_plan demo_job) = demo_values CHR ''0''" by code_simp+
  obtain d sec where "demo_log = [(''c1'', d, sec)]" using demo_log by (auto simp: map_eq_Cons_conv)
  then have start: "(''c1'', d, sec) \<in> set demo_log" by (simp only: list.set insertI1)
  from recovery_starts_whole [OF demo_staged demo_included demo_history start, unfolded j]
  have "d demo_path = Some (demo_old []) \<and> holds_secrets ''inst-a'' (demo_values CHR ''0'') sec
      \<or> d demo_path = Some (demo_new []) \<and> holds_secrets ''inst-a'' (demo_values CHR ''1'') sec"
  proof (elim disjE conjE, goal_cases)
    case 1
    from bspec [OF 1(1) s] 1(2) show ?case unfolding sel trees(1) [of "storage_key ?s"] by blast
  next
    case 2
    from bspec [OF 2(1) s] 2(2) show ?case unfolding sel trees(2) [of "storage_key ?s"] by blast
  qed
  with start show ?thesis by (intro exI conjI)
qed

section \<open>Where the program falls short\<close>

text \<open>
  The rollback within the process ignores that it cannot move the original back: it starts the
  application without its data and closes the journal, so that no recovery looks at it again.
\<close>

lemma failed_rollback_forgotten:
  "case handleRestore demo_engine demo_job (demo_machine [''c1''] (replicate 14 Fine @ [Fail ErrNoRows 0, Fail ErrNoRows 0])) of
     (Some r, m) \<Rightarrow> \<not> rs_OK r \<and> rs_ErrorCode r \<noteq> ''RecoveryRequired'' \<and> \<not> restoreOperationNeedsRecovery (job_op demo_job) (mc_db m)
       \<and> mc_disk m demo_path = None \<and> ''c1'' \<in> set (mc_host m)
   | _ \<Rightarrow> False"
  by code_simp

text \<open>
  A restore reported as successful whose journal stays committed because the note that its cleanup is
  deferred failed: the next start finds no lease and blocks the installation for every other operation.
\<close>

lemma restored_but_blocked:
  "case handleRestore demo_engine demo_job (demo_machine [''c1''] (replicate 22 Fine @ [Fail ErrNoRows 1, Fine, Fail ErrNoRows 0])) of
     (Some r, m) \<Rightarrow> rs_OK r
       \<and> restoreBlocksInstallation ''inst-a'' (demo_id CHR ''2'') (mc_db (snd (recoverInterruptedRestores demo_engine demo_catalog ''t2''
            (m\<lparr>mc_db := (mc_db m)\<lparr>rd_helper := demo_helper StateSucceeded Released\<rparr>\<rparr>))))
   | _ \<Rightarrow> False"
  by code_simp

text \<open>A committed restore of an application without included storages is undone by its recovery.\<close>

definition demo_empty_job :: restore_job where
  "demo_empty_job = demo_job\<lparr>rj_plan := demo_backup_plan\<lparr>ap_Storage := []\<rparr>, rj_newPaths := [], rj_rollbackPaths := []\<rparr>"

lemma committed_restore_undone:
  "case handleRestore demo_engine demo_empty_job (demo_machine [''c1''] (replicate 11 Fine @ [Die 0])) of (_, m) \<Rightarrow>
     map ro_phase (rd_restores (mc_db m)) = [RCommitted]
     \<and> map ro_phase (rd_restores (mc_db (snd (recoverInterruptedRestores demo_engine demo_catalog ''t2''
           (m\<lparr>mc_db := (mc_db m)\<lparr>rd_helper := demo_helper StateActionRequired RecoveryRequired\<rparr>\<rparr>))))) = [RRolledBack]"
  by code_simp

end
