(* ===== verification/Restore_Secrets.thy ===== *)
theory Restore_Secrets
  imports Restore_Resolve Manifest_Spec "HOL-Library.Multiset"
begin

text \<open>
  The generated secrets of a backup: what passes the checks of a restore can be written to the
  table, and the next backup reads the same secrets from it.
\<close>

definition value_key :: "secretValue \<Rightarrow> string" where
  "value_key v = storageKey (sv_Component v) (sv_Name v)"

definition sound_value :: "secretValue \<Rightarrow> bool" where
  "sound_value v \<longleftrightarrow> length (sv_Value v) = 64 \<and> hex_decodes (sv_Value v)"

lemma check_secrets_Inr:
  assumes "check_secrets expected vs seen = Inr seen'"
  shows "seen' = rev (map value_key vs) @ seen" and "set (map value_key vs) \<subseteq> set expected"
    and "distinct (map value_key vs)" and "set (map value_key vs) \<inter> set seen = {}" and "\<forall>v \<in> set vs. sound_value v"
  using assms
proof (atomize (full), induction vs arbitrary: seen)
  case (Cons v vs)
  then have ok: "value_key v \<in> set expected" "value_key v \<notin> set seen" "sound_value v"
    and rest: "check_secrets expected vs (value_key v # seen) = Inr seen'"
    by (auto simp: Let_def value_key_def sound_value_def split: if_splits)
  from Cons.IH [of "value_key v # seen"] rest ok show ?case by auto
qed simp

lemma expected_distinct: "distinct (expected_secrets application)"
  by (simp add: expected_secrets_def)

text \<open>The component of an expected key has a name.\<close>

lemma expected_component:
  assumes "\<forall>c \<in> set (ma_Components application). mk_ID c \<noteq> [] \<and> hd (mk_ID c) \<noteq> CHR ''/''"
    and "value_key v \<in> set (expected_secrets application)"
  shows "sv_Component v \<noteq> []"
proof
  assume "sv_Component v = []"
  then have slash: "hd (value_key v) = CHR ''/''" by (simp add: value_key_def storageKey_def)
  have "hd (storageKey ''app'' n) \<noteq> CHR ''/''" for n by (simp add: storageKey_def)
  moreover have "hd (storageKey (mk_ID c) n) \<noteq> CHR ''/''" if "c \<in> set (ma_Components application)" for c n
    using assms(1) that by (simp add: storageKey_def hd_append)
  ultimately show False using assms(2) slash by (auto simp: expected_secrets_def)
qed

definition value_of :: "secret_row \<Rightarrow> secretValue" where
  "value_of r = \<lparr>sv_Component = archive_component (sr_component_id r), sv_Name = sr_name r, sv_Value = sr_value r\<rparr>"

lemma value_of_row: "sv_Component v \<noteq> [] \<Longrightarrow> value_of (secret_row_of now inst v) = v"
  by (simp add: value_of_def secret_row_of_def archive_component_def)

lemma scan_secrets_ok:
  assumes "distinct (map (value_key \<circ> value_of) rows)" and "set (map (value_key \<circ> value_of) rows) \<subseteq> set expected"
    and "\<forall>r \<in> set rows. sound_value (value_of r)"
  shows "scan_secrets rows expected = Inr (map value_of rows, filter (\<lambda>k. k \<notin> set (map (value_key \<circ> value_of) rows)) expected)"
  using assms
proof (induction rows arbitrary: expected)
  case (Cons r rows)
  have "scan_secrets rows (filter (\<lambda>k. k \<noteq> value_key (value_of r)) expected)
      = Inr (map value_of rows, filter (\<lambda>k. k \<notin> set (map (value_key \<circ> value_of) rows)) (filter (\<lambda>k. k \<noteq> value_key (value_of r)) expected))"
    by (rule Cons.IH) (use Cons.prems in \<open>auto intro: rev_image_eqI\<close>)
  moreover have "filter (\<lambda>k. k \<notin> set (map (value_key \<circ> value_of) rows)) (filter (\<lambda>k. k \<noteq> value_key (value_of r)) expected)
      = filter (\<lambda>k. k \<notin> set (map (value_key \<circ> value_of) (r # rows))) expected"
    by (simp add: conj_commute)
  ultimately show ?case using Cons.prems
    by (simp add: Let_def value_key_def value_of_def sound_value_def)
qed simp

lemma distinct_values:
  assumes "distinct (map value_key vs)" and "\<forall>v \<in> set vs. sv_Component v \<noteq> []"
  shows "secrets_distinct \<lparr>sv_Version = n, sv_Values = vs\<rparr>"
proof -
  let ?col = "\<lambda>v. (if sv_Component v = ''app'' then [] else sv_Component v, sv_Name v)"
  have "map value_key vs = map ((\<lambda>(c, n). storageKey (archive_component c) n) \<circ> ?col) vs"
    using assms(2) by (auto simp: value_key_def archive_component_def)
  with assms(1) have "distinct (map (\<lambda>(c, n). storageKey (archive_component c) n) (map ?col vs))" by simp
  from this [unfolded distinct_map [of _ "map ?col vs"]] show ?thesis
    unfolding secrets_distinct_def secretValues.select_convs by (rule conjunct1)
qed

text \<open>
  C31. Secrets survive a restore. The secrets of a backup that pass its checks can always be written for
  the installation, the table then has exactly them for it and the rows of the other
  installations as before, and a backup taken next reads the same secrets.
\<close>

theorem restored_secrets_roundtrip:
  assumes read: "readRestoreSecrets (Some vs) application = Inr vs'"
    and ids: "\<forall>c \<in> set (ma_Components application). mk_ID c \<noteq> [] \<and> hd (mk_ID c) \<noteq> CHR ''/''"
    and rows: "tbl_wf secret_key (rd_secrets d)"
  shows "\<exists>d' backup. replaceSecrets now inst vs' d = Inr d' \<and> holds_secrets inst vs' (rd_secrets d')
    \<and> filter (\<lambda>r. sr_installation_id r \<noteq> inst) (rd_secrets d') = filter (\<lambda>r. sr_installation_id r \<noteq> inst) (rd_secrets d)
    \<and> loadBackupSecrets d' inst application = Inr backup \<and> mset (sv_Values backup) = mset (sv_Values vs')"
proof -
  let ?E = "expected_secrets application" and ?vs = "sv_Values vs'"
  from read have same: "vs' = vs" and "\<exists>seen. check_secrets ?E ?vs [] = Inr seen \<and> length seen = length ?E"
    by (auto simp: readRestoreSecrets_def result_iffs split: if_splits)
  then obtain seen where chk: "check_secrets ?E ?vs [] = Inr seen" and len: "length seen = length ?E" by blast
  note c = check_secrets_Inr [OF chk]
  have all: "set (map value_key ?vs) = set ?E"
  proof (rule card_subset_eq [OF _ c(2)])
    show "card (set (map value_key ?vs)) = card (set ?E)"
      using c(1,3) len expected_distinct [of application] by (metis append_Nil2 distinct_card length_rev)
  qed simp
  have named: "\<forall>v \<in> set ?vs. sv_Component v \<noteq> []" using expected_component [OF ids] c(2) by auto
  have "secrets_distinct vs'" using distinct_values [OF c(3) named, of "sv_Version vs'"] by (simp add: secrets_distinct_def)
  note put = replaceSecrets_live [OF this rows, of now inst]
  let ?R = "map (secret_row_of now inst) ?vs"
  let ?d = "d\<lparr>rd_secrets := filter (\<lambda>r. sr_installation_id r \<noteq> inst) (rd_secrets d) @ ?R\<rparr>"
  have mine: "filter (\<lambda>r. sr_installation_id r = inst) (rd_secrets ?d) = ?R" "filter (\<lambda>r. sr_installation_id r \<noteq> inst) (rd_secrets ?d)
      = filter (\<lambda>r. sr_installation_id r \<noteq> inst) (rd_secrets d)"
    by (simp_all add: filter_map comp_def secret_row_of_def)
  define S where "S = secrets_of inst (rd_secrets ?d)"
  have S: "mset S = mset ?R" unfolding S_def secrets_of_def mine(1) by simp
  have vals: "mset (map value_of S) = mset ?vs"
  proof -
    have "mset (map value_of S) = mset (map value_of ?R)" using S by (metis mset_map)
    also have "map value_of ?R = ?vs" using named by (simp add: map_idI value_of_row)
    finally show ?thesis .
  qed
  then have keys: "mset (map (value_key \<circ> value_of) S) = mset (map value_key ?vs)" by (metis map_map mset_map)
  have kset: "set (map (value_key \<circ> value_of) S) = set ?E" using all keys by (metis mset_eq_setD)
  have "\<forall>r \<in> set S. sound_value (value_of r)"
    using c(5) mset_eq_setD [OF vals] by (metis image_eqI list.set_map)
  moreover have "distinct (map (value_key \<circ> value_of) S)" using c(3) keys by (metis mset_eq_imp_distinct_iff)
  ultimately have "scan_secrets S ?E = Inr (map value_of S, filter (\<lambda>k. k \<notin> set (map (value_key \<circ> value_of) S)) ?E)"
    using kset by (intro scan_secrets_ok) simp_all
  moreover have "filter (\<lambda>k. k \<notin> set (map (value_key \<circ> value_of) S)) ?E = []" unfolding kset by (simp add: filter_empty_conv)
  ultimately have "loadBackupSecrets ?d inst application = Inr \<lparr>sv_Version = 1, sv_Values = map value_of S\<rparr>"
    unfolding loadBackupSecrets_def S_def [symmetric] by simp
  with put vals mine(2) replaceSecrets_effect(2) [OF put] show ?thesis by fastforce
qed

theorem restored_secrets_roundtrip_witness:
  "let vs = \<lparr>sv_Version = 1, sv_Values = [\<lparr>sv_Component = ''app'', sv_Name = ''ADMIN_PASSWORD'', sv_Value = replicate 64 CHR ''a''\<rparr>]\<rparr> in
   \<exists>d' backup. replaceSecrets ''t'' ''i'' vs \<lparr>rd_helper = empty_db, rd_component_ownership = [], rd_secrets = [], rd_roots = [], rd_external = [],
       rd_backups = [], rd_restores = [], rd_steps = []\<rparr> = Inr d'
     \<and> loadBackupSecrets d' ''i'' demo_two = Inr backup \<and> mset (sv_Values backup) = mset (sv_Values vs)"
proof -
  let ?vs = "\<lparr>sv_Version = 1, sv_Values = [\<lparr>sv_Component = ''app'', sv_Name = ''ADMIN_PASSWORD'', sv_Value = replicate 64 CHR ''a''\<rparr>]\<rparr>"
  let ?d = "\<lparr>rd_helper = empty_db, rd_component_ownership = [], rd_secrets = [], rd_roots = [], rd_external = [],
       rd_backups = [], rd_restores = [], rd_steps = []\<rparr> :: restore_db"
  have read: "readRestoreSecrets (Some ?vs) demo_two = Inr ?vs" by code_simp
  have ids: "\<forall>c \<in> set (ma_Components demo_two). mk_ID c \<noteq> [] \<and> hd (mk_ID c) \<noteq> CHR ''/''" by code_simp
  have rows: "tbl_wf secret_key (rd_secrets ?d)" by (simp add: tbl_wf_def)
  from restored_secrets_roundtrip [OF read ids rows, of "''t''" "''i''"] show ?thesis unfolding Let_def by blast
qed

end
