(* ===== verification/Spec2Isabelle.thy ===== *)
theory Spec2Isabelle
  imports Gen_Spec Protocol_Spec Exposure_Spec Topology_Spec Docker_Pools_Spec Multi_Live Repair_Live Ingress_Live
    Restore_Live Restore_Secrets
begin

text \<open>
  Verification of the KITPro server (\<^verbatim>\<open>src/software/server\<close>).

  \<^bold>\<open>The program.\<close> KITPro runs applications in containers on a home server. An unprivileged
  API process sends framed JSON requests to a privileged helper. The helper accepts each
  mutation once (\<^verbatim>\<open>internal/helperops\<close>), under a lease of the installation with a fencing token;
  a lifecycle runner (\<^verbatim>\<open>internal/lifecycle\<close>) then replaces, starts, stops or removes the containers
  of the installation and records every step in the helper's SQLite database, from which the
  start-up recovery, the reconciliation and the repairs work. What is to run comes from an
  application manifest (\<^verbatim>\<open>internal/manifest\<close>) whose components are ordered by
  \<^verbatim>\<open>internal/multicontainer\<close>; its services are published through bindings
  (\<^verbatim>\<open>internal/exposure\<close>) and reached by name through nginx, whose configuration is rendered from
  the routes and switched generation by generation (\<^verbatim>\<open>internal/ingress\<close>,
  \<^verbatim>\<open>cmd/kitpro-helper/ingress.go\<close>). The storage and the generated secrets of an application are
  restored from a backup under a journal (\<^verbatim>\<open>cmd/kitpro-helper/application_backup.go\<close>,
  \<^verbatim>\<open>restore_journal.go\<close>), from which the helper finishes or undoes an interrupted restore when it
  starts. The Docker daemon must offer address pools that do not
  collide with the host (\<^verbatim>\<open>internal/docker/prerequisite.go\<close>).

  \<^bold>\<open>Conventions.\<close> A Go struct is a record whose fields carry a prefix of the type, an error a
  value of \<open>go_error\<close>, a fallible function returns \<open>'a result = go_error + 'a\<close>. A database table
  is the list of its rows, a transaction a function from database to database whose error
  leaves the database as it was; \<open>UPDATE\<close>, \<open>SELECT\<close> and key constraints are the functions
  \<open>sql_update\<close>, \<open>sql_row\<close>, \<open>sql_count\<close>, \<open>sql_insert\<close> of \<open>Kit_Prelude\<close>. A runner is a
  program over a pair of world and database: the world holds the container runtime, an
  arbitrary record of functions (\<open>LifecycleRuntime\<close>), and decides which database accesses
  fail. The outcome theorems quantify over all of them, so they hold for every behaviour of
  the runtime and every failure. Programs over the disk (\<open>Go_File\<close>, \<open>Restore_Run\<close>) take a schedule
  that decides for each call whether it fails, and for a restore also whether the process
  dies in it.

  \<^bold>\<open>Theories.\<close>
  \<^item> \<open>Kit_Prelude\<close>, \<open>Go_Text\<close>, \<open>Go_Codec\<close>, \<open>Go_Net\<close>: results, tables, and what the program
    uses of Go's \<open>strings\<close>, \<open>utf8\<close>, \<open>encoding/json\<close>, \<open>crypto/sha256\<close> and \<open>net\<close>.
  \<^item> \<open>Helper_Db\<close>: the tables of \<^verbatim>\<open>internal/state/state.go\<close> that the components share.
  \<^item> \<open>Protocol\<close>, \<open>Protocol_Spec\<close> (\<^verbatim>\<open>internal/protocol\<close>): requests, their canonical form and hash,
    frames, the duplicate-key check. Frames are read back; the check decides its question.
  \<^item> \<open>Coordinator\<close> (\<^verbatim>\<open>helperops/coordinator.go\<close>): \<open>Begin\<close>, \<open>AuthorizeMutation\<close>,
    \<open>RecordPhase\<close>, \<open>Complete\<close>, \<open>RecoverInterrupted\<close>. \<open>Coordinator_Inv\<close> has the invariant that
    ties operations to leases, \<open>Coordinator_Lock\<close> the step relation and its refinement of an
    abstract lock with tokens (locale \<open>fenced_lock\<close>, interpreted on the abstract lock and on
    the coordinator), \<open>Coordinator_Spec\<close> the properties: mutual exclusion, stale tokens stay
    stale, acceptance once, busy installations refuse, restart recovers everything.
  \<^item> \<open>Exposure\<close>, \<open>Exposure_Spec\<close> (\<^verbatim>\<open>internal/exposure\<close>): binding validation, conflicts against the
    set of sockets a binding occupies, port allocation, comparison with what a runtime reports.
  \<^item> \<open>Containers\<close>, \<open>Observation\<close> (\<^verbatim>\<open>internal/containers\<close>, comparison functions of
    \<^verbatim>\<open>lifecycle/runner.go\<close>): the runtime interface and what makes a container the planned one.
  \<^item> \<open>Gen_Fence\<close>, \<open>Gen_Store\<close>, \<open>Gen_Multi_Store\<close> (\<^verbatim>\<open>lifecycle/store.go\<close>, \<^verbatim>\<open>multi_store.go\<close>, the
    transactions of \<^verbatim>\<open>reconciliation.go\<close> and \<^verbatim>\<open>repair.go\<close>): the generations of an installation.
    \<open>Gen_Store_Inv\<close> and \<open>Gen_Lifecycle\<close> show that every transaction keeps keys, the unique
    active generation and foreign keys, moves statuses along a fixed graph and leaves other
    installations alone; \<open>Gen_Commit\<close> that the commit is one simultaneous switch; \<open>Kit_System\<close>
    composes the store with the coordinator; \<open>Gen_Spec\<close> has the properties.
  \<^item> \<open>Lifecycle_Run\<close>: programs, weakest preconditions and the rules \<open>keeps\<close> and \<open>triple\<close> with
    which the runners are verified stage by stage. \<open>Run_Inv\<close>, \<open>Multi_Inv\<close>: what their
    transactions keep, and the contract of the evidence log (locale \<open>evidence_log\<close>, interpreted
    on the coordinator's \<open>RecordPhase\<close>).
  \<^item> \<open>Runner\<close>, \<open>Runner_Spec\<close>, \<open>Runner_Live\<close> (\<^verbatim>\<open>lifecycle/runner.go\<close>): the staged replacement of one
    component; its outcomes, and that a first installation completes on a runtime that obeys.
  \<^item> \<open>Multi_Runner\<close>, \<open>Multi_Replace\<close>, \<open>Multi_Spec\<close> (\<^verbatim>\<open>lifecycle/multi_runner.go\<close>): the same for
    several components (locale \<open>component_runner\<close>). \<open>Operate\<close>, \<open>Operate_Spec\<close> (also
    \<^verbatim>\<open>single_runner.go\<close>): start, stop, restart and remove (locale \<open>single_runner\<close>, a sublocale of
    \<open>component_runner\<close>). \<open>Multi_Live\<close>: runs on concrete data.
  \<^item> \<open>Reconcile\<close>, \<open>Reconcile_Spec\<close> (\<^verbatim>\<open>lifecycle/reconciliation.go\<close>), \<open>Repair\<close>, \<open>Repair_Spec\<close>
    (\<^verbatim>\<open>repair.go\<close>, \<^verbatim>\<open>recovery.go\<close>): classification against the runtime, repairs and the recovery at
    start-up (locale \<open>repairer\<close>). \<open>Repair_Live\<close>: runs on concrete data.
  \<^item> \<open>Manifest\<close>, \<open>Manifest_Spec\<close> (\<^verbatim>\<open>internal/manifest\<close>): validation and resolution of manifests;
    \<open>Topology\<close>, \<open>Topology_Spec\<close> (\<^verbatim>\<open>internal/multicontainer\<close>): the start order, when it exists and
    that it does not depend on the order of declarations.
  \<^item> \<open>Docker_Pools\<close>, \<open>Docker_Pools_Spec\<close> (\<^verbatim>\<open>internal/docker/prerequisite.go\<close>): the exact count of
    occupied subnets on 64-bit counters and the condition under which the host is ready.

  \<^item> \<open>Go_File\<close>: what the program uses of \<open>os\<close> and \<open>path/filepath\<close>, over an explicit tree of
    directories, files and symbolic links; a schedule decides which calls fail.
  \<^item> \<open>Ingress\<close>, \<open>Ingress_Spec\<close> (\<^verbatim>\<open>ingress/model.go\<close>, \<^verbatim>\<open>render.go\<close>, \<^verbatim>\<open>store.go\<close>): routes, the rendered
    nginx configuration and the tables of the control database. Accepted hostnames are in
    normal form, the rendering does not depend on the order of the routes and no field of a route
    can change its structure; \<open>Ingress_Store_Spec\<close>: the store keeps its rows well typed.
  \<^item> \<open>Ingress_Run\<close>, \<open>Ingress_Run_Spec\<close> (\<^verbatim>\<open>ingress/transaction.go\<close>, \<^verbatim>\<open>runtime.go\<close>, \<^verbatim>\<open>validator.go\<close>,
    \<^verbatim>\<open>reload.go\<close>): the staged application of a generation, for every runtime (locale
    \<open>ingress_runtime\<close>, with sublocale \<open>quiet_nginx\<close>) and for the nginx runtime over the file
    tree. \<open>Ingress_Apply\<close>, \<open>Ingress_Apply_Spec\<close> (\<^verbatim>\<open>cmd/kitpro-helper/ingress.go\<close>): the helper's
    operation; its tables and the link nginx serves from agree. \<open>Ingress_Live\<close>: concrete runs.
  \<^item> \<open>Restore_Plan\<close>, \<open>Restore_Run\<close> (\<^verbatim>\<open>application_backup.go\<close>, \<^verbatim>\<open>restore_journal.go\<close>): the plan of a
    restore, the checks of a backup against it, the journal, the exchange of the trees with its
    rollback, the recovery at start-up and the removal of the replaced trees, on a machine
    whose calls fail and whose process dies at any call.
  \<^item> \<open>Restore_Logic\<close>, \<open>Restore_Case\<close>, \<open>Restore_State\<close>: weakest preconditions with a second
    postcondition for a dead process, the configurations of the disk and of the journal, the
    rule of every call (locales \<open>restore_storage\<close>, \<open>watched_runtime\<close>). \<open>Restore_Swap\<close> verifies the
    exchange (locale \<open>staged_restore\<close>), \<open>Restore_Recover\<close> the recovery (locale
    \<open>restore_recovery\<close>); in \<open>Restore_Spec\<close> the restore gives what the recovery relies on (locale
    \<open>journaled_restore\<close>, a sublocale of \<open>restore_recovery\<close>), for every history of requests,
    crashes, recoveries and removals. \<open>Restore_Resolve\<close>: a recovery that nothing interrupts
    decides the restore.
  \<^item> \<open>Restore_Live\<close>: the properties of a restore (the data survive, the recovery decides, the
    application starts only on trees and secrets that belong together, the answer is true)
    and concrete runs, three of which show a flaw. \<open>Restore_Secrets\<close>: the secrets of a backup
    that passes the checks are read back from the table by the next one.

  \<^bold>\<open>Termination and bounds.\<close> Every loop of the source is a total function: over a list, or with a
  termination proof (the topology search by the unvisited components, the JSON check by the
  remaining tokens). No fuel is used. Counters of the pool policy and the frame length are
  words of their width; generations, tokens and ordinals are integers, far below the 64-bit
  bound of an SQLite column.

  \<^bold>\<open>This theory\<close> has the property that spans protocol and coordinator: a retried request is
  answered from the record of the first one.

  \<^bold>\<open>Not modelled.\<close> Decoding of JSON text (Go's \<open>encoding/json\<close>); the clients of Docker and
  podman behind the runtime interface; contexts and timeouts (a call that times out is one that
  fails); the API server, authentication, certificates, the Cloudflare tunnel and the
  archives of backups (their creation, their extraction and the copies that stage the restored
  trees), which are files, sockets or remote services; the test hook \<^verbatim>\<open>restoreFaultHook\<close>, nil
  outside tests; migrations of old databases.
\<close>

lemma Begin_records_hash:
  assumes inv: "coord_inv db" and b: "Begin now r uid i db = (BeginDecision d, db')" and ex: "d_Execute d"
  obtains x where "op_get db' (rq_OperationID r) = Some x" and "Hash r = Inr (o_request_hash x)"
    and "well_formed_request r i"
proof -
  have none: "op_get db (rq_OperationID r) = None"
    using inv b by (cases rule: Begin_cases) (use ex in \<open>auto simp: acquires_def\<close>)
  have wfr: "well_formed_request r i"
    using b ex by (auto simp: Begin_def well_formed_request_def split: if_splits sum.splits)
  from wfr obtain c h where h: "Hash r = Inr h" and bf: "Begin now r uid i db = begin_fresh now r uid i h c db"
    using none by (metis Begin_well_formed option.case(1))
  let ?n = "new_operation now r uid i h c"
  show ?thesis
  proof (cases "acquire_lease now r i (db\<lparr>operations := operations db @ [?n]\<rparr>)")
    case (Acquired t db2)
    have "\<exists>x. op_get db2 (rq_OperationID r) = Some x \<and> o_request_hash x = h"
      using Acquired none
      by (auto simp: acquire_lease_def take_over_def Let_def op_get_insert new_operation_def op_row_of_def sql_row_key
          tbl_get_update split: sum.splits if_splits)
    with bf b ex Acquired that h wfr show ?thesis
      by (auto simp: begin_fresh_def begin_commit_def tbl_get_update_key split: if_splits)
  qed (use bf b ex in \<open>auto simp: begin_fresh_def respond_def\<close>)
qed

text \<open>
  C10. Retries replay. Once a request was accepted for execution, sending it again with the
  same operation ID, whatever request ID, deadline or secret values the retry carries, is
  answered from the recorded operation and changes nothing; a request with that ID whose
  hash differs is answered with an operation conflict and changes nothing.
\<close>

theorem retry_replays:
  assumes "coord_reach db" and "Begin now r uid i db = (BeginDecision d, db1)" and "d_Execute d"
    and "coord_step\<^sup>*\<^sup>* db1 db2"
    and "well_formed_request r' i'" and "rq_OperationID r' = rq_OperationID r"
  shows "\<exists>x. op_get db2 (rq_OperationID r) = Some x \<and>
    (if Hash r' = Hash r
     then Begin now' r' uid' i' db2 = (BeginDecision (respond (responseFor x (rq_ID r'))), db2)
     else \<exists>resp. Begin now' r' uid' i' db2 = (BeginDecision (respond resp), db2) \<and> rs_ErrorCode resp = ''OperationConflict'')
    \<and> (same_semantics r r' \<longrightarrow> Hash r' = Hash r)"
proof -
  have inv: "coord_inv db" using assms(1) by (rule coord_reach_inv)
  from Begin_records_hash [OF inv assms(2,3)] obtain x where
    x: "op_get db1 (rq_OperationID r) = Some x" "Hash r = Inr (o_request_hash x)" .
  have "coord_inv db1" using coord_step_inv [OF inv coord_step.accept [OF assms(2)]] .
  with coord_steps_keep_op [OF assms(4) _ x(1)] obtain x' where
    x': "op_get db2 (rq_OperationID r) = Some x'" "op_ident x' = op_ident x" by blast
  obtain c h where
    h: "Hash r' = Inr h" and b: "Begin now' r' uid' i' db2 = (case op_get db2 (rq_OperationID r') of
        Some x \<Rightarrow> (replay x h r', db2) | None \<Rightarrow> begin_fresh now' r' uid' i' h c db2)"
    by (metis Begin_well_formed assms(5))
  have "same_semantics r r' \<Longrightarrow> Hash r' = Hash r"
    using Hash_cong same_semantics_canonical by blast
  with x x' h b assms(6) show ?thesis
    by (auto simp: replay_def op_ident_def)
qed

theorem retry_replays_witness:
  "\<exists>x. op_get demo_released (demo_id CHR ''1'') = Some x
    \<and> Begin ''t7'' ((demo_request CHR ''1'' ''InstallApplication'')\<lparr>rq_ID := ''req-2''\<rparr>) 5 ''inst-a'' demo_released =
        (BeginDecision (respond (responseFor x ''req-2'')), demo_released)"
proof -
  let ?r = "demo_request CHR ''1'' ''InstallApplication''"
  have c: "canonical_request (?r\<lparr>rq_ID := ''req-2''\<rparr>) = canonical_request ?r"
    by (simp add: canonical_request_def blank_secrets_def demo_request_def)
  then have w: "well_formed_request (?r\<lparr>rq_ID := ''req-2''\<rparr>) ''inst-a''"
    using demo_well_formed(1) Hash_cong [OF c] by (simp add: well_formed_request_def)
  have "coord_reach empty_db" by (simp add: coord_reach_def)
  moreover have "coord_step\<^sup>*\<^sup>* demo_begun demo_released"
    using demo_steps_executing(1) demo_steps_released(1) by auto
  ultimately show ?thesis
    using retry_replays [OF _ demo_begun(1) _ _ w] Hash_cong [OF c] by auto
qed

end
